(* ===== verification/Prelude.thy ===== *)
theory Prelude
  imports Main "HOL-Library.Word" "HOL-Library.State_Monad" "HOL-Library.Sublist"
begin

unbundle bit_operations_syntax

text \<open>
  Shared vocabulary of the development: the theorem collections, the reader/updater
  primitives of the state monad in which the C functions are written, the C string functions
  the firmware calls (\<^verbatim>\<open>strlen\<close>, \<^verbatim>\<open>strncpy\<close>, \<^verbatim>\<open>strstr\<close>,
  \<^verbatim>\<open>strchr\<close>, \<^verbatim>\<open>strtol\<close>, \<^verbatim>\<open>htons\<close>, decimal printing) with
  their laws, and the locale of inductive invariants of step relations.
\<close>

named_theorems run_simps \<open>evaluation rules for the monadic primitives\<close>
named_theorems frame_simps \<open>what an operation leaves unchanged\<close>

section \<open>The state monad of the model\<close>

abbreviation ret :: "'a \<Rightarrow> ('s, 'a) state" where
  "ret \<equiv> State_Monad.return"

definition gets :: "('s \<Rightarrow> 'a) \<Rightarrow> ('s, 'a) state" where
  "gets f = State (\<lambda>s. (f s, s))"

definition modify :: "('s \<Rightarrow> 's) \<Rightarrow> ('s, unit) state" where
  "modify f = State (\<lambda>s. ((), f s))"

definition when_do :: "bool \<Rightarrow> ('s, unit) state \<Rightarrow> ('s, unit) state" where
  "when_do b m = (if b then m else ret ())"

definition exec :: "('s, 'a) state \<Rightarrow> 's \<Rightarrow> 's" where
  "exec m s = snd (run_state m s)"

definition result :: "('s, 'a) state \<Rightarrow> 's \<Rightarrow> 'a" where
  "result m s = fst (run_state m s)"

lemma run_gets [simp, run_simps]: "run_state (gets f) s = (f s, s)"
  by (simp add: gets_def)

lemma run_modify [simp, run_simps]: "run_state (modify f) s = ((), f s)"
  by (simp add: modify_def)

lemma run_if [run_simps]: "run_state (if b then m else n) s = (if b then run_state m s else run_state n s)"
  by simp

lemma run_case_option [run_simps]:
  "run_state (case x of None \<Rightarrow> m | Some a \<Rightarrow> f a) s =
   (case x of None \<Rightarrow> run_state m s | Some a \<Rightarrow> run_state (f a) s)"
  by (cases x) simp_all

lemma run_when_do [run_simps]: "run_state (when_do b m) s = (if b then run_state m s else ((), s))"
  by (simp add: when_do_def)

lemma exec_bind [simp]: "exec (State_Monad.bind m f) s = exec (f (result m s)) (exec m s)"
  by (simp add: exec_def result_def split_beta)

lemma result_bind [simp]: "result (State_Monad.bind m f) s = result (f (result m s)) (exec m s)"
  by (simp add: exec_def result_def split_beta)

lemma exec_ret [simp]: "exec (ret a) s = s" and result_ret [simp]: "result (ret a) s = a"
  by (simp_all add: exec_def result_def)

lemma exec_gets [simp]: "exec (gets f) s = s" and result_gets [simp]: "result (gets f) s = f s"
  by (simp_all add: exec_def result_def)

lemma exec_modify [simp]: "exec (modify f) s = f s" and result_modify [simp]: "result (modify f) s = ()"
  by (simp_all add: exec_def result_def)

lemma exec_when_do [simp]: "exec (when_do b m) s = (if b then exec m s else s)"
  by (simp add: when_do_def)

lemma exec_if [simp]: "exec (if b then m else n) s = (if b then exec m s else exec n s)"
  and result_if [simp]: "result (if b then m else n) s = (if b then result m s else result n s)"
  by simp_all

lemma exec_case_option [simp]:
  "exec (case x of None \<Rightarrow> m | Some a \<Rightarrow> f a) s =
   (case x of None \<Rightarrow> exec m s | Some a \<Rightarrow> exec (f a) s)"
  and result_case_option [simp]:
  "result (case x of None \<Rightarrow> n | Some a \<Rightarrow> g a) s =
   (case x of None \<Rightarrow> result n s | Some a \<Rightarrow> result (g a) s)"
  by (cases x; simp)+

lemma run_state_split: "run_state m s = (result m s, exec m s)"
  by (simp add: exec_def result_def)

text \<open>A C \<^verbatim>\<open>for\<close> over a sequence of inputs, the body run for its effect.\<close>

fun for_each :: "'a list \<Rightarrow> ('a \<Rightarrow> ('s, 'b) state) \<Rightarrow> ('s, unit) state" where
  "for_each [] body = ret ()"
| "for_each (x # xs) body = do { _ \<leftarrow> body x; for_each xs body }"

lemma exec_for_each: "exec (for_each xs body) s = fold (\<lambda>x. exec (body x)) xs s"
  by (induction xs arbitrary: s) simp_all

section \<open>C strings\<close>

abbreviation NUL :: char where "NUL \<equiv> CHR 0x00"

definition c_str :: "char list \<Rightarrow> string" where
  "c_str xs = takeWhile (\<lambda>c. c \<noteq> NUL) xs"

definition strncpy_bytes :: "nat \<Rightarrow> char list \<Rightarrow> char list" where
  "strncpy_bytes n src = (let s = c_str (take n src) in s @ replicate (n - length s) NUL)"

fun strstr :: "string \<Rightarrow> string \<Rightarrow> nat option" where
  "strstr [] pat = (if pat = [] then Some 0 else None)"
| "strstr (x # xs) pat =
     (if prefix pat (x # xs) then Some 0 else map_option Suc (strstr xs pat))"

fun strchr :: "string \<Rightarrow> char \<Rightarrow> nat option" where
  "strchr [] c = None"
| "strchr (x # xs) c = (if x = c then Some 0 else map_option Suc (strchr xs c))"

lemma c_str_append_NUL [simp]: "NUL \<notin> set s \<Longrightarrow> c_str (s @ NUL # r) = s"
  by (induction s) (auto simp: c_str_def)

lemma c_str_no_NUL [simp]: "NUL \<notin> set s \<Longrightarrow> c_str s = s"
  by (induction s) (auto simp: c_str_def)

lemma c_str_NUL_free [simp]: "NUL \<notin> set (c_str xs)"
  by (auto simp: c_str_def dest: set_takeWhileD)

lemma c_str_replicate [simp]: "c_str (replicate n NUL) = []"
  by (cases n) (simp_all add: c_str_def)

lemma c_str_pad [simp]: "NUL \<notin> set s \<Longrightarrow> c_str (s @ replicate n NUL) = s"
  by (cases n) simp_all

lemma length_c_str: "length (c_str xs) \<le> length xs"
  by (simp add: c_str_def length_takeWhile_le)

lemma length_strncpy_bytes [simp]: "length (strncpy_bytes n src) = n"
proof -
  have "length (c_str (take n src)) \<le> n"
    using length_c_str [of "take n src"] by simp
  then show ?thesis by (simp add: strncpy_bytes_def Let_def)
qed

lemma strncpy_bytes_take: "n \<le> length src \<Longrightarrow> NUL \<notin> set (take n src) \<Longrightarrow> strncpy_bytes n src = take n src"
  by (simp add: strncpy_bytes_def)

lemma c_str_strncpy_bytes: "c_str (strncpy_bytes n src @ [NUL]) = c_str (take n src)"
  by (simp add: strncpy_bytes_def Let_def)
     (metis append_assoc c_str_NUL_free c_str_pad replicate_append_same replicate_Suc)

lemma strchr_SomeD:
  assumes "strchr s c = Some i"
  shows "i < length s \<and> s ! i = c \<and> c \<notin> set (take i s)"
  using assms
proof (induction s arbitrary: i)
  case Nil
  then show ?case by simp
next
  case (Cons x xs)
  show ?case
  proof (cases "x = c")
    case True
    with Cons.prems show ?thesis by simp
  next
    case False
    with Cons.prems obtain j where "strchr xs c = Some j" "i = Suc j" by auto
    with Cons.IH [of j] False show ?thesis by auto
  qed
qed

lemma strchr_None_iff: "strchr s c = None \<longleftrightarrow> c \<notin> set s"
  by (induction s) auto

lemma strchr_append [simp]: "c \<notin> set s \<Longrightarrow> strchr (s @ c # r) c = Some (length s)"
  by (induction s) auto

lemma strstr_SomeD:
  assumes "strstr hay pat = Some i"
  shows "i + length pat \<le> length hay \<and> prefix pat (drop i hay) \<and> (\<forall>j < i. \<not> prefix pat (drop j hay))"
  using assms
proof (induction hay arbitrary: i)
  case Nil
  then show ?case by (simp split: if_splits)
next
  case (Cons x xs)
  show ?case
  proof (cases "prefix pat (x # xs)")
    case True
    with Cons.prems show ?thesis by (auto dest: prefix_length_le)
  next
    case False
    with Cons.prems obtain j where "strstr xs pat = Some j" and i: "i = Suc j" by auto
    with Cons.IH [of j] have "j + length pat \<le> length xs" "prefix pat (drop j xs)"
      and least: "\<forall>k < j. \<not> prefix pat (drop k xs)" by auto
    moreover have "\<not> prefix pat (drop k (x # xs))" if "k < Suc j" for k
      using that least False by (cases k) auto
    ultimately show ?thesis using i by auto
  qed
qed

lemma strstr_None_iff: "strstr hay pat = None \<longleftrightarrow> (\<forall>j \<le> length hay. \<not> prefix pat (drop j hay))"
proof (induction hay)
  case Nil
  then show ?case by simp
next
  case (Cons x xs)
  have "(\<forall>j \<le> length (x # xs). \<not> prefix pat (drop j (x # xs))) \<longleftrightarrow>
        \<not> prefix pat (x # xs) \<and> (\<forall>j \<le> length xs. \<not> prefix pat (drop j xs))"
    by (simp only: All_less_Suc2 length_Cons flip: less_Suc_eq_le) simp
  with Cons show ?case by simp
qed

lemma strstr_here: "prefix pat hay \<Longrightarrow> strstr hay pat = Some 0"
  by (cases hay) auto

lemma strstr_append:
  assumes "\<forall>j < length pre. \<not> prefix pat (drop j (pre @ pat @ post))"
  shows "strstr (pre @ pat @ post) pat = Some (length pre)"
  using assms
proof (induction pre)
  case Nil
  then show ?case by (simp add: strstr_here)
next
  case (Cons x pre)
  have "\<not> prefix pat (x # pre @ pat @ post)"
    using Cons.prems by (metis append_Cons drop0 length_Cons zero_less_Suc)
  moreover have "\<forall>j < length pre. \<not> prefix pat (drop j (pre @ pat @ post))"
    using Cons.prems by (metis Suc_less_eq append_Cons drop_Suc_Cons length_Cons)
  ultimately show ?case using Cons.IH by simp
qed


section \<open>Numbers as text\<close>

text \<open>\<^verbatim>\<open>%d\<close> of a non-negative number, and its inverse.\<close>

definition dec_digit :: "nat \<Rightarrow> char" where
  "dec_digit d = char_of (48 + d)"

fun dec :: "nat \<Rightarrow> string" where
  "dec n = (if n < 10 then [dec_digit n] else dec (n div 10) @ [dec_digit (n mod 10)])"

declare dec.simps [simp del]

definition undec :: "string \<Rightarrow> nat" where
  "undec s = foldl (\<lambda>a c. 10 * a + (of_char c - 48)) 0 s"

lemma of_char_dec_digit: "d < 10 \<Longrightarrow> (of_char (dec_digit d) :: nat) = 48 + d"
  by (simp add: dec_digit_def of_char_of)

lemma undec_dec [simp]: "undec (dec n) = n"
proof (induction n rule: dec.induct)
  case (1 n)
  show ?case
  proof (cases "n < 10")
    case True
    then show ?thesis by (simp add: dec.simps [of n] undec_def of_char_dec_digit)
  next
    case False
    then have "undec (dec n) = 10 * undec (dec (n div 10)) + n mod 10"
      by (simp add: dec.simps [of n] undec_def of_char_dec_digit)
    with 1 False show ?thesis by simp
  qed
qed

lemma dec_no_NUL [simp]: "NUL \<notin> set (dec n)"
proof (induction n rule: dec.induct)
  case (1 n)
  have "NUL \<noteq> dec_digit d" if "d < 10" for d
    using of_char_dec_digit [OF that] by (cases "dec_digit d = NUL") auto
  then show ?case using 1 by (subst dec.simps) simp
qed

text \<open>\<^verbatim>\<open>strtol (s, NULL, 16)\<close> on a 32-bit \<^verbatim>\<open>long\<close>: leading white space, an optional
  sign, an optional \<^verbatim>\<open>0x\<close> before a digit, then the longest run of hex digits; no digit
  at all gives 0.\<close>

definition c_isspace :: "char \<Rightarrow> bool" where
  "c_isspace c = (c = CHR '' '' \<or> (9 \<le> (of_char c :: nat) \<and> (of_char c :: nat) \<le> 13))"

definition hex_val :: "char \<Rightarrow> nat option" where
  "hex_val c = (let n = of_char c in
     if 48 \<le> n \<and> n \<le> 57 then Some (n - 48)
     else if 65 \<le> n \<and> n \<le> 70 then Some (n - 55)
     else if 97 \<le> n \<and> n \<le> 102 then Some (n - 87)
     else None)"

fun hex_run :: "string \<Rightarrow> nat \<Rightarrow> nat" where
  "hex_run [] a = a"
| "hex_run (c # cs) a = (case hex_val c of None \<Rightarrow> a | Some d \<Rightarrow> hex_run cs (16 * a + d))"

definition strtol16 :: "string \<Rightarrow> int" where
  "strtol16 s =
    (let s1 = dropWhile c_isspace s;
         neg = (take 1 s1 = ''-'');
         s2 = (if take 1 s1 = ''-'' \<or> take 1 s1 = ''+'' then drop 1 s1 else s1);
         s3 = (if (take 2 s2 = ''0x'' \<or> take 2 s2 = ''0X'') \<and> length s2 > 2 \<and> hex_val (s2 ! 2) \<noteq> None
               then drop 2 s2 else s2);
         v = int (hex_run s3 0)
     in if neg then max (- v) (- (2 ^ 31)) else min v (2 ^ 31 - 1))"

definition hex_digit :: "nat \<Rightarrow> char" where
  "hex_digit d = char_of (if d < 10 then 48 + d else 87 + d)"

definition hex_byte :: "8 word \<Rightarrow> string" where
  "hex_byte b = [hex_digit (unat b div 16), hex_digit (unat b mod 16)]"

lemma of_char_hex_digit: "d < 16 \<Longrightarrow> (of_char (hex_digit d) :: nat) = (if d < 10 then 48 + d else 87 + d)"
  by (simp add: hex_digit_def of_char_of)

lemma hex_val_hex_digit [simp]: "d < 16 \<Longrightarrow> hex_val (hex_digit d) = Some d"
  by (simp add: hex_val_def Let_def of_char_hex_digit)

lemma hex_digit_plain:
  assumes "d < 16"
  shows "\<not> c_isspace (hex_digit d)" "hex_digit d \<noteq> CHR ''-''" "hex_digit d \<noteq> CHR ''+''"
    "hex_digit d \<noteq> CHR ''x''" "hex_digit d \<noteq> CHR ''X''"
proof -
  have n: "(of_char (hex_digit d) :: nat) = (if d < 10 then 48 + d else 87 + d)"
    by (rule of_char_hex_digit [OF assms])
  have ne: "hex_digit d \<noteq> c" if "(of_char (hex_digit d) :: nat) \<noteq> of_char c" for c
    using that by auto
  show "\<not> c_isspace (hex_digit d)" using n assms by (auto simp: c_isspace_def split: if_splits)
  show "hex_digit d \<noteq> CHR ''-''" "hex_digit d \<noteq> CHR ''+''"
    "hex_digit d \<noteq> CHR ''x''" "hex_digit d \<noteq> CHR ''X''"
    by (rule ne; use n assms in \<open>auto split: if_splits\<close>)+
qed

lemma strtol16_hex_byte [simp]: "strtol16 (hex_byte b) = int (unat b)"
proof -
  have lt: "unat b < 256" using unsigned_less [of b, where ?'a = nat] by simp
  then have d: "unat b div 16 < 16" "unat b mod 16 < 16" by simp_all
  have "uint b < 256" using unsigned_less [of b, where ?'a = int] by simp
  then show ?thesis
    using lt by (simp add: min_def strtol16_def hex_byte_def Let_def hex_digit_plain [OF d(1)]
        hex_digit_plain [OF d(2)] d)
qed

text \<open>\<^verbatim>\<open>htons\<close> on the little-endian target: the two bytes change places.\<close>

definition htons :: "16 word \<Rightarrow> 16 word" where
  "htons w = (push_bit 8 w) OR (drop_bit 8 w)"

section \<open>Characters of C identifiers\<close>

text \<open>Upper case, and the replacement by an underscore of what an identifier cannot hold.\<close>

definition upper :: "char \<Rightarrow> char" where
  "upper c = (let n = of_char c :: nat in if 97 \<le> n \<and> n \<le> 122 then char_of (n - 32) else c)"

definition ident_char :: "char \<Rightarrow> char" where
  "ident_char c = (let n = of_char c :: nat in
     if 48 \<le> n \<and> n \<le> 57 \<or> 65 \<le> n \<and> n \<le> 90 \<or> 97 \<le> n \<and> n \<le> 122 \<or> n = 95 then c else CHR ''_'')"

lemma upper_values:
  "upper CHR ''a'' = CHR ''A''" "upper CHR ''b'' = CHR ''B''" "upper CHR ''c'' = CHR ''C''"
  "upper CHR ''d'' = CHR ''D''" "upper CHR ''e'' = CHR ''E''" "upper CHR ''f'' = CHR ''F''"
  "upper CHR ''g'' = CHR ''G''" "upper CHR ''h'' = CHR ''H''" "upper CHR ''i'' = CHR ''I''"
  "upper CHR ''j'' = CHR ''J''" "upper CHR ''k'' = CHR ''K''" "upper CHR ''l'' = CHR ''L''"
  "upper CHR ''m'' = CHR ''M''" "upper CHR ''n'' = CHR ''N''" "upper CHR ''o'' = CHR ''O''"
  "upper CHR ''p'' = CHR ''P''" "upper CHR ''q'' = CHR ''Q''" "upper CHR ''r'' = CHR ''R''"
  "upper CHR ''s'' = CHR ''S''" "upper CHR ''t'' = CHR ''T''" "upper CHR ''u'' = CHR ''U''"
  "upper CHR ''v'' = CHR ''V''" "upper CHR ''w'' = CHR ''W''" "upper CHR ''x'' = CHR ''X''"
  "upper CHR ''y'' = CHR ''Y''" "upper CHR ''z'' = CHR ''Z''" "upper CHR ''A'' = CHR ''A''"
  "upper CHR ''B'' = CHR ''B''" "upper CHR ''C'' = CHR ''C''" "upper CHR ''D'' = CHR ''D''"
  "upper CHR ''E'' = CHR ''E''" "upper CHR ''F'' = CHR ''F''" "upper CHR ''G'' = CHR ''G''"
  "upper CHR ''H'' = CHR ''H''" "upper CHR ''I'' = CHR ''I''" "upper CHR ''J'' = CHR ''J''"
  "upper CHR ''K'' = CHR ''K''" "upper CHR ''L'' = CHR ''L''" "upper CHR ''M'' = CHR ''M''"
  "upper CHR ''N'' = CHR ''N''" "upper CHR ''O'' = CHR ''O''" "upper CHR ''P'' = CHR ''P''"
  "upper CHR ''Q'' = CHR ''Q''" "upper CHR ''R'' = CHR ''R''" "upper CHR ''S'' = CHR ''S''"
  "upper CHR ''T'' = CHR ''T''" "upper CHR ''U'' = CHR ''U''" "upper CHR ''V'' = CHR ''V''"
  "upper CHR ''W'' = CHR ''W''" "upper CHR ''X'' = CHR ''X''" "upper CHR ''Y'' = CHR ''Y''"
  "upper CHR ''Z'' = CHR ''Z''" "upper CHR ''0'' = CHR ''0''" "upper CHR ''1'' = CHR ''1''"
  "upper CHR ''2'' = CHR ''2''" "upper CHR ''3'' = CHR ''3''" "upper CHR ''4'' = CHR ''4''"
  "upper CHR ''5'' = CHR ''5''" "upper CHR ''6'' = CHR ''6''" "upper CHR ''7'' = CHR ''7''"
  "upper CHR ''8'' = CHR ''8''" "upper CHR ''9'' = CHR ''9''" "upper CHR ''_'' = CHR ''_''"
  by (simp_all add: upper_def char_of_def bit_Suc_0_iff)

lemma ident_char_values:
  "ident_char CHR ''a'' = CHR ''a''" "ident_char CHR ''b'' = CHR ''b''" "ident_char CHR ''c'' = CHR ''c''"
  "ident_char CHR ''d'' = CHR ''d''" "ident_char CHR ''e'' = CHR ''e''" "ident_char CHR ''f'' = CHR ''f''"
  "ident_char CHR ''g'' = CHR ''g''" "ident_char CHR ''h'' = CHR ''h''" "ident_char CHR ''i'' = CHR ''i''"
  "ident_char CHR ''j'' = CHR ''j''" "ident_char CHR ''k'' = CHR ''k''" "ident_char CHR ''l'' = CHR ''l''"
  "ident_char CHR ''m'' = CHR ''m''" "ident_char CHR ''n'' = CHR ''n''" "ident_char CHR ''o'' = CHR ''o''"
  "ident_char CHR ''p'' = CHR ''p''" "ident_char CHR ''q'' = CHR ''q''" "ident_char CHR ''r'' = CHR ''r''"
  "ident_char CHR ''s'' = CHR ''s''" "ident_char CHR ''t'' = CHR ''t''" "ident_char CHR ''u'' = CHR ''u''"
  "ident_char CHR ''v'' = CHR ''v''" "ident_char CHR ''w'' = CHR ''w''" "ident_char CHR ''x'' = CHR ''x''"
  "ident_char CHR ''y'' = CHR ''y''" "ident_char CHR ''z'' = CHR ''z''" "ident_char CHR ''A'' = CHR ''A''"
  "ident_char CHR ''B'' = CHR ''B''" "ident_char CHR ''C'' = CHR ''C''" "ident_char CHR ''D'' = CHR ''D''"
  "ident_char CHR ''E'' = CHR ''E''" "ident_char CHR ''F'' = CHR ''F''" "ident_char CHR ''G'' = CHR ''G''"
  "ident_char CHR ''H'' = CHR ''H''" "ident_char CHR ''I'' = CHR ''I''" "ident_char CHR ''J'' = CHR ''J''"
  "ident_char CHR ''K'' = CHR ''K''" "ident_char CHR ''L'' = CHR ''L''" "ident_char CHR ''M'' = CHR ''M''"
  "ident_char CHR ''N'' = CHR ''N''" "ident_char CHR ''O'' = CHR ''O''" "ident_char CHR ''P'' = CHR ''P''"
  "ident_char CHR ''Q'' = CHR ''Q''" "ident_char CHR ''R'' = CHR ''R''" "ident_char CHR ''S'' = CHR ''S''"
  "ident_char CHR ''T'' = CHR ''T''" "ident_char CHR ''U'' = CHR ''U''" "ident_char CHR ''V'' = CHR ''V''"
  "ident_char CHR ''W'' = CHR ''W''" "ident_char CHR ''X'' = CHR ''X''" "ident_char CHR ''Y'' = CHR ''Y''"
  "ident_char CHR ''Z'' = CHR ''Z''" "ident_char CHR ''0'' = CHR ''0''" "ident_char CHR ''1'' = CHR ''1''"
  "ident_char CHR ''2'' = CHR ''2''" "ident_char CHR ''3'' = CHR ''3''" "ident_char CHR ''4'' = CHR ''4''"
  "ident_char CHR ''5'' = CHR ''5''" "ident_char CHR ''6'' = CHR ''6''" "ident_char CHR ''7'' = CHR ''7''"
  "ident_char CHR ''8'' = CHR ''8''" "ident_char CHR ''9'' = CHR ''9''" "ident_char CHR ''_'' = CHR ''_''"
  "ident_char CHR '','' = CHR ''_''" "ident_char CHR ''-'' = CHR ''_''" "ident_char CHR '' '' = CHR ''_''"
  "ident_char CHR ''+'' = CHR ''_''" "ident_char CHR ''.'' = CHR ''_''"
  by (simp_all add: ident_char_def)

section \<open>Step relations and inductive invariants\<close>

inductive reachable :: "('s \<Rightarrow> bool) \<Rightarrow> ('s \<Rightarrow> 's \<Rightarrow> bool) \<Rightarrow> 's \<Rightarrow> bool" for init step where
  reach_init: "init s \<Longrightarrow> reachable init step s"
| reach_step: "reachable init step s \<Longrightarrow> step s t \<Longrightarrow> reachable init step t"

text \<open>The contract between a step relation and an invariant of it: the invariant holds at every
  start and each step keeps it. A client that has it may use the invariant in every reachable
  state and along every run.\<close>

locale inductive_invariant =
  fixes init :: "'s \<Rightarrow> bool" and step :: "'s \<Rightarrow> 's \<Rightarrow> bool" and inv :: "'s \<Rightarrow> bool"
  assumes inv_init: "init s \<Longrightarrow> inv s"
    and inv_step: "inv s \<Longrightarrow> step s t \<Longrightarrow> inv t"
begin

lemma inv_reachable: "reachable init step s \<Longrightarrow> inv s"
  by (induction rule: reachable.induct) (auto intro: inv_init inv_step)

lemma inv_run: "step\<^sup>*\<^sup>* s t \<Longrightarrow> inv s \<Longrightarrow> inv t"
  by (induction rule: rtranclp_induct) (auto intro: inv_step)

end

end
