(* ===== verification/Firmware.thy ===== *)
theory Firmware
  imports Prelude
begin

text \<open>
  The ground the components stand on. Checked C buffers: an array with its declared capacity and
  the bytes actually in memory from its start; a write or a string read that leaves the array
  is carried out on the adjacent bytes and recorded as a violation, so a model never hides an
  overrun and never stops at one. The platform (Zephyr, its network stack, TLS, the HTTP client
  library, the Wi-Fi driver) is not part of the repository: it is the parameter \<open>env\<close> of every
  definition that calls it, a record of answers that may depend on everything that has happened
  so far (the trace). The record \<open>fw\<close> holds the globals of a firmware image and the trace.
\<close>

section \<open>Checked buffers\<close>

datatype obj = Body_buf | Token | Auth_buf | Recv_buf | Send_buf | Login_body

datatype violation = Oob_Write obj nat nat | Oob_Read obj nat

record cbuf =
  bname :: obj
  bcap :: nat
  bdata :: "char list"

definition new_buf :: "obj \<Rightarrow> nat \<Rightarrow> cbuf" where
  "new_buf nm n = \<lparr>bname = nm, bcap = n, bdata = replicate n NUL\<rparr>"

definition overrun :: "cbuf \<Rightarrow> nat \<Rightarrow> nat \<Rightarrow> violation list" where
  "overrun b off n = (if n = 0 \<or> off + n \<le> bcap b then [] else [Oob_Write (bname b) (bcap b) (off + n)])"

definition blit :: "cbuf \<Rightarrow> nat \<Rightarrow> char list \<Rightarrow> cbuf" where
  "blit b off xs =
     b\<lparr>bdata := take off (bdata b @ replicate (off - length (bdata b)) NUL) @ xs @ drop (off + length xs) (bdata b)\<rparr>"

definition cstr :: "cbuf \<Rightarrow> string" where
  "cstr b = c_str (bdata b)"

definition overread :: "cbuf \<Rightarrow> violation list" where
  "overread b = (if NUL \<in> set (take (bcap b) (bdata b)) then [] else [Oob_Read (bname b) (bcap b)])"

lemma blit_sel [simp]: "bname (blit b off xs) = bname b" "bcap (blit b off xs) = bcap b"
  by (simp_all add: blit_def)

lemma bdata_blit0 [simp]: "bdata (blit b 0 xs) = xs @ drop (length xs) (bdata b)"
  by (simp add: blit_def)

lemma length_blit [simp]: "length (bdata (blit b off xs)) = max (off + length xs) (length (bdata b))"
  by (simp add: blit_def)

lemma blit_append: "length xs = n \<Longrightarrow> blit (blit b off xs) (off + n) ys = blit b off (xs @ ys)"
  by (auto simp: blit_def min_def intro!: cbuf.equality) (simp_all add: ac_simps)

lemma blit0_append: "length xs = n \<Longrightarrow> blit (blit b 0 xs) n ys = blit b 0 (xs @ ys)"
  using blit_append [of xs n b 0 ys] by simp

lemma overrun_Nil_iff: "overrun b off n = [] \<longleftrightarrow> n = 0 \<or> off + n \<le> bcap b"
  by (simp add: overrun_def)

lemma overrun_fits [simp]: "off + n \<le> bcap b \<Longrightarrow> overrun b off n = []"
  by (simp add: overrun_def)

lemma overrun_zero [simp]: "overrun b off 0 = []"
  by (simp add: overrun_def)

lemma cstr_blit0 [simp]: "NUL \<notin> set s \<Longrightarrow> cstr (blit b 0 (s @ NUL # r)) = s"
  by (simp add: cstr_def)

lemma cstr_new_buf [simp]: "cstr (new_buf nm n) = []"
  by (simp add: cstr_def new_buf_def)

lemma new_buf_sel [simp]: "bname (new_buf nm n) = nm" "bcap (new_buf nm n) = n"
  "bdata (new_buf nm n) = replicate n NUL"
  by (simp_all add: new_buf_def)

lemma overread_terminated: "NUL \<in> set (take (bcap b) (bdata b)) \<Longrightarrow> overread b = []"
  by (simp add: overread_def)

section \<open>What crosses the platform interface\<close>

datatype mgmt_event =
    NET_EVENT_WIFI_CONNECT_RESULT
  | NET_EVENT_WIFI_DISCONNECT_RESULT
  | NET_EVENT_IPV4_DHCP_BOUND
  | NET_EVENT_OTHER "32 word"

datatype mgmt_request = NET_REQUEST_WIFI_IFACE_STATUS | NET_REQUEST_WIFI_CONNECT_STORED

datatype mgmt_handler = Wifi_Mgmt_Event_Handler | Net_Mgmt_Event_Handler

text \<open>The information a management event carries: \<^verbatim>\<open>cb->info\<close> read as a
  \<^verbatim>\<open>struct wifi_status\<close> or as a \<^verbatim>\<open>struct net_if_dhcpv4\<close>.\<close>

record mgmt_cb =
  cb_status :: int
  cb_requested_ip :: "32 word"

record wifi_iface_status =
  st_state :: int
  st_iface_mode :: int
  st_link_mode :: int
  st_ssid :: string
  st_bssid :: "8 word list"
  st_band :: int
  st_channel :: int
  st_security :: int
  st_mfp :: int
  st_rssi :: int

datatype status_field =
    SF_State int | SF_Iface_Mode int | SF_Link_Mode int | SF_Ssid string | SF_Bssid "8 word list"
  | SF_Band int | SF_Channel int | SF_Security int | SF_Mfp int | SF_Rssi int

datatype sa_family = AF_UNSPEC | AF_INET | AF_INET6

record sockaddr_in =
  sin_family :: sa_family
  sin_port :: "16 word"
  sin_addr :: "32 word"

datatype sockopt = TLS_PEER_VERIFY int | TLS_SEC_TAG_LIST "int list" | TLS_HOSTNAME string

datatype http_method = HTTP_GET | HTTP_POST

datatype response_handler = Response_Cb | Response_Patient_Cb

record http_request =
  req_method :: http_method
  req_url :: string
  req_host :: string
  req_header_fields :: "string list"
  req_payload :: string
  req_payload_len :: nat
  req_protocol :: string
  req_response :: response_handler
  req_recv_buf_len :: nat

record http_response =
  rsp_status :: string
  rsp_body_frag :: "char list"

datatype thread_id = Start_Http_Thread | Start_Wifi_Thread

datatype gpio_op = Gpio_Toggle | Gpio_Set int

text \<open>One entry per call that leaves the firmware (with the answer it got) and per event that
  enters it.\<close>

datatype io =
    Io_Sleep nat
  | Io_Sleep_Forever
  | Io_Status "status_field list"
  | Io_Log_Ip "32 word"
  | Io_Log_Link bool
  | Io_Net_Mgmt mgmt_request int
  | Io_Register_Ready int
  | Io_Sem_Take int
  | Io_Thread_Start thread_id
  | Io_Cred_Add int "char list" int
  | Io_Getaddrinfo string int sockaddr_in
  | Io_Freeaddrinfo
  | Io_Socket int
  | Io_Setsockopt int sockopt int
  | Io_Connect int sockaddr_in int
  | Io_Close int
  | Io_Http int http_request nat int
  | Io_Send int string int
  | Io_Recv int nat int
  | Io_Putc char
  | Io_Qspi_Key "8 word list" int
  | Io_Gpio_Configure int
  | Io_Gpio gpio_op
  | Io_Event mgmt_event
  | Io_Ready_Event bool

type_synonym trace = "io list" \<comment> \<open>newest first\<close>

datatype recv_result = Recv_Error | Recv_Data "char list"

record env =
  cfg_wifi_ready_lib :: bool
  cfg_nrf7002dk :: bool
  cfg_qspi_key :: string
  env_qspi_key_len :: nat
  env_root_ca :: "char list"
  env_wifi_state_associated :: int
  env_have_wifi_iface :: bool
  env_led_ready :: bool
  env_net_mgmt :: "trace \<Rightarrow> mgmt_request \<Rightarrow> int"
  env_iface_status :: "trace \<Rightarrow> wifi_iface_status"
  env_register_ready :: "trace \<Rightarrow> int"
  env_sem_take :: "trace \<Rightarrow> int"
  env_cred_add :: "trace \<Rightarrow> int"
  env_getaddrinfo :: "trace \<Rightarrow> int \<times> sockaddr_in"
  env_socket :: "trace \<Rightarrow> int"
  env_setsockopt :: "trace \<Rightarrow> sockopt \<Rightarrow> int"
  env_connect :: "trace \<Rightarrow> int"
  env_errno :: "trace \<Rightarrow> int"
  env_http :: "trace \<Rightarrow> int \<times> http_response list"
  env_send :: "trace \<Rightarrow> int"
  env_recv :: "trace \<Rightarrow> recv_result"
  env_qspi :: "trace \<Rightarrow> int"
  env_gpio_configure :: "trace \<Rightarrow> int"

section \<open>The globals of a firmware image\<close>

record fw =
  ctx :: "8 word"
  wifi_ready_status :: bool
  ready_sem :: nat
  got_ip :: bool
  http_state :: "8 word"
  sock_fd :: int
  token :: cbuf
  recv_buf :: cbuf
  send_buf :: cbuf
  server_info :: sockaddr_in
  callbacks :: "(mgmt_handler \<times> mgmt_event list) list"
  trace :: trace
  viols :: "violation list"

definition TOKEN_SIZE :: nat where "TOKEN_SIZE = 2048"
definition RECV_BUF_SIZE :: nat where "RECV_BUF_SIZE = 4096"
definition SEND_BUF_SIZE :: nat where "SEND_BUF_SIZE = 2048"

definition boot :: fw where
  "boot = \<lparr>ctx = 0, wifi_ready_status = False, ready_sem = 0, got_ip = False, http_state = 0,
     sock_fd = -1, token = new_buf Token TOKEN_SIZE, recv_buf = new_buf Recv_buf RECV_BUF_SIZE,
     send_buf = new_buf Send_buf SEND_BUF_SIZE,
     server_info = \<lparr>sin_family = AF_UNSPEC, sin_port = 0, sin_addr = 0\<rparr>,
     callbacks = [], trace = [], viols = []\<rparr>"

text \<open>The bit fields of \<^verbatim>\<open>context\<close>: a union of the byte \<^verbatim>\<open>all\<close> and the bits
  \<^verbatim>\<open>connected\<close>, \<^verbatim>\<open>connect_result\<close> and \<^verbatim>\<open>disconnect_requested\<close>, from the
  least significant bit on.\<close>

definition put_bit :: "nat \<Rightarrow> bool \<Rightarrow> fw \<Rightarrow> fw" where
  "put_bit n b s = s\<lparr>ctx := (if b then set_bit n (ctx s) else unset_bit n (ctx s))\<rparr>"

abbreviation connected :: "fw \<Rightarrow> bool" where "connected s \<equiv> bit (ctx s) 0"
abbreviation connect_result :: "fw \<Rightarrow> bool" where "connect_result s \<equiv> bit (ctx s) 1"
abbreviation disconnect_requested :: "fw \<Rightarrow> bool" where "disconnect_requested s \<equiv> bit (ctx s) 2"

lemma bit_put_bit [simp]:
  "n < 8 \<Longrightarrow> bit (ctx (put_bit n b s)) m = (if m = n then b else bit (ctx s) m)"
  by (auto simp: put_bit_def bit_set_bit_iff bit_unset_bit_iff)

lemma put_bit_sel [simp]:
  "wifi_ready_status (put_bit n b s) = wifi_ready_status s" "ready_sem (put_bit n b s) = ready_sem s"
  "got_ip (put_bit n b s) = got_ip s" "http_state (put_bit n b s) = http_state s"
  "sock_fd (put_bit n b s) = sock_fd s" "token (put_bit n b s) = token s"
  "recv_buf (put_bit n b s) = recv_buf s" "send_buf (put_bit n b s) = send_buf s"
  "server_info (put_bit n b s) = server_info s" "callbacks (put_bit n b s) = callbacks s"
  "trace (put_bit n b s) = trace s" "viols (put_bit n b s) = viols s"
  by (simp_all add: put_bit_def)

lemma put_bit_put_bit_same [simp]: "put_bit n a (put_bit n b s) = put_bit n a s"
  by (auto simp: put_bit_def bit_eq_iff bit_set_bit_iff bit_unset_bit_iff intro!: fw.equality)

section \<open>Calls into the platform\<close>

definition emit :: "io \<Rightarrow> (fw, unit) state" where
  "emit ev = modify (\<lambda>s. s\<lparr>trace := ev # trace s\<rparr>)"

definition violate :: "violation list \<Rightarrow> (fw, unit) state" where
  "violate vs = modify (\<lambda>s. s\<lparr>viols := vs @ viols s\<rparr>)"

definition ask :: "(trace \<Rightarrow> 'a) \<Rightarrow> ('a \<Rightarrow> io) \<Rightarrow> (fw, 'a) state" where
  "ask f mk = do { r \<leftarrow> gets (\<lambda>s. f (trace s)); emit (mk r); ret r }"

definition get_errno :: "env \<Rightarrow> (fw, int) state" where
  "get_errno e = gets (\<lambda>s. env_errno e (trace s))"

definition k_sleep :: "nat \<Rightarrow> (fw, unit) state" where
  "k_sleep ms = emit (Io_Sleep ms)"

definition buf_write :: "cbuf \<Rightarrow> nat \<Rightarrow> char list \<Rightarrow> (fw, cbuf) state" where
  "buf_write b off xs = do { violate (overrun b off (length xs)); ret (blit b off xs) }"

definition buf_str :: "cbuf \<Rightarrow> (fw, string) state" where
  "buf_str b = do { violate (overread b); ret (cstr b) }"

text \<open>\<^verbatim>\<open>sprintf\<close> writes the whole text and a terminator; \<^verbatim>\<open>snprintk\<close> at most the given
  number of bytes, the terminator included.\<close>

definition sprintf :: "cbuf \<Rightarrow> string \<Rightarrow> (fw, cbuf) state" where
  "sprintf b txt = buf_write b 0 (txt @ [NUL])"

definition snprintk :: "cbuf \<Rightarrow> nat \<Rightarrow> string \<Rightarrow> (fw, cbuf) state" where
  "snprintk b n txt = (if n = 0 then ret b else buf_write b 0 (take (n - 1) txt @ [NUL]))"

text \<open>\<^verbatim>\<open>http_client_req\<close>: the library sends the request, calls the response callback on
  each part of the answer it receives, in order, and returns its status.\<close>

definition http_client_req ::
  "env \<Rightarrow> int \<Rightarrow> http_request \<Rightarrow> nat \<Rightarrow> (http_response \<Rightarrow> (fw, int) state) \<Rightarrow> (fw, int) state" where
  "http_client_req e fd req timeout cb = do {
     x \<leftarrow> ask (env_http e) (\<lambda>x. Io_Http fd req timeout (fst x));
     for_each (snd x) cb;
     ret (fst x)
   }"

text \<open>\<^verbatim>\<open>k_sem_take (sem, K_FOREVER)\<close>: no value while the caller is blocked.\<close>

definition k_sem_take :: "env \<Rightarrow> fw \<Rightarrow> (int \<times> fw) option" where
  "k_sem_take e s =
     (let r = env_sem_take e (trace s) in
      if r \<noteq> 0 then Some (r, s\<lparr>trace := Io_Sem_Take r # trace s\<rparr>)
      else if ready_sem s = 0 then None
      else Some (0, s\<lparr>ready_sem := ready_sem s - 1, trace := Io_Sem_Take 0 # trace s\<rparr>))"

text \<open>\<^verbatim>\<open>k_sem_give\<close> on a semaphore of limit 1.\<close>

definition k_sem_give :: "(fw, unit) state" where
  "k_sem_give = modify (\<lambda>s. s\<lparr>ready_sem := min 1 (Suc (ready_sem s))\<rparr>)"

definition setsockopt :: "env \<Rightarrow> int \<Rightarrow> sockopt \<Rightarrow> (fw, int) state" where
  "setsockopt e fd opt = ask (\<lambda>t. env_setsockopt e t opt) (Io_Setsockopt fd opt)"

definition close_fd :: "int \<Rightarrow> (fw, unit) state" where
  "close_fd fd = emit (Io_Close fd)"

lemma emit_simps [simp]: "exec (emit ev) s = s\<lparr>trace := ev # trace s\<rparr>" "result (emit ev) s = ()"
  by (simp_all add: emit_def)

lemma violate_simps [simp]: "exec (violate vs) s = s\<lparr>viols := vs @ viols s\<rparr>" "result (violate vs) s = ()"
  by (simp_all add: violate_def)

lemma ask_simps [simp]: "exec (ask f mk) s = s\<lparr>trace := mk (f (trace s)) # trace s\<rparr>"
  "result (ask f mk) s = f (trace s)"
  by (simp_all add: ask_def)

lemma get_errno_simps [simp]: "exec (get_errno e) s = s" "result (get_errno e) s = env_errno e (trace s)"
  by (simp_all add: get_errno_def)

lemma k_sleep_simps [simp]: "exec (k_sleep ms) s = s\<lparr>trace := Io_Sleep ms # trace s\<rparr>" "result (k_sleep ms) s = ()"
  by (simp_all add: k_sleep_def)

lemma buf_write_simps [simp]:
  "exec (buf_write b off xs) s = s\<lparr>viols := overrun b off (length xs) @ viols s\<rparr>"
  "result (buf_write b off xs) s = blit b off xs"
  by (simp_all add: buf_write_def)

lemma buf_str_simps [simp]:
  "exec (buf_str b) s = s\<lparr>viols := overread b @ viols s\<rparr>" "result (buf_str b) s = cstr b"
  by (simp_all add: buf_str_def)

lemma sprintf_simps [simp]:
  "exec (sprintf b txt) s = s\<lparr>viols := overrun b 0 (Suc (length txt)) @ viols s\<rparr>"
  "result (sprintf b txt) s = blit b 0 (txt @ [NUL])"
  by (simp_all add: sprintf_def)

lemma snprintk_simps [simp]:
  "0 < n \<Longrightarrow> exec (snprintk b n txt) s = s\<lparr>viols := overrun b 0 (Suc (min (n - 1) (length txt))) @ viols s\<rparr>"
  "0 < n \<Longrightarrow> result (snprintk b n txt) s = blit b 0 (take (n - 1) txt @ [NUL])"
  by (simp_all add: snprintk_def min.commute)

lemma http_client_req_simps [simp]:
  "exec (http_client_req e fd req tmo cb) s =
     fold (\<lambda>r. exec (cb r)) (snd (env_http e (trace s)))
       (s\<lparr>trace := Io_Http fd req tmo (fst (env_http e (trace s))) # trace s\<rparr>)"
  "result (http_client_req e fd req tmo cb) s = fst (env_http e (trace s))"
  by (simp_all add: http_client_req_def exec_for_each)

lemma k_sem_give_simps [simp]: "exec k_sem_give s = s\<lparr>ready_sem := 1\<rparr>" "result k_sem_give s = ()"
  by (simp_all add: k_sem_give_def)

lemma k_sem_take_cases:
  assumes "k_sem_take e s = Some (r, s')"
  obtains "r \<noteq> 0" "s' = s\<lparr>trace := Io_Sem_Take r # trace s\<rparr>"
  | "r = 0" "0 < ready_sem s" "s' = s\<lparr>ready_sem := ready_sem s - 1, trace := Io_Sem_Take 0 # trace s\<rparr>"
  using assms by (auto simp: k_sem_take_def Let_def split: if_splits)

lemma setsockopt_simps [simp]:
  "exec (setsockopt e fd opt) s = s\<lparr>trace := Io_Setsockopt fd opt (env_setsockopt e (trace s) opt) # trace s\<rparr>"
  "result (setsockopt e fd opt) s = env_setsockopt e (trace s) opt"
  by (simp_all add: setsockopt_def)

lemma close_fd_simps [simp]: "exec (close_fd fd) s = s\<lparr>trace := Io_Close fd # trace s\<rparr>" "result (close_fd fd) s = ()"
  by (simp_all add: close_fd_def)

section \<open>A concrete platform\<close>

text \<open>A platform on which every call succeeds and the server answers each request with the given
  body: the instance at which hypotheses about the environment are shown to hold.\<close>

definition good_env :: "char list \<Rightarrow> env" where
  "good_env body = \<lparr>cfg_wifi_ready_lib = True, cfg_nrf7002dk = False, cfg_qspi_key = [],
     env_qspi_key_len = 16, env_root_ca = [NUL], env_wifi_state_associated = 6,
     env_have_wifi_iface = True, env_led_ready = True,
     env_net_mgmt = (\<lambda>t r. 0),
     env_iface_status = (\<lambda>t. \<lparr>st_state = 9, st_iface_mode = 0, st_link_mode = 0, st_ssid = ''iPhone'',
        st_bssid = [0, 0, 0, 0, 0, 0], st_band = 0, st_channel = 1, st_security = 1, st_mfp = 0, st_rssi = -40\<rparr>),
     env_register_ready = (\<lambda>t. 0), env_sem_take = (\<lambda>t. 0), env_cred_add = (\<lambda>t. 0),
     env_getaddrinfo = (\<lambda>t. (0, \<lparr>sin_family = AF_INET, sin_port = 0, sin_addr = 1\<rparr>)),
     env_socket = (\<lambda>t. 3), env_setsockopt = (\<lambda>t opt. 0), env_connect = (\<lambda>t. 0), env_errno = (\<lambda>t. 5),
     env_http = (\<lambda>t. (200, [\<lparr>rsp_status = ''OK'', rsp_body_frag = body\<rparr>])),
     env_send = (\<lambda>t. 1), env_recv = (\<lambda>t. Recv_Data []), env_qspi = (\<lambda>t. 0), env_gpio_configure = (\<lambda>t. 0)\<rparr>"

lemma good_env_sel [simp]:
  "cfg_wifi_ready_lib (good_env b)" "\<not> cfg_nrf7002dk (good_env b)" "cfg_qspi_key (good_env b) = []"
  "env_have_wifi_iface (good_env b)" "env_led_ready (good_env b)" "env_net_mgmt (good_env b) t q = 0"
  "env_register_ready (good_env b) t = 0" "env_sem_take (good_env b) t = 0" "env_cred_add (good_env b) t = 0"
  "env_getaddrinfo (good_env b) t = (0, \<lparr>sin_family = AF_INET, sin_port = 0, sin_addr = 1\<rparr>)"
  "env_socket (good_env b) t = 3" "env_setsockopt (good_env b) t opt = 0" "env_connect (good_env b) t = 0"
  "env_errno (good_env b) t = 5"
  "env_http (good_env b) t = (200, [\<lparr>rsp_status = ''OK'', rsp_body_frag = b\<rparr>])"
  "env_send (good_env b) t = 1" "env_recv (good_env b) t = Recv_Data []" "env_qspi (good_env b) t = 0"
  "env_gpio_configure (good_env b) t = 0"
  by (simp_all add: good_env_def)

section \<open>Footprints\<close>

text \<open>The globals fall into the link half (written by the Wi-Fi station code) and the client half
  (written by the HTTP code); most operations keep one of them.\<close>

definition keeps_link :: "fw \<Rightarrow> fw \<Rightarrow> bool" where
  "keeps_link s t \<longleftrightarrow> ctx t = ctx s \<and> wifi_ready_status t = wifi_ready_status s \<and>
     ready_sem t = ready_sem s \<and> got_ip t = got_ip s \<and> callbacks t = callbacks s"

definition keeps_client :: "fw \<Rightarrow> fw \<Rightarrow> bool" where
  "keeps_client s t \<longleftrightarrow> http_state t = http_state s \<and> sock_fd t = sock_fd s \<and> token t = token s \<and>
     recv_buf t = recv_buf s \<and> send_buf t = send_buf s \<and> server_info t = server_info s \<and> viols t = viols s"

definition only_token :: "fw \<Rightarrow> fw \<Rightarrow> bool" where
  "only_token s t \<longleftrightarrow> keeps_link s t \<and> http_state t = http_state s \<and> sock_fd t = sock_fd s \<and>
     recv_buf t = recv_buf s \<and> send_buf t = send_buf s \<and> server_info t = server_info s \<and> trace t = trace s"

lemma keeps_link_refl [simp]: "keeps_link s s" by (simp add: keeps_link_def)
lemma keeps_client_refl [simp]: "keeps_client s s" by (simp add: keeps_client_def)
lemma only_token_refl [simp]: "only_token s s" by (simp add: only_token_def)

lemma keeps_link_trans: "keeps_link s t \<Longrightarrow> keeps_link t u \<Longrightarrow> keeps_link s u"
  by (simp add: keeps_link_def)

lemma keeps_client_trans: "keeps_client s t \<Longrightarrow> keeps_client t u \<Longrightarrow> keeps_client s u"
  by (simp add: keeps_client_def)

lemma only_token_trans: "only_token s t \<Longrightarrow> only_token t u \<Longrightarrow> only_token s u"
  by (auto simp: only_token_def intro: keeps_link_trans)

lemma only_tokenD:
  assumes "only_token s t"
  shows "keeps_link s t" "http_state t = http_state s" "sock_fd t = sock_fd s"
    "server_info t = server_info s" "trace t = trace s"
  using assms by (simp_all add: only_token_def)

lemma keeps_linkD:
  assumes "keeps_link s t"
  shows "ctx t = ctx s" "wifi_ready_status t = wifi_ready_status s" "ready_sem t = ready_sem s"
    "got_ip t = got_ip s" "callbacks t = callbacks s"
  using assms by (simp_all add: keeps_link_def)

lemma keeps_clientD:
  assumes "keeps_client s t"
  shows "http_state t = http_state s" "sock_fd t = sock_fd s" "token t = token s" "recv_buf t = recv_buf s"
    "send_buf t = send_buf s" "server_info t = server_info s" "viols t = viols s"
  using assms by (simp_all add: keeps_client_def)

lemmas footprint_defs = keeps_link_def keeps_client_def only_token_def

section \<open>Quiet extensions of a trace\<close>

text \<open>Entries that are not socket traffic. An operation that adds only such entries cannot disturb
  what the trace says about connections, requests and descriptors.\<close>

fun quiet :: "io \<Rightarrow> bool" where
  "quiet (Io_Getaddrinfo _ _ _) = False"
| "quiet (Io_Socket _) = False"
| "quiet (Io_Setsockopt _ _ _) = False"
| "quiet (Io_Connect _ _ _) = False"
| "quiet (Io_Close _) = False"
| "quiet (Io_Http _ _ _ _) = False"
| "quiet (Io_Send _ _ _) = False"
| "quiet (Io_Recv _ _ _) = False"
| "quiet _ = True"

definition quiet_ext :: "trace \<Rightarrow> trace \<Rightarrow> bool" where
  "quiet_ext t t' \<longleftrightarrow> (\<exists>evs. t' = evs @ t \<and> list_all quiet evs)"

lemma quiet_ext_refl [simp]: "quiet_ext t t"
  by (simp add: quiet_ext_def)

lemma quiet_ext_Cons [simp]: "quiet ev \<Longrightarrow> quiet_ext t t' \<Longrightarrow> quiet_ext t (ev # t')"
  by (auto simp: quiet_ext_def intro: exI [of _ "ev # _"])

lemma quiet_ext_trans: "quiet_ext t t' \<Longrightarrow> quiet_ext t' t'' \<Longrightarrow> quiet_ext t t''"
  by (force simp: quiet_ext_def)

lemma quiet_ext_set: "quiet_ext t t' \<Longrightarrow> set t \<subseteq> set t'"
  by (auto simp: quiet_ext_def)

lemma quiet_ext_noisy: "quiet_ext t t' \<Longrightarrow> \<not> quiet ev \<Longrightarrow> ev \<in> set t' \<longleftrightarrow> ev \<in> set t"
  by (auto simp: quiet_ext_def list_all_iff)

section \<open>Descriptors left open by a trace\<close>

fun open_fds :: "trace \<Rightarrow> int list" where
  "open_fds [] = []"
| "open_fds (Io_Socket fd # t) = (if fd = -1 then open_fds t else fd # open_fds t)"
| "open_fds (Io_Close fd # t) = remove1 fd (open_fds t)"
| "open_fds (_ # t) = open_fds t"

end
