(* ===== verification/Interleave.thy ===== *)
theory Interleave
  imports Firmware
begin

text \<open>
  How one thread's program behaves when others move between its steps. The globals fall into the client
  half and the link half; a step of one side reads and writes its own half and the platform. The
  platform's answers depend on the trace, and other threads' entries change the trace: \<open>env_map\<close> is
  the platform that gives on one trace the answers another platform gave on another, and \<open>mirrored\<close>
  says that a step does the same there, in any state that agrees with the first on the step's half.
  A program that can be interrupted is a tree of such steps (\<open>prog\<close>), finite or not.
\<close>

section \<open>Halves of the state\<close>

datatype side = Client_Side | Link_Side | Both_Sides

fun same :: "side \<Rightarrow> fw \<Rightarrow> fw \<Rightarrow> bool" where
  "same Client_Side u v = keeps_client u v"
| "same Link_Side u v = keeps_link u v"
| "same Both_Sides u v = (keeps_client u v \<and> keeps_link u v)"

text \<open>The half of \<open>u\<close> grafted on \<open>v\<close>, with the trace \<open>t\<close>.\<close>

fun graft :: "side \<Rightarrow> fw \<Rightarrow> fw \<Rightarrow> trace \<Rightarrow> fw" where
  "graft Client_Side u v t = v\<lparr>http_state := http_state u, sock_fd := sock_fd u, token := token u,
     recv_buf := recv_buf u, send_buf := send_buf u, server_info := server_info u, viols := viols u, trace := t\<rparr>"
| "graft Link_Side u v t = v\<lparr>ctx := ctx u, wifi_ready_status := wifi_ready_status u,
     ready_sem := ready_sem u, got_ip := got_ip u, callbacks := callbacks u, trace := t\<rparr>"
| "graft Both_Sides u v t = u\<lparr>trace := t\<rparr>"

lemma trace_graft [simp]: "trace (graft d u v t) = t"
  by (cases d) simp_all

lemma graft_graft [simp]: "graft d u (graft d u' v t') t = graft d u v t"
  by (cases d) simp_all

lemma same_graft [simp]: "same d u (graft d u v t)"
  by (cases d) (simp_all add: footprint_defs)

lemma same_refl [simp]: "same d u u"
  by (cases d) simp_all

lemma graft_same: "same d u v \<Longrightarrow> graft d u v (trace v) = v"
  by (cases d) (auto simp: footprint_defs intro!: fw.equality)

lemma same_trans: "same d u v \<Longrightarrow> same d v w \<Longrightarrow> same d u w"
  by (cases d) (auto intro: keeps_client_trans keeps_link_trans)

lemma same_sym: "same d u v \<Longrightarrow> same d v u"
  by (cases d) (simp_all add: footprint_defs)

lemma same_trace [simp]: "same d u (v\<lparr>trace := t\<rparr>) = same d u v" "same d (u\<lparr>trace := t\<rparr>) v = same d u v"
  by (cases d; simp add: footprint_defs)+

lemma graft_client_keeps: "keeps_link v (graft Client_Side u v t)" "keeps_client u (graft Client_Side u v t)"
  and graft_link_keeps: "keeps_client v (graft Link_Side u v t)" "keeps_link u (graft Link_Side u v t)"
  by (simp_all add: footprint_defs)

text \<open>A step that only logs.\<close>

lemma graft_log: "same d u v \<Longrightarrow> graft d (u\<lparr>trace := t'\<rparr>) v t = v\<lparr>trace := t\<rparr>"
  by (cases d) (auto simp: footprint_defs intro!: fw.equality)

section \<open>A platform seen through other traces\<close>

text \<open>\<^verbatim>\<open>errno\<close> and the interface status are read right after the call they belong to.\<close>

fun after :: "(trace \<Rightarrow> trace) \<Rightarrow> trace \<Rightarrow> trace" where
  "after \<phi> [] = \<phi> []"
| "after \<phi> (ev # t) = ev # \<phi> t"

definition env_map :: "(trace \<Rightarrow> trace) \<Rightarrow> env \<Rightarrow> env" where
  "env_map \<phi> e = e\<lparr>env_net_mgmt := \<lambda>t. env_net_mgmt e (\<phi> t),
     env_iface_status := \<lambda>t. env_iface_status e (after \<phi> t),
     env_register_ready := \<lambda>t. env_register_ready e (\<phi> t), env_sem_take := \<lambda>t. env_sem_take e (\<phi> t),
     env_cred_add := \<lambda>t. env_cred_add e (\<phi> t), env_getaddrinfo := \<lambda>t. env_getaddrinfo e (\<phi> t),
     env_socket := \<lambda>t. env_socket e (\<phi> t), env_setsockopt := \<lambda>t. env_setsockopt e (\<phi> t),
     env_connect := \<lambda>t. env_connect e (\<phi> t), env_errno := \<lambda>t. env_errno e (after \<phi> t),
     env_http := \<lambda>t. env_http e (\<phi> t), env_send := \<lambda>t. env_send e (\<phi> t), env_recv := \<lambda>t. env_recv e (\<phi> t),
     env_qspi := \<lambda>t. env_qspi e (\<phi> t), env_gpio_configure := \<lambda>t. env_gpio_configure e (\<phi> t)\<rparr>"

lemma env_map_sel [simp]:
  "cfg_wifi_ready_lib (env_map \<phi> e) = cfg_wifi_ready_lib e" "cfg_nrf7002dk (env_map \<phi> e) = cfg_nrf7002dk e"
  "cfg_qspi_key (env_map \<phi> e) = cfg_qspi_key e" "env_qspi_key_len (env_map \<phi> e) = env_qspi_key_len e"
  "env_root_ca (env_map \<phi> e) = env_root_ca e" "env_have_wifi_iface (env_map \<phi> e) = env_have_wifi_iface e"
  "env_wifi_state_associated (env_map \<phi> e) = env_wifi_state_associated e"
  "env_led_ready (env_map \<phi> e) = env_led_ready e"
  "env_net_mgmt (env_map \<phi> e) t = env_net_mgmt e (\<phi> t)"
  "env_iface_status (env_map \<phi> e) t = env_iface_status e (after \<phi> t)"
  "env_register_ready (env_map \<phi> e) t = env_register_ready e (\<phi> t)"
  "env_sem_take (env_map \<phi> e) t = env_sem_take e (\<phi> t)" "env_cred_add (env_map \<phi> e) t = env_cred_add e (\<phi> t)"
  "env_getaddrinfo (env_map \<phi> e) t = env_getaddrinfo e (\<phi> t)" "env_socket (env_map \<phi> e) t = env_socket e (\<phi> t)"
  "env_setsockopt (env_map \<phi> e) t = env_setsockopt e (\<phi> t)" "env_connect (env_map \<phi> e) t = env_connect e (\<phi> t)"
  "env_errno (env_map \<phi> e) t = env_errno e (after \<phi> t)" "env_http (env_map \<phi> e) t = env_http e (\<phi> t)"
  by (simp_all add: env_map_def)

lemma after_id [simp]: "after (\<lambda>t. t) t = t"
  by (cases t) simp_all

lemma env_map_id [simp]: "env_map (\<lambda>t. t) e = e"
  by (simp add: env_map_def)

text \<open>\<open>\<phi>\<close> leads from the extensions of \<open>c\<close> to those of \<open>t\<close>, as long as they are shorter than \<open>n\<close>.\<close>

definition tracks :: "(trace \<Rightarrow> trace) \<Rightarrow> nat \<Rightarrow> trace \<Rightarrow> trace \<Rightarrow> bool" where
  "tracks \<phi> n c t \<longleftrightarrow> (\<forall>evs. length evs < n \<longrightarrow> \<phi> (evs @ c) = evs @ t)"

definition agree :: "nat \<Rightarrow> (trace \<Rightarrow> trace) \<Rightarrow> (trace \<Rightarrow> trace) \<Rightarrow> bool" where
  "agree n \<phi> \<psi> \<longleftrightarrow> (\<forall>c. length c < n \<longrightarrow> \<psi> c = \<phi> c)"

definition retarget :: "(trace \<Rightarrow> trace) \<Rightarrow> trace \<Rightarrow> trace \<Rightarrow> trace \<Rightarrow> trace" where
  "retarget \<phi> c t d = (if length c \<le> length d then take (length d - length c) d @ t else \<phi> d)"

lemma agree_refl [simp]: "agree n \<phi> \<phi>"
  by (simp add: agree_def)

lemma agree_trans: "agree n \<phi> \<psi> \<Longrightarrow> agree m \<psi> \<chi> \<Longrightarrow> n \<le> m \<Longrightarrow> agree n \<phi> \<chi>"
  by (simp add: agree_def)

lemma agree_mono: "agree m \<phi> \<psi> \<Longrightarrow> n \<le> m \<Longrightarrow> agree n \<phi> \<psi>"
  by (simp add: agree_def)

lemma retarget_agree: "agree (length c) \<phi> (retarget \<phi> c t)"
  by (simp add: agree_def retarget_def)

lemma retarget_tracks: "agree (n + length c) (retarget \<phi> c t) \<psi> \<Longrightarrow> tracks \<psi> n c t"
  by (simp add: agree_def tracks_def retarget_def)

lemma tracks_0 [simp]: "tracks \<phi> 0 c t"
  by (simp add: tracks_def)

lemma tracks_hd: "tracks \<phi> n c t \<Longrightarrow> 0 < n \<Longrightarrow> \<phi> c = t"
  by (auto simp: tracks_def dest: spec [of _ "[]"])

lemma tracks_1 [simp]: "tracks \<phi> (Suc 0) c t \<longleftrightarrow> \<phi> c = t"
  by (auto simp: tracks_def dest: spec [of _ "[]"])

lemma tracks_add: "tracks \<phi> (m + n) c t \<Longrightarrow> tracks \<phi> m c t"
  by (simp add: tracks_def)

lemma tracks_later: "tracks \<phi> (length evs' + length evs) c t \<Longrightarrow> tracks \<phi> (length evs') (evs @ c) (evs @ t)"
  unfolding tracks_def by (metis add_less_cancel_right append_assoc length_append)

section \<open>Mirrored steps\<close>

text \<open>What a step adds to the trace, that it leaves the other half alone, and that it does the same in \<open>v\<close>
  on every platform that answers there as \<open>e\<close> does in \<open>u\<close>.\<close>

definition mirror_at :: "side \<Rightarrow> (env \<Rightarrow> fw \<Rightarrow> 'a \<times> fw) \<Rightarrow> env \<Rightarrow> fw \<Rightarrow> fw \<Rightarrow> io list \<Rightarrow> bool" where
  "mirror_at d op e u v evs \<longleftrightarrow> trace (snd (op e u)) = evs @ trace u \<and>
     snd (op e u) = graft d (snd (op e u)) u (evs @ trace u) \<and>
     (\<forall>\<phi>. tracks \<phi> (length evs) (trace v) (trace u) \<longrightarrow>
        op (env_map \<phi> e) v = (fst (op e u), graft d (snd (op e u)) v (evs @ trace v)))"

definition mirrored :: "side \<Rightarrow> (env \<Rightarrow> fw \<Rightarrow> 'a \<times> fw) \<Rightarrow> bool" where
  "mirrored d op \<longleftrightarrow> (\<forall>e u v. same d u v \<longrightarrow> (\<exists>evs. mirror_at d op e u v evs))"

named_theorems mirrors \<open>steps that are mirrored\<close>

lemma mirroredI: "(\<And>e u v. same d u v \<Longrightarrow> mirror_at d op e u v (evs e u)) \<Longrightarrow> mirrored d op"
  by (auto simp: mirrored_def)

lemma mirroredE:
  assumes "mirrored d op" "same d u v"
  obtains evs where "mirror_at d op e u v evs"
  using assms unfolding mirrored_def by blast

lemma mirror_at_run:
  "mirror_at d (\<lambda>e. run_state (m e)) e u v evs \<longleftrightarrow> trace (exec (m e) u) = evs @ trace u \<and>
     exec (m e) u = graft d (exec (m e) u) u (evs @ trace u) \<and>
     (\<forall>\<phi>. tracks \<phi> (length evs) (trace v) (trace u) \<longrightarrow>
        result (m (env_map \<phi> e)) v = result (m e) u \<and>
        exec (m (env_map \<phi> e)) v = graft d (exec (m e) u) v (evs @ trace v))"
  by (simp add: mirror_at_def run_state_split)

text \<open>Steps in sequence.\<close>

lemma mirror_at_bind:
  assumes 1: "mirror_at d (\<lambda>e. run_state (m e)) e u v evs"
    and 2: "mirror_at d (\<lambda>e. run_state (k e (result (m e0) u))) e (exec (m e) u) (graft d (exec (m e) u) v (evs @ trace v)) evs'"
    and e0: "e0 = e"
  shows "mirror_at d (\<lambda>e. run_state (State_Monad.bind (m e) (k e))) e u v (evs' @ evs)"
proof -
  let ?u1 = "exec (m e) u" and ?a = "result (m e) u"
  let ?u2 = "exec (k e ?a) ?u1" and ?v1 = "graft d ?u1 v (evs @ trace v)"
  have u1: "trace ?u1 = evs @ trace u" "?u1 = graft d ?u1 u (evs @ trace u)"
    using 1 unfolding mirror_at_run by blast+
  have u2: "trace ?u2 = evs' @ trace ?u1" "?u2 = graft d ?u2 ?u1 (evs' @ trace ?u1)"
    using 2 unfolding mirror_at_run e0 by blast+
  have "?u2 = graft d ?u2 u ((evs' @ evs) @ trace u)"
    by (subst u2(2), subst (2) u1(2)) (simp add: u1(1))
  moreover have "result (State_Monad.bind (m (env_map \<phi> e)) (k (env_map \<phi> e))) v = result (k e ?a) ?u1 \<and>
      exec (State_Monad.bind (m (env_map \<phi> e)) (k (env_map \<phi> e))) v = graft d ?u2 v ((evs' @ evs) @ trace v)"
    if t: "tracks \<phi> (length (evs' @ evs)) (trace v) (trace u)" for \<phi>
  proof -
    have "tracks \<phi> (length evs) (trace v) (trace u)" using t by (simp add: tracks_def)
    then have "result (m (env_map \<phi> e)) v = ?a \<and> exec (m (env_map \<phi> e)) v = ?v1"
      using 1 unfolding mirror_at_run by blast
    moreover have "tracks \<phi> (length evs') (trace ?v1) (trace ?u1)"
      using t tracks_later [of \<phi> evs' evs] by (simp add: u1(1))
    then have "result (k (env_map \<phi> e) ?a) ?v1 = result (k e ?a) ?u1 \<and>
        exec (k (env_map \<phi> e) ?a) ?v1 = graft d ?u2 ?v1 (evs' @ trace ?v1)"
      using 2 unfolding mirror_at_run e0 by blast
    ultimately show ?thesis by simp
  qed
  ultimately show ?thesis
    unfolding mirror_at_run using u1(1) u2(1) by simp
qed

lemma mirrored_bind [mirrors]:
  assumes "mirrored d (\<lambda>e. run_state (m e))" "\<And>a. mirrored d (\<lambda>e. run_state (k e a))"
  shows "mirrored d (\<lambda>e. run_state (State_Monad.bind (m e) (k e)))"
  unfolding mirrored_def
proof (intro allI impI)
  fix e u v
  assume "same d u v"
  then obtain evs where 1: "mirror_at d (\<lambda>e. run_state (m e)) e u v evs"
    using mirroredE [OF assms(1)] by blast
  obtain evs' where "mirror_at d (\<lambda>e. run_state (k e (result (m e0) u))) e (exec (m e) u)
      (graft d (exec (m e) u) v (evs @ trace v)) evs'" if "e0 = e" for e0
    using mirroredE [OF assms(2) same_graft] by blast
  then show "\<exists>evs. mirror_at d (\<lambda>e. run_state (State_Monad.bind (m e) (k e))) e u v evs"
    using mirror_at_bind [OF 1 _ refl] by blast
qed

lemma mirrored_const: "(\<And>s. snd (op s) = s) \<Longrightarrow> (\<And>u v. same d u v \<Longrightarrow> fst (op u) = fst (op v)) \<Longrightarrow> mirrored d (\<lambda>e. op)"
  by (rule mirroredI [where evs = "\<lambda>e u. []"]) (auto simp: mirror_at_def graft_same prod_eq_iff)

lemma mirrored_ret [mirrors]: "mirrored d (\<lambda>e. run_state (ret a))"
  by (rule mirrored_const) simp_all

lemma mirrored_gets: "(\<And>u v. same d u v \<Longrightarrow> f u = f v) \<Longrightarrow> mirrored d (\<lambda>e. run_state (gets f))"
  by (rule mirrored_const) simp_all

text \<open>An update of the step's own half.\<close>

lemma mirrored_modify:
  assumes "\<And>u v. same d u v \<Longrightarrow> g v = graft d (g u) v (trace v)"
  shows "mirrored d (\<lambda>e. run_state (modify g))"
proof (rule mirroredI [where evs = "\<lambda>e u. []"])
  fix e u v
  assume "same d u v"
  then show "mirror_at d (\<lambda>e. run_state (modify g)) e u v []"
    using assms [of u v] assms [of u u] by (simp add: mirror_at_run) (metis same_refl trace_graft)
qed

lemma mirrored_emit [mirrors]: "mirrored d (\<lambda>e. run_state (emit ev))"
  by (rule mirroredI [where evs = "\<lambda>e u. [ev]"]) (simp add: mirror_at_run graft_log)

lemma mirrored_ask [mirrors]:
  assumes "\<And>e \<phi> t. f (env_map \<phi> e) t = f e (\<phi> t)" "\<And>e \<phi>. mk (env_map \<phi> e) = mk e"
  shows "mirrored d (\<lambda>e. run_state (ask (f e) (mk e)))"
proof (rule mirroredI [where evs = "\<lambda>e u. [mk e (f e (trace u))]"])
  fix e u v
  assume "same d u v"
  then show "mirror_at d (\<lambda>e. run_state (ask (f e) (mk e))) e u v [mk e (f e (trace u))]"
    by (simp add: mirror_at_run graft_log assms)
qed

lemma mirrored_if [mirrors]:
  assumes "\<And>e \<phi>. b (env_map \<phi> e) = b e" "mirrored d (\<lambda>e. run_state (m e))" "mirrored d (\<lambda>e. run_state (n e))"
  shows "mirrored d (\<lambda>e. run_state (if b e then m e else n e))"
  unfolding mirrored_def
proof (intro allI impI)
  fix e u v
  assume "same d u v"
  then obtain evs evs' where "mirror_at d (\<lambda>e. run_state (m e)) e u v evs" "mirror_at d (\<lambda>e. run_state (n e)) e u v evs'"
    using mirroredE assms(2,3) by metis
  then show "\<exists>evs. mirror_at d (\<lambda>e. run_state (if b e then m e else n e)) e u v evs"
    by (cases "b e") (auto simp: mirror_at_def assms(1))
qed

lemma mirrored_option [mirrors]:
  assumes "mirrored d (\<lambda>e. run_state (m e))" "\<And>a. mirrored d (\<lambda>e. run_state (k e a))"
  shows "mirrored d (\<lambda>e. run_state (case x of None \<Rightarrow> m e | Some a \<Rightarrow> k e a))"
  using assms by (cases x) simp_all

lemma mirrored_when_do [mirrors]:
  "mirrored d (\<lambda>e. run_state (m e)) \<Longrightarrow> mirrored d (\<lambda>e. run_state (when_do b (m e)))"
  by (cases b) (simp_all add: when_do_def mirrored_ret)

text \<open>A call and the reading of what it left behind.\<close>

lemma mirrored_ask_errno [mirrors]:
  assumes "\<And>e \<phi> t. f (env_map \<phi> e) t = f e (\<phi> t)"
  shows "mirrored d (\<lambda>e. run_state (do { r \<leftarrow> ask (f e) mk; n \<leftarrow> get_errno e; ret (g r n) }))"
proof (rule mirroredI [where evs = "\<lambda>e u. [mk (f e (trace u))]"])
  fix e u v
  assume "same d u v"
  then show "mirror_at d (\<lambda>e. run_state (do { r \<leftarrow> ask (f e) mk; n \<leftarrow> get_errno e; ret (g r n) })) e u v [mk (f e (trace u))]"
    by (auto simp: mirror_at_run graft_log assms)
qed

section \<open>Programs that can be interrupted\<close>

text \<open>A program is done or makes a step: a function on the state, and the rest of the program, which may
  depend on what the step saw. Programs may go on for ever, as a loop that is never left does.\<close>

codatatype 'a prog = Done 'a | Step "env \<Rightarrow> fw \<Rightarrow> fw" "env \<Rightarrow> fw \<Rightarrow> 'a prog"

primcorec and_then :: "'a prog \<Rightarrow> ('a \<Rightarrow> 'b prog) \<Rightarrow> 'b prog" where
  "and_then p g = (case p of Done a \<Rightarrow> g a | Step f k \<Rightarrow> Step f (\<lambda>e s. and_then (k e s) g))"

lemma and_then_simps [simp]:
  "and_then (Done a) g = g a" "and_then (Step f k) g = Step f (\<lambda>e s. and_then (k e s) g)"
  by (subst and_then.code; simp)+

text \<open>One operation as one step.\<close>

definition call :: "(env \<Rightarrow> (fw, 'a) state) \<Rightarrow> 'a prog" where
  "call m = Step (\<lambda>e. exec (m e)) (\<lambda>e s. Done (result (m e) s))"

text \<open>The run that nobody interrupts; \<open>None\<close> if it never ends.\<close>

partial_function (option) prun :: "'a prog \<Rightarrow> env \<Rightarrow> fw \<Rightarrow> ('a \<times> fw) option" where
  "prun p e s = (case p of Done a \<Rightarrow> Some (a, s) | Step f k \<Rightarrow> prun (k e s) e (f e s))"

lemma prun_simps [simp]: "prun (Done a) e s = Some (a, s)" "prun (Step f k) e s = prun (k e s) e (f e s)"
  by (subst prun.simps; simp)+

lemma prun_and_then_Some:
  fixes p :: "'a prog"
  assumes "prun p e s = Some r"
  shows "prun (and_then p g) e s = prun (g (fst r)) e (snd r)"
  using assms
proof (rule prun.raw_induct [rotated])
  fix run :: "'a prog \<Rightarrow> env \<Rightarrow> fw \<Rightarrow> ('a \<times> fw) option" and p e s r
  assume IH: "\<And>p e s r. run p e s = Some r \<Longrightarrow> prun (and_then p g) e s = prun (g (fst r)) e (snd r)"
    and body: "(case p of Done a \<Rightarrow> Some (a, s) | Step f k \<Rightarrow> run (k e s) e (f e s)) = Some r"
  show "prun (and_then p g) e s = prun (g (fst r)) e (snd r)"
    using IH body by (cases p) auto
qed

lemma prun_and_then_dom:
  fixes g :: "'a \<Rightarrow> 'b prog"
  assumes "prun (and_then p g) e s = Some r"
  shows "prun p e s \<noteq> None"
proof -
  have "\<forall>p. q = and_then p g \<longrightarrow> prun p e s \<noteq> None" if "prun q e s = Some r" for q
    using that
  proof (rule prun.raw_induct [rotated])
    fix run :: "'b prog \<Rightarrow> env \<Rightarrow> fw \<Rightarrow> ('b \<times> fw) option" and q e s r
    assume IH: "\<And>q e s r. run q e s = Some r \<Longrightarrow> \<forall>p. q = and_then p g \<longrightarrow> prun p e s \<noteq> None"
      and body: "(case q of Done a \<Rightarrow> Some (a, s) | Step f k \<Rightarrow> run (k e s) e (f e s)) = Some r"
    show "\<forall>p. q = and_then p g \<longrightarrow> prun p e s \<noteq> None"
    proof (intro allI impI)
      fix p
      assume "q = and_then p g"
      then show "prun p e s \<noteq> None" using IH body by (cases p) auto
    qed
  qed
  then show ?thesis using assms by blast
qed

lemma prun_and_then [simp]:
  "prun (and_then p g) e s = (case prun p e s of None \<Rightarrow> None | Some (a, t) \<Rightarrow> prun (g a) e t)"
  using prun_and_then_Some [of p e s _ g] prun_and_then_dom [of p g e s]
  by (cases "prun p e s"; cases "prun (and_then p g) e s") auto

lemma prun_call [simp]: "prun (call m) e s = Some (run_state (m e) s)"
  by (simp add: call_def run_state_split)

text \<open>Programs all of whose steps are mirrored.\<close>

inductive steps_mirrored :: "side \<Rightarrow> 'a prog \<Rightarrow> bool" for d where
  finished: "steps_mirrored d (Done a)"
| step: "mirrored d (\<lambda>e s. (k e s, f e s)) \<Longrightarrow> (\<And>e s. steps_mirrored d (k e s)) \<Longrightarrow> steps_mirrored d (Step f k)"

inductive_cases steps_mirrored_StepE: "steps_mirrored d (Step f k)"

lemma mirrored_result: "mirrored d op \<Longrightarrow> mirrored d (\<lambda>e s. (h (fst (op e s)), snd (op e s)))"
  unfolding mirrored_def mirror_at_def by (metis fst_conv snd_conv)

lemma steps_mirrored_call: "mirrored d (\<lambda>e. run_state (m e)) \<Longrightarrow> steps_mirrored d (call m)"
  using mirrored_result [of d "\<lambda>e. run_state (m e)" Done]
  by (simp add: call_def run_state_split steps_mirrored.intros)

lemma steps_mirrored_and_then:
  assumes "steps_mirrored d p" "\<And>a. steps_mirrored d (g a)"
  shows "steps_mirrored d (and_then p g)"
  using assms(1)
proof induction
  case (finished a)
  then show ?case using assms(2) by simp
next
  case (step k f)
  then show ?case using mirrored_result [OF step(1), of "\<lambda>p. and_then p g"] by (auto intro: steps_mirrored.step)
qed

text \<open>Programs that are done after at most \<open>n\<close> steps, whatever the states they are given.\<close>

inductive within :: "env \<Rightarrow> nat \<Rightarrow> 'a prog \<Rightarrow> bool" for e where
  within_Done: "within e n (Done a)"
| within_Step: "(\<And>s. within e n (k e s)) \<Longrightarrow> within e (Suc n) (Step f k)"

inductive_cases within_StepE: "within e n (Step f k)"

lemma within_mono: "within e n p \<Longrightarrow> n \<le> m \<Longrightarrow> within e m p"
proof (induction arbitrary: m rule: within.induct)
  case (within_Step n k f)
  then obtain m' where "m = Suc m'" "n \<le> m'" by (cases m) auto
  then show ?case using within_Step.IH by (auto intro: within.within_Step)
qed (rule within_Done)

lemma within_and_then: "within e m p \<Longrightarrow> (\<And>a. within e n (g a)) \<Longrightarrow> within e (m + n) (and_then p g)"
proof (induction rule: within.induct)
  case (within_Done m a)
  then show ?case using within_mono [of e n "g a" "m + n"] by simp
next
  case (within_Step m k f)
  then show ?case by (auto intro: within.within_Step)
qed

lemma within_call: "within e (Suc 0) (call m)"
  unfolding call_def by (intro within_Step within_Done)

lemma within_call_then: "(\<And>s. within e n (g (result (m e) s))) \<Longrightarrow> within e (Suc n) (and_then (call m) g)"
  unfolding call_def by (simp add: within_Step)

end
