(* ===== verification/Http_App.thy ===== *)
theory Http_App
  imports Firmware
begin

text \<open>
  \<^verbatim>\<open>src/src/wifi/http_app.c\<close> (and its identical copy \<^verbatim>\<open>src/src/http_app.c\<close>): the HTTPS
  client. Name resolution, the TLS connection, the login that obtains a bearer token, the
  posting of patient data with it, and the loop \<^verbatim>\<open>start_http_thread\<close> with its three-state
  \<^verbatim>\<open>switch\<close>.
\<close>

section \<open>Constants\<close>

definition HTTP_HOST :: string where "HTTP_HOST = ''api1.prescoipd.com''"
definition HTTP_PORT :: "16 word" where "HTTP_PORT = 443"
definition LOGIN_PATH :: string where "LOGIN_PATH = ''/api/login''"
definition USERNAME :: string where "USERNAME = ''hope_watch''"
definition PASSWORD :: string where "PASSWORD = ''HopeWatch@2025''"

abbreviation DQ :: char where "DQ \<equiv> CHR 0x22"

definition CRLF :: string where "CRLF = [CHR 0x0D, CHR 0x0A]"

definition quoted :: "string \<Rightarrow> string" where "quoted s = DQ # s @ [DQ]"

definition TOKEN_KEY :: string where "TOKEN_KEY = quoted ''token'' @ [CHR '':'', DQ]"

definition json_payload :: string where
  "json_payload = ''{''
     @ quoted ''BLE_FW'' @ '': '' @ quoted ''1'' @ '',''
     @ quoted ''WIFI_FW'' @ '': '' @ quoted ''1'' @ '',''
     @ quoted ''Battery %'' @ '': 100,''
     @ quoted ''Patient ID'' @ '': '' @ quoted ''12345'' @ '',''
     @ quoted ''Patient Data'' @ '': [''
     @ ''{''
     @ quoted ''Temperature'' @ '': 98.6,''
     @ quoted ''Heart Rate'' @ '': 72,''
     @ quoted ''Heart Rate Confidence Index'' @ '': 95,''
     @ quoted ''SPIO2 Level'' @ '': 98,''
     @ quoted ''SPIO2 Level Confidence Index'' @ '': 90,''
     @ quoted ''SOS Alert'' @ '': 0,''
     @ quoted ''Fall Detection'' @ '': 0,''
     @ quoted ''Accel X'' @ '': 12345,''
     @ quoted ''Accel Y'' @ '': 12345,''
     @ quoted ''Accel Z'' @ '': 12345''
     @ ''}'' @ '']'' @ ''}''"

section \<open>Certificate, TLS, resolution, connection\<close>

definition register_certificate :: "env \<Rightarrow> (fw, unit) state" where
  "register_certificate e = do {
     _ \<leftarrow> ask (env_cred_add e) (Io_Cred_Add 1 (env_root_ca e));
     ret ()
   }"

definition tls_setup :: "env \<Rightarrow> int \<Rightarrow> (fw, int) state" where
  "tls_setup e fd = do {
     err \<leftarrow> setsockopt e fd (TLS_PEER_VERIFY 0);
     if err \<noteq> 0 then do { n \<leftarrow> get_errno e; ret (- n) }
     else do {
       err \<leftarrow> setsockopt e fd (TLS_SEC_TAG_LIST [1]);
       if err \<noteq> 0 then do { n \<leftarrow> get_errno e; ret (- n) }
       else do {
         err \<leftarrow> setsockopt e fd (TLS_HOSTNAME HTTP_HOST);
         if err \<noteq> 0 then do { n \<leftarrow> get_errno e; ret (- n) } else ret 0
       }
     }
   }"

definition resolve_server :: "env \<Rightarrow> (fw, int) state" where
  "resolve_server e = do {
     res \<leftarrow> ask (env_getaddrinfo e) (\<lambda>x. Io_Getaddrinfo HTTP_HOST (fst x) (snd x));
     if fst res \<noteq> 0 then ret (-1)
     else do {
       modify (\<lambda>s. s\<lparr>server_info := \<lparr>sin_family = sin_family (snd res), sin_port = htons HTTP_PORT,
                                      sin_addr = sin_addr (snd res)\<rparr>\<rparr>);
       emit Io_Freeaddrinfo;
       ret 0
     }
   }"

definition server_connect :: "env \<Rightarrow> (fw, int) state" where
  "server_connect e = do {
     fd \<leftarrow> ask (env_socket e) Io_Socket;
     modify (\<lambda>s. s\<lparr>sock_fd := fd\<rparr>);
     if fd = -1 then ret fd
     else do {
       err \<leftarrow> tls_setup e fd;
       if err < 0 then ret err
       else do {
         addr \<leftarrow> gets server_info;
         err \<leftarrow> ask (env_connect e) (Io_Connect fd addr);
         if err < 0 then get_errno e else ret 0
       }
     }
   }"

section \<open>Response callbacks\<close>

text \<open>The stack array \<^verbatim>\<open>body_buf\<close> has as many bytes as the fragment; the terminator goes one
  byte past it.\<close>

definition body_copy :: "http_response \<Rightarrow> (fw, cbuf) state" where
  "body_copy rsp = do {
     let n = length (rsp_body_frag rsp);
     b \<leftarrow> buf_write (new_buf Body_buf n) 0 (strncpy_bytes n (rsp_body_frag rsp));
     buf_write b n [NUL]
   }"

definition save_token :: "string \<Rightarrow> (fw, unit) state" where
  "save_token str =
     (case strstr str TOKEN_KEY of
        None \<Rightarrow> ret ()
      | Some i \<Rightarrow>
          (let tok_start = drop (i + length TOKEN_KEY) str in
           case strchr tok_start DQ of
             None \<Rightarrow> ret ()
           | Some tok_len \<Rightarrow> do {
               tk \<leftarrow> gets token;
               tk \<leftarrow> buf_write tk 0 (strncpy_bytes tok_len tok_start);
               tk \<leftarrow> buf_write tk tok_len [NUL];
               modify (\<lambda>s. s\<lparr>token := tk\<rparr>)
             }))"

definition response_cb :: "http_response \<Rightarrow> (fw, int) state" where
  "response_cb rsp = do {
     when_do (0 < length (rsp_body_frag rsp)) (do {
       body_buf \<leftarrow> body_copy rsp;
       str \<leftarrow> buf_str body_buf;
       save_token str
     });
     ret 0
   }"

definition response_patient_cb :: "http_response \<Rightarrow> (fw, int) state" where
  "response_patient_cb rsp = do {
     when_do (0 < length (rsp_body_frag rsp)) (do {
       body_buf \<leftarrow> body_copy rsp;
       _ \<leftarrow> buf_str body_buf;
       ret ()
     });
     ret 0
   }"

section \<open>Login and patient data\<close>

definition login_request :: "string \<Rightarrow> http_request" where
  "login_request body = \<lparr>req_method = HTTP_POST, req_url = LOGIN_PATH, req_host = HTTP_HOST,
     req_header_fields = [''Content-Type: application/x-www-form-urlencoded'' @ CRLF,
                          ''Connection: close'' @ CRLF],
     req_payload = body, req_payload_len = length body, req_protocol = ''HTTP/1.1'',
     req_response = Response_Cb, req_recv_buf_len = RECV_BUF_SIZE\<rparr>"

definition login_form :: string where
  "login_form = ''username='' @ USERNAME @ ''&password='' @ PASSWORD"

definition http_login :: "env \<Rightarrow> (fw, int) state" where
  "http_login e = do {
     c \<leftarrow> server_connect e;
     if c \<noteq> 0 then ret (-1)
     else do {
       body \<leftarrow> snprintk (new_buf Login_body 128) 128 login_form;
       payload \<leftarrow> buf_str body;
       fd \<leftarrow> gets sock_fd;
       err \<leftarrow> http_client_req e fd (login_request payload) 5000 response_cb;
       fd \<leftarrow> gets sock_fd;
       when_do (fd > 0) (do {
         close_fd fd;
         modify (\<lambda>s. s\<lparr>sock_fd := -1\<rparr>)
       });
       ret err
     }
   }"

definition AUTH_BUF_SIZE :: nat where "AUTH_BUF_SIZE = 1500"

definition bearer :: "string \<Rightarrow> string" where
  "bearer tok = ''Authorization: Bearer '' @ tok @ CRLF"

definition patient_request :: "string \<Rightarrow> http_request" where
  "patient_request auth = \<lparr>req_method = HTTP_POST, req_url = ''/api/add-patient-clinical-data'',
     req_host = HTTP_HOST,
     req_header_fields = [''Content-Type: application/json'' @ CRLF, auth, ''Connection: close'' @ CRLF],
     req_payload = json_payload, req_payload_len = length json_payload, req_protocol = ''HTTP/1.1'',
     req_response = Response_Patient_Cb, req_recv_buf_len = RECV_BUF_SIZE\<rparr>"

definition http_post_patient_data :: "env \<Rightarrow> (fw, int) state" where
  "http_post_patient_data e = do {
     c \<leftarrow> server_connect e;
     if c \<noteq> 0 then ret (-1)
     else do {
       tk \<leftarrow> gets token;
       tok \<leftarrow> buf_str tk;
       auth_buf \<leftarrow> sprintf (new_buf Auth_buf AUTH_BUF_SIZE) (bearer tok);
       fd \<leftarrow> gets sock_fd;
       err \<leftarrow> http_client_req e fd (patient_request (cstr auth_buf)) 5000 response_patient_cb;
       fd \<leftarrow> gets sock_fd;
       close_fd fd;
       modify (\<lambda>s. s\<lparr>sock_fd := -1\<rparr>);
       ret err
     }
   }"

section \<open>The HTTP thread\<close>

text \<open>The \<^verbatim>\<open>switch\<close> of \<^verbatim>\<open>start_http_thread\<close>: case 1 falls through into case 2.\<close>

definition http_dispatch :: "env \<Rightarrow> (fw, unit) state" where
  "http_dispatch e = do {
     st \<leftarrow> gets http_state;
     if st = 0 then do {
       r \<leftarrow> resolve_server e;
       when_do (r = 0) (modify (\<lambda>s. s\<lparr>http_state := 1\<rparr>))
     }
     else if st = 1 then do {
       _ \<leftarrow> http_login e;
       modify (\<lambda>s. s\<lparr>http_state := 2\<rparr>);
       _ \<leftarrow> http_post_patient_data e;
       ret ()
     }
     else if st = 2 then do {
       _ \<leftarrow> http_post_patient_data e;
       ret ()
     }
     else ret ()
   }"

text \<open>One evaluation of \<^verbatim>\<open>while (!got_ip)\<close> and what follows it. \<open>got_ip\<close> is the only
  variable of the loop that another thread writes, and this is the only place that reads it.\<close>

definition http_round :: "env \<Rightarrow> (fw, unit) state" where
  "http_round e = do {
     ip \<leftarrow> gets got_ip;
     if \<not> ip then do {
       k_sleep 1000;
       modify (\<lambda>s. s\<lparr>http_state := 0\<rparr>)
     }
     else do {
       http_dispatch e;
       k_sleep 10000
     }
   }"

datatype http_pc = H_Start | H_Loop

fun start_http_thread :: "env \<Rightarrow> http_pc \<Rightarrow> fw \<Rightarrow> http_pc \<times> fw" where
  "start_http_thread e H_Start s = (H_Loop, exec (register_certificate e) s)"
| "start_http_thread e H_Loop s = (H_Loop, exec (http_round e) s)"

end
