(* ===== verification/Http_Client.thy ===== *)
theory Http_Client
  imports Http_App
begin

text \<open>
  What the HTTPS client of \<^verbatim>\<open>http_app.c\<close> guarantees: which bytes the response callbacks write
  and where they overrun, that a token in a login response is the token of the next post, that
  sessions close the descriptor they opened and on which paths they do not, and that every
  request of every run goes over a TLS-configured connection to the resolved server.
\<close>

section \<open>Specification vocabulary\<close>

text \<open>A connected session, split at the client library: \<open>login_sent\<close> and \<open>post_sent\<close> are the
  states in which the library starts calling back.\<close>

definition login_sent :: "env \<Rightarrow> fw \<Rightarrow> fw" where
  "login_sent e s = (let u = exec (server_connect e) s in
     u\<lparr>trace := Io_Http (sock_fd u) (login_request login_form) 5000 (fst (env_http e (trace u))) # trace u\<rparr>)"

definition post_sent :: "env \<Rightarrow> fw \<Rightarrow> fw" where
  "post_sent e s = (let u = exec (server_connect e) s in
     u\<lparr>viols := overrun (new_buf Auth_buf AUTH_BUF_SIZE) 0 (Suc (length (bearer (cstr (token s))))) @ overread (token s) @ viols u,
       trace := Io_Http (sock_fd u) (patient_request (bearer (cstr (token s)))) 5000 (fst (env_http e (trace u))) # trace u\<rparr>)"

definition response_frags :: "env \<Rightarrow> fw \<Rightarrow> http_response list" where
  "response_frags e s = snd (env_http e (trace (exec (server_connect e) s)))"

text \<open>Traces in which every connection was set up for TLS on a fresh socket and aims at port 443 of the
  address that the last successful lookup of the host gave, and every request directly follows a successful connection of its descriptor.\<close>

definition tls_prologue :: "int \<Rightarrow> io list" where
  "tls_prologue fd = [Io_Setsockopt fd (TLS_HOSTNAME HTTP_HOST) 0, Io_Setsockopt fd (TLS_SEC_TAG_LIST [1]) 0,
     Io_Setsockopt fd (TLS_PEER_VERIFY 0) 0, Io_Socket fd]"

text \<open>The address that the last successful lookup of the API host gave, and a socket address made of it: its
  family and address with port 443.\<close>

fun resolved :: "trace \<Rightarrow> sockaddr_in option" where
  "resolved [] = None"
| "resolved (Io_Getaddrinfo h r a # t) = (if h = HTTP_HOST \<and> r = 0 then Some a else resolved t)"
| "resolved (_ # t) = resolved t"

definition aims_at_server :: "trace \<Rightarrow> sockaddr_in \<Rightarrow> bool" where
  "aims_at_server t a \<longleftrightarrow> (case resolved t of
     None \<Rightarrow> False
   | Some b \<Rightarrow> a = \<lparr>sin_family = sin_family b, sin_port = htons HTTP_PORT, sin_addr = sin_addr b\<rparr>)"

fun secured :: "trace \<Rightarrow> bool" where
  "secured [] = True"
| "secured (Io_Connect fd a r # t) =
     (prefix (tls_prologue fd) t \<and> fd \<noteq> -1 \<and> aims_at_server t a \<and> secured t)"
| "secured (Io_Http fd req tmo r # t) =
     ((case t of Io_Connect fd' a r' # _ \<Rightarrow> fd' = fd \<and> 0 \<le> r' | _ \<Rightarrow> False) \<and>
      req_host req = HTTP_HOST \<and> secured t)"
| "secured (_ # t) = secured t"

text \<open>A failing socket call leaves a positive \<^verbatim>\<open>errno\<close>.\<close>

definition errno_positive :: "env \<Rightarrow> bool" where
  "errno_positive e \<longleftrightarrow> (\<forall>t. 0 < env_errno e t)"

definition client_inv :: "fw \<Rightarrow> bool" where
  "client_inv s \<longleftrightarrow> http_state s \<in> {0, 1, 2} \<and>
     (http_state s \<noteq> 0 \<longrightarrow> aims_at_server (trace s) (server_info s)) \<and>
     bcap (token s) = TOKEN_SIZE \<and> secured (trace s)"

text \<open>Login and post share a footprint: they keep the link half, the state variable, the server
  address and the capacity of the token buffer, and only add to the trace.\<close>

definition session_keeps :: "fw \<Rightarrow> fw \<Rightarrow> bool" where
  "session_keeps s t \<longleftrightarrow> keeps_link s t \<and> http_state t = http_state s \<and> server_info t = server_info s \<and>
     bcap (token t) = bcap (token s) \<and> suffix (trace s) (trace t) \<and> resolved (trace t) = resolved (trace s)"

fun vobj :: "violation \<Rightarrow> obj" where
  "vobj (Oob_Write b _ _) = b"
| "vobj (Oob_Read b _) = b"

fun is_login :: "io \<Rightarrow> bool" where
  "is_login (Io_Http fd req tmo r) = (req_url req = LOGIN_PATH)"
| "is_login _ = False"

section \<open>The response callbacks\<close>

text \<open>What the client library relies on: a callback returns 0 (continue) and touches nothing but
  the token and the record of violations; in particular it leaves the socket alone. A whole
  response, delivered in any number of fragments, then does the same.\<close>

locale response_callback =
  fixes cb :: "http_response \<Rightarrow> (fw, int) state"
  assumes cb_continues: "result (cb r) s = 0"
    and cb_frame: "only_token s (exec (cb r) s)"
    and cb_token_buf: "bcap (token (exec (cb r) s)) = bcap (token s)" "bname (token (exec (cb r) s)) = bname (token s)"
    and cb_viols: "\<exists>vs. viols (exec (cb r) s) = vs @ viols s \<and> vobj ` set vs \<subseteq> {Body_buf, bname (token s)}"
begin

lemma fold_frame: "only_token s (fold (\<lambda>r. exec (cb r)) rs s)"
proof (induction rs arbitrary: s)
  case Nil
  show ?case by simp
next
  case (Cons r rs)
  show ?case using cb_frame Cons.IH only_token_trans by fastforce
qed

lemma fold_token_buf:
  "bcap (token (fold (\<lambda>r. exec (cb r)) rs s)) = bcap (token s)"
  "bname (token (fold (\<lambda>r. exec (cb r)) rs s)) = bname (token s)"
  by (induction rs arbitrary: s) (simp_all add: cb_token_buf)

lemma fold_viols:
  "\<exists>vs. viols (fold (\<lambda>r. exec (cb r)) rs s) = vs @ viols s \<and> vobj ` set vs \<subseteq> {Body_buf, bname (token s)}"
proof (induction rs arbitrary: s)
  case Nil
  show ?case by simp
next
  case (Cons r rs)
  obtain vs where "viols (exec (cb r) s) = vs @ viols s" "vobj ` set vs \<subseteq> {Body_buf, bname (token s)}"
    using cb_viols by blast
  moreover obtain ws where "viols (fold (\<lambda>r. exec (cb r)) (r # rs) s) = ws @ viols (exec (cb r) s)"
    "vobj ` set ws \<subseteq> {Body_buf, bname (token s)}"
    using Cons.IH [of "exec (cb r) s"] by (auto simp: cb_token_buf)
  ultimately show ?case by (intro exI [of _ "ws @ vs"]) auto
qed

lemma fold_keeps_viols:
  assumes "vobj v \<notin> {Body_buf, bname (token s)}"
  shows "v \<in> set (viols (fold (\<lambda>r. exec (cb r)) rs s)) \<longleftrightarrow> v \<in> set (viols s)"
  using fold_viols [of rs s] assms by (auto simp: image_subset_iff)

lemmas fold_keeps = only_tokenD [OF fold_frame] fold_token_buf

end

lemma body_copy_simps [simp]:
  "exec (body_copy rsp) s =
     s\<lparr>viols := Oob_Write Body_buf (length (rsp_body_frag rsp)) (Suc (length (rsp_body_frag rsp))) # viols s\<rparr>"
  "result (body_copy rsp) s =
     blit (new_buf Body_buf (length (rsp_body_frag rsp))) 0
       (strncpy_bytes (length (rsp_body_frag rsp)) (rsp_body_frag rsp) @ [NUL])"
  by (simp_all add: body_copy_def Let_def overrun_def blit0_append)

lemma cstr_body_copy [simp]:
  "cstr (blit (new_buf Body_buf (length frag)) 0 (strncpy_bytes (length frag) frag @ [NUL])) = c_str frag"
  by (simp add: cstr_def c_str_strncpy_bytes)

lemma vobj_checks:
  "vobj ` set (overrun b off n) \<subseteq> {bname b}" "vobj ` set (overread b) \<subseteq> {bname b}"
  by (auto simp: overrun_def overread_def)

lemma save_token_frame:
  "only_token s (exec (save_token str) s)"
  "bcap (token (exec (save_token str) s)) = bcap (token s)"
  "bname (token (exec (save_token str) s)) = bname (token s)"
  by (simp_all add: save_token_def Let_def footprint_defs split: option.split)

lemma save_token_viols:
  "\<exists>vs. viols (exec (save_token str) s) = vs @ viols s \<and> vobj ` set vs \<subseteq> {bname (token s)}"
  by (auto simp: save_token_def Let_def overrun_def split: option.split)

lemma response_cb_nonempty:
  assumes "rsp_body_frag r \<noteq> []"
  shows "\<exists>vs. exec (response_cb r) s = exec (save_token (c_str (rsp_body_frag r)))
     (s\<lparr>viols := vs @ Oob_Write Body_buf (length (rsp_body_frag r)) (Suc (length (rsp_body_frag r))) # viols s\<rparr>) \<and>
     vobj ` set vs \<subseteq> {Body_buf}"
  using assms vobj_checks(2) [of "result (body_copy r) s"]
  by (auto simp: response_cb_def)

lemma response_cb_empty: "rsp_body_frag r = [] \<Longrightarrow> exec (response_cb r) s = s"
  by (simp add: response_cb_def)

interpretation login_cb: response_callback response_cb
proof
  fix r s
  show "result (response_cb r) s = 0" by (simp add: response_cb_def)
  show "only_token s (exec (response_cb r) s)"
    "bcap (token (exec (response_cb r) s)) = bcap (token s)"
    "bname (token (exec (response_cb r) s)) = bname (token s)"
    using save_token_frame(1) by (auto simp: response_cb_def footprint_defs save_token_frame(2,3))
  show "\<exists>vs. viols (exec (response_cb r) s) = vs @ viols s \<and> vobj ` set vs \<subseteq> {Body_buf, bname (token s)}"
  proof (cases "rsp_body_frag r = []")
    case True
    then show ?thesis by (simp add: response_cb_empty)
  next
    case False
    from response_cb_nonempty [OF False] obtain vs where
      vs: "exec (response_cb r) s = exec (save_token (c_str (rsp_body_frag r)))
        (s\<lparr>viols := vs @ Oob_Write Body_buf (length (rsp_body_frag r)) (Suc (length (rsp_body_frag r))) # viols s\<rparr>)"
      "vobj ` set vs \<subseteq> {Body_buf}" by blast
    then show ?thesis
      using save_token_viols [of "c_str (rsp_body_frag r)" "s\<lparr>viols := vs @ Oob_Write Body_buf
        (length (rsp_body_frag r)) (Suc (length (rsp_body_frag r))) # viols s\<rparr>"]
      by (auto simp: image_subset_iff)
  qed
qed

interpretation patient_cb: response_callback response_patient_cb
proof
  fix r s
  show "result (response_patient_cb r) s = 0" "only_token s (exec (response_patient_cb r) s)"
    "bcap (token (exec (response_patient_cb r) s)) = bcap (token s)"
    "bname (token (exec (response_patient_cb r) s)) = bname (token s)"
    by (simp_all add: response_patient_cb_def footprint_defs)
  show "\<exists>vs. viols (exec (response_patient_cb r) s) = vs @ viols s \<and> vobj ` set vs \<subseteq> {Body_buf, bname (token s)}"
    using vobj_checks(2) [of "result (body_copy r) s"]
    by (auto simp: response_patient_cb_def)
qed

section \<open>Token extraction\<close>

lemma save_token_absent: "strstr str TOKEN_KEY = None \<Longrightarrow> exec (save_token str) s = s"
  by (simp add: save_token_def)

lemma save_token_unterminated:
  "strstr str TOKEN_KEY = Some i \<Longrightarrow> DQ \<notin> set (drop (i + length TOKEN_KEY) str) \<Longrightarrow> exec (save_token str) s = s"
  by (simp add: save_token_def Let_def strchr_None_iff [THEN iffD2])

lemma save_token_found:
  assumes key: "\<forall>j < length pre. \<not> prefix TOKEN_KEY (drop j (pre @ TOKEN_KEY @ tok @ DQ # post))"
    and tok: "DQ \<notin> set tok" "NUL \<notin> set tok"
  shows "exec (save_token (pre @ TOKEN_KEY @ tok @ DQ # post)) s =
    s\<lparr>token := blit (token s) 0 (tok @ [NUL]),
      viols := overrun (token s) (length tok) 1 @ overrun (token s) 0 (length tok) @ viols s\<rparr>"
proof -
  have "strstr (pre @ TOKEN_KEY @ tok @ DQ # post) TOKEN_KEY = Some (length pre)"
    using key by (rule strstr_append)
  moreover have "strncpy_bytes (length tok) (tok @ DQ # post) = tok"
    using tok by (simp add: strncpy_bytes_take)
  ultimately show ?thesis
    using tok by (simp add: save_token_def blit0_append) (simp add: overrun_def)
qed


section \<open>Connections\<close>

lemma tls_setup_frame:
  "keeps_link s (exec (tls_setup e fd) s)" "keeps_client s (exec (tls_setup e fd) s)"
  "open_fds (trace (exec (tls_setup e fd) s)) = open_fds (trace s)"
  by (simp_all add: tls_setup_def footprint_defs)

lemmas tls_setup_keeps = keeps_linkD [OF tls_setup_frame(1)] keeps_clientD [OF tls_setup_frame(2)] tls_setup_frame(3)

lemma tls_setup_resolved: "resolved (trace (exec (tls_setup e fd) s)) = resolved (trace s)"
  by (simp add: tls_setup_def)

lemma server_connect_resolved: "resolved (trace (exec (server_connect e) s)) = resolved (trace s)"
  by (simp add: server_connect_def tls_setup_resolved)

lemma server_connect_frame:
  "keeps_link s (exec (server_connect e) s)"
  "http_state (exec (server_connect e) s) = http_state s"
  "token (exec (server_connect e) s) = token s"
  "recv_buf (exec (server_connect e) s) = recv_buf s"
  "send_buf (exec (server_connect e) s) = send_buf s"
  "server_info (exec (server_connect e) s) = server_info s"
  "viols (exec (server_connect e) s) = viols s"
  "sock_fd (exec (server_connect e) s) = env_socket e (trace s)"
  by (simp_all add: server_connect_def tls_setup_keeps keeps_link_def)

lemma server_connect_open_fds:
  "open_fds (trace (exec (server_connect e) s)) =
     (if env_socket e (trace s) = -1 then open_fds (trace s)
      else env_socket e (trace s) # open_fds (trace s))"
  by (simp add: server_connect_def tls_setup_keeps)

lemma server_connect_zero_fd: "result (server_connect e) s = 0 \<Longrightarrow> env_socket e (trace s) \<noteq> -1"
  by (auto simp: server_connect_def)

lemmas server_connect_keeps = server_connect_frame(2-8)

section \<open>Sessions\<close>

lemma resolve_server_frame:
  "keeps_link s (exec (resolve_server e) s)"
  "http_state (exec (resolve_server e) s) = http_state s" "token (exec (resolve_server e) s) = token s"
  "sock_fd (exec (resolve_server e) s) = sock_fd s" "viols (exec (resolve_server e) s) = viols s"
  "open_fds (trace (exec (resolve_server e) s)) = open_fds (trace s)"
  by (simp_all add: resolve_server_def footprint_defs)

lemma http_login_unconnected:
  "result (server_connect e) s \<noteq> 0 \<Longrightarrow> exec (http_login e) s = exec (server_connect e) s"
  by (simp add: http_login_def)

lemma http_post_unconnected:
  "result (server_connect e) s \<noteq> 0 \<Longrightarrow> exec (http_post_patient_data e) s = exec (server_connect e) s"
  by (simp add: http_post_patient_data_def)

lemma login_form_NUL [simp]: "NUL \<notin> set login_form"
  by (simp add: login_form_def USERNAME_def PASSWORD_def)

lemma length_login_form [simp]: "length login_form = 43"
  by (simp add: login_form_def USERNAME_def PASSWORD_def)

lemma bearer_NUL [simp]: "NUL \<notin> set tok \<Longrightarrow> NUL \<notin> set (bearer tok)"
  by (simp add: bearer_def CRLF_def)

lemma length_bearer [simp]: "length (bearer tok) = length tok + 24"
  by (simp add: bearer_def CRLF_def)

lemma cstr_NUL_free [simp]: "NUL \<notin> set (cstr b)"
  by (simp add: cstr_def)

lemma login_form_terminated [simp]: "overread (blit (new_buf Login_body 128) 0 (login_form @ [NUL])) = []"
  by (rule overread_terminated) simp

lemma http_login_connected:
  assumes "result (server_connect e) s = 0"
  shows "exec (http_login e) s =
    (let v = fold (\<lambda>r. exec (response_cb r)) (response_frags e s) (login_sent e s)
     in if 0 < sock_fd v then v\<lparr>trace := Io_Close (sock_fd v) # trace v, sock_fd := -1\<rparr> else v)"
  using assms by (simp add: http_login_def Let_def login_sent_def response_frags_def)

lemma http_post_connected:
  assumes "result (server_connect e) s = 0"
  shows "exec (http_post_patient_data e) s =
    (let v = fold (\<lambda>r. exec (response_patient_cb r)) (response_frags e s) (post_sent e s)
     in v\<lparr>trace := Io_Close (sock_fd v) # trace v, sock_fd := -1\<rparr>)"
  using assms by (simp add: http_post_patient_data_def Let_def post_sent_def response_frags_def
      server_connect_keeps)

lemmas session_sent_simps = login_sent_def post_sent_def Let_def server_connect_keeps

section \<open>Every connection is set up for TLS, every request goes over a connection\<close>

lemma errno_positiveD: "errno_positive e \<Longrightarrow> 0 < env_errno e t"
  by (simp add: errno_positive_def)

lemma server_connect_secured:
  assumes "errno_positive e" "secured (trace s)" "aims_at_server (trace s) (server_info s)"
  shows "secured (trace (exec (server_connect e) s))"
  using assms errno_positiveD [OF assms(1)]
  by (simp add: server_connect_def tls_setup_def tls_prologue_def aims_at_server_def)

lemma server_connect_zero_trace:
  assumes "errno_positive e" "result (server_connect e) s = 0"
  shows "\<exists>a r t. trace (exec (server_connect e) s) = Io_Connect (env_socket e (trace s)) a r # t \<and> 0 \<le> r"
  using assms(2) errno_positiveD [OF assms(1)] less_imp_neq [OF errno_positiveD [OF assms(1)]]
  by (auto simp: server_connect_def tls_setup_def split: if_splits)


section \<open>What one round of the thread keeps\<close>

lemma tls_setup_suffix: "suffix (trace s) (trace (exec (tls_setup e fd) s))"
  by (simp add: tls_setup_def suffix_ConsI)

lemma server_connect_suffix: "suffix (trace s) (trace (exec (server_connect e) s))"
  using tls_setup_suffix [of "s\<lparr>trace := Io_Socket (env_socket e (trace s)) # trace s, sock_fd := env_socket e (trace s)\<rparr>" e]
  by (auto simp: server_connect_def intro!: suffix_ConsI dest: suffix_ConsD)

lemma session_keepsI:
  assumes "keeps_link (exec (server_connect e) s) t" "http_state t = http_state s"
    "server_info t = server_info s" "bcap (token t) = bcap (token s)"
    "suffix (trace (exec (server_connect e) s)) (trace t)" "resolved (trace t) = resolved (trace s)"
  shows "session_keeps s t"
  using assms server_connect_frame(1) keeps_link_trans server_connect_suffix suffix_order.trans
  unfolding session_keeps_def by blast

lemma http_login_keeps: "session_keeps s (exec (http_login e) s)"
proof (cases "result (server_connect e) s = 0")
  case True
  have "keeps_link (exec (server_connect e) s) (login_sent e s)"
    by (simp add: session_sent_simps footprint_defs)
  from keeps_link_trans [OF this login_cb.fold_keeps(1)] show ?thesis
    by (intro session_keepsI [of e])
       (simp_all add: http_login_connected [OF True] Let_def login_cb.fold_keeps session_sent_simps
         server_connect_resolved suffix_ConsI keeps_link_def)
next
  case False
  then show ?thesis
    by (intro session_keepsI [of e]) (simp_all add: http_login_unconnected server_connect_keeps server_connect_resolved)
qed

lemma http_post_keeps: "session_keeps s (exec (http_post_patient_data e) s)"
proof (cases "result (server_connect e) s = 0")
  case True
  have "keeps_link (exec (server_connect e) s) (post_sent e s)"
    by (simp add: session_sent_simps footprint_defs)
  from keeps_link_trans [OF this patient_cb.fold_keeps(1)] show ?thesis
    by (intro session_keepsI [of e])
       (simp_all add: http_post_connected [OF True] Let_def patient_cb.fold_keeps session_sent_simps
         server_connect_resolved suffix_ConsI keeps_link_def)
next
  case False
  then show ?thesis
    by (intro session_keepsI [of e]) (simp_all add: http_post_unconnected server_connect_keeps server_connect_resolved)
qed

lemma http_login_secured:
  assumes "errno_positive e" "secured (trace s)" "aims_at_server (trace s) (server_info s)"
  shows "secured (trace (exec (http_login e) s))"
proof (cases "result (server_connect e) s = 0")
  case True
  obtain a r t where "trace (exec (server_connect e) s) = Io_Connect (env_socket e (trace s)) a r # t" "0 \<le> r"
    using server_connect_zero_trace [OF assms(1) True] by blast
  with server_connect_secured [OF assms] show ?thesis
    by (simp add: http_login_connected [OF True] Let_def login_cb.fold_keeps session_sent_simps login_request_def)
next
  case False
  with server_connect_secured [OF assms] show ?thesis by (simp add: http_login_unconnected)
qed

lemma http_post_secured:
  assumes "errno_positive e" "secured (trace s)" "aims_at_server (trace s) (server_info s)"
  shows "secured (trace (exec (http_post_patient_data e) s))"
proof (cases "result (server_connect e) s = 0")
  case True
  obtain a r t where "trace (exec (server_connect e) s) = Io_Connect (env_socket e (trace s)) a r # t" "0 \<le> r"
    using server_connect_zero_trace [OF assms(1) True] by blast
  with server_connect_secured [OF assms] show ?thesis
    by (simp add: http_post_connected [OF True] Let_def patient_cb.fold_keeps session_sent_simps patient_request_def)
next
  case False
  with server_connect_secured [OF assms] show ?thesis by (simp add: http_post_unconnected)
qed


lemma client_inv_session:
  assumes "client_inv s" "session_keeps s t" "secured (trace t)"
  shows "client_inv t"
  using assms by (auto simp: client_inv_def session_keeps_def aims_at_server_def)

lemma client_inv_port: "client_inv s \<Longrightarrow> http_state s \<noteq> 0 \<Longrightarrow> aims_at_server (trace s) (server_info s)"
  by (simp add: client_inv_def)

lemma client_inv_secured: "client_inv s \<Longrightarrow> secured (trace s)"
  by (simp add: client_inv_def)

lemma http_login_inv:
  "errno_positive e \<Longrightarrow> client_inv s \<Longrightarrow> http_state s \<noteq> 0 \<Longrightarrow> client_inv (exec (http_login e) s)"
  by (blast intro: client_inv_session http_login_keeps http_login_secured client_inv_secured client_inv_port)

lemma http_post_inv:
  "errno_positive e \<Longrightarrow> client_inv s \<Longrightarrow> http_state s \<noteq> 0 \<Longrightarrow> client_inv (exec (http_post_patient_data e) s)"
  by (blast intro: client_inv_session http_post_keeps http_post_secured client_inv_secured client_inv_port)

lemma session_keeps_state: "session_keeps s t \<Longrightarrow> http_state t = http_state s"
  by (simp add: session_keeps_def)

lemma session_keeps_link: "session_keeps s t \<Longrightarrow> keeps_link s t"
  by (simp add: session_keeps_def)

lemma client_inv_set_state:
  "client_inv s \<Longrightarrow> http_state s \<noteq> 0 \<Longrightarrow> n \<in> {0, 1, 2} \<Longrightarrow> client_inv (s\<lparr>http_state := n\<rparr>)"
  by (auto simp: client_inv_def)

lemma http_dispatch_login:
  "http_state s = 1 \<Longrightarrow> exec (http_dispatch e) s =
     exec (http_post_patient_data e) (exec (http_login e) s\<lparr>http_state := 2\<rparr>)"
  by (simp add: http_dispatch_def)

lemma http_dispatch_post:
  "http_state s = 2 \<Longrightarrow> exec (http_dispatch e) s = exec (http_post_patient_data e) s"
  by (simp add: http_dispatch_def)

lemma http_dispatch_resolve:
  "http_state s = 0 \<Longrightarrow> client_inv s \<Longrightarrow> client_inv (exec (http_dispatch e) s)"
  by (auto simp: http_dispatch_def resolve_server_def client_inv_def aims_at_server_def)

lemma http_dispatch_inv:
  assumes "errno_positive e" "client_inv s"
  shows "client_inv (exec (http_dispatch e) s)"
proof -
  consider "http_state s = 0" | "http_state s = 1" | "http_state s = 2"
    using assms(2) by (auto simp: client_inv_def)
  then show ?thesis
  proof cases
    case 1
    then show ?thesis using assms(2) by (rule http_dispatch_resolve)
  next
    case 2
    then have "client_inv (exec (http_login e) s\<lparr>http_state := 2\<rparr>)"
      using assms http_login_inv session_keeps_state [OF http_login_keeps]
      by (auto intro!: client_inv_set_state)
    with 2 assms(1) show ?thesis by (auto simp: http_dispatch_login intro!: http_post_inv)
  next
    case 3
    with assms show ?thesis by (auto simp: http_dispatch_post intro!: http_post_inv)
  qed
qed

lemma http_dispatch_link: "keeps_link s (exec (http_dispatch e) s)"
proof -
  have login: "keeps_link s (exec (http_login e) s)" and post: "keeps_link u (exec (http_post_patient_data e) u)" for u
    by (rule session_keeps_link [OF http_login_keeps], rule session_keeps_link [OF http_post_keeps])
  have "keeps_link s (exec (http_login e) s\<lparr>http_state := 2\<rparr>)"
    using login by (simp add: keeps_link_def)
  then have "keeps_link s (exec (http_post_patient_data e) (exec (http_login e) s\<lparr>http_state := 2\<rparr>))"
    using post keeps_link_trans by blast
  moreover have "keeps_link s (exec (resolve_server e) s\<lparr>http_state := 1\<rparr>)"
    using resolve_server_frame(1) by (simp add: keeps_link_def)
  ultimately show ?thesis
    using post resolve_server_frame(1) by (simp add: http_dispatch_def)
qed

lemma http_round_link: "keeps_link s (exec (http_round e) s)"
  using http_dispatch_link [of s e] by (simp add: http_round_def keeps_link_def)

lemma http_round_inv:
  assumes "errno_positive e" "client_inv s"
  shows "client_inv (exec (http_round e) s)"
proof (cases "got_ip s")
  case True
  with http_dispatch_inv [OF assms] show ?thesis by (simp add: http_round_def client_inv_def aims_at_server_def)
next
  case False
  with assms(2) show ?thesis by (simp add: http_round_def client_inv_def aims_at_server_def)
qed

lemma secured_quiet: "quiet_ext t t' \<Longrightarrow> secured t \<Longrightarrow> secured t'"
proof -
  have "list_all quiet evs \<Longrightarrow> secured t \<Longrightarrow> secured (evs @ t)" for evs
  proof (induction evs)
    case (Cons ev evs)
    then show ?case by (cases ev) simp_all
  qed simp
  then show "quiet_ext t t' \<Longrightarrow> secured t \<Longrightarrow> secured t'" by (auto simp: quiet_ext_def)
qed

lemma resolved_quiet: "quiet_ext t t' \<Longrightarrow> resolved t' = resolved t"
proof -
  have "list_all quiet evs \<Longrightarrow> resolved (evs @ t) = resolved t" for evs
  proof (induction evs)
    case (Cons ev evs)
    then show ?case by (cases ev) simp_all
  qed simp
  then show "quiet_ext t t' \<Longrightarrow> resolved t' = resolved t" by (auto simp: quiet_ext_def)
qed

text \<open>Whatever keeps the client half and adds only quiet entries keeps the client's invariant.\<close>

lemma client_inv_quiet:
  assumes "client_inv s" "keeps_client s t" "quiet_ext (trace s) (trace t)"
  shows "client_inv t"
  using assms secured_quiet [OF assms(3)] resolved_quiet [OF assms(3)]
  by (auto simp: client_inv_def aims_at_server_def keeps_clientD [OF assms(2)])

lemma start_http_thread_inv:
  assumes "errno_positive e" "client_inv s"
  shows "client_inv (snd (start_http_thread e pc s))"
proof (cases pc)
  case H_Start
  with assms(2) show ?thesis by (simp add: register_certificate_def client_inv_def aims_at_server_def)
next
  case H_Loop
  with http_round_inv [OF assms] show ?thesis by simp
qed

lemma start_http_thread_link: "keeps_link s (snd (start_http_thread e pc s))"
  using http_round_link [of s e] by (cases pc) (simp_all add: register_certificate_def keeps_link_def)


lemma http_round_suffix: "suffix (trace s) (trace (exec (http_round e) s))"
proof -
  have login: "suffix (trace s) (trace (exec (http_login e) s))"
    using http_login_keeps by (simp add: session_keeps_def)
  have post: "suffix (trace u) (trace (exec (http_post_patient_data e) u))" for u
    using http_post_keeps by (simp add: session_keeps_def)
  have "suffix (trace s) (trace (exec (http_post_patient_data e) (exec (http_login e) s\<lparr>http_state := 2\<rparr>)))"
    using login post [of "exec (http_login e) s\<lparr>http_state := 2\<rparr>"] suffix_order.trans by auto
  then show ?thesis
    using post [of s] by (simp add: http_round_def http_dispatch_def resolve_server_def suffix_ConsI)
qed

section \<open>From a login response to the header of a post\<close>

lemma save_token_token:
  assumes "str = pre @ TOKEN_KEY @ tok @ DQ # post" "\<forall>j < length pre. \<not> prefix TOKEN_KEY (drop j str)"
    "DQ \<notin> set tok" "NUL \<notin> set tok"
  shows "cstr (token (exec (save_token str) s)) = tok"
  using save_token_found [of pre tok post s] assms by simp

lemma response_cb_token:
  assumes body: "rsp_body_frag r = pre @ TOKEN_KEY @ tok @ DQ # post"
    and first: "\<forall>j < length pre. \<not> prefix TOKEN_KEY (drop j (rsp_body_frag r))"
    and clean: "NUL \<notin> set (rsp_body_frag r)" and tok: "DQ \<notin> set tok"
  shows "cstr (token (exec (response_cb r) s)) = tok"
proof -
  have "rsp_body_frag r \<noteq> []" using body by simp
  then obtain vs where "exec (response_cb r) s = exec (save_token (c_str (rsp_body_frag r))) (s\<lparr>viols := vs\<rparr>)"
    using response_cb_nonempty by blast
  moreover have "c_str (rsp_body_frag r) = rsp_body_frag r" using clean by simp
  moreover have "NUL \<notin> set tok" using clean body by simp
  ultimately show ?thesis using save_token_token [OF body first tok] by simp
qed

lemma response_cb_no_key:
  assumes "strstr (c_str (rsp_body_frag r)) TOKEN_KEY = None"
  shows "token (exec (response_cb r) s) = token s"
proof (cases "rsp_body_frag r = []")
  case True
  then show ?thesis by (simp add: response_cb_empty)
next
  case False
  then obtain vs where "exec (response_cb r) s = exec (save_token (c_str (rsp_body_frag r))) (s\<lparr>viols := vs\<rparr>)"
    using response_cb_nonempty by blast
  with save_token_absent [OF assms] show ?thesis by simp
qed

lemma fold_no_key:
  assumes "\<forall>g \<in> set gs. strstr (c_str (rsp_body_frag g)) TOKEN_KEY = None"
  shows "token (fold (\<lambda>r. exec (response_cb r)) gs s) = token s"
  using assms by (induction gs arbitrary: s) (simp_all add: response_cb_no_key)

lemma login_saves_token:
  assumes conn: "result (server_connect e) s = 0"
    and frags: "response_frags e s = fs @ r # gs"
    and body: "rsp_body_frag r = pre @ TOKEN_KEY @ tok @ DQ # post"
    and first: "\<forall>j < length pre. \<not> prefix TOKEN_KEY (drop j (rsp_body_frag r))"
    and clean: "NUL \<notin> set (rsp_body_frag r)" and tok: "DQ \<notin> set tok"
    and last: "\<forall>g \<in> set gs. strstr (c_str (rsp_body_frag g)) TOKEN_KEY = None"
  shows "cstr (token (exec (http_login e) s)) = tok"
  using response_cb_token [OF body first clean tok] fold_no_key [OF last]
  by (simp add: http_login_connected [OF conn] frags Let_def)

lemma post_sends_bearer:
  assumes "result (server_connect e) s = 0"
  shows "Io_Http (env_socket e (trace s)) (patient_request (bearer (cstr (token s)))) 5000
           (fst (env_http e (trace (exec (server_connect e) s))))
         \<in> set (trace (exec (http_post_patient_data e) s))"
  by (simp add: http_post_connected [OF assms] Let_def patient_cb.fold_keeps session_sent_simps)

section \<open>Properties\<close>

text \<open>C3. A token in a login response is the token of the next post. In state 1 with an address, if
  the login connection comes up and some fragment of the response holds
  \<^verbatim>\<open>"token":"tok"\<close> (its first key, no NUL byte, no later fragment with a key), and the connection
  for the data comes up too, then this same round sends the patient data with the header
  \<^verbatim>\<open>Authorization: Bearer tok\<close>.\<close>

theorem login_token_reaches_post:
  assumes st: "got_ip s" "http_state s = 1"
    and conn: "result (server_connect e) s = 0"
    and frags: "response_frags e s = fs @ r # gs"
    and body: "rsp_body_frag r = pre @ TOKEN_KEY @ tok @ DQ # post"
    and first: "\<forall>j < length pre. \<not> prefix TOKEN_KEY (drop j (rsp_body_frag r))"
    and clean: "NUL \<notin> set (rsp_body_frag r)" and tok: "DQ \<notin> set tok"
    and last: "\<forall>g \<in> set gs. strstr (c_str (rsp_body_frag g)) TOKEN_KEY = None"
    and conn': "result (server_connect e) (exec (http_login e) s\<lparr>http_state := 2\<rparr>) = 0"
  shows "\<exists>fd rc. Io_Http fd (patient_request (bearer tok)) 5000 rc \<in> set (trace (exec (http_round e) s))"
proof -
  have "cstr (token (exec (http_login e) s\<lparr>http_state := 2\<rparr>)) = tok"
    using login_saves_token [OF conn frags body first clean tok last] by simp
  then have "\<exists>fd rc. Io_Http fd (patient_request (bearer tok)) 5000 rc \<in> set (trace (exec (http_dispatch e) s))"
    using post_sends_bearer [OF conn'] by (auto simp: http_dispatch_login [OF st(2)])
  then show ?thesis using st(1) by (auto simp: http_round_def)
qed

lemma good_server_connect [simp]:
  "result (server_connect (good_env body)) s = 0"
  "trace (exec (server_connect (good_env body)) s) =
     Io_Connect 3 (server_info s) 0 # tls_prologue 3 @ trace s"
  by (simp_all add: server_connect_def tls_setup_def tls_prologue_def)

theorem login_token_reaches_post_witness:
  "\<exists>fd rc. Io_Http fd (patient_request (bearer ''abc'')) 5000 rc
     \<in> set (trace (exec (http_round (good_env (''{'' @ TOKEN_KEY @ ''abc'' @ DQ # ''}'')))
                (boot\<lparr>got_ip := True, http_state := 1\<rparr>)))"
  by (rule login_token_reaches_post [where r = "\<lparr>rsp_status = ''OK'', rsp_body_frag = ''{'' @ TOKEN_KEY @ ''abc'' @ DQ # ''}''\<rparr>"
        and fs = "[]" and gs = "[]" and pre = "''{''" and post = "''}''"])
     (simp_all add: response_frags_def TOKEN_KEY_def quoted_def)

text \<open>C8. Post sessions and descriptors. After \<^verbatim>\<open>http_post_patient_data\<close> the open descriptors are those
  from before, except when a socket was opened but the TLS set-up or the connection failed: then
  the new descriptor stays open for ever (\<^verbatim>\<open>sock_fd\<close> is overwritten by the next attempt).\<close>

theorem post_fd_balance:
  "open_fds (trace (exec (http_post_patient_data e) s)) =
     (if env_socket e (trace s) = -1 \<or> result (server_connect e) s = 0 then open_fds (trace s)
      else env_socket e (trace s) # open_fds (trace s))"
proof (cases "result (server_connect e) s = 0")
  case True
  then show ?thesis using server_connect_zero_fd [OF True]
    by (simp add: http_post_connected session_sent_simps patient_cb.fold_keeps server_connect_open_fds)
next
  case False
  then show ?thesis by (simp add: http_post_unconnected server_connect_open_fds)
qed


text \<open>C9. Login sessions and descriptors. \<^verbatim>\<open>http_login\<close> closes the socket it connected when the
  descriptor is positive; it leaves it open when the TLS set-up or the connection failed, and also
  when the connected descriptor is 0 (the test is \<^verbatim>\<open>sock_fd > 0\<close>).\<close>

theorem login_fd_balance:
  "open_fds (trace (exec (http_login e) s)) =
     (if env_socket e (trace s) = -1 \<or> result (server_connect e) s = 0 \<and> 0 < env_socket e (trace s)
      then open_fds (trace s) else env_socket e (trace s) # open_fds (trace s))"
proof (cases "result (server_connect e) s = 0")
  case True
  then show ?thesis using server_connect_zero_fd [OF True]
    by (simp add: http_login_connected session_sent_simps login_cb.fold_keeps server_connect_open_fds)
next
  case False
  then show ?thesis by (simp add: http_login_unconnected server_connect_open_fds)
qed

lemma refused_connect: "errno_positive e \<Longrightarrow> (\<And>t. env_connect e t < 0) \<Longrightarrow> (\<And>t. env_socket e t \<noteq> -1) \<Longrightarrow>
    result (server_connect e) s \<noteq> 0"
  by (auto simp: server_connect_def dest: errno_positiveD less_imp_neq [OF errno_positiveD])

lemma refused_round:
  assumes "errno_positive e" "\<And>t. env_connect e t < 0" "\<And>t. env_socket e t \<noteq> -1"
    and "got_ip s" "http_state s = 2"
  shows "length (open_fds (trace (exec (http_round e) s))) = Suc (length (open_fds (trace s)))"
    "got_ip (exec (http_round e) s)" "http_state (exec (http_round e) s) = 2"
proof -
  have no: "result (server_connect e) s \<noteq> 0" by (rule refused_connect [OF assms(1-3)])
  then show "length (open_fds (trace (exec (http_round e) s))) = Suc (length (open_fds (trace s)))"
    using assms(3-5)
    by (simp add: http_round_def http_dispatch_post http_post_unconnected server_connect_open_fds)
  show "got_ip (exec (http_round e) s)" "http_state (exec (http_round e) s) = 2"
    using assms(4,5) no server_connect_frame(1) [of s e]
    by (simp_all add: http_round_def http_dispatch_post http_post_unconnected server_connect_keeps keeps_link_def)
qed

text \<open>The leak accumulates: while the server refuses connections, each ten-second round of the data
  state opens one more descriptor and closes none, so after \<open>n\<close> rounds \<open>n\<close> more are open.\<close>

theorem refused_rounds_leak:
  assumes "errno_positive e" "\<And>t. env_connect e t < 0" "\<And>t. env_socket e t \<noteq> -1"
    and "got_ip s" "http_state s = 2"
  shows "length (open_fds (trace ((exec (http_round e) ^^ n) s))) = length (open_fds (trace s)) + n"
proof -
  have "length (open_fds (trace ((exec (http_round e) ^^ n) s))) = length (open_fds (trace s)) + n \<and>
        got_ip ((exec (http_round e) ^^ n) s) \<and> http_state ((exec (http_round e) ^^ n) s) = 2"
    by (induction n) (simp_all add: assms(4,5) refused_round [OF assms(1-3)])
  then show ?thesis by simp
qed

theorem refused_rounds_leak_witness:
  "length (open_fds (trace ((exec (http_round ((good_env [])\<lparr>env_connect := \<lambda>t. -1\<rparr>)) ^^ 7)
     (boot\<lparr>got_ip := True, http_state := 2\<rparr>)))) = 7"
  using refused_rounds_leak [of "(good_env [])\<lparr>env_connect := \<lambda>t. -1\<rparr>" "boot\<lparr>got_ip := True, http_state := 2\<rparr>" 7]
  by (simp add: errno_positive_def) (simp add: boot_def)

lemma patient_request_url [simp]: "req_url (patient_request a) \<noteq> LOGIN_PATH"
  by (simp add: patient_request_def LOGIN_PATH_def)

lemma tls_setup_no_login: "filter is_login (trace (exec (tls_setup e fd) s)) = filter is_login (trace s)"
  by (simp add: tls_setup_def)

lemma server_connect_no_login: "filter is_login (trace (exec (server_connect e) s)) = filter is_login (trace s)"
  by (simp add: server_connect_def tls_setup_no_login)

lemma http_post_no_login: "filter is_login (trace (exec (http_post_patient_data e) s)) = filter is_login (trace s)"
proof (cases "result (server_connect e) s = 0")
  case True
  then show ?thesis
    by (simp add: http_post_connected Let_def patient_cb.fold_keeps session_sent_simps server_connect_no_login)
next
  case False
  then show ?thesis by (simp add: http_post_unconnected server_connect_no_login)
qed

lemma data_round:
  assumes "got_ip s" "http_state s = 2"
  shows "filter is_login (trace (exec (http_round e) s)) = filter is_login (trace s)"
    "got_ip (exec (http_round e) s)" "http_state (exec (http_round e) s) = 2"
  using assms http_post_no_login [of e s] http_post_keeps [of s e]
  by (simp_all add: http_round_def http_dispatch_post session_keeps_def keeps_link_def)

text \<open>C24. The login happens once per address. In the data state, as long as the address stays, no number of
  rounds sends a login request or leaves the data state: a login that failed, or a token that has
  expired, is not renewed until the link loses its address.\<close>

theorem data_state_never_logs_in:
  assumes "got_ip s" "http_state s = 2"
  shows "filter is_login (trace ((exec (http_round e) ^^ n) s)) = filter is_login (trace s) \<and>
         http_state ((exec (http_round e) ^^ n) s) = 2"
proof -
  have "filter is_login (trace ((exec (http_round e) ^^ n) s)) = filter is_login (trace s) \<and>
        http_state ((exec (http_round e) ^^ n) s) = 2 \<and> got_ip ((exec (http_round e) ^^ n) s)"
    by (induction n) (simp_all add: assms data_round)
  then show ?thesis by simp
qed

theorem data_state_never_logs_in_witness:
  "filter is_login (trace ((exec (http_round (good_env [])) ^^ 9) (boot\<lparr>got_ip := True, http_state := 2\<rparr>))) = []"
  using data_state_never_logs_in [where s = "boot\<lparr>got_ip := True, http_state := 2\<rparr>" and e = "good_env []" and n = 9]
  by (simp add: boot_def)


text \<open>C27. Every non-empty fragment overruns the stack copy: both callbacks terminate
  \<^verbatim>\<open>body_buf\<close>, declared with exactly the fragment's length, one byte past its end; the patient
  callback changes nothing else but that record, and an empty fragment changes nothing.\<close>

theorem body_terminator_overruns:
  assumes "rsp_body_frag r \<noteq> []"
  defines "n \<equiv> length (rsp_body_frag r)"
  shows "Oob_Write Body_buf n (Suc n) \<in> set (viols (exec (response_cb r) s)) \<and>
         Oob_Write Body_buf n (Suc n) \<in> set (viols (exec (response_patient_cb r) s)) \<and>
         token (exec (response_patient_cb r) s) = token s"
proof -
  obtain vs where "exec (response_cb r) s =
      exec (save_token (c_str (rsp_body_frag r))) (s\<lparr>viols := vs @ Oob_Write Body_buf n (Suc n) # viols s\<rparr>)"
    using response_cb_nonempty [OF assms(1)] n_def by blast
  moreover obtain ws where "viols (exec (save_token (c_str (rsp_body_frag r))) u) = ws u @ viols u" for u
    using save_token_viols by metis
  ultimately show ?thesis
    using assms(1) by (simp add: response_patient_cb_def n_def)
qed

theorem body_terminator_overruns_witness:
  "Oob_Write Body_buf 2 3 \<in> set (viols (exec (response_cb \<lparr>rsp_status = ''OK'', rsp_body_frag = ''ok''\<rparr>) boot))"
  using body_terminator_overruns [of "\<lparr>rsp_status = ''OK'', rsp_body_frag = ''ok''\<rparr>" boot] by (simp add: eval_nat_numeral)

lemma response_cb_token_viols:
  assumes body: "rsp_body_frag r = pre @ TOKEN_KEY @ tok @ DQ # post"
    and first: "\<forall>j < length pre. \<not> prefix TOKEN_KEY (drop j (rsp_body_frag r))"
    and clean: "NUL \<notin> set (rsp_body_frag r)" and tok: "DQ \<notin> set tok"
  shows "\<exists>vs. viols (exec (response_cb r) s) =
           overrun (token s) (length tok) 1 @ overrun (token s) 0 (length tok) @ vs @ viols s \<and> vobj ` set vs \<subseteq> {Body_buf}"
proof -
  have "rsp_body_frag r \<noteq> []" using body by simp
  then obtain vs where vs: "exec (response_cb r) s = exec (save_token (c_str (rsp_body_frag r)))
     (s\<lparr>viols := vs @ Oob_Write Body_buf (length (rsp_body_frag r)) (Suc (length (rsp_body_frag r))) # viols s\<rparr>)"
    "vobj ` set vs \<subseteq> {Body_buf}"
    using response_cb_nonempty by blast
  have str: "c_str (rsp_body_frag r) = pre @ TOKEN_KEY @ tok @ DQ # post" using clean body by simp
  have "NUL \<notin> set tok" using clean body by simp
  with vs(2) show ?thesis
    unfolding vs(1) str by (subst save_token_found [OF first [unfolded body] tok]) auto
qed


text \<open>C25. The token buffer. For a response body that holds the token \<open>tok\<close>, the callback stores it
  correctly whatever its length, and leaves the 2048-byte array \<^verbatim>\<open>token\<close> exactly when \<open>tok\<close> has
  2048 bytes or more (a fragment may have up to 4096).\<close>

theorem token_overflow_iff:
  assumes body: "rsp_body_frag r = pre @ TOKEN_KEY @ tok @ DQ # post"
    and first: "\<forall>j < length pre. \<not> prefix TOKEN_KEY (drop j (rsp_body_frag r))"
    and clean: "NUL \<notin> set (rsp_body_frag r)" and tok: "DQ \<notin> set tok"
    and buf: "bname (token s) = Token" "bcap (token s) = TOKEN_SIZE"
    and none: "\<forall>v \<in> set (viols s). vobj v \<noteq> Token"
  shows "cstr (token (exec (response_cb r) s)) = tok \<and>
    ((\<exists>n. Oob_Write Token TOKEN_SIZE n \<in> set (viols (exec (response_cb r) s))) \<longleftrightarrow> TOKEN_SIZE \<le> length tok)"
proof -
  obtain vs where vs: "viols (exec (response_cb r) s) =
      overrun (token s) (length tok) 1 @ overrun (token s) 0 (length tok) @ vs @ viols s" "vobj ` set vs \<subseteq> {Body_buf}"
    using response_cb_token_viols [OF body first clean tok] by blast
  have "Oob_Write Token TOKEN_SIZE n \<notin> set (vs @ viols s)" for n
    using vs(2) none by (auto simp: image_subset_iff)
  then show ?thesis
    using response_cb_token [OF body first clean tok] buf unfolding vs(1) by (auto simp: overrun_def)
qed

theorem token_overflow_iff_witness:
  "\<exists>n. Oob_Write Token TOKEN_SIZE n \<in> set (viols (exec (response_cb
     \<lparr>rsp_status = ''OK'', rsp_body_frag = TOKEN_KEY @ replicate 3000 CHR ''a'' @ [DQ]\<rparr>) boot))"
proof -
  let ?r = "\<lparr>rsp_status = ''OK'', rsp_body_frag = TOKEN_KEY @ replicate 3000 CHR ''a'' @ [DQ]\<rparr>"
  have "cstr (token (exec (response_cb ?r) boot)) = replicate 3000 CHR ''a'' \<and>
    ((\<exists>n. Oob_Write Token TOKEN_SIZE n \<in> set (viols (exec (response_cb ?r) boot))) \<longleftrightarrow>
       TOKEN_SIZE \<le> length (replicate 3000 CHR ''a''))"
    by (rule token_overflow_iff [where pre = "[]" and post = "[]"])
       (simp_all add: TOKEN_KEY_def quoted_def boot_def)
  then show ?thesis by (simp add: TOKEN_SIZE_def)
qed

text \<open>C26. The authorisation header. A post over an established connection overruns the 1500-byte
  \<^verbatim>\<open>auth_buf\<close> exactly when the stored token has 1476 bytes or more: tokens of 1476 to 2047 bytes
  fit the token array and overflow the header.\<close>

theorem auth_overflow_iff:
  assumes conn: "result (server_connect e) s = 0" and buf: "bname (token s) = Token"
    and none: "\<forall>v \<in> set (viols s). vobj v \<noteq> Auth_buf"
  shows "(\<exists>n. Oob_Write Auth_buf AUTH_BUF_SIZE n \<in> set (viols (exec (http_post_patient_data e) s)))
         \<longleftrightarrow> 1476 \<le> length (cstr (token s))"
proof -
  have "Oob_Write Auth_buf AUTH_BUF_SIZE n \<in> set (viols (exec (http_post_patient_data e) s)) \<longleftrightarrow>
        Oob_Write Auth_buf AUTH_BUF_SIZE n \<in> set (viols (post_sent e s))" for n
    using buf by (simp add: http_post_connected [OF conn] Let_def patient_cb.fold_keeps_viols session_sent_simps)
  moreover have "Oob_Write Auth_buf AUTH_BUF_SIZE n \<in> set (viols (post_sent e s)) \<longleftrightarrow>
        1476 \<le> length (cstr (token s)) \<and> n = length (cstr (token s)) + 25" for n
    using none buf by (auto simp: session_sent_simps overrun_def overread_def AUTH_BUF_SIZE_def)
  ultimately show ?thesis by simp
qed

theorem auth_overflow_iff_witness:
  "\<not> (\<exists>n. Oob_Write Auth_buf AUTH_BUF_SIZE n \<in> set (viols (exec (http_post_patient_data (good_env [])) boot)))"
  using auth_overflow_iff [of "good_env []" boot] by (simp add: boot_def)

text \<open>Progress. When name resolution, socket, TLS options and connection succeed, two rounds with an
  address take the thread from its initial state to the data state, and the second one logs in and
  sends the patient data.\<close>

theorem two_rounds_post:
  assumes "got_ip s" "http_state s = 0"
    and ok: "\<And>t. fst (env_getaddrinfo e t) = 0" "\<And>u. result (server_connect e) u = 0"
  defines "s' \<equiv> exec (http_round e) (exec (http_round e) s)"
  shows "http_state s' = 2 \<and> (\<exists>io \<in> set (trace s'). is_login io) \<and>
         (\<exists>fd tok rc. Io_Http fd (patient_request (bearer tok)) 5000 rc \<in> set (trace s'))"
proof -
  let ?u = "exec (http_round e) s"
  have u: "got_ip ?u" "http_state ?u = 1"
    using assms(1,2) ok(1) http_round_link [of s e]
    by (simp_all add: http_round_def http_dispatch_def resolve_server_def)
  let ?v = "exec (http_login e) ?u\<lparr>http_state := 2\<rparr>"
  have s': "s' = exec (http_post_patient_data e) ?v\<lparr>trace := Io_Sleep 10000 # trace (exec (http_post_patient_data e) ?v)\<rparr>"
    using u by (simp add: s'_def http_round_def [of e] http_dispatch_login)
  have keeps: "session_keeps ?v (exec (http_post_patient_data e) ?v)" by (rule http_post_keeps)
  have "\<exists>io \<in> set (trace ?v). is_login io"
    by (simp add: http_login_connected [OF ok(2)] Let_def login_cb.fold_keeps session_sent_simps login_request_def)
  then have "\<exists>io \<in> set (trace s'). is_login io"
    using keeps set_mono_suffix [of "trace ?v"] by (auto simp: s' session_keeps_def)
  moreover have "http_state s' = 2" using keeps by (simp add: s' session_keeps_def)
  ultimately show ?thesis using post_sends_bearer [OF ok(2), of ?v] by (auto simp: s')
qed

theorem two_rounds_post_witness:
  "http_state (exec (http_round (good_env [])) (exec (http_round (good_env [])) (boot\<lparr>got_ip := True\<rparr>))) = 2"
  using two_rounds_post [of "boot\<lparr>got_ip := True\<rparr>" "good_env []"] by (simp add: boot_def)

end
