(* ===== verification/Http_Steps.thy ===== *)
theory Http_Steps
  imports Interleave Http_Client
begin

text \<open>
  The HTTPS client of \<^verbatim>\<open>http_app.c\<close> once more, statement by statement: every call into the platform,
  every callback and every access to a global is a step of its own, between which other threads may
  move. A call and the \<^verbatim>\<open>errno\<close> it leaves are one step, as \<^verbatim>\<open>errno\<close> belongs to the thread.
  Uninterrupted, these programs are the functions of \<open>Http_App\<close>.
\<close>

section \<open>TLS, resolution, connection\<close>

text \<open>A \<^verbatim>\<open>setsockopt\<close> with its error return.\<close>

definition tls_option :: "env \<Rightarrow> int \<Rightarrow> sockopt \<Rightarrow> (fw, int option) state" where
  "tls_option e fd opt = do {
     err \<leftarrow> setsockopt e fd opt;
     if err \<noteq> 0 then do { n \<leftarrow> get_errno e; ret (Some (- n)) } else ret None
   }"

definition tls_setup_steps :: "int \<Rightarrow> int prog" where
  "tls_setup_steps fd =
     and_then (call (\<lambda>e. tls_option e fd (TLS_PEER_VERIFY 0))) (\<lambda>failed. case failed of Some err \<Rightarrow> Done err | None \<Rightarrow>
     and_then (call (\<lambda>e. tls_option e fd (TLS_SEC_TAG_LIST [1]))) (\<lambda>failed. case failed of Some err \<Rightarrow> Done err | None \<Rightarrow>
     and_then (call (\<lambda>e. tls_option e fd (TLS_HOSTNAME HTTP_HOST))) (\<lambda>failed. case failed of Some err \<Rightarrow> Done err | None \<Rightarrow>
     Done 0)))"

definition resolve_server_steps :: "int prog" where
  "resolve_server_steps =
     and_then (call (\<lambda>e. ask (env_getaddrinfo e) (\<lambda>x. Io_Getaddrinfo HTTP_HOST (fst x) (snd x)))) (\<lambda>res.
     if fst res \<noteq> 0 then Done (-1)
     else
       and_then (call (\<lambda>e. modify (\<lambda>s. s\<lparr>server_info := \<lparr>sin_family = sin_family (snd res), sin_port = htons HTTP_PORT,
                                                         sin_addr = sin_addr (snd res)\<rparr>\<rparr>))) (\<lambda>_.
       and_then (call (\<lambda>e. emit Io_Freeaddrinfo)) (\<lambda>_. Done 0)))"

definition connect_call :: "env \<Rightarrow> int \<Rightarrow> sockaddr_in \<Rightarrow> (fw, int) state" where
  "connect_call e fd addr = do {
     err \<leftarrow> ask (env_connect e) (Io_Connect fd addr);
     if err < 0 then get_errno e else ret 0
   }"

definition server_connect_steps :: "int prog" where
  "server_connect_steps =
     and_then (call (\<lambda>e. ask (env_socket e) Io_Socket)) (\<lambda>fd.
     and_then (call (\<lambda>e. modify (\<lambda>s. s\<lparr>sock_fd := fd\<rparr>))) (\<lambda>_.
     if fd = -1 then Done fd
     else
       and_then (tls_setup_steps fd) (\<lambda>err.
       if err < 0 then Done err
       else
         and_then (call (\<lambda>e. gets server_info)) (\<lambda>addr. call (\<lambda>e. connect_call e fd addr)))))"

section \<open>Requests\<close>

fun each :: "('a \<Rightarrow> unit prog) \<Rightarrow> 'a list \<Rightarrow> unit prog" where
  "each body [] = Done ()"
| "each body (x # xs) = and_then (body x) (\<lambda>_. each body xs)"

text \<open>The library calls back in the thread that sent the request, once per fragment.\<close>

definition http_client_req_steps ::
  "int \<Rightarrow> http_request \<Rightarrow> nat \<Rightarrow> (http_response \<Rightarrow> (fw, int) state) \<Rightarrow> int prog" where
  "http_client_req_steps fd req timeout cb =
     and_then (call (\<lambda>e. ask (env_http e) (\<lambda>x. Io_Http fd req timeout (fst x)))) (\<lambda>x.
     and_then (each (\<lambda>r. and_then (call (\<lambda>e. cb r)) (\<lambda>_. Done ())) (snd x)) (\<lambda>_. Done (fst x)))"

definition close_sock_steps :: "int \<Rightarrow> unit prog" where
  "close_sock_steps fd = and_then (call (\<lambda>e. close_fd fd)) (\<lambda>_. call (\<lambda>e. modify (\<lambda>s. s\<lparr>sock_fd := -1\<rparr>)))"

definition http_login_steps :: "int prog" where
  "http_login_steps =
     and_then server_connect_steps (\<lambda>c.
     if c \<noteq> 0 then Done (-1)
     else
       and_then (call (\<lambda>e. do { body \<leftarrow> snprintk (new_buf Login_body 128) 128 login_form; buf_str body })) (\<lambda>payload.
       and_then (call (\<lambda>e. gets sock_fd)) (\<lambda>fd.
       and_then (http_client_req_steps fd (login_request payload) 5000 response_cb) (\<lambda>err.
       and_then (call (\<lambda>e. gets sock_fd)) (\<lambda>fd.
       and_then (if fd > 0 then close_sock_steps fd else Done ()) (\<lambda>_. Done err))))))"

definition http_post_patient_data_steps :: "int prog" where
  "http_post_patient_data_steps =
     and_then server_connect_steps (\<lambda>c.
     if c \<noteq> 0 then Done (-1)
     else
       and_then (call (\<lambda>e. do {
           tk \<leftarrow> gets token;
           tok \<leftarrow> buf_str tk;
           sprintf (new_buf Auth_buf AUTH_BUF_SIZE) (bearer tok)
         })) (\<lambda>auth_buf.
       and_then (call (\<lambda>e. gets sock_fd)) (\<lambda>fd.
       and_then (http_client_req_steps fd (patient_request (cstr auth_buf)) 5000 response_patient_cb) (\<lambda>err.
       and_then (call (\<lambda>e. gets sock_fd)) (\<lambda>fd.
       and_then (close_sock_steps fd) (\<lambda>_. Done err))))))"

section \<open>The loop\<close>

definition http_dispatch_steps :: "unit prog" where
  "http_dispatch_steps =
     and_then (call (\<lambda>e. gets http_state)) (\<lambda>st.
     if st = 0 then
       and_then resolve_server_steps (\<lambda>r.
       if r = 0 then call (\<lambda>e. modify (\<lambda>s. s\<lparr>http_state := 1\<rparr>)) else Done ())
     else if st = 1 then
       and_then http_login_steps (\<lambda>_.
       and_then (call (\<lambda>e. modify (\<lambda>s. s\<lparr>http_state := 2\<rparr>))) (\<lambda>_.
       and_then http_post_patient_data_steps (\<lambda>_. Done ())))
     else if st = 2 then and_then http_post_patient_data_steps (\<lambda>_. Done ())
     else Done ())"

text \<open>What follows the test of \<^verbatim>\<open>got_ip\<close> in one round of \<^verbatim>\<open>start_http_thread\<close>.\<close>

definition http_round_steps :: "bool \<Rightarrow> unit prog" where
  "http_round_steps ip =
     (if \<not> ip then
        and_then (call (\<lambda>e. k_sleep 1000)) (\<lambda>_. call (\<lambda>e. modify (\<lambda>s. s\<lparr>http_state := 0\<rparr>)))
      else and_then http_dispatch_steps (\<lambda>_. call (\<lambda>e. k_sleep 10000)))"

section \<open>Uninterrupted\<close>

lemma tls_option_simps [simp]:
  "exec (tls_option e fd opt) s = s\<lparr>trace := Io_Setsockopt fd opt (env_setsockopt e (trace s) opt) # trace s\<rparr>"
  "result (tls_option e fd opt) s =
     (if env_setsockopt e (trace s) opt \<noteq> 0
      then Some (- env_errno e (Io_Setsockopt fd opt (env_setsockopt e (trace s) opt) # trace s)) else None)"
  by (simp_all add: tls_option_def)

lemma run_tls_setup_steps: "prun (tls_setup_steps fd) e s = Some (run_state (tls_setup e fd) s)"
  by (simp add: tls_setup_steps_def tls_setup_def run_state_split)

lemma run_resolve_steps: "prun resolve_server_steps e s = Some (run_state (resolve_server e) s)"
  by (simp add: resolve_server_steps_def resolve_server_def run_state_split)

lemma run_server_connect_steps: "prun server_connect_steps e s = Some (run_state (server_connect e) s)"
  by (simp add: server_connect_steps_def server_connect_def connect_call_def run_tls_setup_steps run_state_split)

lemma run_each:
  "(\<And>x s. prun (body x) e s = Some ((), exec (m x) s)) \<Longrightarrow> prun (each body xs) e s = Some (run_state (for_each xs m) s)"
  by (induction xs arbitrary: s) (simp_all add: run_state_split)

lemma run_http_client_req_steps:
  "prun (http_client_req_steps fd req tmo cb) e s = Some (run_state (http_client_req e fd req tmo cb) s)"
  by (simp add: http_client_req_steps_def http_client_req_def run_each [where m = cb] run_state_split)

lemma run_http_login_steps: "prun http_login_steps e s = Some (run_state (http_login e) s)"
  by (simp add: http_login_steps_def http_login_def run_server_connect_steps run_http_client_req_steps
      close_sock_steps_def run_state_split Let_def)

lemma run_http_post_steps: "prun http_post_patient_data_steps e s = Some (run_state (http_post_patient_data e) s)"
  by (simp add: http_post_patient_data_steps_def http_post_patient_data_def run_server_connect_steps
      run_http_client_req_steps close_sock_steps_def run_state_split Let_def)

lemma run_http_dispatch_steps: "prun http_dispatch_steps e s = Some (run_state (http_dispatch e) s)"
  by (simp add: http_dispatch_steps_def http_dispatch_def run_resolve_steps run_http_login_steps
      run_http_post_steps run_state_split)

text \<open>A round that nobody interrupts is the round of \<open>Http_App\<close>.\<close>

lemma run_http_round_steps: "prun (http_round_steps (got_ip s)) e s = Some ((), exec (http_round e) s)"
  by (simp add: http_round_steps_def http_round_def run_http_dispatch_steps run_state_split)

section \<open>Every step keeps to the client's half\<close>

lemma mirrored_tls_option [mirrors]: "mirrored d (\<lambda>e. run_state (tls_option e fd opt))"
  by (rule mirroredI [where evs = "\<lambda>e u. [Io_Setsockopt fd opt (env_setsockopt e (trace u) opt)]"])
    (simp add: mirror_at_run graft_log)

lemma mirrored_connect_call [mirrors]: "mirrored d (\<lambda>e. run_state (connect_call e fd addr))"
  by (rule mirroredI [where evs = "\<lambda>e u. [Io_Connect fd addr (env_connect e (trace u))]"])
    (simp add: mirror_at_run graft_log connect_call_def)

lemma mirrored_violate [mirrors]: "mirrored Client_Side (\<lambda>e. run_state (violate vs))"
  unfolding violate_def by (rule mirrored_modify) (auto simp: keeps_client_def intro!: fw.equality)

lemma mirrored_buffers [mirrors]:
  "mirrored Client_Side (\<lambda>e. run_state (buf_write b off xs))" "mirrored Client_Side (\<lambda>e. run_state (buf_str b))"
  "mirrored Client_Side (\<lambda>e. run_state (sprintf b txt))" "mirrored Client_Side (\<lambda>e. run_state (snprintk b n txt))"
  unfolding buf_write_def buf_str_def sprintf_def snprintk_def by (intro mirrors refl)+

lemma mirrored_client_gets [mirrors]:
  "mirrored Client_Side (\<lambda>e. run_state (gets token))" "mirrored Client_Side (\<lambda>e. run_state (gets sock_fd))"
  "mirrored Client_Side (\<lambda>e. run_state (gets http_state))" "mirrored Client_Side (\<lambda>e. run_state (gets server_info))"
  by (rule mirrored_gets; simp add: keeps_client_def)+

lemma mirrored_client_modify [mirrors]:
  "mirrored Client_Side (\<lambda>e. run_state (modify (\<lambda>s. s\<lparr>token := tk\<rparr>)))"
  "mirrored Client_Side (\<lambda>e. run_state (modify (\<lambda>s. s\<lparr>sock_fd := fd\<rparr>)))"
  "mirrored Client_Side (\<lambda>e. run_state (modify (\<lambda>s. s\<lparr>http_state := st\<rparr>)))"
  "mirrored Client_Side (\<lambda>e. run_state (modify (\<lambda>s. s\<lparr>server_info := a\<rparr>)))"
  by (rule mirrored_modify; auto simp: keeps_client_def intro!: fw.equality)+

lemma mirrored_save_token [mirrors]: "mirrored Client_Side (\<lambda>e. run_state (save_token str))"
  unfolding save_token_def Let_def by (intro mirrors refl)

lemma mirrored_callbacks [mirrors]:
  "mirrored Client_Side (\<lambda>e. run_state (response_cb r))" "mirrored Client_Side (\<lambda>e. run_state (response_patient_cb r))"
  unfolding response_cb_def response_patient_cb_def body_copy_def Let_def by (intro mirrors refl)+

named_theorems steps_mirror \<open>programs whose steps are mirrored\<close>

lemmas [steps_mirror] = steps_mirrored.finished steps_mirrored_and_then steps_mirrored_call

lemma steps_mirrored_if [steps_mirror]:
  "steps_mirrored d p \<Longrightarrow> steps_mirrored d q \<Longrightarrow> steps_mirrored d (if b then p else q)"
  by simp

lemma steps_mirrored_option [steps_mirror]:
  "steps_mirrored d p \<Longrightarrow> (\<And>a. steps_mirrored d (q a)) \<Longrightarrow> steps_mirrored d (case x of None \<Rightarrow> p | Some a \<Rightarrow> q a)"
  by (cases x) simp_all

lemma steps_mirrored_each [steps_mirror]: "(\<And>x. steps_mirrored d (body x)) \<Longrightarrow> steps_mirrored d (each body xs)"
  by (induction xs) (simp_all add: steps_mirrored.finished steps_mirrored_and_then)

lemma tls_setup_mirrored [steps_mirror]: "steps_mirrored Client_Side (tls_setup_steps fd)"
  unfolding tls_setup_steps_def by (intro steps_mirror mirrors)

lemma resolve_mirrored [steps_mirror]: "steps_mirrored Client_Side resolve_server_steps"
  unfolding resolve_server_steps_def by (intro steps_mirror mirrors) simp_all

lemma server_connect_mirrored [steps_mirror]: "steps_mirrored Client_Side server_connect_steps"
  unfolding server_connect_steps_def by (intro steps_mirror mirrors) simp_all

lemma http_client_req_mirrored [steps_mirror]:
  "(\<And>r. mirrored Client_Side (\<lambda>e. run_state (cb r))) \<Longrightarrow> steps_mirrored Client_Side (http_client_req_steps fd req tmo cb)"
  unfolding http_client_req_steps_def by (intro steps_mirror mirrors) simp_all

lemma close_sock_mirrored [steps_mirror]: "steps_mirrored Client_Side (close_sock_steps fd)"
  unfolding close_sock_steps_def close_fd_def by (intro steps_mirror mirrors)

lemma http_login_mirrored [steps_mirror]: "steps_mirrored Client_Side http_login_steps"
  unfolding http_login_steps_def by (intro steps_mirror mirrors)

lemma http_post_mirrored [steps_mirror]: "steps_mirrored Client_Side http_post_patient_data_steps"
  unfolding http_post_patient_data_steps_def by (intro steps_mirror mirrors)

lemma http_dispatch_mirrored [steps_mirror]: "steps_mirrored Client_Side http_dispatch_steps"
  unfolding http_dispatch_steps_def by (intro steps_mirror mirrors)

lemma http_round_mirrored: "steps_mirrored Client_Side (http_round_steps ip)"
  unfolding http_round_steps_def k_sleep_def by (intro steps_mirror mirrors)

section \<open>How many steps a round takes\<close>

lemma within_option:
  "within e n p \<Longrightarrow> (\<And>a. within e n (q a)) \<Longrightarrow> within e n (case x of None \<Rightarrow> p | Some a \<Rightarrow> q a)"
  by (cases x) simp_all

lemma within_if: "within e n p \<Longrightarrow> within e n q \<Longrightarrow> within e n (if b then p else q)"
  by simp

lemma within_each: "(\<And>x. within e n (body x)) \<Longrightarrow> within e (length xs * n) (each body xs)"
proof (induction xs)
  case Nil
  then show ?case by (simp add: within_Done)
next
  case (Cons x xs)
  then show ?case using within_and_then [of e n "body x"] by simp
qed

lemma tls_setup_within: "within e 3 (tls_setup_steps fd)"
  unfolding tls_setup_steps_def numeral_3_eq_3
  by (intro within_call_then within_option within_Done)

lemma resolve_within: "within e 3 resolve_server_steps"
  unfolding resolve_server_steps_def numeral_3_eq_3
  by (intro within_call_then within_if within_Done)

lemma server_connect_within: "within e 7 server_connect_steps"
proof -
  have "within e (Suc (Suc (3 + Suc (Suc 0)))) server_connect_steps"
    unfolding server_connect_steps_def
    by (intro within_call_then within_if within_and_then tls_setup_within within_call within_Done)
  then show ?thesis by (rule within_mono) simp
qed

text \<open>From here on the number of response fragments matters.\<close>

lemma http_client_req_within:
  assumes "\<And>t. length (snd (env_http e t)) \<le> m"
  shows "within e (Suc m) (http_client_req_steps fd req tmo cb)"
  unfolding http_client_req_steps_def
proof (rule within_call_then)
  fix s
  let ?x = "result (ask (env_http e) (\<lambda>x. Io_Http fd req tmo (fst x))) s"
  have "within e (length (snd ?x) * 1) (each (\<lambda>r. and_then (call (\<lambda>e. cb r)) (\<lambda>_. Done ())) (snd ?x))"
    by (rule within_each) (simp add: within_call_then within_Done)
  moreover have "length (snd ?x) \<le> m" using assms by simp
  ultimately have "within e m (each (\<lambda>r. and_then (call (\<lambda>e. cb r)) (\<lambda>_. Done ())) (snd ?x))"
    using within_mono by simp
  then show "within e m (and_then (each (\<lambda>r. and_then (call (\<lambda>e. cb r)) (\<lambda>_. Done ())) (snd ?x)) (\<lambda>_. Done (fst ?x)))"
    by (rule within_and_then [of e m _ 0, simplified]) (rule within_Done)
qed

lemma close_sock_within: "within e 2 (close_sock_steps fd)"
  unfolding close_sock_steps_def numeral_2_eq_2 by (intro within_call_then within_call)

lemma http_login_within:
  assumes "\<And>t. length (snd (env_http e t)) \<le> m"
  shows "within e (13 + m) http_login_steps"
proof -
  have "within e (7 + Suc (Suc (Suc m + Suc (2 + 0)))) http_login_steps"
    unfolding http_login_steps_def
    by (intro within_and_then within_if within_call_then within_Done server_connect_within close_sock_within
        http_client_req_within assms)
  then show ?thesis by (rule within_mono) simp
qed

lemma http_post_within:
  assumes "\<And>t. length (snd (env_http e t)) \<le> m"
  shows "within e (13 + m) http_post_patient_data_steps"
proof -
  have "within e (7 + Suc (Suc (Suc m + Suc (2 + 0)))) http_post_patient_data_steps"
    unfolding http_post_patient_data_steps_def
    by (intro within_and_then within_if within_call_then within_Done server_connect_within close_sock_within
        http_client_req_within assms)
  then show ?thesis by (rule within_mono) simp
qed

lemma http_dispatch_within:
  assumes "\<And>t. length (snd (env_http e t)) \<le> m"
  shows "within e (28 + 2 * m) http_dispatch_steps"
proof -
  have "within e (3 + Suc 0) (and_then resolve_server_steps
      (\<lambda>r. if r = 0 then call (\<lambda>e. modify (\<lambda>s. s\<lparr>http_state := 1\<rparr>)) else Done ()))"
    by (intro within_and_then resolve_within within_if within_Done within_call)
  moreover have "within e ((13 + m) + Suc ((13 + m) + 0)) (and_then http_login_steps (\<lambda>_.
      and_then (call (\<lambda>e. modify (\<lambda>s. s\<lparr>http_state := 2\<rparr>))) (\<lambda>_.
      and_then http_post_patient_data_steps (\<lambda>_. Done ()))))"
    by (intro within_and_then within_call_then http_login_within http_post_within assms within_Done)
  moreover have "within e ((13 + m) + 0) (and_then http_post_patient_data_steps (\<lambda>_. Done ()))"
    by (intro within_and_then http_post_within assms within_Done)
  ultimately have "within e (Suc (27 + 2 * m)) http_dispatch_steps"
    unfolding http_dispatch_steps_def
    by (intro within_call_then within_if within_Done) (erule within_mono, simp)+
  then show ?thesis by (rule within_mono) simp
qed

text \<open>A round takes at most 29 steps and two for each fragment of a response.\<close>

lemma http_round_within:
  assumes "\<And>t. length (snd (env_http e t)) \<le> m"
  shows "within e (29 + 2 * m) (http_round_steps ip)"
proof -
  have "within e (28 + 2 * m + Suc 0) (and_then http_dispatch_steps (\<lambda>_. call (\<lambda>e. k_sleep 10000)))"
    by (intro within_and_then http_dispatch_within assms within_call)
  then have "within e (29 + 2 * m) (and_then http_dispatch_steps (\<lambda>_. call (\<lambda>e. k_sleep 10000)))"
    by (rule within_mono) simp
  moreover have "within e (Suc (Suc 0)) (and_then (call (\<lambda>e. k_sleep 1000)) (\<lambda>_. call (\<lambda>e. modify (\<lambda>s. s\<lparr>http_state := 0\<rparr>))))"
    by (intro within_call_then within_call)
  then have "within e (29 + 2 * m) (and_then (call (\<lambda>e. k_sleep 1000)) (\<lambda>_. call (\<lambda>e. modify (\<lambda>s. s\<lparr>http_state := 0\<rparr>))))"
    by (rule within_mono) simp
  ultimately show ?thesis unfolding http_round_steps_def by (rule within_if [rotated])
qed

end
