(* ===== verification/Link_Spec.thy ===== *)
theory Link_Spec
  imports Firmware
begin

text \<open>
  The abstract link: what the Wi-Fi event handlers of the three station programs
  (\<^verbatim>\<open>wifi_sta.c\<close>, \<^verbatim>\<open>app.c\<close>, \<^verbatim>\<open>app_bk.c\<close>) promise, independent of the bit fields they keep it
  in. The locale \<open>link_handlers\<close> is the contract; its lemmas lift it from one event to any
  sequence of events. Each station theory interprets it with its own handlers.
\<close>

section \<open>The abstract link\<close>

datatype link = Link_Waiting | Link_Down | Link_Up

type_synonym link_view = "link \<times> bool"

definition link_view :: "fw \<Rightarrow> link_view" where
  "link_view s = ((if connected s then Link_Up else if connect_result s then Link_Down else Link_Waiting), got_ip s)"

fun link_step :: "mgmt_event \<Rightarrow> int \<Rightarrow> link_view \<Rightarrow> link_view" where
  "link_step NET_EVENT_WIFI_CONNECT_RESULT status (l, ip) =
     (if l = Link_Up then Link_Up else if status = 0 then Link_Up else Link_Down, ip)"
| "link_step NET_EVENT_WIFI_DISCONNECT_RESULT status (l, ip) = (if l = Link_Up then Link_Down else l, False)"
| "link_step NET_EVENT_IPV4_DHCP_BOUND status (l, ip) = (l, True)"
| "link_step (NET_EVENT_OTHER _) status v = v"

definition link_inv :: "fw \<Rightarrow> bool" where
  "link_inv s \<longleftrightarrow> (connected s \<longrightarrow> connect_result s) \<and> \<not> disconnect_requested s"

section \<open>Event delivery\<close>

text \<open>The management thread passes an event to every registered callback whose mask has it.\<close>

definition registrations :: "(mgmt_handler \<times> mgmt_event list) list" where
  "registrations = [(Net_Mgmt_Event_Handler, [NET_EVENT_IPV4_DHCP_BOUND]),
     (Wifi_Mgmt_Event_Handler, [NET_EVENT_WIFI_CONNECT_RESULT, NET_EVENT_WIFI_DISCONNECT_RESULT])]"

type_synonym handler = "mgmt_cb \<Rightarrow> mgmt_event \<Rightarrow> fw \<Rightarrow> fw"

fun dispatch :: "handler \<Rightarrow> handler \<Rightarrow> mgmt_cb \<Rightarrow> mgmt_event \<Rightarrow> (mgmt_handler \<times> mgmt_event list) list \<Rightarrow> fw \<Rightarrow> fw" where
  "dispatch wifi_h net_h cb ev [] s = s"
| "dispatch wifi_h net_h cb ev ((h, msk) # rest) s =
     dispatch wifi_h net_h cb ev rest
       (if ev \<in> set msk
        then (case h of Wifi_Mgmt_Event_Handler \<Rightarrow> wifi_h cb ev s | Net_Mgmt_Event_Handler \<Rightarrow> net_h cb ev s)
        else s)"

definition deliver :: "handler \<Rightarrow> handler \<Rightarrow> mgmt_cb \<Rightarrow> mgmt_event \<Rightarrow> fw \<Rightarrow> fw" where
  "deliver wifi_h net_h cb ev s =
     dispatch wifi_h net_h cb ev (callbacks s) (s\<lparr>trace := Io_Event ev # trace s\<rparr>)"

text \<open>What a run of events leaves of the address: the last disconnection or binding decides.\<close>

fun ip_after :: "(mgmt_cb \<times> mgmt_event) list \<Rightarrow> bool \<Rightarrow> bool" where
  "ip_after [] ip = ip"
| "ip_after ((cb, ev) # evs) ip =
     ip_after evs (if ev = NET_EVENT_IPV4_DHCP_BOUND then True
       else if ev = NET_EVENT_WIFI_DISCONNECT_RESULT then False else ip)"

section \<open>The contract\<close>

locale link_handlers =
  fixes wifi_h net_h :: handler
  assumes wifi_connect_law: "link_inv s \<Longrightarrow>
      link_inv (wifi_h cb NET_EVENT_WIFI_CONNECT_RESULT s) \<and>
      link_view (wifi_h cb NET_EVENT_WIFI_CONNECT_RESULT s) =
        link_step NET_EVENT_WIFI_CONNECT_RESULT (cb_status cb) (link_view s)"
    and wifi_disconnect_law: "link_inv s \<Longrightarrow>
      link_inv (wifi_h cb NET_EVENT_WIFI_DISCONNECT_RESULT s) \<and>
      link_view (wifi_h cb NET_EVENT_WIFI_DISCONNECT_RESULT s) =
        link_step NET_EVENT_WIFI_DISCONNECT_RESULT (cb_status cb) (link_view s)"
    and net_bound_law: "link_inv s \<Longrightarrow>
      link_inv (net_h cb NET_EVENT_IPV4_DHCP_BOUND s) \<and>
      link_view (net_h cb NET_EVENT_IPV4_DHCP_BOUND s) =
        link_step NET_EVENT_IPV4_DHCP_BOUND (cb_status cb) (link_view s)"
    and wifi_frame: "callbacks (wifi_h cb ev s) = callbacks s" "ready_sem (wifi_h cb ev s) = ready_sem s"
      "wifi_ready_status (wifi_h cb ev s) = wifi_ready_status s" "keeps_client s (wifi_h cb ev s)"
    and net_frame: "callbacks (net_h cb ev s) = callbacks s" "ready_sem (net_h cb ev s) = ready_sem s"
      "wifi_ready_status (net_h cb ev s) = wifi_ready_status s" "keeps_client s (net_h cb ev s)"
    and quiet_handlers: "quiet_ext (trace s) (trace (wifi_h cb ev s))" "quiet_ext (trace s) (trace (net_h cb ev s))"
begin

lemma log_event: "link_inv (s\<lparr>trace := t\<rparr>) = link_inv s" "link_view (s\<lparr>trace := t\<rparr>) = link_view s"
  by (simp_all add: link_inv_def link_view_def)

lemma deliver_refines:
  assumes "callbacks s = registrations" "link_inv s"
  shows "link_inv (deliver wifi_h net_h cb ev s)"
    "link_view (deliver wifi_h net_h cb ev s) = link_step ev (cb_status cb) (link_view s)"
  using assms wifi_connect_law wifi_disconnect_law net_bound_law
  by (cases ev; simp add: deliver_def registrations_def log_event)+

lemma deliver_frame:
  assumes "callbacks s = registrations"
  shows "callbacks (deliver wifi_h net_h cb ev s) = registrations"
    "ready_sem (deliver wifi_h net_h cb ev s) = ready_sem s"
    "wifi_ready_status (deliver wifi_h net_h cb ev s) = wifi_ready_status s"
    "keeps_client s (deliver wifi_h net_h cb ev s)"
  using assms wifi_frame(4) [of "s\<lparr>trace := Io_Event ev # trace s\<rparr>" cb ev]
    net_frame(4) [of "s\<lparr>trace := Io_Event ev # trace s\<rparr>" cb ev]
  by (cases ev; simp add: deliver_def registrations_def wifi_frame net_frame keeps_client_def)+

lemma dispatch_quiet: "quiet_ext (trace s) (trace (dispatch wifi_h net_h cb ev regs s))"
proof (induction regs arbitrary: s)
  case Nil
  show ?case by simp
next
  case (Cons reg regs)
  obtain h msk where reg: "reg = (h, msk)" by (cases reg)
  show ?case
    using Cons.IH quiet_ext_trans [OF quiet_handlers(1) Cons.IH] quiet_ext_trans [OF quiet_handlers(2) Cons.IH]
    by (simp add: reg split: mgmt_handler.split)
qed

lemma deliver_quiet: "quiet_ext (trace s) (trace (deliver wifi_h net_h cb ev s))"
  using dispatch_quiet [of "s\<lparr>trace := Io_Event ev # trace s\<rparr>" cb ev "callbacks s"]
    quiet_ext_trans [of "trace s" "Io_Event ev # trace s"]
  by (simp add: deliver_def)

lemma dispatch_client: "keeps_client s (dispatch wifi_h net_h cb ev regs s)"
proof (induction regs arbitrary: s)
  case Nil
  show ?case by simp
next
  case (Cons reg regs)
  obtain h msk where reg: "reg = (h, msk)" by (cases reg)
  show ?case
    using Cons.IH keeps_client_trans [OF wifi_frame(4) Cons.IH] keeps_client_trans [OF net_frame(4) Cons.IH]
    by (simp add: reg split: mgmt_handler.split)
qed

lemma deliver_client: "keeps_client s (deliver wifi_h net_h cb ev s)"
  using dispatch_client [of "s\<lparr>trace := Io_Event ev # trace s\<rparr>" cb ev "callbacks s"]
  by (simp add: deliver_def keeps_client_def)

lemma deliver_logs: "Io_Event ev \<in> set (trace (deliver wifi_h net_h cb ev s))"
  using quiet_ext_set [OF dispatch_quiet [of "s\<lparr>trace := Io_Event ev # trace s\<rparr>" cb ev "callbacks s"]]
  by (auto simp: deliver_def)

text \<open>Any sequence of events, in any order: the handlers simulate the abstract link step by step.\<close>

lemma events_refine:
  assumes "callbacks s = registrations" "link_inv s"
  defines "run \<equiv> \<lambda>evs. fold (\<lambda>(cb, ev). deliver wifi_h net_h cb ev) evs s"
  shows "callbacks (run evs) = registrations" "link_inv (run evs)"
    "link_view (run evs) = fold (\<lambda>(cb, ev). link_step ev (cb_status cb)) evs (link_view s)"
  unfolding run_def using assms(1,2)
  by (induction evs arbitrary: s) (auto simp: deliver_refines deliver_frame)

lemma abstract_ip: "snd (fold (\<lambda>(cb, ev). link_step ev (cb_status cb)) evs v) = ip_after evs (snd v)"
proof (induction evs arbitrary: v)
  case Nil
  show ?case by simp
next
  case (Cons x evs)
  obtain cb ev where "x = (cb, ev)" by (cases x)
  moreover obtain l ip where "v = (l, ip)" by (cases v)
  ultimately show ?case using Cons.IH by (cases ev) simp_all
qed

lemma events_ip:
  assumes "callbacks s = registrations" "link_inv s"
  shows "got_ip (fold (\<lambda>(cb, ev). deliver wifi_h net_h cb ev) evs s) = ip_after evs (got_ip s)"
  using events_refine(3) [OF assms, of evs] abstract_ip [of evs "link_view s"]
  by (simp add: link_view_def) (metis snd_conv)

end

end
