(* ===== verification/Trace_Order.thy ===== *)
theory Trace_Order
  imports Firmware
begin

text \<open>
  Vocabulary for the order of entries in a trace, shared by the theories of whole images: one kind
  of entry preceded by another, the entries that matter at start-up, and extensions by idle entries.
\<close>

section \<open>Definitions\<close>

text \<open>The order in which things happened: every entry of one kind has an older entry of another
  (the trace is newest first).\<close>

fun preceded :: "(io \<Rightarrow> bool) \<Rightarrow> (io \<Rightarrow> bool) \<Rightarrow> trace \<Rightarrow> bool" where
  "preceded p q [] = True"
| "preceded p q (ev # t) = ((p ev \<longrightarrow> list_ex q t) \<and> preceded p q t)"

fun needs_address :: "io \<Rightarrow> bool" where
  "needs_address (Io_Getaddrinfo _ _ _) = True"
| "needs_address (Io_Socket _) = True"
| "needs_address (Io_Http _ _ _ _) = True"
| "needs_address _ = False"

fun association_request :: "io \<Rightarrow> bool" where
  "association_request (Io_Net_Mgmt NET_REQUEST_WIFI_CONNECT_STORED _) = True"
| "association_request _ = False"

definition association_result :: "io \<Rightarrow> bool" where
  "association_result ev \<longleftrightarrow> ev = Io_Event NET_EVENT_WIFI_CONNECT_RESULT"

definition address_bound :: "io \<Rightarrow> bool" where
  "address_bound ev \<longleftrightarrow> ev = Io_Event NET_EVENT_IPV4_DHCP_BOUND"

definition driver_ready :: "io \<Rightarrow> bool" where
  "driver_ready ev \<longleftrightarrow> ev = Io_Ready_Event True"

text \<open>What every step but the connection request and the HTTP round adds to the trace.\<close>

definition idle_ext :: "trace \<Rightarrow> trace \<Rightarrow> bool" where
  "idle_ext t t' \<longleftrightarrow> (\<exists>evs. t' = evs @ t \<and> list_all (\<lambda>ev. quiet ev \<and> \<not> association_request ev) evs)"

text \<open>The thread's own idle steps write at most the link flags, downwards.\<close>

definition idle_step :: "fw \<Rightarrow> fw \<Rightarrow> bool" where
  "idle_step s t \<longleftrightarrow> keeps_client s t \<and> idle_ext (trace s) (trace t) \<and> callbacks t = callbacks s \<and>
     ready_sem t \<le> ready_sem s \<and> got_ip t = got_ip s \<and> wifi_ready_status t = wifi_ready_status s \<and>
     (\<forall>n. bit (ctx t) n \<longrightarrow> bit (ctx s) n)"

section \<open>Laws\<close>

lemma preceded_app: "preceded p q t \<Longrightarrow> list_ex q t \<Longrightarrow> preceded p q (evs @ t)"
  by (induction evs) auto

lemma preceded_silent: "preceded p q t \<Longrightarrow> list_all (\<lambda>ev. \<not> p ev) evs \<Longrightarrow> preceded p q (evs @ t)"
  by (induction evs) auto

lemma idle_ext_refl [simp]: "idle_ext t t"
  by (simp add: idle_ext_def)

lemma idle_ext_Cons [simp]: "quiet ev \<Longrightarrow> \<not> association_request ev \<Longrightarrow> idle_ext t t' \<Longrightarrow> idle_ext t (ev # t')"
  by (auto simp: idle_ext_def intro: exI [of _ "ev # _"])

lemma idle_ext_trans: "idle_ext t t' \<Longrightarrow> idle_ext t' t'' \<Longrightarrow> idle_ext t t''"
  by (force simp: idle_ext_def)

lemma idle_ext_quiet: "idle_ext t t' \<Longrightarrow> quiet_ext t t'"
  by (auto simp: idle_ext_def quiet_ext_def list_all_iff)

lemma idle_ext_suffix: "idle_ext t t' \<Longrightarrow> suffix t t'"
  by (auto simp: idle_ext_def suffix_def)

lemma needs_address_noisy: "needs_address ev \<Longrightarrow> \<not> quiet ev"
  by (cases ev) simp_all

lemma list_ex_suffix: "suffix t t' \<Longrightarrow> list_ex p t \<Longrightarrow> list_ex p t'"
  by (auto simp: suffix_def)

lemma preceded_online:
  "preceded p q t \<Longrightarrow> list_ex q t \<Longrightarrow> suffix t t' \<Longrightarrow> preceded p q t'"
  by (auto simp: suffix_def preceded_app)

lemma preceded_idle: "preceded needs_address q t \<Longrightarrow> idle_ext t t' \<Longrightarrow> preceded needs_address q t'"
proof -
  assume "preceded needs_address q t" and "idle_ext t t'"
  moreover then obtain evs where "t' = evs @ t" "list_all (\<lambda>ev. quiet ev \<and> \<not> association_request ev) evs"
    by (auto simp: idle_ext_def)
  moreover from this(2) have "list_all (\<lambda>ev. \<not> needs_address ev) evs"
    using needs_address_noisy by (auto simp: list_all_iff)
  ultimately show "preceded needs_address q t'" by (simp add: preceded_silent)
qed

lemma k_sem_take_idle: "k_sem_take e s = Some (r, t) \<Longrightarrow> idle_step s t"
  by (erule k_sem_take_cases) (auto simp: idle_step_def keeps_client_def)


end
