(* ===== verification/Wifi_Sta.thy ===== *)
theory Wifi_Sta
  imports Http_Client Link_Spec Trace_Order
begin

text \<open>
  \<^verbatim>\<open>src/src/wifi/wifi_sta.c\<close> and \<^verbatim>\<open>src/src/main.c\<close>: the Wi-Fi station of the firmware
  that \<^verbatim>\<open>CMakeLists.txt\<close> builds. The management-event handlers that keep the link flags and
  \<^verbatim>\<open>got_ip\<close>, the connection request, the readiness callback, and the Wi-Fi thread, written as a
  program counter over its statements so that events of other threads can come between them.
\<close>

section \<open>Status, handlers, requests\<close>

definition ENOEXEC :: int where "ENOEXEC = 8"

definition cmd_wifi_status :: "env \<Rightarrow> (fw, int) state" where
  "cmd_wifi_status e = do {
     r \<leftarrow> ask (\<lambda>t. env_net_mgmt e t NET_REQUEST_WIFI_IFACE_STATUS) (Io_Net_Mgmt NET_REQUEST_WIFI_IFACE_STATUS);
     status \<leftarrow> gets (\<lambda>s. env_iface_status e (trace s));
     if r \<noteq> 0 then ret (- ENOEXEC)
     else do {
       emit (Io_Status [SF_State (st_state status)]);
       when_do (st_state status \<ge> env_wifi_state_associated e)
         (emit (Io_Status [SF_Iface_Mode (st_iface_mode status), SF_Link_Mode (st_link_mode status),
            SF_Ssid (take 32 (st_ssid status)), SF_Bssid (st_bssid status), SF_Band (st_band status),
            SF_Channel (st_channel status), SF_Security (st_security status), SF_Mfp (st_mfp status),
            SF_Rssi (st_rssi status)]));
       ret 0
     }
   }"

definition handle_wifi_connect_result :: "mgmt_cb \<Rightarrow> (fw, unit) state" where
  "handle_wifi_connect_result cb = do {
     c \<leftarrow> gets connected;
     if c then ret ()
     else do {
       (if cb_status cb \<noteq> 0 then ret () else modify (put_bit 0 True));
       modify (put_bit 1 True)
     }
   }"

definition handle_wifi_disconnect_result :: "env \<Rightarrow> mgmt_cb \<Rightarrow> (fw, unit) state" where
  "handle_wifi_disconnect_result e cb = do {
     c \<leftarrow> gets connected;
     if \<not> c then ret ()
     else do {
       req \<leftarrow> gets disconnect_requested;
       (if req then modify (put_bit 2 False) else modify (put_bit 0 False));
       _ \<leftarrow> cmd_wifi_status e;
       ret ()
     }
   }"

definition wifi_mgmt_event_handler :: "env \<Rightarrow> mgmt_cb \<Rightarrow> mgmt_event \<Rightarrow> (fw, unit) state" where
  "wifi_mgmt_event_handler e cb ev =
     (case ev of
        NET_EVENT_WIFI_CONNECT_RESULT \<Rightarrow> handle_wifi_connect_result cb
      | NET_EVENT_WIFI_DISCONNECT_RESULT \<Rightarrow> do {
          handle_wifi_disconnect_result e cb;
          modify (\<lambda>s. s\<lparr>got_ip := False\<rparr>)
        }
      | _ \<Rightarrow> ret ())"

definition print_dhcp_ip :: "mgmt_cb \<Rightarrow> (fw, unit) state" where
  "print_dhcp_ip cb = emit (Io_Log_Ip (cb_requested_ip cb))"

definition net_mgmt_event_handler :: "mgmt_cb \<Rightarrow> mgmt_event \<Rightarrow> (fw, unit) state" where
  "net_mgmt_event_handler cb ev =
     (case ev of
        NET_EVENT_IPV4_DHCP_BOUND \<Rightarrow> do {
          print_dhcp_ip cb;
          modify (\<lambda>s. s\<lparr>got_ip := True\<rparr>)
        }
      | _ \<Rightarrow> ret ())"

text \<open>The last statements of \<^verbatim>\<open>wifi_connect\<close>, after the two flags have been cleared.\<close>

definition wifi_connect_request :: "env \<Rightarrow> (fw, int) state" where
  "wifi_connect_request e = do {
     r \<leftarrow> ask (\<lambda>t. env_net_mgmt e t NET_REQUEST_WIFI_CONNECT_STORED) (Io_Net_Mgmt NET_REQUEST_WIFI_CONNECT_STORED);
     if r \<noteq> 0 then ret (- ENOEXEC) else ret 0
   }"

definition wifi_connect :: "env \<Rightarrow> (fw, int) state" where
  "wifi_connect e = do {
     modify (put_bit 0 False);
     modify (put_bit 1 False);
     wifi_connect_request e
   }"

definition wifi_sta_init :: "(fw, int) state" where
  "wifi_sta_init = do {
     modify (\<lambda>s. s\<lparr>ctx := 0\<rparr>);
     modify (\<lambda>s. s\<lparr>callbacks := (Wifi_Mgmt_Event_Handler,
       [NET_EVENT_WIFI_CONNECT_RESULT, NET_EVENT_WIFI_DISCONNECT_RESULT]) # callbacks s\<rparr>);
     modify (\<lambda>s. s\<lparr>callbacks := (Net_Mgmt_Event_Handler, [NET_EVENT_IPV4_DHCP_BOUND]) # callbacks s\<rparr>);
     ret 0
   }"

definition wifi_ready_cb :: "bool \<Rightarrow> (fw, unit) state" where
  "wifi_ready_cb wifi_ready = do {
     modify (\<lambda>s. s\<lparr>wifi_ready_status := wifi_ready\<rparr>);
     k_sem_give
   }"

definition register_wifi_ready :: "env \<Rightarrow> (fw, int) state" where
  "register_wifi_ready e =
     (if \<not> env_have_wifi_iface e then ret (-1)
      else do {
        r \<leftarrow> ask (env_register_ready e) Io_Register_Ready;
        ret r
      })"

section \<open>The Wi-Fi thread\<close>

text \<open>One constructor per point at which \<^verbatim>\<open>wifi_thread_entry\<close> can be interrupted with its shared
  variables observable. \<open>W_Http\<close> is the call of \<^verbatim>\<open>start_http_thread\<close>, which never returns, so
  the statements after it have no step. No step: the thread is blocked on the semaphore or done.\<close>

datatype wifi_pc = W_Entry | W_Take | W_Check_Ready | W_Retake | W_Clear_Connected | W_Clear_Result
  | W_Request | W_Poll | W_Decide | W_Http http_pc | W_Exit

fun wifi_thread_entry :: "env \<Rightarrow> wifi_pc \<Rightarrow> fw \<Rightarrow> (wifi_pc \<times> fw) option" where
  "wifi_thread_entry e W_Entry s =
     (if cfg_wifi_ready_lib e
      then Some (if result (register_wifi_ready e) s \<noteq> 0 then W_Exit else W_Take, exec (register_wifi_ready e) s)
      else Some (W_Clear_Connected, s))"
| "wifi_thread_entry e W_Take s =
     (case k_sem_take e s of None \<Rightarrow> None | Some (r, s') \<Rightarrow> Some (if r \<noteq> 0 then W_Exit else W_Check_Ready, s'))"
| "wifi_thread_entry e W_Check_Ready s =
     Some (if \<not> wifi_ready_status s then W_Retake else W_Clear_Connected, s)"
| "wifi_thread_entry e W_Retake s =
     (case k_sem_take e s of None \<Rightarrow> None | Some (r, s') \<Rightarrow> Some (if r \<noteq> 0 then W_Exit else W_Check_Ready, s'))"
| "wifi_thread_entry e W_Clear_Connected s = Some (W_Clear_Result, put_bit 0 False s)"
| "wifi_thread_entry e W_Clear_Result s = Some (W_Request, put_bit 1 False s)"
| "wifi_thread_entry e W_Request s = Some (W_Poll, exec (wifi_connect_request e) s)"
| "wifi_thread_entry e W_Poll s =
     (if connect_result s then Some (W_Decide, s)
      else Some (W_Poll, exec (do { _ \<leftarrow> cmd_wifi_status e; k_sleep 300 }) s))"
| "wifi_thread_entry e W_Decide s =
     (if connected s then Some (W_Http H_Start, exec (cmd_wifi_status e) s) else Some (W_Exit, s))"
| "wifi_thread_entry e (W_Http pc) s =
     (case start_http_thread e pc s of (pc', s') \<Rightarrow> Some (W_Http pc', s'))"
| "wifi_thread_entry e W_Exit s = None"

section \<open>The main thread\<close>

datatype main_pc = M_Start | M_Loop

fun main :: "main_pc \<Rightarrow> fw \<Rightarrow> main_pc \<times> fw" where
  "main M_Start s = (M_Loop, exec wifi_sta_init s)"
| "main M_Loop s =
     (M_Loop, exec (do { k_sleep 10000; ip \<leftarrow> gets got_ip; emit (Io_Log_Link ip) }) s)"


section \<open>The handlers implement the abstract link\<close>

abbreviation wifi_h :: "env \<Rightarrow> handler" where
  "wifi_h e \<equiv> \<lambda>cb ev. exec (wifi_mgmt_event_handler e cb ev)"

abbreviation net_h :: handler where
  "net_h \<equiv> \<lambda>cb ev. exec (net_mgmt_event_handler cb ev)"

lemma cmd_wifi_status_frame:
  "keeps_link s (exec (cmd_wifi_status e) s)" "keeps_client s (exec (cmd_wifi_status e) s)"
  "quiet_ext (trace s) (trace (exec (cmd_wifi_status e) s))"
  by (simp_all add: cmd_wifi_status_def footprint_defs)

lemmas cmd_wifi_status_keeps =
  keeps_linkD [OF cmd_wifi_status_frame(1)] keeps_clientD [OF cmd_wifi_status_frame(2)]

lemma cmd_wifi_status_result:
  "result (cmd_wifi_status e) s = (if env_net_mgmt e (trace s) NET_REQUEST_WIFI_IFACE_STATUS \<noteq> 0 then - ENOEXEC else 0)"
  by (simp add: cmd_wifi_status_def)

interpretation station: link_handlers "wifi_h e" net_h for e
proof
  fix s cb
  assume inv: "link_inv s"
  show "link_inv (wifi_h e cb NET_EVENT_WIFI_CONNECT_RESULT s) \<and>
      link_view (wifi_h e cb NET_EVENT_WIFI_CONNECT_RESULT s) =
        link_step NET_EVENT_WIFI_CONNECT_RESULT (cb_status cb) (link_view s)"
    using inv by (simp add: wifi_mgmt_event_handler_def handle_wifi_connect_result_def link_inv_def link_view_def)
  show "link_inv (wifi_h e cb NET_EVENT_WIFI_DISCONNECT_RESULT s) \<and>
      link_view (wifi_h e cb NET_EVENT_WIFI_DISCONNECT_RESULT s) =
        link_step NET_EVENT_WIFI_DISCONNECT_RESULT (cb_status cb) (link_view s)"
    using inv by (simp add: wifi_mgmt_event_handler_def handle_wifi_disconnect_result_def link_inv_def link_view_def
        cmd_wifi_status_keeps)
  show "link_inv (net_h cb NET_EVENT_IPV4_DHCP_BOUND s) \<and>
      link_view (net_h cb NET_EVENT_IPV4_DHCP_BOUND s) =
        link_step NET_EVENT_IPV4_DHCP_BOUND (cb_status cb) (link_view s)"
    using inv by (simp add: net_mgmt_event_handler_def print_dhcp_ip_def link_inv_def link_view_def)
next
  fix s cb ev
  show "callbacks (wifi_h e cb ev s) = callbacks s" "ready_sem (wifi_h e cb ev s) = ready_sem s"
    "wifi_ready_status (wifi_h e cb ev s) = wifi_ready_status s" "keeps_client s (wifi_h e cb ev s)"
    by (cases ev; simp add: wifi_mgmt_event_handler_def handle_wifi_connect_result_def
        handle_wifi_disconnect_result_def cmd_wifi_status_keeps keeps_client_def)+
  show "callbacks (net_h cb ev s) = callbacks s" "ready_sem (net_h cb ev s) = ready_sem s"
    "wifi_ready_status (net_h cb ev s) = wifi_ready_status s" "keeps_client s (net_h cb ev s)"
    by (cases ev; simp add: net_mgmt_event_handler_def print_dhcp_ip_def keeps_client_def)+
  show "quiet_ext (trace s) (trace (wifi_h e cb ev s))" "quiet_ext (trace s) (trace (net_h cb ev s))"
    using cmd_wifi_status_frame(3) [of "put_bit 2 False s" e] cmd_wifi_status_frame(3) [of "put_bit 0 False s" e]
    by (cases ev; simp add: wifi_mgmt_event_handler_def handle_wifi_connect_result_def
        handle_wifi_disconnect_result_def net_mgmt_event_handler_def print_dhcp_ip_def)+
qed

lemma cmd_wifi_status_idle: "idle_ext (trace s) (trace (exec (cmd_wifi_status e) s))"
  by (simp add: cmd_wifi_status_def)

lemma cmd_wifi_status_idle_step: "idle_step s (exec (cmd_wifi_status e) s)"
  by (simp add: idle_step_def cmd_wifi_status_idle cmd_wifi_status_keeps cmd_wifi_status_frame)

lemma poll_idle_step: "idle_step s (exec (do { _ \<leftarrow> cmd_wifi_status e; k_sleep 300 }) s)"
  using cmd_wifi_status_idle_step [of s e] by (simp add: idle_step_def keeps_client_def)

lemma register_idle_step: "idle_step s (exec (register_wifi_ready e) s)"
  by (simp add: register_wifi_ready_def idle_step_def keeps_client_def)

lemma clear_idle_step: "n < 8 \<Longrightarrow> idle_step s (put_bit n False s)"
  by (simp add: idle_step_def keeps_client_def)

lemmas event_defs = deliver_def registrations_def wifi_mgmt_event_handler_def handle_wifi_connect_result_def
  handle_wifi_disconnect_result_def net_mgmt_event_handler_def print_dhcp_ip_def

lemma deliver_cases:
  fixes e cb ev s
  assumes "callbacks s = [] \<or> callbacks s = registrations"
  defines "t \<equiv> deliver (wifi_h e) net_h cb ev s"
  shows "callbacks t = callbacks s" "ready_sem t = ready_sem s" "wifi_ready_status t = wifi_ready_status s"
    "keeps_client s t" "2 \<le> n \<Longrightarrow> bit (ctx t) n \<Longrightarrow> bit (ctx s) n"
    "got_ip t \<Longrightarrow> got_ip s \<or> ev = NET_EVENT_IPV4_DHCP_BOUND"
    "connect_result t \<Longrightarrow> connect_result s \<or> ev = NET_EVENT_WIFI_CONNECT_RESULT"
    "idle_ext (trace s) (trace t)"
  using assms(1) cmd_wifi_status_idle [of "put_bit b False (s\<lparr>trace := Io_Event ev # trace s\<rparr>)" e for b]
    idle_ext_trans [of "trace s" "Io_Event ev # trace s"]
  unfolding t_def
  by (cases ev; auto simp: event_defs cmd_wifi_status_keeps keeps_client_def split: if_splits)+

text \<open>C5. The station's handlers refine the abstract link. From any state with the two callbacks
  registered and the link invariant, every finite sequence of management events takes the bit
  fields and \<^verbatim>\<open>got_ip\<close> exactly where the abstract link goes, and keeps the invariant.\<close>

theorem station_refines_link:
  fixes e :: env and evs :: "(mgmt_cb \<times> mgmt_event) list" and s :: fw
  assumes "callbacks s = registrations" "link_inv s"
  defines "t \<equiv> fold (\<lambda>(cb, ev). deliver (\<lambda>cb ev. exec (wifi_mgmt_event_handler e cb ev))
                   (\<lambda>cb ev. exec (net_mgmt_event_handler cb ev)) cb ev) evs s"
  shows "link_inv t \<and> link_view t = fold (\<lambda>(cb, ev). link_step ev (cb_status cb)) evs (link_view s) \<and>
         got_ip t = ip_after evs (got_ip s)"
  unfolding t_def using station.events_refine [OF assms(1,2)] station.events_ip [OF assms(1,2)] by blast

theorem station_refines_link_witness:
  "link_view (fold (\<lambda>(cb, ev). deliver (\<lambda>cb ev. exec (wifi_mgmt_event_handler (good_env []) cb ev))
       (\<lambda>cb ev. exec (net_mgmt_event_handler cb ev)) cb ev)
     [(\<lparr>cb_status = 0, cb_requested_ip = 0\<rparr>, NET_EVENT_WIFI_CONNECT_RESULT),
      (\<lparr>cb_status = 0, cb_requested_ip = 7\<rparr>, NET_EVENT_IPV4_DHCP_BOUND)]
     (boot\<lparr>callbacks := registrations\<rparr>)) = (Link_Up, True)"
  using station_refines_link [where s = "boot\<lparr>callbacks := registrations\<rparr>" and e = "good_env []" and
      evs = "[(\<lparr>cb_status = 0, cb_requested_ip = 0\<rparr>, NET_EVENT_WIFI_CONNECT_RESULT),
        (\<lparr>cb_status = 0, cb_requested_ip = 7\<rparr>, NET_EVENT_IPV4_DHCP_BOUND)]"]
  by (simp add: link_inv_def link_view_def boot_def)

section \<open>The HTTP client asks for no association\<close>

lemma tls_setup_no_request:
  "filter association_request (trace (exec (tls_setup e fd) s)) = filter association_request (trace s)"
  by (simp add: tls_setup_def)

lemma server_connect_no_request:
  "filter association_request (trace (exec (server_connect e) s)) = filter association_request (trace s)"
  by (simp add: server_connect_def tls_setup_no_request)

lemma session_no_request:
  "filter association_request (trace (exec (http_login e) s)) = filter association_request (trace s)"
  "filter association_request (trace (exec (http_post_patient_data e) s)) = filter association_request (trace s)"
proof -
  show "filter association_request (trace (exec (http_login e) s)) = filter association_request (trace s)"
    by (cases "result (server_connect e) s = 0")
       (simp_all add: http_login_connected http_login_unconnected Let_def login_cb.fold_keeps
         session_sent_simps server_connect_no_request)
  show "filter association_request (trace (exec (http_post_patient_data e) s)) = filter association_request (trace s)"
    by (cases "result (server_connect e) s = 0")
       (simp_all add: http_post_connected http_post_unconnected Let_def patient_cb.fold_keeps
         session_sent_simps server_connect_no_request)
qed

lemma http_round_no_request:
  "filter association_request (trace (exec (http_round e) s)) = filter association_request (trace s)"
  by (simp add: http_round_def http_dispatch_def resolve_server_def session_no_request)

end
