(* ===== verification/Wifi_System.thy ===== *)
theory Wifi_System
  imports Wifi_Sta
begin

text \<open>
  The firmware image as a whole: the main thread (\<^verbatim>\<open>main.c\<close>), the Wi-Fi thread that becomes the
  HTTP client, the management thread that delivers network events at any moment and the readiness
  library that reports the driver's state. A step is one of them moving. The theorems hold in
  every reachable state, whatever the schedule, the events and the answers of the platform.
\<close>

section \<open>Steps\<close>

record sys =
  sys_main :: main_pc
  sys_wifi :: wifi_pc
  sys_fw :: fw

definition sys_boot :: sys where
  "sys_boot = \<lparr>sys_main = M_Start, sys_wifi = W_Entry, sys_fw = boot\<rparr>"

definition ready_event :: "bool \<Rightarrow> (fw, unit) state" where
  "ready_event b = do { emit (Io_Ready_Event b); wifi_ready_cb b }"

text \<open>The main thread has priority 0 and the Wi-Fi thread priority 5, and the main thread does not
  block before its loop: the Wi-Fi thread moves only once \<^verbatim>\<open>wifi_sta_init\<close> is done.\<close>

inductive sys_step :: "env \<Rightarrow> sys \<Rightarrow> sys \<Rightarrow> bool" for e where
  step_main: "main (sys_main x) (sys_fw x) = (pc, s) \<Longrightarrow> sys_step e x (x\<lparr>sys_main := pc, sys_fw := s\<rparr>)"
| step_wifi: "sys_main x = M_Loop \<Longrightarrow> wifi_thread_entry e (sys_wifi x) (sys_fw x) = Some (pc, s) \<Longrightarrow>
     sys_step e x (x\<lparr>sys_wifi := pc, sys_fw := s\<rparr>)"
| step_event: "sys_step e x (x\<lparr>sys_fw := deliver (wifi_h e) net_h cb ev (sys_fw x)\<rparr>)"
| step_ready: "Io_Register_Ready 0 \<in> set (trace (sys_fw x)) \<Longrightarrow>
     sys_step e x (x\<lparr>sys_fw := exec (ready_event b) (sys_fw x)\<rparr>)"

inductive_cases sys_stepE: "sys_step e x y"

text \<open>An executable scheduler, for concrete runs.\<close>

datatype act = A_Main | A_Wifi | A_Event mgmt_cb mgmt_event | A_Ready bool

fun act_step :: "env \<Rightarrow> act \<Rightarrow> sys \<Rightarrow> sys option" where
  "act_step e A_Main x = (case main (sys_main x) (sys_fw x) of (pc, s) \<Rightarrow> Some (x\<lparr>sys_main := pc, sys_fw := s\<rparr>))"
| "act_step e A_Wifi x =
     (if sys_main x = M_Loop
      then (case wifi_thread_entry e (sys_wifi x) (sys_fw x) of
              None \<Rightarrow> None | Some (pc, s) \<Rightarrow> Some (x\<lparr>sys_wifi := pc, sys_fw := s\<rparr>))
      else None)"
| "act_step e (A_Event cb ev) x = Some (x\<lparr>sys_fw := deliver (wifi_h e) net_h cb ev (sys_fw x)\<rparr>)"
| "act_step e (A_Ready b) x =
     (if Io_Register_Ready 0 \<in> set (trace (sys_fw x))
      then Some (x\<lparr>sys_fw := exec (ready_event b) (sys_fw x)\<rparr>)
      else None)"

fun run_acts :: "env \<Rightarrow> act list \<Rightarrow> sys \<Rightarrow> sys option" where
  "run_acts e [] x = Some x"
| "run_acts e (a # as) x = (case act_step e a x of None \<Rightarrow> None | Some y \<Rightarrow> run_acts e as y)"

abbreviation sys_reachable :: "env \<Rightarrow> sys \<Rightarrow> bool" where
  "sys_reachable e \<equiv> reachable (\<lambda>x. x = sys_boot) (sys_step e)"

section \<open>The invariant of the image\<close>

definition startup_order :: "env \<Rightarrow> trace \<Rightarrow> bool" where
  "startup_order e t \<longleftrightarrow>
     preceded needs_address address_bound t \<and> preceded needs_address association_result t \<and>
     preceded needs_address association_request t \<and>
     (cfg_wifi_ready_lib e \<longrightarrow> preceded association_request driver_ready t)"

definition fw_inv :: "env \<Rightarrow> fw \<Rightarrow> bool" where
  "fw_inv e s \<longleftrightarrow> client_inv s \<and> (\<forall>n \<ge> 2. \<not> bit (ctx s) n) \<and> ready_sem s \<le> 1 \<and>
     (got_ip s \<longrightarrow> list_ex address_bound (trace s)) \<and>
     (connect_result s \<longrightarrow> list_ex association_result (trace s)) \<and>
     (wifi_ready_status s \<longrightarrow> list_ex driver_ready (trace s)) \<and>
     startup_order e (trace s)"

fun wifi_started :: "wifi_pc \<Rightarrow> bool" where
  "wifi_started W_Clear_Connected = True"
| "wifi_started W_Clear_Result = True"
| "wifi_started W_Request = True"
| "wifi_started _ = False"

fun wifi_requested :: "wifi_pc \<Rightarrow> bool" where
  "wifi_requested W_Poll = True"
| "wifi_requested W_Decide = True"
| "wifi_requested (W_Http _) = True"
| "wifi_requested _ = False"

fun wifi_answered :: "wifi_pc \<Rightarrow> bool" where
  "wifi_answered W_Decide = True"
| "wifi_answered (W_Http _) = True"
| "wifi_answered _ = False"

definition pc_inv :: "env \<Rightarrow> wifi_pc \<Rightarrow> trace \<Rightarrow> bool" where
  "pc_inv e pc t \<longleftrightarrow> (wifi_started pc \<longrightarrow> cfg_wifi_ready_lib e \<longrightarrow> list_ex driver_ready t) \<and>
     (wifi_requested pc \<longrightarrow> list_ex association_request t) \<and>
     (wifi_answered pc \<longrightarrow> list_ex association_result t)"

definition sys_inv :: "env \<Rightarrow> sys \<Rightarrow> bool" where
  "sys_inv e x \<longleftrightarrow> fw_inv e (sys_fw x) \<and> pc_inv e (sys_wifi x) (trace (sys_fw x)) \<and>
     callbacks (sys_fw x) = (if sys_main x = M_Start then [] else registrations)"

text \<open>The invariant is claimed on platforms whose failing calls set \<^verbatim>\<open>errno\<close>.\<close>

definition image_inv :: "env \<Rightarrow> sys \<Rightarrow> bool" where
  "image_inv e x \<longleftrightarrow> (errno_positive e \<longrightarrow> sys_inv e x)"

section \<open>Schedules\<close>

abbreviation result_event :: "int \<Rightarrow> act" where
  "result_event st \<equiv> A_Event \<lparr>cb_status = st, cb_requested_ip = 0\<rparr> NET_EVENT_WIFI_CONNECT_RESULT"

abbreviation bound_event :: act where
  "bound_event \<equiv> A_Event \<lparr>cb_status = 0, cb_requested_ip = 7\<rparr> NET_EVENT_IPV4_DHCP_BOUND"

text \<open>From reset to the first connection request, and from there to a running client with an address.\<close>

abbreviation to_poll :: "act list" where
  "to_poll \<equiv> [A_Main, A_Wifi, A_Ready True, A_Wifi, A_Wifi, A_Wifi, A_Wifi, A_Wifi]"

abbreviation to_client :: "act list" where
  "to_client \<equiv> to_poll @ [result_event 0, bound_event, A_Wifi, A_Wifi, A_Wifi]"

abbreviation demo_run :: sys where
  "demo_run \<equiv> the (run_acts (good_env ''x'') (to_client @ replicate 3 A_Wifi) sys_boot)"

text \<open>The only events that clear \<^verbatim>\<open>connected\<close> are disconnections.\<close>

fun disconnection :: "act \<Rightarrow> bool" where
  "disconnection (A_Event cb ev) = (ev = NET_EVENT_WIFI_DISCONNECT_RESULT)"
| "disconnection _ = False"

text \<open>A success was delivered before \<^verbatim>\<open>wifi_connect\<close> cleared \<^verbatim>\<open>connect_result\<close>, and where the thread goes
  from there, one move at a time.\<close>

definition missed :: "sys \<Rightarrow> bool" where
  "missed x \<longleftrightarrow> sys_main x = M_Loop \<and> callbacks (sys_fw x) = registrations \<and> connected (sys_fw x) \<and>
     (sys_wifi x = W_Clear_Result \<or> (sys_wifi x = W_Request \<or> sys_wifi x = W_Poll) \<and> \<not> connect_result (sys_fw x))"

fun missed_pc :: "wifi_pc \<Rightarrow> wifi_pc" where
  "missed_pc W_Clear_Result = W_Request"
| "missed_pc _ = W_Poll"

definition wifi_moves :: "act list \<Rightarrow> nat" where
  "wifi_moves as = length (filter (\<lambda>a. a = A_Wifi) as)"

section \<open>Runs are reachable\<close>

lemma act_step_sound: "act_step e a x = Some y \<Longrightarrow> sys_step e x y"
  by (cases a) (auto split: prod.splits option.splits if_splits intro: sys_step.intros)

lemma run_acts_steps: "run_acts e as x = Some y \<Longrightarrow> (sys_step e)\<^sup>*\<^sup>* x y"
  by (induction as arbitrary: x)
     (auto split: option.splits dest: act_step_sound intro: converse_rtranclp_into_rtranclp)

lemma reachable_run: "(sys_step e)\<^sup>*\<^sup>* x y \<Longrightarrow> sys_reachable e x \<Longrightarrow> sys_reachable e y"
  by (induction rule: rtranclp_induct) (auto intro: reach_step)

lemma run_acts_reachable: "run_acts e as sys_boot = Some y \<Longrightarrow> sys_reachable e y"
  by (blast intro: reachable_run run_acts_steps reach_init)

section \<open>Facts about traces\<close>

lemma startup_order_idle:
  assumes "startup_order e t" "idle_ext t t'"
  shows "startup_order e t'"
proof -
  obtain evs where t': "t' = evs @ t" and "list_all (\<lambda>ev. quiet ev \<and> \<not> association_request ev) evs"
    using assms(2) by (auto simp: idle_ext_def)
  then have "list_all (\<lambda>ev. \<not> needs_address ev) evs" "list_all (\<lambda>ev. \<not> association_request ev) evs"
    using needs_address_noisy by (auto simp: list_all_iff)
  with assms(1) show ?thesis by (simp add: startup_order_def t' preceded_silent)
qed

lemma pc_inv_suffix: "pc_inv e pc t \<Longrightarrow> suffix t t' \<Longrightarrow> pc_inv e pc t'"
  using list_ex_suffix by (auto simp: pc_inv_def)

section \<open>Idle steps keep the invariant\<close>

lemma fw_inv_idle:
  assumes inv: "fw_inv e s" and client: "keeps_client s t" and idle: "idle_ext (trace s) (trace t)"
    and sem: "ready_sem t \<le> 1" and high: "\<And>n. 2 \<le> n \<Longrightarrow> bit (ctx t) n \<Longrightarrow> bit (ctx s) n"
    and ip: "got_ip t \<Longrightarrow> got_ip s \<or> list_ex address_bound (trace t)"
    and res: "connect_result t \<Longrightarrow> connect_result s \<or> list_ex association_result (trace t)"
    and rdy: "wifi_ready_status t \<Longrightarrow> wifi_ready_status s \<or> list_ex driver_ready (trace t)"
  shows "fw_inv e t"
  using inv client_inv_quiet [OF _ client idle_ext_quiet [OF idle]] startup_order_idle [OF _ idle]
    list_ex_suffix [OF idle_ext_suffix [OF idle]] sem high ip res rdy
  unfolding fw_inv_def by blast

lemma deliver_fw_inv:
  assumes "fw_inv e s" "callbacks s = [] \<or> callbacks s = registrations"
  shows "fw_inv e (deliver (wifi_h e) net_h cb ev s)"
  using assms(1) deliver_cases [OF assms(2), where e = e and cb = cb and ev = ev] station.deliver_logs [of ev e cb s]
  by (intro fw_inv_idle [OF assms(1)]) (auto simp: fw_inv_def address_bound_def association_result_def list_ex_iff)

lemma ready_fw_inv: "fw_inv e s \<Longrightarrow> fw_inv e (exec (ready_event b) s)"
  by (rule fw_inv_idle) (auto simp: ready_event_def wifi_ready_cb_def keeps_client_def driver_ready_def)

lemma main_fw_inv: "fw_inv e s \<Longrightarrow> fw_inv e (snd (main pc s))"
  by (rule fw_inv_idle; cases pc) (auto simp: wifi_sta_init_def keeps_client_def fw_inv_def)


section \<open>The Wi-Fi thread keeps the invariant\<close>

text \<open>With an address, after the request and its result, anything may be appended.\<close>

lemma startup_order_online:
  assumes "startup_order e t" "list_ex address_bound t" "list_ex association_result t"
    "list_ex association_request t" "suffix t t'" "filter association_request t' = filter association_request t"
  shows "startup_order e t'"
proof -
  obtain evs where t': "t' = evs @ t" using assms(5) by (auto simp: suffix_def)
  with assms(6) have "list_all (\<lambda>ev. \<not> association_request ev) evs" by (simp add: filter_empty_conv list_all_iff)
  with assms t' show ?thesis by (simp add: startup_order_def preceded_app preceded_silent)
qed

lemma http_round_fw_inv:
  assumes "errno_positive e" "fw_inv e s" "list_ex association_request (trace s)" "list_ex association_result (trace s)"
  shows "fw_inv e (exec (http_round e) s)"
proof -
  let ?t = "exec (http_round e) s"
  have suf: "suffix (trace s) (trace ?t)" by (rule http_round_suffix)
  have "startup_order e (trace ?t)"
  proof (cases "got_ip s")
    case True
    then show ?thesis
      using assms(2-4) startup_order_online [OF _ _ assms(4,3) suf http_round_no_request] by (simp add: fw_inv_def)
  next
    case False
    then have "idle_ext (trace s) (trace ?t)" by (simp add: http_round_def)
    then show ?thesis using assms(2) startup_order_idle by (auto simp: fw_inv_def)
  qed
  then show ?thesis
    using assms(2) http_round_inv [OF assms(1)] keeps_linkD [OF http_round_link [of s e]] list_ex_suffix [OF suf]
    by (auto simp: fw_inv_def)
qed

lemma idle_step_fw_inv: "idle_step s t \<Longrightarrow> fw_inv e s \<Longrightarrow> fw_inv e t"
  by (rule fw_inv_idle [of e s t]) (auto simp: idle_step_def fw_inv_def)

text \<open>Every step of the thread is idle, the connection request, or a step of the HTTP client.\<close>

lemma wifi_step_cases:
  assumes "wifi_thread_entry e pc s = Some (pc', t)"
  obtains "pc \<noteq> W_Request" "\<And>h. pc \<noteq> W_Http h" "idle_step s t"
  | "pc = W_Request" "pc' = W_Poll" "t = exec (wifi_connect_request e) s"
  | h h' where "pc = W_Http h" "start_http_thread e h s = (h', t)" "pc' = W_Http h'"
  using assms
  by (cases pc; auto simp del: exec_bind split: if_splits option.splits prod.splits
       intro: k_sem_take_idle cmd_wifi_status_idle_step poll_idle_step register_idle_step clear_idle_step)
     (auto simp: idle_step_def keeps_client_def)

lemma wifi_step_pc:
  assumes "wifi_thread_entry e pc s = Some (pc', t)" "pc_inv e pc (trace s)" "fw_inv e s" "idle_step s t"
    "pc \<noteq> W_Request" "\<And>h. pc \<noteq> W_Http h"
  shows "pc_inv e pc' (trace t)"
proof -
  have "pc_inv e pc' (trace s)"
    using assms(1-3,5,6)
    by (cases pc) (auto simp: pc_inv_def fw_inv_def split: if_splits option.splits)
  then show ?thesis using pc_inv_suffix idle_ext_suffix assms(4) idle_step_def by blast
qed

lemma wifi_connect_request_sys:
  assumes "fw_inv e s" "pc_inv e W_Request (trace s)"
  defines "t \<equiv> exec (wifi_connect_request e) s"
  shows "fw_inv e t \<and> pc_inv e W_Poll (trace t) \<and> callbacks t = callbacks s"
proof -
  have q: "quiet_ext (trace s) (trace t)" "keeps_client s t" "keeps_link s t"
    by (simp_all add: t_def wifi_connect_request_def footprint_defs)
  have "startup_order e (trace t)"
    using assms(1,2) by (simp add: t_def wifi_connect_request_def startup_order_def fw_inv_def pc_inv_def)
  moreover have "suffix (trace s) (trace t)" using q(1) by (auto simp: quiet_ext_def suffix_def)
  ultimately show ?thesis
    using assms(1) client_inv_quiet [OF _ q(2,1)] keeps_linkD [OF q(3)] list_ex_suffix [of "trace s" "trace t"]
    by (auto simp: fw_inv_def pc_inv_def t_def wifi_connect_request_def)
qed

lemma http_step_sys:
  assumes "errno_positive e" "fw_inv e s" "pc_inv e (W_Http h) (trace s)" "start_http_thread e h s = (h', t)"
  shows "fw_inv e t \<and> pc_inv e (W_Http h') (trace t) \<and> callbacks t = callbacks s"
proof (cases h)
  case H_Start
  then have "idle_step s t" "h' = H_Loop"
    using assms(4) by (auto simp: register_certificate_def idle_step_def keeps_client_def)
  moreover from this have "suffix (trace s) (trace t)" by (simp add: idle_step_def idle_ext_suffix)
  ultimately show ?thesis
    using assms(2,3) idle_step_fw_inv list_ex_suffix by (auto simp: pc_inv_def) (auto simp: idle_step_def)
next
  case H_Loop
  then have t: "t = exec (http_round e) s" "h' = H_Loop" using assms(4) by auto
  then show ?thesis
    using assms(1-3) http_round_fw_inv keeps_linkD [OF http_round_link [of s e]] list_ex_suffix [OF http_round_suffix]
    by (auto simp: pc_inv_def)
qed

lemma wifi_step_sys:
  assumes "errno_positive e" "wifi_thread_entry e pc s = Some (pc', t)" "fw_inv e s" "pc_inv e pc (trace s)"
  shows "fw_inv e t \<and> pc_inv e pc' (trace t) \<and> callbacks t = callbacks s"
  using assms(2)
proof (cases rule: wifi_step_cases)
  case 1
  then show ?thesis using wifi_step_pc [OF assms(2,4,3)] idle_step_fw_inv assms(3) by (auto simp: idle_step_def)
next
  case 2
  then show ?thesis using wifi_connect_request_sys assms(3,4) by blast
next
  case (3 h h')
  then show ?thesis using http_step_sys assms(1,3,4) by blast
qed

lemma boot_inv: "sys_inv e sys_boot"
  by (simp add: sys_inv_def sys_boot_def boot_def fw_inv_def client_inv_def startup_order_def pc_inv_def)

lemma sys_step_inv:
  assumes "errno_positive e" "sys_inv e x" "sys_step e x y"
  shows "sys_inv e y"
  using assms(3)
proof cases
  case (step_main pc s)
  then have "s = snd (main (sys_main x) (sys_fw x))" "suffix (trace (sys_fw x)) (trace s)"
    "pc = M_Loop" "callbacks s = (if sys_main x = M_Start then registrations @ callbacks (sys_fw x) else callbacks (sys_fw x))"
    by (cases "sys_main x"; auto simp: wifi_sta_init_def registrations_def suffix_ConsI)+
  then show ?thesis
    using assms(2) step_main(1) main_fw_inv pc_inv_suffix by (auto simp: sys_inv_def)
next
  case (step_wifi pc s)
  then show ?thesis using assms(2) wifi_step_sys [OF assms(1) step_wifi(3)] by (auto simp: sys_inv_def)
next
  case (step_event cb ev)
  have cbs: "callbacks (sys_fw x) = [] \<or> callbacks (sys_fw x) = registrations"
    using assms(2) by (auto simp: sys_inv_def)
  then show ?thesis
    using assms(2) step_event deliver_fw_inv deliver_cases(1,8) [OF cbs] idle_ext_suffix pc_inv_suffix
    by (auto simp: sys_inv_def)
next
  case (step_ready b)
  have "suffix (trace (sys_fw x)) (trace (exec (ready_event b) (sys_fw x)))"
    "callbacks (exec (ready_event b) (sys_fw x)) = callbacks (sys_fw x)"
    by (simp_all add: ready_event_def wifi_ready_cb_def suffix_ConsI)
  then show ?thesis
    using assms(2) step_ready ready_fw_inv pc_inv_suffix by (auto simp: sys_inv_def)
qed

interpretation image: inductive_invariant "\<lambda>x. x = sys_boot" "sys_step e" "image_inv e" for e
  by unfold_locales (auto simp: image_inv_def boot_inv intro: sys_step_inv)

lemma reachable_inv: "errno_positive e \<Longrightarrow> sys_reachable e x \<Longrightarrow> sys_inv e x"
  using image.inv_reachable by (auto simp: image_inv_def)

lemma reachable_fw_inv: "errno_positive e \<Longrightarrow> sys_reachable e x \<Longrightarrow> fw_inv e (sys_fw x)"
  using reachable_inv by (auto simp: sys_inv_def)

section \<open>Properties of the image\<close>

lemma good_errno [simp]: "errno_positive (good_env body)"
  by (simp add: errno_positive_def)

lemma run_acts_append:
  "run_acts e (as @ bs) x = (case run_acts e as x of None \<Rightarrow> None | Some y \<Rightarrow> run_acts e bs y)"
  by (induction as arbitrary: x) (auto split: option.splits)

lemmas act_simps = ready_event_def wifi_ready_cb_def wifi_sta_init_def register_wifi_ready_def k_sem_take_def
  wifi_connect_request_def event_defs

lemma run_to_poll:
  "\<exists>y. run_acts (good_env body) to_poll sys_boot = Some y \<and> sys_main y = M_Loop \<and> sys_wifi y = W_Poll \<and>
     callbacks (sys_fw y) = registrations \<and> \<not> connected (sys_fw y) \<and> \<not> connect_result (sys_fw y) \<and>
     http_state (sys_fw y) = 0 \<and> token (sys_fw y) = token boot"
  by (simp add: sys_boot_def boot_def act_simps)


lemma run_to_client:
  "\<exists>y. run_acts (good_env body) to_client sys_boot = Some y \<and> sys_main y = M_Loop \<and> sys_wifi y = W_Http H_Loop \<and>
     got_ip (sys_fw y) \<and> http_state (sys_fw y) = 0 \<and> server_info (sys_fw y) = server_info boot"
  by (simp add: sys_boot_def boot_def act_simps register_certificate_def cmd_wifi_status_keeps cmd_wifi_status_def)

text \<open>A running client is never blocked: each of its moves is one round.\<close>

lemma client_rounds:
  assumes "sys_main x = M_Loop" "sys_wifi x = W_Http H_Loop"
  shows "run_acts e (replicate n A_Wifi) x = Some (x\<lparr>sys_fw := (exec (http_round e) ^^ n) (sys_fw x)\<rparr>)"
  using assms
proof (induction n arbitrary: x)
  case 0
  then show ?case by simp
next
  case (Suc n)
  let ?y = "x\<lparr>sys_fw := exec (http_round e) (sys_fw x)\<rparr>"
  have "run_acts e (replicate n A_Wifi) ?y = Some (?y\<lparr>sys_fw := (exec (http_round e) ^^ n) (sys_fw ?y)\<rparr>)"
    using Suc.prems by (intro Suc.IH) simp_all
  moreover have "act_step e A_Wifi x = Some ?y"
    using Suc.prems by (cases x) simp
  ultimately show ?case by (simp del: act_step.simps add: funpow_swap1)
qed

lemma run_client_rounds:
  "\<exists>y. run_acts (good_env body) to_client sys_boot = Some y \<and>
     run_acts (good_env body) (to_client @ replicate n A_Wifi) sys_boot =
       Some (y\<lparr>sys_fw := (exec (http_round (good_env body)) ^^ n) (sys_fw y)\<rparr>) \<and>
     got_ip (sys_fw y) \<and> http_state (sys_fw y) = 0"
proof -
  obtain y where y: "run_acts (good_env body) to_client sys_boot = Some y" "sys_main y = M_Loop"
    "sys_wifi y = W_Http H_Loop" "got_ip (sys_fw y)" "http_state (sys_fw y) = 0"
    using run_to_client by blast
  then show ?thesis using client_rounds [OF y(2,3)] by (simp only: run_acts_append option.case) simp
qed

lemma quiet_main: "quiet_ext (trace s) (trace (snd (main pc s)))"
  by (cases pc) (simp_all add: wifi_sta_init_def)

lemma quiet_ready: "quiet_ext (trace s) (trace (exec (ready_event b) s))"
  by (simp add: ready_event_def wifi_ready_cb_def)

text \<open>C1. No unsecured traffic. In every state the image can reach, under every schedule of its threads,
  every sequence of network events and every platform whose failing calls set \<^verbatim>\<open>errno\<close>, each
  connection was made on a fresh socket after the three TLS options were set successfully, to port
  443 of the resolved address, and each HTTP request directly follows a successful connection of
  its own descriptor and names the API host.\<close>

theorem image_secured:
  assumes "errno_positive e" "reachable (\<lambda>x. x = sys_boot) (sys_step e) x"
  shows "secured (trace (sys_fw x))"
  using reachable_fw_inv [OF assms] by (simp add: fw_inv_def client_inv_def)

text \<open>C2. Start-up order. In every reachable state, on platforms whose failing calls set \<^verbatim>\<open>errno\<close>, every name lookup, socket and HTTP request in the
  trace comes after an association request, an association result and a DHCP binding, and (with
  the readiness library) every association request comes after the driver reported ready.\<close>

theorem image_startup_order:
  assumes "errno_positive e" "reachable (\<lambda>x. x = sys_boot) (sys_step e) x"
  shows "startup_order e (trace (sys_fw x))"
  using reachable_fw_inv [OF assms] by (simp add: fw_inv_def)

text \<open>C6. Ranges of the shared variables. In every reachable state, on platforms whose failing calls set
  \<^verbatim>\<open>errno\<close>, the readiness semaphore holds 0 or 1,
  \<^verbatim>\<open>state\<close> is 0, 1 or 2, the token buffer keeps its size, the callbacks are registered exactly
  once, and no bit of \<^verbatim>\<open>context\<close> beyond the first two is ever set: the
  \<^verbatim>\<open>disconnect_requested\<close> branch of the disconnect handler is dead code.\<close>

theorem image_ranges:
  assumes "errno_positive e" "reachable (\<lambda>x. x = sys_boot) (sys_step e) x"
  shows "ready_sem (sys_fw x) \<le> 1 \<and> http_state (sys_fw x) \<le> 2 \<and> bcap (token (sys_fw x)) = TOKEN_SIZE \<and>
         callbacks (sys_fw x) = (if sys_main x = M_Start then [] else registrations) \<and>
         ctx (sys_fw x) < 4 \<and> \<not> disconnect_requested (sys_fw x)"
proof -
  have inv: "fw_inv e (sys_fw x)" "sys_inv e x" using reachable_inv [OF assms] by (auto simp: sys_inv_def)
  then have "\<not> bit (ctx (sys_fw x)) n" if "n \<ge> 2" for n using that by (simp add: fw_inv_def)
  then have "take_bit 2 (ctx (sys_fw x)) = ctx (sys_fw x)"
    by (auto simp: bit_eq_iff bit_take_bit_iff) (meson leI)
  then have "ctx (sys_fw x) = ctx (sys_fw x) mod 4" by (simp add: take_bit_eq_mod)
  moreover have "ctx (sys_fw x) mod 4 < 4" by (rule word_mod_less_divisor) simp
  ultimately have "ctx (sys_fw x) < 4" by simp
  then show ?thesis using inv by (auto simp: fw_inv_def client_inv_def sys_inv_def)
qed


text \<open>Witnesses at a concrete run of the whole image: reset, ready, request, result, address, and three
  rounds of the client.\<close>

lemma demo_reachable: "reachable (\<lambda>x. x = sys_boot) (sys_step (good_env ''x'')) demo_run"
proof -
  obtain y where "run_acts (good_env ''x'') (to_client @ replicate 3 A_Wifi) sys_boot = Some y"
    using run_client_rounds by blast
  then show ?thesis using run_acts_reachable by (simp only: option.sel)
qed

theorem image_secured_witness: "secured (trace (sys_fw demo_run))"
  by (rule image_secured [OF good_errno demo_reachable])

theorem image_startup_order_witness: "startup_order (good_env ''x'') (trace (sys_fw demo_run))"
  by (rule image_startup_order [OF good_errno demo_reachable])

theorem image_ranges_witness: "ctx (sys_fw demo_run) < 4"
  using image_ranges [OF good_errno demo_reachable] by simp


text \<open>When the Wi-Fi thread can move. It has no next step exactly when it has ended, or when it waits
  for the readiness semaphore and the count is 0; everywhere else, in particular in the status
  polling loop and in the HTTP loop, it can always go on.\<close>

theorem wifi_thread_blocked_iff:
  "wifi_thread_entry e pc s = None \<longleftrightarrow>
     pc = W_Exit \<or> (pc = W_Take \<or> pc = W_Retake) \<and> env_sem_take e (trace s) = 0 \<and> ready_sem s = 0"
  by (cases pc) (auto simp: k_sem_take_def Let_def split: option.splits prod.splits if_splits)

text \<open>The association result decides. While the thread polls and the link is down, delivering an
  association result lets the thread's next two moves decide by its status: 0 starts the HTTP
  client, anything else ends the thread.\<close>

theorem association_result_decides:
  assumes "sys_main x = M_Loop" "sys_wifi x = W_Poll" "callbacks (sys_fw x) = registrations" "\<not> connected (sys_fw x)"
  shows "\<exists>y. run_acts e [A_Event cb NET_EVENT_WIFI_CONNECT_RESULT, A_Wifi, A_Wifi] x = Some y \<and>
             sys_wifi y = (if cb_status cb = 0 then W_Http H_Start else W_Exit)"
  using assms by (simp add: event_defs)

theorem association_result_decides_witness:
  "\<exists>y. run_acts (good_env []) (to_poll @ [result_event 5, A_Wifi, A_Wifi]) sys_boot = Some y \<and> sys_wifi y = W_Exit"
proof -
  obtain x where x: "run_acts (good_env []) to_poll sys_boot = Some x" "sys_main x = M_Loop" "sys_wifi x = W_Poll"
    "callbacks (sys_fw x) = registrations" "\<not> connected (sys_fw x)"
    using run_to_poll by blast
  have "\<exists>y. run_acts (good_env []) [result_event 5, A_Wifi, A_Wifi] x = Some y \<and> sys_wifi y = W_Exit"
    using association_result_decides [OF x(2-5), of "good_env []" "\<lparr>cb_status = 5, cb_requested_ip = 0\<rparr>"] by simp
  then show ?thesis unfolding run_acts_append x(1) option.case .
qed

lemma exit_run:
  assumes "run_acts e as x = Some y" "sys_wifi x = W_Exit"
  shows "sys_wifi y = W_Exit \<and> quiet_ext (trace (sys_fw x)) (trace (sys_fw y))"
  using assms
proof (induction as arbitrary: x)
  case Nil
  then show ?case by simp
next
  case (Cons a as)
  then obtain z where z: "act_step e a x = Some z" "run_acts e as z = Some y"
    by (auto split: option.splits)
  have "sys_wifi z = W_Exit \<and> quiet_ext (trace (sys_fw x)) (trace (sys_fw z))"
    using z(1) Cons.prems(2) quiet_main [of "sys_fw x" "sys_main x"] quiet_ready station.deliver_quiet
    by (cases a) (auto split: prod.splits if_splits)
  then show ?case using Cons.IH [OF z(2)] quiet_ext_trans by blast
qed

text \<open>C22. A failed association is final. Once the thread has ended (association refused, registration or
  semaphore error), no schedule and no later event, a successful association included, brings it
  back, and no socket is ever touched again: the firmware stays offline until it is reset.\<close>

theorem ended_thread_stays_offline:
  assumes "run_acts e as x = Some y" "sys_wifi x = W_Exit"
  shows "sys_wifi y = W_Exit \<and> filter (\<lambda>ev. \<not> quiet ev) (trace (sys_fw y)) = filter (\<lambda>ev. \<not> quiet ev) (trace (sys_fw x))"
  using exit_run [OF assms] by (auto simp: quiet_ext_def list_all_iff filter_empty_conv)

theorem ended_thread_stays_offline_witness:
  "\<exists>x y. run_acts (good_env []) (to_poll @ [result_event 5, A_Wifi, A_Wifi]) sys_boot = Some x \<and>
     run_acts (good_env []) [result_event 0, bound_event, A_Main] x = Some y \<and> sys_wifi y = W_Exit"
proof -
  obtain p where p: "run_acts (good_env []) to_poll sys_boot = Some p" "sys_main p = M_Loop" "sys_wifi p = W_Poll"
    "callbacks (sys_fw p) = registrations" "\<not> connected (sys_fw p)"
    using run_to_poll by blast
  obtain x where x: "run_acts (good_env []) [result_event 5, A_Wifi, A_Wifi] p = Some x" "sys_wifi x = W_Exit"
    using p by (simp add: event_defs)
  obtain y where y: "run_acts (good_env []) [result_event 0, bound_event, A_Main] x = Some y"
    by (simp add: split_beta)
  have "run_acts (good_env []) (to_poll @ [result_event 5, A_Wifi, A_Wifi]) sys_boot = Some x"
    unfolding run_acts_append p(1) option.case by (rule x(1))
  then show ?thesis using y ended_thread_stays_offline [OF y x(2)] by blast
qed


lemma missed_step:
  assumes "missed x" "act_step e a x = Some y" "\<not> disconnection a"
  shows "missed y \<and> sys_wifi y = (if a = A_Wifi then missed_pc (sys_wifi x) else sys_wifi x)"
proof (cases a)
  case A_Main
  then show ?thesis using assms by (auto simp: missed_def)
next
  case A_Wifi
  then show ?thesis using assms
    by (auto simp: missed_def cmd_wifi_status_keeps wifi_connect_request_def split: if_splits)
next
  case (A_Event cb ev)
  then show ?thesis using assms by (cases ev) (auto simp: missed_def event_defs)
next
  case (A_Ready b)
  then show ?thesis using assms by (auto simp: missed_def ready_event_def wifi_ready_cb_def split: if_splits)
qed

lemma missed_run:
  "missed x \<Longrightarrow> run_acts e as x = Some y \<Longrightarrow> \<forall>a \<in> set as. \<not> disconnection a \<Longrightarrow>
   missed y \<and> sys_wifi y = (missed_pc ^^ wifi_moves as) (sys_wifi x)"
proof (induction as arbitrary: x)
  case (Cons a as)
  then obtain z where z: "act_step e a x = Some z" "run_acts e as z = Some y" by (auto split: option.splits)
  have m: "missed z" "sys_wifi z = (if a = A_Wifi then missed_pc (sys_wifi x) else sys_wifi x)"
    using missed_step [OF Cons.prems(1) z(1)] Cons.prems(3) by simp_all
  then show ?case using Cons.IH [OF m(1) z(2)] Cons.prems(3) by (simp add: wifi_moves_def funpow_swap1)
qed (simp add: wifi_moves_def)

lemma missed_pc_poll: "(missed_pc ^^ n) W_Poll = W_Poll"
  by (induction n) simp_all

text \<open>C23. A result that arrives while \<^verbatim>\<open>wifi_connect\<close> is clearing its two flags is lost. Let the thread
  have cleared \<^verbatim>\<open>connected\<close> and not yet \<^verbatim>\<open>connect_result\<close> when a success is delivered. Its next move
  clears the result, the one after it requests the association, and from then on it polls:
  \<^verbatim>\<open>connected\<close> is set and \<^verbatim>\<open>connect_result\<close> clear, and however many further results, bindings and
  readiness reports come, the thread stays in the polling loop until the link is lost.\<close>

theorem lost_result_polls_on:
  assumes "sys_main x = M_Loop" "sys_wifi x = W_Clear_Result" "callbacks (sys_fw x) = registrations"
    and "\<not> connected (sys_fw x)" "cb_status cb = 0"
    and "run_acts e (A_Event cb NET_EVENT_WIFI_CONNECT_RESULT # as) x = Some y" "\<forall>a \<in> set as. \<not> disconnection a"
  shows "connected (sys_fw y) \<and> (1 \<le> wifi_moves as \<longrightarrow> \<not> connect_result (sys_fw y)) \<and>
         sys_wifi y = (if wifi_moves as = 0 then W_Clear_Result else if wifi_moves as = 1 then W_Request else W_Poll)"
proof -
  obtain z where z: "act_step e (A_Event cb NET_EVENT_WIFI_CONNECT_RESULT) x = Some z" "run_acts e as z = Some y"
    using assms(6) by (auto split: option.splits)
  have m: "missed z" "sys_wifi z = W_Clear_Result"
    using z(1) assms(1-5) by (auto simp: missed_def event_defs)
  have "sys_wifi y = (missed_pc ^^ wifi_moves as) W_Clear_Result" "missed y"
    using missed_run [OF m(1) z(2) assms(7)] m(2) by simp_all
  moreover have "(missed_pc ^^ n) W_Clear_Result =
      (if n = 0 then W_Clear_Result else if n = 1 then W_Request else W_Poll)" for n
  proof (cases n)
    case (Suc k)
    then show ?thesis by (cases k) (simp_all add: funpow_swap1 missed_pc_poll)
  qed simp
  ultimately show ?thesis by (auto simp: missed_def split: if_splits)
qed

theorem lost_result_polls_on_witness:
  "\<exists>x y. run_acts (good_env []) [A_Main, A_Wifi, A_Ready True, A_Wifi, A_Wifi, A_Wifi] sys_boot = Some x \<and>
     run_acts (good_env []) [result_event 0, A_Wifi, A_Wifi, A_Wifi, result_event 0, A_Wifi, bound_event, A_Wifi] x = Some y \<and>
     connected (sys_fw y) \<and> \<not> connect_result (sys_fw y) \<and> sys_wifi y = W_Poll"
proof -
  obtain x where x: "run_acts (good_env []) [A_Main, A_Wifi, A_Ready True, A_Wifi, A_Wifi, A_Wifi] sys_boot = Some x"
      "sys_main x = M_Loop" "sys_wifi x = W_Clear_Result" "callbacks (sys_fw x) = registrations" "\<not> connected (sys_fw x)"
    by (simp add: sys_boot_def boot_def act_simps)
  obtain y where y: "run_acts (good_env [])
      [result_event 0, A_Wifi, A_Wifi, A_Wifi, result_event 0, A_Wifi, bound_event, A_Wifi] x = Some y"
    using x by (simp add: event_defs wifi_connect_request_def cmd_wifi_status_keeps)
  show ?thesis using x(1) y lost_result_polls_on [OF x(2-5) _ y] by (auto simp: wifi_moves_def)
qed


lemma good_resolve_round:
  fixes s body
  assumes "got_ip s" "http_state s = 0"
  defines "u \<equiv> exec (http_round (good_env body)) s"
  shows "got_ip u" "http_state u = 1"
  using assms http_round_link [of s "good_env body"]
  by (simp_all add: http_round_def http_dispatch_def resolve_server_def)

lemma good_login_round:
  assumes "got_ip s" "http_state s = 1" "DQ \<notin> set tok" "NUL \<notin> set tok"
  defines "e \<equiv> good_env (''{'' @ TOKEN_KEY @ tok @ DQ # ''}'')"
  shows "\<exists>fd rc. Io_Http fd (patient_request (bearer tok)) 5000 rc \<in> set (trace (exec (http_round e) s))"
proof -
  have "cstr (token (exec (http_login e) s)) = tok"
    by (rule login_saves_token [where r = "\<lparr>rsp_status = ''OK'', rsp_body_frag = ''{'' @ TOKEN_KEY @ tok @ DQ # ''}''\<rparr>"
        and fs = "[]" and gs = "[]" and pre = "''{''" and post = "''}''"])
       (use assms(3,4) in \<open>simp_all add: e_def response_frags_def TOKEN_KEY_def quoted_def\<close>)
  moreover have "result (server_connect e) u = 0" for u by (simp add: e_def)
  ultimately have "\<exists>fd rc. Io_Http fd (patient_request (bearer tok)) 5000 rc \<in> set (trace (exec (http_dispatch e) s))"
    using post_sends_bearer [of e "exec (http_login e) s\<lparr>http_state := 2\<rparr>"]
    by (auto simp: http_dispatch_login [OF assms(2)])
  then show ?thesis using assms(1) by (auto simp: http_round_def)
qed

text \<open>C4. From reset to patient data. On a platform where every call succeeds and the server answers with a
  token, for every token the schedule "initialise, register, become ready, request, associate, get
  an address, run the client" takes the image from reset through its two first rounds, and the
  second one posts the patient data with exactly that token.\<close>

theorem boot_to_post:
  assumes "DQ \<notin> set tok" "NUL \<notin> set tok"
  shows "\<exists>y fd rc. run_acts (good_env (''{'' @ TOKEN_KEY @ tok @ DQ # ''}'')) (to_client @ replicate 2 A_Wifi) sys_boot = Some y \<and>
           Io_Http fd (patient_request (bearer tok)) 5000 rc \<in> set (trace (sys_fw y))"
proof -
  let ?e = "good_env (''{'' @ TOKEN_KEY @ tok @ DQ # ''}'')"
  obtain y where y: "run_acts ?e (to_client @ replicate 2 A_Wifi) sys_boot =
      Some (y\<lparr>sys_fw := (exec (http_round ?e) ^^ 2) (sys_fw y)\<rparr>)" "got_ip (sys_fw y)" "http_state (sys_fw y) = 0"
    using run_client_rounds by blast
  obtain fd rc where "Io_Http fd (patient_request (bearer tok)) 5000 rc
      \<in> set (trace (exec (http_round ?e) (exec (http_round ?e) (sys_fw y))))"
    using good_login_round [OF good_resolve_round [OF y(2,3)] assms] by blast
  then show ?thesis unfolding y(1) by (auto simp: numeral_2_eq_2)
qed

theorem boot_to_post_witness:
  "\<exists>y fd rc. run_acts (good_env (''{'' @ TOKEN_KEY @ ''abc'' @ DQ # ''}'')) (to_client @ replicate 2 A_Wifi) sys_boot = Some y \<and>
     Io_Http fd (patient_request (bearer ''abc'')) 5000 rc \<in> set (trace (sys_fw y))"
  by (rule boot_to_post) simp_all

end
