(* ===== verification/Client_Spec.thy ===== *)
theory Client_Spec
  imports Wifi_System
begin

text \<open>
  An abstract specification of the HTTPS client and the proof that the whole image implements it.
  The abstract client has a phase, the token it would send and the descriptors it has lost; it
  knows nothing of buffers, sockets, TLS options, threads or events. The sequence of requests that
  the image has sent in any reachable state is a sequence the abstract client can send, and the
  two agree on phase, token and lost descriptors.
\<close>

section \<open>The abstract client\<close>

datatype phase = Resolving | Logging_In | Posting

record client =
  phase :: phase
  bearer_token :: string
  leaked :: "int list"

definition client_init :: client where
  "client_init = \<lparr>phase = Resolving, bearer_token = [], leaked = []\<rparr>"

text \<open>What the client learns from a response: the text between \<^verbatim>\<open>"token":"\<close> and the next quotation
  mark, fragment by fragment, the last one found being kept.\<close>

definition find_token :: "string \<Rightarrow> string option" where
  "find_token str =
     (case strstr str TOKEN_KEY of
        None \<Rightarrow> None
      | Some i \<Rightarrow> map_option (\<lambda>n. take n (drop (i + length TOKEN_KEY) str)) (strchr (drop (i + length TOKEN_KEY) str) DQ))"

definition learn_frag :: "http_response \<Rightarrow> string \<Rightarrow> string" where
  "learn_frag r tok = (case find_token (c_str (rsp_body_frag r)) of None \<Rightarrow> tok | Some new_tok \<Rightarrow> new_tok)"

text \<open>A connection that fails may cost a descriptor; a login over descriptor 0 (or another that is
  not positive) costs one even when it succeeds.\<close>

inductive connect_fails :: "client \<Rightarrow> client \<Rightarrow> bool" where
  no_socket: "connect_fails c c"
| no_connection: "fd \<noteq> -1 \<Longrightarrow> connect_fails c (c\<lparr>leaked := fd # leaked c\<rparr>)"

inductive login_spec :: "client \<Rightarrow> http_request list \<Rightarrow> client \<Rightarrow> bool" where
  login_fails: "connect_fails c c' \<Longrightarrow> login_spec c [] c'"
| login_done: "login_spec c [login_request login_form] (c\<lparr>bearer_token := fold learn_frag rs (bearer_token c)\<rparr>)"
| login_unclosed: "fd \<noteq> -1 \<Longrightarrow> fd \<le> 0 \<Longrightarrow> login_spec c [login_request login_form]
    (c\<lparr>bearer_token := fold learn_frag rs (bearer_token c), leaked := fd # leaked c\<rparr>)"

inductive post_spec :: "client \<Rightarrow> http_request list \<Rightarrow> client \<Rightarrow> bool" where
  post_fails: "connect_fails c c' \<Longrightarrow> post_spec c [] c'"
| post_done: "post_spec c [patient_request (bearer (bearer_token c))] c"

inductive client_step :: "client \<Rightarrow> http_request list \<Rightarrow> client \<Rightarrow> bool" where
  offline: "client_step c [] (c\<lparr>phase := Resolving\<rparr>)"
| unresolved: "phase c = Resolving \<Longrightarrow> client_step c [] c"
| resolved: "phase c = Resolving \<Longrightarrow> client_step c [] (c\<lparr>phase := Logging_In\<rparr>)"
| logging_in: "phase c = Logging_In \<Longrightarrow> login_spec c ls c1 \<Longrightarrow> post_spec (c1\<lparr>phase := Posting\<rparr>) ms c2 \<Longrightarrow>
    client_step c (ls @ ms) c2"
| posting: "phase c = Posting \<Longrightarrow> post_spec c ls c' \<Longrightarrow> client_step c ls c'"

inductive client_run :: "http_request list \<Rightarrow> client \<Rightarrow> bool" where
  run_init: "client_run [] client_init"
| run_step: "client_run ls c \<Longrightarrow> client_step c ms c' \<Longrightarrow> client_run (ls @ ms) c'"

inductive_cases client_stepE: "client_step c ls c'"

section \<open>The view of a firmware state\<close>

definition phase_of :: "8 word \<Rightarrow> phase" where
  "phase_of st = (if st = 0 then Resolving else if st = 1 then Logging_In else Posting)"

definition client_view :: "fw \<Rightarrow> client" where
  "client_view s = \<lparr>phase = phase_of (http_state s), bearer_token = cstr (token s), leaked = open_fds (trace s)\<rparr>"

fun sent :: "trace \<Rightarrow> http_request list" where
  "sent [] = []"
| "sent (Io_Http fd req tmo r # t) = sent t @ [req]"
| "sent (_ # t) = sent t"

text \<open>A concrete step and the requests it sends, seen through the view.\<close>

abbreviation view_step :: "(client \<Rightarrow> http_request list \<Rightarrow> client \<Rightarrow> bool) \<Rightarrow> fw \<Rightarrow> fw \<Rightarrow> bool" where
  "view_step R s t \<equiv> \<exists>ls. sent (trace t) = sent (trace s) @ ls \<and> R (client_view s) ls (client_view t)"

section \<open>Tokens\<close>

lemma save_token_view:
  "NUL \<notin> set str \<Longrightarrow>
   cstr (token (exec (save_token str) s)) = (case find_token str of None \<Rightarrow> cstr (token s) | Some t \<Rightarrow> t)"
proof -
  assume clean: "NUL \<notin> set str"
  have "cstr (blit b 0 (strncpy_bytes n (drop k str) @ [NUL])) = take n (drop k str)"
    if "strchr (drop k str) DQ = Some n" for b n k
  proof -
    have "n < length (drop k str)" using strchr_SomeD [OF that] by auto
    moreover have "NUL \<notin> set (take n (drop k str))" using clean by (meson in_set_dropD in_set_takeD)
    ultimately show ?thesis by (simp add: strncpy_bytes_take)
  qed
  then show ?thesis
    by (simp add: save_token_def find_token_def Let_def blit0_append split: option.split)
qed

lemma response_cb_view: "cstr (token (exec (response_cb r) s)) = learn_frag r (cstr (token s))"
proof (cases "rsp_body_frag r = []")
  case True
  then show ?thesis by (simp add: response_cb_empty learn_frag_def find_token_def c_str_def TOKEN_KEY_def)
next
  case False
  then obtain vs where "exec (response_cb r) s = exec (save_token (c_str (rsp_body_frag r))) (s\<lparr>viols := vs\<rparr>)"
    using response_cb_nonempty by metis
  then show ?thesis by (simp add: save_token_view learn_frag_def split: option.split)
qed

lemma responses_view:
  "cstr (token (fold (\<lambda>r. exec (response_cb r)) rs s)) = fold learn_frag rs (cstr (token s))"
  by (induction rs arbitrary: s) (simp_all add: response_cb_view)

lemma patient_responses_view: "token (fold (\<lambda>r. exec (response_patient_cb r)) rs s) = token s"
  by (induction rs arbitrary: s) (simp_all add: response_patient_cb_def)

section \<open>Connections and sessions\<close>

lemma tls_setup_sent: "sent (trace (exec (tls_setup e fd) s)) = sent (trace s)"
  by (simp add: tls_setup_def)

lemma server_connect_sent: "sent (trace (exec (server_connect e) s)) = sent (trace s)"
  by (simp add: server_connect_def tls_setup_sent)

lemma server_connect_view:
  "client_view (exec (server_connect e) s) =
     (if env_socket e (trace s) = -1 then client_view s
      else (client_view s)\<lparr>leaked := env_socket e (trace s) # leaked (client_view s)\<rparr>)"
  by (simp add: client_view_def server_connect_keeps server_connect_open_fds)

lemma server_connect_spec: "connect_fails (client_view s) (client_view (exec (server_connect e) s))"
  by (auto simp: server_connect_view intro: connect_fails.intros)

lemma http_login_spec: "view_step login_spec s (exec (http_login e) s)"
proof (cases "result (server_connect e) s = 0")
  case False
  then show ?thesis
    using server_connect_spec by (auto simp: http_login_unconnected server_connect_sent intro: login_fails)
next
  case True
  let ?fd = "env_socket e (trace s)"
  have fd: "?fd \<noteq> -1" by (rule server_connect_zero_fd [OF True])
  have sent: "sent (trace (exec (http_login e) s)) = sent (trace s) @ [login_request login_form]"
    by (simp add: http_login_connected [OF True] Let_def login_cb.fold_keeps session_sent_simps server_connect_sent)
  have view: "client_view (exec (http_login e) s) =
      (client_view s)\<lparr>bearer_token := fold learn_frag (response_frags e s) (bearer_token (client_view s)),
        leaked := (if 0 < ?fd then [] else [?fd]) @ leaked (client_view s)\<rparr>"
    using fd by (simp add: http_login_connected [OF True] Let_def login_cb.fold_keeps session_sent_simps client_view_def
        responses_view server_connect_open_fds)
  show ?thesis
  proof (cases "0 < ?fd")
    case True
    then show ?thesis
      using login_done [of "client_view s" "response_frags e s"] sent view by auto
  next
    case False
    then show ?thesis
      using login_unclosed [OF fd, of "client_view s" "response_frags e s"] sent view by auto
  qed
qed

lemma http_post_spec: "view_step post_spec s (exec (http_post_patient_data e) s)"
proof (cases "result (server_connect e) s = 0")
  case False
  then show ?thesis
    using server_connect_spec by (auto simp: http_post_unconnected server_connect_sent intro: post_fails)
next
  case True
  have fd: "env_socket e (trace s) \<noteq> -1" by (rule server_connect_zero_fd [OF True])
  have "sent (trace (exec (http_post_patient_data e) s)) = sent (trace s) @ [patient_request (bearer (bearer_token (client_view s)))]"
    by (simp add: http_post_connected [OF True] Let_def patient_cb.fold_keeps session_sent_simps server_connect_sent client_view_def)
  moreover have "client_view (exec (http_post_patient_data e) s) = client_view s"
    using fd by (simp add: http_post_connected [OF True] Let_def patient_cb.fold_keeps session_sent_simps client_view_def
        patient_responses_view server_connect_open_fds)
  ultimately show ?thesis using post_done [of "client_view s"] by auto
qed

section \<open>Rounds\<close>

lemma client_view_sel:
  "phase (client_view s) = phase_of (http_state s)"
  "client_view (s\<lparr>http_state := st\<rparr>) = (client_view s)\<lparr>phase := phase_of st\<rparr>"
  "client_view (s\<lparr>trace := Io_Sleep n # trace s\<rparr>) = client_view s"
  by (simp_all add: client_view_def)

lemma http_dispatch_spec:
  assumes "http_state s \<in> {0, 1, 2}"
  shows "view_step client_step s (exec (http_dispatch e) s) \<and> http_state (exec (http_dispatch e) s) \<in> {0, 1, 2}"
  using assms
proof (elim insertE emptyE)
  assume st: "http_state s = 0"
  let ?c = "client_view s"
  have p: "phase ?c = Resolving" using st by (simp add: client_view_sel phase_of_def)
  let ?t = "exec (http_dispatch e) s"
  have "sent (trace ?t) = sent (trace s)" "http_state ?t \<in> {0, 1, 2}" "client_view ?t = ?c \<or> client_view ?t = ?c\<lparr>phase := Logging_In\<rparr>"
    using st by (auto simp: http_dispatch_def resolve_server_def client_view_def phase_of_def)
  then show ?thesis using unresolved [OF p] resolved [OF p] by auto
next
  assume st: "http_state s = 1"
  let ?u = "exec (http_login e) s"
  obtain ls where ls: "sent (trace ?u) = sent (trace s) @ ls" "login_spec (client_view s) ls (client_view ?u)"
    using http_login_spec by blast
  obtain ms where ms: "sent (trace (exec (http_dispatch e) s)) = sent (trace ?u) @ ms"
    "post_spec (client_view (?u\<lparr>http_state := 2\<rparr>)) ms (client_view (exec (http_dispatch e) s))"
    using http_post_spec [of e "?u\<lparr>http_state := 2\<rparr>"] st by (auto simp: http_dispatch_login)
  have "post_spec ((client_view ?u)\<lparr>phase := Posting\<rparr>) ms (client_view (exec (http_dispatch e) s))"
    using ms(2) by (simp add: client_view_sel(2) phase_of_def)
  then have "client_step (client_view s) (ls @ ms) (client_view (exec (http_dispatch e) s))"
    using ls(2) st by (intro logging_in) (simp_all add: client_view_sel phase_of_def)
  moreover have "http_state (exec (http_dispatch e) s) = 2"
    using st session_keeps_state [OF http_post_keeps] by (simp add: http_dispatch_login)
  ultimately show ?thesis using ls(1) ms(1) by auto
next
  assume st: "http_state s = 2"
  then have "phase (client_view s) = Posting" by (simp add: client_view_sel phase_of_def)
  moreover have "http_state (exec (http_dispatch e) s) = 2"
    using st session_keeps_state [OF http_post_keeps] by (simp add: http_dispatch_post)
  ultimately show ?thesis using http_post_spec [of e s] posting st by (auto simp: http_dispatch_post)
qed

lemma http_round_spec:
  assumes "http_state s \<in> {0, 1, 2}"
  shows "view_step client_step s (exec (http_round e) s) \<and> http_state (exec (http_round e) s) \<in> {0, 1, 2}"
proof (cases "got_ip s")
  case True
  then show ?thesis using http_dispatch_spec [OF assms, of e] by (simp add: http_round_def client_view_sel)
next
  case False
  then show ?thesis using offline [of "client_view s"] by (simp add: http_round_def client_view_def phase_of_def)
qed


section \<open>The image\<close>

lemma quiet_view:
  assumes "keeps_client s t" "quiet_ext (trace s) (trace t)"
  shows "client_view t = client_view s \<and> sent (trace t) = sent (trace s) \<and> http_state t = http_state s"
proof -
  have "sent (ev # u) = sent u \<and> open_fds (ev # u) = open_fds u" if "quiet ev" for ev u
    using that by (cases ev) simp_all
  then have "sent (evs @ u) = sent u \<and> open_fds (evs @ u) = open_fds u" if "list_all quiet evs" for evs u
    using that by (induction evs) simp_all
  then show ?thesis using assms by (auto simp: quiet_ext_def client_view_def keeps_client_def)
qed

text \<open>Each step of the image is a step of the abstract client or invisible to it.\<close>

definition view_sim :: "fw \<Rightarrow> fw \<Rightarrow> bool" where
  "view_sim s t \<longleftrightarrow> http_state t \<in> {0, 1, 2} \<and>
     (client_view t = client_view s \<and> sent (trace t) = sent (trace s) \<or> view_step client_step s t)"

lemma view_sim_quiet:
  "keeps_client s t \<Longrightarrow> quiet_ext (trace s) (trace t) \<Longrightarrow> http_state s \<in> {0, 1, 2} \<Longrightarrow> view_sim s t"
  using quiet_view by (auto simp: view_sim_def)

lemma wifi_thread_sim:
  assumes "wifi_thread_entry e pc s = Some (pc', t)" "http_state s \<in> {0, 1, 2}"
  shows "view_sim s t"
  using assms(1)
proof (cases rule: wifi_step_cases)
  case 1
  then show ?thesis using assms(2) by (intro view_sim_quiet) (auto simp: idle_step_def idle_ext_quiet)
next
  case 2
  then show ?thesis using assms(2) by (intro view_sim_quiet) (simp_all add: wifi_connect_request_def keeps_client_def)
next
  case (3 h h')
  show ?thesis
  proof (cases h)
    case H_Start
    with 3 assms(2) show ?thesis by (intro view_sim_quiet) (auto simp: register_certificate_def keeps_client_def)
  next
    case H_Loop
    with 3 show ?thesis using http_round_spec [OF assms(2), of e] by (auto simp: view_sim_def)
  qed
qed

definition client_refined :: "sys \<Rightarrow> bool" where
  "client_refined x \<longleftrightarrow> http_state (sys_fw x) \<in> {0, 1, 2} \<and>
     client_run (sent (trace (sys_fw x))) (client_view (sys_fw x))"

lemma sys_step_sim:
  assumes "sys_step e x y" "client_refined x"
  shows "view_sim (sys_fw x) (sys_fw y)"
  using assms(1)
proof cases
  case (step_main pc s)
  then show ?thesis
    using assms(2) quiet_main [of "sys_fw x" "sys_main x"]
    by (cases "sys_main x") (auto intro!: view_sim_quiet simp: client_refined_def wifi_sta_init_def keeps_client_def)
next
  case (step_wifi pc s)
  then show ?thesis using wifi_thread_sim assms(2) by (simp add: client_refined_def)
next
  case (step_event cb ev)
  then show ?thesis
    using assms(2) station.deliver_client station.deliver_quiet by (auto intro!: view_sim_quiet simp: client_refined_def)
next
  case (step_ready b)
  then show ?thesis
    using assms(2) quiet_ready by (auto intro!: view_sim_quiet simp: client_refined_def ready_event_def wifi_ready_cb_def keeps_client_def)
qed

lemma client_refined_step:
  assumes "sys_step e x y" "client_refined x"
  shows "client_refined y"
  using sys_step_sim [OF assms] assms(2) run_step by (auto simp: client_refined_def view_sim_def)

interpretation client: inductive_invariant "\<lambda>x. x = sys_boot" "sys_step e" client_refined for e
proof
  show "client_refined x" if "x = sys_boot" for x
    using run_init that by (simp add: client_refined_def sys_boot_def boot_def client_view_def phase_of_def client_init_def)
qed (rule client_refined_step)

text \<open>C12. The image implements the abstract client. In every reachable state, under every schedule,
  every sequence of events and every platform, the requests sent so far, in order and in full
  (method, path, host, headers, payload), are a run of the abstract client, which ends in the phase
  that \<^verbatim>\<open>state\<close> encodes, with the token that the buffer holds and the descriptors that
  are still open. Two posts never differ in anything but the token, no request is sent while the
  name is unresolved, and each post carries what the last login to find a token found.\<close>

theorem image_refines_client:
  assumes "reachable (\<lambda>x. x = sys_boot) (sys_step e) x"
  shows "client_run (sent (trace (sys_fw x))) (client_view (sys_fw x))"
  using client.inv_reachable [OF assms] by (simp add: client_refined_def)

theorem image_refines_client_witness:
  "\<exists>x. run_acts (good_env ''x'') (to_client @ replicate 3 A_Wifi) sys_boot = Some x \<and>
     client_run (sent (trace (sys_fw x))) (client_view (sys_fw x))"
proof -
  obtain x where "run_acts (good_env ''x'') (to_client @ replicate 3 A_Wifi) sys_boot = Some x"
    using run_client_rounds [of "''x''" 3] by blast
  then show ?thesis using image_refines_client [OF run_acts_reachable] by blast
qed

section \<open>What the specification gives\<close>

text \<open>Lost descriptors only accumulate.\<close>

lemma connect_fails_leaked: "connect_fails c c' \<Longrightarrow> suffix (leaked c) (leaked c')"
  by (induction rule: connect_fails.induct) (simp_all add: suffix_ConsI)

lemma login_spec_leaked: "login_spec c ls c' \<Longrightarrow> suffix (leaked c) (leaked c')"
  by (induction rule: login_spec.induct) (simp_all add: suffix_ConsI connect_fails_leaked)

lemma post_spec_leaked: "post_spec c ls c' \<Longrightarrow> suffix (leaked c) (leaked c')"
  by (induction rule: post_spec.induct) (simp_all add: connect_fails_leaked)

lemma client_step_leaked: "client_step c ls c' \<Longrightarrow> suffix (leaked c) (leaked c')"
proof (induction rule: client_step.induct)
  case (logging_in c ls c1 ms c2)
  then show ?case
    using suffix_order.trans [OF login_spec_leaked post_spec_leaked [of "c1\<lparr>phase := Posting\<rparr>", simplified]] by blast
qed (simp_all add: post_spec_leaked)

lemma sys_step_leaked:
  assumes "sys_step e x y" "client_refined x"
  shows "suffix (open_fds (trace (sys_fw x))) (open_fds (trace (sys_fw y)))"
proof -
  have "suffix (leaked (client_view (sys_fw x))) (leaked (client_view (sys_fw y)))"
    using sys_step_sim [OF assms] client_step_leaked unfolding view_sim_def by auto
  then show ?thesis by (simp add: client_view_def)
qed

end
