(* ===== verification/Fine_Image.thy ===== *)
theory Fine_Image
  imports Http_Steps Client_Spec "HOL-Library.Multiset"
begin

text \<open>
  The firmware image with HTTP rounds that can be interrupted: between any two statements of the client the
  main thread, network events and readiness reports may move. Every run of it is, up to the order in
  which the traces of the threads are merged, a run of the image of \<open>Wifi_System\<close>, whose rounds are
  single steps.
\<close>

section \<open>Steps\<close>

record fsys =
  f_sys :: sys
  f_round :: "unit prog" \<comment> \<open>what is left of the round; done between rounds\<close>

definition fine_boot :: fsys where
  "fine_boot = \<lparr>f_sys = sys_boot, f_round = Done ()\<rparr>"

text \<open>The moves of the other threads.\<close>

inductive other_step :: "env \<Rightarrow> sys \<Rightarrow> sys \<Rightarrow> bool" for e where
  other_main: "main (sys_main x) (sys_fw x) = (pc, s) \<Longrightarrow> other_step e x (x\<lparr>sys_main := pc, sys_fw := s\<rparr>)"
| other_event: "other_step e x (x\<lparr>sys_fw := deliver (wifi_h e) net_h cb ev (sys_fw x)\<rparr>)"
| other_ready: "Io_Register_Ready 0 \<in> set (trace (sys_fw x)) \<Longrightarrow>
     other_step e x (x\<lparr>sys_fw := exec (ready_event b) (sys_fw x)\<rparr>)"

text \<open>The Wi-Fi thread moves as before, except that a round starts with the test of \<^verbatim>\<open>got_ip\<close> and goes on
  one statement at a time.\<close>

inductive fine_step :: "env \<Rightarrow> fsys \<Rightarrow> fsys \<Rightarrow> bool" for e where
  fine_other: "other_step e (f_sys x) y \<Longrightarrow> fine_step e x (x\<lparr>f_sys := y\<rparr>)"
| fine_wifi: "sys_main (f_sys x) = M_Loop \<Longrightarrow> sys_wifi (f_sys x) \<noteq> W_Http H_Loop \<Longrightarrow>
     wifi_thread_entry e (sys_wifi (f_sys x)) (sys_fw (f_sys x)) = Some (pc, s) \<Longrightarrow>
     fine_step e x (x\<lparr>f_sys := (f_sys x)\<lparr>sys_wifi := pc, sys_fw := s\<rparr>\<rparr>)"
| fine_test: "sys_main (f_sys x) = M_Loop \<Longrightarrow> sys_wifi (f_sys x) = W_Http H_Loop \<Longrightarrow> f_round x = Done () \<Longrightarrow>
     fine_step e x (x\<lparr>f_round := http_round_steps (got_ip (sys_fw (f_sys x)))\<rparr>)"
| fine_client: "f_round x = Step f k \<Longrightarrow>
     fine_step e x (x\<lparr>f_sys := (f_sys x)\<lparr>sys_fw := f e (sys_fw (f_sys x))\<rparr>,
                      f_round := k e (sys_fw (f_sys x))\<rparr>)"

abbreviation fine_reachable :: "env \<Rightarrow> fsys \<Rightarrow> bool" where
  "fine_reachable e \<equiv> reachable (\<lambda>x. x = fine_boot) (fine_step e)"

text \<open>Socket traffic: the entries that only the client makes.\<close>

definition traffic :: "trace \<Rightarrow> trace" where
  "traffic t = filter (\<lambda>ev. \<not> quiet ev) t"

section \<open>The other threads' steps are mirrored\<close>

lemma mirrored_eq: "mirrored d op \<Longrightarrow> (\<And>e s. op' e s = op e s) \<Longrightarrow> mirrored d op'"
  by (metis ext)

lemma mirrored_comp:
  assumes "mirrored d (\<lambda>e s. (a, F e s))" "mirrored d (\<lambda>e s. (b, G e s))"
  shows "mirrored d (\<lambda>e s. (b, G e (F e s)))"
proof (rule mirrored_eq)
  show "mirrored d (\<lambda>e. run_state (do { _ \<leftarrow> State (\<lambda>s. (a, F e s)); State (\<lambda>s. (b, G e s)) }))"
    using assms by (intro mirrored_bind) simp_all
qed simp

lemma mirrored_exec: "mirrored d (\<lambda>e. run_state (m e)) \<Longrightarrow> mirrored d (\<lambda>e s. (c, exec (m e) s))"
  by (rule mirrored_eq [OF mirrored_result [of d "\<lambda>e. run_state (m e)" "\<lambda>_. c"]]) (simp_all add: run_state_split)

lemma mirrored_link_gets [mirrors]:
  "mirrored Link_Side (\<lambda>e. run_state (gets got_ip))" "mirrored Link_Side (\<lambda>e. run_state (gets connected))"
  "mirrored Link_Side (\<lambda>e. run_state (gets disconnect_requested))" "mirrored Link_Side (\<lambda>e. run_state (gets callbacks))"
  by (rule mirrored_gets; simp add: keeps_link_def)+

lemma mirrored_link_modify [mirrors]:
  "mirrored Link_Side (\<lambda>e. run_state (modify (put_bit n b)))"
  "mirrored Link_Side (\<lambda>e. run_state (modify (\<lambda>s. s\<lparr>got_ip := ip\<rparr>)))"
  "mirrored Link_Side (\<lambda>e. run_state (modify (\<lambda>s. s\<lparr>ctx := c\<rparr>)))"
  "mirrored Link_Side (\<lambda>e. run_state (modify (\<lambda>s. s\<lparr>callbacks := r # callbacks s\<rparr>)))"
  "mirrored Link_Side (\<lambda>e. run_state (modify (\<lambda>s. s\<lparr>wifi_ready_status := w\<rparr>)))"
  "mirrored Link_Side (\<lambda>e. run_state k_sem_give)"
  unfolding k_sem_give_def put_bit_def by (rule mirrored_modify; auto simp: keeps_link_def intro!: fw.equality)+

text \<open>The status request and what it left in \<^verbatim>\<open>status\<close>.\<close>

definition status_call :: "env \<Rightarrow> (fw, int \<times> wifi_iface_status) state" where
  "status_call e = do {
     r \<leftarrow> ask (\<lambda>t. env_net_mgmt e t NET_REQUEST_WIFI_IFACE_STATUS) (Io_Net_Mgmt NET_REQUEST_WIFI_IFACE_STATUS);
     status \<leftarrow> gets (\<lambda>s. env_iface_status e (trace s));
     ret (r, status)
   }"

lemma mirrored_status_call: "mirrored d (\<lambda>e. run_state (status_call e))"
proof -
  have "mirror_at d (\<lambda>e. run_state (status_call e)) e u v
      [Io_Net_Mgmt NET_REQUEST_WIFI_IFACE_STATUS (env_net_mgmt e (trace u) NET_REQUEST_WIFI_IFACE_STATUS)]"
    if "same d u v" for e :: env and u v
    using that by (simp add: mirror_at_run status_call_def graft_log)
  then show ?thesis by (rule mirroredI)
qed

lemma mirrored_cmd_wifi_status [mirrors]: "mirrored d (\<lambda>e. run_state (cmd_wifi_status e))"
proof (rule mirrored_eq)
  show "mirrored d (\<lambda>e. run_state (do {
     p \<leftarrow> status_call e;
     if fst p \<noteq> 0 then ret (- ENOEXEC)
     else do {
       emit (Io_Status [SF_State (st_state (snd p))]);
       (if st_state (snd p) \<ge> env_wifi_state_associated e
        then emit (Io_Status [SF_Iface_Mode (st_iface_mode (snd p)), SF_Link_Mode (st_link_mode (snd p)),
            SF_Ssid (take 32 (st_ssid (snd p))), SF_Bssid (st_bssid (snd p)), SF_Band (st_band (snd p)),
            SF_Channel (st_channel (snd p)), SF_Security (st_security (snd p)), SF_Mfp (st_mfp (snd p)),
            SF_Rssi (st_rssi (snd p))])
        else ret ());
       ret 0
     } }))"
    by (intro mirrors mirrored_status_call) simp_all
qed (simp add: cmd_wifi_status_def status_call_def when_do_def run_state_split)

lemma mirrored_wifi_handler: "mirrored Link_Side (\<lambda>e. run_state (wifi_mgmt_event_handler e cb ev))"
  unfolding wifi_mgmt_event_handler_def handle_wifi_connect_result_def handle_wifi_disconnect_result_def
  by (cases ev; simp only: mgmt_event.case; intro mirrors refl)

lemma mirrored_net_handler: "mirrored Link_Side (\<lambda>e. run_state (net_mgmt_event_handler cb ev))"
  unfolding net_mgmt_event_handler_def print_dhcp_ip_def
  by (cases ev; simp only: mgmt_event.case; intro mirrors refl)

lemma mirrored_dispatch: "mirrored Link_Side (\<lambda>e s. ((), dispatch (wifi_h e) net_h cb ev regs s))"
proof (induction regs)
  case Nil
  show ?case by (rule mirrored_eq [OF mirrored_ret]) simp
next
  case (Cons reg regs)
  obtain h msk where reg: "reg = (h, msk)" by (cases reg)
  have "mirrored Link_Side (\<lambda>e s. ((), if ev \<in> set msk
        then (case h of Wifi_Mgmt_Event_Handler \<Rightarrow> wifi_h e cb ev s | Net_Mgmt_Event_Handler \<Rightarrow> net_h cb ev s)
        else s))"
    by (cases "ev \<in> set msk"; cases h)
      (simp_all add: mirrored_exec mirrored_wifi_handler mirrored_net_handler mirrored_eq [OF mirrored_ret])
  then show ?case using mirrored_comp [OF _ Cons.IH] by (simp add: reg)
qed

lemma mirrored_deliver: "mirrored Link_Side (\<lambda>e s. ((), deliver (wifi_h e) net_h cb ev s))"
proof -
  have "mirrored Link_Side (\<lambda>e. run_state (do {
      _ \<leftarrow> emit (Io_Event ev); regs \<leftarrow> gets callbacks;
      State (\<lambda>s. ((), dispatch (wifi_h e) net_h cb ev regs s)) }))"
    using mirrored_dispatch by (intro mirrors) simp
  then show ?thesis by (rule mirrored_eq) (simp add: deliver_def emit_def)
qed

lemma mirrored_main: "mirrored Link_Side (\<lambda>e. main pc)"
proof (cases pc)
  case M_Start
  have "mirrored Link_Side (\<lambda>e. run_state wifi_sta_init)"
    unfolding wifi_sta_init_def by (intro mirrors)
  then show ?thesis by (rule mirrored_eq [OF mirrored_exec [where c = M_Loop]]) (simp add: M_Start)
next
  case M_Loop
  have "mirrored Link_Side (\<lambda>e. run_state (do { k_sleep 10000; ip \<leftarrow> gets got_ip; emit (Io_Log_Link ip) }))"
    unfolding k_sleep_def by (intro mirrors)
  then show ?thesis by (rule mirrored_eq [OF mirrored_exec [where c = M_Loop]]) (simp add: M_Loop)
qed

lemma mirrored_ready: "mirrored Link_Side (\<lambda>e. run_state (ready_event b))"
  unfolding ready_event_def wifi_ready_cb_def by (intro mirrors)

section \<open>The other threads' entries\<close>

definition idle_io :: "io \<Rightarrow> bool" where
  "idle_io ev \<longleftrightarrow> quiet ev \<and> \<not> association_request ev"

lemma idle_ext_app: "idle_ext t (evs @ t) \<longleftrightarrow> list_all idle_io evs"
  by (auto simp: idle_ext_def idle_io_def list_all_iff)

lemma idle_main: "idle_ext (trace s) (trace (snd (main pc s)))"
  by (cases pc) (simp_all add: wifi_sta_init_def)

lemma idle_ready: "idle_ext (trace s) (trace (exec (ready_event b) s))"
  by (simp add: ready_event_def wifi_ready_cb_def)

lemma idle_wifi_handler: "idle_ext (trace s) (trace (wifi_h e cb ev s))"
  using cmd_wifi_status_idle [of "put_bit b False s" e for b]
  by (cases ev) (simp_all add: event_defs)

lemma idle_net_handler: "idle_ext (trace s) (trace (net_h cb ev s))"
  by (cases ev) (simp_all add: event_defs)

lemma idle_dispatch: "idle_ext (trace s) (trace (dispatch (wifi_h e) net_h cb ev regs s))"
proof (induction regs arbitrary: s)
  case Nil
  show ?case by simp
next
  case (Cons reg regs)
  obtain h msk where "reg = (h, msk)" by (cases reg)
  then show ?case
    using Cons.IH idle_ext_trans [OF idle_wifi_handler Cons.IH] idle_ext_trans [OF idle_net_handler Cons.IH]
    by (simp split: mgmt_handler.split)
qed

lemma idle_deliver: "idle_ext (trace s) (trace (deliver (wifi_h e) net_h cb ev s))"
  using idle_ext_trans [of "trace s" "Io_Event ev # trace s"]
    idle_dispatch [of "s\<lparr>trace := Io_Event ev # trace s\<rparr>" e cb ev "callbacks s"]
  by (simp add: deliver_def)

section \<open>The other threads' steps in another state\<close>

text \<open>What every step of another thread does, and does in any state with the same link half.\<close>

definition replays :: "env \<Rightarrow> sys \<Rightarrow> sys \<Rightarrow> sys \<Rightarrow> io list \<Rightarrow> bool" where
  "replays e x x' z evs \<longleftrightarrow>
     (\<forall>\<phi>. tracks \<phi> (length evs) (trace (sys_fw z)) (trace (sys_fw x)) \<longrightarrow>
        other_step (env_map \<phi> e) z
          (z\<lparr>sys_main := sys_main x', sys_fw := graft Link_Side (sys_fw x') (sys_fw z) (evs @ trace (sys_fw z))\<rparr>))"

lemma mirrored_replay:
  assumes "mirrored d op" "same d u v" "op e u = (a, u')"
  obtains evs where "trace u' = evs @ trace u" "u' = graft d u' u (evs @ trace u)"
    "\<And>\<phi>. tracks \<phi> (length evs) (trace v) (trace u) \<Longrightarrow> op (env_map \<phi> e) v = (a, graft d u' v (evs @ trace v))"
proof -
  obtain evs where "mirror_at d op e u v evs" using mirroredE [OF assms(1,2)] .
  then have "trace u' = evs @ trace u \<and> u' = graft d u' u (evs @ trace u) \<and>
      (\<forall>\<phi>. tracks \<phi> (length evs) (trace v) (trace u) \<longrightarrow> op (env_map \<phi> e) v = (a, graft d u' v (evs @ trace v)))"
    unfolding mirror_at_def assms(3) fst_conv snd_conv .
  then show thesis using that by blast
qed

lemma sys_main_same: "sys_main z = p \<Longrightarrow> z\<lparr>sys_main := p, sys_fw := s\<rparr> = z\<lparr>sys_fw := s\<rparr>"
  by (auto intro: sys.equality)

lemma other_step_mirror:
  assumes "other_step e x x'" "same Link_Side (sys_fw x) (sys_fw z)" "sys_main z = sys_main x"
    and "Io_Register_Ready 0 \<in> set (trace (sys_fw x)) \<Longrightarrow> Io_Register_Ready 0 \<in> set (trace (sys_fw z))"
  obtains evs where "trace (sys_fw x') = evs @ trace (sys_fw x)" "list_all idle_io evs" "sys_wifi x' = sys_wifi x"
    "keeps_client (sys_fw x) (sys_fw x')" "replays e x x' z evs"
  using assms(1)
proof cases
  case (other_main pc s)
  obtain evs where t: "trace s = evs @ trace (sys_fw x)" and g: "s = graft Link_Side s (sys_fw x) (evs @ trace (sys_fw x))"
    and r: "\<And>\<phi>. tracks \<phi> (length evs) (trace (sys_fw z)) (trace (sys_fw x)) \<Longrightarrow>
      main (sys_main x) (sys_fw z) = (pc, graft Link_Side s (sys_fw z) (evs @ trace (sys_fw z)))"
    by (rule mirrored_replay [OF mirrored_main assms(2) other_main(2)]) blast
  have "replays e x x' z evs"
    using other_step.other_main [of z] r by (simp add: replays_def other_main(1) assms(3) del: graft.simps)
  moreover have "list_all idle_io evs"
    using idle_main [of "sys_fw x" "sys_main x"] other_main(2) t by (simp add: idle_ext_app)
  moreover have "keeps_client (sys_fw x) s" by (subst g) (rule graft_link_keeps)
  ultimately show thesis using that t other_main(1) by simp
next
  case (other_event cb ev)
  let ?s = "deliver (wifi_h e) net_h cb ev (sys_fw x)"
  obtain evs where t: "trace ?s = evs @ trace (sys_fw x)" and g: "?s = graft Link_Side ?s (sys_fw x) (evs @ trace (sys_fw x))"
    and r: "\<And>\<phi>. tracks \<phi> (length evs) (trace (sys_fw z)) (trace (sys_fw x)) \<Longrightarrow>
      ((), deliver (wifi_h (env_map \<phi> e)) net_h cb ev (sys_fw z)) = ((), graft Link_Side ?s (sys_fw z) (evs @ trace (sys_fw z)))"
    by (rule mirrored_replay [OF mirrored_deliver assms(2) refl]) blast
  have "replays e x x' z evs"
    unfolding replays_def other_event
  proof (intro allI impI)
    fix \<phi>
    assume "tracks \<phi> (length evs) (trace (sys_fw z)) (trace (sys_fw x))"
    then show "other_step (env_map \<phi> e) z (z\<lparr>sys_main := sys_main (x\<lparr>sys_fw := ?s\<rparr>),
        sys_fw := graft Link_Side (sys_fw (x\<lparr>sys_fw := ?s\<rparr>)) (sys_fw z) (evs @ trace (sys_fw z))\<rparr>)"
      using r [of \<phi>] other_step.other_event [of "env_map \<phi> e" z cb ev]
      by (simp add: sys_main_same assms(3) del: graft.simps)
  qed
  moreover have "list_all idle_io evs"
    using idle_deliver [of "sys_fw x" e cb ev] t by (simp add: idle_ext_app)
  moreover have "keeps_client (sys_fw x) ?s" by (subst g) (rule graft_link_keeps)
  ultimately show thesis using that t other_event by simp
next
  case (other_ready b)
  let ?s = "exec (ready_event b) (sys_fw x)"
  obtain evs where t: "trace ?s = evs @ trace (sys_fw x)" and g: "?s = graft Link_Side ?s (sys_fw x) (evs @ trace (sys_fw x))"
    and r: "\<And>\<phi>. tracks \<phi> (length evs) (trace (sys_fw z)) (trace (sys_fw x)) \<Longrightarrow>
      ((), exec (ready_event b) (sys_fw z)) = ((), graft Link_Side ?s (sys_fw z) (evs @ trace (sys_fw z)))"
    by (rule mirrored_replay [OF mirrored_exec [OF mirrored_ready] assms(2) refl]) blast
  have "replays e x x' z evs"
    unfolding replays_def other_ready
  proof (intro allI impI)
    fix \<phi>
    assume "tracks \<phi> (length evs) (trace (sys_fw z)) (trace (sys_fw x))"
    then show "other_step (env_map \<phi> e) z (z\<lparr>sys_main := sys_main (x\<lparr>sys_fw := ?s\<rparr>),
        sys_fw := graft Link_Side (sys_fw (x\<lparr>sys_fw := ?s\<rparr>)) (sys_fw z) (evs @ trace (sys_fw z))\<rparr>)"
      using r [of \<phi>] other_step.other_ready [of z "env_map \<phi> e" b] assms(4) [OF other_ready(2)]
      by (simp add: sys_main_same assms(3) del: graft.simps)
  qed
  moreover have "list_all idle_io evs"
    using idle_ready [of "sys_fw x" b] t by (simp add: idle_ext_app)
  moreover have "keeps_client (sys_fw x) ?s" by (subst g) (rule graft_link_keeps)
  ultimately show thesis using that t other_ready by simp
qed

lemma other_step_sys: "other_step e x y \<Longrightarrow> sys_step e x y"
  by (cases rule: other_step.cases) (auto intro: sys_step.intros)

section \<open>The Wi-Fi thread outside a round\<close>

lemma mirrored_wifi_ops:
  "mirrored d (\<lambda>e. run_state (register_wifi_ready e))" "mirrored d (\<lambda>e. run_state (wifi_connect_request e))"
  "mirrored d (\<lambda>e. run_state (do { _ \<leftarrow> cmd_wifi_status e; k_sleep 300 }))"
  "mirrored d (\<lambda>e. run_state (register_certificate e))"
  unfolding register_wifi_ready_def wifi_connect_request_def k_sleep_def register_certificate_def
  by (intro mirrors; simp)+

lemma wifi_op_mirror:
  assumes "mirrored Both_Sides (\<lambda>e. run_state (m e))" "same Both_Sides u v"
  obtains evs where "trace (exec (m e) u) = evs @ trace u"
    "\<And>\<phi>. tracks \<phi> (length evs) (trace v) (trace u) \<Longrightarrow> result (m (env_map \<phi> e)) v = result (m e) u \<and>
       exec (m (env_map \<phi> e)) v = (exec (m e) u)\<lparr>trace := evs @ trace v\<rparr>"
proof -
  have "run_state (m e) u = (result (m e) u, exec (m e) u)" by (rule run_state_split)
  from mirrored_replay [OF assms this] show thesis
    using that by (simp only: graft.simps run_state_split prod.inject) blast
qed

lemma both_eq: "same Both_Sides u v \<Longrightarrow> v = u\<lparr>trace := trace v\<rparr>"
  by (auto simp: footprint_defs intro!: fw.equality)

lemma wifi_step_mirror:
  assumes "wifi_thread_entry e pc u = Some (pc', u')" "pc \<noteq> W_Http H_Loop" "same Both_Sides u v"
  obtains evs where "trace u' = evs @ trace u"
    "\<And>\<phi>. tracks \<phi> (length evs) (trace v) (trace u) \<Longrightarrow>
       wifi_thread_entry (env_map \<phi> e) pc v = Some (pc', u'\<lparr>trace := evs @ trace v\<rparr>)"
proof -
  obtain t where v: "v = u\<lparr>trace := t\<rparr>" using both_eq [OF assms(3)] by blast
  have sel: "ready_sem v = ready_sem u" "wifi_ready_status v = wifi_ready_status u" "ctx v = ctx u"
    using assms(3) by (simp_all add: keeps_link_def)
  note mirror = that
  have take: thesis if "pc = W_Take \<or> pc = W_Retake"
  proof (rule mirror)
    let ?r = "env_sem_take e (trace u)"
    have u': "pc' = (if ?r \<noteq> 0 then W_Exit else W_Check_Ready)" "?r \<noteq> 0 \<or> 0 < ready_sem u"
      "u' = u\<lparr>ready_sem := (if ?r = 0 then ready_sem u - 1 else ready_sem u), trace := Io_Sem_Take ?r # trace u\<rparr>"
      using assms(1) \<open>pc = W_Take \<or> pc = W_Retake\<close>
      by (auto simp: k_sem_take_def Let_def split: if_splits intro!: fw.equality)
    show "trace u' = [Io_Sem_Take ?r] @ trace u" by (simp add: u'(3))
    show "wifi_thread_entry (env_map \<phi> e) pc v = Some (pc', u'\<lparr>trace := [Io_Sem_Take ?r] @ trace v\<rparr>)"
      if "tracks \<phi> (length [Io_Sem_Take ?r]) (trace v) (trace u)" for \<phi>
      using \<open>pc = W_Take \<or> pc = W_Retake\<close> that u'(1,2) v sel
      by (auto simp: k_sem_take_def Let_def u'(3) intro!: fw.equality)
  qed
  show thesis
  proof (cases pc)
    case W_Entry
    show ?thesis
    proof (cases "cfg_wifi_ready_lib e")
      case True
      then show ?thesis using W_Entry assms(1) that wifi_op_mirror [OF mirrored_wifi_ops(1) assms(3), of e] by auto metis
    next
      case False
      then show ?thesis using W_Entry assms(1) that [of "[]"] v by auto
    qed
  next
    case W_Check_Ready
    then show ?thesis using assms(1) that [of "[]"] v sel by auto
  next
    case W_Clear_Connected
    then show ?thesis using assms(1) that [of "[]"] v sel by (auto simp: put_bit_def intro!: fw.equality)
  next
    case W_Clear_Result
    then show ?thesis using assms(1) that [of "[]"] v sel by (auto simp: put_bit_def intro!: fw.equality)
  next
    case W_Request
    then show ?thesis using assms(1) that wifi_op_mirror [OF mirrored_wifi_ops(2) assms(3), of e] by auto metis
  next
    case W_Poll
    show ?thesis
    proof (cases "connect_result u")
      case True
      then show ?thesis using W_Poll assms(1) that [of "[]"] v sel by auto
    next
      case False
      then show ?thesis
        using W_Poll assms(1) that sel wifi_op_mirror [OF mirrored_wifi_ops(3) assms(3), of e] by (auto simp del: exec_bind)
    qed
  next
    case W_Decide
    show ?thesis
    proof (cases "connected u")
      case connected: True
      obtain evs where w: "trace (exec (cmd_wifi_status e) u) = evs @ trace u"
        "\<And>\<phi>. tracks \<phi> (length evs) (trace v) (trace u) \<Longrightarrow>
           exec (cmd_wifi_status (env_map \<phi> e)) v = (exec (cmd_wifi_status e) u)\<lparr>trace := evs @ trace v\<rparr>"
        by (rule wifi_op_mirror [OF mirrored_cmd_wifi_status assms(3), of e]) (rule that; blast)
      show ?thesis by (rule mirror [of evs]) (use W_Decide connected assms(1) w sel(3) in auto)
    next
      case False
      then show ?thesis using W_Decide assms(1) that [of "[]"] v sel by auto
    qed
  next
    case (W_Http h)
    then have "h = H_Start" using assms(2) by (cases h) auto
    then show ?thesis
      using W_Http assms(1) that wifi_op_mirror [OF mirrored_wifi_ops(4) assms(3), of e] by auto
  qed (use take assms(1) in auto)
qed

end
