(* ===== verification/Fine_Round.thy ===== *)
theory Fine_Round
  imports Fine_Image
begin

text \<open>
  One round of the interruptible image, split into two shares: what the client does alone, started in any
  state with the same client half, and what the other threads do alone, started in any state with the
  same link half. Whatever the order in which the two were interleaved, the client's share followed by
  the others' gives the same state.
\<close>

section \<open>A round and what happens during it\<close>

text \<open>From the test of \<^verbatim>\<open>got_ip\<close> in \<open>x\<close>: what is left of the round, and the state.\<close>

inductive in_round :: "env \<Rightarrow> sys \<Rightarrow> unit prog \<Rightarrow> sys \<Rightarrow> bool" for e x where
  round_begin: "in_round e x (http_round_steps (got_ip (sys_fw x))) x"
| round_own: "in_round e x (Step f k) y \<Longrightarrow> in_round e x (k e (sys_fw y)) (y\<lparr>sys_fw := f e (sys_fw y)\<rparr>)"
| round_other: "in_round e x p y \<Longrightarrow> other_step e y z \<Longrightarrow> in_round e x p z"

text \<open>The client's share: started in any state with the client half of \<open>x\<close>, the round alone gets to the same
  point and has made the same entries \<open>cs\<close>, on a platform that answers it as \<open>e\<close> did.\<close>

definition client_share :: "env \<Rightarrow> sys \<Rightarrow> unit prog \<Rightarrow> sys \<Rightarrow> io list \<Rightarrow> bool" where
  "client_share e x p y cs \<longleftrightarrow> (\<forall>w \<phi>. same Client_Side (sys_fw x) w \<longrightarrow>
     (\<exists>\<phi>'. agree (length (trace w)) \<phi> \<phi>' \<and>
        (\<forall>\<psi>. agree (length cs + length (trace w)) \<phi>' \<psi> \<longrightarrow>
           prun (http_round_steps (got_ip (sys_fw x))) (env_map \<psi> e) w =
           prun p (env_map \<psi> e) (graft Client_Side (sys_fw y) w (cs @ trace w)))))"

text \<open>The share of the other threads: from any state with the link half of \<open>x\<close> they alone get to the link half
  of \<open>y\<close>.\<close>

definition link_share :: "env \<Rightarrow> sys \<Rightarrow> sys \<Rightarrow> io list \<Rightarrow> io list \<Rightarrow> bool" where
  "link_share e x y cs os \<longleftrightarrow> (\<forall>z \<phi>. same Link_Side (sys_fw x) (sys_fw z) \<longrightarrow> sys_main z = sys_main x \<longrightarrow>
     (Io_Register_Ready 0 \<in> set cs \<union> set (trace (sys_fw x)) \<longrightarrow> Io_Register_Ready 0 \<in> set (trace (sys_fw z))) \<longrightarrow>
     (\<exists>\<phi>'. agree (length (trace (sys_fw z))) \<phi> \<phi>' \<and>
        (\<forall>\<psi>. agree (length os + length (trace (sys_fw z))) \<phi>' \<psi> \<longrightarrow>
           (other_step (env_map \<psi> e))\<^sup>*\<^sup>* z
             (z\<lparr>sys_main := sys_main y, sys_fw := graft Link_Side (sys_fw y) (sys_fw z) (os @ trace (sys_fw z))\<rparr>))))"

lemma graft_halves:
  "graft Link_Side (graft Client_Side u v t) w t' = graft Link_Side v w t'"
  "graft Client_Side (graft Link_Side u v t) w t' = graft Client_Side v w t'"
  by simp_all

lemma client_share_begin: "client_share e x (http_round_steps (got_ip (sys_fw x))) x []"
  unfolding client_share_def by (metis agree_refl append_Nil graft_same same_graft same_sym same_trans)

lemma link_share_begin: "link_share e x x [] []"
proof -
  have "z\<lparr>sys_main := sys_main x, sys_fw := graft Link_Side (sys_fw x) (sys_fw z) (trace (sys_fw z))\<rparr> = z"
    if "same Link_Side (sys_fw x) (sys_fw z)" "sys_main z = sys_main x" for z
    using that graft_same [OF that(1)] by (auto intro: sys.equality simp del: graft.simps)
  then show ?thesis
    unfolding link_share_def by (metis agree_refl append_Nil rtranclp.rtrancl_refl)
qed

lemma client_share_own:
  assumes "client_share e x (Step f k) y cs" "mirrored Client_Side (\<lambda>e s. (k e s, f e s))"
  obtains evs where "trace (f e (sys_fw y)) = evs @ trace (sys_fw y)"
    "f e (sys_fw y) = graft Client_Side (f e (sys_fw y)) (sys_fw y) (evs @ trace (sys_fw y))"
    "client_share e x (k e (sys_fw y)) (y\<lparr>sys_fw := f e (sys_fw y)\<rparr>) (evs @ cs)"
proof -
  let ?u = "sys_fw y"
  obtain evs0 where t: "trace (f e ?u) = evs0 @ trace ?u" "f e ?u = graft Client_Side (f e ?u) ?u (evs0 @ trace ?u)"
    using mirrored_replay [OF assms(2) same_refl refl, of e ?u] by blast
  have "client_share e x (k e ?u) (y\<lparr>sys_fw := f e ?u\<rparr>) (evs0 @ cs)"
    unfolding client_share_def
  proof (intro allI impI)
    fix w \<phi>
    assume w: "same Client_Side (sys_fw x) w"
    let ?v = "graft Client_Side ?u w (cs @ trace w)"
    obtain \<phi>' where 1: "agree (length (trace w)) \<phi> \<phi>'"
      "\<And>\<psi>. agree (length cs + length (trace w)) \<phi>' \<psi> \<Longrightarrow>
         prun (http_round_steps (got_ip (sys_fw x))) (env_map \<psi> e) w = prun (Step f k) (env_map \<psi> e) ?v"
      using assms(1) w unfolding client_share_def by blast
    obtain evs where 2: "trace (f e ?u) = evs @ trace ?u"
      "\<And>\<psi>. tracks \<psi> (length evs) (trace ?v) (trace ?u) \<Longrightarrow>
         (k (env_map \<psi> e) ?v, f (env_map \<psi> e) ?v) = (k e ?u, graft Client_Side (f e ?u) ?v (evs @ trace ?v))"
      using mirrored_replay [OF assms(2) same_graft refl, of e ?u] by blast
    have [simp]: "evs = evs0" using t(1) 2(1) by simp
    let ?\<chi> = "retarget \<phi>' (trace ?v) (trace ?u)"
    have "agree (length (trace w)) \<phi> ?\<chi>"
      using 1(1) agree_mono [OF retarget_agree] by (metis agree_trans le_add2 length_append order_refl trace_graft)
    moreover have "prun (http_round_steps (got_ip (sys_fw x))) (env_map \<psi> e) w =
        prun (k e ?u) (env_map \<psi> e) (graft Client_Side (f e ?u) w ((evs0 @ cs) @ trace w))"
      if "agree (length (evs0 @ cs) + length (trace w)) ?\<chi> \<psi>" for \<psi>
    proof -
      have a: "agree (length evs + length (trace ?v)) ?\<chi> \<psi>" using that by (simp add: add.assoc)
      then have "agree (length cs + length (trace w)) \<phi>' \<psi>"
        using retarget_agree [of "trace ?v" \<phi>' "trace ?u"] agree_trans [of "length (trace ?v)" \<phi>' ?\<chi> _ \<psi>] by simp
      then have "prun (http_round_steps (got_ip (sys_fw x))) (env_map \<psi> e) w =
          prun (k (env_map \<psi> e) ?v) (env_map \<psi> e) (f (env_map \<psi> e) ?v)"
        using 1(2) by simp
      also have "\<dots> = prun (k e ?u) (env_map \<psi> e) (graft Client_Side (f e ?u) ?v (evs @ trace ?v))"
        using 2(2) [OF retarget_tracks [OF a]] by (simp only: prod.inject)
      finally show ?thesis by (simp del: graft.simps)
    qed
    ultimately show "\<exists>\<phi>'. agree (length (trace w)) \<phi> \<phi>' \<and>
        (\<forall>\<psi>. agree (length (evs0 @ cs) + length (trace w)) \<phi>' \<psi> \<longrightarrow>
           prun (http_round_steps (got_ip (sys_fw x))) (env_map \<psi> e) w =
           prun (k e ?u) (env_map \<psi> e)
             (graft Client_Side (sys_fw (y\<lparr>sys_fw := f e ?u\<rparr>)) w ((evs0 @ cs) @ trace w)))"
      by (intro exI [of _ ?\<chi>]) (simp del: graft.simps)
  qed
  then show thesis using t that by blast
qed

lemma link_share_other:
  assumes "link_share e x y cs os" "other_step e y y'" "set (trace (sys_fw y)) \<subseteq> set cs \<union> set os \<union> set (trace (sys_fw x))"
  obtains evs where "trace (sys_fw y') = evs @ trace (sys_fw y)" "list_all idle_io evs" "sys_wifi y' = sys_wifi y"
    "keeps_client (sys_fw y) (sys_fw y')" "link_share e x y' cs (evs @ os)"
proof -
  obtain evs0 where t: "trace (sys_fw y') = evs0 @ trace (sys_fw y)" "list_all idle_io evs0" "sys_wifi y' = sys_wifi y"
    "keeps_client (sys_fw y) (sys_fw y')"
    by (rule other_step_mirror [OF assms(2) same_refl refl])
  have "link_share e x y' cs (evs0 @ os)"
    unfolding link_share_def
  proof (intro allI impI)
    fix z :: sys and \<phi>
    assume z: "same Link_Side (sys_fw x) (sys_fw z)" "sys_main z = sys_main x"
      and reg: "Io_Register_Ready 0 \<in> set cs \<union> set (trace (sys_fw x)) \<longrightarrow> Io_Register_Ready 0 \<in> set (trace (sys_fw z))"
    let ?v = "z\<lparr>sys_main := sys_main y, sys_fw := graft Link_Side (sys_fw y) (sys_fw z) (os @ trace (sys_fw z))\<rparr>"
    obtain \<phi>' where 1: "agree (length (trace (sys_fw z))) \<phi> \<phi>'"
      "\<And>\<psi>. agree (length os + length (trace (sys_fw z))) \<phi>' \<psi> \<Longrightarrow> (other_step (env_map \<psi> e))\<^sup>*\<^sup>* z ?v"
      using assms(1) z reg unfolding link_share_def by blast
    have "same Link_Side (sys_fw y) (sys_fw ?v)" "sys_main ?v = sys_main y" by (simp_all del: graft.simps same.simps)
    moreover have "Io_Register_Ready 0 \<in> set (trace (sys_fw ?v))" if "Io_Register_Ready 0 \<in> set (trace (sys_fw y))"
      using that assms(3) reg by (auto simp del: graft.simps)
    ultimately obtain evs where 2: "trace (sys_fw y') = evs @ trace (sys_fw y)" "replays e y y' ?v evs"
      using other_step_mirror [OF assms(2), of ?v] by blast
    have [simp]: "evs = evs0" using t(1) 2(1) by simp
    let ?c = "trace (sys_fw ?v)"
    let ?\<chi> = "retarget \<phi>' ?c (trace (sys_fw y))"
    have c: "?c = os @ trace (sys_fw z)" by (simp del: graft.simps)
    have "agree (length (trace (sys_fw z))) \<phi> ?\<chi>"
      using 1(1) retarget_agree [of ?c \<phi>' "trace (sys_fw y)"] agree_trans [of _ \<phi> \<phi>' "length ?c" ?\<chi>] by (simp add: c)
    moreover have "(other_step (env_map \<psi> e))\<^sup>*\<^sup>* z
        (z\<lparr>sys_main := sys_main y', sys_fw := graft Link_Side (sys_fw y') (sys_fw z) ((evs0 @ os) @ trace (sys_fw z))\<rparr>)"
      if "agree (length (evs0 @ os) + length (trace (sys_fw z))) ?\<chi> \<psi>" for \<psi>
    proof -
      have a: "agree (length evs + length ?c) ?\<chi> \<psi>" using that by (simp add: c add.assoc)
      then have "agree (length ?c) \<phi>' \<psi>"
        using retarget_agree [of ?c \<phi>' "trace (sys_fw y)"] agree_trans [of "length ?c" \<phi>' ?\<chi> _ \<psi>] by simp
      then have "(other_step (env_map \<psi> e))\<^sup>*\<^sup>* z ?v" using 1(2) by (simp only: c length_append)
      moreover have "other_step (env_map \<psi> e) ?v
          (?v\<lparr>sys_main := sys_main y', sys_fw := graft Link_Side (sys_fw y') (sys_fw ?v) (evs @ ?c)\<rparr>)"
        using 2(2) retarget_tracks [OF a] unfolding replays_def by blast
      ultimately show ?thesis by (simp add: rtranclp.rtrancl_into_rtrancl del: graft.simps)
    qed
    ultimately show "\<exists>\<phi>'. agree (length (trace (sys_fw z))) \<phi> \<phi>' \<and>
        (\<forall>\<psi>. agree (length (evs0 @ os) + length (trace (sys_fw z))) \<phi>' \<psi> \<longrightarrow>
          (other_step (env_map \<psi> e))\<^sup>*\<^sup>* z
            (z\<lparr>sys_main := sys_main y', sys_fw := graft Link_Side (sys_fw y') (sys_fw z) ((evs0 @ os) @ trace (sys_fw z))\<rparr>))"
      by blast
  qed
  then show thesis using that t by blast
qed

text \<open>The shares depend on the halves only, and the link share needs no more than the client's entries.\<close>

lemma client_share_cong: "client_share e x p y cs \<Longrightarrow> keeps_client (sys_fw y) (sys_fw y') \<Longrightarrow> client_share e x p y' cs"
proof -
  assume "keeps_client (sys_fw y) (sys_fw y')"
  then have "graft Client_Side (sys_fw y') w t = graft Client_Side (sys_fw y) w t" for w t by (simp add: keeps_client_def)
  then show "client_share e x p y cs \<Longrightarrow> client_share e x p y' cs" unfolding client_share_def by (simp del: graft.simps)
qed

lemma link_share_cong:
  "link_share e x y cs os \<Longrightarrow> keeps_link (sys_fw y) (sys_fw y') \<Longrightarrow> sys_main y' = sys_main y \<Longrightarrow> link_share e x y' (evs @ cs) os"
proof -
  assume "keeps_link (sys_fw y) (sys_fw y')" "sys_main y' = sys_main y"
  then have "graft Link_Side (sys_fw y') w t = graft Link_Side (sys_fw y) w t" for w t by (simp add: keeps_link_def)
  moreover assume "link_share e x y cs os" "sys_main y' = sys_main y"
  ultimately show ?thesis unfolding link_share_def by (simp del: graft.simps)
qed

definition split_round :: "env \<Rightarrow> sys \<Rightarrow> unit prog \<Rightarrow> sys \<Rightarrow> io list \<Rightarrow> io list \<Rightarrow> bool" where
  "split_round e x p y cs os \<longleftrightarrow> steps_mirrored Client_Side p \<and> sys_wifi y = sys_wifi x \<and> list_all idle_io os \<and>
     suffix (trace (sys_fw x)) (trace (sys_fw y)) \<and>
     mset (trace (sys_fw y)) = mset cs + mset os + mset (trace (sys_fw x)) \<and>
     traffic (trace (sys_fw y)) = traffic cs @ traffic (trace (sys_fw x)) \<and>
     client_share e x p y cs \<and> link_share e x y cs os"

lemma traffic_append [simp]: "traffic (t @ u) = traffic t @ traffic u"
  by (simp add: traffic_def)

lemma traffic_idle [simp]: "list_all idle_io t \<Longrightarrow> traffic t = []"
  by (simp add: traffic_def filter_empty_conv list_all_iff idle_io_def)

lemma in_round_split: "in_round e x p y \<Longrightarrow> \<exists>cs os. split_round e x p y cs os"
proof (induction rule: in_round.induct)
  case round_begin
  have "split_round e x (http_round_steps (got_ip (sys_fw x))) x [] []"
    by (simp add: split_round_def http_round_mirrored client_share_begin link_share_begin traffic_def)
  then show ?case by blast
next
  case (round_own f k y)
  then obtain cs os where IH: "split_round e x (Step f k) y cs os" by blast
  then have m: "mirrored Client_Side (\<lambda>e s. (k e s, f e s))" "\<And>e s. steps_mirrored Client_Side (k e s)"
    by (auto simp: split_round_def elim: steps_mirrored_StepE)
  have "client_share e x (Step f k) y cs" using IH by (simp add: split_round_def)
  then obtain evs where e: "trace (f e (sys_fw y)) = evs @ trace (sys_fw y)"
    "f e (sys_fw y) = graft Client_Side (f e (sys_fw y)) (sys_fw y) (evs @ trace (sys_fw y))"
    "client_share e x (k e (sys_fw y)) (y\<lparr>sys_fw := f e (sys_fw y)\<rparr>) (evs @ cs)"
    by (rule client_share_own [OF _ m(1)])
  have "keeps_link (sys_fw y) (f e (sys_fw y))" by (subst e(2)) (rule graft_client_keeps)
  then have "link_share e x (y\<lparr>sys_fw := f e (sys_fw y)\<rparr>) (evs @ cs) os"
    using IH by (intro link_share_cong [of e x y]) (simp_all add: split_round_def)
  then have "split_round e x (k e (sys_fw y)) (y\<lparr>sys_fw := f e (sys_fw y)\<rparr>) (evs @ cs) os"
    using IH m(2) e(1,3) by (simp add: split_round_def suffix_appendI ac_simps)
  then show ?case by blast
next
  case (round_other p y z)
  then obtain cs os where IH: "split_round e x p y cs os" by blast
  then have "set (trace (sys_fw y)) = set cs \<union> set os \<union> set (trace (sys_fw x))"
    by (metis set_mset_mset set_mset_union split_round_def)
  then obtain evs where e: "trace (sys_fw z) = evs @ trace (sys_fw y)" "list_all idle_io evs" "sys_wifi z = sys_wifi y"
    "keeps_client (sys_fw y) (sys_fw z)" "link_share e x z cs (evs @ os)"
    using link_share_other [OF _ round_other.hyps(2)] IH unfolding split_round_def by (metis order_refl)
  then have "split_round e x p z cs (evs @ os)"
    using IH client_share_cong by (auto simp: split_round_def suffix_appendI ac_simps)
  then show ?case by blast
qed

end
