(* ===== verification/Fine_Reduction.thy ===== *)
theory Fine_Reduction
  imports Fine_Round
begin

text \<open>
  The interruptible image refines the image with atomic rounds. A round that was interrupted is replayed
  as an atomic round followed by the steps of the other threads; the platform is the one that gives on
  the reordered traces the answers it gave on the real ones. So what holds in every state of
  \<open>Wifi_System\<close> holds, up to the order of the trace, in every state of this image between two rounds;
  the safety properties are carried into the middle of a round as well.
\<close>

section \<open>The coarse state of a fine one\<close>

text \<open>\<open>y\<close> is a state of the image with atomic rounds that differs from \<open>x\<close> in the order of its trace only,
  and is reached on every platform that answers as \<open>e\<close> did, up to the length of the trace.\<close>

definition coarse_of :: "env \<Rightarrow> (trace \<Rightarrow> trace) \<Rightarrow> sys \<Rightarrow> sys \<Rightarrow> bool" where
  "coarse_of e \<phi> x y \<longleftrightarrow>
     (\<forall>\<psi>. agree (length (trace (sys_fw y))) \<phi> \<psi> \<longrightarrow> sys_reachable (env_map \<psi> e) y) \<and>
     sys_main y = sys_main x \<and> sys_wifi y = sys_wifi x \<and> same Both_Sides (sys_fw x) (sys_fw y) \<and>
     mset (trace (sys_fw y)) = mset (trace (sys_fw x)) \<and> traffic (trace (sys_fw y)) = traffic (trace (sys_fw x))"

definition reduced :: "env \<Rightarrow> sys \<Rightarrow> bool" where
  "reduced e x \<longleftrightarrow> (\<exists>\<phi> y. coarse_of e \<phi> x y)"

lemma coarse_set: "coarse_of e \<phi> x y \<Longrightarrow> set (trace (sys_fw y)) = set (trace (sys_fw x))"
  unfolding coarse_of_def by (metis set_mset_mset)

lemma coarse_same: "coarse_of e \<phi> x y \<Longrightarrow> same Client_Side (sys_fw x) (sys_fw y) \<and> same Link_Side (sys_fw x) (sys_fw y)"
  by (simp add: coarse_of_def)

lemma sys_reach_step: "sys_reachable e x \<Longrightarrow> sys_step e x y \<Longrightarrow> sys_reachable e y"
  by (rule reach_step)

text \<open>A step that adds the same entries on both sides.\<close>

lemma coarse_extend:
  assumes c: "coarse_of e \<phi> x y"
    and x': "trace (sys_fw x') = evs @ trace (sys_fw x)" "sys_main y' = sys_main x'" "sys_wifi y' = sys_wifi x'"
    and y': "trace (sys_fw y') = evs @ trace (sys_fw y)" "same Both_Sides (sys_fw x') (sys_fw y')"
    and step: "\<And>\<psi>. tracks \<psi> (length evs) (trace (sys_fw y)) (trace (sys_fw x)) \<Longrightarrow> sys_step (env_map \<psi> e) y y'"
  shows "reduced e x'"
proof -
  let ?t = "trace (sys_fw y)"
  let ?\<chi> = "retarget \<phi> ?t (trace (sys_fw x))"
  have "sys_reachable (env_map \<psi> e) y'" if a: "agree (length (trace (sys_fw y'))) ?\<chi> \<psi>" for \<psi>
  proof -
    have a': "agree (length evs + length ?t) ?\<chi> \<psi>" using a by (simp add: y'(1))
    then have "agree (length ?t) \<phi> \<psi>" using retarget_agree [of ?t \<phi>] agree_trans by (metis le_add2)
    then have "sys_reachable (env_map \<psi> e) y" using c unfolding coarse_of_def by blast
    then show ?thesis by (rule sys_reach_step [OF _ step [OF retarget_tracks [OF a']]])
  qed
  then have "coarse_of e ?\<chi> x' y'" using c x' y' by (simp add: coarse_of_def del: same.simps)
  then show ?thesis unfolding reduced_def by blast
qed

lemma reduced_boot: "reduced e sys_boot"
proof -
  have "coarse_of e (\<lambda>t. t) sys_boot sys_boot" by (simp add: coarse_of_def reach_init del: same.simps)
  then show ?thesis unfolding reduced_def by blast
qed

lemma reduced_other:
  assumes "reduced e x" "other_step e x x'"
  shows "reduced e x'"
proof -
  obtain \<phi> y where c: "coarse_of e \<phi> x y" using assms(1) unfolding reduced_def by blast
  have m: "sys_main y = sys_main x" "sys_wifi y = sys_wifi x" using c by (simp_all add: coarse_of_def)
  obtain evs where e: "trace (sys_fw x') = evs @ trace (sys_fw x)" "sys_wifi x' = sys_wifi x"
    "keeps_client (sys_fw x) (sys_fw x')" "replays e x x' y evs"
    using other_step_mirror [OF assms(2) conjunct2 [OF coarse_same [OF c]] m(1)] coarse_set [OF c] by blast
  let ?y = "y\<lparr>sys_main := sys_main x', sys_fw := graft Link_Side (sys_fw x') (sys_fw y) (evs @ trace (sys_fw y))\<rparr>"
  have "same Client_Side (sys_fw x) (sys_fw y)" using coarse_same [OF c] by blast
  then have "same Client_Side (sys_fw x') (sys_fw ?y)"
    using e(3) graft_link_keeps(1) [of "sys_fw y"] same_trans [of Client_Side] same_sym [of Client_Side]
    by (metis same.simps(1) sys.select_convs(3) sys.surjective sys.update_convs(1,3))
  then have "same Both_Sides (sys_fw x') (sys_fw ?y)"
    using graft_link_keeps(2) [of "sys_fw x'"] by (simp del: graft.simps)
  then show ?thesis
    using e(1,2,4) m other_step_sys unfolding replays_def
    by (intro coarse_extend [OF c, of x' evs ?y]) (simp_all del: graft.simps same.simps)
qed

lemma reduced_wifi:
  assumes "reduced e x" "sys_main x = M_Loop" "sys_wifi x \<noteq> W_Http H_Loop"
    "wifi_thread_entry e (sys_wifi x) (sys_fw x) = Some (pc, s)"
  shows "reduced e (x\<lparr>sys_wifi := pc, sys_fw := s\<rparr>)"
proof -
  obtain \<phi> y where c: "coarse_of e \<phi> x y" using assms(1) unfolding reduced_def by blast
  have m: "sys_main y = sys_main x" "sys_wifi y = sys_wifi x" "same Both_Sides (sys_fw x) (sys_fw y)"
    using c by (simp_all add: coarse_of_def)
  obtain evs where e: "trace s = evs @ trace (sys_fw x)"
    "\<And>\<phi>. tracks \<phi> (length evs) (trace (sys_fw y)) (trace (sys_fw x)) \<Longrightarrow>
       wifi_thread_entry (env_map \<phi> e) (sys_wifi x) (sys_fw y) = Some (pc, s\<lparr>trace := evs @ trace (sys_fw y)\<rparr>)"
    by (rule wifi_step_mirror [OF assms(4,3) m(3)]) blast
  show ?thesis
  proof (rule coarse_extend [OF c, of _ evs "y\<lparr>sys_wifi := pc, sys_fw := s\<lparr>trace := evs @ trace (sys_fw y)\<rparr>\<rparr>"])
    show "sys_step (env_map \<psi> e) y (y\<lparr>sys_wifi := pc, sys_fw := s\<lparr>trace := evs @ trace (sys_fw y)\<rparr>\<rparr>)"
      if "tracks \<psi> (length evs) (trace (sys_fw y)) (trace (sys_fw x))" for \<psi>
      using step_wifi [of y] e(2) [OF that] m assms(2) by simp
  qed (use e(1) m in \<open>simp_all del: same.simps\<close>)
qed

section \<open>A whole round\<close>

lemma other_steps_sys: "(other_step e)\<^sup>*\<^sup>* x y \<Longrightarrow> (sys_step e)\<^sup>*\<^sup>* x y"
  by (induction rule: rtranclp_induct) (auto dest: other_step_sys intro: rtranclp.rtrancl_into_rtrancl)

lemma graft_both: "same Both_Sides u (graft Link_Side u (graft Client_Side u v t) t')"
  by (simp add: footprint_defs)

lemma reduced_round:
  assumes "reduced e x" "sys_main x = M_Loop" "sys_wifi x = W_Http H_Loop" "in_round e x (Done ()) x'"
  shows "reduced e x'"
proof -
  obtain \<phi> y where c: "coarse_of e \<phi> x y" using assms(1) unfolding reduced_def by blast
  have m: "sys_main y = sys_main x" "sys_wifi y = sys_wifi x" using c by (simp_all add: coarse_of_def)
  obtain cs os where "split_round e x (Done ()) x' cs os" using in_round_split [OF assms(4)] by blast
  then have r: "sys_wifi x' = sys_wifi x" "list_all idle_io os" "client_share e x (Done ()) x' cs" "link_share e x x' cs os"
    "mset (trace (sys_fw x')) = mset cs + mset os + mset (trace (sys_fw x))"
    "traffic (trace (sys_fw x')) = traffic cs @ traffic (trace (sys_fw x))"
    by (simp_all add: split_round_def)
  let ?u = "sys_fw y"
  let ?u1 = "graft Client_Side (sys_fw x') ?u (cs @ trace ?u)"
  obtain \<phi>1 where 1: "agree (length (trace ?u)) \<phi> \<phi>1"
    "\<And>\<psi>. agree (length cs + length (trace ?u)) \<phi>1 \<psi> \<Longrightarrow>
       prun (http_round_steps (got_ip (sys_fw x))) (env_map \<psi> e) ?u = Some ((), ?u1)"
    using r(3) conjunct1 [OF coarse_same [OF c]] unfolding client_share_def prun_simps by metis
  have ip: "got_ip (sys_fw x) = got_ip ?u" using coarse_same [OF c] by (simp add: keeps_link_def)
  let ?y1 = "y\<lparr>sys_fw := ?u1\<rparr>"
  have s1: "sys_step (env_map \<psi> e) y ?y1" if "agree (length cs + length (trace ?u)) \<phi>1 \<psi>" for \<psi>
  proof -
    have "exec (http_round (env_map \<psi> e)) ?u = ?u1"
      using 1(2) [OF that] run_http_round_steps [of ?u "env_map \<psi> e"] unfolding ip by (simp only: option.inject prod.inject)
    then have "wifi_thread_entry (env_map \<psi> e) (sys_wifi y) ?u = Some (sys_wifi y, ?u1)"
      using m assms(3) by (simp del: graft.simps)
    then have "sys_step (env_map \<psi> e) y (y\<lparr>sys_wifi := sys_wifi y, sys_fw := ?u1\<rparr>)"
      using m assms(2) by (intro step_wifi) simp_all
    then show ?thesis by (simp del: graft.simps)
  qed
  have l: "same Link_Side (sys_fw x) ?u1"
    using coarse_same [OF c] graft_client_keeps(1) [of ?u] by (metis same.simps(2) same_trans)
  let ?t1 = "cs @ trace ?u"
  let ?y2 = "?y1\<lparr>sys_main := sys_main x', sys_fw := graft Link_Side (sys_fw x') ?u1 (os @ ?t1)\<rparr>"
  obtain \<phi>2 where 2: "agree (length ?t1) \<phi>1 \<phi>2"
    "\<And>\<psi>. agree (length os + length ?t1) \<phi>2 \<psi> \<Longrightarrow> (other_step (env_map \<psi> e))\<^sup>*\<^sup>* ?y1 ?y2"
    using r(4) [unfolded link_share_def, rule_format, of ?y1 \<phi>1] l m(1) coarse_set [OF c]
    by (auto simp del: graft.simps same.simps)
  have "sys_reachable (env_map \<psi> e) ?y2" if a: "agree (length (trace (sys_fw ?y2))) \<phi>2 \<psi>" for \<psi>
  proof -
    have a2: "agree (length os + length ?t1) \<phi>2 \<psi>" using a by (simp del: graft.simps)
    have a1: "agree (length ?t1) \<phi>1 \<psi>" using agree_trans [OF 2(1) a2] by simp
    have "agree (length (trace ?u)) \<phi> \<psi>" using agree_trans [OF 1(1) a1] by simp
    then have "sys_reachable (env_map \<psi> e) y" using c unfolding coarse_of_def by blast
    then have "sys_reachable (env_map \<psi> e) ?y1"
      by (rule sys_reach_step [OF _ s1]) (use a1 in simp)
    then show ?thesis by (rule reachable_run [OF other_steps_sys [OF 2(2) [OF a2]]])
  qed
  moreover have "same Both_Sides (sys_fw x') (sys_fw ?y2)"
    by (simp add: graft_both del: graft.simps same.simps)
  ultimately have "coarse_of e \<phi>2 x' ?y2"
    using c r(1,2,5,6) m by (simp add: coarse_of_def del: graft.simps same.simps)
  then show ?thesis unfolding reduced_def by blast
qed

section \<open>What a round adds\<close>

lemma prun_extends: "steps_mirrored d p \<Longrightarrow> \<exists>a t evs. prun p e s = Some (a, t) \<and> trace t = evs @ trace s"
proof (induction arbitrary: s rule: steps_mirrored.induct)
  case (finished a)
  then show ?case by simp
next
  case (step k f)
  obtain evs where "trace (f e s) = evs @ trace s"
    by (rule mirrored_replay [OF step(1) same_refl refl]) blast
  moreover obtain a t evs' where "prun (k e s) e (f e s) = Some (a, t)" "trace t = evs' @ trace (f e s)"
    using step.IH by blast
  ultimately show ?case by simp
qed

text \<open>The client's entries so far are the first ones of an atomic round from the coarse state.\<close>

lemma round_share:
  assumes "coarse_of e \<phi> x z" "split_round e x p y cs os"
  obtains \<psi> evs where "agree (length (trace (sys_fw z))) \<phi> \<psi>"
    "trace (exec (http_round (env_map \<psi> e)) (sys_fw z)) = evs @ cs @ trace (sys_fw z)"
proof -
  have s: "client_share e x p y cs" "steps_mirrored Client_Side p" using assms(2) by (simp_all add: split_round_def)
  have ip: "got_ip (sys_fw x) = got_ip (sys_fw z)" using coarse_same [OF assms(1)] by (simp add: keeps_link_def)
  obtain \<psi> where \<psi>: "agree (length (trace (sys_fw z))) \<phi> \<psi>"
    "prun (http_round_steps (got_ip (sys_fw x))) (env_map \<psi> e) (sys_fw z) =
       prun p (env_map \<psi> e) (graft Client_Side (sys_fw y) (sys_fw z) (cs @ trace (sys_fw z)))"
    using s(1) conjunct1 [OF coarse_same [OF assms(1)]] agree_refl unfolding client_share_def by metis
  have "prun p (env_map \<psi> e) (graft Client_Side (sys_fw y) (sys_fw z) (cs @ trace (sys_fw z))) =
      Some ((), exec (http_round (env_map \<psi> e)) (sys_fw z))"
    using \<psi>(2) run_http_round_steps [of "sys_fw z"] unfolding ip by metis
  then show thesis using that \<psi>(1) prun_extends [OF s(2)] by (metis option.inject prod.inject trace_graft)
qed

section \<open>Order at start-up\<close>

text \<open>What the coarse state knows, in the fine one.\<close>

lemma reduced_facts:
  assumes "errno_positive e" "reduced e x"
  shows "pc_inv e (sys_wifi x) (trace (sys_fw x))" "got_ip (sys_fw x) \<Longrightarrow> list_ex address_bound (trace (sys_fw x))"
    "wifi_ready_status (sys_fw x) \<Longrightarrow> list_ex driver_ready (trace (sys_fw x))"
proof -
  obtain \<phi> y where c: "coarse_of e \<phi> x y" using assms(2) unfolding reduced_def by blast
  then have "sys_reachable (env_map \<phi> e) y" unfolding coarse_of_def by (metis agree_refl)
  moreover have "errno_positive (env_map \<phi> e)" using assms(1) by (simp add: errno_positive_def)
  ultimately have "sys_inv (env_map \<phi> e) y" by (rule reachable_inv [rotated])
  moreover have "list_ex p (trace (sys_fw y)) = list_ex p (trace (sys_fw x))" for p
    using coarse_set [OF c] by (simp add: list_ex_iff)
  ultimately show "pc_inv e (sys_wifi x) (trace (sys_fw x))" "got_ip (sys_fw x) \<Longrightarrow> list_ex address_bound (trace (sys_fw x))"
    "wifi_ready_status (sys_fw x) \<Longrightarrow> list_ex driver_ready (trace (sys_fw x))"
    using c by (simp_all add: sys_inv_def fw_inv_def pc_inv_def coarse_of_def keeps_link_def)
qed

text \<open>The client's entries hold no association request, and none that needs an address unless the round
  began with one.\<close>

lemma round_entries:
  assumes "coarse_of e \<phi> x z" "split_round e x p y cs os"
  shows "list_all (\<lambda>ev. \<not> association_request ev \<and> (needs_address ev \<longrightarrow> got_ip (sys_fw x))) cs"
proof -
  obtain \<psi> evs where t: "trace (exec (http_round (env_map \<psi> e)) (sys_fw z)) = evs @ cs @ trace (sys_fw z)"
    by (rule round_share [OF assms])
  have ip: "got_ip (sys_fw z) = got_ip (sys_fw x)" using coarse_same [OF assms(1)] by (simp add: keeps_link_def)
  have "filter association_request cs = []"
    using http_round_no_request [of "env_map \<psi> e" "sys_fw z"] by (simp add: t)
  moreover have "list_all (\<lambda>ev. \<not> needs_address ev) cs" if "\<not> got_ip (sys_fw x)"
  proof -
    have "trace (exec (http_round (env_map \<psi> e)) (sys_fw z)) = Io_Sleep 1000 # trace (sys_fw z)"
      using that ip by (simp add: http_round_def)
    then have "set cs \<subseteq> {Io_Sleep 1000}" using t
      by (cases "evs @ cs") (auto simp: append_eq_Cons_conv append_eq_append_conv2)
    then show ?thesis by (auto simp: list_all_iff)
  qed
  ultimately show ?thesis by (auto simp: list_all_iff filter_empty_conv)
qed

lemma startup_order_round:
  assumes "errno_positive e" "reduced e x" "startup_order e (trace (sys_fw x))" "sys_wifi x = W_Http H_Loop" "in_round e x p y"
  shows "startup_order e (trace (sys_fw y))"
proof -
  obtain \<phi> z where c: "coarse_of e \<phi> x z" using assms(2) unfolding reduced_def by blast
  obtain cs os where s: "split_round e x p y cs os" using in_round_split [OF assms(5)] by blast
  then obtain ms where ms: "trace (sys_fw y) = ms @ trace (sys_fw x)" by (auto simp: split_round_def suffix_def)
  then have "mset ms = mset cs + mset os" using s by (simp add: split_round_def)
  then have "set ms = set cs \<union> set os" by (metis set_mset_mset set_mset_union)
  moreover have "list_all idle_io os" using s by (simp add: split_round_def)
  ultimately have l: "list_all (\<lambda>ev. \<not> association_request ev \<and> (needs_address ev \<longrightarrow> got_ip (sys_fw x))) ms"
    using round_entries [OF c s] needs_address_noisy by (auto simp: list_all_iff idle_io_def)
  show ?thesis
  proof (cases "got_ip (sys_fw x)")
    case True
    then show ?thesis
      using startup_order_online [OF assms(3), of "trace (sys_fw y)"] reduced_facts [OF assms(1,2)] assms(4) l
      by (auto simp: ms suffix_def pc_inv_def list_all_iff filter_empty_conv)
  next
    case False
    then show ?thesis using assms(3) l by (auto simp: ms startup_order_def list_all_iff intro!: preceded_silent)
  qed
qed

lemma startup_order_other:
  "other_step e x y \<Longrightarrow> startup_order e (trace (sys_fw x)) \<Longrightarrow> startup_order e (trace (sys_fw y))"
  by (rule other_step_mirror [of e x y x]) (auto simp: idle_ext_app intro: startup_order_idle)

lemma startup_order_wifi:
  assumes "startup_order e (trace s)" "wifi_thread_entry e pc s = Some (pc', t)" "pc \<noteq> W_Http H_Loop" "pc_inv e pc (trace s)"
  shows "startup_order e (trace t)"
  using assms(2)
proof (cases rule: wifi_step_cases)
  case 1
  then show ?thesis using startup_order_idle [OF assms(1)] by (simp add: idle_step_def)
next
  case 2
  then show ?thesis using assms(1,4) by (simp add: wifi_connect_request_def startup_order_def pc_inv_def)
next
  case (3 h h')
  then have "h = H_Start" using assms(3) by (cases h) auto
  then have "idle_ext (trace s) (trace t)" using 3(2) by (auto simp: register_certificate_def)
  then show ?thesis by (rule startup_order_idle [OF assms(1)])
qed

section \<open>The invariant\<close>

text \<open>Between rounds, and during one that started so.\<close>

definition ordered :: "env \<Rightarrow> sys \<Rightarrow> bool" where
  "ordered e x \<longleftrightarrow> reduced e x \<and> (errno_positive e \<longrightarrow> startup_order e (trace (sys_fw x)))"

definition fine_inv :: "env \<Rightarrow> fsys \<Rightarrow> bool" where
  "fine_inv e x \<longleftrightarrow> f_round x = Done () \<and> ordered e (f_sys x) \<or>
     (\<exists>x0. ordered e x0 \<and> sys_main x0 = M_Loop \<and> sys_wifi x0 = W_Http H_Loop \<and> in_round e x0 (f_round x) (f_sys x))"

lemma fine_inv_done: "fine_inv e x \<Longrightarrow> f_round x = Done () \<Longrightarrow> ordered e (f_sys x)"
  unfolding fine_inv_def ordered_def using reduced_round startup_order_round by metis

lemma in_round_wifi: "in_round e x p y \<Longrightarrow> sys_wifi y = sys_wifi x"
  using in_round_split unfolding split_round_def by blast

lemma fine_step_inv:
  assumes "fine_step e x x'" "fine_inv e x"
  shows "fine_inv e x'"
  using assms(1)
proof cases
  case (fine_other y)
  then show ?thesis
    using assms(2) reduced_other startup_order_other round_other unfolding fine_inv_def ordered_def by fastforce
next
  case (fine_wifi pc s)
  then have "f_round x = Done ()" "reduced e (f_sys x)" "errno_positive e \<Longrightarrow> startup_order e (trace (sys_fw (f_sys x)))"
    using assms(2) in_round_wifi unfolding fine_inv_def ordered_def by metis+
  moreover from this have "startup_order e (trace s)" if "errno_positive e"
    using startup_order_wifi [OF _ fine_wifi(4,3)] reduced_facts(1) that by blast
  ultimately show ?thesis using fine_wifi reduced_wifi by (simp add: fine_inv_def ordered_def)
next
  case fine_test
  then show ?thesis using fine_inv_done [OF assms(2)] round_begin unfolding fine_inv_def by fastforce
next
  case (fine_client f k)
  then show ?thesis using assms(2) round_own unfolding fine_inv_def by fastforce
qed

interpretation fine: inductive_invariant "\<lambda>x. x = fine_boot" "fine_step e" "fine_inv e" for e
proof
  have "startup_order e []" for e by (simp add: startup_order_def)
  then show "fine_inv e x" if "x = fine_boot" for x
    using that by (simp add: fine_inv_def ordered_def fine_boot_def reduced_boot) (simp add: sys_boot_def boot_def)
qed (rule fine_step_inv)

section \<open>Traffic\<close>

lemma traffic_Cons: "traffic (ev # t) = (if quiet ev then traffic t else ev # traffic t)"
  by (simp add: traffic_def)

lemma traffic_Nil [simp]: "traffic [] = []"
  by (simp add: traffic_def)

lemma traffic_prefix: "prefix p t \<Longrightarrow> traffic p = p \<Longrightarrow> prefix p (traffic t)"
  by (auto simp: prefix_def)

lemma resolved_traffic: "resolved (traffic t) = resolved t"
proof (induction t)
  case (Cons ev t)
  then show ?case by (cases ev) (simp_all add: traffic_Cons)
qed simp

lemma secured_traffic: "secured t \<Longrightarrow> secured (traffic t)"
proof (induction t rule: secured.induct)
  case (2 fd a r t)
  have "prefix (tls_prologue fd) (traffic t)"
    using 2(2) by (intro traffic_prefix) (auto simp: tls_prologue_def traffic_def)
  then show ?case using 2 by (simp add: traffic_Cons aims_at_server_def resolved_traffic)
next
  case (3 fd req tmo r t)
  then show ?case by (cases t) (auto simp: traffic_Cons split: io.splits)
qed (simp_all add: traffic_Cons)

lemma secured_append: "secured (evs @ t) \<Longrightarrow> secured t"
proof (induction evs)
  case (Cons ev evs)
  then show ?case by (cases ev) simp_all
qed simp

lemma sent_traffic: "sent (traffic t) = sent t"
proof (induction t)
  case (Cons ev t)
  then show ?case by (cases ev) (simp_all add: traffic_Cons)
qed simp

lemma open_fds_traffic: "open_fds (traffic t) = open_fds t"
proof (induction t)
  case (Cons ev t)
  then show ?case by (cases ev) (simp_all add: traffic_Cons)
qed simp

lemma reduced_secured:
  assumes "errno_positive e" "reduced e x"
  shows "secured (traffic (trace (sys_fw x)))"
proof -
  obtain \<phi> y where c: "coarse_of e \<phi> x y" using assms(2) unfolding reduced_def by blast
  then have "sys_reachable (env_map \<phi> e) y" unfolding coarse_of_def by (metis agree_refl)
  moreover have "errno_positive (env_map \<phi> e)" using assms(1) by (simp add: errno_positive_def)
  ultimately have "secured (trace (sys_fw y))" using reachable_fw_inv by (simp add: fw_inv_def client_inv_def)
  then show ?thesis using c secured_traffic by (metis coarse_of_def)
qed

lemma in_round_secured:
  assumes "errno_positive e" "reduced e x" "in_round e x p y"
  shows "secured (traffic (trace (sys_fw y)))"
proof -
  obtain \<phi> z where c: "coarse_of e \<phi> x z" using assms(2) unfolding reduced_def by blast
  obtain cs os where s: "split_round e x p y cs os" using in_round_split [OF assms(3)] by blast
  obtain \<psi> evs where r: "agree (length (trace (sys_fw z))) \<phi> \<psi>"
    "trace (exec (http_round (env_map \<psi> e)) (sys_fw z)) = evs @ cs @ trace (sys_fw z)"
    by (rule round_share [OF c s])
  have p: "errno_positive (env_map \<psi> e)" using assms(1) by (simp add: errno_positive_def)
  have "sys_reachable (env_map \<psi> e) z" using c r(1) unfolding coarse_of_def by blast
  then have "client_inv (sys_fw z)" using reachable_fw_inv [OF p] by (simp add: fw_inv_def)
  then have "secured (evs @ cs @ trace (sys_fw z))"
    using http_round_inv [OF p] r(2) by (metis client_inv_secured)
  then have "secured (traffic (cs @ trace (sys_fw z)))" using secured_append secured_traffic by blast
  moreover have "traffic (cs @ trace (sys_fw z)) = traffic (trace (sys_fw y))"
    using c s by (simp add: coarse_of_def split_round_def)
  ultimately show ?thesis by simp
qed

lemma reduced_client:
  assumes "reduced e x"
  shows "client_run (sent (trace (sys_fw x))) (client_view (sys_fw x))"
proof -
  obtain \<phi> y where c: "coarse_of e \<phi> x y" using assms unfolding reduced_def by blast
  then have "sys_reachable (env_map \<phi> e) y" unfolding coarse_of_def by (metis agree_refl)
  then have "client_refined y" by (rule client.inv_reachable)
  moreover have "sent (trace (sys_fw y)) = sent (trace (sys_fw x))" "open_fds (trace (sys_fw y)) = open_fds (trace (sys_fw x))"
    using c by (metis coarse_of_def sent_traffic, metis coarse_of_def open_fds_traffic)
  ultimately show ?thesis using c by (simp add: client_refined_def client_view_def coarse_of_def keeps_client_def)
qed

section \<open>Schedules\<close>

text \<open>An executable scheduler, for concrete runs.\<close>

datatype fine_act = F_Sys act | F_Client

fun fine_move :: "env \<Rightarrow> fine_act \<Rightarrow> fsys \<Rightarrow> fsys option" where
  "fine_move e (F_Sys a) x =
     (if a = A_Wifi \<and> sys_wifi (f_sys x) = W_Http H_Loop then None
      else map_option (\<lambda>y. x\<lparr>f_sys := y\<rparr>) (act_step e a (f_sys x)))"
| "fine_move e F_Client x =
     (case f_round x of
        Step f k \<Rightarrow> Some (x\<lparr>f_sys := (f_sys x)\<lparr>sys_fw := f e (sys_fw (f_sys x))\<rparr>, f_round := k e (sys_fw (f_sys x))\<rparr>)
      | Done _ \<Rightarrow>
          if sys_main (f_sys x) = M_Loop \<and> sys_wifi (f_sys x) = W_Http H_Loop
          then Some (x\<lparr>f_round := http_round_steps (got_ip (sys_fw (f_sys x)))\<rparr>) else None)"

fun fine_run :: "env \<Rightarrow> fine_act list \<Rightarrow> fsys \<Rightarrow> fsys option" where
  "fine_run e [] x = Some x"
| "fine_run e (a # as) x = (case fine_move e a x of None \<Rightarrow> None | Some y \<Rightarrow> fine_run e as y)"

lemma fine_move_sound: "fine_move e a x = Some y \<Longrightarrow> fine_step e x y"
proof (cases a)
  case F_Client
  assume "fine_move e a x = Some y"
  then show ?thesis using F_Client
    by (cases "f_round x") (auto split: if_splits intro: fine_step.intros)
next
  case (F_Sys b)
  assume m: "fine_move e a x = Some y"
  show ?thesis
  proof (cases b)
    case A_Wifi
    then show ?thesis using m F_Sys by (auto split: if_splits option.splits intro: fine_step.intros)
  qed (use m F_Sys in \<open>auto split: if_splits prod.splits intro!: fine_step.fine_other intro: other_step.intros\<close>)
qed

lemma fine_run_reachable: "fine_run e as x = Some y \<Longrightarrow> fine_reachable e x \<Longrightarrow> fine_reachable e y"
  by (induction as arbitrary: x) (auto split: option.splits intro: reach_step dest: fine_move_sound)

text \<open>From reset to the first test of \<^verbatim>\<open>got_ip\<close>, and a whole round with an event in the middle.\<close>

abbreviation to_start :: "act list" where
  "to_start \<equiv> to_poll @ [result_event 0, bound_event, A_Wifi, A_Wifi]"

abbreviation broken_round :: "fine_act list" where
  "broken_round \<equiv> [F_Client, F_Client, F_Client, F_Sys (A_Event \<lparr>cb_status = 0, cb_requested_ip = 0\<rparr> NET_EVENT_WIFI_DISCONNECT_RESULT),
     F_Client, F_Client, F_Client, F_Client]"

lemma fine_run_append:
  "fine_run e (as @ bs) x = (case fine_run e as x of None \<Rightarrow> None | Some y \<Rightarrow> fine_run e bs y)"
  by (induction as arbitrary: x) (auto split: option.splits)

lemma client_runs_on: "run_acts e as x = Some y \<Longrightarrow> sys_wifi x = W_Http H_Loop \<Longrightarrow> sys_wifi y = W_Http H_Loop"
proof (induction as arbitrary: x)
  case (Cons a as)
  then obtain z where z: "act_step e a x = Some z" "run_acts e as z = Some y" by (auto split: option.splits)
  then have "sys_wifi z = W_Http H_Loop" using Cons.prems(2) by (cases a) (auto split: prod.splits if_splits)
  then show ?case using Cons.IH z(2) by blast
qed simp

text \<open>Up to the client, the two images run alike.\<close>

lemma fine_run_coarse:
  "run_acts e as x = Some y \<Longrightarrow> sys_wifi y \<noteq> W_Http H_Loop \<Longrightarrow>
   fine_run e (map F_Sys as) \<lparr>f_sys = x, f_round = p\<rparr> = Some \<lparr>f_sys = y, f_round = p\<rparr>"
proof (induction as arbitrary: x)
  case (Cons a as)
  then obtain z where z: "act_step e a x = Some z" "run_acts e as z = Some y" by (auto split: option.splits)
  have "\<not> (a = A_Wifi \<and> sys_wifi x = W_Http H_Loop)"
    using client_runs_on [OF Cons.prems(1)] Cons.prems(2) by blast
  then show ?case using Cons.IH [OF z(2) Cons.prems(2)] z(1) by (simp del: act_step.simps)
qed simp

text \<open>A step of the round.\<close>

lemma and_then_assoc: "and_then (and_then p g) h = and_then p (\<lambda>a. and_then (g a) h)"
proof (coinduction arbitrary: p rule: prog.coinduct_strong)
  case Eq_prog
  then show ?case by (cases p) (auto simp: rel_fun_def)
qed

lemma fine_run_test:
  "sys_main x = M_Loop \<Longrightarrow> sys_wifi x = W_Http H_Loop \<Longrightarrow>
   fine_run e (F_Client # as) \<lparr>f_sys = x, f_round = Done ()\<rparr> =
     fine_run e as \<lparr>f_sys = x, f_round = http_round_steps (got_ip (sys_fw x))\<rparr>"
  by simp

lemma fine_run_call:
  "fine_run e (F_Client # as) \<lparr>f_sys = x, f_round = and_then (call m) g\<rparr> =
     fine_run e as \<lparr>f_sys = x\<lparr>sys_fw := exec (m e) (sys_fw x)\<rparr>, f_round = g (result (m e) (sys_fw x))\<rparr>"
  "fine_run e (F_Client # as) \<lparr>f_sys = x, f_round = call n\<rparr> =
     fine_run e as \<lparr>f_sys = x\<lparr>sys_fw := exec (n e) (sys_fw x)\<rparr>, f_round = Done (result (n e) (sys_fw x))\<rparr>"
  by (simp_all add: call_def)

lemma fine_run_event:
  "fine_run e (F_Sys (A_Event cb ev) # as) \<lparr>f_sys = x, f_round = p\<rparr> =
     fine_run e as \<lparr>f_sys = x\<lparr>sys_fw := deliver (wifi_h e) net_h cb ev (sys_fw x)\<rparr>, f_round = p\<rparr>"
  by simp

lemma lost_link_ip:
  "callbacks s = registrations \<Longrightarrow> \<not> got_ip (deliver (wifi_h e) net_h cb NET_EVENT_WIFI_DISCONNECT_RESULT s)"
  by (simp add: event_defs)

lemma fine_run_to_client:
  "\<exists>y. fine_run (good_env body) (map F_Sys to_start @ [F_Sys A_Wifi]) fine_boot = Some \<lparr>f_sys = y, f_round = Done ()\<rparr> \<and>
     sys_main y = M_Loop \<and> sys_wifi y = W_Http H_Loop \<and> got_ip (sys_fw y) \<and> http_state (sys_fw y) = 0 \<and>
     callbacks (sys_fw y) = registrations"
proof -
  have "\<exists>x. run_acts (good_env body) to_start sys_boot = Some x \<and> sys_main x = M_Loop \<and>
     sys_wifi x = W_Http H_Start \<and> got_ip (sys_fw x) \<and> http_state (sys_fw x) = 0 \<and> callbacks (sys_fw x) = registrations"
    by (simp add: sys_boot_def boot_def act_simps cmd_wifi_status_keeps cmd_wifi_status_def)
  then obtain x where x: "run_acts (good_env body) to_start sys_boot = Some x" "sys_main x = M_Loop"
    "sys_wifi x = W_Http H_Start" "got_ip (sys_fw x)" "http_state (sys_fw x) = 0" "callbacks (sys_fw x) = registrations"
    by blast
  have "fine_run (good_env body) (map F_Sys to_start) fine_boot = Some \<lparr>f_sys = x, f_round = Done ()\<rparr>"
    unfolding fine_boot_def by (rule fine_run_coarse [OF x(1)]) (simp add: x(3))
  then show ?thesis
    unfolding fine_run_append using x(2-) by (simp add: register_certificate_def)
qed

text \<open>A resolution round that loses its link between the lookup and the assignment of the address.\<close>

lemma run_broken_round:
  "\<exists>y. fine_run (good_env body) ((map F_Sys to_start @ [F_Sys A_Wifi]) @ broken_round) fine_boot =
       Some \<lparr>f_sys = y, f_round = Done ()\<rparr> \<and> \<not> got_ip (sys_fw y) \<and> http_state (sys_fw y) = 1"
proof -
  obtain y where y: "fine_run (good_env body) (map F_Sys to_start @ [F_Sys A_Wifi]) fine_boot = Some \<lparr>f_sys = y, f_round = Done ()\<rparr>"
    "sys_main y = M_Loop" "sys_wifi y = W_Http H_Loop" "got_ip (sys_fw y)" "http_state (sys_fw y) = 0"
    "callbacks (sys_fw y) = registrations"
    using fine_run_to_client by blast
  show ?thesis
    unfolding fine_run_append [of _ "map F_Sys to_start @ [F_Sys A_Wifi]"] y(1) option.case fine_run_test [OF y(2,3)]
    using y(4-) lost_link_ip
    by (simp add: http_round_steps_def http_dispatch_steps_def resolve_server_steps_def and_then_assoc fine_run_call fine_run_event
        del: fine_run.simps(2))
qed

lemma fine_reach_step: "fine_reachable e x \<Longrightarrow> fine_step e x y \<Longrightarrow> fine_reachable e y"
  by (rule reach_step)

lemma fine_run_boot: "fine_run e as fine_boot = Some y \<Longrightarrow> fine_reachable e y"
  by (erule fine_run_reachable) (simp add: reach_init)

lemma broken_round_reachable:
  obtains y where "fine_run (good_env body) ((map F_Sys to_start @ [F_Sys A_Wifi]) @ broken_round) fine_boot =
       Some \<lparr>f_sys = y, f_round = Done ()\<rparr>" "\<not> got_ip (sys_fw y)" "http_state (sys_fw y) = 1"
    "fine_reachable (good_env body) \<lparr>f_sys = y, f_round = Done ()\<rparr>"
  using run_broken_round [of body] fine_run_boot by metis

section \<open>Properties of the interruptible image\<close>

text \<open>C13. Interrupting a round changes nothing but the order of the log. Let the main thread, network events
  and readiness reports come between any two statements of the HTTP client. Whenever no round is in
  progress, the image with atomic rounds can be in the same state: the same program counters, the
  same globals, the same entries in the trace up to their order, and the same socket traffic in the
  same order, on a platform that gives at its calls answers the real one gave.\<close>

theorem interrupted_image_reduces:
  assumes "reachable (\<lambda>x. x = fine_boot) (fine_step e) x" "f_round x = Done ()"
  shows "\<exists>\<phi> y. reachable (\<lambda>x. x = sys_boot) (sys_step (env_map \<phi> e)) y \<and>
           sys_main y = sys_main (f_sys x) \<and> sys_wifi y = sys_wifi (f_sys x) \<and>
           sys_fw y = (sys_fw (f_sys x))\<lparr>trace := trace (sys_fw y)\<rparr> \<and>
           mset (trace (sys_fw y)) = mset (trace (sys_fw (f_sys x))) \<and>
           traffic (trace (sys_fw y)) = traffic (trace (sys_fw (f_sys x)))"
proof -
  obtain \<phi> y where c: "coarse_of e \<phi> (f_sys x) y"
    using fine_inv_done [OF fine.inv_reachable [OF assms(1)] assms(2)] unfolding ordered_def reduced_def by blast
  then have "sys_reachable (env_map \<phi> e) y" unfolding coarse_of_def by (metis agree_refl)
  moreover have "sys_fw y = (sys_fw (f_sys x))\<lparr>trace := trace (sys_fw y)\<rparr>"
    using both_eq c unfolding coarse_of_def by blast
  ultimately show ?thesis using c unfolding coarse_of_def by blast
qed

theorem interrupted_image_reduces_witness:
  "\<exists>x \<phi> y. fine_run (good_env ''x'') ((map F_Sys to_start @ [F_Sys A_Wifi]) @ broken_round) fine_boot = Some x \<and>
     reachable (\<lambda>x. x = sys_boot) (sys_step (env_map \<phi> (good_env ''x''))) y \<and>
     http_state (sys_fw y) = 1 \<and> \<not> got_ip (sys_fw y)"
proof -
  obtain z where z: "fine_run (good_env ''x'') ((map F_Sys to_start @ [F_Sys A_Wifi]) @ broken_round) fine_boot =
      Some \<lparr>f_sys = z, f_round = Done ()\<rparr>" "\<not> got_ip (sys_fw z)" "http_state (sys_fw z) = 1"
    "fine_reachable (good_env ''x'') \<lparr>f_sys = z, f_round = Done ()\<rparr>"
    by (rule broken_round_reachable)
  obtain \<phi> y where y: "sys_reachable (env_map \<phi> (good_env ''x'')) y" "sys_fw y = (sys_fw z)\<lparr>trace := trace (sys_fw y)\<rparr>"
    using interrupted_image_reduces [OF z(4)] by auto
  have "http_state (sys_fw y) = 1" "\<not> got_ip (sys_fw y)" using z(2,3) by (subst y(2), simp)+
  then show ?thesis using z(1) y(1) by blast
qed

text \<open>C14. Safety under interruption. In every state the interruptible image reaches, in the middle of a
  round too, on every platform whose failing calls set \<^verbatim>\<open>errno\<close>: the socket traffic is
  secured (each connection right after its socket and its three TLS options, each request right
  after its connection), and lookups, sockets and requests come after the association request,
  its result and a DHCP binding. Between rounds the requests sent are those of the abstract client.\<close>

theorem interrupted_image_safe:
  assumes "errno_positive e" "reachable (\<lambda>x. x = fine_boot) (fine_step e) x"
  defines "s \<equiv> sys_fw (f_sys x)"
  shows "secured (traffic (trace s)) \<and> startup_order e (trace s) \<and>
         (f_round x = Done () \<longrightarrow> client_run (sent (trace s)) (client_view s))"
  using fine.inv_reachable [OF assms(2)] assms(1) reduced_secured reduced_client reduced_round
    in_round_secured startup_order_round
  unfolding fine_inv_def ordered_def s_def by metis

theorem interrupted_image_safe_witness:
  "\<exists>x. fine_run (good_env ''x'') ((map F_Sys to_start @ [F_Sys A_Wifi]) @ broken_round) fine_boot = Some x \<and>
     secured (traffic (trace (sys_fw (f_sys x)))) \<and>
     client_run (sent (trace (sys_fw (f_sys x)))) (client_view (sys_fw (f_sys x)))"
proof -
  obtain z where "fine_run (good_env ''x'') ((map F_Sys to_start @ [F_Sys A_Wifi]) @ broken_round) fine_boot =
      Some \<lparr>f_sys = z, f_round = Done ()\<rparr>" "fine_reachable (good_env ''x'') \<lparr>f_sys = z, f_round = Done ()\<rparr>"
    by (rule broken_round_reachable)
  then show ?thesis using interrupted_image_safe [OF good_errno, of "''x''"] by fastforce
qed

section \<open>Progress\<close>

text \<open>Only the client moves its round on.\<close>

lemma round_waits:
  "fine_step e x y \<Longrightarrow> f_round x = Step f k \<Longrightarrow>
   f_round y = Step f k \<or> fine_move e F_Client x = Some y \<and> f_round y = k e (sys_fw (f_sys x))"
  by (cases rule: fine_step.cases) auto

text \<open>A round is a finite program, because every statement of it is.\<close>

lemma reachable_round: "fine_reachable e x \<Longrightarrow> steps_mirrored Client_Side (f_round x)"
  using fine.inv_reachable in_round_split steps_mirrored.finished unfolding fine_inv_def split_round_def by metis

lemma reachable_later:
  "(\<And>i. fine_step e (\<sigma> i) (\<sigma> (Suc i))) \<Longrightarrow> fine_reachable e (\<sigma> 0) \<Longrightarrow> fine_reachable e (\<sigma> i)"
  by (induction i) (auto intro: fine_reach_step)

lemma round_ends:
  assumes step: "\<And>i. fine_step e (\<sigma> i) (\<sigma> (Suc i))"
    and fair: "\<And>i. \<exists>j \<ge> i. fine_move e F_Client (\<sigma> j) = Some (\<sigma> (Suc j))"
    and "steps_mirrored Client_Side p"
  shows "f_round (\<sigma> i) = p \<Longrightarrow> \<exists>j \<ge> i. f_round (\<sigma> j) = Done ()"
  using assms(3)
proof (induction p arbitrary: i rule: steps_mirrored.induct)
  case (finished a)
  then show ?case by auto
next
  case (step k f)
  define j where "j = (LEAST j. i \<le> j \<and> fine_move e F_Client (\<sigma> j) = Some (\<sigma> (Suc j)))"
  have j: "i \<le> j" "fine_move e F_Client (\<sigma> j) = Some (\<sigma> (Suc j))"
    using LeastI_ex [OF fair [of i]] unfolding j_def by blast+
  have "f_round (\<sigma> (i + n)) = Step f k" if "i + n \<le> j" for n
    using that
  proof (induction n)
    case 0
    then show ?case using step.prems by simp
  next
    case (Suc n)
    then have "fine_move e F_Client (\<sigma> (i + n)) \<noteq> Some (\<sigma> (Suc (i + n)))"
      using not_less_Least [of "i + n" "\<lambda>j. i \<le> j \<and> fine_move e F_Client (\<sigma> j) = Some (\<sigma> (Suc j))"]
      unfolding j_def by auto
    then show ?case using round_waits [OF assms(1) [of "i + n"]] Suc by auto
  qed
  from this [of "j - i"] have "f_round (\<sigma> j) = Step f k" using j(1) by simp
  then have "f_round (\<sigma> (Suc j)) = k e (sys_fw (f_sys (\<sigma> j)))"
    using j(2) by (auto dest!: arg_cong [where f = f_round])
  then have "\<exists>j' \<ge> Suc j. f_round (\<sigma> j') = Done ()" by (rule step.IH)
  then show ?case using j(1) by (meson Suc_leD order_trans)
qed

text \<open>C15. Rounds come to an end. In every infinite run of the interruptible image in which the client's
  thread moves again and again, however main, events and reports come in between, each round is
  finished and the client gets back to its test of \<^verbatim>\<open>got_ip\<close> infinitely often. (Programs may be
  infinite; that those of the round are not is shown function by function.)\<close>

theorem interrupted_rounds_finish:
  assumes "reachable (\<lambda>x. x = fine_boot) (fine_step e) (\<sigma> 0)"
    and "\<And>i. fine_step e (\<sigma> i) (\<sigma> (Suc i))"
    and "\<And>i. \<exists>j \<ge> i. fine_move e F_Client (\<sigma> j) = Some (\<sigma> (Suc j))"
  shows "\<exists>j \<ge> i. f_round (\<sigma> j) = Done ()"
  using round_ends [OF assms(2,3) reachable_round [OF reachable_later [OF assms(2,1)]] refl] .

text \<open>A client that is never interrupted, for ever.\<close>

lemma client_can_move:
  assumes "sys_main (f_sys x) = M_Loop" "sys_wifi (f_sys x) = W_Http H_Loop"
  shows "\<exists>y. fine_move e F_Client x = Some y \<and> sys_main (f_sys y) = M_Loop \<and> sys_wifi (f_sys y) = W_Http H_Loop"
  using assms by (cases "f_round x") simp_all

lemma client_for_ever:
  fixes e :: env and x :: fsys
  defines "\<sigma> \<equiv> \<lambda>i. ((\<lambda>y. the (fine_move e F_Client y)) ^^ i) x"
  assumes "sys_main (f_sys x) = M_Loop" "sys_wifi (f_sys x) = W_Http H_Loop"
  shows "fine_move e F_Client (\<sigma> i) = Some (\<sigma> (Suc i))"
proof -
  have "sys_main (f_sys (\<sigma> i)) = M_Loop \<and> sys_wifi (f_sys (\<sigma> i)) = W_Http H_Loop"
  proof (induction i)
    case 0
    then show ?case using assms(2,3) by (simp add: \<sigma>_def)
  next
    case (Suc i)
    then obtain y where "fine_move e F_Client (\<sigma> i) = Some y" "sys_main (f_sys y) = M_Loop" "sys_wifi (f_sys y) = W_Http H_Loop"
      using client_can_move by blast
    then show ?case by (simp add: \<sigma>_def)
  qed
  then obtain y where "fine_move e F_Client (\<sigma> i) = Some y" using client_can_move by blast
  then show ?thesis by (simp add: \<sigma>_def)
qed

theorem interrupted_rounds_finish_witness:
  "\<exists>\<sigma> y. fine_run (good_env ''x'') (map F_Sys to_start @ [F_Sys A_Wifi]) fine_boot = Some (\<sigma> 0) \<and>
     (\<forall>i. fine_step (good_env ''x'') (\<sigma> i) (\<sigma> (Suc i))) \<and> (\<forall>i. \<exists>j \<ge> i. f_round (\<sigma> j) = Done ())"
proof -
  let ?e = "good_env ''x''"
  obtain y where y: "fine_run ?e (map F_Sys to_start @ [F_Sys A_Wifi]) fine_boot = Some \<lparr>f_sys = y, f_round = Done ()\<rparr>"
    "sys_main y = M_Loop" "sys_wifi y = W_Http H_Loop"
    using fine_run_to_client by blast
  define \<sigma> where "\<sigma> = (\<lambda>i. ((\<lambda>y. the (fine_move ?e F_Client y)) ^^ i) \<lparr>f_sys = y, f_round = Done ()\<rparr>)"
  have m: "fine_move ?e F_Client (\<sigma> i) = Some (\<sigma> (Suc i))" for i
    unfolding \<sigma>_def by (rule client_for_ever) (simp_all add: y(2,3))
  have s: "fine_step ?e (\<sigma> i) (\<sigma> (Suc i))" for i by (rule fine_move_sound [OF m])
  have r: "fine_reachable ?e (\<sigma> 0)" using fine_run_boot [OF y(1)] by (simp add: \<sigma>_def)
  have "\<forall>i. \<exists>j \<ge> i. f_round (\<sigma> j) = Done ()"
    using interrupted_rounds_finish [of ?e \<sigma>, OF r s] m by blast
  moreover have "\<sigma> 0 = \<lparr>f_sys = y, f_round = Done ()\<rparr>" by (simp add: \<sigma>_def)
  ultimately show ?thesis using y(1) s by (metis (no_types))
qed

definition client_moves :: "fine_act list \<Rightarrow> nat" where
  "client_moves as = length (filter (\<lambda>a. a = F_Client) as)"

lemma round_done_within:
  "within e n (f_round x) \<Longrightarrow> fine_run e as x = Some y \<Longrightarrow> n \<le> client_moves as \<Longrightarrow>
   \<exists>bs cs z. as = bs @ cs \<and> fine_run e bs x = Some z \<and> f_round z = Done ()"
proof (induction as arbitrary: x n)
  case Nil
  then show ?case by (auto simp: client_moves_def elim: within.cases)
next
  case (Cons a as)
  show ?case
  proof (cases "f_round x")
    case (Done u)
    then have "fine_run e [] x = Some x \<and> f_round x = Done ()" by simp
    then show ?thesis by (metis append_Nil)
  next
    case (Step f k)
    obtain z where z: "fine_move e a x = Some z" "fine_run e as z = Some y"
      using Cons.prems(2) by (auto split: option.splits)
    have "\<exists>m. within e m (f_round z) \<and> m \<le> client_moves as"
    proof (cases a)
      case F_Client
      then have "f_round z = k e (sys_fw (f_sys x))" using z(1) Step by (auto dest!: arg_cong [where f = f_round])
      moreover obtain m where "n = Suc m" "within e m (k e (sys_fw (f_sys x)))"
        using Cons.prems(1) unfolding Step by (auto elim: within_StepE)
      ultimately show ?thesis using Cons.prems(3) F_Client by (auto simp: client_moves_def)
    next
      case (F_Sys b)
      then have "f_round z = f_round x" using z(1) by (auto split: if_splits)
      then show ?thesis using Cons.prems(1,3) F_Sys by (auto simp: client_moves_def)
    qed
    then obtain bs cs w where "as = bs @ cs" "fine_run e bs z = Some w" "f_round w = Done ()"
      using Cons.IH [OF _ z(2)] by blast
    then have "a # as = (a # bs) @ cs \<and> fine_run e (a # bs) x = Some w \<and> f_round w = Done ()" using z(1) by simp
    then show ?thesis by blast
  qed
qed

text \<open>C16. Rounds are short. If no response comes in more than \<open>m\<close> fragments, a round that has begun is over
  after at most 29 + 2 m moves of the client, whatever happens in between.\<close>

theorem interrupted_round_bounded:
  assumes "\<And>t. length (snd (env_http e t)) \<le> m" "f_round x = Done ()" "fine_run e (F_Client # as) x = Some y"
    and "29 + 2 * m \<le> client_moves as"
  shows "\<exists>bs cs z. as = bs @ cs \<and> fine_run e (F_Client # bs) x = Some z \<and> f_round z = Done ()"
proof -
  obtain w where w: "fine_move e F_Client x = Some w" "fine_run e as w = Some y"
    using assms(3) by (auto split: option.splits)
  have "f_round w = http_round_steps (got_ip (sys_fw (f_sys x)))"
    using w(1) assms(2) by (auto split: if_splits dest!: arg_cong [where f = f_round])
  then have "within e (29 + 2 * m) (f_round w)" using http_round_within [OF assms(1)] by simp
  from round_done_within [OF this w(2) assms(4)] show ?thesis using w(1) by auto
qed

lemma client_for_ever_run:
  assumes "sys_main (f_sys x) = M_Loop" "sys_wifi (f_sys x) = W_Http H_Loop"
  shows "\<exists>y. fine_run e (replicate n F_Client) x = Some y"
  using assms
proof (induction n arbitrary: x)
  case (Suc n)
  then obtain z where "fine_move e F_Client x = Some z" "sys_main (f_sys z) = M_Loop" "sys_wifi (f_sys z) = W_Http H_Loop"
    using client_can_move by blast
  then show ?case using Suc.IH by simp
qed simp

theorem interrupted_round_bounded_witness:
  "\<exists>x y n. fine_run (good_env ''x'') (map F_Sys to_start @ [F_Sys A_Wifi]) fine_boot = Some x \<and>
     fine_run (good_env ''x'') (F_Client # replicate n F_Client) x = Some y \<and> n \<le> 31 \<and> f_round y = Done ()"
proof -
  let ?e = "good_env ''x''"
  obtain y where y: "fine_run ?e (map F_Sys to_start @ [F_Sys A_Wifi]) fine_boot = Some \<lparr>f_sys = y, f_round = Done ()\<rparr>"
    "sys_main y = M_Loop" "sys_wifi y = W_Http H_Loop"
    using fine_run_to_client by blast
  let ?x = "\<lparr>f_sys = y, f_round = Done ()\<rparr>"
  obtain w where "fine_run ?e (replicate (Suc 31) F_Client) ?x = Some w"
    using client_for_ever_run [of ?x ?e "Suc 31"] y(2,3) by auto
  then have "fine_run ?e (F_Client # replicate 31 F_Client) ?x = Some w" by (simp only: replicate_Suc)
  moreover have "length (snd (env_http ?e t)) \<le> 1" for t by simp
  moreover have "29 + 2 * 1 \<le> client_moves (replicate 31 F_Client)" by (simp add: client_moves_def)
  ultimately obtain bs cs z where z: "replicate 31 F_Client = bs @ cs" "fine_run ?e (F_Client # bs) ?x = Some z" "f_round z = Done ()"
    using interrupted_round_bounded [of ?e 1 ?x "replicate 31 F_Client" w] by auto
  have "bs = replicate (length bs) F_Client \<and> length bs \<le> 31"
  proof
    have "set bs \<subseteq> {F_Client}" using z(1) by (metis Un_iff set_append set_replicate_conv_if subsetI empty_iff)
    then show "bs = replicate (length bs) F_Client" by (intro replicate_eqI [symmetric, THEN sym]) auto
    show "length bs \<le> 31" using arg_cong [OF z(1), of length] by simp
  qed
  then show ?thesis using y(1) z(2,3) by metis
qed

end
