(* ===== verification/Socket_Limit.thy ===== *)
theory Socket_Limit
  imports Http_Client
begin

text \<open>
  The HTTP client under the limit that the build puts on TLS sockets: \<^verbatim>\<open>autoconf.h\<close> gives the image
  \<^verbatim>\<open>CONFIG_NET_SOCKETS_TLS_MAX_CONTEXTS\<close> TLS contexts, each open TLS socket holds one, and a
  \<^verbatim>\<open>socket\<close> call that finds none fails. Together with the descriptors that \<^verbatim>\<open>server_connect\<close> leaves
  open this decides what a refused connection costs.
\<close>

definition CONFIG_NET_SOCKETS_TLS_MAX_CONTEXTS :: nat where
  "CONFIG_NET_SOCKETS_TLS_MAX_CONTEXTS = 1"

text \<open>The platform's side of the limit: \<^verbatim>\<open>socket\<close> returns -1 while all contexts are taken.\<close>

definition socket_limited :: "env \<Rightarrow> bool" where
  "socket_limited e \<longleftrightarrow> (\<forall>t. CONFIG_NET_SOCKETS_TLS_MAX_CONTEXTS \<le> length (open_fds t) \<longrightarrow> env_socket e t = -1)"

abbreviation exhausted :: "fw \<Rightarrow> bool" where
  "exhausted s \<equiv> CONFIG_NET_SOCKETS_TLS_MAX_CONTEXTS \<le> length (open_fds (trace s))"

text \<open>What reaches the server.\<close>

fun is_exchange :: "io \<Rightarrow> bool" where
  "is_exchange (Io_Connect fd a r) = True"
| "is_exchange (Io_Http fd req tmo r) = True"
| "is_exchange _ = False"

definition same_exchanges :: "fw \<Rightarrow> fw \<Rightarrow> bool" where
  "same_exchanges s t \<longleftrightarrow> filter is_exchange (trace t) = filter is_exchange (trace s) \<and>
     open_fds (trace t) = open_fds (trace s)"

lemma same_exchanges_trans [trans]: "same_exchanges s t \<Longrightarrow> same_exchanges t u \<Longrightarrow> same_exchanges s u"
  by (simp add: same_exchanges_def)

lemma exhausted_connect:
  assumes "socket_limited e" "exhausted s"
  shows "result (server_connect e) s \<noteq> 0" "same_exchanges s (exec (server_connect e) s)"
proof -
  have "env_socket e (trace s) = -1" using assms by (simp add: socket_limited_def)
  then show "result (server_connect e) s \<noteq> 0" "same_exchanges s (exec (server_connect e) s)"
    by (simp_all add: server_connect_def same_exchanges_def)
qed

lemma exhausted_post: "socket_limited e \<Longrightarrow> exhausted s \<Longrightarrow> same_exchanges s (exec (http_post_patient_data e) s)"
  by (simp add: http_post_unconnected exhausted_connect)

lemma exhausted_login: "socket_limited e \<Longrightarrow> exhausted s \<Longrightarrow> same_exchanges s (exec (http_login e) s)"
  by (simp add: http_login_unconnected exhausted_connect)

lemma exhausted_resolve: "same_exchanges s (exec (resolve_server e) s)"
  by (simp add: resolve_server_def same_exchanges_def)

lemma exhausted_dispatch:
  assumes "socket_limited e" "exhausted s"
  shows "same_exchanges s (exec (http_dispatch e) s)"
proof -
  have "same_exchanges s (exec (http_post_patient_data e) (exec (http_login e) s\<lparr>http_state := 2\<rparr>))"
    using exhausted_login [OF assms] exhausted_post [OF assms(1), of "exec (http_login e) s\<lparr>http_state := 2\<rparr>"] assms(2)
    by (simp add: same_exchanges_def)
  then show ?thesis
    using exhausted_post [OF assms] exhausted_resolve [of s e] by (auto simp: http_dispatch_def same_exchanges_def)
qed

lemma exhausted_round:
  assumes "socket_limited e" "exhausted s"
  shows "same_exchanges s (exec (http_round e) s)"
  using exhausted_dispatch [OF assms] by (simp add: http_round_def same_exchanges_def)

end
