(* ===== verification/Image_Limit.thy ===== *)
theory Image_Limit
  imports Client_Spec Socket_Limit
begin

text \<open>
  The limit on TLS contexts seen from the whole image: once the client has used up the contexts,
  no step of any thread frees one, so no schedule, event or readiness report brings the
  server back within reach.
\<close>

section \<open>Steps of an image without a free context\<close>

lemma quiet_exchange: "quiet ev \<Longrightarrow> \<not> is_exchange ev \<and> open_fds (ev # t) = open_fds t"
  by (cases ev) simp_all

lemma quiet_same_exchanges: "quiet_ext (trace s) (trace t) \<Longrightarrow> same_exchanges s t"
proof -
  have "filter is_exchange (evs @ u) = filter is_exchange u \<and> open_fds (evs @ u) = open_fds u"
    if "list_all quiet evs" for evs u
    using that by (induction evs) (simp_all add: quiet_exchange)
  then show "quiet_ext (trace s) (trace t) \<Longrightarrow> same_exchanges s t"
    by (auto simp: quiet_ext_def same_exchanges_def)
qed

lemma exhausted_http_thread:
  assumes "socket_limited e" "exhausted s" "start_http_thread e h s = (h', t)"
  shows "same_exchanges s t"
  using assms exhausted_round [OF assms(1,2)]
  by (cases h) (auto simp: register_certificate_def same_exchanges_def)

lemma exhausted_wifi_thread:
  assumes "socket_limited e" "exhausted s" "wifi_thread_entry e pc s = Some (pc', t)"
  shows "same_exchanges s t"
  using assms(3)
proof (cases rule: wifi_step_cases)
  case 1
  then show ?thesis by (simp add: idle_step_def quiet_same_exchanges idle_ext_quiet)
next
  case 2
  then show ?thesis by (simp add: wifi_connect_request_def same_exchanges_def)
next
  case (3 h h')
  then show ?thesis using exhausted_http_thread assms(1,2) by blast
qed

lemma exhausted_sys_step:
  assumes "socket_limited e" "exhausted (sys_fw x)" "sys_step e x y"
  shows "same_exchanges (sys_fw x) (sys_fw y)"
  using assms(3)
proof cases
  case (step_main pc s)
  then show ?thesis using quiet_main [of "sys_fw x" "sys_main x"] by (simp add: quiet_same_exchanges)
next
  case (step_wifi pc s)
  then show ?thesis using exhausted_wifi_thread assms(1,2) by simp
next
  case (step_event cb ev)
  then show ?thesis using station.deliver_quiet by (simp add: quiet_same_exchanges)
next
  case (step_ready b)
  then show ?thesis using quiet_ready by (simp add: quiet_same_exchanges)
qed

lemma exhausted_steps:
  assumes "(sys_step e)\<^sup>*\<^sup>* x y" "socket_limited e" "exhausted (sys_fw x)"
  shows "same_exchanges (sys_fw x) (sys_fw y)"
  using assms(1)
proof (induction rule: rtranclp_induct)
  case base
  show ?case by (simp add: same_exchanges_def)
next
  case (step y z)
  then have "exhausted (sys_fw y)" using assms(3) by (simp add: same_exchanges_def)
  with step show ?case using exhausted_sys_step [OF assms(2)] same_exchanges_trans by blast
qed

section \<open>One failed connection\<close>

lemma failed_connect_exhausts:
  assumes "env_socket e (trace s) \<noteq> -1"
  shows "exhausted (exec (server_connect e) s)"
  using assms by (simp add: server_connect_open_fds CONFIG_NET_SOCKETS_TLS_MAX_CONTEXTS_def)

lemma failed_round_exhausts:
  assumes "socket_limited e" "got_ip s" "http_state s = 1 \<or> http_state s = 2"
    and "env_socket e (trace s) \<noteq> -1" "result (server_connect e) s \<noteq> 0"
  shows "exhausted (exec (http_round e) s)"
proof (cases "http_state s = 2")
  case True
  then show ?thesis
    using assms(2,5) failed_connect_exhausts [OF assms(4)]
    by (simp add: http_round_def http_dispatch_post http_post_unconnected)
next
  case False
  then have st: "http_state s = 1" using assms(3) by simp
  let ?u = "exec (server_connect e) s\<lparr>http_state := 2\<rparr>"
  have "exhausted ?u" using failed_connect_exhausts [OF assms(4)] by simp
  moreover from this have "same_exchanges ?u (exec (http_post_patient_data e) ?u)" by (rule exhausted_post [OF assms(1)])
  ultimately show ?thesis
    using assms(2,5) st by (simp add: http_round_def http_dispatch_login http_login_unconnected same_exchanges_def)
qed

text \<open>C11. One failed connection is the last, whatever the rest of the image does. On a platform with the
  single TLS context of the committed configuration, let the client's next connection, to log in or to post, get a socket
  but no connection (refused, or a TLS option rejected). After that round no interleaving of main
  thread, client, network events and readiness reports connects or sends a request again, however
  often the link goes down and comes back and whatever the server would answer.\<close>

theorem one_refusal_is_final:
  assumes "socket_limited e" "sys_wifi x = W_Http H_Loop" "got_ip (sys_fw x)"
    and "http_state (sys_fw x) = 1 \<or> http_state (sys_fw x) = 2"
    and "env_socket e (trace (sys_fw x)) \<noteq> -1" "result (server_connect e) (sys_fw x) \<noteq> 0"
    and "act_step e A_Wifi x = Some y" "(sys_step e)\<^sup>*\<^sup>* y z"
  shows "filter is_exchange (trace (sys_fw z)) = filter is_exchange (trace (sys_fw y))"
proof -
  have "sys_fw y = exec (http_round e) (sys_fw x)"
    using assms(2,7) by (auto split: if_splits)
  then have "exhausted (sys_fw y)" using failed_round_exhausts [OF assms(1,3,4,5,6)] by simp
  with exhausted_steps [OF assms(8,1)] show ?thesis by (simp add: same_exchanges_def)
qed

text \<open>A server that refuses the first connection only, met by a client that has just resolved its name.\<close>

definition limited_env :: env where
  "limited_env = (good_env [])\<lparr>env_socket := \<lambda>t. if open_fds t = [] then 3 else -1,
     env_connect := \<lambda>t. if \<exists>fd a r. Io_Connect fd a r \<in> set t then 0 else -1\<rparr>"

lemma limited_env_limited: "socket_limited limited_env"
  by (auto simp: socket_limited_def limited_env_def CONFIG_NET_SOCKETS_TLS_MAX_CONTEXTS_def)

lemma run_limited:
  "\<exists>y. run_acts limited_env (to_client @ [A_Wifi]) sys_boot = Some y \<and> sys_main y = M_Loop \<and> sys_wifi y = W_Http H_Loop \<and>
     got_ip (sys_fw y) \<and> http_state (sys_fw y) = 1 \<and> open_fds (trace (sys_fw y)) = [] \<and>
     (\<forall>fd a r. Io_Connect fd a r \<notin> set (trace (sys_fw y)))"
  by (simp add: limited_env_def sys_boot_def boot_def act_simps register_certificate_def cmd_wifi_status_keeps cmd_wifi_status_def
     http_round_def http_dispatch_def resolve_server_def)

abbreviation link_cycle :: "act list" where
  "link_cycle \<equiv> [A_Event \<lparr>cb_status = 0, cb_requested_ip = 0\<rparr> NET_EVENT_WIFI_DISCONNECT_RESULT, A_Wifi, bound_event, A_Wifi, A_Wifi, A_Main]"

lemma client_link_cycle:
  "sys_main y = M_Loop \<Longrightarrow> sys_wifi y = W_Http H_Loop \<Longrightarrow> \<exists>z. run_acts e link_cycle y = Some z"
  by simp

lemma limited_refused:
  assumes "sys_main x = M_Loop" "sys_wifi x = W_Http H_Loop" "got_ip (sys_fw x)" "http_state (sys_fw x) = 1"
    "open_fds (trace (sys_fw x)) = []" "\<forall>fd a r. Io_Connect fd a r \<notin> set (trace (sys_fw x))"
  shows "\<exists>y. act_step limited_env A_Wifi x = Some y \<and> sys_main y = M_Loop \<and> sys_wifi y = W_Http H_Loop \<and>
    open_fds (trace (sys_fw y)) = [3]"
  using assms
  by (simp add: http_round_def http_dispatch_login http_login_unconnected http_post_unconnected
      limited_env_def server_connect_def tls_setup_def)

theorem one_refusal_is_final_witness:
  "\<exists>x y z. run_acts limited_env (to_client @ [A_Wifi]) sys_boot = Some x \<and> act_step limited_env A_Wifi x = Some y \<and>
     run_acts limited_env link_cycle y = Some z \<and>
     filter is_exchange (trace (sys_fw z)) = filter is_exchange (trace (sys_fw y))"
proof -
  obtain x where x: "run_acts limited_env (to_client @ [A_Wifi]) sys_boot = Some x" "sys_main x = M_Loop"
    "sys_wifi x = W_Http H_Loop" "got_ip (sys_fw x)" "http_state (sys_fw x) = 1" "open_fds (trace (sys_fw x)) = []"
    "\<forall>fd a r. Io_Connect fd a r \<notin> set (trace (sys_fw x))"
    using run_limited by blast
  define y where "y = x\<lparr>sys_fw := exec (http_round limited_env) (sys_fw x)\<rparr>"
  have y: "act_step limited_env A_Wifi x = Some y" using x(2,3) by (cases x) (simp add: y_def)
  obtain z where z: "run_acts limited_env link_cycle y = Some z"
    using client_link_cycle [of y] x(2,3) by (auto simp: y_def)
  have "env_socket limited_env (trace (sys_fw x)) \<noteq> -1" "result (server_connect limited_env) (sys_fw x) \<noteq> 0"
    using x(6,7) by (simp_all add: limited_env_def server_connect_def tls_setup_def)
  then have "filter is_exchange (trace (sys_fw z)) = filter is_exchange (trace (sys_fw y))"
    using one_refusal_is_final [OF limited_env_limited x(3,4) disjI1 [OF x(5)] _ _ y run_acts_steps [OF z]] by blast
  with x(1) y z show ?thesis by blast
qed

text \<open>A descriptor is never recovered. Between any two states of any run of the image, the descriptors
  open at the first are still open at the second: what a failed connection leaves behind no later
  round, disconnection or reconnection closes.\<close>

theorem image_descriptors_accumulate:
  assumes "reachable (\<lambda>x. x = sys_boot) (sys_step e) x" "(sys_step e)\<^sup>*\<^sup>* x y"
  shows "suffix (open_fds (trace (sys_fw x))) (open_fds (trace (sys_fw y)))"
  using assms(2)
proof (induction rule: rtranclp_induct)
  case base
  show ?case by simp
next
  case (step y z)
  have "client_refined y" using client.inv_reachable [OF reachable_run [OF step.hyps(1) assms(1)]] .
  with step show ?case using sys_step_leaked suffix_order.trans by blast
qed

theorem image_descriptors_accumulate_witness:
  "\<exists>x y. run_acts limited_env (to_client @ [A_Wifi, A_Wifi]) sys_boot = Some x \<and> run_acts limited_env link_cycle x = Some y \<and>
     open_fds (trace (sys_fw x)) = [3] \<and> suffix [3] (open_fds (trace (sys_fw y)))"
proof -
  obtain x where x: "run_acts limited_env (to_client @ [A_Wifi]) sys_boot = Some x" "sys_main x = M_Loop"
    "sys_wifi x = W_Http H_Loop" "got_ip (sys_fw x)" "http_state (sys_fw x) = 1" "open_fds (trace (sys_fw x)) = []"
    "\<forall>fd a r. Io_Connect fd a r \<notin> set (trace (sys_fw x))"
    using run_limited by blast
  obtain y where y: "act_step limited_env A_Wifi x = Some y" "sys_main y = M_Loop" "sys_wifi y = W_Http H_Loop"
    "open_fds (trace (sys_fw y)) = [3]"
    using limited_refused [OF x(2-7)] by blast
  have run: "run_acts limited_env (to_client @ [A_Wifi, A_Wifi]) sys_boot = Some y"
    using run_acts_append [of limited_env "to_client @ [A_Wifi]" "[A_Wifi]" sys_boot] x(1) y(1) by (simp del: act_step.simps)
  obtain z where z: "run_acts limited_env link_cycle y = Some z" using client_link_cycle [OF y(2,3)] by blast
  show ?thesis
    using image_descriptors_accumulate [OF run_acts_reachable [OF run] run_acts_steps [OF z]] run z y(4) by metis
qed

end
