(* ===== verification/App.thy ===== *)
theory App
  imports Wifi_Sta
begin

text \<open>
  \<^verbatim>\<open>src/src/app.c\<close>: the first version of the station, kept beside the built one. It has the
  same event handlers, a QSPI key parser \<^verbatim>\<open>bytes_from_str\<close>, a connection loop
  \<^verbatim>\<open>start_app\<close> that goes back to waiting when an association fails, and runs the HTTP client
  of \<^verbatim>\<open>http_app.c\<close> in a thread of its own. Names that \<^verbatim>\<open>wifi_sta.c\<close> also uses carry the
  suffix \<open>_app\<close>.
\<close>

section \<open>LED, status, handlers\<close>

text \<open>One iteration of the endless loop: the two branches only differ in commented-out code.\<close>

definition toggle_led_app :: "(fw, unit) state" where
  "toggle_led_app = do { c \<leftarrow> gets connected; if c then k_sleep 100 else k_sleep 100 }"

definition cmd_wifi_status_app :: "env \<Rightarrow> (fw, int) state" where
  "cmd_wifi_status_app e = do {
     r \<leftarrow> ask (\<lambda>t. env_net_mgmt e t NET_REQUEST_WIFI_IFACE_STATUS) (Io_Net_Mgmt NET_REQUEST_WIFI_IFACE_STATUS);
     status \<leftarrow> gets (\<lambda>s. env_iface_status e (trace s));
     if r \<noteq> 0 then ret (- ENOEXEC)
     else do {
       emit (Io_Status [SF_State (st_state status)]);
       when_do (st_state status \<ge> env_wifi_state_associated e)
         (emit (Io_Status [SF_Iface_Mode (st_iface_mode status), SF_Link_Mode (st_link_mode status),
            SF_Ssid (take 32 (st_ssid status)), SF_Bssid (st_bssid status), SF_Band (st_band status),
            SF_Channel (st_channel status), SF_Security (st_security status), SF_Mfp (st_mfp status),
            SF_Rssi (st_rssi status)]));
       ret 0
     }
   }"

definition handle_wifi_connect_result_app :: "mgmt_cb \<Rightarrow> (fw, unit) state" where
  "handle_wifi_connect_result_app cb = do {
     c \<leftarrow> gets connected;
     if c then ret ()
     else do {
       (if cb_status cb \<noteq> 0 then ret () else modify (put_bit 0 True));
       modify (put_bit 1 True)
     }
   }"

definition handle_wifi_disconnect_result_app :: "env \<Rightarrow> mgmt_cb \<Rightarrow> (fw, unit) state" where
  "handle_wifi_disconnect_result_app e cb = do {
     c \<leftarrow> gets connected;
     if \<not> c then ret ()
     else do {
       req \<leftarrow> gets disconnect_requested;
       (if req then modify (put_bit 2 False) else modify (put_bit 0 False));
       _ \<leftarrow> cmd_wifi_status_app e;
       ret ()
     }
   }"

definition wifi_mgmt_event_handler_app :: "env \<Rightarrow> mgmt_cb \<Rightarrow> mgmt_event \<Rightarrow> (fw, unit) state" where
  "wifi_mgmt_event_handler_app e cb ev =
     (case ev of
        NET_EVENT_WIFI_CONNECT_RESULT \<Rightarrow> handle_wifi_connect_result_app cb
      | NET_EVENT_WIFI_DISCONNECT_RESULT \<Rightarrow> do {
          handle_wifi_disconnect_result_app e cb;
          modify (\<lambda>s. s\<lparr>got_ip := False\<rparr>)
        }
      | _ \<Rightarrow> ret ())"

definition print_dhcp_ip_app :: "mgmt_cb \<Rightarrow> (fw, unit) state" where
  "print_dhcp_ip_app cb = emit (Io_Log_Ip (cb_requested_ip cb))"

definition net_mgmt_event_handler_app :: "mgmt_cb \<Rightarrow> mgmt_event \<Rightarrow> (fw, unit) state" where
  "net_mgmt_event_handler_app cb ev =
     (case ev of
        NET_EVENT_IPV4_DHCP_BOUND \<Rightarrow> do {
          print_dhcp_ip_app cb;
          modify (\<lambda>s. s\<lparr>got_ip := True\<rparr>)
        }
      | _ \<Rightarrow> ret ())"

definition wifi_connect_request_app :: "env \<Rightarrow> (fw, int) state" where
  "wifi_connect_request_app e = do {
     r \<leftarrow> ask (\<lambda>t. env_net_mgmt e t NET_REQUEST_WIFI_CONNECT_STORED) (Io_Net_Mgmt NET_REQUEST_WIFI_CONNECT_STORED);
     if r \<noteq> 0 then ret (- ENOEXEC) else ret 0
   }"

definition wifi_connect_app :: "env \<Rightarrow> (fw, int) state" where
  "wifi_connect_app e = do {
     modify (put_bit 0 False);
     modify (put_bit 1 False);
     wifi_connect_request_app e
   }"

section \<open>The QSPI key\<close>

definition EINVAL :: int where "EINVAL = 22"

text \<open>\<^verbatim>\<open>size_t\<close> is 32 bits wide, so the expected length \<^verbatim>\<open>bytes_len * 2\<close> wraps. The output
  bytes are the right-hand value; the error code is the left-hand one.\<close>

definition byte_at :: "string \<Rightarrow> nat \<Rightarrow> 8 word" where
  "byte_at str i = word_of_int (strtol16 (c_str (take 2 (drop (i * 2) str) @ [NUL])))"

definition bytes_from_str :: "string \<Rightarrow> 32 word \<Rightarrow> int + 8 word list" where
  "bytes_from_str str bytes_len =
     (if of_nat (length str) \<noteq> bytes_len * 2 then Inl (- EINVAL)
      else Inr (map (byte_at str) [0..<unat bytes_len]))"

section \<open>The connection loop\<close>

text \<open>The start of \<^verbatim>\<open>start_app\<close>: on the nRF7002 DK, parse and install the key; false when the
  function returns.\<close>

definition qspi_setup :: "env \<Rightarrow> (fw, bool) state" where
  "qspi_setup e =
     (if cfg_nrf7002dk e \<and> length (cfg_qspi_key e) \<noteq> 0
      then (case bytes_from_str (cfg_qspi_key e) (of_nat (env_qspi_key_len e)) of
              Inl err \<Rightarrow> ret False
            | Inr key \<Rightarrow> do {
                r \<leftarrow> ask (env_qspi e) (Io_Qspi_Key key);
                ret (r = 0)
              })
      else ret True)"

text \<open>Program points of \<^verbatim>\<open>start_app\<close>: \<open>S_Loop\<close> is the head of \<^verbatim>\<open>while (1)\<close>, \<open>S_Check\<close> the
  label \<^verbatim>\<open>check_wifi_ready\<close>, \<open>S_Hold\<close> the wait after a successful association,
  \<open>S_Forever\<close> the sleep that replaces it without the readiness library.\<close>

datatype start_pc = S_Enter | S_Loop | S_Check | S_Clear_Connected | S_Clear_Result | S_Request
  | S_Poll | S_Decide | S_Hold | S_Forever | S_Return int

fun start_app :: "env \<Rightarrow> start_pc \<Rightarrow> fw \<Rightarrow> (start_pc \<times> fw) option" where
  "start_app e S_Enter s = Some (if result (qspi_setup e) s then S_Loop else S_Return 0, exec (qspi_setup e) s)"
| "start_app e S_Loop s =
     (if cfg_wifi_ready_lib e
      then (case k_sem_take e s of None \<Rightarrow> None | Some (r, s') \<Rightarrow> Some (if r \<noteq> 0 then S_Return r else S_Check, s'))
      else Some (S_Clear_Connected, s))"
| "start_app e S_Check s = Some (if \<not> wifi_ready_status s then S_Loop else S_Clear_Connected, s)"
| "start_app e S_Clear_Connected s = Some (S_Clear_Result, put_bit 0 False s)"
| "start_app e S_Clear_Result s = Some (S_Request, put_bit 1 False s)"
| "start_app e S_Request s = Some (S_Poll, exec (wifi_connect_request_app e) s)"
| "start_app e S_Poll s =
     (if connect_result s then Some (S_Decide, s)
      else Some (S_Poll, exec (do { _ \<leftarrow> cmd_wifi_status_app e; k_sleep 300 }) s))"
| "start_app e S_Decide s =
     (if connected s
      then Some (if cfg_wifi_ready_lib e then S_Hold else S_Forever, exec (cmd_wifi_status_app e) s)
      else Some (S_Loop, s))"
| "start_app e S_Hold s =
     (case k_sem_take e s of None \<Rightarrow> None | Some (r, s') \<Rightarrow> Some (if r \<noteq> 0 then S_Return r else S_Check, s'))"
| "start_app e S_Forever s = None"
| "start_app e (S_Return r) s = None"

text \<open>The thread that runs it with the readiness library.\<close>

definition start_wifi_thread :: "env \<Rightarrow> start_pc \<Rightarrow> fw \<Rightarrow> (start_pc \<times> fw) option" where
  "start_wifi_thread e = start_app e"

definition wifi_ready_cb_app :: "bool \<Rightarrow> (fw, unit) state" where
  "wifi_ready_cb_app wifi_ready = do {
     modify (\<lambda>s. s\<lparr>wifi_ready_status := wifi_ready\<rparr>);
     k_sem_give
   }"

definition net_mgmt_callback_init :: "(fw, unit) state" where
  "net_mgmt_callback_init = do {
     modify (\<lambda>s. s\<lparr>ctx := 0\<rparr>);
     modify (\<lambda>s. s\<lparr>callbacks := (Wifi_Mgmt_Event_Handler,
       [NET_EVENT_WIFI_CONNECT_RESULT, NET_EVENT_WIFI_DISCONNECT_RESULT]) # callbacks s\<rparr>);
     modify (\<lambda>s. s\<lparr>callbacks := (Net_Mgmt_Event_Handler, [NET_EVENT_IPV4_DHCP_BOUND]) # callbacks s\<rparr>);
     k_sleep 1000
   }"

definition register_wifi_ready_app :: "env \<Rightarrow> (fw, int) state" where
  "register_wifi_ready_app e =
     (if \<not> env_have_wifi_iface e then ret (-1)
      else do {
        r \<leftarrow> ask (env_register_ready e) Io_Register_Ready;
        ret r
      })"

text \<open>\<^verbatim>\<open>main\<close>. Without the readiness library it runs \<^verbatim>\<open>start_app\<close> itself and returns 0 after it.\<close>

datatype app_main_pc = AM_Init | AM_Start_Http | AM_Register | AM_Start_Wifi | AM_App start_pc | AM_Return int

fun main_app :: "env \<Rightarrow> app_main_pc \<Rightarrow> fw \<Rightarrow> (app_main_pc \<times> fw) option" where
  "main_app e AM_Init s = Some (AM_Start_Http, exec net_mgmt_callback_init s)"
| "main_app e AM_Start_Http s = Some (AM_Register, exec (emit (Io_Thread_Start Start_Http_Thread)) s)"
| "main_app e AM_Register s =
     (if cfg_wifi_ready_lib e
      then Some (if result (register_wifi_ready_app e) s \<noteq> 0
                 then AM_Return (result (register_wifi_ready_app e) s) else AM_Start_Wifi,
                 exec (register_wifi_ready_app e) s)
      else Some (AM_App S_Enter, s))"
| "main_app e AM_Start_Wifi s = Some (AM_Return 0, exec (emit (Io_Thread_Start Start_Wifi_Thread)) s)"
| "main_app e (AM_App (S_Return r)) s = Some (AM_Return 0, s)"
| "main_app e (AM_App pc) s =
     (case start_app e pc s of None \<Rightarrow> None | Some (pc', s') \<Rightarrow> Some (AM_App pc', s'))"
| "main_app e (AM_Return r) s = None"

section \<open>The key parser\<close>

lemma length_concat_hex: "length (concat (map hex_byte bs)) = 2 * length bs"
  by (induction bs) (simp_all add: hex_byte_def)

lemma hex_chunk: "i < length bs \<Longrightarrow> take 2 (drop (i * 2) (concat (map hex_byte bs))) = hex_byte (bs ! i)"
proof (induction bs arbitrary: i)
  case Nil
  then show ?case by simp
next
  case (Cons b bs)
  then show ?case by (cases i) (simp_all add: hex_byte_def)
qed

lemma hex_digit_not_NUL: "d < 16 \<Longrightarrow> hex_digit d \<noteq> NUL"
  using of_char_hex_digit [of d] by (auto split: if_splits)

lemma hex_byte_no_NUL: "NUL \<notin> set (hex_byte b)"
proof -
  have "unat b < 256" using unsigned_less [of b, where ?'a = nat] by simp
  then have "unat b div 16 < 16" by simp
  from hex_digit_not_NUL [OF this] hex_digit_not_NUL [of "unat b mod 16"] show ?thesis
    by (auto simp: hex_byte_def dest: sym)
qed

lemma byte_at_hex: "i < length bs \<Longrightarrow> byte_at (concat (map hex_byte bs)) i = bs ! i"
  by (simp add: byte_at_def hex_chunk hex_byte_no_NUL)

lemma length_eq_wrap:
  assumes "length str < 2 ^ 32" "unat n < 2 ^ 31"
  shows "of_nat (length str) = (n :: 32 word) * 2 \<longleftrightarrow> length str = 2 * unat n"
proof -
  have "unat (n * 2) = 2 * unat n"
    using assms(2) by (simp add: unat_word_ariths)
  moreover have "unat (of_nat (length str) :: 32 word) = length str"
    using assms(1) by (simp add: unat_of_nat)
  ultimately show ?thesis by (metis word_unat_eq_iff)
qed

lemma strtol16_no_digits:
  assumes "\<forall>c \<in> set s. hex_val c = None"
  shows "strtol16 s = 0"
proof -
  have run: "hex_run t 0 = 0" if "set t \<subseteq> set s" for t
    using that assms by (cases t) auto
  have sub: "set (drop k (dropWhile c_isspace s)) \<subseteq> set s" for k
    by (meson order_trans set_drop_subset set_dropWhileD subsetI)
  show ?thesis
    using run [OF sub [of 0]] run [OF sub [of 1]] run [OF sub [of 2]] run [OF sub [of 3]]
    by (simp add: strtol16_def Let_def)
qed

lemma bytes_from_str_hex_key:
  assumes "length bs < 2 ^ 32"
  shows "bytes_from_str (concat (map hex_byte bs)) (of_nat (length bs)) = Inr bs"
proof -
  have "unat (of_nat (length bs) :: 32 word) = length bs" using assms by (simp add: unat_of_nat)
  moreover have "map (byte_at (concat (map hex_byte bs))) [0..<length bs] = bs"
    by (rule nth_equalityI) (simp_all add: byte_at_hex)
  ultimately show ?thesis by (simp add: bytes_from_str_def length_concat_hex mult.commute)
qed

text \<open>C29. Keys round trip. Every key shorter than the address space, written as two hex digits per byte,
  is parsed back byte for byte.\<close>

theorem bytes_from_str_hex:
  assumes "length bs < 2 ^ 32"
  shows "bytes_from_str (concat (map hex_byte bs)) (of_nat (length bs)) = Inr bs"
  using assms by (rule bytes_from_str_hex_key)

theorem bytes_from_str_hex_witness:
  "bytes_from_str (concat (map hex_byte [0x1f, 0, 0xa7])) 3 = Inr [0x1f, 0, 0xa7]"
  using bytes_from_str_hex [of "[0x1f, 0, 0xa7]"] by simp


text \<open>C30. What the parser rejects. For a text and a key length that do not exhaust the 32-bit
  \<^verbatim>\<open>size_t\<close>, the parser fails exactly when the text does not have two characters per byte,
  always with \<^verbatim>\<open>-EINVAL\<close>; otherwise it yields as many bytes as asked for.\<close>

theorem bytes_from_str_rejects_iff:
  assumes "length str < 2 ^ 32" "unat n < 2 ^ 31"
  shows "case bytes_from_str str n of
           Inl r \<Rightarrow> r = - EINVAL \<and> length str \<noteq> 2 * unat n
         | Inr bs \<Rightarrow> length bs = unat n \<and> length str = 2 * unat n"
  using length_eq_wrap [OF assms] by (simp add: bytes_from_str_def)

theorem bytes_from_str_rejects_iff_witness:
  "case bytes_from_str ''abc'' 2 of Inl r \<Rightarrow> r = - EINVAL | Inr bs \<Rightarrow> False"
  using bytes_from_str_rejects_iff [of "''abc''" 2] by (simp split: sum.splits)

text \<open>Only the length is checked: a text of the right length without a single hex digit is accepted,
  and is the all-zero key.\<close>

theorem bytes_from_str_accepts_junk:
  assumes "of_nat (length str) = n * 2" "\<forall>c \<in> set str. hex_val c = None"
  shows "bytes_from_str str n = Inr (replicate (unat n) 0)"
proof -
  have "byte_at str i = 0" for i
  proof -
    have "set (c_str (take 2 (drop (i * 2) str) @ [NUL])) \<subseteq> insert NUL (set str)"
      by (auto simp: c_str_def dest!: set_takeWhileD in_set_takeD in_set_dropD)
    moreover have "hex_val NUL = None" by (simp add: hex_val_def)
    ultimately have "strtol16 (c_str (take 2 (drop (i * 2) str) @ [NUL])) = 0"
      using assms(2) by (intro strtol16_no_digits) auto
    then show ?thesis by (simp add: byte_at_def)
  qed
  then have "map (byte_at str) [0..<unat n] = replicate (unat n) 0"
    by (intro nth_equalityI) simp_all
  then show ?thesis using assms(1) by (simp add: bytes_from_str_def)
qed

theorem bytes_from_str_accepts_junk_witness: "bytes_from_str ''wxyz'' 2 = Inr (replicate 2 0)"
  using bytes_from_str_accepts_junk [of "''wxyz''" 2] by (simp add: hex_val_def)


section \<open>The handlers\<close>

text \<open>Function for function, the handlers and helpers are those of \<^verbatim>\<open>wifi_sta.c\<close>.\<close>

lemma app_as_station:
  "cmd_wifi_status_app = cmd_wifi_status"
  "wifi_mgmt_event_handler_app = wifi_mgmt_event_handler"
  "net_mgmt_event_handler_app = net_mgmt_event_handler"
  "wifi_connect_request_app = wifi_connect_request"
  "register_wifi_ready_app = register_wifi_ready"
  "wifi_ready_cb_app = wifi_ready_cb"
proof -
  show st: "cmd_wifi_status_app = cmd_wifi_status"
    by (simp add: fun_eq_iff cmd_wifi_status_app_def cmd_wifi_status_def)
  have "handle_wifi_connect_result_app = handle_wifi_connect_result"
    "handle_wifi_disconnect_result_app e = handle_wifi_disconnect_result e" for e
    unfolding fun_eq_iff handle_wifi_connect_result_app_def handle_wifi_connect_result_def
      handle_wifi_disconnect_result_app_def handle_wifi_disconnect_result_def st by simp_all
  then show "wifi_mgmt_event_handler_app = wifi_mgmt_event_handler"
    by (simp add: fun_eq_iff wifi_mgmt_event_handler_app_def wifi_mgmt_event_handler_def split: mgmt_event.split)
  show "net_mgmt_event_handler_app = net_mgmt_event_handler"
    by (simp add: fun_eq_iff net_mgmt_event_handler_app_def net_mgmt_event_handler_def
        print_dhcp_ip_app_def print_dhcp_ip_def split: mgmt_event.split)
  show "wifi_connect_request_app = wifi_connect_request" "register_wifi_ready_app = register_wifi_ready"
    "wifi_ready_cb_app = wifi_ready_cb"
    by (simp_all add: fun_eq_iff wifi_connect_request_app_def wifi_connect_request_def
        register_wifi_ready_app_def register_wifi_ready_def wifi_ready_cb_app_def wifi_ready_cb_def)
qed

interpretation app: link_handlers "\<lambda>cb ev. exec (wifi_mgmt_event_handler_app e cb ev)"
    "\<lambda>cb ev. exec (net_mgmt_event_handler_app cb ev)" for e
  unfolding app_as_station by (rule station.link_handlers_axioms)

text \<open>The handlers of \<^verbatim>\<open>app.c\<close> refine the same abstract link: any sequence of events, in any
  order, takes flags and address where the abstract link goes.\<close>

theorem app_refines_link:
  fixes e :: env and evs :: "(mgmt_cb \<times> mgmt_event) list" and s :: fw
  assumes "callbacks s = registrations" "link_inv s"
  defines "t \<equiv> fold (\<lambda>(cb, ev). deliver (\<lambda>cb ev. exec (wifi_mgmt_event_handler_app e cb ev))
                   (\<lambda>cb ev. exec (net_mgmt_event_handler_app cb ev)) cb ev) evs s"
  shows "link_inv t \<and> link_view t = fold (\<lambda>(cb, ev). link_step ev (cb_status cb)) evs (link_view s) \<and>
         got_ip t = ip_after evs (got_ip s)"
  unfolding t_def using app.events_refine [OF assms(1,2)] app.events_ip [OF assms(1,2)] by blast

theorem app_refines_link_witness:
  "link_view (fold (\<lambda>(cb, ev). deliver (\<lambda>cb ev. exec (wifi_mgmt_event_handler_app (good_env []) cb ev))
       (\<lambda>cb ev. exec (net_mgmt_event_handler_app cb ev)) cb ev)
     [(\<lparr>cb_status = 5, cb_requested_ip = 0\<rparr>, NET_EVENT_WIFI_CONNECT_RESULT)]
     (boot\<lparr>callbacks := registrations\<rparr>)) = (Link_Down, False)"
  using app_refines_link [where s = "boot\<lparr>callbacks := registrations\<rparr>" and e = "good_env []" and
      evs = "[(\<lparr>cb_status = 5, cb_requested_ip = 0\<rparr>, NET_EVENT_WIFI_CONNECT_RESULT)]"]
  by (simp add: link_inv_def link_view_def boot_def)


section \<open>The key at start-up\<close>

text \<open>The configured key. On the nRF7002 DK, a key configured as hex text of the right length is
  handed to the QSPI driver byte for byte, and \<^verbatim>\<open>start_app\<close> goes on to its loop exactly when the
  driver accepts it; a text of any other length makes \<^verbatim>\<open>start_app\<close> return 0 without touching
  the driver or the network.\<close>

theorem start_app_key:
  assumes "cfg_nrf7002dk e" "cfg_qspi_key e \<noteq> []" "env_qspi_key_len e < 2 ^ 31" "length (cfg_qspi_key e) < 2 ^ 32"
  shows "(\<forall>bs. cfg_qspi_key e = concat (map hex_byte bs) \<and> length bs = env_qspi_key_len e \<longrightarrow>
            (let r = env_qspi e (trace s) in start_app e S_Enter s =
               Some (if r = 0 then S_Loop else S_Return 0, s\<lparr>trace := Io_Qspi_Key bs r # trace s\<rparr>))) \<and>
         (length (cfg_qspi_key e) \<noteq> 2 * env_qspi_key_len e \<longrightarrow> start_app e S_Enter s = Some (S_Return 0, s))"
proof -
  have n: "unat (of_nat (env_qspi_key_len e) :: 32 word) = env_qspi_key_len e"
    using assms(3) by (simp add: unat_of_nat)
  have "start_app e S_Enter s = Some (S_Return 0, s)" if "length (cfg_qspi_key e) \<noteq> 2 * env_qspi_key_len e"
    using that assms length_eq_wrap [OF assms(4), of "of_nat (env_qspi_key_len e)"]
    by (simp add: n qspi_setup_def bytes_from_str_def)
  moreover have "start_app e S_Enter s = Some (if env_qspi e (trace s) = 0 then S_Loop else S_Return 0,
      s\<lparr>trace := Io_Qspi_Key bs (env_qspi e (trace s)) # trace s\<rparr>)"
    if bs: "cfg_qspi_key e = concat (map hex_byte bs)" "length bs = env_qspi_key_len e" for bs
    using bytes_from_str_hex_key [of bs] assms(1-3) bs by (auto simp: qspi_setup_def)
  ultimately show ?thesis by (simp add: Let_def)
qed

theorem start_app_key_witness:
  "start_app ((good_env [])\<lparr>cfg_nrf7002dk := True, cfg_qspi_key := ''00ff0''\<rparr>) S_Enter boot = Some (S_Return 0, boot)"
  using start_app_key [of "(good_env [])\<lparr>cfg_nrf7002dk := True, cfg_qspi_key := ''00ff0''\<rparr>" boot]
  by (simp add: good_env_def)

end
