(* ===== verification/App_System.thy ===== *)
theory App_System
  imports App
begin

text \<open>
  The image that \<^verbatim>\<open>app.c\<close> makes together with \<^verbatim>\<open>http_app.c\<close>: the main thread, the thread of the
  connection loop, the HTTP thread, which here runs independently of the association, network
  events and readiness reports. The theorems hold in every reachable state.
\<close>

section \<open>Steps\<close>

record app_sys =
  app_main :: app_main_pc
  app_wifi :: start_pc
  app_http :: http_pc
  app_fw :: fw

definition app_boot :: app_sys where
  "app_boot = \<lparr>app_main = AM_Init, app_wifi = S_Enter, app_http = H_Start, app_fw = boot\<rparr>"

abbreviation app_deliver :: "env \<Rightarrow> mgmt_cb \<Rightarrow> mgmt_event \<Rightarrow> fw \<Rightarrow> fw" where
  "app_deliver e \<equiv> deliver (\<lambda>cb ev. exec (wifi_mgmt_event_handler_app e cb ev))
     (\<lambda>cb ev. exec (net_mgmt_event_handler_app cb ev))"

definition app_ready_event :: "bool \<Rightarrow> (fw, unit) state" where
  "app_ready_event b = do { emit (Io_Ready_Event b); wifi_ready_cb_app b }"

inductive app_step :: "env \<Rightarrow> app_sys \<Rightarrow> app_sys \<Rightarrow> bool" for e where
  app_step_main: "main_app e (app_main x) (app_fw x) = Some (pc, s) \<Longrightarrow>
     app_step e x (x\<lparr>app_main := pc, app_fw := s\<rparr>)"
| app_step_wifi: "Io_Thread_Start Start_Wifi_Thread \<in> set (trace (app_fw x)) \<Longrightarrow>
     start_wifi_thread e (app_wifi x) (app_fw x) = Some (pc, s) \<Longrightarrow>
     app_step e x (x\<lparr>app_wifi := pc, app_fw := s\<rparr>)"
| app_step_http: "Io_Thread_Start Start_Http_Thread \<in> set (trace (app_fw x)) \<Longrightarrow>
     start_http_thread e (app_http x) (app_fw x) = (h, s) \<Longrightarrow>
     app_step e x (x\<lparr>app_http := h, app_fw := s\<rparr>)"
| app_step_event: "app_step e x (x\<lparr>app_fw := app_deliver e cb ev (app_fw x)\<rparr>)"
| app_step_ready: "Io_Register_Ready 0 \<in> set (trace (app_fw x)) \<Longrightarrow>
     app_step e x (x\<lparr>app_fw := exec (app_ready_event b) (app_fw x)\<rparr>)"

text \<open>The invariant: the client's, the ranges of the flags and the semaphore, that an address was
  bound by an event, and that all network traffic comes after a binding and after the HTTP thread
  was started.\<close>

definition http_started :: "io \<Rightarrow> bool" where
  "http_started ev \<longleftrightarrow> ev = Io_Thread_Start Start_Http_Thread"

definition app_fw_inv :: "fw \<Rightarrow> bool" where
  "app_fw_inv s \<longleftrightarrow> client_inv s \<and> (\<forall>n \<ge> 2. \<not> bit (ctx s) n) \<and> ready_sem s \<le> 1 \<and>
     (got_ip s \<longrightarrow> list_ex address_bound (trace s)) \<and>
     preceded needs_address address_bound (trace s) \<and> preceded needs_address http_started (trace s)"

definition app_inv :: "env \<Rightarrow> app_sys \<Rightarrow> bool" where
  "app_inv e x \<longleftrightarrow> (errno_positive e \<longrightarrow>
     app_fw_inv (app_fw x) \<and> callbacks (app_fw x) = (if app_main x = AM_Init then [] else registrations))"

fun start_run :: "env \<Rightarrow> nat \<Rightarrow> start_pc \<times> fw \<Rightarrow> (start_pc \<times> fw) option" where
  "start_run e 0 x = Some x"
| "start_run e (Suc n) x = (case start_app e (fst x) (snd x) of None \<Rightarrow> None | Some y \<Rightarrow> start_run e n y)"

section \<open>Every step keeps the invariant\<close>

text \<open>What a thread does without the network: either it asks for an association, or it is idle.\<close>

definition tame_step :: "fw \<Rightarrow> fw \<Rightarrow> bool" where
  "tame_step s t \<longleftrightarrow> keeps_client s t \<and> quiet_ext (trace s) (trace t) \<and> callbacks t = callbacks s \<and>
     ready_sem t \<le> max 1 (ready_sem s) \<and> got_ip t = got_ip s \<and> (\<forall>n. bit (ctx t) n \<longrightarrow> bit (ctx s) n)"

lemma preceded_quiet: "preceded needs_address q t \<Longrightarrow> quiet_ext t t' \<Longrightarrow> preceded needs_address q t'"
proof -
  assume p: "preceded needs_address q t" and "quiet_ext t t'"
  then obtain evs where t': "t' = evs @ t" "list_all quiet evs" by (auto simp: quiet_ext_def)
  then have "list_all (\<lambda>ev. \<not> needs_address ev) evs" using needs_address_noisy by (auto simp: list_all_iff)
  with p t' show "preceded needs_address q t'" by (simp add: preceded_silent)
qed

lemma list_ex_quiet_ext: "quiet_ext t t' \<Longrightarrow> list_ex p t \<Longrightarrow> list_ex p t'"
  by (auto simp: quiet_ext_def)

lemma app_fw_inv_quiet:
  assumes "app_fw_inv s" "keeps_client s t" "quiet_ext (trace s) (trace t)" "ready_sem t \<le> 1"
    "\<And>n. 2 \<le> n \<Longrightarrow> bit (ctx t) n \<Longrightarrow> bit (ctx s) n"
    "got_ip t \<Longrightarrow> got_ip s \<or> list_ex address_bound (trace t)"
  shows "app_fw_inv t"
  using assms client_inv_quiet [OF _ assms(2,3)] preceded_quiet [OF _ assms(3)] list_ex_quiet_ext [OF assms(3)]
  unfolding app_fw_inv_def by blast

lemma tame_step_inv: "tame_step s t \<Longrightarrow> app_fw_inv s \<Longrightarrow> app_fw_inv t \<and> callbacks t = callbacks s"
  by (intro conjI app_fw_inv_quiet [of s t]) (auto simp: tame_step_def app_fw_inv_def)

lemma idle_step_tame: "idle_step s t \<Longrightarrow> tame_step s t"
  by (auto simp: idle_step_def tame_step_def idle_ext_quiet)

lemma qspi_setup_tame: "tame_step s (exec (qspi_setup e) s)"
  by (simp add: qspi_setup_def tame_step_def keeps_client_def split: sum.split)

lemma request_tame: "tame_step s (exec (wifi_connect_request e) s)"
  by (simp add: wifi_connect_request_def tame_step_def keeps_client_def)

lemma tame_step_refl [simp]: "tame_step s s"
  by (simp add: tame_step_def)

lemma clear_tame: "n < 8 \<Longrightarrow> tame_step s (put_bit n False s)"
  by (simp add: tame_step_def keeps_client_def)

lemma start_app_tame:
  assumes "start_app e pc s = Some (pc', t)"
  shows "tame_step s t"
  using assms
  by (cases pc) (auto simp del: exec_bind simp: app_as_station clear_tame qspi_setup_tame request_tame
       cmd_wifi_status_idle_step [THEN idle_step_tame] poll_idle_step [THEN idle_step_tame]
       split: if_splits option.splits prod.splits intro: k_sem_take_idle [THEN idle_step_tame])

lemma main_app_tame:
  assumes "main_app e pc s = Some (pc', t)" "pc \<noteq> AM_Init"
  shows "tame_step s t \<and> pc' \<noteq> AM_Init"
proof (cases pc)
  case (AM_App q)
  then show ?thesis
    using assms start_app_tame [of e q s]
    by (cases q) (auto simp del: start_app.simps split: option.splits prod.splits simp: tame_step_def keeps_client_def)
qed (use assms in \<open>auto simp: tame_step_def keeps_client_def register_wifi_ready_app_def split: if_splits\<close>)

lemma app_deliver_inv:
  assumes "app_fw_inv s" "callbacks s = [] \<or> callbacks s = registrations"
  shows "app_fw_inv (app_deliver e cb ev s) \<and> callbacks (app_deliver e cb ev s) = callbacks s"
proof -
  let ?t = "app_deliver e cb ev s"
  have c: "callbacks ?t = callbacks s" "ready_sem ?t = ready_sem s" "keeps_client s ?t"
    "\<And>n. 2 \<le> n \<Longrightarrow> bit (ctx ?t) n \<Longrightarrow> bit (ctx s) n"
    "got_ip ?t \<Longrightarrow> got_ip s \<or> ev = NET_EVENT_IPV4_DHCP_BOUND"
    unfolding app_as_station using deliver_cases [OF assms(2), where e = e and cb = cb and ev = ev] by blast+
  have "app_fw_inv ?t"
    using assms(1) c app.deliver_logs [of ev e cb s]
    by (intro app_fw_inv_quiet [OF assms(1) _ app.deliver_quiet])
       (auto simp: app_fw_inv_def address_bound_def list_ex_iff)
  then show ?thesis using c(1) by blast
qed

lemma app_http_inv:
  assumes "errno_positive e" "app_fw_inv s" "list_ex http_started (trace s)" "start_http_thread e h s = (h', t)"
  shows "app_fw_inv t \<and> callbacks t = callbacks s"
proof (cases h)
  case H_Start
  then have "tame_step s t" using assms(4) by (auto simp: register_certificate_def tame_step_def keeps_client_def)
  then show ?thesis using tame_step_inv assms(2) by blast
next
  case H_Loop
  then have t: "t = exec (http_round e) s" using assms(4) by auto
  have suf: "suffix (trace s) (trace t)" unfolding t by (rule http_round_suffix)
  have "preceded needs_address address_bound (trace t)"
  proof (cases "got_ip s")
    case True
    then show ?thesis using assms(2) preceded_online [OF _ _ suf] by (simp add: app_fw_inv_def)
  next
    case False
    then have "quiet_ext (trace s) (trace t)" by (simp add: t http_round_def)
    then show ?thesis using assms(2) preceded_quiet by (auto simp: app_fw_inv_def)
  qed
  moreover have "preceded needs_address http_started (trace t)"
    using assms(2,3) preceded_online [OF _ _ suf] by (simp add: app_fw_inv_def)
  ultimately show ?thesis
    using assms(1,2) http_round_inv keeps_linkD [OF http_round_link [of s e]] list_ex_suffix [OF suf]
    by (auto simp: app_fw_inv_def t)
qed


lemma app_main_inv:
  assumes "main_app e pc s = Some (pc', t)" "app_fw_inv s"
  shows "app_fw_inv t \<and> pc' \<noteq> AM_Init \<and> callbacks t = (if pc = AM_Init then registrations @ callbacks s else callbacks s)"
proof (cases "pc = AM_Init")
  case True
  then have "pc' = AM_Start_Http" "t = exec net_mgmt_callback_init s" using assms(1) by auto
  moreover have "app_fw_inv (exec net_mgmt_callback_init s)"
    using assms(2) by (intro app_fw_inv_quiet [OF assms(2)])
      (auto simp: net_mgmt_callback_init_def keeps_client_def app_fw_inv_def)
  ultimately show ?thesis using True by (simp add: net_mgmt_callback_init_def registrations_def)
next
  case False
  then show ?thesis using main_app_tame [OF assms(1) False] tame_step_inv assms(2) by auto
qed

lemma app_boot_inv: "app_inv e app_boot"
  by (simp add: app_inv_def app_boot_def boot_def app_fw_inv_def client_inv_def)

lemma app_step_inv:
  assumes "app_inv e x" "app_step e x y"
  shows "app_inv e y"
proof (cases "errno_positive e")
  case True
  then have inv: "app_fw_inv (app_fw x)" "callbacks (app_fw x) = (if app_main x = AM_Init then [] else registrations)"
    using assms(1) by (auto simp: app_inv_def)
  from assms(2) show ?thesis
  proof cases
    case (app_step_main pc s)
    then show ?thesis using app_main_inv [OF _ inv(1)] inv(2) by (auto simp: app_inv_def)
  next
    case (app_step_wifi pc s)
    then have "tame_step (app_fw x) s" using start_app_tame by (simp add: start_wifi_thread_def)
    then show ?thesis using inv tame_step_inv app_step_wifi(1) by (auto simp: app_inv_def)
  next
    case (app_step_http h s)
    then have "list_ex http_started (trace (app_fw x))" by (auto simp: list_ex_iff http_started_def)
    then show ?thesis using app_http_inv [OF True inv(1) _ app_step_http(3)] inv(2) app_step_http(1) by (auto simp: app_inv_def)
  next
    case (app_step_event cb ev)
    then show ?thesis using app_deliver_inv [OF inv(1)] inv(2) by (auto simp: app_inv_def)
  next
    case (app_step_ready b)
    have "app_fw_inv (exec (app_ready_event b) (app_fw x))"
      using inv(1) by (intro app_fw_inv_quiet [OF inv(1)])
        (auto simp: app_ready_event_def wifi_ready_cb_app_def keeps_client_def app_fw_inv_def)
    then show ?thesis
      using inv(2) app_step_ready by (simp add: app_inv_def app_ready_event_def wifi_ready_cb_app_def)
  qed
qed (simp add: app_inv_def)

interpretation app_image: inductive_invariant "\<lambda>x. x = app_boot" "app_step e" "app_inv e" for e
  by unfold_locales (auto intro: app_boot_inv app_step_inv)

text \<open>C28. The image of \<^verbatim>\<open>app.c\<close> is secured and addressed. In every reachable state, on platforms
  whose failing calls set \<^verbatim>\<open>errno\<close>, every connection was set up for TLS and made to the address last
  looked up, every request follows a connection of its own, and every lookup, socket and request comes
  after a DHCP binding and after \<^verbatim>\<open>main\<close> started the HTTP thread; but nothing ties it to an
  association, as it is in the built image.\<close>

theorem app_image_secured:
  assumes "errno_positive e" "reachable (\<lambda>x. x = app_boot) (app_step e) x"
  shows "secured (trace (app_fw x)) \<and> preceded needs_address address_bound (trace (app_fw x)) \<and>
         preceded needs_address http_started (trace (app_fw x))"
  using app_image.inv_reachable [OF assms(2)] assms(1) by (auto simp: app_inv_def app_fw_inv_def client_inv_def)


lemma app_demo:
  "\<exists>x. reachable (\<lambda>x. x = app_boot) (app_step (good_env [])) x \<and> list_ex needs_address (trace (app_fw x))"
proof -
  let ?e = "good_env []" and ?cb = "\<lparr>cb_status = 0, cb_requested_ip = 7\<rparr>"
  let ?R = "reachable (\<lambda>x. x = app_boot) (app_step ?e)"
  define s1 where "s1 = exec net_mgmt_callback_init boot"
  define s2 where "s2 = s1\<lparr>trace := Io_Thread_Start Start_Http_Thread # trace s1\<rparr>"
  define s3 where "s3 = app_deliver ?e ?cb NET_EVENT_IPV4_DHCP_BOUND s2"
  define s4 where "s4 = exec (register_certificate ?e) s3"
  have at: "?R x \<Longrightarrow> app_step ?e x y \<Longrightarrow> ?R y" for x y by (rule reach_step)
  have "?R app_boot" by (simp add: reach_init)
  then have "?R (app_boot\<lparr>app_main := AM_Start_Http, app_fw := s1\<rparr>)"
    by (rule at) (rule app_step_main, simp add: app_boot_def s1_def)
  then have "?R (app_boot\<lparr>app_main := AM_Register, app_fw := s2\<rparr>)"
    by (rule at) (use app_step_main [of ?e "app_boot\<lparr>app_main := AM_Start_Http, app_fw := s1\<rparr>" AM_Register s2]
      in \<open>simp add: s2_def\<close>)
  then have r3: "?R (app_boot\<lparr>app_main := AM_Register, app_fw := s3\<rparr>)"
    by (rule at) (use app_step_event [of ?e "app_boot\<lparr>app_main := AM_Register, app_fw := s2\<rparr>" ?cb NET_EVENT_IPV4_DHCP_BOUND]
      in \<open>simp add: s3_def\<close>)
  have started: "Io_Thread_Start Start_Http_Thread \<in> set (trace s3)" "got_ip s3" "http_state s3 = 0"
    by (simp_all add: s3_def s2_def s1_def net_mgmt_callback_init_def boot_def deliver_def app_as_station event_defs)
  from r3 have "?R (app_boot\<lparr>app_main := AM_Register, app_http := H_Loop, app_fw := s4\<rparr>)"
    by (rule at)
       (use started app_step_http [of "app_boot\<lparr>app_main := AM_Register, app_fw := s3\<rparr>" ?e H_Loop s4]
        in \<open>simp add: s4_def app_boot_def\<close>)
  then have "?R (app_boot\<lparr>app_main := AM_Register, app_http := H_Loop, app_fw := exec (http_round ?e) s4\<rparr>)"
    by (rule at) (use app_step_http [of "app_boot\<lparr>app_main := AM_Register, app_http := H_Loop, app_fw := s4\<rparr>" ?e H_Loop]
        started in \<open>simp add: s4_def register_certificate_def\<close>)
  moreover have "list_ex needs_address (trace (exec (http_round ?e) s4))"
    using started by (simp add: s4_def register_certificate_def http_round_def http_dispatch_def resolve_server_def)
  ultimately show ?thesis by (intro exI conjI) (assumption, simp)
qed

lemma start_app_trace: "start_app e pc s = Some (pc', t) \<Longrightarrow> set (trace s) \<subseteq> set (trace t)"
  using start_app_tame by (fastforce simp: tame_step_def quiet_ext_def)

lemma start_run_reachable:
  "reachable (\<lambda>x. x = app_boot) (app_step e) x \<Longrightarrow> Io_Thread_Start Start_Wifi_Thread \<in> set (trace (app_fw x)) \<Longrightarrow>
   start_run e n (app_wifi x, app_fw x) = Some (w, t) \<Longrightarrow>
   reachable (\<lambda>x. x = app_boot) (app_step e) (x\<lparr>app_wifi := w, app_fw := t\<rparr>)"
proof (induction n arbitrary: x)
  case 0
  then show ?case by (cases x) simp
next
  case (Suc n)
  then obtain w' s' where s: "start_app e (app_wifi x) (app_fw x) = Some (w', s')" "start_run e n (w', s') = Some (w, t)"
    by (auto split: option.splits)
  have "reachable (\<lambda>x. x = app_boot) (app_step e) (x\<lparr>app_wifi := w', app_fw := s'\<rparr>)"
    using Suc.prems(1) by (rule reach_step) (use Suc.prems(2) s(1) in \<open>auto simp: start_wifi_thread_def intro: app_step_wifi\<close>)
  then show ?case using Suc.IH [of "x\<lparr>app_wifi := w', app_fw := s'\<rparr>"] Suc.prems(2) s start_app_trace [OF s(1)] by auto
qed

text \<open>A run of the image up to the first association request.\<close>

lemma app_request_demo:
  "\<exists>x. reachable (\<lambda>x. x = app_boot) (app_step (good_env [])) x \<and> list_ex association_request (trace (app_fw x))"
proof -
  let ?e = "good_env []"
  let ?R = "reachable (\<lambda>x. x = app_boot) (app_step ?e)"
  define s1 where "s1 = exec net_mgmt_callback_init boot"
  define s2 where "s2 = s1\<lparr>trace := Io_Thread_Start Start_Http_Thread # trace s1\<rparr>"
  define s3 where "s3 = exec (register_wifi_ready_app ?e) s2"
  define s4 where "s4 = s3\<lparr>trace := Io_Thread_Start Start_Wifi_Thread # trace s3\<rparr>"
  define s5 where "s5 = exec (app_ready_event True) s4"
  let ?x = "\<lambda>m w s. \<lparr>app_main = m, app_wifi = w, app_http = H_Start, app_fw = s\<rparr>"
  have at: "?R x \<Longrightarrow> app_step ?e x y \<Longrightarrow> ?R y" for x y by (rule reach_step)
  have main: "?R (?x m w s) \<Longrightarrow> main_app ?e m s = Some (m', s') \<Longrightarrow> ?R (?x m' w s')" for m w s m' s'
    using at [OF _ app_step_main [of ?e "?x m w s" m' s']] by simp
  have "?R (?x AM_Init S_Enter boot)" using reach_init [of "\<lambda>x. x = app_boot" app_boot] by (simp add: app_boot_def)
  then have "?R (?x AM_Start_Http S_Enter s1)" by (rule main) (simp add: s1_def)
  then have "?R (?x AM_Register S_Enter s2)" by (rule main) (simp add: s2_def)
  then have "?R (?x AM_Start_Wifi S_Enter s3)"
    by (rule main) (simp add: s3_def register_wifi_ready_app_def good_env_def)
  then have "?R (?x (AM_Return 0) S_Enter s4)" by (rule main) (simp add: s4_def)
  then have "?R (?x (AM_Return 0) S_Enter s5)"
    using at [OF _ app_step_ready [of "?x (AM_Return 0) S_Enter s4" ?e True]]
    by (simp add: s5_def s4_def s3_def register_wifi_ready_app_def good_env_def)
  moreover obtain t where "start_run ?e 6 (S_Enter, s5) = Some (S_Poll, t)" "list_ex association_request (trace t)"
    by (simp add: s5_def s4_def s3_def s2_def s1_def eval_nat_numeral k_sem_take_def app_ready_event_def
        wifi_ready_cb_app_def wifi_connect_request_app_def qspi_setup_def register_wifi_ready_app_def
        net_mgmt_callback_init_def boot_def)
  moreover have "Io_Thread_Start Start_Wifi_Thread \<in> set (trace s5)"
    by (simp add: s5_def s4_def app_ready_event_def wifi_ready_cb_app_def)
  ultimately show ?thesis
    using start_run_reachable [of ?e "?x (AM_Return 0) S_Enter s5" 6 S_Poll t]
    by (intro exI [of _ "?x (AM_Return 0) S_Poll t"]) simp
qed

theorem app_image_secured_witness:
  "\<exists>x :: app_sys. list_ex needs_address (trace (app_fw x)) \<and> secured (trace (app_fw x))"
proof -
  obtain x where x: "reachable (\<lambda>x. x = app_boot) (app_step (good_env [])) x" "list_ex needs_address (trace (app_fw x))"
    using app_demo by blast
  have "errno_positive (good_env [])" by (simp add: errno_positive_def)
  from app_image_secured [OF this x(1)] x(2) show ?thesis by blast
qed

section \<open>The order of readiness and association\<close>

text \<open>With the readiness library the connection loop runs in its own thread only, and its points from
  the first assignment of \<^verbatim>\<open>wifi_connect\<close> to the request are reached through
  \<^verbatim>\<open>check_wifi_ready\<close>.\<close>

definition connecting :: "start_pc \<Rightarrow> bool" where
  "connecting pc \<longleftrightarrow> pc \<in> {S_Clear_Connected, S_Clear_Result, S_Request}"

definition ready_order :: "start_pc \<Rightarrow> fw \<Rightarrow> bool" where
  "ready_order pc s \<longleftrightarrow> preceded association_request driver_ready (trace s) \<and>
     (wifi_ready_status s \<longrightarrow> list_ex driver_ready (trace s)) \<and>
     (connecting pc \<longrightarrow> list_ex driver_ready (trace s)) \<and> pc \<noteq> S_Forever"

fun main_connects :: "app_main_pc \<Rightarrow> bool" where
  "main_connects (AM_App pc) = True"
| "main_connects _ = False"

definition app_order_inv :: "env \<Rightarrow> app_sys \<Rightarrow> bool" where
  "app_order_inv e x \<longleftrightarrow> (cfg_wifi_ready_lib e \<longrightarrow> ready_order (app_wifi x) (app_fw x) \<and>
     \<not> main_connects (app_main x) \<and>
     callbacks (app_fw x) = (if app_main x = AM_Init then [] else registrations))"

lemma connecting_simps [simp]:
  "\<not> connecting S_Enter" "\<not> connecting S_Loop" "\<not> connecting S_Check" "\<not> connecting S_Poll"
  "\<not> connecting S_Decide" "\<not> connecting S_Hold" "\<not> connecting S_Forever" "\<not> connecting (S_Return r)"
  "connecting S_Clear_Connected" "connecting S_Clear_Result" "connecting S_Request"
  by (simp_all add: connecting_def)

lemma preceded_unasked:
  assumes "preceded association_request q t" "suffix t t'"
    "filter association_request t' = filter association_request t"
  shows "preceded association_request q t'"
proof -
  obtain evs where t': "t' = evs @ t" using assms(2) by (auto simp: suffix_def)
  with assms(3) have "list_all (\<lambda>ev. \<not> association_request ev) evs" by (simp add: filter_empty_conv list_all_iff)
  with assms(1) t' show ?thesis by (simp add: preceded_silent)
qed

lemma idle_ext_unasked: "idle_ext t t' \<Longrightarrow> filter association_request t' = filter association_request t"
  by (auto simp: idle_ext_def list_all_iff filter_empty_conv)

lemma ready_order_idle:
  assumes "ready_order pc s" "idle_ext (trace s) (trace t)" "wifi_ready_status t = wifi_ready_status s"
  shows "ready_order pc t"
  using assms preceded_unasked [OF _ idle_ext_suffix [OF assms(2)] idle_ext_unasked [OF assms(2)]]
    list_ex_suffix [OF idle_ext_suffix [OF assms(2)]]
  by (auto simp: ready_order_def)

lemma ready_order_idle_step: "ready_order pc s \<Longrightarrow> idle_step s t \<Longrightarrow> ready_order pc t"
  by (rule ready_order_idle) (auto simp: idle_step_def)

lemma ready_order_move: "ready_order pc s \<Longrightarrow> \<not> connecting pc' \<Longrightarrow> pc' \<noteq> S_Forever \<Longrightarrow> ready_order pc' s"
  by (simp add: ready_order_def)

lemma start_app_order:
  assumes "cfg_wifi_ready_lib e" "ready_order pc s" "start_app e pc s = Some (pc', t)"
  shows "ready_order pc' t"
proof (cases pc)
  case S_Enter
  have "ready_order pc (exec (qspi_setup e) s)"
    using assms(2) by (rule ready_order_idle) (simp_all add: qspi_setup_def split: sum.split)
  then show ?thesis using assms(3) S_Enter
    by (auto split: if_splits intro: ready_order_move simp del: exec_bind)
next
  case S_Poll
  have "ready_order pc (exec (do { _ \<leftarrow> cmd_wifi_status_app e; k_sleep 300 }) s)"
    unfolding app_as_station by (rule ready_order_idle_step [OF assms(2) poll_idle_step])
  then show ?thesis using assms(2,3) S_Poll
    by (auto simp del: exec_bind split: if_splits intro: ready_order_move)
next
  case S_Decide
  have "ready_order pc (exec (cmd_wifi_status_app e) s)"
    unfolding app_as_station by (rule ready_order_idle_step [OF assms(2) cmd_wifi_status_idle_step])
  then show ?thesis using assms S_Decide by (auto split: if_splits intro: ready_order_move)
next
  case S_Request
  then show ?thesis using assms by (auto simp: ready_order_def wifi_connect_request_app_def)
qed (use assms k_sem_take_idle [THEN ready_order_idle_step [OF assms(2)]] in
  \<open>auto simp: ready_order_def split: if_splits option.splits prod.splits\<close>)

lemma app_http_order:
  assumes "ready_order pc s" "start_http_thread e h s = (h', t)"
  shows "ready_order pc t \<and> callbacks t = callbacks s"
proof (cases h)
  case H_Start
  then have "idle_ext (trace s) (trace t)" "wifi_ready_status t = wifi_ready_status s" "callbacks t = callbacks s"
    using assms(2) by (auto simp: register_certificate_def)
  then show ?thesis using assms(1) ready_order_idle by blast
next
  case H_Loop
  then have t: "t = exec (http_round e) s" using assms(2) by auto
  show ?thesis
    using assms(1) preceded_unasked [OF _ http_round_suffix http_round_no_request]
      list_ex_suffix [OF http_round_suffix] keeps_linkD [OF http_round_link]
    unfolding t ready_order_def by metis
qed

lemma main_app_order:
  assumes "cfg_wifi_ready_lib e" "ready_order q s" "\<not> main_connects pc" "main_app e pc s = Some (pc', t)"
  shows "ready_order q t \<and> \<not> main_connects pc' \<and> pc' \<noteq> AM_Init \<and>
         callbacks t = (if pc = AM_Init then registrations @ callbacks s else callbacks s)"
proof -
  have "idle_ext (trace s) (trace t) \<and> wifi_ready_status t = wifi_ready_status s"
    using assms by (cases pc) (auto simp: net_mgmt_callback_init_def register_wifi_ready_app_def split: if_splits)
  moreover have "\<not> main_connects pc' \<and> pc' \<noteq> AM_Init \<and>
      callbacks t = (if pc = AM_Init then registrations @ callbacks s else callbacks s)"
    using assms by (cases pc)
      (auto simp: net_mgmt_callback_init_def register_wifi_ready_app_def registrations_def split: if_splits)
  ultimately show ?thesis using assms(2) ready_order_idle by blast
qed

lemma app_step_order:
  assumes "app_order_inv e x" "app_step e x y"
  shows "app_order_inv e y"
proof (cases "cfg_wifi_ready_lib e")
  case True
  then have inv: "ready_order (app_wifi x) (app_fw x)" "\<not> main_connects (app_main x)"
    "callbacks (app_fw x) = (if app_main x = AM_Init then [] else registrations)"
    using assms(1) by (auto simp: app_order_inv_def)
  from assms(2) show ?thesis
  proof cases
    case (app_step_main pc s)
    then show ?thesis using main_app_order [OF True inv(1,2)] inv(3) by (auto simp: app_order_inv_def)
  next
    case (app_step_wifi pc s)
    then have "callbacks s = callbacks (app_fw x)"
      using start_app_tame by (auto simp: start_wifi_thread_def tame_step_def)
    then show ?thesis using app_step_wifi inv start_app_order [OF True inv(1)]
      by (auto simp: app_order_inv_def start_wifi_thread_def)
  next
    case (app_step_http h s)
    then show ?thesis using app_http_order [OF inv(1)] inv by (auto simp: app_order_inv_def)
  next
    case (app_step_event cb ev)
    have cb: "callbacks (app_fw x) = [] \<or> callbacks (app_fw x) = registrations" using inv(3) by simp
    show ?thesis
      using inv ready_order_idle [OF inv(1)] deliver_cases(1,3,8) [OF cb] app_step_event
      by (auto simp: app_order_inv_def app_as_station)
  next
    case (app_step_ready b)
    then show ?thesis using inv
      by (auto simp: app_order_inv_def ready_order_def app_ready_event_def wifi_ready_cb_app_def driver_ready_def)
  qed
qed (simp add: app_order_inv_def)

lemma app_boot_order: "app_order_inv e app_boot"
  by (simp add: app_order_inv_def app_boot_def boot_def ready_order_def)

interpretation app_order: inductive_invariant "\<lambda>x. x = app_boot" "app_step e" "app_order_inv e" for e
  by unfold_locales (auto intro: app_boot_order app_step_order)

text \<open>A failed association is tried again. With the readiness library, \<^verbatim>\<open>start_app\<close> goes from a
  failed association back to waiting, stays blocked while no readiness report comes, and a report
  that the driver is ready takes it in five moves to the next association request and its polling
  loop (the built \<^verbatim>\<open>wifi_thread_entry\<close> ends instead).\<close>

theorem start_app_retries:
  assumes "cfg_wifi_ready_lib e" "\<And>t. env_sem_take e t = 0" "\<not> connected s" "ready_sem s = 0"
  defines "t \<equiv> exec (app_ready_event True) s"
  shows "start_app e S_Decide s = Some (S_Loop, s) \<and> start_app e S_Loop s = None \<and>
         (\<exists>u. start_run e 5 (S_Loop, t) = Some (S_Poll, u) \<and>
              trace u = Io_Net_Mgmt NET_REQUEST_WIFI_CONNECT_STORED
                  (env_net_mgmt e (Io_Sem_Take 0 # trace t) NET_REQUEST_WIFI_CONNECT_STORED) # Io_Sem_Take 0 # trace t)"
  using assms(1-4) unfolding t_def
  by (simp add: k_sem_take_def app_ready_event_def wifi_ready_cb_app_def wifi_connect_request_app_def eval_nat_numeral)

theorem start_app_retries_witness:
  "\<exists>u. start_run (good_env []) 5 (S_Loop, exec (app_ready_event True) boot) = Some (S_Poll, u)"
  using start_app_retries [of "good_env []" boot] by (auto simp: boot_def)

end
