(* ===== verification/App_Bk.thy ===== *)
theory App_Bk
  imports App
begin

text \<open>
  The station half of \<^verbatim>\<open>src/src/app_bk.c\<close>, the single-file predecessor of the firmware: the code
  of \<^verbatim>\<open>app.c\<close> with the LED thread switched on. Its HTTP half is in \<open>Http_Bk\<close>. Names carry the
  suffix \<open>_bk\<close>.
\<close>

section \<open>LED\<close>

text \<open>\<^verbatim>\<open>toggle_led\<close>: set the pin up, then for ever blink while connected and switch off otherwise.\<close>

datatype led_pc = L_Start | L_Loop | L_Exit

fun toggle_led_bk :: "env \<Rightarrow> led_pc \<Rightarrow> fw \<Rightarrow> (led_pc \<times> fw) option" where
  "toggle_led_bk e L_Start s =
     (if \<not> env_led_ready e then Some (L_Exit, s)
      else Some (if env_gpio_configure e (trace s) < 0 then L_Exit else L_Loop,
                 exec (ask (env_gpio_configure e) Io_Gpio_Configure) s))"
| "toggle_led_bk e L_Loop s =
     Some (L_Loop, exec (do { c \<leftarrow> gets connected;
        if c then do { emit (Io_Gpio Gpio_Toggle); k_sleep 100 } else do { emit (Io_Gpio (Gpio_Set 0)); k_sleep 100 } }) s)"
| "toggle_led_bk e L_Exit s = None"

section \<open>Status, handlers\<close>

definition cmd_wifi_status_bk :: "env \<Rightarrow> (fw, int) state" where
  "cmd_wifi_status_bk e = do {
     r \<leftarrow> ask (\<lambda>t. env_net_mgmt e t NET_REQUEST_WIFI_IFACE_STATUS) (Io_Net_Mgmt NET_REQUEST_WIFI_IFACE_STATUS);
     status \<leftarrow> gets (\<lambda>s. env_iface_status e (trace s));
     if r \<noteq> 0 then ret (- ENOEXEC)
     else do {
       emit (Io_Status [SF_State (st_state status)]);
       when_do (st_state status \<ge> env_wifi_state_associated e)
         (emit (Io_Status [SF_Iface_Mode (st_iface_mode status), SF_Link_Mode (st_link_mode status),
            SF_Ssid (take 32 (st_ssid status)), SF_Bssid (st_bssid status), SF_Band (st_band status),
            SF_Channel (st_channel status), SF_Security (st_security status), SF_Mfp (st_mfp status),
            SF_Rssi (st_rssi status)]));
       ret 0
     }
   }"

definition handle_wifi_connect_result_bk :: "mgmt_cb \<Rightarrow> (fw, unit) state" where
  "handle_wifi_connect_result_bk cb = do {
     c \<leftarrow> gets connected;
     if c then ret ()
     else do {
       (if cb_status cb \<noteq> 0 then ret () else modify (put_bit 0 True));
       modify (put_bit 1 True)
     }
   }"

definition handle_wifi_disconnect_result_bk :: "env \<Rightarrow> mgmt_cb \<Rightarrow> (fw, unit) state" where
  "handle_wifi_disconnect_result_bk e cb = do {
     c \<leftarrow> gets connected;
     if \<not> c then ret ()
     else do {
       req \<leftarrow> gets disconnect_requested;
       (if req then modify (put_bit 2 False) else modify (put_bit 0 False));
       _ \<leftarrow> cmd_wifi_status_bk e;
       ret ()
     }
   }"

definition wifi_mgmt_event_handler_bk :: "env \<Rightarrow> mgmt_cb \<Rightarrow> mgmt_event \<Rightarrow> (fw, unit) state" where
  "wifi_mgmt_event_handler_bk e cb ev =
     (case ev of
        NET_EVENT_WIFI_CONNECT_RESULT \<Rightarrow> handle_wifi_connect_result_bk cb
      | NET_EVENT_WIFI_DISCONNECT_RESULT \<Rightarrow> do {
          handle_wifi_disconnect_result_bk e cb;
          modify (\<lambda>s. s\<lparr>got_ip := False\<rparr>)
        }
      | _ \<Rightarrow> ret ())"

definition print_dhcp_ip_bk :: "mgmt_cb \<Rightarrow> (fw, unit) state" where
  "print_dhcp_ip_bk cb = emit (Io_Log_Ip (cb_requested_ip cb))"

definition net_mgmt_event_handler_bk :: "mgmt_cb \<Rightarrow> mgmt_event \<Rightarrow> (fw, unit) state" where
  "net_mgmt_event_handler_bk cb ev =
     (case ev of
        NET_EVENT_IPV4_DHCP_BOUND \<Rightarrow> do {
          print_dhcp_ip_bk cb;
          modify (\<lambda>s. s\<lparr>got_ip := True\<rparr>)
        }
      | _ \<Rightarrow> ret ())"

definition wifi_connect_request_bk :: "env \<Rightarrow> (fw, int) state" where
  "wifi_connect_request_bk e = do {
     r \<leftarrow> ask (\<lambda>t. env_net_mgmt e t NET_REQUEST_WIFI_CONNECT_STORED) (Io_Net_Mgmt NET_REQUEST_WIFI_CONNECT_STORED);
     if r \<noteq> 0 then ret (- ENOEXEC) else ret 0
   }"

definition wifi_connect_bk :: "env \<Rightarrow> (fw, int) state" where
  "wifi_connect_bk e = do {
     modify (put_bit 0 False);
     modify (put_bit 1 False);
     wifi_connect_request_bk e
   }"

section \<open>The QSPI key\<close>

definition byte_at_bk :: "string \<Rightarrow> nat \<Rightarrow> 8 word" where
  "byte_at_bk str i = word_of_int (strtol16 (c_str (take 2 (drop (i * 2) str) @ [NUL])))"

definition bytes_from_str_bk :: "string \<Rightarrow> 32 word \<Rightarrow> int + 8 word list" where
  "bytes_from_str_bk str bytes_len =
     (if of_nat (length str) \<noteq> bytes_len * 2 then Inl (- EINVAL)
      else Inr (map (byte_at_bk str) [0..<unat bytes_len]))"

section \<open>The connection loop\<close>

text \<open>The start of \<^verbatim>\<open>start_app\<close>: on the nRF7002 DK, parse and install the key; false when the
  function returns.\<close>

definition qspi_setup_bk :: "env \<Rightarrow> (fw, bool) state" where
  "qspi_setup_bk e =
     (if cfg_nrf7002dk e \<and> length (cfg_qspi_key e) \<noteq> 0
      then (case bytes_from_str_bk (cfg_qspi_key e) (of_nat (env_qspi_key_len e)) of
              Inl err \<Rightarrow> ret False
            | Inr key \<Rightarrow> do {
                r \<leftarrow> ask (env_qspi e) (Io_Qspi_Key key);
                ret (r = 0)
              })
      else ret True)"

fun start_app_bk :: "env \<Rightarrow> start_pc \<Rightarrow> fw \<Rightarrow> (start_pc \<times> fw) option" where
  "start_app_bk e S_Enter s = Some (if result (qspi_setup_bk e) s then S_Loop else S_Return 0, exec (qspi_setup_bk e) s)"
| "start_app_bk e S_Loop s =
     (if cfg_wifi_ready_lib e
      then (case k_sem_take e s of None \<Rightarrow> None | Some (r, s') \<Rightarrow> Some (if r \<noteq> 0 then S_Return r else S_Check, s'))
      else Some (S_Clear_Connected, s))"
| "start_app_bk e S_Check s = Some (if \<not> wifi_ready_status s then S_Loop else S_Clear_Connected, s)"
| "start_app_bk e S_Clear_Connected s = Some (S_Clear_Result, put_bit 0 False s)"
| "start_app_bk e S_Clear_Result s = Some (S_Request, put_bit 1 False s)"
| "start_app_bk e S_Request s = Some (S_Poll, exec (wifi_connect_request_bk e) s)"
| "start_app_bk e S_Poll s =
     (if connect_result s then Some (S_Decide, s)
      else Some (S_Poll, exec (do { _ \<leftarrow> cmd_wifi_status_bk e; k_sleep 300 }) s))"
| "start_app_bk e S_Decide s =
     (if connected s
      then Some (if cfg_wifi_ready_lib e then S_Hold else S_Forever, exec (cmd_wifi_status_bk e) s)
      else Some (S_Loop, s))"
| "start_app_bk e S_Hold s =
     (case k_sem_take e s of None \<Rightarrow> None | Some (r, s') \<Rightarrow> Some (if r \<noteq> 0 then S_Return r else S_Check, s'))"
| "start_app_bk e S_Forever s = None"
| "start_app_bk e (S_Return r) s = None"

text \<open>The thread that runs it with the readiness library.\<close>

definition start_wifi_thread_bk :: "env \<Rightarrow> start_pc \<Rightarrow> fw \<Rightarrow> (start_pc \<times> fw) option" where
  "start_wifi_thread_bk e = start_app_bk e"

definition wifi_ready_cb_bk :: "bool \<Rightarrow> (fw, unit) state" where
  "wifi_ready_cb_bk wifi_ready = do {
     modify (\<lambda>s. s\<lparr>wifi_ready_status := wifi_ready\<rparr>);
     k_sem_give
   }"

definition net_mgmt_callback_init_bk :: "(fw, unit) state" where
  "net_mgmt_callback_init_bk = do {
     modify (\<lambda>s. s\<lparr>ctx := 0\<rparr>);
     modify (\<lambda>s. s\<lparr>callbacks := (Wifi_Mgmt_Event_Handler,
       [NET_EVENT_WIFI_CONNECT_RESULT, NET_EVENT_WIFI_DISCONNECT_RESULT]) # callbacks s\<rparr>);
     modify (\<lambda>s. s\<lparr>callbacks := (Net_Mgmt_Event_Handler, [NET_EVENT_IPV4_DHCP_BOUND]) # callbacks s\<rparr>);
     k_sleep 1000
   }"

definition register_wifi_ready_bk :: "env \<Rightarrow> (fw, int) state" where
  "register_wifi_ready_bk e =
     (if \<not> env_have_wifi_iface e then ret (-1)
      else do {
        r \<leftarrow> ask (env_register_ready e) Io_Register_Ready;
        ret r
      })"

fun main_bk :: "env \<Rightarrow> app_main_pc \<Rightarrow> fw \<Rightarrow> (app_main_pc \<times> fw) option" where
  "main_bk e AM_Init s = Some (AM_Start_Http, exec net_mgmt_callback_init_bk s)"
| "main_bk e AM_Start_Http s = Some (AM_Register, exec (emit (Io_Thread_Start Start_Http_Thread)) s)"
| "main_bk e AM_Register s =
     (if cfg_wifi_ready_lib e
      then Some (if result (register_wifi_ready_bk e) s \<noteq> 0
                 then AM_Return (result (register_wifi_ready_bk e) s) else AM_Start_Wifi,
                 exec (register_wifi_ready_bk e) s)
      else Some (AM_App S_Enter, s))"
| "main_bk e AM_Start_Wifi s = Some (AM_Return 0, exec (emit (Io_Thread_Start Start_Wifi_Thread)) s)"
| "main_bk e (AM_App (S_Return r)) s = Some (AM_Return 0, s)"
| "main_bk e (AM_App pc) s =
     (case start_app_bk e pc s of None \<Rightarrow> None | Some (pc', s') \<Rightarrow> Some (AM_App pc', s'))"
| "main_bk e (AM_Return r) s = None"

section \<open>The station of the backup is the station of \<^verbatim>\<open>app.c\<close>\<close>

lemma bk_status: "cmd_wifi_status_bk = cmd_wifi_status"
  by (simp add: fun_eq_iff cmd_wifi_status_bk_def cmd_wifi_status_def)

lemma bk_handlers:
  "wifi_mgmt_event_handler_bk = wifi_mgmt_event_handler" "net_mgmt_event_handler_bk = net_mgmt_event_handler"
proof -
  have "handle_wifi_connect_result_bk = handle_wifi_connect_result"
    "handle_wifi_disconnect_result_bk e = handle_wifi_disconnect_result e" for e
    unfolding fun_eq_iff handle_wifi_connect_result_bk_def handle_wifi_connect_result_def
      handle_wifi_disconnect_result_bk_def handle_wifi_disconnect_result_def bk_status by simp_all
  then show "wifi_mgmt_event_handler_bk = wifi_mgmt_event_handler"
    by (simp add: fun_eq_iff wifi_mgmt_event_handler_bk_def wifi_mgmt_event_handler_def split: mgmt_event.split)
  show "net_mgmt_event_handler_bk = net_mgmt_event_handler"
    by (simp add: fun_eq_iff net_mgmt_event_handler_bk_def net_mgmt_event_handler_def
        print_dhcp_ip_bk_def print_dhcp_ip_def split: mgmt_event.split)
qed

lemma bk_requests: "wifi_connect_request_bk = wifi_connect_request_app"
  "register_wifi_ready_bk = register_wifi_ready_app" "net_mgmt_callback_init_bk = net_mgmt_callback_init"
  by (simp_all add: fun_eq_iff wifi_connect_request_bk_def wifi_connect_request_app_def register_wifi_ready_bk_def
      register_wifi_ready_app_def net_mgmt_callback_init_bk_def net_mgmt_callback_init_def)

lemma bk_key: "bytes_from_str_bk = bytes_from_str" "qspi_setup_bk = qspi_setup"
proof -
  have "byte_at_bk = byte_at" by (simp add: fun_eq_iff byte_at_bk_def byte_at_def)
  then show k: "bytes_from_str_bk = bytes_from_str" by (simp add: fun_eq_iff bytes_from_str_bk_def bytes_from_str_def)
  show "qspi_setup_bk = qspi_setup" by (simp add: fun_eq_iff qspi_setup_bk_def qspi_setup_def k)
qed

lemma bk_start_app: "start_app_bk e pc s = start_app e pc s"
  by (cases pc) (simp_all add: bk_key bk_requests bk_status app_as_station(1))

interpretation backup: link_handlers "\<lambda>cb ev. exec (wifi_mgmt_event_handler_bk e cb ev)"
    "\<lambda>cb ev. exec (net_mgmt_event_handler_bk cb ev)" for e
  unfolding bk_handlers by (rule station.link_handlers_axioms)

lemma bk_main: "main_bk e pc s = main_app e pc s"
proof (cases pc)
  case (AM_App q)
  then show ?thesis by (cases q) (simp_all del: start_app.simps start_app_bk.simps add: bk_start_app)
qed (simp_all add: bk_requests)

section \<open>The LED\<close>

fun led_run :: "env \<Rightarrow> nat \<Rightarrow> led_pc \<times> fw \<Rightarrow> (led_pc \<times> fw) option" where
  "led_run e 0 x = Some x"
| "led_run e (Suc n) x = (case toggle_led_bk e (fst x) (snd x) of None \<Rightarrow> None | Some y \<Rightarrow> led_run e n y)"

fun led_ops :: "trace \<Rightarrow> gpio_op list" where
  "led_ops [] = []"
| "led_ops (Io_Gpio op # t) = op # led_ops t"
| "led_ops (_ # t) = led_ops t"

lemma led_loop_run:
  "\<exists>t. led_run e n (L_Loop, s) = Some (L_Loop, t) \<and> keeps_client s t \<and> keeps_link s t \<and>
     led_ops (trace t) = replicate n (if connected s then Gpio_Toggle else Gpio_Set 0) @ led_ops (trace s)"
proof (induction n arbitrary: s)
  case 0
  then show ?case by simp
next
  case (Suc n)
  obtain u where u: "toggle_led_bk e L_Loop s = Some (L_Loop, u)" "keeps_client s u" "keeps_link s u"
    "led_ops (trace u) = (if connected s then Gpio_Toggle else Gpio_Set 0) # led_ops (trace s)"
    by (simp add: footprint_defs)
  obtain t where t: "led_run e n (L_Loop, u) = Some (L_Loop, t)" "keeps_client u t" "keeps_link u t"
    "led_ops (trace t) = replicate n (if connected u then Gpio_Toggle else Gpio_Set 0) @ led_ops (trace u)"
    using Suc.IH by blast
  have "led_run e (Suc n) (L_Loop, s) = Some (L_Loop, t)" using t(1) u(1) by (simp del: toggle_led_bk.simps)
  moreover have "keeps_client s t" using u(2) t(2) by (simp add: keeps_client_def)
  moreover have link: "keeps_link s t" using u(3) t(3) by (simp add: keeps_link_def)
  moreover have "led_ops (trace t) =
      replicate (Suc n) (if connected s then Gpio_Toggle else Gpio_Set 0) @ led_ops (trace s)"
    using t(4) u(4) keeps_linkD [OF u(3)] by (simp add: replicate_app_Cons_same)
  ultimately show ?case by blast
qed

text \<open>The LED shows the link. On a board whose LED can be configured, \<^verbatim>\<open>n\<close> rounds of the LED
  thread toggle the pin \<^verbatim>\<open>n\<close> times while the link is up and drive it low \<^verbatim>\<open>n\<close> times while it is
  down, never blocking and touching neither the link nor the client; otherwise the thread ends at
  once without driving the pin.\<close>

theorem led_shows_link:
  "if env_led_ready e \<and> 0 \<le> env_gpio_configure e (trace s)
   then \<exists>t. led_run e (Suc n) (L_Start, s) = Some (L_Loop, t) \<and> keeps_link s t \<and>
          led_ops (trace t) = replicate n (if connected s then Gpio_Toggle else Gpio_Set 0) @ led_ops (trace s)
   else \<exists>t. led_run e 1 (L_Start, s) = Some (L_Exit, t) \<and> led_ops (trace t) = led_ops (trace s)"
proof (cases "env_led_ready e \<and> 0 \<le> env_gpio_configure e (trace s)")
  case True
  let ?u = "s\<lparr>trace := Io_Gpio_Configure (env_gpio_configure e (trace s)) # trace s\<rparr>"
  have "led_run e (Suc n) (L_Start, s) = led_run e n (L_Loop, ?u)" using True by simp
  then show ?thesis using True led_loop_run [of e n ?u] by (auto simp: keeps_link_def)
next
  case False
  then show ?thesis by auto
qed

end
