(* ===== verification/Http_Raw.thy ===== *)
theory Http_Raw
  imports Http_Client
begin

text \<open>
  The hand-written HTTP exchange of \<^verbatim>\<open>http_app.c\<close>, now under \<^verbatim>\<open>#if 0\<close>: the request text is
  printed into \<^verbatim>\<open>send_buf\<close> and the answer is collected by a \<^verbatim>\<open>recv\<close> loop. The loop may run
  for ever, so it is a partial function whose value is \<open>None\<close> then.
\<close>

section \<open>Request texts\<close>

definition login_text :: "string \<Rightarrow> string" where
  "login_text body = ''POST '' @ LOGIN_PATH @ '' HTTP/1.1'' @ CRLF @ ''Host: '' @ HTTP_HOST @ CRLF
     @ ''Content-Type: application/x-www-form-urlencoded'' @ CRLF
     @ ''Content-Length: '' @ dec (length body) @ CRLF @ ''Connection: close'' @ CRLF @ CRLF @ body"

definition patient_text :: "string \<Rightarrow> string" where
  "patient_text tok = ''POST /api/add-patient-clinical-data HTTP/1.1'' @ CRLF @ ''Host: '' @ HTTP_HOST @ CRLF
     @ ''Authorization: Bearer '' @ tok @ CRLF @ ''Content-Type: application/json'' @ CRLF
     @ ''Content-Length: '' @ dec (length json_payload) @ CRLF @ ''Connection: close'' @ CRLF @ CRLF @ json_payload"

section \<open>Connecting and sending\<close>

text \<open>How a block of statements ends: it falls through, jumps to \<^verbatim>\<open>clean_up\<close>, or returns.\<close>

datatype exit = Go_On | Go_Clean_Up | Go_Return int

definition token_connect :: "env \<Rightarrow> (fw, exit) state" where
  "token_connect e = do {
     fd \<leftarrow> ask (env_socket e) Io_Socket;
     modify (\<lambda>s. s\<lparr>sock_fd := fd\<rparr>);
     if fd = -1 then ret Go_Clean_Up
     else do {
       err \<leftarrow> tls_setup e fd;
       if err < 0 then ret (Go_Return err)
       else do {
         addr \<leftarrow> gets server_info;
         err \<leftarrow> ask (env_connect e) (Io_Connect fd addr);
         ret (if err \<noteq> 0 then Go_Clean_Up else Go_On)
       }
     }
   }"

definition send_text :: "env \<Rightarrow> string \<Rightarrow> (fw, exit) state" where
  "send_text e txt = do {
     sb \<leftarrow> gets send_buf;
     sb \<leftarrow> snprintk sb SEND_BUF_SIZE txt;
     modify (\<lambda>s. s\<lparr>send_buf := sb\<rparr>);
     out \<leftarrow> buf_str sb;
     fd \<leftarrow> gets sock_fd;
     err \<leftarrow> ask (env_send e) (Io_Send fd out);
     if err < 0 then do { close_fd fd; ret (Go_Return (-1)) } else ret Go_On
   }"

definition token_send :: "env \<Rightarrow> (fw, exit) state" where
  "token_send e = do {
     b \<leftarrow> snprintk (new_buf Login_body 128) 128 login_form;
     body \<leftarrow> buf_str b;
     send_text e (login_text body)
   }"

section \<open>Receiving\<close>

text \<open>\<^verbatim>\<open>recv (sock_fd, &recv_buf[off], 1024, 0)\<close>: at most 1024 bytes, written at \<open>off\<close> whatever the
  size of the buffer.\<close>

definition recv_some :: "env \<Rightarrow> nat \<Rightarrow> (fw, nat option) state" where
  "recv_some e off = do {
     fd \<leftarrow> gets sock_fd;
     r \<leftarrow> gets (\<lambda>s. env_recv e (trace s));
     case (case r of Recv_Error \<Rightarrow> None | Recv_Data bs \<Rightarrow> Some (take 1024 bs)) of
       None \<Rightarrow> do { emit (Io_Recv fd 1024 (-1)); ret None }
     | Some bs \<Rightarrow> do {
         emit (Io_Recv fd 1024 (int (length bs)));
         rb \<leftarrow> gets recv_buf;
         rb \<leftarrow> buf_write rb off bs;
         modify (\<lambda>s. s\<lparr>recv_buf := rb\<rparr>);
         ret (Some (length bs))
       }
   }"

text \<open>The \<^verbatim>\<open>do ... while (bytes != 0 || off > RECV_BUF_SIZE)\<close> loop. The answer is the number of bytes
  received, or \<open>None\<close> inside when \<^verbatim>\<open>recv\<close> fails; \<open>off\<close> is a 32-bit \<^verbatim>\<open>size_t\<close>.\<close>

partial_function (option) recv_loop :: "env \<Rightarrow> nat \<Rightarrow> fw \<Rightarrow> (nat option \<times> fw) option" where
  "recv_loop e off s =
     (case result (recv_some e off) s of
        None \<Rightarrow> Some (None, exec (recv_some e off) s)
      | Some bytes \<Rightarrow>
          (let off' = (off + bytes) mod 2 ^ 32 in
           if bytes \<noteq> 0 \<or> off' > RECV_BUF_SIZE then recv_loop e off' (exec (recv_some e off) s)
           else Some (Some off', exec (recv_some e off) s)))"

definition terminate_recv_buf :: "nat \<Rightarrow> (fw, unit) state" where
  "terminate_recv_buf off = do {
     rb \<leftarrow> gets recv_buf;
     rb \<leftarrow> buf_write rb (if off < RECV_BUF_SIZE then off else RECV_BUF_SIZE - 1) [NUL];
     modify (\<lambda>s. s\<lparr>recv_buf := rb\<rparr>)
   }"

definition clean_up :: "(fw, unit) state" where
  "clean_up = do { fd \<leftarrow> gets sock_fd; close_fd fd }"

definition token_finish :: "nat \<Rightarrow> (fw, unit) state" where
  "token_finish off = do {
     terminate_recv_buf off;
     rb \<leftarrow> gets recv_buf;
     str \<leftarrow> buf_str rb;
     save_token str;
     clean_up
   }"

section \<open>The two exchanges\<close>

definition send_http_token_req :: "env \<Rightarrow> fw \<Rightarrow> (int \<times> fw) option" where
  "send_http_token_req e s =
     (case run_state (token_connect e) s of
        (Go_Clean_Up, s1) \<Rightarrow> Some (-1, exec clean_up s1)
      | (Go_Return r, s1) \<Rightarrow> Some (r, s1)
      | (Go_On, s1) \<Rightarrow>
          (case run_state (token_send e) s1 of
             (Go_Return r, s2) \<Rightarrow> Some (r, s2)
           | (_, s2) \<Rightarrow>
               (case recv_loop e 0 s2 of
                  None \<Rightarrow> None
                | Some (None, s3) \<Rightarrow> Some (-1, exec clean_up s3)
                | Some (Some off, s3) \<Rightarrow> Some (0, exec (token_finish off) s3))))"

text \<open>\<^verbatim>\<open>send_patient_data\<close> leaves through \<^verbatim>\<open>clean_up\<close> also when the TLS set-up fails.\<close>

definition patient_connect :: "env \<Rightarrow> (fw, exit) state" where
  "patient_connect e = do {
     fd \<leftarrow> ask (env_socket e) Io_Socket;
     modify (\<lambda>s. s\<lparr>sock_fd := fd\<rparr>);
     if fd = -1 then ret Go_Clean_Up
     else do {
       err \<leftarrow> tls_setup e fd;
       if err < 0 then ret Go_Clean_Up
       else do {
         addr \<leftarrow> gets server_info;
         err \<leftarrow> ask (env_connect e) (Io_Connect fd addr);
         ret (if err \<noteq> 0 then Go_Clean_Up else Go_On)
       }
     }
   }"

definition patient_send :: "env \<Rightarrow> (fw, exit) state" where
  "patient_send e = do {
     tk \<leftarrow> gets token;
     tok \<leftarrow> buf_str tk;
     send_text e (patient_text tok)
   }"

definition print_recv_buf :: "nat \<Rightarrow> (fw, unit) state" where
  "print_recv_buf off = do {
     rb \<leftarrow> gets recv_buf;
     when_do (bcap rb < off) (violate [Oob_Read (bname rb) (bcap rb)]);
     for_each (take off (bdata rb)) (\<lambda>c. emit (Io_Putc c))
   }"

definition patient_finish :: "nat \<Rightarrow> (fw, unit) state" where
  "patient_finish off = do {
     terminate_recv_buf off;
     print_recv_buf off;
     clean_up
   }"

definition send_patient_data :: "env \<Rightarrow> fw \<Rightarrow> fw option" where
  "send_patient_data e s =
     (case run_state (patient_connect e) s of
        (Go_On, s1) \<Rightarrow>
          (case run_state (patient_send e) s1 of
             (Go_Return r, s2) \<Rightarrow> Some s2
           | (_, s2) \<Rightarrow>
               (case recv_loop e 0 s2 of
                  None \<Rightarrow> None
                | Some (None, s3) \<Rightarrow> Some (exec clean_up s3)
                | Some (Some off, s3) \<Rightarrow> Some (exec (patient_finish off) s3)))
      | (_, s1) \<Rightarrow> Some (exec clean_up s1))"

definition send_http_request :: "env \<Rightarrow> fw \<Rightarrow> fw option" where
  "send_http_request e s =
     (case send_http_token_req e (exec (resolve_server e) s) of
        None \<Rightarrow> None
      | Some (_, s') \<Rightarrow> send_patient_data e s')"

section \<open>A server that sends its answer in pieces\<close>

fun is_recv :: "io \<Rightarrow> bool" where
  "is_recv (Io_Recv _ _ _) = True"
| "is_recv _ = False"

definition recv_count :: "trace \<Rightarrow> nat" where
  "recv_count t = length (filter is_recv t)"

text \<open>From the \<open>k\<close>-th \<^verbatim>\<open>recv\<close> of the run on, the connection delivers the given pieces in order and
  then end of file.\<close>

definition serves :: "env \<Rightarrow> nat \<Rightarrow> char list list \<Rightarrow> bool" where
  "serves e k chunks \<longleftrightarrow> (\<forall>t. k \<le> recv_count t \<longrightarrow> env_recv e t =
     Recv_Data (if recv_count t - k < length chunks then chunks ! (recv_count t - k) else []))"

definition pieces :: "char list list \<Rightarrow> bool" where
  "pieces chunks \<longleftrightarrow> (\<forall>c \<in> set chunks. c \<noteq> [] \<and> length c \<le> 1024)"

lemma serves_now:
  "serves e (recv_count (trace s)) chunks \<Longrightarrow> env_recv e (trace s) = Recv_Data (case chunks of [] \<Rightarrow> [] | c # cs \<Rightarrow> c)"
  by (cases chunks) (simp_all add: serves_def)

lemma serves_next: "serves e k (c # cs) \<Longrightarrow> serves e (Suc k) cs"
  unfolding serves_def
proof (intro allI impI)
  fix t
  assume s: "\<forall>t. k \<le> recv_count t \<longrightarrow> env_recv e t =
    Recv_Data (if recv_count t - k < length (c # cs) then (c # cs) ! (recv_count t - k) else [])"
    and le: "Suc k \<le> recv_count t"
  obtain n where "recv_count t = Suc (k + n)" using le_Suc_ex [OF le] by auto
  with s [rule_format, of t]
  show "env_recv e t = Recv_Data (if recv_count t - Suc k < length cs then cs ! (recv_count t - Suc k) else [])"
    by simp
qed

lemma serves_eof: "serves e k [] \<Longrightarrow> serves e (Suc k) []"
  by (simp add: serves_def)

lemma recv_some_data:
  assumes "env_recv e (trace s) = Recv_Data bs" "length bs \<le> 1024"
  shows "result (recv_some e off) s = Some (length bs)"
    "exec (recv_some e off) s = s\<lparr>trace := Io_Recv (sock_fd s) 1024 (int (length bs)) # trace s,
       recv_buf := blit (recv_buf s) off bs, viols := overrun (recv_buf s) off (length bs) @ viols s\<rparr>"
  using assms by (simp_all add: recv_some_def)

lemma recv_count_step: "recv_count (Io_Recv fd n r # t) = Suc (recv_count t)"
  by (simp add: recv_count_def)

lemma blit_Nil: "off \<le> length (bdata b) \<Longrightarrow> blit b off [] = b"
  by (simp add: blit_def)

text \<open>The state after an answer has been received completely.\<close>

definition received :: "fw \<Rightarrow> nat \<Rightarrow> char list \<Rightarrow> fw \<Rightarrow> bool" where
  "received s off ans t \<longleftrightarrow> only_token (s\<lparr>recv_buf := blit (recv_buf s) off ans, trace := trace t\<rparr>) t \<and>
     token t = token s \<and> viols t = viols s \<and> open_fds (trace t) = open_fds (trace s)"

lemma recv_loop_collects:
  assumes "serves e (recv_count (trace s)) chunks" "pieces chunks" "off + length (concat chunks) \<le> RECV_BUF_SIZE"
    "bcap (recv_buf s) = RECV_BUF_SIZE" "length (bdata (recv_buf s)) = RECV_BUF_SIZE"
  shows "\<exists>t. recv_loop e off s = Some (Some (off + length (concat chunks)), t) \<and> received s off (concat chunks) t"
  using assms
proof (induction chunks arbitrary: off s)
  case Nil
  then have "result (recv_some e off) s = Some 0"
    "exec (recv_some e off) s = s\<lparr>trace := Io_Recv (sock_fd s) 1024 0 # trace s\<rparr>"
    using recv_some_data [OF serves_now [OF Nil.prems(1)]] by (simp_all add: blit_Nil)
  then show ?case
    using Nil.prems by (subst recv_loop.simps) (simp add: RECV_BUF_SIZE_def received_def footprint_defs blit_Nil)
next
  case (Cons c cs)
  let ?s = "exec (recv_some e off) s"
  have c: "c \<noteq> []" "length c \<le> 1024" "pieces cs" using Cons.prems(2) by (auto simp: pieces_def)
  have rs: "result (recv_some e off) s = Some (length c)"
    "?s = s\<lparr>trace := Io_Recv (sock_fd s) 1024 (int (length c)) # trace s, recv_buf := blit (recv_buf s) off c\<rparr>"
    using recv_some_data [OF serves_now [OF Cons.prems(1)]] c Cons.prems(3,4) by simp_all
  have m: "(off + length c) mod 2 ^ 32 = off + length c" using Cons.prems(3) by (simp add: RECV_BUF_SIZE_def)
  have "serves e (recv_count (trace ?s)) cs"
    using serves_next [OF Cons.prems(1)] by (simp add: rs(2) recv_count_step)
  then obtain t where t: "recv_loop e (off + length c) ?s = Some (Some (off + length c + length (concat cs)), t)"
      "received ?s (off + length c) (concat cs) t"
    using Cons.IH [of ?s "off + length c"] c(3) Cons.prems(3-5) by (auto simp: rs(2))
  have "recv_loop e off s = recv_loop e (off + length c) ?s"
    using rs(1) c(1) m by (subst recv_loop.simps) (simp add: Let_def)
  moreover have "received s off (concat (c # cs)) t"
    using t(2) by (simp add: received_def rs(2) blit_append footprint_defs)
  ultimately show ?case using t(1) by (auto simp: ac_simps)
qed

section \<open>The loop that does not end\<close>

lemma stuck_past_the_end:
  assumes "recv_loop e off s = Some r"
  shows "\<not> (serves e (recv_count (trace s)) [] \<and> RECV_BUF_SIZE < off \<and> off < 2 ^ 32)"
  using assms
proof (rule recv_loop.raw_induct [rotated])
  fix f :: "env \<Rightarrow> nat \<Rightarrow> fw \<Rightarrow> (nat option \<times> fw) option" and e off s y
  assume IH: "\<And>e off s y. f e off s = Some y \<Longrightarrow>
      \<not> (serves e (recv_count (trace s)) [] \<and> RECV_BUF_SIZE < off \<and> off < 2 ^ 32)"
    and body: "(case result (recv_some e off) s of
        None \<Rightarrow> Some (None, exec (recv_some e off) s)
      | Some bytes \<Rightarrow>
          let off' = (off + bytes) mod 2 ^ 32
          in if bytes \<noteq> 0 \<or> RECV_BUF_SIZE < off' then f e off' (exec (recv_some e off) s)
             else Some (Some off', exec (recv_some e off) s)) = Some y"
  show "\<not> (serves e (recv_count (trace s)) [] \<and> RECV_BUF_SIZE < off \<and> off < 2 ^ 32)"
  proof
    assume a: "serves e (recv_count (trace s)) [] \<and> RECV_BUF_SIZE < off \<and> off < 2 ^ 32"
    then have rs: "result (recv_some e off) s = Some 0"
      "trace (exec (recv_some e off) s) = Io_Recv (sock_fd s) 1024 0 # trace s"
      using recv_some_data [OF serves_now, of e s "[]"] by auto
    then have "f e off (exec (recv_some e off) s) = Some y" using body a by (simp add: Let_def)
    moreover have "serves e (recv_count (trace (exec (recv_some e off) s))) []"
      using a serves_eof by (simp add: rs(2) recv_count_step)
    ultimately show False using IH a by blast
  qed
qed

lemma recv_loop_diverges:
  assumes "serves e (recv_count (trace s)) chunks" "pieces chunks"
    "RECV_BUF_SIZE < off + length (concat chunks)" "off + length (concat chunks) < 2 ^ 32"
  shows "recv_loop e off s = None"
  using assms
proof (induction chunks arbitrary: off s)
  case Nil
  then show ?case using stuck_past_the_end [of e off s] by (cases "recv_loop e off s") auto
next
  case (Cons c cs)
  let ?s = "exec (recv_some e off) s"
  have c: "c \<noteq> []" "length c \<le> 1024" "pieces cs" using Cons.prems(2) by (auto simp: pieces_def)
  have rs: "result (recv_some e off) s = Some (length c)"
    "trace ?s = Io_Recv (sock_fd s) 1024 (int (length c)) # trace s"
    using recv_some_data [OF serves_now [OF Cons.prems(1)]] c by simp_all
  have m: "(off + length c) mod 2 ^ 32 = off + length c" using Cons.prems(4) by simp
  have "serves e (recv_count (trace ?s)) cs"
    using serves_next [OF Cons.prems(1)] by (simp add: rs(2) recv_count_step)
  then have "recv_loop e (off + length c) ?s = None"
    using Cons.IH [of ?s "off + length c"] c(3) Cons.prems(3,4) by (simp add: ac_simps)
  then show ?case using rs(1) c(1) m by (subst recv_loop.simps) (simp add: Let_def)
qed

text \<open>C7. The receive loop ends exactly for answers that fit. For a server that delivers its answer in
  pieces and then closes, the loop returns (with the number of bytes, the answer in
  \<^verbatim>\<open>recv_buf\<close> and nothing written outside) when the answer has at most 4096 bytes; for any
  longer one \<^verbatim>\<open>off > RECV_BUF_SIZE\<close> keeps the loop going for ever after the end of file.\<close>

theorem recv_loop_returns_iff:
  assumes "serves e (recv_count (trace s)) chunks" "pieces chunks" "length (concat chunks) < 2 ^ 32"
    "bcap (recv_buf s) = RECV_BUF_SIZE" "length (bdata (recv_buf s)) = RECV_BUF_SIZE"
  shows "(if length (concat chunks) \<le> RECV_BUF_SIZE
          then \<exists>t. recv_loop e 0 s = Some (Some (length (concat chunks)), t) \<and>
                 take (length (concat chunks)) (bdata (recv_buf t)) = concat chunks \<and> viols t = viols s
          else recv_loop e 0 s = None)"
proof (cases "length (concat chunks) \<le> RECV_BUF_SIZE")
  case True
  then obtain t where "recv_loop e 0 s = Some (Some (length (concat chunks)), t)" "received s 0 (concat chunks) t"
    using recv_loop_collects [OF assms(1,2) _ assms(4,5), of 0] by auto
  then show ?thesis using True by (auto simp: received_def only_token_def)
next
  case False
  then show ?thesis using recv_loop_diverges [OF assms(1,2), of 0] assms(3) by simp
qed

definition scripted :: "char list list \<Rightarrow> env" where
  "scripted chunks = (good_env [])\<lparr>env_recv := \<lambda>t. Recv_Data (if recv_count t < length chunks then chunks ! recv_count t else [])\<rparr>"

lemma serves_scripted: "serves (scripted chunks) (recv_count (trace boot)) chunks"
  by (simp add: serves_def scripted_def boot_def recv_count_def)

lemma recv_buf_boot: "bcap (recv_buf boot) = RECV_BUF_SIZE" "length (bdata (recv_buf boot)) = RECV_BUF_SIZE"
  by (simp_all add: boot_def)

theorem recv_loop_returns_iff_witness:
  "recv_loop (scripted (replicate 5 (replicate 1000 CHR ''a''))) 0 boot = None \<and>
   (\<exists>t. recv_loop (scripted [''ab'', ''c'']) 0 boot = Some (Some 3, t))"
proof
  have big: "length (concat (replicate 5 (replicate 1000 CHR ''a''))) = 5000"
    by (simp add: length_concat sum_list_replicate)
  have small: "length (concat [''ab'', ''c'']) = 3" by simp
  have "pieces (replicate 5 (replicate 1000 CHR ''a''))" "pieces [''ab'', ''c'']" by (simp_all add: pieces_def)
  note at = this [THEN recv_loop_returns_iff [OF serves_scripted _ _ recv_buf_boot]]
  show "recv_loop (scripted (replicate 5 (replicate 1000 CHR ''a''))) 0 boot = None"
    using at(1) unfolding big by (simp add: RECV_BUF_SIZE_def)
  show "\<exists>t. recv_loop (scripted [''ab'', ''c'']) 0 boot = Some (Some 3, t)"
    using at(2) unfolding small by (auto simp: RECV_BUF_SIZE_def)
qed

section \<open>Sending\<close>

lemma length_json_payload [simp]: "length json_payload = 299"
  by (simp add: json_payload_def quoted_def)

lemma length_patient_text [simp]: "length (patient_text tok) = length tok + 469"
  by (simp add: patient_text_def CRLF_def HTTP_HOST_def dec.simps [of 299] dec.simps [of 29] dec.simps [of 2])

lemma length_login_text [simp]: "length (login_text login_form) = 185"
  by (simp add: login_text_def CRLF_def HTTP_HOST_def LOGIN_PATH_def dec.simps [of 43] dec.simps [of 4])

lemma json_payload_NUL [simp]: "NUL \<notin> set json_payload"
  by (simp add: json_payload_def quoted_def)

lemma text_NUL [simp]:
  "NUL \<notin> set body \<Longrightarrow> NUL \<notin> set (login_text body)" "NUL \<notin> set tok \<Longrightarrow> NUL \<notin> set (patient_text tok)"
  by (simp_all add: login_text_def patient_text_def CRLF_def HTTP_HOST_def LOGIN_PATH_def)

lemma take_NUL: "NUL \<notin> set s \<Longrightarrow> NUL \<notin> set (take n s)"
  by (auto dest: in_set_takeD)

definition sent :: "string \<Rightarrow> string" where
  "sent txt = take (SEND_BUF_SIZE - 1) txt"

lemma send_text_run:
  fixes e s msg
  assumes "NUL \<notin> set msg" "bcap (send_buf s) = SEND_BUF_SIZE"
  defines "s' \<equiv> s\<lparr>send_buf := blit (send_buf s) 0 (sent msg @ [NUL]),
    trace := Io_Send (sock_fd s) (sent msg) (env_send e (trace s)) # trace s\<rparr>"
  shows "run_state (send_text e msg) s =
    (if env_send e (trace s) < 0 then (Go_Return (-1), s'\<lparr>trace := Io_Close (sock_fd s) # trace s'\<rparr>) else (Go_On, s'))"
proof -
  let ?b = "blit (send_buf s) 0 (sent msg @ [NUL])"
  have len: "length (sent msg) < SEND_BUF_SIZE" by (simp add: sent_def SEND_BUF_SIZE_def)
  have "overread ?b = []"
    by (rule overread_terminated) (use len assms(2) in \<open>simp add: take_Cons'\<close>)
  moreover have "cstr ?b = sent msg" using assms(1) by (simp add: sent_def take_NUL)
  moreover have "overrun (send_buf s) 0 (Suc (min (SEND_BUF_SIZE - 1) (length msg))) = []"
    using assms(2) by (intro overrun_fits) (simp add: SEND_BUF_SIZE_def)
  moreover have "0 < SEND_BUF_SIZE" by (simp add: SEND_BUF_SIZE_def)
  ultimately show ?thesis
    unfolding s'_def run_state_split by (simp add: send_text_def sent_def)
qed


text \<open>Long tokens cut the patient data short. \<^verbatim>\<open>send_patient_data\<close> sends the first 2047 bytes of
  the request text, which is all of it exactly for tokens of at most 1578 bytes; the announced
  \<^verbatim>\<open>Content-Length\<close> stays that of the whole payload.\<close>

theorem patient_send_truncates:
  assumes "bcap (send_buf s) = SEND_BUF_SIZE"
  defines "tok \<equiv> cstr (token s)"
  shows "(\<exists>r. Io_Send (sock_fd s) (take 2047 (patient_text tok)) r \<in> set (trace (exec (patient_send e) s))) \<and>
         (take 2047 (patient_text tok) = patient_text tok \<longleftrightarrow> length tok \<le> 1578)"
proof -
  let ?u = "s\<lparr>viols := overread (token s) @ viols s\<rparr>"
  have "exec (patient_send e) s = exec (send_text e (patient_text tok)) ?u"
    by (simp add: patient_send_def tok_def)
  then have "exec (patient_send e) s = snd (run_state (send_text e (patient_text tok)) ?u)"
    by (simp add: exec_def)
  moreover have "run_state (send_text e (patient_text tok)) ?u =
      (if env_send e (trace ?u) < 0
       then (Go_Return (-1), ?u\<lparr>send_buf := blit (send_buf ?u) 0 (sent (patient_text tok) @ [NUL]),
          trace := Io_Close (sock_fd ?u) # Io_Send (sock_fd ?u) (sent (patient_text tok)) (env_send e (trace ?u)) # trace ?u\<rparr>)
       else (Go_On, ?u\<lparr>send_buf := blit (send_buf ?u) 0 (sent (patient_text tok) @ [NUL]),
          trace := Io_Send (sock_fd ?u) (sent (patient_text tok)) (env_send e (trace ?u)) # trace ?u\<rparr>))"
    using assms by (subst send_text_run) (simp_all add: tok_def)
  ultimately have "\<exists>r. Io_Send (sock_fd s) (sent (patient_text tok)) r \<in> set (trace (exec (patient_send e) s))"
    by auto
  moreover have "take 2047 (patient_text tok) = patient_text tok \<longleftrightarrow> length (patient_text tok) \<le> 2047"
    by (metis length_take min.absorb_iff1 min.commute take_all)
  ultimately show ?thesis by (auto simp: sent_def SEND_BUF_SIZE_def)
qed

theorem patient_send_truncates_witness:
  "\<exists>r. Io_Send (-1) (take 2047 (patient_text [])) r \<in> set (trace (exec (patient_send (good_env [])) boot))"
  using patient_send_truncates [of boot "good_env []"] by (simp add: boot_def)


section \<open>A whole token exchange\<close>

lemma token_connect_frame:
  assumes "result (token_connect e) s = Go_On"
  shows "keeps_link s (exec (token_connect e) s)" "token (exec (token_connect e) s) = token s"
    "recv_buf (exec (token_connect e) s) = recv_buf s" "send_buf (exec (token_connect e) s) = send_buf s"
    "viols (exec (token_connect e) s) = viols s" "sock_fd (exec (token_connect e) s) = env_socket e (trace s)"
    "env_socket e (trace s) \<noteq> -1"
    "open_fds (trace (exec (token_connect e) s)) = env_socket e (trace s) # open_fds (trace s)"
  using assms by (auto simp: token_connect_def tls_setup_keeps keeps_link_def split: if_splits)

lemma login_body_printed: "run_state (token_send e) s = run_state (send_text e (login_text login_form)) s"
  by (simp add: run_state_split token_send_def)

lemma token_send_run:
  fixes e s
  assumes "bcap (send_buf s) = SEND_BUF_SIZE" "0 \<le> env_send e (trace s)"
  defines "s' \<equiv> s\<lparr>send_buf := blit (send_buf s) 0 (login_text login_form @ [NUL]),
    trace := Io_Send (sock_fd s) (login_text login_form) (env_send e (trace s)) # trace s\<rparr>"
  shows "run_state (token_send e) s = (Go_On, s')"
proof -
  have "sent (login_text login_form) = login_text login_form" by (simp add: sent_def SEND_BUF_SIZE_def)
  then show ?thesis
    using assms(1,2) by (subst login_body_printed, subst send_text_run) (simp_all add: s'_def)
qed

text \<open>After a complete answer the token of the answer is stored and the descriptor closed.\<close>

lemma token_finish_token:
  assumes ans: "ans = pre @ TOKEN_KEY @ tok @ DQ # post"
    and first: "\<forall>j < length pre. \<not> prefix TOKEN_KEY (drop j ans)"
    and clean: "NUL \<notin> set ans" and tok: "DQ \<notin> set tok" and fits: "length ans < RECV_BUF_SIZE"
    and buf: "take (length ans) (bdata (recv_buf s)) = ans"
  shows "cstr (token (exec (token_finish (length ans)) s)) = tok"
    "open_fds (trace (exec (token_finish (length ans)) s)) = remove1 (sock_fd s) (open_fds (trace s))"
proof -
  let ?b = "blit (recv_buf s) (length ans) [NUL]"
  have "length ans \<le> length (bdata (recv_buf s))" using buf by (metis length_take min.cobounded1)
  then have "bdata ?b = ans @ NUL # drop (Suc (length ans)) (bdata (recv_buf s))"
    using buf by (simp add: blit_def)
  then have str: "cstr ?b = ans" using clean by (simp add: cstr_def)
  have "NUL \<notin> set tok" using clean ans by simp
  note saved = save_token_token [OF ans first tok this]
  show "cstr (token (exec (token_finish (length ans)) s)) = tok"
    using fits str saved by (simp add: token_finish_def terminate_recv_buf_def clean_up_def)
  show "open_fds (trace (exec (token_finish (length ans)) s)) = remove1 (sock_fd s) (open_fds (trace s))"
    using fits str only_tokenD [OF save_token_frame(1)]
    by (simp add: token_finish_def terminate_recv_buf_def clean_up_def)
qed


lemma token_connect_recv_count: "recv_count (trace (exec (token_connect e) s)) = recv_count (trace s)"
proof -
  have "filter is_recv (trace (exec (tls_setup e fd) u)) = filter is_recv (trace u)" for fd u
    by (simp add: tls_setup_def)
  then show ?thesis by (simp add: token_connect_def recv_count_def)
qed

text \<open>C10. A token exchange from end to end. When the connection comes up, the request is sent and the
  server answers, in any pieces, with fewer than 4096 bytes that hold \<^verbatim>\<open>"token":"tok"\<close>, then
  \<^verbatim>\<open>send_http_token_req\<close> returns 0 with exactly that token stored, having sent the whole login
  text, and the descriptor it opened is closed.\<close>

theorem token_exchange:
  assumes conn: "result (token_connect e) s = Go_On"
    and send: "0 \<le> env_send e (trace (exec (token_connect e) s))"
    and serves: "serves e (recv_count (trace s)) chunks" "pieces chunks"
    and ans: "concat chunks = pre @ TOKEN_KEY @ tok @ DQ # post"
    and first: "\<forall>j < length pre. \<not> prefix TOKEN_KEY (drop j (concat chunks))"
    and clean: "NUL \<notin> set (concat chunks)" and tok: "DQ \<notin> set tok"
    and fits: "length (concat chunks) < RECV_BUF_SIZE"
    and bufs: "bcap (recv_buf s) = RECV_BUF_SIZE" "length (bdata (recv_buf s)) = RECV_BUF_SIZE"
      "bcap (send_buf s) = SEND_BUF_SIZE"
  shows "\<exists>t. send_http_token_req e s = Some (0, t) \<and> cstr (token t) = tok \<and> open_fds (trace t) = open_fds (trace s)"
proof -
  let ?fd = "env_socket e (trace s)" and ?c = "exec (token_connect e) s"
  note c = token_connect_frame [OF conn]
  define u where "u = ?c\<lparr>send_buf := blit (send_buf ?c) 0 (login_text login_form @ [NUL]),
    trace := Io_Send (sock_fd ?c) (login_text login_form) (env_send e (trace ?c)) # trace ?c\<rparr>"
  have snd: "run_state (token_send e) ?c = (Go_On, u)"
    unfolding u_def using bufs(3) send c(4) by (intro token_send_run) simp_all
  have u: "recv_buf u = recv_buf s" "sock_fd u = ?fd" "open_fds (trace u) = ?fd # open_fds (trace s)"
    "recv_count (trace u) = recv_count (trace s)"
    using c token_connect_recv_count [of e s] by (simp_all add: u_def recv_count_def)
  obtain t where t: "recv_loop e 0 u = Some (Some (length (concat chunks)), t)" "received u 0 (concat chunks) t"
    using recv_loop_collects [of e u chunks 0] serves fits bufs u by auto
  let ?t = "exec (token_finish (length (concat chunks))) t"
  have tu: "sock_fd t = ?fd" "open_fds (trace t) = ?fd # open_fds (trace s)"
    "take (length (concat chunks)) (bdata (recv_buf t)) = concat chunks"
    using t(2) u by (simp_all add: received_def only_token_def)
  have "send_http_token_req e s = Some (0, ?t)"
    using conn snd t(1) by (simp add: send_http_token_req_def run_state_split [of "token_connect e"])
  then show ?thesis
    using token_finish_token [OF ans first clean tok fits tu(3)] tu(1,2) by simp
qed

theorem token_exchange_witness:
  "\<exists>t. send_http_token_req (scripted [''{'' @ TOKEN_KEY @ ''to'', ''ken'' @ DQ # ''}'']) boot = Some (0, t) \<and>
       cstr (token t) = ''token'' \<and> open_fds (trace t) = []"
proof -
  let ?cs = "[''{'' @ TOKEN_KEY @ ''to'', ''ken'' @ DQ # ''}'']"
  have "\<exists>t. send_http_token_req (scripted ?cs) boot = Some (0, t) \<and> cstr (token t) = ''token'' \<and>
      open_fds (trace t) = open_fds (trace boot)"
    by (rule token_exchange [OF _ _ serves_scripted, where pre = "''{''" and post = "''}''"])
       (simp_all add: token_connect_def tls_setup_def scripted_def pieces_def TOKEN_KEY_def quoted_def boot_def
         RECV_BUF_SIZE_def)
  then show ?thesis by (simp add: boot_def)
qed


section \<open>Descriptors\<close>

lemma recv_some_fds:
  "sock_fd (exec (recv_some e off) s) = sock_fd s" "open_fds (trace (exec (recv_some e off) s)) = open_fds (trace s)"
  by (simp_all add: recv_some_def split: recv_result.split)

lemma recv_loop_fds:
  assumes "recv_loop e off s = Some r"
  shows "sock_fd (snd r) = sock_fd s \<and> open_fds (trace (snd r)) = open_fds (trace s)"
  using assms
proof (rule recv_loop.raw_induct [rotated])
  fix f :: "env \<Rightarrow> nat \<Rightarrow> fw \<Rightarrow> (nat option \<times> fw) option" and e off s y
  assume IH: "\<And>e off s y. f e off s = Some y \<Longrightarrow> sock_fd (snd y) = sock_fd s \<and> open_fds (trace (snd y)) = open_fds (trace s)"
    and body: "(case result (recv_some e off) s of
        None \<Rightarrow> Some (None, exec (recv_some e off) s)
      | Some bytes \<Rightarrow>
          let off' = (off + bytes) mod 2 ^ 32
          in if bytes \<noteq> 0 \<or> RECV_BUF_SIZE < off' then f e off' (exec (recv_some e off) s)
             else Some (Some off', exec (recv_some e off) s)) = Some y"
  show "sock_fd (snd y) = sock_fd s \<and> open_fds (trace (snd y)) = open_fds (trace s)"
    using body IH [of e _ "exec (recv_some e off) s" y] recv_some_fds
    by (auto simp: Let_def split: option.splits if_splits)
qed

lemma send_text_fds:
  "sock_fd (exec (send_text e msg) s) = sock_fd s"
  "open_fds (trace (exec (send_text e msg) s)) =
     (if result (send_text e msg) s = Go_On then open_fds (trace s) else remove1 (sock_fd s) (open_fds (trace s)))"
  "result (send_text e msg) s \<in> {Go_On, Go_Return (-1)}"
  by (simp_all add: send_text_def snprintk_def)

lemma finish_fds:
  "open_fds (trace (exec clean_up s)) = remove1 (sock_fd s) (open_fds (trace s))"
  "open_fds (trace (exec (token_finish off) s)) = remove1 (sock_fd s) (open_fds (trace s))"
  "open_fds (trace (exec (patient_finish off) s)) = remove1 (sock_fd s) (open_fds (trace s))"
proof -
  have "open_fds (trace (fold (\<lambda>c. exec (emit (Io_Putc c))) cs u)) = open_fds (trace u) \<and>
      sock_fd (fold (\<lambda>c. exec (emit (Io_Putc c))) cs u) = sock_fd u" for cs and u :: fw
    by (induction cs arbitrary: u) simp_all
  then show "open_fds (trace (exec (patient_finish off) s)) = remove1 (sock_fd s) (open_fds (trace s))"
    by (simp add: patient_finish_def terminate_recv_buf_def print_recv_buf_def clean_up_def exec_for_each)
  show "open_fds (trace (exec clean_up s)) = remove1 (sock_fd s) (open_fds (trace s))"
    "open_fds (trace (exec (token_finish off) s)) = remove1 (sock_fd s) (open_fds (trace s))"
    using only_tokenD [OF save_token_frame(1)]
    by (simp_all add: token_finish_def terminate_recv_buf_def clean_up_def)
qed


lemma token_send_as:
  "result (token_send e) s = result (send_text e (login_text login_form)) s"
  "exec (token_send e) s = exec (send_text e (login_text login_form)) s"
  using login_body_printed [of e s] by (simp_all add: result_def exec_def)

lemma connect_fds:
  "sock_fd (exec (token_connect e) s) = env_socket e (trace s)"
  "open_fds (trace (exec (token_connect e) s)) =
     (if env_socket e (trace s) = -1 then open_fds (trace s) else env_socket e (trace s) # open_fds (trace s))"
  "sock_fd (exec (patient_connect e) s) = env_socket e (trace s)"
  "open_fds (trace (exec (patient_connect e) s)) =
     (if env_socket e (trace s) = -1 then open_fds (trace s) else env_socket e (trace s) # open_fds (trace s))"
  by (simp_all add: token_connect_def patient_connect_def tls_setup_keeps)

lemma remove_fresh: "-1 \<notin> set fds \<Longrightarrow> remove1 fd (if fd = -1 then fds else fd # fds) = fds"
  by (simp add: remove1_idem)

lemma token_req_cases:
  assumes "send_http_token_req e s = Some (r, t)"
  obtains "result (token_connect e) s = Go_Clean_Up" "t = exec clean_up (exec (token_connect e) s)"
  | r' where "result (token_connect e) s = Go_Return r'" "t = exec (token_connect e) s"
  | "result (token_connect e) s = Go_On"
    "open_fds (trace t) = remove1 (env_socket e (trace s)) (open_fds (trace (exec (token_connect e) s)))"
proof (cases "result (token_connect e) s")
  case Go_On
  let ?c = "exec (token_connect e) s"
  have fds: "open_fds (trace t) = remove1 (sock_fd ?c) (open_fds (trace ?c))"
    using assms Go_On send_text_fds [of e "login_text login_form" ?c]
      recv_loop_fds [of e 0 "exec (send_text e (login_text login_form)) ?c"]
    by (auto simp: send_http_token_req_def token_send_as run_state_split finish_fds split: option.splits exit.splits prod.splits)
  then show ?thesis using that(3) Go_On connect_fds(1) by simp
qed (use assms that in \<open>auto simp: send_http_token_req_def run_state_split\<close>)

text \<open>Descriptors of a token exchange. Whenever \<^verbatim>\<open>send_http_token_req\<close> returns, the open
  descriptors are those from before, on every path but one: a failed TLS set-up returns at once
  and leaves the new socket open.\<close>

theorem token_req_fd_balance:
  assumes "send_http_token_req e s = Some (r, t)" "-1 \<notin> set (open_fds (trace s))"
  shows "open_fds (trace t) =
    (case result (token_connect e) s of Go_Return _ \<Rightarrow> env_socket e (trace s) # open_fds (trace s) | _ \<Rightarrow> open_fds (trace s))"
  using assms(1)
proof (cases rule: token_req_cases)
  case 1
  then show ?thesis using remove_fresh [OF assms(2)] by (simp add: finish_fds connect_fds)
next
  case (2 r')
  then have "env_socket e (trace s) \<noteq> -1" by (auto simp: token_connect_def)
  with 2 show ?thesis by (simp add: connect_fds)
next
  case 3
  then show ?thesis using remove_fresh [OF assms(2)] by (simp add: connect_fds)
qed

theorem token_req_fd_balance_witness:
  "\<exists>r t. send_http_token_req ((good_env [])\<lparr>env_setsockopt := \<lambda>t opt. -1\<rparr>) boot = Some (r, t) \<and> open_fds (trace t) = [3]"
proof -
  let ?e = "(good_env [])\<lparr>env_setsockopt := \<lambda>t opt. -1\<rparr>"
  have c: "result (token_connect ?e) boot = Go_Return (-5)" by (simp add: token_connect_def tls_setup_def)
  then have "send_http_token_req ?e boot = Some (-5, exec (token_connect ?e) boot)"
    by (simp add: send_http_token_req_def run_state_split)
  from token_req_fd_balance [OF this] this c show ?thesis by (auto simp: boot_def)
qed


lemma patient_send_as:
  "result (patient_send e) s = result (send_text e (patient_text (cstr (token s)))) (s\<lparr>viols := overread (token s) @ viols s\<rparr>)"
  "exec (patient_send e) s = exec (send_text e (patient_text (cstr (token s)))) (s\<lparr>viols := overread (token s) @ viols s\<rparr>)"
  by (simp_all add: patient_send_def)

text \<open>\<^verbatim>\<open>send_patient_data\<close> closes its socket on every path: whenever it returns, after an error
  anywhere or a complete answer, the open descriptors are those from before.\<close>

theorem patient_data_fd_balance:
  assumes "send_patient_data e s = Some t" "-1 \<notin> set (open_fds (trace s))"
  shows "open_fds (trace t) = open_fds (trace s)"
proof -
  let ?c = "exec (patient_connect e) s"
  let ?v = "?c\<lparr>viols := overread (token ?c) @ viols ?c\<rparr>"
  let ?msg = "patient_text (cstr (token ?c))"
  have "open_fds (trace t) = remove1 (sock_fd ?c) (open_fds (trace ?c))"
    using assms(1) send_text_fds [of e ?msg ?v] recv_loop_fds [of e 0 "exec (send_text e ?msg) ?v"]
    by (auto simp: send_patient_data_def patient_send_as run_state_split finish_fds
        split: option.splits exit.splits prod.splits)
  then show ?thesis using remove_fresh [OF assms(2)] by (simp add: connect_fds)
qed

theorem patient_data_fd_balance_witness:
  "\<exists>t. send_patient_data ((good_env [])\<lparr>env_connect := \<lambda>t. -1\<rparr>) boot = Some t \<and> open_fds (trace t) = []"
proof -
  let ?e = "(good_env [])\<lparr>env_connect := \<lambda>t. -1\<rparr>"
  have "result (patient_connect ?e) boot = Go_Clean_Up" by (simp add: patient_connect_def tls_setup_def)
  then obtain t where "send_patient_data ?e boot = Some t" by (simp add: send_patient_data_def run_state_split)
  with patient_data_fd_balance [OF this] show ?thesis by (auto simp: boot_def)
qed

section \<open>Passes of the receive loop\<close>

text \<open>The first \<open>n\<close> passes of the loop, as long as it goes on: the value of \<^verbatim>\<open>off\<close> and the state then.\<close>

fun recv_passes :: "env \<Rightarrow> nat \<Rightarrow> nat \<Rightarrow> fw \<Rightarrow> (nat \<times> fw) option" where
  "recv_passes e 0 off s = Some (off, s)"
| "recv_passes e (Suc n) off s =
     (case result (recv_some e off) s of
        None \<Rightarrow> None
      | Some bytes \<Rightarrow>
          (let off' = (off + bytes) mod 2 ^ 32 in
           if bytes \<noteq> 0 \<or> off' > RECV_BUF_SIZE then recv_passes e n off' (exec (recv_some e off) s) else None))"

text \<open>They are passes of the loop itself: what it still does is what it does from there.\<close>

lemma recv_loop_passes: "recv_passes e n off s = Some (off', t) \<Longrightarrow> recv_loop e off s = recv_loop e off' t"
proof (induction n arbitrary: off s)
  case (Suc n)
  then obtain bytes where r: "result (recv_some e off) s = Some bytes" by (auto split: option.splits)
  let ?off = "(off + bytes) mod 2 ^ 32"
  have c: "bytes \<noteq> 0 \<or> RECV_BUF_SIZE < ?off" and n: "recv_passes e n ?off (exec (recv_some e off) s) = Some (off', t)"
    using Suc.prems r by (auto simp: Let_def split: if_splits)
  show ?case unfolding Suc.IH [OF n, symmetric] using r c by (subst recv_loop.simps) (simp add: Let_def)
qed simp

lemma recv_passes_chunks:
  assumes "serves e (recv_count (trace s)) chunks" "pieces chunks" "off + length (concat chunks) < 2 ^ 32"
    "bcap (recv_buf s) = RECV_BUF_SIZE" "n \<le> length chunks"
  shows "\<exists>t. recv_passes e n off s = Some (off + length (concat (take n chunks)), t) \<and>
           length (viols s) \<le> length (viols t) \<and>
           (off \<le> RECV_BUF_SIZE \<longrightarrow> (viols t = viols s \<longleftrightarrow> off + length (concat (take n chunks)) \<le> RECV_BUF_SIZE))"
  using assms
proof (induction chunks arbitrary: off s n)
  case Nil
  then show ?case by simp
next
  case (Cons c cs)
  show ?case
  proof (cases n)
    case 0
    then show ?thesis by simp
  next
    case (Suc m)
    let ?s = "exec (recv_some e off) s"
    have c: "c \<noteq> []" "length c \<le> 1024" "pieces cs" using Cons.prems(2) by (auto simp: pieces_def)
    have rs: "result (recv_some e off) s = Some (length c)"
      "?s = s\<lparr>trace := Io_Recv (sock_fd s) 1024 (int (length c)) # trace s, recv_buf := blit (recv_buf s) off c,
         viols := overrun (recv_buf s) off (length c) @ viols s\<rparr>"
      using recv_some_data [OF serves_now [OF Cons.prems(1)]] c by simp_all
    have srv: "serves e (recv_count (trace ?s)) cs"
      using serves_next [OF Cons.prems(1)] by (simp add: rs(2) recv_count_step)
    have m: "(off + length c) mod 2 ^ 32 = off + length c" using Cons.prems(3) by simp
    obtain t where t: "recv_passes e m (off + length c) ?s = Some (off + length c + length (concat (take m cs)), t)"
      "length (viols ?s) \<le> length (viols t)"
      "off + length c \<le> RECV_BUF_SIZE \<longrightarrow>
         (viols t = viols ?s \<longleftrightarrow> off + length c + length (concat (take m cs)) \<le> RECV_BUF_SIZE)"
      using Cons.IH [OF srv c(3), of "off + length c" m] Cons.prems(3-5) Suc by (auto simp: rs(2))
    have p: "recv_passes e n off s = Some (off + length (concat (take n (c # cs))), t)"
      using t(1) rs(1) c(1) m Suc by (simp add: ac_simps)
    have "viols t = viols s \<longleftrightarrow> off + length (concat (take n (c # cs))) \<le> RECV_BUF_SIZE" if "off \<le> RECV_BUF_SIZE"
    proof (cases "off + length c \<le> RECV_BUF_SIZE")
      case True
      then have "viols ?s = viols s" using Cons.prems(4) by (simp add: rs(2))
      then show ?thesis using t(3) True Suc by (simp add: ac_simps)
    next
      case False
      then have "length (viols s) < length (viols ?s)" using Cons.prems(4) c(1) by (simp add: rs(2) overrun_def)
      then have "viols t \<noteq> viols s" using t(2) by auto
      then show ?thesis using False Suc by simp
    qed
    moreover have "length (viols s) \<le> length (viols t)" using t(2) by (simp add: rs(2))
    ultimately show ?thesis using p by blast
  qed
qed

text \<open>C31. When the receive loop leaves \<^verbatim>\<open>recv_buf\<close>. Let a server deliver its answer in pieces of at most
  1024 bytes. After \<open>n\<close> passes the loop has received the first \<open>n\<close> pieces, will do whatever it does
  from that state, and has written outside \<^verbatim>\<open>recv_buf\<close> exactly when these pieces have more than
  4096 bytes: neither \<^verbatim>\<open>recv\<close> nor the loop condition stops it at the end of the buffer.\<close>

theorem recv_overruns_iff:
  assumes "serves e (recv_count (trace s)) chunks" "pieces chunks" "length (concat chunks) < 2 ^ 32"
    and "bcap (recv_buf s) = RECV_BUF_SIZE" "n \<le> length chunks"
  shows "\<exists>t. recv_passes e n 0 s = Some (length (concat (take n chunks)), t) \<and>
           recv_loop e 0 s = recv_loop e (length (concat (take n chunks))) t \<and>
           (viols t = viols s \<longleftrightarrow> length (concat (take n chunks)) \<le> RECV_BUF_SIZE)"
  using recv_passes_chunks [OF assms(1,2) _ assms(4,5), of 0] assms(3) recv_loop_passes [of e n 0 s] by auto

theorem recv_overruns_iff_witness:
  "\<exists>t u. recv_passes (scripted (replicate 5 (replicate 1000 CHR ''a''))) 4 0 boot = Some (4000, t) \<and> viols t = [] \<and>
     recv_passes (scripted (replicate 5 (replicate 1000 CHR ''a''))) 5 0 boot = Some (5000, u) \<and> viols u \<noteq> []"
proof -
  let ?cs = "replicate 5 (replicate 1000 CHR ''a'')"
  have len: "length (concat (take n ?cs)) = 1000 * min n 5" for n
    by (simp add: length_concat sum_list_replicate take_replicate)
  have "pieces ?cs" by (simp add: pieces_def)
  moreover have "length (concat ?cs) < 2 ^ 32" using len [of 5] by simp
  ultimately have at: "n \<le> 5 \<Longrightarrow> \<exists>t. recv_passes (scripted ?cs) n 0 boot = Some (1000 * n, t) \<and>
      (viols t = viols boot \<longleftrightarrow> 1000 * n \<le> RECV_BUF_SIZE)" for n
    using recv_overruns_iff [OF serves_scripted _ _ recv_buf_boot(1), of ?cs n] len [of n] by auto
  show ?thesis using at [of 4] at [of 5] by (auto simp: boot_def RECV_BUF_SIZE_def)
qed

end
