(* ===== verification/Http_Bk.thy ===== *)
theory Http_Bk
  imports Http_Raw
begin

text \<open>
  The HTTP half of \<^verbatim>\<open>src/src/app_bk.c\<close>: resolve, log in and post in every round, response callbacks
  that close the socket themselves, and the hand-written exchange in the version whose error paths
  all go through \<^verbatim>\<open>clean_up\<close>. Names carry the suffix \<open>_bk\<close>.
\<close>

section \<open>Certificate, TLS, resolution\<close>

definition register_certificate_bk :: "env \<Rightarrow> (fw, unit) state" where
  "register_certificate_bk e = do {
     _ \<leftarrow> ask (env_cred_add e) (Io_Cred_Add 1 (env_root_ca e));
     ret ()
   }"

text \<open>Unlike the later version, the failing option's own result is returned.\<close>

definition tls_setup_bk :: "env \<Rightarrow> int \<Rightarrow> (fw, int) state" where
  "tls_setup_bk e fd = do {
     err \<leftarrow> setsockopt e fd (TLS_PEER_VERIFY 0);
     if err \<noteq> 0 then ret err
     else do {
       err \<leftarrow> setsockopt e fd (TLS_SEC_TAG_LIST [1]);
       if err \<noteq> 0 then ret err
       else do {
         err \<leftarrow> setsockopt e fd (TLS_HOSTNAME HTTP_HOST);
         if err \<noteq> 0 then ret err else ret 0
       }
     }
   }"

definition json_payload_bk :: string where
  "json_payload_bk = ''{''
     @ quoted ''BLE_FW'' @ '': '' @ quoted ''1'' @ '',''
     @ quoted ''WIFI_FW'' @ '': '' @ quoted ''1'' @ '',''
     @ quoted ''Battery %'' @ '': 100,''
     @ quoted ''Patient ID'' @ '': '' @ quoted ''12345'' @ '',''
     @ quoted ''Patient Data'' @ '': [''
     @ ''{''
     @ quoted ''Temperature'' @ '': 98.6,''
     @ quoted ''Heart Rate'' @ '': 72,''
     @ quoted ''Heart Rate Confidence Index'' @ '': 95,''
     @ quoted ''SPIO2 Level'' @ '': 98,''
     @ quoted ''SPIO2 Level Confidence Index'' @ '': 90,''
     @ quoted ''SOS Alert'' @ '': 0,''
     @ quoted ''Fall Detection'' @ '': 0,''
     @ quoted ''Accel X'' @ '': 12345,''
     @ quoted ''Accel Y'' @ '': 12345,''
     @ quoted ''Accel Z'' @ '': 12345''
     @ ''}'' @ '']'' @ ''}''"

definition resolve_server_bk :: "env \<Rightarrow> (fw, int) state" where
  "resolve_server_bk e = do {
     res \<leftarrow> ask (env_getaddrinfo e) (\<lambda>x. Io_Getaddrinfo HTTP_HOST (fst x) (snd x));
     if fst res \<noteq> 0 then ret (-1)
     else do {
       modify (\<lambda>s. s\<lparr>server_info := \<lparr>sin_family = sin_family (snd res), sin_port = htons HTTP_PORT,
                                      sin_addr = sin_addr (snd res)\<rparr>\<rparr>);
       emit Io_Freeaddrinfo;
       ret 0
     }
   }"

section \<open>The hand-written exchange\<close>

text \<open>Both functions connect in the same way: any failure goes to \<^verbatim>\<open>clean_up\<close>.\<close>

definition raw_connect_bk :: "env \<Rightarrow> (fw, exit) state" where
  "raw_connect_bk e = do {
     fd \<leftarrow> ask (env_socket e) Io_Socket;
     modify (\<lambda>s. s\<lparr>sock_fd := fd\<rparr>);
     if fd = -1 then ret Go_Clean_Up
     else do {
       err \<leftarrow> tls_setup_bk e fd;
       if err \<noteq> 0 then ret Go_Clean_Up
       else do {
         addr \<leftarrow> gets server_info;
         err \<leftarrow> ask (env_connect e) (Io_Connect fd addr);
         ret (if err \<noteq> 0 then Go_Clean_Up else Go_On)
       }
     }
   }"

definition patient_text_bk :: "string \<Rightarrow> string" where
  "patient_text_bk tok = ''POST /api/add-patient-clinical-data HTTP/1.1'' @ CRLF @ ''Host: '' @ HTTP_HOST @ CRLF
     @ ''Authorization: Bearer '' @ tok @ CRLF @ ''Content-Type: application/json'' @ CRLF
     @ ''Content-Length: '' @ dec (length json_payload_bk) @ CRLF @ ''Connection: close'' @ CRLF @ CRLF @ json_payload_bk"

definition patient_send_bk :: "env \<Rightarrow> (fw, exit) state" where
  "patient_send_bk e = do {
     tk \<leftarrow> gets token;
     tok \<leftarrow> buf_str tk;
     send_text e (patient_text_bk tok)
   }"

definition send_http_token_req_bk :: "env \<Rightarrow> fw \<Rightarrow> (int \<times> fw) option" where
  "send_http_token_req_bk e s =
     (case run_state (raw_connect_bk e) s of
        (Go_On, s1) \<Rightarrow>
          (case run_state (token_send e) s1 of
             (Go_Return r, s2) \<Rightarrow> Some (r, s2)
           | (_, s2) \<Rightarrow>
               (case recv_loop e 0 s2 of
                  None \<Rightarrow> None
                | Some (None, s3) \<Rightarrow> Some (-1, exec clean_up s3)
                | Some (Some off, s3) \<Rightarrow> Some (0, exec (token_finish off) s3)))
      | (_, s1) \<Rightarrow> Some (-1, exec clean_up s1))"

definition send_patient_data_bk :: "env \<Rightarrow> fw \<Rightarrow> fw option" where
  "send_patient_data_bk e s =
     (case run_state (raw_connect_bk e) s of
        (Go_On, s1) \<Rightarrow>
          (case run_state (patient_send_bk e) s1 of
             (Go_Return r, s2) \<Rightarrow> Some s2
           | (_, s2) \<Rightarrow>
               (case recv_loop e 0 s2 of
                  None \<Rightarrow> None
                | Some (None, s3) \<Rightarrow> Some (exec clean_up s3)
                | Some (Some off, s3) \<Rightarrow> Some (exec (patient_finish off) s3)))
      | (_, s1) \<Rightarrow> Some (exec clean_up s1))"

definition send_http_request_bk :: "env \<Rightarrow> fw \<Rightarrow> fw option" where
  "send_http_request_bk e s =
     (case send_http_token_req_bk e (exec (resolve_server_bk e) s) of
        None \<Rightarrow> None
      | Some (_, s') \<Rightarrow> send_patient_data_bk e s')"

section \<open>The client library version\<close>

definition close_sock_bk :: "(fw, unit) state" where
  "close_sock_bk = do { fd \<leftarrow> gets sock_fd; close_fd fd }"

definition response_cb_bk :: "http_response \<Rightarrow> (fw, int) state" where
  "response_cb_bk rsp = do {
     when_do (0 < length (rsp_body_frag rsp)) (do {
       body_buf \<leftarrow> body_copy rsp;
       str \<leftarrow> buf_str body_buf;
       save_token str
     });
     close_sock_bk;
     ret 0
   }"

definition response_patient_cb_bk :: "http_response \<Rightarrow> (fw, int) state" where
  "response_patient_cb_bk rsp = do {
     when_do (0 < length (rsp_body_frag rsp)) (do {
       body_buf \<leftarrow> body_copy rsp;
       _ \<leftarrow> buf_str body_buf;
       ret ()
     });
     close_sock_bk;
     ret 0
   }"

text \<open>The common start of \<^verbatim>\<open>client_http_get\<close> and \<^verbatim>\<open>client_http_post_data\<close>: the result of the
  lookup is not looked at, and a failure after \<^verbatim>\<open>socket\<close> returns without closing.\<close>

definition client_connect_bk :: "env \<Rightarrow> (fw, int) state" where
  "client_connect_bk e = do {
     _ \<leftarrow> resolve_server_bk e;
     fd \<leftarrow> ask (env_socket e) Io_Socket;
     modify (\<lambda>s. s\<lparr>sock_fd := fd\<rparr>);
     if fd = -1 then ret fd
     else do {
       err \<leftarrow> tls_setup_bk e fd;
       if err \<noteq> 0 then ret (-1)
       else do {
         addr \<leftarrow> gets server_info;
         err \<leftarrow> ask (env_connect e) (Io_Connect fd addr);
         if err \<noteq> 0 then ret (-1) else ret 0
       }
     }
   }"

definition login_request_bk :: "string \<Rightarrow> http_request" where
  "login_request_bk body = \<lparr>req_method = HTTP_POST, req_url = LOGIN_PATH, req_host = HTTP_HOST,
     req_header_fields = [''Content-Type: application/x-www-form-urlencoded'' @ CRLF,
                          ''Connection: close'' @ CRLF],
     req_payload = body, req_payload_len = length body, req_protocol = ''HTTP/1.1'',
     req_response = Response_Cb, req_recv_buf_len = RECV_BUF_SIZE\<rparr>"

definition client_http_get :: "env \<Rightarrow> (fw, int) state" where
  "client_http_get e = do {
     c \<leftarrow> client_connect_bk e;
     if c \<noteq> 0 then ret c
     else do {
       b \<leftarrow> snprintk (new_buf Login_body 128) 128 login_form;
       payload \<leftarrow> buf_str b;
       fd \<leftarrow> gets sock_fd;
       http_client_req e fd (login_request_bk payload) 5000 response_cb_bk
     }
   }"

definition patient_request_bk :: "string \<Rightarrow> http_request" where
  "patient_request_bk auth = \<lparr>req_method = HTTP_POST, req_url = ''/api/add-patient-clinical-data'',
     req_host = HTTP_HOST,
     req_header_fields = [''Content-Type: application/json'' @ CRLF, auth, ''Connection: close'' @ CRLF],
     req_payload = json_payload_bk, req_payload_len = length json_payload_bk, req_protocol = ''HTTP/1.1'',
     req_response = Response_Patient_Cb, req_recv_buf_len = RECV_BUF_SIZE\<rparr>"

definition client_http_post_data :: "env \<Rightarrow> (fw, int) state" where
  "client_http_post_data e = do {
     c \<leftarrow> client_connect_bk e;
     if c \<noteq> 0 then ret c
     else do {
       tk \<leftarrow> gets token;
       tok \<leftarrow> buf_str tk;
       auth_buf \<leftarrow> sprintf (new_buf Auth_buf AUTH_BUF_SIZE) (bearer tok);
       fd \<leftarrow> gets sock_fd;
       http_client_req e fd (patient_request_bk (cstr auth_buf)) 5000 response_patient_cb_bk
     }
   }"

definition http_round_bk :: "env \<Rightarrow> (fw, unit) state" where
  "http_round_bk e = do {
     ip \<leftarrow> gets got_ip;
     if \<not> ip then do {
       k_sleep 1000;
       modify (\<lambda>s. s\<lparr>http_state := 0\<rparr>)
     }
     else do {
       _ \<leftarrow> client_http_get e;
       _ \<leftarrow> client_http_post_data e;
       k_sleep 10000
     }
   }"

fun start_http_thread_bk :: "env \<Rightarrow> http_pc \<Rightarrow> fw \<Rightarrow> http_pc \<times> fw" where
  "start_http_thread_bk e H_Start s = (H_Loop, exec (register_certificate_bk e) s)"
| "start_http_thread_bk e H_Loop s = (H_Loop, exec (http_round_bk e) s)"

section \<open>Callbacks that close\<close>

text \<open>The contract the two callbacks share: return 0, close the current socket once per call, keep the
  rest apart from token and violations. A response in \<open>n\<close> fragments then closes \<open>n\<close> times.\<close>

locale closing_callback =
  fixes cb :: "http_response \<Rightarrow> (fw, int) state"
  assumes closes: "trace (exec (cb r) s) = Io_Close (sock_fd s) # trace s"
    and keeps: "sock_fd (exec (cb r) s) = sock_fd s" "keeps_link s (exec (cb r) s)"
      "server_info (exec (cb r) s) = server_info s" "http_state (exec (cb r) s) = http_state s"
begin

lemma fold_closes:
  "trace (fold (\<lambda>r. exec (cb r)) rs s) = replicate (length rs) (Io_Close (sock_fd s)) @ trace s"
  by (induction rs arbitrary: s) (simp_all add: closes keeps replicate_app_Cons_same)

lemma fold_sock: "sock_fd (fold (\<lambda>r. exec (cb r)) rs s) = sock_fd s"
  by (induction rs arbitrary: s) (simp_all add: keeps)

lemma fold_link: "keeps_link s (fold (\<lambda>r. exec (cb r)) rs s)"
proof (induction rs arbitrary: s)
  case Nil
  show ?case by simp
next
  case (Cons r rs)
  show ?case using keeps_link_trans [OF keeps(2) Cons.IH] by simp
qed

end

interpretation login_close: closing_callback response_cb_bk
proof
  fix r s
  show "trace (exec (response_cb_bk r) s) = Io_Close (sock_fd s) # trace s"
    "sock_fd (exec (response_cb_bk r) s) = sock_fd s" "keeps_link s (exec (response_cb_bk r) s)"
    "server_info (exec (response_cb_bk r) s) = server_info s" "http_state (exec (response_cb_bk r) s) = http_state s"
    using save_token_frame(1)
    by (auto simp: response_cb_bk_def close_sock_bk_def footprint_defs)
qed

interpretation patient_close: closing_callback response_patient_cb_bk
  by unfold_locales (simp_all add: response_patient_cb_bk_def close_sock_bk_def footprint_defs)

section \<open>Descriptors\<close>

lemma tls_setup_bk_frame:
  "keeps_link s (exec (tls_setup_bk e fd) s)" "keeps_client s (exec (tls_setup_bk e fd) s)"
  "open_fds (trace (exec (tls_setup_bk e fd) s)) = open_fds (trace s)"
  by (simp_all add: tls_setup_bk_def footprint_defs)

lemmas tls_setup_bk_keeps =
  keeps_linkD [OF tls_setup_bk_frame(1)] keeps_clientD [OF tls_setup_bk_frame(2)] tls_setup_bk_frame(3)

text \<open>The descriptor that \<^verbatim>\<open>socket\<close> hands to a client call started in a given state.\<close>

definition client_fd_bk :: "env \<Rightarrow> fw \<Rightarrow> int" where
  "client_fd_bk e s = env_socket e (trace (exec (resolve_server_bk e) s))"

lemma client_connect_bk_frame:
  "keeps_link s (exec (client_connect_bk e) s)" "token (exec (client_connect_bk e) s) = token s"
  "viols (exec (client_connect_bk e) s) = viols s" "http_state (exec (client_connect_bk e) s) = http_state s"
  "sock_fd (exec (client_connect_bk e) s) = client_fd_bk e s"
  "open_fds (trace (exec (client_connect_bk e) s)) =
     (if client_fd_bk e s = -1 then open_fds (trace s) else client_fd_bk e s # open_fds (trace s))"
  by (simp_all add: client_connect_bk_def resolve_server_bk_def client_fd_bk_def tls_setup_bk_keeps keeps_link_def)


definition get_sent :: "env \<Rightarrow> fw \<Rightarrow> fw" where
  "get_sent e s = (let u = exec (client_connect_bk e) s in
     u\<lparr>trace := Io_Http (sock_fd u) (login_request_bk login_form) 5000 (fst (env_http e (trace u))) # trace u\<rparr>)"

definition get_frags :: "env \<Rightarrow> fw \<Rightarrow> http_response list" where
  "get_frags e s = snd (env_http e (trace (exec (client_connect_bk e) s)))"

lemma client_http_get_run:
  "exec (client_http_get e) s =
     (if result (client_connect_bk e) s = 0 then fold (\<lambda>r. exec (response_cb_bk r)) (get_frags e s) (get_sent e s)
      else exec (client_connect_bk e) s)"
  by (simp add: client_http_get_def get_sent_def get_frags_def Let_def)






section \<open>A lookup that fails\<close>

text \<open>The backup does not notice a failed lookup: when \<^verbatim>\<open>getaddrinfo\<close> fails,
  \<^verbatim>\<open>client_http_get\<close> still opens a socket and connects it to whatever \<^verbatim>\<open>server_info\<close> holds,
  which after reset is no address at all.\<close>

theorem failed_lookup_still_connects:
  assumes "fst (env_getaddrinfo e (trace s)) \<noteq> 0" "client_fd_bk e s \<noteq> -1" "\<And>t opt. env_setsockopt e t opt = 0"
  shows "\<exists>r. Io_Connect (client_fd_bk e s) (server_info s) r \<in> set (trace (exec (client_http_get e) s))"
proof -
  have "\<exists>r. Io_Connect (client_fd_bk e s) (server_info s) r \<in> set (trace (exec (client_connect_bk e) s))"
    using assms by (auto simp: client_connect_bk_def resolve_server_bk_def tls_setup_bk_def client_fd_bk_def)
  then show ?thesis
    by (auto simp: client_http_get_run login_close.fold_closes get_sent_def Let_def)
qed

theorem failed_lookup_still_connects_witness:
  "\<exists>r. Io_Connect 3 \<lparr>sin_family = AF_UNSPEC, sin_port = 0, sin_addr = 0\<rparr> r
     \<in> set (trace (exec (client_http_get ((good_env [])\<lparr>env_getaddrinfo :=
          \<lambda>t. (-2, \<lparr>sin_family = AF_INET, sin_port = 0, sin_addr = 1\<rparr>)\<rparr>)) boot))"
  using failed_lookup_still_connects [of "(good_env [])\<lparr>env_getaddrinfo :=
      \<lambda>t. (-2, \<lparr>sin_family = AF_INET, sin_port = 0, sin_addr = 1\<rparr>)\<rparr>" boot]
  by (simp add: client_fd_bk_def) (simp add: boot_def)

section \<open>The hand-written exchange closes its socket\<close>

lemma raw_connect_bk_fds:
  "sock_fd (exec (raw_connect_bk e) s) = env_socket e (trace s)"
  "open_fds (trace (exec (raw_connect_bk e) s)) =
     (if env_socket e (trace s) = -1 then open_fds (trace s) else env_socket e (trace s) # open_fds (trace s))"
  by (simp_all add: raw_connect_bk_def tls_setup_bk_keeps)

lemma patient_send_bk_as:
  "result (patient_send_bk e) s = result (send_text e (patient_text_bk (cstr (token s)))) (s\<lparr>viols := overread (token s) @ viols s\<rparr>)"
  "exec (patient_send_bk e) s = exec (send_text e (patient_text_bk (cstr (token s)))) (s\<lparr>viols := overread (token s) @ viols s\<rparr>)"
  by (simp_all add: patient_send_bk_def)

lemma token_req_bk_fds:
  assumes "send_http_token_req_bk e s = Some (r, t)" "-1 \<notin> set (open_fds (trace s))"
  shows "open_fds (trace t) = open_fds (trace s)"
proof -
  let ?c = "exec (raw_connect_bk e) s"
  have "open_fds (trace t) = remove1 (sock_fd ?c) (open_fds (trace ?c))"
    using assms(1) send_text_fds [of e "login_text login_form" ?c]
      recv_loop_fds [of e 0 "exec (send_text e (login_text login_form)) ?c"]
    by (auto simp: send_http_token_req_bk_def token_send_as run_state_split finish_fds
        split: option.splits exit.splits prod.splits)
  then show ?thesis using remove_fresh [OF assms(2)] by (simp add: raw_connect_bk_fds)
qed

lemma patient_data_bk_fds:
  assumes "send_patient_data_bk e s = Some t" "-1 \<notin> set (open_fds (trace s))"
  shows "open_fds (trace t) = open_fds (trace s)"
proof -
  let ?c = "exec (raw_connect_bk e) s"
  let ?v = "?c\<lparr>viols := overread (token ?c) @ viols ?c\<rparr>"
  let ?msg = "patient_text_bk (cstr (token ?c))"
  have "open_fds (trace t) = remove1 (sock_fd ?c) (open_fds (trace ?c))"
    using assms(1) send_text_fds [of e ?msg ?v] recv_loop_fds [of e 0 "exec (send_text e ?msg) ?v"]
    by (auto simp: send_patient_data_bk_def patient_send_bk_as run_state_split finish_fds
        split: option.splits exit.splits prod.splits)
  then show ?thesis using remove_fresh [OF assms(2)] by (simp add: raw_connect_bk_fds)
qed

text \<open>The backup's hand-written request leaks nothing: whenever \<^verbatim>\<open>send_http_request\<close> (lookup, token
  exchange, patient data) returns, through whatever errors, the open descriptors are those from
  before.\<close>

theorem http_request_bk_fd_balance:
  assumes "send_http_request_bk e s = Some t" "-1 \<notin> set (open_fds (trace s))"
  shows "open_fds (trace t) = open_fds (trace s)"
proof -
  let ?u = "exec (resolve_server_bk e) s"
  have u: "open_fds (trace ?u) = open_fds (trace s)" by (simp add: resolve_server_bk_def)
  obtain r v where v: "send_http_token_req_bk e ?u = Some (r, v)" "send_patient_data_bk e v = Some t"
    using assms(1) by (auto simp: send_http_request_bk_def split: option.splits)
  have "open_fds (trace v) = open_fds (trace s)" using token_req_bk_fds [OF v(1)] assms(2) u by simp
  with patient_data_bk_fds [OF v(2)] assms(2) show ?thesis by simp
qed

theorem http_request_bk_fd_balance_witness:
  "\<exists>t. send_http_request_bk ((good_env [])\<lparr>env_setsockopt := \<lambda>t opt. -1\<rparr>) boot = Some t \<and> open_fds (trace t) = []"
proof -
  let ?e = "(good_env [])\<lparr>env_setsockopt := \<lambda>t opt. -1\<rparr>"
  have "result (raw_connect_bk ?e) u = Go_Clean_Up" for u by (simp add: raw_connect_bk_def tls_setup_bk_def)
  then obtain t where "send_http_request_bk ?e boot = Some t"
    by (simp add: send_http_request_bk_def send_http_token_req_bk_def send_patient_data_bk_def run_state_split)
  with http_request_bk_fd_balance [OF this] show ?thesis by (auto simp: boot_def)
qed

section \<open>A round logs in and posts with the new token\<close>

lemma response_cb_bk_as:
  "exec (response_cb_bk r) s = (exec (response_cb r) s)\<lparr>trace := Io_Close (sock_fd s) # trace s\<rparr>"
  using only_tokenD(3,5) [OF login_cb.cb_frame [of s r]]
  by (simp add: response_cb_bk_def response_cb_def close_sock_bk_def)

lemma fold_no_key_bk:
  assumes "\<forall>g \<in> set gs. strstr (c_str (rsp_body_frag g)) TOKEN_KEY = None"
  shows "token (fold (\<lambda>r. exec (response_cb_bk r)) gs s) = token s"
  using assms by (induction gs arbitrary: s) (simp_all add: response_cb_bk_as response_cb_no_key)

lemma get_saves_token:
  assumes conn: "result (client_connect_bk e) s = 0" and frags: "get_frags e s = fs @ r # gs"
    and body: "rsp_body_frag r = pre @ TOKEN_KEY @ tok @ DQ # post"
    and first: "\<forall>j < length pre. \<not> prefix TOKEN_KEY (drop j (rsp_body_frag r))"
    and clean: "NUL \<notin> set (rsp_body_frag r)" and tok: "DQ \<notin> set tok"
    and last: "\<forall>g \<in> set gs. strstr (c_str (rsp_body_frag g)) TOKEN_KEY = None"
  shows "cstr (token (exec (client_http_get e) s)) = tok"
  using response_cb_token [OF body first clean tok] fold_no_key_bk [OF last]
  by (simp add: client_http_get_run conn frags response_cb_bk_as)

lemma post_bk_sends_bearer:
  assumes "result (client_connect_bk e) s = 0"
  shows "\<exists>rc. Io_Http (client_fd_bk e s) (patient_request_bk (bearer (cstr (token s)))) 5000 rc
           \<in> set (trace (exec (client_http_post_data e) s))"
  using assms by (auto simp: client_http_post_data_def patient_close.fold_closes client_connect_bk_frame)

text \<open>The backup logs in anew in every round: with an address, if both connections of a round come up
  and the login response holds a token, the same round posts the patient data with that token
  (the later version logs in once per address).\<close>

theorem round_bk_posts_new_token:
  assumes ip: "got_ip s" and conn: "result (client_connect_bk e) s = 0" and frags: "get_frags e s = fs @ r # gs"
    and body: "rsp_body_frag r = pre @ TOKEN_KEY @ tok @ DQ # post"
    and first: "\<forall>j < length pre. \<not> prefix TOKEN_KEY (drop j (rsp_body_frag r))"
    and clean: "NUL \<notin> set (rsp_body_frag r)" and tok: "DQ \<notin> set tok"
    and last: "\<forall>g \<in> set gs. strstr (c_str (rsp_body_frag g)) TOKEN_KEY = None"
    and conn': "result (client_connect_bk e) (exec (client_http_get e) s) = 0"
  shows "\<exists>fd rc. Io_Http fd (patient_request_bk (bearer tok)) 5000 rc \<in> set (trace (exec (http_round_bk e) s))"
proof -
  have "cstr (token (exec (client_http_get e) s)) = tok"
    by (rule get_saves_token [OF conn frags body first clean tok last])
  then show ?thesis using post_bk_sends_bearer [OF conn'] ip by (auto simp: http_round_bk_def)
qed

lemma good_client_connect [simp]: "result (client_connect_bk (good_env body)) s = 0"
  by (simp add: client_connect_bk_def resolve_server_bk_def tls_setup_bk_def)

theorem round_bk_posts_new_token_witness:
  "\<exists>fd rc. Io_Http fd (patient_request_bk (bearer ''abc'')) 5000 rc
     \<in> set (trace (exec (http_round_bk (good_env (''{'' @ TOKEN_KEY @ ''abc'' @ DQ # ''}''))) (boot\<lparr>got_ip := True\<rparr>)))"
  by (rule round_bk_posts_new_token [where r = "\<lparr>rsp_status = ''OK'', rsp_body_frag = ''{'' @ TOKEN_KEY @ ''abc'' @ DQ # ''}''\<rparr>"
        and fs = "[]" and gs = "[]" and pre = "''{''" and post = "''}''"])
     (simp_all add: get_frags_def TOKEN_KEY_def quoted_def)

end
