(* ===== verification/Syscall.thy ===== *)
theory Syscall
  imports Prelude
begin

text \<open>
  What the system-call stubs that the Zephyr build generates under
  \<^verbatim>\<open>nrf52dk/sta/zephyr/include/generated/zephyr/syscalls\<close> share: how a stub chooses between the
  implementation and a trap, how it packs its parameters into registers, and how it takes the result
  back. \<open>Syscall_Table\<close> has the numbers and the dispatch table, \<open>Syscall_Stubs\<close> the stubs one by one.
\<close>

section \<open>Parameters\<close>

text \<open>A stub stores each parameter in a union with a \<^verbatim>\<open>uintptr_t\<close> and passes that. A parameter
  narrower than 32 bits leaves the upper bytes of its union unspecified: \<open>junk m i\<close> is what the union of
  the \<open>i\<close>th parameter held before. An enumeration takes as few bytes as its values need or four, as
  the compiler chooses: the values of a \<open>PEnum\<close> need one byte, those of a \<open>PEnum16\<close> two. A 64-bit
  parameter is passed as two words, the lower one first.\<close>

datatype parm = P8 "8 word" | P16 "16 word" | P32 "32 word" | P64 "64 word" | PEnum "8 word" | PEnum16 "16 word"

datatype width = W8 | W16 | W32 | W64 | WEnum | WEnum16

record kmode =
  cfg_userspace :: bool
  syscall_trap :: bool
  short_enums :: bool
  ret64_addr :: "32 word"
  junk :: "nat \<Rightarrow> 32 word"

definition traps :: "kmode \<Rightarrow> bool" where
  "traps m \<longleftrightarrow> cfg_userspace m \<and> syscall_trap m"

fun width_of :: "parm \<Rightarrow> width" where
  "width_of (P8 _) = W8"
| "width_of (P16 _) = W16"
| "width_of (P32 _) = W32"
| "width_of (P64 _) = W64"
| "width_of (PEnum _) = WEnum"
| "width_of (PEnum16 _) = WEnum16"

fun parm_words :: "bool \<Rightarrow> 32 word \<Rightarrow> parm \<Rightarrow> 32 word list" where
  "parm_words se j (P8 w) = [push_bit 8 (drop_bit 8 j) OR ucast w]"
| "parm_words se j (P16 w) = [push_bit 16 (drop_bit 16 j) OR ucast w]"
| "parm_words se j (P32 w) = [w]"
| "parm_words se j (P64 w) = [ucast w, ucast (drop_bit 32 w)]"
| "parm_words se j (PEnum w) = [if se then push_bit 8 (drop_bit 8 j) OR ucast w else ucast w]"
| "parm_words se j (PEnum16 w) = [if se then push_bit 16 (drop_bit 16 j) OR ucast w else ucast w]"

fun parms_words :: "(nat \<Rightarrow> parm \<Rightarrow> 32 word list) \<Rightarrow> nat \<Rightarrow> parm list \<Rightarrow> 32 word list" where
  "parms_words pack i [] = []"
| "parms_words pack i (p # ps) = pack i p @ parms_words pack (Suc i) ps"

section \<open>A stub\<close>

text \<open>What a stub asks for: the implementation, or a trap. At most six words go to registers; with more
  words the first five do, and the sixth register points to an array of the rest. The result is
  nothing, a truth value, a byte, two bytes, a word, or, for the 64-bit results, the variable \<^verbatim>\<open>ret64\<close>
  whose address is the last word of the trap. An enumeration with values below 256 comes back as a byte.\<close>

datatype rkind = RVoid | RBool | RByte | RHalf | RWord | RWide

datatype kcall = Z_Impl string "parm list" rkind | Invoke "32 word list" "32 word list" nat rkind

definition syscall_words :: "kmode \<Rightarrow> rkind \<Rightarrow> parm list \<Rightarrow> 32 word list" where
  "syscall_words m k ps =
     parms_words (\<lambda>i. parm_words (short_enums m) (junk m i)) 0 ps @ (if k = RWide then [ret64_addr m] else [])"

definition syscall :: "kmode \<Rightarrow> string \<Rightarrow> nat \<Rightarrow> rkind \<Rightarrow> parm list \<Rightarrow> kcall" where
  "syscall m f n k ps =
     (if traps m
      then (let ws = syscall_words m k ps in
            if length ws \<le> 6 then Invoke ws [] n k else Invoke (take 5 ws) (drop 5 ws) n k)
      else Z_Impl (''z_impl_'' @ f) ps k)"

text \<open>The kernel's side, which is not part of the build output: the implementations (the bits of the value
  they return) and the trap (the value of the result register and of \<^verbatim>\<open>ret64\<close> afterwards), each on
  a state of the machine.\<close>

record 's kernel =
  z_impl :: "string \<Rightarrow> parm list \<Rightarrow> 's \<Rightarrow> 64 word \<times> 's"
  arch_syscall_invoke :: "32 word list \<Rightarrow> 32 word list \<Rightarrow> nat \<Rightarrow> 's \<Rightarrow> (32 word \<times> 64 word) \<times> 's"

datatype retv = Void | RetBool bool | Ret32 "32 word" | Ret64 "64 word"

fun returned :: "rkind \<Rightarrow> 32 word \<Rightarrow> 64 word \<Rightarrow> retv" where
  "returned RVoid w x = Void"
| "returned RBool w x = RetBool (w \<noteq> 0)"
| "returned RByte w x = Ret32 (ucast (ucast w :: 8 word))"
| "returned RHalf w x = Ret32 (ucast (ucast w :: 16 word))"
| "returned RWord w x = Ret32 w"
| "returned RWide w x = Ret64 x"

fun perform :: "'s kernel \<Rightarrow> kcall \<Rightarrow> 's \<Rightarrow> retv \<times> 's" where
  "perform K (Z_Impl f ps k) s = (case z_impl K f ps s of (v, s') \<Rightarrow> (returned k (ucast v) v, s'))"
| "perform K (Invoke regs rest n k) s =
     (case arch_syscall_invoke K regs rest n s of ((w, x), s') \<Rightarrow> (returned k w x, s'))"

section \<open>Unpacking\<close>

text \<open>What a handler has to do to get one parameter back: read the union the other way round and leave
  the words that belong to the next parameters.\<close>

fun unpack_parm :: "width \<Rightarrow> 32 word list \<Rightarrow> (parm \<times> 32 word list) option" where
  "unpack_parm W64 (lo # hi # ws) = Some (P64 (push_bit 32 (ucast hi) OR ucast lo), ws)"
| "unpack_parm W32 (w # ws) = Some (P32 w, ws)"
| "unpack_parm W16 (w # ws) = Some (P16 (ucast w), ws)"
| "unpack_parm W8 (w # ws) = Some (P8 (ucast w), ws)"
| "unpack_parm WEnum (w # ws) = Some (PEnum (ucast w), ws)"
| "unpack_parm WEnum16 (w # ws) = Some (PEnum16 (ucast w), ws)"
| "unpack_parm _ _ = None"

fun unpack :: "width list \<Rightarrow> 32 word list \<Rightarrow> (parm list \<times> 32 word list) option" where
  "unpack [] ws = Some ([], ws)"
| "unpack (f # fs) ws =
     (case unpack_parm f ws of
        None \<Rightarrow> None
      | Some (p, r) \<Rightarrow> map_option (\<lambda>(ps, r'). (p # ps, r')) (unpack fs r))"

text \<open>The contract between the packing and the unpacking of one parameter, and what it gives for a
  whole list of them.\<close>

locale parm_codec =
  fixes pack :: "nat \<Rightarrow> parm \<Rightarrow> 32 word list"
  assumes unpack_pack: "unpack_parm (width_of p) (pack i p @ r) = Some (p, r)"
begin

lemma unpack_all: "unpack (map width_of ps) (parms_words pack i ps @ r) = Some (ps, r)"
  by (induction ps arbitrary: i) (simp_all add: unpack_pack)

lemma parms_words_inj:
  "map width_of ps = map width_of qs \<Longrightarrow> parms_words pack i ps @ r = parms_words pack i qs @ r' \<Longrightarrow> ps = qs \<and> r = r'"
  by (metis unpack_all option.inject prod.inject)

end

lemma low_bits:
  "ucast (push_bit 8 (drop_bit 8 j) OR ucast b :: 32 word) = (b :: 8 word)"
  "ucast (push_bit 16 (drop_bit 16 j) OR ucast h :: 32 word) = (h :: 16 word)"
  by (rule bit_word_eqI; simp add: bit_simps)+

lemma narrow_back:
  "ucast (ucast b :: 32 word) = (b :: 8 word)" "ucast (ucast h :: 32 word) = (h :: 16 word)"
  by (rule bit_word_eqI; auto simp: bit_simps dest: bit_imp_le_length)+

lemma split_join: "push_bit 32 (ucast (ucast (drop_bit 32 w) :: 32 word)) OR ucast (ucast w :: 32 word) = (w :: 64 word)"
  by (rule bit_word_eqI) (auto simp: bit_simps dest: bit_imp_le_length)

interpretation stub: parm_codec "\<lambda>i. parm_words se (j i)" for se j
proof
  show "unpack_parm (width_of p) (parm_words se (j i) p @ r) = Some (p, r)" for p i r
    by (cases p) (simp_all add: low_bits narrow_back split_join)
qed

lemma unpack_syscall_words:
  "unpack (map width_of ps) (syscall_words m k ps) = Some (ps, if k = RWide then [ret64_addr m] else [])"
  using stub.unpack_all [of ps "short_enums m" "junk m" 0] by (simp add: syscall_words_def)

text \<open>A trap loses nothing. Whatever the mode and whatever the unspecified upper bytes hold, a stub
  either calls the implementation of its own name with its own parameters, or traps with its own
  number, at most six registers, and words from which its parameters can be read back exactly,
  64-bit and narrow ones included, followed by nothing but the address for a 64-bit result.\<close>

lemma syscall_loses_nothing:
  "case syscall m f n k ps of
     Z_Impl g qs k' \<Rightarrow> g = ''z_impl_'' @ f \<and> qs = ps \<and> k' = k \<and> \<not> traps m
   | Invoke regs rest n' k' \<Rightarrow> n' = n \<and> k' = k \<and> length regs + (if rest = [] then 0 else 1) \<le> 6 \<and>
       unpack (map width_of ps) (regs @ rest) = Some (ps, if k = RWide then [ret64_addr m] else [])"
  by (simp add: syscall_def Let_def unpack_syscall_words)

section \<open>User mode and kernel mode\<close>

text \<open>What the marshalling function of a call does, as its generator documents it: it reads the parameters
  back from the words of the trap, calls the implementation, and hands the value back in the result
  register or, for a 64-bit value, through the address that follows the parameters.\<close>

definition marshals :: "'s kernel \<Rightarrow> nat \<Rightarrow> string \<Rightarrow> rkind \<Rightarrow> width list \<Rightarrow> bool" where
  "marshals K n f k fs \<longleftrightarrow>
     (\<forall>ps regs rest r s. unpack fs (regs @ rest) = Some (ps, r) \<longrightarrow> length r = (if k = RWide then 1 else 0) \<longrightarrow>
        (\<exists>w x. arch_syscall_invoke K regs rest n s = ((w, x), snd (z_impl K (''z_impl_'' @ f) ps s)) \<and>
           (if k = RWide then x = fst (z_impl K (''z_impl_'' @ f) ps s)
            else w = ucast (fst (z_impl K (''z_impl_'' @ f) ps s)))))"

lemma marshals_trap:
  assumes "marshals K n f k (map width_of ps)" and "traps m"
  obtains w x where "perform K (syscall m f n k ps) s = (returned k w x, snd (z_impl K (''z_impl_'' @ f) ps s))"
    and "if k = RWide then x = fst (z_impl K (''z_impl_'' @ f) ps s) else w = ucast (fst (z_impl K (''z_impl_'' @ f) ps s))"
proof -
  obtain regs rest where c: "syscall m f n k ps = Invoke regs rest n k" "regs @ rest = syscall_words m k ps"
    using assms(2) by (simp add: syscall_def Let_def split: if_splits) (metis append_take_drop_id append.right_neutral)
  then have "unpack (map width_of ps) (regs @ rest) = Some (ps, if k = RWide then [ret64_addr m] else [])"
    by (simp add: unpack_syscall_words)
  moreover have "length (if k = RWide then [ret64_addr m] else []) = (if k = RWide then 1 else 0)" by simp
  ultimately obtain w x where
    "arch_syscall_invoke K regs rest n s = ((w, x), snd (z_impl K (''z_impl_'' @ f) ps s))"
    "if k = RWide then x = fst (z_impl K (''z_impl_'' @ f) ps s) else w = ucast (fst (z_impl K (''z_impl_'' @ f) ps s))"
    using assms(1) unfolding marshals_def by blast
  then show thesis using that c(1) by simp
qed

text \<open>C19. A system call does the same in user mode and in kernel mode. If the marshalling function behind
  a stub's number does what its generator documents, the trap gives the caller the value and leaves
  the state that a direct call of the implementation would, for every parameter list, every result
  kind, and whatever the unspecified bytes hold.\<close>

theorem trap_is_transparent:
  assumes "marshals K n f k (map width_of ps)"
  shows "perform K (syscall m f n k ps) s = perform K (Z_Impl (''z_impl_'' @ f) ps k) s"
proof (cases "traps m")
  case True
  obtain w x where "perform K (syscall m f n k ps) s = (returned k w x, snd (z_impl K (''z_impl_'' @ f) ps s))"
    "if k = RWide then x = fst (z_impl K (''z_impl_'' @ f) ps s) else w = ucast (fst (z_impl K (''z_impl_'' @ f) ps s))"
    using marshals_trap [OF assms True] by blast
  then show ?thesis by (cases k) (simp_all split: prod.splits)
qed (simp add: syscall_def)

text \<open>A kernel whose clock counts the ticks it is told to sleep, for one call.\<close>

definition sleep_kernel :: "64 word kernel" where
  "sleep_kernel =
     \<lparr> z_impl = (\<lambda>f ps t. case ps of [P64 d] \<Rightarrow> (0, t + d) | _ \<Rightarrow> (1, t)),
       arch_syscall_invoke = (\<lambda>regs rest n t. case unpack [W64] (regs @ rest) of
           Some ([P64 d], _) \<Rightarrow> ((0, 0), t + d) | _ \<Rightarrow> ((1, 0), t)) \<rparr>"

theorem trap_is_transparent_witness:
  "marshals sleep_kernel 86 ''k_sleep'' RWord (map width_of [P64 5]) \<and>
   perform sleep_kernel (syscall \<lparr> cfg_userspace = True, syscall_trap = True, short_enums = True,
       ret64_addr = 0, junk = (\<lambda>_. 0) \<rparr> ''k_sleep'' 86 RWord [P64 5]) 7 = (Ret32 0, 12)"
proof -
  have m: "marshals sleep_kernel 86 ''k_sleep'' RWord (map width_of [P64 5])"
    by (auto simp: marshals_def sleep_kernel_def split: option.splits elim!: unpack_parm.elims)
  then show ?thesis
    using trap_is_transparent [OF m] by (simp add: sleep_kernel_def)
qed

end
