(* ===== verification/Syscall_Table.thy ===== *)
theory Syscall_Table
  imports Prelude
begin

text \<open>
  The numbers of the system calls (\<^verbatim>\<open>syscall_list.h\<close>), the dispatch table that maps them to the
  marshalling functions, and the weak declarations of those functions (\<^verbatim>\<open>syscall_dispatch.c\<close>), all
  written by the Zephyr build under \<^verbatim>\<open>nrf52dk/sta/zephyr/include/generated/zephyr\<close>. A marshalling
  function is represented by its name; the linker's choice between it and its weak alias is \<open>resolve\<close>.
\<close>

named_theorems syscall_ids \<open>the numbers of the system calls\<close>

section \<open>Numbers\<close>

definition K_SYSCALL_DEVICE_DEINIT :: nat where [syscall_ids]: "K_SYSCALL_DEVICE_DEINIT = 0"
definition K_SYSCALL_DEVICE_GET_BINDING :: nat where [syscall_ids]: "K_SYSCALL_DEVICE_GET_BINDING = 1"
definition K_SYSCALL_DEVICE_GET_BY_DT_NODELABEL :: nat where [syscall_ids]: "K_SYSCALL_DEVICE_GET_BY_DT_NODELABEL = 2"
definition K_SYSCALL_DEVICE_INIT :: nat where [syscall_ids]: "K_SYSCALL_DEVICE_INIT = 3"
definition K_SYSCALL_DEVICE_IS_READY :: nat where [syscall_ids]: "K_SYSCALL_DEVICE_IS_READY = 4"
definition K_SYSCALL_ENTROPY_GET_ENTROPY :: nat where [syscall_ids]: "K_SYSCALL_ENTROPY_GET_ENTROPY = 5"
definition K_SYSCALL_GPIO_GET_PENDING_INT :: nat where [syscall_ids]: "K_SYSCALL_GPIO_GET_PENDING_INT = 6"
definition K_SYSCALL_GPIO_PIN_CONFIGURE :: nat where [syscall_ids]: "K_SYSCALL_GPIO_PIN_CONFIGURE = 7"
definition K_SYSCALL_GPIO_PIN_GET_CONFIG :: nat where [syscall_ids]: "K_SYSCALL_GPIO_PIN_GET_CONFIG = 8"
definition K_SYSCALL_GPIO_PIN_INTERRUPT_CONFIGURE :: nat where [syscall_ids]: "K_SYSCALL_GPIO_PIN_INTERRUPT_CONFIGURE = 9"
definition K_SYSCALL_GPIO_PORT_CLEAR_BITS_RAW :: nat where [syscall_ids]: "K_SYSCALL_GPIO_PORT_CLEAR_BITS_RAW = 10"
definition K_SYSCALL_GPIO_PORT_GET_DIRECTION :: nat where [syscall_ids]: "K_SYSCALL_GPIO_PORT_GET_DIRECTION = 11"
definition K_SYSCALL_GPIO_PORT_GET_RAW :: nat where [syscall_ids]: "K_SYSCALL_GPIO_PORT_GET_RAW = 12"
definition K_SYSCALL_GPIO_PORT_SET_BITS_RAW :: nat where [syscall_ids]: "K_SYSCALL_GPIO_PORT_SET_BITS_RAW = 13"
definition K_SYSCALL_GPIO_PORT_SET_MASKED_RAW :: nat where [syscall_ids]: "K_SYSCALL_GPIO_PORT_SET_MASKED_RAW = 14"
definition K_SYSCALL_GPIO_PORT_TOGGLE_BITS :: nat where [syscall_ids]: "K_SYSCALL_GPIO_PORT_TOGGLE_BITS = 15"
definition K_SYSCALL_HWINFO_CLEAR_RESET_CAUSE :: nat where [syscall_ids]: "K_SYSCALL_HWINFO_CLEAR_RESET_CAUSE = 16"
definition K_SYSCALL_HWINFO_GET_DEVICE_EUI64 :: nat where [syscall_ids]: "K_SYSCALL_HWINFO_GET_DEVICE_EUI64 = 17"
definition K_SYSCALL_HWINFO_GET_DEVICE_ID :: nat where [syscall_ids]: "K_SYSCALL_HWINFO_GET_DEVICE_ID = 18"
definition K_SYSCALL_HWINFO_GET_RESET_CAUSE :: nat where [syscall_ids]: "K_SYSCALL_HWINFO_GET_RESET_CAUSE = 19"
definition K_SYSCALL_HWINFO_GET_SUPPORTED_RESET_CAUSE :: nat where [syscall_ids]: "K_SYSCALL_HWINFO_GET_SUPPORTED_RESET_CAUSE = 20"
definition K_SYSCALL_K_BUSY_WAIT :: nat where [syscall_ids]: "K_SYSCALL_K_BUSY_WAIT = 21"
definition K_SYSCALL_K_CONDVAR_BROADCAST :: nat where [syscall_ids]: "K_SYSCALL_K_CONDVAR_BROADCAST = 22"
definition K_SYSCALL_K_CONDVAR_INIT :: nat where [syscall_ids]: "K_SYSCALL_K_CONDVAR_INIT = 23"
definition K_SYSCALL_K_CONDVAR_SIGNAL :: nat where [syscall_ids]: "K_SYSCALL_K_CONDVAR_SIGNAL = 24"
definition K_SYSCALL_K_CONDVAR_WAIT :: nat where [syscall_ids]: "K_SYSCALL_K_CONDVAR_WAIT = 25"
definition K_SYSCALL_K_EVENT_CLEAR :: nat where [syscall_ids]: "K_SYSCALL_K_EVENT_CLEAR = 26"
definition K_SYSCALL_K_EVENT_INIT :: nat where [syscall_ids]: "K_SYSCALL_K_EVENT_INIT = 27"
definition K_SYSCALL_K_EVENT_POST :: nat where [syscall_ids]: "K_SYSCALL_K_EVENT_POST = 28"
definition K_SYSCALL_K_EVENT_SET :: nat where [syscall_ids]: "K_SYSCALL_K_EVENT_SET = 29"
definition K_SYSCALL_K_EVENT_SET_MASKED :: nat where [syscall_ids]: "K_SYSCALL_K_EVENT_SET_MASKED = 30"
definition K_SYSCALL_K_EVENT_WAIT :: nat where [syscall_ids]: "K_SYSCALL_K_EVENT_WAIT = 31"
definition K_SYSCALL_K_EVENT_WAIT_ALL :: nat where [syscall_ids]: "K_SYSCALL_K_EVENT_WAIT_ALL = 32"
definition K_SYSCALL_K_FLOAT_DISABLE :: nat where [syscall_ids]: "K_SYSCALL_K_FLOAT_DISABLE = 33"
definition K_SYSCALL_K_FLOAT_ENABLE :: nat where [syscall_ids]: "K_SYSCALL_K_FLOAT_ENABLE = 34"
definition K_SYSCALL_K_FUTEX_WAIT :: nat where [syscall_ids]: "K_SYSCALL_K_FUTEX_WAIT = 35"
definition K_SYSCALL_K_FUTEX_WAKE :: nat where [syscall_ids]: "K_SYSCALL_K_FUTEX_WAKE = 36"
definition K_SYSCALL_K_IS_PREEMPT_THREAD :: nat where [syscall_ids]: "K_SYSCALL_K_IS_PREEMPT_THREAD = 37"
definition K_SYSCALL_K_MSGQ_ALLOC_INIT :: nat where [syscall_ids]: "K_SYSCALL_K_MSGQ_ALLOC_INIT = 38"
definition K_SYSCALL_K_MSGQ_GET :: nat where [syscall_ids]: "K_SYSCALL_K_MSGQ_GET = 39"
definition K_SYSCALL_K_MSGQ_GET_ATTRS :: nat where [syscall_ids]: "K_SYSCALL_K_MSGQ_GET_ATTRS = 40"
definition K_SYSCALL_K_MSGQ_NUM_FREE_GET :: nat where [syscall_ids]: "K_SYSCALL_K_MSGQ_NUM_FREE_GET = 41"
definition K_SYSCALL_K_MSGQ_NUM_USED_GET :: nat where [syscall_ids]: "K_SYSCALL_K_MSGQ_NUM_USED_GET = 42"
definition K_SYSCALL_K_MSGQ_PEEK :: nat where [syscall_ids]: "K_SYSCALL_K_MSGQ_PEEK = 43"
definition K_SYSCALL_K_MSGQ_PEEK_AT :: nat where [syscall_ids]: "K_SYSCALL_K_MSGQ_PEEK_AT = 44"
definition K_SYSCALL_K_MSGQ_PURGE :: nat where [syscall_ids]: "K_SYSCALL_K_MSGQ_PURGE = 45"
definition K_SYSCALL_K_MSGQ_PUT :: nat where [syscall_ids]: "K_SYSCALL_K_MSGQ_PUT = 46"
definition K_SYSCALL_K_MUTEX_INIT :: nat where [syscall_ids]: "K_SYSCALL_K_MUTEX_INIT = 47"
definition K_SYSCALL_K_MUTEX_LOCK :: nat where [syscall_ids]: "K_SYSCALL_K_MUTEX_LOCK = 48"
definition K_SYSCALL_K_MUTEX_UNLOCK :: nat where [syscall_ids]: "K_SYSCALL_K_MUTEX_UNLOCK = 49"
definition K_SYSCALL_K_OBJECT_ACCESS_GRANT :: nat where [syscall_ids]: "K_SYSCALL_K_OBJECT_ACCESS_GRANT = 50"
definition K_SYSCALL_K_OBJECT_ALLOC :: nat where [syscall_ids]: "K_SYSCALL_K_OBJECT_ALLOC = 51"
definition K_SYSCALL_K_OBJECT_ALLOC_SIZE :: nat where [syscall_ids]: "K_SYSCALL_K_OBJECT_ALLOC_SIZE = 52"
definition K_SYSCALL_K_OBJECT_RELEASE :: nat where [syscall_ids]: "K_SYSCALL_K_OBJECT_RELEASE = 53"
definition K_SYSCALL_K_PIPE_ALLOC_INIT :: nat where [syscall_ids]: "K_SYSCALL_K_PIPE_ALLOC_INIT = 54"
definition K_SYSCALL_K_PIPE_BUFFER_FLUSH :: nat where [syscall_ids]: "K_SYSCALL_K_PIPE_BUFFER_FLUSH = 55"
definition K_SYSCALL_K_PIPE_CLOSE :: nat where [syscall_ids]: "K_SYSCALL_K_PIPE_CLOSE = 56"
definition K_SYSCALL_K_PIPE_FLUSH :: nat where [syscall_ids]: "K_SYSCALL_K_PIPE_FLUSH = 57"
definition K_SYSCALL_K_PIPE_GET :: nat where [syscall_ids]: "K_SYSCALL_K_PIPE_GET = 58"
definition K_SYSCALL_K_PIPE_INIT :: nat where [syscall_ids]: "K_SYSCALL_K_PIPE_INIT = 59"
definition K_SYSCALL_K_PIPE_PUT :: nat where [syscall_ids]: "K_SYSCALL_K_PIPE_PUT = 60"
definition K_SYSCALL_K_PIPE_READ :: nat where [syscall_ids]: "K_SYSCALL_K_PIPE_READ = 61"
definition K_SYSCALL_K_PIPE_READ_AVAIL :: nat where [syscall_ids]: "K_SYSCALL_K_PIPE_READ_AVAIL = 62"
definition K_SYSCALL_K_PIPE_RESET :: nat where [syscall_ids]: "K_SYSCALL_K_PIPE_RESET = 63"
definition K_SYSCALL_K_PIPE_WRITE :: nat where [syscall_ids]: "K_SYSCALL_K_PIPE_WRITE = 64"
definition K_SYSCALL_K_PIPE_WRITE_AVAIL :: nat where [syscall_ids]: "K_SYSCALL_K_PIPE_WRITE_AVAIL = 65"
definition K_SYSCALL_K_POLL :: nat where [syscall_ids]: "K_SYSCALL_K_POLL = 66"
definition K_SYSCALL_K_POLL_SIGNAL_CHECK :: nat where [syscall_ids]: "K_SYSCALL_K_POLL_SIGNAL_CHECK = 67"
definition K_SYSCALL_K_POLL_SIGNAL_INIT :: nat where [syscall_ids]: "K_SYSCALL_K_POLL_SIGNAL_INIT = 68"
definition K_SYSCALL_K_POLL_SIGNAL_RAISE :: nat where [syscall_ids]: "K_SYSCALL_K_POLL_SIGNAL_RAISE = 69"
definition K_SYSCALL_K_POLL_SIGNAL_RESET :: nat where [syscall_ids]: "K_SYSCALL_K_POLL_SIGNAL_RESET = 70"
definition K_SYSCALL_K_QUEUE_ALLOC_APPEND :: nat where [syscall_ids]: "K_SYSCALL_K_QUEUE_ALLOC_APPEND = 71"
definition K_SYSCALL_K_QUEUE_ALLOC_PREPEND :: nat where [syscall_ids]: "K_SYSCALL_K_QUEUE_ALLOC_PREPEND = 72"
definition K_SYSCALL_K_QUEUE_CANCEL_WAIT :: nat where [syscall_ids]: "K_SYSCALL_K_QUEUE_CANCEL_WAIT = 73"
definition K_SYSCALL_K_QUEUE_GET :: nat where [syscall_ids]: "K_SYSCALL_K_QUEUE_GET = 74"
definition K_SYSCALL_K_QUEUE_INIT :: nat where [syscall_ids]: "K_SYSCALL_K_QUEUE_INIT = 75"
definition K_SYSCALL_K_QUEUE_IS_EMPTY :: nat where [syscall_ids]: "K_SYSCALL_K_QUEUE_IS_EMPTY = 76"
definition K_SYSCALL_K_QUEUE_PEEK_HEAD :: nat where [syscall_ids]: "K_SYSCALL_K_QUEUE_PEEK_HEAD = 77"
definition K_SYSCALL_K_QUEUE_PEEK_TAIL :: nat where [syscall_ids]: "K_SYSCALL_K_QUEUE_PEEK_TAIL = 78"
definition K_SYSCALL_K_RESCHEDULE :: nat where [syscall_ids]: "K_SYSCALL_K_RESCHEDULE = 79"
definition K_SYSCALL_K_SCHED_CURRENT_THREAD_QUERY :: nat where [syscall_ids]: "K_SYSCALL_K_SCHED_CURRENT_THREAD_QUERY = 80"
definition K_SYSCALL_K_SEM_COUNT_GET :: nat where [syscall_ids]: "K_SYSCALL_K_SEM_COUNT_GET = 81"
definition K_SYSCALL_K_SEM_GIVE :: nat where [syscall_ids]: "K_SYSCALL_K_SEM_GIVE = 82"
definition K_SYSCALL_K_SEM_INIT :: nat where [syscall_ids]: "K_SYSCALL_K_SEM_INIT = 83"
definition K_SYSCALL_K_SEM_RESET :: nat where [syscall_ids]: "K_SYSCALL_K_SEM_RESET = 84"
definition K_SYSCALL_K_SEM_TAKE :: nat where [syscall_ids]: "K_SYSCALL_K_SEM_TAKE = 85"
definition K_SYSCALL_K_SLEEP :: nat where [syscall_ids]: "K_SYSCALL_K_SLEEP = 86"
definition K_SYSCALL_K_STACK_ALLOC_INIT :: nat where [syscall_ids]: "K_SYSCALL_K_STACK_ALLOC_INIT = 87"
definition K_SYSCALL_K_STACK_POP :: nat where [syscall_ids]: "K_SYSCALL_K_STACK_POP = 88"
definition K_SYSCALL_K_STACK_PUSH :: nat where [syscall_ids]: "K_SYSCALL_K_STACK_PUSH = 89"
definition K_SYSCALL_K_STR_OUT :: nat where [syscall_ids]: "K_SYSCALL_K_STR_OUT = 90"
definition K_SYSCALL_K_THREAD_ABORT :: nat where [syscall_ids]: "K_SYSCALL_K_THREAD_ABORT = 91"
definition K_SYSCALL_K_THREAD_CREATE :: nat where [syscall_ids]: "K_SYSCALL_K_THREAD_CREATE = 92"
definition K_SYSCALL_K_THREAD_CUSTOM_DATA_GET :: nat where [syscall_ids]: "K_SYSCALL_K_THREAD_CUSTOM_DATA_GET = 93"
definition K_SYSCALL_K_THREAD_CUSTOM_DATA_SET :: nat where [syscall_ids]: "K_SYSCALL_K_THREAD_CUSTOM_DATA_SET = 94"
definition K_SYSCALL_K_THREAD_DEADLINE_SET :: nat where [syscall_ids]: "K_SYSCALL_K_THREAD_DEADLINE_SET = 95"
definition K_SYSCALL_K_THREAD_JOIN :: nat where [syscall_ids]: "K_SYSCALL_K_THREAD_JOIN = 96"
definition K_SYSCALL_K_THREAD_NAME_COPY :: nat where [syscall_ids]: "K_SYSCALL_K_THREAD_NAME_COPY = 97"
definition K_SYSCALL_K_THREAD_NAME_SET :: nat where [syscall_ids]: "K_SYSCALL_K_THREAD_NAME_SET = 98"
definition K_SYSCALL_K_THREAD_PRIORITY_GET :: nat where [syscall_ids]: "K_SYSCALL_K_THREAD_PRIORITY_GET = 99"
definition K_SYSCALL_K_THREAD_PRIORITY_SET :: nat where [syscall_ids]: "K_SYSCALL_K_THREAD_PRIORITY_SET = 100"
definition K_SYSCALL_K_THREAD_RESUME :: nat where [syscall_ids]: "K_SYSCALL_K_THREAD_RESUME = 101"
definition K_SYSCALL_K_THREAD_STACK_ALLOC :: nat where [syscall_ids]: "K_SYSCALL_K_THREAD_STACK_ALLOC = 102"
definition K_SYSCALL_K_THREAD_STACK_FREE :: nat where [syscall_ids]: "K_SYSCALL_K_THREAD_STACK_FREE = 103"
definition K_SYSCALL_K_THREAD_STACK_SPACE_GET :: nat where [syscall_ids]: "K_SYSCALL_K_THREAD_STACK_SPACE_GET = 104"
definition K_SYSCALL_K_THREAD_SUSPEND :: nat where [syscall_ids]: "K_SYSCALL_K_THREAD_SUSPEND = 105"
definition K_SYSCALL_K_THREAD_TIMEOUT_EXPIRES_TICKS :: nat where [syscall_ids]: "K_SYSCALL_K_THREAD_TIMEOUT_EXPIRES_TICKS = 106"
definition K_SYSCALL_K_THREAD_TIMEOUT_REMAINING_TICKS :: nat where [syscall_ids]: "K_SYSCALL_K_THREAD_TIMEOUT_REMAINING_TICKS = 107"
definition K_SYSCALL_K_TIMER_EXPIRES_TICKS :: nat where [syscall_ids]: "K_SYSCALL_K_TIMER_EXPIRES_TICKS = 108"
definition K_SYSCALL_K_TIMER_REMAINING_TICKS :: nat where [syscall_ids]: "K_SYSCALL_K_TIMER_REMAINING_TICKS = 109"
definition K_SYSCALL_K_TIMER_START :: nat where [syscall_ids]: "K_SYSCALL_K_TIMER_START = 110"
definition K_SYSCALL_K_TIMER_STATUS_GET :: nat where [syscall_ids]: "K_SYSCALL_K_TIMER_STATUS_GET = 111"
definition K_SYSCALL_K_TIMER_STATUS_SYNC :: nat where [syscall_ids]: "K_SYSCALL_K_TIMER_STATUS_SYNC = 112"
definition K_SYSCALL_K_TIMER_STOP :: nat where [syscall_ids]: "K_SYSCALL_K_TIMER_STOP = 113"
definition K_SYSCALL_K_TIMER_USER_DATA_GET :: nat where [syscall_ids]: "K_SYSCALL_K_TIMER_USER_DATA_GET = 114"
definition K_SYSCALL_K_TIMER_USER_DATA_SET :: nat where [syscall_ids]: "K_SYSCALL_K_TIMER_USER_DATA_SET = 115"
definition K_SYSCALL_K_UPTIME_TICKS :: nat where [syscall_ids]: "K_SYSCALL_K_UPTIME_TICKS = 116"
definition K_SYSCALL_K_USLEEP :: nat where [syscall_ids]: "K_SYSCALL_K_USLEEP = 117"
definition K_SYSCALL_K_WAKEUP :: nat where [syscall_ids]: "K_SYSCALL_K_WAKEUP = 118"
definition K_SYSCALL_K_YIELD :: nat where [syscall_ids]: "K_SYSCALL_K_YIELD = 119"
definition K_SYSCALL_LOG_BUFFERED_CNT :: nat where [syscall_ids]: "K_SYSCALL_LOG_BUFFERED_CNT = 120"
definition K_SYSCALL_LOG_FILTER_SET :: nat where [syscall_ids]: "K_SYSCALL_LOG_FILTER_SET = 121"
definition K_SYSCALL_LOG_FRONTEND_FILTER_SET :: nat where [syscall_ids]: "K_SYSCALL_LOG_FRONTEND_FILTER_SET = 122"
definition K_SYSCALL_LOG_PANIC :: nat where [syscall_ids]: "K_SYSCALL_LOG_PANIC = 123"
definition K_SYSCALL_LOG_PROCESS :: nat where [syscall_ids]: "K_SYSCALL_LOG_PROCESS = 124"
definition K_SYSCALL_NET_ADDR_NTOP :: nat where [syscall_ids]: "K_SYSCALL_NET_ADDR_NTOP = 125"
definition K_SYSCALL_NET_ADDR_PTON :: nat where [syscall_ids]: "K_SYSCALL_NET_ADDR_PTON = 126"
definition K_SYSCALL_NET_ETH_GET_PTP_CLOCK_BY_INDEX :: nat where [syscall_ids]: "K_SYSCALL_NET_ETH_GET_PTP_CLOCK_BY_INDEX = 127"
definition K_SYSCALL_NET_IF_GET_BY_INDEX :: nat where [syscall_ids]: "K_SYSCALL_NET_IF_GET_BY_INDEX = 128"
definition K_SYSCALL_NET_IF_IPV4_ADDR_ADD_BY_INDEX :: nat where [syscall_ids]: "K_SYSCALL_NET_IF_IPV4_ADDR_ADD_BY_INDEX = 129"
definition K_SYSCALL_NET_IF_IPV4_ADDR_LOOKUP_BY_INDEX :: nat where [syscall_ids]: "K_SYSCALL_NET_IF_IPV4_ADDR_LOOKUP_BY_INDEX = 130"
definition K_SYSCALL_NET_IF_IPV4_ADDR_RM_BY_INDEX :: nat where [syscall_ids]: "K_SYSCALL_NET_IF_IPV4_ADDR_RM_BY_INDEX = 131"
definition K_SYSCALL_NET_IF_IPV4_SET_GW_BY_INDEX :: nat where [syscall_ids]: "K_SYSCALL_NET_IF_IPV4_SET_GW_BY_INDEX = 132"
definition K_SYSCALL_NET_IF_IPV4_SET_NETMASK_BY_ADDR_BY_INDEX :: nat where [syscall_ids]: "K_SYSCALL_NET_IF_IPV4_SET_NETMASK_BY_ADDR_BY_INDEX = 133"
definition K_SYSCALL_NET_IF_IPV4_SET_NETMASK_BY_INDEX :: nat where [syscall_ids]: "K_SYSCALL_NET_IF_IPV4_SET_NETMASK_BY_INDEX = 134"
definition K_SYSCALL_NET_IF_IPV6_ADDR_ADD_BY_INDEX :: nat where [syscall_ids]: "K_SYSCALL_NET_IF_IPV6_ADDR_ADD_BY_INDEX = 135"
definition K_SYSCALL_NET_IF_IPV6_ADDR_LOOKUP_BY_INDEX :: nat where [syscall_ids]: "K_SYSCALL_NET_IF_IPV6_ADDR_LOOKUP_BY_INDEX = 136"
definition K_SYSCALL_NET_IF_IPV6_ADDR_RM_BY_INDEX :: nat where [syscall_ids]: "K_SYSCALL_NET_IF_IPV6_ADDR_RM_BY_INDEX = 137"
definition K_SYSCALL_SPI_RELEASE :: nat where [syscall_ids]: "K_SYSCALL_SPI_RELEASE = 138"
definition K_SYSCALL_SPI_TRANSCEIVE :: nat where [syscall_ids]: "K_SYSCALL_SPI_TRANSCEIVE = 139"
definition K_SYSCALL_SYS_CLOCK_HW_CYCLES_PER_SEC_RUNTIME_GET :: nat where [syscall_ids]: "K_SYSCALL_SYS_CLOCK_HW_CYCLES_PER_SEC_RUNTIME_GET = 140"
definition K_SYSCALL_SYS_CSRAND_GET :: nat where [syscall_ids]: "K_SYSCALL_SYS_CSRAND_GET = 141"
definition K_SYSCALL_SYS_RAND_GET :: nat where [syscall_ids]: "K_SYSCALL_SYS_RAND_GET = 142"
definition K_SYSCALL_UART_CONFIGURE :: nat where [syscall_ids]: "K_SYSCALL_UART_CONFIGURE = 143"
definition K_SYSCALL_UART_CONFIG_GET :: nat where [syscall_ids]: "K_SYSCALL_UART_CONFIG_GET = 144"
definition K_SYSCALL_UART_DRV_CMD :: nat where [syscall_ids]: "K_SYSCALL_UART_DRV_CMD = 145"
definition K_SYSCALL_UART_ERR_CHECK :: nat where [syscall_ids]: "K_SYSCALL_UART_ERR_CHECK = 146"
definition K_SYSCALL_UART_IRQ_ERR_DISABLE :: nat where [syscall_ids]: "K_SYSCALL_UART_IRQ_ERR_DISABLE = 147"
definition K_SYSCALL_UART_IRQ_ERR_ENABLE :: nat where [syscall_ids]: "K_SYSCALL_UART_IRQ_ERR_ENABLE = 148"
definition K_SYSCALL_UART_IRQ_IS_PENDING :: nat where [syscall_ids]: "K_SYSCALL_UART_IRQ_IS_PENDING = 149"
definition K_SYSCALL_UART_IRQ_RX_DISABLE :: nat where [syscall_ids]: "K_SYSCALL_UART_IRQ_RX_DISABLE = 150"
definition K_SYSCALL_UART_IRQ_RX_ENABLE :: nat where [syscall_ids]: "K_SYSCALL_UART_IRQ_RX_ENABLE = 151"
definition K_SYSCALL_UART_IRQ_TX_DISABLE :: nat where [syscall_ids]: "K_SYSCALL_UART_IRQ_TX_DISABLE = 152"
definition K_SYSCALL_UART_IRQ_TX_ENABLE :: nat where [syscall_ids]: "K_SYSCALL_UART_IRQ_TX_ENABLE = 153"
definition K_SYSCALL_UART_IRQ_UPDATE :: nat where [syscall_ids]: "K_SYSCALL_UART_IRQ_UPDATE = 154"
definition K_SYSCALL_UART_LINE_CTRL_GET :: nat where [syscall_ids]: "K_SYSCALL_UART_LINE_CTRL_GET = 155"
definition K_SYSCALL_UART_LINE_CTRL_SET :: nat where [syscall_ids]: "K_SYSCALL_UART_LINE_CTRL_SET = 156"
definition K_SYSCALL_UART_POLL_IN :: nat where [syscall_ids]: "K_SYSCALL_UART_POLL_IN = 157"
definition K_SYSCALL_UART_POLL_IN_U16 :: nat where [syscall_ids]: "K_SYSCALL_UART_POLL_IN_U16 = 158"
definition K_SYSCALL_UART_POLL_OUT :: nat where [syscall_ids]: "K_SYSCALL_UART_POLL_OUT = 159"
definition K_SYSCALL_UART_POLL_OUT_U16 :: nat where [syscall_ids]: "K_SYSCALL_UART_POLL_OUT_U16 = 160"
definition K_SYSCALL_UART_RX_DISABLE :: nat where [syscall_ids]: "K_SYSCALL_UART_RX_DISABLE = 161"
definition K_SYSCALL_UART_RX_ENABLE :: nat where [syscall_ids]: "K_SYSCALL_UART_RX_ENABLE = 162"
definition K_SYSCALL_UART_RX_ENABLE_U16 :: nat where [syscall_ids]: "K_SYSCALL_UART_RX_ENABLE_U16 = 163"
definition K_SYSCALL_UART_TX :: nat where [syscall_ids]: "K_SYSCALL_UART_TX = 164"
definition K_SYSCALL_UART_TX_ABORT :: nat where [syscall_ids]: "K_SYSCALL_UART_TX_ABORT = 165"
definition K_SYSCALL_UART_TX_U16 :: nat where [syscall_ids]: "K_SYSCALL_UART_TX_U16 = 166"
definition K_SYSCALL_ZEPHYR_FPUTC :: nat where [syscall_ids]: "K_SYSCALL_ZEPHYR_FPUTC = 167"
definition K_SYSCALL_ZEPHYR_FWRITE :: nat where [syscall_ids]: "K_SYSCALL_ZEPHYR_FWRITE = 168"
definition K_SYSCALL_ZEPHYR_READ_STDIN :: nat where [syscall_ids]: "K_SYSCALL_ZEPHYR_READ_STDIN = 169"
definition K_SYSCALL_ZEPHYR_WRITE_STDOUT :: nat where [syscall_ids]: "K_SYSCALL_ZEPHYR_WRITE_STDOUT = 170"
definition K_SYSCALL_ZSOCK_ACCEPT :: nat where [syscall_ids]: "K_SYSCALL_ZSOCK_ACCEPT = 171"
definition K_SYSCALL_ZSOCK_BIND :: nat where [syscall_ids]: "K_SYSCALL_ZSOCK_BIND = 172"
definition K_SYSCALL_ZSOCK_CLOSE :: nat where [syscall_ids]: "K_SYSCALL_ZSOCK_CLOSE = 173"
definition K_SYSCALL_ZSOCK_CONNECT :: nat where [syscall_ids]: "K_SYSCALL_ZSOCK_CONNECT = 174"
definition K_SYSCALL_ZSOCK_FCNTL_IMPL :: nat where [syscall_ids]: "K_SYSCALL_ZSOCK_FCNTL_IMPL = 175"
definition K_SYSCALL_ZSOCK_GETHOSTNAME :: nat where [syscall_ids]: "K_SYSCALL_ZSOCK_GETHOSTNAME = 176"
definition K_SYSCALL_ZSOCK_GETPEERNAME :: nat where [syscall_ids]: "K_SYSCALL_ZSOCK_GETPEERNAME = 177"
definition K_SYSCALL_ZSOCK_GETSOCKNAME :: nat where [syscall_ids]: "K_SYSCALL_ZSOCK_GETSOCKNAME = 178"
definition K_SYSCALL_ZSOCK_GETSOCKOPT :: nat where [syscall_ids]: "K_SYSCALL_ZSOCK_GETSOCKOPT = 179"
definition K_SYSCALL_ZSOCK_GET_CONTEXT_OBJECT :: nat where [syscall_ids]: "K_SYSCALL_ZSOCK_GET_CONTEXT_OBJECT = 180"
definition K_SYSCALL_ZSOCK_INET_PTON :: nat where [syscall_ids]: "K_SYSCALL_ZSOCK_INET_PTON = 181"
definition K_SYSCALL_ZSOCK_IOCTL_IMPL :: nat where [syscall_ids]: "K_SYSCALL_ZSOCK_IOCTL_IMPL = 182"
definition K_SYSCALL_ZSOCK_LISTEN :: nat where [syscall_ids]: "K_SYSCALL_ZSOCK_LISTEN = 183"
definition K_SYSCALL_ZSOCK_RECVFROM :: nat where [syscall_ids]: "K_SYSCALL_ZSOCK_RECVFROM = 184"
definition K_SYSCALL_ZSOCK_RECVMSG :: nat where [syscall_ids]: "K_SYSCALL_ZSOCK_RECVMSG = 185"
definition K_SYSCALL_ZSOCK_SENDMSG :: nat where [syscall_ids]: "K_SYSCALL_ZSOCK_SENDMSG = 186"
definition K_SYSCALL_ZSOCK_SENDTO :: nat where [syscall_ids]: "K_SYSCALL_ZSOCK_SENDTO = 187"
definition K_SYSCALL_ZSOCK_SETSOCKOPT :: nat where [syscall_ids]: "K_SYSCALL_ZSOCK_SETSOCKOPT = 188"
definition K_SYSCALL_ZSOCK_SHUTDOWN :: nat where [syscall_ids]: "K_SYSCALL_ZSOCK_SHUTDOWN = 189"
definition K_SYSCALL_ZSOCK_SOCKET :: nat where [syscall_ids]: "K_SYSCALL_ZSOCK_SOCKET = 190"
definition K_SYSCALL_ZSOCK_SOCKETPAIR :: nat where [syscall_ids]: "K_SYSCALL_ZSOCK_SOCKETPAIR = 191"
definition K_SYSCALL_ZVFS_POLL :: nat where [syscall_ids]: "K_SYSCALL_ZVFS_POLL = 192"
definition K_SYSCALL_ZVFS_SELECT :: nat where [syscall_ids]: "K_SYSCALL_ZVFS_SELECT = 193"
definition K_SYSCALL_Z_LOG_MSG_SIMPLE_CREATE_0 :: nat where [syscall_ids]: "K_SYSCALL_Z_LOG_MSG_SIMPLE_CREATE_0 = 194"
definition K_SYSCALL_Z_LOG_MSG_SIMPLE_CREATE_1 :: nat where [syscall_ids]: "K_SYSCALL_Z_LOG_MSG_SIMPLE_CREATE_1 = 195"
definition K_SYSCALL_Z_LOG_MSG_SIMPLE_CREATE_2 :: nat where [syscall_ids]: "K_SYSCALL_Z_LOG_MSG_SIMPLE_CREATE_2 = 196"
definition K_SYSCALL_Z_LOG_MSG_STATIC_CREATE :: nat where [syscall_ids]: "K_SYSCALL_Z_LOG_MSG_STATIC_CREATE = 197"
definition K_SYSCALL_Z_SYS_MUTEX_KERNEL_LOCK :: nat where [syscall_ids]: "K_SYSCALL_Z_SYS_MUTEX_KERNEL_LOCK = 198"
definition K_SYSCALL_Z_SYS_MUTEX_KERNEL_UNLOCK :: nat where [syscall_ids]: "K_SYSCALL_Z_SYS_MUTEX_KERNEL_UNLOCK = 199"
definition K_SYSCALL_Z_ZSOCK_GETADDRINFO_INTERNAL :: nat where [syscall_ids]: "K_SYSCALL_Z_ZSOCK_GETADDRINFO_INTERNAL = 200"
definition K_SYSCALL___POSIX_CLOCK_GET_BASE :: nat where [syscall_ids]: "K_SYSCALL___POSIX_CLOCK_GET_BASE = 201"
definition K_SYSCALL_BAD :: nat where [syscall_ids]: "K_SYSCALL_BAD = 202"
definition K_SYSCALL_LIMIT :: nat where [syscall_ids]: "K_SYSCALL_LIMIT = 203"

section \<open>The dispatch table\<close>

definition syscall_table_1 :: "(nat \<times> string) list" where
  "syscall_table_1 = [
     (K_SYSCALL_ZEPHYR_READ_STDIN, ''z_mrsh_zephyr_read_stdin''),
     (K_SYSCALL_ZEPHYR_WRITE_STDOUT, ''z_mrsh_zephyr_write_stdout''),
     (K_SYSCALL_ZEPHYR_FPUTC, ''z_mrsh_zephyr_fputc''),
     (K_SYSCALL_ZEPHYR_FWRITE, ''z_mrsh_zephyr_fwrite''),
     (K_SYSCALL___POSIX_CLOCK_GET_BASE, ''z_mrsh___posix_clock_get_base''),
     (K_SYSCALL_Z_SYS_MUTEX_KERNEL_LOCK, ''z_mrsh_z_sys_mutex_kernel_lock''),
     (K_SYSCALL_Z_SYS_MUTEX_KERNEL_UNLOCK, ''z_mrsh_z_sys_mutex_kernel_unlock''),
     (K_SYSCALL_ZVFS_POLL, ''z_mrsh_zvfs_poll''),
     (K_SYSCALL_ZVFS_SELECT, ''z_mrsh_zvfs_select''),
     (K_SYSCALL_Z_LOG_MSG_SIMPLE_CREATE_0, ''z_mrsh_z_log_msg_simple_create_0''),
     (K_SYSCALL_Z_LOG_MSG_SIMPLE_CREATE_1, ''z_mrsh_z_log_msg_simple_create_1''),
     (K_SYSCALL_Z_LOG_MSG_SIMPLE_CREATE_2, ''z_mrsh_z_log_msg_simple_create_2''),
     (K_SYSCALL_Z_LOG_MSG_STATIC_CREATE, ''z_mrsh_z_log_msg_static_create''),
     (K_SYSCALL_LOG_PANIC, ''z_mrsh_log_panic''),
     (K_SYSCALL_LOG_PROCESS, ''z_mrsh_log_process''),
     (K_SYSCALL_LOG_BUFFERED_CNT, ''z_mrsh_log_buffered_cnt''),
     (K_SYSCALL_LOG_FILTER_SET, ''z_mrsh_log_filter_set''),
     (K_SYSCALL_LOG_FRONTEND_FILTER_SET, ''z_mrsh_log_frontend_filter_set''),
     (K_SYSCALL_SYS_RAND_GET, ''z_mrsh_sys_rand_get''),
     (K_SYSCALL_SYS_CSRAND_GET, ''z_mrsh_sys_csrand_get''),
     (K_SYSCALL_NET_ETH_GET_PTP_CLOCK_BY_INDEX, ''z_mrsh_net_eth_get_ptp_clock_by_index''),
     (K_SYSCALL_NET_IF_IPV6_ADDR_LOOKUP_BY_INDEX, ''z_mrsh_net_if_ipv6_addr_lookup_by_index''),
     (K_SYSCALL_NET_IF_IPV6_ADDR_ADD_BY_INDEX, ''z_mrsh_net_if_ipv6_addr_add_by_index''),
     (K_SYSCALL_NET_IF_IPV6_ADDR_RM_BY_INDEX, ''z_mrsh_net_if_ipv6_addr_rm_by_index''),
     (K_SYSCALL_NET_IF_IPV4_ADDR_LOOKUP_BY_INDEX, ''z_mrsh_net_if_ipv4_addr_lookup_by_index''),
     (K_SYSCALL_NET_IF_IPV4_ADDR_ADD_BY_INDEX, ''z_mrsh_net_if_ipv4_addr_add_by_index''),
     (K_SYSCALL_NET_IF_IPV4_ADDR_RM_BY_INDEX, ''z_mrsh_net_if_ipv4_addr_rm_by_index''),
     (K_SYSCALL_NET_IF_IPV4_SET_NETMASK_BY_INDEX, ''z_mrsh_net_if_ipv4_set_netmask_by_index''),
     (K_SYSCALL_NET_IF_IPV4_SET_NETMASK_BY_ADDR_BY_INDEX, ''z_mrsh_net_if_ipv4_set_netmask_by_addr_by_index''),
     (K_SYSCALL_NET_IF_IPV4_SET_GW_BY_INDEX, ''z_mrsh_net_if_ipv4_set_gw_by_index''),
     (K_SYSCALL_NET_IF_GET_BY_INDEX, ''z_mrsh_net_if_get_by_index''),
     (K_SYSCALL_NET_ADDR_PTON, ''z_mrsh_net_addr_pton''),
     (K_SYSCALL_NET_ADDR_NTOP, ''z_mrsh_net_addr_ntop''),
     (K_SYSCALL_ZSOCK_GET_CONTEXT_OBJECT, ''z_mrsh_zsock_get_context_object''),
     (K_SYSCALL_ZSOCK_SOCKET, ''z_mrsh_zsock_socket''),
     (K_SYSCALL_ZSOCK_SOCKETPAIR, ''z_mrsh_zsock_socketpair''),
     (K_SYSCALL_ZSOCK_CLOSE, ''z_mrsh_zsock_close''),
     (K_SYSCALL_ZSOCK_SHUTDOWN, ''z_mrsh_zsock_shutdown''),
     (K_SYSCALL_ZSOCK_BIND, ''z_mrsh_zsock_bind''),
     (K_SYSCALL_ZSOCK_CONNECT, ''z_mrsh_zsock_connect''),
     (K_SYSCALL_ZSOCK_LISTEN, ''z_mrsh_zsock_listen''),
     (K_SYSCALL_ZSOCK_ACCEPT, ''z_mrsh_zsock_accept''),
     (K_SYSCALL_ZSOCK_SENDTO, ''z_mrsh_zsock_sendto''),
     (K_SYSCALL_ZSOCK_SENDMSG, ''z_mrsh_zsock_sendmsg''),
     (K_SYSCALL_ZSOCK_RECVFROM, ''z_mrsh_zsock_recvfrom''),
     (K_SYSCALL_ZSOCK_RECVMSG, ''z_mrsh_zsock_recvmsg''),
     (K_SYSCALL_ZSOCK_FCNTL_IMPL, ''z_mrsh_zsock_fcntl_impl''),
     (K_SYSCALL_ZSOCK_IOCTL_IMPL, ''z_mrsh_zsock_ioctl_impl''),
     (K_SYSCALL_ZSOCK_GETSOCKOPT, ''z_mrsh_zsock_getsockopt''),
     (K_SYSCALL_ZSOCK_SETSOCKOPT, ''z_mrsh_zsock_setsockopt''),
     (K_SYSCALL_ZSOCK_GETPEERNAME, ''z_mrsh_zsock_getpeername''),
     (K_SYSCALL_ZSOCK_GETSOCKNAME, ''z_mrsh_zsock_getsockname''),
     (K_SYSCALL_ZSOCK_GETHOSTNAME, ''z_mrsh_zsock_gethostname''),
     (K_SYSCALL_ZSOCK_INET_PTON, ''z_mrsh_zsock_inet_pton''),
     (K_SYSCALL_Z_ZSOCK_GETADDRINFO_INTERNAL, ''z_mrsh_z_zsock_getaddrinfo_internal''),
     (K_SYSCALL_ENTROPY_GET_ENTROPY, ''z_mrsh_entropy_get_entropy''),
     (K_SYSCALL_GPIO_PIN_INTERRUPT_CONFIGURE, ''z_mrsh_gpio_pin_interrupt_configure''),
     (K_SYSCALL_GPIO_PIN_CONFIGURE, ''z_mrsh_gpio_pin_configure''),
     (K_SYSCALL_GPIO_PORT_GET_DIRECTION, ''z_mrsh_gpio_port_get_direction''),
     (K_SYSCALL_GPIO_PIN_GET_CONFIG, ''z_mrsh_gpio_pin_get_config''),
     (K_SYSCALL_GPIO_PORT_GET_RAW, ''z_mrsh_gpio_port_get_raw''),
     (K_SYSCALL_GPIO_PORT_SET_MASKED_RAW, ''z_mrsh_gpio_port_set_masked_raw''),
     (K_SYSCALL_GPIO_PORT_SET_BITS_RAW, ''z_mrsh_gpio_port_set_bits_raw''),
     (K_SYSCALL_GPIO_PORT_CLEAR_BITS_RAW, ''z_mrsh_gpio_port_clear_bits_raw''),
     (K_SYSCALL_GPIO_PORT_TOGGLE_BITS, ''z_mrsh_gpio_port_toggle_bits''),
     (K_SYSCALL_GPIO_GET_PENDING_INT, ''z_mrsh_gpio_get_pending_int''),
     (K_SYSCALL_HWINFO_GET_DEVICE_ID, ''z_mrsh_hwinfo_get_device_id''),
     (K_SYSCALL_HWINFO_GET_DEVICE_EUI64, ''z_mrsh_hwinfo_get_device_eui64''),
     (K_SYSCALL_HWINFO_GET_RESET_CAUSE, ''z_mrsh_hwinfo_get_reset_cause''),
     (K_SYSCALL_HWINFO_CLEAR_RESET_CAUSE, ''z_mrsh_hwinfo_clear_reset_cause''),
     (K_SYSCALL_HWINFO_GET_SUPPORTED_RESET_CAUSE, ''z_mrsh_hwinfo_get_supported_reset_cause''),
     (K_SYSCALL_UART_ERR_CHECK, ''z_mrsh_uart_err_check''),
     (K_SYSCALL_UART_POLL_IN, ''z_mrsh_uart_poll_in''),
     (K_SYSCALL_UART_POLL_IN_U16, ''z_mrsh_uart_poll_in_u16''),
     (K_SYSCALL_UART_POLL_OUT, ''z_mrsh_uart_poll_out''),
     (K_SYSCALL_UART_POLL_OUT_U16, ''z_mrsh_uart_poll_out_u16''),
     (K_SYSCALL_UART_CONFIGURE, ''z_mrsh_uart_configure''),
     (K_SYSCALL_UART_CONFIG_GET, ''z_mrsh_uart_config_get''),
     (K_SYSCALL_UART_IRQ_TX_ENABLE, ''z_mrsh_uart_irq_tx_enable''),
     (K_SYSCALL_UART_IRQ_TX_DISABLE, ''z_mrsh_uart_irq_tx_disable''),
     (K_SYSCALL_UART_IRQ_RX_ENABLE, ''z_mrsh_uart_irq_rx_enable''),
     (K_SYSCALL_UART_IRQ_RX_DISABLE, ''z_mrsh_uart_irq_rx_disable''),
     (K_SYSCALL_UART_IRQ_ERR_ENABLE, ''z_mrsh_uart_irq_err_enable''),
     (K_SYSCALL_UART_IRQ_ERR_DISABLE, ''z_mrsh_uart_irq_err_disable''),
     (K_SYSCALL_UART_IRQ_IS_PENDING, ''z_mrsh_uart_irq_is_pending''),
     (K_SYSCALL_UART_IRQ_UPDATE, ''z_mrsh_uart_irq_update''),
     (K_SYSCALL_UART_TX, ''z_mrsh_uart_tx''),
     (K_SYSCALL_UART_TX_U16, ''z_mrsh_uart_tx_u16''),
     (K_SYSCALL_UART_TX_ABORT, ''z_mrsh_uart_tx_abort''),
     (K_SYSCALL_UART_RX_ENABLE, ''z_mrsh_uart_rx_enable''),
     (K_SYSCALL_UART_RX_ENABLE_U16, ''z_mrsh_uart_rx_enable_u16''),
     (K_SYSCALL_UART_RX_DISABLE, ''z_mrsh_uart_rx_disable''),
     (K_SYSCALL_UART_LINE_CTRL_SET, ''z_mrsh_uart_line_ctrl_set''),
     (K_SYSCALL_UART_LINE_CTRL_GET, ''z_mrsh_uart_line_ctrl_get''),
     (K_SYSCALL_UART_DRV_CMD, ''z_mrsh_uart_drv_cmd''),
     (K_SYSCALL_SPI_TRANSCEIVE, ''z_mrsh_spi_transceive''),
     (K_SYSCALL_SPI_RELEASE, ''z_mrsh_spi_release''),
     (K_SYSCALL_DEVICE_GET_BINDING, ''z_mrsh_device_get_binding''),
     (K_SYSCALL_DEVICE_IS_READY, ''z_mrsh_device_is_ready''),
     (K_SYSCALL_DEVICE_INIT, ''z_mrsh_device_init''),
     (K_SYSCALL_DEVICE_DEINIT, ''z_mrsh_device_deinit''),
     (K_SYSCALL_DEVICE_GET_BY_DT_NODELABEL, ''z_mrsh_device_get_by_dt_nodelabel'')]"

definition syscall_table_2 :: "(nat \<times> string) list" where
  "syscall_table_2 = [
     (K_SYSCALL_K_THREAD_STACK_ALLOC, ''z_mrsh_k_thread_stack_alloc''),
     (K_SYSCALL_K_THREAD_STACK_FREE, ''z_mrsh_k_thread_stack_free''),
     (K_SYSCALL_K_THREAD_CREATE, ''z_mrsh_k_thread_create''),
     (K_SYSCALL_K_THREAD_STACK_SPACE_GET, ''z_mrsh_k_thread_stack_space_get''),
     (K_SYSCALL_K_THREAD_JOIN, ''z_mrsh_k_thread_join''),
     (K_SYSCALL_K_SLEEP, ''z_mrsh_k_sleep''),
     (K_SYSCALL_K_USLEEP, ''z_mrsh_k_usleep''),
     (K_SYSCALL_K_BUSY_WAIT, ''z_mrsh_k_busy_wait''),
     (K_SYSCALL_K_YIELD, ''z_mrsh_k_yield''),
     (K_SYSCALL_K_WAKEUP, ''z_mrsh_k_wakeup''),
     (K_SYSCALL_K_SCHED_CURRENT_THREAD_QUERY, ''z_mrsh_k_sched_current_thread_query''),
     (K_SYSCALL_K_THREAD_ABORT, ''z_mrsh_k_thread_abort''),
     (K_SYSCALL_K_THREAD_TIMEOUT_EXPIRES_TICKS, ''z_mrsh_k_thread_timeout_expires_ticks''),
     (K_SYSCALL_K_THREAD_TIMEOUT_REMAINING_TICKS, ''z_mrsh_k_thread_timeout_remaining_ticks''),
     (K_SYSCALL_K_THREAD_PRIORITY_GET, ''z_mrsh_k_thread_priority_get''),
     (K_SYSCALL_K_THREAD_PRIORITY_SET, ''z_mrsh_k_thread_priority_set''),
     (K_SYSCALL_K_THREAD_DEADLINE_SET, ''z_mrsh_k_thread_deadline_set''),
     (K_SYSCALL_K_RESCHEDULE, ''z_mrsh_k_reschedule''),
     (K_SYSCALL_K_THREAD_SUSPEND, ''z_mrsh_k_thread_suspend''),
     (K_SYSCALL_K_THREAD_RESUME, ''z_mrsh_k_thread_resume''),
     (K_SYSCALL_K_IS_PREEMPT_THREAD, ''z_mrsh_k_is_preempt_thread''),
     (K_SYSCALL_K_THREAD_CUSTOM_DATA_SET, ''z_mrsh_k_thread_custom_data_set''),
     (K_SYSCALL_K_THREAD_CUSTOM_DATA_GET, ''z_mrsh_k_thread_custom_data_get''),
     (K_SYSCALL_K_THREAD_NAME_SET, ''z_mrsh_k_thread_name_set''),
     (K_SYSCALL_K_THREAD_NAME_COPY, ''z_mrsh_k_thread_name_copy''),
     (K_SYSCALL_K_TIMER_START, ''z_mrsh_k_timer_start''),
     (K_SYSCALL_K_TIMER_STOP, ''z_mrsh_k_timer_stop''),
     (K_SYSCALL_K_TIMER_STATUS_GET, ''z_mrsh_k_timer_status_get''),
     (K_SYSCALL_K_TIMER_STATUS_SYNC, ''z_mrsh_k_timer_status_sync''),
     (K_SYSCALL_K_TIMER_EXPIRES_TICKS, ''z_mrsh_k_timer_expires_ticks''),
     (K_SYSCALL_K_TIMER_REMAINING_TICKS, ''z_mrsh_k_timer_remaining_ticks''),
     (K_SYSCALL_K_TIMER_USER_DATA_SET, ''z_mrsh_k_timer_user_data_set''),
     (K_SYSCALL_K_TIMER_USER_DATA_GET, ''z_mrsh_k_timer_user_data_get''),
     (K_SYSCALL_K_UPTIME_TICKS, ''z_mrsh_k_uptime_ticks''),
     (K_SYSCALL_K_QUEUE_INIT, ''z_mrsh_k_queue_init''),
     (K_SYSCALL_K_QUEUE_CANCEL_WAIT, ''z_mrsh_k_queue_cancel_wait''),
     (K_SYSCALL_K_QUEUE_ALLOC_APPEND, ''z_mrsh_k_queue_alloc_append''),
     (K_SYSCALL_K_QUEUE_ALLOC_PREPEND, ''z_mrsh_k_queue_alloc_prepend''),
     (K_SYSCALL_K_QUEUE_GET, ''z_mrsh_k_queue_get''),
     (K_SYSCALL_K_QUEUE_IS_EMPTY, ''z_mrsh_k_queue_is_empty''),
     (K_SYSCALL_K_QUEUE_PEEK_HEAD, ''z_mrsh_k_queue_peek_head''),
     (K_SYSCALL_K_QUEUE_PEEK_TAIL, ''z_mrsh_k_queue_peek_tail''),
     (K_SYSCALL_K_FUTEX_WAIT, ''z_mrsh_k_futex_wait''),
     (K_SYSCALL_K_FUTEX_WAKE, ''z_mrsh_k_futex_wake''),
     (K_SYSCALL_K_EVENT_INIT, ''z_mrsh_k_event_init''),
     (K_SYSCALL_K_EVENT_POST, ''z_mrsh_k_event_post''),
     (K_SYSCALL_K_EVENT_SET, ''z_mrsh_k_event_set''),
     (K_SYSCALL_K_EVENT_SET_MASKED, ''z_mrsh_k_event_set_masked''),
     (K_SYSCALL_K_EVENT_CLEAR, ''z_mrsh_k_event_clear''),
     (K_SYSCALL_K_EVENT_WAIT, ''z_mrsh_k_event_wait''),
     (K_SYSCALL_K_EVENT_WAIT_ALL, ''z_mrsh_k_event_wait_all''),
     (K_SYSCALL_K_STACK_ALLOC_INIT, ''z_mrsh_k_stack_alloc_init''),
     (K_SYSCALL_K_STACK_PUSH, ''z_mrsh_k_stack_push''),
     (K_SYSCALL_K_STACK_POP, ''z_mrsh_k_stack_pop''),
     (K_SYSCALL_K_MUTEX_INIT, ''z_mrsh_k_mutex_init''),
     (K_SYSCALL_K_MUTEX_LOCK, ''z_mrsh_k_mutex_lock''),
     (K_SYSCALL_K_MUTEX_UNLOCK, ''z_mrsh_k_mutex_unlock''),
     (K_SYSCALL_K_CONDVAR_INIT, ''z_mrsh_k_condvar_init''),
     (K_SYSCALL_K_CONDVAR_SIGNAL, ''z_mrsh_k_condvar_signal''),
     (K_SYSCALL_K_CONDVAR_BROADCAST, ''z_mrsh_k_condvar_broadcast''),
     (K_SYSCALL_K_CONDVAR_WAIT, ''z_mrsh_k_condvar_wait''),
     (K_SYSCALL_K_SEM_INIT, ''z_mrsh_k_sem_init''),
     (K_SYSCALL_K_SEM_TAKE, ''z_mrsh_k_sem_take''),
     (K_SYSCALL_K_SEM_GIVE, ''z_mrsh_k_sem_give''),
     (K_SYSCALL_K_SEM_RESET, ''z_mrsh_k_sem_reset''),
     (K_SYSCALL_K_SEM_COUNT_GET, ''z_mrsh_k_sem_count_get''),
     (K_SYSCALL_K_MSGQ_ALLOC_INIT, ''z_mrsh_k_msgq_alloc_init''),
     (K_SYSCALL_K_MSGQ_PUT, ''z_mrsh_k_msgq_put''),
     (K_SYSCALL_K_MSGQ_GET, ''z_mrsh_k_msgq_get''),
     (K_SYSCALL_K_MSGQ_PEEK, ''z_mrsh_k_msgq_peek''),
     (K_SYSCALL_K_MSGQ_PEEK_AT, ''z_mrsh_k_msgq_peek_at''),
     (K_SYSCALL_K_MSGQ_PURGE, ''z_mrsh_k_msgq_purge''),
     (K_SYSCALL_K_MSGQ_NUM_FREE_GET, ''z_mrsh_k_msgq_num_free_get''),
     (K_SYSCALL_K_MSGQ_GET_ATTRS, ''z_mrsh_k_msgq_get_attrs''),
     (K_SYSCALL_K_MSGQ_NUM_USED_GET, ''z_mrsh_k_msgq_num_used_get''),
     (K_SYSCALL_K_PIPE_INIT, ''z_mrsh_k_pipe_init''),
     (K_SYSCALL_K_PIPE_ALLOC_INIT, ''z_mrsh_k_pipe_alloc_init''),
     (K_SYSCALL_K_PIPE_PUT, ''z_mrsh_k_pipe_put''),
     (K_SYSCALL_K_PIPE_GET, ''z_mrsh_k_pipe_get''),
     (K_SYSCALL_K_PIPE_READ_AVAIL, ''z_mrsh_k_pipe_read_avail''),
     (K_SYSCALL_K_PIPE_WRITE_AVAIL, ''z_mrsh_k_pipe_write_avail''),
     (K_SYSCALL_K_PIPE_FLUSH, ''z_mrsh_k_pipe_flush''),
     (K_SYSCALL_K_PIPE_BUFFER_FLUSH, ''z_mrsh_k_pipe_buffer_flush''),
     (K_SYSCALL_K_PIPE_WRITE, ''z_mrsh_k_pipe_write''),
     (K_SYSCALL_K_PIPE_READ, ''z_mrsh_k_pipe_read''),
     (K_SYSCALL_K_PIPE_RESET, ''z_mrsh_k_pipe_reset''),
     (K_SYSCALL_K_PIPE_CLOSE, ''z_mrsh_k_pipe_close''),
     (K_SYSCALL_K_POLL, ''z_mrsh_k_poll''),
     (K_SYSCALL_K_POLL_SIGNAL_INIT, ''z_mrsh_k_poll_signal_init''),
     (K_SYSCALL_K_POLL_SIGNAL_RESET, ''z_mrsh_k_poll_signal_reset''),
     (K_SYSCALL_K_POLL_SIGNAL_CHECK, ''z_mrsh_k_poll_signal_check''),
     (K_SYSCALL_K_POLL_SIGNAL_RAISE, ''z_mrsh_k_poll_signal_raise''),
     (K_SYSCALL_K_STR_OUT, ''z_mrsh_k_str_out''),
     (K_SYSCALL_K_FLOAT_DISABLE, ''z_mrsh_k_float_disable''),
     (K_SYSCALL_K_FLOAT_ENABLE, ''z_mrsh_k_float_enable''),
     (K_SYSCALL_K_OBJECT_ACCESS_GRANT, ''z_mrsh_k_object_access_grant''),
     (K_SYSCALL_K_OBJECT_RELEASE, ''z_mrsh_k_object_release''),
     (K_SYSCALL_K_OBJECT_ALLOC, ''z_mrsh_k_object_alloc''),
     (K_SYSCALL_K_OBJECT_ALLOC_SIZE, ''z_mrsh_k_object_alloc_size''),
     (K_SYSCALL_SYS_CLOCK_HW_CYCLES_PER_SEC_RUNTIME_GET, ''z_mrsh_sys_clock_hw_cycles_per_sec_runtime_get''),
     (K_SYSCALL_BAD, ''handler_bad_syscall'')]"

definition syscall_table :: "(nat \<times> string) list" where
  "syscall_table = syscall_table_1 @ syscall_table_2"

section \<open>Weak handlers\<close>

text \<open>Each of these is declared as a weak alias of \<^verbatim>\<open>handler_no_syscall\<close>, so that a call that the
  configuration leaves out still has a handler; the three external ones have no such alias.\<close>

definition weak_handlers_1 :: "string list" where
  "weak_handlers_1 = [
     ''z_mrsh_zephyr_read_stdin'', ''z_mrsh_zephyr_write_stdout'', ''z_mrsh_zephyr_fputc'',
     ''z_mrsh_zephyr_fwrite'', ''z_mrsh___posix_clock_get_base'',
     ''z_mrsh_z_sys_mutex_kernel_lock'', ''z_mrsh_z_sys_mutex_kernel_unlock'', ''z_mrsh_zvfs_poll'',
     ''z_mrsh_zvfs_select'', ''z_mrsh_z_log_msg_simple_create_0'',
     ''z_mrsh_z_log_msg_simple_create_1'', ''z_mrsh_z_log_msg_simple_create_2'',
     ''z_mrsh_z_log_msg_static_create'', ''z_mrsh_log_panic'', ''z_mrsh_log_process'',
     ''z_mrsh_log_buffered_cnt'', ''z_mrsh_log_filter_set'', ''z_mrsh_log_frontend_filter_set'',
     ''z_mrsh_sys_rand_get'', ''z_mrsh_sys_csrand_get'', ''z_mrsh_net_eth_get_ptp_clock_by_index'',
     ''z_mrsh_net_if_ipv6_addr_lookup_by_index'', ''z_mrsh_net_if_ipv6_addr_add_by_index'',
     ''z_mrsh_net_if_ipv6_addr_rm_by_index'', ''z_mrsh_net_if_ipv4_addr_lookup_by_index'',
     ''z_mrsh_net_if_ipv4_addr_add_by_index'', ''z_mrsh_net_if_ipv4_addr_rm_by_index'',
     ''z_mrsh_net_if_ipv4_set_netmask_by_index'',
     ''z_mrsh_net_if_ipv4_set_netmask_by_addr_by_index'', ''z_mrsh_net_if_ipv4_set_gw_by_index'',
     ''z_mrsh_net_if_get_by_index'', ''z_mrsh_net_addr_pton'', ''z_mrsh_net_addr_ntop'',
     ''z_mrsh_zsock_get_context_object'']"

definition weak_handlers_2 :: "string list" where
  "weak_handlers_2 = [
     ''z_mrsh_zsock_socket'', ''z_mrsh_zsock_socketpair'', ''z_mrsh_zsock_close'',
     ''z_mrsh_zsock_shutdown'', ''z_mrsh_zsock_bind'', ''z_mrsh_zsock_connect'',
     ''z_mrsh_zsock_listen'', ''z_mrsh_zsock_accept'', ''z_mrsh_zsock_sendto'',
     ''z_mrsh_zsock_sendmsg'', ''z_mrsh_zsock_recvfrom'', ''z_mrsh_zsock_recvmsg'',
     ''z_mrsh_zsock_fcntl_impl'', ''z_mrsh_zsock_ioctl_impl'', ''z_mrsh_zsock_getsockopt'',
     ''z_mrsh_zsock_setsockopt'', ''z_mrsh_zsock_getpeername'', ''z_mrsh_zsock_getsockname'',
     ''z_mrsh_zsock_gethostname'', ''z_mrsh_zsock_inet_pton'',
     ''z_mrsh_z_zsock_getaddrinfo_internal'', ''z_mrsh_entropy_get_entropy'',
     ''z_mrsh_gpio_pin_interrupt_configure'', ''z_mrsh_gpio_pin_configure'',
     ''z_mrsh_gpio_port_get_direction'', ''z_mrsh_gpio_pin_get_config'',
     ''z_mrsh_gpio_port_get_raw'', ''z_mrsh_gpio_port_set_masked_raw'',
     ''z_mrsh_gpio_port_set_bits_raw'', ''z_mrsh_gpio_port_clear_bits_raw'',
     ''z_mrsh_gpio_port_toggle_bits'', ''z_mrsh_gpio_get_pending_int'',
     ''z_mrsh_hwinfo_get_device_id'', ''z_mrsh_hwinfo_get_device_eui64'']"

definition weak_handlers_3 :: "string list" where
  "weak_handlers_3 = [
     ''z_mrsh_hwinfo_get_reset_cause'', ''z_mrsh_hwinfo_clear_reset_cause'',
     ''z_mrsh_hwinfo_get_supported_reset_cause'', ''z_mrsh_uart_err_check'',
     ''z_mrsh_uart_poll_in'', ''z_mrsh_uart_poll_in_u16'', ''z_mrsh_uart_poll_out'',
     ''z_mrsh_uart_poll_out_u16'', ''z_mrsh_uart_configure'', ''z_mrsh_uart_config_get'',
     ''z_mrsh_uart_irq_tx_enable'', ''z_mrsh_uart_irq_tx_disable'', ''z_mrsh_uart_irq_rx_enable'',
     ''z_mrsh_uart_irq_rx_disable'', ''z_mrsh_uart_irq_err_enable'',
     ''z_mrsh_uart_irq_err_disable'', ''z_mrsh_uart_irq_is_pending'', ''z_mrsh_uart_irq_update'',
     ''z_mrsh_uart_tx'', ''z_mrsh_uart_tx_u16'', ''z_mrsh_uart_tx_abort'',
     ''z_mrsh_uart_rx_enable'', ''z_mrsh_uart_rx_enable_u16'', ''z_mrsh_uart_rx_disable'',
     ''z_mrsh_uart_line_ctrl_set'', ''z_mrsh_uart_line_ctrl_get'', ''z_mrsh_uart_drv_cmd'',
     ''z_mrsh_spi_transceive'', ''z_mrsh_spi_release'', ''z_mrsh_device_get_binding'',
     ''z_mrsh_device_is_ready'', ''z_mrsh_device_init'', ''z_mrsh_device_deinit'',
     ''z_mrsh_device_get_by_dt_nodelabel'']"

definition weak_handlers_4 :: "string list" where
  "weak_handlers_4 = [
     ''z_mrsh_k_thread_stack_alloc'', ''z_mrsh_k_thread_stack_free'', ''z_mrsh_k_thread_create'',
     ''z_mrsh_k_thread_stack_space_get'', ''z_mrsh_k_thread_join'', ''z_mrsh_k_sleep'',
     ''z_mrsh_k_usleep'', ''z_mrsh_k_busy_wait'', ''z_mrsh_k_yield'', ''z_mrsh_k_wakeup'',
     ''z_mrsh_k_sched_current_thread_query'', ''z_mrsh_k_thread_abort'',
     ''z_mrsh_k_thread_timeout_expires_ticks'', ''z_mrsh_k_thread_timeout_remaining_ticks'',
     ''z_mrsh_k_thread_priority_get'', ''z_mrsh_k_thread_priority_set'',
     ''z_mrsh_k_thread_deadline_set'', ''z_mrsh_k_reschedule'', ''z_mrsh_k_thread_suspend'',
     ''z_mrsh_k_thread_resume'', ''z_mrsh_k_is_preempt_thread'',
     ''z_mrsh_k_thread_custom_data_set'', ''z_mrsh_k_thread_custom_data_get'',
     ''z_mrsh_k_thread_name_set'', ''z_mrsh_k_thread_name_copy'', ''z_mrsh_k_timer_start'',
     ''z_mrsh_k_timer_stop'', ''z_mrsh_k_timer_status_get'', ''z_mrsh_k_timer_status_sync'',
     ''z_mrsh_k_timer_expires_ticks'', ''z_mrsh_k_timer_remaining_ticks'',
     ''z_mrsh_k_timer_user_data_set'', ''z_mrsh_k_timer_user_data_get'', ''z_mrsh_k_uptime_ticks'']"

definition weak_handlers_5 :: "string list" where
  "weak_handlers_5 = [
     ''z_mrsh_k_queue_init'', ''z_mrsh_k_queue_cancel_wait'', ''z_mrsh_k_queue_alloc_append'',
     ''z_mrsh_k_queue_alloc_prepend'', ''z_mrsh_k_queue_get'', ''z_mrsh_k_queue_is_empty'',
     ''z_mrsh_k_queue_peek_head'', ''z_mrsh_k_queue_peek_tail'', ''z_mrsh_k_futex_wait'',
     ''z_mrsh_k_futex_wake'', ''z_mrsh_k_event_init'', ''z_mrsh_k_event_post'',
     ''z_mrsh_k_event_set'', ''z_mrsh_k_event_set_masked'', ''z_mrsh_k_event_clear'',
     ''z_mrsh_k_event_wait'', ''z_mrsh_k_event_wait_all'', ''z_mrsh_k_stack_alloc_init'',
     ''z_mrsh_k_stack_push'', ''z_mrsh_k_stack_pop'', ''z_mrsh_k_mutex_init'',
     ''z_mrsh_k_mutex_lock'', ''z_mrsh_k_mutex_unlock'', ''z_mrsh_k_condvar_init'',
     ''z_mrsh_k_condvar_signal'', ''z_mrsh_k_condvar_broadcast'', ''z_mrsh_k_condvar_wait'',
     ''z_mrsh_k_sem_init'', ''z_mrsh_k_sem_take'', ''z_mrsh_k_sem_give'', ''z_mrsh_k_sem_reset'',
     ''z_mrsh_k_sem_count_get'', ''z_mrsh_k_msgq_alloc_init'', ''z_mrsh_k_msgq_put'']"

definition weak_handlers_6 :: "string list" where
  "weak_handlers_6 = [
     ''z_mrsh_k_msgq_get'', ''z_mrsh_k_msgq_peek'', ''z_mrsh_k_msgq_peek_at'',
     ''z_mrsh_k_msgq_purge'', ''z_mrsh_k_msgq_num_free_get'', ''z_mrsh_k_msgq_get_attrs'',
     ''z_mrsh_k_msgq_num_used_get'', ''z_mrsh_k_pipe_init'', ''z_mrsh_k_pipe_alloc_init'',
     ''z_mrsh_k_pipe_put'', ''z_mrsh_k_pipe_get'', ''z_mrsh_k_pipe_read_avail'',
     ''z_mrsh_k_pipe_write_avail'', ''z_mrsh_k_pipe_flush'', ''z_mrsh_k_pipe_buffer_flush'',
     ''z_mrsh_k_pipe_write'', ''z_mrsh_k_pipe_read'', ''z_mrsh_k_pipe_reset'',
     ''z_mrsh_k_pipe_close'', ''z_mrsh_k_poll'', ''z_mrsh_k_poll_signal_init'',
     ''z_mrsh_k_poll_signal_reset'', ''z_mrsh_k_poll_signal_check'', ''z_mrsh_k_poll_signal_raise'',
     ''z_mrsh_k_str_out'', ''z_mrsh_k_float_disable'', ''z_mrsh_k_float_enable'',
     ''z_mrsh_k_object_alloc_size'', ''z_mrsh_sys_clock_hw_cycles_per_sec_runtime_get'']"

definition weak_handlers :: "string list" where
  "weak_handlers = weak_handlers_1 @ weak_handlers_2 @ weak_handlers_3 @ weak_handlers_4 @
     weak_handlers_5 @ weak_handlers_6"

definition extern_handlers :: "string list" where
  "extern_handlers = [''z_mrsh_k_object_release'', ''z_mrsh_k_object_access_grant'', ''z_mrsh_k_object_alloc'']"

text \<open>What the linker puts in the table for a handler's name, given the names the other objects define.\<close>

definition resolve :: "string list \<Rightarrow> string \<Rightarrow> string option" where
  "resolve linked h =
     (if h \<in> set linked then Some h
      else if h \<in> set weak_handlers then Some ''handler_no_syscall''
      else None)"

section \<open>The table is complete\<close>

lemma table_keys_distinct: "distinct (map fst syscall_table)"
  by (simp add: syscall_table_def syscall_table_1_def syscall_table_2_def syscall_ids)

lemma table_keys_bound: "\<forall>k \<in> set (map fst syscall_table). k < K_SYSCALL_LIMIT"
  by (simp add: syscall_table_def syscall_table_1_def syscall_table_2_def syscall_ids)

lemma table_length: "length syscall_table = 203"
  by (simp add: syscall_table_def syscall_table_1_def syscall_table_2_def)

lemma table_keys: "set (map fst syscall_table) = {..<K_SYSCALL_LIMIT}"
proof -
  have "card (set (map fst syscall_table)) = 203"
    using table_keys_distinct table_length by (metis distinct_card length_map)
  then show ?thesis
    using table_keys_bound by (intro card_subset_eq) (auto simp: K_SYSCALL_LIMIT_def)
qed

text \<open>Each row of the table as an equation for \<open>map_of\<close>.\<close>

lemma table_rows_hold: "list_all (\<lambda>(k, h). map_of syscall_table k = Some h) (syscall_table_1 @ syscall_table_2)"
  using map_of_is_SomeI [OF table_keys_distinct] by (auto simp: list_all_iff syscall_table_def)

lemmas table_rows = table_rows_hold [unfolded syscall_table_1_def syscall_table_2_def append.simps list.pred_inject split_conv]

text \<open>Every number below \<^verbatim>\<open>K_SYSCALL_LIMIT\<close> has exactly one handler: the table initialises each slot
  of \<^verbatim>\<open>_k_syscall_table\<close> once, none is left null, and the last slot is the handler of bad calls.\<close>

lemma syscall_table_complete:
  "distinct (map fst syscall_table) \<and> set (map fst syscall_table) = {..<K_SYSCALL_LIMIT} \<and>
   map_of syscall_table K_SYSCALL_BAD = Some ''handler_bad_syscall'' \<and> Suc K_SYSCALL_BAD = K_SYSCALL_LIMIT"
  by (simp only: table_keys_distinct table_keys table_rows simp_thms)
    (simp add: K_SYSCALL_BAD_def K_SYSCALL_LIMIT_def)

section \<open>The table links\<close>

lemma table_names:
  "map snd syscall_table =
     weak_handlers_1 @ weak_handlers_2 @ weak_handlers_3 @ weak_handlers_4 @ weak_handlers_5 @
     take 27 weak_handlers_6 @
     [''z_mrsh_k_object_access_grant'', ''z_mrsh_k_object_release'', ''z_mrsh_k_object_alloc''] @
     drop 27 weak_handlers_6 @ [''handler_bad_syscall'']"
  by (simp add: syscall_table_def syscall_table_1_def syscall_table_2_def weak_handlers_1_def
      weak_handlers_2_def weak_handlers_3_def weak_handlers_4_def weak_handlers_5_def weak_handlers_6_def)

lemma handlers_declared:
  assumes "h \<in> set (map snd syscall_table)"
  shows "h = ''handler_bad_syscall'' \<or> h \<in> set extern_handlers \<or> h \<in> set weak_handlers"
  using assms unfolding table_names
  by (auto simp: weak_handlers_def extern_handlers_def dest: in_set_takeD in_set_dropD)

text \<open>Every slot of the table is linked. If the other objects define \<^verbatim>\<open>handler_bad_syscall\<close> and the three
  external handlers, then whatever else they define, each number below \<^verbatim>\<open>K_SYSCALL_LIMIT\<close> gets its own
  handler, or \<^verbatim>\<open>handler_no_syscall\<close> where its own is not built.\<close>

theorem syscall_table_links:
  assumes "insert ''handler_bad_syscall'' (set extern_handlers) \<subseteq> set linked"
    and "n < K_SYSCALL_LIMIT"
  shows "\<exists>h. map_of syscall_table n = Some h \<and>
           resolve linked h = Some (if h \<in> set linked then h else ''handler_no_syscall'')"
proof -
  obtain h where h: "map_of syscall_table n = Some h"
    using assms(2) table_keys by (metis lessThan_iff list.set_map map_of_eq_None_iff not_Some_eq)
  then have "h \<in> set (map snd syscall_table)"
    by (metis map_of_SomeD in_set_zipE zip_map_fst_snd)
  then show ?thesis
    using h assms(1) handlers_declared [of h] by (auto simp: resolve_def)
qed

theorem syscall_table_links_witness:
  "map_of syscall_table K_SYSCALL_K_SLEEP = Some ''z_mrsh_k_sleep'' \<and>
   resolve (''handler_bad_syscall'' # extern_handlers) ''z_mrsh_k_sleep'' = Some ''handler_no_syscall''"
proof -
  have "K_SYSCALL_K_SLEEP < K_SYSCALL_LIMIT" by (simp add: syscall_ids)
  moreover have "insert ''handler_bad_syscall'' (set extern_handlers) \<subseteq> set (''handler_bad_syscall'' # extern_handlers)"
    by simp
  moreover have "map_of syscall_table K_SYSCALL_K_SLEEP = Some ''z_mrsh_k_sleep''"
    by (simp only: table_rows)
  ultimately show ?thesis
    using syscall_table_links [of "''handler_bad_syscall'' # extern_handlers" K_SYSCALL_K_SLEEP]
    by (simp add: extern_handlers_def)
qed

end
