(* ===== verification/Syscall_Stubs.thy ===== *)
theory Syscall_Stubs
  imports Syscall Syscall_Table
begin

text \<open>
  The 202 stubs of the image, one definition each, in the order of the headers under
  \<^verbatim>\<open>syscalls/\<close>: the name of the implementation, the number, how the result comes back, and the
  width of each parameter. Every sleep, semaphore, thread, socket, GPIO and log call of the firmware
  goes through one of them.
\<close>

named_theorems stub_defs \<open>the definitions of the stubs\<close>

section \<open>\<^verbatim>\<open>kernel.h\<close>\<close>

definition sys_k_thread_stack_alloc :: "kmode \<Rightarrow> 32 word \<Rightarrow> 32 word
    \<Rightarrow> kcall" where [stub_defs]:
  "sys_k_thread_stack_alloc m p_size p_flags =
     syscall m ''k_thread_stack_alloc'' K_SYSCALL_K_THREAD_STACK_ALLOC RWord
       [P32 p_size, P32 p_flags]"

definition sys_k_thread_stack_free :: "kmode \<Rightarrow> 32 word \<Rightarrow> kcall" where
    [stub_defs]:
  "sys_k_thread_stack_free m p_stack =
     syscall m ''k_thread_stack_free'' K_SYSCALL_K_THREAD_STACK_FREE RWord
       [P32 p_stack]"

definition sys_k_thread_create :: "kmode \<Rightarrow> 32 word \<Rightarrow> 32 word \<Rightarrow>
    32 word \<Rightarrow> 32 word \<Rightarrow> 32 word \<Rightarrow> 32 word \<Rightarrow> 32
    word \<Rightarrow> 32 word \<Rightarrow> 32 word \<Rightarrow> 64 word \<Rightarrow> kcall"
    where [stub_defs]:
  "sys_k_thread_create m p_new_thread p_stack p_stack_size p_entry p_p1 p_p2 p_p3 p_prio p_options
      p_delay =
     syscall m ''k_thread_create'' K_SYSCALL_K_THREAD_CREATE RWord
       [P32 p_new_thread, P32 p_stack, P32 p_stack_size, P32 p_entry, P32 p_p1, P32 p_p2, P32
        p_p3, P32 p_prio, P32 p_options, P64 p_delay]"

definition sys_k_thread_stack_space_get :: "kmode \<Rightarrow> 32 word \<Rightarrow> 32 word
    \<Rightarrow> kcall" where [stub_defs]:
  "sys_k_thread_stack_space_get m p_thread p_unused_ptr =
     syscall m ''k_thread_stack_space_get'' K_SYSCALL_K_THREAD_STACK_SPACE_GET RWord
       [P32 p_thread, P32 p_unused_ptr]"

definition sys_k_thread_join :: "kmode \<Rightarrow> 32 word \<Rightarrow> 64 word \<Rightarrow>
    kcall" where [stub_defs]:
  "sys_k_thread_join m p_thread p_timeout =
     syscall m ''k_thread_join'' K_SYSCALL_K_THREAD_JOIN RWord
       [P32 p_thread, P64 p_timeout]"

definition sys_k_sleep :: "kmode \<Rightarrow> 64 word \<Rightarrow> kcall" where [stub_defs]:
  "sys_k_sleep m p_timeout =
     syscall m ''k_sleep'' K_SYSCALL_K_SLEEP RWord
       [P64 p_timeout]"

definition sys_k_usleep :: "kmode \<Rightarrow> 32 word \<Rightarrow> kcall" where [stub_defs]:
  "sys_k_usleep m p_us =
     syscall m ''k_usleep'' K_SYSCALL_K_USLEEP RWord
       [P32 p_us]"

definition sys_k_busy_wait :: "kmode \<Rightarrow> 32 word \<Rightarrow> kcall" where [stub_defs]:
  "sys_k_busy_wait m p_usec_to_wait =
     syscall m ''k_busy_wait'' K_SYSCALL_K_BUSY_WAIT RVoid
       [P32 p_usec_to_wait]"

definition sys_k_yield :: "kmode \<Rightarrow> kcall" where [stub_defs]:
  "sys_k_yield m =
     syscall m ''k_yield'' K_SYSCALL_K_YIELD RVoid
       []"

definition sys_k_wakeup :: "kmode \<Rightarrow> 32 word \<Rightarrow> kcall" where [stub_defs]:
  "sys_k_wakeup m p_thread =
     syscall m ''k_wakeup'' K_SYSCALL_K_WAKEUP RVoid
       [P32 p_thread]"

definition sys_k_sched_current_thread_query :: "kmode \<Rightarrow> kcall" where [stub_defs]:
  "sys_k_sched_current_thread_query m =
     syscall m ''k_sched_current_thread_query'' K_SYSCALL_K_SCHED_CURRENT_THREAD_QUERY RWord
       []"

definition sys_k_thread_abort :: "kmode \<Rightarrow> 32 word \<Rightarrow> kcall" where
    [stub_defs]:
  "sys_k_thread_abort m p_thread =
     syscall m ''k_thread_abort'' K_SYSCALL_K_THREAD_ABORT RVoid
       [P32 p_thread]"

definition sys_k_thread_timeout_expires_ticks :: "kmode \<Rightarrow> 32 word \<Rightarrow> kcall"
    where [stub_defs]:
  "sys_k_thread_timeout_expires_ticks m p_thread =
     syscall m ''k_thread_timeout_expires_ticks'' K_SYSCALL_K_THREAD_TIMEOUT_EXPIRES_TICKS RWide
       [P32 p_thread]"

definition sys_k_thread_timeout_remaining_ticks :: "kmode \<Rightarrow> 32 word \<Rightarrow>
    kcall" where [stub_defs]:
  "sys_k_thread_timeout_remaining_ticks m p_thread =
     syscall m ''k_thread_timeout_remaining_ticks'' K_SYSCALL_K_THREAD_TIMEOUT_REMAINING_TICKS RWide
       [P32 p_thread]"

definition sys_k_thread_priority_get :: "kmode \<Rightarrow> 32 word \<Rightarrow> kcall" where
    [stub_defs]:
  "sys_k_thread_priority_get m p_thread =
     syscall m ''k_thread_priority_get'' K_SYSCALL_K_THREAD_PRIORITY_GET RWord
       [P32 p_thread]"

definition sys_k_thread_priority_set :: "kmode \<Rightarrow> 32 word \<Rightarrow> 32 word
    \<Rightarrow> kcall" where [stub_defs]:
  "sys_k_thread_priority_set m p_thread p_prio =
     syscall m ''k_thread_priority_set'' K_SYSCALL_K_THREAD_PRIORITY_SET RVoid
       [P32 p_thread, P32 p_prio]"

definition sys_k_thread_deadline_set :: "kmode \<Rightarrow> 32 word \<Rightarrow> 32 word
    \<Rightarrow> kcall" where [stub_defs]:
  "sys_k_thread_deadline_set m p_thread p_deadline =
     syscall m ''k_thread_deadline_set'' K_SYSCALL_K_THREAD_DEADLINE_SET RVoid
       [P32 p_thread, P32 p_deadline]"

definition sys_k_reschedule :: "kmode \<Rightarrow> kcall" where [stub_defs]:
  "sys_k_reschedule m =
     syscall m ''k_reschedule'' K_SYSCALL_K_RESCHEDULE RVoid
       []"

definition sys_k_thread_suspend :: "kmode \<Rightarrow> 32 word \<Rightarrow> kcall" where
    [stub_defs]:
  "sys_k_thread_suspend m p_thread =
     syscall m ''k_thread_suspend'' K_SYSCALL_K_THREAD_SUSPEND RVoid
       [P32 p_thread]"

definition sys_k_thread_resume :: "kmode \<Rightarrow> 32 word \<Rightarrow> kcall" where
    [stub_defs]:
  "sys_k_thread_resume m p_thread =
     syscall m ''k_thread_resume'' K_SYSCALL_K_THREAD_RESUME RVoid
       [P32 p_thread]"

definition sys_k_is_preempt_thread :: "kmode \<Rightarrow> kcall" where [stub_defs]:
  "sys_k_is_preempt_thread m =
     syscall m ''k_is_preempt_thread'' K_SYSCALL_K_IS_PREEMPT_THREAD RWord
       []"

definition sys_k_thread_custom_data_set :: "kmode \<Rightarrow> 32 word \<Rightarrow> kcall" where
    [stub_defs]:
  "sys_k_thread_custom_data_set m p_value =
     syscall m ''k_thread_custom_data_set'' K_SYSCALL_K_THREAD_CUSTOM_DATA_SET RVoid
       [P32 p_value]"

definition sys_k_thread_custom_data_get :: "kmode \<Rightarrow> kcall" where [stub_defs]:
  "sys_k_thread_custom_data_get m =
     syscall m ''k_thread_custom_data_get'' K_SYSCALL_K_THREAD_CUSTOM_DATA_GET RWord
       []"

definition sys_k_thread_name_set :: "kmode \<Rightarrow> 32 word \<Rightarrow> 32 word
    \<Rightarrow> kcall" where [stub_defs]:
  "sys_k_thread_name_set m p_thread p_str =
     syscall m ''k_thread_name_set'' K_SYSCALL_K_THREAD_NAME_SET RWord
       [P32 p_thread, P32 p_str]"

definition sys_k_thread_name_copy :: "kmode \<Rightarrow> 32 word \<Rightarrow> 32 word
    \<Rightarrow> 32 word \<Rightarrow> kcall" where [stub_defs]:
  "sys_k_thread_name_copy m p_thread p_buf p_size =
     syscall m ''k_thread_name_copy'' K_SYSCALL_K_THREAD_NAME_COPY RWord
       [P32 p_thread, P32 p_buf, P32 p_size]"

definition sys_k_timer_start :: "kmode \<Rightarrow> 32 word \<Rightarrow> 64 word \<Rightarrow>
    64 word \<Rightarrow> kcall" where [stub_defs]:
  "sys_k_timer_start m p_timer p_duration p_period =
     syscall m ''k_timer_start'' K_SYSCALL_K_TIMER_START RVoid
       [P32 p_timer, P64 p_duration, P64 p_period]"

definition sys_k_timer_stop :: "kmode \<Rightarrow> 32 word \<Rightarrow> kcall" where
    [stub_defs]:
  "sys_k_timer_stop m p_timer =
     syscall m ''k_timer_stop'' K_SYSCALL_K_TIMER_STOP RVoid
       [P32 p_timer]"

definition sys_k_timer_status_get :: "kmode \<Rightarrow> 32 word \<Rightarrow> kcall" where
    [stub_defs]:
  "sys_k_timer_status_get m p_timer =
     syscall m ''k_timer_status_get'' K_SYSCALL_K_TIMER_STATUS_GET RWord
       [P32 p_timer]"

definition sys_k_timer_status_sync :: "kmode \<Rightarrow> 32 word \<Rightarrow> kcall" where
    [stub_defs]:
  "sys_k_timer_status_sync m p_timer =
     syscall m ''k_timer_status_sync'' K_SYSCALL_K_TIMER_STATUS_SYNC RWord
       [P32 p_timer]"

definition sys_k_timer_expires_ticks :: "kmode \<Rightarrow> 32 word \<Rightarrow> kcall" where
    [stub_defs]:
  "sys_k_timer_expires_ticks m p_timer =
     syscall m ''k_timer_expires_ticks'' K_SYSCALL_K_TIMER_EXPIRES_TICKS RWide
       [P32 p_timer]"

definition sys_k_timer_remaining_ticks :: "kmode \<Rightarrow> 32 word \<Rightarrow> kcall" where
    [stub_defs]:
  "sys_k_timer_remaining_ticks m p_timer =
     syscall m ''k_timer_remaining_ticks'' K_SYSCALL_K_TIMER_REMAINING_TICKS RWide
       [P32 p_timer]"

definition sys_k_timer_user_data_set :: "kmode \<Rightarrow> 32 word \<Rightarrow> 32 word
    \<Rightarrow> kcall" where [stub_defs]:
  "sys_k_timer_user_data_set m p_timer p_user_data =
     syscall m ''k_timer_user_data_set'' K_SYSCALL_K_TIMER_USER_DATA_SET RVoid
       [P32 p_timer, P32 p_user_data]"

definition sys_k_timer_user_data_get :: "kmode \<Rightarrow> 32 word \<Rightarrow> kcall" where
    [stub_defs]:
  "sys_k_timer_user_data_get m p_timer =
     syscall m ''k_timer_user_data_get'' K_SYSCALL_K_TIMER_USER_DATA_GET RWord
       [P32 p_timer]"

definition sys_k_uptime_ticks :: "kmode \<Rightarrow> kcall" where [stub_defs]:
  "sys_k_uptime_ticks m =
     syscall m ''k_uptime_ticks'' K_SYSCALL_K_UPTIME_TICKS RWide
       []"

definition sys_k_queue_init :: "kmode \<Rightarrow> 32 word \<Rightarrow> kcall" where
    [stub_defs]:
  "sys_k_queue_init m p_queue =
     syscall m ''k_queue_init'' K_SYSCALL_K_QUEUE_INIT RVoid
       [P32 p_queue]"

definition sys_k_queue_cancel_wait :: "kmode \<Rightarrow> 32 word \<Rightarrow> kcall" where
    [stub_defs]:
  "sys_k_queue_cancel_wait m p_queue =
     syscall m ''k_queue_cancel_wait'' K_SYSCALL_K_QUEUE_CANCEL_WAIT RVoid
       [P32 p_queue]"

definition sys_k_queue_alloc_append :: "kmode \<Rightarrow> 32 word \<Rightarrow> 32 word
    \<Rightarrow> kcall" where [stub_defs]:
  "sys_k_queue_alloc_append m p_queue p_data =
     syscall m ''k_queue_alloc_append'' K_SYSCALL_K_QUEUE_ALLOC_APPEND RWord
       [P32 p_queue, P32 p_data]"

definition sys_k_queue_alloc_prepend :: "kmode \<Rightarrow> 32 word \<Rightarrow> 32 word
    \<Rightarrow> kcall" where [stub_defs]:
  "sys_k_queue_alloc_prepend m p_queue p_data =
     syscall m ''k_queue_alloc_prepend'' K_SYSCALL_K_QUEUE_ALLOC_PREPEND RWord
       [P32 p_queue, P32 p_data]"

definition sys_k_queue_get :: "kmode \<Rightarrow> 32 word \<Rightarrow> 64 word \<Rightarrow>
    kcall" where [stub_defs]:
  "sys_k_queue_get m p_queue p_timeout =
     syscall m ''k_queue_get'' K_SYSCALL_K_QUEUE_GET RWord
       [P32 p_queue, P64 p_timeout]"

definition sys_k_queue_is_empty :: "kmode \<Rightarrow> 32 word \<Rightarrow> kcall" where
    [stub_defs]:
  "sys_k_queue_is_empty m p_queue =
     syscall m ''k_queue_is_empty'' K_SYSCALL_K_QUEUE_IS_EMPTY RWord
       [P32 p_queue]"

definition sys_k_queue_peek_head :: "kmode \<Rightarrow> 32 word \<Rightarrow> kcall" where
    [stub_defs]:
  "sys_k_queue_peek_head m p_queue =
     syscall m ''k_queue_peek_head'' K_SYSCALL_K_QUEUE_PEEK_HEAD RWord
       [P32 p_queue]"

definition sys_k_queue_peek_tail :: "kmode \<Rightarrow> 32 word \<Rightarrow> kcall" where
    [stub_defs]:
  "sys_k_queue_peek_tail m p_queue =
     syscall m ''k_queue_peek_tail'' K_SYSCALL_K_QUEUE_PEEK_TAIL RWord
       [P32 p_queue]"

definition sys_k_futex_wait :: "kmode \<Rightarrow> 32 word \<Rightarrow> 32 word \<Rightarrow> 64
    word \<Rightarrow> kcall" where [stub_defs]:
  "sys_k_futex_wait m p_futex p_expected p_timeout =
     syscall m ''k_futex_wait'' K_SYSCALL_K_FUTEX_WAIT RWord
       [P32 p_futex, P32 p_expected, P64 p_timeout]"

definition sys_k_futex_wake :: "kmode \<Rightarrow> 32 word \<Rightarrow> 8 word \<Rightarrow>
    kcall" where [stub_defs]:
  "sys_k_futex_wake m p_futex p_wake_all =
     syscall m ''k_futex_wake'' K_SYSCALL_K_FUTEX_WAKE RWord
       [P32 p_futex, P8 p_wake_all]"

definition sys_k_event_init :: "kmode \<Rightarrow> 32 word \<Rightarrow> kcall" where
    [stub_defs]:
  "sys_k_event_init m p_event =
     syscall m ''k_event_init'' K_SYSCALL_K_EVENT_INIT RVoid
       [P32 p_event]"

definition sys_k_event_post :: "kmode \<Rightarrow> 32 word \<Rightarrow> 32 word \<Rightarrow>
    kcall" where [stub_defs]:
  "sys_k_event_post m p_event p_events =
     syscall m ''k_event_post'' K_SYSCALL_K_EVENT_POST RWord
       [P32 p_event, P32 p_events]"

definition sys_k_event_set :: "kmode \<Rightarrow> 32 word \<Rightarrow> 32 word \<Rightarrow>
    kcall" where [stub_defs]:
  "sys_k_event_set m p_event p_events =
     syscall m ''k_event_set'' K_SYSCALL_K_EVENT_SET RWord
       [P32 p_event, P32 p_events]"

definition sys_k_event_set_masked :: "kmode \<Rightarrow> 32 word \<Rightarrow> 32 word
    \<Rightarrow> 32 word \<Rightarrow> kcall" where [stub_defs]:
  "sys_k_event_set_masked m p_event p_events p_events_mask =
     syscall m ''k_event_set_masked'' K_SYSCALL_K_EVENT_SET_MASKED RWord
       [P32 p_event, P32 p_events, P32 p_events_mask]"

definition sys_k_event_clear :: "kmode \<Rightarrow> 32 word \<Rightarrow> 32 word \<Rightarrow>
    kcall" where [stub_defs]:
  "sys_k_event_clear m p_event p_events =
     syscall m ''k_event_clear'' K_SYSCALL_K_EVENT_CLEAR RWord
       [P32 p_event, P32 p_events]"

definition sys_k_event_wait :: "kmode \<Rightarrow> 32 word \<Rightarrow> 32 word \<Rightarrow> 8
    word \<Rightarrow> 64 word \<Rightarrow> kcall" where [stub_defs]:
  "sys_k_event_wait m p_event p_events p_reset p_timeout =
     syscall m ''k_event_wait'' K_SYSCALL_K_EVENT_WAIT RWord
       [P32 p_event, P32 p_events, P8 p_reset, P64 p_timeout]"

definition sys_k_event_wait_all :: "kmode \<Rightarrow> 32 word \<Rightarrow> 32 word
    \<Rightarrow> 8 word \<Rightarrow> 64 word \<Rightarrow> kcall" where [stub_defs]:
  "sys_k_event_wait_all m p_event p_events p_reset p_timeout =
     syscall m ''k_event_wait_all'' K_SYSCALL_K_EVENT_WAIT_ALL RWord
       [P32 p_event, P32 p_events, P8 p_reset, P64 p_timeout]"

definition sys_k_stack_alloc_init :: "kmode \<Rightarrow> 32 word \<Rightarrow> 32 word
    \<Rightarrow> kcall" where [stub_defs]:
  "sys_k_stack_alloc_init m p_stack p_num_entries =
     syscall m ''k_stack_alloc_init'' K_SYSCALL_K_STACK_ALLOC_INIT RWord
       [P32 p_stack, P32 p_num_entries]"

definition sys_k_stack_push :: "kmode \<Rightarrow> 32 word \<Rightarrow> 32 word \<Rightarrow>
    kcall" where [stub_defs]:
  "sys_k_stack_push m p_stack p_data =
     syscall m ''k_stack_push'' K_SYSCALL_K_STACK_PUSH RWord
       [P32 p_stack, P32 p_data]"

definition sys_k_stack_pop :: "kmode \<Rightarrow> 32 word \<Rightarrow> 32 word \<Rightarrow> 64
    word \<Rightarrow> kcall" where [stub_defs]:
  "sys_k_stack_pop m p_stack p_data p_timeout =
     syscall m ''k_stack_pop'' K_SYSCALL_K_STACK_POP RWord
       [P32 p_stack, P32 p_data, P64 p_timeout]"

definition sys_k_mutex_init :: "kmode \<Rightarrow> 32 word \<Rightarrow> kcall" where
    [stub_defs]:
  "sys_k_mutex_init m p_mutex =
     syscall m ''k_mutex_init'' K_SYSCALL_K_MUTEX_INIT RWord
       [P32 p_mutex]"

definition sys_k_mutex_lock :: "kmode \<Rightarrow> 32 word \<Rightarrow> 64 word \<Rightarrow>
    kcall" where [stub_defs]:
  "sys_k_mutex_lock m p_mutex p_timeout =
     syscall m ''k_mutex_lock'' K_SYSCALL_K_MUTEX_LOCK RWord
       [P32 p_mutex, P64 p_timeout]"

definition sys_k_mutex_unlock :: "kmode \<Rightarrow> 32 word \<Rightarrow> kcall" where
    [stub_defs]:
  "sys_k_mutex_unlock m p_mutex =
     syscall m ''k_mutex_unlock'' K_SYSCALL_K_MUTEX_UNLOCK RWord
       [P32 p_mutex]"

definition sys_k_condvar_init :: "kmode \<Rightarrow> 32 word \<Rightarrow> kcall" where
    [stub_defs]:
  "sys_k_condvar_init m p_condvar =
     syscall m ''k_condvar_init'' K_SYSCALL_K_CONDVAR_INIT RWord
       [P32 p_condvar]"

definition sys_k_condvar_signal :: "kmode \<Rightarrow> 32 word \<Rightarrow> kcall" where
    [stub_defs]:
  "sys_k_condvar_signal m p_condvar =
     syscall m ''k_condvar_signal'' K_SYSCALL_K_CONDVAR_SIGNAL RWord
       [P32 p_condvar]"

definition sys_k_condvar_broadcast :: "kmode \<Rightarrow> 32 word \<Rightarrow> kcall" where
    [stub_defs]:
  "sys_k_condvar_broadcast m p_condvar =
     syscall m ''k_condvar_broadcast'' K_SYSCALL_K_CONDVAR_BROADCAST RWord
       [P32 p_condvar]"

definition sys_k_condvar_wait :: "kmode \<Rightarrow> 32 word \<Rightarrow> 32 word \<Rightarrow>
    64 word \<Rightarrow> kcall" where [stub_defs]:
  "sys_k_condvar_wait m p_condvar p_mutex p_timeout =
     syscall m ''k_condvar_wait'' K_SYSCALL_K_CONDVAR_WAIT RWord
       [P32 p_condvar, P32 p_mutex, P64 p_timeout]"

definition sys_k_sem_init :: "kmode \<Rightarrow> 32 word \<Rightarrow> 32 word \<Rightarrow> 32
    word \<Rightarrow> kcall" where [stub_defs]:
  "sys_k_sem_init m p_sem p_initial_count p_limit =
     syscall m ''k_sem_init'' K_SYSCALL_K_SEM_INIT RWord
       [P32 p_sem, P32 p_initial_count, P32 p_limit]"

definition sys_k_sem_take :: "kmode \<Rightarrow> 32 word \<Rightarrow> 64 word \<Rightarrow>
    kcall" where [stub_defs]:
  "sys_k_sem_take m p_sem p_timeout =
     syscall m ''k_sem_take'' K_SYSCALL_K_SEM_TAKE RWord
       [P32 p_sem, P64 p_timeout]"

definition sys_k_sem_give :: "kmode \<Rightarrow> 32 word \<Rightarrow> kcall" where [stub_defs]:
  "sys_k_sem_give m p_sem =
     syscall m ''k_sem_give'' K_SYSCALL_K_SEM_GIVE RVoid
       [P32 p_sem]"

definition sys_k_sem_reset :: "kmode \<Rightarrow> 32 word \<Rightarrow> kcall" where [stub_defs]:
  "sys_k_sem_reset m p_sem =
     syscall m ''k_sem_reset'' K_SYSCALL_K_SEM_RESET RVoid
       [P32 p_sem]"

definition sys_k_sem_count_get :: "kmode \<Rightarrow> 32 word \<Rightarrow> kcall" where
    [stub_defs]:
  "sys_k_sem_count_get m p_sem =
     syscall m ''k_sem_count_get'' K_SYSCALL_K_SEM_COUNT_GET RWord
       [P32 p_sem]"

definition sys_k_msgq_alloc_init :: "kmode \<Rightarrow> 32 word \<Rightarrow> 32 word
    \<Rightarrow> 32 word \<Rightarrow> kcall" where [stub_defs]:
  "sys_k_msgq_alloc_init m p_msgq p_msg_size p_max_msgs =
     syscall m ''k_msgq_alloc_init'' K_SYSCALL_K_MSGQ_ALLOC_INIT RWord
       [P32 p_msgq, P32 p_msg_size, P32 p_max_msgs]"

definition sys_k_msgq_put :: "kmode \<Rightarrow> 32 word \<Rightarrow> 32 word \<Rightarrow> 64
    word \<Rightarrow> kcall" where [stub_defs]:
  "sys_k_msgq_put m p_msgq p_data p_timeout =
     syscall m ''k_msgq_put'' K_SYSCALL_K_MSGQ_PUT RWord
       [P32 p_msgq, P32 p_data, P64 p_timeout]"

definition sys_k_msgq_get :: "kmode \<Rightarrow> 32 word \<Rightarrow> 32 word \<Rightarrow> 64
    word \<Rightarrow> kcall" where [stub_defs]:
  "sys_k_msgq_get m p_msgq p_data p_timeout =
     syscall m ''k_msgq_get'' K_SYSCALL_K_MSGQ_GET RWord
       [P32 p_msgq, P32 p_data, P64 p_timeout]"

definition sys_k_msgq_peek :: "kmode \<Rightarrow> 32 word \<Rightarrow> 32 word \<Rightarrow>
    kcall" where [stub_defs]:
  "sys_k_msgq_peek m p_msgq p_data =
     syscall m ''k_msgq_peek'' K_SYSCALL_K_MSGQ_PEEK RWord
       [P32 p_msgq, P32 p_data]"

definition sys_k_msgq_peek_at :: "kmode \<Rightarrow> 32 word \<Rightarrow> 32 word \<Rightarrow>
    32 word \<Rightarrow> kcall" where [stub_defs]:
  "sys_k_msgq_peek_at m p_msgq p_data p_idx =
     syscall m ''k_msgq_peek_at'' K_SYSCALL_K_MSGQ_PEEK_AT RWord
       [P32 p_msgq, P32 p_data, P32 p_idx]"

definition sys_k_msgq_purge :: "kmode \<Rightarrow> 32 word \<Rightarrow> kcall" where
    [stub_defs]:
  "sys_k_msgq_purge m p_msgq =
     syscall m ''k_msgq_purge'' K_SYSCALL_K_MSGQ_PURGE RVoid
       [P32 p_msgq]"

definition sys_k_msgq_num_free_get :: "kmode \<Rightarrow> 32 word \<Rightarrow> kcall" where
    [stub_defs]:
  "sys_k_msgq_num_free_get m p_msgq =
     syscall m ''k_msgq_num_free_get'' K_SYSCALL_K_MSGQ_NUM_FREE_GET RWord
       [P32 p_msgq]"

definition sys_k_msgq_get_attrs :: "kmode \<Rightarrow> 32 word \<Rightarrow> 32 word
    \<Rightarrow> kcall" where [stub_defs]:
  "sys_k_msgq_get_attrs m p_msgq p_attrs =
     syscall m ''k_msgq_get_attrs'' K_SYSCALL_K_MSGQ_GET_ATTRS RVoid
       [P32 p_msgq, P32 p_attrs]"

definition sys_k_msgq_num_used_get :: "kmode \<Rightarrow> 32 word \<Rightarrow> kcall" where
    [stub_defs]:
  "sys_k_msgq_num_used_get m p_msgq =
     syscall m ''k_msgq_num_used_get'' K_SYSCALL_K_MSGQ_NUM_USED_GET RWord
       [P32 p_msgq]"

definition sys_k_pipe_init :: "kmode \<Rightarrow> 32 word \<Rightarrow> 32 word \<Rightarrow> 32
    word \<Rightarrow> kcall" where [stub_defs]:
  "sys_k_pipe_init m p_pipe p_buffer p_buffer_size =
     syscall m ''k_pipe_init'' K_SYSCALL_K_PIPE_INIT RVoid
       [P32 p_pipe, P32 p_buffer, P32 p_buffer_size]"

definition sys_k_pipe_alloc_init :: "kmode \<Rightarrow> 32 word \<Rightarrow> 32 word
    \<Rightarrow> kcall" where [stub_defs]:
  "sys_k_pipe_alloc_init m p_pipe p_size =
     syscall m ''k_pipe_alloc_init'' K_SYSCALL_K_PIPE_ALLOC_INIT RWord
       [P32 p_pipe, P32 p_size]"

definition sys_k_pipe_put :: "kmode \<Rightarrow> 32 word \<Rightarrow> 32 word \<Rightarrow> 32
    word \<Rightarrow> 32 word \<Rightarrow> 32 word \<Rightarrow> 64 word \<Rightarrow> kcall"
    where [stub_defs]:
  "sys_k_pipe_put m p_pipe p_data p_bytes_to_write p_bytes_written p_min_xfer p_timeout =
     syscall m ''k_pipe_put'' K_SYSCALL_K_PIPE_PUT RWord
       [P32 p_pipe, P32 p_data, P32 p_bytes_to_write, P32 p_bytes_written, P32 p_min_xfer, P64
        p_timeout]"

definition sys_k_pipe_get :: "kmode \<Rightarrow> 32 word \<Rightarrow> 32 word \<Rightarrow> 32
    word \<Rightarrow> 32 word \<Rightarrow> 32 word \<Rightarrow> 64 word \<Rightarrow> kcall"
    where [stub_defs]:
  "sys_k_pipe_get m p_pipe p_data p_bytes_to_read p_bytes_read p_min_xfer p_timeout =
     syscall m ''k_pipe_get'' K_SYSCALL_K_PIPE_GET RWord
       [P32 p_pipe, P32 p_data, P32 p_bytes_to_read, P32 p_bytes_read, P32 p_min_xfer, P64
        p_timeout]"

definition sys_k_pipe_read_avail :: "kmode \<Rightarrow> 32 word \<Rightarrow> kcall" where
    [stub_defs]:
  "sys_k_pipe_read_avail m p_pipe =
     syscall m ''k_pipe_read_avail'' K_SYSCALL_K_PIPE_READ_AVAIL RWord
       [P32 p_pipe]"

definition sys_k_pipe_write_avail :: "kmode \<Rightarrow> 32 word \<Rightarrow> kcall" where
    [stub_defs]:
  "sys_k_pipe_write_avail m p_pipe =
     syscall m ''k_pipe_write_avail'' K_SYSCALL_K_PIPE_WRITE_AVAIL RWord
       [P32 p_pipe]"

definition sys_k_pipe_flush :: "kmode \<Rightarrow> 32 word \<Rightarrow> kcall" where
    [stub_defs]:
  "sys_k_pipe_flush m p_pipe =
     syscall m ''k_pipe_flush'' K_SYSCALL_K_PIPE_FLUSH RVoid
       [P32 p_pipe]"

definition sys_k_pipe_buffer_flush :: "kmode \<Rightarrow> 32 word \<Rightarrow> kcall" where
    [stub_defs]:
  "sys_k_pipe_buffer_flush m p_pipe =
     syscall m ''k_pipe_buffer_flush'' K_SYSCALL_K_PIPE_BUFFER_FLUSH RVoid
       [P32 p_pipe]"

definition sys_k_pipe_write :: "kmode \<Rightarrow> 32 word \<Rightarrow> 32 word \<Rightarrow> 32
    word \<Rightarrow> 64 word \<Rightarrow> kcall" where [stub_defs]:
  "sys_k_pipe_write m p_pipe p_data p_len p_timeout =
     syscall m ''k_pipe_write'' K_SYSCALL_K_PIPE_WRITE RWord
       [P32 p_pipe, P32 p_data, P32 p_len, P64 p_timeout]"

definition sys_k_pipe_read :: "kmode \<Rightarrow> 32 word \<Rightarrow> 32 word \<Rightarrow> 32
    word \<Rightarrow> 64 word \<Rightarrow> kcall" where [stub_defs]:
  "sys_k_pipe_read m p_pipe p_data p_len p_timeout =
     syscall m ''k_pipe_read'' K_SYSCALL_K_PIPE_READ RWord
       [P32 p_pipe, P32 p_data, P32 p_len, P64 p_timeout]"

definition sys_k_pipe_reset :: "kmode \<Rightarrow> 32 word \<Rightarrow> kcall" where
    [stub_defs]:
  "sys_k_pipe_reset m p_pipe =
     syscall m ''k_pipe_reset'' K_SYSCALL_K_PIPE_RESET RVoid
       [P32 p_pipe]"

definition sys_k_pipe_close :: "kmode \<Rightarrow> 32 word \<Rightarrow> kcall" where
    [stub_defs]:
  "sys_k_pipe_close m p_pipe =
     syscall m ''k_pipe_close'' K_SYSCALL_K_PIPE_CLOSE RVoid
       [P32 p_pipe]"

definition sys_k_poll :: "kmode \<Rightarrow> 32 word \<Rightarrow> 32 word \<Rightarrow> 64 word
    \<Rightarrow> kcall" where [stub_defs]:
  "sys_k_poll m p_events p_num_events p_timeout =
     syscall m ''k_poll'' K_SYSCALL_K_POLL RWord
       [P32 p_events, P32 p_num_events, P64 p_timeout]"

definition sys_k_poll_signal_init :: "kmode \<Rightarrow> 32 word \<Rightarrow> kcall" where
    [stub_defs]:
  "sys_k_poll_signal_init m p_sig =
     syscall m ''k_poll_signal_init'' K_SYSCALL_K_POLL_SIGNAL_INIT RVoid
       [P32 p_sig]"

definition sys_k_poll_signal_reset :: "kmode \<Rightarrow> 32 word \<Rightarrow> kcall" where
    [stub_defs]:
  "sys_k_poll_signal_reset m p_sig =
     syscall m ''k_poll_signal_reset'' K_SYSCALL_K_POLL_SIGNAL_RESET RVoid
       [P32 p_sig]"

definition sys_k_poll_signal_check :: "kmode \<Rightarrow> 32 word \<Rightarrow> 32 word
    \<Rightarrow> 32 word \<Rightarrow> kcall" where [stub_defs]:
  "sys_k_poll_signal_check m p_sig p_signaled p_result =
     syscall m ''k_poll_signal_check'' K_SYSCALL_K_POLL_SIGNAL_CHECK RVoid
       [P32 p_sig, P32 p_signaled, P32 p_result]"

definition sys_k_poll_signal_raise :: "kmode \<Rightarrow> 32 word \<Rightarrow> 32 word
    \<Rightarrow> kcall" where [stub_defs]:
  "sys_k_poll_signal_raise m p_sig p_result =
     syscall m ''k_poll_signal_raise'' K_SYSCALL_K_POLL_SIGNAL_RAISE RWord
       [P32 p_sig, P32 p_result]"

definition sys_k_str_out :: "kmode \<Rightarrow> 32 word \<Rightarrow> 32 word \<Rightarrow>
    kcall" where [stub_defs]:
  "sys_k_str_out m p_c p_n =
     syscall m ''k_str_out'' K_SYSCALL_K_STR_OUT RVoid
       [P32 p_c, P32 p_n]"

definition sys_k_float_disable :: "kmode \<Rightarrow> 32 word \<Rightarrow> kcall" where
    [stub_defs]:
  "sys_k_float_disable m p_thread =
     syscall m ''k_float_disable'' K_SYSCALL_K_FLOAT_DISABLE RWord
       [P32 p_thread]"

definition sys_k_float_enable :: "kmode \<Rightarrow> 32 word \<Rightarrow> 32 word \<Rightarrow>
    kcall" where [stub_defs]:
  "sys_k_float_enable m p_thread p_options =
     syscall m ''k_float_enable'' K_SYSCALL_K_FLOAT_ENABLE RWord
       [P32 p_thread, P32 p_options]"

section \<open>\<^verbatim>\<open>socket.h\<close>\<close>

definition sys_zsock_get_context_object :: "kmode \<Rightarrow> 32 word \<Rightarrow> kcall" where
    [stub_defs]:
  "sys_zsock_get_context_object m p_sock =
     syscall m ''zsock_get_context_object'' K_SYSCALL_ZSOCK_GET_CONTEXT_OBJECT RWord
       [P32 p_sock]"

definition sys_zsock_socket :: "kmode \<Rightarrow> 32 word \<Rightarrow> 32 word \<Rightarrow> 32
    word \<Rightarrow> kcall" where [stub_defs]:
  "sys_zsock_socket m p_family p_type p_proto =
     syscall m ''zsock_socket'' K_SYSCALL_ZSOCK_SOCKET RWord
       [P32 p_family, P32 p_type, P32 p_proto]"

definition sys_zsock_socketpair :: "kmode \<Rightarrow> 32 word \<Rightarrow> 32 word
    \<Rightarrow> 32 word \<Rightarrow> 32 word \<Rightarrow> kcall" where [stub_defs]:
  "sys_zsock_socketpair m p_family p_type p_proto p_sv =
     syscall m ''zsock_socketpair'' K_SYSCALL_ZSOCK_SOCKETPAIR RWord
       [P32 p_family, P32 p_type, P32 p_proto, P32 p_sv]"

definition sys_zsock_close :: "kmode \<Rightarrow> 32 word \<Rightarrow> kcall" where [stub_defs]:
  "sys_zsock_close m p_sock =
     syscall m ''zsock_close'' K_SYSCALL_ZSOCK_CLOSE RWord
       [P32 p_sock]"

definition sys_zsock_shutdown :: "kmode \<Rightarrow> 32 word \<Rightarrow> 32 word \<Rightarrow>
    kcall" where [stub_defs]:
  "sys_zsock_shutdown m p_sock p_how =
     syscall m ''zsock_shutdown'' K_SYSCALL_ZSOCK_SHUTDOWN RWord
       [P32 p_sock, P32 p_how]"

definition sys_zsock_bind :: "kmode \<Rightarrow> 32 word \<Rightarrow> 32 word \<Rightarrow> 32
    word \<Rightarrow> kcall" where [stub_defs]:
  "sys_zsock_bind m p_sock p_addr p_addrlen =
     syscall m ''zsock_bind'' K_SYSCALL_ZSOCK_BIND RWord
       [P32 p_sock, P32 p_addr, P32 p_addrlen]"

definition sys_zsock_connect :: "kmode \<Rightarrow> 32 word \<Rightarrow> 32 word \<Rightarrow>
    32 word \<Rightarrow> kcall" where [stub_defs]:
  "sys_zsock_connect m p_sock p_addr p_addrlen =
     syscall m ''zsock_connect'' K_SYSCALL_ZSOCK_CONNECT RWord
       [P32 p_sock, P32 p_addr, P32 p_addrlen]"

definition sys_zsock_listen :: "kmode \<Rightarrow> 32 word \<Rightarrow> 32 word \<Rightarrow>
    kcall" where [stub_defs]:
  "sys_zsock_listen m p_sock p_backlog =
     syscall m ''zsock_listen'' K_SYSCALL_ZSOCK_LISTEN RWord
       [P32 p_sock, P32 p_backlog]"

definition sys_zsock_accept :: "kmode \<Rightarrow> 32 word \<Rightarrow> 32 word \<Rightarrow> 32
    word \<Rightarrow> kcall" where [stub_defs]:
  "sys_zsock_accept m p_sock p_addr p_addrlen =
     syscall m ''zsock_accept'' K_SYSCALL_ZSOCK_ACCEPT RWord
       [P32 p_sock, P32 p_addr, P32 p_addrlen]"

definition sys_zsock_sendto :: "kmode \<Rightarrow> 32 word \<Rightarrow> 32 word \<Rightarrow> 32
    word \<Rightarrow> 32 word \<Rightarrow> 32 word \<Rightarrow> 32 word \<Rightarrow> kcall"
    where [stub_defs]:
  "sys_zsock_sendto m p_sock p_buf p_len p_flags p_dest_addr p_addrlen =
     syscall m ''zsock_sendto'' K_SYSCALL_ZSOCK_SENDTO RWord
       [P32 p_sock, P32 p_buf, P32 p_len, P32 p_flags, P32 p_dest_addr, P32 p_addrlen]"

definition sys_zsock_sendmsg :: "kmode \<Rightarrow> 32 word \<Rightarrow> 32 word \<Rightarrow>
    32 word \<Rightarrow> kcall" where [stub_defs]:
  "sys_zsock_sendmsg m p_sock p_msg p_flags =
     syscall m ''zsock_sendmsg'' K_SYSCALL_ZSOCK_SENDMSG RWord
       [P32 p_sock, P32 p_msg, P32 p_flags]"

definition sys_zsock_recvfrom :: "kmode \<Rightarrow> 32 word \<Rightarrow> 32 word \<Rightarrow>
    32 word \<Rightarrow> 32 word \<Rightarrow> 32 word \<Rightarrow> 32 word \<Rightarrow> kcall"
    where [stub_defs]:
  "sys_zsock_recvfrom m p_sock p_buf p_max_len p_flags p_src_addr p_addrlen =
     syscall m ''zsock_recvfrom'' K_SYSCALL_ZSOCK_RECVFROM RWord
       [P32 p_sock, P32 p_buf, P32 p_max_len, P32 p_flags, P32 p_src_addr, P32 p_addrlen]"

definition sys_zsock_recvmsg :: "kmode \<Rightarrow> 32 word \<Rightarrow> 32 word \<Rightarrow>
    32 word \<Rightarrow> kcall" where [stub_defs]:
  "sys_zsock_recvmsg m p_sock p_msg p_flags =
     syscall m ''zsock_recvmsg'' K_SYSCALL_ZSOCK_RECVMSG RWord
       [P32 p_sock, P32 p_msg, P32 p_flags]"

definition sys_zsock_fcntl_impl :: "kmode \<Rightarrow> 32 word \<Rightarrow> 32 word
    \<Rightarrow> 32 word \<Rightarrow> kcall" where [stub_defs]:
  "sys_zsock_fcntl_impl m p_sock p_cmd p_flags =
     syscall m ''zsock_fcntl_impl'' K_SYSCALL_ZSOCK_FCNTL_IMPL RWord
       [P32 p_sock, P32 p_cmd, P32 p_flags]"

definition sys_zsock_ioctl_impl :: "kmode \<Rightarrow> 32 word \<Rightarrow> 32 word
    \<Rightarrow> 32 word \<Rightarrow> kcall" where [stub_defs]:
  "sys_zsock_ioctl_impl m p_sock p_request p_ap =
     syscall m ''zsock_ioctl_impl'' K_SYSCALL_ZSOCK_IOCTL_IMPL RWord
       [P32 p_sock, P32 p_request, P32 p_ap]"

definition sys_zsock_getsockopt :: "kmode \<Rightarrow> 32 word \<Rightarrow> 32 word
    \<Rightarrow> 32 word \<Rightarrow> 32 word \<Rightarrow> 32 word \<Rightarrow> kcall" where
    [stub_defs]:
  "sys_zsock_getsockopt m p_sock p_level p_optname p_optval p_optlen =
     syscall m ''zsock_getsockopt'' K_SYSCALL_ZSOCK_GETSOCKOPT RWord
       [P32 p_sock, P32 p_level, P32 p_optname, P32 p_optval, P32 p_optlen]"

definition sys_zsock_setsockopt :: "kmode \<Rightarrow> 32 word \<Rightarrow> 32 word
    \<Rightarrow> 32 word \<Rightarrow> 32 word \<Rightarrow> 32 word \<Rightarrow> kcall" where
    [stub_defs]:
  "sys_zsock_setsockopt m p_sock p_level p_optname p_optval p_optlen =
     syscall m ''zsock_setsockopt'' K_SYSCALL_ZSOCK_SETSOCKOPT RWord
       [P32 p_sock, P32 p_level, P32 p_optname, P32 p_optval, P32 p_optlen]"

definition sys_zsock_getpeername :: "kmode \<Rightarrow> 32 word \<Rightarrow> 32 word
    \<Rightarrow> 32 word \<Rightarrow> kcall" where [stub_defs]:
  "sys_zsock_getpeername m p_sock p_addr p_addrlen =
     syscall m ''zsock_getpeername'' K_SYSCALL_ZSOCK_GETPEERNAME RWord
       [P32 p_sock, P32 p_addr, P32 p_addrlen]"

definition sys_zsock_getsockname :: "kmode \<Rightarrow> 32 word \<Rightarrow> 32 word
    \<Rightarrow> 32 word \<Rightarrow> kcall" where [stub_defs]:
  "sys_zsock_getsockname m p_sock p_addr p_addrlen =
     syscall m ''zsock_getsockname'' K_SYSCALL_ZSOCK_GETSOCKNAME RWord
       [P32 p_sock, P32 p_addr, P32 p_addrlen]"

definition sys_zsock_gethostname :: "kmode \<Rightarrow> 32 word \<Rightarrow> 32 word
    \<Rightarrow> kcall" where [stub_defs]:
  "sys_zsock_gethostname m p_buf p_len =
     syscall m ''zsock_gethostname'' K_SYSCALL_ZSOCK_GETHOSTNAME RWord
       [P32 p_buf, P32 p_len]"

definition sys_zsock_inet_pton :: "kmode \<Rightarrow> 16 word \<Rightarrow> 32 word \<Rightarrow>
    32 word \<Rightarrow> kcall" where [stub_defs]:
  "sys_zsock_inet_pton m p_family p_src p_dst =
     syscall m ''zsock_inet_pton'' K_SYSCALL_ZSOCK_INET_PTON RWord
       [P16 p_family, P32 p_src, P32 p_dst]"

definition sys_z_zsock_getaddrinfo_internal :: "kmode \<Rightarrow> 32 word \<Rightarrow> 32 word
    \<Rightarrow> 32 word \<Rightarrow> 32 word \<Rightarrow> kcall" where [stub_defs]:
  "sys_z_zsock_getaddrinfo_internal m p_host p_service p_hints p_res =
     syscall m ''z_zsock_getaddrinfo_internal'' K_SYSCALL_Z_ZSOCK_GETADDRINFO_INTERNAL RWord
       [P32 p_host, P32 p_service, P32 p_hints, P32 p_res]"

section \<open>\<^verbatim>\<open>gpio.h\<close>\<close>

definition sys_gpio_pin_interrupt_configure :: "kmode \<Rightarrow> 32 word \<Rightarrow> 8 word
    \<Rightarrow> 32 word \<Rightarrow> kcall" where [stub_defs]:
  "sys_gpio_pin_interrupt_configure m p_port p_pin p_flags =
     syscall m ''gpio_pin_interrupt_configure'' K_SYSCALL_GPIO_PIN_INTERRUPT_CONFIGURE RWord
       [P32 p_port, P8 p_pin, P32 p_flags]"

definition sys_gpio_pin_configure :: "kmode \<Rightarrow> 32 word \<Rightarrow> 8 word
    \<Rightarrow> 32 word \<Rightarrow> kcall" where [stub_defs]:
  "sys_gpio_pin_configure m p_port p_pin p_flags =
     syscall m ''gpio_pin_configure'' K_SYSCALL_GPIO_PIN_CONFIGURE RWord
       [P32 p_port, P8 p_pin, P32 p_flags]"

definition sys_gpio_port_get_direction :: "kmode \<Rightarrow> 32 word \<Rightarrow> 32 word
    \<Rightarrow> 32 word \<Rightarrow> 32 word \<Rightarrow> kcall" where [stub_defs]:
  "sys_gpio_port_get_direction m p_port p_map p_inputs p_outputs =
     syscall m ''gpio_port_get_direction'' K_SYSCALL_GPIO_PORT_GET_DIRECTION RWord
       [P32 p_port, P32 p_map, P32 p_inputs, P32 p_outputs]"

definition sys_gpio_pin_get_config :: "kmode \<Rightarrow> 32 word \<Rightarrow> 8 word
    \<Rightarrow> 32 word \<Rightarrow> kcall" where [stub_defs]:
  "sys_gpio_pin_get_config m p_port p_pin p_flags =
     syscall m ''gpio_pin_get_config'' K_SYSCALL_GPIO_PIN_GET_CONFIG RWord
       [P32 p_port, P8 p_pin, P32 p_flags]"

definition sys_gpio_port_get_raw :: "kmode \<Rightarrow> 32 word \<Rightarrow> 32 word
    \<Rightarrow> kcall" where [stub_defs]:
  "sys_gpio_port_get_raw m p_port p_value =
     syscall m ''gpio_port_get_raw'' K_SYSCALL_GPIO_PORT_GET_RAW RWord
       [P32 p_port, P32 p_value]"

definition sys_gpio_port_set_masked_raw :: "kmode \<Rightarrow> 32 word \<Rightarrow> 32 word
    \<Rightarrow> 32 word \<Rightarrow> kcall" where [stub_defs]:
  "sys_gpio_port_set_masked_raw m p_port p_mask p_value =
     syscall m ''gpio_port_set_masked_raw'' K_SYSCALL_GPIO_PORT_SET_MASKED_RAW RWord
       [P32 p_port, P32 p_mask, P32 p_value]"

definition sys_gpio_port_set_bits_raw :: "kmode \<Rightarrow> 32 word \<Rightarrow> 32 word
    \<Rightarrow> kcall" where [stub_defs]:
  "sys_gpio_port_set_bits_raw m p_port p_pins =
     syscall m ''gpio_port_set_bits_raw'' K_SYSCALL_GPIO_PORT_SET_BITS_RAW RWord
       [P32 p_port, P32 p_pins]"

definition sys_gpio_port_clear_bits_raw :: "kmode \<Rightarrow> 32 word \<Rightarrow> 32 word
    \<Rightarrow> kcall" where [stub_defs]:
  "sys_gpio_port_clear_bits_raw m p_port p_pins =
     syscall m ''gpio_port_clear_bits_raw'' K_SYSCALL_GPIO_PORT_CLEAR_BITS_RAW RWord
       [P32 p_port, P32 p_pins]"

definition sys_gpio_port_toggle_bits :: "kmode \<Rightarrow> 32 word \<Rightarrow> 32 word
    \<Rightarrow> kcall" where [stub_defs]:
  "sys_gpio_port_toggle_bits m p_port p_pins =
     syscall m ''gpio_port_toggle_bits'' K_SYSCALL_GPIO_PORT_TOGGLE_BITS RWord
       [P32 p_port, P32 p_pins]"

definition sys_gpio_get_pending_int :: "kmode \<Rightarrow> 32 word \<Rightarrow> kcall" where
    [stub_defs]:
  "sys_gpio_get_pending_int m p_dev =
     syscall m ''gpio_get_pending_int'' K_SYSCALL_GPIO_GET_PENDING_INT RWord
       [P32 p_dev]"

section \<open>\<^verbatim>\<open>device.h\<close>\<close>

definition sys_device_get_binding :: "kmode \<Rightarrow> 32 word \<Rightarrow> kcall" where
    [stub_defs]:
  "sys_device_get_binding m p_name =
     syscall m ''device_get_binding'' K_SYSCALL_DEVICE_GET_BINDING RWord
       [P32 p_name]"

definition sys_device_is_ready :: "kmode \<Rightarrow> 32 word \<Rightarrow> kcall" where
    [stub_defs]:
  "sys_device_is_ready m p_dev =
     syscall m ''device_is_ready'' K_SYSCALL_DEVICE_IS_READY RBool
       [P32 p_dev]"

definition sys_device_init :: "kmode \<Rightarrow> 32 word \<Rightarrow> kcall" where [stub_defs]:
  "sys_device_init m p_dev =
     syscall m ''device_init'' K_SYSCALL_DEVICE_INIT RWord
       [P32 p_dev]"

definition sys_device_deinit :: "kmode \<Rightarrow> 32 word \<Rightarrow> kcall" where
    [stub_defs]:
  "sys_device_deinit m p_dev =
     syscall m ''device_deinit'' K_SYSCALL_DEVICE_DEINIT RWord
       [P32 p_dev]"

definition sys_device_get_by_dt_nodelabel :: "kmode \<Rightarrow> 32 word \<Rightarrow> kcall"
    where [stub_defs]:
  "sys_device_get_by_dt_nodelabel m p_nodelabel =
     syscall m ''device_get_by_dt_nodelabel'' K_SYSCALL_DEVICE_GET_BY_DT_NODELABEL RWord
       [P32 p_nodelabel]"

section \<open>\<^verbatim>\<open>entropy.h\<close>\<close>

definition sys_entropy_get_entropy :: "kmode \<Rightarrow> 32 word \<Rightarrow> 32 word
    \<Rightarrow> 16 word \<Rightarrow> kcall" where [stub_defs]:
  "sys_entropy_get_entropy m p_dev p_buffer p_length =
     syscall m ''entropy_get_entropy'' K_SYSCALL_ENTROPY_GET_ENTROPY RWord
       [P32 p_dev, P32 p_buffer, P16 p_length]"

section \<open>\<^verbatim>\<open>ethernet.h\<close>\<close>

definition sys_net_eth_get_ptp_clock_by_index :: "kmode \<Rightarrow> 32 word \<Rightarrow> kcall"
    where [stub_defs]:
  "sys_net_eth_get_ptp_clock_by_index m p_index =
     syscall m ''net_eth_get_ptp_clock_by_index'' K_SYSCALL_NET_ETH_GET_PTP_CLOCK_BY_INDEX RWord
       [P32 p_index]"

section \<open>\<^verbatim>\<open>fdtable.h\<close>\<close>

definition sys_zvfs_poll :: "kmode \<Rightarrow> 32 word \<Rightarrow> 32 word \<Rightarrow> 32
    word \<Rightarrow> kcall" where [stub_defs]:
  "sys_zvfs_poll m p_fds p_nfds p_poll_timeout =
     syscall m ''zvfs_poll'' K_SYSCALL_ZVFS_POLL RWord
       [P32 p_fds, P32 p_nfds, P32 p_poll_timeout]"

definition sys_zvfs_select :: "kmode \<Rightarrow> 32 word \<Rightarrow> 32 word \<Rightarrow> 32
    word \<Rightarrow> 32 word \<Rightarrow> 32 word \<Rightarrow> 32 word \<Rightarrow> kcall"
    where [stub_defs]:
  "sys_zvfs_select m p_nfds p_readfds p_writefds p_errorfds p_timeout p_sigmask =
     syscall m ''zvfs_select'' K_SYSCALL_ZVFS_SELECT RWord
       [P32 p_nfds, P32 p_readfds, P32 p_writefds, P32 p_errorfds, P32 p_timeout, P32 p_sigmask]"

section \<open>\<^verbatim>\<open>hwinfo.h\<close>\<close>

definition sys_hwinfo_get_device_id :: "kmode \<Rightarrow> 32 word \<Rightarrow> 32 word
    \<Rightarrow> kcall" where [stub_defs]:
  "sys_hwinfo_get_device_id m p_buffer p_length =
     syscall m ''hwinfo_get_device_id'' K_SYSCALL_HWINFO_GET_DEVICE_ID RWord
       [P32 p_buffer, P32 p_length]"

definition sys_hwinfo_get_device_eui64 :: "kmode \<Rightarrow> 32 word \<Rightarrow> kcall" where
    [stub_defs]:
  "sys_hwinfo_get_device_eui64 m p_buffer =
     syscall m ''hwinfo_get_device_eui64'' K_SYSCALL_HWINFO_GET_DEVICE_EUI64 RWord
       [P32 p_buffer]"

definition sys_hwinfo_get_reset_cause :: "kmode \<Rightarrow> 32 word \<Rightarrow> kcall" where
    [stub_defs]:
  "sys_hwinfo_get_reset_cause m p_cause =
     syscall m ''hwinfo_get_reset_cause'' K_SYSCALL_HWINFO_GET_RESET_CAUSE RWord
       [P32 p_cause]"

definition sys_hwinfo_clear_reset_cause :: "kmode \<Rightarrow> kcall" where [stub_defs]:
  "sys_hwinfo_clear_reset_cause m =
     syscall m ''hwinfo_clear_reset_cause'' K_SYSCALL_HWINFO_CLEAR_RESET_CAUSE RWord
       []"

definition sys_hwinfo_get_supported_reset_cause :: "kmode \<Rightarrow> 32 word \<Rightarrow>
    kcall" where [stub_defs]:
  "sys_hwinfo_get_supported_reset_cause m p_supported =
     syscall m ''hwinfo_get_supported_reset_cause'' K_SYSCALL_HWINFO_GET_SUPPORTED_RESET_CAUSE RWord
       [P32 p_supported]"

section \<open>\<^verbatim>\<open>kobject.h\<close>\<close>

definition sys_k_object_access_grant :: "kmode \<Rightarrow> 32 word \<Rightarrow> 32 word
    \<Rightarrow> kcall" where [stub_defs]:
  "sys_k_object_access_grant m p_object p_thread =
     syscall m ''k_object_access_grant'' K_SYSCALL_K_OBJECT_ACCESS_GRANT RVoid
       [P32 p_object, P32 p_thread]"

definition sys_k_object_release :: "kmode \<Rightarrow> 32 word \<Rightarrow> kcall" where
    [stub_defs]:
  "sys_k_object_release m p_object =
     syscall m ''k_object_release'' K_SYSCALL_K_OBJECT_RELEASE RVoid
       [P32 p_object]"

definition sys_k_object_alloc :: "kmode \<Rightarrow> 8 word \<Rightarrow> kcall" where
    [stub_defs]:
  "sys_k_object_alloc m p_otype =
     syscall m ''k_object_alloc'' K_SYSCALL_K_OBJECT_ALLOC RWord
       [PEnum p_otype]"

definition sys_k_object_alloc_size :: "kmode \<Rightarrow> 8 word \<Rightarrow> 32 word
    \<Rightarrow> kcall" where [stub_defs]:
  "sys_k_object_alloc_size m p_otype p_size =
     syscall m ''k_object_alloc_size'' K_SYSCALL_K_OBJECT_ALLOC_SIZE RWord
       [PEnum p_otype, P32 p_size]"

section \<open>\<^verbatim>\<open>libc-hooks.h\<close>\<close>

definition sys_zephyr_read_stdin :: "kmode \<Rightarrow> 32 word \<Rightarrow> 32 word
    \<Rightarrow> kcall" where [stub_defs]:
  "sys_zephyr_read_stdin m p_buf p_nbytes =
     syscall m ''zephyr_read_stdin'' K_SYSCALL_ZEPHYR_READ_STDIN RWord
       [P32 p_buf, P32 p_nbytes]"

definition sys_zephyr_write_stdout :: "kmode \<Rightarrow> 32 word \<Rightarrow> 32 word
    \<Rightarrow> kcall" where [stub_defs]:
  "sys_zephyr_write_stdout m p_buf p_nbytes =
     syscall m ''zephyr_write_stdout'' K_SYSCALL_ZEPHYR_WRITE_STDOUT RWord
       [P32 p_buf, P32 p_nbytes]"

definition sys_zephyr_fputc :: "kmode \<Rightarrow> 32 word \<Rightarrow> 32 word \<Rightarrow>
    kcall" where [stub_defs]:
  "sys_zephyr_fputc m p_c p_stream =
     syscall m ''zephyr_fputc'' K_SYSCALL_ZEPHYR_FPUTC RWord
       [P32 p_c, P32 p_stream]"

definition sys_zephyr_fwrite :: "kmode \<Rightarrow> 32 word \<Rightarrow> 32 word \<Rightarrow>
    32 word \<Rightarrow> 32 word \<Rightarrow> kcall" where [stub_defs]:
  "sys_zephyr_fwrite m p_ptr p_size p_nitems p_stream =
     syscall m ''zephyr_fwrite'' K_SYSCALL_ZEPHYR_FWRITE RWord
       [P32 p_ptr, P32 p_size, P32 p_nitems, P32 p_stream]"

section \<open>\<^verbatim>\<open>log_ctrl.h\<close>\<close>

definition sys_log_panic :: "kmode \<Rightarrow> kcall" where [stub_defs]:
  "sys_log_panic m =
     syscall m ''log_panic'' K_SYSCALL_LOG_PANIC RVoid
       []"

definition sys_log_process :: "kmode \<Rightarrow> kcall" where [stub_defs]:
  "sys_log_process m =
     syscall m ''log_process'' K_SYSCALL_LOG_PROCESS RBool
       []"

definition sys_log_buffered_cnt :: "kmode \<Rightarrow> kcall" where [stub_defs]:
  "sys_log_buffered_cnt m =
     syscall m ''log_buffered_cnt'' K_SYSCALL_LOG_BUFFERED_CNT RWord
       []"

definition sys_log_filter_set :: "kmode \<Rightarrow> 32 word \<Rightarrow> 32 word \<Rightarrow>
    16 word \<Rightarrow> 32 word \<Rightarrow> kcall" where [stub_defs]:
  "sys_log_filter_set m p_backend p_domain_id p_source_id p_level =
     syscall m ''log_filter_set'' K_SYSCALL_LOG_FILTER_SET RWord
       [P32 p_backend, P32 p_domain_id, P16 p_source_id, P32 p_level]"

definition sys_log_frontend_filter_set :: "kmode \<Rightarrow> 16 word \<Rightarrow> 32 word
    \<Rightarrow> kcall" where [stub_defs]:
  "sys_log_frontend_filter_set m p_source_id p_level =
     syscall m ''log_frontend_filter_set'' K_SYSCALL_LOG_FRONTEND_FILTER_SET RWord
       [P16 p_source_id, P32 p_level]"

section \<open>\<^verbatim>\<open>log_msg.h\<close>\<close>

definition sys_z_log_msg_simple_create_0 :: "kmode \<Rightarrow> 32 word \<Rightarrow> 32 word
    \<Rightarrow> 32 word \<Rightarrow> kcall" where [stub_defs]:
  "sys_z_log_msg_simple_create_0 m p_source p_level p_fmt =
     syscall m ''z_log_msg_simple_create_0'' K_SYSCALL_Z_LOG_MSG_SIMPLE_CREATE_0 RVoid
       [P32 p_source, P32 p_level, P32 p_fmt]"

definition sys_z_log_msg_simple_create_1 :: "kmode \<Rightarrow> 32 word \<Rightarrow> 32 word
    \<Rightarrow> 32 word \<Rightarrow> 32 word \<Rightarrow> kcall" where [stub_defs]:
  "sys_z_log_msg_simple_create_1 m p_source p_level p_fmt p_arg =
     syscall m ''z_log_msg_simple_create_1'' K_SYSCALL_Z_LOG_MSG_SIMPLE_CREATE_1 RVoid
       [P32 p_source, P32 p_level, P32 p_fmt, P32 p_arg]"

definition sys_z_log_msg_simple_create_2 :: "kmode \<Rightarrow> 32 word \<Rightarrow> 32 word
    \<Rightarrow> 32 word \<Rightarrow> 32 word \<Rightarrow> 32 word \<Rightarrow> kcall" where
    [stub_defs]:
  "sys_z_log_msg_simple_create_2 m p_source p_level p_fmt p_arg0 p_arg1 =
     syscall m ''z_log_msg_simple_create_2'' K_SYSCALL_Z_LOG_MSG_SIMPLE_CREATE_2 RVoid
       [P32 p_source, P32 p_level, P32 p_fmt, P32 p_arg0, P32 p_arg1]"

definition sys_z_log_msg_static_create :: "kmode \<Rightarrow> 32 word \<Rightarrow> 32 word
    \<Rightarrow> 32 word \<Rightarrow> 32 word \<Rightarrow> kcall" where [stub_defs]:
  "sys_z_log_msg_static_create m p_source p_desc p_package p_data =
     syscall m ''z_log_msg_static_create'' K_SYSCALL_Z_LOG_MSG_STATIC_CREATE RVoid
       [P32 p_source, P32 p_desc, P32 p_package, P32 p_data]"

section \<open>\<^verbatim>\<open>mutex.h\<close>\<close>

definition sys_z_sys_mutex_kernel_lock :: "kmode \<Rightarrow> 32 word \<Rightarrow> 64 word
    \<Rightarrow> kcall" where [stub_defs]:
  "sys_z_sys_mutex_kernel_lock m p_mutex p_timeout =
     syscall m ''z_sys_mutex_kernel_lock'' K_SYSCALL_Z_SYS_MUTEX_KERNEL_LOCK RWord
       [P32 p_mutex, P64 p_timeout]"

definition sys_z_sys_mutex_kernel_unlock :: "kmode \<Rightarrow> 32 word \<Rightarrow> kcall"
    where [stub_defs]:
  "sys_z_sys_mutex_kernel_unlock m p_mutex =
     syscall m ''z_sys_mutex_kernel_unlock'' K_SYSCALL_Z_SYS_MUTEX_KERNEL_UNLOCK RWord
       [P32 p_mutex]"

section \<open>\<^verbatim>\<open>net_if.h\<close>\<close>

definition sys_net_if_ipv6_addr_lookup_by_index :: "kmode \<Rightarrow> 32 word \<Rightarrow>
    kcall" where [stub_defs]:
  "sys_net_if_ipv6_addr_lookup_by_index m p_addr =
     syscall m ''net_if_ipv6_addr_lookup_by_index'' K_SYSCALL_NET_IF_IPV6_ADDR_LOOKUP_BY_INDEX RWord
       [P32 p_addr]"

definition sys_net_if_ipv6_addr_add_by_index :: "kmode \<Rightarrow> 32 word \<Rightarrow> 32 word
    \<Rightarrow> 8 word \<Rightarrow> 32 word \<Rightarrow> kcall" where [stub_defs]:
  "sys_net_if_ipv6_addr_add_by_index m p_index p_addr p_addr_type p_vlifetime =
     syscall m ''net_if_ipv6_addr_add_by_index'' K_SYSCALL_NET_IF_IPV6_ADDR_ADD_BY_INDEX RBool
       [P32 p_index, P32 p_addr, PEnum p_addr_type, P32 p_vlifetime]"

definition sys_net_if_ipv6_addr_rm_by_index :: "kmode \<Rightarrow> 32 word \<Rightarrow> 32 word
    \<Rightarrow> kcall" where [stub_defs]:
  "sys_net_if_ipv6_addr_rm_by_index m p_index p_addr =
     syscall m ''net_if_ipv6_addr_rm_by_index'' K_SYSCALL_NET_IF_IPV6_ADDR_RM_BY_INDEX RBool
       [P32 p_index, P32 p_addr]"

definition sys_net_if_ipv4_addr_lookup_by_index :: "kmode \<Rightarrow> 32 word \<Rightarrow>
    kcall" where [stub_defs]:
  "sys_net_if_ipv4_addr_lookup_by_index m p_addr =
     syscall m ''net_if_ipv4_addr_lookup_by_index'' K_SYSCALL_NET_IF_IPV4_ADDR_LOOKUP_BY_INDEX RWord
       [P32 p_addr]"

definition sys_net_if_ipv4_addr_add_by_index :: "kmode \<Rightarrow> 32 word \<Rightarrow> 32 word
    \<Rightarrow> 8 word \<Rightarrow> 32 word \<Rightarrow> kcall" where [stub_defs]:
  "sys_net_if_ipv4_addr_add_by_index m p_index p_addr p_addr_type p_vlifetime =
     syscall m ''net_if_ipv4_addr_add_by_index'' K_SYSCALL_NET_IF_IPV4_ADDR_ADD_BY_INDEX RBool
       [P32 p_index, P32 p_addr, PEnum p_addr_type, P32 p_vlifetime]"

definition sys_net_if_ipv4_addr_rm_by_index :: "kmode \<Rightarrow> 32 word \<Rightarrow> 32 word
    \<Rightarrow> kcall" where [stub_defs]:
  "sys_net_if_ipv4_addr_rm_by_index m p_index p_addr =
     syscall m ''net_if_ipv4_addr_rm_by_index'' K_SYSCALL_NET_IF_IPV4_ADDR_RM_BY_INDEX RBool
       [P32 p_index, P32 p_addr]"

definition sys_net_if_ipv4_set_netmask_by_index :: "kmode \<Rightarrow> 32 word \<Rightarrow> 32
    word \<Rightarrow> kcall" where [stub_defs]:
  "sys_net_if_ipv4_set_netmask_by_index m p_index p_netmask =
     syscall m ''net_if_ipv4_set_netmask_by_index'' K_SYSCALL_NET_IF_IPV4_SET_NETMASK_BY_INDEX RBool
       [P32 p_index, P32 p_netmask]"

definition sys_net_if_ipv4_set_netmask_by_addr_by_index :: "kmode \<Rightarrow> 32 word
    \<Rightarrow> 32 word \<Rightarrow> 32 word \<Rightarrow> kcall" where [stub_defs]:
  "sys_net_if_ipv4_set_netmask_by_addr_by_index m p_index p_addr p_netmask =
     syscall m ''net_if_ipv4_set_netmask_by_addr_by_index'' K_SYSCALL_NET_IF_IPV4_SET_NETMASK_BY_ADDR_BY_INDEX RBool
       [P32 p_index, P32 p_addr, P32 p_netmask]"

definition sys_net_if_ipv4_set_gw_by_index :: "kmode \<Rightarrow> 32 word \<Rightarrow> 32 word
    \<Rightarrow> kcall" where [stub_defs]:
  "sys_net_if_ipv4_set_gw_by_index m p_index p_gw =
     syscall m ''net_if_ipv4_set_gw_by_index'' K_SYSCALL_NET_IF_IPV4_SET_GW_BY_INDEX RBool
       [P32 p_index, P32 p_gw]"

definition sys_net_if_get_by_index :: "kmode \<Rightarrow> 32 word \<Rightarrow> kcall" where
    [stub_defs]:
  "sys_net_if_get_by_index m p_index =
     syscall m ''net_if_get_by_index'' K_SYSCALL_NET_IF_GET_BY_INDEX RWord
       [P32 p_index]"

section \<open>\<^verbatim>\<open>net_ip.h\<close>\<close>

definition sys_net_addr_pton :: "kmode \<Rightarrow> 16 word \<Rightarrow> 32 word \<Rightarrow>
    32 word \<Rightarrow> kcall" where [stub_defs]:
  "sys_net_addr_pton m p_family p_src p_dst =
     syscall m ''net_addr_pton'' K_SYSCALL_NET_ADDR_PTON RWord
       [P16 p_family, P32 p_src, P32 p_dst]"

definition sys_net_addr_ntop :: "kmode \<Rightarrow> 16 word \<Rightarrow> 32 word \<Rightarrow>
    32 word \<Rightarrow> 32 word \<Rightarrow> kcall" where [stub_defs]:
  "sys_net_addr_ntop m p_family p_src p_dst p_size =
     syscall m ''net_addr_ntop'' K_SYSCALL_NET_ADDR_NTOP RWord
       [P16 p_family, P32 p_src, P32 p_dst, P32 p_size]"

section \<open>\<^verbatim>\<open>posix_clock.h\<close>\<close>

definition sys___posix_clock_get_base :: "kmode \<Rightarrow> 32 word \<Rightarrow> 32 word
    \<Rightarrow> kcall" where [stub_defs]:
  "sys___posix_clock_get_base m p_clock_id p_ts =
     syscall m ''__posix_clock_get_base'' K_SYSCALL___POSIX_CLOCK_GET_BASE RWord
       [P32 p_clock_id, P32 p_ts]"

section \<open>\<^verbatim>\<open>random.h\<close>\<close>

definition sys_sys_rand_get :: "kmode \<Rightarrow> 32 word \<Rightarrow> 32 word \<Rightarrow>
    kcall" where [stub_defs]:
  "sys_sys_rand_get m p_dst p_len =
     syscall m ''sys_rand_get'' K_SYSCALL_SYS_RAND_GET RVoid
       [P32 p_dst, P32 p_len]"

definition sys_sys_csrand_get :: "kmode \<Rightarrow> 32 word \<Rightarrow> 32 word \<Rightarrow>
    kcall" where [stub_defs]:
  "sys_sys_csrand_get m p_dst p_len =
     syscall m ''sys_csrand_get'' K_SYSCALL_SYS_CSRAND_GET RWord
       [P32 p_dst, P32 p_len]"

section \<open>\<^verbatim>\<open>spi.h\<close>\<close>

definition sys_spi_transceive :: "kmode \<Rightarrow> 32 word \<Rightarrow> 32 word \<Rightarrow>
    32 word \<Rightarrow> 32 word \<Rightarrow> kcall" where [stub_defs]:
  "sys_spi_transceive m p_dev p_config p_tx_bufs p_rx_bufs =
     syscall m ''spi_transceive'' K_SYSCALL_SPI_TRANSCEIVE RWord
       [P32 p_dev, P32 p_config, P32 p_tx_bufs, P32 p_rx_bufs]"

definition sys_spi_release :: "kmode \<Rightarrow> 32 word \<Rightarrow> 32 word \<Rightarrow>
    kcall" where [stub_defs]:
  "sys_spi_release m p_dev p_config =
     syscall m ''spi_release'' K_SYSCALL_SPI_RELEASE RWord
       [P32 p_dev, P32 p_config]"

section \<open>\<^verbatim>\<open>time_units.h\<close>\<close>

definition sys_sys_clock_hw_cycles_per_sec_runtime_get :: "kmode \<Rightarrow> kcall" where
    [stub_defs]:
  "sys_sys_clock_hw_cycles_per_sec_runtime_get m =
     syscall m ''sys_clock_hw_cycles_per_sec_runtime_get'' K_SYSCALL_SYS_CLOCK_HW_CYCLES_PER_SEC_RUNTIME_GET RWord
       []"

section \<open>\<^verbatim>\<open>uart.h\<close>\<close>

definition sys_uart_err_check :: "kmode \<Rightarrow> 32 word \<Rightarrow> kcall" where
    [stub_defs]:
  "sys_uart_err_check m p_dev =
     syscall m ''uart_err_check'' K_SYSCALL_UART_ERR_CHECK RWord
       [P32 p_dev]"

definition sys_uart_poll_in :: "kmode \<Rightarrow> 32 word \<Rightarrow> 32 word \<Rightarrow>
    kcall" where [stub_defs]:
  "sys_uart_poll_in m p_dev p_p_char =
     syscall m ''uart_poll_in'' K_SYSCALL_UART_POLL_IN RWord
       [P32 p_dev, P32 p_p_char]"

definition sys_uart_poll_in_u16 :: "kmode \<Rightarrow> 32 word \<Rightarrow> 32 word
    \<Rightarrow> kcall" where [stub_defs]:
  "sys_uart_poll_in_u16 m p_dev p_p_u16 =
     syscall m ''uart_poll_in_u16'' K_SYSCALL_UART_POLL_IN_U16 RWord
       [P32 p_dev, P32 p_p_u16]"

definition sys_uart_poll_out :: "kmode \<Rightarrow> 32 word \<Rightarrow> 8 word \<Rightarrow>
    kcall" where [stub_defs]:
  "sys_uart_poll_out m p_dev p_out_char =
     syscall m ''uart_poll_out'' K_SYSCALL_UART_POLL_OUT RVoid
       [P32 p_dev, P8 p_out_char]"

definition sys_uart_poll_out_u16 :: "kmode \<Rightarrow> 32 word \<Rightarrow> 16 word
    \<Rightarrow> kcall" where [stub_defs]:
  "sys_uart_poll_out_u16 m p_dev p_out_u16 =
     syscall m ''uart_poll_out_u16'' K_SYSCALL_UART_POLL_OUT_U16 RVoid
       [P32 p_dev, P16 p_out_u16]"

definition sys_uart_configure :: "kmode \<Rightarrow> 32 word \<Rightarrow> 32 word \<Rightarrow>
    kcall" where [stub_defs]:
  "sys_uart_configure m p_dev p_cfg =
     syscall m ''uart_configure'' K_SYSCALL_UART_CONFIGURE RWord
       [P32 p_dev, P32 p_cfg]"

definition sys_uart_config_get :: "kmode \<Rightarrow> 32 word \<Rightarrow> 32 word \<Rightarrow>
    kcall" where [stub_defs]:
  "sys_uart_config_get m p_dev p_cfg =
     syscall m ''uart_config_get'' K_SYSCALL_UART_CONFIG_GET RWord
       [P32 p_dev, P32 p_cfg]"

definition sys_uart_irq_tx_enable :: "kmode \<Rightarrow> 32 word \<Rightarrow> kcall" where
    [stub_defs]:
  "sys_uart_irq_tx_enable m p_dev =
     syscall m ''uart_irq_tx_enable'' K_SYSCALL_UART_IRQ_TX_ENABLE RVoid
       [P32 p_dev]"

definition sys_uart_irq_tx_disable :: "kmode \<Rightarrow> 32 word \<Rightarrow> kcall" where
    [stub_defs]:
  "sys_uart_irq_tx_disable m p_dev =
     syscall m ''uart_irq_tx_disable'' K_SYSCALL_UART_IRQ_TX_DISABLE RVoid
       [P32 p_dev]"

definition sys_uart_irq_rx_enable :: "kmode \<Rightarrow> 32 word \<Rightarrow> kcall" where
    [stub_defs]:
  "sys_uart_irq_rx_enable m p_dev =
     syscall m ''uart_irq_rx_enable'' K_SYSCALL_UART_IRQ_RX_ENABLE RVoid
       [P32 p_dev]"

definition sys_uart_irq_rx_disable :: "kmode \<Rightarrow> 32 word \<Rightarrow> kcall" where
    [stub_defs]:
  "sys_uart_irq_rx_disable m p_dev =
     syscall m ''uart_irq_rx_disable'' K_SYSCALL_UART_IRQ_RX_DISABLE RVoid
       [P32 p_dev]"

definition sys_uart_irq_err_enable :: "kmode \<Rightarrow> 32 word \<Rightarrow> kcall" where
    [stub_defs]:
  "sys_uart_irq_err_enable m p_dev =
     syscall m ''uart_irq_err_enable'' K_SYSCALL_UART_IRQ_ERR_ENABLE RVoid
       [P32 p_dev]"

definition sys_uart_irq_err_disable :: "kmode \<Rightarrow> 32 word \<Rightarrow> kcall" where
    [stub_defs]:
  "sys_uart_irq_err_disable m p_dev =
     syscall m ''uart_irq_err_disable'' K_SYSCALL_UART_IRQ_ERR_DISABLE RVoid
       [P32 p_dev]"

definition sys_uart_irq_is_pending :: "kmode \<Rightarrow> 32 word \<Rightarrow> kcall" where
    [stub_defs]:
  "sys_uart_irq_is_pending m p_dev =
     syscall m ''uart_irq_is_pending'' K_SYSCALL_UART_IRQ_IS_PENDING RWord
       [P32 p_dev]"

definition sys_uart_irq_update :: "kmode \<Rightarrow> 32 word \<Rightarrow> kcall" where
    [stub_defs]:
  "sys_uart_irq_update m p_dev =
     syscall m ''uart_irq_update'' K_SYSCALL_UART_IRQ_UPDATE RWord
       [P32 p_dev]"

definition sys_uart_tx :: "kmode \<Rightarrow> 32 word \<Rightarrow> 32 word \<Rightarrow> 32 word
    \<Rightarrow> 32 word \<Rightarrow> kcall" where [stub_defs]:
  "sys_uart_tx m p_dev p_buf p_len p_timeout =
     syscall m ''uart_tx'' K_SYSCALL_UART_TX RWord
       [P32 p_dev, P32 p_buf, P32 p_len, P32 p_timeout]"

definition sys_uart_tx_u16 :: "kmode \<Rightarrow> 32 word \<Rightarrow> 32 word \<Rightarrow> 32
    word \<Rightarrow> 32 word \<Rightarrow> kcall" where [stub_defs]:
  "sys_uart_tx_u16 m p_dev p_buf p_len p_timeout =
     syscall m ''uart_tx_u16'' K_SYSCALL_UART_TX_U16 RWord
       [P32 p_dev, P32 p_buf, P32 p_len, P32 p_timeout]"

definition sys_uart_tx_abort :: "kmode \<Rightarrow> 32 word \<Rightarrow> kcall" where
    [stub_defs]:
  "sys_uart_tx_abort m p_dev =
     syscall m ''uart_tx_abort'' K_SYSCALL_UART_TX_ABORT RWord
       [P32 p_dev]"

definition sys_uart_rx_enable :: "kmode \<Rightarrow> 32 word \<Rightarrow> 32 word \<Rightarrow>
    32 word \<Rightarrow> 32 word \<Rightarrow> kcall" where [stub_defs]:
  "sys_uart_rx_enable m p_dev p_buf p_len p_timeout =
     syscall m ''uart_rx_enable'' K_SYSCALL_UART_RX_ENABLE RWord
       [P32 p_dev, P32 p_buf, P32 p_len, P32 p_timeout]"

definition sys_uart_rx_enable_u16 :: "kmode \<Rightarrow> 32 word \<Rightarrow> 32 word
    \<Rightarrow> 32 word \<Rightarrow> 32 word \<Rightarrow> kcall" where [stub_defs]:
  "sys_uart_rx_enable_u16 m p_dev p_buf p_len p_timeout =
     syscall m ''uart_rx_enable_u16'' K_SYSCALL_UART_RX_ENABLE_U16 RWord
       [P32 p_dev, P32 p_buf, P32 p_len, P32 p_timeout]"

definition sys_uart_rx_disable :: "kmode \<Rightarrow> 32 word \<Rightarrow> kcall" where
    [stub_defs]:
  "sys_uart_rx_disable m p_dev =
     syscall m ''uart_rx_disable'' K_SYSCALL_UART_RX_DISABLE RWord
       [P32 p_dev]"

definition sys_uart_line_ctrl_set :: "kmode \<Rightarrow> 32 word \<Rightarrow> 32 word
    \<Rightarrow> 32 word \<Rightarrow> kcall" where [stub_defs]:
  "sys_uart_line_ctrl_set m p_dev p_ctrl p_val =
     syscall m ''uart_line_ctrl_set'' K_SYSCALL_UART_LINE_CTRL_SET RWord
       [P32 p_dev, P32 p_ctrl, P32 p_val]"

definition sys_uart_line_ctrl_get :: "kmode \<Rightarrow> 32 word \<Rightarrow> 32 word
    \<Rightarrow> 32 word \<Rightarrow> kcall" where [stub_defs]:
  "sys_uart_line_ctrl_get m p_dev p_ctrl p_val =
     syscall m ''uart_line_ctrl_get'' K_SYSCALL_UART_LINE_CTRL_GET RWord
       [P32 p_dev, P32 p_ctrl, P32 p_val]"

definition sys_uart_drv_cmd :: "kmode \<Rightarrow> 32 word \<Rightarrow> 32 word \<Rightarrow> 32
    word \<Rightarrow> kcall" where [stub_defs]:
  "sys_uart_drv_cmd m p_dev p_cmd p_p =
     syscall m ''uart_drv_cmd'' K_SYSCALL_UART_DRV_CMD RWord
       [P32 p_dev, P32 p_cmd, P32 p_p]"

section \<open>Every stub reaches its own handler\<close>

text \<open>The function a call ends in: the implementation, or the row of the table that the trap selects.\<close>

fun served_by :: "kcall \<Rightarrow> string option" where
  "served_by (Z_Impl f ps k) = Some f"
| "served_by (Invoke regs rest n k) = map_of syscall_table n"

definition own_handler :: "kmode \<Rightarrow> string \<Rightarrow> kcall \<Rightarrow> bool" where
  "own_handler m f c \<longleftrightarrow> served_by c = Some (if traps m then ''z_mrsh_'' @ f else ''z_impl_'' @ f)"

lemma syscall_own_handler:
  "map_of syscall_table n = Some (''z_mrsh_'' @ f) \<Longrightarrow> own_handler m f (syscall m f n k ps)"
  by (simp add: own_handler_def syscall_def Let_def)

text \<open>C20. Every system call of the image ends in its own handler: for all parameters, each of the 202 stubs
  traps with the number whose row in the dispatch table is the marshalling function of that stub, or,
  in a build without \<^verbatim>\<open>CONFIG_USERSPACE\<close> (this one) or in kernel mode, calls the implementation
  of that stub.\<close>

theorem stubs_reach_their_handlers:
  "(\<forall>a b. own_handler m ''k_thread_stack_alloc'' (sys_k_thread_stack_alloc m a b)) \<and>
   (\<forall>a. own_handler m ''k_thread_stack_free'' (sys_k_thread_stack_free m a)) \<and>
   (\<forall>a b c d e f g h i j. own_handler m ''k_thread_create'' (sys_k_thread_create m a b c d e f g h i j)) \<and>
   (\<forall>a b. own_handler m ''k_thread_stack_space_get'' (sys_k_thread_stack_space_get m a b)) \<and>
   (\<forall>a b. own_handler m ''k_thread_join'' (sys_k_thread_join m a b)) \<and>
   (\<forall>a. own_handler m ''k_sleep'' (sys_k_sleep m a)) \<and>
   (\<forall>a. own_handler m ''k_usleep'' (sys_k_usleep m a)) \<and>
   (\<forall>a. own_handler m ''k_busy_wait'' (sys_k_busy_wait m a)) \<and>
   (own_handler m ''k_yield'' (sys_k_yield m)) \<and>
   (\<forall>a. own_handler m ''k_wakeup'' (sys_k_wakeup m a)) \<and>
   (own_handler m ''k_sched_current_thread_query'' (sys_k_sched_current_thread_query m)) \<and>
   (\<forall>a. own_handler m ''k_thread_abort'' (sys_k_thread_abort m a)) \<and>
   (\<forall>a. own_handler m ''k_thread_timeout_expires_ticks'' (sys_k_thread_timeout_expires_ticks m a)) \<and>
   (\<forall>a. own_handler m ''k_thread_timeout_remaining_ticks'' (sys_k_thread_timeout_remaining_ticks m a)) \<and>
   (\<forall>a. own_handler m ''k_thread_priority_get'' (sys_k_thread_priority_get m a)) \<and>
   (\<forall>a b. own_handler m ''k_thread_priority_set'' (sys_k_thread_priority_set m a b)) \<and>
   (\<forall>a b. own_handler m ''k_thread_deadline_set'' (sys_k_thread_deadline_set m a b)) \<and>
   (own_handler m ''k_reschedule'' (sys_k_reschedule m)) \<and>
   (\<forall>a. own_handler m ''k_thread_suspend'' (sys_k_thread_suspend m a)) \<and>
   (\<forall>a. own_handler m ''k_thread_resume'' (sys_k_thread_resume m a)) \<and>
   (own_handler m ''k_is_preempt_thread'' (sys_k_is_preempt_thread m)) \<and>
   (\<forall>a. own_handler m ''k_thread_custom_data_set'' (sys_k_thread_custom_data_set m a)) \<and>
   (own_handler m ''k_thread_custom_data_get'' (sys_k_thread_custom_data_get m)) \<and>
   (\<forall>a b. own_handler m ''k_thread_name_set'' (sys_k_thread_name_set m a b)) \<and>
   (\<forall>a b c. own_handler m ''k_thread_name_copy'' (sys_k_thread_name_copy m a b c)) \<and>
   (\<forall>a b c. own_handler m ''k_timer_start'' (sys_k_timer_start m a b c)) \<and>
   (\<forall>a. own_handler m ''k_timer_stop'' (sys_k_timer_stop m a)) \<and>
   (\<forall>a. own_handler m ''k_timer_status_get'' (sys_k_timer_status_get m a)) \<and>
   (\<forall>a. own_handler m ''k_timer_status_sync'' (sys_k_timer_status_sync m a)) \<and>
   (\<forall>a. own_handler m ''k_timer_expires_ticks'' (sys_k_timer_expires_ticks m a)) \<and>
   (\<forall>a. own_handler m ''k_timer_remaining_ticks'' (sys_k_timer_remaining_ticks m a)) \<and>
   (\<forall>a b. own_handler m ''k_timer_user_data_set'' (sys_k_timer_user_data_set m a b)) \<and>
   (\<forall>a. own_handler m ''k_timer_user_data_get'' (sys_k_timer_user_data_get m a)) \<and>
   (own_handler m ''k_uptime_ticks'' (sys_k_uptime_ticks m)) \<and>
   (\<forall>a. own_handler m ''k_queue_init'' (sys_k_queue_init m a)) \<and>
   (\<forall>a. own_handler m ''k_queue_cancel_wait'' (sys_k_queue_cancel_wait m a)) \<and>
   (\<forall>a b. own_handler m ''k_queue_alloc_append'' (sys_k_queue_alloc_append m a b)) \<and>
   (\<forall>a b. own_handler m ''k_queue_alloc_prepend'' (sys_k_queue_alloc_prepend m a b)) \<and>
   (\<forall>a b. own_handler m ''k_queue_get'' (sys_k_queue_get m a b)) \<and>
   (\<forall>a. own_handler m ''k_queue_is_empty'' (sys_k_queue_is_empty m a)) \<and>
   (\<forall>a. own_handler m ''k_queue_peek_head'' (sys_k_queue_peek_head m a)) \<and>
   (\<forall>a. own_handler m ''k_queue_peek_tail'' (sys_k_queue_peek_tail m a)) \<and>
   (\<forall>a b c. own_handler m ''k_futex_wait'' (sys_k_futex_wait m a b c)) \<and>
   (\<forall>a b. own_handler m ''k_futex_wake'' (sys_k_futex_wake m a b)) \<and>
   (\<forall>a. own_handler m ''k_event_init'' (sys_k_event_init m a)) \<and>
   (\<forall>a b. own_handler m ''k_event_post'' (sys_k_event_post m a b)) \<and>
   (\<forall>a b. own_handler m ''k_event_set'' (sys_k_event_set m a b)) \<and>
   (\<forall>a b c. own_handler m ''k_event_set_masked'' (sys_k_event_set_masked m a b c)) \<and>
   (\<forall>a b. own_handler m ''k_event_clear'' (sys_k_event_clear m a b)) \<and>
   (\<forall>a b c d. own_handler m ''k_event_wait'' (sys_k_event_wait m a b c d)) \<and>
   (\<forall>a b c d. own_handler m ''k_event_wait_all'' (sys_k_event_wait_all m a b c d)) \<and>
   (\<forall>a b. own_handler m ''k_stack_alloc_init'' (sys_k_stack_alloc_init m a b)) \<and>
   (\<forall>a b. own_handler m ''k_stack_push'' (sys_k_stack_push m a b)) \<and>
   (\<forall>a b c. own_handler m ''k_stack_pop'' (sys_k_stack_pop m a b c)) \<and>
   (\<forall>a. own_handler m ''k_mutex_init'' (sys_k_mutex_init m a)) \<and>
   (\<forall>a b. own_handler m ''k_mutex_lock'' (sys_k_mutex_lock m a b)) \<and>
   (\<forall>a. own_handler m ''k_mutex_unlock'' (sys_k_mutex_unlock m a)) \<and>
   (\<forall>a. own_handler m ''k_condvar_init'' (sys_k_condvar_init m a)) \<and>
   (\<forall>a. own_handler m ''k_condvar_signal'' (sys_k_condvar_signal m a)) \<and>
   (\<forall>a. own_handler m ''k_condvar_broadcast'' (sys_k_condvar_broadcast m a)) \<and>
   (\<forall>a b c. own_handler m ''k_condvar_wait'' (sys_k_condvar_wait m a b c)) \<and>
   (\<forall>a b c. own_handler m ''k_sem_init'' (sys_k_sem_init m a b c)) \<and>
   (\<forall>a b. own_handler m ''k_sem_take'' (sys_k_sem_take m a b)) \<and>
   (\<forall>a. own_handler m ''k_sem_give'' (sys_k_sem_give m a)) \<and>
   (\<forall>a. own_handler m ''k_sem_reset'' (sys_k_sem_reset m a)) \<and>
   (\<forall>a. own_handler m ''k_sem_count_get'' (sys_k_sem_count_get m a)) \<and>
   (\<forall>a b c. own_handler m ''k_msgq_alloc_init'' (sys_k_msgq_alloc_init m a b c)) \<and>
   (\<forall>a b c. own_handler m ''k_msgq_put'' (sys_k_msgq_put m a b c)) \<and>
   (\<forall>a b c. own_handler m ''k_msgq_get'' (sys_k_msgq_get m a b c)) \<and>
   (\<forall>a b. own_handler m ''k_msgq_peek'' (sys_k_msgq_peek m a b)) \<and>
   (\<forall>a b c. own_handler m ''k_msgq_peek_at'' (sys_k_msgq_peek_at m a b c)) \<and>
   (\<forall>a. own_handler m ''k_msgq_purge'' (sys_k_msgq_purge m a)) \<and>
   (\<forall>a. own_handler m ''k_msgq_num_free_get'' (sys_k_msgq_num_free_get m a)) \<and>
   (\<forall>a b. own_handler m ''k_msgq_get_attrs'' (sys_k_msgq_get_attrs m a b)) \<and>
   (\<forall>a. own_handler m ''k_msgq_num_used_get'' (sys_k_msgq_num_used_get m a)) \<and>
   (\<forall>a b c. own_handler m ''k_pipe_init'' (sys_k_pipe_init m a b c)) \<and>
   (\<forall>a b. own_handler m ''k_pipe_alloc_init'' (sys_k_pipe_alloc_init m a b)) \<and>
   (\<forall>a b c d e f. own_handler m ''k_pipe_put'' (sys_k_pipe_put m a b c d e f)) \<and>
   (\<forall>a b c d e f. own_handler m ''k_pipe_get'' (sys_k_pipe_get m a b c d e f)) \<and>
   (\<forall>a. own_handler m ''k_pipe_read_avail'' (sys_k_pipe_read_avail m a)) \<and>
   (\<forall>a. own_handler m ''k_pipe_write_avail'' (sys_k_pipe_write_avail m a)) \<and>
   (\<forall>a. own_handler m ''k_pipe_flush'' (sys_k_pipe_flush m a)) \<and>
   (\<forall>a. own_handler m ''k_pipe_buffer_flush'' (sys_k_pipe_buffer_flush m a)) \<and>
   (\<forall>a b c d. own_handler m ''k_pipe_write'' (sys_k_pipe_write m a b c d)) \<and>
   (\<forall>a b c d. own_handler m ''k_pipe_read'' (sys_k_pipe_read m a b c d)) \<and>
   (\<forall>a. own_handler m ''k_pipe_reset'' (sys_k_pipe_reset m a)) \<and>
   (\<forall>a. own_handler m ''k_pipe_close'' (sys_k_pipe_close m a)) \<and>
   (\<forall>a b c. own_handler m ''k_poll'' (sys_k_poll m a b c)) \<and>
   (\<forall>a. own_handler m ''k_poll_signal_init'' (sys_k_poll_signal_init m a)) \<and>
   (\<forall>a. own_handler m ''k_poll_signal_reset'' (sys_k_poll_signal_reset m a)) \<and>
   (\<forall>a b c. own_handler m ''k_poll_signal_check'' (sys_k_poll_signal_check m a b c)) \<and>
   (\<forall>a b. own_handler m ''k_poll_signal_raise'' (sys_k_poll_signal_raise m a b)) \<and>
   (\<forall>a b. own_handler m ''k_str_out'' (sys_k_str_out m a b)) \<and>
   (\<forall>a. own_handler m ''k_float_disable'' (sys_k_float_disable m a)) \<and>
   (\<forall>a b. own_handler m ''k_float_enable'' (sys_k_float_enable m a b)) \<and>
   (\<forall>a. own_handler m ''zsock_get_context_object'' (sys_zsock_get_context_object m a)) \<and>
   (\<forall>a b c. own_handler m ''zsock_socket'' (sys_zsock_socket m a b c)) \<and>
   (\<forall>a b c d. own_handler m ''zsock_socketpair'' (sys_zsock_socketpair m a b c d)) \<and>
   (\<forall>a. own_handler m ''zsock_close'' (sys_zsock_close m a)) \<and>
   (\<forall>a b. own_handler m ''zsock_shutdown'' (sys_zsock_shutdown m a b)) \<and>
   (\<forall>a b c. own_handler m ''zsock_bind'' (sys_zsock_bind m a b c)) \<and>
   (\<forall>a b c. own_handler m ''zsock_connect'' (sys_zsock_connect m a b c)) \<and>
   (\<forall>a b. own_handler m ''zsock_listen'' (sys_zsock_listen m a b)) \<and>
   (\<forall>a b c. own_handler m ''zsock_accept'' (sys_zsock_accept m a b c)) \<and>
   (\<forall>a b c d e f. own_handler m ''zsock_sendto'' (sys_zsock_sendto m a b c d e f)) \<and>
   (\<forall>a b c. own_handler m ''zsock_sendmsg'' (sys_zsock_sendmsg m a b c)) \<and>
   (\<forall>a b c d e f. own_handler m ''zsock_recvfrom'' (sys_zsock_recvfrom m a b c d e f)) \<and>
   (\<forall>a b c. own_handler m ''zsock_recvmsg'' (sys_zsock_recvmsg m a b c)) \<and>
   (\<forall>a b c. own_handler m ''zsock_fcntl_impl'' (sys_zsock_fcntl_impl m a b c)) \<and>
   (\<forall>a b c. own_handler m ''zsock_ioctl_impl'' (sys_zsock_ioctl_impl m a b c)) \<and>
   (\<forall>a b c d e. own_handler m ''zsock_getsockopt'' (sys_zsock_getsockopt m a b c d e)) \<and>
   (\<forall>a b c d e. own_handler m ''zsock_setsockopt'' (sys_zsock_setsockopt m a b c d e)) \<and>
   (\<forall>a b c. own_handler m ''zsock_getpeername'' (sys_zsock_getpeername m a b c)) \<and>
   (\<forall>a b c. own_handler m ''zsock_getsockname'' (sys_zsock_getsockname m a b c)) \<and>
   (\<forall>a b. own_handler m ''zsock_gethostname'' (sys_zsock_gethostname m a b)) \<and>
   (\<forall>a b c. own_handler m ''zsock_inet_pton'' (sys_zsock_inet_pton m a b c)) \<and>
   (\<forall>a b c d. own_handler m ''z_zsock_getaddrinfo_internal'' (sys_z_zsock_getaddrinfo_internal m a b c d)) \<and>
   (\<forall>a b c. own_handler m ''gpio_pin_interrupt_configure'' (sys_gpio_pin_interrupt_configure m a b c)) \<and>
   (\<forall>a b c. own_handler m ''gpio_pin_configure'' (sys_gpio_pin_configure m a b c)) \<and>
   (\<forall>a b c d. own_handler m ''gpio_port_get_direction'' (sys_gpio_port_get_direction m a b c d)) \<and>
   (\<forall>a b c. own_handler m ''gpio_pin_get_config'' (sys_gpio_pin_get_config m a b c)) \<and>
   (\<forall>a b. own_handler m ''gpio_port_get_raw'' (sys_gpio_port_get_raw m a b)) \<and>
   (\<forall>a b c. own_handler m ''gpio_port_set_masked_raw'' (sys_gpio_port_set_masked_raw m a b c)) \<and>
   (\<forall>a b. own_handler m ''gpio_port_set_bits_raw'' (sys_gpio_port_set_bits_raw m a b)) \<and>
   (\<forall>a b. own_handler m ''gpio_port_clear_bits_raw'' (sys_gpio_port_clear_bits_raw m a b)) \<and>
   (\<forall>a b. own_handler m ''gpio_port_toggle_bits'' (sys_gpio_port_toggle_bits m a b)) \<and>
   (\<forall>a. own_handler m ''gpio_get_pending_int'' (sys_gpio_get_pending_int m a)) \<and>
   (\<forall>a. own_handler m ''device_get_binding'' (sys_device_get_binding m a)) \<and>
   (\<forall>a. own_handler m ''device_is_ready'' (sys_device_is_ready m a)) \<and>
   (\<forall>a. own_handler m ''device_init'' (sys_device_init m a)) \<and>
   (\<forall>a. own_handler m ''device_deinit'' (sys_device_deinit m a)) \<and>
   (\<forall>a. own_handler m ''device_get_by_dt_nodelabel'' (sys_device_get_by_dt_nodelabel m a)) \<and>
   (\<forall>a b c. own_handler m ''entropy_get_entropy'' (sys_entropy_get_entropy m a b c)) \<and>
   (\<forall>a. own_handler m ''net_eth_get_ptp_clock_by_index'' (sys_net_eth_get_ptp_clock_by_index m a)) \<and>
   (\<forall>a b c. own_handler m ''zvfs_poll'' (sys_zvfs_poll m a b c)) \<and>
   (\<forall>a b c d e f. own_handler m ''zvfs_select'' (sys_zvfs_select m a b c d e f)) \<and>
   (\<forall>a b. own_handler m ''hwinfo_get_device_id'' (sys_hwinfo_get_device_id m a b)) \<and>
   (\<forall>a. own_handler m ''hwinfo_get_device_eui64'' (sys_hwinfo_get_device_eui64 m a)) \<and>
   (\<forall>a. own_handler m ''hwinfo_get_reset_cause'' (sys_hwinfo_get_reset_cause m a)) \<and>
   (own_handler m ''hwinfo_clear_reset_cause'' (sys_hwinfo_clear_reset_cause m)) \<and>
   (\<forall>a. own_handler m ''hwinfo_get_supported_reset_cause'' (sys_hwinfo_get_supported_reset_cause m a)) \<and>
   (\<forall>a b. own_handler m ''k_object_access_grant'' (sys_k_object_access_grant m a b)) \<and>
   (\<forall>a. own_handler m ''k_object_release'' (sys_k_object_release m a)) \<and>
   (\<forall>a. own_handler m ''k_object_alloc'' (sys_k_object_alloc m a)) \<and>
   (\<forall>a b. own_handler m ''k_object_alloc_size'' (sys_k_object_alloc_size m a b)) \<and>
   (\<forall>a b. own_handler m ''zephyr_read_stdin'' (sys_zephyr_read_stdin m a b)) \<and>
   (\<forall>a b. own_handler m ''zephyr_write_stdout'' (sys_zephyr_write_stdout m a b)) \<and>
   (\<forall>a b. own_handler m ''zephyr_fputc'' (sys_zephyr_fputc m a b)) \<and>
   (\<forall>a b c d. own_handler m ''zephyr_fwrite'' (sys_zephyr_fwrite m a b c d)) \<and>
   (own_handler m ''log_panic'' (sys_log_panic m)) \<and>
   (own_handler m ''log_process'' (sys_log_process m)) \<and>
   (own_handler m ''log_buffered_cnt'' (sys_log_buffered_cnt m)) \<and>
   (\<forall>a b c d. own_handler m ''log_filter_set'' (sys_log_filter_set m a b c d)) \<and>
   (\<forall>a b. own_handler m ''log_frontend_filter_set'' (sys_log_frontend_filter_set m a b)) \<and>
   (\<forall>a b c. own_handler m ''z_log_msg_simple_create_0'' (sys_z_log_msg_simple_create_0 m a b c)) \<and>
   (\<forall>a b c d. own_handler m ''z_log_msg_simple_create_1'' (sys_z_log_msg_simple_create_1 m a b c d)) \<and>
   (\<forall>a b c d e. own_handler m ''z_log_msg_simple_create_2'' (sys_z_log_msg_simple_create_2 m a b c d e)) \<and>
   (\<forall>a b c d. own_handler m ''z_log_msg_static_create'' (sys_z_log_msg_static_create m a b c d)) \<and>
   (\<forall>a b. own_handler m ''z_sys_mutex_kernel_lock'' (sys_z_sys_mutex_kernel_lock m a b)) \<and>
   (\<forall>a. own_handler m ''z_sys_mutex_kernel_unlock'' (sys_z_sys_mutex_kernel_unlock m a)) \<and>
   (\<forall>a. own_handler m ''net_if_ipv6_addr_lookup_by_index'' (sys_net_if_ipv6_addr_lookup_by_index m a)) \<and>
   (\<forall>a b c d. own_handler m ''net_if_ipv6_addr_add_by_index'' (sys_net_if_ipv6_addr_add_by_index m a b c d)) \<and>
   (\<forall>a b. own_handler m ''net_if_ipv6_addr_rm_by_index'' (sys_net_if_ipv6_addr_rm_by_index m a b)) \<and>
   (\<forall>a. own_handler m ''net_if_ipv4_addr_lookup_by_index'' (sys_net_if_ipv4_addr_lookup_by_index m a)) \<and>
   (\<forall>a b c d. own_handler m ''net_if_ipv4_addr_add_by_index'' (sys_net_if_ipv4_addr_add_by_index m a b c d)) \<and>
   (\<forall>a b. own_handler m ''net_if_ipv4_addr_rm_by_index'' (sys_net_if_ipv4_addr_rm_by_index m a b)) \<and>
   (\<forall>a b. own_handler m ''net_if_ipv4_set_netmask_by_index'' (sys_net_if_ipv4_set_netmask_by_index m a b)) \<and>
   (\<forall>a b c. own_handler m ''net_if_ipv4_set_netmask_by_addr_by_index'' (sys_net_if_ipv4_set_netmask_by_addr_by_index m a b c)) \<and>
   (\<forall>a b. own_handler m ''net_if_ipv4_set_gw_by_index'' (sys_net_if_ipv4_set_gw_by_index m a b)) \<and>
   (\<forall>a. own_handler m ''net_if_get_by_index'' (sys_net_if_get_by_index m a)) \<and>
   (\<forall>a b c. own_handler m ''net_addr_pton'' (sys_net_addr_pton m a b c)) \<and>
   (\<forall>a b c d. own_handler m ''net_addr_ntop'' (sys_net_addr_ntop m a b c d)) \<and>
   (\<forall>a b. own_handler m ''__posix_clock_get_base'' (sys___posix_clock_get_base m a b)) \<and>
   (\<forall>a b. own_handler m ''sys_rand_get'' (sys_sys_rand_get m a b)) \<and>
   (\<forall>a b. own_handler m ''sys_csrand_get'' (sys_sys_csrand_get m a b)) \<and>
   (\<forall>a b c d. own_handler m ''spi_transceive'' (sys_spi_transceive m a b c d)) \<and>
   (\<forall>a b. own_handler m ''spi_release'' (sys_spi_release m a b)) \<and>
   (own_handler m ''sys_clock_hw_cycles_per_sec_runtime_get'' (sys_sys_clock_hw_cycles_per_sec_runtime_get m)) \<and>
   (\<forall>a. own_handler m ''uart_err_check'' (sys_uart_err_check m a)) \<and>
   (\<forall>a b. own_handler m ''uart_poll_in'' (sys_uart_poll_in m a b)) \<and>
   (\<forall>a b. own_handler m ''uart_poll_in_u16'' (sys_uart_poll_in_u16 m a b)) \<and>
   (\<forall>a b. own_handler m ''uart_poll_out'' (sys_uart_poll_out m a b)) \<and>
   (\<forall>a b. own_handler m ''uart_poll_out_u16'' (sys_uart_poll_out_u16 m a b)) \<and>
   (\<forall>a b. own_handler m ''uart_configure'' (sys_uart_configure m a b)) \<and>
   (\<forall>a b. own_handler m ''uart_config_get'' (sys_uart_config_get m a b)) \<and>
   (\<forall>a. own_handler m ''uart_irq_tx_enable'' (sys_uart_irq_tx_enable m a)) \<and>
   (\<forall>a. own_handler m ''uart_irq_tx_disable'' (sys_uart_irq_tx_disable m a)) \<and>
   (\<forall>a. own_handler m ''uart_irq_rx_enable'' (sys_uart_irq_rx_enable m a)) \<and>
   (\<forall>a. own_handler m ''uart_irq_rx_disable'' (sys_uart_irq_rx_disable m a)) \<and>
   (\<forall>a. own_handler m ''uart_irq_err_enable'' (sys_uart_irq_err_enable m a)) \<and>
   (\<forall>a. own_handler m ''uart_irq_err_disable'' (sys_uart_irq_err_disable m a)) \<and>
   (\<forall>a. own_handler m ''uart_irq_is_pending'' (sys_uart_irq_is_pending m a)) \<and>
   (\<forall>a. own_handler m ''uart_irq_update'' (sys_uart_irq_update m a)) \<and>
   (\<forall>a b c d. own_handler m ''uart_tx'' (sys_uart_tx m a b c d)) \<and>
   (\<forall>a b c d. own_handler m ''uart_tx_u16'' (sys_uart_tx_u16 m a b c d)) \<and>
   (\<forall>a. own_handler m ''uart_tx_abort'' (sys_uart_tx_abort m a)) \<and>
   (\<forall>a b c d. own_handler m ''uart_rx_enable'' (sys_uart_rx_enable m a b c d)) \<and>
   (\<forall>a b c d. own_handler m ''uart_rx_enable_u16'' (sys_uart_rx_enable_u16 m a b c d)) \<and>
   (\<forall>a. own_handler m ''uart_rx_disable'' (sys_uart_rx_disable m a)) \<and>
   (\<forall>a b c. own_handler m ''uart_line_ctrl_set'' (sys_uart_line_ctrl_set m a b c)) \<and>
   (\<forall>a b c. own_handler m ''uart_line_ctrl_get'' (sys_uart_line_ctrl_get m a b c)) \<and>
   (\<forall>a b c. own_handler m ''uart_drv_cmd'' (sys_uart_drv_cmd m a b c))"
  by (intro conjI allI; simp add: stub_defs syscall_own_handler table_rows)

end
