(* ===== verification/Syscall_Outside_Numbers.thy ===== *)
theory Syscall_Outside_Numbers
  imports Syscall_Table
begin

text \<open>
  The second half of \<^verbatim>\<open>syscall_list.h\<close>: the numbers of the system calls that are declared in
  Zephyr but not used in the image. They continue the numbers of the image's calls.
\<close>

named_theorems outside_ids \<open>the numbers of the system calls outside the image\<close>

section \<open>Numbers\<close>

definition K_SYSCALL_ADC_CHANNEL_SETUP :: nat where [outside_ids]: "K_SYSCALL_ADC_CHANNEL_SETUP = 204"
definition K_SYSCALL_ADC_READ :: nat where [outside_ids]: "K_SYSCALL_ADC_READ = 205"
definition K_SYSCALL_ADC_READ_ASYNC :: nat where [outside_ids]: "K_SYSCALL_ADC_READ_ASYNC = 206"
definition K_SYSCALL_ATOMIC_ADD :: nat where [outside_ids]: "K_SYSCALL_ATOMIC_ADD = 207"
definition K_SYSCALL_ATOMIC_AND :: nat where [outside_ids]: "K_SYSCALL_ATOMIC_AND = 208"
definition K_SYSCALL_ATOMIC_CAS :: nat where [outside_ids]: "K_SYSCALL_ATOMIC_CAS = 209"
definition K_SYSCALL_ATOMIC_NAND :: nat where [outside_ids]: "K_SYSCALL_ATOMIC_NAND = 210"
definition K_SYSCALL_ATOMIC_OR :: nat where [outside_ids]: "K_SYSCALL_ATOMIC_OR = 211"
definition K_SYSCALL_ATOMIC_PTR_CAS :: nat where [outside_ids]: "K_SYSCALL_ATOMIC_PTR_CAS = 212"
definition K_SYSCALL_ATOMIC_PTR_SET :: nat where [outside_ids]: "K_SYSCALL_ATOMIC_PTR_SET = 213"
definition K_SYSCALL_ATOMIC_SET :: nat where [outside_ids]: "K_SYSCALL_ATOMIC_SET = 214"
definition K_SYSCALL_ATOMIC_SUB :: nat where [outside_ids]: "K_SYSCALL_ATOMIC_SUB = 215"
definition K_SYSCALL_ATOMIC_XOR :: nat where [outside_ids]: "K_SYSCALL_ATOMIC_XOR = 216"
definition K_SYSCALL_AUXDISPLAY_BACKLIGHT_GET :: nat where [outside_ids]: "K_SYSCALL_AUXDISPLAY_BACKLIGHT_GET = 217"
definition K_SYSCALL_AUXDISPLAY_BACKLIGHT_SET :: nat where [outside_ids]: "K_SYSCALL_AUXDISPLAY_BACKLIGHT_SET = 218"
definition K_SYSCALL_AUXDISPLAY_BRIGHTNESS_GET :: nat where [outside_ids]: "K_SYSCALL_AUXDISPLAY_BRIGHTNESS_GET = 219"
definition K_SYSCALL_AUXDISPLAY_BRIGHTNESS_SET :: nat where [outside_ids]: "K_SYSCALL_AUXDISPLAY_BRIGHTNESS_SET = 220"
definition K_SYSCALL_AUXDISPLAY_CAPABILITIES_GET :: nat where [outside_ids]: "K_SYSCALL_AUXDISPLAY_CAPABILITIES_GET = 221"
definition K_SYSCALL_AUXDISPLAY_CLEAR :: nat where [outside_ids]: "K_SYSCALL_AUXDISPLAY_CLEAR = 222"
definition K_SYSCALL_AUXDISPLAY_CURSOR_POSITION_GET :: nat where [outside_ids]: "K_SYSCALL_AUXDISPLAY_CURSOR_POSITION_GET = 223"
definition K_SYSCALL_AUXDISPLAY_CURSOR_POSITION_SET :: nat where [outside_ids]: "K_SYSCALL_AUXDISPLAY_CURSOR_POSITION_SET = 224"
definition K_SYSCALL_AUXDISPLAY_CURSOR_SET_ENABLED :: nat where [outside_ids]: "K_SYSCALL_AUXDISPLAY_CURSOR_SET_ENABLED = 225"
definition K_SYSCALL_AUXDISPLAY_CURSOR_SHIFT_SET :: nat where [outside_ids]: "K_SYSCALL_AUXDISPLAY_CURSOR_SHIFT_SET = 226"
definition K_SYSCALL_AUXDISPLAY_CUSTOM_CHARACTER_SET :: nat where [outside_ids]: "K_SYSCALL_AUXDISPLAY_CUSTOM_CHARACTER_SET = 227"
definition K_SYSCALL_AUXDISPLAY_CUSTOM_COMMAND :: nat where [outside_ids]: "K_SYSCALL_AUXDISPLAY_CUSTOM_COMMAND = 228"
definition K_SYSCALL_AUXDISPLAY_DISPLAY_OFF :: nat where [outside_ids]: "K_SYSCALL_AUXDISPLAY_DISPLAY_OFF = 229"
definition K_SYSCALL_AUXDISPLAY_DISPLAY_ON :: nat where [outside_ids]: "K_SYSCALL_AUXDISPLAY_DISPLAY_ON = 230"
definition K_SYSCALL_AUXDISPLAY_DISPLAY_POSITION_GET :: nat where [outside_ids]: "K_SYSCALL_AUXDISPLAY_DISPLAY_POSITION_GET = 231"
definition K_SYSCALL_AUXDISPLAY_DISPLAY_POSITION_SET :: nat where [outside_ids]: "K_SYSCALL_AUXDISPLAY_DISPLAY_POSITION_SET = 232"
definition K_SYSCALL_AUXDISPLAY_IS_BUSY :: nat where [outside_ids]: "K_SYSCALL_AUXDISPLAY_IS_BUSY = 233"
definition K_SYSCALL_AUXDISPLAY_POSITION_BLINKING_SET_ENABLED :: nat where [outside_ids]: "K_SYSCALL_AUXDISPLAY_POSITION_BLINKING_SET_ENABLED = 234"
definition K_SYSCALL_AUXDISPLAY_WRITE :: nat where [outside_ids]: "K_SYSCALL_AUXDISPLAY_WRITE = 235"
definition K_SYSCALL_BBRAM_CHECK_INVALID :: nat where [outside_ids]: "K_SYSCALL_BBRAM_CHECK_INVALID = 236"
definition K_SYSCALL_BBRAM_CHECK_POWER :: nat where [outside_ids]: "K_SYSCALL_BBRAM_CHECK_POWER = 237"
definition K_SYSCALL_BBRAM_CHECK_STANDBY_POWER :: nat where [outside_ids]: "K_SYSCALL_BBRAM_CHECK_STANDBY_POWER = 238"
definition K_SYSCALL_BBRAM_GET_SIZE :: nat where [outside_ids]: "K_SYSCALL_BBRAM_GET_SIZE = 239"
definition K_SYSCALL_BBRAM_READ :: nat where [outside_ids]: "K_SYSCALL_BBRAM_READ = 240"
definition K_SYSCALL_BBRAM_WRITE :: nat where [outside_ids]: "K_SYSCALL_BBRAM_WRITE = 241"
definition K_SYSCALL_BC12_SET_RESULT_CB :: nat where [outside_ids]: "K_SYSCALL_BC12_SET_RESULT_CB = 242"
definition K_SYSCALL_BC12_SET_ROLE :: nat where [outside_ids]: "K_SYSCALL_BC12_SET_ROLE = 243"
definition K_SYSCALL_CAN_ADD_RX_FILTER_MSGQ :: nat where [outside_ids]: "K_SYSCALL_CAN_ADD_RX_FILTER_MSGQ = 244"
definition K_SYSCALL_CAN_CALC_TIMING :: nat where [outside_ids]: "K_SYSCALL_CAN_CALC_TIMING = 245"
definition K_SYSCALL_CAN_CALC_TIMING_DATA :: nat where [outside_ids]: "K_SYSCALL_CAN_CALC_TIMING_DATA = 246"
definition K_SYSCALL_CAN_GET_BITRATE_MAX :: nat where [outside_ids]: "K_SYSCALL_CAN_GET_BITRATE_MAX = 247"
definition K_SYSCALL_CAN_GET_BITRATE_MIN :: nat where [outside_ids]: "K_SYSCALL_CAN_GET_BITRATE_MIN = 248"
definition K_SYSCALL_CAN_GET_CAPABILITIES :: nat where [outside_ids]: "K_SYSCALL_CAN_GET_CAPABILITIES = 249"
definition K_SYSCALL_CAN_GET_CORE_CLOCK :: nat where [outside_ids]: "K_SYSCALL_CAN_GET_CORE_CLOCK = 250"
definition K_SYSCALL_CAN_GET_MAX_FILTERS :: nat where [outside_ids]: "K_SYSCALL_CAN_GET_MAX_FILTERS = 251"
definition K_SYSCALL_CAN_GET_MODE :: nat where [outside_ids]: "K_SYSCALL_CAN_GET_MODE = 252"
definition K_SYSCALL_CAN_GET_STATE :: nat where [outside_ids]: "K_SYSCALL_CAN_GET_STATE = 253"
definition K_SYSCALL_CAN_GET_TIMING_DATA_MAX :: nat where [outside_ids]: "K_SYSCALL_CAN_GET_TIMING_DATA_MAX = 254"
definition K_SYSCALL_CAN_GET_TIMING_DATA_MIN :: nat where [outside_ids]: "K_SYSCALL_CAN_GET_TIMING_DATA_MIN = 255"
definition K_SYSCALL_CAN_GET_TIMING_MAX :: nat where [outside_ids]: "K_SYSCALL_CAN_GET_TIMING_MAX = 256"
definition K_SYSCALL_CAN_GET_TIMING_MIN :: nat where [outside_ids]: "K_SYSCALL_CAN_GET_TIMING_MIN = 257"
definition K_SYSCALL_CAN_GET_TRANSCEIVER :: nat where [outside_ids]: "K_SYSCALL_CAN_GET_TRANSCEIVER = 258"
definition K_SYSCALL_CAN_RECOVER :: nat where [outside_ids]: "K_SYSCALL_CAN_RECOVER = 259"
definition K_SYSCALL_CAN_REMOVE_RX_FILTER :: nat where [outside_ids]: "K_SYSCALL_CAN_REMOVE_RX_FILTER = 260"
definition K_SYSCALL_CAN_SEND :: nat where [outside_ids]: "K_SYSCALL_CAN_SEND = 261"
definition K_SYSCALL_CAN_SET_BITRATE :: nat where [outside_ids]: "K_SYSCALL_CAN_SET_BITRATE = 262"
definition K_SYSCALL_CAN_SET_BITRATE_DATA :: nat where [outside_ids]: "K_SYSCALL_CAN_SET_BITRATE_DATA = 263"
definition K_SYSCALL_CAN_SET_MODE :: nat where [outside_ids]: "K_SYSCALL_CAN_SET_MODE = 264"
definition K_SYSCALL_CAN_SET_TIMING :: nat where [outside_ids]: "K_SYSCALL_CAN_SET_TIMING = 265"
definition K_SYSCALL_CAN_SET_TIMING_DATA :: nat where [outside_ids]: "K_SYSCALL_CAN_SET_TIMING_DATA = 266"
definition K_SYSCALL_CAN_START :: nat where [outside_ids]: "K_SYSCALL_CAN_START = 267"
definition K_SYSCALL_CAN_STATS_GET_ACK_ERRORS :: nat where [outside_ids]: "K_SYSCALL_CAN_STATS_GET_ACK_ERRORS = 268"
definition K_SYSCALL_CAN_STATS_GET_BIT0_ERRORS :: nat where [outside_ids]: "K_SYSCALL_CAN_STATS_GET_BIT0_ERRORS = 269"
definition K_SYSCALL_CAN_STATS_GET_BIT1_ERRORS :: nat where [outside_ids]: "K_SYSCALL_CAN_STATS_GET_BIT1_ERRORS = 270"
definition K_SYSCALL_CAN_STATS_GET_BIT_ERRORS :: nat where [outside_ids]: "K_SYSCALL_CAN_STATS_GET_BIT_ERRORS = 271"
definition K_SYSCALL_CAN_STATS_GET_CRC_ERRORS :: nat where [outside_ids]: "K_SYSCALL_CAN_STATS_GET_CRC_ERRORS = 272"
definition K_SYSCALL_CAN_STATS_GET_FORM_ERRORS :: nat where [outside_ids]: "K_SYSCALL_CAN_STATS_GET_FORM_ERRORS = 273"
definition K_SYSCALL_CAN_STATS_GET_RX_OVERRUNS :: nat where [outside_ids]: "K_SYSCALL_CAN_STATS_GET_RX_OVERRUNS = 274"
definition K_SYSCALL_CAN_STATS_GET_STUFF_ERRORS :: nat where [outside_ids]: "K_SYSCALL_CAN_STATS_GET_STUFF_ERRORS = 275"
definition K_SYSCALL_CAN_STOP :: nat where [outside_ids]: "K_SYSCALL_CAN_STOP = 276"
definition K_SYSCALL_CHARGER_CHARGE_ENABLE :: nat where [outside_ids]: "K_SYSCALL_CHARGER_CHARGE_ENABLE = 277"
definition K_SYSCALL_CHARGER_GET_PROP :: nat where [outside_ids]: "K_SYSCALL_CHARGER_GET_PROP = 278"
definition K_SYSCALL_CHARGER_SET_PROP :: nat where [outside_ids]: "K_SYSCALL_CHARGER_SET_PROP = 279"
definition K_SYSCALL_COMPARATOR_GET_OUTPUT :: nat where [outside_ids]: "K_SYSCALL_COMPARATOR_GET_OUTPUT = 280"
definition K_SYSCALL_COMPARATOR_SET_TRIGGER :: nat where [outside_ids]: "K_SYSCALL_COMPARATOR_SET_TRIGGER = 281"
definition K_SYSCALL_COMPARATOR_TRIGGER_IS_PENDING :: nat where [outside_ids]: "K_SYSCALL_COMPARATOR_TRIGGER_IS_PENDING = 282"
definition K_SYSCALL_COUNTER_CANCEL_CHANNEL_ALARM :: nat where [outside_ids]: "K_SYSCALL_COUNTER_CANCEL_CHANNEL_ALARM = 283"
definition K_SYSCALL_COUNTER_GET_FREQUENCY :: nat where [outside_ids]: "K_SYSCALL_COUNTER_GET_FREQUENCY = 284"
definition K_SYSCALL_COUNTER_GET_GUARD_PERIOD :: nat where [outside_ids]: "K_SYSCALL_COUNTER_GET_GUARD_PERIOD = 285"
definition K_SYSCALL_COUNTER_GET_MAX_TOP_VALUE :: nat where [outside_ids]: "K_SYSCALL_COUNTER_GET_MAX_TOP_VALUE = 286"
definition K_SYSCALL_COUNTER_GET_NUM_OF_CHANNELS :: nat where [outside_ids]: "K_SYSCALL_COUNTER_GET_NUM_OF_CHANNELS = 287"
definition K_SYSCALL_COUNTER_GET_PENDING_INT :: nat where [outside_ids]: "K_SYSCALL_COUNTER_GET_PENDING_INT = 288"
definition K_SYSCALL_COUNTER_GET_TOP_VALUE :: nat where [outside_ids]: "K_SYSCALL_COUNTER_GET_TOP_VALUE = 289"
definition K_SYSCALL_COUNTER_GET_VALUE :: nat where [outside_ids]: "K_SYSCALL_COUNTER_GET_VALUE = 290"
definition K_SYSCALL_COUNTER_GET_VALUE_64 :: nat where [outside_ids]: "K_SYSCALL_COUNTER_GET_VALUE_64 = 291"
definition K_SYSCALL_COUNTER_IS_COUNTING_UP :: nat where [outside_ids]: "K_SYSCALL_COUNTER_IS_COUNTING_UP = 292"
definition K_SYSCALL_COUNTER_RESET :: nat where [outside_ids]: "K_SYSCALL_COUNTER_RESET = 293"
definition K_SYSCALL_COUNTER_SET_CHANNEL_ALARM :: nat where [outside_ids]: "K_SYSCALL_COUNTER_SET_CHANNEL_ALARM = 294"
definition K_SYSCALL_COUNTER_SET_GUARD_PERIOD :: nat where [outside_ids]: "K_SYSCALL_COUNTER_SET_GUARD_PERIOD = 295"
definition K_SYSCALL_COUNTER_SET_TOP_VALUE :: nat where [outside_ids]: "K_SYSCALL_COUNTER_SET_TOP_VALUE = 296"
definition K_SYSCALL_COUNTER_START :: nat where [outside_ids]: "K_SYSCALL_COUNTER_START = 297"
definition K_SYSCALL_COUNTER_STOP :: nat where [outside_ids]: "K_SYSCALL_COUNTER_STOP = 298"
definition K_SYSCALL_COUNTER_TICKS_TO_US :: nat where [outside_ids]: "K_SYSCALL_COUNTER_TICKS_TO_US = 299"
definition K_SYSCALL_COUNTER_US_TO_TICKS :: nat where [outside_ids]: "K_SYSCALL_COUNTER_US_TO_TICKS = 300"
definition K_SYSCALL_DAC_CHANNEL_SETUP :: nat where [outside_ids]: "K_SYSCALL_DAC_CHANNEL_SETUP = 301"
definition K_SYSCALL_DAC_WRITE_VALUE :: nat where [outside_ids]: "K_SYSCALL_DAC_WRITE_VALUE = 302"
definition K_SYSCALL_DEVMUX_SELECT_GET :: nat where [outside_ids]: "K_SYSCALL_DEVMUX_SELECT_GET = 303"
definition K_SYSCALL_DEVMUX_SELECT_SET :: nat where [outside_ids]: "K_SYSCALL_DEVMUX_SELECT_SET = 304"
definition K_SYSCALL_DMA_CHAN_FILTER :: nat where [outside_ids]: "K_SYSCALL_DMA_CHAN_FILTER = 305"
definition K_SYSCALL_DMA_RELEASE_CHANNEL :: nat where [outside_ids]: "K_SYSCALL_DMA_RELEASE_CHANNEL = 306"
definition K_SYSCALL_DMA_REQUEST_CHANNEL :: nat where [outside_ids]: "K_SYSCALL_DMA_REQUEST_CHANNEL = 307"
definition K_SYSCALL_DMA_RESUME :: nat where [outside_ids]: "K_SYSCALL_DMA_RESUME = 308"
definition K_SYSCALL_DMA_START :: nat where [outside_ids]: "K_SYSCALL_DMA_START = 309"
definition K_SYSCALL_DMA_STOP :: nat where [outside_ids]: "K_SYSCALL_DMA_STOP = 310"
definition K_SYSCALL_DMA_SUSPEND :: nat where [outside_ids]: "K_SYSCALL_DMA_SUSPEND = 311"
definition K_SYSCALL_EEPROM_GET_SIZE :: nat where [outside_ids]: "K_SYSCALL_EEPROM_GET_SIZE = 312"
definition K_SYSCALL_EEPROM_READ :: nat where [outside_ids]: "K_SYSCALL_EEPROM_READ = 313"
definition K_SYSCALL_EEPROM_WRITE :: nat where [outside_ids]: "K_SYSCALL_EEPROM_WRITE = 314"
definition K_SYSCALL_EMUL_FUEL_GAUGE_IS_BATTERY_CUTOFF :: nat where [outside_ids]: "K_SYSCALL_EMUL_FUEL_GAUGE_IS_BATTERY_CUTOFF = 315"
definition K_SYSCALL_EMUL_FUEL_GAUGE_SET_BATTERY_CHARGING :: nat where [outside_ids]: "K_SYSCALL_EMUL_FUEL_GAUGE_SET_BATTERY_CHARGING = 316"
definition K_SYSCALL_ESPI_CONFIG :: nat where [outside_ids]: "K_SYSCALL_ESPI_CONFIG = 317"
definition K_SYSCALL_ESPI_FLASH_ERASE :: nat where [outside_ids]: "K_SYSCALL_ESPI_FLASH_ERASE = 318"
definition K_SYSCALL_ESPI_GET_CHANNEL_STATUS :: nat where [outside_ids]: "K_SYSCALL_ESPI_GET_CHANNEL_STATUS = 319"
definition K_SYSCALL_ESPI_READ_FLASH :: nat where [outside_ids]: "K_SYSCALL_ESPI_READ_FLASH = 320"
definition K_SYSCALL_ESPI_READ_LPC_REQUEST :: nat where [outside_ids]: "K_SYSCALL_ESPI_READ_LPC_REQUEST = 321"
definition K_SYSCALL_ESPI_READ_REQUEST :: nat where [outside_ids]: "K_SYSCALL_ESPI_READ_REQUEST = 322"
definition K_SYSCALL_ESPI_RECEIVE_OOB :: nat where [outside_ids]: "K_SYSCALL_ESPI_RECEIVE_OOB = 323"
definition K_SYSCALL_ESPI_RECEIVE_VWIRE :: nat where [outside_ids]: "K_SYSCALL_ESPI_RECEIVE_VWIRE = 324"
definition K_SYSCALL_ESPI_SAF_ACTIVATE :: nat where [outside_ids]: "K_SYSCALL_ESPI_SAF_ACTIVATE = 325"
definition K_SYSCALL_ESPI_SAF_CONFIG :: nat where [outside_ids]: "K_SYSCALL_ESPI_SAF_CONFIG = 326"
definition K_SYSCALL_ESPI_SAF_FLASH_ERASE :: nat where [outside_ids]: "K_SYSCALL_ESPI_SAF_FLASH_ERASE = 327"
definition K_SYSCALL_ESPI_SAF_FLASH_READ :: nat where [outside_ids]: "K_SYSCALL_ESPI_SAF_FLASH_READ = 328"
definition K_SYSCALL_ESPI_SAF_FLASH_UNSUCCESS :: nat where [outside_ids]: "K_SYSCALL_ESPI_SAF_FLASH_UNSUCCESS = 329"
definition K_SYSCALL_ESPI_SAF_FLASH_WRITE :: nat where [outside_ids]: "K_SYSCALL_ESPI_SAF_FLASH_WRITE = 330"
definition K_SYSCALL_ESPI_SAF_GET_CHANNEL_STATUS :: nat where [outside_ids]: "K_SYSCALL_ESPI_SAF_GET_CHANNEL_STATUS = 331"
definition K_SYSCALL_ESPI_SAF_SET_PROTECTION_REGIONS :: nat where [outside_ids]: "K_SYSCALL_ESPI_SAF_SET_PROTECTION_REGIONS = 332"
definition K_SYSCALL_ESPI_SEND_OOB :: nat where [outside_ids]: "K_SYSCALL_ESPI_SEND_OOB = 333"
definition K_SYSCALL_ESPI_SEND_VWIRE :: nat where [outside_ids]: "K_SYSCALL_ESPI_SEND_VWIRE = 334"
definition K_SYSCALL_ESPI_WRITE_FLASH :: nat where [outside_ids]: "K_SYSCALL_ESPI_WRITE_FLASH = 335"
definition K_SYSCALL_ESPI_WRITE_LPC_REQUEST :: nat where [outside_ids]: "K_SYSCALL_ESPI_WRITE_LPC_REQUEST = 336"
definition K_SYSCALL_ESPI_WRITE_REQUEST :: nat where [outside_ids]: "K_SYSCALL_ESPI_WRITE_REQUEST = 337"
definition K_SYSCALL_FLASH_COPY :: nat where [outside_ids]: "K_SYSCALL_FLASH_COPY = 338"
definition K_SYSCALL_FLASH_ERASE :: nat where [outside_ids]: "K_SYSCALL_FLASH_ERASE = 339"
definition K_SYSCALL_FLASH_EX_OP :: nat where [outside_ids]: "K_SYSCALL_FLASH_EX_OP = 340"
definition K_SYSCALL_FLASH_FILL :: nat where [outside_ids]: "K_SYSCALL_FLASH_FILL = 341"
definition K_SYSCALL_FLASH_FLATTEN :: nat where [outside_ids]: "K_SYSCALL_FLASH_FLATTEN = 342"
definition K_SYSCALL_FLASH_GET_PAGE_COUNT :: nat where [outside_ids]: "K_SYSCALL_FLASH_GET_PAGE_COUNT = 343"
definition K_SYSCALL_FLASH_GET_PAGE_INFO_BY_IDX :: nat where [outside_ids]: "K_SYSCALL_FLASH_GET_PAGE_INFO_BY_IDX = 344"
definition K_SYSCALL_FLASH_GET_PAGE_INFO_BY_OFFS :: nat where [outside_ids]: "K_SYSCALL_FLASH_GET_PAGE_INFO_BY_OFFS = 345"
definition K_SYSCALL_FLASH_GET_PARAMETERS :: nat where [outside_ids]: "K_SYSCALL_FLASH_GET_PARAMETERS = 346"
definition K_SYSCALL_FLASH_GET_SIZE :: nat where [outside_ids]: "K_SYSCALL_FLASH_GET_SIZE = 347"
definition K_SYSCALL_FLASH_GET_WRITE_BLOCK_SIZE :: nat where [outside_ids]: "K_SYSCALL_FLASH_GET_WRITE_BLOCK_SIZE = 348"
definition K_SYSCALL_FLASH_READ :: nat where [outside_ids]: "K_SYSCALL_FLASH_READ = 349"
definition K_SYSCALL_FLASH_READ_JEDEC_ID :: nat where [outside_ids]: "K_SYSCALL_FLASH_READ_JEDEC_ID = 350"
definition K_SYSCALL_FLASH_SFDP_READ :: nat where [outside_ids]: "K_SYSCALL_FLASH_SFDP_READ = 351"
definition K_SYSCALL_FLASH_SIMULATOR_GET_MEMORY :: nat where [outside_ids]: "K_SYSCALL_FLASH_SIMULATOR_GET_MEMORY = 352"
definition K_SYSCALL_FLASH_WRITE :: nat where [outside_ids]: "K_SYSCALL_FLASH_WRITE = 353"
definition K_SYSCALL_FUEL_GAUGE_BATTERY_CUTOFF :: nat where [outside_ids]: "K_SYSCALL_FUEL_GAUGE_BATTERY_CUTOFF = 354"
definition K_SYSCALL_FUEL_GAUGE_GET_BUFFER_PROP :: nat where [outside_ids]: "K_SYSCALL_FUEL_GAUGE_GET_BUFFER_PROP = 355"
definition K_SYSCALL_FUEL_GAUGE_GET_PROP :: nat where [outside_ids]: "K_SYSCALL_FUEL_GAUGE_GET_PROP = 356"
definition K_SYSCALL_FUEL_GAUGE_GET_PROPS :: nat where [outside_ids]: "K_SYSCALL_FUEL_GAUGE_GET_PROPS = 357"
definition K_SYSCALL_FUEL_GAUGE_SET_PROP :: nat where [outside_ids]: "K_SYSCALL_FUEL_GAUGE_SET_PROP = 358"
definition K_SYSCALL_FUEL_GAUGE_SET_PROPS :: nat where [outside_ids]: "K_SYSCALL_FUEL_GAUGE_SET_PROPS = 359"
definition K_SYSCALL_GNSS_GET_ENABLED_SYSTEMS :: nat where [outside_ids]: "K_SYSCALL_GNSS_GET_ENABLED_SYSTEMS = 360"
definition K_SYSCALL_GNSS_GET_FIX_RATE :: nat where [outside_ids]: "K_SYSCALL_GNSS_GET_FIX_RATE = 361"
definition K_SYSCALL_GNSS_GET_LATEST_TIMEPULSE :: nat where [outside_ids]: "K_SYSCALL_GNSS_GET_LATEST_TIMEPULSE = 362"
definition K_SYSCALL_GNSS_GET_NAVIGATION_MODE :: nat where [outside_ids]: "K_SYSCALL_GNSS_GET_NAVIGATION_MODE = 363"
definition K_SYSCALL_GNSS_GET_SUPPORTED_SYSTEMS :: nat where [outside_ids]: "K_SYSCALL_GNSS_GET_SUPPORTED_SYSTEMS = 364"
definition K_SYSCALL_GNSS_SET_ENABLED_SYSTEMS :: nat where [outside_ids]: "K_SYSCALL_GNSS_SET_ENABLED_SYSTEMS = 365"
definition K_SYSCALL_GNSS_SET_FIX_RATE :: nat where [outside_ids]: "K_SYSCALL_GNSS_SET_FIX_RATE = 366"
definition K_SYSCALL_GNSS_SET_NAVIGATION_MODE :: nat where [outside_ids]: "K_SYSCALL_GNSS_SET_NAVIGATION_MODE = 367"
definition K_SYSCALL_HAPTICS_START_OUTPUT :: nat where [outside_ids]: "K_SYSCALL_HAPTICS_START_OUTPUT = 368"
definition K_SYSCALL_HAPTICS_STOP_OUTPUT :: nat where [outside_ids]: "K_SYSCALL_HAPTICS_STOP_OUTPUT = 369"
definition K_SYSCALL_HWSPINLOCK_GET_MAX_ID :: nat where [outside_ids]: "K_SYSCALL_HWSPINLOCK_GET_MAX_ID = 370"
definition K_SYSCALL_HWSPINLOCK_LOCK :: nat where [outside_ids]: "K_SYSCALL_HWSPINLOCK_LOCK = 371"
definition K_SYSCALL_HWSPINLOCK_TRYLOCK :: nat where [outside_ids]: "K_SYSCALL_HWSPINLOCK_TRYLOCK = 372"
definition K_SYSCALL_HWSPINLOCK_UNLOCK :: nat where [outside_ids]: "K_SYSCALL_HWSPINLOCK_UNLOCK = 373"
definition K_SYSCALL_I2C_CONFIGURE :: nat where [outside_ids]: "K_SYSCALL_I2C_CONFIGURE = 374"
definition K_SYSCALL_I2C_GET_CONFIG :: nat where [outside_ids]: "K_SYSCALL_I2C_GET_CONFIG = 375"
definition K_SYSCALL_I2C_RECOVER_BUS :: nat where [outside_ids]: "K_SYSCALL_I2C_RECOVER_BUS = 376"
definition K_SYSCALL_I2C_TARGET_DRIVER_REGISTER :: nat where [outside_ids]: "K_SYSCALL_I2C_TARGET_DRIVER_REGISTER = 377"
definition K_SYSCALL_I2C_TARGET_DRIVER_UNREGISTER :: nat where [outside_ids]: "K_SYSCALL_I2C_TARGET_DRIVER_UNREGISTER = 378"
definition K_SYSCALL_I2C_TRANSFER :: nat where [outside_ids]: "K_SYSCALL_I2C_TRANSFER = 379"
definition K_SYSCALL_I2S_BUF_READ :: nat where [outside_ids]: "K_SYSCALL_I2S_BUF_READ = 380"
definition K_SYSCALL_I2S_BUF_WRITE :: nat where [outside_ids]: "K_SYSCALL_I2S_BUF_WRITE = 381"
definition K_SYSCALL_I2S_CONFIGURE :: nat where [outside_ids]: "K_SYSCALL_I2S_CONFIGURE = 382"
definition K_SYSCALL_I2S_TRIGGER :: nat where [outside_ids]: "K_SYSCALL_I2S_TRIGGER = 383"
definition K_SYSCALL_I3C_DO_CCC :: nat where [outside_ids]: "K_SYSCALL_I3C_DO_CCC = 384"
definition K_SYSCALL_I3C_TRANSFER :: nat where [outside_ids]: "K_SYSCALL_I3C_TRANSFER = 385"
definition K_SYSCALL_IPM_COMPLETE :: nat where [outside_ids]: "K_SYSCALL_IPM_COMPLETE = 386"
definition K_SYSCALL_IPM_MAX_DATA_SIZE_GET :: nat where [outside_ids]: "K_SYSCALL_IPM_MAX_DATA_SIZE_GET = 387"
definition K_SYSCALL_IPM_MAX_ID_VAL_GET :: nat where [outside_ids]: "K_SYSCALL_IPM_MAX_ID_VAL_GET = 388"
definition K_SYSCALL_IPM_SEND :: nat where [outside_ids]: "K_SYSCALL_IPM_SEND = 389"
definition K_SYSCALL_IPM_SET_ENABLED :: nat where [outside_ids]: "K_SYSCALL_IPM_SET_ENABLED = 390"
definition K_SYSCALL_IVSHMEM_ENABLE_INTERRUPTS :: nat where [outside_ids]: "K_SYSCALL_IVSHMEM_ENABLE_INTERRUPTS = 391"
definition K_SYSCALL_IVSHMEM_GET_ID :: nat where [outside_ids]: "K_SYSCALL_IVSHMEM_GET_ID = 392"
definition K_SYSCALL_IVSHMEM_GET_MAX_PEERS :: nat where [outside_ids]: "K_SYSCALL_IVSHMEM_GET_MAX_PEERS = 393"
definition K_SYSCALL_IVSHMEM_GET_MEM :: nat where [outside_ids]: "K_SYSCALL_IVSHMEM_GET_MEM = 394"
definition K_SYSCALL_IVSHMEM_GET_OUTPUT_MEM_SECTION :: nat where [outside_ids]: "K_SYSCALL_IVSHMEM_GET_OUTPUT_MEM_SECTION = 395"
definition K_SYSCALL_IVSHMEM_GET_PROTOCOL :: nat where [outside_ids]: "K_SYSCALL_IVSHMEM_GET_PROTOCOL = 396"
definition K_SYSCALL_IVSHMEM_GET_RW_MEM_SECTION :: nat where [outside_ids]: "K_SYSCALL_IVSHMEM_GET_RW_MEM_SECTION = 397"
definition K_SYSCALL_IVSHMEM_GET_STATE :: nat where [outside_ids]: "K_SYSCALL_IVSHMEM_GET_STATE = 398"
definition K_SYSCALL_IVSHMEM_GET_VECTORS :: nat where [outside_ids]: "K_SYSCALL_IVSHMEM_GET_VECTORS = 399"
definition K_SYSCALL_IVSHMEM_INT_PEER :: nat where [outside_ids]: "K_SYSCALL_IVSHMEM_INT_PEER = 400"
definition K_SYSCALL_IVSHMEM_REGISTER_HANDLER :: nat where [outside_ids]: "K_SYSCALL_IVSHMEM_REGISTER_HANDLER = 401"
definition K_SYSCALL_IVSHMEM_SET_STATE :: nat where [outside_ids]: "K_SYSCALL_IVSHMEM_SET_STATE = 402"
definition K_SYSCALL_K_MEM_PAGING_HISTOGRAM_BACKING_STORE_PAGE_IN_GET :: nat where [outside_ids]: "K_SYSCALL_K_MEM_PAGING_HISTOGRAM_BACKING_STORE_PAGE_IN_GET = 403"
definition K_SYSCALL_K_MEM_PAGING_HISTOGRAM_BACKING_STORE_PAGE_OUT_GET :: nat where [outside_ids]: "K_SYSCALL_K_MEM_PAGING_HISTOGRAM_BACKING_STORE_PAGE_OUT_GET = 404"
definition K_SYSCALL_K_MEM_PAGING_HISTOGRAM_EVICTION_GET :: nat where [outside_ids]: "K_SYSCALL_K_MEM_PAGING_HISTOGRAM_EVICTION_GET = 405"
definition K_SYSCALL_K_MEM_PAGING_STATS_GET :: nat where [outside_ids]: "K_SYSCALL_K_MEM_PAGING_STATS_GET = 406"
definition K_SYSCALL_K_MEM_PAGING_THREAD_STATS_GET :: nat where [outside_ids]: "K_SYSCALL_K_MEM_PAGING_THREAD_STATS_GET = 407"
definition K_SYSCALL_LED_BLINK :: nat where [outside_ids]: "K_SYSCALL_LED_BLINK = 408"
definition K_SYSCALL_LED_GET_INFO :: nat where [outside_ids]: "K_SYSCALL_LED_GET_INFO = 409"
definition K_SYSCALL_LED_OFF :: nat where [outside_ids]: "K_SYSCALL_LED_OFF = 410"
definition K_SYSCALL_LED_ON :: nat where [outside_ids]: "K_SYSCALL_LED_ON = 411"
definition K_SYSCALL_LED_SET_BRIGHTNESS :: nat where [outside_ids]: "K_SYSCALL_LED_SET_BRIGHTNESS = 412"
definition K_SYSCALL_LED_SET_CHANNEL :: nat where [outside_ids]: "K_SYSCALL_LED_SET_CHANNEL = 413"
definition K_SYSCALL_LED_SET_COLOR :: nat where [outside_ids]: "K_SYSCALL_LED_SET_COLOR = 414"
definition K_SYSCALL_LED_WRITE_CHANNELS :: nat where [outside_ids]: "K_SYSCALL_LED_WRITE_CHANNELS = 415"
definition K_SYSCALL_LLEXT_GET_FN_TABLE :: nat where [outside_ids]: "K_SYSCALL_LLEXT_GET_FN_TABLE = 416"
definition K_SYSCALL_MAXIM_DS3231_GET_SYNCPOINT :: nat where [outside_ids]: "K_SYSCALL_MAXIM_DS3231_GET_SYNCPOINT = 417"
definition K_SYSCALL_MAXIM_DS3231_REQ_SYNCPOINT :: nat where [outside_ids]: "K_SYSCALL_MAXIM_DS3231_REQ_SYNCPOINT = 418"
definition K_SYSCALL_MBOX_MAX_CHANNELS_GET :: nat where [outside_ids]: "K_SYSCALL_MBOX_MAX_CHANNELS_GET = 419"
definition K_SYSCALL_MBOX_MTU_GET :: nat where [outside_ids]: "K_SYSCALL_MBOX_MTU_GET = 420"
definition K_SYSCALL_MBOX_SEND :: nat where [outside_ids]: "K_SYSCALL_MBOX_SEND = 421"
definition K_SYSCALL_MBOX_SET_ENABLED :: nat where [outside_ids]: "K_SYSCALL_MBOX_SET_ENABLED = 422"
definition K_SYSCALL_MDIO_BUS_DISABLE :: nat where [outside_ids]: "K_SYSCALL_MDIO_BUS_DISABLE = 423"
definition K_SYSCALL_MDIO_BUS_ENABLE :: nat where [outside_ids]: "K_SYSCALL_MDIO_BUS_ENABLE = 424"
definition K_SYSCALL_MDIO_READ :: nat where [outside_ids]: "K_SYSCALL_MDIO_READ = 425"
definition K_SYSCALL_MDIO_READ_C45 :: nat where [outside_ids]: "K_SYSCALL_MDIO_READ_C45 = 426"
definition K_SYSCALL_MDIO_WRITE :: nat where [outside_ids]: "K_SYSCALL_MDIO_WRITE = 427"
definition K_SYSCALL_MDIO_WRITE_C45 :: nat where [outside_ids]: "K_SYSCALL_MDIO_WRITE_C45 = 428"
definition K_SYSCALL_MSPI_CONFIG :: nat where [outside_ids]: "K_SYSCALL_MSPI_CONFIG = 429"
definition K_SYSCALL_MSPI_DEV_CONFIG :: nat where [outside_ids]: "K_SYSCALL_MSPI_DEV_CONFIG = 430"
definition K_SYSCALL_MSPI_GET_CHANNEL_STATUS :: nat where [outside_ids]: "K_SYSCALL_MSPI_GET_CHANNEL_STATUS = 431"
definition K_SYSCALL_MSPI_SCRAMBLE_CONFIG :: nat where [outside_ids]: "K_SYSCALL_MSPI_SCRAMBLE_CONFIG = 432"
definition K_SYSCALL_MSPI_TIMING_CONFIG :: nat where [outside_ids]: "K_SYSCALL_MSPI_TIMING_CONFIG = 433"
definition K_SYSCALL_MSPI_TRANSCEIVE :: nat where [outside_ids]: "K_SYSCALL_MSPI_TRANSCEIVE = 434"
definition K_SYSCALL_MSPI_XIP_CONFIG :: nat where [outside_ids]: "K_SYSCALL_MSPI_XIP_CONFIG = 435"
definition K_SYSCALL_NET_SOCKET_SERVICE_REGISTER :: nat where [outside_ids]: "K_SYSCALL_NET_SOCKET_SERVICE_REGISTER = 436"
definition K_SYSCALL_NRF_QSPI_NOR_XIP_ENABLE :: nat where [outside_ids]: "K_SYSCALL_NRF_QSPI_NOR_XIP_ENABLE = 437"
definition K_SYSCALL_PECI_CONFIG :: nat where [outside_ids]: "K_SYSCALL_PECI_CONFIG = 438"
definition K_SYSCALL_PECI_DISABLE :: nat where [outside_ids]: "K_SYSCALL_PECI_DISABLE = 439"
definition K_SYSCALL_PECI_ENABLE :: nat where [outside_ids]: "K_SYSCALL_PECI_ENABLE = 440"
definition K_SYSCALL_PECI_TRANSFER :: nat where [outside_ids]: "K_SYSCALL_PECI_TRANSFER = 441"
definition K_SYSCALL_PS2_CONFIG :: nat where [outside_ids]: "K_SYSCALL_PS2_CONFIG = 442"
definition K_SYSCALL_PS2_DISABLE_CALLBACK :: nat where [outside_ids]: "K_SYSCALL_PS2_DISABLE_CALLBACK = 443"
definition K_SYSCALL_PS2_ENABLE_CALLBACK :: nat where [outside_ids]: "K_SYSCALL_PS2_ENABLE_CALLBACK = 444"
definition K_SYSCALL_PS2_READ :: nat where [outside_ids]: "K_SYSCALL_PS2_READ = 445"
definition K_SYSCALL_PS2_WRITE :: nat where [outside_ids]: "K_SYSCALL_PS2_WRITE = 446"
definition K_SYSCALL_PTP_CLOCK_GET :: nat where [outside_ids]: "K_SYSCALL_PTP_CLOCK_GET = 447"
definition K_SYSCALL_PWM_CAPTURE_CYCLES :: nat where [outside_ids]: "K_SYSCALL_PWM_CAPTURE_CYCLES = 448"
definition K_SYSCALL_PWM_DISABLE_CAPTURE :: nat where [outside_ids]: "K_SYSCALL_PWM_DISABLE_CAPTURE = 449"
definition K_SYSCALL_PWM_ENABLE_CAPTURE :: nat where [outside_ids]: "K_SYSCALL_PWM_ENABLE_CAPTURE = 450"
definition K_SYSCALL_PWM_GET_CYCLES_PER_SEC :: nat where [outside_ids]: "K_SYSCALL_PWM_GET_CYCLES_PER_SEC = 451"
definition K_SYSCALL_PWM_SET_CYCLES :: nat where [outside_ids]: "K_SYSCALL_PWM_SET_CYCLES = 452"
definition K_SYSCALL_RESET_LINE_ASSERT :: nat where [outside_ids]: "K_SYSCALL_RESET_LINE_ASSERT = 453"
definition K_SYSCALL_RESET_LINE_DEASSERT :: nat where [outside_ids]: "K_SYSCALL_RESET_LINE_DEASSERT = 454"
definition K_SYSCALL_RESET_LINE_TOGGLE :: nat where [outside_ids]: "K_SYSCALL_RESET_LINE_TOGGLE = 455"
definition K_SYSCALL_RESET_STATUS :: nat where [outside_ids]: "K_SYSCALL_RESET_STATUS = 456"
definition K_SYSCALL_RETAINED_MEM_CLEAR :: nat where [outside_ids]: "K_SYSCALL_RETAINED_MEM_CLEAR = 457"
definition K_SYSCALL_RETAINED_MEM_READ :: nat where [outside_ids]: "K_SYSCALL_RETAINED_MEM_READ = 458"
definition K_SYSCALL_RETAINED_MEM_SIZE :: nat where [outside_ids]: "K_SYSCALL_RETAINED_MEM_SIZE = 459"
definition K_SYSCALL_RETAINED_MEM_WRITE :: nat where [outside_ids]: "K_SYSCALL_RETAINED_MEM_WRITE = 460"
definition K_SYSCALL_RTC_ALARM_GET_SUPPORTED_FIELDS :: nat where [outside_ids]: "K_SYSCALL_RTC_ALARM_GET_SUPPORTED_FIELDS = 461"
definition K_SYSCALL_RTC_ALARM_GET_TIME :: nat where [outside_ids]: "K_SYSCALL_RTC_ALARM_GET_TIME = 462"
definition K_SYSCALL_RTC_ALARM_IS_PENDING :: nat where [outside_ids]: "K_SYSCALL_RTC_ALARM_IS_PENDING = 463"
definition K_SYSCALL_RTC_ALARM_SET_CALLBACK :: nat where [outside_ids]: "K_SYSCALL_RTC_ALARM_SET_CALLBACK = 464"
definition K_SYSCALL_RTC_ALARM_SET_TIME :: nat where [outside_ids]: "K_SYSCALL_RTC_ALARM_SET_TIME = 465"
definition K_SYSCALL_RTC_GET_CALIBRATION :: nat where [outside_ids]: "K_SYSCALL_RTC_GET_CALIBRATION = 466"
definition K_SYSCALL_RTC_GET_TIME :: nat where [outside_ids]: "K_SYSCALL_RTC_GET_TIME = 467"
definition K_SYSCALL_RTC_SET_CALIBRATION :: nat where [outside_ids]: "K_SYSCALL_RTC_SET_CALIBRATION = 468"
definition K_SYSCALL_RTC_SET_TIME :: nat where [outside_ids]: "K_SYSCALL_RTC_SET_TIME = 469"
definition K_SYSCALL_RTC_UPDATE_SET_CALLBACK :: nat where [outside_ids]: "K_SYSCALL_RTC_UPDATE_SET_CALLBACK = 470"
definition K_SYSCALL_RTIO_CQE_COPY_OUT :: nat where [outside_ids]: "K_SYSCALL_RTIO_CQE_COPY_OUT = 471"
definition K_SYSCALL_RTIO_CQE_GET_MEMPOOL_BUFFER :: nat where [outside_ids]: "K_SYSCALL_RTIO_CQE_GET_MEMPOOL_BUFFER = 472"
definition K_SYSCALL_RTIO_RELEASE_BUFFER :: nat where [outside_ids]: "K_SYSCALL_RTIO_RELEASE_BUFFER = 473"
definition K_SYSCALL_RTIO_SQE_CANCEL :: nat where [outside_ids]: "K_SYSCALL_RTIO_SQE_CANCEL = 474"
definition K_SYSCALL_RTIO_SQE_COPY_IN_GET_HANDLES :: nat where [outside_ids]: "K_SYSCALL_RTIO_SQE_COPY_IN_GET_HANDLES = 475"
definition K_SYSCALL_RTIO_SQE_SIGNAL :: nat where [outside_ids]: "K_SYSCALL_RTIO_SQE_SIGNAL = 476"
definition K_SYSCALL_RTIO_SUBMIT :: nat where [outside_ids]: "K_SYSCALL_RTIO_SUBMIT = 477"
definition K_SYSCALL_SDHC_CARD_BUSY :: nat where [outside_ids]: "K_SYSCALL_SDHC_CARD_BUSY = 478"
definition K_SYSCALL_SDHC_CARD_PRESENT :: nat where [outside_ids]: "K_SYSCALL_SDHC_CARD_PRESENT = 479"
definition K_SYSCALL_SDHC_DISABLE_INTERRUPT :: nat where [outside_ids]: "K_SYSCALL_SDHC_DISABLE_INTERRUPT = 480"
definition K_SYSCALL_SDHC_ENABLE_INTERRUPT :: nat where [outside_ids]: "K_SYSCALL_SDHC_ENABLE_INTERRUPT = 481"
definition K_SYSCALL_SDHC_EXECUTE_TUNING :: nat where [outside_ids]: "K_SYSCALL_SDHC_EXECUTE_TUNING = 482"
definition K_SYSCALL_SDHC_GET_HOST_PROPS :: nat where [outside_ids]: "K_SYSCALL_SDHC_GET_HOST_PROPS = 483"
definition K_SYSCALL_SDHC_HW_RESET :: nat where [outside_ids]: "K_SYSCALL_SDHC_HW_RESET = 484"
definition K_SYSCALL_SDHC_REQUEST :: nat where [outside_ids]: "K_SYSCALL_SDHC_REQUEST = 485"
definition K_SYSCALL_SDHC_SET_IO :: nat where [outside_ids]: "K_SYSCALL_SDHC_SET_IO = 486"
definition K_SYSCALL_SENSOR_ATTR_GET :: nat where [outside_ids]: "K_SYSCALL_SENSOR_ATTR_GET = 487"
definition K_SYSCALL_SENSOR_ATTR_SET :: nat where [outside_ids]: "K_SYSCALL_SENSOR_ATTR_SET = 488"
definition K_SYSCALL_SENSOR_CHANNEL_GET :: nat where [outside_ids]: "K_SYSCALL_SENSOR_CHANNEL_GET = 489"
definition K_SYSCALL_SENSOR_GET_DECODER :: nat where [outside_ids]: "K_SYSCALL_SENSOR_GET_DECODER = 490"
definition K_SYSCALL_SENSOR_RECONFIGURE_READ_IODEV :: nat where [outside_ids]: "K_SYSCALL_SENSOR_RECONFIGURE_READ_IODEV = 491"
definition K_SYSCALL_SENSOR_SAMPLE_FETCH :: nat where [outside_ids]: "K_SYSCALL_SENSOR_SAMPLE_FETCH = 492"
definition K_SYSCALL_SENSOR_SAMPLE_FETCH_CHAN :: nat where [outside_ids]: "K_SYSCALL_SENSOR_SAMPLE_FETCH_CHAN = 493"
definition K_SYSCALL_SIP_SUPERVISORY_CALL :: nat where [outside_ids]: "K_SYSCALL_SIP_SUPERVISORY_CALL = 494"
definition K_SYSCALL_SIP_SVC_PLAT_ASYNC_RES_REQ :: nat where [outside_ids]: "K_SYSCALL_SIP_SVC_PLAT_ASYNC_RES_REQ = 495"
definition K_SYSCALL_SIP_SVC_PLAT_ASYNC_RES_RES :: nat where [outside_ids]: "K_SYSCALL_SIP_SVC_PLAT_ASYNC_RES_RES = 496"
definition K_SYSCALL_SIP_SVC_PLAT_FORMAT_TRANS_ID :: nat where [outside_ids]: "K_SYSCALL_SIP_SVC_PLAT_FORMAT_TRANS_ID = 497"
definition K_SYSCALL_SIP_SVC_PLAT_FREE_ASYNC_MEMORY :: nat where [outside_ids]: "K_SYSCALL_SIP_SVC_PLAT_FREE_ASYNC_MEMORY = 498"
definition K_SYSCALL_SIP_SVC_PLAT_FUNC_ID_VALID :: nat where [outside_ids]: "K_SYSCALL_SIP_SVC_PLAT_FUNC_ID_VALID = 499"
definition K_SYSCALL_SIP_SVC_PLAT_GET_ERROR_CODE :: nat where [outside_ids]: "K_SYSCALL_SIP_SVC_PLAT_GET_ERROR_CODE = 500"
definition K_SYSCALL_SIP_SVC_PLAT_GET_TRANS_IDX :: nat where [outside_ids]: "K_SYSCALL_SIP_SVC_PLAT_GET_TRANS_IDX = 501"
definition K_SYSCALL_SIP_SVC_PLAT_UPDATE_TRANS_ID :: nat where [outside_ids]: "K_SYSCALL_SIP_SVC_PLAT_UPDATE_TRANS_ID = 502"
definition K_SYSCALL_SMBUS_BLOCK_PCALL :: nat where [outside_ids]: "K_SYSCALL_SMBUS_BLOCK_PCALL = 503"
definition K_SYSCALL_SMBUS_BLOCK_READ :: nat where [outside_ids]: "K_SYSCALL_SMBUS_BLOCK_READ = 504"
definition K_SYSCALL_SMBUS_BLOCK_WRITE :: nat where [outside_ids]: "K_SYSCALL_SMBUS_BLOCK_WRITE = 505"
definition K_SYSCALL_SMBUS_BYTE_DATA_READ :: nat where [outside_ids]: "K_SYSCALL_SMBUS_BYTE_DATA_READ = 506"
definition K_SYSCALL_SMBUS_BYTE_DATA_WRITE :: nat where [outside_ids]: "K_SYSCALL_SMBUS_BYTE_DATA_WRITE = 507"
definition K_SYSCALL_SMBUS_BYTE_READ :: nat where [outside_ids]: "K_SYSCALL_SMBUS_BYTE_READ = 508"
definition K_SYSCALL_SMBUS_BYTE_WRITE :: nat where [outside_ids]: "K_SYSCALL_SMBUS_BYTE_WRITE = 509"
definition K_SYSCALL_SMBUS_CONFIGURE :: nat where [outside_ids]: "K_SYSCALL_SMBUS_CONFIGURE = 510"
definition K_SYSCALL_SMBUS_GET_CONFIG :: nat where [outside_ids]: "K_SYSCALL_SMBUS_GET_CONFIG = 511"
definition K_SYSCALL_SMBUS_HOST_NOTIFY_REMOVE_CB :: nat where [outside_ids]: "K_SYSCALL_SMBUS_HOST_NOTIFY_REMOVE_CB = 512"
definition K_SYSCALL_SMBUS_PCALL :: nat where [outside_ids]: "K_SYSCALL_SMBUS_PCALL = 513"
definition K_SYSCALL_SMBUS_QUICK :: nat where [outside_ids]: "K_SYSCALL_SMBUS_QUICK = 514"
definition K_SYSCALL_SMBUS_SMBALERT_REMOVE_CB :: nat where [outside_ids]: "K_SYSCALL_SMBUS_SMBALERT_REMOVE_CB = 515"
definition K_SYSCALL_SMBUS_WORD_DATA_READ :: nat where [outside_ids]: "K_SYSCALL_SMBUS_WORD_DATA_READ = 516"
definition K_SYSCALL_SMBUS_WORD_DATA_WRITE :: nat where [outside_ids]: "K_SYSCALL_SMBUS_WORD_DATA_WRITE = 517"
definition K_SYSCALL_STEPPER_DISABLE :: nat where [outside_ids]: "K_SYSCALL_STEPPER_DISABLE = 518"
definition K_SYSCALL_STEPPER_ENABLE :: nat where [outside_ids]: "K_SYSCALL_STEPPER_ENABLE = 519"
definition K_SYSCALL_STEPPER_GET_ACTUAL_POSITION :: nat where [outside_ids]: "K_SYSCALL_STEPPER_GET_ACTUAL_POSITION = 520"
definition K_SYSCALL_STEPPER_GET_MICRO_STEP_RES :: nat where [outside_ids]: "K_SYSCALL_STEPPER_GET_MICRO_STEP_RES = 521"
definition K_SYSCALL_STEPPER_IS_MOVING :: nat where [outside_ids]: "K_SYSCALL_STEPPER_IS_MOVING = 522"
definition K_SYSCALL_STEPPER_MOVE_BY :: nat where [outside_ids]: "K_SYSCALL_STEPPER_MOVE_BY = 523"
definition K_SYSCALL_STEPPER_MOVE_TO :: nat where [outside_ids]: "K_SYSCALL_STEPPER_MOVE_TO = 524"
definition K_SYSCALL_STEPPER_RUN :: nat where [outside_ids]: "K_SYSCALL_STEPPER_RUN = 525"
definition K_SYSCALL_STEPPER_SET_EVENT_CALLBACK :: nat where [outside_ids]: "K_SYSCALL_STEPPER_SET_EVENT_CALLBACK = 526"
definition K_SYSCALL_STEPPER_SET_MICROSTEP_INTERVAL :: nat where [outside_ids]: "K_SYSCALL_STEPPER_SET_MICROSTEP_INTERVAL = 527"
definition K_SYSCALL_STEPPER_SET_MICRO_STEP_RES :: nat where [outside_ids]: "K_SYSCALL_STEPPER_SET_MICRO_STEP_RES = 528"
definition K_SYSCALL_STEPPER_SET_REFERENCE_POSITION :: nat where [outside_ids]: "K_SYSCALL_STEPPER_SET_REFERENCE_POSITION = 529"
definition K_SYSCALL_STEPPER_STOP :: nat where [outside_ids]: "K_SYSCALL_STEPPER_STOP = 530"
definition K_SYSCALL_SYSCON_GET_BASE :: nat where [outside_ids]: "K_SYSCALL_SYSCON_GET_BASE = 531"
definition K_SYSCALL_SYSCON_GET_SIZE :: nat where [outside_ids]: "K_SYSCALL_SYSCON_GET_SIZE = 532"
definition K_SYSCALL_SYSCON_READ_REG :: nat where [outside_ids]: "K_SYSCALL_SYSCON_READ_REG = 533"
definition K_SYSCALL_SYSCON_WRITE_REG :: nat where [outside_ids]: "K_SYSCALL_SYSCON_WRITE_REG = 534"
definition K_SYSCALL_SYS_CACHE_DATA_FLUSH_AND_INVD_RANGE :: nat where [outside_ids]: "K_SYSCALL_SYS_CACHE_DATA_FLUSH_AND_INVD_RANGE = 535"
definition K_SYSCALL_SYS_CACHE_DATA_FLUSH_RANGE :: nat where [outside_ids]: "K_SYSCALL_SYS_CACHE_DATA_FLUSH_RANGE = 536"
definition K_SYSCALL_SYS_CACHE_DATA_INVD_RANGE :: nat where [outside_ids]: "K_SYSCALL_SYS_CACHE_DATA_INVD_RANGE = 537"
definition K_SYSCALL_TEE_CANCEL :: nat where [outside_ids]: "K_SYSCALL_TEE_CANCEL = 538"
definition K_SYSCALL_TEE_CLOSE_SESSION :: nat where [outside_ids]: "K_SYSCALL_TEE_CLOSE_SESSION = 539"
definition K_SYSCALL_TEE_GET_VERSION :: nat where [outside_ids]: "K_SYSCALL_TEE_GET_VERSION = 540"
definition K_SYSCALL_TEE_INVOKE_FUNC :: nat where [outside_ids]: "K_SYSCALL_TEE_INVOKE_FUNC = 541"
definition K_SYSCALL_TEE_OPEN_SESSION :: nat where [outside_ids]: "K_SYSCALL_TEE_OPEN_SESSION = 542"
definition K_SYSCALL_TEE_SHM_ALLOC :: nat where [outside_ids]: "K_SYSCALL_TEE_SHM_ALLOC = 543"
definition K_SYSCALL_TEE_SHM_FREE :: nat where [outside_ids]: "K_SYSCALL_TEE_SHM_FREE = 544"
definition K_SYSCALL_TEE_SHM_REGISTER :: nat where [outside_ids]: "K_SYSCALL_TEE_SHM_REGISTER = 545"
definition K_SYSCALL_TEE_SHM_UNREGISTER :: nat where [outside_ids]: "K_SYSCALL_TEE_SHM_UNREGISTER = 546"
definition K_SYSCALL_TEE_SUPPL_RECV :: nat where [outside_ids]: "K_SYSCALL_TEE_SUPPL_RECV = 547"
definition K_SYSCALL_TEE_SUPPL_SEND :: nat where [outside_ids]: "K_SYSCALL_TEE_SUPPL_SEND = 548"
definition K_SYSCALL_TGPIO_PIN_CONFIG_EXT_TIMESTAMP :: nat where [outside_ids]: "K_SYSCALL_TGPIO_PIN_CONFIG_EXT_TIMESTAMP = 549"
definition K_SYSCALL_TGPIO_PIN_DISABLE :: nat where [outside_ids]: "K_SYSCALL_TGPIO_PIN_DISABLE = 550"
definition K_SYSCALL_TGPIO_PIN_PERIODIC_OUTPUT :: nat where [outside_ids]: "K_SYSCALL_TGPIO_PIN_PERIODIC_OUTPUT = 551"
definition K_SYSCALL_TGPIO_PIN_READ_TS_EC :: nat where [outside_ids]: "K_SYSCALL_TGPIO_PIN_READ_TS_EC = 552"
definition K_SYSCALL_TGPIO_PORT_GET_CYCLES_PER_SECOND :: nat where [outside_ids]: "K_SYSCALL_TGPIO_PORT_GET_CYCLES_PER_SECOND = 553"
definition K_SYSCALL_TGPIO_PORT_GET_TIME :: nat where [outside_ids]: "K_SYSCALL_TGPIO_PORT_GET_TIME = 554"
definition K_SYSCALL_UPDATEHUB_AUTOHANDLER :: nat where [outside_ids]: "K_SYSCALL_UPDATEHUB_AUTOHANDLER = 555"
definition K_SYSCALL_UPDATEHUB_CONFIRM :: nat where [outside_ids]: "K_SYSCALL_UPDATEHUB_CONFIRM = 556"
definition K_SYSCALL_UPDATEHUB_PROBE :: nat where [outside_ids]: "K_SYSCALL_UPDATEHUB_PROBE = 557"
definition K_SYSCALL_UPDATEHUB_REBOOT :: nat where [outside_ids]: "K_SYSCALL_UPDATEHUB_REBOOT = 558"
definition K_SYSCALL_UPDATEHUB_UPDATE :: nat where [outside_ids]: "K_SYSCALL_UPDATEHUB_UPDATE = 559"
definition K_SYSCALL_USER_FAULT :: nat where [outside_ids]: "K_SYSCALL_USER_FAULT = 560"
definition K_SYSCALL_W1_CHANGE_BUS_LOCK :: nat where [outside_ids]: "K_SYSCALL_W1_CHANGE_BUS_LOCK = 561"
definition K_SYSCALL_W1_CONFIGURE :: nat where [outside_ids]: "K_SYSCALL_W1_CONFIGURE = 562"
definition K_SYSCALL_W1_GET_SLAVE_COUNT :: nat where [outside_ids]: "K_SYSCALL_W1_GET_SLAVE_COUNT = 563"
definition K_SYSCALL_W1_READ_BIT :: nat where [outside_ids]: "K_SYSCALL_W1_READ_BIT = 564"
definition K_SYSCALL_W1_READ_BLOCK :: nat where [outside_ids]: "K_SYSCALL_W1_READ_BLOCK = 565"
definition K_SYSCALL_W1_READ_BYTE :: nat where [outside_ids]: "K_SYSCALL_W1_READ_BYTE = 566"
definition K_SYSCALL_W1_RESET_BUS :: nat where [outside_ids]: "K_SYSCALL_W1_RESET_BUS = 567"
definition K_SYSCALL_W1_SEARCH_BUS :: nat where [outside_ids]: "K_SYSCALL_W1_SEARCH_BUS = 568"
definition K_SYSCALL_W1_WRITE_BIT :: nat where [outside_ids]: "K_SYSCALL_W1_WRITE_BIT = 569"
definition K_SYSCALL_W1_WRITE_BLOCK :: nat where [outside_ids]: "K_SYSCALL_W1_WRITE_BLOCK = 570"
definition K_SYSCALL_W1_WRITE_BYTE :: nat where [outside_ids]: "K_SYSCALL_W1_WRITE_BYTE = 571"
definition K_SYSCALL_WDT_DISABLE :: nat where [outside_ids]: "K_SYSCALL_WDT_DISABLE = 572"
definition K_SYSCALL_WDT_FEED :: nat where [outside_ids]: "K_SYSCALL_WDT_FEED = 573"
definition K_SYSCALL_WDT_SETUP :: nat where [outside_ids]: "K_SYSCALL_WDT_SETUP = 574"
definition K_SYSCALL_XTENSA_USER_FAULT :: nat where [outside_ids]: "K_SYSCALL_XTENSA_USER_FAULT = 575"
definition K_SYSCALL_Z_ERRNO :: nat where [outside_ids]: "K_SYSCALL_Z_ERRNO = 576"

end
