(* ===== verification/Syscall_Outside_A.thy ===== *)
theory Syscall_Outside_A
  imports Syscall Syscall_Outside_Numbers
begin

text \<open>
  The stubs of the system calls that are not used in the image, from \<^verbatim>\<open>adc.h\<close> to \<^verbatim>\<open>i2s.h\<close> in the
  order of the headers under \<^verbatim>\<open>syscalls/\<close>. They have the form of the stubs of the image. The widths
  of the parameters are those of their types in Zephyr's headers.
\<close>

named_theorems outside_defs_a \<open>the definitions of these stubs\<close>

section \<open>\<^verbatim>\<open>adc.h\<close>\<close>

definition sys_adc_channel_setup :: "kmode \<Rightarrow> 32 word \<Rightarrow> 32 word \<Rightarrow> kcall" where [outside_defs_a]:
  "sys_adc_channel_setup m p_dev p_channel_cfg =
     syscall m ''adc_channel_setup'' K_SYSCALL_ADC_CHANNEL_SETUP RWord
       [P32 p_dev, P32 p_channel_cfg]"

definition sys_adc_read :: "kmode \<Rightarrow> 32 word \<Rightarrow> 32 word \<Rightarrow> kcall" where [outside_defs_a]:
  "sys_adc_read m p_dev p_sequence =
     syscall m ''adc_read'' K_SYSCALL_ADC_READ RWord
       [P32 p_dev, P32 p_sequence]"

definition sys_adc_read_async :: "kmode \<Rightarrow> 32 word \<Rightarrow> 32 word \<Rightarrow> 32 word \<Rightarrow> kcall" where
    [outside_defs_a]:
  "sys_adc_read_async m p_dev p_sequence p_async =
     syscall m ''adc_read_async'' K_SYSCALL_ADC_READ_ASYNC RWord
       [P32 p_dev, P32 p_sequence, P32 p_async]"

section \<open>\<^verbatim>\<open>arch.h\<close>\<close>

definition sys_xtensa_user_fault :: "kmode \<Rightarrow> 32 word \<Rightarrow> kcall" where [outside_defs_a]:
  "sys_xtensa_user_fault m p_reason =
     syscall m ''xtensa_user_fault'' K_SYSCALL_XTENSA_USER_FAULT RVoid
       [P32 p_reason]"

section \<open>\<^verbatim>\<open>atomic_c.h\<close>\<close>

definition sys_atomic_cas :: "kmode \<Rightarrow> 32 word \<Rightarrow> 32 word \<Rightarrow> 32 word \<Rightarrow> kcall" where
    [outside_defs_a]:
  "sys_atomic_cas m p_target p_old_value p_new_value =
     syscall m ''atomic_cas'' K_SYSCALL_ATOMIC_CAS RBool
       [P32 p_target, P32 p_old_value, P32 p_new_value]"

definition sys_atomic_ptr_cas :: "kmode \<Rightarrow> 32 word \<Rightarrow> 32 word \<Rightarrow> 32 word \<Rightarrow> kcall" where
    [outside_defs_a]:
  "sys_atomic_ptr_cas m p_target p_old_value p_new_value =
     syscall m ''atomic_ptr_cas'' K_SYSCALL_ATOMIC_PTR_CAS RBool
       [P32 p_target, P32 p_old_value, P32 p_new_value]"

definition sys_atomic_add :: "kmode \<Rightarrow> 32 word \<Rightarrow> 32 word \<Rightarrow> kcall" where [outside_defs_a]:
  "sys_atomic_add m p_target p_value =
     syscall m ''atomic_add'' K_SYSCALL_ATOMIC_ADD RWord
       [P32 p_target, P32 p_value]"

definition sys_atomic_sub :: "kmode \<Rightarrow> 32 word \<Rightarrow> 32 word \<Rightarrow> kcall" where [outside_defs_a]:
  "sys_atomic_sub m p_target p_value =
     syscall m ''atomic_sub'' K_SYSCALL_ATOMIC_SUB RWord
       [P32 p_target, P32 p_value]"

definition sys_atomic_set :: "kmode \<Rightarrow> 32 word \<Rightarrow> 32 word \<Rightarrow> kcall" where [outside_defs_a]:
  "sys_atomic_set m p_target p_value =
     syscall m ''atomic_set'' K_SYSCALL_ATOMIC_SET RWord
       [P32 p_target, P32 p_value]"

definition sys_atomic_ptr_set :: "kmode \<Rightarrow> 32 word \<Rightarrow> 32 word \<Rightarrow> kcall" where [outside_defs_a]:
  "sys_atomic_ptr_set m p_target p_value =
     syscall m ''atomic_ptr_set'' K_SYSCALL_ATOMIC_PTR_SET RWord
       [P32 p_target, P32 p_value]"

definition sys_atomic_or :: "kmode \<Rightarrow> 32 word \<Rightarrow> 32 word \<Rightarrow> kcall" where [outside_defs_a]:
  "sys_atomic_or m p_target p_value =
     syscall m ''atomic_or'' K_SYSCALL_ATOMIC_OR RWord
       [P32 p_target, P32 p_value]"

definition sys_atomic_xor :: "kmode \<Rightarrow> 32 word \<Rightarrow> 32 word \<Rightarrow> kcall" where [outside_defs_a]:
  "sys_atomic_xor m p_target p_value =
     syscall m ''atomic_xor'' K_SYSCALL_ATOMIC_XOR RWord
       [P32 p_target, P32 p_value]"

definition sys_atomic_and :: "kmode \<Rightarrow> 32 word \<Rightarrow> 32 word \<Rightarrow> kcall" where [outside_defs_a]:
  "sys_atomic_and m p_target p_value =
     syscall m ''atomic_and'' K_SYSCALL_ATOMIC_AND RWord
       [P32 p_target, P32 p_value]"

definition sys_atomic_nand :: "kmode \<Rightarrow> 32 word \<Rightarrow> 32 word \<Rightarrow> kcall" where [outside_defs_a]:
  "sys_atomic_nand m p_target p_value =
     syscall m ''atomic_nand'' K_SYSCALL_ATOMIC_NAND RWord
       [P32 p_target, P32 p_value]"

section \<open>\<^verbatim>\<open>auxdisplay.h\<close>\<close>

definition sys_auxdisplay_display_on :: "kmode \<Rightarrow> 32 word \<Rightarrow> kcall" where [outside_defs_a]:
  "sys_auxdisplay_display_on m p_dev =
     syscall m ''auxdisplay_display_on'' K_SYSCALL_AUXDISPLAY_DISPLAY_ON RWord
       [P32 p_dev]"

definition sys_auxdisplay_display_off :: "kmode \<Rightarrow> 32 word \<Rightarrow> kcall" where [outside_defs_a]:
  "sys_auxdisplay_display_off m p_dev =
     syscall m ''auxdisplay_display_off'' K_SYSCALL_AUXDISPLAY_DISPLAY_OFF RWord
       [P32 p_dev]"

definition sys_auxdisplay_cursor_set_enabled :: "kmode \<Rightarrow> 32 word \<Rightarrow> 8 word \<Rightarrow> kcall" where
    [outside_defs_a]:
  "sys_auxdisplay_cursor_set_enabled m p_dev p_enabled =
     syscall m ''auxdisplay_cursor_set_enabled'' K_SYSCALL_AUXDISPLAY_CURSOR_SET_ENABLED RWord
       [P32 p_dev, P8 p_enabled]"

definition sys_auxdisplay_position_blinking_set_enabled :: "kmode \<Rightarrow> 32 word \<Rightarrow> 8 word \<Rightarrow> kcall"
    where [outside_defs_a]:
  "sys_auxdisplay_position_blinking_set_enabled m p_dev p_enabled =
     syscall m ''auxdisplay_position_blinking_set_enabled'' K_SYSCALL_AUXDISPLAY_POSITION_BLINKING_SET_ENABLED RWord
       [P32 p_dev, P8 p_enabled]"

definition sys_auxdisplay_cursor_shift_set :: "kmode \<Rightarrow> 32 word \<Rightarrow> 8 word \<Rightarrow> 8 word \<Rightarrow> kcall"
    where [outside_defs_a]:
  "sys_auxdisplay_cursor_shift_set m p_dev p_direction p_display_shift =
     syscall m ''auxdisplay_cursor_shift_set'' K_SYSCALL_AUXDISPLAY_CURSOR_SHIFT_SET RWord
       [P32 p_dev, P8 p_direction, P8 p_display_shift]"

definition sys_auxdisplay_cursor_position_set :: "kmode \<Rightarrow> 32 word \<Rightarrow> 8 word \<Rightarrow> 16 word \<Rightarrow> 16 word
    \<Rightarrow> kcall" where [outside_defs_a]:
  "sys_auxdisplay_cursor_position_set m p_dev p_type p_x p_y =
     syscall m ''auxdisplay_cursor_position_set'' K_SYSCALL_AUXDISPLAY_CURSOR_POSITION_SET RWord
       [P32 p_dev, PEnum p_type, P16 p_x, P16 p_y]"

definition sys_auxdisplay_cursor_position_get :: "kmode \<Rightarrow> 32 word \<Rightarrow> 32 word \<Rightarrow> 32 word \<Rightarrow> kcall"
    where [outside_defs_a]:
  "sys_auxdisplay_cursor_position_get m p_dev p_x p_y =
     syscall m ''auxdisplay_cursor_position_get'' K_SYSCALL_AUXDISPLAY_CURSOR_POSITION_GET RWord
       [P32 p_dev, P32 p_x, P32 p_y]"

definition sys_auxdisplay_display_position_set :: "kmode \<Rightarrow> 32 word \<Rightarrow> 8 word \<Rightarrow> 16 word \<Rightarrow>
    16 word \<Rightarrow> kcall" where [outside_defs_a]:
  "sys_auxdisplay_display_position_set m p_dev p_type p_x p_y =
     syscall m ''auxdisplay_display_position_set'' K_SYSCALL_AUXDISPLAY_DISPLAY_POSITION_SET RWord
       [P32 p_dev, PEnum p_type, P16 p_x, P16 p_y]"

definition sys_auxdisplay_display_position_get :: "kmode \<Rightarrow> 32 word \<Rightarrow> 32 word \<Rightarrow> 32 word \<Rightarrow>
    kcall" where [outside_defs_a]:
  "sys_auxdisplay_display_position_get m p_dev p_x p_y =
     syscall m ''auxdisplay_display_position_get'' K_SYSCALL_AUXDISPLAY_DISPLAY_POSITION_GET RWord
       [P32 p_dev, P32 p_x, P32 p_y]"

definition sys_auxdisplay_capabilities_get :: "kmode \<Rightarrow> 32 word \<Rightarrow> 32 word \<Rightarrow> kcall" where
    [outside_defs_a]:
  "sys_auxdisplay_capabilities_get m p_dev p_capabilities =
     syscall m ''auxdisplay_capabilities_get'' K_SYSCALL_AUXDISPLAY_CAPABILITIES_GET RWord
       [P32 p_dev, P32 p_capabilities]"

definition sys_auxdisplay_clear :: "kmode \<Rightarrow> 32 word \<Rightarrow> kcall" where [outside_defs_a]:
  "sys_auxdisplay_clear m p_dev =
     syscall m ''auxdisplay_clear'' K_SYSCALL_AUXDISPLAY_CLEAR RWord
       [P32 p_dev]"

definition sys_auxdisplay_brightness_get :: "kmode \<Rightarrow> 32 word \<Rightarrow> 32 word \<Rightarrow> kcall" where
    [outside_defs_a]:
  "sys_auxdisplay_brightness_get m p_dev p_brightness =
     syscall m ''auxdisplay_brightness_get'' K_SYSCALL_AUXDISPLAY_BRIGHTNESS_GET RWord
       [P32 p_dev, P32 p_brightness]"

definition sys_auxdisplay_brightness_set :: "kmode \<Rightarrow> 32 word \<Rightarrow> 8 word \<Rightarrow> kcall" where
    [outside_defs_a]:
  "sys_auxdisplay_brightness_set m p_dev p_brightness =
     syscall m ''auxdisplay_brightness_set'' K_SYSCALL_AUXDISPLAY_BRIGHTNESS_SET RWord
       [P32 p_dev, P8 p_brightness]"

definition sys_auxdisplay_backlight_get :: "kmode \<Rightarrow> 32 word \<Rightarrow> 32 word \<Rightarrow> kcall" where
    [outside_defs_a]:
  "sys_auxdisplay_backlight_get m p_dev p_backlight =
     syscall m ''auxdisplay_backlight_get'' K_SYSCALL_AUXDISPLAY_BACKLIGHT_GET RWord
       [P32 p_dev, P32 p_backlight]"

definition sys_auxdisplay_backlight_set :: "kmode \<Rightarrow> 32 word \<Rightarrow> 8 word \<Rightarrow> kcall" where
    [outside_defs_a]:
  "sys_auxdisplay_backlight_set m p_dev p_backlight =
     syscall m ''auxdisplay_backlight_set'' K_SYSCALL_AUXDISPLAY_BACKLIGHT_SET RWord
       [P32 p_dev, P8 p_backlight]"

definition sys_auxdisplay_is_busy :: "kmode \<Rightarrow> 32 word \<Rightarrow> kcall" where [outside_defs_a]:
  "sys_auxdisplay_is_busy m p_dev =
     syscall m ''auxdisplay_is_busy'' K_SYSCALL_AUXDISPLAY_IS_BUSY RWord
       [P32 p_dev]"

definition sys_auxdisplay_custom_character_set :: "kmode \<Rightarrow> 32 word \<Rightarrow> 32 word \<Rightarrow> kcall" where
    [outside_defs_a]:
  "sys_auxdisplay_custom_character_set m p_dev p_character =
     syscall m ''auxdisplay_custom_character_set'' K_SYSCALL_AUXDISPLAY_CUSTOM_CHARACTER_SET RWord
       [P32 p_dev, P32 p_character]"

definition sys_auxdisplay_write :: "kmode \<Rightarrow> 32 word \<Rightarrow> 32 word \<Rightarrow> 16 word \<Rightarrow> kcall" where
    [outside_defs_a]:
  "sys_auxdisplay_write m p_dev p_data p_len =
     syscall m ''auxdisplay_write'' K_SYSCALL_AUXDISPLAY_WRITE RWord
       [P32 p_dev, P32 p_data, P16 p_len]"

definition sys_auxdisplay_custom_command :: "kmode \<Rightarrow> 32 word \<Rightarrow> 32 word \<Rightarrow> kcall" where
    [outside_defs_a]:
  "sys_auxdisplay_custom_command m p_dev p_data =
     syscall m ''auxdisplay_custom_command'' K_SYSCALL_AUXDISPLAY_CUSTOM_COMMAND RWord
       [P32 p_dev, P32 p_data]"

section \<open>\<^verbatim>\<open>bbram.h\<close>\<close>

definition sys_bbram_check_invalid :: "kmode \<Rightarrow> 32 word \<Rightarrow> kcall" where [outside_defs_a]:
  "sys_bbram_check_invalid m p_dev =
     syscall m ''bbram_check_invalid'' K_SYSCALL_BBRAM_CHECK_INVALID RWord
       [P32 p_dev]"

definition sys_bbram_check_standby_power :: "kmode \<Rightarrow> 32 word \<Rightarrow> kcall" where [outside_defs_a]:
  "sys_bbram_check_standby_power m p_dev =
     syscall m ''bbram_check_standby_power'' K_SYSCALL_BBRAM_CHECK_STANDBY_POWER RWord
       [P32 p_dev]"

definition sys_bbram_check_power :: "kmode \<Rightarrow> 32 word \<Rightarrow> kcall" where [outside_defs_a]:
  "sys_bbram_check_power m p_dev =
     syscall m ''bbram_check_power'' K_SYSCALL_BBRAM_CHECK_POWER RWord
       [P32 p_dev]"

definition sys_bbram_get_size :: "kmode \<Rightarrow> 32 word \<Rightarrow> 32 word \<Rightarrow> kcall" where [outside_defs_a]:
  "sys_bbram_get_size m p_dev p_size =
     syscall m ''bbram_get_size'' K_SYSCALL_BBRAM_GET_SIZE RWord
       [P32 p_dev, P32 p_size]"

definition sys_bbram_read :: "kmode \<Rightarrow> 32 word \<Rightarrow> 32 word \<Rightarrow> 32 word \<Rightarrow> 32 word \<Rightarrow> kcall" where
    [outside_defs_a]:
  "sys_bbram_read m p_dev p_offset p_size p_data =
     syscall m ''bbram_read'' K_SYSCALL_BBRAM_READ RWord
       [P32 p_dev, P32 p_offset, P32 p_size, P32 p_data]"

definition sys_bbram_write :: "kmode \<Rightarrow> 32 word \<Rightarrow> 32 word \<Rightarrow> 32 word \<Rightarrow> 32 word \<Rightarrow> kcall" where
    [outside_defs_a]:
  "sys_bbram_write m p_dev p_offset p_size p_data =
     syscall m ''bbram_write'' K_SYSCALL_BBRAM_WRITE RWord
       [P32 p_dev, P32 p_offset, P32 p_size, P32 p_data]"

section \<open>\<^verbatim>\<open>cache.h\<close>\<close>

definition sys_sys_cache_data_flush_range :: "kmode \<Rightarrow> 32 word \<Rightarrow> 32 word \<Rightarrow> kcall" where
    [outside_defs_a]:
  "sys_sys_cache_data_flush_range m p_addr p_size =
     syscall m ''sys_cache_data_flush_range'' K_SYSCALL_SYS_CACHE_DATA_FLUSH_RANGE RWord
       [P32 p_addr, P32 p_size]"

definition sys_sys_cache_data_invd_range :: "kmode \<Rightarrow> 32 word \<Rightarrow> 32 word \<Rightarrow> kcall" where
    [outside_defs_a]:
  "sys_sys_cache_data_invd_range m p_addr p_size =
     syscall m ''sys_cache_data_invd_range'' K_SYSCALL_SYS_CACHE_DATA_INVD_RANGE RWord
       [P32 p_addr, P32 p_size]"

definition sys_sys_cache_data_flush_and_invd_range :: "kmode \<Rightarrow> 32 word \<Rightarrow> 32 word \<Rightarrow> kcall" where
    [outside_defs_a]:
  "sys_sys_cache_data_flush_and_invd_range m p_addr p_size =
     syscall m ''sys_cache_data_flush_and_invd_range'' K_SYSCALL_SYS_CACHE_DATA_FLUSH_AND_INVD_RANGE RWord
       [P32 p_addr, P32 p_size]"

section \<open>\<^verbatim>\<open>can.h\<close>\<close>

definition sys_can_get_core_clock :: "kmode \<Rightarrow> 32 word \<Rightarrow> 32 word \<Rightarrow> kcall" where
    [outside_defs_a]:
  "sys_can_get_core_clock m p_dev p_rate =
     syscall m ''can_get_core_clock'' K_SYSCALL_CAN_GET_CORE_CLOCK RWord
       [P32 p_dev, P32 p_rate]"

definition sys_can_get_bitrate_min :: "kmode \<Rightarrow> 32 word \<Rightarrow> kcall" where [outside_defs_a]:
  "sys_can_get_bitrate_min m p_dev =
     syscall m ''can_get_bitrate_min'' K_SYSCALL_CAN_GET_BITRATE_MIN RWord
       [P32 p_dev]"

definition sys_can_get_bitrate_max :: "kmode \<Rightarrow> 32 word \<Rightarrow> kcall" where [outside_defs_a]:
  "sys_can_get_bitrate_max m p_dev =
     syscall m ''can_get_bitrate_max'' K_SYSCALL_CAN_GET_BITRATE_MAX RWord
       [P32 p_dev]"

definition sys_can_get_timing_min :: "kmode \<Rightarrow> 32 word \<Rightarrow> kcall" where [outside_defs_a]:
  "sys_can_get_timing_min m p_dev =
     syscall m ''can_get_timing_min'' K_SYSCALL_CAN_GET_TIMING_MIN RWord
       [P32 p_dev]"

definition sys_can_get_timing_max :: "kmode \<Rightarrow> 32 word \<Rightarrow> kcall" where [outside_defs_a]:
  "sys_can_get_timing_max m p_dev =
     syscall m ''can_get_timing_max'' K_SYSCALL_CAN_GET_TIMING_MAX RWord
       [P32 p_dev]"

definition sys_can_calc_timing :: "kmode \<Rightarrow> 32 word \<Rightarrow> 32 word \<Rightarrow> 32 word \<Rightarrow> 16 word \<Rightarrow> kcall"
    where [outside_defs_a]:
  "sys_can_calc_timing m p_dev p_res p_bitrate p_sample_pnt =
     syscall m ''can_calc_timing'' K_SYSCALL_CAN_CALC_TIMING RWord
       [P32 p_dev, P32 p_res, P32 p_bitrate, P16 p_sample_pnt]"

definition sys_can_get_timing_data_min :: "kmode \<Rightarrow> 32 word \<Rightarrow> kcall" where [outside_defs_a]:
  "sys_can_get_timing_data_min m p_dev =
     syscall m ''can_get_timing_data_min'' K_SYSCALL_CAN_GET_TIMING_DATA_MIN RWord
       [P32 p_dev]"

definition sys_can_get_timing_data_max :: "kmode \<Rightarrow> 32 word \<Rightarrow> kcall" where [outside_defs_a]:
  "sys_can_get_timing_data_max m p_dev =
     syscall m ''can_get_timing_data_max'' K_SYSCALL_CAN_GET_TIMING_DATA_MAX RWord
       [P32 p_dev]"

definition sys_can_calc_timing_data :: "kmode \<Rightarrow> 32 word \<Rightarrow> 32 word \<Rightarrow> 32 word \<Rightarrow> 16 word \<Rightarrow>
    kcall" where [outside_defs_a]:
  "sys_can_calc_timing_data m p_dev p_res p_bitrate p_sample_pnt =
     syscall m ''can_calc_timing_data'' K_SYSCALL_CAN_CALC_TIMING_DATA RWord
       [P32 p_dev, P32 p_res, P32 p_bitrate, P16 p_sample_pnt]"

definition sys_can_set_timing_data :: "kmode \<Rightarrow> 32 word \<Rightarrow> 32 word \<Rightarrow> kcall" where
    [outside_defs_a]:
  "sys_can_set_timing_data m p_dev p_timing_data =
     syscall m ''can_set_timing_data'' K_SYSCALL_CAN_SET_TIMING_DATA RWord
       [P32 p_dev, P32 p_timing_data]"

definition sys_can_set_bitrate_data :: "kmode \<Rightarrow> 32 word \<Rightarrow> 32 word \<Rightarrow> kcall" where
    [outside_defs_a]:
  "sys_can_set_bitrate_data m p_dev p_bitrate_data =
     syscall m ''can_set_bitrate_data'' K_SYSCALL_CAN_SET_BITRATE_DATA RWord
       [P32 p_dev, P32 p_bitrate_data]"

definition sys_can_set_timing :: "kmode \<Rightarrow> 32 word \<Rightarrow> 32 word \<Rightarrow> kcall" where [outside_defs_a]:
  "sys_can_set_timing m p_dev p_timing =
     syscall m ''can_set_timing'' K_SYSCALL_CAN_SET_TIMING RWord
       [P32 p_dev, P32 p_timing]"

definition sys_can_get_capabilities :: "kmode \<Rightarrow> 32 word \<Rightarrow> 32 word \<Rightarrow> kcall" where
    [outside_defs_a]:
  "sys_can_get_capabilities m p_dev p_cap =
     syscall m ''can_get_capabilities'' K_SYSCALL_CAN_GET_CAPABILITIES RWord
       [P32 p_dev, P32 p_cap]"

definition sys_can_get_transceiver :: "kmode \<Rightarrow> 32 word \<Rightarrow> kcall" where [outside_defs_a]:
  "sys_can_get_transceiver m p_dev =
     syscall m ''can_get_transceiver'' K_SYSCALL_CAN_GET_TRANSCEIVER RWord
       [P32 p_dev]"

definition sys_can_start :: "kmode \<Rightarrow> 32 word \<Rightarrow> kcall" where [outside_defs_a]:
  "sys_can_start m p_dev =
     syscall m ''can_start'' K_SYSCALL_CAN_START RWord
       [P32 p_dev]"

definition sys_can_stop :: "kmode \<Rightarrow> 32 word \<Rightarrow> kcall" where [outside_defs_a]:
  "sys_can_stop m p_dev =
     syscall m ''can_stop'' K_SYSCALL_CAN_STOP RWord
       [P32 p_dev]"

definition sys_can_set_mode :: "kmode \<Rightarrow> 32 word \<Rightarrow> 32 word \<Rightarrow> kcall" where [outside_defs_a]:
  "sys_can_set_mode m p_dev p_mode =
     syscall m ''can_set_mode'' K_SYSCALL_CAN_SET_MODE RWord
       [P32 p_dev, P32 p_mode]"

definition sys_can_get_mode :: "kmode \<Rightarrow> 32 word \<Rightarrow> kcall" where [outside_defs_a]:
  "sys_can_get_mode m p_dev =
     syscall m ''can_get_mode'' K_SYSCALL_CAN_GET_MODE RWord
       [P32 p_dev]"

definition sys_can_set_bitrate :: "kmode \<Rightarrow> 32 word \<Rightarrow> 32 word \<Rightarrow> kcall" where [outside_defs_a]:
  "sys_can_set_bitrate m p_dev p_bitrate =
     syscall m ''can_set_bitrate'' K_SYSCALL_CAN_SET_BITRATE RWord
       [P32 p_dev, P32 p_bitrate]"

definition sys_can_send :: "kmode \<Rightarrow> 32 word \<Rightarrow> 32 word \<Rightarrow> 64 word \<Rightarrow> 32 word \<Rightarrow> 32 word \<Rightarrow> kcall"
    where [outside_defs_a]:
  "sys_can_send m p_dev p_frame p_timeout p_callback p_user_data =
     syscall m ''can_send'' K_SYSCALL_CAN_SEND RWord
       [P32 p_dev, P32 p_frame, P64 p_timeout, P32 p_callback, P32 p_user_data]"

definition sys_can_add_rx_filter_msgq :: "kmode \<Rightarrow> 32 word \<Rightarrow> 32 word \<Rightarrow> 32 word \<Rightarrow> kcall" where
    [outside_defs_a]:
  "sys_can_add_rx_filter_msgq m p_dev p_msgq p_filter =
     syscall m ''can_add_rx_filter_msgq'' K_SYSCALL_CAN_ADD_RX_FILTER_MSGQ RWord
       [P32 p_dev, P32 p_msgq, P32 p_filter]"

definition sys_can_remove_rx_filter :: "kmode \<Rightarrow> 32 word \<Rightarrow> 32 word \<Rightarrow> kcall" where
    [outside_defs_a]:
  "sys_can_remove_rx_filter m p_dev p_filter_id =
     syscall m ''can_remove_rx_filter'' K_SYSCALL_CAN_REMOVE_RX_FILTER RVoid
       [P32 p_dev, P32 p_filter_id]"

definition sys_can_get_max_filters :: "kmode \<Rightarrow> 32 word \<Rightarrow> 8 word \<Rightarrow> kcall" where
    [outside_defs_a]:
  "sys_can_get_max_filters m p_dev p_ide =
     syscall m ''can_get_max_filters'' K_SYSCALL_CAN_GET_MAX_FILTERS RWord
       [P32 p_dev, P8 p_ide]"

definition sys_can_get_state :: "kmode \<Rightarrow> 32 word \<Rightarrow> 32 word \<Rightarrow> 32 word \<Rightarrow> kcall" where
    [outside_defs_a]:
  "sys_can_get_state m p_dev p_state p_err_cnt =
     syscall m ''can_get_state'' K_SYSCALL_CAN_GET_STATE RWord
       [P32 p_dev, P32 p_state, P32 p_err_cnt]"

definition sys_can_recover :: "kmode \<Rightarrow> 32 word \<Rightarrow> 64 word \<Rightarrow> kcall" where [outside_defs_a]:
  "sys_can_recover m p_dev p_timeout =
     syscall m ''can_recover'' K_SYSCALL_CAN_RECOVER RWord
       [P32 p_dev, P64 p_timeout]"

definition sys_can_stats_get_bit_errors :: "kmode \<Rightarrow> 32 word \<Rightarrow> kcall" where [outside_defs_a]:
  "sys_can_stats_get_bit_errors m p_dev =
     syscall m ''can_stats_get_bit_errors'' K_SYSCALL_CAN_STATS_GET_BIT_ERRORS RWord
       [P32 p_dev]"

definition sys_can_stats_get_bit0_errors :: "kmode \<Rightarrow> 32 word \<Rightarrow> kcall" where [outside_defs_a]:
  "sys_can_stats_get_bit0_errors m p_dev =
     syscall m ''can_stats_get_bit0_errors'' K_SYSCALL_CAN_STATS_GET_BIT0_ERRORS RWord
       [P32 p_dev]"

definition sys_can_stats_get_bit1_errors :: "kmode \<Rightarrow> 32 word \<Rightarrow> kcall" where [outside_defs_a]:
  "sys_can_stats_get_bit1_errors m p_dev =
     syscall m ''can_stats_get_bit1_errors'' K_SYSCALL_CAN_STATS_GET_BIT1_ERRORS RWord
       [P32 p_dev]"

definition sys_can_stats_get_stuff_errors :: "kmode \<Rightarrow> 32 word \<Rightarrow> kcall" where [outside_defs_a]:
  "sys_can_stats_get_stuff_errors m p_dev =
     syscall m ''can_stats_get_stuff_errors'' K_SYSCALL_CAN_STATS_GET_STUFF_ERRORS RWord
       [P32 p_dev]"

definition sys_can_stats_get_crc_errors :: "kmode \<Rightarrow> 32 word \<Rightarrow> kcall" where [outside_defs_a]:
  "sys_can_stats_get_crc_errors m p_dev =
     syscall m ''can_stats_get_crc_errors'' K_SYSCALL_CAN_STATS_GET_CRC_ERRORS RWord
       [P32 p_dev]"

definition sys_can_stats_get_form_errors :: "kmode \<Rightarrow> 32 word \<Rightarrow> kcall" where [outside_defs_a]:
  "sys_can_stats_get_form_errors m p_dev =
     syscall m ''can_stats_get_form_errors'' K_SYSCALL_CAN_STATS_GET_FORM_ERRORS RWord
       [P32 p_dev]"

definition sys_can_stats_get_ack_errors :: "kmode \<Rightarrow> 32 word \<Rightarrow> kcall" where [outside_defs_a]:
  "sys_can_stats_get_ack_errors m p_dev =
     syscall m ''can_stats_get_ack_errors'' K_SYSCALL_CAN_STATS_GET_ACK_ERRORS RWord
       [P32 p_dev]"

definition sys_can_stats_get_rx_overruns :: "kmode \<Rightarrow> 32 word \<Rightarrow> kcall" where [outside_defs_a]:
  "sys_can_stats_get_rx_overruns m p_dev =
     syscall m ''can_stats_get_rx_overruns'' K_SYSCALL_CAN_STATS_GET_RX_OVERRUNS RWord
       [P32 p_dev]"

section \<open>\<^verbatim>\<open>charger.h\<close>\<close>

definition sys_charger_get_prop :: "kmode \<Rightarrow> 32 word \<Rightarrow> 16 word \<Rightarrow> 32 word \<Rightarrow> kcall" where
    [outside_defs_a]:
  "sys_charger_get_prop m p_dev p_prop p_val =
     syscall m ''charger_get_prop'' K_SYSCALL_CHARGER_GET_PROP RWord
       [P32 p_dev, P16 p_prop, P32 p_val]"

definition sys_charger_set_prop :: "kmode \<Rightarrow> 32 word \<Rightarrow> 16 word \<Rightarrow> 32 word \<Rightarrow> kcall" where
    [outside_defs_a]:
  "sys_charger_set_prop m p_dev p_prop p_val =
     syscall m ''charger_set_prop'' K_SYSCALL_CHARGER_SET_PROP RWord
       [P32 p_dev, P16 p_prop, P32 p_val]"

definition sys_charger_charge_enable :: "kmode \<Rightarrow> 32 word \<Rightarrow> 8 word \<Rightarrow> kcall" where
    [outside_defs_a]:
  "sys_charger_charge_enable m p_dev p_enable =
     syscall m ''charger_charge_enable'' K_SYSCALL_CHARGER_CHARGE_ENABLE RWord
       [P32 p_dev, P8 p_enable]"

section \<open>\<^verbatim>\<open>comparator.h\<close>\<close>

definition sys_comparator_get_output :: "kmode \<Rightarrow> 32 word \<Rightarrow> kcall" where [outside_defs_a]:
  "sys_comparator_get_output m p_dev =
     syscall m ''comparator_get_output'' K_SYSCALL_COMPARATOR_GET_OUTPUT RWord
       [P32 p_dev]"

definition sys_comparator_set_trigger :: "kmode \<Rightarrow> 32 word \<Rightarrow> 8 word \<Rightarrow> kcall" where
    [outside_defs_a]:
  "sys_comparator_set_trigger m p_dev p_trigger =
     syscall m ''comparator_set_trigger'' K_SYSCALL_COMPARATOR_SET_TRIGGER RWord
       [P32 p_dev, PEnum p_trigger]"

definition sys_comparator_trigger_is_pending :: "kmode \<Rightarrow> 32 word \<Rightarrow> kcall" where
    [outside_defs_a]:
  "sys_comparator_trigger_is_pending m p_dev =
     syscall m ''comparator_trigger_is_pending'' K_SYSCALL_COMPARATOR_TRIGGER_IS_PENDING RWord
       [P32 p_dev]"

section \<open>\<^verbatim>\<open>counter.h\<close>\<close>

definition sys_counter_is_counting_up :: "kmode \<Rightarrow> 32 word \<Rightarrow> kcall" where [outside_defs_a]:
  "sys_counter_is_counting_up m p_dev =
     syscall m ''counter_is_counting_up'' K_SYSCALL_COUNTER_IS_COUNTING_UP RBool
       [P32 p_dev]"

definition sys_counter_get_num_of_channels :: "kmode \<Rightarrow> 32 word \<Rightarrow> kcall" where [outside_defs_a]:
  "sys_counter_get_num_of_channels m p_dev =
     syscall m ''counter_get_num_of_channels'' K_SYSCALL_COUNTER_GET_NUM_OF_CHANNELS RByte
       [P32 p_dev]"

definition sys_counter_get_frequency :: "kmode \<Rightarrow> 32 word \<Rightarrow> kcall" where [outside_defs_a]:
  "sys_counter_get_frequency m p_dev =
     syscall m ''counter_get_frequency'' K_SYSCALL_COUNTER_GET_FREQUENCY RWord
       [P32 p_dev]"

definition sys_counter_us_to_ticks :: "kmode \<Rightarrow> 32 word \<Rightarrow> 64 word \<Rightarrow> kcall" where
    [outside_defs_a]:
  "sys_counter_us_to_ticks m p_dev p_us =
     syscall m ''counter_us_to_ticks'' K_SYSCALL_COUNTER_US_TO_TICKS RWord
       [P32 p_dev, P64 p_us]"

definition sys_counter_ticks_to_us :: "kmode \<Rightarrow> 32 word \<Rightarrow> 32 word \<Rightarrow> kcall" where
    [outside_defs_a]:
  "sys_counter_ticks_to_us m p_dev p_ticks =
     syscall m ''counter_ticks_to_us'' K_SYSCALL_COUNTER_TICKS_TO_US RWide
       [P32 p_dev, P32 p_ticks]"

definition sys_counter_get_max_top_value :: "kmode \<Rightarrow> 32 word \<Rightarrow> kcall" where [outside_defs_a]:
  "sys_counter_get_max_top_value m p_dev =
     syscall m ''counter_get_max_top_value'' K_SYSCALL_COUNTER_GET_MAX_TOP_VALUE RWord
       [P32 p_dev]"

definition sys_counter_start :: "kmode \<Rightarrow> 32 word \<Rightarrow> kcall" where [outside_defs_a]:
  "sys_counter_start m p_dev =
     syscall m ''counter_start'' K_SYSCALL_COUNTER_START RWord
       [P32 p_dev]"

definition sys_counter_stop :: "kmode \<Rightarrow> 32 word \<Rightarrow> kcall" where [outside_defs_a]:
  "sys_counter_stop m p_dev =
     syscall m ''counter_stop'' K_SYSCALL_COUNTER_STOP RWord
       [P32 p_dev]"

definition sys_counter_get_value :: "kmode \<Rightarrow> 32 word \<Rightarrow> 32 word \<Rightarrow> kcall" where [outside_defs_a]:
  "sys_counter_get_value m p_dev p_ticks =
     syscall m ''counter_get_value'' K_SYSCALL_COUNTER_GET_VALUE RWord
       [P32 p_dev, P32 p_ticks]"

definition sys_counter_get_value_64 :: "kmode \<Rightarrow> 32 word \<Rightarrow> 32 word \<Rightarrow> kcall" where
    [outside_defs_a]:
  "sys_counter_get_value_64 m p_dev p_ticks =
     syscall m ''counter_get_value_64'' K_SYSCALL_COUNTER_GET_VALUE_64 RWord
       [P32 p_dev, P32 p_ticks]"

definition sys_counter_reset :: "kmode \<Rightarrow> 32 word \<Rightarrow> kcall" where [outside_defs_a]:
  "sys_counter_reset m p_dev =
     syscall m ''counter_reset'' K_SYSCALL_COUNTER_RESET RWord
       [P32 p_dev]"

definition sys_counter_set_channel_alarm :: "kmode \<Rightarrow> 32 word \<Rightarrow> 8 word \<Rightarrow> 32 word \<Rightarrow> kcall" where
    [outside_defs_a]:
  "sys_counter_set_channel_alarm m p_dev p_chan_id p_alarm_cfg =
     syscall m ''counter_set_channel_alarm'' K_SYSCALL_COUNTER_SET_CHANNEL_ALARM RWord
       [P32 p_dev, P8 p_chan_id, P32 p_alarm_cfg]"

definition sys_counter_cancel_channel_alarm :: "kmode \<Rightarrow> 32 word \<Rightarrow> 8 word \<Rightarrow> kcall" where
    [outside_defs_a]:
  "sys_counter_cancel_channel_alarm m p_dev p_chan_id =
     syscall m ''counter_cancel_channel_alarm'' K_SYSCALL_COUNTER_CANCEL_CHANNEL_ALARM RWord
       [P32 p_dev, P8 p_chan_id]"

definition sys_counter_set_top_value :: "kmode \<Rightarrow> 32 word \<Rightarrow> 32 word \<Rightarrow> kcall" where
    [outside_defs_a]:
  "sys_counter_set_top_value m p_dev p_cfg =
     syscall m ''counter_set_top_value'' K_SYSCALL_COUNTER_SET_TOP_VALUE RWord
       [P32 p_dev, P32 p_cfg]"

definition sys_counter_get_pending_int :: "kmode \<Rightarrow> 32 word \<Rightarrow> kcall" where [outside_defs_a]:
  "sys_counter_get_pending_int m p_dev =
     syscall m ''counter_get_pending_int'' K_SYSCALL_COUNTER_GET_PENDING_INT RWord
       [P32 p_dev]"

definition sys_counter_get_top_value :: "kmode \<Rightarrow> 32 word \<Rightarrow> kcall" where [outside_defs_a]:
  "sys_counter_get_top_value m p_dev =
     syscall m ''counter_get_top_value'' K_SYSCALL_COUNTER_GET_TOP_VALUE RWord
       [P32 p_dev]"

definition sys_counter_set_guard_period :: "kmode \<Rightarrow> 32 word \<Rightarrow> 32 word \<Rightarrow> 32 word \<Rightarrow> kcall" where
    [outside_defs_a]:
  "sys_counter_set_guard_period m p_dev p_ticks p_flags =
     syscall m ''counter_set_guard_period'' K_SYSCALL_COUNTER_SET_GUARD_PERIOD RWord
       [P32 p_dev, P32 p_ticks, P32 p_flags]"

definition sys_counter_get_guard_period :: "kmode \<Rightarrow> 32 word \<Rightarrow> 32 word \<Rightarrow> kcall" where
    [outside_defs_a]:
  "sys_counter_get_guard_period m p_dev p_flags =
     syscall m ''counter_get_guard_period'' K_SYSCALL_COUNTER_GET_GUARD_PERIOD RWord
       [P32 p_dev, P32 p_flags]"

section \<open>\<^verbatim>\<open>dac.h\<close>\<close>

definition sys_dac_channel_setup :: "kmode \<Rightarrow> 32 word \<Rightarrow> 32 word \<Rightarrow> kcall" where [outside_defs_a]:
  "sys_dac_channel_setup m p_dev p_channel_cfg =
     syscall m ''dac_channel_setup'' K_SYSCALL_DAC_CHANNEL_SETUP RWord
       [P32 p_dev, P32 p_channel_cfg]"

definition sys_dac_write_value :: "kmode \<Rightarrow> 32 word \<Rightarrow> 8 word \<Rightarrow> 32 word \<Rightarrow> kcall" where
    [outside_defs_a]:
  "sys_dac_write_value m p_dev p_channel p_value =
     syscall m ''dac_write_value'' K_SYSCALL_DAC_WRITE_VALUE RWord
       [P32 p_dev, P8 p_channel, P32 p_value]"

section \<open>\<^verbatim>\<open>demand_paging.h\<close>\<close>

definition sys_k_mem_paging_stats_get :: "kmode \<Rightarrow> 32 word \<Rightarrow> kcall" where [outside_defs_a]:
  "sys_k_mem_paging_stats_get m p_stats =
     syscall m ''k_mem_paging_stats_get'' K_SYSCALL_K_MEM_PAGING_STATS_GET RVoid
       [P32 p_stats]"

definition sys_k_mem_paging_thread_stats_get :: "kmode \<Rightarrow> 32 word \<Rightarrow> 32 word \<Rightarrow> kcall" where
    [outside_defs_a]:
  "sys_k_mem_paging_thread_stats_get m p_thread p_stats =
     syscall m ''k_mem_paging_thread_stats_get'' K_SYSCALL_K_MEM_PAGING_THREAD_STATS_GET RVoid
       [P32 p_thread, P32 p_stats]"

definition sys_k_mem_paging_histogram_eviction_get :: "kmode \<Rightarrow> 32 word \<Rightarrow> kcall" where
    [outside_defs_a]:
  "sys_k_mem_paging_histogram_eviction_get m p_hist =
     syscall m ''k_mem_paging_histogram_eviction_get'' K_SYSCALL_K_MEM_PAGING_HISTOGRAM_EVICTION_GET RVoid
       [P32 p_hist]"

definition sys_k_mem_paging_histogram_backing_store_page_in_get :: "kmode \<Rightarrow> 32 word \<Rightarrow> kcall"
    where [outside_defs_a]:
  "sys_k_mem_paging_histogram_backing_store_page_in_get m p_hist =
     syscall m ''k_mem_paging_histogram_backing_store_page_in_get'' K_SYSCALL_K_MEM_PAGING_HISTOGRAM_BACKING_STORE_PAGE_IN_GET RVoid
       [P32 p_hist]"

definition sys_k_mem_paging_histogram_backing_store_page_out_get :: "kmode \<Rightarrow> 32 word \<Rightarrow> kcall"
    where [outside_defs_a]:
  "sys_k_mem_paging_histogram_backing_store_page_out_get m p_hist =
     syscall m ''k_mem_paging_histogram_backing_store_page_out_get'' K_SYSCALL_K_MEM_PAGING_HISTOGRAM_BACKING_STORE_PAGE_OUT_GET RVoid
       [P32 p_hist]"

section \<open>\<^verbatim>\<open>devmux.h\<close>\<close>

definition sys_devmux_select_get :: "kmode \<Rightarrow> 32 word \<Rightarrow> kcall" where [outside_defs_a]:
  "sys_devmux_select_get m p_dev =
     syscall m ''devmux_select_get'' K_SYSCALL_DEVMUX_SELECT_GET RWord
       [P32 p_dev]"

definition sys_devmux_select_set :: "kmode \<Rightarrow> 32 word \<Rightarrow> 32 word \<Rightarrow> kcall" where [outside_defs_a]:
  "sys_devmux_select_set m p_dev p_index =
     syscall m ''devmux_select_set'' K_SYSCALL_DEVMUX_SELECT_SET RWord
       [P32 p_dev, P32 p_index]"

section \<open>\<^verbatim>\<open>dma.h\<close>\<close>

definition sys_dma_start :: "kmode \<Rightarrow> 32 word \<Rightarrow> 32 word \<Rightarrow> kcall" where [outside_defs_a]:
  "sys_dma_start m p_dev p_channel =
     syscall m ''dma_start'' K_SYSCALL_DMA_START RWord
       [P32 p_dev, P32 p_channel]"

definition sys_dma_stop :: "kmode \<Rightarrow> 32 word \<Rightarrow> 32 word \<Rightarrow> kcall" where [outside_defs_a]:
  "sys_dma_stop m p_dev p_channel =
     syscall m ''dma_stop'' K_SYSCALL_DMA_STOP RWord
       [P32 p_dev, P32 p_channel]"

definition sys_dma_suspend :: "kmode \<Rightarrow> 32 word \<Rightarrow> 32 word \<Rightarrow> kcall" where [outside_defs_a]:
  "sys_dma_suspend m p_dev p_channel =
     syscall m ''dma_suspend'' K_SYSCALL_DMA_SUSPEND RWord
       [P32 p_dev, P32 p_channel]"

definition sys_dma_resume :: "kmode \<Rightarrow> 32 word \<Rightarrow> 32 word \<Rightarrow> kcall" where [outside_defs_a]:
  "sys_dma_resume m p_dev p_channel =
     syscall m ''dma_resume'' K_SYSCALL_DMA_RESUME RWord
       [P32 p_dev, P32 p_channel]"

definition sys_dma_request_channel :: "kmode \<Rightarrow> 32 word \<Rightarrow> 32 word \<Rightarrow> kcall" where
    [outside_defs_a]:
  "sys_dma_request_channel m p_dev p_filter_param =
     syscall m ''dma_request_channel'' K_SYSCALL_DMA_REQUEST_CHANNEL RWord
       [P32 p_dev, P32 p_filter_param]"

definition sys_dma_release_channel :: "kmode \<Rightarrow> 32 word \<Rightarrow> 32 word \<Rightarrow> kcall" where
    [outside_defs_a]:
  "sys_dma_release_channel m p_dev p_channel =
     syscall m ''dma_release_channel'' K_SYSCALL_DMA_RELEASE_CHANNEL RVoid
       [P32 p_dev, P32 p_channel]"

definition sys_dma_chan_filter :: "kmode \<Rightarrow> 32 word \<Rightarrow> 32 word \<Rightarrow> 32 word \<Rightarrow> kcall" where
    [outside_defs_a]:
  "sys_dma_chan_filter m p_dev p_channel p_filter_param =
     syscall m ''dma_chan_filter'' K_SYSCALL_DMA_CHAN_FILTER RWord
       [P32 p_dev, P32 p_channel, P32 p_filter_param]"

section \<open>\<^verbatim>\<open>eeprom.h\<close>\<close>

definition sys_eeprom_read :: "kmode \<Rightarrow> 32 word \<Rightarrow> 32 word \<Rightarrow> 32 word \<Rightarrow> 32 word \<Rightarrow> kcall" where
    [outside_defs_a]:
  "sys_eeprom_read m p_dev p_offset p_data p_len =
     syscall m ''eeprom_read'' K_SYSCALL_EEPROM_READ RWord
       [P32 p_dev, P32 p_offset, P32 p_data, P32 p_len]"

definition sys_eeprom_write :: "kmode \<Rightarrow> 32 word \<Rightarrow> 32 word \<Rightarrow> 32 word \<Rightarrow> 32 word \<Rightarrow> kcall" where
    [outside_defs_a]:
  "sys_eeprom_write m p_dev p_offset p_data p_len =
     syscall m ''eeprom_write'' K_SYSCALL_EEPROM_WRITE RWord
       [P32 p_dev, P32 p_offset, P32 p_data, P32 p_len]"

definition sys_eeprom_get_size :: "kmode \<Rightarrow> 32 word \<Rightarrow> kcall" where [outside_defs_a]:
  "sys_eeprom_get_size m p_dev =
     syscall m ''eeprom_get_size'' K_SYSCALL_EEPROM_GET_SIZE RWord
       [P32 p_dev]"

section \<open>\<^verbatim>\<open>emul_fuel_gauge.h\<close>\<close>

definition sys_emul_fuel_gauge_set_battery_charging :: "kmode \<Rightarrow> 32 word \<Rightarrow> 32 word \<Rightarrow> 32 word \<Rightarrow>
    kcall" where [outside_defs_a]:
  "sys_emul_fuel_gauge_set_battery_charging m p_target p_uV p_uA =
     syscall m ''emul_fuel_gauge_set_battery_charging'' K_SYSCALL_EMUL_FUEL_GAUGE_SET_BATTERY_CHARGING RWord
       [P32 p_target, P32 p_uV, P32 p_uA]"

definition sys_emul_fuel_gauge_is_battery_cutoff :: "kmode \<Rightarrow> 32 word \<Rightarrow> 32 word \<Rightarrow> kcall" where
    [outside_defs_a]:
  "sys_emul_fuel_gauge_is_battery_cutoff m p_target p_cutoff =
     syscall m ''emul_fuel_gauge_is_battery_cutoff'' K_SYSCALL_EMUL_FUEL_GAUGE_IS_BATTERY_CUTOFF RWord
       [P32 p_target, P32 p_cutoff]"

section \<open>\<^verbatim>\<open>errno_private.h\<close>\<close>

definition sys_z_errno :: "kmode \<Rightarrow> kcall" where [outside_defs_a]:
  "sys_z_errno m =
     syscall m ''z_errno'' K_SYSCALL_Z_ERRNO RWord
       []"

section \<open>\<^verbatim>\<open>error.h\<close>\<close>

definition sys_user_fault :: "kmode \<Rightarrow> 32 word \<Rightarrow> kcall" where [outside_defs_a]:
  "sys_user_fault m p_reason =
     syscall m ''user_fault'' K_SYSCALL_USER_FAULT RVoid
       [P32 p_reason]"

section \<open>\<^verbatim>\<open>espi.h\<close>\<close>

definition sys_espi_config :: "kmode \<Rightarrow> 32 word \<Rightarrow> 32 word \<Rightarrow> kcall" where [outside_defs_a]:
  "sys_espi_config m p_dev p_cfg =
     syscall m ''espi_config'' K_SYSCALL_ESPI_CONFIG RWord
       [P32 p_dev, P32 p_cfg]"

definition sys_espi_get_channel_status :: "kmode \<Rightarrow> 32 word \<Rightarrow> 8 word \<Rightarrow> kcall" where
    [outside_defs_a]:
  "sys_espi_get_channel_status m p_dev p_ch =
     syscall m ''espi_get_channel_status'' K_SYSCALL_ESPI_GET_CHANNEL_STATUS RBool
       [P32 p_dev, PEnum p_ch]"

definition sys_espi_read_request :: "kmode \<Rightarrow> 32 word \<Rightarrow> 32 word \<Rightarrow> kcall" where [outside_defs_a]:
  "sys_espi_read_request m p_dev p_req =
     syscall m ''espi_read_request'' K_SYSCALL_ESPI_READ_REQUEST RWord
       [P32 p_dev, P32 p_req]"

definition sys_espi_write_request :: "kmode \<Rightarrow> 32 word \<Rightarrow> 32 word \<Rightarrow> kcall" where
    [outside_defs_a]:
  "sys_espi_write_request m p_dev p_req =
     syscall m ''espi_write_request'' K_SYSCALL_ESPI_WRITE_REQUEST RWord
       [P32 p_dev, P32 p_req]"

definition sys_espi_read_lpc_request :: "kmode \<Rightarrow> 32 word \<Rightarrow> 8 word \<Rightarrow> 32 word \<Rightarrow> kcall" where
    [outside_defs_a]:
  "sys_espi_read_lpc_request m p_dev p_op p_data =
     syscall m ''espi_read_lpc_request'' K_SYSCALL_ESPI_READ_LPC_REQUEST RWord
       [P32 p_dev, PEnum p_op, P32 p_data]"

definition sys_espi_write_lpc_request :: "kmode \<Rightarrow> 32 word \<Rightarrow> 8 word \<Rightarrow> 32 word \<Rightarrow> kcall" where
    [outside_defs_a]:
  "sys_espi_write_lpc_request m p_dev p_op p_data =
     syscall m ''espi_write_lpc_request'' K_SYSCALL_ESPI_WRITE_LPC_REQUEST RWord
       [P32 p_dev, PEnum p_op, P32 p_data]"

definition sys_espi_send_vwire :: "kmode \<Rightarrow> 32 word \<Rightarrow> 8 word \<Rightarrow> 8 word \<Rightarrow> kcall" where
    [outside_defs_a]:
  "sys_espi_send_vwire m p_dev p_signal p_level =
     syscall m ''espi_send_vwire'' K_SYSCALL_ESPI_SEND_VWIRE RWord
       [P32 p_dev, PEnum p_signal, P8 p_level]"

definition sys_espi_receive_vwire :: "kmode \<Rightarrow> 32 word \<Rightarrow> 8 word \<Rightarrow> 32 word \<Rightarrow> kcall" where
    [outside_defs_a]:
  "sys_espi_receive_vwire m p_dev p_signal p_level =
     syscall m ''espi_receive_vwire'' K_SYSCALL_ESPI_RECEIVE_VWIRE RWord
       [P32 p_dev, PEnum p_signal, P32 p_level]"

definition sys_espi_send_oob :: "kmode \<Rightarrow> 32 word \<Rightarrow> 32 word \<Rightarrow> kcall" where [outside_defs_a]:
  "sys_espi_send_oob m p_dev p_pckt =
     syscall m ''espi_send_oob'' K_SYSCALL_ESPI_SEND_OOB RWord
       [P32 p_dev, P32 p_pckt]"

definition sys_espi_receive_oob :: "kmode \<Rightarrow> 32 word \<Rightarrow> 32 word \<Rightarrow> kcall" where [outside_defs_a]:
  "sys_espi_receive_oob m p_dev p_pckt =
     syscall m ''espi_receive_oob'' K_SYSCALL_ESPI_RECEIVE_OOB RWord
       [P32 p_dev, P32 p_pckt]"

definition sys_espi_read_flash :: "kmode \<Rightarrow> 32 word \<Rightarrow> 32 word \<Rightarrow> kcall" where [outside_defs_a]:
  "sys_espi_read_flash m p_dev p_pckt =
     syscall m ''espi_read_flash'' K_SYSCALL_ESPI_READ_FLASH RWord
       [P32 p_dev, P32 p_pckt]"

definition sys_espi_write_flash :: "kmode \<Rightarrow> 32 word \<Rightarrow> 32 word \<Rightarrow> kcall" where [outside_defs_a]:
  "sys_espi_write_flash m p_dev p_pckt =
     syscall m ''espi_write_flash'' K_SYSCALL_ESPI_WRITE_FLASH RWord
       [P32 p_dev, P32 p_pckt]"

definition sys_espi_flash_erase :: "kmode \<Rightarrow> 32 word \<Rightarrow> 32 word \<Rightarrow> kcall" where [outside_defs_a]:
  "sys_espi_flash_erase m p_dev p_pckt =
     syscall m ''espi_flash_erase'' K_SYSCALL_ESPI_FLASH_ERASE RWord
       [P32 p_dev, P32 p_pckt]"

section \<open>\<^verbatim>\<open>espi_saf.h\<close>\<close>

definition sys_espi_saf_config :: "kmode \<Rightarrow> 32 word \<Rightarrow> 32 word \<Rightarrow> kcall" where [outside_defs_a]:
  "sys_espi_saf_config m p_dev p_cfg =
     syscall m ''espi_saf_config'' K_SYSCALL_ESPI_SAF_CONFIG RWord
       [P32 p_dev, P32 p_cfg]"

definition sys_espi_saf_set_protection_regions :: "kmode \<Rightarrow> 32 word \<Rightarrow> 32 word \<Rightarrow> kcall" where
    [outside_defs_a]:
  "sys_espi_saf_set_protection_regions m p_dev p_pr =
     syscall m ''espi_saf_set_protection_regions'' K_SYSCALL_ESPI_SAF_SET_PROTECTION_REGIONS RWord
       [P32 p_dev, P32 p_pr]"

definition sys_espi_saf_activate :: "kmode \<Rightarrow> 32 word \<Rightarrow> kcall" where [outside_defs_a]:
  "sys_espi_saf_activate m p_dev =
     syscall m ''espi_saf_activate'' K_SYSCALL_ESPI_SAF_ACTIVATE RWord
       [P32 p_dev]"

definition sys_espi_saf_get_channel_status :: "kmode \<Rightarrow> 32 word \<Rightarrow> kcall" where [outside_defs_a]:
  "sys_espi_saf_get_channel_status m p_dev =
     syscall m ''espi_saf_get_channel_status'' K_SYSCALL_ESPI_SAF_GET_CHANNEL_STATUS RBool
       [P32 p_dev]"

definition sys_espi_saf_flash_read :: "kmode \<Rightarrow> 32 word \<Rightarrow> 32 word \<Rightarrow> kcall" where
    [outside_defs_a]:
  "sys_espi_saf_flash_read m p_dev p_pckt =
     syscall m ''espi_saf_flash_read'' K_SYSCALL_ESPI_SAF_FLASH_READ RWord
       [P32 p_dev, P32 p_pckt]"

definition sys_espi_saf_flash_write :: "kmode \<Rightarrow> 32 word \<Rightarrow> 32 word \<Rightarrow> kcall" where
    [outside_defs_a]:
  "sys_espi_saf_flash_write m p_dev p_pckt =
     syscall m ''espi_saf_flash_write'' K_SYSCALL_ESPI_SAF_FLASH_WRITE RWord
       [P32 p_dev, P32 p_pckt]"

definition sys_espi_saf_flash_erase :: "kmode \<Rightarrow> 32 word \<Rightarrow> 32 word \<Rightarrow> kcall" where
    [outside_defs_a]:
  "sys_espi_saf_flash_erase m p_dev p_pckt =
     syscall m ''espi_saf_flash_erase'' K_SYSCALL_ESPI_SAF_FLASH_ERASE RWord
       [P32 p_dev, P32 p_pckt]"

definition sys_espi_saf_flash_unsuccess :: "kmode \<Rightarrow> 32 word \<Rightarrow> 32 word \<Rightarrow> kcall" where
    [outside_defs_a]:
  "sys_espi_saf_flash_unsuccess m p_dev p_pckt =
     syscall m ''espi_saf_flash_unsuccess'' K_SYSCALL_ESPI_SAF_FLASH_UNSUCCESS RWord
       [P32 p_dev, P32 p_pckt]"

section \<open>\<^verbatim>\<open>flash.h\<close>\<close>

definition sys_flash_read :: "kmode \<Rightarrow> 32 word \<Rightarrow> 32 word \<Rightarrow> 32 word \<Rightarrow> 32 word \<Rightarrow> kcall" where
    [outside_defs_a]:
  "sys_flash_read m p_dev p_offset p_data p_len =
     syscall m ''flash_read'' K_SYSCALL_FLASH_READ RWord
       [P32 p_dev, P32 p_offset, P32 p_data, P32 p_len]"

definition sys_flash_write :: "kmode \<Rightarrow> 32 word \<Rightarrow> 32 word \<Rightarrow> 32 word \<Rightarrow> 32 word \<Rightarrow> kcall" where
    [outside_defs_a]:
  "sys_flash_write m p_dev p_offset p_data p_len =
     syscall m ''flash_write'' K_SYSCALL_FLASH_WRITE RWord
       [P32 p_dev, P32 p_offset, P32 p_data, P32 p_len]"

definition sys_flash_erase :: "kmode \<Rightarrow> 32 word \<Rightarrow> 32 word \<Rightarrow> 32 word \<Rightarrow> kcall" where
    [outside_defs_a]:
  "sys_flash_erase m p_dev p_offset p_size =
     syscall m ''flash_erase'' K_SYSCALL_FLASH_ERASE RWord
       [P32 p_dev, P32 p_offset, P32 p_size]"

definition sys_flash_get_size :: "kmode \<Rightarrow> 32 word \<Rightarrow> 32 word \<Rightarrow> kcall" where [outside_defs_a]:
  "sys_flash_get_size m p_dev p_size =
     syscall m ''flash_get_size'' K_SYSCALL_FLASH_GET_SIZE RWord
       [P32 p_dev, P32 p_size]"

definition sys_flash_fill :: "kmode \<Rightarrow> 32 word \<Rightarrow> 8 word \<Rightarrow> 32 word \<Rightarrow> 32 word \<Rightarrow> kcall" where
    [outside_defs_a]:
  "sys_flash_fill m p_dev p_val p_offset p_size =
     syscall m ''flash_fill'' K_SYSCALL_FLASH_FILL RWord
       [P32 p_dev, P8 p_val, P32 p_offset, P32 p_size]"

definition sys_flash_flatten :: "kmode \<Rightarrow> 32 word \<Rightarrow> 32 word \<Rightarrow> 32 word \<Rightarrow> kcall" where
    [outside_defs_a]:
  "sys_flash_flatten m p_dev p_offset p_size =
     syscall m ''flash_flatten'' K_SYSCALL_FLASH_FLATTEN RWord
       [P32 p_dev, P32 p_offset, P32 p_size]"

definition sys_flash_get_page_info_by_offs :: "kmode \<Rightarrow> 32 word \<Rightarrow> 32 word \<Rightarrow> 32 word \<Rightarrow> kcall"
    where [outside_defs_a]:
  "sys_flash_get_page_info_by_offs m p_dev p_offset p_info =
     syscall m ''flash_get_page_info_by_offs'' K_SYSCALL_FLASH_GET_PAGE_INFO_BY_OFFS RWord
       [P32 p_dev, P32 p_offset, P32 p_info]"

definition sys_flash_get_page_info_by_idx :: "kmode \<Rightarrow> 32 word \<Rightarrow> 32 word \<Rightarrow> 32 word \<Rightarrow> kcall"
    where [outside_defs_a]:
  "sys_flash_get_page_info_by_idx m p_dev p_page_index p_info =
     syscall m ''flash_get_page_info_by_idx'' K_SYSCALL_FLASH_GET_PAGE_INFO_BY_IDX RWord
       [P32 p_dev, P32 p_page_index, P32 p_info]"

definition sys_flash_get_page_count :: "kmode \<Rightarrow> 32 word \<Rightarrow> kcall" where [outside_defs_a]:
  "sys_flash_get_page_count m p_dev =
     syscall m ''flash_get_page_count'' K_SYSCALL_FLASH_GET_PAGE_COUNT RWord
       [P32 p_dev]"

definition sys_flash_sfdp_read :: "kmode \<Rightarrow> 32 word \<Rightarrow> 32 word \<Rightarrow> 32 word \<Rightarrow> 32 word \<Rightarrow> kcall"
    where [outside_defs_a]:
  "sys_flash_sfdp_read m p_dev p_offset p_data p_len =
     syscall m ''flash_sfdp_read'' K_SYSCALL_FLASH_SFDP_READ RWord
       [P32 p_dev, P32 p_offset, P32 p_data, P32 p_len]"

definition sys_flash_read_jedec_id :: "kmode \<Rightarrow> 32 word \<Rightarrow> 32 word \<Rightarrow> kcall" where
    [outside_defs_a]:
  "sys_flash_read_jedec_id m p_dev p_id =
     syscall m ''flash_read_jedec_id'' K_SYSCALL_FLASH_READ_JEDEC_ID RWord
       [P32 p_dev, P32 p_id]"

definition sys_flash_get_write_block_size :: "kmode \<Rightarrow> 32 word \<Rightarrow> kcall" where [outside_defs_a]:
  "sys_flash_get_write_block_size m p_dev =
     syscall m ''flash_get_write_block_size'' K_SYSCALL_FLASH_GET_WRITE_BLOCK_SIZE RWord
       [P32 p_dev]"

definition sys_flash_get_parameters :: "kmode \<Rightarrow> 32 word \<Rightarrow> kcall" where [outside_defs_a]:
  "sys_flash_get_parameters m p_dev =
     syscall m ''flash_get_parameters'' K_SYSCALL_FLASH_GET_PARAMETERS RWord
       [P32 p_dev]"

definition sys_flash_ex_op :: "kmode \<Rightarrow> 32 word \<Rightarrow> 16 word \<Rightarrow> 32 word \<Rightarrow> 32 word \<Rightarrow> kcall" where
    [outside_defs_a]:
  "sys_flash_ex_op m p_dev p_code p_in p_out =
     syscall m ''flash_ex_op'' K_SYSCALL_FLASH_EX_OP RWord
       [P32 p_dev, P16 p_code, P32 p_in, P32 p_out]"

definition sys_flash_copy :: "kmode \<Rightarrow> 32 word \<Rightarrow> 32 word \<Rightarrow> 32 word \<Rightarrow> 32 word \<Rightarrow> 32 word \<Rightarrow>
    32 word \<Rightarrow> 32 word \<Rightarrow> kcall" where [outside_defs_a]:
  "sys_flash_copy m p_src_dev p_src_offset p_dst_dev p_dst_offset p_size p_buf p_buf_size =
     syscall m ''flash_copy'' K_SYSCALL_FLASH_COPY RWord
       [P32 p_src_dev, P32 p_src_offset, P32 p_dst_dev, P32 p_dst_offset, P32 p_size, P32 p_buf,
        P32 p_buf_size]"

section \<open>\<^verbatim>\<open>flash_simulator.h\<close>\<close>

definition sys_flash_simulator_get_memory :: "kmode \<Rightarrow> 32 word \<Rightarrow> 32 word \<Rightarrow> kcall" where
    [outside_defs_a]:
  "sys_flash_simulator_get_memory m p_dev p_mock_size =
     syscall m ''flash_simulator_get_memory'' K_SYSCALL_FLASH_SIMULATOR_GET_MEMORY RWord
       [P32 p_dev, P32 p_mock_size]"

section \<open>\<^verbatim>\<open>fuel_gauge.h\<close>\<close>

definition sys_fuel_gauge_get_prop :: "kmode \<Rightarrow> 32 word \<Rightarrow> 16 word \<Rightarrow> 32 word \<Rightarrow> kcall" where
    [outside_defs_a]:
  "sys_fuel_gauge_get_prop m p_dev p_prop p_val =
     syscall m ''fuel_gauge_get_prop'' K_SYSCALL_FUEL_GAUGE_GET_PROP RWord
       [P32 p_dev, P16 p_prop, P32 p_val]"

definition sys_fuel_gauge_get_props :: "kmode \<Rightarrow> 32 word \<Rightarrow> 32 word \<Rightarrow> 32 word \<Rightarrow> 32 word \<Rightarrow>
    kcall" where [outside_defs_a]:
  "sys_fuel_gauge_get_props m p_dev p_props p_vals p_len =
     syscall m ''fuel_gauge_get_props'' K_SYSCALL_FUEL_GAUGE_GET_PROPS RWord
       [P32 p_dev, P32 p_props, P32 p_vals, P32 p_len]"

definition sys_fuel_gauge_set_prop :: "kmode \<Rightarrow> 32 word \<Rightarrow> 16 word \<Rightarrow> 32 word \<Rightarrow> kcall" where
    [outside_defs_a]:
  "sys_fuel_gauge_set_prop m p_dev p_prop p_val =
     syscall m ''fuel_gauge_set_prop'' K_SYSCALL_FUEL_GAUGE_SET_PROP RWord
       [P32 p_dev, P16 p_prop, P32 p_val]"

definition sys_fuel_gauge_set_props :: "kmode \<Rightarrow> 32 word \<Rightarrow> 32 word \<Rightarrow> 32 word \<Rightarrow> 32 word \<Rightarrow>
    kcall" where [outside_defs_a]:
  "sys_fuel_gauge_set_props m p_dev p_props p_vals p_len =
     syscall m ''fuel_gauge_set_props'' K_SYSCALL_FUEL_GAUGE_SET_PROPS RWord
       [P32 p_dev, P32 p_props, P32 p_vals, P32 p_len]"

definition sys_fuel_gauge_get_buffer_prop :: "kmode \<Rightarrow> 32 word \<Rightarrow> 16 word \<Rightarrow> 32 word \<Rightarrow> 32 word \<Rightarrow>
    kcall" where [outside_defs_a]:
  "sys_fuel_gauge_get_buffer_prop m p_dev p_prop_type p_dst p_dst_len =
     syscall m ''fuel_gauge_get_buffer_prop'' K_SYSCALL_FUEL_GAUGE_GET_BUFFER_PROP RWord
       [P32 p_dev, P16 p_prop_type, P32 p_dst, P32 p_dst_len]"

definition sys_fuel_gauge_battery_cutoff :: "kmode \<Rightarrow> 32 word \<Rightarrow> kcall" where [outside_defs_a]:
  "sys_fuel_gauge_battery_cutoff m p_dev =
     syscall m ''fuel_gauge_battery_cutoff'' K_SYSCALL_FUEL_GAUGE_BATTERY_CUTOFF RWord
       [P32 p_dev]"

section \<open>\<^verbatim>\<open>gnss.h\<close>\<close>

definition sys_gnss_set_fix_rate :: "kmode \<Rightarrow> 32 word \<Rightarrow> 32 word \<Rightarrow> kcall" where [outside_defs_a]:
  "sys_gnss_set_fix_rate m p_dev p_fix_interval_ms =
     syscall m ''gnss_set_fix_rate'' K_SYSCALL_GNSS_SET_FIX_RATE RWord
       [P32 p_dev, P32 p_fix_interval_ms]"

definition sys_gnss_get_fix_rate :: "kmode \<Rightarrow> 32 word \<Rightarrow> 32 word \<Rightarrow> kcall" where [outside_defs_a]:
  "sys_gnss_get_fix_rate m p_dev p_fix_interval_ms =
     syscall m ''gnss_get_fix_rate'' K_SYSCALL_GNSS_GET_FIX_RATE RWord
       [P32 p_dev, P32 p_fix_interval_ms]"

definition sys_gnss_set_navigation_mode :: "kmode \<Rightarrow> 32 word \<Rightarrow> 8 word \<Rightarrow> kcall" where
    [outside_defs_a]:
  "sys_gnss_set_navigation_mode m p_dev p_mode =
     syscall m ''gnss_set_navigation_mode'' K_SYSCALL_GNSS_SET_NAVIGATION_MODE RWord
       [P32 p_dev, PEnum p_mode]"

definition sys_gnss_get_navigation_mode :: "kmode \<Rightarrow> 32 word \<Rightarrow> 32 word \<Rightarrow> kcall" where
    [outside_defs_a]:
  "sys_gnss_get_navigation_mode m p_dev p_mode =
     syscall m ''gnss_get_navigation_mode'' K_SYSCALL_GNSS_GET_NAVIGATION_MODE RWord
       [P32 p_dev, P32 p_mode]"

definition sys_gnss_set_enabled_systems :: "kmode \<Rightarrow> 32 word \<Rightarrow> 32 word \<Rightarrow> kcall" where
    [outside_defs_a]:
  "sys_gnss_set_enabled_systems m p_dev p_systems =
     syscall m ''gnss_set_enabled_systems'' K_SYSCALL_GNSS_SET_ENABLED_SYSTEMS RWord
       [P32 p_dev, P32 p_systems]"

definition sys_gnss_get_enabled_systems :: "kmode \<Rightarrow> 32 word \<Rightarrow> 32 word \<Rightarrow> kcall" where
    [outside_defs_a]:
  "sys_gnss_get_enabled_systems m p_dev p_systems =
     syscall m ''gnss_get_enabled_systems'' K_SYSCALL_GNSS_GET_ENABLED_SYSTEMS RWord
       [P32 p_dev, P32 p_systems]"

definition sys_gnss_get_supported_systems :: "kmode \<Rightarrow> 32 word \<Rightarrow> 32 word \<Rightarrow> kcall" where
    [outside_defs_a]:
  "sys_gnss_get_supported_systems m p_dev p_systems =
     syscall m ''gnss_get_supported_systems'' K_SYSCALL_GNSS_GET_SUPPORTED_SYSTEMS RWord
       [P32 p_dev, P32 p_systems]"

definition sys_gnss_get_latest_timepulse :: "kmode \<Rightarrow> 32 word \<Rightarrow> 32 word \<Rightarrow> kcall" where
    [outside_defs_a]:
  "sys_gnss_get_latest_timepulse m p_dev p_timestamp =
     syscall m ''gnss_get_latest_timepulse'' K_SYSCALL_GNSS_GET_LATEST_TIMEPULSE RWord
       [P32 p_dev, P32 p_timestamp]"

section \<open>\<^verbatim>\<open>haptics.h\<close>\<close>

definition sys_haptics_start_output :: "kmode \<Rightarrow> 32 word \<Rightarrow> kcall" where [outside_defs_a]:
  "sys_haptics_start_output m p_dev =
     syscall m ''haptics_start_output'' K_SYSCALL_HAPTICS_START_OUTPUT RWord
       [P32 p_dev]"

definition sys_haptics_stop_output :: "kmode \<Rightarrow> 32 word \<Rightarrow> kcall" where [outside_defs_a]:
  "sys_haptics_stop_output m p_dev =
     syscall m ''haptics_stop_output'' K_SYSCALL_HAPTICS_STOP_OUTPUT RWord
       [P32 p_dev]"

section \<open>\<^verbatim>\<open>hwspinlock.h\<close>\<close>

definition sys_hwspinlock_trylock :: "kmode \<Rightarrow> 32 word \<Rightarrow> 32 word \<Rightarrow> kcall" where
    [outside_defs_a]:
  "sys_hwspinlock_trylock m p_dev p_id =
     syscall m ''hwspinlock_trylock'' K_SYSCALL_HWSPINLOCK_TRYLOCK RWord
       [P32 p_dev, P32 p_id]"

definition sys_hwspinlock_lock :: "kmode \<Rightarrow> 32 word \<Rightarrow> 32 word \<Rightarrow> kcall" where [outside_defs_a]:
  "sys_hwspinlock_lock m p_dev p_id =
     syscall m ''hwspinlock_lock'' K_SYSCALL_HWSPINLOCK_LOCK RVoid
       [P32 p_dev, P32 p_id]"

definition sys_hwspinlock_unlock :: "kmode \<Rightarrow> 32 word \<Rightarrow> 32 word \<Rightarrow> kcall" where [outside_defs_a]:
  "sys_hwspinlock_unlock m p_dev p_id =
     syscall m ''hwspinlock_unlock'' K_SYSCALL_HWSPINLOCK_UNLOCK RVoid
       [P32 p_dev, P32 p_id]"

definition sys_hwspinlock_get_max_id :: "kmode \<Rightarrow> 32 word \<Rightarrow> kcall" where [outside_defs_a]:
  "sys_hwspinlock_get_max_id m p_dev =
     syscall m ''hwspinlock_get_max_id'' K_SYSCALL_HWSPINLOCK_GET_MAX_ID RWord
       [P32 p_dev]"

section \<open>\<^verbatim>\<open>i2c.h\<close>\<close>

definition sys_i2c_configure :: "kmode \<Rightarrow> 32 word \<Rightarrow> 32 word \<Rightarrow> kcall" where [outside_defs_a]:
  "sys_i2c_configure m p_dev p_dev_config =
     syscall m ''i2c_configure'' K_SYSCALL_I2C_CONFIGURE RWord
       [P32 p_dev, P32 p_dev_config]"

definition sys_i2c_get_config :: "kmode \<Rightarrow> 32 word \<Rightarrow> 32 word \<Rightarrow> kcall" where [outside_defs_a]:
  "sys_i2c_get_config m p_dev p_dev_config =
     syscall m ''i2c_get_config'' K_SYSCALL_I2C_GET_CONFIG RWord
       [P32 p_dev, P32 p_dev_config]"

definition sys_i2c_transfer :: "kmode \<Rightarrow> 32 word \<Rightarrow> 32 word \<Rightarrow> 8 word \<Rightarrow> 16 word \<Rightarrow> kcall" where
    [outside_defs_a]:
  "sys_i2c_transfer m p_dev p_msgs p_num_msgs p_addr =
     syscall m ''i2c_transfer'' K_SYSCALL_I2C_TRANSFER RWord
       [P32 p_dev, P32 p_msgs, P8 p_num_msgs, P16 p_addr]"

definition sys_i2c_recover_bus :: "kmode \<Rightarrow> 32 word \<Rightarrow> kcall" where [outside_defs_a]:
  "sys_i2c_recover_bus m p_dev =
     syscall m ''i2c_recover_bus'' K_SYSCALL_I2C_RECOVER_BUS RWord
       [P32 p_dev]"

definition sys_i2c_target_driver_register :: "kmode \<Rightarrow> 32 word \<Rightarrow> kcall" where [outside_defs_a]:
  "sys_i2c_target_driver_register m p_dev =
     syscall m ''i2c_target_driver_register'' K_SYSCALL_I2C_TARGET_DRIVER_REGISTER RWord
       [P32 p_dev]"

definition sys_i2c_target_driver_unregister :: "kmode \<Rightarrow> 32 word \<Rightarrow> kcall" where [outside_defs_a]:
  "sys_i2c_target_driver_unregister m p_dev =
     syscall m ''i2c_target_driver_unregister'' K_SYSCALL_I2C_TARGET_DRIVER_UNREGISTER RWord
       [P32 p_dev]"

section \<open>\<^verbatim>\<open>i2s.h\<close>\<close>

definition sys_i2s_configure :: "kmode \<Rightarrow> 32 word \<Rightarrow> 8 word \<Rightarrow> 32 word \<Rightarrow> kcall" where
    [outside_defs_a]:
  "sys_i2s_configure m p_dev p_dir p_cfg =
     syscall m ''i2s_configure'' K_SYSCALL_I2S_CONFIGURE RWord
       [P32 p_dev, PEnum p_dir, P32 p_cfg]"

definition sys_i2s_buf_read :: "kmode \<Rightarrow> 32 word \<Rightarrow> 32 word \<Rightarrow> 32 word \<Rightarrow> kcall" where
    [outside_defs_a]:
  "sys_i2s_buf_read m p_dev p_buf p_size =
     syscall m ''i2s_buf_read'' K_SYSCALL_I2S_BUF_READ RWord
       [P32 p_dev, P32 p_buf, P32 p_size]"

definition sys_i2s_buf_write :: "kmode \<Rightarrow> 32 word \<Rightarrow> 32 word \<Rightarrow> 32 word \<Rightarrow> kcall" where
    [outside_defs_a]:
  "sys_i2s_buf_write m p_dev p_buf p_size =
     syscall m ''i2s_buf_write'' K_SYSCALL_I2S_BUF_WRITE RWord
       [P32 p_dev, P32 p_buf, P32 p_size]"

definition sys_i2s_trigger :: "kmode \<Rightarrow> 32 word \<Rightarrow> 8 word \<Rightarrow> 8 word \<Rightarrow> kcall" where
    [outside_defs_a]:
  "sys_i2s_trigger m p_dev p_dir p_cmd =
     syscall m ''i2s_trigger'' K_SYSCALL_I2S_TRIGGER RWord
       [P32 p_dev, PEnum p_dir, PEnum p_cmd]"

end
