(* ===== verification/Syscall_Outside_B.thy ===== *)
theory Syscall_Outside_B
  imports Syscall Syscall_Outside_Numbers
begin

text \<open>
  The stubs of the system calls that are not used in the image, from \<^verbatim>\<open>i3c.h\<close> to \<^verbatim>\<open>watchdog.h\<close> in the
  order of the headers under \<^verbatim>\<open>syscalls/\<close>. They have the form of the stubs of the image. The widths
  of the parameters are those of their types in Zephyr's headers.
\<close>

named_theorems outside_defs_b \<open>the definitions of these stubs\<close>

section \<open>\<^verbatim>\<open>i3c.h\<close>\<close>

definition sys_i3c_do_ccc :: "kmode \<Rightarrow> 32 word \<Rightarrow> 32 word \<Rightarrow> kcall" where [outside_defs_b]:
  "sys_i3c_do_ccc m p_dev p_payload =
     syscall m ''i3c_do_ccc'' K_SYSCALL_I3C_DO_CCC RWord
       [P32 p_dev, P32 p_payload]"

definition sys_i3c_transfer :: "kmode \<Rightarrow> 32 word \<Rightarrow> 32 word \<Rightarrow> 8 word \<Rightarrow> kcall" where
    [outside_defs_b]:
  "sys_i3c_transfer m p_target p_msgs p_num_msgs =
     syscall m ''i3c_transfer'' K_SYSCALL_I3C_TRANSFER RWord
       [P32 p_target, P32 p_msgs, P8 p_num_msgs]"

section \<open>\<^verbatim>\<open>ipm.h\<close>\<close>

definition sys_ipm_send :: "kmode \<Rightarrow> 32 word \<Rightarrow> 32 word \<Rightarrow> 32 word \<Rightarrow> 32 word \<Rightarrow> 32 word \<Rightarrow> kcall"
    where [outside_defs_b]:
  "sys_ipm_send m p_ipmdev p_wait p_id p_data p_size =
     syscall m ''ipm_send'' K_SYSCALL_IPM_SEND RWord
       [P32 p_ipmdev, P32 p_wait, P32 p_id, P32 p_data, P32 p_size]"

definition sys_ipm_max_data_size_get :: "kmode \<Rightarrow> 32 word \<Rightarrow> kcall" where [outside_defs_b]:
  "sys_ipm_max_data_size_get m p_ipmdev =
     syscall m ''ipm_max_data_size_get'' K_SYSCALL_IPM_MAX_DATA_SIZE_GET RWord
       [P32 p_ipmdev]"

definition sys_ipm_max_id_val_get :: "kmode \<Rightarrow> 32 word \<Rightarrow> kcall" where [outside_defs_b]:
  "sys_ipm_max_id_val_get m p_ipmdev =
     syscall m ''ipm_max_id_val_get'' K_SYSCALL_IPM_MAX_ID_VAL_GET RWord
       [P32 p_ipmdev]"

definition sys_ipm_set_enabled :: "kmode \<Rightarrow> 32 word \<Rightarrow> 32 word \<Rightarrow> kcall" where [outside_defs_b]:
  "sys_ipm_set_enabled m p_ipmdev p_enable =
     syscall m ''ipm_set_enabled'' K_SYSCALL_IPM_SET_ENABLED RWord
       [P32 p_ipmdev, P32 p_enable]"

definition sys_ipm_complete :: "kmode \<Rightarrow> 32 word \<Rightarrow> kcall" where [outside_defs_b]:
  "sys_ipm_complete m p_ipmdev =
     syscall m ''ipm_complete'' K_SYSCALL_IPM_COMPLETE RVoid
       [P32 p_ipmdev]"

section \<open>\<^verbatim>\<open>ivshmem.h\<close>\<close>

definition sys_ivshmem_get_mem :: "kmode \<Rightarrow> 32 word \<Rightarrow> 32 word \<Rightarrow> kcall" where [outside_defs_b]:
  "sys_ivshmem_get_mem m p_dev p_memmap =
     syscall m ''ivshmem_get_mem'' K_SYSCALL_IVSHMEM_GET_MEM RWord
       [P32 p_dev, P32 p_memmap]"

definition sys_ivshmem_get_id :: "kmode \<Rightarrow> 32 word \<Rightarrow> kcall" where [outside_defs_b]:
  "sys_ivshmem_get_id m p_dev =
     syscall m ''ivshmem_get_id'' K_SYSCALL_IVSHMEM_GET_ID RWord
       [P32 p_dev]"

definition sys_ivshmem_get_vectors :: "kmode \<Rightarrow> 32 word \<Rightarrow> kcall" where [outside_defs_b]:
  "sys_ivshmem_get_vectors m p_dev =
     syscall m ''ivshmem_get_vectors'' K_SYSCALL_IVSHMEM_GET_VECTORS RHalf
       [P32 p_dev]"

definition sys_ivshmem_int_peer :: "kmode \<Rightarrow> 32 word \<Rightarrow> 32 word \<Rightarrow> 16 word \<Rightarrow> kcall" where
    [outside_defs_b]:
  "sys_ivshmem_int_peer m p_dev p_peer_id p_vector =
     syscall m ''ivshmem_int_peer'' K_SYSCALL_IVSHMEM_INT_PEER RWord
       [P32 p_dev, P32 p_peer_id, P16 p_vector]"

definition sys_ivshmem_register_handler :: "kmode \<Rightarrow> 32 word \<Rightarrow> 32 word \<Rightarrow> 16 word \<Rightarrow> kcall" where
    [outside_defs_b]:
  "sys_ivshmem_register_handler m p_dev p_signal p_vector =
     syscall m ''ivshmem_register_handler'' K_SYSCALL_IVSHMEM_REGISTER_HANDLER RWord
       [P32 p_dev, P32 p_signal, P16 p_vector]"

definition sys_ivshmem_get_rw_mem_section :: "kmode \<Rightarrow> 32 word \<Rightarrow> 32 word \<Rightarrow> kcall" where
    [outside_defs_b]:
  "sys_ivshmem_get_rw_mem_section m p_dev p_memmap =
     syscall m ''ivshmem_get_rw_mem_section'' K_SYSCALL_IVSHMEM_GET_RW_MEM_SECTION RWord
       [P32 p_dev, P32 p_memmap]"

definition sys_ivshmem_get_output_mem_section :: "kmode \<Rightarrow> 32 word \<Rightarrow> 32 word \<Rightarrow> 32 word \<Rightarrow> kcall"
    where [outside_defs_b]:
  "sys_ivshmem_get_output_mem_section m p_dev p_peer_id p_memmap =
     syscall m ''ivshmem_get_output_mem_section'' K_SYSCALL_IVSHMEM_GET_OUTPUT_MEM_SECTION RWord
       [P32 p_dev, P32 p_peer_id, P32 p_memmap]"

definition sys_ivshmem_get_state :: "kmode \<Rightarrow> 32 word \<Rightarrow> 32 word \<Rightarrow> kcall" where [outside_defs_b]:
  "sys_ivshmem_get_state m p_dev p_peer_id =
     syscall m ''ivshmem_get_state'' K_SYSCALL_IVSHMEM_GET_STATE RWord
       [P32 p_dev, P32 p_peer_id]"

definition sys_ivshmem_set_state :: "kmode \<Rightarrow> 32 word \<Rightarrow> 32 word \<Rightarrow> kcall" where [outside_defs_b]:
  "sys_ivshmem_set_state m p_dev p_state =
     syscall m ''ivshmem_set_state'' K_SYSCALL_IVSHMEM_SET_STATE RWord
       [P32 p_dev, P32 p_state]"

definition sys_ivshmem_get_max_peers :: "kmode \<Rightarrow> 32 word \<Rightarrow> kcall" where [outside_defs_b]:
  "sys_ivshmem_get_max_peers m p_dev =
     syscall m ''ivshmem_get_max_peers'' K_SYSCALL_IVSHMEM_GET_MAX_PEERS RWord
       [P32 p_dev]"

definition sys_ivshmem_get_protocol :: "kmode \<Rightarrow> 32 word \<Rightarrow> kcall" where [outside_defs_b]:
  "sys_ivshmem_get_protocol m p_dev =
     syscall m ''ivshmem_get_protocol'' K_SYSCALL_IVSHMEM_GET_PROTOCOL RHalf
       [P32 p_dev]"

definition sys_ivshmem_enable_interrupts :: "kmode \<Rightarrow> 32 word \<Rightarrow> 8 word \<Rightarrow> kcall" where
    [outside_defs_b]:
  "sys_ivshmem_enable_interrupts m p_dev p_enable =
     syscall m ''ivshmem_enable_interrupts'' K_SYSCALL_IVSHMEM_ENABLE_INTERRUPTS RWord
       [P32 p_dev, P8 p_enable]"

section \<open>\<^verbatim>\<open>led.h\<close>\<close>

definition sys_led_blink :: "kmode \<Rightarrow> 32 word \<Rightarrow> 32 word \<Rightarrow> 32 word \<Rightarrow> 32 word \<Rightarrow> kcall" where
    [outside_defs_b]:
  "sys_led_blink m p_dev p_led p_delay_on p_delay_off =
     syscall m ''led_blink'' K_SYSCALL_LED_BLINK RWord
       [P32 p_dev, P32 p_led, P32 p_delay_on, P32 p_delay_off]"

definition sys_led_get_info :: "kmode \<Rightarrow> 32 word \<Rightarrow> 32 word \<Rightarrow> 32 word \<Rightarrow> kcall" where
    [outside_defs_b]:
  "sys_led_get_info m p_dev p_led p_info =
     syscall m ''led_get_info'' K_SYSCALL_LED_GET_INFO RWord
       [P32 p_dev, P32 p_led, P32 p_info]"

definition sys_led_set_brightness :: "kmode \<Rightarrow> 32 word \<Rightarrow> 32 word \<Rightarrow> 8 word \<Rightarrow> kcall" where
    [outside_defs_b]:
  "sys_led_set_brightness m p_dev p_led p_value =
     syscall m ''led_set_brightness'' K_SYSCALL_LED_SET_BRIGHTNESS RWord
       [P32 p_dev, P32 p_led, P8 p_value]"

definition sys_led_write_channels :: "kmode \<Rightarrow> 32 word \<Rightarrow> 32 word \<Rightarrow> 32 word \<Rightarrow> 32 word \<Rightarrow> kcall"
    where [outside_defs_b]:
  "sys_led_write_channels m p_dev p_start_channel p_num_channels p_buf =
     syscall m ''led_write_channels'' K_SYSCALL_LED_WRITE_CHANNELS RWord
       [P32 p_dev, P32 p_start_channel, P32 p_num_channels, P32 p_buf]"

definition sys_led_set_channel :: "kmode \<Rightarrow> 32 word \<Rightarrow> 32 word \<Rightarrow> 8 word \<Rightarrow> kcall" where
    [outside_defs_b]:
  "sys_led_set_channel m p_dev p_channel p_value =
     syscall m ''led_set_channel'' K_SYSCALL_LED_SET_CHANNEL RWord
       [P32 p_dev, P32 p_channel, P8 p_value]"

definition sys_led_set_color :: "kmode \<Rightarrow> 32 word \<Rightarrow> 32 word \<Rightarrow> 8 word \<Rightarrow> 32 word \<Rightarrow> kcall" where
    [outside_defs_b]:
  "sys_led_set_color m p_dev p_led p_num_colors p_color =
     syscall m ''led_set_color'' K_SYSCALL_LED_SET_COLOR RWord
       [P32 p_dev, P32 p_led, P8 p_num_colors, P32 p_color]"

definition sys_led_on :: "kmode \<Rightarrow> 32 word \<Rightarrow> 32 word \<Rightarrow> kcall" where [outside_defs_b]:
  "sys_led_on m p_dev p_led =
     syscall m ''led_on'' K_SYSCALL_LED_ON RWord
       [P32 p_dev, P32 p_led]"

definition sys_led_off :: "kmode \<Rightarrow> 32 word \<Rightarrow> 32 word \<Rightarrow> kcall" where [outside_defs_b]:
  "sys_led_off m p_dev p_led =
     syscall m ''led_off'' K_SYSCALL_LED_OFF RWord
       [P32 p_dev, P32 p_led]"

section \<open>\<^verbatim>\<open>llext.h\<close>\<close>

definition sys_llext_get_fn_table :: "kmode \<Rightarrow> 32 word \<Rightarrow> 8 word \<Rightarrow> 32 word \<Rightarrow> 32 word \<Rightarrow> kcall"
    where [outside_defs_b]:
  "sys_llext_get_fn_table m p_ext p_is_init p_buf p_size =
     syscall m ''llext_get_fn_table'' K_SYSCALL_LLEXT_GET_FN_TABLE RWord
       [P32 p_ext, P8 p_is_init, P32 p_buf, P32 p_size]"

section \<open>\<^verbatim>\<open>maxim_ds3231.h\<close>\<close>

definition sys_maxim_ds3231_req_syncpoint :: "kmode \<Rightarrow> 32 word \<Rightarrow> 32 word \<Rightarrow> kcall" where
    [outside_defs_b]:
  "sys_maxim_ds3231_req_syncpoint m p_dev p_signal =
     syscall m ''maxim_ds3231_req_syncpoint'' K_SYSCALL_MAXIM_DS3231_REQ_SYNCPOINT RWord
       [P32 p_dev, P32 p_signal]"

definition sys_maxim_ds3231_get_syncpoint :: "kmode \<Rightarrow> 32 word \<Rightarrow> 32 word \<Rightarrow> kcall" where
    [outside_defs_b]:
  "sys_maxim_ds3231_get_syncpoint m p_dev p_syncpoint =
     syscall m ''maxim_ds3231_get_syncpoint'' K_SYSCALL_MAXIM_DS3231_GET_SYNCPOINT RWord
       [P32 p_dev, P32 p_syncpoint]"

section \<open>\<^verbatim>\<open>mbox.h\<close>\<close>

definition sys_mbox_send :: "kmode \<Rightarrow> 32 word \<Rightarrow> 32 word \<Rightarrow> 32 word \<Rightarrow> kcall" where
    [outside_defs_b]:
  "sys_mbox_send m p_dev p_channel_id p_msg =
     syscall m ''mbox_send'' K_SYSCALL_MBOX_SEND RWord
       [P32 p_dev, P32 p_channel_id, P32 p_msg]"

definition sys_mbox_mtu_get :: "kmode \<Rightarrow> 32 word \<Rightarrow> kcall" where [outside_defs_b]:
  "sys_mbox_mtu_get m p_dev =
     syscall m ''mbox_mtu_get'' K_SYSCALL_MBOX_MTU_GET RWord
       [P32 p_dev]"

definition sys_mbox_set_enabled :: "kmode \<Rightarrow> 32 word \<Rightarrow> 32 word \<Rightarrow> 8 word \<Rightarrow> kcall" where
    [outside_defs_b]:
  "sys_mbox_set_enabled m p_dev p_channel_id p_enabled =
     syscall m ''mbox_set_enabled'' K_SYSCALL_MBOX_SET_ENABLED RWord
       [P32 p_dev, P32 p_channel_id, P8 p_enabled]"

definition sys_mbox_max_channels_get :: "kmode \<Rightarrow> 32 word \<Rightarrow> kcall" where [outside_defs_b]:
  "sys_mbox_max_channels_get m p_dev =
     syscall m ''mbox_max_channels_get'' K_SYSCALL_MBOX_MAX_CHANNELS_GET RWord
       [P32 p_dev]"

section \<open>\<^verbatim>\<open>mdio.h\<close>\<close>

definition sys_mdio_bus_enable :: "kmode \<Rightarrow> 32 word \<Rightarrow> kcall" where [outside_defs_b]:
  "sys_mdio_bus_enable m p_dev =
     syscall m ''mdio_bus_enable'' K_SYSCALL_MDIO_BUS_ENABLE RVoid
       [P32 p_dev]"

definition sys_mdio_bus_disable :: "kmode \<Rightarrow> 32 word \<Rightarrow> kcall" where [outside_defs_b]:
  "sys_mdio_bus_disable m p_dev =
     syscall m ''mdio_bus_disable'' K_SYSCALL_MDIO_BUS_DISABLE RVoid
       [P32 p_dev]"

definition sys_mdio_read :: "kmode \<Rightarrow> 32 word \<Rightarrow> 8 word \<Rightarrow> 8 word \<Rightarrow> 32 word \<Rightarrow> kcall" where
    [outside_defs_b]:
  "sys_mdio_read m p_dev p_prtad p_regad p_data =
     syscall m ''mdio_read'' K_SYSCALL_MDIO_READ RWord
       [P32 p_dev, P8 p_prtad, P8 p_regad, P32 p_data]"

definition sys_mdio_write :: "kmode \<Rightarrow> 32 word \<Rightarrow> 8 word \<Rightarrow> 8 word \<Rightarrow> 16 word \<Rightarrow> kcall" where
    [outside_defs_b]:
  "sys_mdio_write m p_dev p_prtad p_regad p_data =
     syscall m ''mdio_write'' K_SYSCALL_MDIO_WRITE RWord
       [P32 p_dev, P8 p_prtad, P8 p_regad, P16 p_data]"

definition sys_mdio_read_c45 :: "kmode \<Rightarrow> 32 word \<Rightarrow> 8 word \<Rightarrow> 8 word \<Rightarrow> 16 word \<Rightarrow> 32 word \<Rightarrow>
    kcall" where [outside_defs_b]:
  "sys_mdio_read_c45 m p_dev p_prtad p_devad p_regad p_data =
     syscall m ''mdio_read_c45'' K_SYSCALL_MDIO_READ_C45 RWord
       [P32 p_dev, P8 p_prtad, P8 p_devad, P16 p_regad, P32 p_data]"

definition sys_mdio_write_c45 :: "kmode \<Rightarrow> 32 word \<Rightarrow> 8 word \<Rightarrow> 8 word \<Rightarrow> 16 word \<Rightarrow> 16 word \<Rightarrow>
    kcall" where [outside_defs_b]:
  "sys_mdio_write_c45 m p_dev p_prtad p_devad p_regad p_data =
     syscall m ''mdio_write_c45'' K_SYSCALL_MDIO_WRITE_C45 RWord
       [P32 p_dev, P8 p_prtad, P8 p_devad, P16 p_regad, P16 p_data]"

section \<open>\<^verbatim>\<open>mspi.h\<close>\<close>

definition sys_mspi_config :: "kmode \<Rightarrow> 32 word \<Rightarrow> kcall" where [outside_defs_b]:
  "sys_mspi_config m p_spec =
     syscall m ''mspi_config'' K_SYSCALL_MSPI_CONFIG RWord
       [P32 p_spec]"

definition sys_mspi_dev_config :: "kmode \<Rightarrow> 32 word \<Rightarrow> 32 word \<Rightarrow> 16 word \<Rightarrow> 32 word \<Rightarrow> kcall"
    where [outside_defs_b]:
  "sys_mspi_dev_config m p_controller p_dev_id p_param_mask p_cfg =
     syscall m ''mspi_dev_config'' K_SYSCALL_MSPI_DEV_CONFIG RWord
       [P32 p_controller, P32 p_dev_id, PEnum16 p_param_mask, P32 p_cfg]"

definition sys_mspi_get_channel_status :: "kmode \<Rightarrow> 32 word \<Rightarrow> 8 word \<Rightarrow> kcall" where
    [outside_defs_b]:
  "sys_mspi_get_channel_status m p_controller p_ch =
     syscall m ''mspi_get_channel_status'' K_SYSCALL_MSPI_GET_CHANNEL_STATUS RWord
       [P32 p_controller, P8 p_ch]"

definition sys_mspi_transceive :: "kmode \<Rightarrow> 32 word \<Rightarrow> 32 word \<Rightarrow> 32 word \<Rightarrow> kcall" where
    [outside_defs_b]:
  "sys_mspi_transceive m p_controller p_dev_id p_req =
     syscall m ''mspi_transceive'' K_SYSCALL_MSPI_TRANSCEIVE RWord
       [P32 p_controller, P32 p_dev_id, P32 p_req]"

definition sys_mspi_xip_config :: "kmode \<Rightarrow> 32 word \<Rightarrow> 32 word \<Rightarrow> 32 word \<Rightarrow> kcall" where
    [outside_defs_b]:
  "sys_mspi_xip_config m p_controller p_dev_id p_cfg =
     syscall m ''mspi_xip_config'' K_SYSCALL_MSPI_XIP_CONFIG RWord
       [P32 p_controller, P32 p_dev_id, P32 p_cfg]"

definition sys_mspi_scramble_config :: "kmode \<Rightarrow> 32 word \<Rightarrow> 32 word \<Rightarrow> 32 word \<Rightarrow> kcall" where
    [outside_defs_b]:
  "sys_mspi_scramble_config m p_controller p_dev_id p_cfg =
     syscall m ''mspi_scramble_config'' K_SYSCALL_MSPI_SCRAMBLE_CONFIG RWord
       [P32 p_controller, P32 p_dev_id, P32 p_cfg]"

definition sys_mspi_timing_config :: "kmode \<Rightarrow> 32 word \<Rightarrow> 32 word \<Rightarrow> 32 word \<Rightarrow> 32 word \<Rightarrow> kcall"
    where [outside_defs_b]:
  "sys_mspi_timing_config m p_controller p_dev_id p_param_mask p_cfg =
     syscall m ''mspi_timing_config'' K_SYSCALL_MSPI_TIMING_CONFIG RWord
       [P32 p_controller, P32 p_dev_id, P32 p_param_mask, P32 p_cfg]"

section \<open>\<^verbatim>\<open>nrf_qspi_nor.h\<close>\<close>

definition sys_nrf_qspi_nor_xip_enable :: "kmode \<Rightarrow> 32 word \<Rightarrow> 8 word \<Rightarrow> kcall" where
    [outside_defs_b]:
  "sys_nrf_qspi_nor_xip_enable m p_dev p_enable =
     syscall m ''nrf_qspi_nor_xip_enable'' K_SYSCALL_NRF_QSPI_NOR_XIP_ENABLE RVoid
       [P32 p_dev, P8 p_enable]"

section \<open>\<^verbatim>\<open>peci.h\<close>\<close>

definition sys_peci_config :: "kmode \<Rightarrow> 32 word \<Rightarrow> 32 word \<Rightarrow> kcall" where [outside_defs_b]:
  "sys_peci_config m p_dev p_bitrate =
     syscall m ''peci_config'' K_SYSCALL_PECI_CONFIG RWord
       [P32 p_dev, P32 p_bitrate]"

definition sys_peci_enable :: "kmode \<Rightarrow> 32 word \<Rightarrow> kcall" where [outside_defs_b]:
  "sys_peci_enable m p_dev =
     syscall m ''peci_enable'' K_SYSCALL_PECI_ENABLE RWord
       [P32 p_dev]"

definition sys_peci_disable :: "kmode \<Rightarrow> 32 word \<Rightarrow> kcall" where [outside_defs_b]:
  "sys_peci_disable m p_dev =
     syscall m ''peci_disable'' K_SYSCALL_PECI_DISABLE RWord
       [P32 p_dev]"

definition sys_peci_transfer :: "kmode \<Rightarrow> 32 word \<Rightarrow> 32 word \<Rightarrow> kcall" where [outside_defs_b]:
  "sys_peci_transfer m p_dev p_msg =
     syscall m ''peci_transfer'' K_SYSCALL_PECI_TRANSFER RWord
       [P32 p_dev, P32 p_msg]"

section \<open>\<^verbatim>\<open>ps2.h\<close>\<close>

definition sys_ps2_config :: "kmode \<Rightarrow> 32 word \<Rightarrow> 32 word \<Rightarrow> kcall" where [outside_defs_b]:
  "sys_ps2_config m p_dev p_callback_isr =
     syscall m ''ps2_config'' K_SYSCALL_PS2_CONFIG RWord
       [P32 p_dev, P32 p_callback_isr]"

definition sys_ps2_write :: "kmode \<Rightarrow> 32 word \<Rightarrow> 8 word \<Rightarrow> kcall" where [outside_defs_b]:
  "sys_ps2_write m p_dev p_value =
     syscall m ''ps2_write'' K_SYSCALL_PS2_WRITE RWord
       [P32 p_dev, P8 p_value]"

definition sys_ps2_read :: "kmode \<Rightarrow> 32 word \<Rightarrow> 32 word \<Rightarrow> kcall" where [outside_defs_b]:
  "sys_ps2_read m p_dev p_value =
     syscall m ''ps2_read'' K_SYSCALL_PS2_READ RWord
       [P32 p_dev, P32 p_value]"

definition sys_ps2_enable_callback :: "kmode \<Rightarrow> 32 word \<Rightarrow> kcall" where [outside_defs_b]:
  "sys_ps2_enable_callback m p_dev =
     syscall m ''ps2_enable_callback'' K_SYSCALL_PS2_ENABLE_CALLBACK RWord
       [P32 p_dev]"

definition sys_ps2_disable_callback :: "kmode \<Rightarrow> 32 word \<Rightarrow> kcall" where [outside_defs_b]:
  "sys_ps2_disable_callback m p_dev =
     syscall m ''ps2_disable_callback'' K_SYSCALL_PS2_DISABLE_CALLBACK RWord
       [P32 p_dev]"

section \<open>\<^verbatim>\<open>ptp_clock.h\<close>\<close>

definition sys_ptp_clock_get :: "kmode \<Rightarrow> 32 word \<Rightarrow> 32 word \<Rightarrow> kcall" where [outside_defs_b]:
  "sys_ptp_clock_get m p_dev p_tm =
     syscall m ''ptp_clock_get'' K_SYSCALL_PTP_CLOCK_GET RWord
       [P32 p_dev, P32 p_tm]"

section \<open>\<^verbatim>\<open>pwm.h\<close>\<close>

definition sys_pwm_set_cycles :: "kmode \<Rightarrow> 32 word \<Rightarrow> 32 word \<Rightarrow> 32 word \<Rightarrow> 32 word \<Rightarrow> 16 word \<Rightarrow>
    kcall" where [outside_defs_b]:
  "sys_pwm_set_cycles m p_dev p_channel p_period p_pulse p_flags =
     syscall m ''pwm_set_cycles'' K_SYSCALL_PWM_SET_CYCLES RWord
       [P32 p_dev, P32 p_channel, P32 p_period, P32 p_pulse, P16 p_flags]"

definition sys_pwm_get_cycles_per_sec :: "kmode \<Rightarrow> 32 word \<Rightarrow> 32 word \<Rightarrow> 32 word \<Rightarrow> kcall" where
    [outside_defs_b]:
  "sys_pwm_get_cycles_per_sec m p_dev p_channel p_cycles =
     syscall m ''pwm_get_cycles_per_sec'' K_SYSCALL_PWM_GET_CYCLES_PER_SEC RWord
       [P32 p_dev, P32 p_channel, P32 p_cycles]"

definition sys_pwm_enable_capture :: "kmode \<Rightarrow> 32 word \<Rightarrow> 32 word \<Rightarrow> kcall" where
    [outside_defs_b]:
  "sys_pwm_enable_capture m p_dev p_channel =
     syscall m ''pwm_enable_capture'' K_SYSCALL_PWM_ENABLE_CAPTURE RWord
       [P32 p_dev, P32 p_channel]"

definition sys_pwm_disable_capture :: "kmode \<Rightarrow> 32 word \<Rightarrow> 32 word \<Rightarrow> kcall" where
    [outside_defs_b]:
  "sys_pwm_disable_capture m p_dev p_channel =
     syscall m ''pwm_disable_capture'' K_SYSCALL_PWM_DISABLE_CAPTURE RWord
       [P32 p_dev, P32 p_channel]"

definition sys_pwm_capture_cycles :: "kmode \<Rightarrow> 32 word \<Rightarrow> 32 word \<Rightarrow> 16 word \<Rightarrow> 32 word \<Rightarrow> 32 word
    \<Rightarrow> 64 word \<Rightarrow> kcall" where [outside_defs_b]:
  "sys_pwm_capture_cycles m p_dev p_channel p_flags p_period p_pulse p_timeout =
     syscall m ''pwm_capture_cycles'' K_SYSCALL_PWM_CAPTURE_CYCLES RWord
       [P32 p_dev, P32 p_channel, P16 p_flags, P32 p_period, P32 p_pulse, P64 p_timeout]"

section \<open>\<^verbatim>\<open>reset.h\<close>\<close>

definition sys_reset_status :: "kmode \<Rightarrow> 32 word \<Rightarrow> 32 word \<Rightarrow> 32 word \<Rightarrow> kcall" where
    [outside_defs_b]:
  "sys_reset_status m p_dev p_id p_status =
     syscall m ''reset_status'' K_SYSCALL_RESET_STATUS RWord
       [P32 p_dev, P32 p_id, P32 p_status]"

definition sys_reset_line_assert :: "kmode \<Rightarrow> 32 word \<Rightarrow> 32 word \<Rightarrow> kcall" where [outside_defs_b]:
  "sys_reset_line_assert m p_dev p_id =
     syscall m ''reset_line_assert'' K_SYSCALL_RESET_LINE_ASSERT RWord
       [P32 p_dev, P32 p_id]"

definition sys_reset_line_deassert :: "kmode \<Rightarrow> 32 word \<Rightarrow> 32 word \<Rightarrow> kcall" where
    [outside_defs_b]:
  "sys_reset_line_deassert m p_dev p_id =
     syscall m ''reset_line_deassert'' K_SYSCALL_RESET_LINE_DEASSERT RWord
       [P32 p_dev, P32 p_id]"

definition sys_reset_line_toggle :: "kmode \<Rightarrow> 32 word \<Rightarrow> 32 word \<Rightarrow> kcall" where [outside_defs_b]:
  "sys_reset_line_toggle m p_dev p_id =
     syscall m ''reset_line_toggle'' K_SYSCALL_RESET_LINE_TOGGLE RWord
       [P32 p_dev, P32 p_id]"

section \<open>\<^verbatim>\<open>retained_mem.h\<close>\<close>

definition sys_retained_mem_size :: "kmode \<Rightarrow> 32 word \<Rightarrow> kcall" where [outside_defs_b]:
  "sys_retained_mem_size m p_dev =
     syscall m ''retained_mem_size'' K_SYSCALL_RETAINED_MEM_SIZE RWord
       [P32 p_dev]"

definition sys_retained_mem_read :: "kmode \<Rightarrow> 32 word \<Rightarrow> 32 word \<Rightarrow> 32 word \<Rightarrow> 32 word \<Rightarrow> kcall"
    where [outside_defs_b]:
  "sys_retained_mem_read m p_dev p_offset p_buffer p_size =
     syscall m ''retained_mem_read'' K_SYSCALL_RETAINED_MEM_READ RWord
       [P32 p_dev, P32 p_offset, P32 p_buffer, P32 p_size]"

definition sys_retained_mem_write :: "kmode \<Rightarrow> 32 word \<Rightarrow> 32 word \<Rightarrow> 32 word \<Rightarrow> 32 word \<Rightarrow> kcall"
    where [outside_defs_b]:
  "sys_retained_mem_write m p_dev p_offset p_buffer p_size =
     syscall m ''retained_mem_write'' K_SYSCALL_RETAINED_MEM_WRITE RWord
       [P32 p_dev, P32 p_offset, P32 p_buffer, P32 p_size]"

definition sys_retained_mem_clear :: "kmode \<Rightarrow> 32 word \<Rightarrow> kcall" where [outside_defs_b]:
  "sys_retained_mem_clear m p_dev =
     syscall m ''retained_mem_clear'' K_SYSCALL_RETAINED_MEM_CLEAR RWord
       [P32 p_dev]"

section \<open>\<^verbatim>\<open>rtc.h\<close>\<close>

definition sys_rtc_set_time :: "kmode \<Rightarrow> 32 word \<Rightarrow> 32 word \<Rightarrow> kcall" where [outside_defs_b]:
  "sys_rtc_set_time m p_dev p_timeptr =
     syscall m ''rtc_set_time'' K_SYSCALL_RTC_SET_TIME RWord
       [P32 p_dev, P32 p_timeptr]"

definition sys_rtc_get_time :: "kmode \<Rightarrow> 32 word \<Rightarrow> 32 word \<Rightarrow> kcall" where [outside_defs_b]:
  "sys_rtc_get_time m p_dev p_timeptr =
     syscall m ''rtc_get_time'' K_SYSCALL_RTC_GET_TIME RWord
       [P32 p_dev, P32 p_timeptr]"

definition sys_rtc_alarm_get_supported_fields :: "kmode \<Rightarrow> 32 word \<Rightarrow> 16 word \<Rightarrow> 32 word \<Rightarrow> kcall"
    where [outside_defs_b]:
  "sys_rtc_alarm_get_supported_fields m p_dev p_id p_mask =
     syscall m ''rtc_alarm_get_supported_fields'' K_SYSCALL_RTC_ALARM_GET_SUPPORTED_FIELDS RWord
       [P32 p_dev, P16 p_id, P32 p_mask]"

definition sys_rtc_alarm_set_time :: "kmode \<Rightarrow> 32 word \<Rightarrow> 16 word \<Rightarrow> 16 word \<Rightarrow> 32 word \<Rightarrow> kcall"
    where [outside_defs_b]:
  "sys_rtc_alarm_set_time m p_dev p_id p_mask p_timeptr =
     syscall m ''rtc_alarm_set_time'' K_SYSCALL_RTC_ALARM_SET_TIME RWord
       [P32 p_dev, P16 p_id, P16 p_mask, P32 p_timeptr]"

definition sys_rtc_alarm_get_time :: "kmode \<Rightarrow> 32 word \<Rightarrow> 16 word \<Rightarrow> 32 word \<Rightarrow> 32 word \<Rightarrow> kcall"
    where [outside_defs_b]:
  "sys_rtc_alarm_get_time m p_dev p_id p_mask p_timeptr =
     syscall m ''rtc_alarm_get_time'' K_SYSCALL_RTC_ALARM_GET_TIME RWord
       [P32 p_dev, P16 p_id, P32 p_mask, P32 p_timeptr]"

definition sys_rtc_alarm_is_pending :: "kmode \<Rightarrow> 32 word \<Rightarrow> 16 word \<Rightarrow> kcall" where
    [outside_defs_b]:
  "sys_rtc_alarm_is_pending m p_dev p_id =
     syscall m ''rtc_alarm_is_pending'' K_SYSCALL_RTC_ALARM_IS_PENDING RWord
       [P32 p_dev, P16 p_id]"

definition sys_rtc_alarm_set_callback :: "kmode \<Rightarrow> 32 word \<Rightarrow> 16 word \<Rightarrow> 32 word \<Rightarrow> 32 word \<Rightarrow>
    kcall" where [outside_defs_b]:
  "sys_rtc_alarm_set_callback m p_dev p_id p_callback p_user_data =
     syscall m ''rtc_alarm_set_callback'' K_SYSCALL_RTC_ALARM_SET_CALLBACK RWord
       [P32 p_dev, P16 p_id, P32 p_callback, P32 p_user_data]"

definition sys_rtc_update_set_callback :: "kmode \<Rightarrow> 32 word \<Rightarrow> 32 word \<Rightarrow> 32 word \<Rightarrow> kcall" where
    [outside_defs_b]:
  "sys_rtc_update_set_callback m p_dev p_callback p_user_data =
     syscall m ''rtc_update_set_callback'' K_SYSCALL_RTC_UPDATE_SET_CALLBACK RWord
       [P32 p_dev, P32 p_callback, P32 p_user_data]"

definition sys_rtc_set_calibration :: "kmode \<Rightarrow> 32 word \<Rightarrow> 32 word \<Rightarrow> kcall" where
    [outside_defs_b]:
  "sys_rtc_set_calibration m p_dev p_calibration =
     syscall m ''rtc_set_calibration'' K_SYSCALL_RTC_SET_CALIBRATION RWord
       [P32 p_dev, P32 p_calibration]"

definition sys_rtc_get_calibration :: "kmode \<Rightarrow> 32 word \<Rightarrow> 32 word \<Rightarrow> kcall" where
    [outside_defs_b]:
  "sys_rtc_get_calibration m p_dev p_calibration =
     syscall m ''rtc_get_calibration'' K_SYSCALL_RTC_GET_CALIBRATION RWord
       [P32 p_dev, P32 p_calibration]"

section \<open>\<^verbatim>\<open>rtio.h\<close>\<close>

definition sys_rtio_cqe_get_mempool_buffer :: "kmode \<Rightarrow> 32 word \<Rightarrow> 32 word \<Rightarrow> 32 word \<Rightarrow> 32 word
    \<Rightarrow> kcall" where [outside_defs_b]:
  "sys_rtio_cqe_get_mempool_buffer m p_r p_cqe p_buff p_buff_len =
     syscall m ''rtio_cqe_get_mempool_buffer'' K_SYSCALL_RTIO_CQE_GET_MEMPOOL_BUFFER RWord
       [P32 p_r, P32 p_cqe, P32 p_buff, P32 p_buff_len]"

definition sys_rtio_release_buffer :: "kmode \<Rightarrow> 32 word \<Rightarrow> 32 word \<Rightarrow> 32 word \<Rightarrow> kcall" where
    [outside_defs_b]:
  "sys_rtio_release_buffer m p_r p_buff p_buff_len =
     syscall m ''rtio_release_buffer'' K_SYSCALL_RTIO_RELEASE_BUFFER RVoid
       [P32 p_r, P32 p_buff, P32 p_buff_len]"

definition sys_rtio_sqe_cancel :: "kmode \<Rightarrow> 32 word \<Rightarrow> kcall" where [outside_defs_b]:
  "sys_rtio_sqe_cancel m p_sqe =
     syscall m ''rtio_sqe_cancel'' K_SYSCALL_RTIO_SQE_CANCEL RWord
       [P32 p_sqe]"

definition sys_rtio_sqe_signal :: "kmode \<Rightarrow> 32 word \<Rightarrow> kcall" where [outside_defs_b]:
  "sys_rtio_sqe_signal m p_sqe =
     syscall m ''rtio_sqe_signal'' K_SYSCALL_RTIO_SQE_SIGNAL RVoid
       [P32 p_sqe]"

definition sys_rtio_sqe_copy_in_get_handles :: "kmode \<Rightarrow> 32 word \<Rightarrow> 32 word \<Rightarrow> 32 word \<Rightarrow> 32 word
    \<Rightarrow> kcall" where [outside_defs_b]:
  "sys_rtio_sqe_copy_in_get_handles m p_r p_sqes p_handle p_sqe_count =
     syscall m ''rtio_sqe_copy_in_get_handles'' K_SYSCALL_RTIO_SQE_COPY_IN_GET_HANDLES RWord
       [P32 p_r, P32 p_sqes, P32 p_handle, P32 p_sqe_count]"

definition sys_rtio_cqe_copy_out :: "kmode \<Rightarrow> 32 word \<Rightarrow> 32 word \<Rightarrow> 32 word \<Rightarrow> 64 word \<Rightarrow> kcall"
    where [outside_defs_b]:
  "sys_rtio_cqe_copy_out m p_r p_cqes p_cqe_count p_timeout =
     syscall m ''rtio_cqe_copy_out'' K_SYSCALL_RTIO_CQE_COPY_OUT RWord
       [P32 p_r, P32 p_cqes, P32 p_cqe_count, P64 p_timeout]"

definition sys_rtio_submit :: "kmode \<Rightarrow> 32 word \<Rightarrow> 32 word \<Rightarrow> kcall" where [outside_defs_b]:
  "sys_rtio_submit m p_r p_wait_count =
     syscall m ''rtio_submit'' K_SYSCALL_RTIO_SUBMIT RWord
       [P32 p_r, P32 p_wait_count]"

section \<open>\<^verbatim>\<open>sdhc.h\<close>\<close>

definition sys_sdhc_hw_reset :: "kmode \<Rightarrow> 32 word \<Rightarrow> kcall" where [outside_defs_b]:
  "sys_sdhc_hw_reset m p_dev =
     syscall m ''sdhc_hw_reset'' K_SYSCALL_SDHC_HW_RESET RWord
       [P32 p_dev]"

definition sys_sdhc_request :: "kmode \<Rightarrow> 32 word \<Rightarrow> 32 word \<Rightarrow> 32 word \<Rightarrow> kcall" where
    [outside_defs_b]:
  "sys_sdhc_request m p_dev p_cmd p_data =
     syscall m ''sdhc_request'' K_SYSCALL_SDHC_REQUEST RWord
       [P32 p_dev, P32 p_cmd, P32 p_data]"

definition sys_sdhc_set_io :: "kmode \<Rightarrow> 32 word \<Rightarrow> 32 word \<Rightarrow> kcall" where [outside_defs_b]:
  "sys_sdhc_set_io m p_dev p_io =
     syscall m ''sdhc_set_io'' K_SYSCALL_SDHC_SET_IO RWord
       [P32 p_dev, P32 p_io]"

definition sys_sdhc_card_present :: "kmode \<Rightarrow> 32 word \<Rightarrow> kcall" where [outside_defs_b]:
  "sys_sdhc_card_present m p_dev =
     syscall m ''sdhc_card_present'' K_SYSCALL_SDHC_CARD_PRESENT RWord
       [P32 p_dev]"

definition sys_sdhc_execute_tuning :: "kmode \<Rightarrow> 32 word \<Rightarrow> kcall" where [outside_defs_b]:
  "sys_sdhc_execute_tuning m p_dev =
     syscall m ''sdhc_execute_tuning'' K_SYSCALL_SDHC_EXECUTE_TUNING RWord
       [P32 p_dev]"

definition sys_sdhc_card_busy :: "kmode \<Rightarrow> 32 word \<Rightarrow> kcall" where [outside_defs_b]:
  "sys_sdhc_card_busy m p_dev =
     syscall m ''sdhc_card_busy'' K_SYSCALL_SDHC_CARD_BUSY RWord
       [P32 p_dev]"

definition sys_sdhc_get_host_props :: "kmode \<Rightarrow> 32 word \<Rightarrow> 32 word \<Rightarrow> kcall" where
    [outside_defs_b]:
  "sys_sdhc_get_host_props m p_dev p_props =
     syscall m ''sdhc_get_host_props'' K_SYSCALL_SDHC_GET_HOST_PROPS RWord
       [P32 p_dev, P32 p_props]"

definition sys_sdhc_enable_interrupt :: "kmode \<Rightarrow> 32 word \<Rightarrow> 32 word \<Rightarrow> 32 word \<Rightarrow> 32 word \<Rightarrow>
    kcall" where [outside_defs_b]:
  "sys_sdhc_enable_interrupt m p_dev p_callback p_sources p_user_data =
     syscall m ''sdhc_enable_interrupt'' K_SYSCALL_SDHC_ENABLE_INTERRUPT RWord
       [P32 p_dev, P32 p_callback, P32 p_sources, P32 p_user_data]"

definition sys_sdhc_disable_interrupt :: "kmode \<Rightarrow> 32 word \<Rightarrow> 32 word \<Rightarrow> kcall" where
    [outside_defs_b]:
  "sys_sdhc_disable_interrupt m p_dev p_sources =
     syscall m ''sdhc_disable_interrupt'' K_SYSCALL_SDHC_DISABLE_INTERRUPT RWord
       [P32 p_dev, P32 p_sources]"

section \<open>\<^verbatim>\<open>sensor.h\<close>\<close>

definition sys_sensor_attr_set :: "kmode \<Rightarrow> 32 word \<Rightarrow> 16 word \<Rightarrow> 16 word \<Rightarrow> 32 word \<Rightarrow> kcall"
    where [outside_defs_b]:
  "sys_sensor_attr_set m p_dev p_chan p_attr p_val =
     syscall m ''sensor_attr_set'' K_SYSCALL_SENSOR_ATTR_SET RWord
       [P32 p_dev, PEnum16 p_chan, PEnum16 p_attr, P32 p_val]"

definition sys_sensor_attr_get :: "kmode \<Rightarrow> 32 word \<Rightarrow> 16 word \<Rightarrow> 16 word \<Rightarrow> 32 word \<Rightarrow> kcall"
    where [outside_defs_b]:
  "sys_sensor_attr_get m p_dev p_chan p_attr p_val =
     syscall m ''sensor_attr_get'' K_SYSCALL_SENSOR_ATTR_GET RWord
       [P32 p_dev, PEnum16 p_chan, PEnum16 p_attr, P32 p_val]"

definition sys_sensor_sample_fetch :: "kmode \<Rightarrow> 32 word \<Rightarrow> kcall" where [outside_defs_b]:
  "sys_sensor_sample_fetch m p_dev =
     syscall m ''sensor_sample_fetch'' K_SYSCALL_SENSOR_SAMPLE_FETCH RWord
       [P32 p_dev]"

definition sys_sensor_sample_fetch_chan :: "kmode \<Rightarrow> 32 word \<Rightarrow> 16 word \<Rightarrow> kcall" where
    [outside_defs_b]:
  "sys_sensor_sample_fetch_chan m p_dev p_type =
     syscall m ''sensor_sample_fetch_chan'' K_SYSCALL_SENSOR_SAMPLE_FETCH_CHAN RWord
       [P32 p_dev, PEnum16 p_type]"

definition sys_sensor_channel_get :: "kmode \<Rightarrow> 32 word \<Rightarrow> 16 word \<Rightarrow> 32 word \<Rightarrow> kcall" where
    [outside_defs_b]:
  "sys_sensor_channel_get m p_dev p_chan p_val =
     syscall m ''sensor_channel_get'' K_SYSCALL_SENSOR_CHANNEL_GET RWord
       [P32 p_dev, PEnum16 p_chan, P32 p_val]"

definition sys_sensor_get_decoder :: "kmode \<Rightarrow> 32 word \<Rightarrow> 32 word \<Rightarrow> kcall" where
    [outside_defs_b]:
  "sys_sensor_get_decoder m p_dev p_decoder =
     syscall m ''sensor_get_decoder'' K_SYSCALL_SENSOR_GET_DECODER RWord
       [P32 p_dev, P32 p_decoder]"

definition sys_sensor_reconfigure_read_iodev :: "kmode \<Rightarrow> 32 word \<Rightarrow> 32 word \<Rightarrow> 32 word \<Rightarrow> 32 word
    \<Rightarrow> kcall" where [outside_defs_b]:
  "sys_sensor_reconfigure_read_iodev m p_iodev p_sensor p_channels p_num_channels =
     syscall m ''sensor_reconfigure_read_iodev'' K_SYSCALL_SENSOR_RECONFIGURE_READ_IODEV RWord
       [P32 p_iodev, P32 p_sensor, P32 p_channels, P32 p_num_channels]"

section \<open>\<^verbatim>\<open>sip_svc_driver.h\<close>\<close>

definition sys_sip_supervisory_call :: "kmode \<Rightarrow> 32 word \<Rightarrow> 32 word \<Rightarrow> 32 word \<Rightarrow> 32 word \<Rightarrow>
    32 word \<Rightarrow> 32 word \<Rightarrow> 32 word \<Rightarrow> 32 word \<Rightarrow> 32 word \<Rightarrow> 32 word \<Rightarrow> kcall" where
    [outside_defs_b]:
  "sys_sip_supervisory_call m p_dev p_function_id p_arg0 p_arg1 p_arg2 p_arg3 p_arg4 p_arg5 p_arg6
      p_res =
     syscall m ''sip_supervisory_call'' K_SYSCALL_SIP_SUPERVISORY_CALL RVoid
       [P32 p_dev, P32 p_function_id, P32 p_arg0, P32 p_arg1, P32 p_arg2, P32 p_arg3, P32 p_arg4,
        P32 p_arg5, P32 p_arg6, P32 p_res]"

definition sys_sip_svc_plat_func_id_valid :: "kmode \<Rightarrow> 32 word \<Rightarrow> 32 word \<Rightarrow> 32 word \<Rightarrow> kcall"
    where [outside_defs_b]:
  "sys_sip_svc_plat_func_id_valid m p_dev p_command p_func_id =
     syscall m ''sip_svc_plat_func_id_valid'' K_SYSCALL_SIP_SVC_PLAT_FUNC_ID_VALID RBool
       [P32 p_dev, P32 p_command, P32 p_func_id]"

definition sys_sip_svc_plat_format_trans_id :: "kmode \<Rightarrow> 32 word \<Rightarrow> 32 word \<Rightarrow> 32 word \<Rightarrow> kcall"
    where [outside_defs_b]:
  "sys_sip_svc_plat_format_trans_id m p_dev p_client_idx p_trans_idx =
     syscall m ''sip_svc_plat_format_trans_id'' K_SYSCALL_SIP_SVC_PLAT_FORMAT_TRANS_ID RWord
       [P32 p_dev, P32 p_client_idx, P32 p_trans_idx]"

definition sys_sip_svc_plat_get_trans_idx :: "kmode \<Rightarrow> 32 word \<Rightarrow> 32 word \<Rightarrow> kcall" where
    [outside_defs_b]:
  "sys_sip_svc_plat_get_trans_idx m p_dev p_trans_id =
     syscall m ''sip_svc_plat_get_trans_idx'' K_SYSCALL_SIP_SVC_PLAT_GET_TRANS_IDX RWord
       [P32 p_dev, P32 p_trans_id]"

definition sys_sip_svc_plat_update_trans_id :: "kmode \<Rightarrow> 32 word \<Rightarrow> 32 word \<Rightarrow> 32 word \<Rightarrow> kcall"
    where [outside_defs_b]:
  "sys_sip_svc_plat_update_trans_id m p_dev p_request p_trans_id =
     syscall m ''sip_svc_plat_update_trans_id'' K_SYSCALL_SIP_SVC_PLAT_UPDATE_TRANS_ID RVoid
       [P32 p_dev, P32 p_request, P32 p_trans_id]"

definition sys_sip_svc_plat_get_error_code :: "kmode \<Rightarrow> 32 word \<Rightarrow> 32 word \<Rightarrow> kcall" where
    [outside_defs_b]:
  "sys_sip_svc_plat_get_error_code m p_dev p_res =
     syscall m ''sip_svc_plat_get_error_code'' K_SYSCALL_SIP_SVC_PLAT_GET_ERROR_CODE RWord
       [P32 p_dev, P32 p_res]"

definition sys_sip_svc_plat_async_res_req :: "kmode \<Rightarrow> 32 word \<Rightarrow> 32 word \<Rightarrow> 32 word \<Rightarrow> 32 word \<Rightarrow>
    32 word \<Rightarrow> 32 word \<Rightarrow> 32 word \<Rightarrow> 32 word \<Rightarrow> 32 word \<Rightarrow> 32 word \<Rightarrow> 32 word \<Rightarrow> kcall" where
    [outside_defs_b]:
  "sys_sip_svc_plat_async_res_req m p_dev p_a0 p_a1 p_a2 p_a3 p_a4 p_a5 p_a6 p_a7 p_buf p_size =
     syscall m ''sip_svc_plat_async_res_req'' K_SYSCALL_SIP_SVC_PLAT_ASYNC_RES_REQ RWord
       [P32 p_dev, P32 p_a0, P32 p_a1, P32 p_a2, P32 p_a3, P32 p_a4, P32 p_a5, P32 p_a6,
        P32 p_a7, P32 p_buf, P32 p_size]"

definition sys_sip_svc_plat_async_res_res :: "kmode \<Rightarrow> 32 word \<Rightarrow> 32 word \<Rightarrow> 32 word \<Rightarrow> 32 word \<Rightarrow>
    32 word \<Rightarrow> kcall" where [outside_defs_b]:
  "sys_sip_svc_plat_async_res_res m p_dev p_res p_buf p_size p_trans_id =
     syscall m ''sip_svc_plat_async_res_res'' K_SYSCALL_SIP_SVC_PLAT_ASYNC_RES_RES RWord
       [P32 p_dev, P32 p_res, P32 p_buf, P32 p_size, P32 p_trans_id]"

definition sys_sip_svc_plat_free_async_memory :: "kmode \<Rightarrow> 32 word \<Rightarrow> 32 word \<Rightarrow> kcall" where
    [outside_defs_b]:
  "sys_sip_svc_plat_free_async_memory m p_dev p_request =
     syscall m ''sip_svc_plat_free_async_memory'' K_SYSCALL_SIP_SVC_PLAT_FREE_ASYNC_MEMORY RVoid
       [P32 p_dev, P32 p_request]"

section \<open>\<^verbatim>\<open>smbus.h\<close>\<close>

definition sys_smbus_configure :: "kmode \<Rightarrow> 32 word \<Rightarrow> 32 word \<Rightarrow> kcall" where [outside_defs_b]:
  "sys_smbus_configure m p_dev p_dev_config =
     syscall m ''smbus_configure'' K_SYSCALL_SMBUS_CONFIGURE RWord
       [P32 p_dev, P32 p_dev_config]"

definition sys_smbus_get_config :: "kmode \<Rightarrow> 32 word \<Rightarrow> 32 word \<Rightarrow> kcall" where [outside_defs_b]:
  "sys_smbus_get_config m p_dev p_dev_config =
     syscall m ''smbus_get_config'' K_SYSCALL_SMBUS_GET_CONFIG RWord
       [P32 p_dev, P32 p_dev_config]"

definition sys_smbus_smbalert_remove_cb :: "kmode \<Rightarrow> 32 word \<Rightarrow> 32 word \<Rightarrow> kcall" where
    [outside_defs_b]:
  "sys_smbus_smbalert_remove_cb m p_dev p_cb =
     syscall m ''smbus_smbalert_remove_cb'' K_SYSCALL_SMBUS_SMBALERT_REMOVE_CB RWord
       [P32 p_dev, P32 p_cb]"

definition sys_smbus_host_notify_remove_cb :: "kmode \<Rightarrow> 32 word \<Rightarrow> 32 word \<Rightarrow> kcall" where
    [outside_defs_b]:
  "sys_smbus_host_notify_remove_cb m p_dev p_cb =
     syscall m ''smbus_host_notify_remove_cb'' K_SYSCALL_SMBUS_HOST_NOTIFY_REMOVE_CB RWord
       [P32 p_dev, P32 p_cb]"

definition sys_smbus_quick :: "kmode \<Rightarrow> 32 word \<Rightarrow> 16 word \<Rightarrow> 8 word \<Rightarrow> kcall" where
    [outside_defs_b]:
  "sys_smbus_quick m p_dev p_addr p_direction =
     syscall m ''smbus_quick'' K_SYSCALL_SMBUS_QUICK RWord
       [P32 p_dev, P16 p_addr, PEnum p_direction]"

definition sys_smbus_byte_write :: "kmode \<Rightarrow> 32 word \<Rightarrow> 16 word \<Rightarrow> 8 word \<Rightarrow> kcall" where
    [outside_defs_b]:
  "sys_smbus_byte_write m p_dev p_addr p_byte =
     syscall m ''smbus_byte_write'' K_SYSCALL_SMBUS_BYTE_WRITE RWord
       [P32 p_dev, P16 p_addr, P8 p_byte]"

definition sys_smbus_byte_read :: "kmode \<Rightarrow> 32 word \<Rightarrow> 16 word \<Rightarrow> 32 word \<Rightarrow> kcall" where
    [outside_defs_b]:
  "sys_smbus_byte_read m p_dev p_addr p_byte =
     syscall m ''smbus_byte_read'' K_SYSCALL_SMBUS_BYTE_READ RWord
       [P32 p_dev, P16 p_addr, P32 p_byte]"

definition sys_smbus_byte_data_write :: "kmode \<Rightarrow> 32 word \<Rightarrow> 16 word \<Rightarrow> 8 word \<Rightarrow> 8 word \<Rightarrow> kcall"
    where [outside_defs_b]:
  "sys_smbus_byte_data_write m p_dev p_addr p_cmd p_byte =
     syscall m ''smbus_byte_data_write'' K_SYSCALL_SMBUS_BYTE_DATA_WRITE RWord
       [P32 p_dev, P16 p_addr, P8 p_cmd, P8 p_byte]"

definition sys_smbus_byte_data_read :: "kmode \<Rightarrow> 32 word \<Rightarrow> 16 word \<Rightarrow> 8 word \<Rightarrow> 32 word \<Rightarrow> kcall"
    where [outside_defs_b]:
  "sys_smbus_byte_data_read m p_dev p_addr p_cmd p_byte =
     syscall m ''smbus_byte_data_read'' K_SYSCALL_SMBUS_BYTE_DATA_READ RWord
       [P32 p_dev, P16 p_addr, P8 p_cmd, P32 p_byte]"

definition sys_smbus_word_data_write :: "kmode \<Rightarrow> 32 word \<Rightarrow> 16 word \<Rightarrow> 8 word \<Rightarrow> 16 word \<Rightarrow>
    kcall" where [outside_defs_b]:
  "sys_smbus_word_data_write m p_dev p_addr p_cmd p_word =
     syscall m ''smbus_word_data_write'' K_SYSCALL_SMBUS_WORD_DATA_WRITE RWord
       [P32 p_dev, P16 p_addr, P8 p_cmd, P16 p_word]"

definition sys_smbus_word_data_read :: "kmode \<Rightarrow> 32 word \<Rightarrow> 16 word \<Rightarrow> 8 word \<Rightarrow> 32 word \<Rightarrow> kcall"
    where [outside_defs_b]:
  "sys_smbus_word_data_read m p_dev p_addr p_cmd p_word =
     syscall m ''smbus_word_data_read'' K_SYSCALL_SMBUS_WORD_DATA_READ RWord
       [P32 p_dev, P16 p_addr, P8 p_cmd, P32 p_word]"

definition sys_smbus_pcall :: "kmode \<Rightarrow> 32 word \<Rightarrow> 16 word \<Rightarrow> 8 word \<Rightarrow> 16 word \<Rightarrow> 32 word \<Rightarrow>
    kcall" where [outside_defs_b]:
  "sys_smbus_pcall m p_dev p_addr p_cmd p_send_word p_recv_word =
     syscall m ''smbus_pcall'' K_SYSCALL_SMBUS_PCALL RWord
       [P32 p_dev, P16 p_addr, P8 p_cmd, P16 p_send_word, P32 p_recv_word]"

definition sys_smbus_block_write :: "kmode \<Rightarrow> 32 word \<Rightarrow> 16 word \<Rightarrow> 8 word \<Rightarrow> 8 word \<Rightarrow> 32 word \<Rightarrow>
    kcall" where [outside_defs_b]:
  "sys_smbus_block_write m p_dev p_addr p_cmd p_count p_buf =
     syscall m ''smbus_block_write'' K_SYSCALL_SMBUS_BLOCK_WRITE RWord
       [P32 p_dev, P16 p_addr, P8 p_cmd, P8 p_count, P32 p_buf]"

definition sys_smbus_block_read :: "kmode \<Rightarrow> 32 word \<Rightarrow> 16 word \<Rightarrow> 8 word \<Rightarrow> 32 word \<Rightarrow> 32 word \<Rightarrow>
    kcall" where [outside_defs_b]:
  "sys_smbus_block_read m p_dev p_addr p_cmd p_count p_buf =
     syscall m ''smbus_block_read'' K_SYSCALL_SMBUS_BLOCK_READ RWord
       [P32 p_dev, P16 p_addr, P8 p_cmd, P32 p_count, P32 p_buf]"

definition sys_smbus_block_pcall :: "kmode \<Rightarrow> 32 word \<Rightarrow> 16 word \<Rightarrow> 8 word \<Rightarrow> 8 word \<Rightarrow> 32 word \<Rightarrow>
    32 word \<Rightarrow> 32 word \<Rightarrow> kcall" where [outside_defs_b]:
  "sys_smbus_block_pcall m p_dev p_addr p_cmd p_snd_count p_snd_buf p_rcv_count p_rcv_buf =
     syscall m ''smbus_block_pcall'' K_SYSCALL_SMBUS_BLOCK_PCALL RWord
       [P32 p_dev, P16 p_addr, P8 p_cmd, P8 p_snd_count, P32 p_snd_buf, P32 p_rcv_count,
        P32 p_rcv_buf]"

section \<open>\<^verbatim>\<open>socket_service.h\<close>\<close>

definition sys_net_socket_service_register :: "kmode \<Rightarrow> 32 word \<Rightarrow> 32 word \<Rightarrow> 32 word \<Rightarrow> 32 word
    \<Rightarrow> kcall" where [outside_defs_b]:
  "sys_net_socket_service_register m p_service p_fds p_len p_user_data =
     syscall m ''net_socket_service_register'' K_SYSCALL_NET_SOCKET_SERVICE_REGISTER RWord
       [P32 p_service, P32 p_fds, P32 p_len, P32 p_user_data]"

section \<open>\<^verbatim>\<open>stepper.h\<close>\<close>

definition sys_stepper_enable :: "kmode \<Rightarrow> 32 word \<Rightarrow> kcall" where [outside_defs_b]:
  "sys_stepper_enable m p_dev =
     syscall m ''stepper_enable'' K_SYSCALL_STEPPER_ENABLE RWord
       [P32 p_dev]"

definition sys_stepper_disable :: "kmode \<Rightarrow> 32 word \<Rightarrow> kcall" where [outside_defs_b]:
  "sys_stepper_disable m p_dev =
     syscall m ''stepper_disable'' K_SYSCALL_STEPPER_DISABLE RWord
       [P32 p_dev]"

definition sys_stepper_set_micro_step_res :: "kmode \<Rightarrow> 32 word \<Rightarrow> 16 word \<Rightarrow> kcall" where
    [outside_defs_b]:
  "sys_stepper_set_micro_step_res m p_dev p_resolution =
     syscall m ''stepper_set_micro_step_res'' K_SYSCALL_STEPPER_SET_MICRO_STEP_RES RWord
       [P32 p_dev, PEnum16 p_resolution]"

definition sys_stepper_get_micro_step_res :: "kmode \<Rightarrow> 32 word \<Rightarrow> 32 word \<Rightarrow> kcall" where
    [outside_defs_b]:
  "sys_stepper_get_micro_step_res m p_dev p_resolution =
     syscall m ''stepper_get_micro_step_res'' K_SYSCALL_STEPPER_GET_MICRO_STEP_RES RWord
       [P32 p_dev, P32 p_resolution]"

definition sys_stepper_set_reference_position :: "kmode \<Rightarrow> 32 word \<Rightarrow> 32 word \<Rightarrow> kcall" where
    [outside_defs_b]:
  "sys_stepper_set_reference_position m p_dev p_value =
     syscall m ''stepper_set_reference_position'' K_SYSCALL_STEPPER_SET_REFERENCE_POSITION RWord
       [P32 p_dev, P32 p_value]"

definition sys_stepper_get_actual_position :: "kmode \<Rightarrow> 32 word \<Rightarrow> 32 word \<Rightarrow> kcall" where
    [outside_defs_b]:
  "sys_stepper_get_actual_position m p_dev p_value =
     syscall m ''stepper_get_actual_position'' K_SYSCALL_STEPPER_GET_ACTUAL_POSITION RWord
       [P32 p_dev, P32 p_value]"

definition sys_stepper_set_event_callback :: "kmode \<Rightarrow> 32 word \<Rightarrow> 32 word \<Rightarrow> 32 word \<Rightarrow> kcall"
    where [outside_defs_b]:
  "sys_stepper_set_event_callback m p_dev p_callback p_user_data =
     syscall m ''stepper_set_event_callback'' K_SYSCALL_STEPPER_SET_EVENT_CALLBACK RWord
       [P32 p_dev, P32 p_callback, P32 p_user_data]"

definition sys_stepper_set_microstep_interval :: "kmode \<Rightarrow> 32 word \<Rightarrow> 64 word \<Rightarrow> kcall" where
    [outside_defs_b]:
  "sys_stepper_set_microstep_interval m p_dev p_microstep_interval_ns =
     syscall m ''stepper_set_microstep_interval'' K_SYSCALL_STEPPER_SET_MICROSTEP_INTERVAL RWord
       [P32 p_dev, P64 p_microstep_interval_ns]"

definition sys_stepper_move_by :: "kmode \<Rightarrow> 32 word \<Rightarrow> 32 word \<Rightarrow> kcall" where [outside_defs_b]:
  "sys_stepper_move_by m p_dev p_micro_steps =
     syscall m ''stepper_move_by'' K_SYSCALL_STEPPER_MOVE_BY RWord
       [P32 p_dev, P32 p_micro_steps]"

definition sys_stepper_move_to :: "kmode \<Rightarrow> 32 word \<Rightarrow> 32 word \<Rightarrow> kcall" where [outside_defs_b]:
  "sys_stepper_move_to m p_dev p_micro_steps =
     syscall m ''stepper_move_to'' K_SYSCALL_STEPPER_MOVE_TO RWord
       [P32 p_dev, P32 p_micro_steps]"

definition sys_stepper_run :: "kmode \<Rightarrow> 32 word \<Rightarrow> 8 word \<Rightarrow> kcall" where [outside_defs_b]:
  "sys_stepper_run m p_dev p_direction =
     syscall m ''stepper_run'' K_SYSCALL_STEPPER_RUN RWord
       [P32 p_dev, PEnum p_direction]"

definition sys_stepper_stop :: "kmode \<Rightarrow> 32 word \<Rightarrow> kcall" where [outside_defs_b]:
  "sys_stepper_stop m p_dev =
     syscall m ''stepper_stop'' K_SYSCALL_STEPPER_STOP RWord
       [P32 p_dev]"

definition sys_stepper_is_moving :: "kmode \<Rightarrow> 32 word \<Rightarrow> 32 word \<Rightarrow> kcall" where [outside_defs_b]:
  "sys_stepper_is_moving m p_dev p_is_moving =
     syscall m ''stepper_is_moving'' K_SYSCALL_STEPPER_IS_MOVING RWord
       [P32 p_dev, P32 p_is_moving]"

section \<open>\<^verbatim>\<open>syscon.h\<close>\<close>

definition sys_syscon_get_base :: "kmode \<Rightarrow> 32 word \<Rightarrow> 32 word \<Rightarrow> kcall" where [outside_defs_b]:
  "sys_syscon_get_base m p_dev p_addr =
     syscall m ''syscon_get_base'' K_SYSCALL_SYSCON_GET_BASE RWord
       [P32 p_dev, P32 p_addr]"

definition sys_syscon_read_reg :: "kmode \<Rightarrow> 32 word \<Rightarrow> 16 word \<Rightarrow> 32 word \<Rightarrow> kcall" where
    [outside_defs_b]:
  "sys_syscon_read_reg m p_dev p_reg p_val =
     syscall m ''syscon_read_reg'' K_SYSCALL_SYSCON_READ_REG RWord
       [P32 p_dev, P16 p_reg, P32 p_val]"

definition sys_syscon_write_reg :: "kmode \<Rightarrow> 32 word \<Rightarrow> 16 word \<Rightarrow> 32 word \<Rightarrow> kcall" where
    [outside_defs_b]:
  "sys_syscon_write_reg m p_dev p_reg p_val =
     syscall m ''syscon_write_reg'' K_SYSCALL_SYSCON_WRITE_REG RWord
       [P32 p_dev, P16 p_reg, P32 p_val]"

definition sys_syscon_get_size :: "kmode \<Rightarrow> 32 word \<Rightarrow> 32 word \<Rightarrow> kcall" where [outside_defs_b]:
  "sys_syscon_get_size m p_dev p_size =
     syscall m ''syscon_get_size'' K_SYSCALL_SYSCON_GET_SIZE RWord
       [P32 p_dev, P32 p_size]"

section \<open>\<^verbatim>\<open>tee.h\<close>\<close>

definition sys_tee_get_version :: "kmode \<Rightarrow> 32 word \<Rightarrow> 32 word \<Rightarrow> kcall" where [outside_defs_b]:
  "sys_tee_get_version m p_dev p_info =
     syscall m ''tee_get_version'' K_SYSCALL_TEE_GET_VERSION RWord
       [P32 p_dev, P32 p_info]"

definition sys_tee_open_session :: "kmode \<Rightarrow> 32 word \<Rightarrow> 32 word \<Rightarrow> 32 word \<Rightarrow> 32 word \<Rightarrow> 32 word
    \<Rightarrow> kcall" where [outside_defs_b]:
  "sys_tee_open_session m p_dev p_arg p_num_param p_param p_session_id =
     syscall m ''tee_open_session'' K_SYSCALL_TEE_OPEN_SESSION RWord
       [P32 p_dev, P32 p_arg, P32 p_num_param, P32 p_param, P32 p_session_id]"

definition sys_tee_close_session :: "kmode \<Rightarrow> 32 word \<Rightarrow> 32 word \<Rightarrow> kcall" where [outside_defs_b]:
  "sys_tee_close_session m p_dev p_session_id =
     syscall m ''tee_close_session'' K_SYSCALL_TEE_CLOSE_SESSION RWord
       [P32 p_dev, P32 p_session_id]"

definition sys_tee_cancel :: "kmode \<Rightarrow> 32 word \<Rightarrow> 32 word \<Rightarrow> 32 word \<Rightarrow> kcall" where
    [outside_defs_b]:
  "sys_tee_cancel m p_dev p_session_id p_cancel_id =
     syscall m ''tee_cancel'' K_SYSCALL_TEE_CANCEL RWord
       [P32 p_dev, P32 p_session_id, P32 p_cancel_id]"

definition sys_tee_invoke_func :: "kmode \<Rightarrow> 32 word \<Rightarrow> 32 word \<Rightarrow> 32 word \<Rightarrow> 32 word \<Rightarrow> kcall"
    where [outside_defs_b]:
  "sys_tee_invoke_func m p_dev p_arg p_num_param p_param =
     syscall m ''tee_invoke_func'' K_SYSCALL_TEE_INVOKE_FUNC RWord
       [P32 p_dev, P32 p_arg, P32 p_num_param, P32 p_param]"

definition sys_tee_shm_register :: "kmode \<Rightarrow> 32 word \<Rightarrow> 32 word \<Rightarrow> 32 word \<Rightarrow> 32 word \<Rightarrow> 32 word
    \<Rightarrow> kcall" where [outside_defs_b]:
  "sys_tee_shm_register m p_dev p_addr p_size p_flags p_shm =
     syscall m ''tee_shm_register'' K_SYSCALL_TEE_SHM_REGISTER RWord
       [P32 p_dev, P32 p_addr, P32 p_size, P32 p_flags, P32 p_shm]"

definition sys_tee_shm_unregister :: "kmode \<Rightarrow> 32 word \<Rightarrow> 32 word \<Rightarrow> kcall" where
    [outside_defs_b]:
  "sys_tee_shm_unregister m p_dev p_shm =
     syscall m ''tee_shm_unregister'' K_SYSCALL_TEE_SHM_UNREGISTER RWord
       [P32 p_dev, P32 p_shm]"

definition sys_tee_shm_alloc :: "kmode \<Rightarrow> 32 word \<Rightarrow> 32 word \<Rightarrow> 32 word \<Rightarrow> 32 word \<Rightarrow> kcall" where
    [outside_defs_b]:
  "sys_tee_shm_alloc m p_dev p_size p_flags p_shm =
     syscall m ''tee_shm_alloc'' K_SYSCALL_TEE_SHM_ALLOC RWord
       [P32 p_dev, P32 p_size, P32 p_flags, P32 p_shm]"

definition sys_tee_shm_free :: "kmode \<Rightarrow> 32 word \<Rightarrow> 32 word \<Rightarrow> kcall" where [outside_defs_b]:
  "sys_tee_shm_free m p_dev p_shm =
     syscall m ''tee_shm_free'' K_SYSCALL_TEE_SHM_FREE RWord
       [P32 p_dev, P32 p_shm]"

definition sys_tee_suppl_recv :: "kmode \<Rightarrow> 32 word \<Rightarrow> 32 word \<Rightarrow> 32 word \<Rightarrow> 32 word \<Rightarrow> kcall"
    where [outside_defs_b]:
  "sys_tee_suppl_recv m p_dev p_func p_num_params p_param =
     syscall m ''tee_suppl_recv'' K_SYSCALL_TEE_SUPPL_RECV RWord
       [P32 p_dev, P32 p_func, P32 p_num_params, P32 p_param]"

definition sys_tee_suppl_send :: "kmode \<Rightarrow> 32 word \<Rightarrow> 32 word \<Rightarrow> 32 word \<Rightarrow> 32 word \<Rightarrow> kcall"
    where [outside_defs_b]:
  "sys_tee_suppl_send m p_dev p_ret p_num_params p_param =
     syscall m ''tee_suppl_send'' K_SYSCALL_TEE_SUPPL_SEND RWord
       [P32 p_dev, P32 p_ret, P32 p_num_params, P32 p_param]"

section \<open>\<^verbatim>\<open>timeaware_gpio.h\<close>\<close>

definition sys_tgpio_port_get_time :: "kmode \<Rightarrow> 32 word \<Rightarrow> 32 word \<Rightarrow> kcall" where
    [outside_defs_b]:
  "sys_tgpio_port_get_time m p_dev p_current_time =
     syscall m ''tgpio_port_get_time'' K_SYSCALL_TGPIO_PORT_GET_TIME RWord
       [P32 p_dev, P32 p_current_time]"

definition sys_tgpio_port_get_cycles_per_second :: "kmode \<Rightarrow> 32 word \<Rightarrow> 32 word \<Rightarrow> kcall" where
    [outside_defs_b]:
  "sys_tgpio_port_get_cycles_per_second m p_dev p_cycles =
     syscall m ''tgpio_port_get_cycles_per_second'' K_SYSCALL_TGPIO_PORT_GET_CYCLES_PER_SECOND RWord
       [P32 p_dev, P32 p_cycles]"

definition sys_tgpio_pin_disable :: "kmode \<Rightarrow> 32 word \<Rightarrow> 32 word \<Rightarrow> kcall" where [outside_defs_b]:
  "sys_tgpio_pin_disable m p_dev p_pin =
     syscall m ''tgpio_pin_disable'' K_SYSCALL_TGPIO_PIN_DISABLE RWord
       [P32 p_dev, P32 p_pin]"

definition sys_tgpio_pin_config_ext_timestamp :: "kmode \<Rightarrow> 32 word \<Rightarrow> 32 word \<Rightarrow> 32 word \<Rightarrow> kcall"
    where [outside_defs_b]:
  "sys_tgpio_pin_config_ext_timestamp m p_dev p_pin p_event_polarity =
     syscall m ''tgpio_pin_config_ext_timestamp'' K_SYSCALL_TGPIO_PIN_CONFIG_EXT_TIMESTAMP RWord
       [P32 p_dev, P32 p_pin, P32 p_event_polarity]"

definition sys_tgpio_pin_periodic_output :: "kmode \<Rightarrow> 32 word \<Rightarrow> 32 word \<Rightarrow> 64 word \<Rightarrow> 64 word \<Rightarrow>
    8 word \<Rightarrow> kcall" where [outside_defs_b]:
  "sys_tgpio_pin_periodic_output m p_dev p_pin p_start_time p_repeat_interval p_periodic_enable =
     syscall m ''tgpio_pin_periodic_output'' K_SYSCALL_TGPIO_PIN_PERIODIC_OUTPUT RWord
       [P32 p_dev, P32 p_pin, P64 p_start_time, P64 p_repeat_interval, P8 p_periodic_enable]"

definition sys_tgpio_pin_read_ts_ec :: "kmode \<Rightarrow> 32 word \<Rightarrow> 32 word \<Rightarrow> 32 word \<Rightarrow> 32 word \<Rightarrow>
    kcall" where [outside_defs_b]:
  "sys_tgpio_pin_read_ts_ec m p_dev p_pin p_timestamp p_event_count =
     syscall m ''tgpio_pin_read_ts_ec'' K_SYSCALL_TGPIO_PIN_READ_TS_EC RWord
       [P32 p_dev, P32 p_pin, P32 p_timestamp, P32 p_event_count]"

section \<open>\<^verbatim>\<open>updatehub.h\<close>\<close>

definition sys_updatehub_autohandler :: "kmode \<Rightarrow> kcall" where [outside_defs_b]:
  "sys_updatehub_autohandler m =
     syscall m ''updatehub_autohandler'' K_SYSCALL_UPDATEHUB_AUTOHANDLER RVoid
       []"

definition sys_updatehub_probe :: "kmode \<Rightarrow> kcall" where [outside_defs_b]:
  "sys_updatehub_probe m =
     syscall m ''updatehub_probe'' K_SYSCALL_UPDATEHUB_PROBE RByte
       []"

definition sys_updatehub_update :: "kmode \<Rightarrow> kcall" where [outside_defs_b]:
  "sys_updatehub_update m =
     syscall m ''updatehub_update'' K_SYSCALL_UPDATEHUB_UPDATE RByte
       []"

definition sys_updatehub_confirm :: "kmode \<Rightarrow> kcall" where [outside_defs_b]:
  "sys_updatehub_confirm m =
     syscall m ''updatehub_confirm'' K_SYSCALL_UPDATEHUB_CONFIRM RWord
       []"

definition sys_updatehub_reboot :: "kmode \<Rightarrow> kcall" where [outside_defs_b]:
  "sys_updatehub_reboot m =
     syscall m ''updatehub_reboot'' K_SYSCALL_UPDATEHUB_REBOOT RWord
       []"

section \<open>\<^verbatim>\<open>usb_bc12.h\<close>\<close>

definition sys_bc12_set_role :: "kmode \<Rightarrow> 32 word \<Rightarrow> 8 word \<Rightarrow> kcall" where [outside_defs_b]:
  "sys_bc12_set_role m p_dev p_role =
     syscall m ''bc12_set_role'' K_SYSCALL_BC12_SET_ROLE RWord
       [P32 p_dev, PEnum p_role]"

definition sys_bc12_set_result_cb :: "kmode \<Rightarrow> 32 word \<Rightarrow> 32 word \<Rightarrow> 32 word \<Rightarrow> kcall" where
    [outside_defs_b]:
  "sys_bc12_set_result_cb m p_dev p_cb p_user_data =
     syscall m ''bc12_set_result_cb'' K_SYSCALL_BC12_SET_RESULT_CB RWord
       [P32 p_dev, P32 p_cb, P32 p_user_data]"

section \<open>\<^verbatim>\<open>w1.h\<close>\<close>

definition sys_w1_change_bus_lock :: "kmode \<Rightarrow> 32 word \<Rightarrow> 8 word \<Rightarrow> kcall" where [outside_defs_b]:
  "sys_w1_change_bus_lock m p_dev p_lock =
     syscall m ''w1_change_bus_lock'' K_SYSCALL_W1_CHANGE_BUS_LOCK RWord
       [P32 p_dev, P8 p_lock]"

definition sys_w1_reset_bus :: "kmode \<Rightarrow> 32 word \<Rightarrow> kcall" where [outside_defs_b]:
  "sys_w1_reset_bus m p_dev =
     syscall m ''w1_reset_bus'' K_SYSCALL_W1_RESET_BUS RWord
       [P32 p_dev]"

definition sys_w1_read_bit :: "kmode \<Rightarrow> 32 word \<Rightarrow> kcall" where [outside_defs_b]:
  "sys_w1_read_bit m p_dev =
     syscall m ''w1_read_bit'' K_SYSCALL_W1_READ_BIT RWord
       [P32 p_dev]"

definition sys_w1_write_bit :: "kmode \<Rightarrow> 32 word \<Rightarrow> 8 word \<Rightarrow> kcall" where [outside_defs_b]:
  "sys_w1_write_bit m p_dev p_bit =
     syscall m ''w1_write_bit'' K_SYSCALL_W1_WRITE_BIT RWord
       [P32 p_dev, P8 p_bit]"

definition sys_w1_read_byte :: "kmode \<Rightarrow> 32 word \<Rightarrow> kcall" where [outside_defs_b]:
  "sys_w1_read_byte m p_dev =
     syscall m ''w1_read_byte'' K_SYSCALL_W1_READ_BYTE RWord
       [P32 p_dev]"

definition sys_w1_write_byte :: "kmode \<Rightarrow> 32 word \<Rightarrow> 8 word \<Rightarrow> kcall" where [outside_defs_b]:
  "sys_w1_write_byte m p_dev p_byte =
     syscall m ''w1_write_byte'' K_SYSCALL_W1_WRITE_BYTE RWord
       [P32 p_dev, P8 p_byte]"

definition sys_w1_read_block :: "kmode \<Rightarrow> 32 word \<Rightarrow> 32 word \<Rightarrow> 32 word \<Rightarrow> kcall" where
    [outside_defs_b]:
  "sys_w1_read_block m p_dev p_buffer p_len =
     syscall m ''w1_read_block'' K_SYSCALL_W1_READ_BLOCK RWord
       [P32 p_dev, P32 p_buffer, P32 p_len]"

definition sys_w1_write_block :: "kmode \<Rightarrow> 32 word \<Rightarrow> 32 word \<Rightarrow> 32 word \<Rightarrow> kcall" where
    [outside_defs_b]:
  "sys_w1_write_block m p_dev p_buffer p_len =
     syscall m ''w1_write_block'' K_SYSCALL_W1_WRITE_BLOCK RWord
       [P32 p_dev, P32 p_buffer, P32 p_len]"

definition sys_w1_get_slave_count :: "kmode \<Rightarrow> 32 word \<Rightarrow> kcall" where [outside_defs_b]:
  "sys_w1_get_slave_count m p_dev =
     syscall m ''w1_get_slave_count'' K_SYSCALL_W1_GET_SLAVE_COUNT RWord
       [P32 p_dev]"

definition sys_w1_configure :: "kmode \<Rightarrow> 32 word \<Rightarrow> 8 word \<Rightarrow> 32 word \<Rightarrow> kcall" where
    [outside_defs_b]:
  "sys_w1_configure m p_dev p_type p_value =
     syscall m ''w1_configure'' K_SYSCALL_W1_CONFIGURE RWord
       [P32 p_dev, PEnum p_type, P32 p_value]"

definition sys_w1_search_bus :: "kmode \<Rightarrow> 32 word \<Rightarrow> 8 word \<Rightarrow> 8 word \<Rightarrow> 32 word \<Rightarrow> 32 word \<Rightarrow>
    kcall" where [outside_defs_b]:
  "sys_w1_search_bus m p_dev p_command p_family p_callback p_user_data =
     syscall m ''w1_search_bus'' K_SYSCALL_W1_SEARCH_BUS RWord
       [P32 p_dev, P8 p_command, P8 p_family, P32 p_callback, P32 p_user_data]"

section \<open>\<^verbatim>\<open>watchdog.h\<close>\<close>

definition sys_wdt_setup :: "kmode \<Rightarrow> 32 word \<Rightarrow> 8 word \<Rightarrow> kcall" where [outside_defs_b]:
  "sys_wdt_setup m p_dev p_options =
     syscall m ''wdt_setup'' K_SYSCALL_WDT_SETUP RWord
       [P32 p_dev, P8 p_options]"

definition sys_wdt_disable :: "kmode \<Rightarrow> 32 word \<Rightarrow> kcall" where [outside_defs_b]:
  "sys_wdt_disable m p_dev =
     syscall m ''wdt_disable'' K_SYSCALL_WDT_DISABLE RWord
       [P32 p_dev]"

definition sys_wdt_feed :: "kmode \<Rightarrow> 32 word \<Rightarrow> 32 word \<Rightarrow> kcall" where [outside_defs_b]:
  "sys_wdt_feed m p_dev p_channel_id =
     syscall m ''wdt_feed'' K_SYSCALL_WDT_FEED RWord
       [P32 p_dev, P32 p_channel_id]"

end
