(* ===== verification/Syscall_Exports.thy ===== *)
theory Syscall_Exports
  imports Syscall_Outside_Numbers
begin

text \<open>
  The lists of system calls that the generator writes besides the dispatch table: all names with their
  numbers (\<^verbatim>\<open>zephyr/syscall_list.h\<close> and its copy \<^verbatim>\<open>syscall_list.h\<close> one directory up), the symbols
  exported to loadable extensions (\<^verbatim>\<open>syscall_exports_llext.c\<close>) and their weak definitions
  (\<^verbatim>\<open>syscall_weakdefs_llext.c\<close>).
\<close>

section \<open>Names and numbers\<close>

definition syscall_list_1 :: "(string \<times> nat) list" where
  "syscall_list_1 = [
     (''K_SYSCALL_DEVICE_DEINIT'', K_SYSCALL_DEVICE_DEINIT),
     (''K_SYSCALL_DEVICE_GET_BINDING'', K_SYSCALL_DEVICE_GET_BINDING),
     (''K_SYSCALL_DEVICE_GET_BY_DT_NODELABEL'', K_SYSCALL_DEVICE_GET_BY_DT_NODELABEL),
     (''K_SYSCALL_DEVICE_INIT'', K_SYSCALL_DEVICE_INIT),
     (''K_SYSCALL_DEVICE_IS_READY'', K_SYSCALL_DEVICE_IS_READY),
     (''K_SYSCALL_ENTROPY_GET_ENTROPY'', K_SYSCALL_ENTROPY_GET_ENTROPY),
     (''K_SYSCALL_GPIO_GET_PENDING_INT'', K_SYSCALL_GPIO_GET_PENDING_INT),
     (''K_SYSCALL_GPIO_PIN_CONFIGURE'', K_SYSCALL_GPIO_PIN_CONFIGURE),
     (''K_SYSCALL_GPIO_PIN_GET_CONFIG'', K_SYSCALL_GPIO_PIN_GET_CONFIG),
     (''K_SYSCALL_GPIO_PIN_INTERRUPT_CONFIGURE'', K_SYSCALL_GPIO_PIN_INTERRUPT_CONFIGURE),
     (''K_SYSCALL_GPIO_PORT_CLEAR_BITS_RAW'', K_SYSCALL_GPIO_PORT_CLEAR_BITS_RAW),
     (''K_SYSCALL_GPIO_PORT_GET_DIRECTION'', K_SYSCALL_GPIO_PORT_GET_DIRECTION),
     (''K_SYSCALL_GPIO_PORT_GET_RAW'', K_SYSCALL_GPIO_PORT_GET_RAW),
     (''K_SYSCALL_GPIO_PORT_SET_BITS_RAW'', K_SYSCALL_GPIO_PORT_SET_BITS_RAW),
     (''K_SYSCALL_GPIO_PORT_SET_MASKED_RAW'', K_SYSCALL_GPIO_PORT_SET_MASKED_RAW),
     (''K_SYSCALL_GPIO_PORT_TOGGLE_BITS'', K_SYSCALL_GPIO_PORT_TOGGLE_BITS),
     (''K_SYSCALL_HWINFO_CLEAR_RESET_CAUSE'', K_SYSCALL_HWINFO_CLEAR_RESET_CAUSE),
     (''K_SYSCALL_HWINFO_GET_DEVICE_EUI64'', K_SYSCALL_HWINFO_GET_DEVICE_EUI64),
     (''K_SYSCALL_HWINFO_GET_DEVICE_ID'', K_SYSCALL_HWINFO_GET_DEVICE_ID),
     (''K_SYSCALL_HWINFO_GET_RESET_CAUSE'', K_SYSCALL_HWINFO_GET_RESET_CAUSE),
     (''K_SYSCALL_HWINFO_GET_SUPPORTED_RESET_CAUSE'', K_SYSCALL_HWINFO_GET_SUPPORTED_RESET_CAUSE),
     (''K_SYSCALL_K_BUSY_WAIT'', K_SYSCALL_K_BUSY_WAIT),
     (''K_SYSCALL_K_CONDVAR_BROADCAST'', K_SYSCALL_K_CONDVAR_BROADCAST),
     (''K_SYSCALL_K_CONDVAR_INIT'', K_SYSCALL_K_CONDVAR_INIT),
     (''K_SYSCALL_K_CONDVAR_SIGNAL'', K_SYSCALL_K_CONDVAR_SIGNAL),
     (''K_SYSCALL_K_CONDVAR_WAIT'', K_SYSCALL_K_CONDVAR_WAIT),
     (''K_SYSCALL_K_EVENT_CLEAR'', K_SYSCALL_K_EVENT_CLEAR),
     (''K_SYSCALL_K_EVENT_INIT'', K_SYSCALL_K_EVENT_INIT),
     (''K_SYSCALL_K_EVENT_POST'', K_SYSCALL_K_EVENT_POST),
     (''K_SYSCALL_K_EVENT_SET'', K_SYSCALL_K_EVENT_SET),
     (''K_SYSCALL_K_EVENT_SET_MASKED'', K_SYSCALL_K_EVENT_SET_MASKED),
     (''K_SYSCALL_K_EVENT_WAIT'', K_SYSCALL_K_EVENT_WAIT),
     (''K_SYSCALL_K_EVENT_WAIT_ALL'', K_SYSCALL_K_EVENT_WAIT_ALL),
     (''K_SYSCALL_K_FLOAT_DISABLE'', K_SYSCALL_K_FLOAT_DISABLE),
     (''K_SYSCALL_K_FLOAT_ENABLE'', K_SYSCALL_K_FLOAT_ENABLE),
     (''K_SYSCALL_K_FUTEX_WAIT'', K_SYSCALL_K_FUTEX_WAIT),
     (''K_SYSCALL_K_FUTEX_WAKE'', K_SYSCALL_K_FUTEX_WAKE),
     (''K_SYSCALL_K_IS_PREEMPT_THREAD'', K_SYSCALL_K_IS_PREEMPT_THREAD),
     (''K_SYSCALL_K_MSGQ_ALLOC_INIT'', K_SYSCALL_K_MSGQ_ALLOC_INIT),
     (''K_SYSCALL_K_MSGQ_GET'', K_SYSCALL_K_MSGQ_GET),
     (''K_SYSCALL_K_MSGQ_GET_ATTRS'', K_SYSCALL_K_MSGQ_GET_ATTRS),
     (''K_SYSCALL_K_MSGQ_NUM_FREE_GET'', K_SYSCALL_K_MSGQ_NUM_FREE_GET),
     (''K_SYSCALL_K_MSGQ_NUM_USED_GET'', K_SYSCALL_K_MSGQ_NUM_USED_GET),
     (''K_SYSCALL_K_MSGQ_PEEK'', K_SYSCALL_K_MSGQ_PEEK),
     (''K_SYSCALL_K_MSGQ_PEEK_AT'', K_SYSCALL_K_MSGQ_PEEK_AT),
     (''K_SYSCALL_K_MSGQ_PURGE'', K_SYSCALL_K_MSGQ_PURGE),
     (''K_SYSCALL_K_MSGQ_PUT'', K_SYSCALL_K_MSGQ_PUT),
     (''K_SYSCALL_K_MUTEX_INIT'', K_SYSCALL_K_MUTEX_INIT)]"

definition syscall_list_2 :: "(string \<times> nat) list" where
  "syscall_list_2 = [
     (''K_SYSCALL_K_MUTEX_LOCK'', K_SYSCALL_K_MUTEX_LOCK),
     (''K_SYSCALL_K_MUTEX_UNLOCK'', K_SYSCALL_K_MUTEX_UNLOCK),
     (''K_SYSCALL_K_OBJECT_ACCESS_GRANT'', K_SYSCALL_K_OBJECT_ACCESS_GRANT),
     (''K_SYSCALL_K_OBJECT_ALLOC'', K_SYSCALL_K_OBJECT_ALLOC),
     (''K_SYSCALL_K_OBJECT_ALLOC_SIZE'', K_SYSCALL_K_OBJECT_ALLOC_SIZE),
     (''K_SYSCALL_K_OBJECT_RELEASE'', K_SYSCALL_K_OBJECT_RELEASE),
     (''K_SYSCALL_K_PIPE_ALLOC_INIT'', K_SYSCALL_K_PIPE_ALLOC_INIT),
     (''K_SYSCALL_K_PIPE_BUFFER_FLUSH'', K_SYSCALL_K_PIPE_BUFFER_FLUSH),
     (''K_SYSCALL_K_PIPE_CLOSE'', K_SYSCALL_K_PIPE_CLOSE),
     (''K_SYSCALL_K_PIPE_FLUSH'', K_SYSCALL_K_PIPE_FLUSH),
     (''K_SYSCALL_K_PIPE_GET'', K_SYSCALL_K_PIPE_GET),
     (''K_SYSCALL_K_PIPE_INIT'', K_SYSCALL_K_PIPE_INIT),
     (''K_SYSCALL_K_PIPE_PUT'', K_SYSCALL_K_PIPE_PUT),
     (''K_SYSCALL_K_PIPE_READ'', K_SYSCALL_K_PIPE_READ),
     (''K_SYSCALL_K_PIPE_READ_AVAIL'', K_SYSCALL_K_PIPE_READ_AVAIL),
     (''K_SYSCALL_K_PIPE_RESET'', K_SYSCALL_K_PIPE_RESET),
     (''K_SYSCALL_K_PIPE_WRITE'', K_SYSCALL_K_PIPE_WRITE),
     (''K_SYSCALL_K_PIPE_WRITE_AVAIL'', K_SYSCALL_K_PIPE_WRITE_AVAIL),
     (''K_SYSCALL_K_POLL'', K_SYSCALL_K_POLL),
     (''K_SYSCALL_K_POLL_SIGNAL_CHECK'', K_SYSCALL_K_POLL_SIGNAL_CHECK),
     (''K_SYSCALL_K_POLL_SIGNAL_INIT'', K_SYSCALL_K_POLL_SIGNAL_INIT),
     (''K_SYSCALL_K_POLL_SIGNAL_RAISE'', K_SYSCALL_K_POLL_SIGNAL_RAISE),
     (''K_SYSCALL_K_POLL_SIGNAL_RESET'', K_SYSCALL_K_POLL_SIGNAL_RESET),
     (''K_SYSCALL_K_QUEUE_ALLOC_APPEND'', K_SYSCALL_K_QUEUE_ALLOC_APPEND),
     (''K_SYSCALL_K_QUEUE_ALLOC_PREPEND'', K_SYSCALL_K_QUEUE_ALLOC_PREPEND),
     (''K_SYSCALL_K_QUEUE_CANCEL_WAIT'', K_SYSCALL_K_QUEUE_CANCEL_WAIT),
     (''K_SYSCALL_K_QUEUE_GET'', K_SYSCALL_K_QUEUE_GET),
     (''K_SYSCALL_K_QUEUE_INIT'', K_SYSCALL_K_QUEUE_INIT),
     (''K_SYSCALL_K_QUEUE_IS_EMPTY'', K_SYSCALL_K_QUEUE_IS_EMPTY),
     (''K_SYSCALL_K_QUEUE_PEEK_HEAD'', K_SYSCALL_K_QUEUE_PEEK_HEAD),
     (''K_SYSCALL_K_QUEUE_PEEK_TAIL'', K_SYSCALL_K_QUEUE_PEEK_TAIL),
     (''K_SYSCALL_K_RESCHEDULE'', K_SYSCALL_K_RESCHEDULE),
     (''K_SYSCALL_K_SCHED_CURRENT_THREAD_QUERY'', K_SYSCALL_K_SCHED_CURRENT_THREAD_QUERY),
     (''K_SYSCALL_K_SEM_COUNT_GET'', K_SYSCALL_K_SEM_COUNT_GET),
     (''K_SYSCALL_K_SEM_GIVE'', K_SYSCALL_K_SEM_GIVE),
     (''K_SYSCALL_K_SEM_INIT'', K_SYSCALL_K_SEM_INIT),
     (''K_SYSCALL_K_SEM_RESET'', K_SYSCALL_K_SEM_RESET),
     (''K_SYSCALL_K_SEM_TAKE'', K_SYSCALL_K_SEM_TAKE), (''K_SYSCALL_K_SLEEP'', K_SYSCALL_K_SLEEP),
     (''K_SYSCALL_K_STACK_ALLOC_INIT'', K_SYSCALL_K_STACK_ALLOC_INIT),
     (''K_SYSCALL_K_STACK_POP'', K_SYSCALL_K_STACK_POP),
     (''K_SYSCALL_K_STACK_PUSH'', K_SYSCALL_K_STACK_PUSH),
     (''K_SYSCALL_K_STR_OUT'', K_SYSCALL_K_STR_OUT),
     (''K_SYSCALL_K_THREAD_ABORT'', K_SYSCALL_K_THREAD_ABORT),
     (''K_SYSCALL_K_THREAD_CREATE'', K_SYSCALL_K_THREAD_CREATE),
     (''K_SYSCALL_K_THREAD_CUSTOM_DATA_GET'', K_SYSCALL_K_THREAD_CUSTOM_DATA_GET),
     (''K_SYSCALL_K_THREAD_CUSTOM_DATA_SET'', K_SYSCALL_K_THREAD_CUSTOM_DATA_SET),
     (''K_SYSCALL_K_THREAD_DEADLINE_SET'', K_SYSCALL_K_THREAD_DEADLINE_SET)]"

definition syscall_list_3 :: "(string \<times> nat) list" where
  "syscall_list_3 = [
     (''K_SYSCALL_K_THREAD_JOIN'', K_SYSCALL_K_THREAD_JOIN),
     (''K_SYSCALL_K_THREAD_NAME_COPY'', K_SYSCALL_K_THREAD_NAME_COPY),
     (''K_SYSCALL_K_THREAD_NAME_SET'', K_SYSCALL_K_THREAD_NAME_SET),
     (''K_SYSCALL_K_THREAD_PRIORITY_GET'', K_SYSCALL_K_THREAD_PRIORITY_GET),
     (''K_SYSCALL_K_THREAD_PRIORITY_SET'', K_SYSCALL_K_THREAD_PRIORITY_SET),
     (''K_SYSCALL_K_THREAD_RESUME'', K_SYSCALL_K_THREAD_RESUME),
     (''K_SYSCALL_K_THREAD_STACK_ALLOC'', K_SYSCALL_K_THREAD_STACK_ALLOC),
     (''K_SYSCALL_K_THREAD_STACK_FREE'', K_SYSCALL_K_THREAD_STACK_FREE),
     (''K_SYSCALL_K_THREAD_STACK_SPACE_GET'', K_SYSCALL_K_THREAD_STACK_SPACE_GET),
     (''K_SYSCALL_K_THREAD_SUSPEND'', K_SYSCALL_K_THREAD_SUSPEND),
     (''K_SYSCALL_K_THREAD_TIMEOUT_EXPIRES_TICKS'', K_SYSCALL_K_THREAD_TIMEOUT_EXPIRES_TICKS),
     (''K_SYSCALL_K_THREAD_TIMEOUT_REMAINING_TICKS'', K_SYSCALL_K_THREAD_TIMEOUT_REMAINING_TICKS),
     (''K_SYSCALL_K_TIMER_EXPIRES_TICKS'', K_SYSCALL_K_TIMER_EXPIRES_TICKS),
     (''K_SYSCALL_K_TIMER_REMAINING_TICKS'', K_SYSCALL_K_TIMER_REMAINING_TICKS),
     (''K_SYSCALL_K_TIMER_START'', K_SYSCALL_K_TIMER_START),
     (''K_SYSCALL_K_TIMER_STATUS_GET'', K_SYSCALL_K_TIMER_STATUS_GET),
     (''K_SYSCALL_K_TIMER_STATUS_SYNC'', K_SYSCALL_K_TIMER_STATUS_SYNC),
     (''K_SYSCALL_K_TIMER_STOP'', K_SYSCALL_K_TIMER_STOP),
     (''K_SYSCALL_K_TIMER_USER_DATA_GET'', K_SYSCALL_K_TIMER_USER_DATA_GET),
     (''K_SYSCALL_K_TIMER_USER_DATA_SET'', K_SYSCALL_K_TIMER_USER_DATA_SET),
     (''K_SYSCALL_K_UPTIME_TICKS'', K_SYSCALL_K_UPTIME_TICKS),
     (''K_SYSCALL_K_USLEEP'', K_SYSCALL_K_USLEEP), (''K_SYSCALL_K_WAKEUP'', K_SYSCALL_K_WAKEUP),
     (''K_SYSCALL_K_YIELD'', K_SYSCALL_K_YIELD),
     (''K_SYSCALL_LOG_BUFFERED_CNT'', K_SYSCALL_LOG_BUFFERED_CNT),
     (''K_SYSCALL_LOG_FILTER_SET'', K_SYSCALL_LOG_FILTER_SET),
     (''K_SYSCALL_LOG_FRONTEND_FILTER_SET'', K_SYSCALL_LOG_FRONTEND_FILTER_SET),
     (''K_SYSCALL_LOG_PANIC'', K_SYSCALL_LOG_PANIC),
     (''K_SYSCALL_LOG_PROCESS'', K_SYSCALL_LOG_PROCESS),
     (''K_SYSCALL_NET_ADDR_NTOP'', K_SYSCALL_NET_ADDR_NTOP),
     (''K_SYSCALL_NET_ADDR_PTON'', K_SYSCALL_NET_ADDR_PTON),
     (''K_SYSCALL_NET_ETH_GET_PTP_CLOCK_BY_INDEX'', K_SYSCALL_NET_ETH_GET_PTP_CLOCK_BY_INDEX),
     (''K_SYSCALL_NET_IF_GET_BY_INDEX'', K_SYSCALL_NET_IF_GET_BY_INDEX),
     (''K_SYSCALL_NET_IF_IPV4_ADDR_ADD_BY_INDEX'', K_SYSCALL_NET_IF_IPV4_ADDR_ADD_BY_INDEX),
     (''K_SYSCALL_NET_IF_IPV4_ADDR_LOOKUP_BY_INDEX'', K_SYSCALL_NET_IF_IPV4_ADDR_LOOKUP_BY_INDEX),
     (''K_SYSCALL_NET_IF_IPV4_ADDR_RM_BY_INDEX'', K_SYSCALL_NET_IF_IPV4_ADDR_RM_BY_INDEX),
     (''K_SYSCALL_NET_IF_IPV4_SET_GW_BY_INDEX'', K_SYSCALL_NET_IF_IPV4_SET_GW_BY_INDEX),
     (''K_SYSCALL_NET_IF_IPV4_SET_NETMASK_BY_ADDR_BY_INDEX'', K_SYSCALL_NET_IF_IPV4_SET_NETMASK_BY_ADDR_BY_INDEX),
     (''K_SYSCALL_NET_IF_IPV4_SET_NETMASK_BY_INDEX'', K_SYSCALL_NET_IF_IPV4_SET_NETMASK_BY_INDEX),
     (''K_SYSCALL_NET_IF_IPV6_ADDR_ADD_BY_INDEX'', K_SYSCALL_NET_IF_IPV6_ADDR_ADD_BY_INDEX),
     (''K_SYSCALL_NET_IF_IPV6_ADDR_LOOKUP_BY_INDEX'', K_SYSCALL_NET_IF_IPV6_ADDR_LOOKUP_BY_INDEX),
     (''K_SYSCALL_NET_IF_IPV6_ADDR_RM_BY_INDEX'', K_SYSCALL_NET_IF_IPV6_ADDR_RM_BY_INDEX),
     (''K_SYSCALL_SPI_RELEASE'', K_SYSCALL_SPI_RELEASE),
     (''K_SYSCALL_SPI_TRANSCEIVE'', K_SYSCALL_SPI_TRANSCEIVE),
     (''K_SYSCALL_SYS_CLOCK_HW_CYCLES_PER_SEC_RUNTIME_GET'', K_SYSCALL_SYS_CLOCK_HW_CYCLES_PER_SEC_RUNTIME_GET),
     (''K_SYSCALL_SYS_CSRAND_GET'', K_SYSCALL_SYS_CSRAND_GET),
     (''K_SYSCALL_SYS_RAND_GET'', K_SYSCALL_SYS_RAND_GET),
     (''K_SYSCALL_UART_CONFIGURE'', K_SYSCALL_UART_CONFIGURE)]"

definition syscall_list_4 :: "(string \<times> nat) list" where
  "syscall_list_4 = [
     (''K_SYSCALL_UART_CONFIG_GET'', K_SYSCALL_UART_CONFIG_GET),
     (''K_SYSCALL_UART_DRV_CMD'', K_SYSCALL_UART_DRV_CMD),
     (''K_SYSCALL_UART_ERR_CHECK'', K_SYSCALL_UART_ERR_CHECK),
     (''K_SYSCALL_UART_IRQ_ERR_DISABLE'', K_SYSCALL_UART_IRQ_ERR_DISABLE),
     (''K_SYSCALL_UART_IRQ_ERR_ENABLE'', K_SYSCALL_UART_IRQ_ERR_ENABLE),
     (''K_SYSCALL_UART_IRQ_IS_PENDING'', K_SYSCALL_UART_IRQ_IS_PENDING),
     (''K_SYSCALL_UART_IRQ_RX_DISABLE'', K_SYSCALL_UART_IRQ_RX_DISABLE),
     (''K_SYSCALL_UART_IRQ_RX_ENABLE'', K_SYSCALL_UART_IRQ_RX_ENABLE),
     (''K_SYSCALL_UART_IRQ_TX_DISABLE'', K_SYSCALL_UART_IRQ_TX_DISABLE),
     (''K_SYSCALL_UART_IRQ_TX_ENABLE'', K_SYSCALL_UART_IRQ_TX_ENABLE),
     (''K_SYSCALL_UART_IRQ_UPDATE'', K_SYSCALL_UART_IRQ_UPDATE),
     (''K_SYSCALL_UART_LINE_CTRL_GET'', K_SYSCALL_UART_LINE_CTRL_GET),
     (''K_SYSCALL_UART_LINE_CTRL_SET'', K_SYSCALL_UART_LINE_CTRL_SET),
     (''K_SYSCALL_UART_POLL_IN'', K_SYSCALL_UART_POLL_IN),
     (''K_SYSCALL_UART_POLL_IN_U16'', K_SYSCALL_UART_POLL_IN_U16),
     (''K_SYSCALL_UART_POLL_OUT'', K_SYSCALL_UART_POLL_OUT),
     (''K_SYSCALL_UART_POLL_OUT_U16'', K_SYSCALL_UART_POLL_OUT_U16),
     (''K_SYSCALL_UART_RX_DISABLE'', K_SYSCALL_UART_RX_DISABLE),
     (''K_SYSCALL_UART_RX_ENABLE'', K_SYSCALL_UART_RX_ENABLE),
     (''K_SYSCALL_UART_RX_ENABLE_U16'', K_SYSCALL_UART_RX_ENABLE_U16),
     (''K_SYSCALL_UART_TX'', K_SYSCALL_UART_TX),
     (''K_SYSCALL_UART_TX_ABORT'', K_SYSCALL_UART_TX_ABORT),
     (''K_SYSCALL_UART_TX_U16'', K_SYSCALL_UART_TX_U16),
     (''K_SYSCALL_ZEPHYR_FPUTC'', K_SYSCALL_ZEPHYR_FPUTC),
     (''K_SYSCALL_ZEPHYR_FWRITE'', K_SYSCALL_ZEPHYR_FWRITE),
     (''K_SYSCALL_ZEPHYR_READ_STDIN'', K_SYSCALL_ZEPHYR_READ_STDIN),
     (''K_SYSCALL_ZEPHYR_WRITE_STDOUT'', K_SYSCALL_ZEPHYR_WRITE_STDOUT),
     (''K_SYSCALL_ZSOCK_ACCEPT'', K_SYSCALL_ZSOCK_ACCEPT),
     (''K_SYSCALL_ZSOCK_BIND'', K_SYSCALL_ZSOCK_BIND),
     (''K_SYSCALL_ZSOCK_CLOSE'', K_SYSCALL_ZSOCK_CLOSE),
     (''K_SYSCALL_ZSOCK_CONNECT'', K_SYSCALL_ZSOCK_CONNECT),
     (''K_SYSCALL_ZSOCK_FCNTL_IMPL'', K_SYSCALL_ZSOCK_FCNTL_IMPL),
     (''K_SYSCALL_ZSOCK_GETHOSTNAME'', K_SYSCALL_ZSOCK_GETHOSTNAME),
     (''K_SYSCALL_ZSOCK_GETPEERNAME'', K_SYSCALL_ZSOCK_GETPEERNAME),
     (''K_SYSCALL_ZSOCK_GETSOCKNAME'', K_SYSCALL_ZSOCK_GETSOCKNAME),
     (''K_SYSCALL_ZSOCK_GETSOCKOPT'', K_SYSCALL_ZSOCK_GETSOCKOPT),
     (''K_SYSCALL_ZSOCK_GET_CONTEXT_OBJECT'', K_SYSCALL_ZSOCK_GET_CONTEXT_OBJECT),
     (''K_SYSCALL_ZSOCK_INET_PTON'', K_SYSCALL_ZSOCK_INET_PTON),
     (''K_SYSCALL_ZSOCK_IOCTL_IMPL'', K_SYSCALL_ZSOCK_IOCTL_IMPL),
     (''K_SYSCALL_ZSOCK_LISTEN'', K_SYSCALL_ZSOCK_LISTEN),
     (''K_SYSCALL_ZSOCK_RECVFROM'', K_SYSCALL_ZSOCK_RECVFROM),
     (''K_SYSCALL_ZSOCK_RECVMSG'', K_SYSCALL_ZSOCK_RECVMSG),
     (''K_SYSCALL_ZSOCK_SENDMSG'', K_SYSCALL_ZSOCK_SENDMSG),
     (''K_SYSCALL_ZSOCK_SENDTO'', K_SYSCALL_ZSOCK_SENDTO),
     (''K_SYSCALL_ZSOCK_SETSOCKOPT'', K_SYSCALL_ZSOCK_SETSOCKOPT),
     (''K_SYSCALL_ZSOCK_SHUTDOWN'', K_SYSCALL_ZSOCK_SHUTDOWN),
     (''K_SYSCALL_ZSOCK_SOCKET'', K_SYSCALL_ZSOCK_SOCKET),
     (''K_SYSCALL_ZSOCK_SOCKETPAIR'', K_SYSCALL_ZSOCK_SOCKETPAIR)]"

definition syscall_list_5 :: "(string \<times> nat) list" where
  "syscall_list_5 = [
     (''K_SYSCALL_ZVFS_POLL'', K_SYSCALL_ZVFS_POLL),
     (''K_SYSCALL_ZVFS_SELECT'', K_SYSCALL_ZVFS_SELECT),
     (''K_SYSCALL_Z_LOG_MSG_SIMPLE_CREATE_0'', K_SYSCALL_Z_LOG_MSG_SIMPLE_CREATE_0),
     (''K_SYSCALL_Z_LOG_MSG_SIMPLE_CREATE_1'', K_SYSCALL_Z_LOG_MSG_SIMPLE_CREATE_1),
     (''K_SYSCALL_Z_LOG_MSG_SIMPLE_CREATE_2'', K_SYSCALL_Z_LOG_MSG_SIMPLE_CREATE_2),
     (''K_SYSCALL_Z_LOG_MSG_STATIC_CREATE'', K_SYSCALL_Z_LOG_MSG_STATIC_CREATE),
     (''K_SYSCALL_Z_SYS_MUTEX_KERNEL_LOCK'', K_SYSCALL_Z_SYS_MUTEX_KERNEL_LOCK),
     (''K_SYSCALL_Z_SYS_MUTEX_KERNEL_UNLOCK'', K_SYSCALL_Z_SYS_MUTEX_KERNEL_UNLOCK),
     (''K_SYSCALL_Z_ZSOCK_GETADDRINFO_INTERNAL'', K_SYSCALL_Z_ZSOCK_GETADDRINFO_INTERNAL),
     (''K_SYSCALL___POSIX_CLOCK_GET_BASE'', K_SYSCALL___POSIX_CLOCK_GET_BASE),
     (''K_SYSCALL_BAD'', K_SYSCALL_BAD), (''K_SYSCALL_LIMIT'', K_SYSCALL_LIMIT),
     (''K_SYSCALL_ADC_CHANNEL_SETUP'', K_SYSCALL_ADC_CHANNEL_SETUP),
     (''K_SYSCALL_ADC_READ'', K_SYSCALL_ADC_READ),
     (''K_SYSCALL_ADC_READ_ASYNC'', K_SYSCALL_ADC_READ_ASYNC),
     (''K_SYSCALL_ATOMIC_ADD'', K_SYSCALL_ATOMIC_ADD),
     (''K_SYSCALL_ATOMIC_AND'', K_SYSCALL_ATOMIC_AND),
     (''K_SYSCALL_ATOMIC_CAS'', K_SYSCALL_ATOMIC_CAS),
     (''K_SYSCALL_ATOMIC_NAND'', K_SYSCALL_ATOMIC_NAND),
     (''K_SYSCALL_ATOMIC_OR'', K_SYSCALL_ATOMIC_OR),
     (''K_SYSCALL_ATOMIC_PTR_CAS'', K_SYSCALL_ATOMIC_PTR_CAS),
     (''K_SYSCALL_ATOMIC_PTR_SET'', K_SYSCALL_ATOMIC_PTR_SET),
     (''K_SYSCALL_ATOMIC_SET'', K_SYSCALL_ATOMIC_SET),
     (''K_SYSCALL_ATOMIC_SUB'', K_SYSCALL_ATOMIC_SUB),
     (''K_SYSCALL_ATOMIC_XOR'', K_SYSCALL_ATOMIC_XOR),
     (''K_SYSCALL_AUXDISPLAY_BACKLIGHT_GET'', K_SYSCALL_AUXDISPLAY_BACKLIGHT_GET),
     (''K_SYSCALL_AUXDISPLAY_BACKLIGHT_SET'', K_SYSCALL_AUXDISPLAY_BACKLIGHT_SET),
     (''K_SYSCALL_AUXDISPLAY_BRIGHTNESS_GET'', K_SYSCALL_AUXDISPLAY_BRIGHTNESS_GET),
     (''K_SYSCALL_AUXDISPLAY_BRIGHTNESS_SET'', K_SYSCALL_AUXDISPLAY_BRIGHTNESS_SET),
     (''K_SYSCALL_AUXDISPLAY_CAPABILITIES_GET'', K_SYSCALL_AUXDISPLAY_CAPABILITIES_GET),
     (''K_SYSCALL_AUXDISPLAY_CLEAR'', K_SYSCALL_AUXDISPLAY_CLEAR),
     (''K_SYSCALL_AUXDISPLAY_CURSOR_POSITION_GET'', K_SYSCALL_AUXDISPLAY_CURSOR_POSITION_GET),
     (''K_SYSCALL_AUXDISPLAY_CURSOR_POSITION_SET'', K_SYSCALL_AUXDISPLAY_CURSOR_POSITION_SET),
     (''K_SYSCALL_AUXDISPLAY_CURSOR_SET_ENABLED'', K_SYSCALL_AUXDISPLAY_CURSOR_SET_ENABLED),
     (''K_SYSCALL_AUXDISPLAY_CURSOR_SHIFT_SET'', K_SYSCALL_AUXDISPLAY_CURSOR_SHIFT_SET),
     (''K_SYSCALL_AUXDISPLAY_CUSTOM_CHARACTER_SET'', K_SYSCALL_AUXDISPLAY_CUSTOM_CHARACTER_SET),
     (''K_SYSCALL_AUXDISPLAY_CUSTOM_COMMAND'', K_SYSCALL_AUXDISPLAY_CUSTOM_COMMAND),
     (''K_SYSCALL_AUXDISPLAY_DISPLAY_OFF'', K_SYSCALL_AUXDISPLAY_DISPLAY_OFF),
     (''K_SYSCALL_AUXDISPLAY_DISPLAY_ON'', K_SYSCALL_AUXDISPLAY_DISPLAY_ON),
     (''K_SYSCALL_AUXDISPLAY_DISPLAY_POSITION_GET'', K_SYSCALL_AUXDISPLAY_DISPLAY_POSITION_GET),
     (''K_SYSCALL_AUXDISPLAY_DISPLAY_POSITION_SET'', K_SYSCALL_AUXDISPLAY_DISPLAY_POSITION_SET),
     (''K_SYSCALL_AUXDISPLAY_IS_BUSY'', K_SYSCALL_AUXDISPLAY_IS_BUSY),
     (''K_SYSCALL_AUXDISPLAY_POSITION_BLINKING_SET_ENABLED'', K_SYSCALL_AUXDISPLAY_POSITION_BLINKING_SET_ENABLED),
     (''K_SYSCALL_AUXDISPLAY_WRITE'', K_SYSCALL_AUXDISPLAY_WRITE),
     (''K_SYSCALL_BBRAM_CHECK_INVALID'', K_SYSCALL_BBRAM_CHECK_INVALID),
     (''K_SYSCALL_BBRAM_CHECK_POWER'', K_SYSCALL_BBRAM_CHECK_POWER),
     (''K_SYSCALL_BBRAM_CHECK_STANDBY_POWER'', K_SYSCALL_BBRAM_CHECK_STANDBY_POWER),
     (''K_SYSCALL_BBRAM_GET_SIZE'', K_SYSCALL_BBRAM_GET_SIZE)]"

definition syscall_list_6 :: "(string \<times> nat) list" where
  "syscall_list_6 = [
     (''K_SYSCALL_BBRAM_READ'', K_SYSCALL_BBRAM_READ),
     (''K_SYSCALL_BBRAM_WRITE'', K_SYSCALL_BBRAM_WRITE),
     (''K_SYSCALL_BC12_SET_RESULT_CB'', K_SYSCALL_BC12_SET_RESULT_CB),
     (''K_SYSCALL_BC12_SET_ROLE'', K_SYSCALL_BC12_SET_ROLE),
     (''K_SYSCALL_CAN_ADD_RX_FILTER_MSGQ'', K_SYSCALL_CAN_ADD_RX_FILTER_MSGQ),
     (''K_SYSCALL_CAN_CALC_TIMING'', K_SYSCALL_CAN_CALC_TIMING),
     (''K_SYSCALL_CAN_CALC_TIMING_DATA'', K_SYSCALL_CAN_CALC_TIMING_DATA),
     (''K_SYSCALL_CAN_GET_BITRATE_MAX'', K_SYSCALL_CAN_GET_BITRATE_MAX),
     (''K_SYSCALL_CAN_GET_BITRATE_MIN'', K_SYSCALL_CAN_GET_BITRATE_MIN),
     (''K_SYSCALL_CAN_GET_CAPABILITIES'', K_SYSCALL_CAN_GET_CAPABILITIES),
     (''K_SYSCALL_CAN_GET_CORE_CLOCK'', K_SYSCALL_CAN_GET_CORE_CLOCK),
     (''K_SYSCALL_CAN_GET_MAX_FILTERS'', K_SYSCALL_CAN_GET_MAX_FILTERS),
     (''K_SYSCALL_CAN_GET_MODE'', K_SYSCALL_CAN_GET_MODE),
     (''K_SYSCALL_CAN_GET_STATE'', K_SYSCALL_CAN_GET_STATE),
     (''K_SYSCALL_CAN_GET_TIMING_DATA_MAX'', K_SYSCALL_CAN_GET_TIMING_DATA_MAX),
     (''K_SYSCALL_CAN_GET_TIMING_DATA_MIN'', K_SYSCALL_CAN_GET_TIMING_DATA_MIN),
     (''K_SYSCALL_CAN_GET_TIMING_MAX'', K_SYSCALL_CAN_GET_TIMING_MAX),
     (''K_SYSCALL_CAN_GET_TIMING_MIN'', K_SYSCALL_CAN_GET_TIMING_MIN),
     (''K_SYSCALL_CAN_GET_TRANSCEIVER'', K_SYSCALL_CAN_GET_TRANSCEIVER),
     (''K_SYSCALL_CAN_RECOVER'', K_SYSCALL_CAN_RECOVER),
     (''K_SYSCALL_CAN_REMOVE_RX_FILTER'', K_SYSCALL_CAN_REMOVE_RX_FILTER),
     (''K_SYSCALL_CAN_SEND'', K_SYSCALL_CAN_SEND),
     (''K_SYSCALL_CAN_SET_BITRATE'', K_SYSCALL_CAN_SET_BITRATE),
     (''K_SYSCALL_CAN_SET_BITRATE_DATA'', K_SYSCALL_CAN_SET_BITRATE_DATA),
     (''K_SYSCALL_CAN_SET_MODE'', K_SYSCALL_CAN_SET_MODE),
     (''K_SYSCALL_CAN_SET_TIMING'', K_SYSCALL_CAN_SET_TIMING),
     (''K_SYSCALL_CAN_SET_TIMING_DATA'', K_SYSCALL_CAN_SET_TIMING_DATA),
     (''K_SYSCALL_CAN_START'', K_SYSCALL_CAN_START),
     (''K_SYSCALL_CAN_STATS_GET_ACK_ERRORS'', K_SYSCALL_CAN_STATS_GET_ACK_ERRORS),
     (''K_SYSCALL_CAN_STATS_GET_BIT0_ERRORS'', K_SYSCALL_CAN_STATS_GET_BIT0_ERRORS),
     (''K_SYSCALL_CAN_STATS_GET_BIT1_ERRORS'', K_SYSCALL_CAN_STATS_GET_BIT1_ERRORS),
     (''K_SYSCALL_CAN_STATS_GET_BIT_ERRORS'', K_SYSCALL_CAN_STATS_GET_BIT_ERRORS),
     (''K_SYSCALL_CAN_STATS_GET_CRC_ERRORS'', K_SYSCALL_CAN_STATS_GET_CRC_ERRORS),
     (''K_SYSCALL_CAN_STATS_GET_FORM_ERRORS'', K_SYSCALL_CAN_STATS_GET_FORM_ERRORS),
     (''K_SYSCALL_CAN_STATS_GET_RX_OVERRUNS'', K_SYSCALL_CAN_STATS_GET_RX_OVERRUNS),
     (''K_SYSCALL_CAN_STATS_GET_STUFF_ERRORS'', K_SYSCALL_CAN_STATS_GET_STUFF_ERRORS),
     (''K_SYSCALL_CAN_STOP'', K_SYSCALL_CAN_STOP),
     (''K_SYSCALL_CHARGER_CHARGE_ENABLE'', K_SYSCALL_CHARGER_CHARGE_ENABLE),
     (''K_SYSCALL_CHARGER_GET_PROP'', K_SYSCALL_CHARGER_GET_PROP),
     (''K_SYSCALL_CHARGER_SET_PROP'', K_SYSCALL_CHARGER_SET_PROP),
     (''K_SYSCALL_COMPARATOR_GET_OUTPUT'', K_SYSCALL_COMPARATOR_GET_OUTPUT),
     (''K_SYSCALL_COMPARATOR_SET_TRIGGER'', K_SYSCALL_COMPARATOR_SET_TRIGGER),
     (''K_SYSCALL_COMPARATOR_TRIGGER_IS_PENDING'', K_SYSCALL_COMPARATOR_TRIGGER_IS_PENDING),
     (''K_SYSCALL_COUNTER_CANCEL_CHANNEL_ALARM'', K_SYSCALL_COUNTER_CANCEL_CHANNEL_ALARM),
     (''K_SYSCALL_COUNTER_GET_FREQUENCY'', K_SYSCALL_COUNTER_GET_FREQUENCY),
     (''K_SYSCALL_COUNTER_GET_GUARD_PERIOD'', K_SYSCALL_COUNTER_GET_GUARD_PERIOD),
     (''K_SYSCALL_COUNTER_GET_MAX_TOP_VALUE'', K_SYSCALL_COUNTER_GET_MAX_TOP_VALUE),
     (''K_SYSCALL_COUNTER_GET_NUM_OF_CHANNELS'', K_SYSCALL_COUNTER_GET_NUM_OF_CHANNELS)]"

definition syscall_list_7 :: "(string \<times> nat) list" where
  "syscall_list_7 = [
     (''K_SYSCALL_COUNTER_GET_PENDING_INT'', K_SYSCALL_COUNTER_GET_PENDING_INT),
     (''K_SYSCALL_COUNTER_GET_TOP_VALUE'', K_SYSCALL_COUNTER_GET_TOP_VALUE),
     (''K_SYSCALL_COUNTER_GET_VALUE'', K_SYSCALL_COUNTER_GET_VALUE),
     (''K_SYSCALL_COUNTER_GET_VALUE_64'', K_SYSCALL_COUNTER_GET_VALUE_64),
     (''K_SYSCALL_COUNTER_IS_COUNTING_UP'', K_SYSCALL_COUNTER_IS_COUNTING_UP),
     (''K_SYSCALL_COUNTER_RESET'', K_SYSCALL_COUNTER_RESET),
     (''K_SYSCALL_COUNTER_SET_CHANNEL_ALARM'', K_SYSCALL_COUNTER_SET_CHANNEL_ALARM),
     (''K_SYSCALL_COUNTER_SET_GUARD_PERIOD'', K_SYSCALL_COUNTER_SET_GUARD_PERIOD),
     (''K_SYSCALL_COUNTER_SET_TOP_VALUE'', K_SYSCALL_COUNTER_SET_TOP_VALUE),
     (''K_SYSCALL_COUNTER_START'', K_SYSCALL_COUNTER_START),
     (''K_SYSCALL_COUNTER_STOP'', K_SYSCALL_COUNTER_STOP),
     (''K_SYSCALL_COUNTER_TICKS_TO_US'', K_SYSCALL_COUNTER_TICKS_TO_US),
     (''K_SYSCALL_COUNTER_US_TO_TICKS'', K_SYSCALL_COUNTER_US_TO_TICKS),
     (''K_SYSCALL_DAC_CHANNEL_SETUP'', K_SYSCALL_DAC_CHANNEL_SETUP),
     (''K_SYSCALL_DAC_WRITE_VALUE'', K_SYSCALL_DAC_WRITE_VALUE),
     (''K_SYSCALL_DEVMUX_SELECT_GET'', K_SYSCALL_DEVMUX_SELECT_GET),
     (''K_SYSCALL_DEVMUX_SELECT_SET'', K_SYSCALL_DEVMUX_SELECT_SET),
     (''K_SYSCALL_DMA_CHAN_FILTER'', K_SYSCALL_DMA_CHAN_FILTER),
     (''K_SYSCALL_DMA_RELEASE_CHANNEL'', K_SYSCALL_DMA_RELEASE_CHANNEL),
     (''K_SYSCALL_DMA_REQUEST_CHANNEL'', K_SYSCALL_DMA_REQUEST_CHANNEL),
     (''K_SYSCALL_DMA_RESUME'', K_SYSCALL_DMA_RESUME),
     (''K_SYSCALL_DMA_START'', K_SYSCALL_DMA_START), (''K_SYSCALL_DMA_STOP'', K_SYSCALL_DMA_STOP),
     (''K_SYSCALL_DMA_SUSPEND'', K_SYSCALL_DMA_SUSPEND),
     (''K_SYSCALL_EEPROM_GET_SIZE'', K_SYSCALL_EEPROM_GET_SIZE),
     (''K_SYSCALL_EEPROM_READ'', K_SYSCALL_EEPROM_READ),
     (''K_SYSCALL_EEPROM_WRITE'', K_SYSCALL_EEPROM_WRITE),
     (''K_SYSCALL_EMUL_FUEL_GAUGE_IS_BATTERY_CUTOFF'', K_SYSCALL_EMUL_FUEL_GAUGE_IS_BATTERY_CUTOFF),
     (''K_SYSCALL_EMUL_FUEL_GAUGE_SET_BATTERY_CHARGING'', K_SYSCALL_EMUL_FUEL_GAUGE_SET_BATTERY_CHARGING),
     (''K_SYSCALL_ESPI_CONFIG'', K_SYSCALL_ESPI_CONFIG),
     (''K_SYSCALL_ESPI_FLASH_ERASE'', K_SYSCALL_ESPI_FLASH_ERASE),
     (''K_SYSCALL_ESPI_GET_CHANNEL_STATUS'', K_SYSCALL_ESPI_GET_CHANNEL_STATUS),
     (''K_SYSCALL_ESPI_READ_FLASH'', K_SYSCALL_ESPI_READ_FLASH),
     (''K_SYSCALL_ESPI_READ_LPC_REQUEST'', K_SYSCALL_ESPI_READ_LPC_REQUEST),
     (''K_SYSCALL_ESPI_READ_REQUEST'', K_SYSCALL_ESPI_READ_REQUEST),
     (''K_SYSCALL_ESPI_RECEIVE_OOB'', K_SYSCALL_ESPI_RECEIVE_OOB),
     (''K_SYSCALL_ESPI_RECEIVE_VWIRE'', K_SYSCALL_ESPI_RECEIVE_VWIRE),
     (''K_SYSCALL_ESPI_SAF_ACTIVATE'', K_SYSCALL_ESPI_SAF_ACTIVATE),
     (''K_SYSCALL_ESPI_SAF_CONFIG'', K_SYSCALL_ESPI_SAF_CONFIG),
     (''K_SYSCALL_ESPI_SAF_FLASH_ERASE'', K_SYSCALL_ESPI_SAF_FLASH_ERASE),
     (''K_SYSCALL_ESPI_SAF_FLASH_READ'', K_SYSCALL_ESPI_SAF_FLASH_READ),
     (''K_SYSCALL_ESPI_SAF_FLASH_UNSUCCESS'', K_SYSCALL_ESPI_SAF_FLASH_UNSUCCESS),
     (''K_SYSCALL_ESPI_SAF_FLASH_WRITE'', K_SYSCALL_ESPI_SAF_FLASH_WRITE),
     (''K_SYSCALL_ESPI_SAF_GET_CHANNEL_STATUS'', K_SYSCALL_ESPI_SAF_GET_CHANNEL_STATUS),
     (''K_SYSCALL_ESPI_SAF_SET_PROTECTION_REGIONS'', K_SYSCALL_ESPI_SAF_SET_PROTECTION_REGIONS),
     (''K_SYSCALL_ESPI_SEND_OOB'', K_SYSCALL_ESPI_SEND_OOB),
     (''K_SYSCALL_ESPI_SEND_VWIRE'', K_SYSCALL_ESPI_SEND_VWIRE),
     (''K_SYSCALL_ESPI_WRITE_FLASH'', K_SYSCALL_ESPI_WRITE_FLASH)]"

definition syscall_list_8 :: "(string \<times> nat) list" where
  "syscall_list_8 = [
     (''K_SYSCALL_ESPI_WRITE_LPC_REQUEST'', K_SYSCALL_ESPI_WRITE_LPC_REQUEST),
     (''K_SYSCALL_ESPI_WRITE_REQUEST'', K_SYSCALL_ESPI_WRITE_REQUEST),
     (''K_SYSCALL_FLASH_COPY'', K_SYSCALL_FLASH_COPY),
     (''K_SYSCALL_FLASH_ERASE'', K_SYSCALL_FLASH_ERASE),
     (''K_SYSCALL_FLASH_EX_OP'', K_SYSCALL_FLASH_EX_OP),
     (''K_SYSCALL_FLASH_FILL'', K_SYSCALL_FLASH_FILL),
     (''K_SYSCALL_FLASH_FLATTEN'', K_SYSCALL_FLASH_FLATTEN),
     (''K_SYSCALL_FLASH_GET_PAGE_COUNT'', K_SYSCALL_FLASH_GET_PAGE_COUNT),
     (''K_SYSCALL_FLASH_GET_PAGE_INFO_BY_IDX'', K_SYSCALL_FLASH_GET_PAGE_INFO_BY_IDX),
     (''K_SYSCALL_FLASH_GET_PAGE_INFO_BY_OFFS'', K_SYSCALL_FLASH_GET_PAGE_INFO_BY_OFFS),
     (''K_SYSCALL_FLASH_GET_PARAMETERS'', K_SYSCALL_FLASH_GET_PARAMETERS),
     (''K_SYSCALL_FLASH_GET_SIZE'', K_SYSCALL_FLASH_GET_SIZE),
     (''K_SYSCALL_FLASH_GET_WRITE_BLOCK_SIZE'', K_SYSCALL_FLASH_GET_WRITE_BLOCK_SIZE),
     (''K_SYSCALL_FLASH_READ'', K_SYSCALL_FLASH_READ),
     (''K_SYSCALL_FLASH_READ_JEDEC_ID'', K_SYSCALL_FLASH_READ_JEDEC_ID),
     (''K_SYSCALL_FLASH_SFDP_READ'', K_SYSCALL_FLASH_SFDP_READ),
     (''K_SYSCALL_FLASH_SIMULATOR_GET_MEMORY'', K_SYSCALL_FLASH_SIMULATOR_GET_MEMORY),
     (''K_SYSCALL_FLASH_WRITE'', K_SYSCALL_FLASH_WRITE),
     (''K_SYSCALL_FUEL_GAUGE_BATTERY_CUTOFF'', K_SYSCALL_FUEL_GAUGE_BATTERY_CUTOFF),
     (''K_SYSCALL_FUEL_GAUGE_GET_BUFFER_PROP'', K_SYSCALL_FUEL_GAUGE_GET_BUFFER_PROP),
     (''K_SYSCALL_FUEL_GAUGE_GET_PROP'', K_SYSCALL_FUEL_GAUGE_GET_PROP),
     (''K_SYSCALL_FUEL_GAUGE_GET_PROPS'', K_SYSCALL_FUEL_GAUGE_GET_PROPS),
     (''K_SYSCALL_FUEL_GAUGE_SET_PROP'', K_SYSCALL_FUEL_GAUGE_SET_PROP),
     (''K_SYSCALL_FUEL_GAUGE_SET_PROPS'', K_SYSCALL_FUEL_GAUGE_SET_PROPS),
     (''K_SYSCALL_GNSS_GET_ENABLED_SYSTEMS'', K_SYSCALL_GNSS_GET_ENABLED_SYSTEMS),
     (''K_SYSCALL_GNSS_GET_FIX_RATE'', K_SYSCALL_GNSS_GET_FIX_RATE),
     (''K_SYSCALL_GNSS_GET_LATEST_TIMEPULSE'', K_SYSCALL_GNSS_GET_LATEST_TIMEPULSE),
     (''K_SYSCALL_GNSS_GET_NAVIGATION_MODE'', K_SYSCALL_GNSS_GET_NAVIGATION_MODE),
     (''K_SYSCALL_GNSS_GET_SUPPORTED_SYSTEMS'', K_SYSCALL_GNSS_GET_SUPPORTED_SYSTEMS),
     (''K_SYSCALL_GNSS_SET_ENABLED_SYSTEMS'', K_SYSCALL_GNSS_SET_ENABLED_SYSTEMS),
     (''K_SYSCALL_GNSS_SET_FIX_RATE'', K_SYSCALL_GNSS_SET_FIX_RATE),
     (''K_SYSCALL_GNSS_SET_NAVIGATION_MODE'', K_SYSCALL_GNSS_SET_NAVIGATION_MODE),
     (''K_SYSCALL_HAPTICS_START_OUTPUT'', K_SYSCALL_HAPTICS_START_OUTPUT),
     (''K_SYSCALL_HAPTICS_STOP_OUTPUT'', K_SYSCALL_HAPTICS_STOP_OUTPUT),
     (''K_SYSCALL_HWSPINLOCK_GET_MAX_ID'', K_SYSCALL_HWSPINLOCK_GET_MAX_ID),
     (''K_SYSCALL_HWSPINLOCK_LOCK'', K_SYSCALL_HWSPINLOCK_LOCK),
     (''K_SYSCALL_HWSPINLOCK_TRYLOCK'', K_SYSCALL_HWSPINLOCK_TRYLOCK),
     (''K_SYSCALL_HWSPINLOCK_UNLOCK'', K_SYSCALL_HWSPINLOCK_UNLOCK),
     (''K_SYSCALL_I2C_CONFIGURE'', K_SYSCALL_I2C_CONFIGURE),
     (''K_SYSCALL_I2C_GET_CONFIG'', K_SYSCALL_I2C_GET_CONFIG),
     (''K_SYSCALL_I2C_RECOVER_BUS'', K_SYSCALL_I2C_RECOVER_BUS),
     (''K_SYSCALL_I2C_TARGET_DRIVER_REGISTER'', K_SYSCALL_I2C_TARGET_DRIVER_REGISTER),
     (''K_SYSCALL_I2C_TARGET_DRIVER_UNREGISTER'', K_SYSCALL_I2C_TARGET_DRIVER_UNREGISTER),
     (''K_SYSCALL_I2C_TRANSFER'', K_SYSCALL_I2C_TRANSFER),
     (''K_SYSCALL_I2S_BUF_READ'', K_SYSCALL_I2S_BUF_READ),
     (''K_SYSCALL_I2S_BUF_WRITE'', K_SYSCALL_I2S_BUF_WRITE),
     (''K_SYSCALL_I2S_CONFIGURE'', K_SYSCALL_I2S_CONFIGURE),
     (''K_SYSCALL_I2S_TRIGGER'', K_SYSCALL_I2S_TRIGGER)]"

definition syscall_list_9 :: "(string \<times> nat) list" where
  "syscall_list_9 = [
     (''K_SYSCALL_I3C_DO_CCC'', K_SYSCALL_I3C_DO_CCC),
     (''K_SYSCALL_I3C_TRANSFER'', K_SYSCALL_I3C_TRANSFER),
     (''K_SYSCALL_IPM_COMPLETE'', K_SYSCALL_IPM_COMPLETE),
     (''K_SYSCALL_IPM_MAX_DATA_SIZE_GET'', K_SYSCALL_IPM_MAX_DATA_SIZE_GET),
     (''K_SYSCALL_IPM_MAX_ID_VAL_GET'', K_SYSCALL_IPM_MAX_ID_VAL_GET),
     (''K_SYSCALL_IPM_SEND'', K_SYSCALL_IPM_SEND),
     (''K_SYSCALL_IPM_SET_ENABLED'', K_SYSCALL_IPM_SET_ENABLED),
     (''K_SYSCALL_IVSHMEM_ENABLE_INTERRUPTS'', K_SYSCALL_IVSHMEM_ENABLE_INTERRUPTS),
     (''K_SYSCALL_IVSHMEM_GET_ID'', K_SYSCALL_IVSHMEM_GET_ID),
     (''K_SYSCALL_IVSHMEM_GET_MAX_PEERS'', K_SYSCALL_IVSHMEM_GET_MAX_PEERS),
     (''K_SYSCALL_IVSHMEM_GET_MEM'', K_SYSCALL_IVSHMEM_GET_MEM),
     (''K_SYSCALL_IVSHMEM_GET_OUTPUT_MEM_SECTION'', K_SYSCALL_IVSHMEM_GET_OUTPUT_MEM_SECTION),
     (''K_SYSCALL_IVSHMEM_GET_PROTOCOL'', K_SYSCALL_IVSHMEM_GET_PROTOCOL),
     (''K_SYSCALL_IVSHMEM_GET_RW_MEM_SECTION'', K_SYSCALL_IVSHMEM_GET_RW_MEM_SECTION),
     (''K_SYSCALL_IVSHMEM_GET_STATE'', K_SYSCALL_IVSHMEM_GET_STATE),
     (''K_SYSCALL_IVSHMEM_GET_VECTORS'', K_SYSCALL_IVSHMEM_GET_VECTORS),
     (''K_SYSCALL_IVSHMEM_INT_PEER'', K_SYSCALL_IVSHMEM_INT_PEER),
     (''K_SYSCALL_IVSHMEM_REGISTER_HANDLER'', K_SYSCALL_IVSHMEM_REGISTER_HANDLER),
     (''K_SYSCALL_IVSHMEM_SET_STATE'', K_SYSCALL_IVSHMEM_SET_STATE),
     (''K_SYSCALL_K_MEM_PAGING_HISTOGRAM_BACKING_STORE_PAGE_IN_GET'', K_SYSCALL_K_MEM_PAGING_HISTOGRAM_BACKING_STORE_PAGE_IN_GET),
     (''K_SYSCALL_K_MEM_PAGING_HISTOGRAM_BACKING_STORE_PAGE_OUT_GET'', K_SYSCALL_K_MEM_PAGING_HISTOGRAM_BACKING_STORE_PAGE_OUT_GET),
     (''K_SYSCALL_K_MEM_PAGING_HISTOGRAM_EVICTION_GET'', K_SYSCALL_K_MEM_PAGING_HISTOGRAM_EVICTION_GET),
     (''K_SYSCALL_K_MEM_PAGING_STATS_GET'', K_SYSCALL_K_MEM_PAGING_STATS_GET),
     (''K_SYSCALL_K_MEM_PAGING_THREAD_STATS_GET'', K_SYSCALL_K_MEM_PAGING_THREAD_STATS_GET),
     (''K_SYSCALL_LED_BLINK'', K_SYSCALL_LED_BLINK),
     (''K_SYSCALL_LED_GET_INFO'', K_SYSCALL_LED_GET_INFO),
     (''K_SYSCALL_LED_OFF'', K_SYSCALL_LED_OFF), (''K_SYSCALL_LED_ON'', K_SYSCALL_LED_ON),
     (''K_SYSCALL_LED_SET_BRIGHTNESS'', K_SYSCALL_LED_SET_BRIGHTNESS),
     (''K_SYSCALL_LED_SET_CHANNEL'', K_SYSCALL_LED_SET_CHANNEL),
     (''K_SYSCALL_LED_SET_COLOR'', K_SYSCALL_LED_SET_COLOR),
     (''K_SYSCALL_LED_WRITE_CHANNELS'', K_SYSCALL_LED_WRITE_CHANNELS),
     (''K_SYSCALL_LLEXT_GET_FN_TABLE'', K_SYSCALL_LLEXT_GET_FN_TABLE),
     (''K_SYSCALL_MAXIM_DS3231_GET_SYNCPOINT'', K_SYSCALL_MAXIM_DS3231_GET_SYNCPOINT),
     (''K_SYSCALL_MAXIM_DS3231_REQ_SYNCPOINT'', K_SYSCALL_MAXIM_DS3231_REQ_SYNCPOINT),
     (''K_SYSCALL_MBOX_MAX_CHANNELS_GET'', K_SYSCALL_MBOX_MAX_CHANNELS_GET),
     (''K_SYSCALL_MBOX_MTU_GET'', K_SYSCALL_MBOX_MTU_GET),
     (''K_SYSCALL_MBOX_SEND'', K_SYSCALL_MBOX_SEND),
     (''K_SYSCALL_MBOX_SET_ENABLED'', K_SYSCALL_MBOX_SET_ENABLED),
     (''K_SYSCALL_MDIO_BUS_DISABLE'', K_SYSCALL_MDIO_BUS_DISABLE),
     (''K_SYSCALL_MDIO_BUS_ENABLE'', K_SYSCALL_MDIO_BUS_ENABLE),
     (''K_SYSCALL_MDIO_READ'', K_SYSCALL_MDIO_READ),
     (''K_SYSCALL_MDIO_READ_C45'', K_SYSCALL_MDIO_READ_C45),
     (''K_SYSCALL_MDIO_WRITE'', K_SYSCALL_MDIO_WRITE),
     (''K_SYSCALL_MDIO_WRITE_C45'', K_SYSCALL_MDIO_WRITE_C45),
     (''K_SYSCALL_MSPI_CONFIG'', K_SYSCALL_MSPI_CONFIG),
     (''K_SYSCALL_MSPI_DEV_CONFIG'', K_SYSCALL_MSPI_DEV_CONFIG),
     (''K_SYSCALL_MSPI_GET_CHANNEL_STATUS'', K_SYSCALL_MSPI_GET_CHANNEL_STATUS)]"

definition syscall_list_10 :: "(string \<times> nat) list" where
  "syscall_list_10 = [
     (''K_SYSCALL_MSPI_SCRAMBLE_CONFIG'', K_SYSCALL_MSPI_SCRAMBLE_CONFIG),
     (''K_SYSCALL_MSPI_TIMING_CONFIG'', K_SYSCALL_MSPI_TIMING_CONFIG),
     (''K_SYSCALL_MSPI_TRANSCEIVE'', K_SYSCALL_MSPI_TRANSCEIVE),
     (''K_SYSCALL_MSPI_XIP_CONFIG'', K_SYSCALL_MSPI_XIP_CONFIG),
     (''K_SYSCALL_NET_SOCKET_SERVICE_REGISTER'', K_SYSCALL_NET_SOCKET_SERVICE_REGISTER),
     (''K_SYSCALL_NRF_QSPI_NOR_XIP_ENABLE'', K_SYSCALL_NRF_QSPI_NOR_XIP_ENABLE),
     (''K_SYSCALL_PECI_CONFIG'', K_SYSCALL_PECI_CONFIG),
     (''K_SYSCALL_PECI_DISABLE'', K_SYSCALL_PECI_DISABLE),
     (''K_SYSCALL_PECI_ENABLE'', K_SYSCALL_PECI_ENABLE),
     (''K_SYSCALL_PECI_TRANSFER'', K_SYSCALL_PECI_TRANSFER),
     (''K_SYSCALL_PS2_CONFIG'', K_SYSCALL_PS2_CONFIG),
     (''K_SYSCALL_PS2_DISABLE_CALLBACK'', K_SYSCALL_PS2_DISABLE_CALLBACK),
     (''K_SYSCALL_PS2_ENABLE_CALLBACK'', K_SYSCALL_PS2_ENABLE_CALLBACK),
     (''K_SYSCALL_PS2_READ'', K_SYSCALL_PS2_READ), (''K_SYSCALL_PS2_WRITE'', K_SYSCALL_PS2_WRITE),
     (''K_SYSCALL_PTP_CLOCK_GET'', K_SYSCALL_PTP_CLOCK_GET),
     (''K_SYSCALL_PWM_CAPTURE_CYCLES'', K_SYSCALL_PWM_CAPTURE_CYCLES),
     (''K_SYSCALL_PWM_DISABLE_CAPTURE'', K_SYSCALL_PWM_DISABLE_CAPTURE),
     (''K_SYSCALL_PWM_ENABLE_CAPTURE'', K_SYSCALL_PWM_ENABLE_CAPTURE),
     (''K_SYSCALL_PWM_GET_CYCLES_PER_SEC'', K_SYSCALL_PWM_GET_CYCLES_PER_SEC),
     (''K_SYSCALL_PWM_SET_CYCLES'', K_SYSCALL_PWM_SET_CYCLES),
     (''K_SYSCALL_RESET_LINE_ASSERT'', K_SYSCALL_RESET_LINE_ASSERT),
     (''K_SYSCALL_RESET_LINE_DEASSERT'', K_SYSCALL_RESET_LINE_DEASSERT),
     (''K_SYSCALL_RESET_LINE_TOGGLE'', K_SYSCALL_RESET_LINE_TOGGLE),
     (''K_SYSCALL_RESET_STATUS'', K_SYSCALL_RESET_STATUS),
     (''K_SYSCALL_RETAINED_MEM_CLEAR'', K_SYSCALL_RETAINED_MEM_CLEAR),
     (''K_SYSCALL_RETAINED_MEM_READ'', K_SYSCALL_RETAINED_MEM_READ),
     (''K_SYSCALL_RETAINED_MEM_SIZE'', K_SYSCALL_RETAINED_MEM_SIZE),
     (''K_SYSCALL_RETAINED_MEM_WRITE'', K_SYSCALL_RETAINED_MEM_WRITE),
     (''K_SYSCALL_RTC_ALARM_GET_SUPPORTED_FIELDS'', K_SYSCALL_RTC_ALARM_GET_SUPPORTED_FIELDS),
     (''K_SYSCALL_RTC_ALARM_GET_TIME'', K_SYSCALL_RTC_ALARM_GET_TIME),
     (''K_SYSCALL_RTC_ALARM_IS_PENDING'', K_SYSCALL_RTC_ALARM_IS_PENDING),
     (''K_SYSCALL_RTC_ALARM_SET_CALLBACK'', K_SYSCALL_RTC_ALARM_SET_CALLBACK),
     (''K_SYSCALL_RTC_ALARM_SET_TIME'', K_SYSCALL_RTC_ALARM_SET_TIME),
     (''K_SYSCALL_RTC_GET_CALIBRATION'', K_SYSCALL_RTC_GET_CALIBRATION),
     (''K_SYSCALL_RTC_GET_TIME'', K_SYSCALL_RTC_GET_TIME),
     (''K_SYSCALL_RTC_SET_CALIBRATION'', K_SYSCALL_RTC_SET_CALIBRATION),
     (''K_SYSCALL_RTC_SET_TIME'', K_SYSCALL_RTC_SET_TIME),
     (''K_SYSCALL_RTC_UPDATE_SET_CALLBACK'', K_SYSCALL_RTC_UPDATE_SET_CALLBACK),
     (''K_SYSCALL_RTIO_CQE_COPY_OUT'', K_SYSCALL_RTIO_CQE_COPY_OUT),
     (''K_SYSCALL_RTIO_CQE_GET_MEMPOOL_BUFFER'', K_SYSCALL_RTIO_CQE_GET_MEMPOOL_BUFFER),
     (''K_SYSCALL_RTIO_RELEASE_BUFFER'', K_SYSCALL_RTIO_RELEASE_BUFFER),
     (''K_SYSCALL_RTIO_SQE_CANCEL'', K_SYSCALL_RTIO_SQE_CANCEL),
     (''K_SYSCALL_RTIO_SQE_COPY_IN_GET_HANDLES'', K_SYSCALL_RTIO_SQE_COPY_IN_GET_HANDLES),
     (''K_SYSCALL_RTIO_SQE_SIGNAL'', K_SYSCALL_RTIO_SQE_SIGNAL),
     (''K_SYSCALL_RTIO_SUBMIT'', K_SYSCALL_RTIO_SUBMIT),
     (''K_SYSCALL_SDHC_CARD_BUSY'', K_SYSCALL_SDHC_CARD_BUSY),
     (''K_SYSCALL_SDHC_CARD_PRESENT'', K_SYSCALL_SDHC_CARD_PRESENT)]"

definition syscall_list_11 :: "(string \<times> nat) list" where
  "syscall_list_11 = [
     (''K_SYSCALL_SDHC_DISABLE_INTERRUPT'', K_SYSCALL_SDHC_DISABLE_INTERRUPT),
     (''K_SYSCALL_SDHC_ENABLE_INTERRUPT'', K_SYSCALL_SDHC_ENABLE_INTERRUPT),
     (''K_SYSCALL_SDHC_EXECUTE_TUNING'', K_SYSCALL_SDHC_EXECUTE_TUNING),
     (''K_SYSCALL_SDHC_GET_HOST_PROPS'', K_SYSCALL_SDHC_GET_HOST_PROPS),
     (''K_SYSCALL_SDHC_HW_RESET'', K_SYSCALL_SDHC_HW_RESET),
     (''K_SYSCALL_SDHC_REQUEST'', K_SYSCALL_SDHC_REQUEST),
     (''K_SYSCALL_SDHC_SET_IO'', K_SYSCALL_SDHC_SET_IO),
     (''K_SYSCALL_SENSOR_ATTR_GET'', K_SYSCALL_SENSOR_ATTR_GET),
     (''K_SYSCALL_SENSOR_ATTR_SET'', K_SYSCALL_SENSOR_ATTR_SET),
     (''K_SYSCALL_SENSOR_CHANNEL_GET'', K_SYSCALL_SENSOR_CHANNEL_GET),
     (''K_SYSCALL_SENSOR_GET_DECODER'', K_SYSCALL_SENSOR_GET_DECODER),
     (''K_SYSCALL_SENSOR_RECONFIGURE_READ_IODEV'', K_SYSCALL_SENSOR_RECONFIGURE_READ_IODEV),
     (''K_SYSCALL_SENSOR_SAMPLE_FETCH'', K_SYSCALL_SENSOR_SAMPLE_FETCH),
     (''K_SYSCALL_SENSOR_SAMPLE_FETCH_CHAN'', K_SYSCALL_SENSOR_SAMPLE_FETCH_CHAN),
     (''K_SYSCALL_SIP_SUPERVISORY_CALL'', K_SYSCALL_SIP_SUPERVISORY_CALL),
     (''K_SYSCALL_SIP_SVC_PLAT_ASYNC_RES_REQ'', K_SYSCALL_SIP_SVC_PLAT_ASYNC_RES_REQ),
     (''K_SYSCALL_SIP_SVC_PLAT_ASYNC_RES_RES'', K_SYSCALL_SIP_SVC_PLAT_ASYNC_RES_RES),
     (''K_SYSCALL_SIP_SVC_PLAT_FORMAT_TRANS_ID'', K_SYSCALL_SIP_SVC_PLAT_FORMAT_TRANS_ID),
     (''K_SYSCALL_SIP_SVC_PLAT_FREE_ASYNC_MEMORY'', K_SYSCALL_SIP_SVC_PLAT_FREE_ASYNC_MEMORY),
     (''K_SYSCALL_SIP_SVC_PLAT_FUNC_ID_VALID'', K_SYSCALL_SIP_SVC_PLAT_FUNC_ID_VALID),
     (''K_SYSCALL_SIP_SVC_PLAT_GET_ERROR_CODE'', K_SYSCALL_SIP_SVC_PLAT_GET_ERROR_CODE),
     (''K_SYSCALL_SIP_SVC_PLAT_GET_TRANS_IDX'', K_SYSCALL_SIP_SVC_PLAT_GET_TRANS_IDX),
     (''K_SYSCALL_SIP_SVC_PLAT_UPDATE_TRANS_ID'', K_SYSCALL_SIP_SVC_PLAT_UPDATE_TRANS_ID),
     (''K_SYSCALL_SMBUS_BLOCK_PCALL'', K_SYSCALL_SMBUS_BLOCK_PCALL),
     (''K_SYSCALL_SMBUS_BLOCK_READ'', K_SYSCALL_SMBUS_BLOCK_READ),
     (''K_SYSCALL_SMBUS_BLOCK_WRITE'', K_SYSCALL_SMBUS_BLOCK_WRITE),
     (''K_SYSCALL_SMBUS_BYTE_DATA_READ'', K_SYSCALL_SMBUS_BYTE_DATA_READ),
     (''K_SYSCALL_SMBUS_BYTE_DATA_WRITE'', K_SYSCALL_SMBUS_BYTE_DATA_WRITE),
     (''K_SYSCALL_SMBUS_BYTE_READ'', K_SYSCALL_SMBUS_BYTE_READ),
     (''K_SYSCALL_SMBUS_BYTE_WRITE'', K_SYSCALL_SMBUS_BYTE_WRITE),
     (''K_SYSCALL_SMBUS_CONFIGURE'', K_SYSCALL_SMBUS_CONFIGURE),
     (''K_SYSCALL_SMBUS_GET_CONFIG'', K_SYSCALL_SMBUS_GET_CONFIG),
     (''K_SYSCALL_SMBUS_HOST_NOTIFY_REMOVE_CB'', K_SYSCALL_SMBUS_HOST_NOTIFY_REMOVE_CB),
     (''K_SYSCALL_SMBUS_PCALL'', K_SYSCALL_SMBUS_PCALL),
     (''K_SYSCALL_SMBUS_QUICK'', K_SYSCALL_SMBUS_QUICK),
     (''K_SYSCALL_SMBUS_SMBALERT_REMOVE_CB'', K_SYSCALL_SMBUS_SMBALERT_REMOVE_CB),
     (''K_SYSCALL_SMBUS_WORD_DATA_READ'', K_SYSCALL_SMBUS_WORD_DATA_READ),
     (''K_SYSCALL_SMBUS_WORD_DATA_WRITE'', K_SYSCALL_SMBUS_WORD_DATA_WRITE),
     (''K_SYSCALL_STEPPER_DISABLE'', K_SYSCALL_STEPPER_DISABLE),
     (''K_SYSCALL_STEPPER_ENABLE'', K_SYSCALL_STEPPER_ENABLE),
     (''K_SYSCALL_STEPPER_GET_ACTUAL_POSITION'', K_SYSCALL_STEPPER_GET_ACTUAL_POSITION),
     (''K_SYSCALL_STEPPER_GET_MICRO_STEP_RES'', K_SYSCALL_STEPPER_GET_MICRO_STEP_RES),
     (''K_SYSCALL_STEPPER_IS_MOVING'', K_SYSCALL_STEPPER_IS_MOVING),
     (''K_SYSCALL_STEPPER_MOVE_BY'', K_SYSCALL_STEPPER_MOVE_BY),
     (''K_SYSCALL_STEPPER_MOVE_TO'', K_SYSCALL_STEPPER_MOVE_TO),
     (''K_SYSCALL_STEPPER_RUN'', K_SYSCALL_STEPPER_RUN),
     (''K_SYSCALL_STEPPER_SET_EVENT_CALLBACK'', K_SYSCALL_STEPPER_SET_EVENT_CALLBACK),
     (''K_SYSCALL_STEPPER_SET_MICROSTEP_INTERVAL'', K_SYSCALL_STEPPER_SET_MICROSTEP_INTERVAL)]"

definition syscall_list_12 :: "(string \<times> nat) list" where
  "syscall_list_12 = [
     (''K_SYSCALL_STEPPER_SET_MICRO_STEP_RES'', K_SYSCALL_STEPPER_SET_MICRO_STEP_RES),
     (''K_SYSCALL_STEPPER_SET_REFERENCE_POSITION'', K_SYSCALL_STEPPER_SET_REFERENCE_POSITION),
     (''K_SYSCALL_STEPPER_STOP'', K_SYSCALL_STEPPER_STOP),
     (''K_SYSCALL_SYSCON_GET_BASE'', K_SYSCALL_SYSCON_GET_BASE),
     (''K_SYSCALL_SYSCON_GET_SIZE'', K_SYSCALL_SYSCON_GET_SIZE),
     (''K_SYSCALL_SYSCON_READ_REG'', K_SYSCALL_SYSCON_READ_REG),
     (''K_SYSCALL_SYSCON_WRITE_REG'', K_SYSCALL_SYSCON_WRITE_REG),
     (''K_SYSCALL_SYS_CACHE_DATA_FLUSH_AND_INVD_RANGE'', K_SYSCALL_SYS_CACHE_DATA_FLUSH_AND_INVD_RANGE),
     (''K_SYSCALL_SYS_CACHE_DATA_FLUSH_RANGE'', K_SYSCALL_SYS_CACHE_DATA_FLUSH_RANGE),
     (''K_SYSCALL_SYS_CACHE_DATA_INVD_RANGE'', K_SYSCALL_SYS_CACHE_DATA_INVD_RANGE),
     (''K_SYSCALL_TEE_CANCEL'', K_SYSCALL_TEE_CANCEL),
     (''K_SYSCALL_TEE_CLOSE_SESSION'', K_SYSCALL_TEE_CLOSE_SESSION),
     (''K_SYSCALL_TEE_GET_VERSION'', K_SYSCALL_TEE_GET_VERSION),
     (''K_SYSCALL_TEE_INVOKE_FUNC'', K_SYSCALL_TEE_INVOKE_FUNC),
     (''K_SYSCALL_TEE_OPEN_SESSION'', K_SYSCALL_TEE_OPEN_SESSION),
     (''K_SYSCALL_TEE_SHM_ALLOC'', K_SYSCALL_TEE_SHM_ALLOC),
     (''K_SYSCALL_TEE_SHM_FREE'', K_SYSCALL_TEE_SHM_FREE),
     (''K_SYSCALL_TEE_SHM_REGISTER'', K_SYSCALL_TEE_SHM_REGISTER),
     (''K_SYSCALL_TEE_SHM_UNREGISTER'', K_SYSCALL_TEE_SHM_UNREGISTER),
     (''K_SYSCALL_TEE_SUPPL_RECV'', K_SYSCALL_TEE_SUPPL_RECV),
     (''K_SYSCALL_TEE_SUPPL_SEND'', K_SYSCALL_TEE_SUPPL_SEND),
     (''K_SYSCALL_TGPIO_PIN_CONFIG_EXT_TIMESTAMP'', K_SYSCALL_TGPIO_PIN_CONFIG_EXT_TIMESTAMP),
     (''K_SYSCALL_TGPIO_PIN_DISABLE'', K_SYSCALL_TGPIO_PIN_DISABLE),
     (''K_SYSCALL_TGPIO_PIN_PERIODIC_OUTPUT'', K_SYSCALL_TGPIO_PIN_PERIODIC_OUTPUT),
     (''K_SYSCALL_TGPIO_PIN_READ_TS_EC'', K_SYSCALL_TGPIO_PIN_READ_TS_EC),
     (''K_SYSCALL_TGPIO_PORT_GET_CYCLES_PER_SECOND'', K_SYSCALL_TGPIO_PORT_GET_CYCLES_PER_SECOND),
     (''K_SYSCALL_TGPIO_PORT_GET_TIME'', K_SYSCALL_TGPIO_PORT_GET_TIME),
     (''K_SYSCALL_UPDATEHUB_AUTOHANDLER'', K_SYSCALL_UPDATEHUB_AUTOHANDLER),
     (''K_SYSCALL_UPDATEHUB_CONFIRM'', K_SYSCALL_UPDATEHUB_CONFIRM),
     (''K_SYSCALL_UPDATEHUB_PROBE'', K_SYSCALL_UPDATEHUB_PROBE),
     (''K_SYSCALL_UPDATEHUB_REBOOT'', K_SYSCALL_UPDATEHUB_REBOOT),
     (''K_SYSCALL_UPDATEHUB_UPDATE'', K_SYSCALL_UPDATEHUB_UPDATE),
     (''K_SYSCALL_USER_FAULT'', K_SYSCALL_USER_FAULT),
     (''K_SYSCALL_W1_CHANGE_BUS_LOCK'', K_SYSCALL_W1_CHANGE_BUS_LOCK),
     (''K_SYSCALL_W1_CONFIGURE'', K_SYSCALL_W1_CONFIGURE),
     (''K_SYSCALL_W1_GET_SLAVE_COUNT'', K_SYSCALL_W1_GET_SLAVE_COUNT),
     (''K_SYSCALL_W1_READ_BIT'', K_SYSCALL_W1_READ_BIT),
     (''K_SYSCALL_W1_READ_BLOCK'', K_SYSCALL_W1_READ_BLOCK),
     (''K_SYSCALL_W1_READ_BYTE'', K_SYSCALL_W1_READ_BYTE),
     (''K_SYSCALL_W1_RESET_BUS'', K_SYSCALL_W1_RESET_BUS),
     (''K_SYSCALL_W1_SEARCH_BUS'', K_SYSCALL_W1_SEARCH_BUS),
     (''K_SYSCALL_W1_WRITE_BIT'', K_SYSCALL_W1_WRITE_BIT),
     (''K_SYSCALL_W1_WRITE_BLOCK'', K_SYSCALL_W1_WRITE_BLOCK),
     (''K_SYSCALL_W1_WRITE_BYTE'', K_SYSCALL_W1_WRITE_BYTE),
     (''K_SYSCALL_WDT_DISABLE'', K_SYSCALL_WDT_DISABLE),
     (''K_SYSCALL_WDT_FEED'', K_SYSCALL_WDT_FEED), (''K_SYSCALL_WDT_SETUP'', K_SYSCALL_WDT_SETUP),
     (''K_SYSCALL_XTENSA_USER_FAULT'', K_SYSCALL_XTENSA_USER_FAULT)]"

definition syscall_list_13 :: "(string \<times> nat) list" where
  "syscall_list_13 = [
     (''K_SYSCALL_Z_ERRNO'', K_SYSCALL_Z_ERRNO)]"

definition syscall_list :: "(string \<times> nat) list" where
  "syscall_list = syscall_list_1 @ syscall_list_2 @ syscall_list_3 @ syscall_list_4 @ syscall_list_5 @
     syscall_list_6 @ syscall_list_7 @ syscall_list_8 @ syscall_list_9 @ syscall_list_10
     @ syscall_list_11 @ syscall_list_12 @ syscall_list_13"

definition syscall_list_copy_1 :: "(string \<times> nat) list" where
  "syscall_list_copy_1 = [
     (''K_SYSCALL_DEVICE_DEINIT'', 0), (''K_SYSCALL_DEVICE_GET_BINDING'', 1),
     (''K_SYSCALL_DEVICE_GET_BY_DT_NODELABEL'', 2), (''K_SYSCALL_DEVICE_INIT'', 3),
     (''K_SYSCALL_DEVICE_IS_READY'', 4), (''K_SYSCALL_ENTROPY_GET_ENTROPY'', 5),
     (''K_SYSCALL_GPIO_GET_PENDING_INT'', 6), (''K_SYSCALL_GPIO_PIN_CONFIGURE'', 7),
     (''K_SYSCALL_GPIO_PIN_GET_CONFIG'', 8), (''K_SYSCALL_GPIO_PIN_INTERRUPT_CONFIGURE'', 9),
     (''K_SYSCALL_GPIO_PORT_CLEAR_BITS_RAW'', 10), (''K_SYSCALL_GPIO_PORT_GET_DIRECTION'', 11),
     (''K_SYSCALL_GPIO_PORT_GET_RAW'', 12), (''K_SYSCALL_GPIO_PORT_SET_BITS_RAW'', 13),
     (''K_SYSCALL_GPIO_PORT_SET_MASKED_RAW'', 14), (''K_SYSCALL_GPIO_PORT_TOGGLE_BITS'', 15),
     (''K_SYSCALL_HWINFO_CLEAR_RESET_CAUSE'', 16), (''K_SYSCALL_HWINFO_GET_DEVICE_EUI64'', 17),
     (''K_SYSCALL_HWINFO_GET_DEVICE_ID'', 18), (''K_SYSCALL_HWINFO_GET_RESET_CAUSE'', 19),
     (''K_SYSCALL_HWINFO_GET_SUPPORTED_RESET_CAUSE'', 20), (''K_SYSCALL_K_BUSY_WAIT'', 21),
     (''K_SYSCALL_K_CONDVAR_BROADCAST'', 22), (''K_SYSCALL_K_CONDVAR_INIT'', 23),
     (''K_SYSCALL_K_CONDVAR_SIGNAL'', 24), (''K_SYSCALL_K_CONDVAR_WAIT'', 25),
     (''K_SYSCALL_K_EVENT_CLEAR'', 26), (''K_SYSCALL_K_EVENT_INIT'', 27),
     (''K_SYSCALL_K_EVENT_POST'', 28), (''K_SYSCALL_K_EVENT_SET'', 29),
     (''K_SYSCALL_K_EVENT_SET_MASKED'', 30), (''K_SYSCALL_K_EVENT_WAIT'', 31),
     (''K_SYSCALL_K_EVENT_WAIT_ALL'', 32), (''K_SYSCALL_K_FLOAT_DISABLE'', 33),
     (''K_SYSCALL_K_FLOAT_ENABLE'', 34), (''K_SYSCALL_K_FUTEX_WAIT'', 35),
     (''K_SYSCALL_K_FUTEX_WAKE'', 36), (''K_SYSCALL_K_IS_PREEMPT_THREAD'', 37),
     (''K_SYSCALL_K_MSGQ_ALLOC_INIT'', 38), (''K_SYSCALL_K_MSGQ_GET'', 39),
     (''K_SYSCALL_K_MSGQ_GET_ATTRS'', 40), (''K_SYSCALL_K_MSGQ_NUM_FREE_GET'', 41),
     (''K_SYSCALL_K_MSGQ_NUM_USED_GET'', 42), (''K_SYSCALL_K_MSGQ_PEEK'', 43),
     (''K_SYSCALL_K_MSGQ_PEEK_AT'', 44), (''K_SYSCALL_K_MSGQ_PURGE'', 45),
     (''K_SYSCALL_K_MSGQ_PUT'', 46), (''K_SYSCALL_K_MUTEX_INIT'', 47)]"

definition syscall_list_copy_2 :: "(string \<times> nat) list" where
  "syscall_list_copy_2 = [
     (''K_SYSCALL_K_MUTEX_LOCK'', 48), (''K_SYSCALL_K_MUTEX_UNLOCK'', 49),
     (''K_SYSCALL_K_OBJECT_ACCESS_GRANT'', 50), (''K_SYSCALL_K_OBJECT_ALLOC'', 51),
     (''K_SYSCALL_K_OBJECT_ALLOC_SIZE'', 52), (''K_SYSCALL_K_OBJECT_RELEASE'', 53),
     (''K_SYSCALL_K_PIPE_ALLOC_INIT'', 54), (''K_SYSCALL_K_PIPE_BUFFER_FLUSH'', 55),
     (''K_SYSCALL_K_PIPE_CLOSE'', 56), (''K_SYSCALL_K_PIPE_FLUSH'', 57),
     (''K_SYSCALL_K_PIPE_GET'', 58), (''K_SYSCALL_K_PIPE_INIT'', 59),
     (''K_SYSCALL_K_PIPE_PUT'', 60), (''K_SYSCALL_K_PIPE_READ'', 61),
     (''K_SYSCALL_K_PIPE_READ_AVAIL'', 62), (''K_SYSCALL_K_PIPE_RESET'', 63),
     (''K_SYSCALL_K_PIPE_WRITE'', 64), (''K_SYSCALL_K_PIPE_WRITE_AVAIL'', 65),
     (''K_SYSCALL_K_POLL'', 66), (''K_SYSCALL_K_POLL_SIGNAL_CHECK'', 67),
     (''K_SYSCALL_K_POLL_SIGNAL_INIT'', 68), (''K_SYSCALL_K_POLL_SIGNAL_RAISE'', 69),
     (''K_SYSCALL_K_POLL_SIGNAL_RESET'', 70), (''K_SYSCALL_K_QUEUE_ALLOC_APPEND'', 71),
     (''K_SYSCALL_K_QUEUE_ALLOC_PREPEND'', 72), (''K_SYSCALL_K_QUEUE_CANCEL_WAIT'', 73),
     (''K_SYSCALL_K_QUEUE_GET'', 74), (''K_SYSCALL_K_QUEUE_INIT'', 75),
     (''K_SYSCALL_K_QUEUE_IS_EMPTY'', 76), (''K_SYSCALL_K_QUEUE_PEEK_HEAD'', 77),
     (''K_SYSCALL_K_QUEUE_PEEK_TAIL'', 78), (''K_SYSCALL_K_RESCHEDULE'', 79),
     (''K_SYSCALL_K_SCHED_CURRENT_THREAD_QUERY'', 80), (''K_SYSCALL_K_SEM_COUNT_GET'', 81),
     (''K_SYSCALL_K_SEM_GIVE'', 82), (''K_SYSCALL_K_SEM_INIT'', 83),
     (''K_SYSCALL_K_SEM_RESET'', 84), (''K_SYSCALL_K_SEM_TAKE'', 85), (''K_SYSCALL_K_SLEEP'', 86),
     (''K_SYSCALL_K_STACK_ALLOC_INIT'', 87), (''K_SYSCALL_K_STACK_POP'', 88),
     (''K_SYSCALL_K_STACK_PUSH'', 89), (''K_SYSCALL_K_STR_OUT'', 90),
     (''K_SYSCALL_K_THREAD_ABORT'', 91), (''K_SYSCALL_K_THREAD_CREATE'', 92),
     (''K_SYSCALL_K_THREAD_CUSTOM_DATA_GET'', 93), (''K_SYSCALL_K_THREAD_CUSTOM_DATA_SET'', 94),
     (''K_SYSCALL_K_THREAD_DEADLINE_SET'', 95)]"

definition syscall_list_copy_3 :: "(string \<times> nat) list" where
  "syscall_list_copy_3 = [
     (''K_SYSCALL_K_THREAD_JOIN'', 96), (''K_SYSCALL_K_THREAD_NAME_COPY'', 97),
     (''K_SYSCALL_K_THREAD_NAME_SET'', 98), (''K_SYSCALL_K_THREAD_PRIORITY_GET'', 99),
     (''K_SYSCALL_K_THREAD_PRIORITY_SET'', 100), (''K_SYSCALL_K_THREAD_RESUME'', 101),
     (''K_SYSCALL_K_THREAD_STACK_ALLOC'', 102), (''K_SYSCALL_K_THREAD_STACK_FREE'', 103),
     (''K_SYSCALL_K_THREAD_STACK_SPACE_GET'', 104), (''K_SYSCALL_K_THREAD_SUSPEND'', 105),
     (''K_SYSCALL_K_THREAD_TIMEOUT_EXPIRES_TICKS'', 106),
     (''K_SYSCALL_K_THREAD_TIMEOUT_REMAINING_TICKS'', 107),
     (''K_SYSCALL_K_TIMER_EXPIRES_TICKS'', 108), (''K_SYSCALL_K_TIMER_REMAINING_TICKS'', 109),
     (''K_SYSCALL_K_TIMER_START'', 110), (''K_SYSCALL_K_TIMER_STATUS_GET'', 111),
     (''K_SYSCALL_K_TIMER_STATUS_SYNC'', 112), (''K_SYSCALL_K_TIMER_STOP'', 113),
     (''K_SYSCALL_K_TIMER_USER_DATA_GET'', 114), (''K_SYSCALL_K_TIMER_USER_DATA_SET'', 115),
     (''K_SYSCALL_K_UPTIME_TICKS'', 116), (''K_SYSCALL_K_USLEEP'', 117),
     (''K_SYSCALL_K_WAKEUP'', 118), (''K_SYSCALL_K_YIELD'', 119),
     (''K_SYSCALL_LOG_BUFFERED_CNT'', 120), (''K_SYSCALL_LOG_FILTER_SET'', 121),
     (''K_SYSCALL_LOG_FRONTEND_FILTER_SET'', 122), (''K_SYSCALL_LOG_PANIC'', 123),
     (''K_SYSCALL_LOG_PROCESS'', 124), (''K_SYSCALL_NET_ADDR_NTOP'', 125),
     (''K_SYSCALL_NET_ADDR_PTON'', 126), (''K_SYSCALL_NET_ETH_GET_PTP_CLOCK_BY_INDEX'', 127),
     (''K_SYSCALL_NET_IF_GET_BY_INDEX'', 128), (''K_SYSCALL_NET_IF_IPV4_ADDR_ADD_BY_INDEX'', 129),
     (''K_SYSCALL_NET_IF_IPV4_ADDR_LOOKUP_BY_INDEX'', 130),
     (''K_SYSCALL_NET_IF_IPV4_ADDR_RM_BY_INDEX'', 131),
     (''K_SYSCALL_NET_IF_IPV4_SET_GW_BY_INDEX'', 132),
     (''K_SYSCALL_NET_IF_IPV4_SET_NETMASK_BY_ADDR_BY_INDEX'', 133),
     (''K_SYSCALL_NET_IF_IPV4_SET_NETMASK_BY_INDEX'', 134),
     (''K_SYSCALL_NET_IF_IPV6_ADDR_ADD_BY_INDEX'', 135),
     (''K_SYSCALL_NET_IF_IPV6_ADDR_LOOKUP_BY_INDEX'', 136),
     (''K_SYSCALL_NET_IF_IPV6_ADDR_RM_BY_INDEX'', 137), (''K_SYSCALL_SPI_RELEASE'', 138),
     (''K_SYSCALL_SPI_TRANSCEIVE'', 139),
     (''K_SYSCALL_SYS_CLOCK_HW_CYCLES_PER_SEC_RUNTIME_GET'', 140),
     (''K_SYSCALL_SYS_CSRAND_GET'', 141), (''K_SYSCALL_SYS_RAND_GET'', 142),
     (''K_SYSCALL_UART_CONFIGURE'', 143)]"

definition syscall_list_copy_4 :: "(string \<times> nat) list" where
  "syscall_list_copy_4 = [
     (''K_SYSCALL_UART_CONFIG_GET'', 144), (''K_SYSCALL_UART_DRV_CMD'', 145),
     (''K_SYSCALL_UART_ERR_CHECK'', 146), (''K_SYSCALL_UART_IRQ_ERR_DISABLE'', 147),
     (''K_SYSCALL_UART_IRQ_ERR_ENABLE'', 148), (''K_SYSCALL_UART_IRQ_IS_PENDING'', 149),
     (''K_SYSCALL_UART_IRQ_RX_DISABLE'', 150), (''K_SYSCALL_UART_IRQ_RX_ENABLE'', 151),
     (''K_SYSCALL_UART_IRQ_TX_DISABLE'', 152), (''K_SYSCALL_UART_IRQ_TX_ENABLE'', 153),
     (''K_SYSCALL_UART_IRQ_UPDATE'', 154), (''K_SYSCALL_UART_LINE_CTRL_GET'', 155),
     (''K_SYSCALL_UART_LINE_CTRL_SET'', 156), (''K_SYSCALL_UART_POLL_IN'', 157),
     (''K_SYSCALL_UART_POLL_IN_U16'', 158), (''K_SYSCALL_UART_POLL_OUT'', 159),
     (''K_SYSCALL_UART_POLL_OUT_U16'', 160), (''K_SYSCALL_UART_RX_DISABLE'', 161),
     (''K_SYSCALL_UART_RX_ENABLE'', 162), (''K_SYSCALL_UART_RX_ENABLE_U16'', 163),
     (''K_SYSCALL_UART_TX'', 164), (''K_SYSCALL_UART_TX_ABORT'', 165),
     (''K_SYSCALL_UART_TX_U16'', 166), (''K_SYSCALL_ZEPHYR_FPUTC'', 167),
     (''K_SYSCALL_ZEPHYR_FWRITE'', 168), (''K_SYSCALL_ZEPHYR_READ_STDIN'', 169),
     (''K_SYSCALL_ZEPHYR_WRITE_STDOUT'', 170), (''K_SYSCALL_ZSOCK_ACCEPT'', 171),
     (''K_SYSCALL_ZSOCK_BIND'', 172), (''K_SYSCALL_ZSOCK_CLOSE'', 173),
     (''K_SYSCALL_ZSOCK_CONNECT'', 174), (''K_SYSCALL_ZSOCK_FCNTL_IMPL'', 175),
     (''K_SYSCALL_ZSOCK_GETHOSTNAME'', 176), (''K_SYSCALL_ZSOCK_GETPEERNAME'', 177),
     (''K_SYSCALL_ZSOCK_GETSOCKNAME'', 178), (''K_SYSCALL_ZSOCK_GETSOCKOPT'', 179),
     (''K_SYSCALL_ZSOCK_GET_CONTEXT_OBJECT'', 180), (''K_SYSCALL_ZSOCK_INET_PTON'', 181),
     (''K_SYSCALL_ZSOCK_IOCTL_IMPL'', 182), (''K_SYSCALL_ZSOCK_LISTEN'', 183),
     (''K_SYSCALL_ZSOCK_RECVFROM'', 184), (''K_SYSCALL_ZSOCK_RECVMSG'', 185),
     (''K_SYSCALL_ZSOCK_SENDMSG'', 186), (''K_SYSCALL_ZSOCK_SENDTO'', 187),
     (''K_SYSCALL_ZSOCK_SETSOCKOPT'', 188), (''K_SYSCALL_ZSOCK_SHUTDOWN'', 189),
     (''K_SYSCALL_ZSOCK_SOCKET'', 190), (''K_SYSCALL_ZSOCK_SOCKETPAIR'', 191)]"

definition syscall_list_copy_5 :: "(string \<times> nat) list" where
  "syscall_list_copy_5 = [
     (''K_SYSCALL_ZVFS_POLL'', 192), (''K_SYSCALL_ZVFS_SELECT'', 193),
     (''K_SYSCALL_Z_LOG_MSG_SIMPLE_CREATE_0'', 194), (''K_SYSCALL_Z_LOG_MSG_SIMPLE_CREATE_1'', 195),
     (''K_SYSCALL_Z_LOG_MSG_SIMPLE_CREATE_2'', 196), (''K_SYSCALL_Z_LOG_MSG_STATIC_CREATE'', 197),
     (''K_SYSCALL_Z_SYS_MUTEX_KERNEL_LOCK'', 198), (''K_SYSCALL_Z_SYS_MUTEX_KERNEL_UNLOCK'', 199),
     (''K_SYSCALL_Z_ZSOCK_GETADDRINFO_INTERNAL'', 200), (''K_SYSCALL___POSIX_CLOCK_GET_BASE'', 201),
     (''K_SYSCALL_BAD'', 202), (''K_SYSCALL_LIMIT'', 203), (''K_SYSCALL_ADC_CHANNEL_SETUP'', 204),
     (''K_SYSCALL_ADC_READ'', 205), (''K_SYSCALL_ADC_READ_ASYNC'', 206),
     (''K_SYSCALL_ATOMIC_ADD'', 207), (''K_SYSCALL_ATOMIC_AND'', 208),
     (''K_SYSCALL_ATOMIC_CAS'', 209), (''K_SYSCALL_ATOMIC_NAND'', 210),
     (''K_SYSCALL_ATOMIC_OR'', 211), (''K_SYSCALL_ATOMIC_PTR_CAS'', 212),
     (''K_SYSCALL_ATOMIC_PTR_SET'', 213), (''K_SYSCALL_ATOMIC_SET'', 214),
     (''K_SYSCALL_ATOMIC_SUB'', 215), (''K_SYSCALL_ATOMIC_XOR'', 216),
     (''K_SYSCALL_AUXDISPLAY_BACKLIGHT_GET'', 217), (''K_SYSCALL_AUXDISPLAY_BACKLIGHT_SET'', 218),
     (''K_SYSCALL_AUXDISPLAY_BRIGHTNESS_GET'', 219), (''K_SYSCALL_AUXDISPLAY_BRIGHTNESS_SET'', 220),
     (''K_SYSCALL_AUXDISPLAY_CAPABILITIES_GET'', 221), (''K_SYSCALL_AUXDISPLAY_CLEAR'', 222),
     (''K_SYSCALL_AUXDISPLAY_CURSOR_POSITION_GET'', 223),
     (''K_SYSCALL_AUXDISPLAY_CURSOR_POSITION_SET'', 224),
     (''K_SYSCALL_AUXDISPLAY_CURSOR_SET_ENABLED'', 225),
     (''K_SYSCALL_AUXDISPLAY_CURSOR_SHIFT_SET'', 226),
     (''K_SYSCALL_AUXDISPLAY_CUSTOM_CHARACTER_SET'', 227),
     (''K_SYSCALL_AUXDISPLAY_CUSTOM_COMMAND'', 228), (''K_SYSCALL_AUXDISPLAY_DISPLAY_OFF'', 229),
     (''K_SYSCALL_AUXDISPLAY_DISPLAY_ON'', 230),
     (''K_SYSCALL_AUXDISPLAY_DISPLAY_POSITION_GET'', 231),
     (''K_SYSCALL_AUXDISPLAY_DISPLAY_POSITION_SET'', 232), (''K_SYSCALL_AUXDISPLAY_IS_BUSY'', 233),
     (''K_SYSCALL_AUXDISPLAY_POSITION_BLINKING_SET_ENABLED'', 234),
     (''K_SYSCALL_AUXDISPLAY_WRITE'', 235), (''K_SYSCALL_BBRAM_CHECK_INVALID'', 236),
     (''K_SYSCALL_BBRAM_CHECK_POWER'', 237), (''K_SYSCALL_BBRAM_CHECK_STANDBY_POWER'', 238),
     (''K_SYSCALL_BBRAM_GET_SIZE'', 239)]"

definition syscall_list_copy_6 :: "(string \<times> nat) list" where
  "syscall_list_copy_6 = [
     (''K_SYSCALL_BBRAM_READ'', 240), (''K_SYSCALL_BBRAM_WRITE'', 241),
     (''K_SYSCALL_BC12_SET_RESULT_CB'', 242), (''K_SYSCALL_BC12_SET_ROLE'', 243),
     (''K_SYSCALL_CAN_ADD_RX_FILTER_MSGQ'', 244), (''K_SYSCALL_CAN_CALC_TIMING'', 245),
     (''K_SYSCALL_CAN_CALC_TIMING_DATA'', 246), (''K_SYSCALL_CAN_GET_BITRATE_MAX'', 247),
     (''K_SYSCALL_CAN_GET_BITRATE_MIN'', 248), (''K_SYSCALL_CAN_GET_CAPABILITIES'', 249),
     (''K_SYSCALL_CAN_GET_CORE_CLOCK'', 250), (''K_SYSCALL_CAN_GET_MAX_FILTERS'', 251),
     (''K_SYSCALL_CAN_GET_MODE'', 252), (''K_SYSCALL_CAN_GET_STATE'', 253),
     (''K_SYSCALL_CAN_GET_TIMING_DATA_MAX'', 254), (''K_SYSCALL_CAN_GET_TIMING_DATA_MIN'', 255),
     (''K_SYSCALL_CAN_GET_TIMING_MAX'', 256), (''K_SYSCALL_CAN_GET_TIMING_MIN'', 257),
     (''K_SYSCALL_CAN_GET_TRANSCEIVER'', 258), (''K_SYSCALL_CAN_RECOVER'', 259),
     (''K_SYSCALL_CAN_REMOVE_RX_FILTER'', 260), (''K_SYSCALL_CAN_SEND'', 261),
     (''K_SYSCALL_CAN_SET_BITRATE'', 262), (''K_SYSCALL_CAN_SET_BITRATE_DATA'', 263),
     (''K_SYSCALL_CAN_SET_MODE'', 264), (''K_SYSCALL_CAN_SET_TIMING'', 265),
     (''K_SYSCALL_CAN_SET_TIMING_DATA'', 266), (''K_SYSCALL_CAN_START'', 267),
     (''K_SYSCALL_CAN_STATS_GET_ACK_ERRORS'', 268), (''K_SYSCALL_CAN_STATS_GET_BIT0_ERRORS'', 269),
     (''K_SYSCALL_CAN_STATS_GET_BIT1_ERRORS'', 270), (''K_SYSCALL_CAN_STATS_GET_BIT_ERRORS'', 271),
     (''K_SYSCALL_CAN_STATS_GET_CRC_ERRORS'', 272), (''K_SYSCALL_CAN_STATS_GET_FORM_ERRORS'', 273),
     (''K_SYSCALL_CAN_STATS_GET_RX_OVERRUNS'', 274),
     (''K_SYSCALL_CAN_STATS_GET_STUFF_ERRORS'', 275), (''K_SYSCALL_CAN_STOP'', 276),
     (''K_SYSCALL_CHARGER_CHARGE_ENABLE'', 277), (''K_SYSCALL_CHARGER_GET_PROP'', 278),
     (''K_SYSCALL_CHARGER_SET_PROP'', 279), (''K_SYSCALL_COMPARATOR_GET_OUTPUT'', 280),
     (''K_SYSCALL_COMPARATOR_SET_TRIGGER'', 281),
     (''K_SYSCALL_COMPARATOR_TRIGGER_IS_PENDING'', 282),
     (''K_SYSCALL_COUNTER_CANCEL_CHANNEL_ALARM'', 283), (''K_SYSCALL_COUNTER_GET_FREQUENCY'', 284),
     (''K_SYSCALL_COUNTER_GET_GUARD_PERIOD'', 285), (''K_SYSCALL_COUNTER_GET_MAX_TOP_VALUE'', 286),
     (''K_SYSCALL_COUNTER_GET_NUM_OF_CHANNELS'', 287)]"

definition syscall_list_copy_7 :: "(string \<times> nat) list" where
  "syscall_list_copy_7 = [
     (''K_SYSCALL_COUNTER_GET_PENDING_INT'', 288), (''K_SYSCALL_COUNTER_GET_TOP_VALUE'', 289),
     (''K_SYSCALL_COUNTER_GET_VALUE'', 290), (''K_SYSCALL_COUNTER_GET_VALUE_64'', 291),
     (''K_SYSCALL_COUNTER_IS_COUNTING_UP'', 292), (''K_SYSCALL_COUNTER_RESET'', 293),
     (''K_SYSCALL_COUNTER_SET_CHANNEL_ALARM'', 294), (''K_SYSCALL_COUNTER_SET_GUARD_PERIOD'', 295),
     (''K_SYSCALL_COUNTER_SET_TOP_VALUE'', 296), (''K_SYSCALL_COUNTER_START'', 297),
     (''K_SYSCALL_COUNTER_STOP'', 298), (''K_SYSCALL_COUNTER_TICKS_TO_US'', 299),
     (''K_SYSCALL_COUNTER_US_TO_TICKS'', 300), (''K_SYSCALL_DAC_CHANNEL_SETUP'', 301),
     (''K_SYSCALL_DAC_WRITE_VALUE'', 302), (''K_SYSCALL_DEVMUX_SELECT_GET'', 303),
     (''K_SYSCALL_DEVMUX_SELECT_SET'', 304), (''K_SYSCALL_DMA_CHAN_FILTER'', 305),
     (''K_SYSCALL_DMA_RELEASE_CHANNEL'', 306), (''K_SYSCALL_DMA_REQUEST_CHANNEL'', 307),
     (''K_SYSCALL_DMA_RESUME'', 308), (''K_SYSCALL_DMA_START'', 309), (''K_SYSCALL_DMA_STOP'', 310),
     (''K_SYSCALL_DMA_SUSPEND'', 311), (''K_SYSCALL_EEPROM_GET_SIZE'', 312),
     (''K_SYSCALL_EEPROM_READ'', 313), (''K_SYSCALL_EEPROM_WRITE'', 314),
     (''K_SYSCALL_EMUL_FUEL_GAUGE_IS_BATTERY_CUTOFF'', 315),
     (''K_SYSCALL_EMUL_FUEL_GAUGE_SET_BATTERY_CHARGING'', 316), (''K_SYSCALL_ESPI_CONFIG'', 317),
     (''K_SYSCALL_ESPI_FLASH_ERASE'', 318), (''K_SYSCALL_ESPI_GET_CHANNEL_STATUS'', 319),
     (''K_SYSCALL_ESPI_READ_FLASH'', 320), (''K_SYSCALL_ESPI_READ_LPC_REQUEST'', 321),
     (''K_SYSCALL_ESPI_READ_REQUEST'', 322), (''K_SYSCALL_ESPI_RECEIVE_OOB'', 323),
     (''K_SYSCALL_ESPI_RECEIVE_VWIRE'', 324), (''K_SYSCALL_ESPI_SAF_ACTIVATE'', 325),
     (''K_SYSCALL_ESPI_SAF_CONFIG'', 326), (''K_SYSCALL_ESPI_SAF_FLASH_ERASE'', 327),
     (''K_SYSCALL_ESPI_SAF_FLASH_READ'', 328), (''K_SYSCALL_ESPI_SAF_FLASH_UNSUCCESS'', 329),
     (''K_SYSCALL_ESPI_SAF_FLASH_WRITE'', 330), (''K_SYSCALL_ESPI_SAF_GET_CHANNEL_STATUS'', 331),
     (''K_SYSCALL_ESPI_SAF_SET_PROTECTION_REGIONS'', 332), (''K_SYSCALL_ESPI_SEND_OOB'', 333),
     (''K_SYSCALL_ESPI_SEND_VWIRE'', 334), (''K_SYSCALL_ESPI_WRITE_FLASH'', 335)]"

definition syscall_list_copy_8 :: "(string \<times> nat) list" where
  "syscall_list_copy_8 = [
     (''K_SYSCALL_ESPI_WRITE_LPC_REQUEST'', 336), (''K_SYSCALL_ESPI_WRITE_REQUEST'', 337),
     (''K_SYSCALL_FLASH_COPY'', 338), (''K_SYSCALL_FLASH_ERASE'', 339),
     (''K_SYSCALL_FLASH_EX_OP'', 340), (''K_SYSCALL_FLASH_FILL'', 341),
     (''K_SYSCALL_FLASH_FLATTEN'', 342), (''K_SYSCALL_FLASH_GET_PAGE_COUNT'', 343),
     (''K_SYSCALL_FLASH_GET_PAGE_INFO_BY_IDX'', 344),
     (''K_SYSCALL_FLASH_GET_PAGE_INFO_BY_OFFS'', 345), (''K_SYSCALL_FLASH_GET_PARAMETERS'', 346),
     (''K_SYSCALL_FLASH_GET_SIZE'', 347), (''K_SYSCALL_FLASH_GET_WRITE_BLOCK_SIZE'', 348),
     (''K_SYSCALL_FLASH_READ'', 349), (''K_SYSCALL_FLASH_READ_JEDEC_ID'', 350),
     (''K_SYSCALL_FLASH_SFDP_READ'', 351), (''K_SYSCALL_FLASH_SIMULATOR_GET_MEMORY'', 352),
     (''K_SYSCALL_FLASH_WRITE'', 353), (''K_SYSCALL_FUEL_GAUGE_BATTERY_CUTOFF'', 354),
     (''K_SYSCALL_FUEL_GAUGE_GET_BUFFER_PROP'', 355), (''K_SYSCALL_FUEL_GAUGE_GET_PROP'', 356),
     (''K_SYSCALL_FUEL_GAUGE_GET_PROPS'', 357), (''K_SYSCALL_FUEL_GAUGE_SET_PROP'', 358),
     (''K_SYSCALL_FUEL_GAUGE_SET_PROPS'', 359), (''K_SYSCALL_GNSS_GET_ENABLED_SYSTEMS'', 360),
     (''K_SYSCALL_GNSS_GET_FIX_RATE'', 361), (''K_SYSCALL_GNSS_GET_LATEST_TIMEPULSE'', 362),
     (''K_SYSCALL_GNSS_GET_NAVIGATION_MODE'', 363), (''K_SYSCALL_GNSS_GET_SUPPORTED_SYSTEMS'', 364),
     (''K_SYSCALL_GNSS_SET_ENABLED_SYSTEMS'', 365), (''K_SYSCALL_GNSS_SET_FIX_RATE'', 366),
     (''K_SYSCALL_GNSS_SET_NAVIGATION_MODE'', 367), (''K_SYSCALL_HAPTICS_START_OUTPUT'', 368),
     (''K_SYSCALL_HAPTICS_STOP_OUTPUT'', 369), (''K_SYSCALL_HWSPINLOCK_GET_MAX_ID'', 370),
     (''K_SYSCALL_HWSPINLOCK_LOCK'', 371), (''K_SYSCALL_HWSPINLOCK_TRYLOCK'', 372),
     (''K_SYSCALL_HWSPINLOCK_UNLOCK'', 373), (''K_SYSCALL_I2C_CONFIGURE'', 374),
     (''K_SYSCALL_I2C_GET_CONFIG'', 375), (''K_SYSCALL_I2C_RECOVER_BUS'', 376),
     (''K_SYSCALL_I2C_TARGET_DRIVER_REGISTER'', 377),
     (''K_SYSCALL_I2C_TARGET_DRIVER_UNREGISTER'', 378), (''K_SYSCALL_I2C_TRANSFER'', 379),
     (''K_SYSCALL_I2S_BUF_READ'', 380), (''K_SYSCALL_I2S_BUF_WRITE'', 381),
     (''K_SYSCALL_I2S_CONFIGURE'', 382), (''K_SYSCALL_I2S_TRIGGER'', 383)]"

definition syscall_list_copy_9 :: "(string \<times> nat) list" where
  "syscall_list_copy_9 = [
     (''K_SYSCALL_I3C_DO_CCC'', 384), (''K_SYSCALL_I3C_TRANSFER'', 385),
     (''K_SYSCALL_IPM_COMPLETE'', 386), (''K_SYSCALL_IPM_MAX_DATA_SIZE_GET'', 387),
     (''K_SYSCALL_IPM_MAX_ID_VAL_GET'', 388), (''K_SYSCALL_IPM_SEND'', 389),
     (''K_SYSCALL_IPM_SET_ENABLED'', 390), (''K_SYSCALL_IVSHMEM_ENABLE_INTERRUPTS'', 391),
     (''K_SYSCALL_IVSHMEM_GET_ID'', 392), (''K_SYSCALL_IVSHMEM_GET_MAX_PEERS'', 393),
     (''K_SYSCALL_IVSHMEM_GET_MEM'', 394), (''K_SYSCALL_IVSHMEM_GET_OUTPUT_MEM_SECTION'', 395),
     (''K_SYSCALL_IVSHMEM_GET_PROTOCOL'', 396), (''K_SYSCALL_IVSHMEM_GET_RW_MEM_SECTION'', 397),
     (''K_SYSCALL_IVSHMEM_GET_STATE'', 398), (''K_SYSCALL_IVSHMEM_GET_VECTORS'', 399),
     (''K_SYSCALL_IVSHMEM_INT_PEER'', 400), (''K_SYSCALL_IVSHMEM_REGISTER_HANDLER'', 401),
     (''K_SYSCALL_IVSHMEM_SET_STATE'', 402),
     (''K_SYSCALL_K_MEM_PAGING_HISTOGRAM_BACKING_STORE_PAGE_IN_GET'', 403),
     (''K_SYSCALL_K_MEM_PAGING_HISTOGRAM_BACKING_STORE_PAGE_OUT_GET'', 404),
     (''K_SYSCALL_K_MEM_PAGING_HISTOGRAM_EVICTION_GET'', 405),
     (''K_SYSCALL_K_MEM_PAGING_STATS_GET'', 406),
     (''K_SYSCALL_K_MEM_PAGING_THREAD_STATS_GET'', 407), (''K_SYSCALL_LED_BLINK'', 408),
     (''K_SYSCALL_LED_GET_INFO'', 409), (''K_SYSCALL_LED_OFF'', 410), (''K_SYSCALL_LED_ON'', 411),
     (''K_SYSCALL_LED_SET_BRIGHTNESS'', 412), (''K_SYSCALL_LED_SET_CHANNEL'', 413),
     (''K_SYSCALL_LED_SET_COLOR'', 414), (''K_SYSCALL_LED_WRITE_CHANNELS'', 415),
     (''K_SYSCALL_LLEXT_GET_FN_TABLE'', 416), (''K_SYSCALL_MAXIM_DS3231_GET_SYNCPOINT'', 417),
     (''K_SYSCALL_MAXIM_DS3231_REQ_SYNCPOINT'', 418), (''K_SYSCALL_MBOX_MAX_CHANNELS_GET'', 419),
     (''K_SYSCALL_MBOX_MTU_GET'', 420), (''K_SYSCALL_MBOX_SEND'', 421),
     (''K_SYSCALL_MBOX_SET_ENABLED'', 422), (''K_SYSCALL_MDIO_BUS_DISABLE'', 423),
     (''K_SYSCALL_MDIO_BUS_ENABLE'', 424), (''K_SYSCALL_MDIO_READ'', 425),
     (''K_SYSCALL_MDIO_READ_C45'', 426), (''K_SYSCALL_MDIO_WRITE'', 427),
     (''K_SYSCALL_MDIO_WRITE_C45'', 428), (''K_SYSCALL_MSPI_CONFIG'', 429),
     (''K_SYSCALL_MSPI_DEV_CONFIG'', 430), (''K_SYSCALL_MSPI_GET_CHANNEL_STATUS'', 431)]"

definition syscall_list_copy_10 :: "(string \<times> nat) list" where
  "syscall_list_copy_10 = [
     (''K_SYSCALL_MSPI_SCRAMBLE_CONFIG'', 432), (''K_SYSCALL_MSPI_TIMING_CONFIG'', 433),
     (''K_SYSCALL_MSPI_TRANSCEIVE'', 434), (''K_SYSCALL_MSPI_XIP_CONFIG'', 435),
     (''K_SYSCALL_NET_SOCKET_SERVICE_REGISTER'', 436), (''K_SYSCALL_NRF_QSPI_NOR_XIP_ENABLE'', 437),
     (''K_SYSCALL_PECI_CONFIG'', 438), (''K_SYSCALL_PECI_DISABLE'', 439),
     (''K_SYSCALL_PECI_ENABLE'', 440), (''K_SYSCALL_PECI_TRANSFER'', 441),
     (''K_SYSCALL_PS2_CONFIG'', 442), (''K_SYSCALL_PS2_DISABLE_CALLBACK'', 443),
     (''K_SYSCALL_PS2_ENABLE_CALLBACK'', 444), (''K_SYSCALL_PS2_READ'', 445),
     (''K_SYSCALL_PS2_WRITE'', 446), (''K_SYSCALL_PTP_CLOCK_GET'', 447),
     (''K_SYSCALL_PWM_CAPTURE_CYCLES'', 448), (''K_SYSCALL_PWM_DISABLE_CAPTURE'', 449),
     (''K_SYSCALL_PWM_ENABLE_CAPTURE'', 450), (''K_SYSCALL_PWM_GET_CYCLES_PER_SEC'', 451),
     (''K_SYSCALL_PWM_SET_CYCLES'', 452), (''K_SYSCALL_RESET_LINE_ASSERT'', 453),
     (''K_SYSCALL_RESET_LINE_DEASSERT'', 454), (''K_SYSCALL_RESET_LINE_TOGGLE'', 455),
     (''K_SYSCALL_RESET_STATUS'', 456), (''K_SYSCALL_RETAINED_MEM_CLEAR'', 457),
     (''K_SYSCALL_RETAINED_MEM_READ'', 458), (''K_SYSCALL_RETAINED_MEM_SIZE'', 459),
     (''K_SYSCALL_RETAINED_MEM_WRITE'', 460), (''K_SYSCALL_RTC_ALARM_GET_SUPPORTED_FIELDS'', 461),
     (''K_SYSCALL_RTC_ALARM_GET_TIME'', 462), (''K_SYSCALL_RTC_ALARM_IS_PENDING'', 463),
     (''K_SYSCALL_RTC_ALARM_SET_CALLBACK'', 464), (''K_SYSCALL_RTC_ALARM_SET_TIME'', 465),
     (''K_SYSCALL_RTC_GET_CALIBRATION'', 466), (''K_SYSCALL_RTC_GET_TIME'', 467),
     (''K_SYSCALL_RTC_SET_CALIBRATION'', 468), (''K_SYSCALL_RTC_SET_TIME'', 469),
     (''K_SYSCALL_RTC_UPDATE_SET_CALLBACK'', 470), (''K_SYSCALL_RTIO_CQE_COPY_OUT'', 471),
     (''K_SYSCALL_RTIO_CQE_GET_MEMPOOL_BUFFER'', 472), (''K_SYSCALL_RTIO_RELEASE_BUFFER'', 473),
     (''K_SYSCALL_RTIO_SQE_CANCEL'', 474), (''K_SYSCALL_RTIO_SQE_COPY_IN_GET_HANDLES'', 475),
     (''K_SYSCALL_RTIO_SQE_SIGNAL'', 476), (''K_SYSCALL_RTIO_SUBMIT'', 477),
     (''K_SYSCALL_SDHC_CARD_BUSY'', 478), (''K_SYSCALL_SDHC_CARD_PRESENT'', 479)]"

definition syscall_list_copy_11 :: "(string \<times> nat) list" where
  "syscall_list_copy_11 = [
     (''K_SYSCALL_SDHC_DISABLE_INTERRUPT'', 480), (''K_SYSCALL_SDHC_ENABLE_INTERRUPT'', 481),
     (''K_SYSCALL_SDHC_EXECUTE_TUNING'', 482), (''K_SYSCALL_SDHC_GET_HOST_PROPS'', 483),
     (''K_SYSCALL_SDHC_HW_RESET'', 484), (''K_SYSCALL_SDHC_REQUEST'', 485),
     (''K_SYSCALL_SDHC_SET_IO'', 486), (''K_SYSCALL_SENSOR_ATTR_GET'', 487),
     (''K_SYSCALL_SENSOR_ATTR_SET'', 488), (''K_SYSCALL_SENSOR_CHANNEL_GET'', 489),
     (''K_SYSCALL_SENSOR_GET_DECODER'', 490), (''K_SYSCALL_SENSOR_RECONFIGURE_READ_IODEV'', 491),
     (''K_SYSCALL_SENSOR_SAMPLE_FETCH'', 492), (''K_SYSCALL_SENSOR_SAMPLE_FETCH_CHAN'', 493),
     (''K_SYSCALL_SIP_SUPERVISORY_CALL'', 494), (''K_SYSCALL_SIP_SVC_PLAT_ASYNC_RES_REQ'', 495),
     (''K_SYSCALL_SIP_SVC_PLAT_ASYNC_RES_RES'', 496),
     (''K_SYSCALL_SIP_SVC_PLAT_FORMAT_TRANS_ID'', 497),
     (''K_SYSCALL_SIP_SVC_PLAT_FREE_ASYNC_MEMORY'', 498),
     (''K_SYSCALL_SIP_SVC_PLAT_FUNC_ID_VALID'', 499),
     (''K_SYSCALL_SIP_SVC_PLAT_GET_ERROR_CODE'', 500),
     (''K_SYSCALL_SIP_SVC_PLAT_GET_TRANS_IDX'', 501),
     (''K_SYSCALL_SIP_SVC_PLAT_UPDATE_TRANS_ID'', 502), (''K_SYSCALL_SMBUS_BLOCK_PCALL'', 503),
     (''K_SYSCALL_SMBUS_BLOCK_READ'', 504), (''K_SYSCALL_SMBUS_BLOCK_WRITE'', 505),
     (''K_SYSCALL_SMBUS_BYTE_DATA_READ'', 506), (''K_SYSCALL_SMBUS_BYTE_DATA_WRITE'', 507),
     (''K_SYSCALL_SMBUS_BYTE_READ'', 508), (''K_SYSCALL_SMBUS_BYTE_WRITE'', 509),
     (''K_SYSCALL_SMBUS_CONFIGURE'', 510), (''K_SYSCALL_SMBUS_GET_CONFIG'', 511),
     (''K_SYSCALL_SMBUS_HOST_NOTIFY_REMOVE_CB'', 512), (''K_SYSCALL_SMBUS_PCALL'', 513),
     (''K_SYSCALL_SMBUS_QUICK'', 514), (''K_SYSCALL_SMBUS_SMBALERT_REMOVE_CB'', 515),
     (''K_SYSCALL_SMBUS_WORD_DATA_READ'', 516), (''K_SYSCALL_SMBUS_WORD_DATA_WRITE'', 517),
     (''K_SYSCALL_STEPPER_DISABLE'', 518), (''K_SYSCALL_STEPPER_ENABLE'', 519),
     (''K_SYSCALL_STEPPER_GET_ACTUAL_POSITION'', 520),
     (''K_SYSCALL_STEPPER_GET_MICRO_STEP_RES'', 521), (''K_SYSCALL_STEPPER_IS_MOVING'', 522),
     (''K_SYSCALL_STEPPER_MOVE_BY'', 523), (''K_SYSCALL_STEPPER_MOVE_TO'', 524),
     (''K_SYSCALL_STEPPER_RUN'', 525), (''K_SYSCALL_STEPPER_SET_EVENT_CALLBACK'', 526),
     (''K_SYSCALL_STEPPER_SET_MICROSTEP_INTERVAL'', 527)]"

definition syscall_list_copy_12 :: "(string \<times> nat) list" where
  "syscall_list_copy_12 = [
     (''K_SYSCALL_STEPPER_SET_MICRO_STEP_RES'', 528),
     (''K_SYSCALL_STEPPER_SET_REFERENCE_POSITION'', 529), (''K_SYSCALL_STEPPER_STOP'', 530),
     (''K_SYSCALL_SYSCON_GET_BASE'', 531), (''K_SYSCALL_SYSCON_GET_SIZE'', 532),
     (''K_SYSCALL_SYSCON_READ_REG'', 533), (''K_SYSCALL_SYSCON_WRITE_REG'', 534),
     (''K_SYSCALL_SYS_CACHE_DATA_FLUSH_AND_INVD_RANGE'', 535),
     (''K_SYSCALL_SYS_CACHE_DATA_FLUSH_RANGE'', 536),
     (''K_SYSCALL_SYS_CACHE_DATA_INVD_RANGE'', 537), (''K_SYSCALL_TEE_CANCEL'', 538),
     (''K_SYSCALL_TEE_CLOSE_SESSION'', 539), (''K_SYSCALL_TEE_GET_VERSION'', 540),
     (''K_SYSCALL_TEE_INVOKE_FUNC'', 541), (''K_SYSCALL_TEE_OPEN_SESSION'', 542),
     (''K_SYSCALL_TEE_SHM_ALLOC'', 543), (''K_SYSCALL_TEE_SHM_FREE'', 544),
     (''K_SYSCALL_TEE_SHM_REGISTER'', 545), (''K_SYSCALL_TEE_SHM_UNREGISTER'', 546),
     (''K_SYSCALL_TEE_SUPPL_RECV'', 547), (''K_SYSCALL_TEE_SUPPL_SEND'', 548),
     (''K_SYSCALL_TGPIO_PIN_CONFIG_EXT_TIMESTAMP'', 549), (''K_SYSCALL_TGPIO_PIN_DISABLE'', 550),
     (''K_SYSCALL_TGPIO_PIN_PERIODIC_OUTPUT'', 551), (''K_SYSCALL_TGPIO_PIN_READ_TS_EC'', 552),
     (''K_SYSCALL_TGPIO_PORT_GET_CYCLES_PER_SECOND'', 553),
     (''K_SYSCALL_TGPIO_PORT_GET_TIME'', 554), (''K_SYSCALL_UPDATEHUB_AUTOHANDLER'', 555),
     (''K_SYSCALL_UPDATEHUB_CONFIRM'', 556), (''K_SYSCALL_UPDATEHUB_PROBE'', 557),
     (''K_SYSCALL_UPDATEHUB_REBOOT'', 558), (''K_SYSCALL_UPDATEHUB_UPDATE'', 559),
     (''K_SYSCALL_USER_FAULT'', 560), (''K_SYSCALL_W1_CHANGE_BUS_LOCK'', 561),
     (''K_SYSCALL_W1_CONFIGURE'', 562), (''K_SYSCALL_W1_GET_SLAVE_COUNT'', 563),
     (''K_SYSCALL_W1_READ_BIT'', 564), (''K_SYSCALL_W1_READ_BLOCK'', 565),
     (''K_SYSCALL_W1_READ_BYTE'', 566), (''K_SYSCALL_W1_RESET_BUS'', 567),
     (''K_SYSCALL_W1_SEARCH_BUS'', 568), (''K_SYSCALL_W1_WRITE_BIT'', 569),
     (''K_SYSCALL_W1_WRITE_BLOCK'', 570), (''K_SYSCALL_W1_WRITE_BYTE'', 571),
     (''K_SYSCALL_WDT_DISABLE'', 572), (''K_SYSCALL_WDT_FEED'', 573),
     (''K_SYSCALL_WDT_SETUP'', 574), (''K_SYSCALL_XTENSA_USER_FAULT'', 575)]"

definition syscall_list_copy_13 :: "(string \<times> nat) list" where
  "syscall_list_copy_13 = [
     (''K_SYSCALL_Z_ERRNO'', 576)]"

definition syscall_list_copy :: "(string \<times> nat) list" where
  "syscall_list_copy = syscall_list_copy_1 @ syscall_list_copy_2 @ syscall_list_copy_3 @ syscall_list_copy_4 @
     syscall_list_copy_5 @ syscall_list_copy_6 @ syscall_list_copy_7 @
     syscall_list_copy_8 @ syscall_list_copy_9 @ syscall_list_copy_10 @
     syscall_list_copy_11 @ syscall_list_copy_12 @ syscall_list_copy_13"

section \<open>Exports\<close>

definition exported_decls_1 :: "string list" where
  "exported_decls_1 = [
     ''z_impl___posix_clock_get_base'', ''z_impl_device_deinit'', ''z_impl_device_get_binding'',
     ''z_impl_device_get_by_dt_nodelabel'', ''z_impl_device_init'', ''z_impl_device_is_ready'',
     ''z_impl_entropy_get_entropy'', ''z_impl_gpio_get_pending_int'', ''z_impl_gpio_pin_configure'',
     ''z_impl_gpio_pin_get_config'', ''z_impl_gpio_pin_interrupt_configure'',
     ''z_impl_gpio_port_clear_bits_raw'', ''z_impl_gpio_port_get_direction'',
     ''z_impl_gpio_port_get_raw'', ''z_impl_gpio_port_set_bits_raw'',
     ''z_impl_gpio_port_set_masked_raw'', ''z_impl_gpio_port_toggle_bits'',
     ''z_impl_hwinfo_clear_reset_cause'', ''z_impl_hwinfo_get_device_eui64'',
     ''z_impl_hwinfo_get_device_id'', ''z_impl_hwinfo_get_reset_cause'',
     ''z_impl_hwinfo_get_supported_reset_cause'', ''z_impl_k_busy_wait'',
     ''z_impl_k_condvar_broadcast'', ''z_impl_k_condvar_init'', ''z_impl_k_condvar_signal'',
     ''z_impl_k_condvar_wait'', ''z_impl_k_event_clear'', ''z_impl_k_event_init'',
     ''z_impl_k_event_post'', ''z_impl_k_event_set'', ''z_impl_k_event_set_masked'',
     ''z_impl_k_event_wait'', ''z_impl_k_event_wait_all'']"

definition exported_decls_2 :: "string list" where
  "exported_decls_2 = [
     ''z_impl_k_float_disable'', ''z_impl_k_float_enable'', ''z_impl_k_futex_wait'',
     ''z_impl_k_futex_wake'', ''z_impl_k_is_preempt_thread'', ''z_impl_k_msgq_alloc_init'',
     ''z_impl_k_msgq_get'', ''z_impl_k_msgq_get_attrs'', ''z_impl_k_msgq_num_free_get'',
     ''z_impl_k_msgq_num_used_get'', ''z_impl_k_msgq_peek'', ''z_impl_k_msgq_peek_at'',
     ''z_impl_k_msgq_purge'', ''z_impl_k_msgq_put'', ''z_impl_k_mutex_init'',
     ''z_impl_k_mutex_lock'', ''z_impl_k_mutex_unlock'', ''z_impl_k_object_access_grant'',
     ''z_impl_k_object_alloc'', ''z_impl_k_object_alloc_size'', ''z_impl_k_object_release'',
     ''z_impl_k_pipe_alloc_init'', ''z_impl_k_pipe_buffer_flush'', ''z_impl_k_pipe_close'',
     ''z_impl_k_pipe_flush'', ''z_impl_k_pipe_get'', ''z_impl_k_pipe_init'', ''z_impl_k_pipe_put'',
     ''z_impl_k_pipe_read'', ''z_impl_k_pipe_read_avail'', ''z_impl_k_pipe_reset'',
     ''z_impl_k_pipe_write'', ''z_impl_k_pipe_write_avail'', ''z_impl_k_poll'']"

definition exported_decls_3 :: "string list" where
  "exported_decls_3 = [
     ''z_impl_k_poll_signal_check'', ''z_impl_k_poll_signal_init'', ''z_impl_k_poll_signal_raise'',
     ''z_impl_k_poll_signal_reset'', ''z_impl_k_queue_alloc_append'',
     ''z_impl_k_queue_alloc_prepend'', ''z_impl_k_queue_cancel_wait'', ''z_impl_k_queue_get'',
     ''z_impl_k_queue_init'', ''z_impl_k_queue_is_empty'', ''z_impl_k_queue_peek_head'',
     ''z_impl_k_queue_peek_tail'', ''z_impl_k_reschedule'', ''z_impl_k_sched_current_thread_query'',
     ''z_impl_k_sem_count_get'', ''z_impl_k_sem_give'', ''z_impl_k_sem_init'',
     ''z_impl_k_sem_reset'', ''z_impl_k_sem_take'', ''z_impl_k_sleep'',
     ''z_impl_k_stack_alloc_init'', ''z_impl_k_stack_pop'', ''z_impl_k_stack_push'',
     ''z_impl_k_str_out'', ''z_impl_k_thread_abort'', ''z_impl_k_thread_create'',
     ''z_impl_k_thread_custom_data_get'', ''z_impl_k_thread_custom_data_set'',
     ''z_impl_k_thread_deadline_set'', ''z_impl_k_thread_join'', ''z_impl_k_thread_name_copy'',
     ''z_impl_k_thread_name_set'', ''z_impl_k_thread_priority_get'',
     ''z_impl_k_thread_priority_set'']"

definition exported_decls_4 :: "string list" where
  "exported_decls_4 = [
     ''z_impl_k_thread_resume'', ''z_impl_k_thread_stack_alloc'', ''z_impl_k_thread_stack_free'',
     ''z_impl_k_thread_stack_space_get'', ''z_impl_k_thread_suspend'',
     ''z_impl_k_thread_timeout_expires_ticks'', ''z_impl_k_thread_timeout_remaining_ticks'',
     ''z_impl_k_timer_expires_ticks'', ''z_impl_k_timer_remaining_ticks'', ''z_impl_k_timer_start'',
     ''z_impl_k_timer_status_get'', ''z_impl_k_timer_status_sync'', ''z_impl_k_timer_stop'',
     ''z_impl_k_timer_user_data_get'', ''z_impl_k_timer_user_data_set'', ''z_impl_k_uptime_ticks'',
     ''z_impl_k_usleep'', ''z_impl_k_wakeup'', ''z_impl_k_yield'', ''z_impl_log_buffered_cnt'',
     ''z_impl_log_filter_set'', ''z_impl_log_frontend_filter_set'', ''z_impl_log_panic'',
     ''z_impl_log_process'', ''z_impl_net_addr_ntop'', ''z_impl_net_addr_pton'',
     ''z_impl_net_eth_get_ptp_clock_by_index'', ''z_impl_net_if_get_by_index'',
     ''z_impl_net_if_ipv4_addr_add_by_index'', ''z_impl_net_if_ipv4_addr_lookup_by_index'',
     ''z_impl_net_if_ipv4_addr_rm_by_index'', ''z_impl_net_if_ipv4_set_gw_by_index'',
     ''z_impl_net_if_ipv4_set_netmask_by_addr_by_index'',
     ''z_impl_net_if_ipv4_set_netmask_by_index'']"

definition exported_decls_5 :: "string list" where
  "exported_decls_5 = [
     ''z_impl_net_if_ipv6_addr_add_by_index'', ''z_impl_net_if_ipv6_addr_lookup_by_index'',
     ''z_impl_net_if_ipv6_addr_rm_by_index'', ''z_impl_spi_release'', ''z_impl_spi_transceive'',
     ''z_impl_sys_clock_hw_cycles_per_sec_runtime_get'', ''z_impl_sys_csrand_get'',
     ''z_impl_sys_rand_get'', ''z_impl_uart_config_get'', ''z_impl_uart_configure'',
     ''z_impl_uart_drv_cmd'', ''z_impl_uart_err_check'', ''z_impl_uart_irq_err_disable'',
     ''z_impl_uart_irq_err_enable'', ''z_impl_uart_irq_is_pending'', ''z_impl_uart_irq_rx_disable'',
     ''z_impl_uart_irq_rx_enable'', ''z_impl_uart_irq_tx_disable'', ''z_impl_uart_irq_tx_enable'',
     ''z_impl_uart_irq_update'', ''z_impl_uart_line_ctrl_get'', ''z_impl_uart_line_ctrl_set'',
     ''z_impl_uart_poll_in'', ''z_impl_uart_poll_in_u16'', ''z_impl_uart_poll_out'',
     ''z_impl_uart_poll_out_u16'', ''z_impl_uart_rx_disable'', ''z_impl_uart_rx_enable'',
     ''z_impl_uart_rx_enable_u16'', ''z_impl_uart_tx'', ''z_impl_uart_tx_abort'',
     ''z_impl_uart_tx_u16'', ''z_impl_z_log_msg_simple_create_0'',
     ''z_impl_z_log_msg_simple_create_1'']"

definition exported_decls_6 :: "string list" where
  "exported_decls_6 = [
     ''z_impl_z_log_msg_simple_create_2'', ''z_impl_z_log_msg_static_create'',
     ''z_impl_z_sys_mutex_kernel_lock'', ''z_impl_z_sys_mutex_kernel_unlock'',
     ''z_impl_z_zsock_getaddrinfo_internal'', ''z_impl_zephyr_fputc'', ''z_impl_zephyr_fwrite'',
     ''z_impl_zephyr_read_stdin'', ''z_impl_zephyr_write_stdout'', ''z_impl_zsock_accept'',
     ''z_impl_zsock_bind'', ''z_impl_zsock_close'', ''z_impl_zsock_connect'',
     ''z_impl_zsock_fcntl_impl'', ''z_impl_zsock_get_context_object'', ''z_impl_zsock_gethostname'',
     ''z_impl_zsock_getpeername'', ''z_impl_zsock_getsockname'', ''z_impl_zsock_getsockopt'',
     ''z_impl_zsock_inet_pton'', ''z_impl_zsock_ioctl_impl'', ''z_impl_zsock_listen'',
     ''z_impl_zsock_recvfrom'', ''z_impl_zsock_recvmsg'', ''z_impl_zsock_sendmsg'',
     ''z_impl_zsock_sendto'', ''z_impl_zsock_setsockopt'', ''z_impl_zsock_shutdown'',
     ''z_impl_zsock_socket'', ''z_impl_zsock_socketpair'', ''z_impl_zvfs_poll'',
     ''z_impl_zvfs_select'']"

definition exported_decls :: "string list" where
  "exported_decls = exported_decls_1 @ exported_decls_2 @ exported_decls_3 @ exported_decls_4 @
     exported_decls_5 @ exported_decls_6"

definition exported_symbols_1 :: "string list" where
  "exported_symbols_1 = [
     ''z_impl___posix_clock_get_base'', ''z_impl_device_deinit'', ''z_impl_device_get_binding'',
     ''z_impl_device_get_by_dt_nodelabel'', ''z_impl_device_init'', ''z_impl_device_is_ready'',
     ''z_impl_entropy_get_entropy'', ''z_impl_gpio_get_pending_int'', ''z_impl_gpio_pin_configure'',
     ''z_impl_gpio_pin_get_config'', ''z_impl_gpio_pin_interrupt_configure'',
     ''z_impl_gpio_port_clear_bits_raw'', ''z_impl_gpio_port_get_direction'',
     ''z_impl_gpio_port_get_raw'', ''z_impl_gpio_port_set_bits_raw'',
     ''z_impl_gpio_port_set_masked_raw'', ''z_impl_gpio_port_toggle_bits'',
     ''z_impl_hwinfo_clear_reset_cause'', ''z_impl_hwinfo_get_device_eui64'',
     ''z_impl_hwinfo_get_device_id'', ''z_impl_hwinfo_get_reset_cause'',
     ''z_impl_hwinfo_get_supported_reset_cause'', ''z_impl_k_busy_wait'',
     ''z_impl_k_condvar_broadcast'', ''z_impl_k_condvar_init'', ''z_impl_k_condvar_signal'',
     ''z_impl_k_condvar_wait'', ''z_impl_k_event_clear'', ''z_impl_k_event_init'',
     ''z_impl_k_event_post'', ''z_impl_k_event_set'', ''z_impl_k_event_set_masked'',
     ''z_impl_k_event_wait'', ''z_impl_k_event_wait_all'']"

definition exported_symbols_2 :: "string list" where
  "exported_symbols_2 = [
     ''z_impl_k_float_disable'', ''z_impl_k_float_enable'', ''z_impl_k_futex_wait'',
     ''z_impl_k_futex_wake'', ''z_impl_k_is_preempt_thread'', ''z_impl_k_msgq_alloc_init'',
     ''z_impl_k_msgq_get'', ''z_impl_k_msgq_get_attrs'', ''z_impl_k_msgq_num_free_get'',
     ''z_impl_k_msgq_num_used_get'', ''z_impl_k_msgq_peek'', ''z_impl_k_msgq_peek_at'',
     ''z_impl_k_msgq_purge'', ''z_impl_k_msgq_put'', ''z_impl_k_mutex_init'',
     ''z_impl_k_mutex_lock'', ''z_impl_k_mutex_unlock'', ''z_impl_k_object_access_grant'',
     ''z_impl_k_object_alloc'', ''z_impl_k_object_alloc_size'', ''z_impl_k_object_release'',
     ''z_impl_k_pipe_alloc_init'', ''z_impl_k_pipe_buffer_flush'', ''z_impl_k_pipe_close'',
     ''z_impl_k_pipe_flush'', ''z_impl_k_pipe_get'', ''z_impl_k_pipe_init'', ''z_impl_k_pipe_put'',
     ''z_impl_k_pipe_read'', ''z_impl_k_pipe_read_avail'', ''z_impl_k_pipe_reset'',
     ''z_impl_k_pipe_write'', ''z_impl_k_pipe_write_avail'', ''z_impl_k_poll'']"

definition exported_symbols_3 :: "string list" where
  "exported_symbols_3 = [
     ''z_impl_k_poll_signal_check'', ''z_impl_k_poll_signal_init'', ''z_impl_k_poll_signal_raise'',
     ''z_impl_k_poll_signal_reset'', ''z_impl_k_queue_alloc_append'',
     ''z_impl_k_queue_alloc_prepend'', ''z_impl_k_queue_cancel_wait'', ''z_impl_k_queue_get'',
     ''z_impl_k_queue_init'', ''z_impl_k_queue_is_empty'', ''z_impl_k_queue_peek_head'',
     ''z_impl_k_queue_peek_tail'', ''z_impl_k_reschedule'', ''z_impl_k_sched_current_thread_query'',
     ''z_impl_k_sem_count_get'', ''z_impl_k_sem_give'', ''z_impl_k_sem_init'',
     ''z_impl_k_sem_reset'', ''z_impl_k_sem_take'', ''z_impl_k_sleep'',
     ''z_impl_k_stack_alloc_init'', ''z_impl_k_stack_pop'', ''z_impl_k_stack_push'',
     ''z_impl_k_str_out'', ''z_impl_k_thread_abort'', ''z_impl_k_thread_create'',
     ''z_impl_k_thread_custom_data_get'', ''z_impl_k_thread_custom_data_set'',
     ''z_impl_k_thread_deadline_set'', ''z_impl_k_thread_join'', ''z_impl_k_thread_name_copy'',
     ''z_impl_k_thread_name_set'', ''z_impl_k_thread_priority_get'',
     ''z_impl_k_thread_priority_set'']"

definition exported_symbols_4 :: "string list" where
  "exported_symbols_4 = [
     ''z_impl_k_thread_resume'', ''z_impl_k_thread_stack_alloc'', ''z_impl_k_thread_stack_free'',
     ''z_impl_k_thread_stack_space_get'', ''z_impl_k_thread_suspend'',
     ''z_impl_k_thread_timeout_expires_ticks'', ''z_impl_k_thread_timeout_remaining_ticks'',
     ''z_impl_k_timer_expires_ticks'', ''z_impl_k_timer_remaining_ticks'', ''z_impl_k_timer_start'',
     ''z_impl_k_timer_status_get'', ''z_impl_k_timer_status_sync'', ''z_impl_k_timer_stop'',
     ''z_impl_k_timer_user_data_get'', ''z_impl_k_timer_user_data_set'', ''z_impl_k_uptime_ticks'',
     ''z_impl_k_usleep'', ''z_impl_k_wakeup'', ''z_impl_k_yield'', ''z_impl_log_buffered_cnt'',
     ''z_impl_log_filter_set'', ''z_impl_log_frontend_filter_set'', ''z_impl_log_panic'',
     ''z_impl_log_process'', ''z_impl_net_addr_ntop'', ''z_impl_net_addr_pton'',
     ''z_impl_net_eth_get_ptp_clock_by_index'', ''z_impl_net_if_get_by_index'',
     ''z_impl_net_if_ipv4_addr_add_by_index'', ''z_impl_net_if_ipv4_addr_lookup_by_index'',
     ''z_impl_net_if_ipv4_addr_rm_by_index'', ''z_impl_net_if_ipv4_set_gw_by_index'',
     ''z_impl_net_if_ipv4_set_netmask_by_addr_by_index'',
     ''z_impl_net_if_ipv4_set_netmask_by_index'']"

definition exported_symbols_5 :: "string list" where
  "exported_symbols_5 = [
     ''z_impl_net_if_ipv6_addr_add_by_index'', ''z_impl_net_if_ipv6_addr_lookup_by_index'',
     ''z_impl_net_if_ipv6_addr_rm_by_index'', ''z_impl_spi_release'', ''z_impl_spi_transceive'',
     ''z_impl_sys_clock_hw_cycles_per_sec_runtime_get'', ''z_impl_sys_csrand_get'',
     ''z_impl_sys_rand_get'', ''z_impl_uart_config_get'', ''z_impl_uart_configure'',
     ''z_impl_uart_drv_cmd'', ''z_impl_uart_err_check'', ''z_impl_uart_irq_err_disable'',
     ''z_impl_uart_irq_err_enable'', ''z_impl_uart_irq_is_pending'', ''z_impl_uart_irq_rx_disable'',
     ''z_impl_uart_irq_rx_enable'', ''z_impl_uart_irq_tx_disable'', ''z_impl_uart_irq_tx_enable'',
     ''z_impl_uart_irq_update'', ''z_impl_uart_line_ctrl_get'', ''z_impl_uart_line_ctrl_set'',
     ''z_impl_uart_poll_in'', ''z_impl_uart_poll_in_u16'', ''z_impl_uart_poll_out'',
     ''z_impl_uart_poll_out_u16'', ''z_impl_uart_rx_disable'', ''z_impl_uart_rx_enable'',
     ''z_impl_uart_rx_enable_u16'', ''z_impl_uart_tx'', ''z_impl_uart_tx_abort'',
     ''z_impl_uart_tx_u16'', ''z_impl_z_log_msg_simple_create_0'',
     ''z_impl_z_log_msg_simple_create_1'']"

definition exported_symbols_6 :: "string list" where
  "exported_symbols_6 = [
     ''z_impl_z_log_msg_simple_create_2'', ''z_impl_z_log_msg_static_create'',
     ''z_impl_z_sys_mutex_kernel_lock'', ''z_impl_z_sys_mutex_kernel_unlock'',
     ''z_impl_z_zsock_getaddrinfo_internal'', ''z_impl_zephyr_fputc'', ''z_impl_zephyr_fwrite'',
     ''z_impl_zephyr_read_stdin'', ''z_impl_zephyr_write_stdout'', ''z_impl_zsock_accept'',
     ''z_impl_zsock_bind'', ''z_impl_zsock_close'', ''z_impl_zsock_connect'',
     ''z_impl_zsock_fcntl_impl'', ''z_impl_zsock_get_context_object'', ''z_impl_zsock_gethostname'',
     ''z_impl_zsock_getpeername'', ''z_impl_zsock_getsockname'', ''z_impl_zsock_getsockopt'',
     ''z_impl_zsock_inet_pton'', ''z_impl_zsock_ioctl_impl'', ''z_impl_zsock_listen'',
     ''z_impl_zsock_recvfrom'', ''z_impl_zsock_recvmsg'', ''z_impl_zsock_sendmsg'',
     ''z_impl_zsock_sendto'', ''z_impl_zsock_setsockopt'', ''z_impl_zsock_shutdown'',
     ''z_impl_zsock_socket'', ''z_impl_zsock_socketpair'', ''z_impl_zvfs_poll'',
     ''z_impl_zvfs_select'']"

definition exported_symbols :: "string list" where
  "exported_symbols = exported_symbols_1 @ exported_symbols_2 @ exported_symbols_3 @ exported_symbols_4 @
     exported_symbols_5 @ exported_symbols_6"

text \<open>Each is a weak alias of \<^verbatim>\<open>no_syscall_impl\<close>, which the linker puts at address 0.\<close>

definition weak_impls_1 :: "string list" where
  "weak_impls_1 = [
     ''z_impl___posix_clock_get_base'', ''z_impl_device_deinit'', ''z_impl_device_get_binding'',
     ''z_impl_device_get_by_dt_nodelabel'', ''z_impl_device_init'', ''z_impl_device_is_ready'',
     ''z_impl_entropy_get_entropy'', ''z_impl_gpio_get_pending_int'', ''z_impl_gpio_pin_configure'',
     ''z_impl_gpio_pin_get_config'', ''z_impl_gpio_pin_interrupt_configure'',
     ''z_impl_gpio_port_clear_bits_raw'', ''z_impl_gpio_port_get_direction'',
     ''z_impl_gpio_port_get_raw'', ''z_impl_gpio_port_set_bits_raw'',
     ''z_impl_gpio_port_set_masked_raw'', ''z_impl_gpio_port_toggle_bits'',
     ''z_impl_hwinfo_clear_reset_cause'', ''z_impl_hwinfo_get_device_eui64'',
     ''z_impl_hwinfo_get_device_id'', ''z_impl_hwinfo_get_reset_cause'',
     ''z_impl_hwinfo_get_supported_reset_cause'', ''z_impl_k_busy_wait'',
     ''z_impl_k_condvar_broadcast'', ''z_impl_k_condvar_init'', ''z_impl_k_condvar_signal'',
     ''z_impl_k_condvar_wait'', ''z_impl_k_event_clear'', ''z_impl_k_event_init'',
     ''z_impl_k_event_post'', ''z_impl_k_event_set'', ''z_impl_k_event_set_masked'',
     ''z_impl_k_event_wait'', ''z_impl_k_event_wait_all'']"

definition weak_impls_2 :: "string list" where
  "weak_impls_2 = [
     ''z_impl_k_float_disable'', ''z_impl_k_float_enable'', ''z_impl_k_futex_wait'',
     ''z_impl_k_futex_wake'', ''z_impl_k_is_preempt_thread'', ''z_impl_k_msgq_alloc_init'',
     ''z_impl_k_msgq_get'', ''z_impl_k_msgq_get_attrs'', ''z_impl_k_msgq_num_free_get'',
     ''z_impl_k_msgq_num_used_get'', ''z_impl_k_msgq_peek'', ''z_impl_k_msgq_peek_at'',
     ''z_impl_k_msgq_purge'', ''z_impl_k_msgq_put'', ''z_impl_k_mutex_init'',
     ''z_impl_k_mutex_lock'', ''z_impl_k_mutex_unlock'', ''z_impl_k_object_access_grant'',
     ''z_impl_k_object_alloc'', ''z_impl_k_object_alloc_size'', ''z_impl_k_object_release'',
     ''z_impl_k_pipe_alloc_init'', ''z_impl_k_pipe_buffer_flush'', ''z_impl_k_pipe_close'',
     ''z_impl_k_pipe_flush'', ''z_impl_k_pipe_get'', ''z_impl_k_pipe_init'', ''z_impl_k_pipe_put'',
     ''z_impl_k_pipe_read'', ''z_impl_k_pipe_read_avail'', ''z_impl_k_pipe_reset'',
     ''z_impl_k_pipe_write'', ''z_impl_k_pipe_write_avail'', ''z_impl_k_poll'']"

definition weak_impls_3 :: "string list" where
  "weak_impls_3 = [
     ''z_impl_k_poll_signal_check'', ''z_impl_k_poll_signal_init'', ''z_impl_k_poll_signal_raise'',
     ''z_impl_k_poll_signal_reset'', ''z_impl_k_queue_alloc_append'',
     ''z_impl_k_queue_alloc_prepend'', ''z_impl_k_queue_cancel_wait'', ''z_impl_k_queue_get'',
     ''z_impl_k_queue_init'', ''z_impl_k_queue_is_empty'', ''z_impl_k_queue_peek_head'',
     ''z_impl_k_queue_peek_tail'', ''z_impl_k_reschedule'', ''z_impl_k_sched_current_thread_query'',
     ''z_impl_k_sem_count_get'', ''z_impl_k_sem_give'', ''z_impl_k_sem_init'',
     ''z_impl_k_sem_reset'', ''z_impl_k_sem_take'', ''z_impl_k_sleep'',
     ''z_impl_k_stack_alloc_init'', ''z_impl_k_stack_pop'', ''z_impl_k_stack_push'',
     ''z_impl_k_str_out'', ''z_impl_k_thread_abort'', ''z_impl_k_thread_create'',
     ''z_impl_k_thread_custom_data_get'', ''z_impl_k_thread_custom_data_set'',
     ''z_impl_k_thread_deadline_set'', ''z_impl_k_thread_join'', ''z_impl_k_thread_name_copy'',
     ''z_impl_k_thread_name_set'', ''z_impl_k_thread_priority_get'',
     ''z_impl_k_thread_priority_set'']"

definition weak_impls_4 :: "string list" where
  "weak_impls_4 = [
     ''z_impl_k_thread_resume'', ''z_impl_k_thread_stack_alloc'', ''z_impl_k_thread_stack_free'',
     ''z_impl_k_thread_stack_space_get'', ''z_impl_k_thread_suspend'',
     ''z_impl_k_thread_timeout_expires_ticks'', ''z_impl_k_thread_timeout_remaining_ticks'',
     ''z_impl_k_timer_expires_ticks'', ''z_impl_k_timer_remaining_ticks'', ''z_impl_k_timer_start'',
     ''z_impl_k_timer_status_get'', ''z_impl_k_timer_status_sync'', ''z_impl_k_timer_stop'',
     ''z_impl_k_timer_user_data_get'', ''z_impl_k_timer_user_data_set'', ''z_impl_k_uptime_ticks'',
     ''z_impl_k_usleep'', ''z_impl_k_wakeup'', ''z_impl_k_yield'', ''z_impl_log_buffered_cnt'',
     ''z_impl_log_filter_set'', ''z_impl_log_frontend_filter_set'', ''z_impl_log_panic'',
     ''z_impl_log_process'', ''z_impl_net_addr_ntop'', ''z_impl_net_addr_pton'',
     ''z_impl_net_eth_get_ptp_clock_by_index'', ''z_impl_net_if_get_by_index'',
     ''z_impl_net_if_ipv4_addr_add_by_index'', ''z_impl_net_if_ipv4_addr_lookup_by_index'',
     ''z_impl_net_if_ipv4_addr_rm_by_index'', ''z_impl_net_if_ipv4_set_gw_by_index'',
     ''z_impl_net_if_ipv4_set_netmask_by_addr_by_index'',
     ''z_impl_net_if_ipv4_set_netmask_by_index'']"

definition weak_impls_5 :: "string list" where
  "weak_impls_5 = [
     ''z_impl_net_if_ipv6_addr_add_by_index'', ''z_impl_net_if_ipv6_addr_lookup_by_index'',
     ''z_impl_net_if_ipv6_addr_rm_by_index'', ''z_impl_spi_release'', ''z_impl_spi_transceive'',
     ''z_impl_sys_clock_hw_cycles_per_sec_runtime_get'', ''z_impl_sys_csrand_get'',
     ''z_impl_sys_rand_get'', ''z_impl_uart_config_get'', ''z_impl_uart_configure'',
     ''z_impl_uart_drv_cmd'', ''z_impl_uart_err_check'', ''z_impl_uart_irq_err_disable'',
     ''z_impl_uart_irq_err_enable'', ''z_impl_uart_irq_is_pending'', ''z_impl_uart_irq_rx_disable'',
     ''z_impl_uart_irq_rx_enable'', ''z_impl_uart_irq_tx_disable'', ''z_impl_uart_irq_tx_enable'',
     ''z_impl_uart_irq_update'', ''z_impl_uart_line_ctrl_get'', ''z_impl_uart_line_ctrl_set'',
     ''z_impl_uart_poll_in'', ''z_impl_uart_poll_in_u16'', ''z_impl_uart_poll_out'',
     ''z_impl_uart_poll_out_u16'', ''z_impl_uart_rx_disable'', ''z_impl_uart_rx_enable'',
     ''z_impl_uart_rx_enable_u16'', ''z_impl_uart_tx'', ''z_impl_uart_tx_abort'',
     ''z_impl_uart_tx_u16'', ''z_impl_z_log_msg_simple_create_0'',
     ''z_impl_z_log_msg_simple_create_1'']"

definition weak_impls_6 :: "string list" where
  "weak_impls_6 = [
     ''z_impl_z_log_msg_simple_create_2'', ''z_impl_z_log_msg_static_create'',
     ''z_impl_z_sys_mutex_kernel_lock'', ''z_impl_z_sys_mutex_kernel_unlock'',
     ''z_impl_z_zsock_getaddrinfo_internal'', ''z_impl_zephyr_fputc'', ''z_impl_zephyr_fwrite'',
     ''z_impl_zephyr_read_stdin'', ''z_impl_zephyr_write_stdout'', ''z_impl_zsock_accept'',
     ''z_impl_zsock_bind'', ''z_impl_zsock_close'', ''z_impl_zsock_connect'',
     ''z_impl_zsock_fcntl_impl'', ''z_impl_zsock_get_context_object'', ''z_impl_zsock_gethostname'',
     ''z_impl_zsock_getpeername'', ''z_impl_zsock_getsockname'', ''z_impl_zsock_getsockopt'',
     ''z_impl_zsock_inet_pton'', ''z_impl_zsock_ioctl_impl'', ''z_impl_zsock_listen'',
     ''z_impl_zsock_recvfrom'', ''z_impl_zsock_recvmsg'', ''z_impl_zsock_sendmsg'',
     ''z_impl_zsock_sendto'', ''z_impl_zsock_setsockopt'', ''z_impl_zsock_shutdown'',
     ''z_impl_zsock_socket'', ''z_impl_zsock_socketpair'', ''z_impl_zvfs_poll'',
     ''z_impl_zvfs_select'']"

definition weak_impls :: "string list" where
  "weak_impls = weak_impls_1 @ weak_impls_2 @ weak_impls_3 @ weak_impls_4 @ weak_impls_5 @ weak_impls_6"

text \<open>The numbers of the exported calls, in the order of the exports.\<close>

definition exported_numbers_1 :: "nat list" where
  "exported_numbers_1 = [
     K_SYSCALL___POSIX_CLOCK_GET_BASE, K_SYSCALL_DEVICE_DEINIT, K_SYSCALL_DEVICE_GET_BINDING,
     K_SYSCALL_DEVICE_GET_BY_DT_NODELABEL, K_SYSCALL_DEVICE_INIT, K_SYSCALL_DEVICE_IS_READY,
     K_SYSCALL_ENTROPY_GET_ENTROPY, K_SYSCALL_GPIO_GET_PENDING_INT, K_SYSCALL_GPIO_PIN_CONFIGURE,
     K_SYSCALL_GPIO_PIN_GET_CONFIG, K_SYSCALL_GPIO_PIN_INTERRUPT_CONFIGURE,
     K_SYSCALL_GPIO_PORT_CLEAR_BITS_RAW, K_SYSCALL_GPIO_PORT_GET_DIRECTION,
     K_SYSCALL_GPIO_PORT_GET_RAW, K_SYSCALL_GPIO_PORT_SET_BITS_RAW,
     K_SYSCALL_GPIO_PORT_SET_MASKED_RAW, K_SYSCALL_GPIO_PORT_TOGGLE_BITS,
     K_SYSCALL_HWINFO_CLEAR_RESET_CAUSE, K_SYSCALL_HWINFO_GET_DEVICE_EUI64,
     K_SYSCALL_HWINFO_GET_DEVICE_ID, K_SYSCALL_HWINFO_GET_RESET_CAUSE,
     K_SYSCALL_HWINFO_GET_SUPPORTED_RESET_CAUSE, K_SYSCALL_K_BUSY_WAIT,
     K_SYSCALL_K_CONDVAR_BROADCAST, K_SYSCALL_K_CONDVAR_INIT, K_SYSCALL_K_CONDVAR_SIGNAL,
     K_SYSCALL_K_CONDVAR_WAIT, K_SYSCALL_K_EVENT_CLEAR, K_SYSCALL_K_EVENT_INIT,
     K_SYSCALL_K_EVENT_POST, K_SYSCALL_K_EVENT_SET, K_SYSCALL_K_EVENT_SET_MASKED,
     K_SYSCALL_K_EVENT_WAIT, K_SYSCALL_K_EVENT_WAIT_ALL]"

definition exported_numbers_2 :: "nat list" where
  "exported_numbers_2 = [
     K_SYSCALL_K_FLOAT_DISABLE, K_SYSCALL_K_FLOAT_ENABLE, K_SYSCALL_K_FUTEX_WAIT,
     K_SYSCALL_K_FUTEX_WAKE, K_SYSCALL_K_IS_PREEMPT_THREAD, K_SYSCALL_K_MSGQ_ALLOC_INIT,
     K_SYSCALL_K_MSGQ_GET, K_SYSCALL_K_MSGQ_GET_ATTRS, K_SYSCALL_K_MSGQ_NUM_FREE_GET,
     K_SYSCALL_K_MSGQ_NUM_USED_GET, K_SYSCALL_K_MSGQ_PEEK, K_SYSCALL_K_MSGQ_PEEK_AT,
     K_SYSCALL_K_MSGQ_PURGE, K_SYSCALL_K_MSGQ_PUT, K_SYSCALL_K_MUTEX_INIT, K_SYSCALL_K_MUTEX_LOCK,
     K_SYSCALL_K_MUTEX_UNLOCK, K_SYSCALL_K_OBJECT_ACCESS_GRANT, K_SYSCALL_K_OBJECT_ALLOC,
     K_SYSCALL_K_OBJECT_ALLOC_SIZE, K_SYSCALL_K_OBJECT_RELEASE, K_SYSCALL_K_PIPE_ALLOC_INIT,
     K_SYSCALL_K_PIPE_BUFFER_FLUSH, K_SYSCALL_K_PIPE_CLOSE, K_SYSCALL_K_PIPE_FLUSH,
     K_SYSCALL_K_PIPE_GET, K_SYSCALL_K_PIPE_INIT, K_SYSCALL_K_PIPE_PUT, K_SYSCALL_K_PIPE_READ,
     K_SYSCALL_K_PIPE_READ_AVAIL, K_SYSCALL_K_PIPE_RESET, K_SYSCALL_K_PIPE_WRITE,
     K_SYSCALL_K_PIPE_WRITE_AVAIL, K_SYSCALL_K_POLL]"

definition exported_numbers_3 :: "nat list" where
  "exported_numbers_3 = [
     K_SYSCALL_K_POLL_SIGNAL_CHECK, K_SYSCALL_K_POLL_SIGNAL_INIT, K_SYSCALL_K_POLL_SIGNAL_RAISE,
     K_SYSCALL_K_POLL_SIGNAL_RESET, K_SYSCALL_K_QUEUE_ALLOC_APPEND, K_SYSCALL_K_QUEUE_ALLOC_PREPEND,
     K_SYSCALL_K_QUEUE_CANCEL_WAIT, K_SYSCALL_K_QUEUE_GET, K_SYSCALL_K_QUEUE_INIT,
     K_SYSCALL_K_QUEUE_IS_EMPTY, K_SYSCALL_K_QUEUE_PEEK_HEAD, K_SYSCALL_K_QUEUE_PEEK_TAIL,
     K_SYSCALL_K_RESCHEDULE, K_SYSCALL_K_SCHED_CURRENT_THREAD_QUERY, K_SYSCALL_K_SEM_COUNT_GET,
     K_SYSCALL_K_SEM_GIVE, K_SYSCALL_K_SEM_INIT, K_SYSCALL_K_SEM_RESET, K_SYSCALL_K_SEM_TAKE,
     K_SYSCALL_K_SLEEP, K_SYSCALL_K_STACK_ALLOC_INIT, K_SYSCALL_K_STACK_POP, K_SYSCALL_K_STACK_PUSH,
     K_SYSCALL_K_STR_OUT, K_SYSCALL_K_THREAD_ABORT, K_SYSCALL_K_THREAD_CREATE,
     K_SYSCALL_K_THREAD_CUSTOM_DATA_GET, K_SYSCALL_K_THREAD_CUSTOM_DATA_SET,
     K_SYSCALL_K_THREAD_DEADLINE_SET, K_SYSCALL_K_THREAD_JOIN, K_SYSCALL_K_THREAD_NAME_COPY,
     K_SYSCALL_K_THREAD_NAME_SET, K_SYSCALL_K_THREAD_PRIORITY_GET, K_SYSCALL_K_THREAD_PRIORITY_SET]"

definition exported_numbers_4 :: "nat list" where
  "exported_numbers_4 = [
     K_SYSCALL_K_THREAD_RESUME, K_SYSCALL_K_THREAD_STACK_ALLOC, K_SYSCALL_K_THREAD_STACK_FREE,
     K_SYSCALL_K_THREAD_STACK_SPACE_GET, K_SYSCALL_K_THREAD_SUSPEND,
     K_SYSCALL_K_THREAD_TIMEOUT_EXPIRES_TICKS, K_SYSCALL_K_THREAD_TIMEOUT_REMAINING_TICKS,
     K_SYSCALL_K_TIMER_EXPIRES_TICKS, K_SYSCALL_K_TIMER_REMAINING_TICKS, K_SYSCALL_K_TIMER_START,
     K_SYSCALL_K_TIMER_STATUS_GET, K_SYSCALL_K_TIMER_STATUS_SYNC, K_SYSCALL_K_TIMER_STOP,
     K_SYSCALL_K_TIMER_USER_DATA_GET, K_SYSCALL_K_TIMER_USER_DATA_SET, K_SYSCALL_K_UPTIME_TICKS,
     K_SYSCALL_K_USLEEP, K_SYSCALL_K_WAKEUP, K_SYSCALL_K_YIELD, K_SYSCALL_LOG_BUFFERED_CNT,
     K_SYSCALL_LOG_FILTER_SET, K_SYSCALL_LOG_FRONTEND_FILTER_SET, K_SYSCALL_LOG_PANIC,
     K_SYSCALL_LOG_PROCESS, K_SYSCALL_NET_ADDR_NTOP, K_SYSCALL_NET_ADDR_PTON,
     K_SYSCALL_NET_ETH_GET_PTP_CLOCK_BY_INDEX, K_SYSCALL_NET_IF_GET_BY_INDEX,
     K_SYSCALL_NET_IF_IPV4_ADDR_ADD_BY_INDEX, K_SYSCALL_NET_IF_IPV4_ADDR_LOOKUP_BY_INDEX,
     K_SYSCALL_NET_IF_IPV4_ADDR_RM_BY_INDEX, K_SYSCALL_NET_IF_IPV4_SET_GW_BY_INDEX,
     K_SYSCALL_NET_IF_IPV4_SET_NETMASK_BY_ADDR_BY_INDEX, K_SYSCALL_NET_IF_IPV4_SET_NETMASK_BY_INDEX]"

definition exported_numbers_5 :: "nat list" where
  "exported_numbers_5 = [
     K_SYSCALL_NET_IF_IPV6_ADDR_ADD_BY_INDEX, K_SYSCALL_NET_IF_IPV6_ADDR_LOOKUP_BY_INDEX,
     K_SYSCALL_NET_IF_IPV6_ADDR_RM_BY_INDEX, K_SYSCALL_SPI_RELEASE, K_SYSCALL_SPI_TRANSCEIVE,
     K_SYSCALL_SYS_CLOCK_HW_CYCLES_PER_SEC_RUNTIME_GET, K_SYSCALL_SYS_CSRAND_GET,
     K_SYSCALL_SYS_RAND_GET, K_SYSCALL_UART_CONFIG_GET, K_SYSCALL_UART_CONFIGURE,
     K_SYSCALL_UART_DRV_CMD, K_SYSCALL_UART_ERR_CHECK, K_SYSCALL_UART_IRQ_ERR_DISABLE,
     K_SYSCALL_UART_IRQ_ERR_ENABLE, K_SYSCALL_UART_IRQ_IS_PENDING, K_SYSCALL_UART_IRQ_RX_DISABLE,
     K_SYSCALL_UART_IRQ_RX_ENABLE, K_SYSCALL_UART_IRQ_TX_DISABLE, K_SYSCALL_UART_IRQ_TX_ENABLE,
     K_SYSCALL_UART_IRQ_UPDATE, K_SYSCALL_UART_LINE_CTRL_GET, K_SYSCALL_UART_LINE_CTRL_SET,
     K_SYSCALL_UART_POLL_IN, K_SYSCALL_UART_POLL_IN_U16, K_SYSCALL_UART_POLL_OUT,
     K_SYSCALL_UART_POLL_OUT_U16, K_SYSCALL_UART_RX_DISABLE, K_SYSCALL_UART_RX_ENABLE,
     K_SYSCALL_UART_RX_ENABLE_U16, K_SYSCALL_UART_TX, K_SYSCALL_UART_TX_ABORT,
     K_SYSCALL_UART_TX_U16, K_SYSCALL_Z_LOG_MSG_SIMPLE_CREATE_0, K_SYSCALL_Z_LOG_MSG_SIMPLE_CREATE_1]"

definition exported_numbers_6 :: "nat list" where
  "exported_numbers_6 = [
     K_SYSCALL_Z_LOG_MSG_SIMPLE_CREATE_2, K_SYSCALL_Z_LOG_MSG_STATIC_CREATE,
     K_SYSCALL_Z_SYS_MUTEX_KERNEL_LOCK, K_SYSCALL_Z_SYS_MUTEX_KERNEL_UNLOCK,
     K_SYSCALL_Z_ZSOCK_GETADDRINFO_INTERNAL, K_SYSCALL_ZEPHYR_FPUTC, K_SYSCALL_ZEPHYR_FWRITE,
     K_SYSCALL_ZEPHYR_READ_STDIN, K_SYSCALL_ZEPHYR_WRITE_STDOUT, K_SYSCALL_ZSOCK_ACCEPT,
     K_SYSCALL_ZSOCK_BIND, K_SYSCALL_ZSOCK_CLOSE, K_SYSCALL_ZSOCK_CONNECT,
     K_SYSCALL_ZSOCK_FCNTL_IMPL, K_SYSCALL_ZSOCK_GET_CONTEXT_OBJECT, K_SYSCALL_ZSOCK_GETHOSTNAME,
     K_SYSCALL_ZSOCK_GETPEERNAME, K_SYSCALL_ZSOCK_GETSOCKNAME, K_SYSCALL_ZSOCK_GETSOCKOPT,
     K_SYSCALL_ZSOCK_INET_PTON, K_SYSCALL_ZSOCK_IOCTL_IMPL, K_SYSCALL_ZSOCK_LISTEN,
     K_SYSCALL_ZSOCK_RECVFROM, K_SYSCALL_ZSOCK_RECVMSG, K_SYSCALL_ZSOCK_SENDMSG,
     K_SYSCALL_ZSOCK_SENDTO, K_SYSCALL_ZSOCK_SETSOCKOPT, K_SYSCALL_ZSOCK_SHUTDOWN,
     K_SYSCALL_ZSOCK_SOCKET, K_SYSCALL_ZSOCK_SOCKETPAIR, K_SYSCALL_ZVFS_POLL, K_SYSCALL_ZVFS_SELECT]"

definition exported_numbers :: "nat list" where
  "exported_numbers = exported_numbers_1 @ exported_numbers_2 @ exported_numbers_3 @ exported_numbers_4 @
     exported_numbers_5 @ exported_numbers_6"

section \<open>The lists agree\<close>

lemma syscall_list_pieces:
  "syscall_list_copy_1 = syscall_list_1"
  "syscall_list_copy_2 = syscall_list_2"
  "syscall_list_copy_3 = syscall_list_3"
  "syscall_list_copy_4 = syscall_list_4"
  "syscall_list_copy_5 = syscall_list_5"
  "syscall_list_copy_6 = syscall_list_6"
  "syscall_list_copy_7 = syscall_list_7"
  "syscall_list_copy_8 = syscall_list_8"
  "syscall_list_copy_9 = syscall_list_9"
  "syscall_list_copy_10 = syscall_list_10"
  "syscall_list_copy_11 = syscall_list_11"
  "syscall_list_copy_12 = syscall_list_12"
  "syscall_list_copy_13 = syscall_list_13"
  subgoal by (simp only: syscall_list_1_def syscall_list_copy_1_def syscall_ids outside_ids)
  subgoal by (simp only: syscall_list_2_def syscall_list_copy_2_def syscall_ids outside_ids)
  subgoal by (simp only: syscall_list_3_def syscall_list_copy_3_def syscall_ids outside_ids)
  subgoal by (simp only: syscall_list_4_def syscall_list_copy_4_def syscall_ids outside_ids)
  subgoal by (simp only: syscall_list_5_def syscall_list_copy_5_def syscall_ids outside_ids)
  subgoal by (simp only: syscall_list_6_def syscall_list_copy_6_def syscall_ids outside_ids)
  subgoal by (simp only: syscall_list_7_def syscall_list_copy_7_def syscall_ids outside_ids)
  subgoal by (simp only: syscall_list_8_def syscall_list_copy_8_def syscall_ids outside_ids)
  subgoal by (simp only: syscall_list_9_def syscall_list_copy_9_def syscall_ids outside_ids)
  subgoal by (simp only: syscall_list_10_def syscall_list_copy_10_def syscall_ids outside_ids)
  subgoal by (simp only: syscall_list_11_def syscall_list_copy_11_def syscall_ids outside_ids)
  subgoal by (simp only: syscall_list_12_def syscall_list_copy_12_def syscall_ids outside_ids)
  subgoal by (simp only: syscall_list_13_def syscall_list_copy_13_def syscall_ids outside_ids)
  done

lemma syscall_list_agrees: "syscall_list_copy = syscall_list"
  by (simp only: syscall_list_def syscall_list_copy_def syscall_list_pieces)

fun consecutive :: "nat \<Rightarrow> nat list \<Rightarrow> nat option" where
  "consecutive n [] = Some n"
| "consecutive n (x # xs) = (if x = n then consecutive (n + 1) xs else None)"

lemma consecutive_upt: "consecutive n xs = Some m \<Longrightarrow> n \<le> m \<and> xs = [n..<m]"
  by (induction n xs rule: consecutive.induct) (auto simp: upt_conv_Cons split: if_splits)

lemma consecutive_append: "consecutive n xs = Some m \<Longrightarrow> consecutive n (xs @ ys) = consecutive m ys"
  by (induction n xs rule: consecutive.induct) (auto split: if_splits)

lemma syscall_list_piece_numbers:
  "consecutive 0 (map snd syscall_list_copy_1) = Some 48"
  "consecutive 48 (map snd syscall_list_copy_2) = Some 96"
  "consecutive 96 (map snd syscall_list_copy_3) = Some 144"
  "consecutive 144 (map snd syscall_list_copy_4) = Some 192"
  "consecutive 192 (map snd syscall_list_copy_5) = Some 240"
  "consecutive 240 (map snd syscall_list_copy_6) = Some 288"
  "consecutive 288 (map snd syscall_list_copy_7) = Some 336"
  "consecutive 336 (map snd syscall_list_copy_8) = Some 384"
  "consecutive 384 (map snd syscall_list_copy_9) = Some 432"
  "consecutive 432 (map snd syscall_list_copy_10) = Some 480"
  "consecutive 480 (map snd syscall_list_copy_11) = Some 528"
  "consecutive 528 (map snd syscall_list_copy_12) = Some 576"
  "consecutive 576 (map snd syscall_list_copy_13) = Some 577"
  subgoal by (simp add: syscall_list_copy_1_def)
  subgoal by (simp add: syscall_list_copy_2_def)
  subgoal by (simp add: syscall_list_copy_3_def)
  subgoal by (simp add: syscall_list_copy_4_def)
  subgoal by (simp add: syscall_list_copy_5_def)
  subgoal by (simp add: syscall_list_copy_6_def)
  subgoal by (simp add: syscall_list_copy_7_def)
  subgoal by (simp add: syscall_list_copy_8_def)
  subgoal by (simp add: syscall_list_copy_9_def)
  subgoal by (simp add: syscall_list_copy_10_def)
  subgoal by (simp add: syscall_list_copy_11_def)
  subgoal by (simp add: syscall_list_copy_12_def)
  subgoal by (simp add: syscall_list_copy_13_def)
  done

lemma syscall_list_numbers: "map snd syscall_list = [0..<577]"
  by (simp add: syscall_list_agrees [symmetric] syscall_list_copy_def consecutive_append
      syscall_list_piece_numbers consecutive_upt [THEN conjunct2, of 0 _ 577])

lemma exports_declared: "exported_symbols = exported_decls" "weak_impls = exported_decls"
  by (simp_all only: exported_symbols_def exported_symbols_1_def exported_symbols_2_def exported_symbols_3_def exported_symbols_4_def exported_symbols_5_def exported_symbols_6_def
      weak_impls_def weak_impls_1_def weak_impls_2_def weak_impls_3_def weak_impls_4_def weak_impls_5_def weak_impls_6_def
      exported_decls_def exported_decls_1_def exported_decls_2_def exported_decls_3_def exported_decls_4_def exported_decls_5_def exported_decls_6_def)

text \<open>An exported symbol belongs to a row of the dispatch table.\<close>

definition exports_row :: "nat \<Rightarrow> string \<Rightarrow> bool" where
  "exports_row n x \<longleftrightarrow> (\<exists>f. map_of syscall_table n = Some (''z_mrsh_'' @ f) \<and> x = ''z_impl_'' @ f)"

lemma exports_rowI: "map_of syscall_table n = Some (''z_mrsh_'' @ f) \<Longrightarrow> exports_row n (''z_impl_'' @ f)"
  by (simp add: exports_row_def)

lemma exports_rows_pieces:
  "list_all2 exports_row exported_numbers_1 exported_decls_1"
  "list_all2 exports_row exported_numbers_2 exported_decls_2"
  "list_all2 exports_row exported_numbers_3 exported_decls_3"
  "list_all2 exports_row exported_numbers_4 exported_decls_4"
  "list_all2 exports_row exported_numbers_5 exported_decls_5"
  "list_all2 exports_row exported_numbers_6 exported_decls_6"
  subgoal by (simp add: exported_numbers_1_def exported_decls_1_def exports_row_def table_rows)
  subgoal by (simp add: exported_numbers_2_def exported_decls_2_def exports_row_def table_rows)
  subgoal by (simp add: exported_numbers_3_def exported_decls_3_def exports_row_def table_rows)
  subgoal by (simp add: exported_numbers_4_def exported_decls_4_def exports_row_def table_rows)
  subgoal by (simp add: exported_numbers_5_def exported_decls_5_def exports_row_def table_rows)
  subgoal by (simp add: exported_numbers_6_def exported_decls_6_def exports_row_def table_rows)
  done

lemma exports_rows: "list_all2 exports_row exported_numbers exported_decls"
  unfolding exported_numbers_def exported_decls_def by (intro list_all2_appendI exports_rows_pieces)

lemma exported_numbers_sorted: "sort exported_numbers = [0..<K_SYSCALL_BAD]"
  by (simp add: exported_numbers_def exported_numbers_1_def exported_numbers_2_def exported_numbers_3_def exported_numbers_4_def exported_numbers_5_def exported_numbers_6_def syscall_ids upt_rec)

lemma exported_numbers_set: "set exported_numbers = {..<K_SYSCALL_BAD}" "distinct exported_numbers"
  using exported_numbers_sorted by (metis atLeast_upt set_sort) (metis distinct_sort distinct_upt exported_numbers_sorted)

end
