(* ===== verification/Syscall_Outside.thy ===== *)
theory Syscall_Outside
  imports Syscall_Stubs Syscall_Outside_A Syscall_Outside_B Syscall_Exports
begin

text \<open>
  The 373 system calls that the image does not use: their numbers lie beyond the dispatch table, so a
  trap of any of them finds no handler, and in kernel mode each can only call its own implementation.
  The calls with a handler are those whose implementation is exported.
\<close>

section \<open>No handler\<close>

text \<open>The table has a row for every number below \<^verbatim>\<open>K_SYSCALL_LIMIT\<close> and for no other.\<close>

lemma no_row: "K_SYSCALL_LIMIT \<le> n \<Longrightarrow> map_of syscall_table n = None"
  using table_keys by (force simp: map_of_eq_None_iff)

definition no_handler :: "kmode \<Rightarrow> string \<Rightarrow> kcall \<Rightarrow> bool" where
  "no_handler m f c \<longleftrightarrow> served_by c = (if traps m then None else Some (''z_impl_'' @ f))"

lemma syscall_no_handler: "K_SYSCALL_LIMIT \<le> n \<Longrightarrow> no_handler m f (syscall m f n k ps)"
  by (simp add: no_handler_def syscall_def Let_def no_row)

lemmas outside_bounds = outside_ids K_SYSCALL_LIMIT_def

section \<open>The exports\<close>

lemma bad_row: "map_of syscall_table K_SYSCALL_BAD = Some ''handler_bad_syscall''"
  using syscall_table_complete by blast

lemma handled_numbers: "map_of syscall_table n = Some (''z_mrsh_'' @ f) \<Longrightarrow> n \<in> set exported_numbers"
proof (rule ccontr)
  assume row: "map_of syscall_table n = Some (''z_mrsh_'' @ f)" and "n \<notin> set exported_numbers"
  then have "K_SYSCALL_BAD \<le> n" by (simp add: exported_numbers_set)
  then have "n = K_SYSCALL_BAD \<or> K_SYSCALL_LIMIT \<le> n" by (auto simp: K_SYSCALL_BAD_def K_SYSCALL_LIMIT_def)
  then show False
  proof
    assume "n = K_SYSCALL_BAD"
    with row have "Some (''z_mrsh_'' @ f) = Some ''handler_bad_syscall''" by (simp only: bad_row)
    then show False by simp
  next
    assume "K_SYSCALL_LIMIT \<le> n"
    then show False using row no_row by (metis option.distinct(1))
  qed
qed

text \<open>The exported symbols are the implementations of the calls that have a row of their own.\<close>

lemma exported_iff:
  "x \<in> set exported_decls \<longleftrightarrow> (\<exists>f n. map_of syscall_table n = Some (''z_mrsh_'' @ f) \<and> x = ''z_impl_'' @ f)"
proof
  assume "x \<in> set exported_decls"
  then obtain n where "exports_row n x" using exports_rows by (auto simp: in_set_conv_nth list_all2_conv_all_nth)
  then show "\<exists>f n. map_of syscall_table n = Some (''z_mrsh_'' @ f) \<and> x = ''z_impl_'' @ f"
    by (auto simp: exports_row_def)
next
  assume "\<exists>f n. map_of syscall_table n = Some (''z_mrsh_'' @ f) \<and> x = ''z_impl_'' @ f"
  then obtain f n where row: "map_of syscall_table n = Some (''z_mrsh_'' @ f)" "x = ''z_impl_'' @ f" by blast
  then obtain i where i: "i < length exported_numbers" "exported_numbers ! i = n"
    using handled_numbers by (metis in_set_conv_nth)
  then have "exports_row n (exported_decls ! i)" "i < length exported_decls"
    using exports_rows by (auto simp: list_all2_conv_all_nth)
  then show "x \<in> set exported_decls" using row by (auto simp: exports_row_def in_set_conv_nth)
qed

section \<open>Outside the image\<close>

text \<open>C39. A system call outside the image is served by no handler. The numbers of \<^verbatim>\<open>syscall_list.h\<close>, in
  both copies, are 0 to 576 without gap or repetition; exported, with a weak definition each, are
  exactly the implementations of the calls that have a row of their own in the dispatch table; and for
  all parameters, each of the 373 stubs outside the image traps with a number that no row of the
  table has, or, without \<^verbatim>\<open>CONFIG_USERSPACE\<close> or in kernel mode, calls the implementation of its own
  name.\<close>

theorem outside_calls_unserved:
  "syscall_list_copy = syscall_list \<and> map snd syscall_list = [0..<577] \<and>
   exported_symbols = exported_decls \<and> weak_impls = exported_decls \<and>
   set exported_symbols = {''z_impl_'' @ f | f n. map_of syscall_table n = Some (''z_mrsh_'' @ f)} \<and>
   (\<forall>a b. no_handler m ''adc_channel_setup'' (sys_adc_channel_setup m a b)) \<and>
   (\<forall>a b. no_handler m ''adc_read'' (sys_adc_read m a b)) \<and>
   (\<forall>a b c. no_handler m ''adc_read_async'' (sys_adc_read_async m a b c)) \<and>
   (\<forall>a. no_handler m ''xtensa_user_fault'' (sys_xtensa_user_fault m a)) \<and>
   (\<forall>a b c. no_handler m ''atomic_cas'' (sys_atomic_cas m a b c)) \<and>
   (\<forall>a b c. no_handler m ''atomic_ptr_cas'' (sys_atomic_ptr_cas m a b c)) \<and>
   (\<forall>a b. no_handler m ''atomic_add'' (sys_atomic_add m a b)) \<and>
   (\<forall>a b. no_handler m ''atomic_sub'' (sys_atomic_sub m a b)) \<and>
   (\<forall>a b. no_handler m ''atomic_set'' (sys_atomic_set m a b)) \<and>
   (\<forall>a b. no_handler m ''atomic_ptr_set'' (sys_atomic_ptr_set m a b)) \<and>
   (\<forall>a b. no_handler m ''atomic_or'' (sys_atomic_or m a b)) \<and>
   (\<forall>a b. no_handler m ''atomic_xor'' (sys_atomic_xor m a b)) \<and>
   (\<forall>a b. no_handler m ''atomic_and'' (sys_atomic_and m a b)) \<and>
   (\<forall>a b. no_handler m ''atomic_nand'' (sys_atomic_nand m a b)) \<and>
   (\<forall>a. no_handler m ''auxdisplay_display_on'' (sys_auxdisplay_display_on m a)) \<and>
   (\<forall>a. no_handler m ''auxdisplay_display_off'' (sys_auxdisplay_display_off m a)) \<and>
   (\<forall>a b. no_handler m ''auxdisplay_cursor_set_enabled'' (sys_auxdisplay_cursor_set_enabled m a b)) \<and>
   (\<forall>a b. no_handler m ''auxdisplay_position_blinking_set_enabled'' (sys_auxdisplay_position_blinking_set_enabled m a b)) \<and>
   (\<forall>a b c. no_handler m ''auxdisplay_cursor_shift_set'' (sys_auxdisplay_cursor_shift_set m a b c)) \<and>
   (\<forall>a b c d. no_handler m ''auxdisplay_cursor_position_set'' (sys_auxdisplay_cursor_position_set m a b c d)) \<and>
   (\<forall>a b c. no_handler m ''auxdisplay_cursor_position_get'' (sys_auxdisplay_cursor_position_get m a b c)) \<and>
   (\<forall>a b c d. no_handler m ''auxdisplay_display_position_set'' (sys_auxdisplay_display_position_set m a b c d)) \<and>
   (\<forall>a b c. no_handler m ''auxdisplay_display_position_get'' (sys_auxdisplay_display_position_get m a b c)) \<and>
   (\<forall>a b. no_handler m ''auxdisplay_capabilities_get'' (sys_auxdisplay_capabilities_get m a b)) \<and>
   (\<forall>a. no_handler m ''auxdisplay_clear'' (sys_auxdisplay_clear m a)) \<and>
   (\<forall>a b. no_handler m ''auxdisplay_brightness_get'' (sys_auxdisplay_brightness_get m a b)) \<and>
   (\<forall>a b. no_handler m ''auxdisplay_brightness_set'' (sys_auxdisplay_brightness_set m a b)) \<and>
   (\<forall>a b. no_handler m ''auxdisplay_backlight_get'' (sys_auxdisplay_backlight_get m a b)) \<and>
   (\<forall>a b. no_handler m ''auxdisplay_backlight_set'' (sys_auxdisplay_backlight_set m a b)) \<and>
   (\<forall>a. no_handler m ''auxdisplay_is_busy'' (sys_auxdisplay_is_busy m a)) \<and>
   (\<forall>a b. no_handler m ''auxdisplay_custom_character_set'' (sys_auxdisplay_custom_character_set m a b)) \<and>
   (\<forall>a b c. no_handler m ''auxdisplay_write'' (sys_auxdisplay_write m a b c)) \<and>
   (\<forall>a b. no_handler m ''auxdisplay_custom_command'' (sys_auxdisplay_custom_command m a b)) \<and>
   (\<forall>a. no_handler m ''bbram_check_invalid'' (sys_bbram_check_invalid m a)) \<and>
   (\<forall>a. no_handler m ''bbram_check_standby_power'' (sys_bbram_check_standby_power m a)) \<and>
   (\<forall>a. no_handler m ''bbram_check_power'' (sys_bbram_check_power m a)) \<and>
   (\<forall>a b. no_handler m ''bbram_get_size'' (sys_bbram_get_size m a b)) \<and>
   (\<forall>a b c d. no_handler m ''bbram_read'' (sys_bbram_read m a b c d)) \<and>
   (\<forall>a b c d. no_handler m ''bbram_write'' (sys_bbram_write m a b c d)) \<and>
   (\<forall>a b. no_handler m ''sys_cache_data_flush_range'' (sys_sys_cache_data_flush_range m a b)) \<and>
   (\<forall>a b. no_handler m ''sys_cache_data_invd_range'' (sys_sys_cache_data_invd_range m a b)) \<and>
   (\<forall>a b. no_handler m ''sys_cache_data_flush_and_invd_range'' (sys_sys_cache_data_flush_and_invd_range m a b)) \<and>
   (\<forall>a b. no_handler m ''can_get_core_clock'' (sys_can_get_core_clock m a b)) \<and>
   (\<forall>a. no_handler m ''can_get_bitrate_min'' (sys_can_get_bitrate_min m a)) \<and>
   (\<forall>a. no_handler m ''can_get_bitrate_max'' (sys_can_get_bitrate_max m a)) \<and>
   (\<forall>a. no_handler m ''can_get_timing_min'' (sys_can_get_timing_min m a)) \<and>
   (\<forall>a. no_handler m ''can_get_timing_max'' (sys_can_get_timing_max m a)) \<and>
   (\<forall>a b c d. no_handler m ''can_calc_timing'' (sys_can_calc_timing m a b c d)) \<and>
   (\<forall>a. no_handler m ''can_get_timing_data_min'' (sys_can_get_timing_data_min m a)) \<and>
   (\<forall>a. no_handler m ''can_get_timing_data_max'' (sys_can_get_timing_data_max m a)) \<and>
   (\<forall>a b c d. no_handler m ''can_calc_timing_data'' (sys_can_calc_timing_data m a b c d)) \<and>
   (\<forall>a b. no_handler m ''can_set_timing_data'' (sys_can_set_timing_data m a b)) \<and>
   (\<forall>a b. no_handler m ''can_set_bitrate_data'' (sys_can_set_bitrate_data m a b)) \<and>
   (\<forall>a b. no_handler m ''can_set_timing'' (sys_can_set_timing m a b)) \<and>
   (\<forall>a b. no_handler m ''can_get_capabilities'' (sys_can_get_capabilities m a b)) \<and>
   (\<forall>a. no_handler m ''can_get_transceiver'' (sys_can_get_transceiver m a)) \<and>
   (\<forall>a. no_handler m ''can_start'' (sys_can_start m a)) \<and>
   (\<forall>a. no_handler m ''can_stop'' (sys_can_stop m a)) \<and>
   (\<forall>a b. no_handler m ''can_set_mode'' (sys_can_set_mode m a b)) \<and>
   (\<forall>a. no_handler m ''can_get_mode'' (sys_can_get_mode m a)) \<and>
   (\<forall>a b. no_handler m ''can_set_bitrate'' (sys_can_set_bitrate m a b)) \<and>
   (\<forall>a b c d e. no_handler m ''can_send'' (sys_can_send m a b c d e)) \<and>
   (\<forall>a b c. no_handler m ''can_add_rx_filter_msgq'' (sys_can_add_rx_filter_msgq m a b c)) \<and>
   (\<forall>a b. no_handler m ''can_remove_rx_filter'' (sys_can_remove_rx_filter m a b)) \<and>
   (\<forall>a b. no_handler m ''can_get_max_filters'' (sys_can_get_max_filters m a b)) \<and>
   (\<forall>a b c. no_handler m ''can_get_state'' (sys_can_get_state m a b c)) \<and>
   (\<forall>a b. no_handler m ''can_recover'' (sys_can_recover m a b)) \<and>
   (\<forall>a. no_handler m ''can_stats_get_bit_errors'' (sys_can_stats_get_bit_errors m a)) \<and>
   (\<forall>a. no_handler m ''can_stats_get_bit0_errors'' (sys_can_stats_get_bit0_errors m a)) \<and>
   (\<forall>a. no_handler m ''can_stats_get_bit1_errors'' (sys_can_stats_get_bit1_errors m a)) \<and>
   (\<forall>a. no_handler m ''can_stats_get_stuff_errors'' (sys_can_stats_get_stuff_errors m a)) \<and>
   (\<forall>a. no_handler m ''can_stats_get_crc_errors'' (sys_can_stats_get_crc_errors m a)) \<and>
   (\<forall>a. no_handler m ''can_stats_get_form_errors'' (sys_can_stats_get_form_errors m a)) \<and>
   (\<forall>a. no_handler m ''can_stats_get_ack_errors'' (sys_can_stats_get_ack_errors m a)) \<and>
   (\<forall>a. no_handler m ''can_stats_get_rx_overruns'' (sys_can_stats_get_rx_overruns m a)) \<and>
   (\<forall>a b c. no_handler m ''charger_get_prop'' (sys_charger_get_prop m a b c)) \<and>
   (\<forall>a b c. no_handler m ''charger_set_prop'' (sys_charger_set_prop m a b c)) \<and>
   (\<forall>a b. no_handler m ''charger_charge_enable'' (sys_charger_charge_enable m a b)) \<and>
   (\<forall>a. no_handler m ''comparator_get_output'' (sys_comparator_get_output m a)) \<and>
   (\<forall>a b. no_handler m ''comparator_set_trigger'' (sys_comparator_set_trigger m a b)) \<and>
   (\<forall>a. no_handler m ''comparator_trigger_is_pending'' (sys_comparator_trigger_is_pending m a)) \<and>
   (\<forall>a. no_handler m ''counter_is_counting_up'' (sys_counter_is_counting_up m a)) \<and>
   (\<forall>a. no_handler m ''counter_get_num_of_channels'' (sys_counter_get_num_of_channels m a)) \<and>
   (\<forall>a. no_handler m ''counter_get_frequency'' (sys_counter_get_frequency m a)) \<and>
   (\<forall>a b. no_handler m ''counter_us_to_ticks'' (sys_counter_us_to_ticks m a b)) \<and>
   (\<forall>a b. no_handler m ''counter_ticks_to_us'' (sys_counter_ticks_to_us m a b)) \<and>
   (\<forall>a. no_handler m ''counter_get_max_top_value'' (sys_counter_get_max_top_value m a)) \<and>
   (\<forall>a. no_handler m ''counter_start'' (sys_counter_start m a)) \<and>
   (\<forall>a. no_handler m ''counter_stop'' (sys_counter_stop m a)) \<and>
   (\<forall>a b. no_handler m ''counter_get_value'' (sys_counter_get_value m a b)) \<and>
   (\<forall>a b. no_handler m ''counter_get_value_64'' (sys_counter_get_value_64 m a b)) \<and>
   (\<forall>a. no_handler m ''counter_reset'' (sys_counter_reset m a)) \<and>
   (\<forall>a b c. no_handler m ''counter_set_channel_alarm'' (sys_counter_set_channel_alarm m a b c)) \<and>
   (\<forall>a b. no_handler m ''counter_cancel_channel_alarm'' (sys_counter_cancel_channel_alarm m a b)) \<and>
   (\<forall>a b. no_handler m ''counter_set_top_value'' (sys_counter_set_top_value m a b)) \<and>
   (\<forall>a. no_handler m ''counter_get_pending_int'' (sys_counter_get_pending_int m a)) \<and>
   (\<forall>a. no_handler m ''counter_get_top_value'' (sys_counter_get_top_value m a)) \<and>
   (\<forall>a b c. no_handler m ''counter_set_guard_period'' (sys_counter_set_guard_period m a b c)) \<and>
   (\<forall>a b. no_handler m ''counter_get_guard_period'' (sys_counter_get_guard_period m a b)) \<and>
   (\<forall>a b. no_handler m ''dac_channel_setup'' (sys_dac_channel_setup m a b)) \<and>
   (\<forall>a b c. no_handler m ''dac_write_value'' (sys_dac_write_value m a b c)) \<and>
   (\<forall>a. no_handler m ''k_mem_paging_stats_get'' (sys_k_mem_paging_stats_get m a)) \<and>
   (\<forall>a b. no_handler m ''k_mem_paging_thread_stats_get'' (sys_k_mem_paging_thread_stats_get m a b)) \<and>
   (\<forall>a. no_handler m ''k_mem_paging_histogram_eviction_get'' (sys_k_mem_paging_histogram_eviction_get m a)) \<and>
   (\<forall>a. no_handler m ''k_mem_paging_histogram_backing_store_page_in_get'' (sys_k_mem_paging_histogram_backing_store_page_in_get m a)) \<and>
   (\<forall>a. no_handler m ''k_mem_paging_histogram_backing_store_page_out_get'' (sys_k_mem_paging_histogram_backing_store_page_out_get m a)) \<and>
   (\<forall>a. no_handler m ''devmux_select_get'' (sys_devmux_select_get m a)) \<and>
   (\<forall>a b. no_handler m ''devmux_select_set'' (sys_devmux_select_set m a b)) \<and>
   (\<forall>a b. no_handler m ''dma_start'' (sys_dma_start m a b)) \<and>
   (\<forall>a b. no_handler m ''dma_stop'' (sys_dma_stop m a b)) \<and>
   (\<forall>a b. no_handler m ''dma_suspend'' (sys_dma_suspend m a b)) \<and>
   (\<forall>a b. no_handler m ''dma_resume'' (sys_dma_resume m a b)) \<and>
   (\<forall>a b. no_handler m ''dma_request_channel'' (sys_dma_request_channel m a b)) \<and>
   (\<forall>a b. no_handler m ''dma_release_channel'' (sys_dma_release_channel m a b)) \<and>
   (\<forall>a b c. no_handler m ''dma_chan_filter'' (sys_dma_chan_filter m a b c)) \<and>
   (\<forall>a b c d. no_handler m ''eeprom_read'' (sys_eeprom_read m a b c d)) \<and>
   (\<forall>a b c d. no_handler m ''eeprom_write'' (sys_eeprom_write m a b c d)) \<and>
   (\<forall>a. no_handler m ''eeprom_get_size'' (sys_eeprom_get_size m a)) \<and>
   (\<forall>a b c. no_handler m ''emul_fuel_gauge_set_battery_charging'' (sys_emul_fuel_gauge_set_battery_charging m a b c)) \<and>
   (\<forall>a b. no_handler m ''emul_fuel_gauge_is_battery_cutoff'' (sys_emul_fuel_gauge_is_battery_cutoff m a b)) \<and>
   (no_handler m ''z_errno'' (sys_z_errno m)) \<and>
   (\<forall>a. no_handler m ''user_fault'' (sys_user_fault m a)) \<and>
   (\<forall>a b. no_handler m ''espi_config'' (sys_espi_config m a b)) \<and>
   (\<forall>a b. no_handler m ''espi_get_channel_status'' (sys_espi_get_channel_status m a b)) \<and>
   (\<forall>a b. no_handler m ''espi_read_request'' (sys_espi_read_request m a b)) \<and>
   (\<forall>a b. no_handler m ''espi_write_request'' (sys_espi_write_request m a b)) \<and>
   (\<forall>a b c. no_handler m ''espi_read_lpc_request'' (sys_espi_read_lpc_request m a b c)) \<and>
   (\<forall>a b c. no_handler m ''espi_write_lpc_request'' (sys_espi_write_lpc_request m a b c)) \<and>
   (\<forall>a b c. no_handler m ''espi_send_vwire'' (sys_espi_send_vwire m a b c)) \<and>
   (\<forall>a b c. no_handler m ''espi_receive_vwire'' (sys_espi_receive_vwire m a b c)) \<and>
   (\<forall>a b. no_handler m ''espi_send_oob'' (sys_espi_send_oob m a b)) \<and>
   (\<forall>a b. no_handler m ''espi_receive_oob'' (sys_espi_receive_oob m a b)) \<and>
   (\<forall>a b. no_handler m ''espi_read_flash'' (sys_espi_read_flash m a b)) \<and>
   (\<forall>a b. no_handler m ''espi_write_flash'' (sys_espi_write_flash m a b)) \<and>
   (\<forall>a b. no_handler m ''espi_flash_erase'' (sys_espi_flash_erase m a b)) \<and>
   (\<forall>a b. no_handler m ''espi_saf_config'' (sys_espi_saf_config m a b)) \<and>
   (\<forall>a b. no_handler m ''espi_saf_set_protection_regions'' (sys_espi_saf_set_protection_regions m a b)) \<and>
   (\<forall>a. no_handler m ''espi_saf_activate'' (sys_espi_saf_activate m a)) \<and>
   (\<forall>a. no_handler m ''espi_saf_get_channel_status'' (sys_espi_saf_get_channel_status m a)) \<and>
   (\<forall>a b. no_handler m ''espi_saf_flash_read'' (sys_espi_saf_flash_read m a b)) \<and>
   (\<forall>a b. no_handler m ''espi_saf_flash_write'' (sys_espi_saf_flash_write m a b)) \<and>
   (\<forall>a b. no_handler m ''espi_saf_flash_erase'' (sys_espi_saf_flash_erase m a b)) \<and>
   (\<forall>a b. no_handler m ''espi_saf_flash_unsuccess'' (sys_espi_saf_flash_unsuccess m a b)) \<and>
   (\<forall>a b c d. no_handler m ''flash_read'' (sys_flash_read m a b c d)) \<and>
   (\<forall>a b c d. no_handler m ''flash_write'' (sys_flash_write m a b c d)) \<and>
   (\<forall>a b c. no_handler m ''flash_erase'' (sys_flash_erase m a b c)) \<and>
   (\<forall>a b. no_handler m ''flash_get_size'' (sys_flash_get_size m a b)) \<and>
   (\<forall>a b c d. no_handler m ''flash_fill'' (sys_flash_fill m a b c d)) \<and>
   (\<forall>a b c. no_handler m ''flash_flatten'' (sys_flash_flatten m a b c)) \<and>
   (\<forall>a b c. no_handler m ''flash_get_page_info_by_offs'' (sys_flash_get_page_info_by_offs m a b c)) \<and>
   (\<forall>a b c. no_handler m ''flash_get_page_info_by_idx'' (sys_flash_get_page_info_by_idx m a b c)) \<and>
   (\<forall>a. no_handler m ''flash_get_page_count'' (sys_flash_get_page_count m a)) \<and>
   (\<forall>a b c d. no_handler m ''flash_sfdp_read'' (sys_flash_sfdp_read m a b c d)) \<and>
   (\<forall>a b. no_handler m ''flash_read_jedec_id'' (sys_flash_read_jedec_id m a b)) \<and>
   (\<forall>a. no_handler m ''flash_get_write_block_size'' (sys_flash_get_write_block_size m a)) \<and>
   (\<forall>a. no_handler m ''flash_get_parameters'' (sys_flash_get_parameters m a)) \<and>
   (\<forall>a b c d. no_handler m ''flash_ex_op'' (sys_flash_ex_op m a b c d)) \<and>
   (\<forall>a b c d e f g. no_handler m ''flash_copy'' (sys_flash_copy m a b c d e f g)) \<and>
   (\<forall>a b. no_handler m ''flash_simulator_get_memory'' (sys_flash_simulator_get_memory m a b)) \<and>
   (\<forall>a b c. no_handler m ''fuel_gauge_get_prop'' (sys_fuel_gauge_get_prop m a b c)) \<and>
   (\<forall>a b c d. no_handler m ''fuel_gauge_get_props'' (sys_fuel_gauge_get_props m a b c d)) \<and>
   (\<forall>a b c. no_handler m ''fuel_gauge_set_prop'' (sys_fuel_gauge_set_prop m a b c)) \<and>
   (\<forall>a b c d. no_handler m ''fuel_gauge_set_props'' (sys_fuel_gauge_set_props m a b c d)) \<and>
   (\<forall>a b c d. no_handler m ''fuel_gauge_get_buffer_prop'' (sys_fuel_gauge_get_buffer_prop m a b c d)) \<and>
   (\<forall>a. no_handler m ''fuel_gauge_battery_cutoff'' (sys_fuel_gauge_battery_cutoff m a)) \<and>
   (\<forall>a b. no_handler m ''gnss_set_fix_rate'' (sys_gnss_set_fix_rate m a b)) \<and>
   (\<forall>a b. no_handler m ''gnss_get_fix_rate'' (sys_gnss_get_fix_rate m a b)) \<and>
   (\<forall>a b. no_handler m ''gnss_set_navigation_mode'' (sys_gnss_set_navigation_mode m a b)) \<and>
   (\<forall>a b. no_handler m ''gnss_get_navigation_mode'' (sys_gnss_get_navigation_mode m a b)) \<and>
   (\<forall>a b. no_handler m ''gnss_set_enabled_systems'' (sys_gnss_set_enabled_systems m a b)) \<and>
   (\<forall>a b. no_handler m ''gnss_get_enabled_systems'' (sys_gnss_get_enabled_systems m a b)) \<and>
   (\<forall>a b. no_handler m ''gnss_get_supported_systems'' (sys_gnss_get_supported_systems m a b)) \<and>
   (\<forall>a b. no_handler m ''gnss_get_latest_timepulse'' (sys_gnss_get_latest_timepulse m a b)) \<and>
   (\<forall>a. no_handler m ''haptics_start_output'' (sys_haptics_start_output m a)) \<and>
   (\<forall>a. no_handler m ''haptics_stop_output'' (sys_haptics_stop_output m a)) \<and>
   (\<forall>a b. no_handler m ''hwspinlock_trylock'' (sys_hwspinlock_trylock m a b)) \<and>
   (\<forall>a b. no_handler m ''hwspinlock_lock'' (sys_hwspinlock_lock m a b)) \<and>
   (\<forall>a b. no_handler m ''hwspinlock_unlock'' (sys_hwspinlock_unlock m a b)) \<and>
   (\<forall>a. no_handler m ''hwspinlock_get_max_id'' (sys_hwspinlock_get_max_id m a)) \<and>
   (\<forall>a b. no_handler m ''i2c_configure'' (sys_i2c_configure m a b)) \<and>
   (\<forall>a b. no_handler m ''i2c_get_config'' (sys_i2c_get_config m a b)) \<and>
   (\<forall>a b c d. no_handler m ''i2c_transfer'' (sys_i2c_transfer m a b c d)) \<and>
   (\<forall>a. no_handler m ''i2c_recover_bus'' (sys_i2c_recover_bus m a)) \<and>
   (\<forall>a. no_handler m ''i2c_target_driver_register'' (sys_i2c_target_driver_register m a)) \<and>
   (\<forall>a. no_handler m ''i2c_target_driver_unregister'' (sys_i2c_target_driver_unregister m a)) \<and>
   (\<forall>a b c. no_handler m ''i2s_configure'' (sys_i2s_configure m a b c)) \<and>
   (\<forall>a b c. no_handler m ''i2s_buf_read'' (sys_i2s_buf_read m a b c)) \<and>
   (\<forall>a b c. no_handler m ''i2s_buf_write'' (sys_i2s_buf_write m a b c)) \<and>
   (\<forall>a b c. no_handler m ''i2s_trigger'' (sys_i2s_trigger m a b c)) \<and>
   (\<forall>a b. no_handler m ''i3c_do_ccc'' (sys_i3c_do_ccc m a b)) \<and>
   (\<forall>a b c. no_handler m ''i3c_transfer'' (sys_i3c_transfer m a b c)) \<and>
   (\<forall>a b c d e. no_handler m ''ipm_send'' (sys_ipm_send m a b c d e)) \<and>
   (\<forall>a. no_handler m ''ipm_max_data_size_get'' (sys_ipm_max_data_size_get m a)) \<and>
   (\<forall>a. no_handler m ''ipm_max_id_val_get'' (sys_ipm_max_id_val_get m a)) \<and>
   (\<forall>a b. no_handler m ''ipm_set_enabled'' (sys_ipm_set_enabled m a b)) \<and>
   (\<forall>a. no_handler m ''ipm_complete'' (sys_ipm_complete m a)) \<and>
   (\<forall>a b. no_handler m ''ivshmem_get_mem'' (sys_ivshmem_get_mem m a b)) \<and>
   (\<forall>a. no_handler m ''ivshmem_get_id'' (sys_ivshmem_get_id m a)) \<and>
   (\<forall>a. no_handler m ''ivshmem_get_vectors'' (sys_ivshmem_get_vectors m a)) \<and>
   (\<forall>a b c. no_handler m ''ivshmem_int_peer'' (sys_ivshmem_int_peer m a b c)) \<and>
   (\<forall>a b c. no_handler m ''ivshmem_register_handler'' (sys_ivshmem_register_handler m a b c)) \<and>
   (\<forall>a b. no_handler m ''ivshmem_get_rw_mem_section'' (sys_ivshmem_get_rw_mem_section m a b)) \<and>
   (\<forall>a b c. no_handler m ''ivshmem_get_output_mem_section'' (sys_ivshmem_get_output_mem_section m a b c)) \<and>
   (\<forall>a b. no_handler m ''ivshmem_get_state'' (sys_ivshmem_get_state m a b)) \<and>
   (\<forall>a b. no_handler m ''ivshmem_set_state'' (sys_ivshmem_set_state m a b)) \<and>
   (\<forall>a. no_handler m ''ivshmem_get_max_peers'' (sys_ivshmem_get_max_peers m a)) \<and>
   (\<forall>a. no_handler m ''ivshmem_get_protocol'' (sys_ivshmem_get_protocol m a)) \<and>
   (\<forall>a b. no_handler m ''ivshmem_enable_interrupts'' (sys_ivshmem_enable_interrupts m a b)) \<and>
   (\<forall>a b c d. no_handler m ''led_blink'' (sys_led_blink m a b c d)) \<and>
   (\<forall>a b c. no_handler m ''led_get_info'' (sys_led_get_info m a b c)) \<and>
   (\<forall>a b c. no_handler m ''led_set_brightness'' (sys_led_set_brightness m a b c)) \<and>
   (\<forall>a b c d. no_handler m ''led_write_channels'' (sys_led_write_channels m a b c d)) \<and>
   (\<forall>a b c. no_handler m ''led_set_channel'' (sys_led_set_channel m a b c)) \<and>
   (\<forall>a b c d. no_handler m ''led_set_color'' (sys_led_set_color m a b c d)) \<and>
   (\<forall>a b. no_handler m ''led_on'' (sys_led_on m a b)) \<and>
   (\<forall>a b. no_handler m ''led_off'' (sys_led_off m a b)) \<and>
   (\<forall>a b c d. no_handler m ''llext_get_fn_table'' (sys_llext_get_fn_table m a b c d)) \<and>
   (\<forall>a b. no_handler m ''maxim_ds3231_req_syncpoint'' (sys_maxim_ds3231_req_syncpoint m a b)) \<and>
   (\<forall>a b. no_handler m ''maxim_ds3231_get_syncpoint'' (sys_maxim_ds3231_get_syncpoint m a b)) \<and>
   (\<forall>a b c. no_handler m ''mbox_send'' (sys_mbox_send m a b c)) \<and>
   (\<forall>a. no_handler m ''mbox_mtu_get'' (sys_mbox_mtu_get m a)) \<and>
   (\<forall>a b c. no_handler m ''mbox_set_enabled'' (sys_mbox_set_enabled m a b c)) \<and>
   (\<forall>a. no_handler m ''mbox_max_channels_get'' (sys_mbox_max_channels_get m a)) \<and>
   (\<forall>a. no_handler m ''mdio_bus_enable'' (sys_mdio_bus_enable m a)) \<and>
   (\<forall>a. no_handler m ''mdio_bus_disable'' (sys_mdio_bus_disable m a)) \<and>
   (\<forall>a b c d. no_handler m ''mdio_read'' (sys_mdio_read m a b c d)) \<and>
   (\<forall>a b c d. no_handler m ''mdio_write'' (sys_mdio_write m a b c d)) \<and>
   (\<forall>a b c d e. no_handler m ''mdio_read_c45'' (sys_mdio_read_c45 m a b c d e)) \<and>
   (\<forall>a b c d e. no_handler m ''mdio_write_c45'' (sys_mdio_write_c45 m a b c d e)) \<and>
   (\<forall>a. no_handler m ''mspi_config'' (sys_mspi_config m a)) \<and>
   (\<forall>a b c d. no_handler m ''mspi_dev_config'' (sys_mspi_dev_config m a b c d)) \<and>
   (\<forall>a b. no_handler m ''mspi_get_channel_status'' (sys_mspi_get_channel_status m a b)) \<and>
   (\<forall>a b c. no_handler m ''mspi_transceive'' (sys_mspi_transceive m a b c)) \<and>
   (\<forall>a b c. no_handler m ''mspi_xip_config'' (sys_mspi_xip_config m a b c)) \<and>
   (\<forall>a b c. no_handler m ''mspi_scramble_config'' (sys_mspi_scramble_config m a b c)) \<and>
   (\<forall>a b c d. no_handler m ''mspi_timing_config'' (sys_mspi_timing_config m a b c d)) \<and>
   (\<forall>a b. no_handler m ''nrf_qspi_nor_xip_enable'' (sys_nrf_qspi_nor_xip_enable m a b)) \<and>
   (\<forall>a b. no_handler m ''peci_config'' (sys_peci_config m a b)) \<and>
   (\<forall>a. no_handler m ''peci_enable'' (sys_peci_enable m a)) \<and>
   (\<forall>a. no_handler m ''peci_disable'' (sys_peci_disable m a)) \<and>
   (\<forall>a b. no_handler m ''peci_transfer'' (sys_peci_transfer m a b)) \<and>
   (\<forall>a b. no_handler m ''ps2_config'' (sys_ps2_config m a b)) \<and>
   (\<forall>a b. no_handler m ''ps2_write'' (sys_ps2_write m a b)) \<and>
   (\<forall>a b. no_handler m ''ps2_read'' (sys_ps2_read m a b)) \<and>
   (\<forall>a. no_handler m ''ps2_enable_callback'' (sys_ps2_enable_callback m a)) \<and>
   (\<forall>a. no_handler m ''ps2_disable_callback'' (sys_ps2_disable_callback m a)) \<and>
   (\<forall>a b. no_handler m ''ptp_clock_get'' (sys_ptp_clock_get m a b)) \<and>
   (\<forall>a b c d e. no_handler m ''pwm_set_cycles'' (sys_pwm_set_cycles m a b c d e)) \<and>
   (\<forall>a b c. no_handler m ''pwm_get_cycles_per_sec'' (sys_pwm_get_cycles_per_sec m a b c)) \<and>
   (\<forall>a b. no_handler m ''pwm_enable_capture'' (sys_pwm_enable_capture m a b)) \<and>
   (\<forall>a b. no_handler m ''pwm_disable_capture'' (sys_pwm_disable_capture m a b)) \<and>
   (\<forall>a b c d e f. no_handler m ''pwm_capture_cycles'' (sys_pwm_capture_cycles m a b c d e f)) \<and>
   (\<forall>a b c. no_handler m ''reset_status'' (sys_reset_status m a b c)) \<and>
   (\<forall>a b. no_handler m ''reset_line_assert'' (sys_reset_line_assert m a b)) \<and>
   (\<forall>a b. no_handler m ''reset_line_deassert'' (sys_reset_line_deassert m a b)) \<and>
   (\<forall>a b. no_handler m ''reset_line_toggle'' (sys_reset_line_toggle m a b)) \<and>
   (\<forall>a. no_handler m ''retained_mem_size'' (sys_retained_mem_size m a)) \<and>
   (\<forall>a b c d. no_handler m ''retained_mem_read'' (sys_retained_mem_read m a b c d)) \<and>
   (\<forall>a b c d. no_handler m ''retained_mem_write'' (sys_retained_mem_write m a b c d)) \<and>
   (\<forall>a. no_handler m ''retained_mem_clear'' (sys_retained_mem_clear m a)) \<and>
   (\<forall>a b. no_handler m ''rtc_set_time'' (sys_rtc_set_time m a b)) \<and>
   (\<forall>a b. no_handler m ''rtc_get_time'' (sys_rtc_get_time m a b)) \<and>
   (\<forall>a b c. no_handler m ''rtc_alarm_get_supported_fields'' (sys_rtc_alarm_get_supported_fields m a b c)) \<and>
   (\<forall>a b c d. no_handler m ''rtc_alarm_set_time'' (sys_rtc_alarm_set_time m a b c d)) \<and>
   (\<forall>a b c d. no_handler m ''rtc_alarm_get_time'' (sys_rtc_alarm_get_time m a b c d)) \<and>
   (\<forall>a b. no_handler m ''rtc_alarm_is_pending'' (sys_rtc_alarm_is_pending m a b)) \<and>
   (\<forall>a b c d. no_handler m ''rtc_alarm_set_callback'' (sys_rtc_alarm_set_callback m a b c d)) \<and>
   (\<forall>a b c. no_handler m ''rtc_update_set_callback'' (sys_rtc_update_set_callback m a b c)) \<and>
   (\<forall>a b. no_handler m ''rtc_set_calibration'' (sys_rtc_set_calibration m a b)) \<and>
   (\<forall>a b. no_handler m ''rtc_get_calibration'' (sys_rtc_get_calibration m a b)) \<and>
   (\<forall>a b c d. no_handler m ''rtio_cqe_get_mempool_buffer'' (sys_rtio_cqe_get_mempool_buffer m a b c d)) \<and>
   (\<forall>a b c. no_handler m ''rtio_release_buffer'' (sys_rtio_release_buffer m a b c)) \<and>
   (\<forall>a. no_handler m ''rtio_sqe_cancel'' (sys_rtio_sqe_cancel m a)) \<and>
   (\<forall>a. no_handler m ''rtio_sqe_signal'' (sys_rtio_sqe_signal m a)) \<and>
   (\<forall>a b c d. no_handler m ''rtio_sqe_copy_in_get_handles'' (sys_rtio_sqe_copy_in_get_handles m a b c d)) \<and>
   (\<forall>a b c d. no_handler m ''rtio_cqe_copy_out'' (sys_rtio_cqe_copy_out m a b c d)) \<and>
   (\<forall>a b. no_handler m ''rtio_submit'' (sys_rtio_submit m a b)) \<and>
   (\<forall>a. no_handler m ''sdhc_hw_reset'' (sys_sdhc_hw_reset m a)) \<and>
   (\<forall>a b c. no_handler m ''sdhc_request'' (sys_sdhc_request m a b c)) \<and>
   (\<forall>a b. no_handler m ''sdhc_set_io'' (sys_sdhc_set_io m a b)) \<and>
   (\<forall>a. no_handler m ''sdhc_card_present'' (sys_sdhc_card_present m a)) \<and>
   (\<forall>a. no_handler m ''sdhc_execute_tuning'' (sys_sdhc_execute_tuning m a)) \<and>
   (\<forall>a. no_handler m ''sdhc_card_busy'' (sys_sdhc_card_busy m a)) \<and>
   (\<forall>a b. no_handler m ''sdhc_get_host_props'' (sys_sdhc_get_host_props m a b)) \<and>
   (\<forall>a b c d. no_handler m ''sdhc_enable_interrupt'' (sys_sdhc_enable_interrupt m a b c d)) \<and>
   (\<forall>a b. no_handler m ''sdhc_disable_interrupt'' (sys_sdhc_disable_interrupt m a b)) \<and>
   (\<forall>a b c d. no_handler m ''sensor_attr_set'' (sys_sensor_attr_set m a b c d)) \<and>
   (\<forall>a b c d. no_handler m ''sensor_attr_get'' (sys_sensor_attr_get m a b c d)) \<and>
   (\<forall>a. no_handler m ''sensor_sample_fetch'' (sys_sensor_sample_fetch m a)) \<and>
   (\<forall>a b. no_handler m ''sensor_sample_fetch_chan'' (sys_sensor_sample_fetch_chan m a b)) \<and>
   (\<forall>a b c. no_handler m ''sensor_channel_get'' (sys_sensor_channel_get m a b c)) \<and>
   (\<forall>a b. no_handler m ''sensor_get_decoder'' (sys_sensor_get_decoder m a b)) \<and>
   (\<forall>a b c d. no_handler m ''sensor_reconfigure_read_iodev'' (sys_sensor_reconfigure_read_iodev m a b c d)) \<and>
   (\<forall>a b c d e f g h i j. no_handler m ''sip_supervisory_call'' (sys_sip_supervisory_call m a b c d e f g h i j)) \<and>
   (\<forall>a b c. no_handler m ''sip_svc_plat_func_id_valid'' (sys_sip_svc_plat_func_id_valid m a b c)) \<and>
   (\<forall>a b c. no_handler m ''sip_svc_plat_format_trans_id'' (sys_sip_svc_plat_format_trans_id m a b c)) \<and>
   (\<forall>a b. no_handler m ''sip_svc_plat_get_trans_idx'' (sys_sip_svc_plat_get_trans_idx m a b)) \<and>
   (\<forall>a b c. no_handler m ''sip_svc_plat_update_trans_id'' (sys_sip_svc_plat_update_trans_id m a b c)) \<and>
   (\<forall>a b. no_handler m ''sip_svc_plat_get_error_code'' (sys_sip_svc_plat_get_error_code m a b)) \<and>
   (\<forall>a b c d e f g h i j k. no_handler m ''sip_svc_plat_async_res_req'' (sys_sip_svc_plat_async_res_req m a b c d e f g h i j k)) \<and>
   (\<forall>a b c d e. no_handler m ''sip_svc_plat_async_res_res'' (sys_sip_svc_plat_async_res_res m a b c d e)) \<and>
   (\<forall>a b. no_handler m ''sip_svc_plat_free_async_memory'' (sys_sip_svc_plat_free_async_memory m a b)) \<and>
   (\<forall>a b. no_handler m ''smbus_configure'' (sys_smbus_configure m a b)) \<and>
   (\<forall>a b. no_handler m ''smbus_get_config'' (sys_smbus_get_config m a b)) \<and>
   (\<forall>a b. no_handler m ''smbus_smbalert_remove_cb'' (sys_smbus_smbalert_remove_cb m a b)) \<and>
   (\<forall>a b. no_handler m ''smbus_host_notify_remove_cb'' (sys_smbus_host_notify_remove_cb m a b)) \<and>
   (\<forall>a b c. no_handler m ''smbus_quick'' (sys_smbus_quick m a b c)) \<and>
   (\<forall>a b c. no_handler m ''smbus_byte_write'' (sys_smbus_byte_write m a b c)) \<and>
   (\<forall>a b c. no_handler m ''smbus_byte_read'' (sys_smbus_byte_read m a b c)) \<and>
   (\<forall>a b c d. no_handler m ''smbus_byte_data_write'' (sys_smbus_byte_data_write m a b c d)) \<and>
   (\<forall>a b c d. no_handler m ''smbus_byte_data_read'' (sys_smbus_byte_data_read m a b c d)) \<and>
   (\<forall>a b c d. no_handler m ''smbus_word_data_write'' (sys_smbus_word_data_write m a b c d)) \<and>
   (\<forall>a b c d. no_handler m ''smbus_word_data_read'' (sys_smbus_word_data_read m a b c d)) \<and>
   (\<forall>a b c d e. no_handler m ''smbus_pcall'' (sys_smbus_pcall m a b c d e)) \<and>
   (\<forall>a b c d e. no_handler m ''smbus_block_write'' (sys_smbus_block_write m a b c d e)) \<and>
   (\<forall>a b c d e. no_handler m ''smbus_block_read'' (sys_smbus_block_read m a b c d e)) \<and>
   (\<forall>a b c d e f g. no_handler m ''smbus_block_pcall'' (sys_smbus_block_pcall m a b c d e f g)) \<and>
   (\<forall>a b c d. no_handler m ''net_socket_service_register'' (sys_net_socket_service_register m a b c d)) \<and>
   (\<forall>a. no_handler m ''stepper_enable'' (sys_stepper_enable m a)) \<and>
   (\<forall>a. no_handler m ''stepper_disable'' (sys_stepper_disable m a)) \<and>
   (\<forall>a b. no_handler m ''stepper_set_micro_step_res'' (sys_stepper_set_micro_step_res m a b)) \<and>
   (\<forall>a b. no_handler m ''stepper_get_micro_step_res'' (sys_stepper_get_micro_step_res m a b)) \<and>
   (\<forall>a b. no_handler m ''stepper_set_reference_position'' (sys_stepper_set_reference_position m a b)) \<and>
   (\<forall>a b. no_handler m ''stepper_get_actual_position'' (sys_stepper_get_actual_position m a b)) \<and>
   (\<forall>a b c. no_handler m ''stepper_set_event_callback'' (sys_stepper_set_event_callback m a b c)) \<and>
   (\<forall>a b. no_handler m ''stepper_set_microstep_interval'' (sys_stepper_set_microstep_interval m a b)) \<and>
   (\<forall>a b. no_handler m ''stepper_move_by'' (sys_stepper_move_by m a b)) \<and>
   (\<forall>a b. no_handler m ''stepper_move_to'' (sys_stepper_move_to m a b)) \<and>
   (\<forall>a b. no_handler m ''stepper_run'' (sys_stepper_run m a b)) \<and>
   (\<forall>a. no_handler m ''stepper_stop'' (sys_stepper_stop m a)) \<and>
   (\<forall>a b. no_handler m ''stepper_is_moving'' (sys_stepper_is_moving m a b)) \<and>
   (\<forall>a b. no_handler m ''syscon_get_base'' (sys_syscon_get_base m a b)) \<and>
   (\<forall>a b c. no_handler m ''syscon_read_reg'' (sys_syscon_read_reg m a b c)) \<and>
   (\<forall>a b c. no_handler m ''syscon_write_reg'' (sys_syscon_write_reg m a b c)) \<and>
   (\<forall>a b. no_handler m ''syscon_get_size'' (sys_syscon_get_size m a b)) \<and>
   (\<forall>a b. no_handler m ''tee_get_version'' (sys_tee_get_version m a b)) \<and>
   (\<forall>a b c d e. no_handler m ''tee_open_session'' (sys_tee_open_session m a b c d e)) \<and>
   (\<forall>a b. no_handler m ''tee_close_session'' (sys_tee_close_session m a b)) \<and>
   (\<forall>a b c. no_handler m ''tee_cancel'' (sys_tee_cancel m a b c)) \<and>
   (\<forall>a b c d. no_handler m ''tee_invoke_func'' (sys_tee_invoke_func m a b c d)) \<and>
   (\<forall>a b c d e. no_handler m ''tee_shm_register'' (sys_tee_shm_register m a b c d e)) \<and>
   (\<forall>a b. no_handler m ''tee_shm_unregister'' (sys_tee_shm_unregister m a b)) \<and>
   (\<forall>a b c d. no_handler m ''tee_shm_alloc'' (sys_tee_shm_alloc m a b c d)) \<and>
   (\<forall>a b. no_handler m ''tee_shm_free'' (sys_tee_shm_free m a b)) \<and>
   (\<forall>a b c d. no_handler m ''tee_suppl_recv'' (sys_tee_suppl_recv m a b c d)) \<and>
   (\<forall>a b c d. no_handler m ''tee_suppl_send'' (sys_tee_suppl_send m a b c d)) \<and>
   (\<forall>a b. no_handler m ''tgpio_port_get_time'' (sys_tgpio_port_get_time m a b)) \<and>
   (\<forall>a b. no_handler m ''tgpio_port_get_cycles_per_second'' (sys_tgpio_port_get_cycles_per_second m a b)) \<and>
   (\<forall>a b. no_handler m ''tgpio_pin_disable'' (sys_tgpio_pin_disable m a b)) \<and>
   (\<forall>a b c. no_handler m ''tgpio_pin_config_ext_timestamp'' (sys_tgpio_pin_config_ext_timestamp m a b c)) \<and>
   (\<forall>a b c d e. no_handler m ''tgpio_pin_periodic_output'' (sys_tgpio_pin_periodic_output m a b c d e)) \<and>
   (\<forall>a b c d. no_handler m ''tgpio_pin_read_ts_ec'' (sys_tgpio_pin_read_ts_ec m a b c d)) \<and>
   (no_handler m ''updatehub_autohandler'' (sys_updatehub_autohandler m)) \<and>
   (no_handler m ''updatehub_probe'' (sys_updatehub_probe m)) \<and>
   (no_handler m ''updatehub_update'' (sys_updatehub_update m)) \<and>
   (no_handler m ''updatehub_confirm'' (sys_updatehub_confirm m)) \<and>
   (no_handler m ''updatehub_reboot'' (sys_updatehub_reboot m)) \<and>
   (\<forall>a b. no_handler m ''bc12_set_role'' (sys_bc12_set_role m a b)) \<and>
   (\<forall>a b c. no_handler m ''bc12_set_result_cb'' (sys_bc12_set_result_cb m a b c)) \<and>
   (\<forall>a b. no_handler m ''w1_change_bus_lock'' (sys_w1_change_bus_lock m a b)) \<and>
   (\<forall>a. no_handler m ''w1_reset_bus'' (sys_w1_reset_bus m a)) \<and>
   (\<forall>a. no_handler m ''w1_read_bit'' (sys_w1_read_bit m a)) \<and>
   (\<forall>a b. no_handler m ''w1_write_bit'' (sys_w1_write_bit m a b)) \<and>
   (\<forall>a. no_handler m ''w1_read_byte'' (sys_w1_read_byte m a)) \<and>
   (\<forall>a b. no_handler m ''w1_write_byte'' (sys_w1_write_byte m a b)) \<and>
   (\<forall>a b c. no_handler m ''w1_read_block'' (sys_w1_read_block m a b c)) \<and>
   (\<forall>a b c. no_handler m ''w1_write_block'' (sys_w1_write_block m a b c)) \<and>
   (\<forall>a. no_handler m ''w1_get_slave_count'' (sys_w1_get_slave_count m a)) \<and>
   (\<forall>a b c. no_handler m ''w1_configure'' (sys_w1_configure m a b c)) \<and>
   (\<forall>a b c d e. no_handler m ''w1_search_bus'' (sys_w1_search_bus m a b c d e)) \<and>
   (\<forall>a b. no_handler m ''wdt_setup'' (sys_wdt_setup m a b)) \<and>
   (\<forall>a. no_handler m ''wdt_disable'' (sys_wdt_disable m a)) \<and>
   (\<forall>a b. no_handler m ''wdt_feed'' (sys_wdt_feed m a b))"
  by (intro conjI allI syscall_list_agrees syscall_list_numbers exports_declared;
      simp add: exports_declared exported_iff set_eq_iff outside_defs_a outside_defs_b syscall_no_handler outside_bounds;
      blast)

end
