(* ===== verification/String_Tables.thy ===== *)
theory String_Tables
  imports Prelude
begin

text \<open>
  Evaluation of large tables keyed by strings by the simplifier. The congruences keep it out of the parts of a
  table that it has not reached, strings are compared up to the first difference, and a table given in
  pieces is searched piece by piece.
\<close>

definition str_eq :: "string \<Rightarrow> string \<Rightarrow> bool" where
  "str_eq xs ys \<longleftrightarrow> xs = ys"

definition str_mem :: "string \<Rightarrow> string list \<Rightarrow> bool" where
  "str_mem x ys \<longleftrightarrow> x \<in> set ys"

lemma str_eq_cong: "str_eq xs ys = str_eq xs ys" by simp
lemma str_mem_cong: "x = x' \<Longrightarrow> str_mem x ys = str_mem x' ys" by simp
lemma row_cong: "map_of xs k = map_of xs k" by simp
lemma keep_cong: "P = Q \<Longrightarrow> filter P xs = filter Q xs" by simp

lemma str_eq_eval: "str_eq [] [] = True" "str_eq (c # cs) [] = False" "str_eq [] (d # ds) = False"
  "str_eq (c # cs) (d # ds) = (if c = d then str_eq cs ds else False)"
  by (simp_all add: str_eq_def)

lemma str_mem_eval: "str_mem x [] = False" "str_mem x (y # ys) = (if str_eq x y then True else str_mem x ys)"
  by (auto simp: str_mem_def str_eq_def)

lemma str_mem_append: "str_mem x (xs @ ys) = (if str_mem x xs then True else str_mem x ys)"
  by (simp add: str_mem_def)

lemma prefix_eval: "prefix [] ds = True" "prefix (c # cs) [] = False"
  "prefix (c # cs) (d # ds) = (if c = d then prefix cs ds else False)"
  by simp_all

lemma row_eval: "map_of [] k = None" "map_of ((k', v) # xs) k = (if str_eq k' k then Some v else map_of xs k)"
  "map_of (xs @ ys) k = (case map_of xs k of None \<Rightarrow> map_of ys k | Some v \<Rightarrow> Some v)"
  by (simp_all add: str_eq_def map_add_def)

lemma keep_eval: "filter P [] = []" "filter P (x # xs) = (if P x then x # filter P xs else filter P xs)"
  "filter P (xs @ ys) = filter P xs @ filter P ys"
  by simp_all

lemma key_eval: "filter P (map fst []) = []"
  "filter P (map fst ((k, v) # xs)) = (if P k then k # filter P (map fst xs) else filter P (map fst xs))"
  "filter P (map fst (xs @ ys)) = filter P (map fst xs) @ filter P (map fst ys)"
  by simp_all

lemma any_eval: "list_ex P [] = False" "list_ex P (x # xs) = (if P x then True else list_ex P xs)"
  by simp_all

lemmas table_eval = str_eq_eval str_mem_eval str_mem_append prefix_eval row_eval keep_eval key_eval any_eval
  char.inject simp_thms if_False if_True option.case append_Nil append_Cons fst_conv snd_conv

lemmas table_cong = str_eq_cong str_mem_cong row_cong keep_cong if_weak_cong option.case_cong_weak

end
