(* ===== verification/Kconfig_Values.thy ===== *)
theory Kconfig_Values
  imports Prelude
begin

text \<open>
  \<^verbatim>\<open>autoconf.h\<close>: the configuration of the build, one row per macro in the order of the file. A value
  is an integer (switches are 1), an integer written in hexadecimal, or a string. Rows carry the option's
  own name, without the prefix \<^verbatim>\<open>CONFIG_\<close> that all of them have in C.
\<close>

datatype kval = KInt int | KHex nat | KStr string

definition autoconf_0 :: "(string \<times> kval) list" where
  "autoconf_0 = [
     (''WIFI'', KInt 1), (''NET_L2_ETHERNET'', KInt 1), (''SYSTEM_WORKQUEUE_STACK_SIZE'', KInt 4096),
     (''MAIN_STACK_SIZE'', KInt 8192), (''SHELL_STACK_SIZE'', KInt 4096), (''HW_STACK_PROTECTION'', KInt 1),
     (''NUM_IRQS'', KInt 48), (''SYS_CLOCK_HW_CYCLES_PER_SEC'', KInt 32768), (''FLASH_SIZE'', KInt 1024),
     (''FLASH_BASE_ADDRESS'', KHex 0), (''MP_MAX_NUM_CPUS'', KInt 1), (''SOC_RESET_HOOK'', KInt 1),
     (''CLOCK_CONTROL'', KInt 1), (''IDLE_STACK_SIZE'', KInt 320), (''ISR_STACK_SIZE'', KInt 2048),
     (''SYS_CLOCK_TICKS_PER_SEC'', KInt 32768), (''ROM_START_OFFSET'', KHex 0),
     (''KERNEL_ENTRY'', KStr ''__start''), (''BUILD_OUTPUT_BIN'', KInt 1), (''XIP'', KInt 1),
     (''HAS_FLASH_LOAD_OFFSET'', KInt 1), (''CPU_HAS_ARM_MPU'', KInt 1), (''TICKLESS_KERNEL'', KInt 1),
     (''CLOCK_CONTROL_INIT_PRIORITY'', KInt 30), (''NUM_PREEMPT_PRIORITIES'', KInt 15),
     (''BUILD_OUTPUT_HEX'', KInt 1), (''NUM_METAIRQ_PRIORITIES'', KInt 0), (''GEN_IRQ_VECTOR_TABLE'', KInt 1),
     (''GEN_ISR_TABLES'', KInt 1), (''INIT_STACKS'', KInt 1), (''TIMESLICE_SIZE'', KInt 20),
     (''FLASH_LOAD_OFFSET'', KHex 0), (''SYS_CLOCK_EXISTS'', KInt 1), (''INIT_ARCH_HW_AT_BOOT'', KInt 1),
     (''ARCH_HAS_CUSTOM_BUSY_WAIT'', KInt 1), (''NET_TCP_CHECKSUM'', KInt 1), (''NET_UDP_CHECKSUM'', KInt 1),
     (''WIFI_MGMT_AP_MAX_NUM_STA'', KInt 4), (''GPIO'', KInt 1), (''SERIAL'', KInt 1), (''SPI'', KInt 1),
     (''LOG'', KInt 1), (''CMSIS_CORE_HAS_SYSTEM_CORE_CLOCK'', KInt 1), (''DCACHE_LINE_SIZE'', KInt 32),
     (''ARCH_SW_ISR_TABLE_ALIGN'', KInt 4)]"

definition autoconf_1 :: "(string \<times> kval) list" where
  "autoconf_1 = [
     (''NRF_RTC_TIMER'', KInt 1), (''LOG_DOMAIN_NAME'', KStr []), (''SOC_HAS_TIMING_FUNCTIONS'', KInt 1),
     (''CONSOLE'', KInt 1), (''COMMON_LIBC_MALLOC_ARENA_SIZE'', KInt (- 1)), (''GEN_SW_ISR_TABLE'', KInt 1),
     (''GEN_IRQ_START_VECTOR'', KInt 0), (''SRAM_OFFSET'', KHex 0), (''ARCH_IRQ_VECTOR_TABLE_ALIGN'', KInt 4),
     (''KERNEL_MEM_POOL'', KInt 1), (''MULTITHREADING'', KInt 1), (''ICACHE_LINE_SIZE'', KInt 32),
     (''DT_HAS_ARDUINO_UNO_ADC_ENABLED'', KInt 1), (''DT_HAS_ARDUINO_HEADER_R3_ENABLED'', KInt 1),
     (''DT_HAS_ARM_ARMV7M_ITM_ENABLED'', KInt 1), (''DT_HAS_ARM_CORTEX_M4F_ENABLED'', KInt 1),
     (''DT_HAS_ARM_CRYPTOCELL_310_ENABLED'', KInt 1), (''DT_HAS_ARM_V7M_NVIC_ENABLED'', KInt 1),
     (''DT_HAS_FIXED_PARTITIONS_ENABLED'', KInt 1), (''DT_HAS_GPIO_KEYS_ENABLED'', KInt 1),
     (''DT_HAS_GPIO_LEDS_ENABLED'', KInt 1), (''DT_HAS_MMIO_SRAM_ENABLED'', KInt 1),
     (''DT_HAS_NORDIC_BT_HCI_SDC_ENABLED'', KInt 1), (''DT_HAS_NORDIC_NRF_ACL_ENABLED'', KInt 1),
     (''DT_HAS_NORDIC_NRF_CCM_ENABLED'', KInt 1), (''DT_HAS_NORDIC_NRF_CLOCK_ENABLED'', KInt 1),
     (''DT_HAS_NORDIC_NRF_ECB_ENABLED'', KInt 1), (''DT_HAS_NORDIC_NRF_EGU_ENABLED'', KInt 1),
     (''DT_HAS_NORDIC_NRF_FICR_ENABLED'', KInt 1), (''DT_HAS_NORDIC_NRF_GPIO_ENABLED'', KInt 1),
     (''DT_HAS_NORDIC_NRF_GPIOTE_ENABLED'', KInt 1), (''DT_HAS_NORDIC_NRF_GPREGRET_ENABLED'', KInt 1),
     (''DT_HAS_NORDIC_NRF_IEEE802154_ENABLED'', KInt 1), (''DT_HAS_NORDIC_NRF_MWU_ENABLED'', KInt 1),
     (''DT_HAS_NORDIC_NRF_NFCT_ENABLED'', KInt 1), (''DT_HAS_NORDIC_NRF_PINCTRL_ENABLED'', KInt 1),
     (''DT_HAS_NORDIC_NRF_POWER_ENABLED'', KInt 1), (''DT_HAS_NORDIC_NRF_PPI_ENABLED'', KInt 1),
     (''DT_HAS_NORDIC_NRF_PWM_ENABLED'', KInt 1), (''DT_HAS_NORDIC_NRF_QSPI_ENABLED'', KInt 1),
     (''DT_HAS_NORDIC_NRF_RADIO_ENABLED'', KInt 1), (''DT_HAS_NORDIC_NRF_RNG_ENABLED'', KInt 1),
     (''DT_HAS_NORDIC_NRF_SAADC_ENABLED'', KInt 1), (''DT_HAS_NORDIC_NRF_SPI_ENABLED'', KInt 1),
     (''DT_HAS_NORDIC_NRF_SPIM_ENABLED'', KInt 1)]"

definition autoconf_2 :: "(string \<times> kval) list" where
  "autoconf_2 = [
     (''DT_HAS_NORDIC_NRF_SWI_ENABLED'', KInt 1), (''DT_HAS_NORDIC_NRF_TEMP_ENABLED'', KInt 1),
     (''DT_HAS_NORDIC_NRF_TWI_ENABLED'', KInt 1), (''DT_HAS_NORDIC_NRF_UARTE_ENABLED'', KInt 1),
     (''DT_HAS_NORDIC_NRF_UICR_ENABLED'', KInt 1), (''DT_HAS_NORDIC_NRF_USBD_ENABLED'', KInt 1),
     (''DT_HAS_NORDIC_NRF_WDT_ENABLED'', KInt 1), (''DT_HAS_NORDIC_NRF52_FLASH_CONTROLLER_ENABLED'', KInt 1),
     (''DT_HAS_NORDIC_NRF52_HFXO_ENABLED'', KInt 1), (''DT_HAS_NORDIC_NRF52X_REGULATOR_HV_ENABLED'', KInt 1),
     (''DT_HAS_NORDIC_NRF5X_REGULATOR_ENABLED'', KInt 1), (''DT_HAS_NORDIC_NRF7002_SPI_ENABLED'', KInt 1),
     (''DT_HAS_NORDIC_QSPI_NOR_ENABLED'', KInt 1), (''DT_HAS_NORDIC_WLAN_ENABLED'', KInt 1),
     (''DT_HAS_PWM_LEDS_ENABLED'', KInt 1), (''DT_HAS_SOC_NV_FLASH_ENABLED'', KInt 1),
     (''DT_HAS_ZEPHYR_BT_HCI_ENTROPY_ENABLED'', KInt 1), (''DT_HAS_ZEPHYR_RETENTION_ENABLED'', KInt 1),
     (''LOG_BUFFER_SIZE'', KInt 2048), (''MBEDTLS_MPI_MAX_SIZE'', KInt 384), (''MBEDTLS_ENTROPY_C'', KInt 1),
     (''MBEDTLS_CIPHER_MODE_CBC'', KInt 1), (''MBEDTLS_CIPHER_MODE_CTR'', KInt 1),
     (''MBEDTLS_CHACHA20_C'', KInt 1), (''MBEDTLS_POLY1305_C'', KInt 1), (''MBEDTLS_CHACHAPOLY_C'', KInt 1),
     (''MBEDTLS_DHM_C'', KInt 1), (''MBEDTLS_RSA_C'', KInt 1), (''MBEDTLS_SHA512_C'', KInt 1),
     (''MBEDTLS_GCM_C'', KInt 1), (''MBEDTLS_SSL_SRV_C'', KInt 1), (''MBEDTLS_SSL_COOKIE_C'', KInt 1),
     (''MBEDTLS_SSL_CLI_C'', KInt 1), (''MBEDTLS_SSL_TLS_C'', KInt 1), (''MBEDTLS_HEAP_SIZE'', KInt 8192),
     (''MBEDTLS_PSA_KEY_SLOT_COUNT'', KInt 32), (''MPSL_WORK_STACK_SIZE'', KInt 1024),
     (''MBEDTLS_SSL_OUT_CONTENT_LEN'', KInt 2048), (''MBEDTLS_SSL_IN_CONTENT_LEN'', KInt 2048),
     (''MBEDTLS_KEY_EXCHANGE_PSK_ENABLED'', KInt 1), (''NET_PKT_RX_COUNT'', KInt 4),
     (''NET_PKT_TX_COUNT'', KInt 4), (''NET_RX_STACK_SIZE'', KInt 4096), (''NET_TX_STACK_SIZE'', KInt 4096),
     (''MBEDTLS_SHA1_C'', KInt 1)]"

definition autoconf_3 :: "(string \<times> kval) list" where
  "autoconf_3 = [
     (''MBEDTLS'', KInt 1), (''MBEDTLS_TLS_VERSION_1_2'', KInt 1), (''MBEDTLS_MAC_SHA256_ENABLED'', KInt 1),
     (''MBEDTLS_MD_C'', KInt 1), (''MBEDTLS_TLS_LIBRARY'', KInt 1), (''MBEDTLS_X509_LIBRARY'', KInt 1),
     (''MBEDTLS_ENABLE_HEAP'', KInt 1), (''MBEDTLS_ECP_C'', KInt 1), (''MBEDTLS_CTR_DRBG_C'', KInt 1),
     (''MBEDTLS_CMAC_C'', KInt 1), (''MBEDTLS_CCM_C'', KInt 1), (''MBEDTLS_LEGACY_CRYPTO_C'', KInt 1),
     (''WARN_EXPERIMENTAL'', KInt 1), (''NORDIC_QSPI_NOR_FLASH_LAYOUT_PAGE_SIZE'', KInt 4096),
     (''NRF_SECURITY_ENABLER'', KInt 1), (''PM_PARTITION_SIZE_PROVISION'', KHex 0x1000),
     (''PM_PARTITION_SIZE_B0_IMAGE'', KHex 0x8000), (''SB_VALIDATION_INFO_MAGIC'', KHex 0x86518483),
     (''SB_VALIDATION_POINTER_MAGIC'', KHex 0x6919b47e), (''SB_VALIDATION_INFO_CRYPTO_ID'', KInt 1),
     (''SB_VALIDATION_INFO_VERSION'', KInt 2), (''SB_VALIDATION_METADATA_OFFSET'', KInt 0),
     (''SB_VALIDATION_STRUCT_HAS_HASH'', KInt 1), (''SB_VALIDATION_STRUCT_HAS_PUBLIC_KEY'', KInt 1),
     (''SB_VALIDATE_FW_SIGNATURE'', KInt 1), (''SYSTEM_WORKQUEUE_PRIORITY'', KInt (- 1)),
     (''HEAP_MEM_POOL_SIZE'', KInt 37000), (''PCD_VERSION_PAGE_BUF_SIZE'', KInt 2046),
     (''TLS_MAX_CREDENTIALS_NUMBER'', KInt 4), (''WIFI_READY_LIB'', KInt 1),
     (''WIFI_READY_LIB_LOG_LEVEL_DEFAULT'', KInt 1), (''WIFI_READY_LIB_LOG_LEVEL'', KInt 3),
     (''WIFI_READY_MAX_CALLBACKS'', KInt 2), (''WIFI_READY_INIT_PRIORITY'', KInt 90),
     (''NRF_WIFI_PATCHES_EXT_FLASH_DISABLED'', KInt 1),
     (''CUSTOM_LINKER_SCRIPT'', KStr ''C:/nrf/v3.1.0/zephyr/../nrf/subsys/net/lib/nrf70_fw_ext/rpu_fw_patches.ld''),
     (''HOSTAP_CRYPTO_ALT_LEGACY_PSA'', KInt 1), (''WIFI_NM_WPA_SUPPLICANT_WPA3'', KInt 1),
     (''WIFI_PROV_CORE_LOG_LEVEL_DEFAULT'', KInt 1), (''WIFI_PROV_CORE_LOG_LEVEL'', KInt 3),
     (''MPSL_FEM_LOG_LEVEL_DEFAULT'', KInt 1), (''MPSL_FEM_LOG_LEVEL'', KInt 3),
     (''MPSL_THREAD_COOP_PRIO'', KInt 8), (''MPSL_TIMESLOT_SESSION_COUNT'', KInt 0),
     (''MPSL_LOW_PRIO_IRQN'', KInt 25)]"

definition autoconf_4 :: "(string \<times> kval) list" where
  "autoconf_4 = [
     (''MPSL_HFCLK_LATENCY'', KInt 1400), (''MPSL_INIT_PRIORITY'', KInt 40),
     (''MPSL_LOG_LEVEL_DEFAULT'', KInt 1), (''MPSL_LOG_LEVEL'', KInt 3),
     (''PARTITION_MANAGER_ENABLED'', KInt 1), (''FLASH_MAP_CUSTOM'', KInt 1), (''SRAM_SIZE'', KInt 256),
     (''SRAM_BASE_ADDRESS'', KHex 0x20000000), (''PM_EXTERNAL_FLASH_BASE'', KHex 0),
     (''PM_EXTERNAL_FLASH_PATH'', KStr []), (''PM_EXTERNAL_FLASH_SIZE_BITS'', KInt 0),
     (''PM_SRAM_BASE'', KHex 0x20000000), (''PM_SRAM_SIZE'', KHex 0x40000), (''NRF_SECURITY'', KInt 1),
     (''PSA_HAS_AEAD_SUPPORT'', KInt 1), (''PSA_HAS_ASYM_ENCRYPT_SUPPORT'', KInt 1),
     (''PSA_HAS_ASYM_SIGN_SUPPORT'', KInt 1), (''PSA_HAS_CIPHER_SUPPORT'', KInt 1),
     (''PSA_HAS_HASH_SUPPORT'', KInt 1), (''PSA_HAS_KEY_AGREEMENT'', KInt 1),
     (''PSA_HAS_KEY_DERIVATION'', KInt 1), (''PSA_HAS_KEY_SUPPORT'', KInt 1),
     (''PSA_HAS_MAC_SUPPORT'', KInt 1), (''PSA_WANT_ALG_RSA_PKCS1V15_SIGN_RAW'', KInt 1),
     (''PSA_WANT_ALG_RSA_PSS_ANY_SALT'', KInt 1), (''PSA_WANT_ALG_ECB_NO_PADDING'', KInt 1),
     (''PSA_WANT_ALG_CHACHA20'', KInt 1), (''PSA_WANT_GENERATE_RANDOM'', KInt 1),
     (''MBEDTLS_CFG_FILE'', KStr ''nrf-config.h''), (''MBEDTLS_PSA_CRYPTO_CONFIG'', KInt 1),
     (''MBEDTLS_PSA_CRYPTO_CONFIG_FILE'', KStr ''nrf-psa-crypto-config.h''),
     (''MBEDTLS_PSA_CRYPTO_USER_CONFIG_FILE'', KStr ''nrf-psa-crypto-user-config.h''),
     (''MBEDTLS_X509_USE_C'', KInt 1), (''MBEDTLS_X509_CHECK_KEY_USAGE'', KInt 1),
     (''MBEDTLS_X509_CHECK_EXTENDED_KEY_USAGE'', KInt 1), (''MBEDTLS_X509_CRL_PARSE_C'', KInt 1),
     (''MBEDTLS_X509_CSR_PARSE_C'', KInt 1), (''MBEDTLS_X509_CRT_PARSE_C'', KInt 1),
     (''MBEDTLS_X509_REMOVE_INFO'', KInt 1), (''MBEDTLS_SSL_PROTO_TLS1_2'', KInt 1),
     (''MBEDTLS_SSL_ENCRYPT_THEN_MAC'', KInt 1), (''MBEDTLS_SSL_EXTENDED_MASTER_SECRET'', KInt 1),
     (''MBEDTLS_TLS_VERSION_1_3'', KInt 1), (''MBEDTLS_SSL_ALL_ALERT_MESSAGES'', KInt 1),
     (''MBEDTLS_SSL_CONTEXT_SERIALIZATION'', KInt 1)]"

definition autoconf_5 :: "(string \<times> kval) list" where
  "autoconf_5 = [
     (''MBEDTLS_SSL_KEEP_PEER_CERTIFICATE'', KInt 1), (''MBEDTLS_SSL_SERVER_NAME_INDICATION'', KInt 1),
     (''MBEDTLS_SSL_EXPORT_KEYS'', KInt 1), (''MBEDTLS_SSL_CIPHERSUITES'', KStr []),
     (''MBEDTLS_SSL_PROTO_TLS1_3'', KInt 1), (''MBEDTLS_SSL_TLS1_3_COMPATIBILITY_MODE'', KInt 1),
     (''MBEDTLS_HAS_CBC_CIPHERSUITE_REQUIREMENTS'', KInt 1),
     (''MBEDTLS_HAS_GCM_CIPHERSUITE_REQUIREMENTS'', KInt 1),
     (''MBEDTLS_HAS_CCM_CIPHERSUITE_REQUIREMENTS'', KInt 1),
     (''MBEDTLS_HAS_CHACHAPOLY_CIPHERSUITE_REQUIREMENTS'', KInt 1),
     (''MBEDTLS_HAS_CIPHER_MODE_CIPHERSUITE_REQUIREMENTS'', KInt 1),
     (''MBEDTLS_HAS_ECDH_CIPHERSUITE_REQUIREMENTS'', KInt 1),
     (''MBEDTLS_HAS_ECDSA_CIPHERSUITE_REQUIREMENTS'', KInt 1),
     (''MBEDTLS_HAS_RSA_CIPHERSUITE_REQUIREMENTS'', KInt 1),
     (''MBEDTLS_HAS_ECJPAKE_CIPHERSUITE_REQUIREMENTS'', KInt 1),
     (''MBEDTLS_KEY_EXCHANGE_DHE_PSK_ENABLED'', KInt 1), (''MBEDTLS_KEY_EXCHANGE_ECDHE_PSK_ENABLED'', KInt 1),
     (''MBEDTLS_KEY_EXCHANGE_RSA_PSK_ENABLED'', KInt 1), (''MBEDTLS_KEY_EXCHANGE_RSA_ENABLED'', KInt 1),
     (''MBEDTLS_KEY_EXCHANGE_DHE_RSA_ENABLED'', KInt 1), (''MBEDTLS_KEY_EXCHANGE_ECDHE_RSA_ENABLED'', KInt 1),
     (''MBEDTLS_KEY_EXCHANGE_ECDHE_ECDSA_ENABLED'', KInt 1),
     (''MBEDTLS_KEY_EXCHANGE_ECDH_ECDSA_ENABLED'', KInt 1),
     (''MBEDTLS_KEY_EXCHANGE_ECDH_RSA_ENABLED'', KInt 1), (''MBEDTLS_KEY_EXCHANGE_ECJPAKE_ENABLED'', KInt 1),
     (''MBEDTLS_PSA_CRYPTO_C'', KInt 1), (''PSA_CORE_OBERON'', KInt 1),
     (''MBEDTLS_PSA_CRYPTO_DRIVERS'', KInt 1), (''MBEDTLS_PSA_CRYPTO_CLIENT'', KInt 1),
     (''PSA_CRYPTO_DRIVER_OBERON'', KInt 1), (''PSA_WANT_ALG_CTR_DRBG'', KInt 1),
     (''PSA_USE_CTR_DRBG_DRIVER'', KInt 1), (''PSA_USE_CC3XX_CTR_DRBG_DRIVER'', KInt 1),
     (''PSA_WANT_AES_KEY_SIZE_128'', KInt 1), (''PSA_WANT_AES_KEY_SIZE_192'', KInt 1),
     (''PSA_WANT_AES_KEY_SIZE_256'', KInt 1), (''PSA_WANT_RSA_KEY_SIZE_2048'', KInt 1),
     (''PSA_MAX_RSA_KEY_BITS'', KInt 2048), (''PSA_ACCEL_GENERATE_RANDOM'', KInt 1),
     (''PSA_NEED_CC3XX_CTR_DRBG_DRIVER'', KInt 1), (''CRACEN_LOG_LEVEL_DEFAULT'', KInt 1),
     (''CRACEN_LOG_LEVEL'', KInt 3), (''PSA_NEED_OBERON_CCM_AES'', KInt 1),
     (''PSA_NEED_OBERON_GCM_AES'', KInt 1), (''PSA_NEED_OBERON_CHACHA20_POLY1305'', KInt 1)]"

definition autoconf_6 :: "(string \<times> kval) list" where
  "autoconf_6 = [
     (''PSA_NEED_OBERON_AEAD_DRIVER'', KInt 1), (''PSA_NEED_OBERON_CTR_AES'', KInt 1),
     (''PSA_NEED_OBERON_CBC_NO_PADDING_AES'', KInt 1), (''PSA_NEED_OBERON_CBC_PKCS7_AES'', KInt 1),
     (''PSA_NEED_OBERON_ECB_NO_PADDING_AES'', KInt 1), (''PSA_NEED_OBERON_STREAM_CIPHER_CHACHA20'', KInt 1),
     (''PSA_NEED_OBERON_CIPHER_DRIVER'', KInt 1), (''PSA_NEED_OBERON_ECDH_SECP_R1_256'', KInt 1),
     (''PSA_NEED_OBERON_ECDH_SECP_R1_384'', KInt 1), (''PSA_NEED_OBERON_ECDH'', KInt 1),
     (''PSA_NEED_OBERON_KEY_AGREEMENT_DRIVER'', KInt 1), (''PSA_NEED_OBERON_ECDSA_SECP_R1_256'', KInt 1),
     (''PSA_NEED_OBERON_ECDSA_SECP_R1_384'', KInt 1), (''PSA_NEED_OBERON_ECDSA_VERIFY'', KInt 1),
     (''PSA_NEED_OBERON_ECDSA_SIGN'', KInt 1), (''PSA_NEED_OBERON_ECDSA_DETERMINISTIC'', KInt 1),
     (''PSA_NEED_OBERON_ECDSA_RANDOMIZED'', KInt 1), (''PSA_NEED_OBERON_SHA_1'', KInt 1),
     (''PSA_NEED_OBERON_SHA_224'', KInt 1), (''PSA_NEED_OBERON_SHA_256'', KInt 1),
     (''PSA_NEED_OBERON_SHA_384'', KInt 1), (''PSA_NEED_OBERON_SHA_512'', KInt 1),
     (''PSA_NEED_OBERON_HASH_DRIVER'', KInt 1),
     (''PSA_NEED_OBERON_KEY_TYPE_ECC_PUBLIC_KEY_SECP_R1_256'', KInt 1),
     (''PSA_NEED_OBERON_KEY_TYPE_ECC_KEY_PAIR_IMPORT_SECP_R1_256'', KInt 1),
     (''PSA_NEED_OBERON_KEY_TYPE_ECC_KEY_PAIR_EXPORT_SECP_R1_256'', KInt 1),
     (''PSA_NEED_OBERON_KEY_TYPE_ECC_KEY_PAIR_GENERATE_SECP_R1_256'', KInt 1),
     (''PSA_NEED_OBERON_KEY_TYPE_ECC_KEY_PAIR_DERIVE_SECP_R1_256'', KInt 1),
     (''PSA_NEED_OBERON_KEY_TYPE_ECC_PUBLIC_KEY_SECP_R1_384'', KInt 1),
     (''PSA_NEED_OBERON_KEY_TYPE_ECC_KEY_PAIR_IMPORT_SECP_R1_384'', KInt 1),
     (''PSA_NEED_OBERON_KEY_TYPE_ECC_KEY_PAIR_EXPORT_SECP_R1_384'', KInt 1),
     (''PSA_NEED_OBERON_KEY_TYPE_ECC_KEY_PAIR_GENERATE_SECP_R1_384'', KInt 1),
     (''PSA_NEED_OBERON_KEY_TYPE_ECC_KEY_PAIR_DERIVE_SECP_R1_384'', KInt 1),
     (''PSA_NEED_OBERON_KEY_TYPE_ECC_PUBLIC_KEY_SECP'', KInt 1),
     (''PSA_NEED_OBERON_KEY_TYPE_ECC_KEY_PAIR_IMPORT_SECP'', KInt 1),
     (''PSA_NEED_OBERON_KEY_TYPE_ECC_KEY_PAIR_EXPORT_SECP'', KInt 1),
     (''PSA_NEED_OBERON_KEY_TYPE_ECC_KEY_PAIR_GENERATE_SECP'', KInt 1),
     (''PSA_NEED_OBERON_KEY_TYPE_ECC_KEY_PAIR_DERIVE_SECP'', KInt 1),
     (''PSA_NEED_OBERON_KEY_TYPE_ECC_PUBLIC_KEY'', KInt 1),
     (''PSA_NEED_OBERON_KEY_TYPE_ECC_KEY_PAIR_IMPORT'', KInt 1),
     (''PSA_NEED_OBERON_KEY_TYPE_ECC_KEY_PAIR_EXPORT'', KInt 1),
     (''PSA_NEED_OBERON_KEY_TYPE_ECC_KEY_PAIR_GENERATE'', KInt 1),
     (''PSA_NEED_OBERON_KEY_TYPE_ECC_KEY_PAIR_DERIVE'', KInt 1),
     (''PSA_NEED_OBERON_KEY_TYPE_RSA_PUBLIC_KEY'', KInt 1),
     (''PSA_NEED_OBERON_KEY_TYPE_RSA_KEY_PAIR_IMPORT'', KInt 1)]"

definition autoconf_7 :: "(string \<times> kval) list" where
  "autoconf_7 = [
     (''PSA_NEED_OBERON_KEY_TYPE_RSA_KEY_PAIR_EXPORT'', KInt 1),
     (''PSA_NEED_OBERON_KEY_MANAGEMENT_DRIVER'', KInt 1), (''PSA_NEED_OBERON_HMAC'', KInt 1),
     (''PSA_NEED_OBERON_CMAC'', KInt 1), (''PSA_NEED_OBERON_MAC_DRIVER'', KInt 1),
     (''PSA_NEED_OBERON_HKDF'', KInt 1), (''PSA_NEED_OBERON_TLS12_PRF'', KInt 1),
     (''PSA_NEED_OBERON_TLS12_PSK_TO_MS'', KInt 1), (''PSA_NEED_OBERON_PBKDF2_AES_CMAC_PRF_128'', KInt 1),
     (''PSA_NEED_OBERON_TLS12_ECJPAKE_TO_PMS'', KInt 1), (''PSA_NEED_OBERON_KEY_DERIVATION_DRIVER'', KInt 1),
     (''PSA_NEED_OBERON_RSA_KEY_SIZE_2048'', KInt 1), (''PSA_NEED_OBERON_ANY_RSA_KEY_SIZE'', KInt 1),
     (''PSA_NEED_OBERON_RSA_PSS'', KInt 1), (''PSA_NEED_OBERON_RSA_PKCS1V15_SIGN'', KInt 1),
     (''PSA_NEED_OBERON_RSA_ANY_VERIFY'', KInt 1), (''PSA_NEED_OBERON_RSA_ANY_SIGN'', KInt 1),
     (''PSA_NEED_OBERON_RSA_PKCS1V15_CRYPT'', KInt 1), (''PSA_NEED_OBERON_RSA_OAEP'', KInt 1),
     (''PSA_NEED_OBERON_RSA_ANY_CRYPT'', KInt 1), (''PSA_NEED_OBERON_ASYMMETRIC_ENCRYPTION_DRIVER'', KInt 1),
     (''PSA_NEED_OBERON_ASYMMETRIC_SIGNATURE_DRIVER'', KInt 1), (''PSA_CRYPTO_SYS_INIT'', KInt 1),
     (''MBEDTLS_PLATFORM_MEMORY'', KInt 1), (''MBEDTLS_PLATFORM_C'', KInt 1), (''MBEDTLS_MEMORY_C'', KInt 1),
     (''MBEDTLS_MEMORY_BUFFER_ALLOC_C'', KInt 1), (''MBEDTLS_THREADING_C'', KInt 1),
     (''MBEDTLS_BASE64_C'', KInt 1), (''MBEDTLS_OID_C'', KInt 1), (''MBEDTLS_ENTROPY_HARDWARE_ALT'', KInt 1),
     (''MBEDTLS_THREADING_ALT'', KInt 1), (''MBEDTLS_AES_SETKEY_ENC_ALT'', KInt 1),
     (''MBEDTLS_AES_SETKEY_DEC_ALT'', KInt 1), (''MBEDTLS_AES_ENCRYPT_ALT'', KInt 1),
     (''MBEDTLS_AES_DECRYPT_ALT'', KInt 1), (''MBEDTLS_CHACHA20_ALT'', KInt 1),
     (''MBEDTLS_POLY1305_ALT'', KInt 1), (''MBEDTLS_ECDH_GEN_PUBLIC_ALT'', KInt 1),
     (''MBEDTLS_ECDH_COMPUTE_SHARED_ALT'', KInt 1), (''MBEDTLS_ECDSA_GENKEY_ALT'', KInt 1),
     (''MBEDTLS_ECDSA_SIGN_ALT'', KInt 1), (''MBEDTLS_ECDSA_VERIFY_ALT'', KInt 1),
     (''MBEDTLS_ECJPAKE_ALT'', KInt 1), (''MBEDTLS_SHA1_ALT'', KInt 1)]"

definition autoconf_8 :: "(string \<times> kval) list" where
  "autoconf_8 = [
     (''MBEDTLS_SHA224_ALT'', KInt 1), (''MBEDTLS_SHA256_ALT'', KInt 1),
     (''MBEDTLS_ENTROPY_FORCE_SHA256'', KInt 1), (''MBEDTLS_ENTROPY_MAX_SOURCES'', KInt 1),
     (''MBEDTLS_NO_PLATFORM_ENTROPY'', KInt 1), (''OBERON_ONLY_PSA_ENABLED'', KInt 1),
     (''OBERON_ONLY_ENABLED'', KInt 1), (''MBEDTLS_MPI_WINDOW_SIZE'', KInt 6),
     (''MBEDTLS_CTR_DRBG_USE_128_BIT_KEY'', KInt 1), (''MBEDTLS_HMAC_DRBG_C'', KInt 1),
     (''MBEDTLS_AES_C'', KInt 1), (''MBEDTLS_CIPHER_PADDING_PKCS7'', KInt 1),
     (''MBEDTLS_CIPHER_PADDING_ONE_AND_ZEROS'', KInt 1), (''MBEDTLS_CIPHER_PADDING_ZEROS_AND_LEN'', KInt 1),
     (''MBEDTLS_CIPHER_PADDING_ZEROS'', KInt 1), (''MBEDTLS_ECDH_C'', KInt 1), (''MBEDTLS_ECDSA_C'', KInt 1),
     (''MBEDTLS_ECDSA_DETERMINISTIC'', KInt 1), (''MBEDTLS_ECJPAKE_C'', KInt 1),
     (''MBEDTLS_ECP_DP_SECP256R1_ENABLED'', KInt 1), (''MBEDTLS_HKDF_C'', KInt 1),
     (''MBEDTLS_GENPRIME'', KInt 1), (''MBEDTLS_PKCS1_V15'', KInt 1), (''MBEDTLS_PKCS1_V21'', KInt 1),
     (''MBEDTLS_MD5_C'', KInt 1), (''MBEDTLS_SHA224_C'', KInt 1), (''MBEDTLS_SHA256_C'', KInt 1),
     (''MBEDTLS_SHA384_C'', KInt 1), (''MBEDTLS_CIPHER_C'', KInt 1), (''MBEDTLS_PK_C'', KInt 1),
     (''MBEDTLS_PKCS5_C'', KInt 1), (''MBEDTLS_PK_WRITE_C'', KInt 1), (''MBEDTLS_PK_PARSE_C'', KInt 1),
     (''MBEDTLS_PK_PARSE_EC_EXTENDED'', KInt 1), (''MBEDTLS_KEY_EXCHANGE_ALL_ENABLED'', KInt 1),
     (''MBEDTLS_CIPHER'', KInt 1), (''MBEDTLS_MD'', KInt 1), (''MBEDTLS_LIBRARY_NRF_SECURITY'', KInt 1),
     (''MCUBOOT_APPLICATION_IMAGE_NUMBER'', KInt (- 1)), (''MCUBOOT_NETWORK_CORE_IMAGE_NUMBER'', KInt (- 1)),
     (''MCUBOOT_WIFI_PATCHES_IMAGE_NUMBER'', KInt (- 1)), (''MCUBOOT_QSPI_XIP_IMAGE_NUMBER'', KInt (- 1)),
     (''MCUBOOT_MCUBOOT_IMAGE_NUMBER'', KInt (- 1)), (''WFA_QT_LOG_LEVEL_DEFAULT'', KInt 1),
     (''WFA_QT_LOG_LEVEL'', KInt 3)]"

definition autoconf_9 :: "(string \<times> kval) list" where
  "autoconf_9 = [
     (''WFA_QT_THREAD_STACK_SIZE'', KInt 5200), (''WFA_QT_REBOOT_TIMEOUT_MS'', KInt 1000),
     (''WFA_QT_DEFAULT_INTERFACE'', KStr ''wlan0''), (''WPAS_READY_TIMEOUT_MS'', KInt 10000),
     (''NRF_ACL_FLASH_REGION_SIZE'', KHex 0x1000), (''FPROTECT_BLOCK_SIZE'', KHex 0x1000),
     (''HW_UNIQUE_KEY_SUPPORTED'', KInt 1), (''HW_UNIQUE_KEY_PARTITION_SIZE'', KHex 0x1000),
     (''NCS_BOOT_BANNER'', KInt 1), (''NCS_NCS_BOOT_BANNER_STRING'', KStr ''nRF Connect SDK''),
     (''NCS_ZEPHYR_BOOT_BANNER_STRING'', KStr ''Zephyr OS''), (''ENTROPY_CC3XX'', KInt 1),
     (''HW_CC3XX'', KInt 1), (''SOC_FLASH_NRF_RADIO_SYNC_MPSL_TIMESLOT_SESSION_COUNT'', KInt 0),
     (''NRFX_GPIOTE_NUM_OF_EVT_HANDLERS'', KInt 1), (''ZEPHYR_NRF_MODULE'', KInt 1),
     (''WIFI_NM_WPA_SUPPLICANT'', KInt 1), (''WIFI_NM_WPA_SUPPLICANT_GLOBAL_HEAP'', KInt 1),
     (''HEAP_MEM_POOL_ADD_SIZE_HOSTAP'', KInt 30000),
     (''WIFI_NM_WPA_SUPPLICANT_THREAD_STACK_SIZE'', KInt 5800),
     (''WIFI_NM_WPA_SUPPLICANT_WQ_STACK_SIZE'', KInt 4400), (''WIFI_NM_WPA_SUPPLICANT_WQ_PRIO'', KInt 7),
     (''WIFI_NM_WPA_SUPPLICANT_PRIO'', KInt 0), (''WIFI_NM_WPA_SUPPLICANT_LOG_LEVEL_DEFAULT'', KInt 1),
     (''WIFI_NM_WPA_SUPPLICANT_LOG_LEVEL'', KInt 3), (''WIFI_NM_WPA_SUPPLICANT_DEBUG_LEVEL'', KInt 5),
     (''WIFI_NM_WPA_SUPPLICANT_CRYPTO_EXT'', KInt 1), (''WIFI_NM_WPA_SUPPLICANT_INF_MON'', KInt 1),
     (''WIFI_NM_WPA_SUPPLICANT_BSS_MAX_IDLE_TIME'', KInt 300), (''SME'', KInt 1),
     (''NO_CONFIG_WRITE'', KInt 1), (''NO_CONFIG_BLOBS'', KInt 1), (''CTRL_IFACE'', KInt 1),
     (''CTRL_IFACE_ZEPHYR'', KInt 1), (''NO_RANDOM_POOL'', KInt 1),
     (''WIFI_NM_WPA_SUPPLICANT_NW_SEL_THROUGHPUT'', KInt 1), (''WIFI_NM_WPA_CTRL_RESP_TIMEOUT_S'', KInt 15),
     (''ZEPHYR_HOSTAP_MODULE'', KInt 1), (''DT_FLASH_WRITE_BLOCK_SIZE'', KInt 4),
     (''MCUBOOT_USB_SUPPORT'', KInt 1), (''ZEPHYR_MCUBOOT_MODULE'', KInt 1),
     (''ZEPHYR_MBEDTLS_MODULE'', KInt 1), (''PSA_CRYPTO_CLIENT'', KInt 1),
     (''PSA_WANT_ALG_CBC_NO_PADDING'', KInt 1), (''PSA_WANT_ALG_CBC_PKCS7'', KInt 1)]"

definition autoconf_10 :: "(string \<times> kval) list" where
  "autoconf_10 = [
     (''PSA_WANT_ALG_CCM'', KInt 1), (''PSA_WANT_ALG_CMAC'', KInt 1),
     (''PSA_WANT_ALG_CHACHA20_POLY1305'', KInt 1), (''PSA_WANT_ALG_CTR'', KInt 1),
     (''PSA_WANT_ALG_DETERMINISTIC_ECDSA'', KInt 1), (''PSA_WANT_ALG_ECDH'', KInt 1),
     (''PSA_WANT_ALG_ECDSA'', KInt 1), (''PSA_WANT_ALG_GCM'', KInt 1), (''PSA_WANT_ALG_HKDF'', KInt 1),
     (''PSA_WANT_ALG_HMAC'', KInt 1), (''PSA_WANT_ALG_RSA_OAEP'', KInt 1),
     (''PSA_WANT_ALG_RSA_PKCS1V15_CRYPT'', KInt 1), (''PSA_WANT_ALG_RSA_PKCS1V15_SIGN'', KInt 1),
     (''PSA_WANT_ALG_RSA_PSS'', KInt 1), (''PSA_WANT_ALG_SHA_1'', KInt 1), (''PSA_WANT_ALG_SHA_224'', KInt 1),
     (''PSA_WANT_ALG_SHA_256'', KInt 1), (''PSA_WANT_ALG_SHA_384'', KInt 1),
     (''PSA_WANT_ALG_SHA_512'', KInt 1), (''PSA_WANT_ALG_STREAM_CIPHER'', KInt 1),
     (''PSA_WANT_ALG_TLS12_PRF'', KInt 1), (''PSA_WANT_ALG_TLS12_PSK_TO_MS'', KInt 1),
     (''PSA_WANT_ALG_TLS12_ECJPAKE_TO_PMS'', KInt 1), (''PSA_WANT_ECC_SECP_R1_256'', KInt 1),
     (''PSA_WANT_ECC_SECP_R1_384'', KInt 1), (''PSA_WANT_KEY_TYPE_AES'', KInt 1),
     (''PSA_WANT_KEY_TYPE_CHACHA20'', KInt 1), (''PSA_WANT_KEY_TYPE_ECC_PUBLIC_KEY'', KInt 1),
     (''PSA_WANT_KEY_TYPE_RSA_PUBLIC_KEY'', KInt 1), (''PSA_WANT_KEY_TYPE_ECC_KEY_PAIR_IMPORT'', KInt 1),
     (''PSA_WANT_KEY_TYPE_ECC_KEY_PAIR_EXPORT'', KInt 1),
     (''PSA_WANT_KEY_TYPE_ECC_KEY_PAIR_GENERATE'', KInt 1),
     (''PSA_WANT_KEY_TYPE_ECC_KEY_PAIR_DERIVE'', KInt 1), (''PSA_WANT_KEY_TYPE_RSA_KEY_PAIR_IMPORT'', KInt 1),
     (''PSA_WANT_KEY_TYPE_RSA_KEY_PAIR_EXPORT'', KInt 1),
     (''PSA_WANT_KEY_TYPE_RSA_KEY_PAIR_GENERATE'', KInt 1),
     (''PSA_WANT_KEY_TYPE_RSA_KEY_PAIR_DERIVE'', KInt 1), (''PSA_WANT_KEY_TYPE_ECC_KEY_PAIR_BASIC'', KInt 1),
     (''PSA_WANT_KEY_TYPE_RSA_KEY_PAIR_BASIC'', KInt 1), (''DISABLE_MBEDTLS_BUILTIN'', KInt 1),
     (''MBEDTLS_LOG_LEVEL_DEFAULT'', KInt 1), (''MBEDTLS_LOG_LEVEL'', KInt 3), (''MBEDTLS_INIT'', KInt 1),
     (''APP_LINK_WITH_MBEDTLS'', KInt 1), (''ZEPHYR_OBERON_PSA_CRYPTO_MODULE'', KInt 1)]"

definition autoconf_11 :: "(string \<times> kval) list" where
  "autoconf_11 = [
     (''ZEPHYR_TRUSTED_FIRMWARE_M_MODULE'', KInt 1), (''ZEPHYR_PSA_ARCH_TESTS_MODULE'', KInt 1),
     (''ZEPHYR_CJSON_MODULE'', KInt 1), (''ZEPHYR_AZURE_SDK_FOR_C_MODULE'', KInt 1),
     (''ZEPHYR_CIRRUS_LOGIC_MODULE'', KInt 1), (''ZEPHYR_OPENTHREAD_MODULE'', KInt 1),
     (''ZEPHYR_MEMFAULT_FIRMWARE_SDK_MODULE'', KInt 1), (''ZEPHYR_COREMARK_MODULE'', KInt 1),
     (''ZEPHYR_CANOPENNODE_MODULE'', KInt 1), (''ZEPHYR_CHRE_MODULE'', KInt 1),
     (''ZEPHYR_LZ4_MODULE'', KInt 1), (''ZEPHYR_NANOPB_MODULE'', KInt 1),
     (''ZEPHYR_TF_M_TESTS_MODULE'', KInt 1), (''ZEPHYR_ZSCILIB_MODULE'', KInt 1),
     (''ZEPHYR_CMSIS_MODULE'', KInt 1), (''HAS_CMSIS_CORE'', KInt 1), (''ZEPHYR_CMSIS_DSP_MODULE'', KInt 1),
     (''ZEPHYR_CMSIS_NN_MODULE'', KInt 1), (''ZEPHYR_CMSIS_6_MODULE'', KInt 1), (''HAS_CMSIS_CORE_M'', KInt 1),
     (''ZEPHYR_FATFS_MODULE'', KInt 1), (''ZEPHYR_HAL_NORDIC_MODULE'', KInt 1),
     (''HAS_NORDIC_DRIVERS'', KInt 1), (''HAS_NRFX'', KInt 1), (''NRFX_CLOCK'', KInt 1),
     (''NRFX_CLOCK_LFXO_TWO_STAGE_ENABLED'', KInt 1), (''NRFX_CLOCK_LF_SRC_XTAL'', KInt 1),
     (''NRFX_GPIOTE'', KInt 1), (''NRFX_GPIOTE0'', KInt 1), (''NRFX_GPPI'', KInt 1), (''NRFX_PPI'', KInt 1),
     (''NRFX_SPI'', KInt 1), (''NRFX_SPI1'', KInt 1), (''NRFX_SPIM'', KInt 1), (''NRFX_SPIM3'', KInt 1),
     (''NRFX_RESERVED_RESOURCES_HEADER'', KStr ''nrfx_config_reserved_resources_ncs.h''),
     (''ZEPHYR_HAL_ST_MODULE'', KInt 1), (''ZEPHYR_HAL_TDK_MODULE'', KInt 1),
     (''ZEPHYR_HAL_WURTHELEKTRONIK_MODULE'', KInt 1), (''ZEPHYR_LIBLC3_MODULE'', KInt 1),
     (''ZEPHYR_LIBMETAL_MODULE'', KInt 1), (''ZEPHYR_LITTLEFS_MODULE'', KInt 1),
     (''ZEPHYR_LORAMAC_NODE_MODULE'', KInt 1), (''ZEPHYR_LVGL_MODULE'', KInt 1),
     (''ZEPHYR_MIPI_SYS_T_MODULE'', KInt 1)]"

definition autoconf_12 :: "(string \<times> kval) list" where
  "autoconf_12 = [
     (''ZEPHYR_NRF_WIFI_MODULE'', KInt 1), (''NRF70_BUSLIB'', KInt 1), (''NRF70_ON_SPI'', KInt 1),
     (''WIFI_NRF70_BUSLIB_LOG_LEVEL_DEFAULT'', KInt 1), (''WIFI_NRF70_BUSLIB_LOG_LEVEL'', KInt 3),
     (''NRF70_LOG_VERBOSE'', KInt 1), (''ZEPHYR_OPEN_AMP_MODULE'', KInt 1),
     (''ZEPHYR_PERCEPIO_MODULE'', KInt 1), (''ZEPHYR_PICOLIBC_MODULE'', KInt 1),
     (''ZEPHYR_SEGGER_MODULE'', KInt 1), (''HAS_SEGGER_RTT'', KInt 1), (''ZEPHYR_TINYCRYPT_MODULE'', KInt 1),
     (''ZEPHYR_UOSCORE_UEDHOC_MODULE'', KInt 1), (''ZEPHYR_ZCBOR_MODULE'', KInt 1),
     (''NRF_MODEM_SHMEM_CTRL_SIZE'', KHex 0x4e8), (''NRFXLIB_CRYPTO'', KInt 1), (''HAS_HW_NRF_CC3XX'', KInt 1),
     (''NRF_CC3XX_PLATFORM'', KInt 1), (''CC3XX_MUTEX_LOCK'', KInt 1), (''NRF_802154_SOURCE_NRFXLIB'', KInt 1),
     (''ZEPHYR_NRFXLIB_MODULE'', KInt 1), (''ZEPHYR_NRF_HW_MODELS_MODULE'', KInt 1),
     (''ZEPHYR_CONNECTEDHOMEIP_MODULE'', KInt 1), (''BOARD'', KStr ''nrf52840dk''),
     (''BOARD_REVISION'', KStr []), (''BOARD_TARGET'', KStr ''nrf52840dk/nrf52840''),
     (''BOARD_NRF52840DK'', KInt 1), (''BOARD_NRF52840DK_NRF52840'', KInt 1),
     (''BOARD_QUALIFIERS'', KStr ''nrf52840''), (''SOC'', KStr ''nrf52840''), (''SOC_SERIES'', KStr ''nrf52''),
     (''SOC_FAMILY'', KStr ''nordic_nrf''), (''SOC_FAMILY_NORDIC_NRF'', KInt 1),
     (''SOC_SERIES_NRF52X'', KInt 1), (''SOC_NRF52840'', KInt 1), (''SOC_NRF52840_QIAA'', KInt 1),
     (''ARMV8_1_M_PMU_EVENTCNT'', KInt 8), (''HAS_HW_NRF_ACL'', KInt 1), (''HAS_HW_NRF_CC310'', KInt 1),
     (''HAS_HW_NRF_CCM'', KInt 1), (''HAS_HW_NRF_CCM_LFLEN_8BIT'', KInt 1), (''HAS_HW_NRF_CLOCK'', KInt 1),
     (''HAS_HW_NRF_ECB'', KInt 1), (''HAS_HW_NRF_EGU0'', KInt 1), (''HAS_HW_NRF_EGU1'', KInt 1)]"

definition autoconf_13 :: "(string \<times> kval) list" where
  "autoconf_13 = [
     (''HAS_HW_NRF_EGU2'', KInt 1), (''HAS_HW_NRF_EGU3'', KInt 1), (''HAS_HW_NRF_EGU4'', KInt 1),
     (''HAS_HW_NRF_EGU5'', KInt 1), (''HAS_HW_NRF_GPIO0'', KInt 1), (''HAS_HW_NRF_GPIO1'', KInt 1),
     (''HAS_HW_NRF_GPIOTE0'', KInt 1), (''HAS_HW_NRF_MWU'', KInt 1), (''HAS_HW_NRF_NFCT'', KInt 1),
     (''HAS_HW_NRF_NVMC_PE'', KInt 1), (''HAS_HW_NRF_POWER'', KInt 1), (''HAS_HW_NRF_PPI'', KInt 1),
     (''HAS_HW_NRF_PWM0'', KInt 1), (''HAS_HW_NRF_QSPI'', KInt 1), (''HAS_HW_NRF_RADIO_BLE_2M'', KInt 1),
     (''HAS_HW_NRF_RADIO_BLE_CODED'', KInt 1), (''HAS_HW_NRF_RADIO_IEEE802154'', KInt 1),
     (''HAS_HW_NRF_RADIO_TX_PWR_HIGH'', KInt 1), (''HAS_HW_NRF_RNG'', KInt 1), (''HAS_HW_NRF_SAADC'', KInt 1),
     (''HAS_HW_NRF_SPI1'', KInt 1), (''HAS_HW_NRF_SPIM3'', KInt 1), (''HAS_HW_NRF_SWI0'', KInt 1),
     (''HAS_HW_NRF_SWI1'', KInt 1), (''HAS_HW_NRF_SWI2'', KInt 1), (''HAS_HW_NRF_SWI3'', KInt 1),
     (''HAS_HW_NRF_SWI4'', KInt 1), (''HAS_HW_NRF_SWI5'', KInt 1), (''HAS_HW_NRF_TEMP'', KInt 1),
     (''HAS_HW_NRF_TWI0'', KInt 1), (''HAS_HW_NRF_UARTE0'', KInt 1), (''HAS_HW_NRF_USBD'', KInt 1),
     (''HAS_HW_NRF_WDT0'', KInt 1), (''HAS_NORDIC_RAM_CTRL'', KInt 1), (''NRF_ENABLE_ICACHE'', KInt 1),
     (''NRF52_ANOMALY_198_WORKAROUND'', KInt 1), (''NRF_TRUSTZONE_FLASH_REGION_SIZE'', KHex 0),
     (''NRF_TRUSTZONE_RAM_REGION_SIZE'', KHex 0), (''NRF_RTC_TIMER_USER_CHAN_COUNT'', KInt 0),
     (''NRF_SOC_SECURE_SUPPORTED'', KInt 1), (''NRF_APPROTECT_USE_UICR'', KInt 1),
     (''GPIO_INIT_PRIORITY'', KInt 40), (''SOC_LOG_LEVEL_DEFAULT'', KInt 1), (''SOC_LOG_LEVEL'', KInt 3),
     (''SOC_COMPATIBLE_NRF'', KInt 1)]"

definition autoconf_14 :: "(string \<times> kval) list" where
  "autoconf_14 = [
     (''SOC_COMPATIBLE_NRF52X'', KInt 1), (''ARCH'', KStr ''arm''),
     (''ARCH_HAS_SINGLE_THREAD_SUPPORT'', KInt 1), (''CPU_CORTEX'', KInt 1),
     (''ARM_MPU_REGION_MIN_ALIGN_AND_SIZE'', KInt 32), (''CPU_CORTEX_M'', KInt 1), (''ISA_THUMB2'', KInt 1),
     (''ASSEMBLER_ISA_THUMB2'', KInt 1), (''COMPILER_ISA_THUMB2'', KInt 1),
     (''STACK_ALIGN_DOUBLE_WORD'', KInt 1), (''FAULT_DUMP'', KInt 2), (''ARM_STACK_PROTECTION'', KInt 1),
     (''FP16'', KInt 1), (''FP16_IEEE'', KInt 1), (''CPU_CORTEX_M4'', KInt 1),
     (''CPU_CORTEX_M_HAS_SYSTICK'', KInt 1), (''CPU_CORTEX_M_HAS_DWT'', KInt 1),
     (''CPU_CORTEX_M_HAS_BASEPRI'', KInt 1), (''CPU_CORTEX_M_HAS_VTOR'', KInt 1),
     (''CPU_CORTEX_M_HAS_PROGRAMMABLE_FAULT_PRIOS'', KInt 1), (''ARMV7_M_ARMV8_M_MAINLINE'', KInt 1),
     (''ARMV7_M_ARMV8_M_FP'', KInt 1), (''NULL_POINTER_EXCEPTION_DETECTION_NONE'', KInt 1),
     (''MPU_STACK_GUARD'', KInt 1), (''CUSTOM_SECTION_MIN_ALIGN_SIZE'', KInt 32), (''HAS_SWO'', KInt 1),
     (''ARM'', KInt 1), (''ARCH_IS_SET'', KInt 1), (''ARM_MPU'', KInt 1), (''ARCH_LOG_LEVEL_DEFAULT'', KInt 1),
     (''ARCH_LOG_LEVEL'', KInt 3), (''LITTLE_ENDIAN'', KInt 1), (''GEN_PRIV_STACKS'', KInt 1),
     (''ISR_TABLES_LOCAL_DECLARATION_SUPPORTED'', KInt 1), (''ARCH_DEVICE_STATE_ALIGN'', KInt 4),
     (''IRQ_VECTOR_TABLE_JUMP_BY_ADDRESS'', KInt 1), (''EXCEPTION_DEBUG'', KInt 1),
     (''ARCH_HAS_TIMING_FUNCTIONS'', KInt 1), (''ARCH_HAS_STACK_PROTECTION'', KInt 1),
     (''ARCH_HAS_USERSPACE'', KInt 1), (''ARCH_HAS_EXECUTABLE_PAGE_BIT'', KInt 1),
     (''ARCH_HAS_RAMFUNC_SUPPORT'', KInt 1), (''ARCH_HAS_VECTOR_TABLE_RELOCATION'', KInt 1),
     (''ARCH_HAS_NESTED_EXCEPTION_DETECTION'', KInt 1), (''ARCH_SUPPORTS_COREDUMP'', KInt 1)]"

definition autoconf_15 :: "(string \<times> kval) list" where
  "autoconf_15 = [
     (''ARCH_SUPPORTS_COREDUMP_THREADS'', KInt 1), (''ARCH_SUPPORTS_COREDUMP_STACK_PTR'', KInt 1),
     (''ARCH_SUPPORTS_ARCH_HW_INIT'', KInt 1), (''ARCH_SUPPORTS_ROM_START'', KInt 1),
     (''ARCH_HAS_EXTRA_EXCEPTION_INFO'', KInt 1), (''ARCH_HAS_THREAD_LOCAL_STORAGE'', KInt 1),
     (''ARCH_HAS_SUSPEND_TO_RAM'', KInt 1), (''ARCH_HAS_THREAD_ABORT'', KInt 1),
     (''ARCH_HAS_CODE_DATA_RELOCATION'', KInt 1), (''CPU_HAS_FPU'', KInt 1), (''CPU_HAS_MPU'', KInt 1),
     (''MPU'', KInt 1), (''MPU_LOG_LEVEL_DEFAULT'', KInt 1), (''MPU_LOG_LEVEL'', KInt 3),
     (''MPU_REQUIRES_POWER_OF_TWO_ALIGNMENT'', KInt 1), (''SRAM_REGION_PERMISSIONS'', KInt 1),
     (''TOOLCHAIN_HAS_BUILTIN_FFS'', KInt 1), (''ARCH_HAS_CUSTOM_SWAP_TO_MAIN'', KInt 1),
     (''KERNEL_LOG_LEVEL_DEFAULT'', KInt 1), (''KERNEL_LOG_LEVEL'', KInt 3),
     (''NUM_COOP_PRIORITIES'', KInt 16), (''MAIN_THREAD_PRIORITY'', KInt 0), (''COOP_ENABLED'', KInt 1),
     (''PREEMPT_ENABLED'', KInt 1), (''PRIORITY_CEILING'', KInt (- 127)), (''THREAD_STACK_INFO'', KInt 1),
     (''SCHED_SIMPLE'', KInt 1), (''WAITQ_SIMPLE'', KInt 1), (''LIBC_ERRNO'', KInt 1), (''ERRNO'', KInt 1),
     (''CURRENT_THREAD_USE_TLS'', KInt 1), (''BOOT_DELAY'', KInt 0), (''BARRIER_OPERATIONS_ARCH'', KInt 1),
     (''ATOMIC_OPERATIONS_BUILTIN'', KInt 1), (''TIMESLICING'', KInt 1), (''TIMESLICE_PRIORITY'', KInt 0),
     (''POLL'', KInt 1), (''NUM_MBOX_ASYNC_MSGS'', KInt 10), (''HEAP_MEM_POOL_IGNORE_MIN'', KInt 1),
     (''SWAP_NONATOMIC'', KInt 1), (''TIMEOUT_64BIT'', KInt 1), (''SYS_CLOCK_MAX_TIMEOUT_DAYS'', KInt 365),
     (''STACK_POINTER_RANDOM'', KInt 0), (''ARCH_MEM_DOMAIN_SUPPORTS_ISOLATED_STACKS'', KInt 1),
     (''MEM_DOMAIN_ISOLATED_STACKS'', KInt 1)]"

definition autoconf_16 :: "(string \<times> kval) list" where
  "autoconf_16 = [
     (''TOOLCHAIN_SUPPORTS_THREAD_LOCAL_STORAGE'', KInt 1), (''THREAD_LOCAL_STORAGE'', KInt 1),
     (''TOOLCHAIN_SUPPORTS_STATIC_INIT_GNU'', KInt 1), (''KERNEL_INIT_PRIORITY_OBJECTS'', KInt 30),
     (''KERNEL_INIT_PRIORITY_LIBC'', KInt 35), (''KERNEL_INIT_PRIORITY_DEFAULT'', KInt 40),
     (''KERNEL_INIT_PRIORITY_DEVICE'', KInt 50), (''APPLICATION_INIT_PRIORITY'', KInt 90),
     (''CLOCK_CONTROL_LOG_LEVEL_DEFAULT'', KInt 1), (''CLOCK_CONTROL_LOG_LEVEL'', KInt 3),
     (''CLOCK_CONTROL_NRF'', KInt 1), (''CLOCK_CONTROL_NRF_K32SRC_XTAL'', KInt 1),
     (''CLOCK_CONTROL_NRF_K32SRC_50PPM'', KInt 1), (''CLOCK_CONTROL_NRF_ACCURACY'', KInt 50),
     (''CONSOLE_INPUT_MAX_LINE_LEN'', KInt 128), (''CONSOLE_HAS_DRIVER'', KInt 1),
     (''CONSOLE_INIT_PRIORITY'', KInt 60), (''UART_CONSOLE'', KInt 1),
     (''UART_CONSOLE_LOG_LEVEL_DEFAULT'', KInt 1), (''UART_CONSOLE_LOG_LEVEL'', KInt 3),
     (''ENTROPY_GENERATOR'', KInt 1), (''ENTROPY_LOG_LEVEL_DEFAULT'', KInt 1), (''ENTROPY_LOG_LEVEL'', KInt 3),
     (''ENTROPY_INIT_PRIORITY'', KInt 50), (''ENTROPY_NRF5_RNG'', KInt 1),
     (''ENTROPY_NRF5_THR_POOL_SIZE'', KInt 8), (''ENTROPY_NRF5_THR_THRESHOLD'', KInt 4),
     (''ENTROPY_NRF5_ISR_POOL_SIZE'', KInt 16), (''ENTROPY_NRF5_ISR_THRESHOLD'', KInt 12),
     (''ENTROPY_HAS_DRIVER'', KInt 1), (''ETH_DRIVER'', KInt 1), (''ETHERNET_LOG_LEVEL_DEFAULT'', KInt 1),
     (''ETHERNET_LOG_LEVEL'', KInt 3), (''ETH_PHY_DRIVER'', KInt 1), (''PHY_LOG_LEVEL_DEFAULT'', KInt 1),
     (''PHY_LOG_LEVEL'', KInt 3), (''PHY_INIT_PRIORITY'', KInt 70), (''PHY_AUTONEG_TIMEOUT_MS'', KInt 4000),
     (''PHY_MONITOR_PERIOD'', KInt 500), (''ETH_INIT_PRIORITY'', KInt 80),
     (''GPIO_LOG_LEVEL_DEFAULT'', KInt 1), (''GPIO_LOG_LEVEL'', KInt 3), (''GPIO_NRFX'', KInt 1),
     (''GPIO_NRFX_INTERRUPT'', KInt 1), (''HWINFO'', KInt 1)]"

definition autoconf_17 :: "(string \<times> kval) list" where
  "autoconf_17 = [
     (''HWINFO_LOG_LEVEL_DEFAULT'', KInt 1), (''HWINFO_LOG_LEVEL'', KInt 3), (''HWINFO_HAS_DRIVER'', KInt 1),
     (''HWINFO_NRF'', KInt 1), (''INTC_INIT_PRIORITY'', KInt 40), (''INTC_LOG_LEVEL_DEFAULT'', KInt 1),
     (''INTC_LOG_LEVEL'', KInt 3), (''PINCTRL'', KInt 1), (''PINCTRL_LOG_LEVEL_DEFAULT'', KInt 1),
     (''PINCTRL_LOG_LEVEL'', KInt 3), (''PINCTRL_STORE_REG'', KInt 1), (''PINCTRL_NRF'', KInt 1),
     (''SERIAL_HAS_DRIVER'', KInt 1), (''SERIAL_SUPPORT_ASYNC'', KInt 1),
     (''SERIAL_SUPPORT_INTERRUPT'', KInt 1), (''SERIAL_INIT_PRIORITY'', KInt 50),
     (''UART_LOG_LEVEL_DEFAULT'', KInt 1), (''UART_LOG_LEVEL'', KInt 3), (''UART_NRFX'', KInt 1),
     (''UART_NRFX_UARTE'', KInt 1), (''UART_NRFX_UARTE_LEGACY_SHIM'', KInt 1),
     (''UART_0_ENHANCED_POLL_OUT'', KInt 1), (''UART_0_NRF_TX_BUFFER_SIZE'', KInt 32),
     (''SPI_INIT_PRIORITY'', KInt 50), (''SPI_COMPLETION_TIMEOUT_TOLERANCE'', KInt 200),
     (''SPI_LOG_LEVEL_DEFAULT'', KInt 1), (''SPI_LOG_LEVEL'', KInt 3), (''SPI_NRFX'', KInt 1),
     (''SPI_NRFX_SPI'', KInt 1), (''SPI_NRFX_SPIM'', KInt 1), (''SPI_NRFX_RAM_BUFFER_SIZE'', KInt 8),
     (''SPI_NRFX_WAKE_TIMEOUT_US'', KInt 200), (''SYSTEM_CLOCK_INIT_PRIORITY'', KInt 0),
     (''TICKLESS_CAPABLE'', KInt 1), (''SYSTEM_TIMER_HAS_DISABLE_SUPPORT'', KInt 1),
     (''CORTEX_M_SYSTICK_LPM_TIMER_NONE'', KInt 1), (''SYSTEM_CLOCK_WAIT_FOR_STABILITY'', KInt 1),
     (''NRF_USBD_COMMON_LOG_LEVEL_DEFAULT'', KInt 1), (''NRF_USBD_COMMON_LOG_LEVEL'', KInt 3),
     (''USBC_LOG_LEVEL_DEFAULT'', KInt 1), (''USBC_LOG_LEVEL'', KInt 3),
     (''VIRTIO_LOG_LEVEL_DEFAULT'', KInt 1), (''VIRTIO_LOG_LEVEL'', KInt 3),
     (''WIFI_LOG_LEVEL_DEFAULT'', KInt 1), (''WIFI_LOG_LEVEL'', KInt 3)]"

definition autoconf_18 :: "(string \<times> kval) list" where
  "autoconf_18 = [
     (''WIFI_INIT_PRIORITY'', KInt 80), (''WIFI_USE_NATIVE_NETWORKING'', KInt 1),
     (''NET_TCP_WORKQ_STACK_SIZE'', KInt 1024), (''NET_MGMT_EVENT_STACK_SIZE'', KInt 4600),
     (''WIFI_MGMT_SCAN_CHAN_MAX_MANUAL'', KInt 3), (''WIFI_NRF70'', KInt 1), (''WIFI_NRF7002'', KInt 1),
     (''NRF70_QSPI_LOW_POWER'', KInt 1), (''NRF70_SYSTEM_MODE'', KInt 1), (''NRF70_STA_MODE'', KInt 1),
     (''NRF70_DATA_TX'', KInt 1), (''NRF_WIFI_IF_AUTO_START'', KInt 1),
     (''NRF_WIFI_PATCHES_EXTERNAL'', KInt 1), (''NRF_WIFI_LOW_POWER'', KInt 1),
     (''NRF70_TCP_IP_CHECKSUM_OFFLOAD'', KInt 1), (''NRF70_REG_DOMAIN'', KStr ''00''),
     (''WIFI_NRF70_LOG_LEVEL_DEFAULT'', KInt 1), (''WIFI_NRF70_LOG_LEVEL'', KInt 3),
     (''NRF70_WORKQ_STACK_SIZE'', KInt 4096), (''NRF70_WORKQ_MAX_ITEMS'', KInt 100),
     (''NRF70_MAX_TX_PENDING_QLEN'', KInt 18), (''NRF70_PCB_LOSS_2G'', KInt 0),
     (''NRF70_PCB_LOSS_5G_BAND1'', KInt 0), (''NRF70_PCB_LOSS_5G_BAND2'', KInt 0),
     (''NRF70_PCB_LOSS_5G_BAND3'', KInt 0), (''NRF70_ANT_GAIN_2G'', KInt 0),
     (''NRF70_ANT_GAIN_5G_BAND1'', KInt 0), (''NRF70_ANT_GAIN_5G_BAND2'', KInt 0),
     (''NRF70_ANT_GAIN_5G_BAND3'', KInt 0), (''NRF70_BAND_2G_LOWER_EDGE_BACKOFF_DSSS'', KInt 0),
     (''NRF70_BAND_2G_LOWER_EDGE_BACKOFF_HT'', KInt 0), (''NRF70_BAND_2G_LOWER_EDGE_BACKOFF_HE'', KInt 0),
     (''NRF70_BAND_2G_UPPER_EDGE_BACKOFF_DSSS'', KInt 0), (''NRF70_BAND_2G_UPPER_EDGE_BACKOFF_HT'', KInt 0),
     (''NRF70_BAND_2G_UPPER_EDGE_BACKOFF_HE'', KInt 0), (''NRF70_BAND_UNII_1_LOWER_EDGE_BACKOFF_HT'', KInt 0),
     (''NRF70_BAND_UNII_1_LOWER_EDGE_BACKOFF_HE'', KInt 0),
     (''NRF70_BAND_UNII_1_UPPER_EDGE_BACKOFF_HT'', KInt 0),
     (''NRF70_BAND_UNII_1_UPPER_EDGE_BACKOFF_HE'', KInt 0),
     (''NRF70_BAND_UNII_2A_LOWER_EDGE_BACKOFF_HT'', KInt 0),
     (''NRF70_BAND_UNII_2A_LOWER_EDGE_BACKOFF_HE'', KInt 0),
     (''NRF70_BAND_UNII_2A_UPPER_EDGE_BACKOFF_HT'', KInt 0),
     (''NRF70_BAND_UNII_2A_UPPER_EDGE_BACKOFF_HE'', KInt 0),
     (''NRF70_BAND_UNII_2C_LOWER_EDGE_BACKOFF_HT'', KInt 0),
     (''NRF70_BAND_UNII_2C_LOWER_EDGE_BACKOFF_HE'', KInt 0)]"

definition autoconf_19 :: "(string \<times> kval) list" where
  "autoconf_19 = [
     (''NRF70_BAND_UNII_2C_UPPER_EDGE_BACKOFF_HT'', KInt 0),
     (''NRF70_BAND_UNII_2C_UPPER_EDGE_BACKOFF_HE'', KInt 0),
     (''NRF70_BAND_UNII_3_LOWER_EDGE_BACKOFF_HT'', KInt 0),
     (''NRF70_BAND_UNII_3_LOWER_EDGE_BACKOFF_HE'', KInt 0),
     (''NRF70_BAND_UNII_3_UPPER_EDGE_BACKOFF_HT'', KInt 0),
     (''NRF70_BAND_UNII_3_UPPER_EDGE_BACKOFF_HE'', KInt 0),
     (''NRF70_BAND_UNII_4_LOWER_EDGE_BACKOFF_HT'', KInt 0),
     (''NRF70_BAND_UNII_4_LOWER_EDGE_BACKOFF_HE'', KInt 0),
     (''NRF70_BAND_UNII_4_UPPER_EDGE_BACKOFF_HT'', KInt 0),
     (''NRF70_BAND_UNII_4_UPPER_EDGE_BACKOFF_HE'', KInt 0), (''NRF70_RX_NUM_BUFS'', KInt 16),
     (''NRF70_MAX_TX_AGGREGATION'', KInt 12), (''NRF70_MAX_TX_TOKENS'', KInt 10),
     (''NRF70_TX_MAX_DATA_SIZE'', KInt 1600), (''NRF70_RX_MAX_DATA_SIZE'', KInt 1600),
     (''NRF70_IRQ_WQ_PRIORITY'', KInt (- 15)), (''NRF70_BH_WQ_PRIORITY'', KInt 0),
     (''NRF70_IRQ_WQ_STACK_SIZE'', KInt 2048), (''NRF70_BH_WQ_STACK_SIZE'', KInt 2048),
     (''NRF70_RPU_PS_IDLE_TIMEOUT_MS'', KInt 10), (''WIFI_FIXED_MAC_ADDRESS'', KStr []),
     (''WIFI_OTP_MAC_ADDRESS'', KInt 1), (''NRF70_RSSI_STALE_TIMEOUT_MS'', KInt 1000),
     (''NRF_WIFI_CTRL_HEAP_SIZE'', KInt 20000), (''NRF_WIFI_DATA_HEAP_SIZE'', KInt 30000),
     (''NET_TC_TX_COUNT'', KInt 1), (''NRF_WIFI_USE_VARIABLE_NET_BUFS'', KInt 1),
     (''WIFI_MGMT_SCAN_SSID_FILT_MAX'', KInt 2), (''NRF_WIFI_SCAN_MAX_BSS_CNT'', KInt 0),
     (''NRF_WIFI_BEAMFORMING'', KInt 1), (''WIFI_NRF70_SCAN_TIMEOUT_S'', KInt 30),
     (''NRF_WIFI_OP_BAND'', KInt 3), (''NRF_WIFI_IFACE_MTU'', KInt 1500),
     (''NET_INTERFACE_NAME_LEN'', KInt 15), (''NRF_WIFI_AP_DEAD_DETECT_TIMEOUT'', KInt 20),
     (''NRF_WIFI_RPU_RECOVERY'', KInt 1), (''NRF_WIFI_RPU_RECOVERY_PROPAGATION_DELAY_MS'', KInt 2000),
     (''NET_MGMT_EVENT_QUEUE_SIZE'', KInt 16), (''NRF_WIFI_RPU_RECOVERY_PS_ACTIVE_TIMEOUT_MS'', KInt 50000),
     (''NRF_WIFI_RPU_MIN_TIME_TO_ENTER_SLEEP_MS'', KInt 5000),
     (''NRF_WIFI_RPU_RECOVERY_QUIET_PERIOD_MS'', KInt 5000), (''NRF_WIFI_RPU_RECOVERY_MAX_RETRIES'', KInt 0),
     (''NRF_WIFI_RPU_RECOVERY_RETRY_WINDOW_S'', KInt 900), (''NRF_WIFI_FEAT_WMM'', KInt 1),
     (''NRF_WIFI_PS_POLL_BASED_RETRIEVAL'', KInt 1)]"

definition autoconf_20 :: "(string \<times> kval) list" where
  "autoconf_20 = [
     (''NRF_WIFI_MGMT_BUFF_OFFLOAD'', KInt 1), (''NRF_WIFI_PS_INT_PS'', KInt 1),
     (''NRF_WIFI_DISPLAY_SCAN_BSS_LIMIT'', KInt 150), (''NRF_WIFI_MAX_PS_POLL_FAIL_CNT'', KInt 10),
     (''NRF_WIFI_RX_STBC_HT'', KInt 1), (''WIFI_USAGE_MODE_STA'', KInt 1), (''REQUIRES_FULL_LIBC'', KInt 1),
     (''FULL_LIBC_SUPPORTED'', KInt 1), (''MINIMAL_LIBC_SUPPORTED'', KInt 1),
     (''NEWLIB_LIBC_SUPPORTED'', KInt 1), (''PICOLIBC_SUPPORTED'', KInt 1),
     (''NATIVE_LIBC_INCOMPATIBLE'', KInt 1), (''PICOLIBC'', KInt 1), (''HAS_NEWLIB_LIBC_NANO'', KInt 1),
     (''COMMON_LIBC_ABORT'', KInt 1), (''COMMON_LIBC_MALLOC'', KInt 1), (''COMMON_LIBC_CALLOC'', KInt 1),
     (''COMMON_LIBC_REALLOCARRAY'', KInt 1), (''COMMON_LIBC_REMOVE'', KInt 1),
     (''PICOLIBC_USE_TOOLCHAIN'', KInt 1), (''PICOLIBC_IO_LONG_LONG'', KInt 1), (''STDOUT_CONSOLE'', KInt 1),
     (''NEED_LIBC_MEM_PARTITION'', KInt 1), (''CRC'', KInt 1), (''SYS_HASH_FUNC32'', KInt 1),
     (''SYS_HASH_FUNC32_DJB2'', KInt 1), (''SYS_HASH_FUNC32_MURMUR3'', KInt 1),
     (''SYS_HASH_FUNC32_CHOICE_MURMUR3'', KInt 1), (''SYS_HEAP_ALLOC_LOOPS'', KInt 3),
     (''SYS_HEAP_ARRAY_SIZE'', KInt 0), (''SYS_HEAP_AUTO'', KInt 1), (''NET_BUF'', KInt 1),
     (''NET_BUF_LOG_LEVEL_DEFAULT'', KInt 1), (''NET_BUF_LOG_LEVEL'', KInt 3), (''NET_BUF_ALIGNMENT'', KInt 0),
     (''FDTABLE'', KInt 1), (''ZVFS_OPEN_MAX'', KInt 16), (''MPSC_PBUF'', KInt 1), (''HAS_POWEROFF'', KInt 1),
     (''CBPRINTF_COMPLETE'', KInt 1), (''CBPRINTF_FULL_INTEGRAL'', KInt 1),
     (''CBPRINTF_PACKAGE_LOG_LEVEL_DEFAULT'', KInt 1), (''CBPRINTF_PACKAGE_LOG_LEVEL'', KInt 3),
     (''CBPRINTF_CONVERT_CHECK_PTR'', KInt 1), (''ZVFS'', KInt 1)]"

definition autoconf_21 :: "(string \<times> kval) list" where
  "autoconf_21 = [
     (''ZVFS_EVENTFD'', KInt 1), (''ZVFS_EVENTFD_MAX'', KInt 8), (''ZVFS_POLL'', KInt 1),
     (''ZVFS_POLL_MAX'', KInt 10), (''ZVFS_SELECT'', KInt 1), (''POSIX_API'', KInt 1),
     (''POSIX_AEP_CHOICE_NONE'', KInt 1), (''POSIX_BASE_DEFINITIONS'', KInt 1),
     (''POSIX_AEP_REALTIME_MINIMAL'', KInt 1), (''POSIX_ASYNCHRONOUS_IO'', KInt 1),
     (''POSIX_BARRIERS'', KInt 1), (''MAX_PTHREAD_BARRIER_COUNT'', KInt 5),
     (''PTHREAD_BARRIER_LOG_LEVEL_DEFAULT'', KInt 1), (''PTHREAD_BARRIER_LOG_LEVEL'', KInt 3),
     (''POSIX_C_LANG_SUPPORT_R'', KInt 1), (''POSIX_DEVICE_IO'', KInt 1), (''POSIX_OPEN_MAX'', KInt 16),
     (''POSIX_FD_MGMT'', KInt 1), (''POSIX_FILE_SYSTEM_R'', KInt 1), (''POSIX_FILE_SYSTEM'', KInt 1),
     (''POSIX_PAGE_SIZE'', KHex 0x40), (''POSIX_SHARED_MEMORY_OBJECTS'', KInt 1),
     (''POSIX_MAPPED_FILES'', KInt 1), (''POSIX_MEMLOCK'', KInt 1), (''POSIX_MEMLOCK_RANGE'', KInt 1),
     (''POSIX_MEMORY_PROTECTION'', KInt 1), (''POSIX_NETWORKING'', KInt 1), (''POSIX_HOST_NAME_MAX'', KInt 63),
     (''POSIX_SINGLE_PROCESS'', KInt 1), (''POSIX_SYSCONF_IMPL_MACRO'', KInt 1),
     (''POSIX_UNAME_VERSION_LEN'', KInt 70), (''POSIX_UNAME_NODENAME_LEN'', KInt 6),
     (''POSIX_ENV_LOG_LEVEL_DEFAULT'', KInt 1), (''POSIX_ENV_LOG_LEVEL'', KInt 3),
     (''POSIX_MULTI_PROCESS'', KInt 1), (''POSIX_MULTI_PROCESS_ALIAS_GETPID'', KInt 1),
     (''POSIX_THREADS'', KInt 1), (''HEAP_MEM_POOL_ADD_SIZE_POSIX_THREADS'', KInt 256),
     (''POSIX_THREAD_THREADS_MAX'', KInt 5), (''MAX_PTHREAD_MUTEX_COUNT'', KInt 5),
     (''MAX_PTHREAD_COND_COUNT'', KInt 5), (''POSIX_THREAD_KEYS_MAX'', KInt 5),
     (''PTHREAD_RECYCLER_DELAY_MS'', KInt 100), (''POSIX_THREAD_ATTR_STACKADDR'', KInt 1),
     (''POSIX_THREAD_ATTR_STACKSIZE'', KInt 1)]"

definition autoconf_22 :: "(string \<times> kval) list" where
  "autoconf_22 = [
     (''POSIX_THREAD_PRIORITY_SCHEDULING'', KInt 1), (''POSIX_PTHREAD_ATTR_STACKSIZE_BITS'', KInt 23),
     (''POSIX_PTHREAD_ATTR_GUARDSIZE_BITS'', KInt 9), (''POSIX_PTHREAD_ATTR_GUARDSIZE_DEFAULT'', KInt 0),
     (''POSIX_THREAD_PRIO_INHERIT'', KInt 1), (''POSIX_THREAD_PRIO_PROTECT'', KInt 1),
     (''POSIX_THREAD_SAFE_FUNCTIONS'', KInt 1), (''PTHREAD_LOG_LEVEL_DEFAULT'', KInt 1),
     (''PTHREAD_LOG_LEVEL'', KInt 3), (''PTHREAD_MUTEX_LOG_LEVEL_DEFAULT'', KInt 1),
     (''PTHREAD_MUTEX_LOG_LEVEL'', KInt 3), (''PTHREAD_COND_LOG_LEVEL_DEFAULT'', KInt 1),
     (''PTHREAD_COND_LOG_LEVEL'', KInt 3), (''PTHREAD_KEY_LOG_LEVEL_DEFAULT'', KInt 1),
     (''PTHREAD_KEY_LOG_LEVEL'', KInt 3), (''POSIX_READER_WRITER_LOCKS'', KInt 1),
     (''MAX_PTHREAD_RWLOCK_COUNT'', KInt 5), (''PTHREAD_RWLOCK_LOG_LEVEL_DEFAULT'', KInt 1),
     (''PTHREAD_RWLOCK_LOG_LEVEL'', KInt 3), (''POSIX_SEMAPHORES'', KInt 1),
     (''POSIX_SEM_VALUE_MAX'', KInt 32767), (''POSIX_SEM_NSEMS_MAX'', KInt 256),
     (''POSIX_SEM_NAMELEN_MAX'', KInt 16), (''HEAP_MEM_POOL_ADD_SIZE_POSIX_SEMAPHORES'', KInt 256),
     (''POSIX_REALTIME_SIGNALS'', KInt 1), (''POSIX_RTSIG_MAX'', KInt 8), (''POSIX_SIGNALS'', KInt 1),
     (''POSIX_SIGNAL_STRING_DESC'', KInt 1), (''POSIX_SPIN_LOCKS'', KInt 1),
     (''MAX_PTHREAD_SPINLOCK_COUNT'', KInt 5), (''PTHREAD_SPINLOCK_LOG_LEVEL_DEFAULT'', KInt 1),
     (''PTHREAD_SPINLOCK_LOG_LEVEL'', KInt 3), (''POSIX_FSYNC'', KInt 1), (''POSIX_SYNCHRONIZED_IO'', KInt 1),
     (''POSIX_TIMERS'', KInt 1), (''POSIX_THREAD_CPUTIME'', KInt 1), (''POSIX_MONOTONIC_CLOCK'', KInt 1),
     (''POSIX_CLOCK_SELECTION'', KInt 1), (''POSIX_DELAYTIMER_MAX'', KInt 32), (''POSIX_TIMER_MAX'', KInt 32),
     (''POSIX_TIMEOUTS'', KInt 1), (''TIMER_CREATE_WAIT'', KInt 100), (''TIMER_LOG_LEVEL_DEFAULT'', KInt 1),
     (''TIMER_LOG_LEVEL'', KInt 3), (''XSI_SINGLE_PROCESS'', KInt 1)]"

definition autoconf_23 :: "(string \<times> kval) list" where
  "autoconf_23 = [
     (''XSI_SINGLE_PROCESS_LOG_LEVEL_DEFAULT'', KInt 1), (''XSI_SINGLE_PROCESS_LOG_LEVEL'', KInt 3),
     (''XSI_THREADS_EXT'', KInt 1), (''EVENTFD'', KInt 1), (''TC_PROVIDES_POSIX_C_LANG_SUPPORT_R'', KInt 1),
     (''LIBGCC_RTLIB'', KInt 1), (''RING_BUFFER'', KInt 1), (''NOTIFY'', KInt 1), (''ONOFF'', KInt 1),
     (''PRINTK'', KInt 1), (''EARLY_CONSOLE'', KInt 1), (''ASSERT_VERBOSE'', KInt 1),
     (''DEBUG_COREDUMP'', KInt 1), (''DEBUG_COREDUMP_BACKEND_LOGGING'', KInt 1),
     (''DEBUG_COREDUMP_MEMORY_DUMP_MIN'', KInt 1), (''DEBUG_COREDUMP_LOG_LEVEL_DEFAULT'', KInt 1),
     (''DEBUG_COREDUMP_LOG_LEVEL'', KInt 3), (''DEBUG_COREDUMP_THREAD_STACK_TOP'', KInt 1),
     (''DEBUG_COREDUMP_THREAD_STACK_TOP_LIMIT'', KInt (- 1)), (''CPU_LOAD_LOG_PERIODICALLY'', KInt 0),
     (''CPU_LOAD_LOG_LEVEL_DEFAULT'', KInt 1), (''CPU_LOAD_LOG_LEVEL'', KInt 3),
     (''FILE_SYSTEM_LIB_LINK'', KInt 1), (''FILE_SYSTEM'', KInt 1), (''FILE_SYSTEM_MAX_TYPES'', KInt 2),
     (''FILE_SYSTEM_MAX_FILE_NAME'', KInt (- 1)), (''FILE_SYSTEM_INIT_PRIORITY'', KInt 99),
     (''APP_LINK_WITH_FS'', KInt 1), (''FS_LOG_LEVEL_DEFAULT'', KInt 1), (''FS_LOG_LEVEL'', KInt 3),
     (''EXT2_LOG_LEVEL_DEFAULT'', KInt 1), (''EXT2_LOG_LEVEL'', KInt 3), (''LOG_CORE_INIT_PRIORITY'', KInt 0),
     (''LOG_MODE_DEFERRED'', KInt 1), (''LOG_FLUSH_SLEEP_US'', KInt 10000), (''LOG_DEFAULT_LEVEL'', KInt 3),
     (''LOG_OVERRIDE_LEVEL'', KInt 0), (''LOG_MAX_LEVEL'', KInt 4), (''LOG_PRINTK'', KInt 1),
     (''LOG_MODE_OVERFLOW'', KInt 1), (''LOG_PROCESS_TRIGGER_THRESHOLD'', KInt 10),
     (''LOG_PROCESS_THREAD'', KInt 1), (''LOG_PROCESS_THREAD_STARTUP_DELAY_MS'', KInt 0),
     (''LOG_PROCESS_THREAD_SLEEP_MS'', KInt 1000), (''LOG_PROCESS_THREAD_STACK_SIZE'', KInt 768)]"

definition autoconf_24 :: "(string \<times> kval) list" where
  "autoconf_24 = [
     (''LOG_TRACE_SHORT_TIMESTAMP'', KInt 1), (''LOG_FUNC_NAME_PREFIX_DBG'', KInt 1),
     (''LOG_BACKEND_SHOW_COLOR'', KInt 1), (''LOG_TAG_MAX_LEN'', KInt 0),
     (''LOG_BACKEND_SUPPORTS_FORMAT_TIMESTAMP'', KInt 1), (''LOG_BACKEND_FORMAT_TIMESTAMP'', KInt 1),
     (''LOG_OUTPUT_FORMAT_TIME_TIMESTAMP'', KInt 1), (''LOG_BACKEND_UART'', KInt 1),
     (''LOG_BACKEND_UART_BUFFER_SIZE'', KInt 1), (''LOG_BACKEND_UART_AUTOSTART'', KInt 1),
     (''LOG_BACKEND_UART_OUTPUT_TEXT'', KInt 1), (''LOG_BACKEND_UART_OUTPUT_DEFAULT'', KInt 0),
     (''LOG_USE_VLA'', KInt 1), (''LOG_SIMPLE_MSG_OPTIMIZE'', KInt 1),
     (''LOG_FAILURE_REPORT_PERIOD'', KInt 1000), (''LOG_RATELIMIT'', KInt 1),
     (''LOG_RATELIMIT_INTERVAL_MS'', KInt 5000), (''LOG_OUTPUT'', KInt 1), (''MEM_ATTR'', KInt 1),
     (''NETWORKING'', KInt 1), (''NET_HOSTNAME_ENABLE'', KInt 1), (''NET_HOSTNAME'', KStr ''zephyr''),
     (''NET_HOSTNAME_DYNAMIC'', KInt 1), (''NET_HOSTNAME_MAX_LEN'', KInt 63),
     (''NET_HOSTNAME_LOG_LEVEL_DEFAULT'', KInt 1), (''NET_HOSTNAME_LOG_LEVEL'', KInt 3),
     (''NET_L2_ETHERNET_LOG_LEVEL_DEFAULT'', KInt 1), (''NET_L2_ETHERNET_LOG_LEVEL'', KInt 3),
     (''NET_L2_ETHERNET_MGMT'', KInt 1), (''NET_ARP'', KInt 1), (''NET_ARP_TABLE_SIZE'', KInt 2),
     (''NET_ARP_GRATUITOUS'', KInt 1), (''NET_ARP_LOG_LEVEL_DEFAULT'', KInt 1),
     (''NET_ARP_LOG_LEVEL'', KInt 3), (''NET_ETHERNET_FORWARD_UNRECOGNISED_ETHERTYPE'', KInt 1),
     (''NET_L2_WIFI_UTILS'', KInt 1), (''NET_L2_WIFI_MGMT'', KInt 1),
     (''NET_L2_WIFI_MGMT_LOG_LEVEL_DEFAULT'', KInt 1), (''NET_L2_WIFI_MGMT_LOG_LEVEL'', KInt 3),
     (''WIFI_MGMT_TWT_CHECK_IP'', KInt 1), (''WIFI_SHELL_MAX_AP_STA'', KInt 1), (''WIFI_NM'', KInt 1),
     (''WIFI_NM_MAX_MANAGED_INTERFACES'', KInt 1), (''WIFI_NM_LOG_LEVEL_DEFAULT'', KInt 1),
     (''WIFI_NM_LOG_LEVEL'', KInt 3)]"

definition autoconf_25 :: "(string \<times> kval) list" where
  "autoconf_25 = [
     (''WIFI_MGMT_AP_STA_INACTIVITY_TIMEOUT'', KInt 300), (''WIFI_ENT_IDENTITY_MAX_USERS'', KInt 8),
     (''WIFI_MGMT_BSS_MAX_IDLE_TIME'', KInt 300), (''NET_IP'', KInt 1), (''NET_CONNECTION_SOCKETS'', KInt 1),
     (''NET_NATIVE'', KInt 1), (''NET_NATIVE_IP'', KInt 1), (''NET_NATIVE_IPV4'', KInt 1),
     (''NET_NATIVE_TCP'', KInt 1), (''NET_NATIVE_UDP'', KInt 1), (''NET_INIT_PRIO'', KInt 90),
     (''NET_IP_DSCP_ECN'', KInt 1), (''NET_IPV4'', KInt 1), (''NET_IF_MAX_IPV4_COUNT'', KInt 1),
     (''NET_IF_UNICAST_IPV4_ADDR_COUNT'', KInt 1), (''NET_IF_MCAST_IPV4_ADDR_COUNT'', KInt 1),
     (''NET_IPV4_DEFAULT_NETMASK'', KInt 24), (''NET_IPV4_MTU'', KInt 576), (''NET_INITIAL_TTL'', KInt 64),
     (''NET_INITIAL_MCAST_TTL'', KInt 1), (''NET_INITIAL_IPV4_MCAST_LOOP'', KInt 1),
     (''NET_IF_MCAST_IPV4_SOURCE_COUNT'', KInt 1), (''NET_IPV4_LOG_LEVEL_DEFAULT'', KInt 1),
     (''NET_IPV4_LOG_LEVEL'', KInt 3), (''NET_ICMPV4_LOG_LEVEL_DEFAULT'', KInt 1),
     (''NET_ICMPV4_LOG_LEVEL'', KInt 3), (''NET_IPV4_ACD_LOG_LEVEL_DEFAULT'', KInt 1),
     (''NET_IPV4_ACD_LOG_LEVEL'', KInt 3), (''NET_TC_RX_COUNT'', KInt 1),
     (''NET_TC_THREAD_COOPERATIVE'', KInt 1), (''NET_TC_NUM_PRIORITIES'', KInt 16),
     (''NET_TC_MAPPING_STRICT'', KInt 1), (''NET_TX_DEFAULT_PRIORITY'', KInt 1),
     (''NET_RX_DEFAULT_PRIORITY'', KInt 0), (''NET_IP_ADDR_CHECK'', KInt 1), (''NET_MAX_ROUTERS'', KInt 1),
     (''NET_TCP'', KInt 1), (''NET_TCP_LOG_LEVEL_DEFAULT'', KInt 1), (''NET_TCP_LOG_LEVEL'', KInt 3),
     (''NET_TCP_WORKER_PRIO'', KInt 2), (''NET_TCP_TIME_WAIT_DELAY'', KInt 1500),
     (''NET_TCP_INIT_RETRANSMISSION_TIMEOUT'', KInt 200), (''NET_TCP_RANDOMIZED_RTO'', KInt 1),
     (''NET_TCP_RETRY_COUNT'', KInt 9), (''NET_TCP_MAX_SEND_WINDOW_SIZE'', KInt 0)]"

definition autoconf_26 :: "(string \<times> kval) list" where
  "autoconf_26 = [
     (''NET_TCP_MAX_RECV_WINDOW_SIZE'', KInt 0), (''NET_TCP_RECV_QUEUE_TIMEOUT'', KInt 2000),
     (''NET_TCP_PKT_ALLOC_TIMEOUT'', KInt 100), (''NET_TCP_FAST_RETRANSMIT'', KInt 1),
     (''NET_TCP_CONGESTION_AVOIDANCE'', KInt 1), (''NET_TCP_ISN_RFC6528'', KInt 1),
     (''NET_TCP_REJECT_CONN_WITH_RST'', KInt 1), (''NET_UDP'', KInt 1), (''NET_UDP_MISSING_CHECKSUM'', KInt 1),
     (''NET_UDP_LOG_LEVEL_DEFAULT'', KInt 1), (''NET_UDP_LOG_LEVEL'', KInt 3), (''NET_MAX_CONN'', KInt 4),
     (''NET_CONN_PACKET_CLONE_TIMEOUT'', KInt 100), (''NET_MAX_CONTEXTS'', KInt 10),
     (''NET_CONTEXT_SYNC_RECV'', KInt 1), (''NET_CONTEXT_CHECK'', KInt 1), (''NET_CONTEXT_DSCP_ECN'', KInt 1),
     (''NET_CONTEXT_REUSEADDR'', KInt 1), (''NET_CONTEXT_REUSEPORT'', KInt 1), (''NET_BUF_RX_COUNT'', KInt 8),
     (''NET_BUF_TX_COUNT'', KInt 16), (''NET_BUF_VARIABLE_DATA_SIZE'', KInt 1),
     (''NET_PKT_BUF_RX_DATA_POOL_SIZE'', KInt 4096), (''NET_PKT_BUF_TX_DATA_POOL_SIZE'', KInt 4096),
     (''NET_PKT_BUF_USER_DATA_SIZE'', KInt 4), (''NET_DEFAULT_IF_FIRST'', KInt 1),
     (''NET_INTERFACE_NAME'', KInt 1), (''NET_MGMT'', KInt 1), (''NET_MGMT_EVENT'', KInt 1),
     (''NET_MGMT_EVENT_THREAD'', KInt 1), (''NET_MGMT_EVENT_QUEUE'', KInt 1),
     (''NET_MGMT_EVENT_QUEUE_TIMEOUT'', KInt 5000), (''NET_MGMT_EVENT_INFO'', KInt 1),
     (''NET_MGMT_EVENT_LOG_LEVEL_DEFAULT'', KInt 1), (''NET_MGMT_EVENT_LOG_LEVEL'', KInt 3),
     (''NET_LOG'', KInt 1), (''NET_PKT_LOG_LEVEL_DEFAULT'', KInt 1), (''NET_PKT_LOG_LEVEL'', KInt 3),
     (''NET_DEBUG_NET_PKT_EXTERNALS'', KInt 0), (''NET_CORE_LOG_LEVEL_DEFAULT'', KInt 1),
     (''NET_CORE_LOG_LEVEL'', KInt 3), (''NET_IF_LOG_LEVEL_DEFAULT'', KInt 1), (''NET_IF_LOG_LEVEL'', KInt 3),
     (''NET_TC_LOG_LEVEL_DEFAULT'', KInt 1), (''NET_TC_LOG_LEVEL'', KInt 3)]"

definition autoconf_27 :: "(string \<times> kval) list" where
  "autoconf_27 = [
     (''NET_UTILS_LOG_LEVEL_DEFAULT'', KInt 1), (''NET_UTILS_LOG_LEVEL'', KInt 3),
     (''NET_CONTEXT_LOG_LEVEL_DEFAULT'', KInt 1), (''NET_CONTEXT_LOG_LEVEL'', KInt 3),
     (''NET_CONN_LOG_LEVEL_DEFAULT'', KInt 1), (''NET_CONN_LOG_LEVEL'', KInt 3),
     (''NET_ROUTE_LOG_LEVEL_DEFAULT'', KInt 1), (''NET_ROUTE_LOG_LEVEL'', KInt 3), (''DNS_RESOLVER'', KInt 1),
     (''DNS_RESOLVER_AUTO_INIT'', KInt 1), (''DNS_RESOLVER_ADDITIONAL_QUERIES'', KInt 2),
     (''DNS_RESOLVER_AI_MAX_ENTRIES'', KInt 2), (''DNS_RESOLVER_MAX_SERVERS'', KInt 1),
     (''DNS_RESOLVER_MAX_QUERY_LEN'', KInt 255), (''DNS_NUM_CONCUR_QUERIES'', KInt 1),
     (''DNS_RESOLVER_LOG_LEVEL_DEFAULT'', KInt 1), (''DNS_RESOLVER_LOG_LEVEL'', KInt 3),
     (''DNS_SOCKET_DISPATCHER'', KInt 1), (''DNS_RESOLVER_ADDITIONAL_BUF_CTR'', KInt 1),
     (''DNS_SOCKET_DISPATCHER_LOG_LEVEL_DEFAULT'', KInt 1), (''DNS_SOCKET_DISPATCHER_LOG_LEVEL'', KInt 3),
     (''HTTP_PARSER'', KInt 1), (''HTTP_PARSER_URL'', KInt 1), (''HTTP_CLIENT'', KInt 1), (''HTTP'', KInt 1),
     (''NET_HTTP_LOG_LEVEL_DEFAULT'', KInt 1), (''NET_HTTP_LOG_LEVEL'', KInt 3),
     (''NET_HTTP_SERVER_LOG_LEVEL_DEFAULT'', KInt 1), (''NET_HTTP_SERVER_LOG_LEVEL'', KInt 3),
     (''NET_CONFIG_LOG_LEVEL_DEFAULT'', KInt 1), (''NET_CONFIG_LOG_LEVEL'', KInt 3),
     (''NET_CONFIG_SETTINGS'', KInt 1), (''NET_CONFIG_AUTO_INIT'', KInt 1),
     (''NET_CONFIG_INIT_PRIO'', KInt 95), (''NET_CONFIG_INIT_TIMEOUT'', KInt 0),
     (''NET_CONFIG_MY_IPV4_ADDR'', KStr ''192.168.1.99''),
     (''NET_CONFIG_MY_IPV4_NETMASK'', KStr ''255.255.255.0''),
     (''NET_CONFIG_MY_IPV4_GW'', KStr ''192.168.1.1''), (''NET_CONFIG_PEER_IPV4_ADDR'', KStr []),
     (''NET_SOCKETS'', KInt 1), (''NET_SOCKETS_PRIORITY_DEFAULT'', KInt 50),
     (''NET_SOCKETS_POLL_MAX'', KInt 10), (''NET_SOCKETS_CONNECT_TIMEOUT'', KInt 3000),
     (''NET_SOCKETS_DNS_TIMEOUT'', KInt 2000), (''NET_SOCKETS_DNS_BACKOFF_INTERVAL'', KInt 5000)]"

definition autoconf_28 :: "(string \<times> kval) list" where
  "autoconf_28 = [
     (''NET_SOCKET_MAX_SEND_WAIT'', KInt 10000), (''NET_SOCKETS_SERVICE'', KInt 1),
     (''NET_SOCKETS_SERVICE_THREAD_PRIO'', KInt 15), (''NET_SOCKETS_SERVICE_STACK_SIZE'', KInt 1200),
     (''NET_SOCKETS_SOCKOPT_TLS'', KInt 1), (''NET_SOCKETS_TLS_PRIORITY'', KInt 45),
     (''NET_SOCKETS_TLS_SET_MAX_FRAGMENT_LENGTH'', KInt 1), (''NET_SOCKETS_TLS_MAX_CONTEXTS'', KInt 1),
     (''NET_SOCKETS_TLS_MAX_CREDENTIALS'', KInt 4), (''NET_SOCKETS_TLS_MAX_CIPHERSUITES'', KInt 4),
     (''NET_SOCKETS_TLS_MAX_CLIENT_SESSION_COUNT'', KInt 1), (''NET_SOCKETS_OFFLOAD_PRIORITY'', KInt 40),
     (''NET_SOCKETS_PACKET'', KInt 1), (''NET_SOCKETS_PACKET_DGRAM'', KInt 1), (''NET_SOCKETPAIR'', KInt 1),
     (''NET_SOCKETPAIR_BUFFER_SIZE'', KInt 64), (''NET_SOCKETPAIR_HEAP'', KInt 1),
     (''HEAP_MEM_POOL_ADD_SIZE_SOCKETPAIR'', KInt 296), (''NET_SOCKETS_LOG_LEVEL_DEFAULT'', KInt 1),
     (''NET_SOCKETS_LOG_LEVEL'', KInt 3), (''TLS_CREDENTIALS'', KInt 1),
     (''TLS_CREDENTIALS_LOG_LEVEL_DEFAULT'', KInt 1), (''TLS_CREDENTIALS_LOG_LEVEL'', KInt 3),
     (''TLS_CREDENTIALS_BACKEND_VOLATILE'', KInt 1), (''NET_DHCPV4'', KInt 1),
     (''NET_DHCPV4_LOG_LEVEL_DEFAULT'', KInt 1), (''NET_DHCPV4_LOG_LEVEL'', KInt 3),
     (''NET_DHCPV4_INITIAL_DELAY_MAX'', KInt 10), (''NET_DHCPV4_ACCEPT_UNICAST'', KInt 1),
     (''NET_DHCPV4_OPTION_DNS_ADDRESS'', KInt 1), (''NET_DHCPV4_DNS_SERVER_VIA_INTERFACE'', KInt 1),
     (''NET_DHCPV6_DUID_MAX_LEN'', KInt 22), (''NET_DHCPV6_OPTION_DNS_ADDRESS'', KInt 1),
     (''NET_DHCPV6_DNS_SERVER_VIA_INTERFACE'', KInt 1), (''WIFI_CREDENTIALS'', KInt 1),
     (''WIFI_CREDENTIALS_LOG_LEVEL_DEFAULT'', KInt 1), (''WIFI_CREDENTIALS_LOG_LEVEL'', KInt 3),
     (''WIFI_CREDENTIALS_BACKEND_NONE'', KInt 1), (''WIFI_CREDENTIALS_MAX_ENTRIES'', KInt 2),
     (''WIFI_CREDENTIALS_SAE_PASSWORD_LENGTH'', KInt 128), (''WIFI_CREDENTIALS_CONNECT_STORED'', KInt 1),
     (''WIFI_CREDENTIALS_CONNECT_STORED_CONNECTION_TIMEOUT'', KInt 30), (''WIFI_CREDENTIALS_STATIC'', KInt 1),
     (''WIFI_CREDENTIALS_STATIC_SSID'', KStr ''MyPi''),
     (''WIFI_CREDENTIALS_STATIC_PASSWORD'', KStr ''abcd1234'')]"

definition autoconf_29 :: "(string \<times> kval) list" where
  "autoconf_29 = [
     (''WIFI_CREDENTIALS_STATIC_TYPE_PSK'', KInt 1), (''TIMER_RANDOM_INITIAL_STATE'', KInt 123456789),
     (''ENTROPY_DEVICE_RANDOM_GENERATOR'', KInt 1), (''CSPRNG_AVAILABLE'', KInt 1),
     (''CSPRNG_ENABLED'', KInt 1), (''HARDWARE_DEVICE_CS_GENERATOR'', KInt 1),
     (''TOOLCHAIN_ZEPHYR_0_17'', KInt 1), (''TOOLCHAIN_ZEPHYR_SUPPORTS_THREAD_LOCAL_STORAGE'', KInt 1),
     (''TOOLCHAIN_ZEPHYR_SUPPORTS_GNU_EXTENSIONS'', KInt 1), (''LINKER_ORPHAN_SECTION_WARN'', KInt 1),
     (''FLASH_LOAD_SIZE'', KHex 0), (''ROM_END_OFFSET'', KHex 0), (''LD_LINKER_SCRIPT_SUPPORTED'', KInt 1),
     (''LD_LINKER_TEMPLATE'', KInt 1), (''LINKER_SORT_BY_ALIGNMENT'', KInt 1),
     (''LINKER_GENERIC_SECTIONS_PRESENT_AT_BOOT'', KInt 1), (''LINKER_LAST_SECTION_ID'', KInt 1),
     (''LINKER_LAST_SECTION_ID_PATTERN'', KHex 0xE015E015), (''LINKER_USE_RELAX'', KInt 1),
     (''LINKER_ITERABLE_SUBALIGN'', KInt 4), (''LINKER_DEVNULL_SUPPORT'', KInt 1), (''STD_C99'', KInt 1),
     (''TOOLCHAIN_SUPPORTS_GNU_EXTENSIONS'', KInt 1), (''SIZE_OPTIMIZATIONS'', KInt 1),
     (''COMPILER_TRACK_MACRO_EXPANSION'', KInt 1), (''COMPILER_COLOR_DIAGNOSTICS'', KInt 1),
     (''FORTIFY_SOURCE_COMPILE_TIME'', KInt 1), (''COMPILER_OPT'', KStr []),
     (''TOOLCHAIN_SUPPORTS_VLA_IN_STATEMENTS'', KInt 1), (''RUNTIME_ERROR_CHECKS'', KInt 1),
     (''KERNEL_BIN_NAME'', KStr ''zephyr''), (''OUTPUT_STAT'', KInt 1),
     (''OUTPUT_PRINT_MEMORY_USAGE'', KInt 1), (''BUILD_GAP_FILL_PATTERN'', KHex 0xFF),
     (''BUILD_OUTPUT_STRIP_PATHS'', KInt 1), (''CHECK_INIT_PRIORITIES'', KInt 1), (''DEPRECATED'', KInt 1),
     (''WARN_DEPRECATED'', KInt 1), (''EXPERIMENTAL'', KInt 1), (''ENFORCE_ZEPHYR_STDINT'', KInt 1),
     (''LEGACY_GENERATED_INCLUDE_PATH'', KInt 1), (''CONNECTION_IDLE_TIMEOUT'', KInt 30),
     (''STA_CONN_TIMEOUT_SEC'', KInt 70), (''STA_SAMPLE_START_WIFI_THREAD_STACK_SIZE'', KInt 8192)]"

definition autoconf :: "(string \<times> kval) list" where
  "autoconf =
     autoconf_0 @ autoconf_1 @ autoconf_2 @ autoconf_3 @ autoconf_4 @ autoconf_5 @ autoconf_6 @
     autoconf_7 @ autoconf_8 @ autoconf_9 @ autoconf_10 @ autoconf_11 @ autoconf_12 @ autoconf_13 @
     autoconf_14 @ autoconf_15 @ autoconf_16 @ autoconf_17 @ autoconf_18 @ autoconf_19 @ autoconf_20 @
     autoconf_21 @ autoconf_22 @ autoconf_23 @ autoconf_24 @ autoconf_25 @ autoconf_26 @ autoconf_27 @
     autoconf_28 @ autoconf_29"

lemmas autoconf_defs = autoconf_def
  autoconf_0_def autoconf_1_def autoconf_2_def autoconf_3_def autoconf_4_def autoconf_5_def autoconf_6_def
  autoconf_7_def autoconf_8_def autoconf_9_def autoconf_10_def autoconf_11_def autoconf_12_def
  autoconf_13_def autoconf_14_def autoconf_15_def autoconf_16_def autoconf_17_def autoconf_18_def
  autoconf_19_def autoconf_20_def autoconf_21_def autoconf_22_def autoconf_23_def autoconf_24_def
  autoconf_25_def autoconf_26_def autoconf_27_def autoconf_28_def autoconf_29_def

end
