(* ===== verification/Kernel_Objects.thy ===== *)
theory Kernel_Objects
  imports String_Tables Kconfig_Values
begin

text \<open>
  The lists of kernel object types that the build generates: the enumerators (\<^verbatim>\<open>kobj-types-enum.h\<close>),
  the cases of the functions that give a type's name and size (\<^verbatim>\<open>otype-to-str.h\<close>,
  \<^verbatim>\<open>otype-to-size.h\<close>), and the macros that validate the argument of a driver call
  (\<^verbatim>\<open>driver-validation.h\<close>). A row under \<^verbatim>\<open>#ifdef CONFIG_X\<close> carries \<open>Some ''X''\<close>.
\<close>

section \<open>The lists\<close>

type_synonym guard = "string option"

definition kobj_core :: "(guard \<times> string) list" where
  "kobj_core = [
     (None, ''K_OBJ_MEM_SLAB''), (None, ''K_OBJ_MSGQ''), (None, ''K_OBJ_MUTEX''),
     (None, ''K_OBJ_PIPE''), (None, ''K_OBJ_QUEUE''), (None, ''K_OBJ_POLL_SIGNAL''),
     (None, ''K_OBJ_SEM''), (None, ''K_OBJ_STACK''), (None, ''K_OBJ_THREAD''),
     (None, ''K_OBJ_TIMER''), (None, ''K_OBJ_THREAD_STACK_ELEMENT''), (None, ''K_OBJ_NET_SOCKET''),
     (None, ''K_OBJ_NET_IF''), (None, ''K_OBJ_SYS_MUTEX''), (None, ''K_OBJ_FUTEX''),
     (None, ''K_OBJ_CONDVAR''), (Some ''EVENTS'', ''K_OBJ_EVENT''),
     (Some ''ZTEST'', ''K_OBJ_ZTEST_SUITE_NODE''), (Some ''ZTEST'', ''K_OBJ_ZTEST_SUITE_STATS''),
     (Some ''ZTEST'', ''K_OBJ_ZTEST_UNIT_TEST''), (Some ''ZTEST'', ''K_OBJ_ZTEST_TEST_RULE''),
     (Some ''RTIO'', ''K_OBJ_RTIO''), (Some ''RTIO'', ''K_OBJ_RTIO_IODEV''),
     (Some ''SENSOR_ASYNC_API'', ''K_OBJ_SENSOR_DECODER_API'')]"

definition kobj_drivers :: "(guard \<times> string) list" where
  "kobj_drivers = [
     (None, ''K_OBJ_DRIVER_ENTROPY''), (None, ''K_OBJ_DRIVER_GPIO''), (None, ''K_OBJ_DRIVER_SPI''),
     (None, ''K_OBJ_DRIVER_SHARED_IRQ''), (None, ''K_OBJ_DRIVER_CRYPTO''),
     (None, ''K_OBJ_DRIVER_ADC''), (None, ''K_OBJ_DRIVER_AUXDISPLAY''),
     (None, ''K_OBJ_DRIVER_BBRAM''), (None, ''K_OBJ_DRIVER_BT_HCI''), (None, ''K_OBJ_DRIVER_CAN''),
     (None, ''K_OBJ_DRIVER_CELLULAR''), (None, ''K_OBJ_DRIVER_CHARGER''),
     (None, ''K_OBJ_DRIVER_CLOCK_CONTROL''), (None, ''K_OBJ_DRIVER_COMPARATOR''),
     (None, ''K_OBJ_DRIVER_COREDUMP''), (None, ''K_OBJ_DRIVER_COUNTER''),
     (None, ''K_OBJ_DRIVER_DAC''), (None, ''K_OBJ_DRIVER_DAI''), (None, ''K_OBJ_DRIVER_DISPLAY''),
     (None, ''K_OBJ_DRIVER_DMA''), (None, ''K_OBJ_DRIVER_EDAC''), (None, ''K_OBJ_DRIVER_EEPROM''),
     (None, ''K_OBJ_DRIVER_EMUL_BBRAM''), (None, ''K_OBJ_DRIVER_FUEL_GAUGE_EMUL''),
     (None, ''K_OBJ_DRIVER_EMUL_SENSOR''), (None, ''K_OBJ_DRIVER_ESPI''),
     (None, ''K_OBJ_DRIVER_ESPI_SAF''), (None, ''K_OBJ_DRIVER_FLASH''),
     (None, ''K_OBJ_DRIVER_FPGA''), (None, ''K_OBJ_DRIVER_FUEL_GAUGE''),
     (None, ''K_OBJ_DRIVER_GNSS''), (None, ''K_OBJ_DRIVER_HAPTICS''),
     (None, ''K_OBJ_DRIVER_HWSPINLOCK''), (None, ''K_OBJ_DRIVER_I2C''),
     (None, ''K_OBJ_DRIVER_I2C_TARGET''), (None, ''K_OBJ_DRIVER_I2S''),
     (None, ''K_OBJ_DRIVER_I3C''), (None, ''K_OBJ_DRIVER_IPM''), (None, ''K_OBJ_DRIVER_LED''),
     (None, ''K_OBJ_DRIVER_LED_STRIP''), (None, ''K_OBJ_DRIVER_LORA''),
     (None, ''K_OBJ_DRIVER_MBOX''), (None, ''K_OBJ_DRIVER_MDIO''),
     (None, ''K_OBJ_DRIVER_MIPI_DBI''), (None, ''K_OBJ_DRIVER_MIPI_DSI''),
     (None, ''K_OBJ_DRIVER_MSPI''), (None, ''K_OBJ_DRIVER_PECI''), (None, ''K_OBJ_DRIVER_PS2''),
     (None, ''K_OBJ_DRIVER_PTP_CLOCK''), (None, ''K_OBJ_DRIVER_PWM''),
     (None, ''K_OBJ_DRIVER_REGULATOR_PARENT''), (None, ''K_OBJ_DRIVER_REGULATOR''),
     (None, ''K_OBJ_DRIVER_RESET''), (None, ''K_OBJ_DRIVER_RETAINED_MEM''),
     (None, ''K_OBJ_DRIVER_RTC''), (None, ''K_OBJ_DRIVER_SDHC''), (None, ''K_OBJ_DRIVER_SENSOR''),
     (None, ''K_OBJ_DRIVER_SMBUS''), (None, ''K_OBJ_DRIVER_STEPPER''),
     (None, ''K_OBJ_DRIVER_SYSCON''), (None, ''K_OBJ_DRIVER_TEE''), (None, ''K_OBJ_DRIVER_VIDEO''),
     (None, ''K_OBJ_DRIVER_W1''), (None, ''K_OBJ_DRIVER_WDT''),
     (None, ''K_OBJ_DRIVER_CAN_TRANSCEIVER''), (None, ''K_OBJ_DRIVER_NRF_CLOCK_CONTROL''),
     (None, ''K_OBJ_DRIVER_I3C_TARGET''), (None, ''K_OBJ_DRIVER_ITS''),
     (None, ''K_OBJ_DRIVER_VTD''), (None, ''K_OBJ_DRIVER_TGPIO''),
     (None, ''K_OBJ_DRIVER_PCIE_CTRL''), (None, ''K_OBJ_DRIVER_PCIE_EP''),
     (None, ''K_OBJ_DRIVER_SVC''), (None, ''K_OBJ_DRIVER_UART''),
     (None, ''K_OBJ_DRIVER_BC12_EMUL''), (None, ''K_OBJ_DRIVER_BC12''),
     (None, ''K_OBJ_DRIVER_USBC_PPC''), (None, ''K_OBJ_DRIVER_TCPC''),
     (None, ''K_OBJ_DRIVER_USBC_VBUS''), (None, ''K_OBJ_DRIVER_IVSHMEM''),
     (None, ''K_OBJ_DRIVER_ETHPHY''), (None, ''K_OBJ_DRIVER_VIRTIO'')]"

definition otype_str_core :: "(guard \<times> string \<times> string) list" where
  "otype_str_core = [
     (None, ''K_OBJ_MEM_SLAB'', ''k_mem_slab''), (None, ''K_OBJ_MSGQ'', ''k_msgq''),
     (None, ''K_OBJ_MUTEX'', ''k_mutex''), (None, ''K_OBJ_PIPE'', ''k_pipe''),
     (None, ''K_OBJ_QUEUE'', ''k_queue''), (None, ''K_OBJ_POLL_SIGNAL'', ''k_poll_signal''),
     (None, ''K_OBJ_SEM'', ''k_sem''), (None, ''K_OBJ_STACK'', ''k_stack''),
     (None, ''K_OBJ_THREAD'', ''k_thread''), (None, ''K_OBJ_TIMER'', ''k_timer''),
     (None, ''K_OBJ_THREAD_STACK_ELEMENT'', ''z_thread_stack_element''),
     (None, ''K_OBJ_NET_SOCKET'', ''NET_SOCKET''), (None, ''K_OBJ_NET_IF'', ''net_if''),
     (None, ''K_OBJ_SYS_MUTEX'', ''sys_mutex''), (None, ''K_OBJ_FUTEX'', ''k_futex''),
     (None, ''K_OBJ_CONDVAR'', ''k_condvar''), (Some ''EVENTS'', ''K_OBJ_EVENT'', ''k_event''),
     (Some ''ZTEST'', ''K_OBJ_ZTEST_SUITE_NODE'', ''ztest_suite_node''),
     (Some ''ZTEST'', ''K_OBJ_ZTEST_SUITE_STATS'', ''ztest_suite_stats''),
     (Some ''ZTEST'', ''K_OBJ_ZTEST_UNIT_TEST'', ''ztest_unit_test''),
     (Some ''ZTEST'', ''K_OBJ_ZTEST_TEST_RULE'', ''ztest_test_rule''),
     (Some ''RTIO'', ''K_OBJ_RTIO'', ''rtio''),
     (Some ''RTIO'', ''K_OBJ_RTIO_IODEV'', ''rtio_iodev''),
     (Some ''SENSOR_ASYNC_API'', ''K_OBJ_SENSOR_DECODER_API'', ''sensor_decoder_api'')]"

definition otype_str_drivers :: "(guard \<times> string \<times> string) list" where
  "otype_str_drivers = [
     (None, ''K_OBJ_DRIVER_ENTROPY'', ''entropy driver''),
     (None, ''K_OBJ_DRIVER_GPIO'', ''gpio driver''), (None, ''K_OBJ_DRIVER_SPI'', ''spi driver''),
     (None, ''K_OBJ_DRIVER_SHARED_IRQ'', ''shared_irq driver''),
     (None, ''K_OBJ_DRIVER_CRYPTO'', ''crypto driver''),
     (None, ''K_OBJ_DRIVER_ADC'', ''adc driver''),
     (None, ''K_OBJ_DRIVER_AUXDISPLAY'', ''auxdisplay driver''),
     (None, ''K_OBJ_DRIVER_BBRAM'', ''bbram driver''),
     (None, ''K_OBJ_DRIVER_BT_HCI'', ''bt_hci driver''),
     (None, ''K_OBJ_DRIVER_CAN'', ''can driver''),
     (None, ''K_OBJ_DRIVER_CELLULAR'', ''cellular driver''),
     (None, ''K_OBJ_DRIVER_CHARGER'', ''charger driver''),
     (None, ''K_OBJ_DRIVER_CLOCK_CONTROL'', ''clock_control driver''),
     (None, ''K_OBJ_DRIVER_COMPARATOR'', ''comparator driver''),
     (None, ''K_OBJ_DRIVER_COREDUMP'', ''coredump driver''),
     (None, ''K_OBJ_DRIVER_COUNTER'', ''counter driver''),
     (None, ''K_OBJ_DRIVER_DAC'', ''dac driver''), (None, ''K_OBJ_DRIVER_DAI'', ''dai driver''),
     (None, ''K_OBJ_DRIVER_DISPLAY'', ''display driver''),
     (None, ''K_OBJ_DRIVER_DMA'', ''dma driver''), (None, ''K_OBJ_DRIVER_EDAC'', ''edac driver''),
     (None, ''K_OBJ_DRIVER_EEPROM'', ''eeprom driver''),
     (None, ''K_OBJ_DRIVER_EMUL_BBRAM'', ''emul_bbram driver''),
     (None, ''K_OBJ_DRIVER_FUEL_GAUGE_EMUL'', ''fuel_gauge_emul driver''),
     (None, ''K_OBJ_DRIVER_EMUL_SENSOR'', ''emul_sensor driver''),
     (None, ''K_OBJ_DRIVER_ESPI'', ''espi driver''),
     (None, ''K_OBJ_DRIVER_ESPI_SAF'', ''espi_saf driver''),
     (None, ''K_OBJ_DRIVER_FLASH'', ''flash driver''),
     (None, ''K_OBJ_DRIVER_FPGA'', ''fpga driver''),
     (None, ''K_OBJ_DRIVER_FUEL_GAUGE'', ''fuel_gauge driver''),
     (None, ''K_OBJ_DRIVER_GNSS'', ''gnss driver''),
     (None, ''K_OBJ_DRIVER_HAPTICS'', ''haptics driver''),
     (None, ''K_OBJ_DRIVER_HWSPINLOCK'', ''hwspinlock driver''),
     (None, ''K_OBJ_DRIVER_I2C'', ''i2c driver''),
     (None, ''K_OBJ_DRIVER_I2C_TARGET'', ''i2c_target driver''),
     (None, ''K_OBJ_DRIVER_I2S'', ''i2s driver''), (None, ''K_OBJ_DRIVER_I3C'', ''i3c driver''),
     (None, ''K_OBJ_DRIVER_IPM'', ''ipm driver''), (None, ''K_OBJ_DRIVER_LED'', ''led driver''),
     (None, ''K_OBJ_DRIVER_LED_STRIP'', ''led_strip driver''),
     (None, ''K_OBJ_DRIVER_LORA'', ''lora driver''), (None, ''K_OBJ_DRIVER_MBOX'', ''mbox driver''),
     (None, ''K_OBJ_DRIVER_MDIO'', ''mdio driver''),
     (None, ''K_OBJ_DRIVER_MIPI_DBI'', ''mipi_dbi driver''),
     (None, ''K_OBJ_DRIVER_MIPI_DSI'', ''mipi_dsi driver''),
     (None, ''K_OBJ_DRIVER_MSPI'', ''mspi driver''), (None, ''K_OBJ_DRIVER_PECI'', ''peci driver''),
     (None, ''K_OBJ_DRIVER_PS2'', ''ps2 driver''),
     (None, ''K_OBJ_DRIVER_PTP_CLOCK'', ''ptp_clock driver''),
     (None, ''K_OBJ_DRIVER_PWM'', ''pwm driver''),
     (None, ''K_OBJ_DRIVER_REGULATOR_PARENT'', ''regulator_parent driver''),
     (None, ''K_OBJ_DRIVER_REGULATOR'', ''regulator driver''),
     (None, ''K_OBJ_DRIVER_RESET'', ''reset driver''),
     (None, ''K_OBJ_DRIVER_RETAINED_MEM'', ''retained_mem driver''),
     (None, ''K_OBJ_DRIVER_RTC'', ''rtc driver''), (None, ''K_OBJ_DRIVER_SDHC'', ''sdhc driver''),
     (None, ''K_OBJ_DRIVER_SENSOR'', ''sensor driver''),
     (None, ''K_OBJ_DRIVER_SMBUS'', ''smbus driver''),
     (None, ''K_OBJ_DRIVER_STEPPER'', ''stepper driver''),
     (None, ''K_OBJ_DRIVER_SYSCON'', ''syscon driver''),
     (None, ''K_OBJ_DRIVER_TEE'', ''tee driver''), (None, ''K_OBJ_DRIVER_VIDEO'', ''video driver''),
     (None, ''K_OBJ_DRIVER_W1'', ''w1 driver''), (None, ''K_OBJ_DRIVER_WDT'', ''wdt driver''),
     (None, ''K_OBJ_DRIVER_CAN_TRANSCEIVER'', ''can_transceiver driver''),
     (None, ''K_OBJ_DRIVER_NRF_CLOCK_CONTROL'', ''nrf_clock_control driver''),
     (None, ''K_OBJ_DRIVER_I3C_TARGET'', ''i3c_target driver''),
     (None, ''K_OBJ_DRIVER_ITS'', ''its driver''), (None, ''K_OBJ_DRIVER_VTD'', ''vtd driver''),
     (None, ''K_OBJ_DRIVER_TGPIO'', ''tgpio driver''),
     (None, ''K_OBJ_DRIVER_PCIE_CTRL'', ''pcie_ctrl driver''),
     (None, ''K_OBJ_DRIVER_PCIE_EP'', ''pcie_ep driver''),
     (None, ''K_OBJ_DRIVER_SVC'', ''svc driver''), (None, ''K_OBJ_DRIVER_UART'', ''uart driver''),
     (None, ''K_OBJ_DRIVER_BC12_EMUL'', ''bc12_emul driver''),
     (None, ''K_OBJ_DRIVER_BC12'', ''bc12 driver''),
     (None, ''K_OBJ_DRIVER_USBC_PPC'', ''usbc_ppc driver''),
     (None, ''K_OBJ_DRIVER_TCPC'', ''tcpc driver''),
     (None, ''K_OBJ_DRIVER_USBC_VBUS'', ''usbc_vbus driver''),
     (None, ''K_OBJ_DRIVER_IVSHMEM'', ''ivshmem driver''),
     (None, ''K_OBJ_DRIVER_ETHPHY'', ''ethphy driver''),
     (None, ''K_OBJ_DRIVER_VIRTIO'', ''virtio driver'')]"

text \<open>The structure whose size is taken.\<close>

definition otype_size :: "(guard \<times> string \<times> string) list" where
  "otype_size = [
     (None, ''K_OBJ_MEM_SLAB'', ''k_mem_slab''), (None, ''K_OBJ_MSGQ'', ''k_msgq''),
     (None, ''K_OBJ_MUTEX'', ''k_mutex''), (None, ''K_OBJ_PIPE'', ''k_pipe''),
     (None, ''K_OBJ_QUEUE'', ''k_queue''), (None, ''K_OBJ_POLL_SIGNAL'', ''k_poll_signal''),
     (None, ''K_OBJ_SEM'', ''k_sem''), (None, ''K_OBJ_STACK'', ''k_stack''),
     (None, ''K_OBJ_THREAD'', ''k_thread''), (None, ''K_OBJ_TIMER'', ''k_timer''),
     (None, ''K_OBJ_CONDVAR'', ''k_condvar''), (Some ''EVENTS'', ''K_OBJ_EVENT'', ''k_event'')]"

text \<open>The suffix of the macro and the two names it passes on.\<close>

definition driver_checks :: "(string \<times> string \<times> string) list" where
  "driver_checks = [
     (''ENTROPY'', ''entropy'', ''ENTROPY''), (''GPIO'', ''gpio'', ''GPIO''),
     (''SPI'', ''spi'', ''SPI''), (''SHARED_IRQ'', ''shared_irq'', ''SHARED_IRQ''),
     (''CRYPTO'', ''crypto'', ''CRYPTO''), (''ADC'', ''adc'', ''ADC''),
     (''AUXDISPLAY'', ''auxdisplay'', ''AUXDISPLAY''), (''BBRAM'', ''bbram'', ''BBRAM''),
     (''BT_HCI'', ''bt_hci'', ''BT_HCI''), (''CAN'', ''can'', ''CAN''),
     (''CELLULAR'', ''cellular'', ''CELLULAR''), (''CHARGER'', ''charger'', ''CHARGER''),
     (''CLOCK_CONTROL'', ''clock_control'', ''CLOCK_CONTROL''),
     (''COMPARATOR'', ''comparator'', ''COMPARATOR''), (''COREDUMP'', ''coredump'', ''COREDUMP''),
     (''COUNTER'', ''counter'', ''COUNTER''), (''DAC'', ''dac'', ''DAC''),
     (''DAI'', ''dai'', ''DAI''), (''DISPLAY'', ''display'', ''DISPLAY''),
     (''DMA'', ''dma'', ''DMA''), (''EDAC'', ''edac'', ''EDAC''),
     (''EEPROM'', ''eeprom'', ''EEPROM''), (''EMUL_BBRAM'', ''emul_bbram'', ''EMUL_BBRAM''),
     (''FUEL_GAUGE_EMUL'', ''fuel_gauge_emul'', ''FUEL_GAUGE_EMUL''),
     (''EMUL_SENSOR'', ''emul_sensor'', ''EMUL_SENSOR''), (''ESPI'', ''espi'', ''ESPI''),
     (''ESPI_SAF'', ''espi_saf'', ''ESPI_SAF''), (''FLASH'', ''flash'', ''FLASH''),
     (''FPGA'', ''fpga'', ''FPGA''), (''FUEL_GAUGE'', ''fuel_gauge'', ''FUEL_GAUGE''),
     (''GNSS'', ''gnss'', ''GNSS''), (''HAPTICS'', ''haptics'', ''HAPTICS''),
     (''HWSPINLOCK'', ''hwspinlock'', ''HWSPINLOCK''), (''I2C'', ''i2c'', ''I2C''),
     (''I2C_TARGET'', ''i2c_target'', ''I2C_TARGET''), (''I2S'', ''i2s'', ''I2S''),
     (''I3C'', ''i3c'', ''I3C''), (''IPM'', ''ipm'', ''IPM''), (''LED'', ''led'', ''LED''),
     (''LED_STRIP'', ''led_strip'', ''LED_STRIP''), (''LORA'', ''lora'', ''LORA''),
     (''MBOX'', ''mbox'', ''MBOX''), (''MDIO'', ''mdio'', ''MDIO''),
     (''MIPI_DBI'', ''mipi_dbi'', ''MIPI_DBI''), (''MIPI_DSI'', ''mipi_dsi'', ''MIPI_DSI''),
     (''MSPI'', ''mspi'', ''MSPI''), (''PECI'', ''peci'', ''PECI''), (''PS2'', ''ps2'', ''PS2''),
     (''PTP_CLOCK'', ''ptp_clock'', ''PTP_CLOCK''), (''PWM'', ''pwm'', ''PWM''),
     (''REGULATOR_PARENT'', ''regulator_parent'', ''REGULATOR_PARENT''),
     (''REGULATOR'', ''regulator'', ''REGULATOR''), (''RESET'', ''reset'', ''RESET''),
     (''RETAINED_MEM'', ''retained_mem'', ''RETAINED_MEM''), (''RTC'', ''rtc'', ''RTC''),
     (''SDHC'', ''sdhc'', ''SDHC''), (''SENSOR'', ''sensor'', ''SENSOR''),
     (''SMBUS'', ''smbus'', ''SMBUS''), (''STEPPER'', ''stepper'', ''STEPPER''),
     (''SYSCON'', ''syscon'', ''SYSCON''), (''TEE'', ''tee'', ''TEE''),
     (''VIDEO'', ''video'', ''VIDEO''), (''W1'', ''w1'', ''W1''), (''WDT'', ''wdt'', ''WDT''),
     (''CAN_TRANSCEIVER'', ''can_transceiver'', ''CAN_TRANSCEIVER''),
     (''NRF_CLOCK_CONTROL'', ''nrf_clock_control'', ''NRF_CLOCK_CONTROL''),
     (''I3C_TARGET'', ''i3c_target'', ''I3C_TARGET''), (''ITS'', ''its'', ''ITS''),
     (''VTD'', ''vtd'', ''VTD''), (''TGPIO'', ''tgpio'', ''TGPIO''),
     (''PCIE_CTRL'', ''pcie_ctrl'', ''PCIE_CTRL''), (''PCIE_EP'', ''pcie_ep'', ''PCIE_EP''),
     (''SVC'', ''svc'', ''SVC''), (''UART'', ''uart'', ''UART''),
     (''BC12_EMUL'', ''bc12_emul'', ''BC12_EMUL''), (''BC12'', ''bc12'', ''BC12''),
     (''USBC_PPC'', ''usbc_ppc'', ''USBC_PPC''), (''TCPC'', ''tcpc'', ''TCPC''),
     (''USBC_VBUS'', ''usbc_vbus'', ''USBC_VBUS''), (''IVSHMEM'', ''ivshmem'', ''IVSHMEM''),
     (''ETHPHY'', ''ethphy'', ''ETHPHY''), (''VIRTIO'', ''virtio'', ''VIRTIO'')]"

text \<open>The object type and the table of operations that \<^verbatim>\<open>K_SYSCALL_DRIVER_GEN\<close> compares an argument with.\<close>

definition k_syscall_driver_gen :: "string \<Rightarrow> string \<Rightarrow> string \<times> string" where
  "k_syscall_driver_gen low up = (''K_OBJ_DRIVER_'' @ up, low @ ''_driver_api'')"

text \<open>The rows that the preprocessor leaves.\<close>

definition compiled :: "guard \<Rightarrow> bool" where
  "compiled g = (case g of None \<Rightarrow> True | Some c \<Rightarrow> map_of autoconf c \<noteq> None)"

section \<open>The lists agree\<close>

lemma str_core: "map (\<lambda>(g, k, n). (g, k)) otype_str_core = kobj_core"
  by (simp add: otype_str_core_def kobj_core_def)

lemma str_drivers: "map (\<lambda>(g, k, n). (g, k)) otype_str_drivers = kobj_drivers"
  by (simp add: otype_str_drivers_def kobj_drivers_def)

lemma driver_rows:
  "otype_str_drivers = map (\<lambda>(x, low, up). (None, fst (k_syscall_driver_gen low up), low @ '' driver'')) driver_checks"
  by (simp add: otype_str_drivers_def driver_checks_def k_syscall_driver_gen_def)

lemma driver_suffixes: "map (\<lambda>(x, low, up). (x, x)) driver_checks = map (\<lambda>(x, low, up). (up, map upper low)) driver_checks"
  by (simp add: driver_checks_def upper_values)

lemma sizes_named: "set otype_size \<subseteq> set otype_str_core"
  by (simp add: otype_size_def otype_str_core_def)

lemma guards_off:
  "map_of autoconf ''EVENTS'' = None" "map_of autoconf ''ZTEST'' = None"
  "map_of autoconf ''RTIO'' = None" "map_of autoconf ''SENSOR_ASYNC_API'' = None"
  unfolding autoconf_defs by (simp_all only: table_eval cong: table_cong)

lemma compiled_core: "filter (\<lambda>(g, k). compiled g) kobj_core = take 16 kobj_core"
  by (simp add: kobj_core_def compiled_def guards_off)

lemma compiled_drivers: "filter (\<lambda>(g, k). compiled g) kobj_drivers = kobj_drivers"
  by (simp add: kobj_drivers_def compiled_def)

text \<open>C40. The lists of kernel object types agree. Every enumerator has a name, under the same guard and in
  the same order; the sizes are those of the structures so named; the macro for a kind of driver checks
  the enumerator of that kind, which is the upper-case form of the prefix of its operations table, and
  the enumerator's name is that prefix with \<^verbatim>\<open>driver\<close>, one macro for each enumerator in order. With
  the switches of \<^verbatim>\<open>autoconf.h\<close> all guarded rows drop out: the first 16 types and the 82 drivers stay.\<close>

theorem kernel_objects_agree:
  "map (\<lambda>(g, k, n). (g, k)) (otype_str_core @ otype_str_drivers) = kobj_core @ kobj_drivers \<and>
   otype_str_drivers =
     map (\<lambda>(x, low, up). (None, fst (k_syscall_driver_gen low up), low @ '' driver'')) driver_checks \<and>
   map (\<lambda>(x, low, up). (x, x)) driver_checks = map (\<lambda>(x, low, up). (up, map upper low)) driver_checks \<and>
   set otype_size \<subseteq> set otype_str_core \<and>
   filter (\<lambda>(g, k). compiled g) (kobj_core @ kobj_drivers) = take 16 kobj_core @ kobj_drivers"
  by (simp only: map_append filter_append str_core str_drivers sizes_named driver_suffixes compiled_core
      compiled_drivers driver_rows [symmetric] simp_thms)

end
