(* ===== verification/Devicetree.thy ===== *)
theory Devicetree
  imports Prelude
begin

text \<open>
  The device tree of the board as \<^verbatim>\<open>devicetree_generated.h\<close> presents it to the C code, and the
  contract that the build relies on. A node is a record with one field per group of macros of its
  block: path and names, place in the tree, the ordinals it depends on and supports, alternative
  identifiers, bus, register blocks, interrupts, compatibles and status. A node identifier
  \<^verbatim>\<open>DT_N_...\<close> inside a macro is written as the ordinal of that node. The nodes themselves are in
  \<open>Devicetree_Board\<close> and \<open>Devicetree_Soc\<close>.
\<close>

named_theorems dt_defs \<open>the nodes of the device tree\<close>

section \<open>A node\<close>

record dt_node =
  dt_path :: string
  dt_name :: string
  dt_parent :: "nat option"
  dt_child_idx :: "nat option"
  dt_labels :: "string list"
  dt_ancestors :: "nat list"
  dt_children :: "nat list"
  dt_children_okay :: "nat list"
  dt_hash :: string
  dt_ord :: nat
  dt_requires :: "nat list"
  dt_supports :: "nat list"
  dt_ids :: "string list"
  dt_bus :: "(string \<times> nat) option"
  dt_regs :: "(nat \<times> nat option) list"
  dt_reg_names :: "string list"
  dt_irqs :: "(nat \<times> nat \<times> nat) list"
  dt_irq_level :: nat
  dt_compats :: "string list"
  dt_vendors :: "(nat \<times> string) list"
  dt_models :: "(nat \<times> string) list"
  dt_okay :: bool

section \<open>Dependencies\<close>

text \<open>An order of initialisation is sound when each element finds what it needs among the earlier ones.\<close>

fun deps_first :: "(nat \<Rightarrow> nat list) \<Rightarrow> nat set \<Rightarrow> nat list \<Rightarrow> bool" where
  "deps_first needs seen [] \<longleftrightarrow> True"
| "deps_first needs seen (i # is) \<longleftrightarrow> set (needs i) \<subseteq> seen \<and> deps_first needs (insert i seen) is"

text \<open>The contract of the ordinals: what a node needs has a smaller ordinal, the two directions in which
  the header lists dependencies agree, and an enabled node needs enabled nodes only.\<close>

locale dependency_order =
  fixes count :: nat and needs :: "nat \<Rightarrow> nat list" and serves :: "nat \<Rightarrow> nat list" and enabled :: "nat \<Rightarrow> bool"
  assumes needs_smaller: "i < count \<Longrightarrow> r \<in> set (needs i) \<Longrightarrow> r < i"
    and serves_needed: "r < count \<Longrightarrow> i \<in> set (serves r) \<Longrightarrow> i < count \<and> r \<in> set (needs i)"
    and needs_served: "i < count \<Longrightarrow> r \<in> set (needs i) \<Longrightarrow> i \<in> set (serves r)"
    and enabled_closed: "i < count \<Longrightarrow> enabled i \<Longrightarrow> r \<in> set (needs i) \<Longrightarrow> enabled r"
begin

lemma deps_first_upto: "n \<le> count \<Longrightarrow> deps_first needs {j. j < i \<and> enabled j} (filter enabled [i..<n])"
proof (induction "n - i" arbitrary: i)
  case (Suc d)
  then have i: "i < n" "i < count" and IH: "deps_first needs {j. j < Suc i \<and> enabled j} (filter enabled [Suc i..<n])"
    by simp_all
  show ?case
  proof (cases "enabled i")
    case True
    then have "insert i {j. j < i \<and> enabled j} = {j. j < Suc i \<and> enabled j}"
      by (auto simp: less_Suc_eq)
    moreover have "set (needs i) \<subseteq> {j. j < i \<and> enabled j}"
      using i(2) True needs_smaller enabled_closed by blast
    ultimately show ?thesis
      using IH True i(1) by (simp only: upt_conv_Cons filter.simps if_True deps_first.simps simp_thms)
  next
    case False
    then have "{j. j < i \<and> enabled j} = {j. j < Suc i \<and> enabled j}"
      by (auto simp: less_Suc_eq)
    then show ?thesis
      using IH False i(1) by (simp only: upt_conv_Cons filter.simps if_False simp_thms)
  qed
qed simp

lemma enabled_in_order: "deps_first needs {} (filter enabled [0..<count])"
  using deps_first_upto [of count 0] by simp

lemma edges_converse: "{(i, r). i < count \<and> r \<in> set (needs i)} = {(i, r). r < count \<and> i \<in> set (serves r)}"
proof -
  have "i < count \<and> r \<in> set (needs i) \<longleftrightarrow> r < count \<and> i \<in> set (serves r)" for i r
    using needs_smaller [of i r] serves_needed [of r i] needs_served [of i r] by linarith
  then show ?thesis by simp
qed

lemma depends_acyclic: "(i, i) \<notin> {(i, r). i < count \<and> r \<in> set (needs i)}\<^sup>+"
proof
  have less: "(a, b) \<in> {(i, r). i < count \<and> r \<in> set (needs i)}\<^sup>+ \<Longrightarrow> b < a" for a b
  proof (induction rule: trancl_induct)
    case (base b)
    then show ?case using needs_smaller by simp
  next
    case (step b c)
    then have "c < b" using needs_smaller by simp
    then show ?case using step.IH by simp
  qed
  assume "(i, i) \<in> {(i, r). i < count \<and> r \<in> set (needs i)}\<^sup>+"
  from less [OF this] show False by simp
qed

end

section \<open>The walk\<close>

text \<open>The nodes below a node, itself first, each child's subtree before the next child: the order in which
  \<^verbatim>\<open>DT_FOREACH_HELPER\<close> lists the tree. The first number bounds the depth.\<close>

fun walk :: "(nat \<Rightarrow> nat list) \<Rightarrow> nat \<Rightarrow> nat \<Rightarrow> nat list" where
  "walk ch 0 i = [i]"
| "walk ch (Suc d) i = i # concat (map (walk ch d) (ch i))"

text \<open>Register blocks \<open>(address, size)\<close> that share an address.\<close>

fun overlap :: "nat \<times> nat option \<Rightarrow> nat \<times> nat option \<Rightarrow> bool" where
  "overlap (a, Some s) (b, Some t) \<longleftrightarrow> a < b + t \<and> b < a + s"
| "overlap _ _ \<longleftrightarrow> False"

section \<open>Tables by row\<close>

text \<open>A list that is known by its elements gives an equation for each of its positions or keys.\<close>

lemma nth_rows: "col = xs \<Longrightarrow> list_all (\<lambda>(i, x). col ! i = x) (enumerate 0 xs)"
  by (auto simp: list_all_iff in_set_enumerate_eq)

lemma rowD: "list_all (\<lambda>(i, x). P i x) (enumerate 0 xs) \<Longrightarrow> i < length xs \<Longrightarrow> P i (xs ! i)"
  by (auto simp: list_all_iff in_set_enumerate_eq)

lemma map_of_rows: "xs = ys \<Longrightarrow> distinct (map fst xs) \<Longrightarrow> list_all (\<lambda>(k, v). map_of xs k = Some v) ys"
  by (auto simp: list_all_iff)

lemma walk_numeral:
  "walk ch (numeral k) i = i # concat (map (walk ch (pred_numeral k)) (ch i))"
  by (simp add: numeral_eq_Suc)

end
