(* ===== verification/Devicetree_Board.thy ===== *)
theory Devicetree_Board
  imports Devicetree
begin

text \<open>
  The nodes of \<^verbatim>\<open>devicetree_generated.h\<close> with ordinals 0 to 71: root, buttons, LEDs, processor,
  pin controller with its states, GPIO, interrupt controller and the first PWM.
\<close>

definition DT_N :: dt_node where [dt_defs]:
  "DT_N = \<lparr>
      dt_path = ''/'',
      dt_name = ''/'',
      dt_parent = None, dt_child_idx = None,
      dt_labels = [], dt_ancestors = [],
      dt_children = [3, 1, 6, 27, 5, 9, 19, 17, 22, 72, 12, 4, 2],
      dt_children_okay = [3, 1, 6, 27, 5, 19, 17, 22, 72, 12, 4, 2],
      dt_hash = ''il7asoJjJEMhngUeSt4tHVu8Zxx4EFG_FDeJfL3_oPE'',
      dt_ord = 0, dt_requires = [],
      dt_supports = [1, 2, 3, 4, 5, 6, 9, 12, 17, 19, 22, 27, 72],
      dt_ids = [''INST_0_nordic_nrf52840_dk_nrf52840''],
      dt_bus = None,
      dt_regs = [], dt_reg_names = [],
      dt_irqs = [], dt_irq_level = 0,
      dt_compats = [''nordic_nrf52840_dk_nrf52840''],
      dt_vendors = [(0, ''Nordic Semiconductor'')], dt_models = [(0, ''nrf52840-dk-nrf52840'')],
      dt_okay = True \<rparr>"

definition DT_N_S_aliases :: dt_node where [dt_defs]:
  "DT_N_S_aliases = \<lparr>
      dt_path = ''/aliases'',
      dt_name = ''aliases'',
      dt_parent = Some 0, dt_child_idx = Some 1,
      dt_labels = [], dt_ancestors = [0],
      dt_children = [],
      dt_children_okay = [],
      dt_hash = ''QavYY6yplHKhLPRKsRzaLCGlR0CWZ0JUNJakcBCfDXA'',
      dt_ord = 1, dt_requires = [0],
      dt_supports = [],
      dt_ids = [],
      dt_bus = None,
      dt_regs = [], dt_reg_names = [],
      dt_irqs = [], dt_irq_level = 0,
      dt_compats = [],
      dt_vendors = [], dt_models = [],
      dt_okay = True \<rparr>"

definition DT_N_S_analog_connector :: dt_node where [dt_defs]:
  "DT_N_S_analog_connector = \<lparr>
      dt_path = ''/analog-connector'',
      dt_name = ''analog-connector'',
      dt_parent = Some 0, dt_child_idx = Some 12,
      dt_labels = [''arduino_adc''], dt_ancestors = [0],
      dt_children = [],
      dt_children_okay = [],
      dt_hash = ''ZsYa_Of_E2zaL91wWVd9ZpAaGp5vlpM_t0sPgLMFclE'',
      dt_ord = 2, dt_requires = [0],
      dt_supports = [],
      dt_ids = [''INST_0_arduino_uno_adc'', ''NODELABEL_arduino_adc''],
      dt_bus = None,
      dt_regs = [], dt_reg_names = [],
      dt_irqs = [], dt_irq_level = 0,
      dt_compats = [''arduino_uno_adc''],
      dt_vendors = [(0, ''Arduino'')], dt_models = [(0, ''uno-adc'')],
      dt_okay = True \<rparr>"

definition DT_N_S_chosen :: dt_node where [dt_defs]:
  "DT_N_S_chosen = \<lparr>
      dt_path = ''/chosen'',
      dt_name = ''chosen'',
      dt_parent = Some 0, dt_child_idx = Some 0,
      dt_labels = [], dt_ancestors = [0],
      dt_children = [],
      dt_children_okay = [],
      dt_hash = ''qNExeeLInzqaWpm1KroyYDk4lRIxVO2ig78mq_hOnA8'',
      dt_ord = 3, dt_requires = [0],
      dt_supports = [],
      dt_ids = [],
      dt_bus = None,
      dt_regs = [], dt_reg_names = [],
      dt_irqs = [], dt_irq_level = 0,
      dt_compats = [],
      dt_vendors = [], dt_models = [],
      dt_okay = True \<rparr>"

definition DT_N_S_connector :: dt_node where [dt_defs]:
  "DT_N_S_connector = \<lparr>
      dt_path = ''/connector'',
      dt_name = ''connector'',
      dt_parent = Some 0, dt_child_idx = Some 11,
      dt_labels = [''arduino_header''], dt_ancestors = [0],
      dt_children = [],
      dt_children_okay = [],
      dt_hash = ''1hNYiTso4N65bku_L_0pzRcHL_5NCz8DqiXd1i5KK7Q'',
      dt_ord = 4, dt_requires = [0],
      dt_supports = [],
      dt_ids = [''INST_0_arduino_header_r3'', ''NODELABEL_arduino_header''],
      dt_bus = None,
      dt_regs = [], dt_reg_names = [],
      dt_irqs = [], dt_irq_level = 0,
      dt_compats = [''arduino_header_r3''],
      dt_vendors = [], dt_models = [],
      dt_okay = True \<rparr>"

definition DT_N_S_entropy_bt_hci :: dt_node where [dt_defs]:
  "DT_N_S_entropy_bt_hci = \<lparr>
      dt_path = ''/entropy_bt_hci'',
      dt_name = ''entropy_bt_hci'',
      dt_parent = Some 0, dt_child_idx = Some 4,
      dt_labels = [''rng_hci''], dt_ancestors = [0],
      dt_children = [],
      dt_children_okay = [],
      dt_hash = ''SgcLB264LeTM7CzHuqx7oNBkdCC244OwlY5UEgw5yZk'',
      dt_ord = 5, dt_requires = [0],
      dt_supports = [],
      dt_ids = [''INST_0_zephyr_bt_hci_entropy'', ''NODELABEL_rng_hci''],
      dt_bus = None,
      dt_regs = [], dt_reg_names = [],
      dt_irqs = [], dt_irq_level = 0,
      dt_compats = [''zephyr_bt_hci_entropy''],
      dt_vendors = [(0, ''The Zephyr Project'')], dt_models = [(0, ''bt-hci-entropy'')],
      dt_okay = True \<rparr>"

definition DT_N_S_soc :: dt_node where [dt_defs]:
  "DT_N_S_soc = \<lparr>
      dt_path = ''/soc'',
      dt_name = ''soc'',
      dt_parent = Some 0, dt_child_idx = Some 2,
      dt_labels = [], dt_ancestors = [0],
      dt_children = [7, 113, 87, 116, 91, 77, 126, 134, 114, 88, 104, 89, 138, 93, 10, 75, 109, 8,
        110, 101, 108, 100, 80, 76, 118, 102, 99, 78, 81, 82, 83, 84, 85, 86, 111, 112, 71, 94, 74,
        119, 95, 92, 96, 97, 105, 103, 90, 117, 115, 132, 98, 107, 11, 106, 79],
      dt_children_okay = [7, 87, 116, 91, 77, 126, 134, 114, 88, 138, 93, 10, 75, 108, 100, 80,
        76, 118, 81, 82, 83, 84, 85, 86, 71, 74, 119, 95, 92, 117, 132, 107, 11, 106, 79],
      dt_hash = ''DcVqqq9YzG86l3_Hk7pNncUh2rnHG8USjbVY6wBdFts'',
      dt_ord = 6, dt_requires = [0],
      dt_supports = [7, 8, 10, 11, 71, 74, 75, 76, 77, 78, 79, 80, 81, 82, 83, 84, 85, 86, 87, 88,
        89, 90, 91, 92, 93, 94, 95, 96, 97, 98, 99, 100, 101, 102, 103, 104, 105, 106, 107, 108,
        109, 110, 111, 112, 113, 114, 115, 116, 117, 118, 119, 126, 132, 134, 138],
      dt_ids = [''INST_0_nordic_nrf52840_qiaa'', ''INST_0_nordic_nrf52840'',
        ''INST_0_nordic_nrf52'', ''INST_0_simple_bus''],
      dt_bus = None,
      dt_regs = [], dt_reg_names = [],
      dt_irqs = [], dt_irq_level = 0,
      dt_compats = [''nordic_nrf52840_qiaa'', ''nordic_nrf52840'', ''nordic_nrf52'',
        ''simple_bus''],
      dt_vendors = [(0, ''Nordic Semiconductor''), (1, ''Nordic Semiconductor''), (2, ''Nordic
        Semiconductor'')], dt_models = [(0, ''nrf52840-qiaa''), (1, ''nrf52840''), (2, ''nrf52'')],
      dt_okay = True \<rparr>"

definition DT_N_S_soc_S_interrupt_controller_e000e100 :: dt_node where [dt_defs]:
  "DT_N_S_soc_S_interrupt_controller_e000e100 = \<lparr>
      dt_path = ''/soc/interrupt-controller@e000e100'',
      dt_name = ''interrupt-controller@e000e100'',
      dt_parent = Some 6, dt_child_idx = Some 0,
      dt_labels = [''nvic''], dt_ancestors = [6, 0],
      dt_children = [],
      dt_children_okay = [],
      dt_hash = ''MNKByYDCdVxyLwiy4A_bv2jZfVhfDT01mZ2_1uEhUYQ'',
      dt_ord = 7, dt_requires = [6],
      dt_supports = [8, 10, 71, 75, 76, 77, 78, 79, 80, 81, 82, 83, 84, 85, 86, 88, 89, 90, 93,
        94, 96, 97, 98, 99, 100, 101, 102, 103, 104, 105, 107, 108, 109, 110, 111, 112, 114, 115,
        117, 118, 126, 132, 134, 138],
      dt_ids = [''INST_0_arm_v7m_nvic'', ''NODELABEL_nvic''],
      dt_bus = None,
      dt_regs = [(3758153984, Some 3072)], dt_reg_names = [],
      dt_irqs = [], dt_irq_level = 0,
      dt_compats = [''arm_v7m_nvic''],
      dt_vendors = [(0, ''ARM Ltd.'')], dt_models = [(0, ''v7m-nvic'')],
      dt_okay = True \<rparr>"

definition DT_N_S_soc_S_timer_40009000 :: dt_node where [dt_defs]:
  "DT_N_S_soc_S_timer_40009000 = \<lparr>
      dt_path = ''/soc/timer@40009000'',
      dt_name = ''timer@40009000'',
      dt_parent = Some 6, dt_child_idx = Some 17,
      dt_labels = [''timer1''], dt_ancestors = [6, 0],
      dt_children = [],
      dt_children_okay = [],
      dt_hash = ''dvKc7YKRnCeYnuLQBswmfsoUp9o4yRxlSa8Bp0_wngU'',
      dt_ord = 8, dt_requires = [6, 7],
      dt_supports = [9],
      dt_ids = [''INST_1_nordic_nrf_timer'', ''NODELABEL_timer1''],
      dt_bus = None,
      dt_regs = [(1073778688, Some 4096)], dt_reg_names = [],
      dt_irqs = [(9, 1, 7)], dt_irq_level = 1,
      dt_compats = [''nordic_nrf_timer''],
      dt_vendors = [(0, ''Nordic Semiconductor'')], dt_models = [(0, ''nrf-timer'')],
      dt_okay = False \<rparr>"

definition DT_N_S_sw_pwm :: dt_node where [dt_defs]:
  "DT_N_S_sw_pwm = \<lparr>
      dt_path = ''/sw-pwm'',
      dt_name = ''sw-pwm'',
      dt_parent = Some 0, dt_child_idx = Some 5,
      dt_labels = [''sw_pwm''], dt_ancestors = [0],
      dt_children = [],
      dt_children_okay = [],
      dt_hash = ''JNm3Tbl_p6_ln0HamgYZw_0vVGqAfhUnZXbZIAU6T3w'',
      dt_ord = 9, dt_requires = [0, 8],
      dt_supports = [],
      dt_ids = [''INST_0_nordic_nrf_sw_pwm'', ''NODELABEL_sw_pwm''],
      dt_bus = None,
      dt_regs = [], dt_reg_names = [],
      dt_irqs = [], dt_irq_level = 0,
      dt_compats = [''nordic_nrf_sw_pwm''],
      dt_vendors = [(0, ''Nordic Semiconductor'')], dt_models = [(0, ''nrf-sw-pwm'')],
      dt_okay = False \<rparr>"

definition DT_N_S_soc_S_gpiote_40006000 :: dt_node where [dt_defs]:
  "DT_N_S_soc_S_gpiote_40006000 = \<lparr>
      dt_path = ''/soc/gpiote@40006000'',
      dt_name = ''gpiote@40006000'',
      dt_parent = Some 6, dt_child_idx = Some 14,
      dt_labels = [''gpiote'', ''gpiote0''], dt_ancestors = [6, 0],
      dt_children = [],
      dt_children_okay = [],
      dt_hash = ''ArrKPdZhyqqBftoentmUeJNRDWGOoFaogCW6b89xook'',
      dt_ord = 10, dt_requires = [6, 7],
      dt_supports = [11, 106],
      dt_ids = [''INST_0_nordic_nrf_gpiote'', ''NODELABEL_gpiote'', ''NODELABEL_gpiote0''],
      dt_bus = None,
      dt_regs = [(1073766400, Some 4096)], dt_reg_names = [],
      dt_irqs = [(6, 5, 7)], dt_irq_level = 1,
      dt_compats = [''nordic_nrf_gpiote''],
      dt_vendors = [(0, ''Nordic Semiconductor'')], dt_models = [(0, ''nrf-gpiote'')],
      dt_okay = True \<rparr>"

definition DT_N_S_soc_S_gpio_50000000 :: dt_node where [dt_defs]:
  "DT_N_S_soc_S_gpio_50000000 = \<lparr>
      dt_path = ''/soc/gpio@50000000'',
      dt_name = ''gpio@50000000'',
      dt_parent = Some 6, dt_child_idx = Some 52,
      dt_labels = [''gpio0''], dt_ancestors = [6, 0],
      dt_children = [],
      dt_children_okay = [],
      dt_hash = ''jlnraCkF0yOFxip3sHhNp4RLOKVpNgOI6a8LqwOtfpo'',
      dt_ord = 11, dt_requires = [6, 10],
      dt_supports = [12, 13, 14, 15, 16, 22, 23, 24, 25, 26, 138],
      dt_ids = [''INST_0_nordic_nrf_gpio'', ''NODELABEL_gpio0''],
      dt_bus = None,
      dt_regs = [(1342177280, Some 512), (1342178560, Some 768)], dt_reg_names = [],
      dt_irqs = [], dt_irq_level = 0,
      dt_compats = [''nordic_nrf_gpio''],
      dt_vendors = [(0, ''Nordic Semiconductor'')], dt_models = [(0, ''nrf-gpio'')],
      dt_okay = True \<rparr>"

definition DT_N_S_buttons :: dt_node where [dt_defs]:
  "DT_N_S_buttons = \<lparr>
      dt_path = ''/buttons'',
      dt_name = ''buttons'',
      dt_parent = Some 0, dt_child_idx = Some 10,
      dt_labels = [], dt_ancestors = [0],
      dt_children = [13, 14, 15, 16],
      dt_children_okay = [13, 14, 15, 16],
      dt_hash = ''5PjIhtTrOdD7xh1YVA9zDmUgeKJd76iHjBCCBzXYfdo'',
      dt_ord = 12, dt_requires = [0, 11],
      dt_supports = [13, 14, 15, 16],
      dt_ids = [''INST_0_gpio_keys''],
      dt_bus = None,
      dt_regs = [], dt_reg_names = [],
      dt_irqs = [], dt_irq_level = 0,
      dt_compats = [''gpio_keys''],
      dt_vendors = [], dt_models = [],
      dt_okay = True \<rparr>"

definition DT_N_S_buttons_S_button_0 :: dt_node where [dt_defs]:
  "DT_N_S_buttons_S_button_0 = \<lparr>
      dt_path = ''/buttons/button_0'',
      dt_name = ''button_0'',
      dt_parent = Some 12, dt_child_idx = Some 0,
      dt_labels = [''button0''], dt_ancestors = [12, 0],
      dt_children = [],
      dt_children_okay = [],
      dt_hash = ''Dse5y6YeLZXYDvVJH_dSbYTpKqPf642pyShJZc0TmQ0'',
      dt_ord = 13, dt_requires = [11, 12],
      dt_supports = [],
      dt_ids = [''ALIAS_sw0'', ''ALIAS_mcuboot_button0'', ''NODELABEL_button0''],
      dt_bus = None,
      dt_regs = [], dt_reg_names = [],
      dt_irqs = [], dt_irq_level = 0,
      dt_compats = [],
      dt_vendors = [], dt_models = [],
      dt_okay = True \<rparr>"

definition DT_N_S_buttons_S_button_1 :: dt_node where [dt_defs]:
  "DT_N_S_buttons_S_button_1 = \<lparr>
      dt_path = ''/buttons/button_1'',
      dt_name = ''button_1'',
      dt_parent = Some 12, dt_child_idx = Some 1,
      dt_labels = [''button1''], dt_ancestors = [12, 0],
      dt_children = [],
      dt_children_okay = [],
      dt_hash = ''k4onuseAcjGw86JsSooa1FdW0MUeW8bg6xDK8YDYQ_M'',
      dt_ord = 14, dt_requires = [11, 12],
      dt_supports = [],
      dt_ids = [''ALIAS_sw1'', ''NODELABEL_button1''],
      dt_bus = None,
      dt_regs = [], dt_reg_names = [],
      dt_irqs = [], dt_irq_level = 0,
      dt_compats = [],
      dt_vendors = [], dt_models = [],
      dt_okay = True \<rparr>"

definition DT_N_S_buttons_S_button_2 :: dt_node where [dt_defs]:
  "DT_N_S_buttons_S_button_2 = \<lparr>
      dt_path = ''/buttons/button_2'',
      dt_name = ''button_2'',
      dt_parent = Some 12, dt_child_idx = Some 2,
      dt_labels = [''button2''], dt_ancestors = [12, 0],
      dt_children = [],
      dt_children_okay = [],
      dt_hash = ''dXM567igJmlNzhzesFeZWBQuaaV9sw3kM5v9UOac6_c'',
      dt_ord = 15, dt_requires = [11, 12],
      dt_supports = [],
      dt_ids = [''ALIAS_sw2'', ''NODELABEL_button2''],
      dt_bus = None,
      dt_regs = [], dt_reg_names = [],
      dt_irqs = [], dt_irq_level = 0,
      dt_compats = [],
      dt_vendors = [], dt_models = [],
      dt_okay = True \<rparr>"

definition DT_N_S_buttons_S_button_3 :: dt_node where [dt_defs]:
  "DT_N_S_buttons_S_button_3 = \<lparr>
      dt_path = ''/buttons/button_3'',
      dt_name = ''button_3'',
      dt_parent = Some 12, dt_child_idx = Some 3,
      dt_labels = [''button3''], dt_ancestors = [12, 0],
      dt_children = [],
      dt_children_okay = [],
      dt_hash = ''yAb2aLiaSc45ADJ_lxFJpNk5n1Of5OECfeWNkNkVrig'',
      dt_ord = 16, dt_requires = [11, 12],
      dt_supports = [],
      dt_ids = [''ALIAS_sw3'', ''NODELABEL_button3''],
      dt_bus = None,
      dt_regs = [], dt_reg_names = [],
      dt_irqs = [], dt_irq_level = 0,
      dt_compats = [],
      dt_vendors = [], dt_models = [],
      dt_okay = True \<rparr>"

definition DT_N_S_clocks :: dt_node where [dt_defs]:
  "DT_N_S_clocks = \<lparr>
      dt_path = ''/clocks'',
      dt_name = ''clocks'',
      dt_parent = Some 0, dt_child_idx = Some 7,
      dt_labels = [], dt_ancestors = [0],
      dt_children = [18],
      dt_children_okay = [18],
      dt_hash = ''3P3fmk_q5wPvaymGA6NeomHHBb_cCfQX2PaKw_k1t_w'',
      dt_ord = 17, dt_requires = [0],
      dt_supports = [18],
      dt_ids = [],
      dt_bus = None,
      dt_regs = [], dt_reg_names = [],
      dt_irqs = [], dt_irq_level = 0,
      dt_compats = [],
      dt_vendors = [], dt_models = [],
      dt_okay = True \<rparr>"

definition DT_N_S_clocks_S_hfxo :: dt_node where [dt_defs]:
  "DT_N_S_clocks_S_hfxo = \<lparr>
      dt_path = ''/clocks/hfxo'',
      dt_name = ''hfxo'',
      dt_parent = Some 17, dt_child_idx = Some 0,
      dt_labels = [''hfxo''], dt_ancestors = [17, 0],
      dt_children = [],
      dt_children_okay = [],
      dt_hash = ''MLbpSb2CV3oUhgJfvSk3Ru7ErR1iy5U9W61jxNr_noo'',
      dt_ord = 18, dt_requires = [17],
      dt_supports = [],
      dt_ids = [''INST_0_nordic_nrf52_hfxo'', ''NODELABEL_hfxo''],
      dt_bus = None,
      dt_regs = [], dt_reg_names = [],
      dt_irqs = [], dt_irq_level = 0,
      dt_compats = [''nordic_nrf52_hfxo''],
      dt_vendors = [(0, ''Nordic Semiconductor'')], dt_models = [(0, ''nrf52-hfxo'')],
      dt_okay = True \<rparr>"

definition DT_N_S_cpus :: dt_node where [dt_defs]:
  "DT_N_S_cpus = \<lparr>
      dt_path = ''/cpus'',
      dt_name = ''cpus'',
      dt_parent = Some 0, dt_child_idx = Some 6,
      dt_labels = [], dt_ancestors = [0],
      dt_children = [20],
      dt_children_okay = [20],
      dt_hash = ''iL3XRGZVvvtpNJqKV0_jvtuXF7m6kgky4nI2ifizwdg'',
      dt_ord = 19, dt_requires = [0],
      dt_supports = [20],
      dt_ids = [],
      dt_bus = None,
      dt_regs = [], dt_reg_names = [],
      dt_irqs = [], dt_irq_level = 0,
      dt_compats = [],
      dt_vendors = [], dt_models = [],
      dt_okay = True \<rparr>"

definition DT_N_S_cpus_S_cpu_0 :: dt_node where [dt_defs]:
  "DT_N_S_cpus_S_cpu_0 = \<lparr>
      dt_path = ''/cpus/cpu@0'',
      dt_name = ''cpu@0'',
      dt_parent = Some 19, dt_child_idx = Some 0,
      dt_labels = [], dt_ancestors = [19, 0],
      dt_children = [21],
      dt_children_okay = [21],
      dt_hash = ''Su0JBbOtM0QIxe_1ka2Xvgw4rk1QaIlMIj8Rp_v4yVQ'',
      dt_ord = 20, dt_requires = [19],
      dt_supports = [21],
      dt_ids = [''INST_0_arm_cortex_m4f''],
      dt_bus = None,
      dt_regs = [(0, None)], dt_reg_names = [],
      dt_irqs = [], dt_irq_level = 0,
      dt_compats = [''arm_cortex_m4f''],
      dt_vendors = [(0, ''ARM Ltd.'')], dt_models = [(0, ''cortex-m4f'')],
      dt_okay = True \<rparr>"

definition DT_N_S_cpus_S_cpu_0_S_itm_e0000000 :: dt_node where [dt_defs]:
  "DT_N_S_cpus_S_cpu_0_S_itm_e0000000 = \<lparr>
      dt_path = ''/cpus/cpu@0/itm@e0000000'',
      dt_name = ''itm@e0000000'',
      dt_parent = Some 20, dt_child_idx = Some 0,
      dt_labels = [''itm''], dt_ancestors = [20, 19, 0],
      dt_children = [],
      dt_children_okay = [],
      dt_hash = ''JjHt_nEP3F3Wi8OjOG2PGbmFaf8jabMmf3FNGE28Zfc'',
      dt_ord = 21, dt_requires = [20],
      dt_supports = [],
      dt_ids = [''INST_0_arm_armv7m_itm'', ''NODELABEL_itm''],
      dt_bus = None,
      dt_regs = [(3758096384, Some 4096)], dt_reg_names = [],
      dt_irqs = [], dt_irq_level = 0,
      dt_compats = [''arm_armv7m_itm''],
      dt_vendors = [(0, ''ARM Ltd.'')], dt_models = [(0, ''armv7m-itm'')],
      dt_okay = True \<rparr>"

definition DT_N_S_leds :: dt_node where [dt_defs]:
  "DT_N_S_leds = \<lparr>
      dt_path = ''/leds'',
      dt_name = ''leds'',
      dt_parent = Some 0, dt_child_idx = Some 8,
      dt_labels = [], dt_ancestors = [0],
      dt_children = [23, 24, 25, 26],
      dt_children_okay = [23, 24, 25, 26],
      dt_hash = ''bMroFUocDdjE3kJ38dK18mDvlCOPoyya5kIIs76irj8'',
      dt_ord = 22, dt_requires = [0, 11],
      dt_supports = [23, 24, 25, 26],
      dt_ids = [''INST_0_gpio_leds''],
      dt_bus = None,
      dt_regs = [], dt_reg_names = [],
      dt_irqs = [], dt_irq_level = 0,
      dt_compats = [''gpio_leds''],
      dt_vendors = [], dt_models = [],
      dt_okay = True \<rparr>"

definition DT_N_S_leds_S_led_0 :: dt_node where [dt_defs]:
  "DT_N_S_leds_S_led_0 = \<lparr>
      dt_path = ''/leds/led_0'',
      dt_name = ''led_0'',
      dt_parent = Some 22, dt_child_idx = Some 0,
      dt_labels = [''led0''], dt_ancestors = [22, 0],
      dt_children = [],
      dt_children_okay = [],
      dt_hash = ''kqSZv01Dnr_1hPdmxPVlr9u8kLMk_UWHIyVHG3GknSY'',
      dt_ord = 23, dt_requires = [11, 22],
      dt_supports = [],
      dt_ids = [''ALIAS_led0'', ''ALIAS_bootloader_led0'', ''ALIAS_mcuboot_led0'',
        ''NODELABEL_led0''],
      dt_bus = None,
      dt_regs = [], dt_reg_names = [],
      dt_irqs = [], dt_irq_level = 0,
      dt_compats = [],
      dt_vendors = [], dt_models = [],
      dt_okay = True \<rparr>"

definition DT_N_S_leds_S_led_1 :: dt_node where [dt_defs]:
  "DT_N_S_leds_S_led_1 = \<lparr>
      dt_path = ''/leds/led_1'',
      dt_name = ''led_1'',
      dt_parent = Some 22, dt_child_idx = Some 1,
      dt_labels = [''led1''], dt_ancestors = [22, 0],
      dt_children = [],
      dt_children_okay = [],
      dt_hash = ''iXGpSU4KdWdLNkNXyuDlz5Q9aavHPvjTPItAJ_Q0T5c'',
      dt_ord = 24, dt_requires = [11, 22],
      dt_supports = [],
      dt_ids = [''ALIAS_led1'', ''NODELABEL_led1''],
      dt_bus = None,
      dt_regs = [], dt_reg_names = [],
      dt_irqs = [], dt_irq_level = 0,
      dt_compats = [],
      dt_vendors = [], dt_models = [],
      dt_okay = True \<rparr>"

definition DT_N_S_leds_S_led_2 :: dt_node where [dt_defs]:
  "DT_N_S_leds_S_led_2 = \<lparr>
      dt_path = ''/leds/led_2'',
      dt_name = ''led_2'',
      dt_parent = Some 22, dt_child_idx = Some 2,
      dt_labels = [''led2''], dt_ancestors = [22, 0],
      dt_children = [],
      dt_children_okay = [],
      dt_hash = ''KsPGInVliEI1PRs0DmyETNF7dyG4frBo_Z_DeHCKQaA'',
      dt_ord = 25, dt_requires = [11, 22],
      dt_supports = [],
      dt_ids = [''ALIAS_led2'', ''NODELABEL_led2''],
      dt_bus = None,
      dt_regs = [], dt_reg_names = [],
      dt_irqs = [], dt_irq_level = 0,
      dt_compats = [],
      dt_vendors = [], dt_models = [],
      dt_okay = True \<rparr>"

definition DT_N_S_leds_S_led_3 :: dt_node where [dt_defs]:
  "DT_N_S_leds_S_led_3 = \<lparr>
      dt_path = ''/leds/led_3'',
      dt_name = ''led_3'',
      dt_parent = Some 22, dt_child_idx = Some 3,
      dt_labels = [''led3''], dt_ancestors = [22, 0],
      dt_children = [],
      dt_children_okay = [],
      dt_hash = ''pLTfITNsOL3nhJnRmoaWMqapL5v7uTq7eUydfMIb7KA'',
      dt_ord = 26, dt_requires = [11, 22],
      dt_supports = [],
      dt_ids = [''ALIAS_led3'', ''NODELABEL_led3''],
      dt_bus = None,
      dt_regs = [], dt_reg_names = [],
      dt_irqs = [], dt_irq_level = 0,
      dt_compats = [],
      dt_vendors = [], dt_models = [],
      dt_okay = True \<rparr>"

definition DT_N_S_pin_controller :: dt_node where [dt_defs]:
  "DT_N_S_pin_controller = \<lparr>
      dt_path = ''/pin-controller'',
      dt_name = ''pin-controller'',
      dt_parent = Some 0, dt_child_idx = Some 3,
      dt_labels = [''pinctrl''], dt_ancestors = [0],
      dt_children = [61, 64, 66, 69, 28, 30, 32, 34, 36, 38, 45, 47, 49, 51, 53, 55, 40, 42, 57,
        59],
      dt_children_okay = [61, 64, 66, 69, 28, 30, 32, 34, 36, 38, 45, 47, 49, 51, 53, 55, 40, 42,
        57, 59],
      dt_hash = ''bWf59uCG_pY5hQAcoRx7FSfuctl8KNxAtmdgsI6QClA'',
      dt_ord = 27, dt_requires = [0],
      dt_supports = [28, 30, 32, 34, 36, 38, 40, 42, 45, 47, 49, 51, 53, 55, 57, 59, 61, 64, 66,
        69],
      dt_ids = [''INST_0_nordic_nrf_pinctrl'', ''NODELABEL_pinctrl''],
      dt_bus = None,
      dt_regs = [], dt_reg_names = [],
      dt_irqs = [], dt_irq_level = 0,
      dt_compats = [''nordic_nrf_pinctrl''],
      dt_vendors = [(0, ''Nordic Semiconductor'')], dt_models = [(0, ''nrf-pinctrl'')],
      dt_okay = True \<rparr>"

definition DT_N_S_pin_controller_S_i2c0_default :: dt_node where [dt_defs]:
  "DT_N_S_pin_controller_S_i2c0_default = \<lparr>
      dt_path = ''/pin-controller/i2c0_default'',
      dt_name = ''i2c0_default'',
      dt_parent = Some 27, dt_child_idx = Some 4,
      dt_labels = [''i2c0_default''], dt_ancestors = [27, 0],
      dt_children = [29],
      dt_children_okay = [29],
      dt_hash = ''jwLAya2l1n5eq23pU58aJBqJOApGFQeY8GlS09jN_X8'',
      dt_ord = 28, dt_requires = [27],
      dt_supports = [29, 88],
      dt_ids = [''NODELABEL_i2c0_default''],
      dt_bus = None,
      dt_regs = [], dt_reg_names = [],
      dt_irqs = [], dt_irq_level = 0,
      dt_compats = [],
      dt_vendors = [], dt_models = [],
      dt_okay = True \<rparr>"

definition DT_N_S_pin_controller_S_i2c0_default_S_group1 :: dt_node where [dt_defs]:
  "DT_N_S_pin_controller_S_i2c0_default_S_group1 = \<lparr>
      dt_path = ''/pin-controller/i2c0_default/group1'',
      dt_name = ''group1'',
      dt_parent = Some 28, dt_child_idx = Some 0,
      dt_labels = [], dt_ancestors = [28, 27, 0],
      dt_children = [],
      dt_children_okay = [],
      dt_hash = ''_HSqkKDjPxhuu0z84CDy13StRYiLrOnhQel0xHxUxuM'',
      dt_ord = 29, dt_requires = [28],
      dt_supports = [],
      dt_ids = [],
      dt_bus = None,
      dt_regs = [], dt_reg_names = [],
      dt_irqs = [], dt_irq_level = 0,
      dt_compats = [],
      dt_vendors = [], dt_models = [],
      dt_okay = True \<rparr>"

definition DT_N_S_pin_controller_S_i2c0_sleep :: dt_node where [dt_defs]:
  "DT_N_S_pin_controller_S_i2c0_sleep = \<lparr>
      dt_path = ''/pin-controller/i2c0_sleep'',
      dt_name = ''i2c0_sleep'',
      dt_parent = Some 27, dt_child_idx = Some 5,
      dt_labels = [''i2c0_sleep''], dt_ancestors = [27, 0],
      dt_children = [31],
      dt_children_okay = [31],
      dt_hash = ''CxPeHe7yBmHTB9V5ejKoixSWUCHP5Qxu6TzEvK_41Dg'',
      dt_ord = 30, dt_requires = [27],
      dt_supports = [31, 88],
      dt_ids = [''NODELABEL_i2c0_sleep''],
      dt_bus = None,
      dt_regs = [], dt_reg_names = [],
      dt_irqs = [], dt_irq_level = 0,
      dt_compats = [],
      dt_vendors = [], dt_models = [],
      dt_okay = True \<rparr>"

definition DT_N_S_pin_controller_S_i2c0_sleep_S_group1 :: dt_node where [dt_defs]:
  "DT_N_S_pin_controller_S_i2c0_sleep_S_group1 = \<lparr>
      dt_path = ''/pin-controller/i2c0_sleep/group1'',
      dt_name = ''group1'',
      dt_parent = Some 30, dt_child_idx = Some 0,
      dt_labels = [], dt_ancestors = [30, 27, 0],
      dt_children = [],
      dt_children_okay = [],
      dt_hash = ''y5PHY__wiK6mD3Eze2Xcs0cSxTyIpn_oztysj28L5UA'',
      dt_ord = 31, dt_requires = [30],
      dt_supports = [],
      dt_ids = [],
      dt_bus = None,
      dt_regs = [], dt_reg_names = [],
      dt_irqs = [], dt_irq_level = 0,
      dt_compats = [],
      dt_vendors = [], dt_models = [],
      dt_okay = True \<rparr>"

definition DT_N_S_pin_controller_S_i2c1_default :: dt_node where [dt_defs]:
  "DT_N_S_pin_controller_S_i2c1_default = \<lparr>
      dt_path = ''/pin-controller/i2c1_default'',
      dt_name = ''i2c1_default'',
      dt_parent = Some 27, dt_child_idx = Some 6,
      dt_labels = [''i2c1_default''], dt_ancestors = [27, 0],
      dt_children = [33],
      dt_children_okay = [33],
      dt_hash = ''XO1mymgcvFsuC9DhMfptRTCQBeKGbvb0Ib2nQh8oc7M'',
      dt_ord = 32, dt_requires = [27],
      dt_supports = [33, 89],
      dt_ids = [''NODELABEL_i2c1_default''],
      dt_bus = None,
      dt_regs = [], dt_reg_names = [],
      dt_irqs = [], dt_irq_level = 0,
      dt_compats = [],
      dt_vendors = [], dt_models = [],
      dt_okay = True \<rparr>"

definition DT_N_S_pin_controller_S_i2c1_default_S_group1 :: dt_node where [dt_defs]:
  "DT_N_S_pin_controller_S_i2c1_default_S_group1 = \<lparr>
      dt_path = ''/pin-controller/i2c1_default/group1'',
      dt_name = ''group1'',
      dt_parent = Some 32, dt_child_idx = Some 0,
      dt_labels = [], dt_ancestors = [32, 27, 0],
      dt_children = [],
      dt_children_okay = [],
      dt_hash = ''cUGMjaLJ_EMYBWGL8KTvzJXC89iE0MLZ6zre2oO0xVA'',
      dt_ord = 33, dt_requires = [32],
      dt_supports = [],
      dt_ids = [],
      dt_bus = None,
      dt_regs = [], dt_reg_names = [],
      dt_irqs = [], dt_irq_level = 0,
      dt_compats = [],
      dt_vendors = [], dt_models = [],
      dt_okay = True \<rparr>"

definition DT_N_S_pin_controller_S_i2c1_sleep :: dt_node where [dt_defs]:
  "DT_N_S_pin_controller_S_i2c1_sleep = \<lparr>
      dt_path = ''/pin-controller/i2c1_sleep'',
      dt_name = ''i2c1_sleep'',
      dt_parent = Some 27, dt_child_idx = Some 7,
      dt_labels = [''i2c1_sleep''], dt_ancestors = [27, 0],
      dt_children = [35],
      dt_children_okay = [35],
      dt_hash = ''2YSwRoyzgBWxPLlGEoY6Idbc1hA2w044vwbPnbAJJig'',
      dt_ord = 34, dt_requires = [27],
      dt_supports = [35, 89],
      dt_ids = [''NODELABEL_i2c1_sleep''],
      dt_bus = None,
      dt_regs = [], dt_reg_names = [],
      dt_irqs = [], dt_irq_level = 0,
      dt_compats = [],
      dt_vendors = [], dt_models = [],
      dt_okay = True \<rparr>"

definition DT_N_S_pin_controller_S_i2c1_sleep_S_group1 :: dt_node where [dt_defs]:
  "DT_N_S_pin_controller_S_i2c1_sleep_S_group1 = \<lparr>
      dt_path = ''/pin-controller/i2c1_sleep/group1'',
      dt_name = ''group1'',
      dt_parent = Some 34, dt_child_idx = Some 0,
      dt_labels = [], dt_ancestors = [34, 27, 0],
      dt_children = [],
      dt_children_okay = [],
      dt_hash = ''5ik2tRUVrz_ztSNguJqbtoRjVyrGBZ_QsiRuKDBh2do'',
      dt_ord = 35, dt_requires = [34],
      dt_supports = [],
      dt_ids = [],
      dt_bus = None,
      dt_regs = [], dt_reg_names = [],
      dt_irqs = [], dt_irq_level = 0,
      dt_compats = [],
      dt_vendors = [], dt_models = [],
      dt_okay = True \<rparr>"

definition DT_N_S_pin_controller_S_pwm0_default :: dt_node where [dt_defs]:
  "DT_N_S_pin_controller_S_pwm0_default = \<lparr>
      dt_path = ''/pin-controller/pwm0_default'',
      dt_name = ''pwm0_default'',
      dt_parent = Some 27, dt_child_idx = Some 8,
      dt_labels = [''pwm0_default''], dt_ancestors = [27, 0],
      dt_children = [37],
      dt_children_okay = [37],
      dt_hash = ''9oWiR8R4oPwvPO8sXxVfK2EpDjfKtH9mWj1gHEnn9fQ'',
      dt_ord = 36, dt_requires = [27],
      dt_supports = [37, 71],
      dt_ids = [''NODELABEL_pwm0_default''],
      dt_bus = None,
      dt_regs = [], dt_reg_names = [],
      dt_irqs = [], dt_irq_level = 0,
      dt_compats = [],
      dt_vendors = [], dt_models = [],
      dt_okay = True \<rparr>"

definition DT_N_S_pin_controller_S_pwm0_default_S_group1 :: dt_node where [dt_defs]:
  "DT_N_S_pin_controller_S_pwm0_default_S_group1 = \<lparr>
      dt_path = ''/pin-controller/pwm0_default/group1'',
      dt_name = ''group1'',
      dt_parent = Some 36, dt_child_idx = Some 0,
      dt_labels = [], dt_ancestors = [36, 27, 0],
      dt_children = [],
      dt_children_okay = [],
      dt_hash = ''cc05pKzr2MDCWnaDL6IL3H3sL_eNcCLaTwz34XAppxk'',
      dt_ord = 37, dt_requires = [36],
      dt_supports = [],
      dt_ids = [],
      dt_bus = None,
      dt_regs = [], dt_reg_names = [],
      dt_irqs = [], dt_irq_level = 0,
      dt_compats = [],
      dt_vendors = [], dt_models = [],
      dt_okay = True \<rparr>"

definition DT_N_S_pin_controller_S_pwm0_sleep :: dt_node where [dt_defs]:
  "DT_N_S_pin_controller_S_pwm0_sleep = \<lparr>
      dt_path = ''/pin-controller/pwm0_sleep'',
      dt_name = ''pwm0_sleep'',
      dt_parent = Some 27, dt_child_idx = Some 9,
      dt_labels = [''pwm0_sleep''], dt_ancestors = [27, 0],
      dt_children = [39],
      dt_children_okay = [39],
      dt_hash = ''qv_NHjqrvOCDd6NtfkgyojtvU_vkjL_Bk866X79fS4o'',
      dt_ord = 38, dt_requires = [27],
      dt_supports = [39, 71],
      dt_ids = [''NODELABEL_pwm0_sleep''],
      dt_bus = None,
      dt_regs = [], dt_reg_names = [],
      dt_irqs = [], dt_irq_level = 0,
      dt_compats = [],
      dt_vendors = [], dt_models = [],
      dt_okay = True \<rparr>"

definition DT_N_S_pin_controller_S_pwm0_sleep_S_group1 :: dt_node where [dt_defs]:
  "DT_N_S_pin_controller_S_pwm0_sleep_S_group1 = \<lparr>
      dt_path = ''/pin-controller/pwm0_sleep/group1'',
      dt_name = ''group1'',
      dt_parent = Some 38, dt_child_idx = Some 0,
      dt_labels = [], dt_ancestors = [38, 27, 0],
      dt_children = [],
      dt_children_okay = [],
      dt_hash = ''PYgdmiPiyUDbxZMC30tJiLPxUFycb7_XbXmijj9u_Vo'',
      dt_ord = 39, dt_requires = [38],
      dt_supports = [],
      dt_ids = [],
      dt_bus = None,
      dt_regs = [], dt_reg_names = [],
      dt_irqs = [], dt_irq_level = 0,
      dt_compats = [],
      dt_vendors = [], dt_models = [],
      dt_okay = True \<rparr>"

definition DT_N_S_pin_controller_S_qspi_default :: dt_node where [dt_defs]:
  "DT_N_S_pin_controller_S_qspi_default = \<lparr>
      dt_path = ''/pin-controller/qspi_default'',
      dt_name = ''qspi_default'',
      dt_parent = Some 27, dt_child_idx = Some 16,
      dt_labels = [''qspi_default''], dt_ancestors = [27, 0],
      dt_children = [41],
      dt_children_okay = [41],
      dt_hash = ''r8hmEr88ITyf7cSn3H2UOCMwGyEIjSQHgMSNSL4UP90'',
      dt_ord = 40, dt_requires = [27],
      dt_supports = [41, 132],
      dt_ids = [''NODELABEL_qspi_default''],
      dt_bus = None,
      dt_regs = [], dt_reg_names = [],
      dt_irqs = [], dt_irq_level = 0,
      dt_compats = [],
      dt_vendors = [], dt_models = [],
      dt_okay = True \<rparr>"

definition DT_N_S_pin_controller_S_qspi_default_S_group1 :: dt_node where [dt_defs]:
  "DT_N_S_pin_controller_S_qspi_default_S_group1 = \<lparr>
      dt_path = ''/pin-controller/qspi_default/group1'',
      dt_name = ''group1'',
      dt_parent = Some 40, dt_child_idx = Some 0,
      dt_labels = [], dt_ancestors = [40, 27, 0],
      dt_children = [],
      dt_children_okay = [],
      dt_hash = ''ABfpLvT07_2mjwNnpf_D3cYOrKMo_REjD06qIDmTAAM'',
      dt_ord = 41, dt_requires = [40],
      dt_supports = [],
      dt_ids = [],
      dt_bus = None,
      dt_regs = [], dt_reg_names = [],
      dt_irqs = [], dt_irq_level = 0,
      dt_compats = [],
      dt_vendors = [], dt_models = [],
      dt_okay = True \<rparr>"

definition DT_N_S_pin_controller_S_qspi_sleep :: dt_node where [dt_defs]:
  "DT_N_S_pin_controller_S_qspi_sleep = \<lparr>
      dt_path = ''/pin-controller/qspi_sleep'',
      dt_name = ''qspi_sleep'',
      dt_parent = Some 27, dt_child_idx = Some 17,
      dt_labels = [''qspi_sleep''], dt_ancestors = [27, 0],
      dt_children = [43, 44],
      dt_children_okay = [43, 44],
      dt_hash = ''Nr2c7y3mA_B46tgWg7FMfUe_4Gtz3W2ooIGt9erHcVU'',
      dt_ord = 42, dt_requires = [27],
      dt_supports = [43, 44, 132],
      dt_ids = [''NODELABEL_qspi_sleep''],
      dt_bus = None,
      dt_regs = [], dt_reg_names = [],
      dt_irqs = [], dt_irq_level = 0,
      dt_compats = [],
      dt_vendors = [], dt_models = [],
      dt_okay = True \<rparr>"

definition DT_N_S_pin_controller_S_qspi_sleep_S_group1 :: dt_node where [dt_defs]:
  "DT_N_S_pin_controller_S_qspi_sleep_S_group1 = \<lparr>
      dt_path = ''/pin-controller/qspi_sleep/group1'',
      dt_name = ''group1'',
      dt_parent = Some 42, dt_child_idx = Some 0,
      dt_labels = [], dt_ancestors = [42, 27, 0],
      dt_children = [],
      dt_children_okay = [],
      dt_hash = ''QYxygGTJB47Ye5AUd3ADULWw7NgDOUIj6YD6ugSCgkk'',
      dt_ord = 43, dt_requires = [42],
      dt_supports = [],
      dt_ids = [],
      dt_bus = None,
      dt_regs = [], dt_reg_names = [],
      dt_irqs = [], dt_irq_level = 0,
      dt_compats = [],
      dt_vendors = [], dt_models = [],
      dt_okay = True \<rparr>"

definition DT_N_S_pin_controller_S_qspi_sleep_S_group2 :: dt_node where [dt_defs]:
  "DT_N_S_pin_controller_S_qspi_sleep_S_group2 = \<lparr>
      dt_path = ''/pin-controller/qspi_sleep/group2'',
      dt_name = ''group2'',
      dt_parent = Some 42, dt_child_idx = Some 1,
      dt_labels = [], dt_ancestors = [42, 27, 0],
      dt_children = [],
      dt_children_okay = [],
      dt_hash = ''zk2Rui21wPpyE5zd43hJHB7QIK8i9Eq4tz5GYAMMN00'',
      dt_ord = 44, dt_requires = [42],
      dt_supports = [],
      dt_ids = [],
      dt_bus = None,
      dt_regs = [], dt_reg_names = [],
      dt_irqs = [], dt_irq_level = 0,
      dt_compats = [],
      dt_vendors = [], dt_models = [],
      dt_okay = True \<rparr>"

definition DT_N_S_pin_controller_S_spi0_default :: dt_node where [dt_defs]:
  "DT_N_S_pin_controller_S_spi0_default = \<lparr>
      dt_path = ''/pin-controller/spi0_default'',
      dt_name = ''spi0_default'',
      dt_parent = Some 27, dt_child_idx = Some 10,
      dt_labels = [''spi0_default''], dt_ancestors = [27, 0],
      dt_children = [46],
      dt_children_okay = [46],
      dt_hash = ''ajJ2fx2Nn98Z3zsXnYdkU2Jz_X96RmXiCjmRiGdWBQs'',
      dt_ord = 45, dt_requires = [27],
      dt_supports = [46, 104, 138],
      dt_ids = [''NODELABEL_spi0_default''],
      dt_bus = None,
      dt_regs = [], dt_reg_names = [],
      dt_irqs = [], dt_irq_level = 0,
      dt_compats = [],
      dt_vendors = [], dt_models = [],
      dt_okay = True \<rparr>"

definition DT_N_S_pin_controller_S_spi0_default_S_group1 :: dt_node where [dt_defs]:
  "DT_N_S_pin_controller_S_spi0_default_S_group1 = \<lparr>
      dt_path = ''/pin-controller/spi0_default/group1'',
      dt_name = ''group1'',
      dt_parent = Some 45, dt_child_idx = Some 0,
      dt_labels = [], dt_ancestors = [45, 27, 0],
      dt_children = [],
      dt_children_okay = [],
      dt_hash = ''gmPs7uwwmOQGSyk8_3No_eqLrOjjz8XaGzqn4h8ix3w'',
      dt_ord = 46, dt_requires = [45],
      dt_supports = [],
      dt_ids = [],
      dt_bus = None,
      dt_regs = [], dt_reg_names = [],
      dt_irqs = [], dt_irq_level = 0,
      dt_compats = [],
      dt_vendors = [], dt_models = [],
      dt_okay = True \<rparr>"

definition DT_N_S_pin_controller_S_spi0_sleep :: dt_node where [dt_defs]:
  "DT_N_S_pin_controller_S_spi0_sleep = \<lparr>
      dt_path = ''/pin-controller/spi0_sleep'',
      dt_name = ''spi0_sleep'',
      dt_parent = Some 27, dt_child_idx = Some 11,
      dt_labels = [''spi0_sleep''], dt_ancestors = [27, 0],
      dt_children = [48],
      dt_children_okay = [48],
      dt_hash = ''dQWk5Me9l308cwN_BK0cQUeETh_fp2979fCGQUa1LWk'',
      dt_ord = 47, dt_requires = [27],
      dt_supports = [48, 104],
      dt_ids = [''NODELABEL_spi0_sleep''],
      dt_bus = None,
      dt_regs = [], dt_reg_names = [],
      dt_irqs = [], dt_irq_level = 0,
      dt_compats = [],
      dt_vendors = [], dt_models = [],
      dt_okay = True \<rparr>"

definition DT_N_S_pin_controller_S_spi0_sleep_S_group1 :: dt_node where [dt_defs]:
  "DT_N_S_pin_controller_S_spi0_sleep_S_group1 = \<lparr>
      dt_path = ''/pin-controller/spi0_sleep/group1'',
      dt_name = ''group1'',
      dt_parent = Some 47, dt_child_idx = Some 0,
      dt_labels = [], dt_ancestors = [47, 27, 0],
      dt_children = [],
      dt_children_okay = [],
      dt_hash = ''M4GLkcdQ6USt9a1EgznU6vNaRfDimwuh1rWRtC8ifZU'',
      dt_ord = 48, dt_requires = [47],
      dt_supports = [],
      dt_ids = [],
      dt_bus = None,
      dt_regs = [], dt_reg_names = [],
      dt_irqs = [], dt_irq_level = 0,
      dt_compats = [],
      dt_vendors = [], dt_models = [],
      dt_okay = True \<rparr>"

definition DT_N_S_pin_controller_S_spi1_default :: dt_node where [dt_defs]:
  "DT_N_S_pin_controller_S_spi1_default = \<lparr>
      dt_path = ''/pin-controller/spi1_default'',
      dt_name = ''spi1_default'',
      dt_parent = Some 27, dt_child_idx = Some 12,
      dt_labels = [''spi1_default''], dt_ancestors = [27, 0],
      dt_children = [50],
      dt_children_okay = [50],
      dt_hash = ''g5SaVqsHkylpnajxmg0WDLBGxrKgvdfoC8LnetCaVIQ'',
      dt_ord = 49, dt_requires = [27],
      dt_supports = [50],
      dt_ids = [''NODELABEL_spi1_default''],
      dt_bus = None,
      dt_regs = [], dt_reg_names = [],
      dt_irqs = [], dt_irq_level = 0,
      dt_compats = [],
      dt_vendors = [], dt_models = [],
      dt_okay = True \<rparr>"

definition DT_N_S_pin_controller_S_spi1_default_S_group1 :: dt_node where [dt_defs]:
  "DT_N_S_pin_controller_S_spi1_default_S_group1 = \<lparr>
      dt_path = ''/pin-controller/spi1_default/group1'',
      dt_name = ''group1'',
      dt_parent = Some 49, dt_child_idx = Some 0,
      dt_labels = [], dt_ancestors = [49, 27, 0],
      dt_children = [],
      dt_children_okay = [],
      dt_hash = ''zgJ2DRf9IInxBLjf6ypM_C8cSd0JCTvtrk_M3Zy8gh8'',
      dt_ord = 50, dt_requires = [49],
      dt_supports = [],
      dt_ids = [],
      dt_bus = None,
      dt_regs = [], dt_reg_names = [],
      dt_irqs = [], dt_irq_level = 0,
      dt_compats = [],
      dt_vendors = [], dt_models = [],
      dt_okay = True \<rparr>"

definition DT_N_S_pin_controller_S_spi1_sleep :: dt_node where [dt_defs]:
  "DT_N_S_pin_controller_S_spi1_sleep = \<lparr>
      dt_path = ''/pin-controller/spi1_sleep'',
      dt_name = ''spi1_sleep'',
      dt_parent = Some 27, dt_child_idx = Some 13,
      dt_labels = [''spi1_sleep''], dt_ancestors = [27, 0],
      dt_children = [52],
      dt_children_okay = [52],
      dt_hash = ''l5K3NiKc3V98bkxAMd8Gs2DfUiIgSY039OmBHADoxNA'',
      dt_ord = 51, dt_requires = [27],
      dt_supports = [52, 138],
      dt_ids = [''NODELABEL_spi1_sleep''],
      dt_bus = None,
      dt_regs = [], dt_reg_names = [],
      dt_irqs = [], dt_irq_level = 0,
      dt_compats = [],
      dt_vendors = [], dt_models = [],
      dt_okay = True \<rparr>"

definition DT_N_S_pin_controller_S_spi1_sleep_S_group1 :: dt_node where [dt_defs]:
  "DT_N_S_pin_controller_S_spi1_sleep_S_group1 = \<lparr>
      dt_path = ''/pin-controller/spi1_sleep/group1'',
      dt_name = ''group1'',
      dt_parent = Some 51, dt_child_idx = Some 0,
      dt_labels = [], dt_ancestors = [51, 27, 0],
      dt_children = [],
      dt_children_okay = [],
      dt_hash = ''tzOsNumx_edwxAn_XFYVtoB5hXWwRsz6McCcdWLLXmk'',
      dt_ord = 52, dt_requires = [51],
      dt_supports = [],
      dt_ids = [],
      dt_bus = None,
      dt_regs = [], dt_reg_names = [],
      dt_irqs = [], dt_irq_level = 0,
      dt_compats = [],
      dt_vendors = [], dt_models = [],
      dt_okay = True \<rparr>"

definition DT_N_S_pin_controller_S_spi2_default :: dt_node where [dt_defs]:
  "DT_N_S_pin_controller_S_spi2_default = \<lparr>
      dt_path = ''/pin-controller/spi2_default'',
      dt_name = ''spi2_default'',
      dt_parent = Some 27, dt_child_idx = Some 14,
      dt_labels = [''spi2_default''], dt_ancestors = [27, 0],
      dt_children = [54],
      dt_children_okay = [54],
      dt_hash = ''WVdAV4qgUQVa_twSqTaIPnaTfIZhNlQp4Q_Tsvsh4Rg'',
      dt_ord = 53, dt_requires = [27],
      dt_supports = [54, 105],
      dt_ids = [''NODELABEL_spi2_default''],
      dt_bus = None,
      dt_regs = [], dt_reg_names = [],
      dt_irqs = [], dt_irq_level = 0,
      dt_compats = [],
      dt_vendors = [], dt_models = [],
      dt_okay = True \<rparr>"

definition DT_N_S_pin_controller_S_spi2_default_S_group1 :: dt_node where [dt_defs]:
  "DT_N_S_pin_controller_S_spi2_default_S_group1 = \<lparr>
      dt_path = ''/pin-controller/spi2_default/group1'',
      dt_name = ''group1'',
      dt_parent = Some 53, dt_child_idx = Some 0,
      dt_labels = [], dt_ancestors = [53, 27, 0],
      dt_children = [],
      dt_children_okay = [],
      dt_hash = ''J5E_puTWdLwmXKBlY0e38w6HjtMu_utkYAZ3sUwyzeM'',
      dt_ord = 54, dt_requires = [53],
      dt_supports = [],
      dt_ids = [],
      dt_bus = None,
      dt_regs = [], dt_reg_names = [],
      dt_irqs = [], dt_irq_level = 0,
      dt_compats = [],
      dt_vendors = [], dt_models = [],
      dt_okay = True \<rparr>"

definition DT_N_S_pin_controller_S_spi2_sleep :: dt_node where [dt_defs]:
  "DT_N_S_pin_controller_S_spi2_sleep = \<lparr>
      dt_path = ''/pin-controller/spi2_sleep'',
      dt_name = ''spi2_sleep'',
      dt_parent = Some 27, dt_child_idx = Some 15,
      dt_labels = [''spi2_sleep''], dt_ancestors = [27, 0],
      dt_children = [56],
      dt_children_okay = [56],
      dt_hash = ''SqdTc3c1e2ksZOFstH8bB40Xs6okbQAhJyHqOtn1OEg'',
      dt_ord = 55, dt_requires = [27],
      dt_supports = [56, 105],
      dt_ids = [''NODELABEL_spi2_sleep''],
      dt_bus = None,
      dt_regs = [], dt_reg_names = [],
      dt_irqs = [], dt_irq_level = 0,
      dt_compats = [],
      dt_vendors = [], dt_models = [],
      dt_okay = True \<rparr>"

definition DT_N_S_pin_controller_S_spi2_sleep_S_group1 :: dt_node where [dt_defs]:
  "DT_N_S_pin_controller_S_spi2_sleep_S_group1 = \<lparr>
      dt_path = ''/pin-controller/spi2_sleep/group1'',
      dt_name = ''group1'',
      dt_parent = Some 55, dt_child_idx = Some 0,
      dt_labels = [], dt_ancestors = [55, 27, 0],
      dt_children = [],
      dt_children_okay = [],
      dt_hash = ''tqjqQrdshPJcea7qTrP8wnWj2MQBUUSmzZ1Aty6HD9g'',
      dt_ord = 56, dt_requires = [55],
      dt_supports = [],
      dt_ids = [],
      dt_bus = None,
      dt_regs = [], dt_reg_names = [],
      dt_irqs = [], dt_irq_level = 0,
      dt_compats = [],
      dt_vendors = [], dt_models = [],
      dt_okay = True \<rparr>"

definition DT_N_S_pin_controller_S_spi3_default :: dt_node where [dt_defs]:
  "DT_N_S_pin_controller_S_spi3_default = \<lparr>
      dt_path = ''/pin-controller/spi3_default'',
      dt_name = ''spi3_default'',
      dt_parent = Some 27, dt_child_idx = Some 18,
      dt_labels = [''spi3_default''], dt_ancestors = [27, 0],
      dt_children = [58],
      dt_children_okay = [58],
      dt_hash = ''tsLPH8sNb2N_IuNvpXE43gILkF_HZXCxSVylKpsHmsU'',
      dt_ord = 57, dt_requires = [27],
      dt_supports = [58, 107],
      dt_ids = [''NODELABEL_spi3_default''],
      dt_bus = None,
      dt_regs = [], dt_reg_names = [],
      dt_irqs = [], dt_irq_level = 0,
      dt_compats = [],
      dt_vendors = [], dt_models = [],
      dt_okay = True \<rparr>"

definition DT_N_S_pin_controller_S_spi3_default_S_group1 :: dt_node where [dt_defs]:
  "DT_N_S_pin_controller_S_spi3_default_S_group1 = \<lparr>
      dt_path = ''/pin-controller/spi3_default/group1'',
      dt_name = ''group1'',
      dt_parent = Some 57, dt_child_idx = Some 0,
      dt_labels = [], dt_ancestors = [57, 27, 0],
      dt_children = [],
      dt_children_okay = [],
      dt_hash = ''JCD_HZ96USRlHfJ_vhWwyJRqXWAPJ3lIANc9Dsys_7M'',
      dt_ord = 58, dt_requires = [57],
      dt_supports = [],
      dt_ids = [],
      dt_bus = None,
      dt_regs = [], dt_reg_names = [],
      dt_irqs = [], dt_irq_level = 0,
      dt_compats = [],
      dt_vendors = [], dt_models = [],
      dt_okay = True \<rparr>"

definition DT_N_S_pin_controller_S_spi3_sleep :: dt_node where [dt_defs]:
  "DT_N_S_pin_controller_S_spi3_sleep = \<lparr>
      dt_path = ''/pin-controller/spi3_sleep'',
      dt_name = ''spi3_sleep'',
      dt_parent = Some 27, dt_child_idx = Some 19,
      dt_labels = [''spi3_sleep''], dt_ancestors = [27, 0],
      dt_children = [60],
      dt_children_okay = [60],
      dt_hash = ''s_gMm3xpnX_ePz5SWGB3CrJhGLZZl_STnaq2i_pwynA'',
      dt_ord = 59, dt_requires = [27],
      dt_supports = [60, 107],
      dt_ids = [''NODELABEL_spi3_sleep''],
      dt_bus = None,
      dt_regs = [], dt_reg_names = [],
      dt_irqs = [], dt_irq_level = 0,
      dt_compats = [],
      dt_vendors = [], dt_models = [],
      dt_okay = True \<rparr>"

definition DT_N_S_pin_controller_S_spi3_sleep_S_group1 :: dt_node where [dt_defs]:
  "DT_N_S_pin_controller_S_spi3_sleep_S_group1 = \<lparr>
      dt_path = ''/pin-controller/spi3_sleep/group1'',
      dt_name = ''group1'',
      dt_parent = Some 59, dt_child_idx = Some 0,
      dt_labels = [], dt_ancestors = [59, 27, 0],
      dt_children = [],
      dt_children_okay = [],
      dt_hash = ''Kqz7bC57YHJBdyYHnWfij5_9YYHfQhwRALjT1Ij_kLU'',
      dt_ord = 60, dt_requires = [59],
      dt_supports = [],
      dt_ids = [],
      dt_bus = None,
      dt_regs = [], dt_reg_names = [],
      dt_irqs = [], dt_irq_level = 0,
      dt_compats = [],
      dt_vendors = [], dt_models = [],
      dt_okay = True \<rparr>"

definition DT_N_S_pin_controller_S_uart0_default :: dt_node where [dt_defs]:
  "DT_N_S_pin_controller_S_uart0_default = \<lparr>
      dt_path = ''/pin-controller/uart0_default'',
      dt_name = ''uart0_default'',
      dt_parent = Some 27, dt_child_idx = Some 0,
      dt_labels = [''uart0_default''], dt_ancestors = [27, 0],
      dt_children = [62, 63],
      dt_children_okay = [62, 63],
      dt_hash = ''hpPoQq5QYEcDym1g2JBVllTKxA90m_i7KnAuJScDL4o'',
      dt_ord = 61, dt_requires = [27],
      dt_supports = [62, 63, 114],
      dt_ids = [''NODELABEL_uart0_default''],
      dt_bus = None,
      dt_regs = [], dt_reg_names = [],
      dt_irqs = [], dt_irq_level = 0,
      dt_compats = [],
      dt_vendors = [], dt_models = [],
      dt_okay = True \<rparr>"

definition DT_N_S_pin_controller_S_uart0_default_S_group1 :: dt_node where [dt_defs]:
  "DT_N_S_pin_controller_S_uart0_default_S_group1 = \<lparr>
      dt_path = ''/pin-controller/uart0_default/group1'',
      dt_name = ''group1'',
      dt_parent = Some 61, dt_child_idx = Some 0,
      dt_labels = [], dt_ancestors = [61, 27, 0],
      dt_children = [],
      dt_children_okay = [],
      dt_hash = ''mw9A94JnX0K15LdzaqSiBYHstgeiBk__IFPWTJ90zX0'',
      dt_ord = 62, dt_requires = [61],
      dt_supports = [],
      dt_ids = [],
      dt_bus = None,
      dt_regs = [], dt_reg_names = [],
      dt_irqs = [], dt_irq_level = 0,
      dt_compats = [],
      dt_vendors = [], dt_models = [],
      dt_okay = True \<rparr>"

definition DT_N_S_pin_controller_S_uart0_default_S_group2 :: dt_node where [dt_defs]:
  "DT_N_S_pin_controller_S_uart0_default_S_group2 = \<lparr>
      dt_path = ''/pin-controller/uart0_default/group2'',
      dt_name = ''group2'',
      dt_parent = Some 61, dt_child_idx = Some 1,
      dt_labels = [], dt_ancestors = [61, 27, 0],
      dt_children = [],
      dt_children_okay = [],
      dt_hash = ''OhplDHWYl94QPNbqB4nVbAksIsz36XFx3_uS1MnAXRo'',
      dt_ord = 63, dt_requires = [61],
      dt_supports = [],
      dt_ids = [],
      dt_bus = None,
      dt_regs = [], dt_reg_names = [],
      dt_irqs = [], dt_irq_level = 0,
      dt_compats = [],
      dt_vendors = [], dt_models = [],
      dt_okay = True \<rparr>"

definition DT_N_S_pin_controller_S_uart0_sleep :: dt_node where [dt_defs]:
  "DT_N_S_pin_controller_S_uart0_sleep = \<lparr>
      dt_path = ''/pin-controller/uart0_sleep'',
      dt_name = ''uart0_sleep'',
      dt_parent = Some 27, dt_child_idx = Some 1,
      dt_labels = [''uart0_sleep''], dt_ancestors = [27, 0],
      dt_children = [65],
      dt_children_okay = [65],
      dt_hash = ''wkS6Z3dvWm_7v8eMcSJA0qHxZrSqKKxrIBME_38dOZM'',
      dt_ord = 64, dt_requires = [27],
      dt_supports = [65, 114],
      dt_ids = [''NODELABEL_uart0_sleep''],
      dt_bus = None,
      dt_regs = [], dt_reg_names = [],
      dt_irqs = [], dt_irq_level = 0,
      dt_compats = [],
      dt_vendors = [], dt_models = [],
      dt_okay = True \<rparr>"

definition DT_N_S_pin_controller_S_uart0_sleep_S_group1 :: dt_node where [dt_defs]:
  "DT_N_S_pin_controller_S_uart0_sleep_S_group1 = \<lparr>
      dt_path = ''/pin-controller/uart0_sleep/group1'',
      dt_name = ''group1'',
      dt_parent = Some 64, dt_child_idx = Some 0,
      dt_labels = [], dt_ancestors = [64, 27, 0],
      dt_children = [],
      dt_children_okay = [],
      dt_hash = ''u5GIav0pofWTMcjcyDjzOAG1KufBfsy69jVFQUYwLn0'',
      dt_ord = 65, dt_requires = [64],
      dt_supports = [],
      dt_ids = [],
      dt_bus = None,
      dt_regs = [], dt_reg_names = [],
      dt_irqs = [], dt_irq_level = 0,
      dt_compats = [],
      dt_vendors = [], dt_models = [],
      dt_okay = True \<rparr>"

definition DT_N_S_pin_controller_S_uart1_default :: dt_node where [dt_defs]:
  "DT_N_S_pin_controller_S_uart1_default = \<lparr>
      dt_path = ''/pin-controller/uart1_default'',
      dt_name = ''uart1_default'',
      dt_parent = Some 27, dt_child_idx = Some 2,
      dt_labels = [''uart1_default''], dt_ancestors = [27, 0],
      dt_children = [67, 68],
      dt_children_okay = [67, 68],
      dt_hash = ''Za3R9RQFTTeTNTsukpYfmI5vvUCv8X0sGpn_TdFPSws'',
      dt_ord = 66, dt_requires = [27],
      dt_supports = [67, 68, 115],
      dt_ids = [''NODELABEL_uart1_default''],
      dt_bus = None,
      dt_regs = [], dt_reg_names = [],
      dt_irqs = [], dt_irq_level = 0,
      dt_compats = [],
      dt_vendors = [], dt_models = [],
      dt_okay = True \<rparr>"

definition DT_N_S_pin_controller_S_uart1_default_S_group1 :: dt_node where [dt_defs]:
  "DT_N_S_pin_controller_S_uart1_default_S_group1 = \<lparr>
      dt_path = ''/pin-controller/uart1_default/group1'',
      dt_name = ''group1'',
      dt_parent = Some 66, dt_child_idx = Some 0,
      dt_labels = [], dt_ancestors = [66, 27, 0],
      dt_children = [],
      dt_children_okay = [],
      dt_hash = ''4gmTcArfeyRCUqxUGGAfveDAntz196es6EtTlUsIqHU'',
      dt_ord = 67, dt_requires = [66],
      dt_supports = [],
      dt_ids = [],
      dt_bus = None,
      dt_regs = [], dt_reg_names = [],
      dt_irqs = [], dt_irq_level = 0,
      dt_compats = [],
      dt_vendors = [], dt_models = [],
      dt_okay = True \<rparr>"

definition DT_N_S_pin_controller_S_uart1_default_S_group2 :: dt_node where [dt_defs]:
  "DT_N_S_pin_controller_S_uart1_default_S_group2 = \<lparr>
      dt_path = ''/pin-controller/uart1_default/group2'',
      dt_name = ''group2'',
      dt_parent = Some 66, dt_child_idx = Some 1,
      dt_labels = [], dt_ancestors = [66, 27, 0],
      dt_children = [],
      dt_children_okay = [],
      dt_hash = ''6ELlh0iX_Udb9B7oGb38aHVE3rZMi1d6XkvfucuUmgw'',
      dt_ord = 68, dt_requires = [66],
      dt_supports = [],
      dt_ids = [],
      dt_bus = None,
      dt_regs = [], dt_reg_names = [],
      dt_irqs = [], dt_irq_level = 0,
      dt_compats = [],
      dt_vendors = [], dt_models = [],
      dt_okay = True \<rparr>"

definition DT_N_S_pin_controller_S_uart1_sleep :: dt_node where [dt_defs]:
  "DT_N_S_pin_controller_S_uart1_sleep = \<lparr>
      dt_path = ''/pin-controller/uart1_sleep'',
      dt_name = ''uart1_sleep'',
      dt_parent = Some 27, dt_child_idx = Some 3,
      dt_labels = [''uart1_sleep''], dt_ancestors = [27, 0],
      dt_children = [70],
      dt_children_okay = [70],
      dt_hash = ''o_l83UWJaRt6ck7sOSp3hUkPoP9tlLJVz5UoZnIMz5s'',
      dt_ord = 69, dt_requires = [27],
      dt_supports = [70, 115],
      dt_ids = [''NODELABEL_uart1_sleep''],
      dt_bus = None,
      dt_regs = [], dt_reg_names = [],
      dt_irqs = [], dt_irq_level = 0,
      dt_compats = [],
      dt_vendors = [], dt_models = [],
      dt_okay = True \<rparr>"

definition DT_N_S_pin_controller_S_uart1_sleep_S_group1 :: dt_node where [dt_defs]:
  "DT_N_S_pin_controller_S_uart1_sleep_S_group1 = \<lparr>
      dt_path = ''/pin-controller/uart1_sleep/group1'',
      dt_name = ''group1'',
      dt_parent = Some 69, dt_child_idx = Some 0,
      dt_labels = [], dt_ancestors = [69, 27, 0],
      dt_children = [],
      dt_children_okay = [],
      dt_hash = ''dxiE2nYRGUvLdikKPHIhZV9FWKQcrLdhAc7x69_UbIM'',
      dt_ord = 70, dt_requires = [69],
      dt_supports = [],
      dt_ids = [],
      dt_bus = None,
      dt_regs = [], dt_reg_names = [],
      dt_irqs = [], dt_irq_level = 0,
      dt_compats = [],
      dt_vendors = [], dt_models = [],
      dt_okay = True \<rparr>"

definition DT_N_S_soc_S_pwm_4001c000 :: dt_node where [dt_defs]:
  "DT_N_S_soc_S_pwm_4001c000 = \<lparr>
      dt_path = ''/soc/pwm@4001c000'',
      dt_name = ''pwm@4001c000'',
      dt_parent = Some 6, dt_child_idx = Some 36,
      dt_labels = [''pwm0''], dt_ancestors = [6, 0],
      dt_children = [],
      dt_children_okay = [],
      dt_hash = ''9lQEfUJwIRaZ7T_RLwtmpK6wLktpHMLYr2ybjScM3SQ'',
      dt_ord = 71, dt_requires = [6, 7, 36, 38],
      dt_supports = [72, 73],
      dt_ids = [''INST_0_nordic_nrf_pwm'', ''NODELABEL_pwm0''],
      dt_bus = None,
      dt_regs = [(1073856512, Some 4096)], dt_reg_names = [],
      dt_irqs = [(28, 1, 7)], dt_irq_level = 1,
      dt_compats = [''nordic_nrf_pwm''],
      dt_vendors = [(0, ''Nordic Semiconductor'')], dt_models = [(0, ''nrf-pwm'')],
      dt_okay = True \<rparr>"

end
