(* ===== verification/Devicetree_Soc.thy ===== *)
theory Devicetree_Soc
  imports Devicetree
begin

text \<open>
  The nodes of \<^verbatim>\<open>devicetree_generated.h\<close> with ordinals 72 to 140: the peripherals of the chip, the
  flash partitions, the radio, and the nRF7002 on its SPI bus.
\<close>

definition DT_N_S_pwmleds :: dt_node where [dt_defs]:
  "DT_N_S_pwmleds = \<lparr>
      dt_path = ''/pwmleds'',
      dt_name = ''pwmleds'',
      dt_parent = Some 0, dt_child_idx = Some 9,
      dt_labels = [], dt_ancestors = [0],
      dt_children = [73],
      dt_children_okay = [73],
      dt_hash = ''LAVLDxln4k2d8rWkHY5gWY_V_wbRKRVUOItR1NgXPw4'',
      dt_ord = 72, dt_requires = [0, 71],
      dt_supports = [73],
      dt_ids = [''INST_0_pwm_leds''],
      dt_bus = None,
      dt_regs = [], dt_reg_names = [],
      dt_irqs = [], dt_irq_level = 0,
      dt_compats = [''pwm_leds''],
      dt_vendors = [], dt_models = [],
      dt_okay = True \<rparr>"

definition DT_N_S_pwmleds_S_pwm_led_0 :: dt_node where [dt_defs]:
  "DT_N_S_pwmleds_S_pwm_led_0 = \<lparr>
      dt_path = ''/pwmleds/pwm_led_0'',
      dt_name = ''pwm_led_0'',
      dt_parent = Some 72, dt_child_idx = Some 0,
      dt_labels = [''pwm_led0''], dt_ancestors = [72, 0],
      dt_children = [],
      dt_children_okay = [],
      dt_hash = ''9AazpJGoUz9iIo_1AZ3WD6yneQZjjssfQisq6_rbYq0'',
      dt_ord = 73, dt_requires = [71, 72],
      dt_supports = [],
      dt_ids = [''ALIAS_pwm_led0'', ''NODELABEL_pwm_led0''],
      dt_bus = None,
      dt_regs = [], dt_reg_names = [],
      dt_irqs = [], dt_irq_level = 0,
      dt_compats = [],
      dt_vendors = [], dt_models = [],
      dt_okay = True \<rparr>"

definition DT_N_S_soc_S_acl_4001e000 :: dt_node where [dt_defs]:
  "DT_N_S_soc_S_acl_4001e000 = \<lparr>
      dt_path = ''/soc/acl@4001e000'',
      dt_name = ''acl@4001e000'',
      dt_parent = Some 6, dt_child_idx = Some 38,
      dt_labels = [''acl''], dt_ancestors = [6, 0],
      dt_children = [],
      dt_children_okay = [],
      dt_hash = ''7kj65f2L7WWgManaCCM2I49zKsamNjoDwoHK4eAzFMI'',
      dt_ord = 74, dt_requires = [6],
      dt_supports = [],
      dt_ids = [''INST_0_nordic_nrf_acl'', ''NODELABEL_acl''],
      dt_bus = None,
      dt_regs = [(1073864704, Some 4096)], dt_reg_names = [],
      dt_irqs = [], dt_irq_level = 0,
      dt_compats = [''nordic_nrf_acl''],
      dt_vendors = [(0, ''Nordic Semiconductor'')], dt_models = [(0, ''nrf-acl'')],
      dt_okay = True \<rparr>"

definition DT_N_S_soc_S_adc_40007000 :: dt_node where [dt_defs]:
  "DT_N_S_soc_S_adc_40007000 = \<lparr>
      dt_path = ''/soc/adc@40007000'',
      dt_name = ''adc@40007000'',
      dt_parent = Some 6, dt_child_idx = Some 15,
      dt_labels = [''adc''], dt_ancestors = [6, 0],
      dt_children = [],
      dt_children_okay = [],
      dt_hash = ''tXynCvE4WGk6sXMVYrs4uEl6i0QBQkUoHsTb5OtXf8o'',
      dt_ord = 75, dt_requires = [6, 7],
      dt_supports = [],
      dt_ids = [''INST_0_nordic_nrf_saadc'', ''NODELABEL_adc''],
      dt_bus = None,
      dt_regs = [(1073770496, Some 4096)], dt_reg_names = [],
      dt_irqs = [(7, 1, 7)], dt_irq_level = 1,
      dt_compats = [''nordic_nrf_saadc''],
      dt_vendors = [(0, ''Nordic Semiconductor'')], dt_models = [(0, ''nrf-saadc'')],
      dt_okay = True \<rparr>"

definition DT_N_S_soc_S_ccm_4000f000 :: dt_node where [dt_defs]:
  "DT_N_S_soc_S_ccm_4000f000 = \<lparr>
      dt_path = ''/soc/ccm@4000f000'',
      dt_name = ''ccm@4000f000'',
      dt_parent = Some 6, dt_child_idx = Some 23,
      dt_labels = [''ccm''], dt_ancestors = [6, 0],
      dt_children = [],
      dt_children_okay = [],
      dt_hash = ''Vzk9T7ZFLw2MXfn57CMWBCLzvvWpjuWMyA53U6t_A3E'',
      dt_ord = 76, dt_requires = [6, 7],
      dt_supports = [],
      dt_ids = [''INST_0_nordic_nrf_ccm'', ''NODELABEL_ccm''],
      dt_bus = None,
      dt_regs = [(1073803264, Some 4096)], dt_reg_names = [],
      dt_irqs = [(15, 1, 7)], dt_irq_level = 1,
      dt_compats = [''nordic_nrf_ccm''],
      dt_vendors = [(0, ''Nordic Semiconductor'')], dt_models = [(0, ''nrf-ccm'')],
      dt_okay = True \<rparr>"

definition DT_N_S_soc_S_clock_40000000 :: dt_node where [dt_defs]:
  "DT_N_S_soc_S_clock_40000000 = \<lparr>
      dt_path = ''/soc/clock@40000000'',
      dt_name = ''clock@40000000'',
      dt_parent = Some 6, dt_child_idx = Some 5,
      dt_labels = [''clock''], dt_ancestors = [6, 0],
      dt_children = [],
      dt_children_okay = [],
      dt_hash = ''FtzHLpvIlIqbTh_VAtsOUvV6tZ5OnWg6O_NoQQAIirw'',
      dt_ord = 77, dt_requires = [6, 7],
      dt_supports = [],
      dt_ids = [''INST_0_nordic_nrf_clock'', ''NODELABEL_clock''],
      dt_bus = None,
      dt_regs = [(1073741824, Some 4096)], dt_reg_names = [],
      dt_irqs = [(0, 1, 7)], dt_irq_level = 1,
      dt_compats = [''nordic_nrf_clock''],
      dt_vendors = [(0, ''Nordic Semiconductor'')], dt_models = [(0, ''nrf-clock'')],
      dt_okay = True \<rparr>"

definition DT_N_S_soc_S_comparator_40013000 :: dt_node where [dt_defs]:
  "DT_N_S_soc_S_comparator_40013000 = \<lparr>
      dt_path = ''/soc/comparator@40013000'',
      dt_name = ''comparator@40013000'',
      dt_parent = Some 6, dt_child_idx = Some 27,
      dt_labels = [''comp''], dt_ancestors = [6, 0],
      dt_children = [],
      dt_children_okay = [],
      dt_hash = ''QKRd3UKZRPhKcK_wBdoTlOrkaiF7AsHHjXPougEqA4U'',
      dt_ord = 78, dt_requires = [6, 7],
      dt_supports = [],
      dt_ids = [''INST_0_nordic_nrf_comp'', ''NODELABEL_comp''],
      dt_bus = None,
      dt_regs = [(1073819648, Some 4096)], dt_reg_names = [],
      dt_irqs = [(19, 1, 7)], dt_irq_level = 1,
      dt_compats = [''nordic_nrf_comp''],
      dt_vendors = [(0, ''Nordic Semiconductor'')], dt_models = [(0, ''nrf-comp'')],
      dt_okay = False \<rparr>"

definition DT_N_S_soc_S_crypto_5002a000 :: dt_node where [dt_defs]:
  "DT_N_S_soc_S_crypto_5002a000 = \<lparr>
      dt_path = ''/soc/crypto@5002a000'',
      dt_name = ''crypto@5002a000'',
      dt_parent = Some 6, dt_child_idx = Some 54,
      dt_labels = [''cryptocell''], dt_ancestors = [6, 0],
      dt_children = [],
      dt_children_okay = [],
      dt_hash = ''l1ro2R8VQxlXsDbd5CB0_r8Fm4Vh2oOE9AugQsHdjqU'',
      dt_ord = 79, dt_requires = [6, 7],
      dt_supports = [],
      dt_ids = [''INST_0_arm_cryptocell_310'', ''NODELABEL_cryptocell''],
      dt_bus = None,
      dt_regs = [(1342349312, Some 4096), (1342353408, Some 4096)], dt_reg_names = [''wrapper'',
        ''core''],
      dt_irqs = [(42, 1, 7)], dt_irq_level = 1,
      dt_compats = [''arm_cryptocell_310''],
      dt_vendors = [(0, ''ARM Ltd.'')], dt_models = [(0, ''cryptocell-310'')],
      dt_okay = True \<rparr>"

definition DT_N_S_soc_S_ecb_4000e000 :: dt_node where [dt_defs]:
  "DT_N_S_soc_S_ecb_4000e000 = \<lparr>
      dt_path = ''/soc/ecb@4000e000'',
      dt_name = ''ecb@4000e000'',
      dt_parent = Some 6, dt_child_idx = Some 22,
      dt_labels = [''ecb''], dt_ancestors = [6, 0],
      dt_children = [],
      dt_children_okay = [],
      dt_hash = ''xqVkwa7kgG6PDi6YaZsGPdpNqP3KZHbhIoSe48AwlEA'',
      dt_ord = 80, dt_requires = [6, 7],
      dt_supports = [],
      dt_ids = [''INST_0_nordic_nrf_ecb'', ''NODELABEL_ecb''],
      dt_bus = None,
      dt_regs = [(1073799168, Some 4096)], dt_reg_names = [],
      dt_irqs = [(14, 1, 7)], dt_irq_level = 1,
      dt_compats = [''nordic_nrf_ecb''],
      dt_vendors = [(0, ''Nordic Semiconductor'')], dt_models = [(0, ''nrf-ecb'')],
      dt_okay = True \<rparr>"

definition DT_N_S_soc_S_egu_40014000 :: dt_node where [dt_defs]:
  "DT_N_S_soc_S_egu_40014000 = \<lparr>
      dt_path = ''/soc/egu@40014000'',
      dt_name = ''egu@40014000'',
      dt_parent = Some 6, dt_child_idx = Some 28,
      dt_labels = [''egu0'', ''swi0''], dt_ancestors = [6, 0],
      dt_children = [],
      dt_children_okay = [],
      dt_hash = ''8JnAL23NeK__MmQq5wuuE3nVUXkt3w4TGIDbEq8ozak'',
      dt_ord = 81, dt_requires = [6, 7],
      dt_supports = [],
      dt_ids = [''INST_0_nordic_nrf_egu'', ''INST_0_nordic_nrf_swi'', ''NODELABEL_egu0'',
        ''NODELABEL_swi0''],
      dt_bus = None,
      dt_regs = [(1073823744, Some 4096)], dt_reg_names = [],
      dt_irqs = [(20, 1, 7)], dt_irq_level = 1,
      dt_compats = [''nordic_nrf_egu'', ''nordic_nrf_swi''],
      dt_vendors = [(0, ''Nordic Semiconductor''), (1, ''Nordic Semiconductor'')], dt_models =
        [(0, ''nrf-egu''), (1, ''nrf-swi'')],
      dt_okay = True \<rparr>"

definition DT_N_S_soc_S_egu_40015000 :: dt_node where [dt_defs]:
  "DT_N_S_soc_S_egu_40015000 = \<lparr>
      dt_path = ''/soc/egu@40015000'',
      dt_name = ''egu@40015000'',
      dt_parent = Some 6, dt_child_idx = Some 29,
      dt_labels = [''egu1'', ''swi1''], dt_ancestors = [6, 0],
      dt_children = [],
      dt_children_okay = [],
      dt_hash = ''CrLVDn2RM1XQqrUwJKYHv1izpsIqmdrAnZq6NGYyd7I'',
      dt_ord = 82, dt_requires = [6, 7],
      dt_supports = [],
      dt_ids = [''INST_1_nordic_nrf_egu'', ''INST_1_nordic_nrf_swi'', ''NODELABEL_egu1'',
        ''NODELABEL_swi1''],
      dt_bus = None,
      dt_regs = [(1073827840, Some 4096)], dt_reg_names = [],
      dt_irqs = [(21, 1, 7)], dt_irq_level = 1,
      dt_compats = [''nordic_nrf_egu'', ''nordic_nrf_swi''],
      dt_vendors = [(0, ''Nordic Semiconductor''), (1, ''Nordic Semiconductor'')], dt_models =
        [(0, ''nrf-egu''), (1, ''nrf-swi'')],
      dt_okay = True \<rparr>"

definition DT_N_S_soc_S_egu_40016000 :: dt_node where [dt_defs]:
  "DT_N_S_soc_S_egu_40016000 = \<lparr>
      dt_path = ''/soc/egu@40016000'',
      dt_name = ''egu@40016000'',
      dt_parent = Some 6, dt_child_idx = Some 30,
      dt_labels = [''egu2'', ''swi2''], dt_ancestors = [6, 0],
      dt_children = [],
      dt_children_okay = [],
      dt_hash = ''_ZuarMQLwSEhvK6MjL9e0BFF0XosIArtttXkrOyzNbc'',
      dt_ord = 83, dt_requires = [6, 7],
      dt_supports = [],
      dt_ids = [''INST_2_nordic_nrf_egu'', ''INST_2_nordic_nrf_swi'', ''NODELABEL_egu2'',
        ''NODELABEL_swi2''],
      dt_bus = None,
      dt_regs = [(1073831936, Some 4096)], dt_reg_names = [],
      dt_irqs = [(22, 1, 7)], dt_irq_level = 1,
      dt_compats = [''nordic_nrf_egu'', ''nordic_nrf_swi''],
      dt_vendors = [(0, ''Nordic Semiconductor''), (1, ''Nordic Semiconductor'')], dt_models =
        [(0, ''nrf-egu''), (1, ''nrf-swi'')],
      dt_okay = True \<rparr>"

definition DT_N_S_soc_S_egu_40017000 :: dt_node where [dt_defs]:
  "DT_N_S_soc_S_egu_40017000 = \<lparr>
      dt_path = ''/soc/egu@40017000'',
      dt_name = ''egu@40017000'',
      dt_parent = Some 6, dt_child_idx = Some 31,
      dt_labels = [''egu3'', ''swi3''], dt_ancestors = [6, 0],
      dt_children = [],
      dt_children_okay = [],
      dt_hash = ''_wYJC_iDIOQYxOhDlhYQ6jA0tklgkm0yJ3RlYehdYxI'',
      dt_ord = 84, dt_requires = [6, 7],
      dt_supports = [],
      dt_ids = [''INST_3_nordic_nrf_egu'', ''INST_3_nordic_nrf_swi'', ''NODELABEL_egu3'',
        ''NODELABEL_swi3''],
      dt_bus = None,
      dt_regs = [(1073836032, Some 4096)], dt_reg_names = [],
      dt_irqs = [(23, 1, 7)], dt_irq_level = 1,
      dt_compats = [''nordic_nrf_egu'', ''nordic_nrf_swi''],
      dt_vendors = [(0, ''Nordic Semiconductor''), (1, ''Nordic Semiconductor'')], dt_models =
        [(0, ''nrf-egu''), (1, ''nrf-swi'')],
      dt_okay = True \<rparr>"

definition DT_N_S_soc_S_egu_40018000 :: dt_node where [dt_defs]:
  "DT_N_S_soc_S_egu_40018000 = \<lparr>
      dt_path = ''/soc/egu@40018000'',
      dt_name = ''egu@40018000'',
      dt_parent = Some 6, dt_child_idx = Some 32,
      dt_labels = [''egu4'', ''swi4''], dt_ancestors = [6, 0],
      dt_children = [],
      dt_children_okay = [],
      dt_hash = ''3ebg0I5QeYYkJi0ru3QDaCZeM7Yp8s4mvp0_bDx35ZE'',
      dt_ord = 85, dt_requires = [6, 7],
      dt_supports = [],
      dt_ids = [''INST_4_nordic_nrf_egu'', ''INST_4_nordic_nrf_swi'', ''NODELABEL_egu4'',
        ''NODELABEL_swi4''],
      dt_bus = None,
      dt_regs = [(1073840128, Some 4096)], dt_reg_names = [],
      dt_irqs = [(24, 1, 7)], dt_irq_level = 1,
      dt_compats = [''nordic_nrf_egu'', ''nordic_nrf_swi''],
      dt_vendors = [(0, ''Nordic Semiconductor''), (1, ''Nordic Semiconductor'')], dt_models =
        [(0, ''nrf-egu''), (1, ''nrf-swi'')],
      dt_okay = True \<rparr>"

definition DT_N_S_soc_S_egu_40019000 :: dt_node where [dt_defs]:
  "DT_N_S_soc_S_egu_40019000 = \<lparr>
      dt_path = ''/soc/egu@40019000'',
      dt_name = ''egu@40019000'',
      dt_parent = Some 6, dt_child_idx = Some 33,
      dt_labels = [''egu5'', ''swi5''], dt_ancestors = [6, 0],
      dt_children = [],
      dt_children_okay = [],
      dt_hash = ''dGyp8E3WOHsobUnrWEZ6yXdU_dH9KORvFW6J0BHdhBE'',
      dt_ord = 86, dt_requires = [6, 7],
      dt_supports = [],
      dt_ids = [''INST_5_nordic_nrf_egu'', ''INST_5_nordic_nrf_swi'', ''NODELABEL_egu5'',
        ''NODELABEL_swi5''],
      dt_bus = None,
      dt_regs = [(1073844224, Some 4096)], dt_reg_names = [],
      dt_irqs = [(25, 1, 7)], dt_irq_level = 1,
      dt_compats = [''nordic_nrf_egu'', ''nordic_nrf_swi''],
      dt_vendors = [(0, ''Nordic Semiconductor''), (1, ''Nordic Semiconductor'')], dt_models =
        [(0, ''nrf-egu''), (1, ''nrf-swi'')],
      dt_okay = True \<rparr>"

definition DT_N_S_soc_S_ficr_10000000 :: dt_node where [dt_defs]:
  "DT_N_S_soc_S_ficr_10000000 = \<lparr>
      dt_path = ''/soc/ficr@10000000'',
      dt_name = ''ficr@10000000'',
      dt_parent = Some 6, dt_child_idx = Some 2,
      dt_labels = [''ficr''], dt_ancestors = [6, 0],
      dt_children = [],
      dt_children_okay = [],
      dt_hash = ''68PiV4qa1Y57Q2A04bQ9EKxOMeMZuEbOe5iUBgPtAxo'',
      dt_ord = 87, dt_requires = [6],
      dt_supports = [],
      dt_ids = [''INST_0_nordic_nrf_ficr'', ''NODELABEL_ficr''],
      dt_bus = None,
      dt_regs = [(268435456, Some 4096)], dt_reg_names = [],
      dt_irqs = [], dt_irq_level = 0,
      dt_compats = [''nordic_nrf_ficr''],
      dt_vendors = [(0, ''Nordic Semiconductor'')], dt_models = [(0, ''nrf-ficr'')],
      dt_okay = True \<rparr>"

definition DT_N_S_soc_S_i2c_40003000 :: dt_node where [dt_defs]:
  "DT_N_S_soc_S_i2c_40003000 = \<lparr>
      dt_path = ''/soc/i2c@40003000'',
      dt_name = ''i2c@40003000'',
      dt_parent = Some 6, dt_child_idx = Some 9,
      dt_labels = [''i2c0'', ''arduino_i2c''], dt_ancestors = [6, 0],
      dt_children = [],
      dt_children_okay = [],
      dt_hash = ''o126xB_iWNi505UyklSsWdyOe8B4DivDCl5lUn3zfgA'',
      dt_ord = 88, dt_requires = [6, 7, 28, 30],
      dt_supports = [],
      dt_ids = [''INST_0_nordic_nrf_twi'', ''NODELABEL_i2c0'', ''NODELABEL_arduino_i2c''],
      dt_bus = None,
      dt_regs = [(1073754112, Some 4096)], dt_reg_names = [],
      dt_irqs = [(3, 1, 7)], dt_irq_level = 1,
      dt_compats = [''nordic_nrf_twi''],
      dt_vendors = [(0, ''Nordic Semiconductor'')], dt_models = [(0, ''nrf-twi'')],
      dt_okay = True \<rparr>"

definition DT_N_S_soc_S_i2c_40004000 :: dt_node where [dt_defs]:
  "DT_N_S_soc_S_i2c_40004000 = \<lparr>
      dt_path = ''/soc/i2c@40004000'',
      dt_name = ''i2c@40004000'',
      dt_parent = Some 6, dt_child_idx = Some 11,
      dt_labels = [''i2c1''], dt_ancestors = [6, 0],
      dt_children = [],
      dt_children_okay = [],
      dt_hash = ''qZsd_bboD4QiuRj9wBJcGV0JkwlcMnuvnRiyrQQHGrY'',
      dt_ord = 89, dt_requires = [6, 7, 32, 34],
      dt_supports = [],
      dt_ids = [''INST_1_nordic_nrf_twi'', ''NODELABEL_i2c1''],
      dt_bus = None,
      dt_regs = [(1073758208, Some 4096)], dt_reg_names = [],
      dt_irqs = [(4, 1, 7)], dt_irq_level = 1,
      dt_compats = [''nordic_nrf_twi''],
      dt_vendors = [(0, ''Nordic Semiconductor'')], dt_models = [(0, ''nrf-twi'')],
      dt_okay = False \<rparr>"

definition DT_N_S_soc_S_i2s_40025000 :: dt_node where [dt_defs]:
  "DT_N_S_soc_S_i2s_40025000 = \<lparr>
      dt_path = ''/soc/i2s@40025000'',
      dt_name = ''i2s@40025000'',
      dt_parent = Some 6, dt_child_idx = Some 46,
      dt_labels = [''i2s0''], dt_ancestors = [6, 0],
      dt_children = [],
      dt_children_okay = [],
      dt_hash = ''Rm8hLOMefULXq097kEEoAYqthbAkGKVraXvIbPpM5fc'',
      dt_ord = 90, dt_requires = [6, 7],
      dt_supports = [],
      dt_ids = [''INST_0_nordic_nrf_i2s'', ''NODELABEL_i2s0''],
      dt_bus = None,
      dt_regs = [(1073893376, Some 4096)], dt_reg_names = [],
      dt_irqs = [(37, 1, 7)], dt_irq_level = 1,
      dt_compats = [''nordic_nrf_i2s''],
      dt_vendors = [(0, ''Nordic Semiconductor'')], dt_models = [(0, ''nrf-i2s'')],
      dt_okay = False \<rparr>"

definition DT_N_S_soc_S_memory_20000000 :: dt_node where [dt_defs]:
  "DT_N_S_soc_S_memory_20000000 = \<lparr>
      dt_path = ''/soc/memory@20000000'',
      dt_name = ''memory@20000000'',
      dt_parent = Some 6, dt_child_idx = Some 4,
      dt_labels = [''sram0''], dt_ancestors = [6, 0],
      dt_children = [],
      dt_children_okay = [],
      dt_hash = ''5mk6hI_a0RgTbSaRk0MwzSvPe_XVqQpqtmpmf4tdmFg'',
      dt_ord = 91, dt_requires = [6],
      dt_supports = [],
      dt_ids = [''INST_0_mmio_sram'', ''NODELABEL_sram0''],
      dt_bus = None,
      dt_regs = [(536870912, Some 262144)], dt_reg_names = [],
      dt_irqs = [], dt_irq_level = 0,
      dt_compats = [''mmio_sram''],
      dt_vendors = [], dt_models = [],
      dt_okay = True \<rparr>"

definition DT_N_S_soc_S_mwu_40020000 :: dt_node where [dt_defs]:
  "DT_N_S_soc_S_mwu_40020000 = \<lparr>
      dt_path = ''/soc/mwu@40020000'',
      dt_name = ''mwu@40020000'',
      dt_parent = Some 6, dt_child_idx = Some 41,
      dt_labels = [''mwu''], dt_ancestors = [6, 0],
      dt_children = [],
      dt_children_okay = [],
      dt_hash = ''8t_Bjj18TRSYxNqrRnFXHD5DRagn6o2l0C0B6jCGLIg'',
      dt_ord = 92, dt_requires = [6],
      dt_supports = [],
      dt_ids = [''INST_0_nordic_nrf_mwu'', ''NODELABEL_mwu''],
      dt_bus = None,
      dt_regs = [(1073872896, Some 4096)], dt_reg_names = [],
      dt_irqs = [], dt_irq_level = 0,
      dt_compats = [''nordic_nrf_mwu''],
      dt_vendors = [(0, ''Nordic Semiconductor'')], dt_models = [(0, ''nrf-mwu'')],
      dt_okay = True \<rparr>"

definition DT_N_S_soc_S_nfct_40005000 :: dt_node where [dt_defs]:
  "DT_N_S_soc_S_nfct_40005000 = \<lparr>
      dt_path = ''/soc/nfct@40005000'',
      dt_name = ''nfct@40005000'',
      dt_parent = Some 6, dt_child_idx = Some 13,
      dt_labels = [''nfct''], dt_ancestors = [6, 0],
      dt_children = [],
      dt_children_okay = [],
      dt_hash = ''yn09GxbRohCQ838YLyhUmAG3BuRnJe72jNisVzttZfM'',
      dt_ord = 93, dt_requires = [6, 7],
      dt_supports = [],
      dt_ids = [''INST_0_nordic_nrf_nfct'', ''NODELABEL_nfct''],
      dt_bus = None,
      dt_regs = [(1073762304, Some 4096)], dt_reg_names = [],
      dt_irqs = [(5, 1, 7)], dt_irq_level = 1,
      dt_compats = [''nordic_nrf_nfct''],
      dt_vendors = [(0, ''Nordic Semiconductor'')], dt_models = [(0, ''nrf-nfct'')],
      dt_okay = True \<rparr>"

definition DT_N_S_soc_S_pdm_4001d000 :: dt_node where [dt_defs]:
  "DT_N_S_soc_S_pdm_4001d000 = \<lparr>
      dt_path = ''/soc/pdm@4001d000'',
      dt_name = ''pdm@4001d000'',
      dt_parent = Some 6, dt_child_idx = Some 37,
      dt_labels = [''pdm0''], dt_ancestors = [6, 0],
      dt_children = [],
      dt_children_okay = [],
      dt_hash = ''HSeb7W_iYLHevrBtcPEyyh_yMIloL0UcZciFRnF__DU'',
      dt_ord = 94, dt_requires = [6, 7],
      dt_supports = [],
      dt_ids = [''INST_0_nordic_nrf_pdm'', ''NODELABEL_pdm0''],
      dt_bus = None,
      dt_regs = [(1073860608, Some 4096)], dt_reg_names = [],
      dt_irqs = [(29, 1, 7)], dt_irq_level = 1,
      dt_compats = [''nordic_nrf_pdm''],
      dt_vendors = [(0, ''Nordic Semiconductor'')], dt_models = [(0, ''nrf-pdm'')],
      dt_okay = False \<rparr>"

definition DT_N_S_soc_S_ppi_4001f000 :: dt_node where [dt_defs]:
  "DT_N_S_soc_S_ppi_4001f000 = \<lparr>
      dt_path = ''/soc/ppi@4001f000'',
      dt_name = ''ppi@4001f000'',
      dt_parent = Some 6, dt_child_idx = Some 40,
      dt_labels = [''ppi''], dt_ancestors = [6, 0],
      dt_children = [],
      dt_children_okay = [],
      dt_hash = ''KQNQhUNVlbCH0wGgvOTGymkL__4HOyDYo0sjTaxGYPM'',
      dt_ord = 95, dt_requires = [6],
      dt_supports = [],
      dt_ids = [''INST_0_nordic_nrf_ppi'', ''NODELABEL_ppi''],
      dt_bus = None,
      dt_regs = [(1073868800, Some 4096)], dt_reg_names = [],
      dt_irqs = [], dt_irq_level = 0,
      dt_compats = [''nordic_nrf_ppi''],
      dt_vendors = [(0, ''Nordic Semiconductor'')], dt_models = [(0, ''nrf-ppi'')],
      dt_okay = True \<rparr>"

definition DT_N_S_soc_S_pwm_40021000 :: dt_node where [dt_defs]:
  "DT_N_S_soc_S_pwm_40021000 = \<lparr>
      dt_path = ''/soc/pwm@40021000'',
      dt_name = ''pwm@40021000'',
      dt_parent = Some 6, dt_child_idx = Some 42,
      dt_labels = [''pwm1''], dt_ancestors = [6, 0],
      dt_children = [],
      dt_children_okay = [],
      dt_hash = ''DTLy7jKNMamucGvdQaGf4NnPVrMSQpz56_dMDbK5JYE'',
      dt_ord = 96, dt_requires = [6, 7],
      dt_supports = [],
      dt_ids = [''INST_1_nordic_nrf_pwm'', ''NODELABEL_pwm1''],
      dt_bus = None,
      dt_regs = [(1073876992, Some 4096)], dt_reg_names = [],
      dt_irqs = [(33, 1, 7)], dt_irq_level = 1,
      dt_compats = [''nordic_nrf_pwm''],
      dt_vendors = [(0, ''Nordic Semiconductor'')], dt_models = [(0, ''nrf-pwm'')],
      dt_okay = False \<rparr>"

definition DT_N_S_soc_S_pwm_40022000 :: dt_node where [dt_defs]:
  "DT_N_S_soc_S_pwm_40022000 = \<lparr>
      dt_path = ''/soc/pwm@40022000'',
      dt_name = ''pwm@40022000'',
      dt_parent = Some 6, dt_child_idx = Some 43,
      dt_labels = [''pwm2''], dt_ancestors = [6, 0],
      dt_children = [],
      dt_children_okay = [],
      dt_hash = ''gNoZVxO8irS8II0y4fjBJgwVyNw2FrnkuIPfe6Yo5Sg'',
      dt_ord = 97, dt_requires = [6, 7],
      dt_supports = [],
      dt_ids = [''INST_2_nordic_nrf_pwm'', ''NODELABEL_pwm2''],
      dt_bus = None,
      dt_regs = [(1073881088, Some 4096)], dt_reg_names = [],
      dt_irqs = [(34, 1, 7)], dt_irq_level = 1,
      dt_compats = [''nordic_nrf_pwm''],
      dt_vendors = [(0, ''Nordic Semiconductor'')], dt_models = [(0, ''nrf-pwm'')],
      dt_okay = False \<rparr>"

definition DT_N_S_soc_S_pwm_4002d000 :: dt_node where [dt_defs]:
  "DT_N_S_soc_S_pwm_4002d000 = \<lparr>
      dt_path = ''/soc/pwm@4002d000'',
      dt_name = ''pwm@4002d000'',
      dt_parent = Some 6, dt_child_idx = Some 50,
      dt_labels = [''pwm3''], dt_ancestors = [6, 0],
      dt_children = [],
      dt_children_okay = [],
      dt_hash = ''QO3v9IKdtetgpTipcxRcEJ_8msw7xIcpeYwB0P1lY7U'',
      dt_ord = 98, dt_requires = [6, 7],
      dt_supports = [],
      dt_ids = [''INST_3_nordic_nrf_pwm'', ''NODELABEL_pwm3''],
      dt_bus = None,
      dt_regs = [(1073926144, Some 4096)], dt_reg_names = [],
      dt_irqs = [(45, 1, 7)], dt_irq_level = 1,
      dt_compats = [''nordic_nrf_pwm''],
      dt_vendors = [(0, ''Nordic Semiconductor'')], dt_models = [(0, ''nrf-pwm'')],
      dt_okay = False \<rparr>"

definition DT_N_S_soc_S_qdec_40012000 :: dt_node where [dt_defs]:
  "DT_N_S_soc_S_qdec_40012000 = \<lparr>
      dt_path = ''/soc/qdec@40012000'',
      dt_name = ''qdec@40012000'',
      dt_parent = Some 6, dt_child_idx = Some 26,
      dt_labels = [''qdec'', ''qdec0''], dt_ancestors = [6, 0],
      dt_children = [],
      dt_children_okay = [],
      dt_hash = ''VElv5vF_Ef3_I6zcFZ8aN0hMMiiZApVSzfXGFuhcHIU'',
      dt_ord = 99, dt_requires = [6, 7],
      dt_supports = [],
      dt_ids = [''INST_0_nordic_nrf_qdec'', ''NODELABEL_qdec'', ''NODELABEL_qdec0''],
      dt_bus = None,
      dt_regs = [(1073815552, Some 4096)], dt_reg_names = [],
      dt_irqs = [(18, 1, 7)], dt_irq_level = 1,
      dt_compats = [''nordic_nrf_qdec''],
      dt_vendors = [(0, ''Nordic Semiconductor'')], dt_models = [(0, ''nrf-qdec'')],
      dt_okay = False \<rparr>"

definition DT_N_S_soc_S_random_4000d000 :: dt_node where [dt_defs]:
  "DT_N_S_soc_S_random_4000d000 = \<lparr>
      dt_path = ''/soc/random@4000d000'',
      dt_name = ''random@4000d000'',
      dt_parent = Some 6, dt_child_idx = Some 21,
      dt_labels = [''rng''], dt_ancestors = [6, 0],
      dt_children = [],
      dt_children_okay = [],
      dt_hash = ''HugY6543deJoL1MEPqkojlUgB5d9EbMH_3mfbwbryg4'',
      dt_ord = 100, dt_requires = [6, 7],
      dt_supports = [],
      dt_ids = [''INST_0_nordic_nrf_rng'', ''NODELABEL_rng''],
      dt_bus = None,
      dt_regs = [(1073795072, Some 4096)], dt_reg_names = [],
      dt_irqs = [(13, 1, 7)], dt_irq_level = 1,
      dt_compats = [''nordic_nrf_rng''],
      dt_vendors = [(0, ''Nordic Semiconductor'')], dt_models = [(0, ''nrf-rng'')],
      dt_okay = True \<rparr>"

definition DT_N_S_soc_S_rtc_4000b000 :: dt_node where [dt_defs]:
  "DT_N_S_soc_S_rtc_4000b000 = \<lparr>
      dt_path = ''/soc/rtc@4000b000'',
      dt_name = ''rtc@4000b000'',
      dt_parent = Some 6, dt_child_idx = Some 19,
      dt_labels = [''rtc0''], dt_ancestors = [6, 0],
      dt_children = [],
      dt_children_okay = [],
      dt_hash = ''mZLEaZAFf_m98BZSWtbgNKExDBEqvnHMbbsI0vM_9PQ'',
      dt_ord = 101, dt_requires = [6, 7],
      dt_supports = [],
      dt_ids = [''INST_0_nordic_nrf_rtc'', ''NODELABEL_rtc0''],
      dt_bus = None,
      dt_regs = [(1073786880, Some 4096)], dt_reg_names = [],
      dt_irqs = [(11, 1, 7)], dt_irq_level = 1,
      dt_compats = [''nordic_nrf_rtc''],
      dt_vendors = [(0, ''Nordic Semiconductor'')], dt_models = [(0, ''nrf-rtc'')],
      dt_okay = False \<rparr>"

definition DT_N_S_soc_S_rtc_40011000 :: dt_node where [dt_defs]:
  "DT_N_S_soc_S_rtc_40011000 = \<lparr>
      dt_path = ''/soc/rtc@40011000'',
      dt_name = ''rtc@40011000'',
      dt_parent = Some 6, dt_child_idx = Some 25,
      dt_labels = [''rtc1''], dt_ancestors = [6, 0],
      dt_children = [],
      dt_children_okay = [],
      dt_hash = ''tj4ySXplksaoUQf5ERYnW_7Pk6dsYwlb0WfCIZhNSnA'',
      dt_ord = 102, dt_requires = [6, 7],
      dt_supports = [],
      dt_ids = [''INST_1_nordic_nrf_rtc'', ''NODELABEL_rtc1''],
      dt_bus = None,
      dt_regs = [(1073811456, Some 4096)], dt_reg_names = [],
      dt_irqs = [(17, 1, 7)], dt_irq_level = 1,
      dt_compats = [''nordic_nrf_rtc''],
      dt_vendors = [(0, ''Nordic Semiconductor'')], dt_models = [(0, ''nrf-rtc'')],
      dt_okay = False \<rparr>"

definition DT_N_S_soc_S_rtc_40024000 :: dt_node where [dt_defs]:
  "DT_N_S_soc_S_rtc_40024000 = \<lparr>
      dt_path = ''/soc/rtc@40024000'',
      dt_name = ''rtc@40024000'',
      dt_parent = Some 6, dt_child_idx = Some 45,
      dt_labels = [''rtc2''], dt_ancestors = [6, 0],
      dt_children = [],
      dt_children_okay = [],
      dt_hash = ''OGJdq88N6dKe4lPooQj_t4vi5OmO6p6pS3PYPrvc9go'',
      dt_ord = 103, dt_requires = [6, 7],
      dt_supports = [],
      dt_ids = [''INST_2_nordic_nrf_rtc'', ''NODELABEL_rtc2''],
      dt_bus = None,
      dt_regs = [(1073889280, Some 4096)], dt_reg_names = [],
      dt_irqs = [(36, 1, 7)], dt_irq_level = 1,
      dt_compats = [''nordic_nrf_rtc''],
      dt_vendors = [(0, ''Nordic Semiconductor'')], dt_models = [(0, ''nrf-rtc'')],
      dt_okay = False \<rparr>"

definition DT_N_S_soc_S_spi_40003000 :: dt_node where [dt_defs]:
  "DT_N_S_soc_S_spi_40003000 = \<lparr>
      dt_path = ''/soc/spi@40003000'',
      dt_name = ''spi@40003000'',
      dt_parent = Some 6, dt_child_idx = Some 10,
      dt_labels = [''spi0''], dt_ancestors = [6, 0],
      dt_children = [],
      dt_children_okay = [],
      dt_hash = ''kjiFEWzA__24aXGWIixMGP8icmqfoEI5FnmWvvsfqS0'',
      dt_ord = 104, dt_requires = [6, 7, 45, 47],
      dt_supports = [],
      dt_ids = [''INST_1_nordic_nrf_spi'', ''NODELABEL_spi0''],
      dt_bus = None,
      dt_regs = [(1073754112, Some 4096)], dt_reg_names = [],
      dt_irqs = [(3, 1, 7)], dt_irq_level = 1,
      dt_compats = [''nordic_nrf_spi''],
      dt_vendors = [(0, ''Nordic Semiconductor'')], dt_models = [(0, ''nrf-spi'')],
      dt_okay = False \<rparr>"

definition DT_N_S_soc_S_spi_40023000 :: dt_node where [dt_defs]:
  "DT_N_S_soc_S_spi_40023000 = \<lparr>
      dt_path = ''/soc/spi@40023000'',
      dt_name = ''spi@40023000'',
      dt_parent = Some 6, dt_child_idx = Some 44,
      dt_labels = [''spi2''], dt_ancestors = [6, 0],
      dt_children = [],
      dt_children_okay = [],
      dt_hash = ''tKKKETHG3TZcYpIF_ENoITT6BwgcNP6vFxs4KdbbBkk'',
      dt_ord = 105, dt_requires = [6, 7, 53, 55],
      dt_supports = [],
      dt_ids = [''INST_2_nordic_nrf_spi'', ''NODELABEL_spi2''],
      dt_bus = None,
      dt_regs = [(1073885184, Some 4096)], dt_reg_names = [],
      dt_irqs = [(35, 1, 7)], dt_irq_level = 1,
      dt_compats = [''nordic_nrf_spi''],
      dt_vendors = [(0, ''Nordic Semiconductor'')], dt_models = [(0, ''nrf-spi'')],
      dt_okay = False \<rparr>"

definition DT_N_S_soc_S_gpio_50000300 :: dt_node where [dt_defs]:
  "DT_N_S_soc_S_gpio_50000300 = \<lparr>
      dt_path = ''/soc/gpio@50000300'',
      dt_name = ''gpio@50000300'',
      dt_parent = Some 6, dt_child_idx = Some 53,
      dt_labels = [''gpio1''], dt_ancestors = [6, 0],
      dt_children = [],
      dt_children_okay = [],
      dt_hash = ''NNBTw6JH5sihZzt5bu3db5yaYNK2uBM3ykp0rYEqHlQ'',
      dt_ord = 106, dt_requires = [6, 10],
      dt_supports = [107, 139],
      dt_ids = [''INST_1_nordic_nrf_gpio'', ''NODELABEL_gpio1''],
      dt_bus = None,
      dt_regs = [(1342178048, Some 512), (1342179328, Some 768)], dt_reg_names = [],
      dt_irqs = [], dt_irq_level = 0,
      dt_compats = [''nordic_nrf_gpio''],
      dt_vendors = [(0, ''Nordic Semiconductor'')], dt_models = [(0, ''nrf-gpio'')],
      dt_okay = True \<rparr>"

definition DT_N_S_soc_S_spi_4002f000 :: dt_node where [dt_defs]:
  "DT_N_S_soc_S_spi_4002f000 = \<lparr>
      dt_path = ''/soc/spi@4002f000'',
      dt_name = ''spi@4002f000'',
      dt_parent = Some 6, dt_child_idx = Some 51,
      dt_labels = [''spi3'', ''arduino_spi''], dt_ancestors = [6, 0],
      dt_children = [],
      dt_children_okay = [],
      dt_hash = ''2dbVajdwh2YQo7R9GVUp9nVKPNGSOPPkSBRQ40b2m6Y'',
      dt_ord = 107, dt_requires = [6, 7, 57, 59, 106],
      dt_supports = [],
      dt_ids = [''INST_0_nordic_nrf_spim'', ''NODELABEL_spi3'', ''NODELABEL_arduino_spi''],
      dt_bus = None,
      dt_regs = [(1073934336, Some 4096)], dt_reg_names = [],
      dt_irqs = [(47, 1, 7)], dt_irq_level = 1,
      dt_compats = [''nordic_nrf_spim''],
      dt_vendors = [(0, ''Nordic Semiconductor'')], dt_models = [(0, ''nrf-spim'')],
      dt_okay = True \<rparr>"

definition DT_N_S_soc_S_temp_4000c000 :: dt_node where [dt_defs]:
  "DT_N_S_soc_S_temp_4000c000 = \<lparr>
      dt_path = ''/soc/temp@4000c000'',
      dt_name = ''temp@4000c000'',
      dt_parent = Some 6, dt_child_idx = Some 20,
      dt_labels = [''temp''], dt_ancestors = [6, 0],
      dt_children = [],
      dt_children_okay = [],
      dt_hash = ''T0pRrslahsDdnOdIo1nnzFiaNIZ1FzS1_kGYz9f3K6s'',
      dt_ord = 108, dt_requires = [6, 7],
      dt_supports = [],
      dt_ids = [''INST_0_nordic_nrf_temp'', ''NODELABEL_temp''],
      dt_bus = None,
      dt_regs = [(1073790976, Some 4096)], dt_reg_names = [],
      dt_irqs = [(12, 1, 7)], dt_irq_level = 1,
      dt_compats = [''nordic_nrf_temp''],
      dt_vendors = [(0, ''Nordic Semiconductor'')], dt_models = [(0, ''nrf-temp'')],
      dt_okay = True \<rparr>"

definition DT_N_S_soc_S_timer_40008000 :: dt_node where [dt_defs]:
  "DT_N_S_soc_S_timer_40008000 = \<lparr>
      dt_path = ''/soc/timer@40008000'',
      dt_name = ''timer@40008000'',
      dt_parent = Some 6, dt_child_idx = Some 16,
      dt_labels = [''timer0''], dt_ancestors = [6, 0],
      dt_children = [],
      dt_children_okay = [],
      dt_hash = ''XCzECSHKjRkeN4aNEgXg57v3t68j6ZUXXw_YRBjfNUo'',
      dt_ord = 109, dt_requires = [6, 7],
      dt_supports = [],
      dt_ids = [''INST_0_nordic_nrf_timer'', ''NODELABEL_timer0''],
      dt_bus = None,
      dt_regs = [(1073774592, Some 4096)], dt_reg_names = [],
      dt_irqs = [(8, 1, 7)], dt_irq_level = 1,
      dt_compats = [''nordic_nrf_timer''],
      dt_vendors = [(0, ''Nordic Semiconductor'')], dt_models = [(0, ''nrf-timer'')],
      dt_okay = False \<rparr>"

definition DT_N_S_soc_S_timer_4000a000 :: dt_node where [dt_defs]:
  "DT_N_S_soc_S_timer_4000a000 = \<lparr>
      dt_path = ''/soc/timer@4000a000'',
      dt_name = ''timer@4000a000'',
      dt_parent = Some 6, dt_child_idx = Some 18,
      dt_labels = [''timer2''], dt_ancestors = [6, 0],
      dt_children = [],
      dt_children_okay = [],
      dt_hash = ''__C_u4LSRY6ogG5xUr9B3U0iwW0BU7sCyxU_m9INcKU'',
      dt_ord = 110, dt_requires = [6, 7],
      dt_supports = [],
      dt_ids = [''INST_2_nordic_nrf_timer'', ''NODELABEL_timer2''],
      dt_bus = None,
      dt_regs = [(1073782784, Some 4096)], dt_reg_names = [],
      dt_irqs = [(10, 1, 7)], dt_irq_level = 1,
      dt_compats = [''nordic_nrf_timer''],
      dt_vendors = [(0, ''Nordic Semiconductor'')], dt_models = [(0, ''nrf-timer'')],
      dt_okay = False \<rparr>"

definition DT_N_S_soc_S_timer_4001a000 :: dt_node where [dt_defs]:
  "DT_N_S_soc_S_timer_4001a000 = \<lparr>
      dt_path = ''/soc/timer@4001a000'',
      dt_name = ''timer@4001a000'',
      dt_parent = Some 6, dt_child_idx = Some 34,
      dt_labels = [''timer3''], dt_ancestors = [6, 0],
      dt_children = [],
      dt_children_okay = [],
      dt_hash = ''AViRQLSpuuxlBlFUhHqqWaKpQA_Hs9UiYRILOw3vbDE'',
      dt_ord = 111, dt_requires = [6, 7],
      dt_supports = [],
      dt_ids = [''INST_3_nordic_nrf_timer'', ''NODELABEL_timer3''],
      dt_bus = None,
      dt_regs = [(1073848320, Some 4096)], dt_reg_names = [],
      dt_irqs = [(26, 1, 7)], dt_irq_level = 1,
      dt_compats = [''nordic_nrf_timer''],
      dt_vendors = [(0, ''Nordic Semiconductor'')], dt_models = [(0, ''nrf-timer'')],
      dt_okay = False \<rparr>"

definition DT_N_S_soc_S_timer_4001b000 :: dt_node where [dt_defs]:
  "DT_N_S_soc_S_timer_4001b000 = \<lparr>
      dt_path = ''/soc/timer@4001b000'',
      dt_name = ''timer@4001b000'',
      dt_parent = Some 6, dt_child_idx = Some 35,
      dt_labels = [''timer4''], dt_ancestors = [6, 0],
      dt_children = [],
      dt_children_okay = [],
      dt_hash = ''5ADCKqLctbF3jZ8tWFC9k9F24AwE1ZfXELd8l5moKbU'',
      dt_ord = 112, dt_requires = [6, 7],
      dt_supports = [],
      dt_ids = [''INST_4_nordic_nrf_timer'', ''NODELABEL_timer4''],
      dt_bus = None,
      dt_regs = [(1073852416, Some 4096)], dt_reg_names = [],
      dt_irqs = [(27, 1, 7)], dt_irq_level = 1,
      dt_compats = [''nordic_nrf_timer''],
      dt_vendors = [(0, ''Nordic Semiconductor'')], dt_models = [(0, ''nrf-timer'')],
      dt_okay = False \<rparr>"

definition DT_N_S_soc_S_timer_e000e010 :: dt_node where [dt_defs]:
  "DT_N_S_soc_S_timer_e000e010 = \<lparr>
      dt_path = ''/soc/timer@e000e010'',
      dt_name = ''timer@e000e010'',
      dt_parent = Some 6, dt_child_idx = Some 1,
      dt_labels = [''systick''], dt_ancestors = [6, 0],
      dt_children = [],
      dt_children_okay = [],
      dt_hash = ''aZrzPLAIRgEwRZJIvTCzJONA6gPgc4QlhkiU5oWGArA'',
      dt_ord = 113, dt_requires = [6],
      dt_supports = [],
      dt_ids = [''INST_0_arm_armv7m_systick'', ''NODELABEL_systick''],
      dt_bus = None,
      dt_regs = [(3758153744, Some 16)], dt_reg_names = [],
      dt_irqs = [], dt_irq_level = 0,
      dt_compats = [''arm_armv7m_systick''],
      dt_vendors = [(0, ''ARM Ltd.'')], dt_models = [(0, ''armv7m-systick'')],
      dt_okay = False \<rparr>"

definition DT_N_S_soc_S_uart_40002000 :: dt_node where [dt_defs]:
  "DT_N_S_soc_S_uart_40002000 = \<lparr>
      dt_path = ''/soc/uart@40002000'',
      dt_name = ''uart@40002000'',
      dt_parent = Some 6, dt_child_idx = Some 8,
      dt_labels = [''uart0''], dt_ancestors = [6, 0],
      dt_children = [],
      dt_children_okay = [],
      dt_hash = ''r7AwWkfYm9keVbRLOwM7UtzC1BzpGQAQmp9IyaUqBAA'',
      dt_ord = 114, dt_requires = [6, 7, 61, 64],
      dt_supports = [],
      dt_ids = [''INST_0_nordic_nrf_uarte'', ''NODELABEL_uart0''],
      dt_bus = None,
      dt_regs = [(1073750016, Some 4096)], dt_reg_names = [],
      dt_irqs = [(2, 1, 7)], dt_irq_level = 1,
      dt_compats = [''nordic_nrf_uarte''],
      dt_vendors = [(0, ''Nordic Semiconductor'')], dt_models = [(0, ''nrf-uarte'')],
      dt_okay = True \<rparr>"

definition DT_N_S_soc_S_uart_40028000 :: dt_node where [dt_defs]:
  "DT_N_S_soc_S_uart_40028000 = \<lparr>
      dt_path = ''/soc/uart@40028000'',
      dt_name = ''uart@40028000'',
      dt_parent = Some 6, dt_child_idx = Some 48,
      dt_labels = [''uart1'', ''arduino_serial''], dt_ancestors = [6, 0],
      dt_children = [],
      dt_children_okay = [],
      dt_hash = ''weBX7dXRPoe_lk2_7qlZhiSuaOMDqOba0sGff1i_Ssw'',
      dt_ord = 115, dt_requires = [6, 7, 66, 69],
      dt_supports = [],
      dt_ids = [''INST_1_nordic_nrf_uarte'', ''NODELABEL_uart1'', ''NODELABEL_arduino_serial''],
      dt_bus = None,
      dt_regs = [(1073905664, Some 4096)], dt_reg_names = [],
      dt_irqs = [(40, 1, 7)], dt_irq_level = 1,
      dt_compats = [''nordic_nrf_uarte''],
      dt_vendors = [(0, ''Nordic Semiconductor'')], dt_models = [(0, ''nrf-uarte'')],
      dt_okay = False \<rparr>"

definition DT_N_S_soc_S_uicr_10001000 :: dt_node where [dt_defs]:
  "DT_N_S_soc_S_uicr_10001000 = \<lparr>
      dt_path = ''/soc/uicr@10001000'',
      dt_name = ''uicr@10001000'',
      dt_parent = Some 6, dt_child_idx = Some 3,
      dt_labels = [''uicr''], dt_ancestors = [6, 0],
      dt_children = [],
      dt_children_okay = [],
      dt_hash = ''4KeVoS_YMtHipQBXTxg3nQvJ1Yuav_vLojacEaRkYiI'',
      dt_ord = 116, dt_requires = [6],
      dt_supports = [],
      dt_ids = [''INST_0_nordic_nrf_uicr'', ''NODELABEL_uicr''],
      dt_bus = None,
      dt_regs = [(268439552, Some 4096)], dt_reg_names = [],
      dt_irqs = [], dt_irq_level = 0,
      dt_compats = [''nordic_nrf_uicr''],
      dt_vendors = [(0, ''Nordic Semiconductor'')], dt_models = [(0, ''nrf-uicr'')],
      dt_okay = True \<rparr>"

definition DT_N_S_soc_S_usbd_40027000 :: dt_node where [dt_defs]:
  "DT_N_S_soc_S_usbd_40027000 = \<lparr>
      dt_path = ''/soc/usbd@40027000'',
      dt_name = ''usbd@40027000'',
      dt_parent = Some 6, dt_child_idx = Some 47,
      dt_labels = [''usbd'', ''zephyr_udc0''], dt_ancestors = [6, 0],
      dt_children = [],
      dt_children_okay = [],
      dt_hash = ''h2K1y69FUF4579zoAapGJNzi_HHqfkyFv2gRB1VCQI0'',
      dt_ord = 117, dt_requires = [6, 7],
      dt_supports = [],
      dt_ids = [''INST_0_nordic_nrf_usbd'', ''NODELABEL_usbd'', ''NODELABEL_zephyr_udc0''],
      dt_bus = None,
      dt_regs = [(1073901568, Some 4096)], dt_reg_names = [],
      dt_irqs = [(39, 1, 7)], dt_irq_level = 1,
      dt_compats = [''nordic_nrf_usbd''],
      dt_vendors = [(0, ''Nordic Semiconductor'')], dt_models = [(0, ''nrf-usbd'')],
      dt_okay = True \<rparr>"

definition DT_N_S_soc_S_watchdog_40010000 :: dt_node where [dt_defs]:
  "DT_N_S_soc_S_watchdog_40010000 = \<lparr>
      dt_path = ''/soc/watchdog@40010000'',
      dt_name = ''watchdog@40010000'',
      dt_parent = Some 6, dt_child_idx = Some 24,
      dt_labels = [''wdt'', ''wdt0''], dt_ancestors = [6, 0],
      dt_children = [],
      dt_children_okay = [],
      dt_hash = ''uWMkStkskRGte8fmDdZd15q2PYXHcj8wT3KKpXlQPTc'',
      dt_ord = 118, dt_requires = [6, 7],
      dt_supports = [],
      dt_ids = [''ALIAS_watchdog0'', ''INST_0_nordic_nrf_wdt'', ''NODELABEL_wdt'',
        ''NODELABEL_wdt0''],
      dt_bus = None,
      dt_regs = [(1073807360, Some 4096)], dt_reg_names = [],
      dt_irqs = [(16, 1, 7)], dt_irq_level = 1,
      dt_compats = [''nordic_nrf_wdt''],
      dt_vendors = [(0, ''Nordic Semiconductor'')], dt_models = [(0, ''nrf-wdt'')],
      dt_okay = True \<rparr>"

definition DT_N_S_soc_S_flash_controller_4001e000 :: dt_node where [dt_defs]:
  "DT_N_S_soc_S_flash_controller_4001e000 = \<lparr>
      dt_path = ''/soc/flash-controller@4001e000'',
      dt_name = ''flash-controller@4001e000'',
      dt_parent = Some 6, dt_child_idx = Some 39,
      dt_labels = [''flash_controller''], dt_ancestors = [6, 0],
      dt_children = [120],
      dt_children_okay = [120],
      dt_hash = ''MIT74kgkaUo35GkLmgvEOvuxYL7jzuLYTWU7WwgHfyw'',
      dt_ord = 119, dt_requires = [6],
      dt_supports = [120],
      dt_ids = [''INST_0_nordic_nrf52_flash_controller'', ''NODELABEL_flash_controller''],
      dt_bus = None,
      dt_regs = [(1073864704, Some 4096)], dt_reg_names = [],
      dt_irqs = [], dt_irq_level = 0,
      dt_compats = [''nordic_nrf52_flash_controller''],
      dt_vendors = [(0, ''Nordic Semiconductor'')], dt_models = [(0, ''nrf52-flash-controller'')],
      dt_okay = True \<rparr>"

definition DT_N_S_soc_S_flash_controller_4001e000_S_flash_0 :: dt_node where [dt_defs]:
  "DT_N_S_soc_S_flash_controller_4001e000_S_flash_0 = \<lparr>
      dt_path = ''/soc/flash-controller@4001e000/flash@0'',
      dt_name = ''flash@0'',
      dt_parent = Some 119, dt_child_idx = Some 0,
      dt_labels = [''flash0''], dt_ancestors = [119, 6, 0],
      dt_children = [121],
      dt_children_okay = [121],
      dt_hash = ''CLSOFQb_ZMvERbh_tCK2vGlINT4ZjLkJR5uWOmCRJiU'',
      dt_ord = 120, dt_requires = [119],
      dt_supports = [121],
      dt_ids = [''INST_0_soc_nv_flash'', ''NODELABEL_flash0''],
      dt_bus = None,
      dt_regs = [(0, Some 1048576)], dt_reg_names = [],
      dt_irqs = [], dt_irq_level = 0,
      dt_compats = [''soc_nv_flash''],
      dt_vendors = [], dt_models = [],
      dt_okay = True \<rparr>"

definition DT_N_S_soc_S_flash_controller_4001e000_S_flash_0_S_partitions :: dt_node where [dt_defs]:
  "DT_N_S_soc_S_flash_controller_4001e000_S_flash_0_S_partitions = \<lparr>
      dt_path = ''/soc/flash-controller@4001e000/flash@0/partitions'',
      dt_name = ''partitions'',
      dt_parent = Some 120, dt_child_idx = Some 0,
      dt_labels = [], dt_ancestors = [120, 119, 6, 0],
      dt_children = [122, 123, 124, 125],
      dt_children_okay = [122, 123, 124, 125],
      dt_hash = ''wMeswNpo0OTVRyViatg8jxadMBSVgtVO5BZYQVxQQOw'',
      dt_ord = 121, dt_requires = [120],
      dt_supports = [122, 123, 124, 125],
      dt_ids = [''INST_0_fixed_partitions''],
      dt_bus = None,
      dt_regs = [], dt_reg_names = [],
      dt_irqs = [], dt_irq_level = 0,
      dt_compats = [''fixed_partitions''],
      dt_vendors = [], dt_models = [],
      dt_okay = True \<rparr>"

definition DT_N_S_soc_S_flash_controller_4001e000_S_flash_0_S_partitions_S_partition_0 :: dt_node where [dt_defs]:
  "DT_N_S_soc_S_flash_controller_4001e000_S_flash_0_S_partitions_S_partition_0 = \<lparr>
      dt_path = ''/soc/flash-controller@4001e000/flash@0/partitions/partition@0'',
      dt_name = ''partition@0'',
      dt_parent = Some 121, dt_child_idx = Some 0,
      dt_labels = [''boot_partition''], dt_ancestors = [121, 120, 119, 6, 0],
      dt_children = [],
      dt_children_okay = [],
      dt_hash = ''YIAL4G7_dFi2sYfvJCw7Eh377q_8M5iIVT3IWn4wKYI'',
      dt_ord = 122, dt_requires = [121],
      dt_supports = [],
      dt_ids = [''NODELABEL_boot_partition''],
      dt_bus = None,
      dt_regs = [(0, Some 49152)], dt_reg_names = [],
      dt_irqs = [], dt_irq_level = 0,
      dt_compats = [],
      dt_vendors = [], dt_models = [],
      dt_okay = True \<rparr>"

definition DT_N_S_soc_S_flash_controller_4001e000_S_flash_0_S_partitions_S_partition_c000 :: dt_node where [dt_defs]:
  "DT_N_S_soc_S_flash_controller_4001e000_S_flash_0_S_partitions_S_partition_c000 = \<lparr>
      dt_path = ''/soc/flash-controller@4001e000/flash@0/partitions/partition@c000'',
      dt_name = ''partition@c000'',
      dt_parent = Some 121, dt_child_idx = Some 1,
      dt_labels = [''slot0_partition''], dt_ancestors = [121, 120, 119, 6, 0],
      dt_children = [],
      dt_children_okay = [],
      dt_hash = ''9BSW88retd5BjGG6_nV1ryB_MbqV79p4SBlkly0T0zQ'',
      dt_ord = 123, dt_requires = [121],
      dt_supports = [],
      dt_ids = [''NODELABEL_slot0_partition''],
      dt_bus = None,
      dt_regs = [(49152, Some 483328)], dt_reg_names = [],
      dt_irqs = [], dt_irq_level = 0,
      dt_compats = [],
      dt_vendors = [], dt_models = [],
      dt_okay = True \<rparr>"

definition DT_N_S_soc_S_flash_controller_4001e000_S_flash_0_S_partitions_S_partition_82000 :: dt_node where [dt_defs]:
  "DT_N_S_soc_S_flash_controller_4001e000_S_flash_0_S_partitions_S_partition_82000 = \<lparr>
      dt_path = ''/soc/flash-controller@4001e000/flash@0/partitions/partition@82000'',
      dt_name = ''partition@82000'',
      dt_parent = Some 121, dt_child_idx = Some 2,
      dt_labels = [''slot1_partition''], dt_ancestors = [121, 120, 119, 6, 0],
      dt_children = [],
      dt_children_okay = [],
      dt_hash = ''gdZgglPfPuoi1SyWaQLTqqzci5eaneD_BBAFq_9v_hY'',
      dt_ord = 124, dt_requires = [121],
      dt_supports = [],
      dt_ids = [''NODELABEL_slot1_partition''],
      dt_bus = None,
      dt_regs = [(532480, Some 483328)], dt_reg_names = [],
      dt_irqs = [], dt_irq_level = 0,
      dt_compats = [],
      dt_vendors = [], dt_models = [],
      dt_okay = True \<rparr>"

definition DT_N_S_soc_S_flash_controller_4001e000_S_flash_0_S_partitions_S_partition_f8000 :: dt_node where [dt_defs]:
  "DT_N_S_soc_S_flash_controller_4001e000_S_flash_0_S_partitions_S_partition_f8000 = \<lparr>
      dt_path = ''/soc/flash-controller@4001e000/flash@0/partitions/partition@f8000'',
      dt_name = ''partition@f8000'',
      dt_parent = Some 121, dt_child_idx = Some 3,
      dt_labels = [''storage_partition''], dt_ancestors = [121, 120, 119, 6, 0],
      dt_children = [],
      dt_children_okay = [],
      dt_hash = ''Nw1jsCbjPDVUMbLtCBtM3T0zr7YaWofyfAvvEz3c6BQ'',
      dt_ord = 125, dt_requires = [121],
      dt_supports = [],
      dt_ids = [''NODELABEL_storage_partition''],
      dt_bus = None,
      dt_regs = [(1015808, Some 32768)], dt_reg_names = [],
      dt_irqs = [], dt_irq_level = 0,
      dt_compats = [],
      dt_vendors = [], dt_models = [],
      dt_okay = True \<rparr>"

definition DT_N_S_soc_S_power_40000000 :: dt_node where [dt_defs]:
  "DT_N_S_soc_S_power_40000000 = \<lparr>
      dt_path = ''/soc/power@40000000'',
      dt_name = ''power@40000000'',
      dt_parent = Some 6, dt_child_idx = Some 6,
      dt_labels = [''power''], dt_ancestors = [6, 0],
      dt_children = [130, 127, 128, 129],
      dt_children_okay = [130, 127, 128, 129],
      dt_hash = ''d5ZQxJ7Dny0Q4TLqUh2vFn7wmml1nlavvhVL0GOp08Q'',
      dt_ord = 126, dt_requires = [6, 7],
      dt_supports = [127, 128, 129, 130],
      dt_ids = [''INST_0_nordic_nrf_power'', ''NODELABEL_power''],
      dt_bus = None,
      dt_regs = [(1073741824, Some 4096)], dt_reg_names = [],
      dt_irqs = [(0, 1, 7)], dt_irq_level = 1,
      dt_compats = [''nordic_nrf_power''],
      dt_vendors = [(0, ''Nordic Semiconductor'')], dt_models = [(0, ''nrf-power'')],
      dt_okay = True \<rparr>"

definition DT_N_S_soc_S_power_40000000_S_gpregret2_40000520 :: dt_node where [dt_defs]:
  "DT_N_S_soc_S_power_40000000_S_gpregret2_40000520 = \<lparr>
      dt_path = ''/soc/power@40000000/gpregret2@40000520'',
      dt_name = ''gpregret2@40000520'',
      dt_parent = Some 126, dt_child_idx = Some 1,
      dt_labels = [''gpregret2''], dt_ancestors = [126, 6, 0],
      dt_children = [],
      dt_children_okay = [],
      dt_hash = ''nK_LJMUpkIZ6fTilLYs_3UEtTNx1SlTqnFo7vyc5Udo'',
      dt_ord = 127, dt_requires = [126],
      dt_supports = [],
      dt_ids = [''INST_1_nordic_nrf_gpregret'', ''NODELABEL_gpregret2''],
      dt_bus = None,
      dt_regs = [(1073743136, Some 1)], dt_reg_names = [],
      dt_irqs = [], dt_irq_level = 0,
      dt_compats = [''nordic_nrf_gpregret''],
      dt_vendors = [(0, ''Nordic Semiconductor'')], dt_models = [(0, ''nrf-gpregret'')],
      dt_okay = True \<rparr>"

definition DT_N_S_soc_S_power_40000000_S_regulator_40000578 :: dt_node where [dt_defs]:
  "DT_N_S_soc_S_power_40000000_S_regulator_40000578 = \<lparr>
      dt_path = ''/soc/power@40000000/regulator@40000578'',
      dt_name = ''regulator@40000578'',
      dt_parent = Some 126, dt_child_idx = Some 2,
      dt_labels = [''reg1''], dt_ancestors = [126, 6, 0],
      dt_children = [],
      dt_children_okay = [],
      dt_hash = ''WCLCNnr6w0EO9qHHOMmcmn_oZ2W4EYdQl6ZBMFNX5dM'',
      dt_ord = 128, dt_requires = [126],
      dt_supports = [],
      dt_ids = [''INST_0_nordic_nrf5x_regulator'', ''NODELABEL_reg1''],
      dt_bus = None,
      dt_regs = [(1073743224, Some 1)], dt_reg_names = [],
      dt_irqs = [], dt_irq_level = 0,
      dt_compats = [''nordic_nrf5x_regulator''],
      dt_vendors = [(0, ''Nordic Semiconductor'')], dt_models = [(0, ''nrf5x-regulator'')],
      dt_okay = True \<rparr>"

definition DT_N_S_soc_S_power_40000000_S_regulator_40000580 :: dt_node where [dt_defs]:
  "DT_N_S_soc_S_power_40000000_S_regulator_40000580 = \<lparr>
      dt_path = ''/soc/power@40000000/regulator@40000580'',
      dt_name = ''regulator@40000580'',
      dt_parent = Some 126, dt_child_idx = Some 3,
      dt_labels = [''reg0''], dt_ancestors = [126, 6, 0],
      dt_children = [],
      dt_children_okay = [],
      dt_hash = ''EmwsHDJc_OgJ9si0xBlXzlZEW4q8hk4sm7PNZcvkoLs'',
      dt_ord = 129, dt_requires = [126],
      dt_supports = [],
      dt_ids = [''INST_0_nordic_nrf52x_regulator_hv'', ''NODELABEL_reg0''],
      dt_bus = None,
      dt_regs = [(1073743232, Some 1)], dt_reg_names = [],
      dt_irqs = [], dt_irq_level = 0,
      dt_compats = [''nordic_nrf52x_regulator_hv''],
      dt_vendors = [(0, ''Nordic Semiconductor'')], dt_models = [(0, ''nrf52x-regulator-hv'')],
      dt_okay = True \<rparr>"

definition DT_N_S_soc_S_power_40000000_S_gpregret1_4000051c :: dt_node where [dt_defs]:
  "DT_N_S_soc_S_power_40000000_S_gpregret1_4000051c = \<lparr>
      dt_path = ''/soc/power@40000000/gpregret1@4000051c'',
      dt_name = ''gpregret1@4000051c'',
      dt_parent = Some 126, dt_child_idx = Some 0,
      dt_labels = [''gpregret1''], dt_ancestors = [126, 6, 0],
      dt_children = [131],
      dt_children_okay = [131],
      dt_hash = ''OWRjmrYfM9jJ_jDDS_Q0kLi6EE_K4K98ruphA6_SbRI'',
      dt_ord = 130, dt_requires = [126],
      dt_supports = [131],
      dt_ids = [''INST_0_nordic_nrf_gpregret'', ''NODELABEL_gpregret1''],
      dt_bus = None,
      dt_regs = [(1073743132, Some 1)], dt_reg_names = [],
      dt_irqs = [], dt_irq_level = 0,
      dt_compats = [''nordic_nrf_gpregret''],
      dt_vendors = [(0, ''Nordic Semiconductor'')], dt_models = [(0, ''nrf-gpregret'')],
      dt_okay = True \<rparr>"

definition DT_N_S_soc_S_power_40000000_S_gpregret1_4000051c_S_boot_mode_0 :: dt_node where [dt_defs]:
  "DT_N_S_soc_S_power_40000000_S_gpregret1_4000051c_S_boot_mode_0 = \<lparr>
      dt_path = ''/soc/power@40000000/gpregret1@4000051c/boot_mode@0'',
      dt_name = ''boot_mode@0'',
      dt_parent = Some 130, dt_child_idx = Some 0,
      dt_labels = [''boot_mode0''], dt_ancestors = [130, 126, 6, 0],
      dt_children = [],
      dt_children_okay = [],
      dt_hash = ''lepZy1IfMhpypB2MEeyz_wW_c8qMVN8a6h32SYtNErU'',
      dt_ord = 131, dt_requires = [130],
      dt_supports = [],
      dt_ids = [''INST_0_zephyr_retention'', ''NODELABEL_boot_mode0''],
      dt_bus = None,
      dt_regs = [(0, Some 1)], dt_reg_names = [],
      dt_irqs = [], dt_irq_level = 0,
      dt_compats = [''zephyr_retention''],
      dt_vendors = [(0, ''The Zephyr Project'')], dt_models = [(0, ''retention'')],
      dt_okay = True \<rparr>"

definition DT_N_S_soc_S_qspi_40029000 :: dt_node where [dt_defs]:
  "DT_N_S_soc_S_qspi_40029000 = \<lparr>
      dt_path = ''/soc/qspi@40029000'',
      dt_name = ''qspi@40029000'',
      dt_parent = Some 6, dt_child_idx = Some 49,
      dt_labels = [''qspi''], dt_ancestors = [6, 0],
      dt_children = [133],
      dt_children_okay = [133],
      dt_hash = ''dD0iMyDBMcHqmLKSCE3GtkZKGL8g9ljTZ68Z4dzh8Tc'',
      dt_ord = 132, dt_requires = [6, 7, 40, 42],
      dt_supports = [133],
      dt_ids = [''INST_0_nordic_nrf_qspi'', ''NODELABEL_qspi''],
      dt_bus = None,
      dt_regs = [(1073909760, Some 4096), (301989888, Some 134217728)], dt_reg_names = [''qspi'',
        ''qspi_mm''],
      dt_irqs = [(41, 1, 7)], dt_irq_level = 1,
      dt_compats = [''nordic_nrf_qspi''],
      dt_vendors = [(0, ''Nordic Semiconductor'')], dt_models = [(0, ''nrf-qspi'')],
      dt_okay = True \<rparr>"

definition DT_N_S_soc_S_qspi_40029000_S_mx25r6435f_0 :: dt_node where [dt_defs]:
  "DT_N_S_soc_S_qspi_40029000_S_mx25r6435f_0 = \<lparr>
      dt_path = ''/soc/qspi@40029000/mx25r6435f@0'',
      dt_name = ''mx25r6435f@0'',
      dt_parent = Some 132, dt_child_idx = Some 0,
      dt_labels = [''mx25r64''], dt_ancestors = [132, 6, 0],
      dt_children = [],
      dt_children_okay = [],
      dt_hash = ''WS3h3P7I_OGxVfZS4DAy38U093Un7PJe8SxoP4Je6JQ'',
      dt_ord = 133, dt_requires = [132],
      dt_supports = [],
      dt_ids = [''INST_0_nordic_qspi_nor'', ''NODELABEL_mx25r64''],
      dt_bus = Some (''qspi'', 132),
      dt_regs = [(0, None)], dt_reg_names = [],
      dt_irqs = [], dt_irq_level = 0,
      dt_compats = [''nordic_qspi_nor''],
      dt_vendors = [(0, ''Nordic Semiconductor'')], dt_models = [(0, ''qspi-nor'')],
      dt_okay = True \<rparr>"

definition DT_N_S_soc_S_radio_40001000 :: dt_node where [dt_defs]:
  "DT_N_S_soc_S_radio_40001000 = \<lparr>
      dt_path = ''/soc/radio@40001000'',
      dt_name = ''radio@40001000'',
      dt_parent = Some 6, dt_child_idx = Some 7,
      dt_labels = [''radio''], dt_ancestors = [6, 0],
      dt_children = [137, 136, 135],
      dt_children_okay = [137, 136],
      dt_hash = ''EhySRig3_YTJPPOLi2lkW9MH67kBg_0lXwfv5Sl4ivk'',
      dt_ord = 134, dt_requires = [6, 7],
      dt_supports = [135, 136, 137],
      dt_ids = [''INST_0_nordic_nrf_radio'', ''NODELABEL_radio''],
      dt_bus = None,
      dt_regs = [(1073745920, Some 4096)], dt_reg_names = [],
      dt_irqs = [(1, 1, 7)], dt_irq_level = 1,
      dt_compats = [''nordic_nrf_radio''],
      dt_vendors = [(0, ''Nordic Semiconductor'')], dt_models = [(0, ''nrf-radio'')],
      dt_okay = True \<rparr>"

definition DT_N_S_soc_S_radio_40001000_S_bt_hci_controller :: dt_node where [dt_defs]:
  "DT_N_S_soc_S_radio_40001000_S_bt_hci_controller = \<lparr>
      dt_path = ''/soc/radio@40001000/bt_hci_controller'',
      dt_name = ''bt_hci_controller'',
      dt_parent = Some 134, dt_child_idx = Some 2,
      dt_labels = [''bt_hci_controller''], dt_ancestors = [134, 6, 0],
      dt_children = [],
      dt_children_okay = [],
      dt_hash = ''IMh9qmPrfgi4fCuriAPFm_mVkv1qEz1_6WXYE6pxZ1I'',
      dt_ord = 135, dt_requires = [134],
      dt_supports = [],
      dt_ids = [''INST_0_zephyr_bt_hci_ll_sw_split'', ''NODELABEL_bt_hci_controller''],
      dt_bus = None,
      dt_regs = [], dt_reg_names = [],
      dt_irqs = [], dt_irq_level = 0,
      dt_compats = [''zephyr_bt_hci_ll_sw_split''],
      dt_vendors = [(0, ''The Zephyr Project'')], dt_models = [(0, ''bt-hci-ll-sw-split'')],
      dt_okay = False \<rparr>"

definition DT_N_S_soc_S_radio_40001000_S_bt_hci_sdc :: dt_node where [dt_defs]:
  "DT_N_S_soc_S_radio_40001000_S_bt_hci_sdc = \<lparr>
      dt_path = ''/soc/radio@40001000/bt_hci_sdc'',
      dt_name = ''bt_hci_sdc'',
      dt_parent = Some 134, dt_child_idx = Some 1,
      dt_labels = [''bt_hci_sdc''], dt_ancestors = [134, 6, 0],
      dt_children = [],
      dt_children_okay = [],
      dt_hash = ''Ig5iMuWVZBCfc9Fr9AANLBu_vA4OFpHfkkz5Gn6olm0'',
      dt_ord = 136, dt_requires = [134],
      dt_supports = [],
      dt_ids = [''INST_0_nordic_bt_hci_sdc'', ''NODELABEL_bt_hci_sdc''],
      dt_bus = None,
      dt_regs = [], dt_reg_names = [],
      dt_irqs = [], dt_irq_level = 0,
      dt_compats = [''nordic_bt_hci_sdc''],
      dt_vendors = [(0, ''Nordic Semiconductor'')], dt_models = [(0, ''bt-hci-sdc'')],
      dt_okay = True \<rparr>"

definition DT_N_S_soc_S_radio_40001000_S_ieee802154 :: dt_node where [dt_defs]:
  "DT_N_S_soc_S_radio_40001000_S_ieee802154 = \<lparr>
      dt_path = ''/soc/radio@40001000/ieee802154'',
      dt_name = ''ieee802154'',
      dt_parent = Some 134, dt_child_idx = Some 0,
      dt_labels = [''ieee802154''], dt_ancestors = [134, 6, 0],
      dt_children = [],
      dt_children_okay = [],
      dt_hash = ''SU5MZgfCUVUMjNWHiv93gzg8P0V67omioEge8K855nc'',
      dt_ord = 137, dt_requires = [134],
      dt_supports = [],
      dt_ids = [''INST_0_nordic_nrf_ieee802154'', ''NODELABEL_ieee802154''],
      dt_bus = None,
      dt_regs = [], dt_reg_names = [],
      dt_irqs = [], dt_irq_level = 0,
      dt_compats = [''nordic_nrf_ieee802154''],
      dt_vendors = [(0, ''Nordic Semiconductor'')], dt_models = [(0, ''nrf-ieee802154'')],
      dt_okay = True \<rparr>"

definition DT_N_S_soc_S_spi_40004000 :: dt_node where [dt_defs]:
  "DT_N_S_soc_S_spi_40004000 = \<lparr>
      dt_path = ''/soc/spi@40004000'',
      dt_name = ''spi@40004000'',
      dt_parent = Some 6, dt_child_idx = Some 12,
      dt_labels = [''spi1''], dt_ancestors = [6, 0],
      dt_children = [139],
      dt_children_okay = [139],
      dt_hash = ''qii9x_U6xlXtm4dv7b567iHa6R_sCzUhaIJmD7Ty6WI'',
      dt_ord = 138, dt_requires = [6, 7, 11, 45, 51],
      dt_supports = [139],
      dt_ids = [''INST_0_nordic_nrf_spi'', ''NODELABEL_spi1''],
      dt_bus = None,
      dt_regs = [(1073758208, Some 4096)], dt_reg_names = [],
      dt_irqs = [(4, 1, 7)], dt_irq_level = 1,
      dt_compats = [''nordic_nrf_spi''],
      dt_vendors = [(0, ''Nordic Semiconductor'')], dt_models = [(0, ''nrf-spi'')],
      dt_okay = True \<rparr>"

definition DT_N_S_soc_S_spi_40004000_S_nrf7002_0 :: dt_node where [dt_defs]:
  "DT_N_S_soc_S_spi_40004000_S_nrf7002_0 = \<lparr>
      dt_path = ''/soc/spi@40004000/nrf7002@0'',
      dt_name = ''nrf7002@0'',
      dt_parent = Some 138, dt_child_idx = Some 0,
      dt_labels = [''nrf70''], dt_ancestors = [138, 6, 0],
      dt_children = [140],
      dt_children_okay = [140],
      dt_hash = ''r0sNLP5avOgo16F_WbW6ArgZLVd6ozdX1uncABRnC3Q'',
      dt_ord = 139, dt_requires = [106, 138],
      dt_supports = [140],
      dt_ids = [''INST_0_nordic_nrf7002_spi'', ''NODELABEL_nrf70''],
      dt_bus = Some (''spi'', 138),
      dt_regs = [(0, None)], dt_reg_names = [],
      dt_irqs = [], dt_irq_level = 0,
      dt_compats = [''nordic_nrf7002_spi''],
      dt_vendors = [(0, ''Nordic Semiconductor'')], dt_models = [(0, ''nrf7002-spi'')],
      dt_okay = True \<rparr>"

definition DT_N_S_soc_S_spi_40004000_S_nrf7002_0_S_wlan :: dt_node where [dt_defs]:
  "DT_N_S_soc_S_spi_40004000_S_nrf7002_0_S_wlan = \<lparr>
      dt_path = ''/soc/spi@40004000/nrf7002@0/wlan'',
      dt_name = ''wlan'',
      dt_parent = Some 139, dt_child_idx = Some 0,
      dt_labels = [''wlan0''], dt_ancestors = [139, 138, 6, 0],
      dt_children = [],
      dt_children_okay = [],
      dt_hash = ''RBAKcmlBXU9ygIZgKQA2fhBNxBqdvIUe0Rchlg3qolY'',
      dt_ord = 140, dt_requires = [139],
      dt_supports = [],
      dt_ids = [''INST_0_nordic_wlan'', ''NODELABEL_wlan0''],
      dt_bus = Some (''spi'', 138),
      dt_regs = [], dt_reg_names = [],
      dt_irqs = [], dt_irq_level = 0,
      dt_compats = [''nordic_wlan''],
      dt_vendors = [(0, ''Nordic Semiconductor'')], dt_models = [(0, ''wlan'')],
      dt_okay = True \<rparr>"

end
