(* ===== verification/Devicetree_Image.thy ===== *)
theory Devicetree_Image
  imports Devicetree_Board Devicetree_Soc
begin

text \<open>
  The device tree as a whole: the nodes in the order of their ordinals, the lists at the end of
  \<^verbatim>\<open>devicetree_generated.h\<close> (chosen nodes, all nodes, enabled nodes, instances per compatible,
  partitions), and their consistency.
\<close>

section \<open>The lists\<close>

definition dt_nodes :: "dt_node list" where
  "dt_nodes = [
     DT_N,
     DT_N_S_aliases,
     DT_N_S_analog_connector,
     DT_N_S_chosen,
     DT_N_S_connector,
     DT_N_S_entropy_bt_hci,
     DT_N_S_soc,
     DT_N_S_soc_S_interrupt_controller_e000e100,
     DT_N_S_soc_S_timer_40009000,
     DT_N_S_sw_pwm,
     DT_N_S_soc_S_gpiote_40006000,
     DT_N_S_soc_S_gpio_50000000,
     DT_N_S_buttons,
     DT_N_S_buttons_S_button_0,
     DT_N_S_buttons_S_button_1,
     DT_N_S_buttons_S_button_2,
     DT_N_S_buttons_S_button_3,
     DT_N_S_clocks,
     DT_N_S_clocks_S_hfxo,
     DT_N_S_cpus,
     DT_N_S_cpus_S_cpu_0,
     DT_N_S_cpus_S_cpu_0_S_itm_e0000000,
     DT_N_S_leds,
     DT_N_S_leds_S_led_0,
     DT_N_S_leds_S_led_1,
     DT_N_S_leds_S_led_2,
     DT_N_S_leds_S_led_3,
     DT_N_S_pin_controller,
     DT_N_S_pin_controller_S_i2c0_default,
     DT_N_S_pin_controller_S_i2c0_default_S_group1,
     DT_N_S_pin_controller_S_i2c0_sleep,
     DT_N_S_pin_controller_S_i2c0_sleep_S_group1,
     DT_N_S_pin_controller_S_i2c1_default,
     DT_N_S_pin_controller_S_i2c1_default_S_group1,
     DT_N_S_pin_controller_S_i2c1_sleep,
     DT_N_S_pin_controller_S_i2c1_sleep_S_group1,
     DT_N_S_pin_controller_S_pwm0_default,
     DT_N_S_pin_controller_S_pwm0_default_S_group1,
     DT_N_S_pin_controller_S_pwm0_sleep,
     DT_N_S_pin_controller_S_pwm0_sleep_S_group1,
     DT_N_S_pin_controller_S_qspi_default,
     DT_N_S_pin_controller_S_qspi_default_S_group1,
     DT_N_S_pin_controller_S_qspi_sleep,
     DT_N_S_pin_controller_S_qspi_sleep_S_group1,
     DT_N_S_pin_controller_S_qspi_sleep_S_group2,
     DT_N_S_pin_controller_S_spi0_default,
     DT_N_S_pin_controller_S_spi0_default_S_group1,
     DT_N_S_pin_controller_S_spi0_sleep,
     DT_N_S_pin_controller_S_spi0_sleep_S_group1,
     DT_N_S_pin_controller_S_spi1_default,
     DT_N_S_pin_controller_S_spi1_default_S_group1,
     DT_N_S_pin_controller_S_spi1_sleep,
     DT_N_S_pin_controller_S_spi1_sleep_S_group1,
     DT_N_S_pin_controller_S_spi2_default,
     DT_N_S_pin_controller_S_spi2_default_S_group1,
     DT_N_S_pin_controller_S_spi2_sleep,
     DT_N_S_pin_controller_S_spi2_sleep_S_group1,
     DT_N_S_pin_controller_S_spi3_default,
     DT_N_S_pin_controller_S_spi3_default_S_group1,
     DT_N_S_pin_controller_S_spi3_sleep,
     DT_N_S_pin_controller_S_spi3_sleep_S_group1,
     DT_N_S_pin_controller_S_uart0_default,
     DT_N_S_pin_controller_S_uart0_default_S_group1,
     DT_N_S_pin_controller_S_uart0_default_S_group2,
     DT_N_S_pin_controller_S_uart0_sleep,
     DT_N_S_pin_controller_S_uart0_sleep_S_group1,
     DT_N_S_pin_controller_S_uart1_default,
     DT_N_S_pin_controller_S_uart1_default_S_group1,
     DT_N_S_pin_controller_S_uart1_default_S_group2,
     DT_N_S_pin_controller_S_uart1_sleep,
     DT_N_S_pin_controller_S_uart1_sleep_S_group1,
     DT_N_S_soc_S_pwm_4001c000,
     DT_N_S_pwmleds,
     DT_N_S_pwmleds_S_pwm_led_0,
     DT_N_S_soc_S_acl_4001e000,
     DT_N_S_soc_S_adc_40007000,
     DT_N_S_soc_S_ccm_4000f000,
     DT_N_S_soc_S_clock_40000000,
     DT_N_S_soc_S_comparator_40013000,
     DT_N_S_soc_S_crypto_5002a000,
     DT_N_S_soc_S_ecb_4000e000,
     DT_N_S_soc_S_egu_40014000,
     DT_N_S_soc_S_egu_40015000,
     DT_N_S_soc_S_egu_40016000,
     DT_N_S_soc_S_egu_40017000,
     DT_N_S_soc_S_egu_40018000,
     DT_N_S_soc_S_egu_40019000,
     DT_N_S_soc_S_ficr_10000000,
     DT_N_S_soc_S_i2c_40003000,
     DT_N_S_soc_S_i2c_40004000,
     DT_N_S_soc_S_i2s_40025000,
     DT_N_S_soc_S_memory_20000000,
     DT_N_S_soc_S_mwu_40020000,
     DT_N_S_soc_S_nfct_40005000,
     DT_N_S_soc_S_pdm_4001d000,
     DT_N_S_soc_S_ppi_4001f000,
     DT_N_S_soc_S_pwm_40021000,
     DT_N_S_soc_S_pwm_40022000,
     DT_N_S_soc_S_pwm_4002d000,
     DT_N_S_soc_S_qdec_40012000,
     DT_N_S_soc_S_random_4000d000,
     DT_N_S_soc_S_rtc_4000b000,
     DT_N_S_soc_S_rtc_40011000,
     DT_N_S_soc_S_rtc_40024000,
     DT_N_S_soc_S_spi_40003000,
     DT_N_S_soc_S_spi_40023000,
     DT_N_S_soc_S_gpio_50000300,
     DT_N_S_soc_S_spi_4002f000,
     DT_N_S_soc_S_temp_4000c000,
     DT_N_S_soc_S_timer_40008000,
     DT_N_S_soc_S_timer_4000a000,
     DT_N_S_soc_S_timer_4001a000,
     DT_N_S_soc_S_timer_4001b000,
     DT_N_S_soc_S_timer_e000e010,
     DT_N_S_soc_S_uart_40002000,
     DT_N_S_soc_S_uart_40028000,
     DT_N_S_soc_S_uicr_10001000,
     DT_N_S_soc_S_usbd_40027000,
     DT_N_S_soc_S_watchdog_40010000,
     DT_N_S_soc_S_flash_controller_4001e000,
     DT_N_S_soc_S_flash_controller_4001e000_S_flash_0,
     DT_N_S_soc_S_flash_controller_4001e000_S_flash_0_S_partitions,
     DT_N_S_soc_S_flash_controller_4001e000_S_flash_0_S_partitions_S_partition_0,
     DT_N_S_soc_S_flash_controller_4001e000_S_flash_0_S_partitions_S_partition_c000,
     DT_N_S_soc_S_flash_controller_4001e000_S_flash_0_S_partitions_S_partition_82000,
     DT_N_S_soc_S_flash_controller_4001e000_S_flash_0_S_partitions_S_partition_f8000,
     DT_N_S_soc_S_power_40000000,
     DT_N_S_soc_S_power_40000000_S_gpregret2_40000520,
     DT_N_S_soc_S_power_40000000_S_regulator_40000578,
     DT_N_S_soc_S_power_40000000_S_regulator_40000580,
     DT_N_S_soc_S_power_40000000_S_gpregret1_4000051c,
     DT_N_S_soc_S_power_40000000_S_gpregret1_4000051c_S_boot_mode_0,
     DT_N_S_soc_S_qspi_40029000,
     DT_N_S_soc_S_qspi_40029000_S_mx25r6435f_0,
     DT_N_S_soc_S_radio_40001000,
     DT_N_S_soc_S_radio_40001000_S_bt_hci_controller,
     DT_N_S_soc_S_radio_40001000_S_bt_hci_sdc,
     DT_N_S_soc_S_radio_40001000_S_ieee802154,
     DT_N_S_soc_S_spi_40004000,
     DT_N_S_soc_S_spi_40004000_S_nrf7002_0,
     DT_N_S_soc_S_spi_40004000_S_nrf7002_0_S_wlan]"

text \<open>The chosen nodes.\<close>

definition dt_chosen :: "(string \<times> nat) list" where
  "dt_chosen = [
     (''zephyr_bt_hci'', 136), (''zephyr_entropy'', 79), (''zephyr_flash_controller'', 119),
     (''zephyr_sram'', 91), (''zephyr_flash'', 120), (''zephyr_code_partition'', 123),
     (''zephyr_console'', 114), (''zephyr_shell_uart'', 114), (''zephyr_uart_mcumgr'', 114),
     (''zephyr_bt_mon_uart'', 114), (''zephyr_bt_c2h_uart'', 114), (''zephyr_ieee802154'', 137),
     (''zephyr_boot_mode'', 131), (''zephyr_wifi'', 140)]"

text \<open>All nodes and all enabled nodes, in the order of the macros that iterate over them.\<close>

definition dt_foreach :: "nat list" where
  "dt_foreach = [
     0, 3, 1, 6, 7, 113, 87, 116, 91, 77, 126, 130, 131, 127, 128, 129, 134, 137, 136, 135, 114,
     88, 104, 89, 138, 139, 140, 93, 10, 75, 109, 8, 110, 101, 108, 100, 80, 76, 118, 102, 99, 78,
     81, 82, 83, 84, 85, 86, 111, 112, 71, 94, 74, 119, 120, 121, 122, 123, 124, 125, 95, 92, 96,
     97, 105, 103, 90, 117, 115, 132, 133, 98, 107, 11, 106, 79, 27, 61, 62, 63, 64, 65, 66, 67,
     68, 69, 70, 28, 29, 30, 31, 32, 33, 34, 35, 36, 37, 38, 39, 45, 46, 47, 48, 49, 50, 51, 52,
     53, 54, 55, 56, 40, 41, 42, 43, 44, 57, 58, 59, 60, 5, 9, 19, 20, 21, 17, 18, 22, 23, 24, 25,
     26, 72, 73, 12, 13, 14, 15, 16, 4, 2]"

definition dt_foreach_okay :: "nat list" where
  "dt_foreach_okay = [
     0, 3, 1, 6, 7, 87, 116, 91, 77, 126, 130, 131, 127, 128, 129, 134, 137, 136, 114, 88, 138,
     139, 140, 93, 10, 75, 108, 100, 80, 76, 118, 81, 82, 83, 84, 85, 86, 71, 74, 119, 120, 121,
     122, 123, 124, 125, 95, 92, 117, 132, 133, 107, 11, 106, 79, 27, 61, 62, 63, 64, 65, 66, 67,
     68, 69, 70, 28, 29, 30, 31, 32, 33, 34, 35, 36, 37, 38, 39, 45, 46, 47, 48, 49, 50, 51, 52,
     53, 54, 55, 56, 40, 41, 42, 43, 44, 57, 58, 59, 60, 5, 19, 20, 21, 17, 18, 22, 23, 24, 25,
     26, 72, 73, 12, 13, 14, 15, 16, 4, 2]"

definition dt_partition_labels :: "(string \<times> nat) list" where
  "dt_partition_labels = [
     (''mcuboot'', 122), (''image_0'', 123), (''image_1'', 124), (''storage'', 125)]"

text \<open>For each compatible with an enabled node: how many there are (\<^verbatim>\<open>NUM_OKAY\<close>), and which
  (\<^verbatim>\<open>DT_FOREACH_OKAY\<close>; the instance numbers of \<^verbatim>\<open>DT_FOREACH_OKAY_INST\<close> are their positions).\<close>

definition dt_num_okay :: "(string \<times> nat) list" where
  "dt_num_okay = [
     (''nordic_nrf52840_dk_nrf52840'', 1), (''nordic_nrf52840_qiaa'', 1), (''nordic_nrf52840'',
     1), (''nordic_nrf52'', 1), (''simple_bus'', 1), (''arm_v7m_nvic'', 1), (''nordic_nrf_ficr'',
     1), (''nordic_nrf_uicr'', 1), (''mmio_sram'', 1), (''nordic_nrf_clock'', 1),
     (''nordic_nrf_power'', 1), (''nordic_nrf_gpregret'', 2), (''zephyr_retention'', 1),
     (''nordic_nrf5x_regulator'', 1), (''nordic_nrf52x_regulator_hv'', 1), (''nordic_nrf_radio'',
     1), (''nordic_nrf_ieee802154'', 1), (''nordic_bt_hci_sdc'', 1), (''nordic_nrf_uarte'', 1),
     (''nordic_nrf_twi'', 1), (''nordic_nrf_spi'', 1), (''nordic_nrf7002_spi'', 1),
     (''nordic_wlan'', 1), (''nordic_nrf_nfct'', 1), (''nordic_nrf_gpiote'', 1),
     (''nordic_nrf_saadc'', 1), (''nordic_nrf_temp'', 1), (''nordic_nrf_rng'', 1),
     (''nordic_nrf_ecb'', 1), (''nordic_nrf_ccm'', 1), (''nordic_nrf_wdt'', 1),
     (''nordic_nrf_egu'', 6), (''nordic_nrf_swi'', 6), (''nordic_nrf_pwm'', 1),
     (''nordic_nrf_acl'', 1), (''nordic_nrf52_flash_controller'', 1), (''soc_nv_flash'', 1),
     (''fixed_partitions'', 1), (''nordic_nrf_ppi'', 1), (''nordic_nrf_mwu'', 1),
     (''nordic_nrf_usbd'', 1), (''nordic_nrf_qspi'', 1), (''nordic_qspi_nor'', 1),
     (''nordic_nrf_spim'', 1), (''nordic_nrf_gpio'', 2), (''arm_cryptocell_310'', 1),
     (''nordic_nrf_pinctrl'', 1), (''zephyr_bt_hci_entropy'', 1), (''arm_cortex_m4f'', 1),
     (''arm_armv7m_itm'', 1), (''nordic_nrf52_hfxo'', 1), (''gpio_leds'', 1), (''pwm_leds'', 1),
     (''gpio_keys'', 1), (''arduino_header_r3'', 1), (''arduino_uno_adc'', 1)]"

definition dt_okay_nodes :: "(string \<times> nat list) list" where
  "dt_okay_nodes = [
     (''nordic_nrf52840_dk_nrf52840'', [0]), (''nordic_nrf52840_qiaa'', [6]),
     (''nordic_nrf52840'', [6]), (''nordic_nrf52'', [6]), (''simple_bus'', [6]),
     (''arm_v7m_nvic'', [7]), (''nordic_nrf_ficr'', [87]), (''nordic_nrf_uicr'', [116]),
     (''mmio_sram'', [91]), (''nordic_nrf_clock'', [77]), (''nordic_nrf_power'', [126]),
     (''nordic_nrf_gpregret'', [130, 127]), (''zephyr_retention'', [131]),
     (''nordic_nrf5x_regulator'', [128]), (''nordic_nrf52x_regulator_hv'', [129]),
     (''nordic_nrf_radio'', [134]), (''nordic_nrf_ieee802154'', [137]), (''nordic_bt_hci_sdc'',
     [136]), (''nordic_nrf_uarte'', [114]), (''nordic_nrf_twi'', [88]), (''nordic_nrf_spi'',
     [138]), (''nordic_nrf7002_spi'', [139]), (''nordic_wlan'', [140]), (''nordic_nrf_nfct'',
     [93]), (''nordic_nrf_gpiote'', [10]), (''nordic_nrf_saadc'', [75]), (''nordic_nrf_temp'',
     [108]), (''nordic_nrf_rng'', [100]), (''nordic_nrf_ecb'', [80]), (''nordic_nrf_ccm'', [76]),
     (''nordic_nrf_wdt'', [118]), (''nordic_nrf_egu'', [81, 82, 83, 84, 85, 86]),
     (''nordic_nrf_swi'', [81, 82, 83, 84, 85, 86]), (''nordic_nrf_pwm'', [71]),
     (''nordic_nrf_acl'', [74]), (''nordic_nrf52_flash_controller'', [119]), (''soc_nv_flash'',
     [120]), (''fixed_partitions'', [121]), (''nordic_nrf_ppi'', [95]), (''nordic_nrf_mwu'',
     [92]), (''nordic_nrf_usbd'', [117]), (''nordic_nrf_qspi'', [132]), (''nordic_qspi_nor'',
     [133]), (''nordic_nrf_spim'', [107]), (''nordic_nrf_gpio'', [11, 106]),
     (''arm_cryptocell_310'', [79]), (''nordic_nrf_pinctrl'', [27]), (''zephyr_bt_hci_entropy'',
     [5]), (''arm_cortex_m4f'', [20]), (''arm_armv7m_itm'', [21]), (''nordic_nrf52_hfxo'', [18]),
     (''gpio_leds'', [22]), (''pwm_leds'', [72]), (''gpio_keys'', [12]), (''arduino_header_r3'',
     [4]), (''arduino_uno_adc'', [2])]"

text \<open>The bus of the compatibles that sit on one.\<close>

definition dt_compat_bus :: "(string \<times> string) list" where
  "dt_compat_bus = [
     (''nordic_nrf7002_spi'', ''spi''), (''nordic_wlan'', ''spi''), (''nordic_qspi_nor'',
     ''qspi'')]"

section \<open>Fields by ordinal\<close>

text \<open>The columns of the tree, computed once.\<close>

lemma dt_length: "length dt_nodes = 141"
  by (simp add: dt_nodes_def)

definition dt_requires_col :: "nat list list" where "dt_requires_col = map dt_requires dt_nodes"
definition dt_supports_col :: "nat list list" where "dt_supports_col = map dt_supports dt_nodes"
definition dt_children_col :: "nat list list" where "dt_children_col = map dt_children dt_nodes"
definition dt_okay_col :: "bool list" where "dt_okay_col = map dt_okay dt_nodes"
definition dt_regs_col :: "(nat \<times> nat option) list list" where "dt_regs_col = map dt_regs dt_nodes"
definition dt_irqs_col :: "(nat \<times> nat \<times> nat) list list" where "dt_irqs_col = map dt_irqs dt_nodes"
definition dt_compats_col :: "string list list" where "dt_compats_col = map dt_compats dt_nodes"

lemmas dt_columns = dt_requires_col_def dt_supports_col_def dt_children_col_def dt_okay_col_def
  dt_regs_col_def dt_irqs_col_def dt_compats_col_def

text \<open>Ordinals are kept as numerals.\<close>

lemma Suc_Suc_numeral [simp]: "Suc (Suc 0) = 2"
  by simp

lemmas dt_requires_values = dt_requires_col_def [unfolded dt_nodes_def list.map dt_defs dt_node.select_convs]
lemmas dt_supports_values = dt_supports_col_def [unfolded dt_nodes_def list.map dt_defs dt_node.select_convs]
lemmas dt_children_values = dt_children_col_def [unfolded dt_nodes_def list.map dt_defs dt_node.select_convs]
lemmas dt_okay_values = dt_okay_col_def [unfolded dt_nodes_def list.map dt_defs dt_node.select_convs]
lemmas dt_regs_values = dt_regs_col_def [unfolded dt_nodes_def list.map dt_defs dt_node.select_convs]
lemmas dt_irqs_values = dt_irqs_col_def [unfolded dt_nodes_def list.map dt_defs dt_node.select_convs]
lemmas dt_compats_values = dt_compats_col_def [unfolded dt_nodes_def list.map dt_defs dt_node.select_convs]

lemmas dt_requires_at = nth_rows [OF dt_requires_values, simplified]
lemmas dt_supports_at = nth_rows [OF dt_supports_values, simplified]
lemmas dt_children_at = nth_rows [OF dt_children_values, simplified]
lemmas dt_okay_at = nth_rows [OF dt_okay_values, simplified]
lemmas dt_regs_at = nth_rows [OF dt_regs_values, simplified]
lemmas dt_irqs_at = nth_rows [OF dt_irqs_values, simplified]
lemmas dt_compats_at = nth_rows [OF dt_compats_values, simplified]

lemma col_nth:
  assumes "i < 141"
  shows "dt_requires_col ! i = dt_requires (dt_nodes ! i)" "dt_supports_col ! i = dt_supports (dt_nodes ! i)"
    "dt_children_col ! i = dt_children (dt_nodes ! i)" "dt_okay_col ! i = dt_okay (dt_nodes ! i)"
    "dt_regs_col ! i = dt_regs (dt_nodes ! i)" "dt_irqs_col ! i = dt_irqs (dt_nodes ! i)"
    "dt_compats_col ! i = dt_compats (dt_nodes ! i)"
  using assms by (simp_all add: dt_columns dt_length)

lemma col_length: "length dt_requires_col = 141" "length dt_supports_col = 141"
  by (simp_all add: dt_columns dt_length)

section \<open>The order of the ordinals\<close>

lemma requires_smaller: "list_all (\<lambda>(i, rs). list_all (\<lambda>r. r < i) rs) (enumerate 0 dt_requires_col)"
  by (simp add: dt_requires_values)

lemma requires_served: "list_all (\<lambda>(i, rs). list_all (\<lambda>r. i \<in> set (dt_supports_col ! r)) rs) (enumerate 0 dt_requires_col)"
  by (simp add: dt_requires_values dt_supports_at)

lemma supports_needed: "list_all (\<lambda>(r, is). list_all (\<lambda>i. i < 141 \<and> r \<in> set (dt_requires_col ! i)) is) (enumerate 0 dt_supports_col)"
  by (simp add: dt_supports_values dt_requires_at)

lemma okay_closed: "list_all (\<lambda>(i, rs). dt_okay_col ! i \<longrightarrow> list_all (\<lambda>r. dt_okay_col ! r) rs) (enumerate 0 dt_requires_col)"
  by (simp add: dt_requires_values dt_okay_at)

interpretation dt: dependency_order 141 "\<lambda>i. dt_requires (dt_nodes ! i)" "\<lambda>i. dt_supports (dt_nodes ! i)"
  "\<lambda>i. dt_okay (dt_nodes ! i)"
proof
  fix i r :: nat
  assume i: "i < 141" and r: "r \<in> set (dt_requires (dt_nodes ! i))"
  then show less: "r < i"
    using rowD [OF requires_smaller, of i] by (simp add: col_length col_nth list_all_iff)
  then have r': "r < 141" using i by simp
  show "i \<in> set (dt_supports (dt_nodes ! r))"
    using i r rowD [OF requires_served, of i] col_nth(2) [OF r'] by (auto simp: col_length col_nth(1) list_all_iff)
  show "dt_okay (dt_nodes ! r)" if "dt_okay (dt_nodes ! i)"
    using i r that rowD [OF okay_closed, of i] col_nth(4) [OF r'] by (auto simp: col_length col_nth list_all_iff)
next
  fix i r :: nat
  assume "r < 141" and "i \<in> set (dt_supports (dt_nodes ! r))"
  then show "i < 141 \<and> r \<in> set (dt_requires (dt_nodes ! i))"
    using rowD [OF supports_needed, of r] by (auto simp: col_length col_nth list_all_iff)
qed

lemma dt_ords: "map dt_ord dt_nodes = [0..<141]"
  by (simp add: dt_nodes_def dt_defs upt_rec)

text \<open>C21. The ordinals are an order of initialisation. The nodes are numbered as they are listed; initialising
  the enabled ones in that order finds every dependency of a node enabled and already initialised;
  and what a node requires and what it supports are the same relation read in the two directions.\<close>

theorem devicetree_order:
  "map dt_ord dt_nodes = [0..<141] \<and>
   deps_first (\<lambda>i. dt_requires (dt_nodes ! i)) {} (filter (\<lambda>i. dt_okay (dt_nodes ! i)) [0..<141]) \<and>
   {(i, r). i < 141 \<and> r \<in> set (dt_requires (dt_nodes ! i))} =
   {(i, r). r < 141 \<and> i \<in> set (dt_supports (dt_nodes ! r))}"
  using dt_ords dt.enabled_in_order dt.edges_converse by (intro conjI)

section \<open>The tree\<close>

lemma foreach_walk: "dt_foreach = walk (\<lambda>i. dt_children (dt_nodes ! i)) 5 0"
  by (simp add: dt_foreach_def walk_numeral col_nth(3) [symmetric] dt_children_at)

lemma foreach_okay: "dt_foreach_okay = filter (\<lambda>i. dt_okay_col ! i) dt_foreach"
  by (simp add: dt_foreach_def dt_foreach_okay_def dt_okay_at)

lemma foreach_perm: "distinct dt_foreach" "list_all (\<lambda>i. i < 141) dt_foreach" "length dt_foreach = 141"
  by (simp_all add: dt_foreach_def)

lemma foreach_set: "set dt_foreach = {..<141}"
  using foreach_perm by (intro card_subset_eq) (auto simp: list_all_iff distinct_card)

text \<open>A node agrees with its place: its children name it as their parent and are numbered in order, its
  enabled children are those of its children that are enabled, its ancestors are its parent and the
  parent's ancestors, and its path is the parent's path and its own name.\<close>

definition dt_placed :: "nat \<Rightarrow> bool" where
  "dt_placed i \<longleftrightarrow> (let n = dt_nodes ! i in
     map (\<lambda>j. (dt_parent (dt_nodes ! j), dt_child_idx (dt_nodes ! j))) (dt_children n) =
       map (\<lambda>k. (Some i, Some k)) [0..<length (dt_children n)] \<and>
     dt_children_okay n = filter (\<lambda>j. dt_okay (dt_nodes ! j)) (dt_children n) \<and>
     (case dt_parent n of
        None \<Rightarrow> dt_ancestors n = [] \<and> dt_path n = ''/''
      | Some p \<Rightarrow> dt_ancestors n = p # dt_ancestors (dt_nodes ! p) \<and>
          dt_path n = (if p = 0 then [] else dt_path (dt_nodes ! p)) @ ''/'' @ dt_name n))"

text \<open>The nodes by ordinal.\<close>

lemmas dt_nodes_at = nth_rows [OF dt_nodes_def, simplified]

lemma dt_all_placed: "list_all dt_placed [0..<141]"
  by (simp add: upt_rec dt_placed_def Let_def dt_nodes_at dt_defs)

text \<open>The tree of the header is one tree, listed depth first. The list of all nodes is the walk of the
  children from the root (no branch is deeper than five) and has every node exactly once; the list
  of enabled nodes is the enabled part of it; and every node agrees with its parent, its children,
  its ancestors and its path.\<close>

theorem devicetree_tree:
  "dt_foreach = walk (\<lambda>i. dt_children (dt_nodes ! i)) 5 0 \<and> distinct dt_foreach \<and> set dt_foreach = {..<length dt_nodes} \<and>
   dt_foreach_okay = filter (\<lambda>i. dt_okay (dt_nodes ! i)) dt_foreach \<and> list_all dt_placed [0..<length dt_nodes]"
proof -
  have "filter (\<lambda>i. dt_okay_col ! i) dt_foreach = filter (\<lambda>i. dt_okay (dt_nodes ! i)) dt_foreach"
    using foreach_set by (intro filter_cong) (auto simp: col_nth)
  then show ?thesis
    using foreach_walk foreach_okay foreach_perm(1) foreach_set dt_all_placed by (simp add: dt_length)
qed

section \<open>Instances\<close>

lemma listed_okay: "list_all (\<lambda>(c, ns). list_all (\<lambda>i. dt_okay_col ! i \<and> c \<in> set (dt_compats_col ! i)) ns) dt_okay_nodes"
  by (simp add: dt_okay_nodes_def dt_compats_at dt_okay_at)

lemma listed_bound: "list_all (\<lambda>(c, ns). list_all (\<lambda>i. i < 141) ns) dt_okay_nodes"
  by (simp add: dt_okay_nodes_def)

lemma okay_keys_distinct: "distinct (map fst dt_okay_nodes)"
  by (simp add: dt_okay_nodes_def)

lemmas okay_rows = map_of_rows [OF dt_okay_nodes_def okay_keys_distinct, simplified]

lemma okay_listed:
  "list_all (\<lambda>i. list_all (\<lambda>c. case map_of dt_okay_nodes c of None \<Rightarrow> False | Some ns \<Rightarrow> i \<in> set ns) (dt_compats_col ! i)) dt_foreach_okay"
  by (simp add: dt_foreach_okay_def dt_compats_at okay_rows)

lemma num_okay: "dt_num_okay = map (\<lambda>(c, ns). (c, length ns)) dt_okay_nodes"
  by (simp add: dt_okay_nodes_def dt_num_okay_def)

lemma chosen_okay: "list_all (\<lambda>(c, i). i < 141 \<and> dt_okay_col ! i) dt_chosen"
  by (simp add: dt_chosen_def dt_okay_at)

lemma okay_pairs:
  "{(c, i). \<exists>ns. (c, ns) \<in> set dt_okay_nodes \<and> i \<in> set ns} =
   {(c, i). i < 141 \<and> dt_okay_col ! i \<and> c \<in> set (dt_compats_col ! i)}"
proof (intro set_eqI iffI; clarsimp)
  fix c i ns
  assume "(c, ns) \<in> set dt_okay_nodes" "i \<in> set ns"
  then show "i < 141 \<and> dt_okay_col ! i \<and> c \<in> set (dt_compats_col ! i)"
    using listed_okay listed_bound by (auto simp: list_all_iff)
next
  fix c i
  assume i: "i < 141" "dt_okay_col ! i" and c: "c \<in> set (dt_compats_col ! i)"
  have "i \<in> set dt_foreach_okay"
    unfolding foreach_okay using i foreach_set by simp
  then have "case map_of dt_okay_nodes c of None \<Rightarrow> False | Some ns \<Rightarrow> i \<in> set ns"
    using c okay_listed by (simp add: list_all_iff)
  then show "\<exists>ns. (c, ns) \<in> set dt_okay_nodes \<and> i \<in> set ns"
    by (auto split: option.splits dest: map_of_SomeD)
qed

text \<open>The instances that drivers are built for are the enabled nodes. A node is listed under a compatible
  exactly when it is enabled and has that compatible; the counts are the lengths of the lists; no
  compatible is listed twice; and every chosen node (console, entropy source, Wi-Fi interface and the
  others) is an enabled node.\<close>

theorem devicetree_instances:
  "{(c, i). \<exists>ns. (c, ns) \<in> set dt_okay_nodes \<and> i \<in> set ns} =
     {(c, i). i < length dt_nodes \<and> dt_okay (dt_nodes ! i) \<and> c \<in> set (dt_compats (dt_nodes ! i))} \<and>
   distinct (map fst dt_okay_nodes) \<and>
   dt_num_okay = map (\<lambda>(c, ns). (c, length ns)) dt_okay_nodes \<and>
   list_all (\<lambda>(c, i). i < length dt_nodes \<and> dt_okay (dt_nodes ! i)) dt_chosen"
proof -
  have "{(c, i). i < 141 \<and> dt_okay_col ! i \<and> c \<in> set (dt_compats_col ! i)} =
      {(c, i). i < length dt_nodes \<and> dt_okay (dt_nodes ! i) \<and> c \<in> set (dt_compats (dt_nodes ! i))}"
    by (auto simp: col_nth dt_length)
  moreover have "list_all (\<lambda>(c, i). i < length dt_nodes \<and> dt_okay (dt_nodes ! i)) dt_chosen"
    using chosen_okay by (auto simp: list_all_iff col_nth dt_length)
  ultimately show ?thesis
    using okay_pairs okay_keys_distinct num_okay by simp
qed

section \<open>Addresses\<close>

text \<open>Pairs of enabled peripherals of the chip whose register blocks share an address.\<close>

definition dt_conflicts :: "(nat \<times> nat) list" where
  "dt_conflicts = [(i, j). i \<leftarrow> dt_children_okay DT_N_S_soc, j \<leftarrow> dt_children_okay DT_N_S_soc, i < j,
     list_ex (\<lambda>a. list_ex (overlap a) (dt_regs (dt_nodes ! j))) (dt_regs (dt_nodes ! i))]"

text \<open>Blocks that follow each other without gap from one address to another.\<close>

fun tiles :: "nat \<Rightarrow> (nat \<times> nat option) list \<Rightarrow> nat \<Rightarrow> bool" where
  "tiles a [] e \<longleftrightarrow> a = e"
| "tiles a ((b, s) # rs) e \<longleftrightarrow> (case s of None \<Rightarrow> False | Some n \<Rightarrow> b = a \<and> 0 < n \<and> tiles (a + n) rs e)"

text \<open>C33. No two enabled peripherals of the chip share an address, except the two pairs that are one block of
  the hardware: clock and power, and access control and flash controller. The four partitions of
  the flash follow each other without gap or overlap from its first to its last byte.\<close>

theorem devicetree_addresses:
  "dt_conflicts = [(dt_ord DT_N_S_soc_S_clock_40000000, dt_ord DT_N_S_soc_S_power_40000000),
     (dt_ord DT_N_S_soc_S_acl_4001e000, dt_ord DT_N_S_soc_S_flash_controller_4001e000)] \<and>
   map snd dt_partition_labels = dt_children DT_N_S_soc_S_flash_controller_4001e000_S_flash_0_S_partitions \<and>
   (case dt_regs DT_N_S_soc_S_flash_controller_4001e000_S_flash_0 of [(a, Some n)] \<Rightarrow>
      tiles a (concat (map (\<lambda>(l, i). dt_regs (dt_nodes ! i)) dt_partition_labels)) (a + n)
    | _ \<Rightarrow> False)"
proof (intro conjI)
  show "dt_conflicts = [(dt_ord DT_N_S_soc_S_clock_40000000, dt_ord DT_N_S_soc_S_power_40000000),
     (dt_ord DT_N_S_soc_S_acl_4001e000, dt_ord DT_N_S_soc_S_flash_controller_4001e000)]"
    by (simp add: dt_conflicts_def DT_N_S_soc_def DT_N_S_soc_S_acl_4001e000_def
        DT_N_S_soc_S_flash_controller_4001e000_def DT_N_S_soc_S_clock_40000000_def
        DT_N_S_soc_S_power_40000000_def col_nth(5) [symmetric] dt_regs_at)
qed (simp_all add: dt_partition_labels_def DT_N_S_soc_S_flash_controller_4001e000_S_flash_0_S_partitions_def
    DT_N_S_soc_S_flash_controller_4001e000_S_flash_0_def col_nth(5) [symmetric] dt_regs_at)

end
