(* ===== verification/Devicetree_Pins.thy ===== *)
theory Devicetree_Pins
  imports Devicetree_Image
begin

text \<open>
  The pins of the board: the pin selections of the pin-control groups, the pin-control states of the
  peripherals and the GPIO specifications of \<^verbatim>\<open>devicetree_generated.h\<close>, and which enabled devices
  claim the same pin. Node identifiers are ordinals, as in \<open>Devicetree\<close>.
\<close>

unbundle bit_operations_syntax

section \<open>Pin selections\<close>

text \<open>A pin selection is a word: the pin (port times 32 plus number) in its low bits, the function in its
  top byte.\<close>

definition DT_N_S_pin_controller_S_i2c0_default_S_group1_P_psels :: "32 word list" where [dt_defs]:
  "DT_N_S_pin_controller_S_i2c0_default_S_group1_P_psels = [0xc00001a, 0xb00001b]"

definition DT_N_S_pin_controller_S_i2c0_sleep_S_group1_P_psels :: "32 word list" where [dt_defs]:
  "DT_N_S_pin_controller_S_i2c0_sleep_S_group1_P_psels = [0xc00001a, 0xb00001b]"

definition DT_N_S_pin_controller_S_i2c1_default_S_group1_P_psels :: "32 word list" where [dt_defs]:
  "DT_N_S_pin_controller_S_i2c1_default_S_group1_P_psels = [0xc00001e, 0xb00001f]"

definition DT_N_S_pin_controller_S_i2c1_sleep_S_group1_P_psels :: "32 word list" where [dt_defs]:
  "DT_N_S_pin_controller_S_i2c1_sleep_S_group1_P_psels = [0xc00001e, 0xb00001f]"

definition DT_N_S_pin_controller_S_pwm0_default_S_group1_P_psels :: "32 word list" where [dt_defs]:
  "DT_N_S_pin_controller_S_pwm0_default_S_group1_P_psels = [0x1600000d]"

definition DT_N_S_pin_controller_S_pwm0_sleep_S_group1_P_psels :: "32 word list" where [dt_defs]:
  "DT_N_S_pin_controller_S_pwm0_sleep_S_group1_P_psels = [0x1600000d]"

definition DT_N_S_pin_controller_S_qspi_default_S_group1_P_psels :: "32 word list" where [dt_defs]:
  "DT_N_S_pin_controller_S_qspi_default_S_group1_P_psels = [0x1d000013, 0x1f000014, 0x20000015, 0x21000016, 0x22000017, 0x1e000011]"

definition DT_N_S_pin_controller_S_qspi_sleep_S_group1_P_psels :: "32 word list" where [dt_defs]:
  "DT_N_S_pin_controller_S_qspi_sleep_S_group1_P_psels = [0x1d000013, 0x1f000014, 0x20000015, 0x21000016, 0x22000017]"

definition DT_N_S_pin_controller_S_qspi_sleep_S_group2_P_psels :: "32 word list" where [dt_defs]:
  "DT_N_S_pin_controller_S_qspi_sleep_S_group2_P_psels = [0x1e000011]"

definition DT_N_S_pin_controller_S_spi0_default_S_group1_P_psels :: "32 word list" where [dt_defs]:
  "DT_N_S_pin_controller_S_spi0_default_S_group1_P_psels = [0x400001b, 0x500001a, 0x600001d]"

definition DT_N_S_pin_controller_S_spi0_sleep_S_group1_P_psels :: "32 word list" where [dt_defs]:
  "DT_N_S_pin_controller_S_spi0_sleep_S_group1_P_psels = [0x400001b, 0x500001a, 0x600001d]"

definition DT_N_S_pin_controller_S_spi1_default_S_group1_P_psels :: "32 word list" where [dt_defs]:
  "DT_N_S_pin_controller_S_spi1_default_S_group1_P_psels = [0x400001f, 0x500001e, 0x6000028]"

definition DT_N_S_pin_controller_S_spi1_sleep_S_group1_P_psels :: "32 word list" where [dt_defs]:
  "DT_N_S_pin_controller_S_spi1_sleep_S_group1_P_psels = [0x400001f, 0x500001e, 0x6000028]"

definition DT_N_S_pin_controller_S_spi2_default_S_group1_P_psels :: "32 word list" where [dt_defs]:
  "DT_N_S_pin_controller_S_spi2_default_S_group1_P_psels = [0x4000013, 0x5000014, 0x6000015]"

definition DT_N_S_pin_controller_S_spi2_sleep_S_group1_P_psels :: "32 word list" where [dt_defs]:
  "DT_N_S_pin_controller_S_spi2_sleep_S_group1_P_psels = [0x4000013, 0x5000014, 0x6000015]"

definition DT_N_S_pin_controller_S_spi3_default_S_group1_P_psels :: "32 word list" where [dt_defs]:
  "DT_N_S_pin_controller_S_spi3_default_S_group1_P_psels = [0x400002f, 0x600002e, 0x500002d]"

definition DT_N_S_pin_controller_S_spi3_sleep_S_group1_P_psels :: "32 word list" where [dt_defs]:
  "DT_N_S_pin_controller_S_spi3_sleep_S_group1_P_psels = [0x400002f, 0x600002e, 0x500002d]"

definition DT_N_S_pin_controller_S_uart0_default_S_group1_P_psels :: "32 word list" where [dt_defs]:
  "DT_N_S_pin_controller_S_uart0_default_S_group1_P_psels = [0x6, 0x2000005]"

definition DT_N_S_pin_controller_S_uart0_default_S_group2_P_psels :: "32 word list" where [dt_defs]:
  "DT_N_S_pin_controller_S_uart0_default_S_group2_P_psels = [0x1000008, 0x3000007]"

definition DT_N_S_pin_controller_S_uart0_sleep_S_group1_P_psels :: "32 word list" where [dt_defs]:
  "DT_N_S_pin_controller_S_uart0_sleep_S_group1_P_psels = [0x6, 0x1000008, 0x2000005, 0x3000007]"

definition DT_N_S_pin_controller_S_uart1_default_S_group1_P_psels :: "32 word list" where [dt_defs]:
  "DT_N_S_pin_controller_S_uart1_default_S_group1_P_psels = [0x1000021]"

definition DT_N_S_pin_controller_S_uart1_default_S_group2_P_psels :: "32 word list" where [dt_defs]:
  "DT_N_S_pin_controller_S_uart1_default_S_group2_P_psels = [0x22]"

definition DT_N_S_pin_controller_S_uart1_sleep_S_group1_P_psels :: "32 word list" where [dt_defs]:
  "DT_N_S_pin_controller_S_uart1_sleep_S_group1_P_psels = [0x1000021, 0x22]"

definition pin_groups :: "(nat \<times> 32 word list) list" where
  "pin_groups = [
     (29, DT_N_S_pin_controller_S_i2c0_default_S_group1_P_psels),
     (31, DT_N_S_pin_controller_S_i2c0_sleep_S_group1_P_psels),
     (33, DT_N_S_pin_controller_S_i2c1_default_S_group1_P_psels),
     (35, DT_N_S_pin_controller_S_i2c1_sleep_S_group1_P_psels),
     (37, DT_N_S_pin_controller_S_pwm0_default_S_group1_P_psels),
     (39, DT_N_S_pin_controller_S_pwm0_sleep_S_group1_P_psels),
     (41, DT_N_S_pin_controller_S_qspi_default_S_group1_P_psels),
     (43, DT_N_S_pin_controller_S_qspi_sleep_S_group1_P_psels),
     (44, DT_N_S_pin_controller_S_qspi_sleep_S_group2_P_psels),
     (46, DT_N_S_pin_controller_S_spi0_default_S_group1_P_psels),
     (48, DT_N_S_pin_controller_S_spi0_sleep_S_group1_P_psels),
     (50, DT_N_S_pin_controller_S_spi1_default_S_group1_P_psels),
     (52, DT_N_S_pin_controller_S_spi1_sleep_S_group1_P_psels),
     (54, DT_N_S_pin_controller_S_spi2_default_S_group1_P_psels),
     (56, DT_N_S_pin_controller_S_spi2_sleep_S_group1_P_psels),
     (58, DT_N_S_pin_controller_S_spi3_default_S_group1_P_psels),
     (60, DT_N_S_pin_controller_S_spi3_sleep_S_group1_P_psels),
     (62, DT_N_S_pin_controller_S_uart0_default_S_group1_P_psels),
     (63, DT_N_S_pin_controller_S_uart0_default_S_group2_P_psels),
     (65, DT_N_S_pin_controller_S_uart0_sleep_S_group1_P_psels),
     (67, DT_N_S_pin_controller_S_uart1_default_S_group1_P_psels),
     (68, DT_N_S_pin_controller_S_uart1_default_S_group2_P_psels),
     (70, DT_N_S_pin_controller_S_uart1_sleep_S_group1_P_psels)]"

definition psel_pin :: "32 word \<Rightarrow> nat" where
  "psel_pin w = unat (w AND 0x1FF)"

section \<open>Pin-control states\<close>

definition DT_N_S_soc_S_pwm_4001c000_PINCTRL :: "(string \<times> nat) list" where [dt_defs]:
  "DT_N_S_soc_S_pwm_4001c000_PINCTRL = [(''default'', 36), (''sleep'', 38)]"

definition DT_N_S_soc_S_i2c_40003000_PINCTRL :: "(string \<times> nat) list" where [dt_defs]:
  "DT_N_S_soc_S_i2c_40003000_PINCTRL = [(''default'', 28), (''sleep'', 30)]"

definition DT_N_S_soc_S_i2c_40004000_PINCTRL :: "(string \<times> nat) list" where [dt_defs]:
  "DT_N_S_soc_S_i2c_40004000_PINCTRL = [(''default'', 32), (''sleep'', 34)]"

definition DT_N_S_soc_S_spi_40003000_PINCTRL :: "(string \<times> nat) list" where [dt_defs]:
  "DT_N_S_soc_S_spi_40003000_PINCTRL = [(''default'', 45), (''sleep'', 47)]"

definition DT_N_S_soc_S_spi_40023000_PINCTRL :: "(string \<times> nat) list" where [dt_defs]:
  "DT_N_S_soc_S_spi_40023000_PINCTRL = [(''default'', 53), (''sleep'', 55)]"

definition DT_N_S_soc_S_spi_4002f000_PINCTRL :: "(string \<times> nat) list" where [dt_defs]:
  "DT_N_S_soc_S_spi_4002f000_PINCTRL = [(''default'', 57), (''sleep'', 59)]"

definition DT_N_S_soc_S_uart_40002000_PINCTRL :: "(string \<times> nat) list" where [dt_defs]:
  "DT_N_S_soc_S_uart_40002000_PINCTRL = [(''default'', 61), (''sleep'', 64)]"

definition DT_N_S_soc_S_uart_40028000_PINCTRL :: "(string \<times> nat) list" where [dt_defs]:
  "DT_N_S_soc_S_uart_40028000_PINCTRL = [(''default'', 66), (''sleep'', 69)]"

definition DT_N_S_soc_S_qspi_40029000_PINCTRL :: "(string \<times> nat) list" where [dt_defs]:
  "DT_N_S_soc_S_qspi_40029000_PINCTRL = [(''default'', 40), (''sleep'', 42)]"

definition DT_N_S_soc_S_spi_40004000_PINCTRL :: "(string \<times> nat) list" where [dt_defs]:
  "DT_N_S_soc_S_spi_40004000_PINCTRL = [(''default'', 45), (''sleep'', 51)]"

definition pin_controls :: "(nat \<times> (string \<times> nat) list) list" where
  "pin_controls = [
     (71, DT_N_S_soc_S_pwm_4001c000_PINCTRL),
     (88, DT_N_S_soc_S_i2c_40003000_PINCTRL),
     (89, DT_N_S_soc_S_i2c_40004000_PINCTRL),
     (104, DT_N_S_soc_S_spi_40003000_PINCTRL),
     (105, DT_N_S_soc_S_spi_40023000_PINCTRL),
     (107, DT_N_S_soc_S_spi_4002f000_PINCTRL),
     (114, DT_N_S_soc_S_uart_40002000_PINCTRL),
     (115, DT_N_S_soc_S_uart_40028000_PINCTRL),
     (132, DT_N_S_soc_S_qspi_40029000_PINCTRL),
     (138, DT_N_S_soc_S_spi_40004000_PINCTRL)]"

text \<open>The pins that a state configures: those of the groups below its node.\<close>

definition state_pins :: "nat \<Rightarrow> nat list" where
  "state_pins i = [psel_pin w. g \<leftarrow> dt_children (dt_nodes ! i), w \<leftarrow> (case map_of pin_groups g of None \<Rightarrow> [] | Some ws \<Rightarrow> ws)]"

section \<open>GPIO specifications\<close>

text \<open>Controller, pin, flags.\<close>

type_synonym gpio_spec = "nat \<times> nat \<times> nat"

definition DT_N_S_buttons_S_button_0_P_gpios :: "gpio_spec list" where [dt_defs]:
  "DT_N_S_buttons_S_button_0_P_gpios = [(11, 11, 17)]"

definition DT_N_S_buttons_S_button_1_P_gpios :: "gpio_spec list" where [dt_defs]:
  "DT_N_S_buttons_S_button_1_P_gpios = [(11, 12, 17)]"

definition DT_N_S_buttons_S_button_2_P_gpios :: "gpio_spec list" where [dt_defs]:
  "DT_N_S_buttons_S_button_2_P_gpios = [(11, 24, 17)]"

definition DT_N_S_buttons_S_button_3_P_gpios :: "gpio_spec list" where [dt_defs]:
  "DT_N_S_buttons_S_button_3_P_gpios = [(11, 25, 17)]"

definition DT_N_S_leds_S_led_0_P_gpios :: "gpio_spec list" where [dt_defs]:
  "DT_N_S_leds_S_led_0_P_gpios = [(11, 13, 1)]"

definition DT_N_S_leds_S_led_1_P_gpios :: "gpio_spec list" where [dt_defs]:
  "DT_N_S_leds_S_led_1_P_gpios = [(11, 14, 1)]"

definition DT_N_S_leds_S_led_2_P_gpios :: "gpio_spec list" where [dt_defs]:
  "DT_N_S_leds_S_led_2_P_gpios = [(11, 15, 1)]"

definition DT_N_S_leds_S_led_3_P_gpios :: "gpio_spec list" where [dt_defs]:
  "DT_N_S_leds_S_led_3_P_gpios = [(11, 16, 1)]"

definition DT_N_S_soc_S_spi_4002f000_P_cs_gpios :: "gpio_spec list" where [dt_defs]:
  "DT_N_S_soc_S_spi_4002f000_P_cs_gpios = [(106, 12, 1)]"

definition DT_N_S_soc_S_spi_40004000_P_cs_gpios :: "gpio_spec list" where [dt_defs]:
  "DT_N_S_soc_S_spi_40004000_P_cs_gpios = [(11, 2, 1)]"

definition DT_N_S_soc_S_spi_40004000_S_nrf7002_0_P_iovdd_ctrl_gpios :: "gpio_spec list" where [dt_defs]:
  "DT_N_S_soc_S_spi_40004000_S_nrf7002_0_P_iovdd_ctrl_gpios = [(106, 5, 0)]"

definition DT_N_S_soc_S_spi_40004000_S_nrf7002_0_P_bucken_gpios :: "gpio_spec list" where [dt_defs]:
  "DT_N_S_soc_S_spi_40004000_S_nrf7002_0_P_bucken_gpios = [(106, 1, 0)]"

definition DT_N_S_soc_S_spi_40004000_S_nrf7002_0_P_host_irq_gpios :: "gpio_spec list" where [dt_defs]:
  "DT_N_S_soc_S_spi_40004000_S_nrf7002_0_P_host_irq_gpios = [(106, 6, 0)]"

definition DT_N_S_soc_S_spi_40004000_S_nrf7002_0_P_srrf_switch_gpios :: "gpio_spec list" where [dt_defs]:
  "DT_N_S_soc_S_spi_40004000_S_nrf7002_0_P_srrf_switch_gpios = [(106, 10, 0)]"

definition gpio_specs :: "(nat \<times> gpio_spec list) list" where
  "gpio_specs = [
     (13, DT_N_S_buttons_S_button_0_P_gpios),
     (14, DT_N_S_buttons_S_button_1_P_gpios),
     (15, DT_N_S_buttons_S_button_2_P_gpios),
     (16, DT_N_S_buttons_S_button_3_P_gpios),
     (23, DT_N_S_leds_S_led_0_P_gpios),
     (24, DT_N_S_leds_S_led_1_P_gpios),
     (25, DT_N_S_leds_S_led_2_P_gpios),
     (26, DT_N_S_leds_S_led_3_P_gpios),
     (107, DT_N_S_soc_S_spi_4002f000_P_cs_gpios),
     (138, DT_N_S_soc_S_spi_40004000_P_cs_gpios),
     (139, DT_N_S_soc_S_spi_40004000_S_nrf7002_0_P_iovdd_ctrl_gpios),
     (139, DT_N_S_soc_S_spi_40004000_S_nrf7002_0_P_bucken_gpios),
     (139, DT_N_S_soc_S_spi_40004000_S_nrf7002_0_P_host_irq_gpios),
     (139, DT_N_S_soc_S_spi_40004000_S_nrf7002_0_P_srrf_switch_gpios)]"

text \<open>Pins are numbered through: the second controller starts at 32.\<close>

definition gpio_pin :: "gpio_spec \<Rightarrow> nat" where
  "gpio_pin sp = (case sp of (c, p, f) \<Rightarrow> if c = dt_ord DT_N_S_soc_S_gpio_50000300 then 32 + p else p)"

section \<open>Claims\<close>

text \<open>What the enabled devices claim in their default state, and the pins that two of them claim.\<close>

definition pin_claims :: "(nat \<times> nat) list" where
  "pin_claims =
     [(i, p). (i, sts) \<leftarrow> pin_controls, dt_okay (dt_nodes ! i),
        p \<leftarrow> (case map_of sts ''default'' of None \<Rightarrow> [] | Some st \<Rightarrow> state_pins st)] @
     [(i, gpio_pin sp). (i, sps) \<leftarrow> gpio_specs, dt_okay (dt_nodes ! i), sp \<leftarrow> sps]"

definition shared_pins :: "(nat \<times> nat \<times> nat) list" where
  "shared_pins = [(p, i, j). (i, p) \<leftarrow> pin_claims, (j, p') \<leftarrow> pin_claims, i < j, p = p']"

text \<open>A device whose sleep state configures the pins of its default state.\<close>

definition sleep_covers :: "(string \<times> nat) list \<Rightarrow> bool" where
  "sleep_covers sts = (case (map_of sts ''default'', map_of sts ''sleep'') of
      (Some d, Some s) \<Rightarrow> set (state_pins d) = set (state_pins s) | _ \<Rightarrow> False)"

lemmas pin_eval = pin_controls_def pin_groups_def gpio_specs_def state_pins_def psel_pin_def gpio_pin_def
  col_nth(3,4) [symmetric] dt_children_at dt_okay_at

section \<open>Shared pins\<close>

lemma shared_pins_values: "shared_pins = [(26, 88, 138), (27, 88, 138), (13, 23, 71)]"
  by (simp add: shared_pins_def pin_claims_def pin_eval dt_defs)

lemma sleep_values: "list_all (\<lambda>(i, sts). sleep_covers sts = (i \<noteq> 138)) pin_controls"
  by (simp add: sleep_covers_def pin_eval dt_defs) fastforce

lemma spi1_states:
  "map (\<lambda>(n, st). state_pins st) DT_N_S_soc_S_spi_40004000_PINCTRL = [[27, 26, 29], [31, 30, 40]]"
  by (simp add: pin_eval dt_defs)

text \<open>C34. Which pins the enabled devices share. Three pins are claimed twice: 13, by the first LED and the
  PWM that can dim it, and 26 and 27, by the I2C controller and by the SPI controller of the nRF7002,
  whose default state is that of another controller. Every device's sleep state configures the pins of
  its default state, except the SPI controller of the nRF7002: its sleep state configures three other
  pins, so that the pins of the bus keep their active configuration.\<close>

theorem pins_shared:
  "shared_pins =
     [(26, dt_ord DT_N_S_soc_S_i2c_40003000, dt_ord DT_N_S_soc_S_spi_40004000),
      (27, dt_ord DT_N_S_soc_S_i2c_40003000, dt_ord DT_N_S_soc_S_spi_40004000),
      (13, dt_ord DT_N_S_leds_S_led_0, dt_ord DT_N_S_soc_S_pwm_4001c000)] \<and>
   list_all (\<lambda>(i, sts). sleep_covers sts = (i \<noteq> dt_ord DT_N_S_soc_S_spi_40004000)) pin_controls \<and>
   map (\<lambda>(n, st). state_pins st) DT_N_S_soc_S_spi_40004000_PINCTRL = [[27, 26, 29], [31, 30, 40]]"
  using shared_pins_values sleep_values spi1_states
  by (simp add: DT_N_S_soc_S_i2c_40003000_def DT_N_S_soc_S_spi_40004000_def DT_N_S_leds_S_led_0_def
      DT_N_S_soc_S_pwm_4001c000_def)

end
