(* ===== verification/Devicetree_Property.thy ===== *)
theory Devicetree_Property
  imports Devicetree
begin

text \<open>
  The generic property macros of \<^verbatim>\<open>devicetree_generated.h\<close>, node by node: for each property of a node
  the macro with its value, one element per index (\<^verbatim>\<open>_IDX_i\<close>), the position of an enumeration value,
  the indices that the four \<^verbatim>\<open>FOREACH_PROP_ELEM\<close> macros visit, and the length. Every property also
  has an \<^verbatim>\<open>_EXISTS\<close> macro, whose presence is the presence of the row here.
\<close>

section \<open>Properties\<close>

datatype pvalue = V_None | V_Num nat | V_Str string | V_Node nat | V_Nums "nat list" | V_Strs "string list"

text \<open>An element: present without a value of its own, a number, a string with its unquoted text, its token
  and its upper-case token, a node (by ordinal), or a node with named cells. A property that is one string
  has its tokens at the property itself in the header, and at its only element here.\<close>

datatype elem = E_Only | E_Num nat | E_Str string string string string | E_Node nat | E_Spec nat "(string \<times> nat) list"

text \<open>The indices visited by \<^verbatim>\<open>FOREACH_PROP_ELEM\<close>, by its \<^verbatim>\<open>SEP\<close>, \<^verbatim>\<open>VARGS\<close> and
  \<^verbatim>\<open>SEP_VARGS\<close> variants, and \<^verbatim>\<open>LEN\<close>.\<close>

datatype loops = No_Loops | Loops "nat list" "nat list" "nat list" "nat list" nat

datatype dt_prop = Prop (p_name: string) (p_value: pvalue) (p_elems: "elem list") (p_enum: "(nat \<times> string) option")
  (p_loops: loops)

text \<open>Most properties are a number or a switch and nothing else.\<close>

abbreviation Plain :: "string \<Rightarrow> nat \<Rightarrow> dt_prop" where
  "Plain n v \<equiv> Prop n (V_Num v) [] None No_Loops"

section \<open>The properties of each node\<close>

definition DT_N_P :: "dt_prop list" where
  "DT_N_P = [
     Prop ''compatible'' (V_Strs [''nordic,nrf52840-dk-nrf52840'']) [E_Str ''nordic,nrf52840-dk-nrf52840''
       ''nordic,nrf52840-dk-nrf52840'' ''nordic_nrf52840_dk_nrf52840'' ''NORDIC_NRF52840_DK_NRF52840''] None
       (Loops [0] [0] [0] [0] 1)]"

definition DT_N_S_analog_connector_P :: "dt_prop list" where
  "DT_N_S_analog_connector_P = [
     Prop ''compatible'' (V_Strs [''arduino,uno-adc'']) [E_Str ''arduino,uno-adc'' ''arduino,uno-adc''
       ''arduino_uno_adc'' ''ARDUINO_UNO_ADC''] None (Loops [0] [0] [0] [0] 1),
     Plain ''zephyr_deferred_init'' 0, Plain ''wakeup_source'' 0, Plain ''zephyr_pm_device_runtime_auto'' 0]"

definition DT_N_S_connector_P :: "dt_prop list" where
  "DT_N_S_connector_P = [
     Prop ''compatible'' (V_Strs [''arduino-header-r3'']) [E_Str ''arduino-header-r3'' ''arduino-header-r3''
       ''arduino_header_r3'' ''ARDUINO_HEADER_R3''] None (Loops [0] [0] [0] [0] 1),
     Plain ''zephyr_deferred_init'' 0, Plain ''wakeup_source'' 0, Plain ''zephyr_pm_device_runtime_auto'' 0]"

definition DT_N_S_entropy_bt_hci_P :: "dt_prop list" where
  "DT_N_S_entropy_bt_hci_P = [
     Prop ''status'' (V_Str ''okay'') [E_Str ''okay'' ''okay'' ''okay'' ''OKAY''] (Some (1, ''okay'')) (Loops
       [0] [0] [0] [0] 1),
     Prop ''compatible'' (V_Strs [''zephyr,bt-hci-entropy'']) [E_Str ''zephyr,bt-hci-entropy''
       ''zephyr,bt-hci-entropy'' ''zephyr_bt_hci_entropy'' ''ZEPHYR_BT_HCI_ENTROPY''] None (Loops [0] [0] [0]
       [0] 1),
     Plain ''zephyr_deferred_init'' 0, Plain ''wakeup_source'' 0, Plain ''zephyr_pm_device_runtime_auto'' 0]"

definition DT_N_S_soc_P :: "dt_prop list" where
  "DT_N_S_soc_P = [
     Prop ''compatible'' (V_Strs [''nordic,nrf52840-qiaa'', ''nordic,nrf52840'', ''nordic,nrf52'',
       ''simple-bus'']) [E_Str ''nordic,nrf52840-qiaa'' ''nordic,nrf52840-qiaa'' ''nordic_nrf52840_qiaa''
       ''NORDIC_NRF52840_QIAA'', E_Str ''nordic,nrf52840'' ''nordic,nrf52840'' ''nordic_nrf52840''
       ''NORDIC_NRF52840'', E_Str ''nordic,nrf52'' ''nordic,nrf52'' ''nordic_nrf52'' ''NORDIC_NRF52'', E_Str
       ''simple-bus'' ''simple-bus'' ''simple_bus'' ''SIMPLE_BUS''] None (Loops [0, 1, 2, 3] [0, 1, 2, 3] [0,
       1, 2, 3] [0, 1, 2, 3] 4),
     Prop ''ranges'' V_None [] None No_Loops]"

definition DT_N_S_soc_S_interrupt_controller_e000e100_P :: "dt_prop list" where
  "DT_N_S_soc_S_interrupt_controller_e000e100_P = [
     Prop ''reg'' (V_Nums [3758153984, 3072]) [E_Num 3758153984, E_Num 3072] None No_Loops,
     Plain ''arm_num_irq_priority_bits'' 3, Plain ''interrupt_controller'' 1,
     Prop ''compatible'' (V_Strs [''arm,v7m-nvic'']) [E_Str ''arm,v7m-nvic'' ''arm,v7m-nvic'' ''arm_v7m_nvic''
       ''ARM_V7M_NVIC''] None (Loops [0] [0] [0] [0] 1),
     Plain ''zephyr_deferred_init'' 0, Plain ''wakeup_source'' 0, Plain ''zephyr_pm_device_runtime_auto'' 0]"

definition DT_N_S_soc_S_timer_40009000_P :: "dt_prop list" where
  "DT_N_S_soc_S_timer_40009000_P = [
     Prop ''reg'' (V_Nums [1073778688, 4096]) [E_Num 1073778688, E_Num 4096] None No_Loops, Plain ''cc_num'' 4,
     Plain ''max_bit_width'' 32,
     Prop ''interrupts'' (V_Nums [9, 1]) [E_Num 9, E_Num 1] None No_Loops,
     Plain ''prescaler'' 0, Plain ''zli'' 0,
     Prop ''status'' (V_Str ''disabled'') [E_Str ''disabled'' ''disabled'' ''disabled'' ''DISABLED''] (Some (2,
       ''disabled'')) (Loops [0] [0] [0] [0] 1),
     Prop ''compatible'' (V_Strs [''nordic,nrf-timer'']) [E_Str ''nordic,nrf-timer'' ''nordic,nrf-timer''
       ''nordic_nrf_timer'' ''NORDIC_NRF_TIMER''] None (Loops [0] [0] [0] [0] 1),
     Plain ''zephyr_deferred_init'' 0, Plain ''wakeup_source'' 0, Plain ''zephyr_pm_device_runtime_auto'' 0]"

definition DT_N_S_sw_pwm_P :: "dt_prop list" where
  "DT_N_S_sw_pwm_P = [
     Prop ''generator'' (V_Node 8) [E_Node 8] None (Loops [0] [0] [0] [0] 1), Plain ''clock_prescaler'' 0,
     Prop ''status'' (V_Str ''disabled'') [E_Str ''disabled'' ''disabled'' ''disabled'' ''DISABLED''] (Some (2,
       ''disabled'')) (Loops [0] [0] [0] [0] 1),
     Prop ''compatible'' (V_Strs [''nordic,nrf-sw-pwm'']) [E_Str ''nordic,nrf-sw-pwm'' ''nordic,nrf-sw-pwm''
       ''nordic_nrf_sw_pwm'' ''NORDIC_NRF_SW_PWM''] None (Loops [0] [0] [0] [0] 1),
     Plain ''zephyr_deferred_init'' 0, Plain ''wakeup_source'' 0, Plain ''zephyr_pm_device_runtime_auto'' 0]"

definition DT_N_S_soc_S_gpiote_40006000_P :: "dt_prop list" where
  "DT_N_S_soc_S_gpiote_40006000_P = [
     Prop ''reg'' (V_Nums [1073766400, 4096]) [E_Num 1073766400, E_Num 4096] None No_Loops,
     Prop ''interrupts'' (V_Nums [6, 5]) [E_Num 6, E_Num 5] None No_Loops,
     Plain ''no_port_event'' 0, Plain ''fixed_channels_supported'' 0, Plain ''instance'' 0,
     Prop ''status'' (V_Str ''okay'') [E_Str ''okay'' ''okay'' ''okay'' ''OKAY''] (Some (1, ''okay'')) (Loops
       [0] [0] [0] [0] 1),
     Prop ''compatible'' (V_Strs [''nordic,nrf-gpiote'']) [E_Str ''nordic,nrf-gpiote'' ''nordic,nrf-gpiote''
       ''nordic_nrf_gpiote'' ''NORDIC_NRF_GPIOTE''] None (Loops [0] [0] [0] [0] 1),
     Plain ''zephyr_deferred_init'' 0, Plain ''wakeup_source'' 0, Plain ''zephyr_pm_device_runtime_auto'' 0]"

definition DT_N_S_soc_S_gpio_50000000_P0 :: "dt_prop list" where
  "DT_N_S_soc_S_gpio_50000000_P0 = [
     Prop ''reg'' (V_Nums [1342177280, 512, 1342178560, 768]) [E_Num 1342177280, E_Num 512, E_Num 1342178560,
       E_Num 768] None No_Loops,
     Prop ''gpiote_instance'' (V_Node 10) [E_Node 10] None (Loops [0] [0] [0] [0] 1),
     Plain ''port'' 0, Plain ''gpio_controller'' 1, Plain ''ngpios'' 32,
     Prop ''gpio_reserved_ranges'' (V_Nums [0, 2, 6, 1, 8, 3, 17, 7]) [E_Num 0, E_Num 2, E_Num 6, E_Num 1,
       E_Num 8, E_Num 3, E_Num 17, E_Num 7] None (Loops [0, 1, 2, 3, 4, 5, 6, 7] [0, 1, 2, 3, 4, 5, 6, 7] [0,
       1, 2, 3, 4, 5, 6, 7] [0, 1, 2, 3, 4, 5, 6, 7] 8)]"

definition DT_N_S_soc_S_gpio_50000000_P1 :: "dt_prop list" where
  "DT_N_S_soc_S_gpio_50000000_P1 = [
     Prop ''gpio_line_names'' (V_Strs [''XL1'', ''XL2'', ''AREF'', ''A0'', ''A1'', ''RTS'', ''TXD'', ''CTS'',
       ''RXD'', ''NFC1'', ''NFC2'', ''BUTTON1'', ''BUTTON2'', ''LED1'', ''LED2'', ''LED3'', ''LED4'',
       ''QSPI CS'', ''RESET'', ''QSPI CLK'', ''QSPI DIO0'', ''QSPI DIO1'', ''QSPI DIO2'', ''QSPI DIO3'',
       ''BUTTON3'', ''BUTTON4'', ''SDA'', ''SCL'', ''A2'', ''A3'', ''A4'', ''A5'']) [E_Str ''XL1'' ''XL1''
       ''XL1'' ''XL1'', E_Str ''XL2'' ''XL2'' ''XL2'' ''XL2'', E_Str ''AREF'' ''AREF'' ''AREF'' ''AREF'', E_Str
       ''A0'' ''A0'' ''A0'' ''A0'', E_Str ''A1'' ''A1'' ''A1'' ''A1'', E_Str ''RTS'' ''RTS'' ''RTS'' ''RTS'',
       E_Str ''TXD'' ''TXD'' ''TXD'' ''TXD'', E_Str ''CTS'' ''CTS'' ''CTS'' ''CTS'', E_Str ''RXD'' ''RXD''
       ''RXD'' ''RXD'', E_Str ''NFC1'' ''NFC1'' ''NFC1'' ''NFC1'', E_Str ''NFC2'' ''NFC2'' ''NFC2'' ''NFC2'',
       E_Str ''BUTTON1'' ''BUTTON1'' ''BUTTON1'' ''BUTTON1'', E_Str ''BUTTON2'' ''BUTTON2'' ''BUTTON2''
       ''BUTTON2'', E_Str ''LED1'' ''LED1'' ''LED1'' ''LED1'', E_Str ''LED2'' ''LED2'' ''LED2'' ''LED2'', E_Str
       ''LED3'' ''LED3'' ''LED3'' ''LED3'', E_Str ''LED4'' ''LED4'' ''LED4'' ''LED4'', E_Str ''QSPI CS''
       ''QSPI CS'' ''QSPI_CS'' ''QSPI_CS'', E_Str ''RESET'' ''RESET'' ''RESET'' ''RESET'', E_Str ''QSPI CLK''
       ''QSPI CLK'' ''QSPI_CLK'' ''QSPI_CLK'', E_Str ''QSPI DIO0'' ''QSPI DIO0'' ''QSPI_DIO0'' ''QSPI_DIO0'',
       E_Str ''QSPI DIO1'' ''QSPI DIO1'' ''QSPI_DIO1'' ''QSPI_DIO1'', E_Str ''QSPI DIO2'' ''QSPI DIO2''
       ''QSPI_DIO2'' ''QSPI_DIO2'', E_Str ''QSPI DIO3'' ''QSPI DIO3'' ''QSPI_DIO3'' ''QSPI_DIO3'', E_Str
       ''BUTTON3'' ''BUTTON3'' ''BUTTON3'' ''BUTTON3'', E_Str ''BUTTON4'' ''BUTTON4'' ''BUTTON4'' ''BUTTON4'',
       E_Str ''SDA'' ''SDA'' ''SDA'' ''SDA'', E_Str ''SCL'' ''SCL'' ''SCL'' ''SCL'', E_Str ''A2'' ''A2'' ''A2''
       ''A2'', E_Str ''A3'' ''A3'' ''A3'' ''A3'', E_Str ''A4'' ''A4'' ''A4'' ''A4'', E_Str ''A5'' ''A5'' ''A5''
       ''A5''] None (Loops [0, 1, 2, 3, 4, 5, 6, 7, 8, 9, 10, 11, 12, 13, 14, 15, 16, 17, 18, 19, 20, 21, 22,
       23, 24, 25, 26, 27, 28, 29, 30, 31] [0, 1, 2, 3, 4, 5, 6, 7, 8, 9, 10, 11, 12, 13, 14, 15, 16, 17, 18,
       19, 20, 21, 22, 23, 24, 25, 26, 27, 28, 29, 30, 31] [0, 1, 2, 3, 4, 5, 6, 7, 8, 9, 10, 11, 12, 13, 14,
       15, 16, 17, 18, 19, 20, 21, 22, 23, 24, 25, 26, 27, 28, 29, 30, 31] [0, 1, 2, 3, 4, 5, 6, 7, 8, 9, 10,
       11, 12, 13, 14, 15, 16, 17, 18, 19, 20, 21, 22, 23, 24, 25, 26, 27, 28, 29, 30, 31] 32)]"

definition DT_N_S_soc_S_gpio_50000000_P2 :: "dt_prop list" where
  "DT_N_S_soc_S_gpio_50000000_P2 = [
     Prop ''status'' (V_Str ''okay'') [E_Str ''okay'' ''okay'' ''okay'' ''OKAY''] (Some (1, ''okay'')) (Loops
       [0] [0] [0] [0] 1),
     Prop ''compatible'' (V_Strs [''nordic,nrf-gpio'']) [E_Str ''nordic,nrf-gpio'' ''nordic,nrf-gpio''
       ''nordic_nrf_gpio'' ''NORDIC_NRF_GPIO''] None (Loops [0] [0] [0] [0] 1),
     Plain ''zephyr_deferred_init'' 0, Plain ''wakeup_source'' 0, Plain ''zephyr_pm_device_runtime_auto'' 0]"

definition DT_N_S_buttons_P :: "dt_prop list" where
  "DT_N_S_buttons_P = [
     Plain ''debounce_interval_ms'' 30, Plain ''polling_mode'' 0, Plain ''no_disconnect'' 0,
     Prop ''compatible'' (V_Strs [''gpio-keys'']) [E_Str ''gpio-keys'' ''gpio-keys'' ''gpio_keys''
       ''GPIO_KEYS''] None (Loops [0] [0] [0] [0] 1),
     Plain ''zephyr_deferred_init'' 0, Plain ''wakeup_source'' 0, Plain ''zephyr_pm_device_runtime_auto'' 0]"

definition DT_N_S_buttons_S_button_0_P :: "dt_prop list" where
  "DT_N_S_buttons_S_button_0_P = [
     Prop ''gpios'' V_None [E_Spec 11 [(''pin'', 11), (''flags'', 17)]] None (Loops [0] [0] [0] [0] 1),
     Prop ''label'' (V_Str ''Push button switch 0'') [E_Str ''Push button switch 0'' ''Push button switch 0''
       ''Push_button_switch_0'' ''PUSH_BUTTON_SWITCH_0''] None (Loops [0] [0] [0] [0] 1),
     Plain ''zephyr_code'' 11]"

definition DT_N_S_buttons_S_button_1_P :: "dt_prop list" where
  "DT_N_S_buttons_S_button_1_P = [
     Prop ''gpios'' V_None [E_Spec 11 [(''pin'', 12), (''flags'', 17)]] None (Loops [0] [0] [0] [0] 1),
     Prop ''label'' (V_Str ''Push button switch 1'') [E_Str ''Push button switch 1'' ''Push button switch 1''
       ''Push_button_switch_1'' ''PUSH_BUTTON_SWITCH_1''] None (Loops [0] [0] [0] [0] 1),
     Plain ''zephyr_code'' 2]"

definition DT_N_S_buttons_S_button_2_P :: "dt_prop list" where
  "DT_N_S_buttons_S_button_2_P = [
     Prop ''gpios'' V_None [E_Spec 11 [(''pin'', 24), (''flags'', 17)]] None (Loops [0] [0] [0] [0] 1),
     Prop ''label'' (V_Str ''Push button switch 2'') [E_Str ''Push button switch 2'' ''Push button switch 2''
       ''Push_button_switch_2'' ''PUSH_BUTTON_SWITCH_2''] None (Loops [0] [0] [0] [0] 1),
     Plain ''zephyr_code'' 3]"

definition DT_N_S_buttons_S_button_3_P :: "dt_prop list" where
  "DT_N_S_buttons_S_button_3_P = [
     Prop ''gpios'' V_None [E_Spec 11 [(''pin'', 25), (''flags'', 17)]] None (Loops [0] [0] [0] [0] 1),
     Prop ''label'' (V_Str ''Push button switch 3'') [E_Str ''Push button switch 3'' ''Push button switch 3''
       ''Push_button_switch_3'' ''PUSH_BUTTON_SWITCH_3''] None (Loops [0] [0] [0] [0] 1),
     Plain ''zephyr_code'' 4]"

definition DT_N_S_clocks_S_hfxo_P :: "dt_prop list" where
  "DT_N_S_clocks_S_hfxo_P = [
     Plain ''clock_frequency'' 64000000, Plain ''startup_time_us'' 1400,
     Prop ''compatible'' (V_Strs [''nordic,nrf52-hfxo'']) [E_Str ''nordic,nrf52-hfxo'' ''nordic,nrf52-hfxo''
       ''nordic_nrf52_hfxo'' ''NORDIC_NRF52_HFXO''] None (Loops [0] [0] [0] [0] 1),
     Plain ''zephyr_deferred_init'' 0, Plain ''wakeup_source'' 0, Plain ''zephyr_pm_device_runtime_auto'' 0]"

definition DT_N_S_cpus_S_cpu_0_P :: "dt_prop list" where
  "DT_N_S_cpus_S_cpu_0_P = [
     Prop ''compatible'' (V_Strs [''arm,cortex-m4f'']) [E_Str ''arm,cortex-m4f'' ''arm,cortex-m4f''
       ''arm_cortex_m4f'' ''ARM_CORTEX_M4F''] None (Loops [0] [0] [0] [0] 1),
     Prop ''reg'' (V_Nums [0]) [E_Num 0] None No_Loops,
     Plain ''zephyr_deferred_init'' 0, Plain ''wakeup_source'' 0, Plain ''zephyr_pm_device_runtime_auto'' 0]"

definition DT_N_S_cpus_S_cpu_0_S_itm_e0000000_P :: "dt_prop list" where
  "DT_N_S_cpus_S_cpu_0_S_itm_e0000000_P = [
     Plain ''swo_ref_frequency'' 32000000,
     Prop ''compatible'' (V_Strs [''arm,armv7m-itm'']) [E_Str ''arm,armv7m-itm'' ''arm,armv7m-itm''
       ''arm_armv7m_itm'' ''ARM_ARMV7M_ITM''] None (Loops [0] [0] [0] [0] 1),
     Prop ''reg'' (V_Nums [3758096384, 4096]) [E_Num 3758096384, E_Num 4096] None No_Loops,
     Plain ''zephyr_deferred_init'' 0, Plain ''wakeup_source'' 0, Plain ''zephyr_pm_device_runtime_auto'' 0]"

definition DT_N_S_leds_P :: "dt_prop list" where
  "DT_N_S_leds_P = [
     Prop ''compatible'' (V_Strs [''gpio-leds'']) [E_Str ''gpio-leds'' ''gpio-leds'' ''gpio_leds''
       ''GPIO_LEDS''] None (Loops [0] [0] [0] [0] 1)]"

definition DT_N_S_leds_S_led_0_P :: "dt_prop list" where
  "DT_N_S_leds_S_led_0_P = [
     Prop ''gpios'' V_None [E_Spec 11 [(''pin'', 13), (''flags'', 1)]] None (Loops [0] [0] [0] [0] 1),
     Prop ''label'' (V_Str ''Green LED 0'') [E_Str ''Green LED 0'' ''Green LED 0'' ''Green_LED_0''
       ''GREEN_LED_0''] None (Loops [0] [0] [0] [0] 1)]"

definition DT_N_S_leds_S_led_1_P :: "dt_prop list" where
  "DT_N_S_leds_S_led_1_P = [
     Prop ''gpios'' V_None [E_Spec 11 [(''pin'', 14), (''flags'', 1)]] None (Loops [0] [0] [0] [0] 1),
     Prop ''label'' (V_Str ''Green LED 1'') [E_Str ''Green LED 1'' ''Green LED 1'' ''Green_LED_1''
       ''GREEN_LED_1''] None (Loops [0] [0] [0] [0] 1)]"

definition DT_N_S_leds_S_led_2_P :: "dt_prop list" where
  "DT_N_S_leds_S_led_2_P = [
     Prop ''gpios'' V_None [E_Spec 11 [(''pin'', 15), (''flags'', 1)]] None (Loops [0] [0] [0] [0] 1),
     Prop ''label'' (V_Str ''Green LED 2'') [E_Str ''Green LED 2'' ''Green LED 2'' ''Green_LED_2''
       ''GREEN_LED_2''] None (Loops [0] [0] [0] [0] 1)]"

definition DT_N_S_leds_S_led_3_P :: "dt_prop list" where
  "DT_N_S_leds_S_led_3_P = [
     Prop ''gpios'' V_None [E_Spec 11 [(''pin'', 16), (''flags'', 1)]] None (Loops [0] [0] [0] [0] 1),
     Prop ''label'' (V_Str ''Green LED 3'') [E_Str ''Green LED 3'' ''Green LED 3'' ''Green_LED_3''
       ''GREEN_LED_3''] None (Loops [0] [0] [0] [0] 1)]"

definition DT_N_S_pin_controller_P :: "dt_prop list" where
  "DT_N_S_pin_controller_P = [
     Prop ''compatible'' (V_Strs [''nordic,nrf-pinctrl'']) [E_Str ''nordic,nrf-pinctrl'' ''nordic,nrf-pinctrl''
       ''nordic_nrf_pinctrl'' ''NORDIC_NRF_PINCTRL''] None (Loops [0] [0] [0] [0] 1),
     Plain ''zephyr_deferred_init'' 0, Plain ''wakeup_source'' 0, Plain ''zephyr_pm_device_runtime_auto'' 0]"

definition DT_N_S_pin_controller_S_i2c0_default_S_group1_P :: "dt_prop list" where
  "DT_N_S_pin_controller_S_i2c0_default_S_group1_P = [
     Prop ''psels'' (V_Nums [201326618, 184549403]) [E_Num 201326618, E_Num 184549403] None (Loops [0, 1] [0,
       1] [0, 1] [0, 1] 2),
     Plain ''nordic_drive_mode'' 0, Plain ''nordic_invert'' 0, Plain ''bias_disable'' 0,
     Plain ''bias_pull_up'' 0, Plain ''bias_pull_down'' 0, Plain ''low_power_enable'' 0]"

definition DT_N_S_pin_controller_S_i2c0_sleep_S_group1_P :: "dt_prop list" where
  "DT_N_S_pin_controller_S_i2c0_sleep_S_group1_P = [
     Prop ''psels'' (V_Nums [201326618, 184549403]) [E_Num 201326618, E_Num 184549403] None (Loops [0, 1] [0,
       1] [0, 1] [0, 1] 2),
     Plain ''nordic_drive_mode'' 0, Plain ''nordic_invert'' 0, Plain ''bias_disable'' 0,
     Plain ''bias_pull_up'' 0, Plain ''bias_pull_down'' 0, Plain ''low_power_enable'' 1]"

definition DT_N_S_pin_controller_S_i2c1_default_S_group1_P :: "dt_prop list" where
  "DT_N_S_pin_controller_S_i2c1_default_S_group1_P = [
     Prop ''psels'' (V_Nums [201326622, 184549407]) [E_Num 201326622, E_Num 184549407] None (Loops [0, 1] [0,
       1] [0, 1] [0, 1] 2),
     Plain ''nordic_drive_mode'' 0, Plain ''nordic_invert'' 0, Plain ''bias_disable'' 0,
     Plain ''bias_pull_up'' 0, Plain ''bias_pull_down'' 0, Plain ''low_power_enable'' 0]"

definition DT_N_S_pin_controller_S_i2c1_sleep_S_group1_P :: "dt_prop list" where
  "DT_N_S_pin_controller_S_i2c1_sleep_S_group1_P = [
     Prop ''psels'' (V_Nums [201326622, 184549407]) [E_Num 201326622, E_Num 184549407] None (Loops [0, 1] [0,
       1] [0, 1] [0, 1] 2),
     Plain ''nordic_drive_mode'' 0, Plain ''nordic_invert'' 0, Plain ''bias_disable'' 0,
     Plain ''bias_pull_up'' 0, Plain ''bias_pull_down'' 0, Plain ''low_power_enable'' 1]"

definition DT_N_S_pin_controller_S_pwm0_default_S_group1_P :: "dt_prop list" where
  "DT_N_S_pin_controller_S_pwm0_default_S_group1_P = [
     Prop ''psels'' (V_Nums [369098765]) [E_Num 369098765] None (Loops [0] [0] [0] [0] 1),
     Plain ''nordic_drive_mode'' 0, Plain ''nordic_invert'' 1, Plain ''bias_disable'' 0,
     Plain ''bias_pull_up'' 0, Plain ''bias_pull_down'' 0, Plain ''low_power_enable'' 0]"

definition DT_N_S_pin_controller_S_pwm0_sleep_S_group1_P :: "dt_prop list" where
  "DT_N_S_pin_controller_S_pwm0_sleep_S_group1_P = [
     Prop ''psels'' (V_Nums [369098765]) [E_Num 369098765] None (Loops [0] [0] [0] [0] 1),
     Plain ''nordic_drive_mode'' 0, Plain ''nordic_invert'' 0, Plain ''bias_disable'' 0,
     Plain ''bias_pull_up'' 0, Plain ''bias_pull_down'' 0, Plain ''low_power_enable'' 1]"

definition DT_N_S_pin_controller_S_qspi_default_S_group1_P :: "dt_prop list" where
  "DT_N_S_pin_controller_S_qspi_default_S_group1_P = [
     Prop ''psels'' (V_Nums [486539283, 520093716, 536870933, 553648150, 570425367, 503316497]) [E_Num
       486539283, E_Num 520093716, E_Num 536870933, E_Num 553648150, E_Num 570425367, E_Num 503316497] None
       (Loops [0, 1, 2, 3, 4, 5] [0, 1, 2, 3, 4, 5] [0, 1, 2, 3, 4, 5] [0, 1, 2, 3, 4, 5] 6),
     Plain ''nordic_drive_mode'' 3, Plain ''nordic_invert'' 0, Plain ''bias_disable'' 0,
     Plain ''bias_pull_up'' 0, Plain ''bias_pull_down'' 0, Plain ''low_power_enable'' 0]"

definition DT_N_S_pin_controller_S_qspi_sleep_S_group1_P :: "dt_prop list" where
  "DT_N_S_pin_controller_S_qspi_sleep_S_group1_P = [
     Prop ''psels'' (V_Nums [486539283, 520093716, 536870933, 553648150, 570425367]) [E_Num 486539283, E_Num
       520093716, E_Num 536870933, E_Num 553648150, E_Num 570425367] None (Loops [0, 1, 2, 3, 4] [0, 1, 2, 3,
       4] [0, 1, 2, 3, 4] [0, 1, 2, 3, 4] 5),
     Plain ''nordic_drive_mode'' 0, Plain ''nordic_invert'' 0, Plain ''bias_disable'' 0,
     Plain ''bias_pull_up'' 0, Plain ''bias_pull_down'' 0, Plain ''low_power_enable'' 1]"

definition DT_N_S_pin_controller_S_qspi_sleep_S_group2_P :: "dt_prop list" where
  "DT_N_S_pin_controller_S_qspi_sleep_S_group2_P = [
     Prop ''psels'' (V_Nums [503316497]) [E_Num 503316497] None (Loops [0] [0] [0] [0] 1),
     Plain ''nordic_drive_mode'' 0, Plain ''nordic_invert'' 0, Plain ''bias_disable'' 0,
     Plain ''bias_pull_up'' 1, Plain ''bias_pull_down'' 0, Plain ''low_power_enable'' 1]"

definition DT_N_S_pin_controller_S_spi0_default_S_group1_P :: "dt_prop list" where
  "DT_N_S_pin_controller_S_spi0_default_S_group1_P = [
     Prop ''psels'' (V_Nums [67108891, 83886106, 100663325]) [E_Num 67108891, E_Num 83886106, E_Num 100663325]
       None (Loops [0, 1, 2] [0, 1, 2] [0, 1, 2] [0, 1, 2] 3),
     Plain ''nordic_drive_mode'' 0, Plain ''nordic_invert'' 0, Plain ''bias_disable'' 0,
     Plain ''bias_pull_up'' 0, Plain ''bias_pull_down'' 0, Plain ''low_power_enable'' 0]"

definition DT_N_S_pin_controller_S_spi0_sleep_S_group1_P :: "dt_prop list" where
  "DT_N_S_pin_controller_S_spi0_sleep_S_group1_P = [
     Prop ''psels'' (V_Nums [67108891, 83886106, 100663325]) [E_Num 67108891, E_Num 83886106, E_Num 100663325]
       None (Loops [0, 1, 2] [0, 1, 2] [0, 1, 2] [0, 1, 2] 3),
     Plain ''nordic_drive_mode'' 0, Plain ''nordic_invert'' 0, Plain ''bias_disable'' 0,
     Plain ''bias_pull_up'' 0, Plain ''bias_pull_down'' 0, Plain ''low_power_enable'' 1]"

definition DT_N_S_pin_controller_S_spi1_default_S_group1_P :: "dt_prop list" where
  "DT_N_S_pin_controller_S_spi1_default_S_group1_P = [
     Prop ''psels'' (V_Nums [67108895, 83886110, 100663336]) [E_Num 67108895, E_Num 83886110, E_Num 100663336]
       None (Loops [0, 1, 2] [0, 1, 2] [0, 1, 2] [0, 1, 2] 3),
     Plain ''nordic_drive_mode'' 0, Plain ''nordic_invert'' 0, Plain ''bias_disable'' 0,
     Plain ''bias_pull_up'' 0, Plain ''bias_pull_down'' 0, Plain ''low_power_enable'' 0]"

definition DT_N_S_pin_controller_S_spi1_sleep_S_group1_P :: "dt_prop list" where
  "DT_N_S_pin_controller_S_spi1_sleep_S_group1_P = [
     Prop ''psels'' (V_Nums [67108895, 83886110, 100663336]) [E_Num 67108895, E_Num 83886110, E_Num 100663336]
       None (Loops [0, 1, 2] [0, 1, 2] [0, 1, 2] [0, 1, 2] 3),
     Plain ''nordic_drive_mode'' 0, Plain ''nordic_invert'' 0, Plain ''bias_disable'' 0,
     Plain ''bias_pull_up'' 0, Plain ''bias_pull_down'' 0, Plain ''low_power_enable'' 1]"

definition DT_N_S_pin_controller_S_spi2_default_S_group1_P :: "dt_prop list" where
  "DT_N_S_pin_controller_S_spi2_default_S_group1_P = [
     Prop ''psels'' (V_Nums [67108883, 83886100, 100663317]) [E_Num 67108883, E_Num 83886100, E_Num 100663317]
       None (Loops [0, 1, 2] [0, 1, 2] [0, 1, 2] [0, 1, 2] 3),
     Plain ''nordic_drive_mode'' 0, Plain ''nordic_invert'' 0, Plain ''bias_disable'' 0,
     Plain ''bias_pull_up'' 0, Plain ''bias_pull_down'' 0, Plain ''low_power_enable'' 0]"

definition DT_N_S_pin_controller_S_spi2_sleep_S_group1_P :: "dt_prop list" where
  "DT_N_S_pin_controller_S_spi2_sleep_S_group1_P = [
     Prop ''psels'' (V_Nums [67108883, 83886100, 100663317]) [E_Num 67108883, E_Num 83886100, E_Num 100663317]
       None (Loops [0, 1, 2] [0, 1, 2] [0, 1, 2] [0, 1, 2] 3),
     Plain ''nordic_drive_mode'' 0, Plain ''nordic_invert'' 0, Plain ''bias_disable'' 0,
     Plain ''bias_pull_up'' 0, Plain ''bias_pull_down'' 0, Plain ''low_power_enable'' 1]"

definition DT_N_S_pin_controller_S_spi3_default_S_group1_P :: "dt_prop list" where
  "DT_N_S_pin_controller_S_spi3_default_S_group1_P = [
     Prop ''psels'' (V_Nums [67108911, 100663342, 83886125]) [E_Num 67108911, E_Num 100663342, E_Num 83886125]
       None (Loops [0, 1, 2] [0, 1, 2] [0, 1, 2] [0, 1, 2] 3),
     Plain ''nordic_drive_mode'' 0, Plain ''nordic_invert'' 0, Plain ''bias_disable'' 0,
     Plain ''bias_pull_up'' 0, Plain ''bias_pull_down'' 0, Plain ''low_power_enable'' 0]"

definition DT_N_S_pin_controller_S_spi3_sleep_S_group1_P :: "dt_prop list" where
  "DT_N_S_pin_controller_S_spi3_sleep_S_group1_P = [
     Prop ''psels'' (V_Nums [67108911, 100663342, 83886125]) [E_Num 67108911, E_Num 100663342, E_Num 83886125]
       None (Loops [0, 1, 2] [0, 1, 2] [0, 1, 2] [0, 1, 2] 3),
     Plain ''nordic_drive_mode'' 0, Plain ''nordic_invert'' 0, Plain ''bias_disable'' 0,
     Plain ''bias_pull_up'' 0, Plain ''bias_pull_down'' 0, Plain ''low_power_enable'' 1]"

definition DT_N_S_pin_controller_S_uart0_default_S_group1_P :: "dt_prop list" where
  "DT_N_S_pin_controller_S_uart0_default_S_group1_P = [
     Prop ''psels'' (V_Nums [6, 33554437]) [E_Num 6, E_Num 33554437] None (Loops [0, 1] [0, 1] [0, 1] [0, 1]
       2),
     Plain ''nordic_drive_mode'' 0, Plain ''nordic_invert'' 0, Plain ''bias_disable'' 0,
     Plain ''bias_pull_up'' 0, Plain ''bias_pull_down'' 0, Plain ''low_power_enable'' 0]"

definition DT_N_S_pin_controller_S_uart0_default_S_group2_P :: "dt_prop list" where
  "DT_N_S_pin_controller_S_uart0_default_S_group2_P = [
     Prop ''psels'' (V_Nums [16777224, 50331655]) [E_Num 16777224, E_Num 50331655] None (Loops [0, 1] [0, 1]
       [0, 1] [0, 1] 2),
     Plain ''nordic_drive_mode'' 0, Plain ''nordic_invert'' 0, Plain ''bias_disable'' 0,
     Plain ''bias_pull_up'' 1, Plain ''bias_pull_down'' 0, Plain ''low_power_enable'' 0]"

definition DT_N_S_pin_controller_S_uart0_sleep_S_group1_P :: "dt_prop list" where
  "DT_N_S_pin_controller_S_uart0_sleep_S_group1_P = [
     Prop ''psels'' (V_Nums [6, 16777224, 33554437, 50331655]) [E_Num 6, E_Num 16777224, E_Num 33554437, E_Num
       50331655] None (Loops [0, 1, 2, 3] [0, 1, 2, 3] [0, 1, 2, 3] [0, 1, 2, 3] 4),
     Plain ''nordic_drive_mode'' 0, Plain ''nordic_invert'' 0, Plain ''bias_disable'' 0,
     Plain ''bias_pull_up'' 0, Plain ''bias_pull_down'' 0, Plain ''low_power_enable'' 1]"

definition DT_N_S_pin_controller_S_uart1_default_S_group1_P :: "dt_prop list" where
  "DT_N_S_pin_controller_S_uart1_default_S_group1_P = [
     Prop ''psels'' (V_Nums [16777249]) [E_Num 16777249] None (Loops [0] [0] [0] [0] 1),
     Plain ''nordic_drive_mode'' 0, Plain ''nordic_invert'' 0, Plain ''bias_disable'' 0,
     Plain ''bias_pull_up'' 1, Plain ''bias_pull_down'' 0, Plain ''low_power_enable'' 0]"

definition DT_N_S_pin_controller_S_uart1_default_S_group2_P :: "dt_prop list" where
  "DT_N_S_pin_controller_S_uart1_default_S_group2_P = [
     Prop ''psels'' (V_Nums [34]) [E_Num 34] None (Loops [0] [0] [0] [0] 1), Plain ''nordic_drive_mode'' 0,
     Plain ''nordic_invert'' 0, Plain ''bias_disable'' 0, Plain ''bias_pull_up'' 0, Plain ''bias_pull_down'' 0,
     Plain ''low_power_enable'' 0]"

definition DT_N_S_pin_controller_S_uart1_sleep_S_group1_P :: "dt_prop list" where
  "DT_N_S_pin_controller_S_uart1_sleep_S_group1_P = [
     Prop ''psels'' (V_Nums [16777249, 34]) [E_Num 16777249, E_Num 34] None (Loops [0, 1] [0, 1] [0, 1] [0, 1]
       2),
     Plain ''nordic_drive_mode'' 0, Plain ''nordic_invert'' 0, Plain ''bias_disable'' 0,
     Plain ''bias_pull_up'' 0, Plain ''bias_pull_down'' 0, Plain ''low_power_enable'' 1]"

definition DT_N_S_soc_S_pwm_4001c000_P :: "dt_prop list" where
  "DT_N_S_soc_S_pwm_4001c000_P = [
     Prop ''reg'' (V_Nums [1073856512, 4096]) [E_Num 1073856512, E_Num 4096] None No_Loops,
     Prop ''pinctrl_0'' V_None [E_Node 36] None (Loops [0] [0] [0] [0] 1),
     Prop ''pinctrl_names'' (V_Strs [''default'', ''sleep'']) [E_Str ''default'' ''default'' ''default''
       ''DEFAULT'', E_Str ''sleep'' ''sleep'' ''sleep'' ''SLEEP''] None (Loops [0, 1] [0, 1] [0, 1] [0, 1] 2),
     Plain ''center_aligned'' 0, Plain ''idleout_supported'' 0,
     Prop ''status'' (V_Str ''okay'') [E_Str ''okay'' ''okay'' ''okay'' ''OKAY''] (Some (1, ''okay'')) (Loops
       [0] [0] [0] [0] 1),
     Prop ''compatible'' (V_Strs [''nordic,nrf-pwm'']) [E_Str ''nordic,nrf-pwm'' ''nordic,nrf-pwm''
       ''nordic_nrf_pwm'' ''NORDIC_NRF_PWM''] None (Loops [0] [0] [0] [0] 1),
     Prop ''interrupts'' (V_Nums [28, 1]) [E_Num 28, E_Num 1] None No_Loops,
     Plain ''zephyr_deferred_init'' 0, Plain ''wakeup_source'' 0, Plain ''zephyr_pm_device_runtime_auto'' 0,
     Prop ''pinctrl_1'' V_None [E_Node 38] None (Loops [0] [0] [0] [0] 1)]"

definition DT_N_S_pwmleds_P :: "dt_prop list" where
  "DT_N_S_pwmleds_P = [
     Prop ''compatible'' (V_Strs [''pwm-leds'']) [E_Str ''pwm-leds'' ''pwm-leds'' ''pwm_leds'' ''PWM_LEDS'']
       None (Loops [0] [0] [0] [0] 1)]"

definition DT_N_S_pwmleds_S_pwm_led_0_P :: "dt_prop list" where
  "DT_N_S_pwmleds_S_pwm_led_0_P = [
     Prop ''pwms'' V_None [E_Spec 71 [(''channel'', 0), (''period'', 20000000), (''flags'', 1)]] None (Loops
       [0] [0] [0] [0] 1)]"

definition DT_N_S_soc_S_acl_4001e000_P :: "dt_prop list" where
  "DT_N_S_soc_S_acl_4001e000_P = [
     Prop ''reg'' (V_Nums [1073864704, 4096]) [E_Num 1073864704, E_Num 4096] None No_Loops,
     Prop ''status'' (V_Str ''okay'') [E_Str ''okay'' ''okay'' ''okay'' ''OKAY''] (Some (1, ''okay'')) (Loops
       [0] [0] [0] [0] 1),
     Prop ''compatible'' (V_Strs [''nordic,nrf-acl'']) [E_Str ''nordic,nrf-acl'' ''nordic,nrf-acl''
       ''nordic_nrf_acl'' ''NORDIC_NRF_ACL''] None (Loops [0] [0] [0] [0] 1),
     Plain ''zephyr_deferred_init'' 0, Plain ''wakeup_source'' 0, Plain ''zephyr_pm_device_runtime_auto'' 0]"

definition DT_N_S_soc_S_adc_40007000_P :: "dt_prop list" where
  "DT_N_S_soc_S_adc_40007000_P = [
     Prop ''reg'' (V_Nums [1073770496, 4096]) [E_Num 1073770496, E_Num 4096] None No_Loops,
     Prop ''interrupts'' (V_Nums [7, 1]) [E_Num 7, E_Num 1] None No_Loops,
     Prop ''status'' (V_Str ''okay'') [E_Str ''okay'' ''okay'' ''okay'' ''OKAY''] (Some (1, ''okay'')) (Loops
       [0] [0] [0] [0] 1),
     Prop ''compatible'' (V_Strs [''nordic,nrf-saadc'']) [E_Str ''nordic,nrf-saadc'' ''nordic,nrf-saadc''
       ''nordic_nrf_saadc'' ''NORDIC_NRF_SAADC''] None (Loops [0] [0] [0] [0] 1),
     Plain ''zephyr_deferred_init'' 0, Plain ''wakeup_source'' 0, Plain ''zephyr_pm_device_runtime_auto'' 1]"

definition DT_N_S_soc_S_ccm_4000f000_P :: "dt_prop list" where
  "DT_N_S_soc_S_ccm_4000f000_P = [
     Prop ''reg'' (V_Nums [1073803264, 4096]) [E_Num 1073803264, E_Num 4096] None No_Loops,
     Prop ''interrupts'' (V_Nums [15, 1]) [E_Num 15, E_Num 1] None No_Loops,
     Plain ''length_field_length_8_bits'' 1, Plain ''headermask_supported'' 0,
     Prop ''status'' (V_Str ''okay'') [E_Str ''okay'' ''okay'' ''okay'' ''OKAY''] (Some (1, ''okay'')) (Loops
       [0] [0] [0] [0] 1),
     Prop ''compatible'' (V_Strs [''nordic,nrf-ccm'']) [E_Str ''nordic,nrf-ccm'' ''nordic,nrf-ccm''
       ''nordic_nrf_ccm'' ''NORDIC_NRF_CCM''] None (Loops [0] [0] [0] [0] 1),
     Plain ''zephyr_deferred_init'' 0, Plain ''wakeup_source'' 0, Plain ''zephyr_pm_device_runtime_auto'' 0]"

definition DT_N_S_soc_S_clock_40000000_P :: "dt_prop list" where
  "DT_N_S_soc_S_clock_40000000_P = [
     Prop ''reg'' (V_Nums [1073741824, 4096]) [E_Num 1073741824, E_Num 4096] None No_Loops,
     Prop ''interrupts'' (V_Nums [0, 1]) [E_Num 0, E_Num 1] None No_Loops,
     Prop ''status'' (V_Str ''okay'') [E_Str ''okay'' ''okay'' ''okay'' ''OKAY''] (Some (1, ''okay'')) (Loops
       [0] [0] [0] [0] 1),
     Prop ''compatible'' (V_Strs [''nordic,nrf-clock'']) [E_Str ''nordic,nrf-clock'' ''nordic,nrf-clock''
       ''nordic_nrf_clock'' ''NORDIC_NRF_CLOCK''] None (Loops [0] [0] [0] [0] 1),
     Plain ''zephyr_deferred_init'' 0, Plain ''wakeup_source'' 0, Plain ''zephyr_pm_device_runtime_auto'' 0]"

definition DT_N_S_soc_S_comparator_40013000_P :: "dt_prop list" where
  "DT_N_S_soc_S_comparator_40013000_P = [
     Plain ''enable_hyst'' 0,
     Prop ''status'' (V_Str ''disabled'') [E_Str ''disabled'' ''disabled'' ''disabled'' ''DISABLED''] (Some (2,
       ''disabled'')) (Loops [0] [0] [0] [0] 1),
     Prop ''compatible'' (V_Strs [''nordic,nrf-comp'']) [E_Str ''nordic,nrf-comp'' ''nordic,nrf-comp''
       ''nordic_nrf_comp'' ''NORDIC_NRF_COMP''] None (Loops [0] [0] [0] [0] 1),
     Prop ''reg'' (V_Nums [1073819648, 4096]) [E_Num 1073819648, E_Num 4096] None No_Loops,
     Prop ''interrupts'' (V_Nums [19, 1]) [E_Num 19, E_Num 1] None No_Loops,
     Plain ''zephyr_deferred_init'' 0, Plain ''wakeup_source'' 0, Plain ''zephyr_pm_device_runtime_auto'' 0]"

definition DT_N_S_soc_S_crypto_5002a000_P :: "dt_prop list" where
  "DT_N_S_soc_S_crypto_5002a000_P = [
     Prop ''reg'' (V_Nums [1342349312, 4096, 1342353408, 4096]) [E_Num 1342349312, E_Num 4096, E_Num
       1342353408, E_Num 4096] None No_Loops,
     Prop ''interrupts'' (V_Nums [42, 1]) [E_Num 42, E_Num 1] None No_Loops,
     Prop ''status'' (V_Str ''okay'') [E_Str ''okay'' ''okay'' ''okay'' ''OKAY''] (Some (1, ''okay'')) (Loops
       [0] [0] [0] [0] 1),
     Prop ''compatible'' (V_Strs [''arm,cryptocell-310'']) [E_Str ''arm,cryptocell-310'' ''arm,cryptocell-310''
       ''arm_cryptocell_310'' ''ARM_CRYPTOCELL_310''] None (Loops [0] [0] [0] [0] 1),
     Prop ''reg_names'' (V_Strs [''wrapper'', ''core'']) [E_Str ''wrapper'' ''wrapper'' ''wrapper''
       ''WRAPPER'', E_Str ''core'' ''core'' ''core'' ''CORE''] None (Loops [0, 1] [0, 1] [0, 1] [0, 1] 2),
     Plain ''zephyr_deferred_init'' 0, Plain ''wakeup_source'' 0, Plain ''zephyr_pm_device_runtime_auto'' 0]"

definition DT_N_S_soc_S_ecb_4000e000_P :: "dt_prop list" where
  "DT_N_S_soc_S_ecb_4000e000_P = [
     Prop ''reg'' (V_Nums [1073799168, 4096]) [E_Num 1073799168, E_Num 4096] None No_Loops,
     Prop ''interrupts'' (V_Nums [14, 1]) [E_Num 14, E_Num 1] None No_Loops,
     Prop ''status'' (V_Str ''okay'') [E_Str ''okay'' ''okay'' ''okay'' ''OKAY''] (Some (1, ''okay'')) (Loops
       [0] [0] [0] [0] 1),
     Prop ''compatible'' (V_Strs [''nordic,nrf-ecb'']) [E_Str ''nordic,nrf-ecb'' ''nordic,nrf-ecb''
       ''nordic_nrf_ecb'' ''NORDIC_NRF_ECB''] None (Loops [0] [0] [0] [0] 1),
     Plain ''zephyr_deferred_init'' 0, Plain ''wakeup_source'' 0, Plain ''zephyr_pm_device_runtime_auto'' 0]"

definition DT_N_S_soc_S_egu_40014000_P :: "dt_prop list" where
  "DT_N_S_soc_S_egu_40014000_P = [
     Prop ''reg'' (V_Nums [1073823744, 4096]) [E_Num 1073823744, E_Num 4096] None No_Loops,
     Prop ''interrupts'' (V_Nums [20, 1]) [E_Num 20, E_Num 1] None No_Loops,
     Prop ''status'' (V_Str ''okay'') [E_Str ''okay'' ''okay'' ''okay'' ''OKAY''] (Some (1, ''okay'')) (Loops
       [0] [0] [0] [0] 1),
     Prop ''compatible'' (V_Strs [''nordic,nrf-egu'', ''nordic,nrf-swi'']) [E_Str ''nordic,nrf-egu''
       ''nordic,nrf-egu'' ''nordic_nrf_egu'' ''NORDIC_NRF_EGU'', E_Str ''nordic,nrf-swi'' ''nordic,nrf-swi''
       ''nordic_nrf_swi'' ''NORDIC_NRF_SWI''] None (Loops [0, 1] [0, 1] [0, 1] [0, 1] 2),
     Plain ''zephyr_deferred_init'' 0, Plain ''wakeup_source'' 0, Plain ''zephyr_pm_device_runtime_auto'' 0]"

definition DT_N_S_soc_S_egu_40015000_P :: "dt_prop list" where
  "DT_N_S_soc_S_egu_40015000_P = [
     Prop ''reg'' (V_Nums [1073827840, 4096]) [E_Num 1073827840, E_Num 4096] None No_Loops,
     Prop ''interrupts'' (V_Nums [21, 1]) [E_Num 21, E_Num 1] None No_Loops,
     Prop ''status'' (V_Str ''okay'') [E_Str ''okay'' ''okay'' ''okay'' ''OKAY''] (Some (1, ''okay'')) (Loops
       [0] [0] [0] [0] 1),
     Prop ''compatible'' (V_Strs [''nordic,nrf-egu'', ''nordic,nrf-swi'']) [E_Str ''nordic,nrf-egu''
       ''nordic,nrf-egu'' ''nordic_nrf_egu'' ''NORDIC_NRF_EGU'', E_Str ''nordic,nrf-swi'' ''nordic,nrf-swi''
       ''nordic_nrf_swi'' ''NORDIC_NRF_SWI''] None (Loops [0, 1] [0, 1] [0, 1] [0, 1] 2),
     Plain ''zephyr_deferred_init'' 0, Plain ''wakeup_source'' 0, Plain ''zephyr_pm_device_runtime_auto'' 0]"

definition DT_N_S_soc_S_egu_40016000_P :: "dt_prop list" where
  "DT_N_S_soc_S_egu_40016000_P = [
     Prop ''reg'' (V_Nums [1073831936, 4096]) [E_Num 1073831936, E_Num 4096] None No_Loops,
     Prop ''interrupts'' (V_Nums [22, 1]) [E_Num 22, E_Num 1] None No_Loops,
     Prop ''status'' (V_Str ''okay'') [E_Str ''okay'' ''okay'' ''okay'' ''OKAY''] (Some (1, ''okay'')) (Loops
       [0] [0] [0] [0] 1),
     Prop ''compatible'' (V_Strs [''nordic,nrf-egu'', ''nordic,nrf-swi'']) [E_Str ''nordic,nrf-egu''
       ''nordic,nrf-egu'' ''nordic_nrf_egu'' ''NORDIC_NRF_EGU'', E_Str ''nordic,nrf-swi'' ''nordic,nrf-swi''
       ''nordic_nrf_swi'' ''NORDIC_NRF_SWI''] None (Loops [0, 1] [0, 1] [0, 1] [0, 1] 2),
     Plain ''zephyr_deferred_init'' 0, Plain ''wakeup_source'' 0, Plain ''zephyr_pm_device_runtime_auto'' 0]"

definition DT_N_S_soc_S_egu_40017000_P :: "dt_prop list" where
  "DT_N_S_soc_S_egu_40017000_P = [
     Prop ''reg'' (V_Nums [1073836032, 4096]) [E_Num 1073836032, E_Num 4096] None No_Loops,
     Prop ''interrupts'' (V_Nums [23, 1]) [E_Num 23, E_Num 1] None No_Loops,
     Prop ''status'' (V_Str ''okay'') [E_Str ''okay'' ''okay'' ''okay'' ''OKAY''] (Some (1, ''okay'')) (Loops
       [0] [0] [0] [0] 1),
     Prop ''compatible'' (V_Strs [''nordic,nrf-egu'', ''nordic,nrf-swi'']) [E_Str ''nordic,nrf-egu''
       ''nordic,nrf-egu'' ''nordic_nrf_egu'' ''NORDIC_NRF_EGU'', E_Str ''nordic,nrf-swi'' ''nordic,nrf-swi''
       ''nordic_nrf_swi'' ''NORDIC_NRF_SWI''] None (Loops [0, 1] [0, 1] [0, 1] [0, 1] 2),
     Plain ''zephyr_deferred_init'' 0, Plain ''wakeup_source'' 0, Plain ''zephyr_pm_device_runtime_auto'' 0]"

definition DT_N_S_soc_S_egu_40018000_P :: "dt_prop list" where
  "DT_N_S_soc_S_egu_40018000_P = [
     Prop ''reg'' (V_Nums [1073840128, 4096]) [E_Num 1073840128, E_Num 4096] None No_Loops,
     Prop ''interrupts'' (V_Nums [24, 1]) [E_Num 24, E_Num 1] None No_Loops,
     Prop ''status'' (V_Str ''okay'') [E_Str ''okay'' ''okay'' ''okay'' ''OKAY''] (Some (1, ''okay'')) (Loops
       [0] [0] [0] [0] 1),
     Prop ''compatible'' (V_Strs [''nordic,nrf-egu'', ''nordic,nrf-swi'']) [E_Str ''nordic,nrf-egu''
       ''nordic,nrf-egu'' ''nordic_nrf_egu'' ''NORDIC_NRF_EGU'', E_Str ''nordic,nrf-swi'' ''nordic,nrf-swi''
       ''nordic_nrf_swi'' ''NORDIC_NRF_SWI''] None (Loops [0, 1] [0, 1] [0, 1] [0, 1] 2),
     Plain ''zephyr_deferred_init'' 0, Plain ''wakeup_source'' 0, Plain ''zephyr_pm_device_runtime_auto'' 0]"

definition DT_N_S_soc_S_egu_40019000_P :: "dt_prop list" where
  "DT_N_S_soc_S_egu_40019000_P = [
     Prop ''reg'' (V_Nums [1073844224, 4096]) [E_Num 1073844224, E_Num 4096] None No_Loops,
     Prop ''interrupts'' (V_Nums [25, 1]) [E_Num 25, E_Num 1] None No_Loops,
     Prop ''status'' (V_Str ''okay'') [E_Str ''okay'' ''okay'' ''okay'' ''OKAY''] (Some (1, ''okay'')) (Loops
       [0] [0] [0] [0] 1),
     Prop ''compatible'' (V_Strs [''nordic,nrf-egu'', ''nordic,nrf-swi'']) [E_Str ''nordic,nrf-egu''
       ''nordic,nrf-egu'' ''nordic_nrf_egu'' ''NORDIC_NRF_EGU'', E_Str ''nordic,nrf-swi'' ''nordic,nrf-swi''
       ''nordic_nrf_swi'' ''NORDIC_NRF_SWI''] None (Loops [0, 1] [0, 1] [0, 1] [0, 1] 2),
     Plain ''zephyr_deferred_init'' 0, Plain ''wakeup_source'' 0, Plain ''zephyr_pm_device_runtime_auto'' 0]"

definition DT_N_S_soc_S_ficr_10000000_P :: "dt_prop list" where
  "DT_N_S_soc_S_ficr_10000000_P = [
     Prop ''reg'' (V_Nums [268435456, 4096]) [E_Num 268435456, E_Num 4096] None No_Loops,
     Prop ''status'' (V_Str ''okay'') [E_Str ''okay'' ''okay'' ''okay'' ''OKAY''] (Some (1, ''okay'')) (Loops
       [0] [0] [0] [0] 1),
     Prop ''compatible'' (V_Strs [''nordic,nrf-ficr'']) [E_Str ''nordic,nrf-ficr'' ''nordic,nrf-ficr''
       ''nordic_nrf_ficr'' ''NORDIC_NRF_FICR''] None (Loops [0] [0] [0] [0] 1),
     Plain ''zephyr_deferred_init'' 0, Plain ''wakeup_source'' 0, Plain ''zephyr_pm_device_runtime_auto'' 0]"

definition DT_N_S_soc_S_i2c_40003000_P :: "dt_prop list" where
  "DT_N_S_soc_S_i2c_40003000_P = [
     Prop ''reg'' (V_Nums [1073754112, 4096]) [E_Num 1073754112, E_Num 4096] None No_Loops,
     Prop ''interrupts'' (V_Nums [3, 1]) [E_Num 3, E_Num 1] None No_Loops,
     Prop ''pinctrl_0'' V_None [E_Node 28] None (Loops [0] [0] [0] [0] 1),
     Prop ''pinctrl_names'' (V_Strs [''default'', ''sleep'']) [E_Str ''default'' ''default'' ''default''
       ''DEFAULT'', E_Str ''sleep'' ''sleep'' ''sleep'' ''SLEEP''] None (Loops [0, 1] [0, 1] [0, 1] [0, 1] 2),
     Plain ''easydma_maxcnt_bits'' 16, Plain ''sq_size'' 4, Plain ''cq_size'' 4,
     Prop ''status'' (V_Str ''okay'') [E_Str ''okay'' ''okay'' ''okay'' ''OKAY''] (Some (1, ''okay'')) (Loops
       [0] [0] [0] [0] 1),
     Prop ''compatible'' (V_Strs [''nordic,nrf-twi'']) [E_Str ''nordic,nrf-twi'' ''nordic,nrf-twi''
       ''nordic_nrf_twi'' ''NORDIC_NRF_TWI''] None (Loops [0] [0] [0] [0] 1),
     Plain ''zephyr_deferred_init'' 0, Plain ''wakeup_source'' 0, Plain ''zephyr_pm_device_runtime_auto'' 1,
     Prop ''pinctrl_1'' V_None [E_Node 30] None (Loops [0] [0] [0] [0] 1)]"

definition DT_N_S_soc_S_i2c_40004000_P :: "dt_prop list" where
  "DT_N_S_soc_S_i2c_40004000_P = [
     Prop ''reg'' (V_Nums [1073758208, 4096]) [E_Num 1073758208, E_Num 4096] None No_Loops,
     Prop ''interrupts'' (V_Nums [4, 1]) [E_Num 4, E_Num 1] None No_Loops,
     Prop ''pinctrl_0'' V_None [E_Node 32] None (Loops [0] [0] [0] [0] 1),
     Prop ''pinctrl_names'' (V_Strs [''default'', ''sleep'']) [E_Str ''default'' ''default'' ''default''
       ''DEFAULT'', E_Str ''sleep'' ''sleep'' ''sleep'' ''SLEEP''] None (Loops [0, 1] [0, 1] [0, 1] [0, 1] 2),
     Plain ''easydma_maxcnt_bits'' 16, Plain ''sq_size'' 4, Plain ''cq_size'' 4,
     Prop ''status'' (V_Str ''disabled'') [E_Str ''disabled'' ''disabled'' ''disabled'' ''DISABLED''] (Some (2,
       ''disabled'')) (Loops [0] [0] [0] [0] 1),
     Prop ''compatible'' (V_Strs [''nordic,nrf-twi'']) [E_Str ''nordic,nrf-twi'' ''nordic,nrf-twi''
       ''nordic_nrf_twi'' ''NORDIC_NRF_TWI''] None (Loops [0] [0] [0] [0] 1),
     Plain ''zephyr_deferred_init'' 0, Plain ''wakeup_source'' 0, Plain ''zephyr_pm_device_runtime_auto'' 1,
     Prop ''pinctrl_1'' V_None [E_Node 34] None (Loops [0] [0] [0] [0] 1)]"

definition DT_N_S_soc_S_i2s_40025000_P :: "dt_prop list" where
  "DT_N_S_soc_S_i2s_40025000_P = [
     Prop ''reg'' (V_Nums [1073893376, 4096]) [E_Num 1073893376, E_Num 4096] None No_Loops,
     Prop ''interrupts'' (V_Nums [37, 1]) [E_Num 37, E_Num 1] None No_Loops,
     Prop ''clock_source'' (V_Str ''PCLK32M_HFXO'') [E_Str ''PCLK32M_HFXO'' ''PCLK32M_HFXO'' ''PCLK32M_HFXO''
       ''PCLK32M_HFXO''] (Some (1, ''pclk32m_hfxo'')) (Loops [0] [0] [0] [0] 1),
     Prop ''status'' (V_Str ''disabled'') [E_Str ''disabled'' ''disabled'' ''disabled'' ''DISABLED''] (Some (2,
       ''disabled'')) (Loops [0] [0] [0] [0] 1),
     Prop ''compatible'' (V_Strs [''nordic,nrf-i2s'']) [E_Str ''nordic,nrf-i2s'' ''nordic,nrf-i2s''
       ''nordic_nrf_i2s'' ''NORDIC_NRF_I2S''] None (Loops [0] [0] [0] [0] 1),
     Plain ''zephyr_deferred_init'' 0, Plain ''wakeup_source'' 0, Plain ''zephyr_pm_device_runtime_auto'' 0]"

definition DT_N_S_soc_S_memory_20000000_P :: "dt_prop list" where
  "DT_N_S_soc_S_memory_20000000_P = [
     Prop ''reg'' (V_Nums [536870912, 262144]) [E_Num 536870912, E_Num 262144] None No_Loops,
     Prop ''compatible'' (V_Strs [''mmio-sram'']) [E_Str ''mmio-sram'' ''mmio-sram'' ''mmio_sram''
       ''MMIO_SRAM''] None (Loops [0] [0] [0] [0] 1),
     Plain ''zephyr_deferred_init'' 0, Plain ''wakeup_source'' 0, Plain ''zephyr_pm_device_runtime_auto'' 0]"

definition DT_N_S_soc_S_mwu_40020000_P :: "dt_prop list" where
  "DT_N_S_soc_S_mwu_40020000_P = [
     Prop ''reg'' (V_Nums [1073872896, 4096]) [E_Num 1073872896, E_Num 4096] None No_Loops,
     Prop ''status'' (V_Str ''okay'') [E_Str ''okay'' ''okay'' ''okay'' ''OKAY''] (Some (1, ''okay'')) (Loops
       [0] [0] [0] [0] 1),
     Prop ''compatible'' (V_Strs [''nordic,nrf-mwu'']) [E_Str ''nordic,nrf-mwu'' ''nordic,nrf-mwu''
       ''nordic_nrf_mwu'' ''NORDIC_NRF_MWU''] None (Loops [0] [0] [0] [0] 1),
     Plain ''zephyr_deferred_init'' 0, Plain ''wakeup_source'' 0, Plain ''zephyr_pm_device_runtime_auto'' 0]"

definition DT_N_S_soc_S_nfct_40005000_P :: "dt_prop list" where
  "DT_N_S_soc_S_nfct_40005000_P = [
     Prop ''reg'' (V_Nums [1073762304, 4096]) [E_Num 1073762304, E_Num 4096] None No_Loops,
     Prop ''interrupts'' (V_Nums [5, 1]) [E_Num 5, E_Num 1] None No_Loops,
     Prop ''status'' (V_Str ''okay'') [E_Str ''okay'' ''okay'' ''okay'' ''OKAY''] (Some (1, ''okay'')) (Loops
       [0] [0] [0] [0] 1),
     Prop ''compatible'' (V_Strs [''nordic,nrf-nfct'']) [E_Str ''nordic,nrf-nfct'' ''nordic,nrf-nfct''
       ''nordic_nrf_nfct'' ''NORDIC_NRF_NFCT''] None (Loops [0] [0] [0] [0] 1),
     Plain ''zephyr_deferred_init'' 0, Plain ''wakeup_source'' 0, Plain ''zephyr_pm_device_runtime_auto'' 0]"

definition DT_N_S_soc_S_pdm_4001d000_P :: "dt_prop list" where
  "DT_N_S_soc_S_pdm_4001d000_P = [
     Prop ''reg'' (V_Nums [1073860608, 4096]) [E_Num 1073860608, E_Num 4096] None No_Loops,
     Prop ''interrupts'' (V_Nums [29, 1]) [E_Num 29, E_Num 1] None No_Loops,
     Prop ''clock_source'' (V_Str ''PCLK32M_HFXO'') [E_Str ''PCLK32M_HFXO'' ''PCLK32M_HFXO'' ''PCLK32M_HFXO''
       ''PCLK32M_HFXO''] (Some (1, ''pclk32m_hfxo'')) (Loops [0] [0] [0] [0] 1),
     Plain ''queue_size'' 4,
     Prop ''status'' (V_Str ''disabled'') [E_Str ''disabled'' ''disabled'' ''disabled'' ''DISABLED''] (Some (2,
       ''disabled'')) (Loops [0] [0] [0] [0] 1),
     Prop ''compatible'' (V_Strs [''nordic,nrf-pdm'']) [E_Str ''nordic,nrf-pdm'' ''nordic,nrf-pdm''
       ''nordic_nrf_pdm'' ''NORDIC_NRF_PDM''] None (Loops [0] [0] [0] [0] 1),
     Plain ''zephyr_deferred_init'' 0, Plain ''wakeup_source'' 0, Plain ''zephyr_pm_device_runtime_auto'' 0]"

definition DT_N_S_soc_S_ppi_4001f000_P :: "dt_prop list" where
  "DT_N_S_soc_S_ppi_4001f000_P = [
     Prop ''reg'' (V_Nums [1073868800, 4096]) [E_Num 1073868800, E_Num 4096] None No_Loops,
     Prop ''status'' (V_Str ''okay'') [E_Str ''okay'' ''okay'' ''okay'' ''OKAY''] (Some (1, ''okay'')) (Loops
       [0] [0] [0] [0] 1),
     Prop ''compatible'' (V_Strs [''nordic,nrf-ppi'']) [E_Str ''nordic,nrf-ppi'' ''nordic,nrf-ppi''
       ''nordic_nrf_ppi'' ''NORDIC_NRF_PPI''] None (Loops [0] [0] [0] [0] 1),
     Plain ''zephyr_deferred_init'' 0, Plain ''wakeup_source'' 0, Plain ''zephyr_pm_device_runtime_auto'' 0]"

definition DT_N_S_soc_S_pwm_40021000_P :: "dt_prop list" where
  "DT_N_S_soc_S_pwm_40021000_P = [
     Prop ''reg'' (V_Nums [1073876992, 4096]) [E_Num 1073876992, E_Num 4096] None No_Loops,
     Plain ''center_aligned'' 0, Plain ''idleout_supported'' 0,
     Prop ''status'' (V_Str ''disabled'') [E_Str ''disabled'' ''disabled'' ''disabled'' ''DISABLED''] (Some (2,
       ''disabled'')) (Loops [0] [0] [0] [0] 1),
     Prop ''compatible'' (V_Strs [''nordic,nrf-pwm'']) [E_Str ''nordic,nrf-pwm'' ''nordic,nrf-pwm''
       ''nordic_nrf_pwm'' ''NORDIC_NRF_PWM''] None (Loops [0] [0] [0] [0] 1),
     Prop ''interrupts'' (V_Nums [33, 1]) [E_Num 33, E_Num 1] None No_Loops,
     Plain ''zephyr_deferred_init'' 0, Plain ''wakeup_source'' 0, Plain ''zephyr_pm_device_runtime_auto'' 0]"

definition DT_N_S_soc_S_pwm_40022000_P :: "dt_prop list" where
  "DT_N_S_soc_S_pwm_40022000_P = [
     Prop ''reg'' (V_Nums [1073881088, 4096]) [E_Num 1073881088, E_Num 4096] None No_Loops,
     Plain ''center_aligned'' 0, Plain ''idleout_supported'' 0,
     Prop ''status'' (V_Str ''disabled'') [E_Str ''disabled'' ''disabled'' ''disabled'' ''DISABLED''] (Some (2,
       ''disabled'')) (Loops [0] [0] [0] [0] 1),
     Prop ''compatible'' (V_Strs [''nordic,nrf-pwm'']) [E_Str ''nordic,nrf-pwm'' ''nordic,nrf-pwm''
       ''nordic_nrf_pwm'' ''NORDIC_NRF_PWM''] None (Loops [0] [0] [0] [0] 1),
     Prop ''interrupts'' (V_Nums [34, 1]) [E_Num 34, E_Num 1] None No_Loops,
     Plain ''zephyr_deferred_init'' 0, Plain ''wakeup_source'' 0, Plain ''zephyr_pm_device_runtime_auto'' 0]"

definition DT_N_S_soc_S_pwm_4002d000_P :: "dt_prop list" where
  "DT_N_S_soc_S_pwm_4002d000_P = [
     Prop ''reg'' (V_Nums [1073926144, 4096]) [E_Num 1073926144, E_Num 4096] None No_Loops,
     Plain ''center_aligned'' 0, Plain ''idleout_supported'' 0,
     Prop ''status'' (V_Str ''disabled'') [E_Str ''disabled'' ''disabled'' ''disabled'' ''DISABLED''] (Some (2,
       ''disabled'')) (Loops [0] [0] [0] [0] 1),
     Prop ''compatible'' (V_Strs [''nordic,nrf-pwm'']) [E_Str ''nordic,nrf-pwm'' ''nordic,nrf-pwm''
       ''nordic_nrf_pwm'' ''NORDIC_NRF_PWM''] None (Loops [0] [0] [0] [0] 1),
     Prop ''interrupts'' (V_Nums [45, 1]) [E_Num 45, E_Num 1] None No_Loops,
     Plain ''zephyr_deferred_init'' 0, Plain ''wakeup_source'' 0, Plain ''zephyr_pm_device_runtime_auto'' 0]"

definition DT_N_S_soc_S_qdec_40012000_P :: "dt_prop list" where
  "DT_N_S_soc_S_qdec_40012000_P = [
     Prop ''reg'' (V_Nums [1073815552, 4096]) [E_Num 1073815552, E_Num 4096] None No_Loops,
     Prop ''interrupts'' (V_Nums [18, 1]) [E_Num 18, E_Num 1] None No_Loops,
     Prop ''status'' (V_Str ''disabled'') [E_Str ''disabled'' ''disabled'' ''disabled'' ''DISABLED''] (Some (2,
       ''disabled'')) (Loops [0] [0] [0] [0] 1),
     Prop ''compatible'' (V_Strs [''nordic,nrf-qdec'']) [E_Str ''nordic,nrf-qdec'' ''nordic,nrf-qdec''
       ''nordic_nrf_qdec'' ''NORDIC_NRF_QDEC''] None (Loops [0] [0] [0] [0] 1),
     Plain ''zephyr_deferred_init'' 0, Plain ''wakeup_source'' 0, Plain ''zephyr_pm_device_runtime_auto'' 0]"

definition DT_N_S_soc_S_random_4000d000_P :: "dt_prop list" where
  "DT_N_S_soc_S_random_4000d000_P = [
     Prop ''reg'' (V_Nums [1073795072, 4096]) [E_Num 1073795072, E_Num 4096] None No_Loops,
     Prop ''interrupts'' (V_Nums [13, 1]) [E_Num 13, E_Num 1] None No_Loops,
     Prop ''status'' (V_Str ''okay'') [E_Str ''okay'' ''okay'' ''okay'' ''OKAY''] (Some (1, ''okay'')) (Loops
       [0] [0] [0] [0] 1),
     Prop ''compatible'' (V_Strs [''nordic,nrf-rng'']) [E_Str ''nordic,nrf-rng'' ''nordic,nrf-rng''
       ''nordic_nrf_rng'' ''NORDIC_NRF_RNG''] None (Loops [0] [0] [0] [0] 1),
     Plain ''zephyr_deferred_init'' 0, Plain ''wakeup_source'' 0, Plain ''zephyr_pm_device_runtime_auto'' 0]"

definition DT_N_S_soc_S_rtc_4000b000_P :: "dt_prop list" where
  "DT_N_S_soc_S_rtc_4000b000_P = [
     Prop ''reg'' (V_Nums [1073786880, 4096]) [E_Num 1073786880, E_Num 4096] None No_Loops, Plain ''cc_num'' 3,
     Plain ''ppi_wrap'' 0, Plain ''fixed_top'' 0, Plain ''zli'' 0, Plain ''clock_frequency'' 32768,
     Prop ''interrupts'' (V_Nums [11, 1]) [E_Num 11, E_Num 1] None No_Loops,
     Plain ''prescaler'' 1,
     Prop ''status'' (V_Str ''disabled'') [E_Str ''disabled'' ''disabled'' ''disabled'' ''DISABLED''] (Some (2,
       ''disabled'')) (Loops [0] [0] [0] [0] 1),
     Prop ''compatible'' (V_Strs [''nordic,nrf-rtc'']) [E_Str ''nordic,nrf-rtc'' ''nordic,nrf-rtc''
       ''nordic_nrf_rtc'' ''NORDIC_NRF_RTC''] None (Loops [0] [0] [0] [0] 1),
     Plain ''zephyr_deferred_init'' 0, Plain ''wakeup_source'' 0, Plain ''zephyr_pm_device_runtime_auto'' 0]"

definition DT_N_S_soc_S_rtc_40011000_P :: "dt_prop list" where
  "DT_N_S_soc_S_rtc_40011000_P = [
     Prop ''reg'' (V_Nums [1073811456, 4096]) [E_Num 1073811456, E_Num 4096] None No_Loops, Plain ''cc_num'' 4,
     Plain ''ppi_wrap'' 0, Plain ''fixed_top'' 0, Plain ''zli'' 0, Plain ''clock_frequency'' 32768,
     Prop ''interrupts'' (V_Nums [17, 1]) [E_Num 17, E_Num 1] None No_Loops,
     Plain ''prescaler'' 1,
     Prop ''status'' (V_Str ''disabled'') [E_Str ''disabled'' ''disabled'' ''disabled'' ''DISABLED''] (Some (2,
       ''disabled'')) (Loops [0] [0] [0] [0] 1),
     Prop ''compatible'' (V_Strs [''nordic,nrf-rtc'']) [E_Str ''nordic,nrf-rtc'' ''nordic,nrf-rtc''
       ''nordic_nrf_rtc'' ''NORDIC_NRF_RTC''] None (Loops [0] [0] [0] [0] 1),
     Plain ''zephyr_deferred_init'' 0, Plain ''wakeup_source'' 0, Plain ''zephyr_pm_device_runtime_auto'' 0]"

definition DT_N_S_soc_S_rtc_40024000_P :: "dt_prop list" where
  "DT_N_S_soc_S_rtc_40024000_P = [
     Prop ''reg'' (V_Nums [1073889280, 4096]) [E_Num 1073889280, E_Num 4096] None No_Loops, Plain ''cc_num'' 4,
     Plain ''ppi_wrap'' 0, Plain ''fixed_top'' 0, Plain ''zli'' 0, Plain ''clock_frequency'' 32768,
     Prop ''interrupts'' (V_Nums [36, 1]) [E_Num 36, E_Num 1] None No_Loops,
     Plain ''prescaler'' 1,
     Prop ''status'' (V_Str ''disabled'') [E_Str ''disabled'' ''disabled'' ''disabled'' ''DISABLED''] (Some (2,
       ''disabled'')) (Loops [0] [0] [0] [0] 1),
     Prop ''compatible'' (V_Strs [''nordic,nrf-rtc'']) [E_Str ''nordic,nrf-rtc'' ''nordic,nrf-rtc''
       ''nordic_nrf_rtc'' ''NORDIC_NRF_RTC''] None (Loops [0] [0] [0] [0] 1),
     Plain ''zephyr_deferred_init'' 0, Plain ''wakeup_source'' 0, Plain ''zephyr_pm_device_runtime_auto'' 0]"

definition DT_N_S_soc_S_spi_40003000_P :: "dt_prop list" where
  "DT_N_S_soc_S_spi_40003000_P = [
     Prop ''reg'' (V_Nums [1073754112, 4096]) [E_Num 1073754112, E_Num 4096] None No_Loops,
     Prop ''interrupts'' (V_Nums [3, 1]) [E_Num 3, E_Num 1] None No_Loops,
     Prop ''pinctrl_0'' V_None [E_Node 45] None (Loops [0] [0] [0] [0] 1),
     Prop ''pinctrl_names'' (V_Strs [''default'', ''sleep'']) [E_Str ''default'' ''default'' ''default''
       ''DEFAULT'', E_Str ''sleep'' ''sleep'' ''sleep'' ''SLEEP''] None (Loops [0, 1] [0, 1] [0, 1] [0, 1] 2),
     Plain ''max_frequency'' 8000000, Plain ''overrun_character'' 255, Plain ''easydma_maxcnt_bits'' 16,
     Plain ''cross_domain_pins_supported'' 0,
     Prop ''status'' (V_Str ''disabled'') [E_Str ''disabled'' ''disabled'' ''disabled'' ''DISABLED''] (Some (2,
       ''disabled'')) (Loops [0] [0] [0] [0] 1),
     Prop ''compatible'' (V_Strs [''nordic,nrf-spi'']) [E_Str ''nordic,nrf-spi'' ''nordic,nrf-spi''
       ''nordic_nrf_spi'' ''NORDIC_NRF_SPI''] None (Loops [0] [0] [0] [0] 1),
     Plain ''zephyr_deferred_init'' 0, Plain ''wakeup_source'' 0, Plain ''zephyr_pm_device_runtime_auto'' 0,
     Prop ''pinctrl_1'' V_None [E_Node 47] None (Loops [0] [0] [0] [0] 1)]"

definition DT_N_S_soc_S_spi_40023000_P :: "dt_prop list" where
  "DT_N_S_soc_S_spi_40023000_P = [
     Prop ''reg'' (V_Nums [1073885184, 4096]) [E_Num 1073885184, E_Num 4096] None No_Loops,
     Prop ''interrupts'' (V_Nums [35, 1]) [E_Num 35, E_Num 1] None No_Loops,
     Prop ''pinctrl_0'' V_None [E_Node 53] None (Loops [0] [0] [0] [0] 1),
     Prop ''pinctrl_names'' (V_Strs [''default'', ''sleep'']) [E_Str ''default'' ''default'' ''default''
       ''DEFAULT'', E_Str ''sleep'' ''sleep'' ''sleep'' ''SLEEP''] None (Loops [0, 1] [0, 1] [0, 1] [0, 1] 2),
     Plain ''max_frequency'' 8000000, Plain ''overrun_character'' 255, Plain ''easydma_maxcnt_bits'' 16,
     Plain ''cross_domain_pins_supported'' 0,
     Prop ''status'' (V_Str ''disabled'') [E_Str ''disabled'' ''disabled'' ''disabled'' ''DISABLED''] (Some (2,
       ''disabled'')) (Loops [0] [0] [0] [0] 1),
     Prop ''compatible'' (V_Strs [''nordic,nrf-spi'']) [E_Str ''nordic,nrf-spi'' ''nordic,nrf-spi''
       ''nordic_nrf_spi'' ''NORDIC_NRF_SPI''] None (Loops [0] [0] [0] [0] 1),
     Plain ''zephyr_deferred_init'' 0, Plain ''wakeup_source'' 0, Plain ''zephyr_pm_device_runtime_auto'' 0,
     Prop ''pinctrl_1'' V_None [E_Node 55] None (Loops [0] [0] [0] [0] 1)]"

definition DT_N_S_soc_S_gpio_50000300_P0 :: "dt_prop list" where
  "DT_N_S_soc_S_gpio_50000300_P0 = [
     Prop ''reg'' (V_Nums [1342178048, 512, 1342179328, 768]) [E_Num 1342178048, E_Num 512, E_Num 1342179328,
       E_Num 768] None No_Loops,
     Prop ''gpiote_instance'' (V_Node 10) [E_Node 10] None (Loops [0] [0] [0] [0] 1),
     Plain ''port'' 1, Plain ''gpio_controller'' 1, Plain ''ngpios'' 16]"

definition DT_N_S_soc_S_gpio_50000300_P1 :: "dt_prop list" where
  "DT_N_S_soc_S_gpio_50000300_P1 = [
     Prop ''gpio_line_names'' (V_Strs [[], ''D0'', ''D1'', ''D2'', ''D3'', ''D4'', ''D5'', ''D6'', ''D7'', [],
       ''D8'', ''D9'', ''D10'', ''D11'', ''D12'', ''D13'']) [E_Str [] [] [] [], E_Str ''D0'' ''D0'' ''D0''
       ''D0'', E_Str ''D1'' ''D1'' ''D1'' ''D1'', E_Str ''D2'' ''D2'' ''D2'' ''D2'', E_Str ''D3'' ''D3'' ''D3''
       ''D3'', E_Str ''D4'' ''D4'' ''D4'' ''D4'', E_Str ''D5'' ''D5'' ''D5'' ''D5'', E_Str ''D6'' ''D6'' ''D6''
       ''D6'', E_Str ''D7'' ''D7'' ''D7'' ''D7'', E_Str [] [] [] [], E_Str ''D8'' ''D8'' ''D8'' ''D8'', E_Str
       ''D9'' ''D9'' ''D9'' ''D9'', E_Str ''D10'' ''D10'' ''D10'' ''D10'', E_Str ''D11'' ''D11'' ''D11''
       ''D11'', E_Str ''D12'' ''D12'' ''D12'' ''D12'', E_Str ''D13'' ''D13'' ''D13'' ''D13''] None (Loops [0,
       1, 2, 3, 4, 5, 6, 7, 8, 9, 10, 11, 12, 13, 14, 15] [0, 1, 2, 3, 4, 5, 6, 7, 8, 9, 10, 11, 12, 13, 14,
       15] [0, 1, 2, 3, 4, 5, 6, 7, 8, 9, 10, 11, 12, 13, 14, 15] [0, 1, 2, 3, 4, 5, 6, 7, 8, 9, 10, 11, 12,
       13, 14, 15] 16)]"

definition DT_N_S_soc_S_gpio_50000300_P2 :: "dt_prop list" where
  "DT_N_S_soc_S_gpio_50000300_P2 = [
     Prop ''status'' (V_Str ''okay'') [E_Str ''okay'' ''okay'' ''okay'' ''OKAY''] (Some (1, ''okay'')) (Loops
       [0] [0] [0] [0] 1),
     Prop ''compatible'' (V_Strs [''nordic,nrf-gpio'']) [E_Str ''nordic,nrf-gpio'' ''nordic,nrf-gpio''
       ''nordic_nrf_gpio'' ''NORDIC_NRF_GPIO''] None (Loops [0] [0] [0] [0] 1),
     Plain ''zephyr_deferred_init'' 0, Plain ''wakeup_source'' 0, Plain ''zephyr_pm_device_runtime_auto'' 0]"

definition DT_N_S_soc_S_spi_4002f000_P :: "dt_prop list" where
  "DT_N_S_soc_S_spi_4002f000_P = [
     Plain ''anomaly_58_workaround'' 0, Plain ''rx_delay_supported'' 1,
     Prop ''rx_delay'' (V_Num 2) [E_Only] (Some (2, ''2'')) No_Loops,
     Prop ''reg'' (V_Nums [1073934336, 4096]) [E_Num 1073934336, E_Num 4096] None No_Loops,
     Prop ''interrupts'' (V_Nums [47, 1]) [E_Num 47, E_Num 1] None No_Loops,
     Prop ''pinctrl_0'' V_None [E_Node 57] None (Loops [0] [0] [0] [0] 1),
     Prop ''pinctrl_names'' (V_Strs [''default'', ''sleep'']) [E_Str ''default'' ''default'' ''default''
       ''DEFAULT'', E_Str ''sleep'' ''sleep'' ''sleep'' ''SLEEP''] None (Loops [0, 1] [0, 1] [0, 1] [0, 1] 2),
     Plain ''max_frequency'' 32000000, Plain ''overrun_character'' 255, Plain ''easydma_maxcnt_bits'' 16,
     Plain ''cross_domain_pins_supported'' 0,
     Prop ''cs_gpios'' V_None [E_Spec 106 [(''pin'', 12), (''flags'', 1)]] None (Loops [0] [0] [0] [0] 1),
     Prop ''status'' (V_Str ''okay'') [E_Str ''okay'' ''okay'' ''okay'' ''OKAY''] (Some (1, ''okay'')) (Loops
       [0] [0] [0] [0] 1),
     Prop ''compatible'' (V_Strs [''nordic,nrf-spim'']) [E_Str ''nordic,nrf-spim'' ''nordic,nrf-spim''
       ''nordic_nrf_spim'' ''NORDIC_NRF_SPIM''] None (Loops [0] [0] [0] [0] 1),
     Plain ''zephyr_deferred_init'' 0, Plain ''wakeup_source'' 0, Plain ''zephyr_pm_device_runtime_auto'' 0,
     Prop ''pinctrl_1'' V_None [E_Node 59] None (Loops [0] [0] [0] [0] 1)]"

definition DT_N_S_soc_S_temp_4000c000_P :: "dt_prop list" where
  "DT_N_S_soc_S_temp_4000c000_P = [
     Prop ''reg'' (V_Nums [1073790976, 4096]) [E_Num 1073790976, E_Num 4096] None No_Loops,
     Prop ''interrupts'' (V_Nums [12, 1]) [E_Num 12, E_Num 1] None No_Loops,
     Prop ''status'' (V_Str ''okay'') [E_Str ''okay'' ''okay'' ''okay'' ''OKAY''] (Some (1, ''okay'')) (Loops
       [0] [0] [0] [0] 1),
     Prop ''compatible'' (V_Strs [''nordic,nrf-temp'']) [E_Str ''nordic,nrf-temp'' ''nordic,nrf-temp''
       ''nordic_nrf_temp'' ''NORDIC_NRF_TEMP''] None (Loops [0] [0] [0] [0] 1),
     Plain ''zephyr_deferred_init'' 0, Plain ''wakeup_source'' 0, Plain ''zephyr_pm_device_runtime_auto'' 0]"

definition DT_N_S_soc_S_timer_40008000_P :: "dt_prop list" where
  "DT_N_S_soc_S_timer_40008000_P = [
     Prop ''reg'' (V_Nums [1073774592, 4096]) [E_Num 1073774592, E_Num 4096] None No_Loops, Plain ''cc_num'' 4,
     Plain ''max_bit_width'' 32,
     Prop ''interrupts'' (V_Nums [8, 1]) [E_Num 8, E_Num 1] None No_Loops,
     Plain ''prescaler'' 0, Plain ''zli'' 0,
     Prop ''status'' (V_Str ''disabled'') [E_Str ''disabled'' ''disabled'' ''disabled'' ''DISABLED''] (Some (2,
       ''disabled'')) (Loops [0] [0] [0] [0] 1),
     Prop ''compatible'' (V_Strs [''nordic,nrf-timer'']) [E_Str ''nordic,nrf-timer'' ''nordic,nrf-timer''
       ''nordic_nrf_timer'' ''NORDIC_NRF_TIMER''] None (Loops [0] [0] [0] [0] 1),
     Plain ''zephyr_deferred_init'' 0, Plain ''wakeup_source'' 0, Plain ''zephyr_pm_device_runtime_auto'' 0]"

definition DT_N_S_soc_S_timer_4000a000_P :: "dt_prop list" where
  "DT_N_S_soc_S_timer_4000a000_P = [
     Prop ''reg'' (V_Nums [1073782784, 4096]) [E_Num 1073782784, E_Num 4096] None No_Loops, Plain ''cc_num'' 4,
     Plain ''max_bit_width'' 32,
     Prop ''interrupts'' (V_Nums [10, 1]) [E_Num 10, E_Num 1] None No_Loops,
     Plain ''prescaler'' 0, Plain ''zli'' 0,
     Prop ''status'' (V_Str ''disabled'') [E_Str ''disabled'' ''disabled'' ''disabled'' ''DISABLED''] (Some (2,
       ''disabled'')) (Loops [0] [0] [0] [0] 1),
     Prop ''compatible'' (V_Strs [''nordic,nrf-timer'']) [E_Str ''nordic,nrf-timer'' ''nordic,nrf-timer''
       ''nordic_nrf_timer'' ''NORDIC_NRF_TIMER''] None (Loops [0] [0] [0] [0] 1),
     Plain ''zephyr_deferred_init'' 0, Plain ''wakeup_source'' 0, Plain ''zephyr_pm_device_runtime_auto'' 0]"

definition DT_N_S_soc_S_timer_4001a000_P :: "dt_prop list" where
  "DT_N_S_soc_S_timer_4001a000_P = [
     Prop ''reg'' (V_Nums [1073848320, 4096]) [E_Num 1073848320, E_Num 4096] None No_Loops, Plain ''cc_num'' 6,
     Plain ''max_bit_width'' 32,
     Prop ''interrupts'' (V_Nums [26, 1]) [E_Num 26, E_Num 1] None No_Loops,
     Plain ''prescaler'' 0, Plain ''zli'' 0,
     Prop ''status'' (V_Str ''disabled'') [E_Str ''disabled'' ''disabled'' ''disabled'' ''DISABLED''] (Some (2,
       ''disabled'')) (Loops [0] [0] [0] [0] 1),
     Prop ''compatible'' (V_Strs [''nordic,nrf-timer'']) [E_Str ''nordic,nrf-timer'' ''nordic,nrf-timer''
       ''nordic_nrf_timer'' ''NORDIC_NRF_TIMER''] None (Loops [0] [0] [0] [0] 1),
     Plain ''zephyr_deferred_init'' 0, Plain ''wakeup_source'' 0, Plain ''zephyr_pm_device_runtime_auto'' 0]"

definition DT_N_S_soc_S_timer_4001b000_P :: "dt_prop list" where
  "DT_N_S_soc_S_timer_4001b000_P = [
     Prop ''reg'' (V_Nums [1073852416, 4096]) [E_Num 1073852416, E_Num 4096] None No_Loops, Plain ''cc_num'' 6,
     Plain ''max_bit_width'' 32,
     Prop ''interrupts'' (V_Nums [27, 1]) [E_Num 27, E_Num 1] None No_Loops,
     Plain ''prescaler'' 0, Plain ''zli'' 0,
     Prop ''status'' (V_Str ''disabled'') [E_Str ''disabled'' ''disabled'' ''disabled'' ''DISABLED''] (Some (2,
       ''disabled'')) (Loops [0] [0] [0] [0] 1),
     Prop ''compatible'' (V_Strs [''nordic,nrf-timer'']) [E_Str ''nordic,nrf-timer'' ''nordic,nrf-timer''
       ''nordic_nrf_timer'' ''NORDIC_NRF_TIMER''] None (Loops [0] [0] [0] [0] 1),
     Plain ''zephyr_deferred_init'' 0, Plain ''wakeup_source'' 0, Plain ''zephyr_pm_device_runtime_auto'' 0]"

definition DT_N_S_soc_S_timer_e000e010_P :: "dt_prop list" where
  "DT_N_S_soc_S_timer_e000e010_P = [
     Prop ''reg'' (V_Nums [3758153744, 16]) [E_Num 3758153744, E_Num 16] None No_Loops,
     Prop ''status'' (V_Str ''disabled'') [E_Str ''disabled'' ''disabled'' ''disabled'' ''DISABLED''] (Some (2,
       ''disabled'')) (Loops [0] [0] [0] [0] 1),
     Prop ''compatible'' (V_Strs [''arm,armv7m-systick'']) [E_Str ''arm,armv7m-systick'' ''arm,armv7m-systick''
       ''arm_armv7m_systick'' ''ARM_ARMV7M_SYSTICK''] None (Loops [0] [0] [0] [0] 1),
     Plain ''zephyr_deferred_init'' 0, Plain ''wakeup_source'' 0, Plain ''zephyr_pm_device_runtime_auto'' 0]"

definition DT_N_S_soc_S_uart_40002000_P :: "dt_prop list" where
  "DT_N_S_soc_S_uart_40002000_P = [
     Plain ''endtx_stoptx_supported'' 0, Plain ''frame_timeout_supported'' 0,
     Plain ''cross_domain_pins_supported'' 0,
     Prop ''reg'' (V_Nums [1073750016, 4096]) [E_Num 1073750016, E_Num 4096] None No_Loops,
     Prop ''interrupts'' (V_Nums [2, 1]) [E_Num 2, E_Num 1] None No_Loops,
     Prop ''pinctrl_0'' V_None [E_Node 61] None (Loops [0] [0] [0] [0] 1),
     Prop ''pinctrl_names'' (V_Strs [''default'', ''sleep'']) [E_Str ''default'' ''default'' ''default''
       ''DEFAULT'', E_Str ''sleep'' ''sleep'' ''sleep'' ''SLEEP''] None (Loops [0, 1] [0, 1] [0, 1] [0, 1] 2),
     Plain ''disable_rx'' 0,
     Prop ''current_speed'' (V_Num 115200) [E_Only] (Some (12, ''115200'')) No_Loops,
     Plain ''hw_flow_control'' 0,
     Prop ''parity'' (V_Str ''none'') [E_Str ''none'' ''none'' ''none'' ''NONE''] (Some (0, ''none'')) (Loops
       [0] [0] [0] [0] 1),
     Prop ''status'' (V_Str ''okay'') [E_Str ''okay'' ''okay'' ''okay'' ''OKAY''] (Some (1, ''okay'')) (Loops
       [0] [0] [0] [0] 1),
     Prop ''compatible'' (V_Strs [''nordic,nrf-uarte'']) [E_Str ''nordic,nrf-uarte'' ''nordic,nrf-uarte''
       ''nordic_nrf_uarte'' ''NORDIC_NRF_UARTE''] None (Loops [0] [0] [0] [0] 1),
     Plain ''zephyr_deferred_init'' 0, Plain ''wakeup_source'' 0, Plain ''zephyr_pm_device_runtime_auto'' 0,
     Prop ''pinctrl_1'' V_None [E_Node 64] None (Loops [0] [0] [0] [0] 1)]"

definition DT_N_S_soc_S_uart_40028000_P :: "dt_prop list" where
  "DT_N_S_soc_S_uart_40028000_P = [
     Plain ''endtx_stoptx_supported'' 0, Plain ''frame_timeout_supported'' 0,
     Plain ''cross_domain_pins_supported'' 0,
     Prop ''reg'' (V_Nums [1073905664, 4096]) [E_Num 1073905664, E_Num 4096] None No_Loops,
     Prop ''interrupts'' (V_Nums [40, 1]) [E_Num 40, E_Num 1] None No_Loops,
     Prop ''pinctrl_0'' V_None [E_Node 66] None (Loops [0] [0] [0] [0] 1),
     Prop ''pinctrl_names'' (V_Strs [''default'', ''sleep'']) [E_Str ''default'' ''default'' ''default''
       ''DEFAULT'', E_Str ''sleep'' ''sleep'' ''sleep'' ''SLEEP''] None (Loops [0, 1] [0, 1] [0, 1] [0, 1] 2),
     Plain ''disable_rx'' 0,
     Prop ''current_speed'' (V_Num 115200) [E_Only] (Some (12, ''115200'')) No_Loops,
     Plain ''hw_flow_control'' 0,
     Prop ''parity'' (V_Str ''none'') [E_Str ''none'' ''none'' ''none'' ''NONE''] (Some (0, ''none'')) (Loops
       [0] [0] [0] [0] 1),
     Prop ''status'' (V_Str ''disabled'') [E_Str ''disabled'' ''disabled'' ''disabled'' ''DISABLED''] (Some (2,
       ''disabled'')) (Loops [0] [0] [0] [0] 1),
     Prop ''compatible'' (V_Strs [''nordic,nrf-uarte'']) [E_Str ''nordic,nrf-uarte'' ''nordic,nrf-uarte''
       ''nordic_nrf_uarte'' ''NORDIC_NRF_UARTE''] None (Loops [0] [0] [0] [0] 1),
     Plain ''zephyr_deferred_init'' 0, Plain ''wakeup_source'' 0, Plain ''zephyr_pm_device_runtime_auto'' 0,
     Prop ''pinctrl_1'' V_None [E_Node 69] None (Loops [0] [0] [0] [0] 1)]"

definition DT_N_S_soc_S_uicr_10001000_P :: "dt_prop list" where
  "DT_N_S_soc_S_uicr_10001000_P = [
     Prop ''reg'' (V_Nums [268439552, 4096]) [E_Num 268439552, E_Num 4096] None No_Loops,
     Plain ''nfct_pins_as_gpios'' 0, Plain ''gpio_as_nreset'' 1,
     Prop ''status'' (V_Str ''okay'') [E_Str ''okay'' ''okay'' ''okay'' ''OKAY''] (Some (1, ''okay'')) (Loops
       [0] [0] [0] [0] 1),
     Prop ''compatible'' (V_Strs [''nordic,nrf-uicr'']) [E_Str ''nordic,nrf-uicr'' ''nordic,nrf-uicr''
       ''nordic_nrf_uicr'' ''NORDIC_NRF_UICR''] None (Loops [0] [0] [0] [0] 1),
     Plain ''zephyr_deferred_init'' 0, Plain ''wakeup_source'' 0, Plain ''zephyr_pm_device_runtime_auto'' 0]"

definition DT_N_S_soc_S_usbd_40027000_P :: "dt_prop list" where
  "DT_N_S_soc_S_usbd_40027000_P = [
     Prop ''reg'' (V_Nums [1073901568, 4096]) [E_Num 1073901568, E_Num 4096] None No_Loops,
     Prop ''interrupts'' (V_Nums [39, 1]) [E_Num 39, E_Num 1] None No_Loops,
     Plain ''num_isoin_endpoints'' 1, Plain ''num_isoout_endpoints'' 1, Plain ''num_bidir_endpoints'' 1,
     Plain ''num_in_endpoints'' 7, Plain ''num_out_endpoints'' 7,
     Prop ''status'' (V_Str ''okay'') [E_Str ''okay'' ''okay'' ''okay'' ''OKAY''] (Some (1, ''okay'')) (Loops
       [0] [0] [0] [0] 1),
     Prop ''compatible'' (V_Strs [''nordic,nrf-usbd'']) [E_Str ''nordic,nrf-usbd'' ''nordic,nrf-usbd''
       ''nordic_nrf_usbd'' ''NORDIC_NRF_USBD''] None (Loops [0] [0] [0] [0] 1),
     Plain ''zephyr_deferred_init'' 0, Plain ''wakeup_source'' 0, Plain ''zephyr_pm_device_runtime_auto'' 0]"

definition DT_N_S_soc_S_watchdog_40010000_P :: "dt_prop list" where
  "DT_N_S_soc_S_watchdog_40010000_P = [
     Prop ''reg'' (V_Nums [1073807360, 4096]) [E_Num 1073807360, E_Num 4096] None No_Loops,
     Prop ''interrupts'' (V_Nums [16, 1]) [E_Num 16, E_Num 1] None No_Loops,
     Prop ''status'' (V_Str ''okay'') [E_Str ''okay'' ''okay'' ''okay'' ''OKAY''] (Some (1, ''okay'')) (Loops
       [0] [0] [0] [0] 1),
     Prop ''compatible'' (V_Strs [''nordic,nrf-wdt'']) [E_Str ''nordic,nrf-wdt'' ''nordic,nrf-wdt''
       ''nordic_nrf_wdt'' ''NORDIC_NRF_WDT''] None (Loops [0] [0] [0] [0] 1),
     Plain ''zephyr_deferred_init'' 0, Plain ''wakeup_source'' 0, Plain ''zephyr_pm_device_runtime_auto'' 0]"

definition DT_N_S_soc_S_flash_controller_4001e000_P :: "dt_prop list" where
  "DT_N_S_soc_S_flash_controller_4001e000_P = [
     Plain ''partial_erase'' 1,
     Prop ''reg'' (V_Nums [1073864704, 4096]) [E_Num 1073864704, E_Num 4096] None No_Loops,
     Prop ''compatible'' (V_Strs [''nordic,nrf52-flash-controller'']) [E_Str ''nordic,nrf52-flash-controller''
       ''nordic,nrf52-flash-controller'' ''nordic_nrf52_flash_controller'' ''NORDIC_NRF52_FLASH_CONTROLLER'']
       None (Loops [0] [0] [0] [0] 1),
     Plain ''zephyr_deferred_init'' 0, Plain ''wakeup_source'' 0, Plain ''zephyr_pm_device_runtime_auto'' 0]"

definition DT_N_S_soc_S_flash_controller_4001e000_S_flash_0_P :: "dt_prop list" where
  "DT_N_S_soc_S_flash_controller_4001e000_S_flash_0_P = [
     Plain ''erase_block_size'' 4096, Plain ''write_block_size'' 4,
     Prop ''compatible'' (V_Strs [''soc-nv-flash'']) [E_Str ''soc-nv-flash'' ''soc-nv-flash'' ''soc_nv_flash''
       ''SOC_NV_FLASH''] None (Loops [0] [0] [0] [0] 1),
     Prop ''reg'' (V_Nums [0, 1048576]) [E_Num 0, E_Num 1048576] None No_Loops,
     Plain ''zephyr_deferred_init'' 0, Plain ''wakeup_source'' 0, Plain ''zephyr_pm_device_runtime_auto'' 0]"

definition DT_N_S_soc_S_flash_controller_4001e000_S_flash_0_S_partitions_S_partition_0_P :: "dt_prop list" where
  "DT_N_S_soc_S_flash_controller_4001e000_S_flash_0_S_partitions_S_partition_0_P = [
     Prop ''label'' (V_Str ''mcuboot'') [E_Str ''mcuboot'' ''mcuboot'' ''mcuboot'' ''MCUBOOT''] None (Loops [0]
       [0] [0] [0] 1),
     Plain ''read_only'' 0,
     Prop ''reg'' (V_Nums [0, 49152]) [E_Num 0, E_Num 49152] None No_Loops]"

definition DT_N_S_soc_S_flash_controller_4001e000_S_flash_0_S_partitions_S_partition_c000_P :: "dt_prop list" where
  "DT_N_S_soc_S_flash_controller_4001e000_S_flash_0_S_partitions_S_partition_c000_P = [
     Prop ''label'' (V_Str ''image-0'') [E_Str ''image-0'' ''image-0'' ''image_0'' ''IMAGE_0''] None (Loops [0]
       [0] [0] [0] 1),
     Plain ''read_only'' 0,
     Prop ''reg'' (V_Nums [49152, 483328]) [E_Num 49152, E_Num 483328] None No_Loops]"

definition DT_N_S_soc_S_flash_controller_4001e000_S_flash_0_S_partitions_S_partition_82000_P :: "dt_prop list" where
  "DT_N_S_soc_S_flash_controller_4001e000_S_flash_0_S_partitions_S_partition_82000_P = [
     Prop ''label'' (V_Str ''image-1'') [E_Str ''image-1'' ''image-1'' ''image_1'' ''IMAGE_1''] None (Loops [0]
       [0] [0] [0] 1),
     Plain ''read_only'' 0,
     Prop ''reg'' (V_Nums [532480, 483328]) [E_Num 532480, E_Num 483328] None No_Loops]"

definition DT_N_S_soc_S_flash_controller_4001e000_S_flash_0_S_partitions_S_partition_f8000_P :: "dt_prop list" where
  "DT_N_S_soc_S_flash_controller_4001e000_S_flash_0_S_partitions_S_partition_f8000_P = [
     Prop ''label'' (V_Str ''storage'') [E_Str ''storage'' ''storage'' ''storage'' ''STORAGE''] None (Loops [0]
       [0] [0] [0] 1),
     Plain ''read_only'' 0,
     Prop ''reg'' (V_Nums [1015808, 32768]) [E_Num 1015808, E_Num 32768] None No_Loops]"

definition DT_N_S_soc_S_power_40000000_P :: "dt_prop list" where
  "DT_N_S_soc_S_power_40000000_P = [
     Prop ''reg'' (V_Nums [1073741824, 4096]) [E_Num 1073741824, E_Num 4096] None No_Loops,
     Prop ''interrupts'' (V_Nums [0, 1]) [E_Num 0, E_Num 1] None No_Loops,
     Prop ''status'' (V_Str ''okay'') [E_Str ''okay'' ''okay'' ''okay'' ''OKAY''] (Some (1, ''okay'')) (Loops
       [0] [0] [0] [0] 1),
     Prop ''compatible'' (V_Strs [''nordic,nrf-power'']) [E_Str ''nordic,nrf-power'' ''nordic,nrf-power''
       ''nordic_nrf_power'' ''NORDIC_NRF_POWER''] None (Loops [0] [0] [0] [0] 1),
     Plain ''zephyr_deferred_init'' 0, Plain ''wakeup_source'' 0, Plain ''zephyr_pm_device_runtime_auto'' 0]"

definition DT_N_S_soc_S_power_40000000_S_gpregret2_40000520_P :: "dt_prop list" where
  "DT_N_S_soc_S_power_40000000_S_gpregret2_40000520_P = [
     Prop ''reg'' (V_Nums [1073743136, 1]) [E_Num 1073743136, E_Num 1] None No_Loops,
     Prop ''status'' (V_Str ''okay'') [E_Str ''okay'' ''okay'' ''okay'' ''OKAY''] (Some (1, ''okay'')) (Loops
       [0] [0] [0] [0] 1),
     Prop ''compatible'' (V_Strs [''nordic,nrf-gpregret'']) [E_Str ''nordic,nrf-gpregret''
       ''nordic,nrf-gpregret'' ''nordic_nrf_gpregret'' ''NORDIC_NRF_GPREGRET''] None (Loops [0] [0] [0] [0] 1),
     Plain ''zephyr_deferred_init'' 0, Plain ''wakeup_source'' 0, Plain ''zephyr_pm_device_runtime_auto'' 0]"

definition DT_N_S_soc_S_power_40000000_S_regulator_40000578_P :: "dt_prop list" where
  "DT_N_S_soc_S_power_40000000_S_regulator_40000578_P = [
     Prop ''reg'' (V_Nums [1073743224, 1]) [E_Num 1073743224, E_Num 1] None No_Loops,
     Prop ''regulator_name'' (V_Str ''REG1'') [E_Str ''REG1'' ''REG1'' ''REG1'' ''REG1''] None (Loops [0] [0]
       [0] [0] 1),
     Plain ''regulator_initial_mode'' 1,
     Prop ''compatible'' (V_Strs [''nordic,nrf5x-regulator'']) [E_Str ''nordic,nrf5x-regulator''
       ''nordic,nrf5x-regulator'' ''nordic_nrf5x_regulator'' ''NORDIC_NRF5X_REGULATOR''] None (Loops [0] [0]
       [0] [0] 1),
     Plain ''zephyr_deferred_init'' 0, Plain ''wakeup_source'' 0, Plain ''zephyr_pm_device_runtime_auto'' 0]"

definition DT_N_S_soc_S_power_40000000_S_regulator_40000580_P :: "dt_prop list" where
  "DT_N_S_soc_S_power_40000000_S_regulator_40000580_P = [
     Prop ''reg'' (V_Nums [1073743232, 1]) [E_Num 1073743232, E_Num 1] None No_Loops,
     Prop ''regulator_name'' (V_Str ''REG0'') [E_Str ''REG0'' ''REG0'' ''REG0'' ''REG0''] None (Loops [0] [0]
       [0] [0] 1),
     Prop ''status'' (V_Str ''okay'') [E_Str ''okay'' ''okay'' ''okay'' ''OKAY''] (Some (1, ''okay'')) (Loops
       [0] [0] [0] [0] 1),
     Prop ''compatible'' (V_Strs [''nordic,nrf52x-regulator-hv'']) [E_Str ''nordic,nrf52x-regulator-hv''
       ''nordic,nrf52x-regulator-hv'' ''nordic_nrf52x_regulator_hv'' ''NORDIC_NRF52X_REGULATOR_HV''] None
       (Loops [0] [0] [0] [0] 1),
     Plain ''zephyr_deferred_init'' 0, Plain ''wakeup_source'' 0, Plain ''zephyr_pm_device_runtime_auto'' 0]"

definition DT_N_S_soc_S_power_40000000_S_gpregret1_4000051c_P :: "dt_prop list" where
  "DT_N_S_soc_S_power_40000000_S_gpregret1_4000051c_P = [
     Prop ''reg'' (V_Nums [1073743132, 1]) [E_Num 1073743132, E_Num 1] None No_Loops,
     Prop ''status'' (V_Str ''okay'') [E_Str ''okay'' ''okay'' ''okay'' ''OKAY''] (Some (1, ''okay'')) (Loops
       [0] [0] [0] [0] 1),
     Prop ''compatible'' (V_Strs [''nordic,nrf-gpregret'']) [E_Str ''nordic,nrf-gpregret''
       ''nordic,nrf-gpregret'' ''nordic_nrf_gpregret'' ''NORDIC_NRF_GPREGRET''] None (Loops [0] [0] [0] [0] 1),
     Plain ''zephyr_deferred_init'' 0, Plain ''wakeup_source'' 0, Plain ''zephyr_pm_device_runtime_auto'' 0]"

definition DT_N_S_soc_S_power_40000000_S_gpregret1_4000051c_S_boot_mode_0_P :: "dt_prop list" where
  "DT_N_S_soc_S_power_40000000_S_gpregret1_4000051c_S_boot_mode_0_P = [
     Prop ''reg'' (V_Nums [0, 1]) [E_Num 0, E_Num 1] None No_Loops, Plain ''checksum'' 0,
     Prop ''status'' (V_Str ''okay'') [E_Str ''okay'' ''okay'' ''okay'' ''OKAY''] (Some (1, ''okay'')) (Loops
       [0] [0] [0] [0] 1),
     Prop ''compatible'' (V_Strs [''zephyr,retention'']) [E_Str ''zephyr,retention'' ''zephyr,retention''
       ''zephyr_retention'' ''ZEPHYR_RETENTION''] None (Loops [0] [0] [0] [0] 1),
     Plain ''zephyr_deferred_init'' 0, Plain ''wakeup_source'' 0, Plain ''zephyr_pm_device_runtime_auto'' 0]"

definition DT_N_S_soc_S_qspi_40029000_P :: "dt_prop list" where
  "DT_N_S_soc_S_qspi_40029000_P = [
     Prop ''interrupts'' (V_Nums [41, 1]) [E_Num 41, E_Num 1] None No_Loops,
     Prop ''pinctrl_0'' V_None [E_Node 40] None (Loops [0] [0] [0] [0] 1),
     Prop ''pinctrl_names'' (V_Strs [''default'', ''sleep'']) [E_Str ''default'' ''default'' ''default''
       ''DEFAULT'', E_Str ''sleep'' ''sleep'' ''sleep'' ''SLEEP''] None (Loops [0, 1] [0, 1] [0, 1] [0, 1] 2),
     Prop ''reg'' (V_Nums [1073909760, 4096, 301989888, 134217728]) [E_Num 1073909760, E_Num 4096, E_Num
       301989888, E_Num 134217728] None No_Loops,
     Prop ''status'' (V_Str ''okay'') [E_Str ''okay'' ''okay'' ''okay'' ''OKAY''] (Some (1, ''okay'')) (Loops
       [0] [0] [0] [0] 1),
     Prop ''compatible'' (V_Strs [''nordic,nrf-qspi'']) [E_Str ''nordic,nrf-qspi'' ''nordic,nrf-qspi''
       ''nordic_nrf_qspi'' ''NORDIC_NRF_QSPI''] None (Loops [0] [0] [0] [0] 1),
     Prop ''reg_names'' (V_Strs [''qspi'', ''qspi_mm'']) [E_Str ''qspi'' ''qspi'' ''qspi'' ''QSPI'', E_Str
       ''qspi_mm'' ''qspi_mm'' ''qspi_mm'' ''QSPI_MM''] None (Loops [0, 1] [0, 1] [0, 1] [0, 1] 2),
     Plain ''zephyr_deferred_init'' 0, Plain ''wakeup_source'' 0, Plain ''zephyr_pm_device_runtime_auto'' 0,
     Prop ''pinctrl_1'' V_None [E_Node 42] None (Loops [0] [0] [0] [0] 1)]"

definition DT_N_S_soc_S_qspi_40029000_S_mx25r6435f_0_P0 :: "dt_prop list" where
  "DT_N_S_soc_S_qspi_40029000_S_mx25r6435f_0_P0 = [
     Prop ''reg'' (V_Nums [0]) [E_Num 0] None No_Loops,
     Prop ''jedec_id'' (V_Nums [194, 40, 23]) [E_Num 194, E_Num 40, E_Num 23] None (Loops [0, 1, 2] [0, 1, 2]
       [0, 1, 2] [0, 1, 2] 3),
     Plain ''size'' 67108864,
     Prop ''quad_enable_requirements'' (V_Str ''S1B6'') [E_Str ''S1B6'' ''S1B6'' ''S1B6'' ''S1B6''] (Some (2,
       ''s1b6'')) (Loops [0] [0] [0] [0] 1),
     Prop ''readoc'' (V_Str ''read4io'') [E_Str ''read4io'' ''read4io'' ''read4io'' ''READ4IO''] (Some (4,
       ''read4io'')) (Loops [0] [0] [0] [0] 1),
     Prop ''writeoc'' (V_Str ''pp4io'') [E_Str ''pp4io'' ''pp4io'' ''pp4io'' ''PP4IO''] (Some (3, ''pp4io''))
       (Loops [0] [0] [0] [0] 1),
     Plain ''address_size_32'' 0, Plain ''ppsize_512'' 0, Plain ''sck_delay'' 0, Plain ''cpha'' 0,
     Plain ''cpol'' 0, Plain ''sck_frequency'' 8000000,
     Prop ''compatible'' (V_Strs [''nordic,qspi-nor'']) [E_Str ''nordic,qspi-nor'' ''nordic,qspi-nor''
       ''nordic_qspi_nor'' ''NORDIC_QSPI_NOR''] None (Loops [0] [0] [0] [0] 1),
     Plain ''zephyr_deferred_init'' 0, Plain ''wakeup_source'' 0, Plain ''zephyr_pm_device_runtime_auto'' 0,
     Plain ''requires_ulbpr'' 0, Plain ''has_dpd'' 1, Plain ''t_enter_dpd'' 10000, Plain ''t_exit_dpd'' 35000,
     Plain ''use_4b_addr_opcodes'' 0, Plain ''use_flag_status_register'' 0, Plain ''use_fast_read'' 0]"

definition DT_N_S_soc_S_qspi_40029000_S_mx25r6435f_0_P1 :: "dt_prop list" where
  "DT_N_S_soc_S_qspi_40029000_S_mx25r6435f_0_P1 = [
     Prop ''sfdp_bfp'' (V_Nums [229, 32, 241, 255, 255, 255, 255, 3, 68, 235, 8, 107, 8, 59, 4, 187, 238, 255,
       255, 255, 255, 255, 0, 255, 255, 255, 0, 255, 12, 32, 15, 82, 16, 216, 0, 255, 35, 114, 245, 0, 130,
       237, 4, 204, 68, 131, 104, 68, 48, 176, 48, 176, 247, 196, 213, 92, 0, 190, 41, 255, 240, 208, 255,
       255]) [E_Num 229, E_Num 32, E_Num 241, E_Num 255, E_Num 255, E_Num 255, E_Num 255, E_Num 3, E_Num 68,
       E_Num 235, E_Num 8, E_Num 107, E_Num 8, E_Num 59, E_Num 4, E_Num 187, E_Num 238, E_Num 255, E_Num 255,
       E_Num 255, E_Num 255, E_Num 255, E_Num 0, E_Num 255, E_Num 255, E_Num 255, E_Num 0, E_Num 255, E_Num 12,
       E_Num 32, E_Num 15, E_Num 82, E_Num 16, E_Num 216, E_Num 0, E_Num 255, E_Num 35, E_Num 114, E_Num 245,
       E_Num 0, E_Num 130, E_Num 237, E_Num 4, E_Num 204, E_Num 68, E_Num 131, E_Num 104, E_Num 68, E_Num 48,
       E_Num 176, E_Num 48, E_Num 176, E_Num 247, E_Num 196, E_Num 213, E_Num 92, E_Num 0, E_Num 190, E_Num 41,
       E_Num 255, E_Num 240, E_Num 208, E_Num 255, E_Num 255] None (Loops [0, 1, 2, 3, 4, 5, 6, 7, 8, 9, 10,
       11, 12, 13, 14, 15, 16, 17, 18, 19, 20, 21, 22, 23, 24, 25, 26, 27, 28, 29, 30, 31, 32, 33, 34, 35, 36,
       37, 38, 39, 40, 41, 42, 43, 44, 45, 46, 47, 48, 49, 50, 51, 52, 53, 54, 55, 56, 57, 58, 59, 60, 61, 62,
       63] [0, 1, 2, 3, 4, 5, 6, 7, 8, 9, 10, 11, 12, 13, 14, 15, 16, 17, 18, 19, 20, 21, 22, 23, 24, 25, 26,
       27, 28, 29, 30, 31, 32, 33, 34, 35, 36, 37, 38, 39, 40, 41, 42, 43, 44, 45, 46, 47, 48, 49, 50, 51, 52,
       53, 54, 55, 56, 57, 58, 59, 60, 61, 62, 63] [0, 1, 2, 3, 4, 5, 6, 7, 8, 9, 10, 11, 12, 13, 14, 15, 16,
       17, 18, 19, 20, 21, 22, 23, 24, 25, 26, 27, 28, 29, 30, 31, 32, 33, 34, 35, 36, 37, 38, 39, 40, 41, 42,
       43, 44, 45, 46, 47, 48, 49, 50, 51, 52, 53, 54, 55, 56, 57, 58, 59, 60, 61, 62, 63] [0, 1, 2, 3, 4, 5,
       6, 7, 8, 9, 10, 11, 12, 13, 14, 15, 16, 17, 18, 19, 20, 21, 22, 23, 24, 25, 26, 27, 28, 29, 30, 31, 32,
       33, 34, 35, 36, 37, 38, 39, 40, 41, 42, 43, 44, 45, 46, 47, 48, 49, 50, 51, 52, 53, 54, 55, 56, 57, 58,
       59, 60, 61, 62, 63] 64)]"

definition DT_N_S_soc_S_radio_40001000_P :: "dt_prop list" where
  "DT_N_S_soc_S_radio_40001000_P = [
     Prop ''reg'' (V_Nums [1073745920, 4096]) [E_Num 1073745920, E_Num 4096] None No_Loops,
     Prop ''interrupts'' (V_Nums [1, 1]) [E_Num 1, E_Num 1] None No_Loops,
     Plain ''dfe_supported'' 0, Plain ''ieee802154_supported'' 1, Plain ''ble_2mbps_supported'' 1,
     Plain ''ble_coded_phy_supported'' 1, Plain ''tx_high_power_supported'' 1, Plain ''cs_supported'' 0,
     Prop ''status'' (V_Str ''okay'') [E_Str ''okay'' ''okay'' ''okay'' ''OKAY''] (Some (1, ''okay'')) (Loops
       [0] [0] [0] [0] 1),
     Prop ''compatible'' (V_Strs [''nordic,nrf-radio'']) [E_Str ''nordic,nrf-radio'' ''nordic,nrf-radio''
       ''nordic_nrf_radio'' ''NORDIC_NRF_RADIO''] None (Loops [0] [0] [0] [0] 1),
     Plain ''zephyr_deferred_init'' 0, Plain ''wakeup_source'' 0, Plain ''zephyr_pm_device_runtime_auto'' 0]"

definition DT_N_S_soc_S_radio_40001000_S_bt_hci_controller_P :: "dt_prop list" where
  "DT_N_S_soc_S_radio_40001000_S_bt_hci_controller_P = [
     Prop ''bt_hci_name'' (V_Str ''Controller'') [E_Str ''Controller'' ''Controller'' ''Controller''
       ''CONTROLLER''] None (Loops [0] [0] [0] [0] 1),
     Prop ''bt_hci_bus'' (V_Str ''virtual'') [E_Str ''virtual'' ''virtual'' ''virtual'' ''VIRTUAL''] (Some (0,
       ''virtual'')) (Loops [0] [0] [0] [0] 1),
     Prop ''bt_hci_quirks'' (V_Strs [''no-auto-dle'']) [E_Str ''no-auto-dle'' ''no-auto-dle'' ''no_auto_dle''
       ''NO_AUTO_DLE''] (Some (1, ''no_auto_dle'')) (Loops [0] [0] [0] [0] 1),
     Plain ''bt_hci_vs_ext'' 0,
     Prop ''status'' (V_Str ''disabled'') [E_Str ''disabled'' ''disabled'' ''disabled'' ''DISABLED''] (Some (2,
       ''disabled'')) (Loops [0] [0] [0] [0] 1),
     Prop ''compatible'' (V_Strs [''zephyr,bt-hci-ll-sw-split'']) [E_Str ''zephyr,bt-hci-ll-sw-split''
       ''zephyr,bt-hci-ll-sw-split'' ''zephyr_bt_hci_ll_sw_split'' ''ZEPHYR_BT_HCI_LL_SW_SPLIT''] None (Loops
       [0] [0] [0] [0] 1),
     Plain ''zephyr_deferred_init'' 0, Plain ''wakeup_source'' 0, Plain ''zephyr_pm_device_runtime_auto'' 0]"

definition DT_N_S_soc_S_radio_40001000_S_bt_hci_sdc_P :: "dt_prop list" where
  "DT_N_S_soc_S_radio_40001000_S_bt_hci_sdc_P = [
     Prop ''bt_hci_name'' (V_Str ''SDC'') [E_Str ''SDC'' ''SDC'' ''SDC'' ''SDC''] None (Loops [0] [0] [0] [0]
       1),
     Prop ''bt_hci_bus'' (V_Str ''virtual'') [E_Str ''virtual'' ''virtual'' ''virtual'' ''VIRTUAL''] (Some (0,
       ''virtual'')) (Loops [0] [0] [0] [0] 1),
     Plain ''bt_hci_vs_ext'' 0,
     Prop ''status'' (V_Str ''okay'') [E_Str ''okay'' ''okay'' ''okay'' ''OKAY''] (Some (1, ''okay'')) (Loops
       [0] [0] [0] [0] 1),
     Prop ''compatible'' (V_Strs [''nordic,bt-hci-sdc'']) [E_Str ''nordic,bt-hci-sdc'' ''nordic,bt-hci-sdc''
       ''nordic_bt_hci_sdc'' ''NORDIC_BT_HCI_SDC''] None (Loops [0] [0] [0] [0] 1),
     Plain ''zephyr_deferred_init'' 0, Plain ''wakeup_source'' 0, Plain ''zephyr_pm_device_runtime_auto'' 0]"

definition DT_N_S_soc_S_radio_40001000_S_ieee802154_P :: "dt_prop list" where
  "DT_N_S_soc_S_radio_40001000_S_ieee802154_P = [
     Prop ''status'' (V_Str ''okay'') [E_Str ''okay'' ''okay'' ''okay'' ''OKAY''] (Some (1, ''okay'')) (Loops
       [0] [0] [0] [0] 1),
     Prop ''compatible'' (V_Strs [''nordic,nrf-ieee802154'']) [E_Str ''nordic,nrf-ieee802154''
       ''nordic,nrf-ieee802154'' ''nordic_nrf_ieee802154'' ''NORDIC_NRF_IEEE802154''] None (Loops [0] [0] [0]
       [0] 1),
     Plain ''zephyr_deferred_init'' 0, Plain ''wakeup_source'' 0, Plain ''zephyr_pm_device_runtime_auto'' 0]"

definition DT_N_S_soc_S_spi_40004000_P :: "dt_prop list" where
  "DT_N_S_soc_S_spi_40004000_P = [
     Prop ''reg'' (V_Nums [1073758208, 4096]) [E_Num 1073758208, E_Num 4096] None No_Loops,
     Prop ''interrupts'' (V_Nums [4, 1]) [E_Num 4, E_Num 1] None No_Loops,
     Prop ''pinctrl_0'' V_None [E_Node 45] None (Loops [0] [0] [0] [0] 1),
     Prop ''pinctrl_names'' (V_Strs [''default'', ''sleep'']) [E_Str ''default'' ''default'' ''default''
       ''DEFAULT'', E_Str ''sleep'' ''sleep'' ''sleep'' ''SLEEP''] None (Loops [0, 1] [0, 1] [0, 1] [0, 1] 2),
     Plain ''max_frequency'' 8000000, Plain ''overrun_character'' 255, Plain ''easydma_maxcnt_bits'' 16,
     Plain ''cross_domain_pins_supported'' 0,
     Prop ''cs_gpios'' V_None [E_Spec 11 [(''pin'', 2), (''flags'', 1)]] None (Loops [0] [0] [0] [0] 1),
     Prop ''status'' (V_Str ''okay'') [E_Str ''okay'' ''okay'' ''okay'' ''OKAY''] (Some (1, ''okay'')) (Loops
       [0] [0] [0] [0] 1),
     Prop ''compatible'' (V_Strs [''nordic,nrf-spi'']) [E_Str ''nordic,nrf-spi'' ''nordic,nrf-spi''
       ''nordic_nrf_spi'' ''NORDIC_NRF_SPI''] None (Loops [0] [0] [0] [0] 1),
     Plain ''zephyr_deferred_init'' 0, Plain ''wakeup_source'' 0, Plain ''zephyr_pm_device_runtime_auto'' 0,
     Prop ''pinctrl_1'' V_None [E_Node 51] None (Loops [0] [0] [0] [0] 1)]"

definition DT_N_S_soc_S_spi_40004000_S_nrf7002_0_P :: "dt_prop list" where
  "DT_N_S_soc_S_spi_40004000_S_nrf7002_0_P = [
     Prop ''iovdd_ctrl_gpios'' V_None [E_Spec 106 [(''pin'', 5), (''flags'', 0)]] None (Loops [0] [0] [0] [0]
       1),
     Prop ''bucken_gpios'' V_None [E_Spec 106 [(''pin'', 1), (''flags'', 0)]] None (Loops [0] [0] [0] [0] 1),
     Prop ''host_irq_gpios'' V_None [E_Spec 106 [(''pin'', 6), (''flags'', 0)]] None (Loops [0] [0] [0] [0] 1),
     Prop ''srrf_switch_gpios'' V_None [E_Spec 106 [(''pin'', 10), (''flags'', 0)]] None (Loops [0] [0] [0] [0]
       1),
     Plain ''iovdd_power_up_delay_ms'' 1,
     Prop ''reg'' (V_Nums [0]) [E_Num 0] None No_Loops,
     Plain ''spi_max_frequency'' 24000000,
     Prop ''duplex'' (V_Num 0) [E_Only] (Some (0, ''0'')) No_Loops,
     Prop ''frame_format'' (V_Num 0) [E_Only] (Some (0, ''0'')) No_Loops,
     Plain ''spi_cpol'' 0, Plain ''spi_cpha'' 0, Plain ''spi_hold_cs'' 0,
     Prop ''status'' (V_Str ''okay'') [E_Str ''okay'' ''okay'' ''okay'' ''OKAY''] (Some (1, ''okay'')) (Loops
       [0] [0] [0] [0] 1),
     Prop ''compatible'' (V_Strs [''nordic,nrf7002-spi'']) [E_Str ''nordic,nrf7002-spi'' ''nordic,nrf7002-spi''
       ''nordic_nrf7002_spi'' ''NORDIC_NRF7002_SPI''] None (Loops [0] [0] [0] [0] 1),
     Plain ''zephyr_deferred_init'' 0, Plain ''wakeup_source'' 0, Plain ''zephyr_pm_device_runtime_auto'' 0,
     Plain ''wifi_max_tx_pwr_2g_dsss'' 21, Plain ''wifi_max_tx_pwr_2g_mcs0'' 16,
     Plain ''wifi_max_tx_pwr_2g_mcs7'' 16, Plain ''wifi_max_tx_pwr_5g_low_mcs0'' 9,
     Plain ''wifi_max_tx_pwr_5g_low_mcs7'' 9, Plain ''wifi_max_tx_pwr_5g_mid_mcs0'' 11,
     Plain ''wifi_max_tx_pwr_5g_mid_mcs7'' 11, Plain ''wifi_max_tx_pwr_5g_high_mcs0'' 13,
     Plain ''wifi_max_tx_pwr_5g_high_mcs7'' 13]"

definition DT_N_S_soc_S_spi_40004000_S_nrf7002_0_S_wlan_P :: "dt_prop list" where
  "DT_N_S_soc_S_spi_40004000_S_nrf7002_0_S_wlan_P = [
     Prop ''compatible'' (V_Strs [''nordic,wlan'']) [E_Str ''nordic,wlan'' ''nordic,wlan'' ''nordic_wlan''
       ''NORDIC_WLAN''] None (Loops [0] [0] [0] [0] 1)]"

end
