(* ===== verification/Devicetree_Property_Facts.thy ===== *)
theory Devicetree_Property_Facts
  imports Devicetree_Property Devicetree_Image
begin

text \<open>
  The generic property macros are redundant twice over: each property says the same thing in several
  macros, and the properties with a special meaning say again what the other macros of their node say.
  Both redundancies are consistent, for every property of every node.
\<close>

section \<open>The macros of one property\<close>

fun elem_value :: "elem \<Rightarrow> pvalue" where
  "elem_value (E_Num n) = V_Num n"
| "elem_value (E_Str v u tok up) = V_Str v"
| "elem_value (E_Node k) = V_Node k"
| "elem_value E_Only = V_None"
| "elem_value (E_Spec k cells) = V_None"

fun elem_ok :: "elem \<Rightarrow> bool" where
  "elem_ok (E_Str v u tok up) = (u = v \<and> tok = map ident_char v \<and> up = map upper tok)"
| "elem_ok _ = True"

fun value_ok :: "pvalue \<Rightarrow> elem list \<Rightarrow> bool" where
  "value_ok V_None es = list_all (\<lambda>e. case e of E_Node k \<Rightarrow> True | E_Spec k cells \<Rightarrow> True | _ \<Rightarrow> False) es"
| "value_ok (V_Num n) es = (es = [] \<or> es = [E_Only])"
| "value_ok (V_Str v) es = (map elem_value es = [V_Str v])"
| "value_ok (V_Node k) es = (map elem_value es = [V_Node k])"
| "value_ok (V_Nums ns) es = (map elem_value es = map V_Num ns)"
| "value_ok (V_Strs vs) es = (map elem_value es = map V_Str vs)"

fun loops_ok :: "loops \<Rightarrow> nat \<Rightarrow> bool" where
  "loops_ok No_Loops n = True"
| "loops_ok (Loops a b c d len) n = (len = n \<and> a = [0..<n] \<and> b = a \<and> c = a \<and> d = a)"

fun enum_ok :: "(nat \<times> string) option \<Rightarrow> pvalue \<Rightarrow> bool" where
  "enum_ok None v = True"
| "enum_ok (Some (i, nm)) (V_Num n) = (nm = dec n)"
| "enum_ok (Some (i, nm)) (V_Str s) = (map upper nm = map upper (map ident_char s))"
| "enum_ok (Some (i, nm)) (V_Strs [s]) = (map upper nm = map upper (map ident_char s))"
| "enum_ok _ _ = False"

definition prop_consistent :: "dt_prop \<Rightarrow> bool" where
  "prop_consistent p \<longleftrightarrow> list_all elem_ok (p_elems p) \<and> value_ok (p_value p) (p_elems p) \<and>
     loops_ok (p_loops p) (length (p_elems p)) \<and> enum_ok (p_enum p) (p_value p)"

section \<open>The properties of one node\<close>

fun elem_refs :: "elem \<Rightarrow> nat list" where
  "elem_refs (E_Node k) = [k]"
| "elem_refs (E_Spec k cells) = [k]"
| "elem_refs _ = []"

fun elem_token :: "elem \<Rightarrow> string" where
  "elem_token (E_Str v u tok up) = tok"
| "elem_token _ = []"

fun reg_cells :: "nat \<times> nat option \<Rightarrow> nat list" where
  "reg_cells (a, Some z) = [a, z]"
| "reg_cells (a, None) = [a]"

fun irq_cells :: "nat \<times> nat \<times> nat \<Rightarrow> nat list" where
  "irq_cells (q, prio, ctlr) = [q, prio]"

definition prop_matches :: "dt_node \<Rightarrow> dt_prop \<Rightarrow> bool" where
  "prop_matches n p \<longleftrightarrow>
     list_all (\<lambda>e. list_all (\<lambda>k. k \<in> set (dt_requires n)) (elem_refs e)) (p_elems p) \<and>
     (if p_name p = ''reg'' then p_value p = V_Nums (concat (map reg_cells (dt_regs n)))
      else if p_name p = ''reg_names'' then map elem_token (p_elems p) = dt_reg_names n
      else if p_name p = ''interrupts'' then p_value p = V_Nums (concat (map irq_cells (dt_irqs n)))
      else if p_name p = ''compatible'' then map elem_token (p_elems p) = dt_compats n
      else if p_name p = ''status'' then dt_okay n = (p_value p = V_Str ''okay'')
      else True)"

definition prop_sound :: "dt_node \<Rightarrow> dt_prop \<Rightarrow> bool" where
  "prop_sound n p \<longleftrightarrow> prop_consistent p \<and> prop_matches n p"

definition dt_properties :: "(dt_node \<times> dt_prop list) list" where
  "dt_properties = [
     (DT_N, DT_N_P),
     (DT_N_S_analog_connector, DT_N_S_analog_connector_P),
     (DT_N_S_connector, DT_N_S_connector_P),
     (DT_N_S_entropy_bt_hci, DT_N_S_entropy_bt_hci_P),
     (DT_N_S_soc, DT_N_S_soc_P),
     (DT_N_S_soc_S_interrupt_controller_e000e100, DT_N_S_soc_S_interrupt_controller_e000e100_P),
     (DT_N_S_soc_S_timer_40009000, DT_N_S_soc_S_timer_40009000_P),
     (DT_N_S_sw_pwm, DT_N_S_sw_pwm_P),
     (DT_N_S_soc_S_gpiote_40006000, DT_N_S_soc_S_gpiote_40006000_P),
     (DT_N_S_soc_S_gpio_50000000, DT_N_S_soc_S_gpio_50000000_P0 @ DT_N_S_soc_S_gpio_50000000_P1 @ DT_N_S_soc_S_gpio_50000000_P2),
     (DT_N_S_buttons, DT_N_S_buttons_P),
     (DT_N_S_buttons_S_button_0, DT_N_S_buttons_S_button_0_P),
     (DT_N_S_buttons_S_button_1, DT_N_S_buttons_S_button_1_P),
     (DT_N_S_buttons_S_button_2, DT_N_S_buttons_S_button_2_P),
     (DT_N_S_buttons_S_button_3, DT_N_S_buttons_S_button_3_P),
     (DT_N_S_clocks_S_hfxo, DT_N_S_clocks_S_hfxo_P),
     (DT_N_S_cpus_S_cpu_0, DT_N_S_cpus_S_cpu_0_P),
     (DT_N_S_cpus_S_cpu_0_S_itm_e0000000, DT_N_S_cpus_S_cpu_0_S_itm_e0000000_P),
     (DT_N_S_leds, DT_N_S_leds_P),
     (DT_N_S_leds_S_led_0, DT_N_S_leds_S_led_0_P),
     (DT_N_S_leds_S_led_1, DT_N_S_leds_S_led_1_P),
     (DT_N_S_leds_S_led_2, DT_N_S_leds_S_led_2_P),
     (DT_N_S_leds_S_led_3, DT_N_S_leds_S_led_3_P),
     (DT_N_S_pin_controller, DT_N_S_pin_controller_P),
     (DT_N_S_pin_controller_S_i2c0_default_S_group1, DT_N_S_pin_controller_S_i2c0_default_S_group1_P),
     (DT_N_S_pin_controller_S_i2c0_sleep_S_group1, DT_N_S_pin_controller_S_i2c0_sleep_S_group1_P),
     (DT_N_S_pin_controller_S_i2c1_default_S_group1, DT_N_S_pin_controller_S_i2c1_default_S_group1_P),
     (DT_N_S_pin_controller_S_i2c1_sleep_S_group1, DT_N_S_pin_controller_S_i2c1_sleep_S_group1_P),
     (DT_N_S_pin_controller_S_pwm0_default_S_group1, DT_N_S_pin_controller_S_pwm0_default_S_group1_P),
     (DT_N_S_pin_controller_S_pwm0_sleep_S_group1, DT_N_S_pin_controller_S_pwm0_sleep_S_group1_P),
     (DT_N_S_pin_controller_S_qspi_default_S_group1, DT_N_S_pin_controller_S_qspi_default_S_group1_P),
     (DT_N_S_pin_controller_S_qspi_sleep_S_group1, DT_N_S_pin_controller_S_qspi_sleep_S_group1_P),
     (DT_N_S_pin_controller_S_qspi_sleep_S_group2, DT_N_S_pin_controller_S_qspi_sleep_S_group2_P),
     (DT_N_S_pin_controller_S_spi0_default_S_group1, DT_N_S_pin_controller_S_spi0_default_S_group1_P),
     (DT_N_S_pin_controller_S_spi0_sleep_S_group1, DT_N_S_pin_controller_S_spi0_sleep_S_group1_P),
     (DT_N_S_pin_controller_S_spi1_default_S_group1, DT_N_S_pin_controller_S_spi1_default_S_group1_P),
     (DT_N_S_pin_controller_S_spi1_sleep_S_group1, DT_N_S_pin_controller_S_spi1_sleep_S_group1_P),
     (DT_N_S_pin_controller_S_spi2_default_S_group1, DT_N_S_pin_controller_S_spi2_default_S_group1_P),
     (DT_N_S_pin_controller_S_spi2_sleep_S_group1, DT_N_S_pin_controller_S_spi2_sleep_S_group1_P),
     (DT_N_S_pin_controller_S_spi3_default_S_group1, DT_N_S_pin_controller_S_spi3_default_S_group1_P),
     (DT_N_S_pin_controller_S_spi3_sleep_S_group1, DT_N_S_pin_controller_S_spi3_sleep_S_group1_P),
     (DT_N_S_pin_controller_S_uart0_default_S_group1, DT_N_S_pin_controller_S_uart0_default_S_group1_P),
     (DT_N_S_pin_controller_S_uart0_default_S_group2, DT_N_S_pin_controller_S_uart0_default_S_group2_P),
     (DT_N_S_pin_controller_S_uart0_sleep_S_group1, DT_N_S_pin_controller_S_uart0_sleep_S_group1_P),
     (DT_N_S_pin_controller_S_uart1_default_S_group1, DT_N_S_pin_controller_S_uart1_default_S_group1_P),
     (DT_N_S_pin_controller_S_uart1_default_S_group2, DT_N_S_pin_controller_S_uart1_default_S_group2_P),
     (DT_N_S_pin_controller_S_uart1_sleep_S_group1, DT_N_S_pin_controller_S_uart1_sleep_S_group1_P),
     (DT_N_S_soc_S_pwm_4001c000, DT_N_S_soc_S_pwm_4001c000_P),
     (DT_N_S_pwmleds, DT_N_S_pwmleds_P),
     (DT_N_S_pwmleds_S_pwm_led_0, DT_N_S_pwmleds_S_pwm_led_0_P),
     (DT_N_S_soc_S_acl_4001e000, DT_N_S_soc_S_acl_4001e000_P),
     (DT_N_S_soc_S_adc_40007000, DT_N_S_soc_S_adc_40007000_P),
     (DT_N_S_soc_S_ccm_4000f000, DT_N_S_soc_S_ccm_4000f000_P),
     (DT_N_S_soc_S_clock_40000000, DT_N_S_soc_S_clock_40000000_P),
     (DT_N_S_soc_S_comparator_40013000, DT_N_S_soc_S_comparator_40013000_P),
     (DT_N_S_soc_S_crypto_5002a000, DT_N_S_soc_S_crypto_5002a000_P),
     (DT_N_S_soc_S_ecb_4000e000, DT_N_S_soc_S_ecb_4000e000_P),
     (DT_N_S_soc_S_egu_40014000, DT_N_S_soc_S_egu_40014000_P),
     (DT_N_S_soc_S_egu_40015000, DT_N_S_soc_S_egu_40015000_P),
     (DT_N_S_soc_S_egu_40016000, DT_N_S_soc_S_egu_40016000_P),
     (DT_N_S_soc_S_egu_40017000, DT_N_S_soc_S_egu_40017000_P),
     (DT_N_S_soc_S_egu_40018000, DT_N_S_soc_S_egu_40018000_P),
     (DT_N_S_soc_S_egu_40019000, DT_N_S_soc_S_egu_40019000_P),
     (DT_N_S_soc_S_ficr_10000000, DT_N_S_soc_S_ficr_10000000_P),
     (DT_N_S_soc_S_i2c_40003000, DT_N_S_soc_S_i2c_40003000_P),
     (DT_N_S_soc_S_i2c_40004000, DT_N_S_soc_S_i2c_40004000_P),
     (DT_N_S_soc_S_i2s_40025000, DT_N_S_soc_S_i2s_40025000_P),
     (DT_N_S_soc_S_memory_20000000, DT_N_S_soc_S_memory_20000000_P),
     (DT_N_S_soc_S_mwu_40020000, DT_N_S_soc_S_mwu_40020000_P),
     (DT_N_S_soc_S_nfct_40005000, DT_N_S_soc_S_nfct_40005000_P),
     (DT_N_S_soc_S_pdm_4001d000, DT_N_S_soc_S_pdm_4001d000_P),
     (DT_N_S_soc_S_ppi_4001f000, DT_N_S_soc_S_ppi_4001f000_P),
     (DT_N_S_soc_S_pwm_40021000, DT_N_S_soc_S_pwm_40021000_P),
     (DT_N_S_soc_S_pwm_40022000, DT_N_S_soc_S_pwm_40022000_P),
     (DT_N_S_soc_S_pwm_4002d000, DT_N_S_soc_S_pwm_4002d000_P),
     (DT_N_S_soc_S_qdec_40012000, DT_N_S_soc_S_qdec_40012000_P),
     (DT_N_S_soc_S_random_4000d000, DT_N_S_soc_S_random_4000d000_P),
     (DT_N_S_soc_S_rtc_4000b000, DT_N_S_soc_S_rtc_4000b000_P),
     (DT_N_S_soc_S_rtc_40011000, DT_N_S_soc_S_rtc_40011000_P),
     (DT_N_S_soc_S_rtc_40024000, DT_N_S_soc_S_rtc_40024000_P),
     (DT_N_S_soc_S_spi_40003000, DT_N_S_soc_S_spi_40003000_P),
     (DT_N_S_soc_S_spi_40023000, DT_N_S_soc_S_spi_40023000_P),
     (DT_N_S_soc_S_gpio_50000300, DT_N_S_soc_S_gpio_50000300_P0 @ DT_N_S_soc_S_gpio_50000300_P1 @ DT_N_S_soc_S_gpio_50000300_P2),
     (DT_N_S_soc_S_spi_4002f000, DT_N_S_soc_S_spi_4002f000_P),
     (DT_N_S_soc_S_temp_4000c000, DT_N_S_soc_S_temp_4000c000_P),
     (DT_N_S_soc_S_timer_40008000, DT_N_S_soc_S_timer_40008000_P),
     (DT_N_S_soc_S_timer_4000a000, DT_N_S_soc_S_timer_4000a000_P),
     (DT_N_S_soc_S_timer_4001a000, DT_N_S_soc_S_timer_4001a000_P),
     (DT_N_S_soc_S_timer_4001b000, DT_N_S_soc_S_timer_4001b000_P),
     (DT_N_S_soc_S_timer_e000e010, DT_N_S_soc_S_timer_e000e010_P),
     (DT_N_S_soc_S_uart_40002000, DT_N_S_soc_S_uart_40002000_P),
     (DT_N_S_soc_S_uart_40028000, DT_N_S_soc_S_uart_40028000_P),
     (DT_N_S_soc_S_uicr_10001000, DT_N_S_soc_S_uicr_10001000_P),
     (DT_N_S_soc_S_usbd_40027000, DT_N_S_soc_S_usbd_40027000_P),
     (DT_N_S_soc_S_watchdog_40010000, DT_N_S_soc_S_watchdog_40010000_P),
     (DT_N_S_soc_S_flash_controller_4001e000, DT_N_S_soc_S_flash_controller_4001e000_P),
     (DT_N_S_soc_S_flash_controller_4001e000_S_flash_0, DT_N_S_soc_S_flash_controller_4001e000_S_flash_0_P),
     (DT_N_S_soc_S_flash_controller_4001e000_S_flash_0_S_partitions_S_partition_0, DT_N_S_soc_S_flash_controller_4001e000_S_flash_0_S_partitions_S_partition_0_P),
     (DT_N_S_soc_S_flash_controller_4001e000_S_flash_0_S_partitions_S_partition_c000, DT_N_S_soc_S_flash_controller_4001e000_S_flash_0_S_partitions_S_partition_c000_P),
     (DT_N_S_soc_S_flash_controller_4001e000_S_flash_0_S_partitions_S_partition_82000, DT_N_S_soc_S_flash_controller_4001e000_S_flash_0_S_partitions_S_partition_82000_P),
     (DT_N_S_soc_S_flash_controller_4001e000_S_flash_0_S_partitions_S_partition_f8000, DT_N_S_soc_S_flash_controller_4001e000_S_flash_0_S_partitions_S_partition_f8000_P),
     (DT_N_S_soc_S_power_40000000, DT_N_S_soc_S_power_40000000_P),
     (DT_N_S_soc_S_power_40000000_S_gpregret2_40000520, DT_N_S_soc_S_power_40000000_S_gpregret2_40000520_P),
     (DT_N_S_soc_S_power_40000000_S_regulator_40000578, DT_N_S_soc_S_power_40000000_S_regulator_40000578_P),
     (DT_N_S_soc_S_power_40000000_S_regulator_40000580, DT_N_S_soc_S_power_40000000_S_regulator_40000580_P),
     (DT_N_S_soc_S_power_40000000_S_gpregret1_4000051c, DT_N_S_soc_S_power_40000000_S_gpregret1_4000051c_P),
     (DT_N_S_soc_S_power_40000000_S_gpregret1_4000051c_S_boot_mode_0, DT_N_S_soc_S_power_40000000_S_gpregret1_4000051c_S_boot_mode_0_P),
     (DT_N_S_soc_S_qspi_40029000, DT_N_S_soc_S_qspi_40029000_P),
     (DT_N_S_soc_S_qspi_40029000_S_mx25r6435f_0, DT_N_S_soc_S_qspi_40029000_S_mx25r6435f_0_P0 @ DT_N_S_soc_S_qspi_40029000_S_mx25r6435f_0_P1),
     (DT_N_S_soc_S_radio_40001000, DT_N_S_soc_S_radio_40001000_P),
     (DT_N_S_soc_S_radio_40001000_S_bt_hci_controller, DT_N_S_soc_S_radio_40001000_S_bt_hci_controller_P),
     (DT_N_S_soc_S_radio_40001000_S_bt_hci_sdc, DT_N_S_soc_S_radio_40001000_S_bt_hci_sdc_P),
     (DT_N_S_soc_S_radio_40001000_S_ieee802154, DT_N_S_soc_S_radio_40001000_S_ieee802154_P),
     (DT_N_S_soc_S_spi_40004000, DT_N_S_soc_S_spi_40004000_P),
     (DT_N_S_soc_S_spi_40004000_S_nrf7002_0, DT_N_S_soc_S_spi_40004000_S_nrf7002_0_P),
     (DT_N_S_soc_S_spi_40004000_S_nrf7002_0_S_wlan, DT_N_S_soc_S_spi_40004000_S_nrf7002_0_S_wlan_P)]"

section \<open>Every property\<close>

lemma upt_start:
  "[0..<numeral k] = 0 # [Suc 0..<numeral k]"
  "[Suc 0..<numeral (num.Bit0 k)] = Suc 0 # [2..<numeral (num.Bit0 k)]"
  "[Suc 0..<numeral (num.Bit1 k)] = Suc 0 # [2..<numeral (num.Bit1 k)]"
  unfolding numeral_2_eq_2 by (rule upt_conv_Cons; simp)+

lemmas prop_eval = prop_sound_def prop_consistent_def prop_matches_def upper_values ident_char_values

lemma sound_0:
  "list_all (prop_sound DT_N) DT_N_P"
  "list_all (prop_sound DT_N_S_analog_connector) DT_N_S_analog_connector_P"
  "list_all (prop_sound DT_N_S_connector) DT_N_S_connector_P"
  "list_all (prop_sound DT_N_S_entropy_bt_hci) DT_N_S_entropy_bt_hci_P"
  "list_all (prop_sound DT_N_S_soc) DT_N_S_soc_P"
  "list_all (prop_sound DT_N_S_soc_S_interrupt_controller_e000e100) DT_N_S_soc_S_interrupt_controller_e000e100_P"
  "list_all (prop_sound DT_N_S_soc_S_timer_40009000) DT_N_S_soc_S_timer_40009000_P"
  "list_all (prop_sound DT_N_S_sw_pwm) DT_N_S_sw_pwm_P"
  "list_all (prop_sound DT_N_S_soc_S_gpiote_40006000) DT_N_S_soc_S_gpiote_40006000_P"
  "list_all (prop_sound DT_N_S_soc_S_gpio_50000000) DT_N_S_soc_S_gpio_50000000_P0"
  "list_all (prop_sound DT_N_S_soc_S_gpio_50000000) DT_N_S_soc_S_gpio_50000000_P1"
  "list_all (prop_sound DT_N_S_soc_S_gpio_50000000) DT_N_S_soc_S_gpio_50000000_P2"
  "list_all (prop_sound DT_N_S_buttons) DT_N_S_buttons_P"
  "list_all (prop_sound DT_N_S_buttons_S_button_0) DT_N_S_buttons_S_button_0_P"
  by (simp_all add: prop_eval upt_start dec.simps dec_digit_def char_of_def bit_Suc_0_iff
      DT_N_def
      DT_N_S_analog_connector_def
      DT_N_S_connector_def
      DT_N_S_entropy_bt_hci_def
      DT_N_S_soc_def
      DT_N_S_soc_S_interrupt_controller_e000e100_def
      DT_N_S_soc_S_timer_40009000_def
      DT_N_S_sw_pwm_def
      DT_N_S_soc_S_gpiote_40006000_def
      DT_N_S_soc_S_gpio_50000000_def
      DT_N_S_buttons_def
      DT_N_S_buttons_S_button_0_def
      DT_N_P_def
      DT_N_S_analog_connector_P_def
      DT_N_S_connector_P_def
      DT_N_S_entropy_bt_hci_P_def
      DT_N_S_soc_P_def
      DT_N_S_soc_S_interrupt_controller_e000e100_P_def
      DT_N_S_soc_S_timer_40009000_P_def
      DT_N_S_sw_pwm_P_def
      DT_N_S_soc_S_gpiote_40006000_P_def
      DT_N_S_soc_S_gpio_50000000_P0_def
      DT_N_S_soc_S_gpio_50000000_P1_def
      DT_N_S_soc_S_gpio_50000000_P2_def
      DT_N_S_buttons_P_def
      DT_N_S_buttons_S_button_0_P_def)

lemma sound_1:
  "list_all (prop_sound DT_N_S_buttons_S_button_1) DT_N_S_buttons_S_button_1_P"
  "list_all (prop_sound DT_N_S_buttons_S_button_2) DT_N_S_buttons_S_button_2_P"
  "list_all (prop_sound DT_N_S_buttons_S_button_3) DT_N_S_buttons_S_button_3_P"
  "list_all (prop_sound DT_N_S_clocks_S_hfxo) DT_N_S_clocks_S_hfxo_P"
  "list_all (prop_sound DT_N_S_cpus_S_cpu_0) DT_N_S_cpus_S_cpu_0_P"
  "list_all (prop_sound DT_N_S_cpus_S_cpu_0_S_itm_e0000000) DT_N_S_cpus_S_cpu_0_S_itm_e0000000_P"
  "list_all (prop_sound DT_N_S_leds) DT_N_S_leds_P"
  "list_all (prop_sound DT_N_S_leds_S_led_0) DT_N_S_leds_S_led_0_P"
  "list_all (prop_sound DT_N_S_leds_S_led_1) DT_N_S_leds_S_led_1_P"
  "list_all (prop_sound DT_N_S_leds_S_led_2) DT_N_S_leds_S_led_2_P"
  "list_all (prop_sound DT_N_S_leds_S_led_3) DT_N_S_leds_S_led_3_P"
  "list_all (prop_sound DT_N_S_pin_controller) DT_N_S_pin_controller_P"
  by (simp_all add: prop_eval upt_start dec.simps dec_digit_def char_of_def bit_Suc_0_iff
      DT_N_S_buttons_S_button_1_def
      DT_N_S_buttons_S_button_2_def
      DT_N_S_buttons_S_button_3_def
      DT_N_S_clocks_S_hfxo_def
      DT_N_S_cpus_S_cpu_0_def
      DT_N_S_cpus_S_cpu_0_S_itm_e0000000_def
      DT_N_S_leds_def
      DT_N_S_leds_S_led_0_def
      DT_N_S_leds_S_led_1_def
      DT_N_S_leds_S_led_2_def
      DT_N_S_leds_S_led_3_def
      DT_N_S_pin_controller_def
      DT_N_S_buttons_S_button_1_P_def
      DT_N_S_buttons_S_button_2_P_def
      DT_N_S_buttons_S_button_3_P_def
      DT_N_S_clocks_S_hfxo_P_def
      DT_N_S_cpus_S_cpu_0_P_def
      DT_N_S_cpus_S_cpu_0_S_itm_e0000000_P_def
      DT_N_S_leds_P_def
      DT_N_S_leds_S_led_0_P_def
      DT_N_S_leds_S_led_1_P_def
      DT_N_S_leds_S_led_2_P_def
      DT_N_S_leds_S_led_3_P_def
      DT_N_S_pin_controller_P_def)

lemma sound_2:
  "list_all (prop_sound DT_N_S_pin_controller_S_i2c0_default_S_group1) DT_N_S_pin_controller_S_i2c0_default_S_group1_P"
  "list_all (prop_sound DT_N_S_pin_controller_S_i2c0_sleep_S_group1) DT_N_S_pin_controller_S_i2c0_sleep_S_group1_P"
  "list_all (prop_sound DT_N_S_pin_controller_S_i2c1_default_S_group1) DT_N_S_pin_controller_S_i2c1_default_S_group1_P"
  "list_all (prop_sound DT_N_S_pin_controller_S_i2c1_sleep_S_group1) DT_N_S_pin_controller_S_i2c1_sleep_S_group1_P"
  "list_all (prop_sound DT_N_S_pin_controller_S_pwm0_default_S_group1) DT_N_S_pin_controller_S_pwm0_default_S_group1_P"
  "list_all (prop_sound DT_N_S_pin_controller_S_pwm0_sleep_S_group1) DT_N_S_pin_controller_S_pwm0_sleep_S_group1_P"
  "list_all (prop_sound DT_N_S_pin_controller_S_qspi_default_S_group1) DT_N_S_pin_controller_S_qspi_default_S_group1_P"
  "list_all (prop_sound DT_N_S_pin_controller_S_qspi_sleep_S_group1) DT_N_S_pin_controller_S_qspi_sleep_S_group1_P"
  "list_all (prop_sound DT_N_S_pin_controller_S_qspi_sleep_S_group2) DT_N_S_pin_controller_S_qspi_sleep_S_group2_P"
  "list_all (prop_sound DT_N_S_pin_controller_S_spi0_default_S_group1) DT_N_S_pin_controller_S_spi0_default_S_group1_P"
  "list_all (prop_sound DT_N_S_pin_controller_S_spi0_sleep_S_group1) DT_N_S_pin_controller_S_spi0_sleep_S_group1_P"
  "list_all (prop_sound DT_N_S_pin_controller_S_spi1_default_S_group1) DT_N_S_pin_controller_S_spi1_default_S_group1_P"
  by (simp_all add: prop_eval upt_start dec.simps dec_digit_def char_of_def bit_Suc_0_iff
      DT_N_S_pin_controller_S_i2c0_default_S_group1_def
      DT_N_S_pin_controller_S_i2c0_sleep_S_group1_def
      DT_N_S_pin_controller_S_i2c1_default_S_group1_def
      DT_N_S_pin_controller_S_i2c1_sleep_S_group1_def
      DT_N_S_pin_controller_S_pwm0_default_S_group1_def
      DT_N_S_pin_controller_S_pwm0_sleep_S_group1_def
      DT_N_S_pin_controller_S_qspi_default_S_group1_def
      DT_N_S_pin_controller_S_qspi_sleep_S_group1_def
      DT_N_S_pin_controller_S_qspi_sleep_S_group2_def
      DT_N_S_pin_controller_S_spi0_default_S_group1_def
      DT_N_S_pin_controller_S_spi0_sleep_S_group1_def
      DT_N_S_pin_controller_S_spi1_default_S_group1_def
      DT_N_S_pin_controller_S_i2c0_default_S_group1_P_def
      DT_N_S_pin_controller_S_i2c0_sleep_S_group1_P_def
      DT_N_S_pin_controller_S_i2c1_default_S_group1_P_def
      DT_N_S_pin_controller_S_i2c1_sleep_S_group1_P_def
      DT_N_S_pin_controller_S_pwm0_default_S_group1_P_def
      DT_N_S_pin_controller_S_pwm0_sleep_S_group1_P_def
      DT_N_S_pin_controller_S_qspi_default_S_group1_P_def
      DT_N_S_pin_controller_S_qspi_sleep_S_group1_P_def
      DT_N_S_pin_controller_S_qspi_sleep_S_group2_P_def
      DT_N_S_pin_controller_S_spi0_default_S_group1_P_def
      DT_N_S_pin_controller_S_spi0_sleep_S_group1_P_def
      DT_N_S_pin_controller_S_spi1_default_S_group1_P_def)

lemma sound_3:
  "list_all (prop_sound DT_N_S_pin_controller_S_spi1_sleep_S_group1) DT_N_S_pin_controller_S_spi1_sleep_S_group1_P"
  "list_all (prop_sound DT_N_S_pin_controller_S_spi2_default_S_group1) DT_N_S_pin_controller_S_spi2_default_S_group1_P"
  "list_all (prop_sound DT_N_S_pin_controller_S_spi2_sleep_S_group1) DT_N_S_pin_controller_S_spi2_sleep_S_group1_P"
  "list_all (prop_sound DT_N_S_pin_controller_S_spi3_default_S_group1) DT_N_S_pin_controller_S_spi3_default_S_group1_P"
  "list_all (prop_sound DT_N_S_pin_controller_S_spi3_sleep_S_group1) DT_N_S_pin_controller_S_spi3_sleep_S_group1_P"
  "list_all (prop_sound DT_N_S_pin_controller_S_uart0_default_S_group1) DT_N_S_pin_controller_S_uart0_default_S_group1_P"
  "list_all (prop_sound DT_N_S_pin_controller_S_uart0_default_S_group2) DT_N_S_pin_controller_S_uart0_default_S_group2_P"
  "list_all (prop_sound DT_N_S_pin_controller_S_uart0_sleep_S_group1) DT_N_S_pin_controller_S_uart0_sleep_S_group1_P"
  "list_all (prop_sound DT_N_S_pin_controller_S_uart1_default_S_group1) DT_N_S_pin_controller_S_uart1_default_S_group1_P"
  "list_all (prop_sound DT_N_S_pin_controller_S_uart1_default_S_group2) DT_N_S_pin_controller_S_uart1_default_S_group2_P"
  "list_all (prop_sound DT_N_S_pin_controller_S_uart1_sleep_S_group1) DT_N_S_pin_controller_S_uart1_sleep_S_group1_P"
  "list_all (prop_sound DT_N_S_soc_S_pwm_4001c000) DT_N_S_soc_S_pwm_4001c000_P"
  by (simp_all add: prop_eval upt_start dec.simps dec_digit_def char_of_def bit_Suc_0_iff
      DT_N_S_pin_controller_S_spi1_sleep_S_group1_def
      DT_N_S_pin_controller_S_spi2_default_S_group1_def
      DT_N_S_pin_controller_S_spi2_sleep_S_group1_def
      DT_N_S_pin_controller_S_spi3_default_S_group1_def
      DT_N_S_pin_controller_S_spi3_sleep_S_group1_def
      DT_N_S_pin_controller_S_uart0_default_S_group1_def
      DT_N_S_pin_controller_S_uart0_default_S_group2_def
      DT_N_S_pin_controller_S_uart0_sleep_S_group1_def
      DT_N_S_pin_controller_S_uart1_default_S_group1_def
      DT_N_S_pin_controller_S_uart1_default_S_group2_def
      DT_N_S_pin_controller_S_uart1_sleep_S_group1_def
      DT_N_S_soc_S_pwm_4001c000_def
      DT_N_S_pin_controller_S_spi1_sleep_S_group1_P_def
      DT_N_S_pin_controller_S_spi2_default_S_group1_P_def
      DT_N_S_pin_controller_S_spi2_sleep_S_group1_P_def
      DT_N_S_pin_controller_S_spi3_default_S_group1_P_def
      DT_N_S_pin_controller_S_spi3_sleep_S_group1_P_def
      DT_N_S_pin_controller_S_uart0_default_S_group1_P_def
      DT_N_S_pin_controller_S_uart0_default_S_group2_P_def
      DT_N_S_pin_controller_S_uart0_sleep_S_group1_P_def
      DT_N_S_pin_controller_S_uart1_default_S_group1_P_def
      DT_N_S_pin_controller_S_uart1_default_S_group2_P_def
      DT_N_S_pin_controller_S_uart1_sleep_S_group1_P_def
      DT_N_S_soc_S_pwm_4001c000_P_def)

lemma sound_4:
  "list_all (prop_sound DT_N_S_pwmleds) DT_N_S_pwmleds_P"
  "list_all (prop_sound DT_N_S_pwmleds_S_pwm_led_0) DT_N_S_pwmleds_S_pwm_led_0_P"
  "list_all (prop_sound DT_N_S_soc_S_acl_4001e000) DT_N_S_soc_S_acl_4001e000_P"
  "list_all (prop_sound DT_N_S_soc_S_adc_40007000) DT_N_S_soc_S_adc_40007000_P"
  "list_all (prop_sound DT_N_S_soc_S_ccm_4000f000) DT_N_S_soc_S_ccm_4000f000_P"
  "list_all (prop_sound DT_N_S_soc_S_clock_40000000) DT_N_S_soc_S_clock_40000000_P"
  "list_all (prop_sound DT_N_S_soc_S_comparator_40013000) DT_N_S_soc_S_comparator_40013000_P"
  "list_all (prop_sound DT_N_S_soc_S_crypto_5002a000) DT_N_S_soc_S_crypto_5002a000_P"
  "list_all (prop_sound DT_N_S_soc_S_ecb_4000e000) DT_N_S_soc_S_ecb_4000e000_P"
  "list_all (prop_sound DT_N_S_soc_S_egu_40014000) DT_N_S_soc_S_egu_40014000_P"
  "list_all (prop_sound DT_N_S_soc_S_egu_40015000) DT_N_S_soc_S_egu_40015000_P"
  "list_all (prop_sound DT_N_S_soc_S_egu_40016000) DT_N_S_soc_S_egu_40016000_P"
  by (simp_all add: prop_eval upt_start dec.simps dec_digit_def char_of_def bit_Suc_0_iff
      DT_N_S_pwmleds_def
      DT_N_S_pwmleds_S_pwm_led_0_def
      DT_N_S_soc_S_acl_4001e000_def
      DT_N_S_soc_S_adc_40007000_def
      DT_N_S_soc_S_ccm_4000f000_def
      DT_N_S_soc_S_clock_40000000_def
      DT_N_S_soc_S_comparator_40013000_def
      DT_N_S_soc_S_crypto_5002a000_def
      DT_N_S_soc_S_ecb_4000e000_def
      DT_N_S_soc_S_egu_40014000_def
      DT_N_S_soc_S_egu_40015000_def
      DT_N_S_soc_S_egu_40016000_def
      DT_N_S_pwmleds_P_def
      DT_N_S_pwmleds_S_pwm_led_0_P_def
      DT_N_S_soc_S_acl_4001e000_P_def
      DT_N_S_soc_S_adc_40007000_P_def
      DT_N_S_soc_S_ccm_4000f000_P_def
      DT_N_S_soc_S_clock_40000000_P_def
      DT_N_S_soc_S_comparator_40013000_P_def
      DT_N_S_soc_S_crypto_5002a000_P_def
      DT_N_S_soc_S_ecb_4000e000_P_def
      DT_N_S_soc_S_egu_40014000_P_def
      DT_N_S_soc_S_egu_40015000_P_def
      DT_N_S_soc_S_egu_40016000_P_def)

lemma sound_5:
  "list_all (prop_sound DT_N_S_soc_S_egu_40017000) DT_N_S_soc_S_egu_40017000_P"
  "list_all (prop_sound DT_N_S_soc_S_egu_40018000) DT_N_S_soc_S_egu_40018000_P"
  "list_all (prop_sound DT_N_S_soc_S_egu_40019000) DT_N_S_soc_S_egu_40019000_P"
  "list_all (prop_sound DT_N_S_soc_S_ficr_10000000) DT_N_S_soc_S_ficr_10000000_P"
  "list_all (prop_sound DT_N_S_soc_S_i2c_40003000) DT_N_S_soc_S_i2c_40003000_P"
  "list_all (prop_sound DT_N_S_soc_S_i2c_40004000) DT_N_S_soc_S_i2c_40004000_P"
  "list_all (prop_sound DT_N_S_soc_S_i2s_40025000) DT_N_S_soc_S_i2s_40025000_P"
  "list_all (prop_sound DT_N_S_soc_S_memory_20000000) DT_N_S_soc_S_memory_20000000_P"
  "list_all (prop_sound DT_N_S_soc_S_mwu_40020000) DT_N_S_soc_S_mwu_40020000_P"
  "list_all (prop_sound DT_N_S_soc_S_nfct_40005000) DT_N_S_soc_S_nfct_40005000_P"
  "list_all (prop_sound DT_N_S_soc_S_pdm_4001d000) DT_N_S_soc_S_pdm_4001d000_P"
  "list_all (prop_sound DT_N_S_soc_S_ppi_4001f000) DT_N_S_soc_S_ppi_4001f000_P"
  by (simp_all add: prop_eval upt_start dec.simps dec_digit_def char_of_def bit_Suc_0_iff
      DT_N_S_soc_S_egu_40017000_def
      DT_N_S_soc_S_egu_40018000_def
      DT_N_S_soc_S_egu_40019000_def
      DT_N_S_soc_S_ficr_10000000_def
      DT_N_S_soc_S_i2c_40003000_def
      DT_N_S_soc_S_i2c_40004000_def
      DT_N_S_soc_S_i2s_40025000_def
      DT_N_S_soc_S_memory_20000000_def
      DT_N_S_soc_S_mwu_40020000_def
      DT_N_S_soc_S_nfct_40005000_def
      DT_N_S_soc_S_pdm_4001d000_def
      DT_N_S_soc_S_ppi_4001f000_def
      DT_N_S_soc_S_egu_40017000_P_def
      DT_N_S_soc_S_egu_40018000_P_def
      DT_N_S_soc_S_egu_40019000_P_def
      DT_N_S_soc_S_ficr_10000000_P_def
      DT_N_S_soc_S_i2c_40003000_P_def
      DT_N_S_soc_S_i2c_40004000_P_def
      DT_N_S_soc_S_i2s_40025000_P_def
      DT_N_S_soc_S_memory_20000000_P_def
      DT_N_S_soc_S_mwu_40020000_P_def
      DT_N_S_soc_S_nfct_40005000_P_def
      DT_N_S_soc_S_pdm_4001d000_P_def
      DT_N_S_soc_S_ppi_4001f000_P_def)

lemma sound_6:
  "list_all (prop_sound DT_N_S_soc_S_pwm_40021000) DT_N_S_soc_S_pwm_40021000_P"
  "list_all (prop_sound DT_N_S_soc_S_pwm_40022000) DT_N_S_soc_S_pwm_40022000_P"
  "list_all (prop_sound DT_N_S_soc_S_pwm_4002d000) DT_N_S_soc_S_pwm_4002d000_P"
  "list_all (prop_sound DT_N_S_soc_S_qdec_40012000) DT_N_S_soc_S_qdec_40012000_P"
  "list_all (prop_sound DT_N_S_soc_S_random_4000d000) DT_N_S_soc_S_random_4000d000_P"
  "list_all (prop_sound DT_N_S_soc_S_rtc_4000b000) DT_N_S_soc_S_rtc_4000b000_P"
  "list_all (prop_sound DT_N_S_soc_S_rtc_40011000) DT_N_S_soc_S_rtc_40011000_P"
  "list_all (prop_sound DT_N_S_soc_S_rtc_40024000) DT_N_S_soc_S_rtc_40024000_P"
  "list_all (prop_sound DT_N_S_soc_S_spi_40003000) DT_N_S_soc_S_spi_40003000_P"
  "list_all (prop_sound DT_N_S_soc_S_spi_40023000) DT_N_S_soc_S_spi_40023000_P"
  "list_all (prop_sound DT_N_S_soc_S_gpio_50000300) DT_N_S_soc_S_gpio_50000300_P0"
  "list_all (prop_sound DT_N_S_soc_S_gpio_50000300) DT_N_S_soc_S_gpio_50000300_P1"
  "list_all (prop_sound DT_N_S_soc_S_gpio_50000300) DT_N_S_soc_S_gpio_50000300_P2"
  "list_all (prop_sound DT_N_S_soc_S_spi_4002f000) DT_N_S_soc_S_spi_4002f000_P"
  by (simp_all add: prop_eval upt_start dec.simps dec_digit_def char_of_def bit_Suc_0_iff
      DT_N_S_soc_S_pwm_40021000_def
      DT_N_S_soc_S_pwm_40022000_def
      DT_N_S_soc_S_pwm_4002d000_def
      DT_N_S_soc_S_qdec_40012000_def
      DT_N_S_soc_S_random_4000d000_def
      DT_N_S_soc_S_rtc_4000b000_def
      DT_N_S_soc_S_rtc_40011000_def
      DT_N_S_soc_S_rtc_40024000_def
      DT_N_S_soc_S_spi_40003000_def
      DT_N_S_soc_S_spi_40023000_def
      DT_N_S_soc_S_gpio_50000300_def
      DT_N_S_soc_S_spi_4002f000_def
      DT_N_S_soc_S_pwm_40021000_P_def
      DT_N_S_soc_S_pwm_40022000_P_def
      DT_N_S_soc_S_pwm_4002d000_P_def
      DT_N_S_soc_S_qdec_40012000_P_def
      DT_N_S_soc_S_random_4000d000_P_def
      DT_N_S_soc_S_rtc_4000b000_P_def
      DT_N_S_soc_S_rtc_40011000_P_def
      DT_N_S_soc_S_rtc_40024000_P_def
      DT_N_S_soc_S_spi_40003000_P_def
      DT_N_S_soc_S_spi_40023000_P_def
      DT_N_S_soc_S_gpio_50000300_P0_def
      DT_N_S_soc_S_gpio_50000300_P1_def
      DT_N_S_soc_S_gpio_50000300_P2_def
      DT_N_S_soc_S_spi_4002f000_P_def)

lemma sound_7:
  "list_all (prop_sound DT_N_S_soc_S_temp_4000c000) DT_N_S_soc_S_temp_4000c000_P"
  "list_all (prop_sound DT_N_S_soc_S_timer_40008000) DT_N_S_soc_S_timer_40008000_P"
  "list_all (prop_sound DT_N_S_soc_S_timer_4000a000) DT_N_S_soc_S_timer_4000a000_P"
  "list_all (prop_sound DT_N_S_soc_S_timer_4001a000) DT_N_S_soc_S_timer_4001a000_P"
  "list_all (prop_sound DT_N_S_soc_S_timer_4001b000) DT_N_S_soc_S_timer_4001b000_P"
  "list_all (prop_sound DT_N_S_soc_S_timer_e000e010) DT_N_S_soc_S_timer_e000e010_P"
  "list_all (prop_sound DT_N_S_soc_S_uart_40002000) DT_N_S_soc_S_uart_40002000_P"
  "list_all (prop_sound DT_N_S_soc_S_uart_40028000) DT_N_S_soc_S_uart_40028000_P"
  "list_all (prop_sound DT_N_S_soc_S_uicr_10001000) DT_N_S_soc_S_uicr_10001000_P"
  "list_all (prop_sound DT_N_S_soc_S_usbd_40027000) DT_N_S_soc_S_usbd_40027000_P"
  "list_all (prop_sound DT_N_S_soc_S_watchdog_40010000) DT_N_S_soc_S_watchdog_40010000_P"
  "list_all (prop_sound DT_N_S_soc_S_flash_controller_4001e000) DT_N_S_soc_S_flash_controller_4001e000_P"
  by (simp_all add: prop_eval upt_start dec.simps dec_digit_def char_of_def bit_Suc_0_iff
      DT_N_S_soc_S_temp_4000c000_def
      DT_N_S_soc_S_timer_40008000_def
      DT_N_S_soc_S_timer_4000a000_def
      DT_N_S_soc_S_timer_4001a000_def
      DT_N_S_soc_S_timer_4001b000_def
      DT_N_S_soc_S_timer_e000e010_def
      DT_N_S_soc_S_uart_40002000_def
      DT_N_S_soc_S_uart_40028000_def
      DT_N_S_soc_S_uicr_10001000_def
      DT_N_S_soc_S_usbd_40027000_def
      DT_N_S_soc_S_watchdog_40010000_def
      DT_N_S_soc_S_flash_controller_4001e000_def
      DT_N_S_soc_S_temp_4000c000_P_def
      DT_N_S_soc_S_timer_40008000_P_def
      DT_N_S_soc_S_timer_4000a000_P_def
      DT_N_S_soc_S_timer_4001a000_P_def
      DT_N_S_soc_S_timer_4001b000_P_def
      DT_N_S_soc_S_timer_e000e010_P_def
      DT_N_S_soc_S_uart_40002000_P_def
      DT_N_S_soc_S_uart_40028000_P_def
      DT_N_S_soc_S_uicr_10001000_P_def
      DT_N_S_soc_S_usbd_40027000_P_def
      DT_N_S_soc_S_watchdog_40010000_P_def
      DT_N_S_soc_S_flash_controller_4001e000_P_def)

lemma sound_8:
  "list_all (prop_sound DT_N_S_soc_S_flash_controller_4001e000_S_flash_0) DT_N_S_soc_S_flash_controller_4001e000_S_flash_0_P"
  "list_all (prop_sound DT_N_S_soc_S_flash_controller_4001e000_S_flash_0_S_partitions_S_partition_0) DT_N_S_soc_S_flash_controller_4001e000_S_flash_0_S_partitions_S_partition_0_P"
  "list_all (prop_sound DT_N_S_soc_S_flash_controller_4001e000_S_flash_0_S_partitions_S_partition_c000) DT_N_S_soc_S_flash_controller_4001e000_S_flash_0_S_partitions_S_partition_c000_P"
  "list_all (prop_sound DT_N_S_soc_S_flash_controller_4001e000_S_flash_0_S_partitions_S_partition_82000) DT_N_S_soc_S_flash_controller_4001e000_S_flash_0_S_partitions_S_partition_82000_P"
  "list_all (prop_sound DT_N_S_soc_S_flash_controller_4001e000_S_flash_0_S_partitions_S_partition_f8000) DT_N_S_soc_S_flash_controller_4001e000_S_flash_0_S_partitions_S_partition_f8000_P"
  "list_all (prop_sound DT_N_S_soc_S_power_40000000) DT_N_S_soc_S_power_40000000_P"
  "list_all (prop_sound DT_N_S_soc_S_power_40000000_S_gpregret2_40000520) DT_N_S_soc_S_power_40000000_S_gpregret2_40000520_P"
  "list_all (prop_sound DT_N_S_soc_S_power_40000000_S_regulator_40000578) DT_N_S_soc_S_power_40000000_S_regulator_40000578_P"
  "list_all (prop_sound DT_N_S_soc_S_power_40000000_S_regulator_40000580) DT_N_S_soc_S_power_40000000_S_regulator_40000580_P"
  "list_all (prop_sound DT_N_S_soc_S_power_40000000_S_gpregret1_4000051c) DT_N_S_soc_S_power_40000000_S_gpregret1_4000051c_P"
  "list_all (prop_sound DT_N_S_soc_S_power_40000000_S_gpregret1_4000051c_S_boot_mode_0) DT_N_S_soc_S_power_40000000_S_gpregret1_4000051c_S_boot_mode_0_P"
  "list_all (prop_sound DT_N_S_soc_S_qspi_40029000) DT_N_S_soc_S_qspi_40029000_P"
  by (simp_all add: prop_eval upt_start dec.simps dec_digit_def char_of_def bit_Suc_0_iff
      DT_N_S_soc_S_flash_controller_4001e000_S_flash_0_def
      DT_N_S_soc_S_flash_controller_4001e000_S_flash_0_S_partitions_S_partition_0_def
      DT_N_S_soc_S_flash_controller_4001e000_S_flash_0_S_partitions_S_partition_c000_def
      DT_N_S_soc_S_flash_controller_4001e000_S_flash_0_S_partitions_S_partition_82000_def
      DT_N_S_soc_S_flash_controller_4001e000_S_flash_0_S_partitions_S_partition_f8000_def
      DT_N_S_soc_S_power_40000000_def
      DT_N_S_soc_S_power_40000000_S_gpregret2_40000520_def
      DT_N_S_soc_S_power_40000000_S_regulator_40000578_def
      DT_N_S_soc_S_power_40000000_S_regulator_40000580_def
      DT_N_S_soc_S_power_40000000_S_gpregret1_4000051c_def
      DT_N_S_soc_S_power_40000000_S_gpregret1_4000051c_S_boot_mode_0_def
      DT_N_S_soc_S_qspi_40029000_def
      DT_N_S_soc_S_flash_controller_4001e000_S_flash_0_P_def
      DT_N_S_soc_S_flash_controller_4001e000_S_flash_0_S_partitions_S_partition_0_P_def
      DT_N_S_soc_S_flash_controller_4001e000_S_flash_0_S_partitions_S_partition_c000_P_def
      DT_N_S_soc_S_flash_controller_4001e000_S_flash_0_S_partitions_S_partition_82000_P_def
      DT_N_S_soc_S_flash_controller_4001e000_S_flash_0_S_partitions_S_partition_f8000_P_def
      DT_N_S_soc_S_power_40000000_P_def
      DT_N_S_soc_S_power_40000000_S_gpregret2_40000520_P_def
      DT_N_S_soc_S_power_40000000_S_regulator_40000578_P_def
      DT_N_S_soc_S_power_40000000_S_regulator_40000580_P_def
      DT_N_S_soc_S_power_40000000_S_gpregret1_4000051c_P_def
      DT_N_S_soc_S_power_40000000_S_gpregret1_4000051c_S_boot_mode_0_P_def
      DT_N_S_soc_S_qspi_40029000_P_def)

lemma sound_9:
  "list_all (prop_sound DT_N_S_soc_S_qspi_40029000_S_mx25r6435f_0) DT_N_S_soc_S_qspi_40029000_S_mx25r6435f_0_P0"
  "list_all (prop_sound DT_N_S_soc_S_qspi_40029000_S_mx25r6435f_0) DT_N_S_soc_S_qspi_40029000_S_mx25r6435f_0_P1"
  "list_all (prop_sound DT_N_S_soc_S_radio_40001000) DT_N_S_soc_S_radio_40001000_P"
  "list_all (prop_sound DT_N_S_soc_S_radio_40001000_S_bt_hci_controller) DT_N_S_soc_S_radio_40001000_S_bt_hci_controller_P"
  "list_all (prop_sound DT_N_S_soc_S_radio_40001000_S_bt_hci_sdc) DT_N_S_soc_S_radio_40001000_S_bt_hci_sdc_P"
  "list_all (prop_sound DT_N_S_soc_S_radio_40001000_S_ieee802154) DT_N_S_soc_S_radio_40001000_S_ieee802154_P"
  "list_all (prop_sound DT_N_S_soc_S_spi_40004000) DT_N_S_soc_S_spi_40004000_P"
  "list_all (prop_sound DT_N_S_soc_S_spi_40004000_S_nrf7002_0) DT_N_S_soc_S_spi_40004000_S_nrf7002_0_P"
  "list_all (prop_sound DT_N_S_soc_S_spi_40004000_S_nrf7002_0_S_wlan) DT_N_S_soc_S_spi_40004000_S_nrf7002_0_S_wlan_P"
  by (simp_all add: prop_eval upt_start dec.simps dec_digit_def char_of_def bit_Suc_0_iff
      DT_N_S_soc_S_qspi_40029000_S_mx25r6435f_0_def
      DT_N_S_soc_S_radio_40001000_def
      DT_N_S_soc_S_radio_40001000_S_bt_hci_controller_def
      DT_N_S_soc_S_radio_40001000_S_bt_hci_sdc_def
      DT_N_S_soc_S_radio_40001000_S_ieee802154_def
      DT_N_S_soc_S_spi_40004000_def
      DT_N_S_soc_S_spi_40004000_S_nrf7002_0_def
      DT_N_S_soc_S_spi_40004000_S_nrf7002_0_S_wlan_def
      DT_N_S_soc_S_qspi_40029000_S_mx25r6435f_0_P0_def
      DT_N_S_soc_S_qspi_40029000_S_mx25r6435f_0_P1_def
      DT_N_S_soc_S_radio_40001000_P_def
      DT_N_S_soc_S_radio_40001000_S_bt_hci_controller_P_def
      DT_N_S_soc_S_radio_40001000_S_bt_hci_sdc_P_def
      DT_N_S_soc_S_radio_40001000_S_ieee802154_P_def
      DT_N_S_soc_S_spi_40004000_P_def
      DT_N_S_soc_S_spi_40004000_S_nrf7002_0_P_def
      DT_N_S_soc_S_spi_40004000_S_nrf7002_0_S_wlan_P_def)

lemma list_all_both: "list_all (prop_sound n) ps \<Longrightarrow> list_all prop_consistent ps \<and> list_all (prop_matches n) ps"
  by (simp add: list_all_iff prop_sound_def)

lemma all_sound: "list_all (\<lambda>(n, ps). list_all (prop_sound n) ps) dt_properties"
  by (simp only: dt_properties_def list.pred_inject prod.case list_all_append simp_thms
      sound_0 sound_1 sound_2 sound_3 sound_4 sound_5 sound_6 sound_7 sound_8 sound_9)

text \<open>C18. The generic properties are consistent, with themselves and with the rest of their node. For each
  property of each node: every index has its element and the value macro lists the elements; the four
  loop macros visit the indices up to the length, each once and in order; token and upper-case token of
  a string are computed from it; an enumeration value is named after the value. And \<^verbatim>\<open>reg\<close>,
  \<^verbatim>\<open>reg-names\<close>, \<^verbatim>\<open>interrupts\<close>, \<^verbatim>\<open>compatible\<close> and \<^verbatim>\<open>status\<close> say
  what the register, interrupt, compatible and status macros of the node say, and every node that a
  property refers to is among those that the node requires.\<close>

theorem devicetree_properties:
  "list_all (\<lambda>(n, ps). list_all prop_consistent ps \<and> list_all (prop_matches n) ps) dt_properties"
  using all_sound list_all_both by (fastforce simp: list_all_iff)

end
