(* ===== verification/Crypto_Tables.thy ===== *)
theory Crypto_Tables
  imports Prelude
begin

text \<open>
  The generated configuration headers of the cryptography library, one row per directive, in the order of
  the files: \<^verbatim>\<open>nrf-config.h\<close> as the library is built with it and as its users see it,
  \<^verbatim>\<open>nrf-psa-crypto-config.h\<close> in the same two copies, and \<^verbatim>\<open>nrf-psa-crypto-user-config.h\<close>.
  The options of \<^verbatim>\<open>nrf-config.h\<close> carry their names without the prefix \<^verbatim>\<open>MBEDTLS_\<close> that all
  of them have, and where the comment of a defined option says what it requires, a row of requirements says it too:
  a list of clauses, each a list of options of which one has to be defined.
\<close>

text \<open>A directive: a macro defined with a value (the empty one mostly), one left undefined by the
  configuration, a template line that is commented out, or a definition inside
  \<^verbatim>\<open>#if CONFIG_...\<close>.\<close>

datatype directive = Define string | Undefined | Commented | Define_If string string

text \<open>The library's own configuration.\<close>

definition nrf_config_library_0 :: "(string \<times> directive) list" where
  "nrf_config_library_0 = [
     (''CONFIG_VERSION'', Commented), (''HAVE_ASM'', Define []), (''NO_UDBL_DIVISION'', Commented),
     (''NO_64BIT_MULTIPLICATION'', Commented), (''HAVE_SSE2'', Commented), (''HAVE_TIME'', Commented),
     (''HAVE_TIME_DATE'', Commented), (''PLATFORM_MEMORY'', Define [])]"

definition nrf_config_library_1 :: "(string \<times> directive) list" where
  "nrf_config_library_1 = [
     (''PLATFORM_NO_STD_FUNCTIONS'', Undefined), (''PLATFORM_EXIT_ALT'', Undefined),
     (''PLATFORM_TIME_ALT'', Commented), (''PLATFORM_FPRINTF_ALT'', Undefined),
     (''PLATFORM_PRINTF_ALT'', Undefined), (''PLATFORM_SNPRINTF_ALT'', Undefined),
     (''PLATFORM_NV_SEED_ALT'', Commented), (''PLATFORM_SETUP_TEARDOWN_ALT'', Undefined),
     (''DEPRECATED_WARNING'', Undefined), (''DEPRECATED_REMOVED'', Undefined), (''TIMING_ALT'', Commented),
     (''AES_ALT'', Undefined), (''ARIA_ALT'', Commented), (''CAMELLIA_ALT'', Commented),
     (''CCM_ALT'', Undefined), (''CHACHA20_ALT'', Define []), (''CHACHAPOLY_ALT'', Undefined),
     (''CMAC_ALT'', Undefined), (''DES_ALT'', Commented), (''DHM_ALT'', Undefined),
     (''ECJPAKE_ALT'', Define []), (''GCM_ALT'', Undefined), (''NIST_KW_ALT'', Commented),
     (''MD5_ALT'', Commented), (''POLY1305_ALT'', Define []), (''RIPEMD160_ALT'', Commented),
     (''RSA_ALT'', Undefined), (''SHA1_ALT'', Define []), (''SHA256_ALT'', Define []),
     (''SHA512_ALT'', Undefined), (''ECP_ALT'', Undefined)]"

definition nrf_config_library_2 :: "(string \<times> directive) list" where
  "nrf_config_library_2 = [
     (''MD5_PROCESS_ALT'', Commented), (''RIPEMD160_PROCESS_ALT'', Commented),
     (''SHA1_PROCESS_ALT'', Commented), (''SHA256_PROCESS_ALT'', Commented),
     (''SHA512_PROCESS_ALT'', Commented), (''DES_SETKEY_ALT'', Commented), (''DES_CRYPT_ECB_ALT'', Commented),
     (''DES3_CRYPT_ECB_ALT'', Commented), (''AES_SETKEY_ENC_ALT'', Define []),
     (''AES_SETKEY_DEC_ALT'', Define []), (''AES_ENCRYPT_ALT'', Define []), (''AES_DECRYPT_ALT'', Define []),
     (''ECDH_GEN_PUBLIC_ALT'', Define []), (''ECDH_COMPUTE_SHARED_ALT'', Define []),
     (''ECDSA_VERIFY_ALT'', Define []), (''ECDSA_SIGN_ALT'', Define []), (''ECDSA_GENKEY_ALT'', Define []),
     (''ECP_INTERNAL_ALT'', Commented), (''ECP_NO_FALLBACK'', Commented),
     (''ECP_RANDOMIZE_JAC_ALT'', Commented), (''ECP_ADD_MIXED_ALT'', Commented),
     (''ECP_DOUBLE_JAC_ALT'', Commented), (''ECP_NORMALIZE_JAC_MANY_ALT'', Commented),
     (''ECP_NORMALIZE_JAC_ALT'', Commented), (''ECP_DOUBLE_ADD_MXZ_ALT'', Commented),
     (''ECP_RANDOMIZE_MXZ_ALT'', Commented), (''ECP_NORMALIZE_MXZ_ALT'', Commented),
     (''ENTROPY_HARDWARE_ALT'', Define []), (''AES_ROM_TABLES'', Undefined), (''AES_FEWER_TABLES'', Undefined)]"

definition nrf_config_library_3 :: "(string \<times> directive) list" where
  "nrf_config_library_3 = [
     (''AES_ONLY_128_BIT_KEY_LENGTH'', Undefined), (''CAMELLIA_SMALL_MEMORY'', Commented),
     (''CIPHER_MODE_CBC'', Define []), (''CIPHER_MODE_CTR'', Define []), (''CIPHER_MODE_XTS'', Undefined),
     (''CIPHER_NULL_CIPHER'', Commented), (''CIPHER_PADDING_PKCS7'', Define []),
     (''CIPHER_PADDING_ONE_AND_ZEROS'', Define []), (''CIPHER_PADDING_ZEROS_AND_LEN'', Define []),
     (''CIPHER_PADDING_ZEROS'', Define []), (''CTR_DRBG_USE_128_BIT_KEY'', Define []),
     (''ECP_DP_SECP192R1_ENABLED'', Undefined), (''ECP_DP_SECP224R1_ENABLED'', Undefined),
     (''ECP_DP_SECP256R1_ENABLED'', Define []), (''ECP_DP_SECP384R1_ENABLED'', Define []),
     (''ECP_DP_SECP521R1_ENABLED'', Undefined), (''ECP_DP_SECP192K1_ENABLED'', Undefined),
     (''ECP_DP_SECP224K1_ENABLED'', Undefined), (''ECP_DP_SECP256K1_ENABLED'', Undefined),
     (''ECP_DP_BP256R1_ENABLED'', Undefined), (''ECP_DP_BP384R1_ENABLED'', Undefined),
     (''ECP_DP_BP512R1_ENABLED'', Undefined), (''ECP_DP_CURVE25519_ENABLED'', Undefined),
     (''ECP_DP_CURVE448_ENABLED'', Undefined), (''ECP_NIST_OPTIM'', Define []),
     (''ECP_RESTARTABLE'', Commented)]"

definition nrf_config_library_4 :: "(string \<times> directive) list" where
  "nrf_config_library_4 = [
     (''ECDSA_DETERMINISTIC'', Define []), (''KEY_EXCHANGE_PSK_ENABLED'', Define []),
     (''KEY_EXCHANGE_DHE_PSK_ENABLED'', Define []), (''KEY_EXCHANGE_ECDHE_PSK_ENABLED'', Define []),
     (''KEY_EXCHANGE_RSA_PSK_ENABLED'', Define []), (''KEY_EXCHANGE_RSA_ENABLED'', Define []),
     (''KEY_EXCHANGE_DHE_RSA_ENABLED'', Define [])]"

definition nrf_config_library_5 :: "(string \<times> directive) list" where
  "nrf_config_library_5 = [
     (''KEY_EXCHANGE_ECDHE_RSA_ENABLED'', Define []), (''KEY_EXCHANGE_ECDHE_ECDSA_ENABLED'', Define []),
     (''KEY_EXCHANGE_ECDH_ECDSA_ENABLED'', Define []), (''KEY_EXCHANGE_ECDH_RSA_ENABLED'', Define []),
     (''KEY_EXCHANGE_ECJPAKE_ENABLED'', Define []), (''PK_PARSE_EC_EXTENDED'', Define []),
     (''ERROR_STRERROR_DUMMY'', Define []), (''GENPRIME'', Define []), (''FS_IO'', Commented),
     (''NO_DEFAULT_ENTROPY_SOURCES'', Commented)]"

definition nrf_config_library_6 :: "(string \<times> directive) list" where
  "nrf_config_library_6 = [
     (''NO_PLATFORM_ENTROPY'', Define []), (''ENTROPY_FORCE_SHA256'', Define []),
     (''ENTROPY_NV_SEED'', Commented), (''PSA_CRYPTO_KEY_ID_ENCODES_OWNER'', Undefined),
     (''MEMORY_DEBUG'', Undefined), (''MEMORY_BACKTRACE'', Commented), (''PK_RSA_ALT_SUPPORT'', Commented),
     (''PKCS1_V15'', Define []), (''PKCS1_V21'', Define []), (''PSA_CRYPTO_CLIENT'', Define []),
     (''PSA_CRYPTO_DRIVERS'', Commented)]"

definition nrf_config_library_7 :: "(string \<times> directive) list" where
  "nrf_config_library_7 = [
     (''PSA_CRYPTO_EXTERNAL_RNG'', Define []), (''PSA_CRYPTO_SPM'', Undefined),
     (''PSA_INJECT_ENTROPY'', Commented), (''RSA_NO_CRT'', Commented), (''SELF_TEST'', Commented),
     (''SHA256_SMALLER'', Undefined), (''SHA512_SMALLER'', Undefined), (''SSL_ALL_ALERT_MESSAGES'', Define []),
     (''SSL_DTLS_CONNECTION_ID'', Undefined), (''SSL_ASYNC_PRIVATE'', Commented)]"

definition nrf_config_library_8 :: "(string \<times> directive) list" where
  "nrf_config_library_8 = [
     (''SSL_CONTEXT_SERIALIZATION'', Define []), (''SSL_DEBUG_ALL'', Undefined),
     (''SSL_ENCRYPT_THEN_MAC'', Undefined), (''SSL_EXTENDED_MASTER_SECRET'', Define []),
     (''SSL_KEEP_PEER_CERTIFICATE'', Define []), (''SSL_RENEGOTIATION'', Undefined),
     (''SSL_MAX_FRAGMENT_LENGTH'', Define []), (''SSL_PROTO_TLS1_2'', Define []),
     (''SSL_PROTO_TLS1_3_EXPERIMENTAL'', Commented), (''SSL_PROTO_DTLS'', Undefined)]"

definition nrf_config_library_9 :: "(string \<times> directive) list" where
  "nrf_config_library_9 = [
     (''SSL_ALPN'', Undefined), (''SSL_DTLS_ANTI_REPLAY'', Undefined), (''SSL_DTLS_HELLO_VERIFY'', Undefined),
     (''SSL_DTLS_SRTP'', Undefined), (''SSL_DTLS_CLIENT_PORT_REUSE'', Undefined),
     (''SSL_SESSION_TICKETS'', Undefined), (''SSL_EXPORT_KEYS'', Define []),
     (''SSL_SERVER_NAME_INDICATION'', Define []), (''SSL_VARIABLE_BUFFER_LENGTH'', Commented),
     (''TEST_CONSTANT_FLOW_MEMSAN'', Commented)]"

definition nrf_config_library_10 :: "(string \<times> directive) list" where
  "nrf_config_library_10 = [
     (''TEST_CONSTANT_FLOW_VALGRIND'', Commented), (''TEST_HOOKS'', Commented), (''THREADING_ALT'', Define []),
     (''THREADING_PTHREAD'', Commented), (''USE_PSA_CRYPTO'', Undefined), (''PSA_CRYPTO_CONFIG'', Define []),
     (''VERSION_FEATURES'', Define []), (''X509_TRUSTED_CERTIFICATE_CALLBACK'', Commented),
     (''X509_REMOVE_INFO'', Define []), (''X509_RSASSA_PSS_SUPPORT'', Undefined)]"

definition nrf_config_library_11 :: "(string \<times> directive) list" where
  "nrf_config_library_11 = [
     (''AESNI_C'', Commented), (''AES_C'', Define []), (''ASN1_PARSE_C'', Define []),
     (''ASN1_WRITE_C'', Define []), (''BASE64_C'', Define []), (''BIGNUM_C'', Define [])]"

definition nrf_config_library_12 :: "(string \<times> directive) list" where
  "nrf_config_library_12 = [
     (''CAMELLIA_C'', Undefined), (''ARIA_C'', Undefined), (''CCM_C'', Define []), (''CHACHA20_C'', Define []),
     (''CHACHAPOLY_C'', Define []), (''CIPHER_C'', Define []), (''CMAC_C'', Define []),
     (''CTR_DRBG_C'', Define [])]"

definition nrf_config_library_13 :: "(string \<times> directive) list" where
  "nrf_config_library_13 = [
     (''DEBUG_C'', Undefined), (''DES_C'', Commented), (''DHM_C'', Define []), (''ECDH_C'', Define []),
     (''ECDSA_C'', Define []), (''ECJPAKE_C'', Define []), (''ECP_C'', Define []), (''ENTROPY_C'', Define []),
     (''ERROR_C'', Undefined), (''GCM_C'', Define [])]"

definition nrf_config_library_14 :: "(string \<times> directive) list" where
  "nrf_config_library_14 = [
     (''HKDF_C'', Define []), (''HMAC_DRBG_C'', Define []), (''NIST_KW_C'', Commented), (''MD_C'', Define []),
     (''MD5_C'', Define []), (''MEMORY_BUFFER_ALLOC_C'', Define []), (''NET_C'', Commented),
     (''OID_C'', Define []), (''PADLOCK_C'', Commented)]"

definition nrf_config_library_15 :: "(string \<times> directive) list" where
  "nrf_config_library_15 = [
     (''PEM_PARSE_C'', Define []), (''PEM_WRITE_C'', Define []), (''PK_C'', Define []),
     (''PK_PARSE_C'', Define []), (''PK_WRITE_C'', Define []), (''PKCS5_C'', Define []),
     (''PKCS12_C'', Commented), (''PLATFORM_C'', Define []), (''POLY1305_C'', Define []),
     (''PSA_CRYPTO_C'', Define [])]"

definition nrf_config_library_16 :: "(string \<times> directive) list" where
  "nrf_config_library_16 = [
     (''PSA_CRYPTO_SE_C'', Commented), (''PSA_CRYPTO_STORAGE_C'', Undefined), (''PSA_ITS_FILE_C'', Commented),
     (''RIPEMD160_C'', Undefined), (''RSA_C'', Define []), (''SHA1_C'', Define []), (''SHA224_C'', Define []),
     (''SHA256_C'', Define []), (''SHA384_C'', Define []), (''SHA512_C'', Define [])]"

definition nrf_config_library_17 :: "(string \<times> directive) list" where
  "nrf_config_library_17 = [
     (''SSL_CACHE_C'', Undefined), (''SSL_COOKIE_C'', Define []), (''SSL_TICKET_C'', Undefined),
     (''SSL_CLI_C'', Define []), (''SSL_SRV_C'', Define []), (''SSL_TLS_C'', Define []),
     (''THREADING_C'', Define []), (''TIMING_C'', Commented), (''VERSION_C'', Define []),
     (''X509_USE_C'', Define [])]"

definition nrf_config_library_18 :: "(string \<times> directive) list" where
  "nrf_config_library_18 = [
     (''X509_CRT_PARSE_C'', Define []), (''X509_CRL_PARSE_C'', Define []), (''X509_CSR_PARSE_C'', Define []),
     (''X509_CREATE_C'', Undefined), (''X509_CRT_WRITE_C'', Undefined), (''X509_CSR_WRITE_C'', Undefined),
     (''MPI_WINDOW_SIZE'', Define ''6''), (''MPI_MAX_SIZE'', Define ''384''),
     (''CTR_DRBG_ENTROPY_LEN'', Commented), (''CTR_DRBG_RESEED_INTERVAL'', Define ''0xFFF0''),
     (''CTR_DRBG_MAX_INPUT'', Commented), (''CTR_DRBG_MAX_REQUEST'', Commented),
     (''CTR_DRBG_MAX_SEED_INPUT'', Commented), (''HMAC_DRBG_RESEED_INTERVAL'', Commented),
     (''HMAC_DRBG_MAX_INPUT'', Commented), (''HMAC_DRBG_MAX_REQUEST'', Commented),
     (''HMAC_DRBG_MAX_SEED_INPUT'', Commented), (''ECP_WINDOW_SIZE'', Undefined),
     (''ECP_FIXED_POINT_OPTIM'', Undefined), (''ENTROPY_MAX_SOURCES'', Define ''1''),
     (''ENTROPY_MAX_GATHER'', Define ''144''), (''ENTROPY_MIN_HARDWARE'', Commented),
     (''MEMORY_ALIGN_MULTIPLE'', Commented), (''PLATFORM_STD_MEM_HDR'', Commented),
     (''PLATFORM_STD_CALLOC'', Commented), (''PLATFORM_STD_FREE'', Commented),
     (''PLATFORM_STD_EXIT'', Commented), (''PLATFORM_STD_TIME'', Commented),
     (''PLATFORM_STD_FPRINTF'', Commented), (''PLATFORM_STD_PRINTF'', Commented),
     (''PLATFORM_STD_SNPRINTF'', Commented), (''PLATFORM_STD_EXIT_SUCCESS'', Commented),
     (''PLATFORM_STD_EXIT_FAILURE'', Commented), (''PLATFORM_STD_NV_SEED_READ'', Commented),
     (''PLATFORM_STD_NV_SEED_WRITE'', Commented), (''PLATFORM_STD_NV_SEED_FILE'', Commented),
     (''PLATFORM_CALLOC_MACRO'', Commented), (''PLATFORM_FREE_MACRO'', Commented),
     (''PLATFORM_EXIT_MACRO'', Commented), (''PLATFORM_TIME_MACRO'', Commented),
     (''PLATFORM_TIME_TYPE_MACRO'', Commented), (''PLATFORM_FPRINTF_MACRO'', Commented),
     (''PLATFORM_PRINTF_MACRO'', Commented), (''PLATFORM_SNPRINTF_MACRO'', Commented),
     (''PLATFORM_VSNPRINTF_MACRO'', Commented), (''PLATFORM_NV_SEED_READ_MACRO'', Commented),
     (''PLATFORM_NV_SEED_WRITE_MACRO'', Commented)]"

definition nrf_config_library_19 :: "(string \<times> directive) list" where
  "nrf_config_library_19 = [
     (''PSA_HMAC_DRBG_MD_TYPE'', Commented), (''PSA_KEY_SLOT_COUNT'', Undefined),
     (''SSL_CACHE_DEFAULT_TIMEOUT'', Commented), (''SSL_CACHE_DEFAULT_MAX_ENTRIES'', Commented),
     (''SSL_IN_CONTENT_LEN'', Define ''2048''), (''SSL_CID_IN_LEN_MAX'', Commented),
     (''SSL_CID_OUT_LEN_MAX'', Commented), (''SSL_CID_TLS1_3_PADDING_GRANULARITY'', Commented),
     (''SSL_OUT_CONTENT_LEN'', Define ''2048''), (''SSL_DTLS_MAX_BUFFERING'', Commented),
     (''PSK_MAX_LEN'', Commented), (''SSL_COOKIE_TIMEOUT'', Commented), (''SSL_CIPHERSUITES'', Undefined),
     (''X509_MAX_INTERMEDIATE_CA'', Commented), (''X509_MAX_FILE_PATH_LEN'', Commented),
     (''PLATFORM_ZEROIZE_ALT'', Commented)]"

definition nrf_config_library_20 :: "(string \<times> directive) list" where
  "nrf_config_library_20 = [
     (''PLATFORM_GMTIME_R_ALT'', Commented), (''ECDH_VARIANT_EVEREST_ENABLED'', Commented),
     (''MPI_WINDOW_SIZE'', Define_If ''MBEDTLS_OPENTHREAD_OPTIMIZATIONS_ENABLED'' ''1''),
     (''MPI_MAX_SIZE'', Define_If ''MBEDTLS_OPENTHREAD_OPTIMIZATIONS_ENABLED'' ''32''),
     (''ECP_WINDOW_SIZE'', Define_If ''MBEDTLS_OPENTHREAD_OPTIMIZATIONS_ENABLED'' ''2''),
     (''ECP_FIXED_POINT_OPTIM'', Define_If ''MBEDTLS_OPENTHREAD_OPTIMIZATIONS_ENABLED'' ''0''),
     (''SSL_CLI_ALLOW_WEAK_CERTIFICATE_VERIFICATION_WITHOUT_HOSTNAME'', Define_If ''MBEDTLS_SSL_CLI_ALLOW_WEAK_CERTIFICATE_VERIFICATION_WITHOUT_HOSTNAME'' []),
     (''CIPHER_MODE_CBC'', Define_If ''MBEDTLS_CMAC_ALT'' [])]"

definition nrf_config_library :: "(string \<times> directive) list" where
  "nrf_config_library =
     nrf_config_library_0 @ nrf_config_library_1 @ nrf_config_library_2 @ nrf_config_library_3 @
     nrf_config_library_4 @ nrf_config_library_5 @ nrf_config_library_6 @ nrf_config_library_7 @
     nrf_config_library_8 @ nrf_config_library_9 @ nrf_config_library_10 @ nrf_config_library_11 @
     nrf_config_library_12 @ nrf_config_library_13 @ nrf_config_library_14 @ nrf_config_library_15 @
     nrf_config_library_16 @ nrf_config_library_17 @ nrf_config_library_18 @ nrf_config_library_19 @
     nrf_config_library_20"

lemmas nrf_config_library_defs = nrf_config_library_def
  nrf_config_library_0_def nrf_config_library_1_def nrf_config_library_2_def nrf_config_library_3_def
  nrf_config_library_4_def nrf_config_library_5_def nrf_config_library_6_def nrf_config_library_7_def
  nrf_config_library_8_def nrf_config_library_9_def nrf_config_library_10_def nrf_config_library_11_def
  nrf_config_library_12_def nrf_config_library_13_def nrf_config_library_14_def nrf_config_library_15_def
  nrf_config_library_16_def nrf_config_library_17_def nrf_config_library_18_def nrf_config_library_19_def
  nrf_config_library_20_def

text \<open>The configuration that users of the library see.\<close>

definition nrf_config_interface_0 :: "(string \<times> directive) list" where
  "nrf_config_interface_0 = [
     (''CONFIG_VERSION'', Commented), (''HAVE_ASM'', Define []), (''NO_UDBL_DIVISION'', Commented),
     (''NO_64BIT_MULTIPLICATION'', Commented), (''HAVE_SSE2'', Commented), (''HAVE_TIME'', Commented),
     (''HAVE_TIME_DATE'', Commented), (''PLATFORM_MEMORY'', Define [])]"

definition nrf_config_interface_1 :: "(string \<times> directive) list" where
  "nrf_config_interface_1 = [
     (''PLATFORM_NO_STD_FUNCTIONS'', Undefined), (''PLATFORM_EXIT_ALT'', Undefined),
     (''PLATFORM_TIME_ALT'', Commented), (''PLATFORM_FPRINTF_ALT'', Undefined),
     (''PLATFORM_PRINTF_ALT'', Undefined), (''PLATFORM_SNPRINTF_ALT'', Undefined),
     (''PLATFORM_NV_SEED_ALT'', Commented), (''PLATFORM_SETUP_TEARDOWN_ALT'', Undefined),
     (''DEPRECATED_WARNING'', Undefined), (''DEPRECATED_REMOVED'', Undefined), (''TIMING_ALT'', Commented),
     (''AES_ALT'', Undefined), (''ARIA_ALT'', Commented), (''CAMELLIA_ALT'', Commented),
     (''CCM_ALT'', Undefined), (''CHACHA20_ALT'', Define []), (''CHACHAPOLY_ALT'', Undefined),
     (''CMAC_ALT'', Undefined), (''DES_ALT'', Commented), (''DHM_ALT'', Undefined),
     (''ECJPAKE_ALT'', Define []), (''GCM_ALT'', Undefined), (''NIST_KW_ALT'', Commented),
     (''MD5_ALT'', Commented), (''POLY1305_ALT'', Define []), (''RIPEMD160_ALT'', Commented),
     (''RSA_ALT'', Undefined), (''SHA1_ALT'', Define []), (''SHA256_ALT'', Define []),
     (''SHA512_ALT'', Undefined), (''ECP_ALT'', Undefined)]"

definition nrf_config_interface_2 :: "(string \<times> directive) list" where
  "nrf_config_interface_2 = [
     (''MD5_PROCESS_ALT'', Commented), (''RIPEMD160_PROCESS_ALT'', Commented),
     (''SHA1_PROCESS_ALT'', Commented), (''SHA256_PROCESS_ALT'', Commented),
     (''SHA512_PROCESS_ALT'', Commented), (''DES_SETKEY_ALT'', Commented), (''DES_CRYPT_ECB_ALT'', Commented),
     (''DES3_CRYPT_ECB_ALT'', Commented), (''AES_SETKEY_ENC_ALT'', Define []),
     (''AES_SETKEY_DEC_ALT'', Define []), (''AES_ENCRYPT_ALT'', Define []), (''AES_DECRYPT_ALT'', Define []),
     (''ECDH_GEN_PUBLIC_ALT'', Define []), (''ECDH_COMPUTE_SHARED_ALT'', Define []),
     (''ECDSA_VERIFY_ALT'', Define []), (''ECDSA_SIGN_ALT'', Define []), (''ECDSA_GENKEY_ALT'', Define []),
     (''ECP_INTERNAL_ALT'', Commented), (''ECP_NO_FALLBACK'', Commented),
     (''ECP_RANDOMIZE_JAC_ALT'', Commented), (''ECP_ADD_MIXED_ALT'', Commented),
     (''ECP_DOUBLE_JAC_ALT'', Commented), (''ECP_NORMALIZE_JAC_MANY_ALT'', Commented),
     (''ECP_NORMALIZE_JAC_ALT'', Commented), (''ECP_DOUBLE_ADD_MXZ_ALT'', Commented),
     (''ECP_RANDOMIZE_MXZ_ALT'', Commented), (''ECP_NORMALIZE_MXZ_ALT'', Commented),
     (''ENTROPY_HARDWARE_ALT'', Define []), (''AES_ROM_TABLES'', Undefined), (''AES_FEWER_TABLES'', Undefined)]"

definition nrf_config_interface_3 :: "(string \<times> directive) list" where
  "nrf_config_interface_3 = [
     (''AES_ONLY_128_BIT_KEY_LENGTH'', Undefined), (''CAMELLIA_SMALL_MEMORY'', Commented),
     (''CIPHER_MODE_CBC'', Define []), (''CIPHER_MODE_CTR'', Define []), (''CIPHER_MODE_XTS'', Undefined),
     (''CIPHER_NULL_CIPHER'', Commented), (''CIPHER_PADDING_PKCS7'', Define []),
     (''CIPHER_PADDING_ONE_AND_ZEROS'', Define []), (''CIPHER_PADDING_ZEROS_AND_LEN'', Define []),
     (''CIPHER_PADDING_ZEROS'', Define []), (''CTR_DRBG_USE_128_BIT_KEY'', Define []),
     (''ECP_DP_SECP192R1_ENABLED'', Undefined), (''ECP_DP_SECP224R1_ENABLED'', Undefined),
     (''ECP_DP_SECP256R1_ENABLED'', Define []), (''ECP_DP_SECP384R1_ENABLED'', Define []),
     (''ECP_DP_SECP521R1_ENABLED'', Undefined), (''ECP_DP_SECP192K1_ENABLED'', Undefined),
     (''ECP_DP_SECP224K1_ENABLED'', Undefined), (''ECP_DP_SECP256K1_ENABLED'', Undefined),
     (''ECP_DP_BP256R1_ENABLED'', Undefined), (''ECP_DP_BP384R1_ENABLED'', Undefined),
     (''ECP_DP_BP512R1_ENABLED'', Undefined), (''ECP_DP_CURVE25519_ENABLED'', Undefined),
     (''ECP_DP_CURVE448_ENABLED'', Undefined), (''ECP_NIST_OPTIM'', Define []),
     (''ECP_RESTARTABLE'', Commented)]"

definition nrf_config_interface_4 :: "(string \<times> directive) list" where
  "nrf_config_interface_4 = [
     (''ECDSA_DETERMINISTIC'', Define []), (''KEY_EXCHANGE_PSK_ENABLED'', Define []),
     (''KEY_EXCHANGE_DHE_PSK_ENABLED'', Define []), (''KEY_EXCHANGE_ECDHE_PSK_ENABLED'', Define []),
     (''KEY_EXCHANGE_RSA_PSK_ENABLED'', Define []), (''KEY_EXCHANGE_RSA_ENABLED'', Define []),
     (''KEY_EXCHANGE_DHE_RSA_ENABLED'', Define [])]"

definition nrf_config_interface_5 :: "(string \<times> directive) list" where
  "nrf_config_interface_5 = [
     (''KEY_EXCHANGE_ECDHE_RSA_ENABLED'', Define []), (''KEY_EXCHANGE_ECDHE_ECDSA_ENABLED'', Define []),
     (''KEY_EXCHANGE_ECDH_ECDSA_ENABLED'', Define []), (''KEY_EXCHANGE_ECDH_RSA_ENABLED'', Define []),
     (''KEY_EXCHANGE_ECJPAKE_ENABLED'', Define []), (''PK_PARSE_EC_EXTENDED'', Define []),
     (''ERROR_STRERROR_DUMMY'', Define []), (''GENPRIME'', Define []), (''FS_IO'', Commented),
     (''NO_DEFAULT_ENTROPY_SOURCES'', Commented)]"

definition nrf_config_interface_6 :: "(string \<times> directive) list" where
  "nrf_config_interface_6 = [
     (''NO_PLATFORM_ENTROPY'', Define []), (''ENTROPY_FORCE_SHA256'', Define []),
     (''ENTROPY_NV_SEED'', Commented), (''PSA_CRYPTO_KEY_ID_ENCODES_OWNER'', Undefined),
     (''MEMORY_DEBUG'', Undefined), (''MEMORY_BACKTRACE'', Commented), (''PK_RSA_ALT_SUPPORT'', Commented),
     (''PKCS1_V15'', Define []), (''PKCS1_V21'', Define []), (''PSA_CRYPTO_CLIENT'', Define []),
     (''PSA_CRYPTO_DRIVERS'', Commented)]"

definition nrf_config_interface_7 :: "(string \<times> directive) list" where
  "nrf_config_interface_7 = [
     (''PSA_CRYPTO_EXTERNAL_RNG'', Define []), (''PSA_CRYPTO_SPM'', Undefined),
     (''PSA_INJECT_ENTROPY'', Commented), (''RSA_NO_CRT'', Commented), (''SELF_TEST'', Commented),
     (''SHA256_SMALLER'', Undefined), (''SHA512_SMALLER'', Undefined), (''SSL_ALL_ALERT_MESSAGES'', Define []),
     (''SSL_DTLS_CONNECTION_ID'', Undefined), (''SSL_ASYNC_PRIVATE'', Commented)]"

definition nrf_config_interface_8 :: "(string \<times> directive) list" where
  "nrf_config_interface_8 = [
     (''SSL_CONTEXT_SERIALIZATION'', Define []), (''SSL_DEBUG_ALL'', Undefined),
     (''SSL_ENCRYPT_THEN_MAC'', Undefined), (''SSL_EXTENDED_MASTER_SECRET'', Define []),
     (''SSL_KEEP_PEER_CERTIFICATE'', Define []), (''SSL_RENEGOTIATION'', Undefined),
     (''SSL_MAX_FRAGMENT_LENGTH'', Define []), (''SSL_PROTO_TLS1_2'', Define []),
     (''SSL_PROTO_TLS1_3_EXPERIMENTAL'', Commented), (''SSL_PROTO_DTLS'', Undefined)]"

definition nrf_config_interface_9 :: "(string \<times> directive) list" where
  "nrf_config_interface_9 = [
     (''SSL_ALPN'', Undefined), (''SSL_DTLS_ANTI_REPLAY'', Undefined), (''SSL_DTLS_HELLO_VERIFY'', Undefined),
     (''SSL_DTLS_SRTP'', Undefined), (''SSL_DTLS_CLIENT_PORT_REUSE'', Undefined),
     (''SSL_SESSION_TICKETS'', Undefined), (''SSL_EXPORT_KEYS'', Define []),
     (''SSL_SERVER_NAME_INDICATION'', Define []), (''SSL_VARIABLE_BUFFER_LENGTH'', Commented),
     (''TEST_CONSTANT_FLOW_MEMSAN'', Commented)]"

definition nrf_config_interface_10 :: "(string \<times> directive) list" where
  "nrf_config_interface_10 = [
     (''TEST_CONSTANT_FLOW_VALGRIND'', Commented), (''TEST_HOOKS'', Commented), (''THREADING_ALT'', Define []),
     (''THREADING_PTHREAD'', Commented), (''USE_PSA_CRYPTO'', Undefined), (''PSA_CRYPTO_CONFIG'', Define []),
     (''VERSION_FEATURES'', Define []), (''X509_TRUSTED_CERTIFICATE_CALLBACK'', Commented),
     (''X509_REMOVE_INFO'', Define []), (''X509_RSASSA_PSS_SUPPORT'', Undefined)]"

definition nrf_config_interface_11 :: "(string \<times> directive) list" where
  "nrf_config_interface_11 = [
     (''AESNI_C'', Commented), (''AES_C'', Define []), (''ASN1_PARSE_C'', Define []),
     (''ASN1_WRITE_C'', Define []), (''BASE64_C'', Define []), (''BIGNUM_C'', Define [])]"

definition nrf_config_interface_12 :: "(string \<times> directive) list" where
  "nrf_config_interface_12 = [
     (''CAMELLIA_C'', Undefined), (''ARIA_C'', Undefined), (''CCM_C'', Define []), (''CHACHA20_C'', Define []),
     (''CHACHAPOLY_C'', Define []), (''CIPHER_C'', Define []), (''CMAC_C'', Define []),
     (''CTR_DRBG_C'', Define [])]"

definition nrf_config_interface_13 :: "(string \<times> directive) list" where
  "nrf_config_interface_13 = [
     (''DEBUG_C'', Undefined), (''DES_C'', Commented), (''DHM_C'', Define []), (''ECDH_C'', Define []),
     (''ECDSA_C'', Define []), (''ECJPAKE_C'', Define []), (''ECP_C'', Define []), (''ENTROPY_C'', Define []),
     (''ERROR_C'', Undefined), (''GCM_C'', Define [])]"

definition nrf_config_interface_14 :: "(string \<times> directive) list" where
  "nrf_config_interface_14 = [
     (''HKDF_C'', Define []), (''HMAC_DRBG_C'', Define []), (''NIST_KW_C'', Commented), (''MD_C'', Define []),
     (''MD5_C'', Define []), (''MEMORY_BUFFER_ALLOC_C'', Define []), (''NET_C'', Commented),
     (''OID_C'', Define []), (''PADLOCK_C'', Commented)]"

definition nrf_config_interface_15 :: "(string \<times> directive) list" where
  "nrf_config_interface_15 = [
     (''PEM_PARSE_C'', Define []), (''PEM_WRITE_C'', Define []), (''PK_C'', Define []),
     (''PK_PARSE_C'', Define []), (''PK_WRITE_C'', Define []), (''PKCS5_C'', Define []),
     (''PKCS12_C'', Commented), (''PLATFORM_C'', Define []), (''POLY1305_C'', Define []),
     (''PSA_CRYPTO_C'', Undefined)]"

definition nrf_config_interface_16 :: "(string \<times> directive) list" where
  "nrf_config_interface_16 = [
     (''PSA_CRYPTO_SE_C'', Commented), (''PSA_CRYPTO_STORAGE_C'', Undefined), (''PSA_ITS_FILE_C'', Commented),
     (''RIPEMD160_C'', Undefined), (''RSA_C'', Define []), (''SHA1_C'', Define []), (''SHA224_C'', Define []),
     (''SHA256_C'', Define []), (''SHA384_C'', Define []), (''SHA512_C'', Define [])]"

definition nrf_config_interface_17 :: "(string \<times> directive) list" where
  "nrf_config_interface_17 = [
     (''SSL_CACHE_C'', Undefined), (''SSL_COOKIE_C'', Define []), (''SSL_TICKET_C'', Undefined),
     (''SSL_CLI_C'', Define []), (''SSL_SRV_C'', Define []), (''SSL_TLS_C'', Define []),
     (''THREADING_C'', Define []), (''TIMING_C'', Commented), (''VERSION_C'', Define []),
     (''X509_USE_C'', Define [])]"

definition nrf_config_interface_18 :: "(string \<times> directive) list" where
  "nrf_config_interface_18 = [
     (''X509_CRT_PARSE_C'', Define []), (''X509_CRL_PARSE_C'', Define []), (''X509_CSR_PARSE_C'', Define []),
     (''X509_CREATE_C'', Undefined), (''X509_CRT_WRITE_C'', Undefined), (''X509_CSR_WRITE_C'', Undefined),
     (''MPI_WINDOW_SIZE'', Define ''6''), (''MPI_MAX_SIZE'', Define ''384''),
     (''CTR_DRBG_ENTROPY_LEN'', Commented), (''CTR_DRBG_RESEED_INTERVAL'', Define ''0xFFF0''),
     (''CTR_DRBG_MAX_INPUT'', Commented), (''CTR_DRBG_MAX_REQUEST'', Commented),
     (''CTR_DRBG_MAX_SEED_INPUT'', Commented), (''HMAC_DRBG_RESEED_INTERVAL'', Commented),
     (''HMAC_DRBG_MAX_INPUT'', Commented), (''HMAC_DRBG_MAX_REQUEST'', Commented),
     (''HMAC_DRBG_MAX_SEED_INPUT'', Commented), (''ECP_WINDOW_SIZE'', Undefined),
     (''ECP_FIXED_POINT_OPTIM'', Undefined), (''ENTROPY_MAX_SOURCES'', Define ''1''),
     (''ENTROPY_MAX_GATHER'', Define ''144''), (''ENTROPY_MIN_HARDWARE'', Commented),
     (''MEMORY_ALIGN_MULTIPLE'', Commented), (''PLATFORM_STD_MEM_HDR'', Commented),
     (''PLATFORM_STD_CALLOC'', Commented), (''PLATFORM_STD_FREE'', Commented),
     (''PLATFORM_STD_EXIT'', Commented), (''PLATFORM_STD_TIME'', Commented),
     (''PLATFORM_STD_FPRINTF'', Commented), (''PLATFORM_STD_PRINTF'', Commented),
     (''PLATFORM_STD_SNPRINTF'', Commented), (''PLATFORM_STD_EXIT_SUCCESS'', Commented),
     (''PLATFORM_STD_EXIT_FAILURE'', Commented), (''PLATFORM_STD_NV_SEED_READ'', Commented),
     (''PLATFORM_STD_NV_SEED_WRITE'', Commented), (''PLATFORM_STD_NV_SEED_FILE'', Commented),
     (''PLATFORM_CALLOC_MACRO'', Commented), (''PLATFORM_FREE_MACRO'', Commented),
     (''PLATFORM_EXIT_MACRO'', Commented), (''PLATFORM_TIME_MACRO'', Commented),
     (''PLATFORM_TIME_TYPE_MACRO'', Commented), (''PLATFORM_FPRINTF_MACRO'', Commented),
     (''PLATFORM_PRINTF_MACRO'', Commented), (''PLATFORM_SNPRINTF_MACRO'', Commented),
     (''PLATFORM_VSNPRINTF_MACRO'', Commented), (''PLATFORM_NV_SEED_READ_MACRO'', Commented),
     (''PLATFORM_NV_SEED_WRITE_MACRO'', Commented)]"

definition nrf_config_interface_19 :: "(string \<times> directive) list" where
  "nrf_config_interface_19 = [
     (''PSA_HMAC_DRBG_MD_TYPE'', Commented), (''PSA_KEY_SLOT_COUNT'', Undefined),
     (''SSL_CACHE_DEFAULT_TIMEOUT'', Commented), (''SSL_CACHE_DEFAULT_MAX_ENTRIES'', Commented),
     (''SSL_IN_CONTENT_LEN'', Define ''2048''), (''SSL_CID_IN_LEN_MAX'', Commented),
     (''SSL_CID_OUT_LEN_MAX'', Commented), (''SSL_CID_TLS1_3_PADDING_GRANULARITY'', Commented),
     (''SSL_OUT_CONTENT_LEN'', Define ''2048''), (''SSL_DTLS_MAX_BUFFERING'', Commented),
     (''PSK_MAX_LEN'', Commented), (''SSL_COOKIE_TIMEOUT'', Commented), (''SSL_CIPHERSUITES'', Undefined),
     (''X509_MAX_INTERMEDIATE_CA'', Commented), (''X509_MAX_FILE_PATH_LEN'', Commented),
     (''PLATFORM_ZEROIZE_ALT'', Commented)]"

definition nrf_config_interface_20 :: "(string \<times> directive) list" where
  "nrf_config_interface_20 = [
     (''PLATFORM_GMTIME_R_ALT'', Commented), (''ECDH_VARIANT_EVEREST_ENABLED'', Commented),
     (''MPI_WINDOW_SIZE'', Define_If ''MBEDTLS_OPENTHREAD_OPTIMIZATIONS_ENABLED'' ''1''),
     (''MPI_MAX_SIZE'', Define_If ''MBEDTLS_OPENTHREAD_OPTIMIZATIONS_ENABLED'' ''32''),
     (''ECP_WINDOW_SIZE'', Define_If ''MBEDTLS_OPENTHREAD_OPTIMIZATIONS_ENABLED'' ''2''),
     (''ECP_FIXED_POINT_OPTIM'', Define_If ''MBEDTLS_OPENTHREAD_OPTIMIZATIONS_ENABLED'' ''0''),
     (''SSL_CLI_ALLOW_WEAK_CERTIFICATE_VERIFICATION_WITHOUT_HOSTNAME'', Define_If ''MBEDTLS_SSL_CLI_ALLOW_WEAK_CERTIFICATE_VERIFICATION_WITHOUT_HOSTNAME'' []),
     (''CIPHER_MODE_CBC'', Define_If ''MBEDTLS_CMAC_ALT'' [])]"

definition nrf_config_interface :: "(string \<times> directive) list" where
  "nrf_config_interface =
     nrf_config_interface_0 @ nrf_config_interface_1 @ nrf_config_interface_2 @ nrf_config_interface_3 @
     nrf_config_interface_4 @ nrf_config_interface_5 @ nrf_config_interface_6 @ nrf_config_interface_7 @
     nrf_config_interface_8 @ nrf_config_interface_9 @ nrf_config_interface_10 @ nrf_config_interface_11
     @ nrf_config_interface_12 @ nrf_config_interface_13 @ nrf_config_interface_14 @
     nrf_config_interface_15 @ nrf_config_interface_16 @ nrf_config_interface_17 @
     nrf_config_interface_18 @ nrf_config_interface_19 @ nrf_config_interface_20"

lemmas nrf_config_interface_defs = nrf_config_interface_def
  nrf_config_interface_0_def nrf_config_interface_1_def nrf_config_interface_2_def
  nrf_config_interface_3_def nrf_config_interface_4_def nrf_config_interface_5_def
  nrf_config_interface_6_def nrf_config_interface_7_def nrf_config_interface_8_def
  nrf_config_interface_9_def nrf_config_interface_10_def nrf_config_interface_11_def
  nrf_config_interface_12_def nrf_config_interface_13_def nrf_config_interface_14_def
  nrf_config_interface_15_def nrf_config_interface_16_def nrf_config_interface_17_def
  nrf_config_interface_18_def nrf_config_interface_19_def nrf_config_interface_20_def

text \<open>What the application wants of the PSA interface, for the library.\<close>

definition psa_config_library_0 :: "(string \<times> directive) list" where
  "psa_config_library_0 = [
     (''PSA_WANT_AES_KEY_SIZE_128'', Define ''1''), (''PSA_WANT_AES_KEY_SIZE_192'', Define ''1''),
     (''PSA_WANT_AES_KEY_SIZE_256'', Define ''1''), (''PSA_WANT_ALG_CBC_NO_PADDING'', Define ''1''),
     (''PSA_WANT_ALG_CBC_PKCS7'', Define ''1''), (''PSA_WANT_ALG_CCM'', Define ''1''),
     (''PSA_WANT_ALG_CCM_STAR_NO_TAG'', Undefined), (''PSA_WANT_ALG_CHACHA20_POLY1305'', Define ''1''),
     (''PSA_WANT_ALG_CMAC'', Define ''1''), (''PSA_WANT_ALG_CTR'', Define ''1''),
     (''PSA_WANT_ALG_CTR_DRBG'', Define ''1''), (''PSA_WANT_ALG_DETERMINISTIC_ECDSA'', Define ''1''),
     (''PSA_WANT_ALG_ECB_NO_PADDING'', Define ''1''), (''PSA_WANT_ALG_ECDH'', Define ''1''),
     (''PSA_WANT_ALG_ECDSA'', Define ''1''), (''PSA_WANT_ALG_ECDSA_ANY'', Undefined),
     (''PSA_WANT_ALG_ED25519PH'', Undefined), (''PSA_WANT_ALG_ED448PH'', Undefined),
     (''PSA_WANT_ALG_GCM'', Define ''1''), (''PSA_WANT_ALG_HKDF'', Define ''1''),
     (''PSA_WANT_ALG_HKDF_EXPAND'', Undefined), (''PSA_WANT_ALG_HKDF_EXTRACT'', Undefined),
     (''PSA_WANT_ALG_HMAC'', Define ''1''), (''PSA_WANT_ALG_HMAC_DRBG'', Undefined),
     (''PSA_WANT_ALG_JPAKE'', Undefined), (''PSA_WANT_ALG_MD5'', Undefined),
     (''PSA_WANT_ALG_PBKDF2_AES_CMAC_PRF_128'', Undefined), (''PSA_WANT_ALG_PBKDF2_HMAC'', Undefined),
     (''PSA_WANT_ALG_PURE_EDDSA'', Undefined), (''PSA_WANT_ALG_RSA_OAEP'', Define ''1''),
     (''PSA_WANT_ALG_RSA_PKCS1V15_CRYPT'', Define ''1''), (''PSA_WANT_ALG_RSA_PKCS1V15_SIGN'', Define ''1''),
     (''PSA_WANT_ALG_RSA_PKCS1V15_SIGN_RAW'', Define ''1''), (''PSA_WANT_ALG_RSA_PSS'', Define ''1''),
     (''PSA_WANT_ALG_RSA_PSS_ANY_SALT'', Define ''1''), (''PSA_WANT_ALG_SHA3_224'', Undefined),
     (''PSA_WANT_ALG_SHA3_256'', Undefined), (''PSA_WANT_ALG_SHA3_384'', Undefined),
     (''PSA_WANT_ALG_SHA3_512'', Undefined), (''PSA_WANT_ALG_SHA_1'', Define ''1''),
     (''PSA_WANT_ALG_SHA_224'', Define ''1''), (''PSA_WANT_ALG_SHA_256'', Define ''1''),
     (''PSA_WANT_ALG_SHA_384'', Define ''1''), (''PSA_WANT_ALG_SHA_512'', Define ''1''),
     (''PSA_WANT_ALG_SHA_512_224'', Undefined), (''PSA_WANT_ALG_SHA_512_256'', Undefined),
     (''PSA_WANT_ALG_SPAKE2P_CMAC'', Undefined), (''PSA_WANT_ALG_SPAKE2P_HMAC'', Undefined),
     (''PSA_WANT_ALG_SPAKE2P_MATTER'', Undefined), (''PSA_WANT_ALG_SRP_6'', Undefined),
     (''PSA_WANT_ALG_SRP_PASSWORD_HASH'', Undefined), (''PSA_WANT_ALG_STREAM_CIPHER'', Define ''1''),
     (''PSA_WANT_ALG_TLS12_ECJPAKE_TO_PMS'', Define ''1''), (''PSA_WANT_ALG_TLS12_PRF'', Define ''1''),
     (''PSA_WANT_ALG_TLS12_PSK_TO_MS'', Define ''1''), (''PSA_WANT_ALG_XTS'', Undefined),
     (''PSA_WANT_ECC_BRAINPOOL_P_R1_160'', Undefined), (''PSA_WANT_ECC_BRAINPOOL_P_R1_192'', Undefined),
     (''PSA_WANT_ECC_BRAINPOOL_P_R1_224'', Undefined), (''PSA_WANT_ECC_BRAINPOOL_P_R1_256'', Undefined),
     (''PSA_WANT_ECC_BRAINPOOL_P_R1_320'', Undefined), (''PSA_WANT_ECC_BRAINPOOL_P_R1_384'', Undefined),
     (''PSA_WANT_ECC_BRAINPOOL_P_R1_512'', Undefined), (''PSA_WANT_ECC_FRP_V1_256'', Undefined),
     (''PSA_WANT_ECC_MONTGOMERY_255'', Undefined), (''PSA_WANT_ECC_MONTGOMERY_448'', Undefined),
     (''PSA_WANT_ECC_SECP_K1_192'', Undefined), (''PSA_WANT_ECC_SECP_K1_224'', Undefined),
     (''PSA_WANT_ECC_SECP_K1_256'', Undefined), (''PSA_WANT_ECC_SECP_R1_192'', Undefined),
     (''PSA_WANT_ECC_SECP_R1_224'', Undefined), (''PSA_WANT_ECC_SECP_R1_256'', Define ''1''),
     (''PSA_WANT_ECC_SECP_R1_384'', Define ''1''), (''PSA_WANT_ECC_SECP_R1_521'', Undefined),
     (''PSA_WANT_ECC_SECP_R2_160'', Undefined), (''PSA_WANT_ECC_SECT_K1_163'', Undefined),
     (''PSA_WANT_ECC_SECT_K1_233'', Undefined), (''PSA_WANT_ECC_SECT_K1_239'', Undefined),
     (''PSA_WANT_ECC_SECT_K1_283'', Undefined), (''PSA_WANT_ECC_SECT_K1_409'', Undefined),
     (''PSA_WANT_ECC_SECT_K1_571'', Undefined), (''PSA_WANT_ECC_SECT_R1_163'', Undefined),
     (''PSA_WANT_ECC_SECT_R1_233'', Undefined), (''PSA_WANT_ECC_SECT_R1_283'', Undefined),
     (''PSA_WANT_ECC_SECT_R1_409'', Undefined), (''PSA_WANT_ECC_SECT_R1_571'', Undefined),
     (''PSA_WANT_ECC_SECT_R2_163'', Undefined), (''PSA_WANT_ECC_TWISTED_EDWARDS_255'', Undefined),
     (''PSA_WANT_ECC_TWISTED_EDWARDS_448'', Undefined), (''PSA_WANT_GENERATE_RANDOM'', Define ''1''),
     (''PSA_WANT_KEY_TYPE_AES'', Define ''1''), (''PSA_WANT_KEY_TYPE_CHACHA20'', Define ''1''),
     (''PSA_WANT_KEY_TYPE_DERIVE'', Undefined), (''PSA_WANT_KEY_TYPE_ECC_KEY_PAIR_BASIC'', Define ''1''),
     (''PSA_WANT_KEY_TYPE_ECC_KEY_PAIR_DERIVE'', Define ''1''),
     (''PSA_WANT_KEY_TYPE_ECC_KEY_PAIR_EXPORT'', Define ''1''),
     (''PSA_WANT_KEY_TYPE_ECC_KEY_PAIR_GENERATE'', Define ''1''),
     (''PSA_WANT_KEY_TYPE_ECC_KEY_PAIR_IMPORT'', Define ''1''),
     (''PSA_WANT_KEY_TYPE_ECC_PUBLIC_KEY'', Define ''1''), (''PSA_WANT_KEY_TYPE_HMAC'', Undefined),
     (''PSA_WANT_KEY_TYPE_PASSWORD'', Undefined), (''PSA_WANT_KEY_TYPE_PASSWORD_HASH'', Undefined),
     (''PSA_WANT_KEY_TYPE_PEPPER'', Undefined), (''PSA_WANT_KEY_TYPE_RAW_DATA'', Undefined),
     (''PSA_WANT_KEY_TYPE_RSA_KEY_PAIR_BASIC'', Define ''1''),
     (''PSA_WANT_KEY_TYPE_RSA_KEY_PAIR_DERIVE'', Define ''1''),
     (''PSA_WANT_KEY_TYPE_RSA_KEY_PAIR_EXPORT'', Define ''1''),
     (''PSA_WANT_KEY_TYPE_RSA_KEY_PAIR_GENERATE'', Define ''1''),
     (''PSA_WANT_KEY_TYPE_RSA_KEY_PAIR_IMPORT'', Define ''1''),
     (''PSA_WANT_KEY_TYPE_RSA_PUBLIC_KEY'', Define ''1''),
     (''PSA_WANT_KEY_TYPE_SPAKE2P_KEY_PAIR_BASIC'', Undefined),
     (''PSA_WANT_KEY_TYPE_SPAKE2P_KEY_PAIR_DERIVE'', Undefined),
     (''PSA_WANT_KEY_TYPE_SPAKE2P_KEY_PAIR_EXPORT'', Undefined),
     (''PSA_WANT_KEY_TYPE_SPAKE2P_KEY_PAIR_GENERATE'', Undefined),
     (''PSA_WANT_KEY_TYPE_SPAKE2P_KEY_PAIR_IMPORT'', Undefined),
     (''PSA_WANT_KEY_TYPE_SPAKE2P_PUBLIC_KEY'', Undefined),
     (''PSA_WANT_KEY_TYPE_SRP_KEY_PAIR_BASIC'', Undefined),
     (''PSA_WANT_KEY_TYPE_SRP_KEY_PAIR_DERIVE'', Undefined),
     (''PSA_WANT_KEY_TYPE_SRP_KEY_PAIR_EXPORT'', Undefined),
     (''PSA_WANT_KEY_TYPE_SRP_KEY_PAIR_IMPORT'', Undefined), (''PSA_WANT_KEY_TYPE_SRP_PUBLIC_KEY'', Undefined),
     (''PSA_WANT_RSA_KEY_SIZE_1024'', Undefined), (''PSA_WANT_RSA_KEY_SIZE_1536'', Undefined),
     (''PSA_WANT_RSA_KEY_SIZE_2048'', Define ''1''), (''PSA_WANT_RSA_KEY_SIZE_3072'', Undefined),
     (''PSA_WANT_RSA_KEY_SIZE_4096'', Undefined), (''PSA_WANT_RSA_KEY_SIZE_6144'', Undefined),
     (''PSA_WANT_RSA_KEY_SIZE_8192'', Undefined), (''PSA_WANT_ALG_SP800_108_COUNTER_CMAC'', Undefined),
     (''PSA_WANT_ALG_SP800_108_COUNTER_HMAC'', Undefined), (''PSA_WANT_ALG_HSS'', Undefined),
     (''PSA_WANT_ALG_LMS'', Undefined), (''PSA_WANT_ALG_ML_DSA'', Undefined),
     (''PSA_WANT_ALG_ML_KEM'', Undefined), (''PSA_WANT_ALG_SHAKE128_256'', Undefined),
     (''PSA_WANT_ALG_SHAKE256_192'', Undefined), (''PSA_WANT_ALG_SHAKE256_256'', Undefined),
     (''PSA_WANT_ALG_SHA_256_192'', Undefined), (''PSA_WANT_ALG_WPA3_SAE'', Undefined),
     (''PSA_WANT_ALG_WPA3_SAE_H2E'', Undefined), (''PSA_WANT_ALG_XCHACHA20_POLY1305'', Undefined),
     (''PSA_WANT_ALG_XMSS'', Undefined), (''PSA_WANT_ALG_XMSS_MT'', Undefined),
     (''PSA_WANT_KEY_TYPE_HSS_PUBLIC_KEY'', Undefined), (''PSA_WANT_KEY_TYPE_LMS_PUBLIC_KEY'', Undefined),
     (''PSA_WANT_KEY_TYPE_ML_DSA_KEY_PAIR_BASIC'', Undefined),
     (''PSA_WANT_KEY_TYPE_ML_DSA_KEY_PAIR_DERIVE'', Undefined),
     (''PSA_WANT_KEY_TYPE_ML_DSA_KEY_PAIR_EXPORT'', Undefined),
     (''PSA_WANT_KEY_TYPE_ML_DSA_KEY_PAIR_GENERATE'', Undefined),
     (''PSA_WANT_KEY_TYPE_ML_DSA_KEY_PAIR_IMPORT'', Undefined)]"

definition psa_config_library_1 :: "(string \<times> directive) list" where
  "psa_config_library_1 = [
     (''PSA_WANT_KEY_TYPE_ML_DSA_PUBLIC_KEY'', Undefined),
     (''PSA_WANT_KEY_TYPE_ML_KEM_KEY_PAIR_BASIC'', Undefined),
     (''PSA_WANT_KEY_TYPE_ML_KEM_KEY_PAIR_DERIVE'', Undefined),
     (''PSA_WANT_KEY_TYPE_ML_KEM_KEY_PAIR_EXPORT'', Undefined),
     (''PSA_WANT_KEY_TYPE_ML_KEM_KEY_PAIR_GENERATE'', Undefined),
     (''PSA_WANT_KEY_TYPE_ML_KEM_KEY_PAIR_IMPORT'', Undefined),
     (''PSA_WANT_KEY_TYPE_ML_KEM_PUBLIC_KEY'', Undefined), (''PSA_WANT_KEY_TYPE_XCHACHA20'', Undefined),
     (''PSA_WANT_KEY_TYPE_XMSS_MT_PUBLIC_KEY'', Undefined), (''PSA_WANT_KEY_TYPE_XMSS_PUBLIC_KEY'', Undefined),
     (''PSA_WANT_ML_DSA_KEY_SIZE_44'', Undefined), (''PSA_WANT_ML_DSA_KEY_SIZE_65'', Undefined),
     (''PSA_WANT_ML_DSA_KEY_SIZE_87'', Undefined), (''PSA_WANT_ML_KEM_KEY_SIZE_1024'', Undefined),
     (''PSA_WANT_ML_KEM_KEY_SIZE_512'', Undefined), (''PSA_WANT_ML_KEM_KEY_SIZE_768'', Undefined),
     (''PSA_CRYPTO_ADJUST_KEYPAIR_TYPES_H'', Define [])]"

definition psa_config_library :: "(string \<times> directive) list" where
  "psa_config_library =
     psa_config_library_0 @ psa_config_library_1"

lemmas psa_config_library_defs = psa_config_library_def
  psa_config_library_0_def psa_config_library_1_def

text \<open>The same for the users of the library.\<close>

definition psa_config_interface_0 :: "(string \<times> directive) list" where
  "psa_config_interface_0 = [
     (''PSA_WANT_AES_KEY_SIZE_128'', Define ''1''), (''PSA_WANT_AES_KEY_SIZE_192'', Define ''1''),
     (''PSA_WANT_AES_KEY_SIZE_256'', Define ''1''), (''PSA_WANT_ALG_CBC_NO_PADDING'', Define ''1''),
     (''PSA_WANT_ALG_CBC_PKCS7'', Define ''1''), (''PSA_WANT_ALG_CCM'', Define ''1''),
     (''PSA_WANT_ALG_CCM_STAR_NO_TAG'', Undefined), (''PSA_WANT_ALG_CHACHA20_POLY1305'', Define ''1''),
     (''PSA_WANT_ALG_CMAC'', Define ''1''), (''PSA_WANT_ALG_CTR'', Define ''1''),
     (''PSA_WANT_ALG_CTR_DRBG'', Define ''1''), (''PSA_WANT_ALG_DETERMINISTIC_ECDSA'', Define ''1''),
     (''PSA_WANT_ALG_ECB_NO_PADDING'', Define ''1''), (''PSA_WANT_ALG_ECDH'', Define ''1''),
     (''PSA_WANT_ALG_ECDSA'', Define ''1''), (''PSA_WANT_ALG_ECDSA_ANY'', Undefined),
     (''PSA_WANT_ALG_ED25519PH'', Undefined), (''PSA_WANT_ALG_ED448PH'', Undefined),
     (''PSA_WANT_ALG_GCM'', Define ''1''), (''PSA_WANT_ALG_HKDF'', Define ''1''),
     (''PSA_WANT_ALG_HKDF_EXPAND'', Undefined), (''PSA_WANT_ALG_HKDF_EXTRACT'', Undefined),
     (''PSA_WANT_ALG_HMAC'', Define ''1''), (''PSA_WANT_ALG_HMAC_DRBG'', Undefined),
     (''PSA_WANT_ALG_JPAKE'', Undefined), (''PSA_WANT_ALG_MD5'', Undefined),
     (''PSA_WANT_ALG_PBKDF2_AES_CMAC_PRF_128'', Undefined), (''PSA_WANT_ALG_PBKDF2_HMAC'', Undefined),
     (''PSA_WANT_ALG_PURE_EDDSA'', Undefined), (''PSA_WANT_ALG_RSA_OAEP'', Define ''1''),
     (''PSA_WANT_ALG_RSA_PKCS1V15_CRYPT'', Define ''1''), (''PSA_WANT_ALG_RSA_PKCS1V15_SIGN'', Define ''1''),
     (''PSA_WANT_ALG_RSA_PKCS1V15_SIGN_RAW'', Define ''1''), (''PSA_WANT_ALG_RSA_PSS'', Define ''1''),
     (''PSA_WANT_ALG_RSA_PSS_ANY_SALT'', Define ''1''), (''PSA_WANT_ALG_SHA3_224'', Undefined),
     (''PSA_WANT_ALG_SHA3_256'', Undefined), (''PSA_WANT_ALG_SHA3_384'', Undefined),
     (''PSA_WANT_ALG_SHA3_512'', Undefined), (''PSA_WANT_ALG_SHA_1'', Define ''1''),
     (''PSA_WANT_ALG_SHA_224'', Define ''1''), (''PSA_WANT_ALG_SHA_256'', Define ''1''),
     (''PSA_WANT_ALG_SHA_384'', Define ''1''), (''PSA_WANT_ALG_SHA_512'', Define ''1''),
     (''PSA_WANT_ALG_SHA_512_224'', Undefined), (''PSA_WANT_ALG_SHA_512_256'', Undefined),
     (''PSA_WANT_ALG_SPAKE2P_CMAC'', Undefined), (''PSA_WANT_ALG_SPAKE2P_HMAC'', Undefined),
     (''PSA_WANT_ALG_SPAKE2P_MATTER'', Undefined), (''PSA_WANT_ALG_SRP_6'', Undefined),
     (''PSA_WANT_ALG_SRP_PASSWORD_HASH'', Undefined), (''PSA_WANT_ALG_STREAM_CIPHER'', Define ''1''),
     (''PSA_WANT_ALG_TLS12_ECJPAKE_TO_PMS'', Define ''1''), (''PSA_WANT_ALG_TLS12_PRF'', Define ''1''),
     (''PSA_WANT_ALG_TLS12_PSK_TO_MS'', Define ''1''), (''PSA_WANT_ALG_XTS'', Undefined),
     (''PSA_WANT_ECC_BRAINPOOL_P_R1_160'', Undefined), (''PSA_WANT_ECC_BRAINPOOL_P_R1_192'', Undefined),
     (''PSA_WANT_ECC_BRAINPOOL_P_R1_224'', Undefined), (''PSA_WANT_ECC_BRAINPOOL_P_R1_256'', Undefined),
     (''PSA_WANT_ECC_BRAINPOOL_P_R1_320'', Undefined), (''PSA_WANT_ECC_BRAINPOOL_P_R1_384'', Undefined),
     (''PSA_WANT_ECC_BRAINPOOL_P_R1_512'', Undefined), (''PSA_WANT_ECC_FRP_V1_256'', Undefined),
     (''PSA_WANT_ECC_MONTGOMERY_255'', Undefined), (''PSA_WANT_ECC_MONTGOMERY_448'', Undefined),
     (''PSA_WANT_ECC_SECP_K1_192'', Undefined), (''PSA_WANT_ECC_SECP_K1_224'', Undefined),
     (''PSA_WANT_ECC_SECP_K1_256'', Undefined), (''PSA_WANT_ECC_SECP_R1_192'', Undefined),
     (''PSA_WANT_ECC_SECP_R1_224'', Undefined), (''PSA_WANT_ECC_SECP_R1_256'', Define ''1''),
     (''PSA_WANT_ECC_SECP_R1_384'', Define ''1''), (''PSA_WANT_ECC_SECP_R1_521'', Undefined),
     (''PSA_WANT_ECC_SECP_R2_160'', Undefined), (''PSA_WANT_ECC_SECT_K1_163'', Undefined),
     (''PSA_WANT_ECC_SECT_K1_233'', Undefined), (''PSA_WANT_ECC_SECT_K1_239'', Undefined),
     (''PSA_WANT_ECC_SECT_K1_283'', Undefined), (''PSA_WANT_ECC_SECT_K1_409'', Undefined),
     (''PSA_WANT_ECC_SECT_K1_571'', Undefined), (''PSA_WANT_ECC_SECT_R1_163'', Undefined),
     (''PSA_WANT_ECC_SECT_R1_233'', Undefined), (''PSA_WANT_ECC_SECT_R1_283'', Undefined),
     (''PSA_WANT_ECC_SECT_R1_409'', Undefined), (''PSA_WANT_ECC_SECT_R1_571'', Undefined),
     (''PSA_WANT_ECC_SECT_R2_163'', Undefined), (''PSA_WANT_ECC_TWISTED_EDWARDS_255'', Undefined),
     (''PSA_WANT_ECC_TWISTED_EDWARDS_448'', Undefined), (''PSA_WANT_GENERATE_RANDOM'', Define ''1''),
     (''PSA_WANT_KEY_TYPE_AES'', Define ''1''), (''PSA_WANT_KEY_TYPE_CHACHA20'', Define ''1''),
     (''PSA_WANT_KEY_TYPE_DERIVE'', Undefined), (''PSA_WANT_KEY_TYPE_ECC_KEY_PAIR_BASIC'', Define ''1''),
     (''PSA_WANT_KEY_TYPE_ECC_KEY_PAIR_DERIVE'', Define ''1''),
     (''PSA_WANT_KEY_TYPE_ECC_KEY_PAIR_EXPORT'', Define ''1''),
     (''PSA_WANT_KEY_TYPE_ECC_KEY_PAIR_GENERATE'', Define ''1''),
     (''PSA_WANT_KEY_TYPE_ECC_KEY_PAIR_IMPORT'', Define ''1''),
     (''PSA_WANT_KEY_TYPE_ECC_PUBLIC_KEY'', Define ''1''), (''PSA_WANT_KEY_TYPE_HMAC'', Undefined),
     (''PSA_WANT_KEY_TYPE_PASSWORD'', Undefined), (''PSA_WANT_KEY_TYPE_PASSWORD_HASH'', Undefined),
     (''PSA_WANT_KEY_TYPE_PEPPER'', Undefined), (''PSA_WANT_KEY_TYPE_RAW_DATA'', Undefined),
     (''PSA_WANT_KEY_TYPE_RSA_KEY_PAIR_BASIC'', Define ''1''),
     (''PSA_WANT_KEY_TYPE_RSA_KEY_PAIR_DERIVE'', Define ''1''),
     (''PSA_WANT_KEY_TYPE_RSA_KEY_PAIR_EXPORT'', Define ''1''),
     (''PSA_WANT_KEY_TYPE_RSA_KEY_PAIR_GENERATE'', Define ''1''),
     (''PSA_WANT_KEY_TYPE_RSA_KEY_PAIR_IMPORT'', Define ''1''),
     (''PSA_WANT_KEY_TYPE_RSA_PUBLIC_KEY'', Define ''1''),
     (''PSA_WANT_KEY_TYPE_SPAKE2P_KEY_PAIR_BASIC'', Undefined),
     (''PSA_WANT_KEY_TYPE_SPAKE2P_KEY_PAIR_DERIVE'', Undefined),
     (''PSA_WANT_KEY_TYPE_SPAKE2P_KEY_PAIR_EXPORT'', Undefined),
     (''PSA_WANT_KEY_TYPE_SPAKE2P_KEY_PAIR_GENERATE'', Undefined),
     (''PSA_WANT_KEY_TYPE_SPAKE2P_KEY_PAIR_IMPORT'', Undefined),
     (''PSA_WANT_KEY_TYPE_SPAKE2P_PUBLIC_KEY'', Undefined),
     (''PSA_WANT_KEY_TYPE_SRP_KEY_PAIR_BASIC'', Undefined),
     (''PSA_WANT_KEY_TYPE_SRP_KEY_PAIR_DERIVE'', Undefined),
     (''PSA_WANT_KEY_TYPE_SRP_KEY_PAIR_EXPORT'', Undefined),
     (''PSA_WANT_KEY_TYPE_SRP_KEY_PAIR_IMPORT'', Undefined), (''PSA_WANT_KEY_TYPE_SRP_PUBLIC_KEY'', Undefined),
     (''PSA_WANT_RSA_KEY_SIZE_1024'', Undefined), (''PSA_WANT_RSA_KEY_SIZE_1536'', Undefined),
     (''PSA_WANT_RSA_KEY_SIZE_2048'', Define ''1''), (''PSA_WANT_RSA_KEY_SIZE_3072'', Undefined),
     (''PSA_WANT_RSA_KEY_SIZE_4096'', Undefined), (''PSA_WANT_RSA_KEY_SIZE_6144'', Undefined),
     (''PSA_WANT_RSA_KEY_SIZE_8192'', Undefined), (''PSA_WANT_ALG_SP800_108_COUNTER_CMAC'', Undefined),
     (''PSA_WANT_ALG_SP800_108_COUNTER_HMAC'', Undefined), (''PSA_WANT_ALG_HSS'', Undefined),
     (''PSA_WANT_ALG_LMS'', Undefined), (''PSA_WANT_ALG_ML_DSA'', Undefined),
     (''PSA_WANT_ALG_ML_KEM'', Undefined), (''PSA_WANT_ALG_SHAKE128_256'', Undefined),
     (''PSA_WANT_ALG_SHAKE256_192'', Undefined), (''PSA_WANT_ALG_SHAKE256_256'', Undefined),
     (''PSA_WANT_ALG_SHA_256_192'', Undefined), (''PSA_WANT_ALG_WPA3_SAE'', Undefined),
     (''PSA_WANT_ALG_WPA3_SAE_H2E'', Undefined), (''PSA_WANT_ALG_XCHACHA20_POLY1305'', Undefined),
     (''PSA_WANT_ALG_XMSS'', Undefined), (''PSA_WANT_ALG_XMSS_MT'', Undefined),
     (''PSA_WANT_KEY_TYPE_HSS_PUBLIC_KEY'', Undefined), (''PSA_WANT_KEY_TYPE_LMS_PUBLIC_KEY'', Undefined),
     (''PSA_WANT_KEY_TYPE_ML_DSA_KEY_PAIR_BASIC'', Undefined),
     (''PSA_WANT_KEY_TYPE_ML_DSA_KEY_PAIR_DERIVE'', Undefined),
     (''PSA_WANT_KEY_TYPE_ML_DSA_KEY_PAIR_EXPORT'', Undefined),
     (''PSA_WANT_KEY_TYPE_ML_DSA_KEY_PAIR_GENERATE'', Undefined),
     (''PSA_WANT_KEY_TYPE_ML_DSA_KEY_PAIR_IMPORT'', Undefined)]"

definition psa_config_interface_1 :: "(string \<times> directive) list" where
  "psa_config_interface_1 = [
     (''PSA_WANT_KEY_TYPE_ML_DSA_PUBLIC_KEY'', Undefined),
     (''PSA_WANT_KEY_TYPE_ML_KEM_KEY_PAIR_BASIC'', Undefined),
     (''PSA_WANT_KEY_TYPE_ML_KEM_KEY_PAIR_DERIVE'', Undefined),
     (''PSA_WANT_KEY_TYPE_ML_KEM_KEY_PAIR_EXPORT'', Undefined),
     (''PSA_WANT_KEY_TYPE_ML_KEM_KEY_PAIR_GENERATE'', Undefined),
     (''PSA_WANT_KEY_TYPE_ML_KEM_KEY_PAIR_IMPORT'', Undefined),
     (''PSA_WANT_KEY_TYPE_ML_KEM_PUBLIC_KEY'', Undefined), (''PSA_WANT_KEY_TYPE_XCHACHA20'', Undefined),
     (''PSA_WANT_KEY_TYPE_XMSS_MT_PUBLIC_KEY'', Undefined), (''PSA_WANT_KEY_TYPE_XMSS_PUBLIC_KEY'', Undefined),
     (''PSA_WANT_ML_DSA_KEY_SIZE_44'', Undefined), (''PSA_WANT_ML_DSA_KEY_SIZE_65'', Undefined),
     (''PSA_WANT_ML_DSA_KEY_SIZE_87'', Undefined), (''PSA_WANT_ML_KEM_KEY_SIZE_1024'', Undefined),
     (''PSA_WANT_ML_KEM_KEY_SIZE_512'', Undefined), (''PSA_WANT_ML_KEM_KEY_SIZE_768'', Undefined),
     (''PSA_CRYPTO_ADJUST_KEYPAIR_TYPES_H'', Define [])]"

definition psa_config_interface :: "(string \<times> directive) list" where
  "psa_config_interface =
     psa_config_interface_0 @ psa_config_interface_1"

lemmas psa_config_interface_defs = psa_config_interface_def
  psa_config_interface_0_def psa_config_interface_1_def

text \<open>Which driver serves which part of the PSA interface.\<close>

definition psa_user_config_0 :: "(string \<times> directive) list" where
  "psa_user_config_0 = [
     (''PSA_CORE_OBERON'', Define ''1''), (''PSA_MAX_RSA_KEY_BITS'', Define ''2048''),
     (''PSA_NEED_CC3XX_CTR_DRBG_DRIVER'', Define ''1''), (''PSA_NEED_CC3XX_HMAC_DRBG_DRIVER'', Undefined),
     (''PSA_NEED_CC3XX_AEAD_DRIVER'', Undefined), (''PSA_NEED_CC3XX_ASYMMETRIC_ENCRYPTION_DRIVER'', Undefined),
     (''PSA_NEED_CC3XX_CIPHER_DRIVER'', Undefined), (''PSA_NEED_CC3XX_KEY_AGREEMENT_DRIVER'', Undefined),
     (''PSA_NEED_CC3XX_HASH_DRIVER'', Undefined), (''PSA_NEED_CC3XX_KEY_MANAGEMENT_DRIVER'', Undefined),
     (''PSA_NEED_CC3XX_MAC_DRIVER'', Undefined), (''PSA_NEED_CC3XX_ASYMMETRIC_SIGNATURE_DRIVER'', Undefined),
     (''PSA_NEED_OBERON_AEAD_DRIVER'', Define ''1''), (''PSA_NEED_OBERON_ANY_RSA_KEY_SIZE'', Define ''1''),
     (''PSA_NEED_OBERON_ASYMMETRIC_ENCRYPTION_DRIVER'', Define ''1''),
     (''PSA_NEED_OBERON_ASYMMETRIC_SIGNATURE_DRIVER'', Define ''1''),
     (''PSA_NEED_OBERON_CBC_NO_PADDING_AES'', Define ''1''), (''PSA_NEED_OBERON_CBC_PKCS7_AES'', Define ''1''),
     (''PSA_NEED_OBERON_CCM_AES'', Define ''1''), (''PSA_NEED_OBERON_CCM_STAR_NO_TAG_AES'', Undefined),
     (''PSA_NEED_OBERON_CHACHA20_POLY1305'', Define ''1''), (''PSA_NEED_OBERON_CIPHER_DRIVER'', Define ''1''),
     (''PSA_NEED_OBERON_CMAC'', Define ''1''), (''PSA_NEED_OBERON_CTR_AES'', Define ''1''),
     (''PSA_NEED_OBERON_CTR_DRBG_DRIVER'', Undefined), (''PSA_NEED_OBERON_ECB_NO_PADDING_AES'', Define ''1''),
     (''PSA_NEED_OBERON_ECDH'', Define ''1''), (''PSA_NEED_OBERON_ECDH_MONTGOMERY_255'', Undefined),
     (''PSA_NEED_OBERON_ECDH_MONTGOMERY_448'', Undefined), (''PSA_NEED_OBERON_ECDH_SECP_R1_224'', Undefined),
     (''PSA_NEED_OBERON_ECDH_SECP_R1_256'', Define ''1''),
     (''PSA_NEED_OBERON_ECDH_SECP_R1_384'', Define ''1''), (''PSA_NEED_OBERON_ECDH_SECP_R1_521'', Undefined),
     (''PSA_NEED_OBERON_ECDSA_DETERMINISTIC'', Define ''1''),
     (''PSA_NEED_OBERON_ECDSA_RANDOMIZED'', Define ''1''), (''PSA_NEED_OBERON_ECDSA_SECP_R1_224'', Undefined),
     (''PSA_NEED_OBERON_ECDSA_SECP_R1_256'', Define ''1''),
     (''PSA_NEED_OBERON_ECDSA_SECP_R1_384'', Define ''1''), (''PSA_NEED_OBERON_ECDSA_SECP_R1_521'', Undefined),
     (''PSA_NEED_OBERON_ECDSA_SIGN'', Define ''1''), (''PSA_NEED_OBERON_ECDSA_VERIFY'', Define ''1''),
     (''PSA_NEED_OBERON_ECJPAKE_SECP_R1_256'', Undefined), (''PSA_NEED_OBERON_ED25519PH'', Undefined),
     (''PSA_NEED_OBERON_ED448PH'', Undefined), (''PSA_NEED_OBERON_GCM_AES'', Define ''1''),
     (''PSA_NEED_OBERON_HASH_DRIVER'', Define ''1''), (''PSA_NEED_OBERON_HKDF'', Define ''1''),
     (''PSA_NEED_OBERON_HKDF_EXPAND'', Undefined), (''PSA_NEED_OBERON_HKDF_EXTRACT'', Undefined),
     (''PSA_NEED_OBERON_HMAC'', Define ''1''), (''PSA_NEED_OBERON_HMAC_DRBG_DRIVER'', Undefined),
     (''PSA_NEED_OBERON_JPAKE'', Undefined), (''PSA_NEED_OBERON_KEY_AGREEMENT_DRIVER'', Define ''1''),
     (''PSA_NEED_OBERON_KEY_DERIVATION_DRIVER'', Define ''1''),
     (''PSA_NEED_OBERON_KEY_MANAGEMENT_DRIVER'', Define ''1''),
     (''PSA_NEED_OBERON_KEY_WRAP_DRIVER'', Undefined),
     (''PSA_NEED_OBERON_KEY_TYPE_ECC_KEY_PAIR_DERIVE'', Define ''1''),
     (''PSA_NEED_OBERON_KEY_TYPE_ECC_KEY_PAIR_DERIVE_MONTGOMERY'', Undefined),
     (''PSA_NEED_OBERON_KEY_TYPE_ECC_KEY_PAIR_DERIVE_MONTGOMERY_255'', Undefined),
     (''PSA_NEED_OBERON_KEY_TYPE_ECC_KEY_PAIR_DERIVE_MONTGOMERY_448'', Undefined),
     (''PSA_NEED_OBERON_KEY_TYPE_ECC_KEY_PAIR_DERIVE_SECP'', Define ''1''),
     (''PSA_NEED_OBERON_KEY_TYPE_ECC_KEY_PAIR_DERIVE_SECP_R1_224'', Undefined),
     (''PSA_NEED_OBERON_KEY_TYPE_ECC_KEY_PAIR_DERIVE_SECP_R1_256'', Define ''1''),
     (''PSA_NEED_OBERON_KEY_TYPE_ECC_KEY_PAIR_DERIVE_SECP_R1_384'', Define ''1''),
     (''PSA_NEED_OBERON_KEY_TYPE_ECC_KEY_PAIR_DERIVE_SECP_R1_521'', Undefined),
     (''PSA_NEED_OBERON_KEY_TYPE_ECC_KEY_PAIR_DERIVE_TWISTED_EDWARDS'', Undefined),
     (''PSA_NEED_OBERON_KEY_TYPE_ECC_KEY_PAIR_DERIVE_TWISTED_EDWARDS_255'', Undefined),
     (''PSA_NEED_OBERON_KEY_TYPE_ECC_KEY_PAIR_DERIVE_TWISTED_EDWARDS_448'', Undefined),
     (''PSA_NEED_OBERON_KEY_TYPE_ECC_KEY_PAIR_EXPORT'', Define ''1''),
     (''PSA_NEED_OBERON_KEY_TYPE_ECC_KEY_PAIR_EXPORT_MONTGOMERY'', Undefined),
     (''PSA_NEED_OBERON_KEY_TYPE_ECC_KEY_PAIR_EXPORT_MONTGOMERY_255'', Undefined),
     (''PSA_NEED_OBERON_KEY_TYPE_ECC_KEY_PAIR_EXPORT_MONTGOMERY_448'', Undefined),
     (''PSA_NEED_OBERON_KEY_TYPE_ECC_KEY_PAIR_EXPORT_SECP'', Define ''1''),
     (''PSA_NEED_OBERON_KEY_TYPE_ECC_KEY_PAIR_EXPORT_SECP_R1_224'', Undefined),
     (''PSA_NEED_OBERON_KEY_TYPE_ECC_KEY_PAIR_EXPORT_SECP_R1_256'', Define ''1''),
     (''PSA_NEED_OBERON_KEY_TYPE_ECC_KEY_PAIR_EXPORT_SECP_R1_384'', Define ''1''),
     (''PSA_NEED_OBERON_KEY_TYPE_ECC_KEY_PAIR_EXPORT_SECP_R1_521'', Undefined),
     (''PSA_NEED_OBERON_KEY_TYPE_ECC_KEY_PAIR_EXPORT_TWISTED_EDWARDS'', Undefined),
     (''PSA_NEED_OBERON_KEY_TYPE_ECC_KEY_PAIR_EXPORT_TWISTED_EDWARDS_255'', Undefined),
     (''PSA_NEED_OBERON_KEY_TYPE_ECC_KEY_PAIR_EXPORT_TWISTED_EDWARDS_448'', Undefined),
     (''PSA_NEED_OBERON_KEY_TYPE_ECC_KEY_PAIR_GENERATE'', Define ''1''),
     (''PSA_NEED_OBERON_KEY_TYPE_ECC_KEY_PAIR_GENERATE_MONTGOMERY'', Undefined),
     (''PSA_NEED_OBERON_KEY_TYPE_ECC_KEY_PAIR_GENERATE_MONTGOMERY_255'', Undefined),
     (''PSA_NEED_OBERON_KEY_TYPE_ECC_KEY_PAIR_GENERATE_MONTGOMERY_448'', Undefined),
     (''PSA_NEED_OBERON_KEY_TYPE_ECC_KEY_PAIR_GENERATE_SECP'', Define ''1''),
     (''PSA_NEED_OBERON_KEY_TYPE_ECC_KEY_PAIR_GENERATE_SECP_R1_224'', Undefined),
     (''PSA_NEED_OBERON_KEY_TYPE_ECC_KEY_PAIR_GENERATE_SECP_R1_256'', Define ''1''),
     (''PSA_NEED_OBERON_KEY_TYPE_ECC_KEY_PAIR_GENERATE_SECP_R1_384'', Define ''1''),
     (''PSA_NEED_OBERON_KEY_TYPE_ECC_KEY_PAIR_GENERATE_SECP_R1_521'', Undefined),
     (''PSA_NEED_OBERON_KEY_TYPE_ECC_KEY_PAIR_GENERATE_TWISTED_EDWARDS'', Undefined),
     (''PSA_NEED_OBERON_KEY_TYPE_ECC_KEY_PAIR_GENERATE_TWISTED_EDWARDS_255'', Undefined),
     (''PSA_NEED_OBERON_KEY_TYPE_ECC_KEY_PAIR_GENERATE_TWISTED_EDWARDS_448'', Undefined),
     (''PSA_NEED_OBERON_KEY_TYPE_ECC_KEY_PAIR_IMPORT'', Define ''1''),
     (''PSA_NEED_OBERON_KEY_TYPE_ECC_KEY_PAIR_IMPORT_MONTGOMERY'', Undefined),
     (''PSA_NEED_OBERON_KEY_TYPE_ECC_KEY_PAIR_IMPORT_MONTGOMERY_255'', Undefined),
     (''PSA_NEED_OBERON_KEY_TYPE_ECC_KEY_PAIR_IMPORT_MONTGOMERY_448'', Undefined),
     (''PSA_NEED_OBERON_KEY_TYPE_ECC_KEY_PAIR_IMPORT_SECP'', Define ''1''),
     (''PSA_NEED_OBERON_KEY_TYPE_ECC_KEY_PAIR_IMPORT_SECP_R1_224'', Undefined),
     (''PSA_NEED_OBERON_KEY_TYPE_ECC_KEY_PAIR_IMPORT_SECP_R1_256'', Define ''1''),
     (''PSA_NEED_OBERON_KEY_TYPE_ECC_KEY_PAIR_IMPORT_SECP_R1_384'', Define ''1''),
     (''PSA_NEED_OBERON_KEY_TYPE_ECC_KEY_PAIR_IMPORT_SECP_R1_521'', Undefined),
     (''PSA_NEED_OBERON_KEY_TYPE_ECC_KEY_PAIR_IMPORT_TWISTED_EDWARDS'', Undefined),
     (''PSA_NEED_OBERON_KEY_TYPE_ECC_KEY_PAIR_IMPORT_TWISTED_EDWARDS_255'', Undefined),
     (''PSA_NEED_OBERON_KEY_TYPE_ECC_KEY_PAIR_IMPORT_TWISTED_EDWARDS_448'', Undefined),
     (''PSA_NEED_OBERON_KEY_TYPE_ECC_PUBLIC_KEY'', Define ''1''),
     (''PSA_NEED_OBERON_KEY_TYPE_ECC_PUBLIC_KEY_MONTGOMERY'', Undefined),
     (''PSA_NEED_OBERON_KEY_TYPE_ECC_PUBLIC_KEY_MONTGOMERY_255'', Undefined),
     (''PSA_NEED_OBERON_KEY_TYPE_ECC_PUBLIC_KEY_MONTGOMERY_448'', Undefined),
     (''PSA_NEED_OBERON_KEY_TYPE_ECC_PUBLIC_KEY_SECP'', Define ''1''),
     (''PSA_NEED_OBERON_KEY_TYPE_ECC_PUBLIC_KEY_SECP_R1_224'', Undefined),
     (''PSA_NEED_OBERON_KEY_TYPE_ECC_PUBLIC_KEY_SECP_R1_256'', Define ''1''),
     (''PSA_NEED_OBERON_KEY_TYPE_ECC_PUBLIC_KEY_SECP_R1_384'', Define ''1''),
     (''PSA_NEED_OBERON_KEY_TYPE_ECC_PUBLIC_KEY_SECP_R1_521'', Undefined),
     (''PSA_NEED_OBERON_KEY_TYPE_ECC_PUBLIC_KEY_TWISTED_EDWARDS'', Undefined),
     (''PSA_NEED_OBERON_KEY_TYPE_ECC_PUBLIC_KEY_TWISTED_EDWARDS_255'', Undefined),
     (''PSA_NEED_OBERON_KEY_TYPE_ECC_PUBLIC_KEY_TWISTED_EDWARDS_448'', Undefined),
     (''PSA_NEED_OBERON_KEY_TYPE_RSA_KEY_PAIR_EXPORT'', Define ''1''),
     (''PSA_NEED_OBERON_KEY_TYPE_RSA_KEY_PAIR_IMPORT'', Define ''1''),
     (''PSA_NEED_OBERON_KEY_TYPE_RSA_PUBLIC_KEY'', Define ''1''),
     (''PSA_NEED_OBERON_KEY_TYPE_SPAKE2P_KEY_PAIR_DERIVE'', Undefined),
     (''PSA_NEED_OBERON_KEY_TYPE_SPAKE2P_KEY_PAIR_DERIVE_SECP'', Undefined),
     (''PSA_NEED_OBERON_KEY_TYPE_SPAKE2P_KEY_PAIR_DERIVE_SECP_R1_256'', Undefined),
     (''PSA_NEED_OBERON_KEY_TYPE_SPAKE2P_KEY_PAIR_EXPORT'', Undefined),
     (''PSA_NEED_OBERON_KEY_TYPE_SPAKE2P_KEY_PAIR_EXPORT_SECP'', Undefined),
     (''PSA_NEED_OBERON_KEY_TYPE_SPAKE2P_KEY_PAIR_EXPORT_SECP_R1_256'', Undefined),
     (''PSA_NEED_OBERON_KEY_TYPE_SPAKE2P_KEY_PAIR_IMPORT'', Undefined),
     (''PSA_NEED_OBERON_KEY_TYPE_SPAKE2P_KEY_PAIR_IMPORT_SECP'', Undefined),
     (''PSA_NEED_OBERON_KEY_TYPE_SPAKE2P_KEY_PAIR_IMPORT_SECP_R1_256'', Undefined),
     (''PSA_NEED_OBERON_KEY_TYPE_SPAKE2P_PUBLIC_KEY'', Undefined),
     (''PSA_NEED_OBERON_KEY_TYPE_SPAKE2P_PUBLIC_KEY_SECP'', Undefined),
     (''PSA_NEED_OBERON_KEY_TYPE_SPAKE2P_PUBLIC_KEY_SECP_R1_256'', Undefined),
     (''PSA_NEED_OBERON_KEY_TYPE_SRP_6_KEY_PAIR_EXPORT'', Undefined),
     (''PSA_NEED_OBERON_KEY_TYPE_SRP_6_KEY_PAIR_EXPORT_3072'', Undefined),
     (''PSA_NEED_OBERON_KEY_TYPE_SRP_6_KEY_PAIR_IMPORT'', Undefined),
     (''PSA_NEED_OBERON_KEY_TYPE_SRP_6_KEY_PAIR_IMPORT_3072'', Undefined),
     (''PSA_NEED_OBERON_KEY_TYPE_SRP_6_PUBLIC_KEY'', Undefined),
     (''PSA_NEED_OBERON_KEY_TYPE_SRP_6_PUBLIC_KEY_3072'', Undefined)]"

definition psa_user_config_1 :: "(string \<times> directive) list" where
  "psa_user_config_1 = [
     (''PSA_NEED_OBERON_MAC_DRIVER'', Define ''1''), (''PSA_NEED_OBERON_PAKE_DRIVER'', Undefined),
     (''PSA_NEED_OBERON_PBKDF2_AES_CMAC_PRF_128'', Define ''1''), (''PSA_NEED_OBERON_PBKDF2_HMAC'', Undefined),
     (''PSA_NEED_OBERON_PURE_EDDSA_TWISTED_EDWARDS_255'', Undefined),
     (''PSA_NEED_OBERON_PURE_EDDSA_TWISTED_EDWARDS_448'', Undefined),
     (''PSA_NEED_OBERON_RSA_ANY_CRYPT'', Define ''1''), (''PSA_NEED_OBERON_RSA_ANY_SIGN'', Define ''1''),
     (''PSA_NEED_OBERON_RSA_ANY_VERIFY'', Define ''1''), (''PSA_NEED_OBERON_RSA_KEY_SIZE_1024'', Undefined),
     (''PSA_NEED_OBERON_RSA_KEY_SIZE_1536'', Undefined), (''PSA_NEED_OBERON_RSA_KEY_SIZE_2048'', Define ''1''),
     (''PSA_NEED_OBERON_RSA_KEY_SIZE_3072'', Undefined), (''PSA_NEED_OBERON_RSA_KEY_SIZE_4096'', Undefined),
     (''PSA_NEED_OBERON_RSA_KEY_SIZE_6144'', Undefined), (''PSA_NEED_OBERON_RSA_KEY_SIZE_8192'', Undefined),
     (''PSA_NEED_OBERON_RSA_OAEP'', Define ''1''), (''PSA_NEED_OBERON_RSA_PKCS1V15_CRYPT'', Define ''1''),
     (''PSA_NEED_OBERON_RSA_PKCS1V15_SIGN'', Define ''1''), (''PSA_NEED_OBERON_RSA_PSS'', Define ''1''),
     (''PSA_NEED_OBERON_SHA3'', Undefined), (''PSA_NEED_OBERON_SHA3_224'', Undefined),
     (''PSA_NEED_OBERON_SHA3_256'', Undefined), (''PSA_NEED_OBERON_SHA3_384'', Undefined),
     (''PSA_NEED_OBERON_SHA3_512'', Undefined), (''PSA_NEED_OBERON_SHAKE'', Undefined),
     (''PSA_NEED_OBERON_SHAKE256_512'', Undefined), (''PSA_NEED_OBERON_SHA_1'', Define ''1''),
     (''PSA_NEED_OBERON_SHA_224'', Define ''1''), (''PSA_NEED_OBERON_SHA_256'', Define ''1''),
     (''PSA_NEED_OBERON_SHA_384'', Define ''1''), (''PSA_NEED_OBERON_SHA_512'', Define ''1''),
     (''PSA_NEED_OBERON_SPAKE2P'', Undefined), (''PSA_NEED_OBERON_SPAKE2P_CMAC_SECP_R1_256'', Undefined),
     (''PSA_NEED_OBERON_SPAKE2P_HMAC_SECP_R1_256'', Undefined),
     (''PSA_NEED_OBERON_SPAKE2P_MATTER'', Undefined), (''PSA_NEED_OBERON_SRP_6'', Undefined),
     (''PSA_NEED_OBERON_SRP_6_3072'', Undefined), (''PSA_NEED_OBERON_SRP_PASSWORD_HASH'', Undefined),
     (''PSA_NEED_OBERON_STREAM_CIPHER_CHACHA20'', Define ''1''),
     (''PSA_NEED_OBERON_TLS12_ECJPAKE_TO_PMS'', Define ''1''), (''PSA_NEED_OBERON_TLS12_PRF'', Define ''1''),
     (''PSA_NEED_OBERON_TLS12_PSK_TO_MS'', Define ''1''), (''PSA_NEED_OBERON_AES_KW'', Undefined),
     (''PSA_NEED_OBERON_AES_KWP'', Undefined), (''PSA_NEED_OBERON_KEY_TYPE_WPA3_SAE_PT'', Undefined),
     (''PSA_NEED_OBERON_KEY_TYPE_WPA3_SAE_PT_SECP'', Undefined),
     (''PSA_NEED_OBERON_KEY_TYPE_WPA3_SAE_PT_SECP_R1_256'', Undefined),
     (''PSA_NEED_OBERON_WPA3_SAE'', Undefined), (''PSA_NEED_OBERON_WPA3_SAE_SECP_R1_256'', Undefined),
     (''PSA_NEED_OBERON_SP800_108_COUNTER_CMAC'', Undefined),
     (''PSA_NEED_OBERON_SP800_108_COUNTER_HMAC'', Undefined),
     (''PSA_NEED_OBERON_ECDH_SECP_K1_256'', Undefined), (''PSA_NEED_OBERON_ECDSA_SECP_K1_256'', Undefined),
     (''PSA_NEED_OBERON_HSS_VERIFY'', Undefined), (''PSA_NEED_OBERON_KEY_ENCAPSULATION_DRIVER'', Undefined),
     (''PSA_NEED_OBERON_KEY_TYPE_ECC_KEY_PAIR_DERIVE_SECP_K1_256'', Undefined),
     (''PSA_NEED_OBERON_KEY_TYPE_ECC_KEY_PAIR_EXPORT_SECP_K1_256'', Undefined),
     (''PSA_NEED_OBERON_KEY_TYPE_ECC_KEY_PAIR_GENERATE_SECP_K1_256'', Undefined),
     (''PSA_NEED_OBERON_KEY_TYPE_ECC_KEY_PAIR_IMPORT_SECP_K1_256'', Undefined),
     (''PSA_NEED_OBERON_KEY_TYPE_ECC_PUBLIC_KEY_SECP_K1_256'', Undefined),
     (''PSA_NEED_OBERON_KEY_TYPE_HSS_PUBLIC_KEY'', Undefined),
     (''PSA_NEED_OBERON_KEY_TYPE_LMS_PUBLIC_KEY'', Undefined),
     (''PSA_NEED_OBERON_KEY_TYPE_ML_DSA_KEY_PAIR_EXPORT'', Undefined),
     (''PSA_NEED_OBERON_KEY_TYPE_ML_DSA_KEY_PAIR_IMPORT'', Undefined),
     (''PSA_NEED_OBERON_KEY_TYPE_ML_DSA_PUBLIC_KEY'', Undefined),
     (''PSA_NEED_OBERON_KEY_TYPE_ML_KEM_KEY_PAIR_EXPORT'', Undefined),
     (''PSA_NEED_OBERON_KEY_TYPE_ML_KEM_KEY_PAIR_IMPORT'', Undefined),
     (''PSA_NEED_OBERON_KEY_TYPE_ML_KEM_PUBLIC_KEY'', Undefined),
     (''PSA_NEED_OBERON_KEY_TYPE_XMSS_MT_PUBLIC_KEY'', Undefined),
     (''PSA_NEED_OBERON_KEY_TYPE_XMSS_PUBLIC_KEY'', Undefined), (''PSA_NEED_OBERON_LMS_VERIFY'', Undefined),
     (''PSA_NEED_OBERON_ML_DSA'', Undefined), (''PSA_NEED_OBERON_ML_DSA_44'', Undefined),
     (''PSA_NEED_OBERON_ML_DSA_65'', Undefined), (''PSA_NEED_OBERON_ML_DSA_87'', Undefined),
     (''PSA_NEED_OBERON_ML_DSA_SIGN'', Undefined), (''PSA_NEED_OBERON_ML_DSA_VERIFY'', Undefined),
     (''PSA_NEED_OBERON_ML_KEM'', Undefined), (''PSA_NEED_OBERON_ML_KEM_1024'', Undefined),
     (''PSA_NEED_OBERON_ML_KEM_512'', Undefined), (''PSA_NEED_OBERON_ML_KEM_768'', Undefined),
     (''PSA_NEED_OBERON_SHAKE128_256'', Undefined), (''PSA_NEED_OBERON_SHAKE256_192'', Undefined),
     (''PSA_NEED_OBERON_SHAKE256_256'', Undefined), (''PSA_NEED_OBERON_SHA_256_192'', Undefined),
     (''PSA_NEED_OBERON_STREAM_CIPHER_XCHACHA20'', Undefined), (''PSA_NEED_OBERON_WPA3_SAE_H2E'', Undefined),
     (''PSA_NEED_OBERON_XCHACHA20_POLY1305'', Undefined), (''PSA_NEED_OBERON_XMSS_MT_VERIFY'', Undefined),
     (''PSA_NEED_OBERON_XMSS_VERIFY'', Undefined), (''PSA_NEED_NRF_RNG_ENTROPY_DRIVER'', Undefined),
     (''PSA_CRYPTO_DRIVER_CRACEN'', Undefined), (''PSA_NEED_CRACEN_AEAD_DRIVER'', Undefined),
     (''PSA_NEED_CRACEN_CIPHER_DRIVER'', Undefined), (''PSA_NEED_CRACEN_KEY_AGREEMENT_DRIVER'', Undefined),
     (''PSA_NEED_CRACEN_ASYMMETRIC_SIGNATURE_DRIVER'', Undefined),
     (''PSA_NEED_CRACEN_ASYMMETRIC_ENCRYPTION_DRIVER'', Undefined),
     (''PSA_NEED_CRACEN_HASH_DRIVER'', Undefined), (''PSA_NEED_CRACEN_KEY_MANAGEMENT_DRIVER'', Undefined),
     (''PSA_NEED_CRACEN_KMU_DRIVER'', Undefined), (''PSA_NEED_CRACEN_PLATFORM_KEYS'', Undefined),
     (''PSA_NEED_CRACEN_MAC_DRIVER'', Undefined), (''PSA_NEED_CRACEN_PAKE_DRIVER'', Undefined),
     (''PSA_NEED_CRACEN_KEY_DERIVATION_DRIVER'', Undefined), (''PSA_NEED_CRACEN_CTR_DRBG_DRIVER'', Undefined),
     (''PSA_NEED_CRACEN_KMU_ENCRYPTED_KEYS'', Undefined), (''PSA_NEED_CRACEN_CCM_AES'', Undefined),
     (''PSA_NEED_CRACEN_GCM_AES'', Undefined), (''PSA_NEED_CRACEN_CHACHA20_POLY1305'', Undefined),
     (''PSA_NEED_CRACEN_CTR_AES'', Undefined), (''PSA_NEED_CRACEN_CBC_PKCS7_AES'', Undefined),
     (''PSA_NEED_CRACEN_CBC_NO_PADDING_AES'', Undefined), (''PSA_NEED_CRACEN_ECB_NO_PADDING_AES'', Undefined),
     (''PSA_NEED_CRACEN_STREAM_CIPHER_CHACHA20'', Undefined),
     (''PSA_NEED_CRACEN_ECDH_BRAINPOOL_P_R1_192'', Undefined),
     (''PSA_NEED_CRACEN_ECDH_BRAINPOOL_P_R1_224'', Undefined),
     (''PSA_NEED_CRACEN_ECDH_BRAINPOOL_P_R1_256'', Undefined),
     (''PSA_NEED_CRACEN_ECDH_BRAINPOOL_P_R1_320'', Undefined),
     (''PSA_NEED_CRACEN_ECDH_BRAINPOOL_P_R1_384'', Undefined),
     (''PSA_NEED_CRACEN_ECDH_BRAINPOOL_P_R1_512'', Undefined),
     (''PSA_NEED_CRACEN_ECDH_BRAINPOOL_P_R1'', Undefined), (''PSA_NEED_CRACEN_ECDH_SECP_R1_192'', Undefined),
     (''PSA_NEED_CRACEN_ECDH_SECP_R1_224'', Undefined), (''PSA_NEED_CRACEN_ECDH_SECP_R1_256'', Undefined),
     (''PSA_NEED_CRACEN_ECDH_SECP_R1_384'', Undefined), (''PSA_NEED_CRACEN_ECDH_SECP_R1_521'', Undefined),
     (''PSA_NEED_CRACEN_ECDH_SECP_R1'', Undefined), (''PSA_NEED_CRACEN_ECDH_MONTGOMERY_255'', Undefined),
     (''PSA_NEED_CRACEN_ECDH_MONTGOMERY_448'', Undefined), (''PSA_NEED_CRACEN_ECDH_MONTGOMERY'', Undefined),
     (''PSA_NEED_CRACEN_ECDH_SECP_K1_192'', Undefined), (''PSA_NEED_CRACEN_ECDH_SECP_K1_256'', Undefined),
     (''PSA_NEED_CRACEN_ECDH_SECP_K1'', Undefined),
     (''PSA_NEED_CRACEN_ASYMMETRIC_SIGNATURE_ANY_RSA'', Undefined),
     (''PSA_NEED_CRACEN_ASYMMETRIC_SIGNATURE_ANY_ECC'', Undefined),
     (''PSA_NEED_CRACEN_ECDSA_BRAINPOOL_P_R1_192'', Undefined),
     (''PSA_NEED_CRACEN_ECDSA_BRAINPOOL_P_R1_224'', Undefined),
     (''PSA_NEED_CRACEN_ECDSA_BRAINPOOL_P_R1_256'', Undefined),
     (''PSA_NEED_CRACEN_ECDSA_BRAINPOOL_P_R1_320'', Undefined),
     (''PSA_NEED_CRACEN_ECDSA_BRAINPOOL_P_R1_384'', Undefined),
     (''PSA_NEED_CRACEN_ECDSA_BRAINPOOL_P_R1_512'', Undefined),
     (''PSA_NEED_CRACEN_ECDSA_BRAINPOOL_P_R1'', Undefined)]"

definition psa_user_config_2 :: "(string \<times> directive) list" where
  "psa_user_config_2 = [
     (''PSA_NEED_CRACEN_ECDSA_SECP_R1_192'', Undefined), (''PSA_NEED_CRACEN_ECDSA_SECP_R1_224'', Undefined),
     (''PSA_NEED_CRACEN_ECDSA_SECP_R1_256'', Undefined), (''PSA_NEED_CRACEN_ECDSA_SECP_R1_384'', Undefined),
     (''PSA_NEED_CRACEN_ECDSA_SECP_R1_521'', Undefined), (''PSA_NEED_CRACEN_ECDSA_SECP_R1'', Undefined),
     (''PSA_NEED_CRACEN_ECDSA_SECP_K1_192'', Undefined), (''PSA_NEED_CRACEN_ECDSA_SECP_K1_256'', Undefined),
     (''PSA_NEED_CRACEN_ECDSA_SECP_K1'', Undefined), (''PSA_NEED_CRACEN_DETERMINISTIC_ECDSA'', Undefined),
     (''PSA_NEED_CRACEN_ECDSA'', Undefined), (''PSA_NEED_CRACEN_PURE_EDDSA_TWISTED_EDWARDS_255'', Undefined),
     (''PSA_NEED_CRACEN_PURE_EDDSA_TWISTED_EDWARDS_448'', Undefined),
     (''PSA_NEED_CRACEN_PURE_EDDSA_TWISTED_EDWARDS'', Undefined), (''PSA_NEED_CRACEN_ED25519PH'', Undefined),
     (''PSA_NEED_CRACEN_RSA_PKCS1V15_SIGN'', Undefined), (''PSA_NEED_CRACEN_RSA_PSS'', Undefined),
     (''PSA_NEED_CRACEN_RSA_OAEP'', Undefined), (''PSA_NEED_CRACEN_RSA_PKCS1V15_CRYPT'', Undefined),
     (''PSA_NEED_CRACEN_SHA_1'', Undefined), (''PSA_NEED_CRACEN_SHA_224'', Undefined),
     (''PSA_NEED_CRACEN_SHA_256'', Undefined), (''PSA_NEED_CRACEN_SHA_384'', Undefined),
     (''PSA_NEED_CRACEN_SHA_512'', Undefined), (''PSA_NEED_CRACEN_SHA3_224'', Undefined),
     (''PSA_NEED_CRACEN_SHA3_256'', Undefined), (''PSA_NEED_CRACEN_SHA3_384'', Undefined),
     (''PSA_NEED_CRACEN_SHA3_512'', Undefined),
     (''PSA_NEED_CRACEN_KEY_TYPE_ECC_PUBLIC_KEY_SECP_R1_192'', Undefined),
     (''PSA_NEED_CRACEN_KEY_TYPE_ECC_KEY_PAIR_IMPORT_SECP_R1_192'', Undefined),
     (''PSA_NEED_CRACEN_KEY_TYPE_ECC_KEY_PAIR_EXPORT_SECP_R1_192'', Undefined),
     (''PSA_NEED_CRACEN_KEY_TYPE_ECC_KEY_PAIR_GENERATE_SECP_R1_192'', Undefined),
     (''PSA_NEED_CRACEN_KEY_TYPE_ECC_KEY_PAIR_DERIVE_SECP_R1_192'', Undefined),
     (''PSA_NEED_CRACEN_KEY_TYPE_ECC_SECP_R1_192'', Undefined),
     (''PSA_NEED_CRACEN_KEY_TYPE_ECC_PUBLIC_KEY_SECP_R1_224'', Undefined),
     (''PSA_NEED_CRACEN_KEY_TYPE_ECC_KEY_PAIR_IMPORT_SECP_R1_224'', Undefined),
     (''PSA_NEED_CRACEN_KEY_TYPE_ECC_KEY_PAIR_EXPORT_SECP_R1_224'', Undefined),
     (''PSA_NEED_CRACEN_KEY_TYPE_ECC_KEY_PAIR_GENERATE_SECP_R1_224'', Undefined),
     (''PSA_NEED_CRACEN_KEY_TYPE_ECC_KEY_PAIR_DERIVE_SECP_R1_224'', Undefined),
     (''PSA_NEED_CRACEN_KEY_TYPE_ECC_SECP_R1_224'', Undefined),
     (''PSA_NEED_CRACEN_KEY_TYPE_ECC_PUBLIC_KEY_SECP_R1_256'', Undefined),
     (''PSA_NEED_CRACEN_KEY_TYPE_ECC_KEY_PAIR_IMPORT_SECP_R1_256'', Undefined),
     (''PSA_NEED_CRACEN_KEY_TYPE_ECC_KEY_PAIR_EXPORT_SECP_R1_256'', Undefined),
     (''PSA_NEED_CRACEN_KEY_TYPE_ECC_KEY_PAIR_GENERATE_SECP_R1_256'', Undefined),
     (''PSA_NEED_CRACEN_KEY_TYPE_ECC_KEY_PAIR_DERIVE_SECP_R1_256'', Undefined),
     (''PSA_NEED_CRACEN_KEY_TYPE_ECC_SECP_R1_256'', Undefined),
     (''PSA_NEED_CRACEN_KEY_TYPE_ECC_PUBLIC_KEY_SECP_R1_384'', Undefined),
     (''PSA_NEED_CRACEN_KEY_TYPE_ECC_KEY_PAIR_IMPORT_SECP_R1_384'', Undefined),
     (''PSA_NEED_CRACEN_KEY_TYPE_ECC_KEY_PAIR_EXPORT_SECP_R1_384'', Undefined),
     (''PSA_NEED_CRACEN_KEY_TYPE_ECC_KEY_PAIR_GENERATE_SECP_R1_384'', Undefined),
     (''PSA_NEED_CRACEN_KEY_TYPE_ECC_KEY_PAIR_DERIVE_SECP_R1_384'', Undefined),
     (''PSA_NEED_CRACEN_KEY_TYPE_ECC_SECP_R1_384'', Undefined),
     (''PSA_NEED_CRACEN_KEY_TYPE_ECC_PUBLIC_KEY_SECP_R1_521'', Undefined),
     (''PSA_NEED_CRACEN_KEY_TYPE_ECC_KEY_PAIR_IMPORT_SECP_R1_521'', Undefined),
     (''PSA_NEED_CRACEN_KEY_TYPE_ECC_KEY_PAIR_EXPORT_SECP_R1_521'', Undefined),
     (''PSA_NEED_CRACEN_KEY_TYPE_ECC_KEY_PAIR_GENERATE_SECP_R1_521'', Undefined),
     (''PSA_NEED_CRACEN_KEY_TYPE_ECC_KEY_PAIR_DERIVE_SECP_R1_521'', Undefined),
     (''PSA_NEED_CRACEN_KEY_TYPE_ECC_SECP_R1_521'', Undefined),
     (''PSA_NEED_CRACEN_KEY_TYPE_ECC_SECP_R1'', Undefined),
     (''PSA_NEED_CRACEN_KEY_TYPE_ECC_PUBLIC_KEY_SECP_K1_192'', Undefined),
     (''PSA_NEED_CRACEN_KEY_TYPE_ECC_KEY_PAIR_IMPORT_SECP_K1_192'', Undefined),
     (''PSA_NEED_CRACEN_KEY_TYPE_ECC_KEY_PAIR_EXPORT_SECP_K1_192'', Undefined),
     (''PSA_NEED_CRACEN_KEY_TYPE_ECC_KEY_PAIR_GENERATE_SECP_K1_192'', Undefined),
     (''PSA_NEED_CRACEN_KEY_TYPE_ECC_KEY_PAIR_DERIVE_SECP_K1_192'', Undefined),
     (''PSA_NEED_CRACEN_KEY_TYPE_ECC_SECP_K1_192'', Undefined),
     (''PSA_NEED_CRACEN_KEY_TYPE_ECC_PUBLIC_KEY_SECP_K1_256'', Undefined),
     (''PSA_NEED_CRACEN_KEY_TYPE_ECC_KEY_PAIR_IMPORT_SECP_K1_256'', Undefined),
     (''PSA_NEED_CRACEN_KEY_TYPE_ECC_KEY_PAIR_EXPORT_SECP_K1_256'', Undefined),
     (''PSA_NEED_CRACEN_KEY_TYPE_ECC_KEY_PAIR_GENERATE_SECP_K1_256'', Undefined),
     (''PSA_NEED_CRACEN_KEY_TYPE_ECC_KEY_PAIR_DERIVE_SECP_K1_256'', Undefined),
     (''PSA_NEED_CRACEN_KEY_TYPE_ECC_SECP_K1_256'', Undefined),
     (''PSA_NEED_CRACEN_KEY_TYPE_ECC_SECP_K1'', Undefined),
     (''PSA_NEED_CRACEN_KEY_TYPE_ECC_PUBLIC_KEY_MONTGOMERY_255'', Undefined),
     (''PSA_NEED_CRACEN_KEY_TYPE_ECC_KEY_PAIR_IMPORT_MONTGOMERY_255'', Undefined),
     (''PSA_NEED_CRACEN_KEY_TYPE_ECC_KEY_PAIR_EXPORT_MONTGOMERY_255'', Undefined),
     (''PSA_NEED_CRACEN_KEY_TYPE_ECC_KEY_PAIR_GENERATE_MONTGOMERY_255'', Undefined),
     (''PSA_NEED_CRACEN_KEY_TYPE_ECC_KEY_PAIR_DERIVE_MONTGOMERY_255'', Undefined),
     (''PSA_NEED_CRACEN_KEY_TYPE_ECC_MONTGOMERY_255'', Undefined),
     (''PSA_NEED_CRACEN_KEY_TYPE_ECC_PUBLIC_KEY_MONTGOMERY_448'', Undefined),
     (''PSA_NEED_CRACEN_KEY_TYPE_ECC_KEY_PAIR_IMPORT_MONTGOMERY_448'', Undefined),
     (''PSA_NEED_CRACEN_KEY_TYPE_ECC_KEY_PAIR_EXPORT_MONTGOMERY_448'', Undefined),
     (''PSA_NEED_CRACEN_KEY_TYPE_ECC_KEY_PAIR_GENERATE_MONTGOMERY_448'', Undefined),
     (''PSA_NEED_CRACEN_KEY_TYPE_ECC_KEY_PAIR_DERIVE_MONTGOMERY_448'', Undefined),
     (''PSA_NEED_CRACEN_KEY_TYPE_ECC_MONTGOMERY_448'', Undefined),
     (''PSA_NEED_CRACEN_KEY_TYPE_ECC_MONTGOMERY'', Undefined),
     (''PSA_NEED_CRACEN_KEY_TYPE_ECC_PUBLIC_KEY_TWISTED_EDWARDS_255'', Undefined),
     (''PSA_NEED_CRACEN_KEY_TYPE_ECC_KEY_PAIR_IMPORT_TWISTED_EDWARDS_255'', Undefined),
     (''PSA_NEED_CRACEN_KEY_TYPE_ECC_KEY_PAIR_EXPORT_TWISTED_EDWARDS_255'', Undefined),
     (''PSA_NEED_CRACEN_KEY_TYPE_ECC_KEY_PAIR_GENERATE_TWISTED_EDWARDS_255'', Undefined),
     (''PSA_NEED_CRACEN_KEY_TYPE_ECC_KEY_PAIR_DERIVE_TWISTED_EDWARDS_255'', Undefined),
     (''PSA_NEED_CRACEN_KEY_TYPE_ECC_TWISTED_EDWARDS_255'', Undefined),
     (''PSA_NEED_CRACEN_KEY_TYPE_ECC_PUBLIC_KEY_TWISTED_EDWARDS_448'', Undefined),
     (''PSA_NEED_CRACEN_KEY_TYPE_ECC_KEY_PAIR_IMPORT_TWISTED_EDWARDS_448'', Undefined),
     (''PSA_NEED_CRACEN_KEY_TYPE_ECC_KEY_PAIR_EXPORT_TWISTED_EDWARDS_448'', Undefined),
     (''PSA_NEED_CRACEN_KEY_TYPE_ECC_KEY_PAIR_GENERATE_TWISTED_EDWARDS_448'', Undefined),
     (''PSA_NEED_CRACEN_KEY_TYPE_ECC_KEY_PAIR_DERIVE_TWISTED_EDWARDS_448'', Undefined),
     (''PSA_NEED_CRACEN_KEY_TYPE_ECC_TWISTED_EDWARDS_448'', Undefined),
     (''PSA_NEED_CRACEN_KEY_TYPE_ECC_TWISTED_EDWARDS'', Undefined),
     (''PSA_NEED_CRACEN_KEY_TYPE_ECC_PUBLIC_KEY_BRAINPOOL_P_R1_192'', Undefined),
     (''PSA_NEED_CRACEN_KEY_TYPE_ECC_KEY_PAIR_IMPORT_BRAINPOOL_P_R1_192'', Undefined),
     (''PSA_NEED_CRACEN_KEY_TYPE_ECC_KEY_PAIR_EXPORT_BRAINPOOL_P_R1_192'', Undefined),
     (''PSA_NEED_CRACEN_KEY_TYPE_ECC_KEY_PAIR_GENERATE_BRAINPOOL_P_R1_192'', Undefined),
     (''PSA_NEED_CRACEN_KEY_TYPE_ECC_KEY_PAIR_DERIVE_BRAINPOOL_P_R1_192'', Undefined),
     (''PSA_NEED_CRACEN_KEY_TYPE_ECC_BRAINPOOL_P_R1_192'', Undefined),
     (''PSA_NEED_CRACEN_KEY_TYPE_ECC_PUBLIC_KEY_BRAINPOOL_P_R1_224'', Undefined),
     (''PSA_NEED_CRACEN_KEY_TYPE_ECC_KEY_PAIR_IMPORT_BRAINPOOL_P_R1_224'', Undefined),
     (''PSA_NEED_CRACEN_KEY_TYPE_ECC_KEY_PAIR_EXPORT_BRAINPOOL_P_R1_224'', Undefined),
     (''PSA_NEED_CRACEN_KEY_TYPE_ECC_KEY_PAIR_GENERATE_BRAINPOOL_P_R1_224'', Undefined),
     (''PSA_NEED_CRACEN_KEY_TYPE_ECC_KEY_PAIR_DERIVE_BRAINPOOL_P_R1_224'', Undefined),
     (''PSA_NEED_CRACEN_KEY_TYPE_ECC_BRAINPOOL_P_R1_224'', Undefined),
     (''PSA_NEED_CRACEN_KEY_TYPE_ECC_PUBLIC_KEY_BRAINPOOL_P_R1_256'', Undefined),
     (''PSA_NEED_CRACEN_KEY_TYPE_ECC_KEY_PAIR_IMPORT_BRAINPOOL_P_R1_256'', Undefined),
     (''PSA_NEED_CRACEN_KEY_TYPE_ECC_KEY_PAIR_EXPORT_BRAINPOOL_P_R1_256'', Undefined),
     (''PSA_NEED_CRACEN_KEY_TYPE_ECC_KEY_PAIR_GENERATE_BRAINPOOL_P_R1_256'', Undefined),
     (''PSA_NEED_CRACEN_KEY_TYPE_ECC_KEY_PAIR_DERIVE_BRAINPOOL_P_R1_256'', Undefined),
     (''PSA_NEED_CRACEN_KEY_TYPE_ECC_BRAINPOOL_P_R1_256'', Undefined),
     (''PSA_NEED_CRACEN_KEY_TYPE_ECC_PUBLIC_KEY_BRAINPOOL_P_R1_320'', Undefined),
     (''PSA_NEED_CRACEN_KEY_TYPE_ECC_KEY_PAIR_IMPORT_BRAINPOOL_P_R1_320'', Undefined),
     (''PSA_NEED_CRACEN_KEY_TYPE_ECC_KEY_PAIR_EXPORT_BRAINPOOL_P_R1_320'', Undefined),
     (''PSA_NEED_CRACEN_KEY_TYPE_ECC_KEY_PAIR_GENERATE_BRAINPOOL_P_R1_320'', Undefined),
     (''PSA_NEED_CRACEN_KEY_TYPE_ECC_KEY_PAIR_DERIVE_BRAINPOOL_P_R1_320'', Undefined),
     (''PSA_NEED_CRACEN_KEY_TYPE_ECC_BRAINPOOL_P_R1_320'', Undefined),
     (''PSA_NEED_CRACEN_KEY_TYPE_ECC_PUBLIC_KEY_BRAINPOOL_P_R1_384'', Undefined),
     (''PSA_NEED_CRACEN_KEY_TYPE_ECC_KEY_PAIR_IMPORT_BRAINPOOL_P_R1_384'', Undefined),
     (''PSA_NEED_CRACEN_KEY_TYPE_ECC_KEY_PAIR_EXPORT_BRAINPOOL_P_R1_384'', Undefined),
     (''PSA_NEED_CRACEN_KEY_TYPE_ECC_KEY_PAIR_GENERATE_BRAINPOOL_P_R1_384'', Undefined),
     (''PSA_NEED_CRACEN_KEY_TYPE_ECC_KEY_PAIR_DERIVE_BRAINPOOL_P_R1_384'', Undefined),
     (''PSA_NEED_CRACEN_KEY_TYPE_ECC_BRAINPOOL_P_R1_384'', Undefined),
     (''PSA_NEED_CRACEN_KEY_TYPE_ECC_PUBLIC_KEY_BRAINPOOL_P_R1_512'', Undefined),
     (''PSA_NEED_CRACEN_KEY_TYPE_ECC_KEY_PAIR_IMPORT_BRAINPOOL_P_R1_512'', Undefined),
     (''PSA_NEED_CRACEN_KEY_TYPE_ECC_KEY_PAIR_EXPORT_BRAINPOOL_P_R1_512'', Undefined),
     (''PSA_NEED_CRACEN_KEY_TYPE_ECC_KEY_PAIR_GENERATE_BRAINPOOL_P_R1_512'', Undefined),
     (''PSA_NEED_CRACEN_KEY_TYPE_ECC_KEY_PAIR_DERIVE_BRAINPOOL_P_R1_512'', Undefined),
     (''PSA_NEED_CRACEN_KEY_TYPE_ECC_BRAINPOOL_P_R1_512'', Undefined),
     (''PSA_NEED_CRACEN_KEY_TYPE_ECC_BRAINPOOL_P_R1'', Undefined),
     (''PSA_NEED_CRACEN_KEY_TYPE_ECC_PUBLIC_KEY'', Undefined),
     (''PSA_NEED_CRACEN_KEY_TYPE_ECC_KEY_PAIR_IMPORT'', Undefined),
     (''PSA_NEED_CRACEN_KEY_TYPE_ECC_KEY_PAIR_EXPORT'', Undefined),
     (''PSA_NEED_CRACEN_KEY_TYPE_ECC_KEY_PAIR_GENERATE'', Undefined),
     (''PSA_NEED_CRACEN_KEY_TYPE_ECC_KEY_PAIR_DERIVE'', Undefined),
     (''PSA_NEED_CRACEN_KEY_TYPE_SPAKE2P_PUBLIC_KEY_SECP_R1_256'', Undefined),
     (''PSA_NEED_CRACEN_KEY_TYPE_SPAKE2P_KEY_PAIR_IMPORT_SECP_R1_256'', Undefined)]"

definition psa_user_config_3 :: "(string \<times> directive) list" where
  "psa_user_config_3 = [
     (''PSA_NEED_CRACEN_KEY_TYPE_SPAKE2P_KEY_PAIR_EXPORT_SECP_R1_256'', Undefined),
     (''PSA_NEED_CRACEN_KEY_TYPE_SPAKE2P_KEY_PAIR_DERIVE_SECP_R1_256'', Undefined),
     (''PSA_NEED_CRACEN_KEY_TYPE_SPAKE2P_SECP_R1_256'', Undefined),
     (''PSA_NEED_CRACEN_KEY_TYPE_SRP_6_PUBLIC_KEY_3072'', Undefined),
     (''PSA_NEED_CRACEN_KEY_TYPE_SRP_6_KEY_PAIR_IMPORT_3072'', Undefined),
     (''PSA_NEED_CRACEN_KEY_TYPE_SRP_6_KEY_PAIR_EXPORT_3072'', Undefined),
     (''PSA_NEED_CRACEN_KEY_TYPE_SRP_6_3072'', Undefined),
     (''PSA_NEED_CRACEN_KEY_TYPE_RSA_PUBLIC_KEY'', Undefined),
     (''PSA_NEED_CRACEN_KEY_TYPE_RSA_KEY_PAIR_IMPORT'', Undefined),
     (''PSA_NEED_CRACEN_KEY_TYPE_RSA_KEY_PAIR_EXPORT'', Undefined),
     (''PSA_NEED_CRACEN_KEY_TYPE_RSA_KEY_PAIR_GENERATE'', Undefined), (''PSA_NEED_CRACEN_HMAC'', Undefined),
     (''PSA_NEED_CRACEN_CMAC'', Undefined), (''PSA_NEED_CRACEN_SRP_6'', Undefined),
     (''PSA_NEED_CRACEN_SRP_PASSWORD_HASH'', Undefined), (''PSA_NEED_CRACEN_ECJPAKE_SECP_R1_256'', Undefined),
     (''PSA_NEED_CRACEN_ECJPAKE'', Undefined), (''PSA_NEED_CRACEN_SPAKE2P'', Undefined),
     (''PSA_NEED_CRACEN_HKDF'', Undefined), (''PSA_NEED_CRACEN_SP800_108_COUNTER_CMAC'', Undefined),
     (''PSA_NEED_CRACEN_TLS12_ECJPAKE_TO_PMS'', Undefined), (''PSA_NEED_CRACEN_TLS12_PRF'', Undefined),
     (''PSA_NEED_CRACEN_TLS12_PSK_TO_MS'', Undefined), (''PSA_NEED_CRACEN_PBKDF2_HMAC'', Undefined),
     (''PSA_CRYPTO_DRIVER_ALG_PRNG_TEST'', Undefined), (''MBEDTLS_PSA_CRYPTO_C'', Define []),
     (''MBEDTLS_PSA_CRYPTO_STORAGE_C'', Undefined), (''MBEDTLS_PSA_CRYPTO_DRIVERS'', Define ''1''),
     (''MBEDTLS_PSA_CRYPTO_CLIENT'', Define []), (''MBEDTLS_PSA_CRYPTO_EXTERNAL_RNG'', Define []),
     (''MBEDTLS_PSA_KEY_SLOT_COUNT'', Define ''32''), (''MBEDTLS_PSA_STATIC_KEY_SLOTS'', Undefined),
     (''MBEDTLS_PSA_STATIC_KEY_SLOT_BUFFER_SIZE'', Undefined)]"

definition psa_user_config :: "(string \<times> directive) list" where
  "psa_user_config =
     psa_user_config_0 @ psa_user_config_1 @ psa_user_config_2 @ psa_user_config_3"

lemmas psa_user_config_defs = psa_user_config_def
  psa_user_config_0_def psa_user_config_1_def psa_user_config_2_def psa_user_config_3_def

text \<open>The requirements that the comments state.\<close>

definition nrf_config_requires_0 :: "(string \<times> string list list) list" where
  "nrf_config_requires_0 = [
     (''PLATFORM_MEMORY'', [[''PLATFORM_C'']])]"

definition nrf_config_requires_4 :: "(string \<times> string list list) list" where
  "nrf_config_requires_4 = [
     (''ECDSA_DETERMINISTIC'', [[''HMAC_DRBG_C''], [''ECDSA_C'']]),
     (''KEY_EXCHANGE_DHE_PSK_ENABLED'', [[''DHM_C'']]),
     (''KEY_EXCHANGE_ECDHE_PSK_ENABLED'', [[''ECDH_C'']]),
     (''KEY_EXCHANGE_RSA_PSK_ENABLED'', [[''RSA_C''], [''PKCS1_V15''], [''X509_CRT_PARSE_C'']]),
     (''KEY_EXCHANGE_RSA_ENABLED'', [[''RSA_C''], [''PKCS1_V15''], [''X509_CRT_PARSE_C'']]),
     (''KEY_EXCHANGE_DHE_RSA_ENABLED'', [[''DHM_C''], [''RSA_C''], [''PKCS1_V15''], [''X509_CRT_PARSE_C'']])]"

definition nrf_config_requires_5 :: "(string \<times> string list list) list" where
  "nrf_config_requires_5 = [
     (''KEY_EXCHANGE_ECDHE_RSA_ENABLED'', [[''ECDH_C''], [''RSA_C''], [''PKCS1_V15''],
       [''X509_CRT_PARSE_C'']]),
     (''KEY_EXCHANGE_ECDHE_ECDSA_ENABLED'', [[''ECDH_C''], [''ECDSA_C''], [''X509_CRT_PARSE_C'']]),
     (''KEY_EXCHANGE_ECDH_ECDSA_ENABLED'', [[''ECDH_C''], [''ECDSA_C''], [''X509_CRT_PARSE_C'']]),
     (''KEY_EXCHANGE_ECDH_RSA_ENABLED'', [[''ECDH_C''], [''RSA_C''], [''X509_CRT_PARSE_C'']]),
     (''KEY_EXCHANGE_ECJPAKE_ENABLED'', [[''ECJPAKE_C''], [''SHA256_C''], [''ECP_DP_SECP256R1_ENABLED'']]),
     (''GENPRIME'', [[''BIGNUM_C'']])]"

definition nrf_config_requires_6 :: "(string \<times> string list list) list" where
  "nrf_config_requires_6 = [
     (''ENTROPY_FORCE_SHA256'', [[''SHA256_C'']]),
     (''PKCS1_V15'', [[''RSA_C'']]),
     (''PKCS1_V21'', [[''MD_C''], [''RSA_C'']])]"

definition nrf_config_requires_7 :: "(string \<times> string list list) list" where
  "nrf_config_requires_7 = [
     (''PSA_CRYPTO_EXTERNAL_RNG'', [[''PSA_CRYPTO_C'']])]"

definition nrf_config_requires_8 :: "(string \<times> string list list) list" where
  "nrf_config_requires_8 = [
     (''SSL_EXTENDED_MASTER_SECRET'', [[''SSL_PROTO_TLS1_2'']]),
     (''SSL_PROTO_TLS1_2'', [[''SHA1_C'', ''SHA256_C'', ''SHA512_C'']])]"

definition nrf_config_requires_9 :: "(string \<times> string list list) list" where
  "nrf_config_requires_9 = [
     (''SSL_SERVER_NAME_INDICATION'', [[''X509_CRT_PARSE_C'']])]"

definition nrf_config_requires_10 :: "(string \<times> string list list) list" where
  "nrf_config_requires_10 = [
     (''THREADING_ALT'', [[''THREADING_C'']]),
     (''VERSION_FEATURES'', [[''VERSION_C'']])]"

definition nrf_config_requires_12 :: "(string \<times> string list list) list" where
  "nrf_config_requires_12 = [
     (''CCM_C'', [[''AES_C'', ''CAMELLIA_C'']]),
     (''CHACHAPOLY_C'', [[''CHACHA20_C''], [''POLY1305_C'']]),
     (''CMAC_C'', [[''AES_C'', ''DES_C'']]),
     (''CTR_DRBG_C'', [[''AES_C'']])]"

definition nrf_config_requires_13 :: "(string \<times> string list list) list" where
  "nrf_config_requires_13 = [
     (''ECDH_C'', [[''ECP_C'']]),
     (''ECDSA_C'', [[''ECP_C''], [''ASN1_WRITE_C''], [''ASN1_PARSE_C''], [''ECP_DP_SECP192R1_ENABLED'',
       ''ECP_DP_SECP224R1_ENABLED'', ''ECP_DP_SECP256R1_ENABLED'', ''ECP_DP_SECP384R1_ENABLED'',
       ''ECP_DP_SECP521R1_ENABLED'', ''ECP_DP_SECP192K1_ENABLED'', ''ECP_DP_SECP224K1_ENABLED'',
       ''ECP_DP_SECP256K1_ENABLED'', ''ECP_DP_BP256R1_ENABLED'', ''ECP_DP_BP384R1_ENABLED'',
       ''ECP_DP_BP512R1_ENABLED'']]),
     (''ECJPAKE_C'', [[''ECP_C''], [''MD_C'']]),
     (''ECP_C'', [[''BIGNUM_C''], [''ECP_DP_SECP192R1_ENABLED'', ''ECP_DP_SECP224R1_ENABLED'',
       ''ECP_DP_SECP256R1_ENABLED'', ''ECP_DP_SECP384R1_ENABLED'', ''ECP_DP_SECP521R1_ENABLED'',
       ''ECP_DP_SECP192K1_ENABLED'', ''ECP_DP_SECP224K1_ENABLED'', ''ECP_DP_SECP256K1_ENABLED'',
       ''ECP_DP_BP256R1_ENABLED'', ''ECP_DP_BP384R1_ENABLED'', ''ECP_DP_BP512R1_ENABLED'',
       ''ECP_DP_CURVE25519_ENABLED'', ''ECP_DP_CURVE448_ENABLED'']]),
     (''ENTROPY_C'', [[''SHA512_C'', ''SHA256_C'']]),
     (''GCM_C'', [[''AES_C'', ''CAMELLIA_C'', ''ARIA_C'']])]"

definition nrf_config_requires_14 :: "(string \<times> string list list) list" where
  "nrf_config_requires_14 = [
     (''HKDF_C'', [[''MD_C'']]),
     (''HMAC_DRBG_C'', [[''MD_C'']]),
     (''MEMORY_BUFFER_ALLOC_C'', [[''PLATFORM_C''], [''PLATFORM_MEMORY'']])]"

definition nrf_config_requires_15 :: "(string \<times> string list list) list" where
  "nrf_config_requires_15 = [
     (''PEM_PARSE_C'', [[''BASE64_C'']]),
     (''PEM_WRITE_C'', [[''BASE64_C'']]),
     (''PK_C'', [[''RSA_C'', ''ECP_C'']]),
     (''PK_PARSE_C'', [[''PK_C'']]),
     (''PK_WRITE_C'', [[''PK_C'']]),
     (''PKCS5_C'', [[''MD_C'']]),
     (''PSA_CRYPTO_C'', [[''CTR_DRBG_C'', ''HMAC_DRBG_C'', ''PSA_CRYPTO_EXTERNAL_RNG''], [''ENTROPY_C'',
       ''PSA_CRYPTO_EXTERNAL_RNG'']])]"

definition nrf_config_requires_16 :: "(string \<times> string list list) list" where
  "nrf_config_requires_16 = [
     (''RSA_C'', [[''BIGNUM_C''], [''OID_C'']]),
     (''SHA224_C'', [[''SHA256_C'']]),
     (''SHA256_C'', [[''SHA224_C'']]),
     (''SHA384_C'', [[''SHA512_C'']])]"

definition nrf_config_requires_17 :: "(string \<times> string list list) list" where
  "nrf_config_requires_17 = [
     (''SSL_CLI_C'', [[''SSL_TLS_C'']]),
     (''SSL_SRV_C'', [[''SSL_TLS_C'']]),
     (''SSL_TLS_C'', [[''CIPHER_C''], [''MD_C''], [''SSL_PROTO_TLS1_2'', ''SSL_PROTO_TLS1_3_EXPERIMENTAL'',
       ''SSL_PROTO_DTLS'']]),
     (''X509_USE_C'', [[''ASN1_PARSE_C''], [''BIGNUM_C''], [''OID_C''], [''PK_PARSE_C'']])]"

definition nrf_config_requires_18 :: "(string \<times> string list list) list" where
  "nrf_config_requires_18 = [
     (''X509_CRT_PARSE_C'', [[''X509_USE_C'']]),
     (''X509_CRL_PARSE_C'', [[''X509_USE_C'']]),
     (''X509_CSR_PARSE_C'', [[''X509_USE_C'']])]"

definition nrf_config_requires :: "(string \<times> string list list) list" where
  "nrf_config_requires =
     nrf_config_requires_0 @ nrf_config_requires_4 @ nrf_config_requires_5 @ nrf_config_requires_6 @
     nrf_config_requires_7 @ nrf_config_requires_8 @ nrf_config_requires_9 @ nrf_config_requires_10 @
     nrf_config_requires_12 @ nrf_config_requires_13 @ nrf_config_requires_14 @ nrf_config_requires_15 @
     nrf_config_requires_16 @ nrf_config_requires_17 @ nrf_config_requires_18"

lemmas nrf_config_requires_defs = nrf_config_requires_def
  nrf_config_requires_0_def nrf_config_requires_4_def nrf_config_requires_5_def nrf_config_requires_6_def
  nrf_config_requires_7_def nrf_config_requires_8_def nrf_config_requires_9_def nrf_config_requires_10_def
  nrf_config_requires_12_def nrf_config_requires_13_def nrf_config_requires_14_def
  nrf_config_requires_15_def nrf_config_requires_16_def nrf_config_requires_17_def
  nrf_config_requires_18_def

end
