(* ===== verification/Kconfig_Symbols.thy ===== *)
theory Kconfig_Symbols
  imports Prelude
begin

text \<open>
  \<^verbatim>\<open>configs.c\<close>: the absolute symbols through which the configuration reaches the symbol table of the
  image, one row per \<^verbatim>\<open>GEN_ABSOLUTE_SYM_KCONFIG\<close> in the order of the file, without the prefix
  \<^verbatim>\<open>CONFIG_\<close>.
\<close>

definition config_abs_syms_0 :: "(string \<times> int) list" where
  "config_abs_syms_0 = [
     (''WIFI'', 1), (''NET_L2_ETHERNET'', 1), (''SYSTEM_WORKQUEUE_STACK_SIZE'', 4096),
     (''MAIN_STACK_SIZE'', 8192), (''SHELL_STACK_SIZE'', 4096), (''HW_STACK_PROTECTION'', 1),
     (''NUM_IRQS'', 48), (''SYS_CLOCK_HW_CYCLES_PER_SEC'', 32768), (''FLASH_SIZE'', 1024),
     (''FLASH_BASE_ADDRESS'', 0), (''MP_MAX_NUM_CPUS'', 1), (''SOC_RESET_HOOK'', 1), (''CLOCK_CONTROL'', 1),
     (''IDLE_STACK_SIZE'', 320), (''ISR_STACK_SIZE'', 2048), (''SYS_CLOCK_TICKS_PER_SEC'', 32768),
     (''ROM_START_OFFSET'', 0), (''KERNEL_ENTRY'', 1), (''BUILD_OUTPUT_BIN'', 1), (''XIP'', 1),
     (''HAS_FLASH_LOAD_OFFSET'', 1), (''CPU_HAS_ARM_MPU'', 1), (''TICKLESS_KERNEL'', 1),
     (''CLOCK_CONTROL_INIT_PRIORITY'', 30), (''NUM_PREEMPT_PRIORITIES'', 15), (''BUILD_OUTPUT_HEX'', 1),
     (''NUM_METAIRQ_PRIORITIES'', 0), (''GEN_IRQ_VECTOR_TABLE'', 1), (''GEN_ISR_TABLES'', 1),
     (''INIT_STACKS'', 1), (''TIMESLICE_SIZE'', 20), (''FLASH_LOAD_OFFSET'', 0), (''SYS_CLOCK_EXISTS'', 1),
     (''INIT_ARCH_HW_AT_BOOT'', 1), (''ARCH_HAS_CUSTOM_BUSY_WAIT'', 1), (''NET_TCP_CHECKSUM'', 1),
     (''NET_UDP_CHECKSUM'', 1), (''WIFI_MGMT_AP_MAX_NUM_STA'', 4), (''GPIO'', 1), (''SERIAL'', 1),
     (''SPI'', 1), (''LOG'', 1), (''CMSIS_CORE_HAS_SYSTEM_CORE_CLOCK'', 1), (''DCACHE_LINE_SIZE'', 32),
     (''ARCH_SW_ISR_TABLE_ALIGN'', 4)]"

definition config_abs_syms_1 :: "(string \<times> int) list" where
  "config_abs_syms_1 = [
     (''NRF_RTC_TIMER'', 1), (''LOG_DOMAIN_NAME'', 1), (''SOC_HAS_TIMING_FUNCTIONS'', 1), (''CONSOLE'', 1),
     (''COMMON_LIBC_MALLOC_ARENA_SIZE'', - 1), (''GEN_SW_ISR_TABLE'', 1), (''GEN_IRQ_START_VECTOR'', 0),
     (''SRAM_OFFSET'', 0), (''ARCH_IRQ_VECTOR_TABLE_ALIGN'', 4), (''KERNEL_MEM_POOL'', 1),
     (''MULTITHREADING'', 1), (''ICACHE_LINE_SIZE'', 32), (''DT_HAS_ARDUINO_UNO_ADC_ENABLED'', 1),
     (''DT_HAS_ARDUINO_HEADER_R3_ENABLED'', 1), (''DT_HAS_ARM_ARMV7M_ITM_ENABLED'', 1),
     (''DT_HAS_ARM_CORTEX_M4F_ENABLED'', 1), (''DT_HAS_ARM_CRYPTOCELL_310_ENABLED'', 1),
     (''DT_HAS_ARM_V7M_NVIC_ENABLED'', 1), (''DT_HAS_FIXED_PARTITIONS_ENABLED'', 1),
     (''DT_HAS_GPIO_KEYS_ENABLED'', 1), (''DT_HAS_GPIO_LEDS_ENABLED'', 1), (''DT_HAS_MMIO_SRAM_ENABLED'', 1),
     (''DT_HAS_NORDIC_BT_HCI_SDC_ENABLED'', 1), (''DT_HAS_NORDIC_NRF_ACL_ENABLED'', 1),
     (''DT_HAS_NORDIC_NRF_CCM_ENABLED'', 1), (''DT_HAS_NORDIC_NRF_CLOCK_ENABLED'', 1),
     (''DT_HAS_NORDIC_NRF_ECB_ENABLED'', 1), (''DT_HAS_NORDIC_NRF_EGU_ENABLED'', 1),
     (''DT_HAS_NORDIC_NRF_FICR_ENABLED'', 1), (''DT_HAS_NORDIC_NRF_GPIO_ENABLED'', 1),
     (''DT_HAS_NORDIC_NRF_GPIOTE_ENABLED'', 1), (''DT_HAS_NORDIC_NRF_GPREGRET_ENABLED'', 1),
     (''DT_HAS_NORDIC_NRF_IEEE802154_ENABLED'', 1), (''DT_HAS_NORDIC_NRF_MWU_ENABLED'', 1),
     (''DT_HAS_NORDIC_NRF_NFCT_ENABLED'', 1), (''DT_HAS_NORDIC_NRF_PINCTRL_ENABLED'', 1),
     (''DT_HAS_NORDIC_NRF_POWER_ENABLED'', 1), (''DT_HAS_NORDIC_NRF_PPI_ENABLED'', 1),
     (''DT_HAS_NORDIC_NRF_PWM_ENABLED'', 1), (''DT_HAS_NORDIC_NRF_QSPI_ENABLED'', 1),
     (''DT_HAS_NORDIC_NRF_RADIO_ENABLED'', 1), (''DT_HAS_NORDIC_NRF_RNG_ENABLED'', 1),
     (''DT_HAS_NORDIC_NRF_SAADC_ENABLED'', 1), (''DT_HAS_NORDIC_NRF_SPI_ENABLED'', 1),
     (''DT_HAS_NORDIC_NRF_SPIM_ENABLED'', 1)]"

definition config_abs_syms_2 :: "(string \<times> int) list" where
  "config_abs_syms_2 = [
     (''DT_HAS_NORDIC_NRF_SWI_ENABLED'', 1), (''DT_HAS_NORDIC_NRF_TEMP_ENABLED'', 1),
     (''DT_HAS_NORDIC_NRF_TWI_ENABLED'', 1), (''DT_HAS_NORDIC_NRF_UARTE_ENABLED'', 1),
     (''DT_HAS_NORDIC_NRF_UICR_ENABLED'', 1), (''DT_HAS_NORDIC_NRF_USBD_ENABLED'', 1),
     (''DT_HAS_NORDIC_NRF_WDT_ENABLED'', 1), (''DT_HAS_NORDIC_NRF52_FLASH_CONTROLLER_ENABLED'', 1),
     (''DT_HAS_NORDIC_NRF52_HFXO_ENABLED'', 1), (''DT_HAS_NORDIC_NRF52X_REGULATOR_HV_ENABLED'', 1),
     (''DT_HAS_NORDIC_NRF5X_REGULATOR_ENABLED'', 1), (''DT_HAS_NORDIC_NRF7002_SPI_ENABLED'', 1),
     (''DT_HAS_NORDIC_QSPI_NOR_ENABLED'', 1), (''DT_HAS_NORDIC_WLAN_ENABLED'', 1),
     (''DT_HAS_PWM_LEDS_ENABLED'', 1), (''DT_HAS_SOC_NV_FLASH_ENABLED'', 1),
     (''DT_HAS_ZEPHYR_BT_HCI_ENTROPY_ENABLED'', 1), (''DT_HAS_ZEPHYR_RETENTION_ENABLED'', 1),
     (''LOG_BUFFER_SIZE'', 2048), (''MBEDTLS_MPI_MAX_SIZE'', 384), (''MBEDTLS_ENTROPY_C'', 1),
     (''MBEDTLS_CIPHER_MODE_CBC'', 1), (''MBEDTLS_CIPHER_MODE_CTR'', 1), (''MBEDTLS_CHACHA20_C'', 1),
     (''MBEDTLS_POLY1305_C'', 1), (''MBEDTLS_CHACHAPOLY_C'', 1), (''MBEDTLS_DHM_C'', 1),
     (''MBEDTLS_RSA_C'', 1), (''MBEDTLS_SHA512_C'', 1), (''MBEDTLS_GCM_C'', 1), (''MBEDTLS_SSL_SRV_C'', 1),
     (''MBEDTLS_SSL_COOKIE_C'', 1), (''MBEDTLS_SSL_CLI_C'', 1), (''MBEDTLS_SSL_TLS_C'', 1),
     (''MBEDTLS_HEAP_SIZE'', 8192), (''MBEDTLS_PSA_KEY_SLOT_COUNT'', 32), (''MPSL_WORK_STACK_SIZE'', 1024),
     (''MBEDTLS_SSL_OUT_CONTENT_LEN'', 2048), (''MBEDTLS_SSL_IN_CONTENT_LEN'', 2048),
     (''MBEDTLS_KEY_EXCHANGE_PSK_ENABLED'', 1), (''NET_PKT_RX_COUNT'', 4), (''NET_PKT_TX_COUNT'', 4),
     (''NET_RX_STACK_SIZE'', 4096), (''NET_TX_STACK_SIZE'', 4096), (''MBEDTLS_SHA1_C'', 1)]"

definition config_abs_syms_3 :: "(string \<times> int) list" where
  "config_abs_syms_3 = [
     (''MBEDTLS'', 1), (''MBEDTLS_TLS_VERSION_1_2'', 1), (''MBEDTLS_MAC_SHA256_ENABLED'', 1),
     (''MBEDTLS_MD_C'', 1), (''MBEDTLS_TLS_LIBRARY'', 1), (''MBEDTLS_X509_LIBRARY'', 1),
     (''MBEDTLS_ENABLE_HEAP'', 1), (''MBEDTLS_ECP_C'', 1), (''MBEDTLS_CTR_DRBG_C'', 1),
     (''MBEDTLS_CMAC_C'', 1), (''MBEDTLS_CCM_C'', 1), (''MBEDTLS_LEGACY_CRYPTO_C'', 1),
     (''WARN_EXPERIMENTAL'', 1), (''NORDIC_QSPI_NOR_FLASH_LAYOUT_PAGE_SIZE'', 4096),
     (''NRF_SECURITY_ENABLER'', 1), (''PM_PARTITION_SIZE_PROVISION'', 0x1000),
     (''PM_PARTITION_SIZE_B0_IMAGE'', 0x8000), (''SB_VALIDATION_INFO_MAGIC'', 0x86518483),
     (''SB_VALIDATION_POINTER_MAGIC'', 0x6919b47e), (''SB_VALIDATION_INFO_CRYPTO_ID'', 1),
     (''SB_VALIDATION_INFO_VERSION'', 2), (''SB_VALIDATION_METADATA_OFFSET'', 0),
     (''SB_VALIDATION_STRUCT_HAS_HASH'', 1), (''SB_VALIDATION_STRUCT_HAS_PUBLIC_KEY'', 1),
     (''SB_VALIDATE_FW_SIGNATURE'', 1), (''SYSTEM_WORKQUEUE_PRIORITY'', - 1), (''HEAP_MEM_POOL_SIZE'', 37000),
     (''PCD_VERSION_PAGE_BUF_SIZE'', 2046), (''TLS_MAX_CREDENTIALS_NUMBER'', 4), (''WIFI_READY_LIB'', 1),
     (''WIFI_READY_LIB_LOG_LEVEL_DEFAULT'', 1), (''WIFI_READY_LIB_LOG_LEVEL'', 3),
     (''WIFI_READY_MAX_CALLBACKS'', 2), (''WIFI_READY_INIT_PRIORITY'', 90),
     (''NRF_WIFI_PATCHES_EXT_FLASH_DISABLED'', 1), (''CUSTOM_LINKER_SCRIPT'', 1),
     (''HOSTAP_CRYPTO_ALT_LEGACY_PSA'', 1), (''WIFI_NM_WPA_SUPPLICANT_WPA3'', 1),
     (''WIFI_PROV_CORE_LOG_LEVEL_DEFAULT'', 1), (''WIFI_PROV_CORE_LOG_LEVEL'', 3),
     (''MPSL_FEM_LOG_LEVEL_DEFAULT'', 1), (''MPSL_FEM_LOG_LEVEL'', 3), (''MPSL_THREAD_COOP_PRIO'', 8),
     (''MPSL_TIMESLOT_SESSION_COUNT'', 0), (''MPSL_LOW_PRIO_IRQN'', 25)]"

definition config_abs_syms_4 :: "(string \<times> int) list" where
  "config_abs_syms_4 = [
     (''MPSL_HFCLK_LATENCY'', 1400), (''MPSL_INIT_PRIORITY'', 40), (''MPSL_LOG_LEVEL_DEFAULT'', 1),
     (''MPSL_LOG_LEVEL'', 3), (''PARTITION_MANAGER_ENABLED'', 1), (''FLASH_MAP_CUSTOM'', 1),
     (''SRAM_SIZE'', 256), (''SRAM_BASE_ADDRESS'', 0x20000000), (''PM_EXTERNAL_FLASH_BASE'', 0),
     (''PM_EXTERNAL_FLASH_PATH'', 1), (''PM_EXTERNAL_FLASH_SIZE_BITS'', 0), (''PM_SRAM_BASE'', 0x20000000),
     (''PM_SRAM_SIZE'', 0x40000), (''NRF_SECURITY'', 1), (''PSA_HAS_AEAD_SUPPORT'', 1),
     (''PSA_HAS_ASYM_ENCRYPT_SUPPORT'', 1), (''PSA_HAS_ASYM_SIGN_SUPPORT'', 1),
     (''PSA_HAS_CIPHER_SUPPORT'', 1), (''PSA_HAS_HASH_SUPPORT'', 1), (''PSA_HAS_KEY_AGREEMENT'', 1),
     (''PSA_HAS_KEY_DERIVATION'', 1), (''PSA_HAS_KEY_SUPPORT'', 1), (''PSA_HAS_MAC_SUPPORT'', 1),
     (''PSA_WANT_ALG_RSA_PKCS1V15_SIGN_RAW'', 1), (''PSA_WANT_ALG_RSA_PSS_ANY_SALT'', 1),
     (''PSA_WANT_ALG_ECB_NO_PADDING'', 1), (''PSA_WANT_ALG_CHACHA20'', 1), (''PSA_WANT_GENERATE_RANDOM'', 1),
     (''MBEDTLS_CFG_FILE'', 1), (''MBEDTLS_PSA_CRYPTO_CONFIG'', 1), (''MBEDTLS_PSA_CRYPTO_CONFIG_FILE'', 1),
     (''MBEDTLS_PSA_CRYPTO_USER_CONFIG_FILE'', 1), (''MBEDTLS_X509_USE_C'', 1),
     (''MBEDTLS_X509_CHECK_KEY_USAGE'', 1), (''MBEDTLS_X509_CHECK_EXTENDED_KEY_USAGE'', 1),
     (''MBEDTLS_X509_CRL_PARSE_C'', 1), (''MBEDTLS_X509_CSR_PARSE_C'', 1), (''MBEDTLS_X509_CRT_PARSE_C'', 1),
     (''MBEDTLS_X509_REMOVE_INFO'', 1), (''MBEDTLS_SSL_PROTO_TLS1_2'', 1),
     (''MBEDTLS_SSL_ENCRYPT_THEN_MAC'', 1), (''MBEDTLS_SSL_EXTENDED_MASTER_SECRET'', 1),
     (''MBEDTLS_TLS_VERSION_1_3'', 1), (''MBEDTLS_SSL_ALL_ALERT_MESSAGES'', 1),
     (''MBEDTLS_SSL_CONTEXT_SERIALIZATION'', 1)]"

definition config_abs_syms_5 :: "(string \<times> int) list" where
  "config_abs_syms_5 = [
     (''MBEDTLS_SSL_KEEP_PEER_CERTIFICATE'', 1), (''MBEDTLS_SSL_SERVER_NAME_INDICATION'', 1),
     (''MBEDTLS_SSL_EXPORT_KEYS'', 1), (''MBEDTLS_SSL_CIPHERSUITES'', 1), (''MBEDTLS_SSL_PROTO_TLS1_3'', 1),
     (''MBEDTLS_SSL_TLS1_3_COMPATIBILITY_MODE'', 1), (''MBEDTLS_HAS_CBC_CIPHERSUITE_REQUIREMENTS'', 1),
     (''MBEDTLS_HAS_GCM_CIPHERSUITE_REQUIREMENTS'', 1), (''MBEDTLS_HAS_CCM_CIPHERSUITE_REQUIREMENTS'', 1),
     (''MBEDTLS_HAS_CHACHAPOLY_CIPHERSUITE_REQUIREMENTS'', 1),
     (''MBEDTLS_HAS_CIPHER_MODE_CIPHERSUITE_REQUIREMENTS'', 1),
     (''MBEDTLS_HAS_ECDH_CIPHERSUITE_REQUIREMENTS'', 1), (''MBEDTLS_HAS_ECDSA_CIPHERSUITE_REQUIREMENTS'', 1),
     (''MBEDTLS_HAS_RSA_CIPHERSUITE_REQUIREMENTS'', 1), (''MBEDTLS_HAS_ECJPAKE_CIPHERSUITE_REQUIREMENTS'', 1),
     (''MBEDTLS_KEY_EXCHANGE_DHE_PSK_ENABLED'', 1), (''MBEDTLS_KEY_EXCHANGE_ECDHE_PSK_ENABLED'', 1),
     (''MBEDTLS_KEY_EXCHANGE_RSA_PSK_ENABLED'', 1), (''MBEDTLS_KEY_EXCHANGE_RSA_ENABLED'', 1),
     (''MBEDTLS_KEY_EXCHANGE_DHE_RSA_ENABLED'', 1), (''MBEDTLS_KEY_EXCHANGE_ECDHE_RSA_ENABLED'', 1),
     (''MBEDTLS_KEY_EXCHANGE_ECDHE_ECDSA_ENABLED'', 1), (''MBEDTLS_KEY_EXCHANGE_ECDH_ECDSA_ENABLED'', 1),
     (''MBEDTLS_KEY_EXCHANGE_ECDH_RSA_ENABLED'', 1), (''MBEDTLS_KEY_EXCHANGE_ECJPAKE_ENABLED'', 1),
     (''MBEDTLS_PSA_CRYPTO_C'', 1), (''PSA_CORE_OBERON'', 1), (''MBEDTLS_PSA_CRYPTO_DRIVERS'', 1),
     (''MBEDTLS_PSA_CRYPTO_CLIENT'', 1), (''PSA_CRYPTO_DRIVER_OBERON'', 1), (''PSA_WANT_ALG_CTR_DRBG'', 1),
     (''PSA_USE_CTR_DRBG_DRIVER'', 1), (''PSA_USE_CC3XX_CTR_DRBG_DRIVER'', 1),
     (''PSA_WANT_AES_KEY_SIZE_128'', 1), (''PSA_WANT_AES_KEY_SIZE_192'', 1),
     (''PSA_WANT_AES_KEY_SIZE_256'', 1), (''PSA_WANT_RSA_KEY_SIZE_2048'', 1), (''PSA_MAX_RSA_KEY_BITS'', 2048),
     (''PSA_ACCEL_GENERATE_RANDOM'', 1), (''PSA_NEED_CC3XX_CTR_DRBG_DRIVER'', 1),
     (''CRACEN_LOG_LEVEL_DEFAULT'', 1), (''CRACEN_LOG_LEVEL'', 3), (''PSA_NEED_OBERON_CCM_AES'', 1),
     (''PSA_NEED_OBERON_GCM_AES'', 1), (''PSA_NEED_OBERON_CHACHA20_POLY1305'', 1)]"

definition config_abs_syms_6 :: "(string \<times> int) list" where
  "config_abs_syms_6 = [
     (''PSA_NEED_OBERON_AEAD_DRIVER'', 1), (''PSA_NEED_OBERON_CTR_AES'', 1),
     (''PSA_NEED_OBERON_CBC_NO_PADDING_AES'', 1), (''PSA_NEED_OBERON_CBC_PKCS7_AES'', 1),
     (''PSA_NEED_OBERON_ECB_NO_PADDING_AES'', 1), (''PSA_NEED_OBERON_STREAM_CIPHER_CHACHA20'', 1),
     (''PSA_NEED_OBERON_CIPHER_DRIVER'', 1), (''PSA_NEED_OBERON_ECDH_SECP_R1_256'', 1),
     (''PSA_NEED_OBERON_ECDH_SECP_R1_384'', 1), (''PSA_NEED_OBERON_ECDH'', 1),
     (''PSA_NEED_OBERON_KEY_AGREEMENT_DRIVER'', 1), (''PSA_NEED_OBERON_ECDSA_SECP_R1_256'', 1),
     (''PSA_NEED_OBERON_ECDSA_SECP_R1_384'', 1), (''PSA_NEED_OBERON_ECDSA_VERIFY'', 1),
     (''PSA_NEED_OBERON_ECDSA_SIGN'', 1), (''PSA_NEED_OBERON_ECDSA_DETERMINISTIC'', 1),
     (''PSA_NEED_OBERON_ECDSA_RANDOMIZED'', 1), (''PSA_NEED_OBERON_SHA_1'', 1),
     (''PSA_NEED_OBERON_SHA_224'', 1), (''PSA_NEED_OBERON_SHA_256'', 1), (''PSA_NEED_OBERON_SHA_384'', 1),
     (''PSA_NEED_OBERON_SHA_512'', 1), (''PSA_NEED_OBERON_HASH_DRIVER'', 1),
     (''PSA_NEED_OBERON_KEY_TYPE_ECC_PUBLIC_KEY_SECP_R1_256'', 1),
     (''PSA_NEED_OBERON_KEY_TYPE_ECC_KEY_PAIR_IMPORT_SECP_R1_256'', 1),
     (''PSA_NEED_OBERON_KEY_TYPE_ECC_KEY_PAIR_EXPORT_SECP_R1_256'', 1),
     (''PSA_NEED_OBERON_KEY_TYPE_ECC_KEY_PAIR_GENERATE_SECP_R1_256'', 1),
     (''PSA_NEED_OBERON_KEY_TYPE_ECC_KEY_PAIR_DERIVE_SECP_R1_256'', 1),
     (''PSA_NEED_OBERON_KEY_TYPE_ECC_PUBLIC_KEY_SECP_R1_384'', 1),
     (''PSA_NEED_OBERON_KEY_TYPE_ECC_KEY_PAIR_IMPORT_SECP_R1_384'', 1),
     (''PSA_NEED_OBERON_KEY_TYPE_ECC_KEY_PAIR_EXPORT_SECP_R1_384'', 1),
     (''PSA_NEED_OBERON_KEY_TYPE_ECC_KEY_PAIR_GENERATE_SECP_R1_384'', 1),
     (''PSA_NEED_OBERON_KEY_TYPE_ECC_KEY_PAIR_DERIVE_SECP_R1_384'', 1),
     (''PSA_NEED_OBERON_KEY_TYPE_ECC_PUBLIC_KEY_SECP'', 1),
     (''PSA_NEED_OBERON_KEY_TYPE_ECC_KEY_PAIR_IMPORT_SECP'', 1),
     (''PSA_NEED_OBERON_KEY_TYPE_ECC_KEY_PAIR_EXPORT_SECP'', 1),
     (''PSA_NEED_OBERON_KEY_TYPE_ECC_KEY_PAIR_GENERATE_SECP'', 1),
     (''PSA_NEED_OBERON_KEY_TYPE_ECC_KEY_PAIR_DERIVE_SECP'', 1),
     (''PSA_NEED_OBERON_KEY_TYPE_ECC_PUBLIC_KEY'', 1), (''PSA_NEED_OBERON_KEY_TYPE_ECC_KEY_PAIR_IMPORT'', 1),
     (''PSA_NEED_OBERON_KEY_TYPE_ECC_KEY_PAIR_EXPORT'', 1),
     (''PSA_NEED_OBERON_KEY_TYPE_ECC_KEY_PAIR_GENERATE'', 1),
     (''PSA_NEED_OBERON_KEY_TYPE_ECC_KEY_PAIR_DERIVE'', 1), (''PSA_NEED_OBERON_KEY_TYPE_RSA_PUBLIC_KEY'', 1),
     (''PSA_NEED_OBERON_KEY_TYPE_RSA_KEY_PAIR_IMPORT'', 1)]"

definition config_abs_syms_7 :: "(string \<times> int) list" where
  "config_abs_syms_7 = [
     (''PSA_NEED_OBERON_KEY_TYPE_RSA_KEY_PAIR_EXPORT'', 1), (''PSA_NEED_OBERON_KEY_MANAGEMENT_DRIVER'', 1),
     (''PSA_NEED_OBERON_HMAC'', 1), (''PSA_NEED_OBERON_CMAC'', 1), (''PSA_NEED_OBERON_MAC_DRIVER'', 1),
     (''PSA_NEED_OBERON_HKDF'', 1), (''PSA_NEED_OBERON_TLS12_PRF'', 1),
     (''PSA_NEED_OBERON_TLS12_PSK_TO_MS'', 1), (''PSA_NEED_OBERON_PBKDF2_AES_CMAC_PRF_128'', 1),
     (''PSA_NEED_OBERON_TLS12_ECJPAKE_TO_PMS'', 1), (''PSA_NEED_OBERON_KEY_DERIVATION_DRIVER'', 1),
     (''PSA_NEED_OBERON_RSA_KEY_SIZE_2048'', 1), (''PSA_NEED_OBERON_ANY_RSA_KEY_SIZE'', 1),
     (''PSA_NEED_OBERON_RSA_PSS'', 1), (''PSA_NEED_OBERON_RSA_PKCS1V15_SIGN'', 1),
     (''PSA_NEED_OBERON_RSA_ANY_VERIFY'', 1), (''PSA_NEED_OBERON_RSA_ANY_SIGN'', 1),
     (''PSA_NEED_OBERON_RSA_PKCS1V15_CRYPT'', 1), (''PSA_NEED_OBERON_RSA_OAEP'', 1),
     (''PSA_NEED_OBERON_RSA_ANY_CRYPT'', 1), (''PSA_NEED_OBERON_ASYMMETRIC_ENCRYPTION_DRIVER'', 1),
     (''PSA_NEED_OBERON_ASYMMETRIC_SIGNATURE_DRIVER'', 1), (''PSA_CRYPTO_SYS_INIT'', 1),
     (''MBEDTLS_PLATFORM_MEMORY'', 1), (''MBEDTLS_PLATFORM_C'', 1), (''MBEDTLS_MEMORY_C'', 1),
     (''MBEDTLS_MEMORY_BUFFER_ALLOC_C'', 1), (''MBEDTLS_THREADING_C'', 1), (''MBEDTLS_BASE64_C'', 1),
     (''MBEDTLS_OID_C'', 1), (''MBEDTLS_ENTROPY_HARDWARE_ALT'', 1), (''MBEDTLS_THREADING_ALT'', 1),
     (''MBEDTLS_AES_SETKEY_ENC_ALT'', 1), (''MBEDTLS_AES_SETKEY_DEC_ALT'', 1),
     (''MBEDTLS_AES_ENCRYPT_ALT'', 1), (''MBEDTLS_AES_DECRYPT_ALT'', 1), (''MBEDTLS_CHACHA20_ALT'', 1),
     (''MBEDTLS_POLY1305_ALT'', 1), (''MBEDTLS_ECDH_GEN_PUBLIC_ALT'', 1),
     (''MBEDTLS_ECDH_COMPUTE_SHARED_ALT'', 1), (''MBEDTLS_ECDSA_GENKEY_ALT'', 1),
     (''MBEDTLS_ECDSA_SIGN_ALT'', 1), (''MBEDTLS_ECDSA_VERIFY_ALT'', 1), (''MBEDTLS_ECJPAKE_ALT'', 1),
     (''MBEDTLS_SHA1_ALT'', 1)]"

definition config_abs_syms_8 :: "(string \<times> int) list" where
  "config_abs_syms_8 = [
     (''MBEDTLS_SHA224_ALT'', 1), (''MBEDTLS_SHA256_ALT'', 1), (''MBEDTLS_ENTROPY_FORCE_SHA256'', 1),
     (''MBEDTLS_ENTROPY_MAX_SOURCES'', 1), (''MBEDTLS_NO_PLATFORM_ENTROPY'', 1),
     (''OBERON_ONLY_PSA_ENABLED'', 1), (''OBERON_ONLY_ENABLED'', 1), (''MBEDTLS_MPI_WINDOW_SIZE'', 6),
     (''MBEDTLS_CTR_DRBG_USE_128_BIT_KEY'', 1), (''MBEDTLS_HMAC_DRBG_C'', 1), (''MBEDTLS_AES_C'', 1),
     (''MBEDTLS_CIPHER_PADDING_PKCS7'', 1), (''MBEDTLS_CIPHER_PADDING_ONE_AND_ZEROS'', 1),
     (''MBEDTLS_CIPHER_PADDING_ZEROS_AND_LEN'', 1), (''MBEDTLS_CIPHER_PADDING_ZEROS'', 1),
     (''MBEDTLS_ECDH_C'', 1), (''MBEDTLS_ECDSA_C'', 1), (''MBEDTLS_ECDSA_DETERMINISTIC'', 1),
     (''MBEDTLS_ECJPAKE_C'', 1), (''MBEDTLS_ECP_DP_SECP256R1_ENABLED'', 1), (''MBEDTLS_HKDF_C'', 1),
     (''MBEDTLS_GENPRIME'', 1), (''MBEDTLS_PKCS1_V15'', 1), (''MBEDTLS_PKCS1_V21'', 1), (''MBEDTLS_MD5_C'', 1),
     (''MBEDTLS_SHA224_C'', 1), (''MBEDTLS_SHA256_C'', 1), (''MBEDTLS_SHA384_C'', 1),
     (''MBEDTLS_CIPHER_C'', 1), (''MBEDTLS_PK_C'', 1), (''MBEDTLS_PKCS5_C'', 1), (''MBEDTLS_PK_WRITE_C'', 1),
     (''MBEDTLS_PK_PARSE_C'', 1), (''MBEDTLS_PK_PARSE_EC_EXTENDED'', 1),
     (''MBEDTLS_KEY_EXCHANGE_ALL_ENABLED'', 1), (''MBEDTLS_CIPHER'', 1), (''MBEDTLS_MD'', 1),
     (''MBEDTLS_LIBRARY_NRF_SECURITY'', 1), (''MCUBOOT_APPLICATION_IMAGE_NUMBER'', - 1),
     (''MCUBOOT_NETWORK_CORE_IMAGE_NUMBER'', - 1), (''MCUBOOT_WIFI_PATCHES_IMAGE_NUMBER'', - 1),
     (''MCUBOOT_QSPI_XIP_IMAGE_NUMBER'', - 1), (''MCUBOOT_MCUBOOT_IMAGE_NUMBER'', - 1),
     (''WFA_QT_LOG_LEVEL_DEFAULT'', 1), (''WFA_QT_LOG_LEVEL'', 3)]"

definition config_abs_syms_9 :: "(string \<times> int) list" where
  "config_abs_syms_9 = [
     (''WFA_QT_THREAD_STACK_SIZE'', 5200), (''WFA_QT_REBOOT_TIMEOUT_MS'', 1000),
     (''WFA_QT_DEFAULT_INTERFACE'', 1), (''WPAS_READY_TIMEOUT_MS'', 10000),
     (''NRF_ACL_FLASH_REGION_SIZE'', 0x1000), (''FPROTECT_BLOCK_SIZE'', 0x1000),
     (''HW_UNIQUE_KEY_SUPPORTED'', 1), (''HW_UNIQUE_KEY_PARTITION_SIZE'', 0x1000), (''NCS_BOOT_BANNER'', 1),
     (''NCS_NCS_BOOT_BANNER_STRING'', 1), (''NCS_ZEPHYR_BOOT_BANNER_STRING'', 1), (''ENTROPY_CC3XX'', 1),
     (''HW_CC3XX'', 1), (''SOC_FLASH_NRF_RADIO_SYNC_MPSL_TIMESLOT_SESSION_COUNT'', 0),
     (''NRFX_GPIOTE_NUM_OF_EVT_HANDLERS'', 1), (''ZEPHYR_NRF_MODULE'', 1), (''WIFI_NM_WPA_SUPPLICANT'', 1),
     (''WIFI_NM_WPA_SUPPLICANT_GLOBAL_HEAP'', 1), (''HEAP_MEM_POOL_ADD_SIZE_HOSTAP'', 30000),
     (''WIFI_NM_WPA_SUPPLICANT_THREAD_STACK_SIZE'', 5800), (''WIFI_NM_WPA_SUPPLICANT_WQ_STACK_SIZE'', 4400),
     (''WIFI_NM_WPA_SUPPLICANT_WQ_PRIO'', 7), (''WIFI_NM_WPA_SUPPLICANT_PRIO'', 0),
     (''WIFI_NM_WPA_SUPPLICANT_LOG_LEVEL_DEFAULT'', 1), (''WIFI_NM_WPA_SUPPLICANT_LOG_LEVEL'', 3),
     (''WIFI_NM_WPA_SUPPLICANT_DEBUG_LEVEL'', 5), (''WIFI_NM_WPA_SUPPLICANT_CRYPTO_EXT'', 1),
     (''WIFI_NM_WPA_SUPPLICANT_INF_MON'', 1), (''WIFI_NM_WPA_SUPPLICANT_BSS_MAX_IDLE_TIME'', 300),
     (''SME'', 1), (''NO_CONFIG_WRITE'', 1), (''NO_CONFIG_BLOBS'', 1), (''CTRL_IFACE'', 1),
     (''CTRL_IFACE_ZEPHYR'', 1), (''NO_RANDOM_POOL'', 1), (''WIFI_NM_WPA_SUPPLICANT_NW_SEL_THROUGHPUT'', 1),
     (''WIFI_NM_WPA_CTRL_RESP_TIMEOUT_S'', 15), (''ZEPHYR_HOSTAP_MODULE'', 1),
     (''DT_FLASH_WRITE_BLOCK_SIZE'', 4), (''MCUBOOT_USB_SUPPORT'', 1), (''ZEPHYR_MCUBOOT_MODULE'', 1),
     (''ZEPHYR_MBEDTLS_MODULE'', 1), (''PSA_CRYPTO_CLIENT'', 1), (''PSA_WANT_ALG_CBC_NO_PADDING'', 1),
     (''PSA_WANT_ALG_CBC_PKCS7'', 1)]"

definition config_abs_syms_10 :: "(string \<times> int) list" where
  "config_abs_syms_10 = [
     (''PSA_WANT_ALG_CCM'', 1), (''PSA_WANT_ALG_CMAC'', 1), (''PSA_WANT_ALG_CHACHA20_POLY1305'', 1),
     (''PSA_WANT_ALG_CTR'', 1), (''PSA_WANT_ALG_DETERMINISTIC_ECDSA'', 1), (''PSA_WANT_ALG_ECDH'', 1),
     (''PSA_WANT_ALG_ECDSA'', 1), (''PSA_WANT_ALG_GCM'', 1), (''PSA_WANT_ALG_HKDF'', 1),
     (''PSA_WANT_ALG_HMAC'', 1), (''PSA_WANT_ALG_RSA_OAEP'', 1), (''PSA_WANT_ALG_RSA_PKCS1V15_CRYPT'', 1),
     (''PSA_WANT_ALG_RSA_PKCS1V15_SIGN'', 1), (''PSA_WANT_ALG_RSA_PSS'', 1), (''PSA_WANT_ALG_SHA_1'', 1),
     (''PSA_WANT_ALG_SHA_224'', 1), (''PSA_WANT_ALG_SHA_256'', 1), (''PSA_WANT_ALG_SHA_384'', 1),
     (''PSA_WANT_ALG_SHA_512'', 1), (''PSA_WANT_ALG_STREAM_CIPHER'', 1), (''PSA_WANT_ALG_TLS12_PRF'', 1),
     (''PSA_WANT_ALG_TLS12_PSK_TO_MS'', 1), (''PSA_WANT_ALG_TLS12_ECJPAKE_TO_PMS'', 1),
     (''PSA_WANT_ECC_SECP_R1_256'', 1), (''PSA_WANT_ECC_SECP_R1_384'', 1), (''PSA_WANT_KEY_TYPE_AES'', 1),
     (''PSA_WANT_KEY_TYPE_CHACHA20'', 1), (''PSA_WANT_KEY_TYPE_ECC_PUBLIC_KEY'', 1),
     (''PSA_WANT_KEY_TYPE_RSA_PUBLIC_KEY'', 1), (''PSA_WANT_KEY_TYPE_ECC_KEY_PAIR_IMPORT'', 1),
     (''PSA_WANT_KEY_TYPE_ECC_KEY_PAIR_EXPORT'', 1), (''PSA_WANT_KEY_TYPE_ECC_KEY_PAIR_GENERATE'', 1),
     (''PSA_WANT_KEY_TYPE_ECC_KEY_PAIR_DERIVE'', 1), (''PSA_WANT_KEY_TYPE_RSA_KEY_PAIR_IMPORT'', 1),
     (''PSA_WANT_KEY_TYPE_RSA_KEY_PAIR_EXPORT'', 1), (''PSA_WANT_KEY_TYPE_RSA_KEY_PAIR_GENERATE'', 1),
     (''PSA_WANT_KEY_TYPE_RSA_KEY_PAIR_DERIVE'', 1), (''PSA_WANT_KEY_TYPE_ECC_KEY_PAIR_BASIC'', 1),
     (''PSA_WANT_KEY_TYPE_RSA_KEY_PAIR_BASIC'', 1), (''DISABLE_MBEDTLS_BUILTIN'', 1),
     (''MBEDTLS_LOG_LEVEL_DEFAULT'', 1), (''MBEDTLS_LOG_LEVEL'', 3), (''MBEDTLS_INIT'', 1),
     (''APP_LINK_WITH_MBEDTLS'', 1), (''ZEPHYR_OBERON_PSA_CRYPTO_MODULE'', 1)]"

definition config_abs_syms_11 :: "(string \<times> int) list" where
  "config_abs_syms_11 = [
     (''ZEPHYR_TRUSTED_FIRMWARE_M_MODULE'', 1), (''ZEPHYR_PSA_ARCH_TESTS_MODULE'', 1),
     (''ZEPHYR_CJSON_MODULE'', 1), (''ZEPHYR_AZURE_SDK_FOR_C_MODULE'', 1), (''ZEPHYR_CIRRUS_LOGIC_MODULE'', 1),
     (''ZEPHYR_OPENTHREAD_MODULE'', 1), (''ZEPHYR_MEMFAULT_FIRMWARE_SDK_MODULE'', 1),
     (''ZEPHYR_COREMARK_MODULE'', 1), (''ZEPHYR_CANOPENNODE_MODULE'', 1), (''ZEPHYR_CHRE_MODULE'', 1),
     (''ZEPHYR_LZ4_MODULE'', 1), (''ZEPHYR_NANOPB_MODULE'', 1), (''ZEPHYR_TF_M_TESTS_MODULE'', 1),
     (''ZEPHYR_ZSCILIB_MODULE'', 1), (''ZEPHYR_CMSIS_MODULE'', 1), (''HAS_CMSIS_CORE'', 1),
     (''ZEPHYR_CMSIS_DSP_MODULE'', 1), (''ZEPHYR_CMSIS_NN_MODULE'', 1), (''ZEPHYR_CMSIS_6_MODULE'', 1),
     (''HAS_CMSIS_CORE_M'', 1), (''ZEPHYR_FATFS_MODULE'', 1), (''ZEPHYR_HAL_NORDIC_MODULE'', 1),
     (''HAS_NORDIC_DRIVERS'', 1), (''HAS_NRFX'', 1), (''NRFX_CLOCK'', 1),
     (''NRFX_CLOCK_LFXO_TWO_STAGE_ENABLED'', 1), (''NRFX_CLOCK_LF_SRC_XTAL'', 1), (''NRFX_GPIOTE'', 1),
     (''NRFX_GPIOTE0'', 1), (''NRFX_GPPI'', 1), (''NRFX_PPI'', 1), (''NRFX_SPI'', 1), (''NRFX_SPI1'', 1),
     (''NRFX_SPIM'', 1), (''NRFX_SPIM3'', 1), (''NRFX_RESERVED_RESOURCES_HEADER'', 1),
     (''ZEPHYR_HAL_ST_MODULE'', 1), (''ZEPHYR_HAL_TDK_MODULE'', 1), (''ZEPHYR_HAL_WURTHELEKTRONIK_MODULE'', 1),
     (''ZEPHYR_LIBLC3_MODULE'', 1), (''ZEPHYR_LIBMETAL_MODULE'', 1), (''ZEPHYR_LITTLEFS_MODULE'', 1),
     (''ZEPHYR_LORAMAC_NODE_MODULE'', 1), (''ZEPHYR_LVGL_MODULE'', 1), (''ZEPHYR_MIPI_SYS_T_MODULE'', 1)]"

definition config_abs_syms_12 :: "(string \<times> int) list" where
  "config_abs_syms_12 = [
     (''ZEPHYR_NRF_WIFI_MODULE'', 1), (''NRF70_BUSLIB'', 1), (''NRF70_ON_SPI'', 1),
     (''WIFI_NRF70_BUSLIB_LOG_LEVEL_DEFAULT'', 1), (''WIFI_NRF70_BUSLIB_LOG_LEVEL'', 3),
     (''NRF70_LOG_VERBOSE'', 1), (''ZEPHYR_OPEN_AMP_MODULE'', 1), (''ZEPHYR_PERCEPIO_MODULE'', 1),
     (''ZEPHYR_PICOLIBC_MODULE'', 1), (''ZEPHYR_SEGGER_MODULE'', 1), (''HAS_SEGGER_RTT'', 1),
     (''ZEPHYR_TINYCRYPT_MODULE'', 1), (''ZEPHYR_UOSCORE_UEDHOC_MODULE'', 1), (''ZEPHYR_ZCBOR_MODULE'', 1),
     (''NRF_MODEM_SHMEM_CTRL_SIZE'', 0x4e8), (''NRFXLIB_CRYPTO'', 1), (''HAS_HW_NRF_CC3XX'', 1),
     (''NRF_CC3XX_PLATFORM'', 1), (''CC3XX_MUTEX_LOCK'', 1), (''NRF_802154_SOURCE_NRFXLIB'', 1),
     (''ZEPHYR_NRFXLIB_MODULE'', 1), (''ZEPHYR_NRF_HW_MODELS_MODULE'', 1),
     (''ZEPHYR_CONNECTEDHOMEIP_MODULE'', 1), (''BOARD'', 1), (''BOARD_REVISION'', 1), (''BOARD_TARGET'', 1),
     (''BOARD_NRF52840DK'', 1), (''BOARD_NRF52840DK_NRF52840'', 1), (''BOARD_QUALIFIERS'', 1), (''SOC'', 1),
     (''SOC_SERIES'', 1), (''SOC_FAMILY'', 1), (''SOC_FAMILY_NORDIC_NRF'', 1), (''SOC_SERIES_NRF52X'', 1),
     (''SOC_NRF52840'', 1), (''SOC_NRF52840_QIAA'', 1), (''ARMV8_1_M_PMU_EVENTCNT'', 8),
     (''HAS_HW_NRF_ACL'', 1), (''HAS_HW_NRF_CC310'', 1), (''HAS_HW_NRF_CCM'', 1),
     (''HAS_HW_NRF_CCM_LFLEN_8BIT'', 1), (''HAS_HW_NRF_CLOCK'', 1), (''HAS_HW_NRF_ECB'', 1),
     (''HAS_HW_NRF_EGU0'', 1), (''HAS_HW_NRF_EGU1'', 1)]"

definition config_abs_syms_13 :: "(string \<times> int) list" where
  "config_abs_syms_13 = [
     (''HAS_HW_NRF_EGU2'', 1), (''HAS_HW_NRF_EGU3'', 1), (''HAS_HW_NRF_EGU4'', 1), (''HAS_HW_NRF_EGU5'', 1),
     (''HAS_HW_NRF_GPIO0'', 1), (''HAS_HW_NRF_GPIO1'', 1), (''HAS_HW_NRF_GPIOTE0'', 1),
     (''HAS_HW_NRF_MWU'', 1), (''HAS_HW_NRF_NFCT'', 1), (''HAS_HW_NRF_NVMC_PE'', 1), (''HAS_HW_NRF_POWER'', 1),
     (''HAS_HW_NRF_PPI'', 1), (''HAS_HW_NRF_PWM0'', 1), (''HAS_HW_NRF_QSPI'', 1),
     (''HAS_HW_NRF_RADIO_BLE_2M'', 1), (''HAS_HW_NRF_RADIO_BLE_CODED'', 1),
     (''HAS_HW_NRF_RADIO_IEEE802154'', 1), (''HAS_HW_NRF_RADIO_TX_PWR_HIGH'', 1), (''HAS_HW_NRF_RNG'', 1),
     (''HAS_HW_NRF_SAADC'', 1), (''HAS_HW_NRF_SPI1'', 1), (''HAS_HW_NRF_SPIM3'', 1), (''HAS_HW_NRF_SWI0'', 1),
     (''HAS_HW_NRF_SWI1'', 1), (''HAS_HW_NRF_SWI2'', 1), (''HAS_HW_NRF_SWI3'', 1), (''HAS_HW_NRF_SWI4'', 1),
     (''HAS_HW_NRF_SWI5'', 1), (''HAS_HW_NRF_TEMP'', 1), (''HAS_HW_NRF_TWI0'', 1), (''HAS_HW_NRF_UARTE0'', 1),
     (''HAS_HW_NRF_USBD'', 1), (''HAS_HW_NRF_WDT0'', 1), (''HAS_NORDIC_RAM_CTRL'', 1),
     (''NRF_ENABLE_ICACHE'', 1), (''NRF52_ANOMALY_198_WORKAROUND'', 1),
     (''NRF_TRUSTZONE_FLASH_REGION_SIZE'', 0), (''NRF_TRUSTZONE_RAM_REGION_SIZE'', 0),
     (''NRF_RTC_TIMER_USER_CHAN_COUNT'', 0), (''NRF_SOC_SECURE_SUPPORTED'', 1),
     (''NRF_APPROTECT_USE_UICR'', 1), (''GPIO_INIT_PRIORITY'', 40), (''SOC_LOG_LEVEL_DEFAULT'', 1),
     (''SOC_LOG_LEVEL'', 3), (''SOC_COMPATIBLE_NRF'', 1)]"

definition config_abs_syms_14 :: "(string \<times> int) list" where
  "config_abs_syms_14 = [
     (''SOC_COMPATIBLE_NRF52X'', 1), (''ARCH'', 1), (''ARCH_HAS_SINGLE_THREAD_SUPPORT'', 1),
     (''CPU_CORTEX'', 1), (''ARM_MPU_REGION_MIN_ALIGN_AND_SIZE'', 32), (''CPU_CORTEX_M'', 1),
     (''ISA_THUMB2'', 1), (''ASSEMBLER_ISA_THUMB2'', 1), (''COMPILER_ISA_THUMB2'', 1),
     (''STACK_ALIGN_DOUBLE_WORD'', 1), (''FAULT_DUMP'', 2), (''ARM_STACK_PROTECTION'', 1), (''FP16'', 1),
     (''FP16_IEEE'', 1), (''CPU_CORTEX_M4'', 1), (''CPU_CORTEX_M_HAS_SYSTICK'', 1),
     (''CPU_CORTEX_M_HAS_DWT'', 1), (''CPU_CORTEX_M_HAS_BASEPRI'', 1), (''CPU_CORTEX_M_HAS_VTOR'', 1),
     (''CPU_CORTEX_M_HAS_PROGRAMMABLE_FAULT_PRIOS'', 1), (''ARMV7_M_ARMV8_M_MAINLINE'', 1),
     (''ARMV7_M_ARMV8_M_FP'', 1), (''NULL_POINTER_EXCEPTION_DETECTION_NONE'', 1), (''MPU_STACK_GUARD'', 1),
     (''CUSTOM_SECTION_MIN_ALIGN_SIZE'', 32), (''HAS_SWO'', 1), (''ARM'', 1), (''ARCH_IS_SET'', 1),
     (''ARM_MPU'', 1), (''ARCH_LOG_LEVEL_DEFAULT'', 1), (''ARCH_LOG_LEVEL'', 3), (''LITTLE_ENDIAN'', 1),
     (''GEN_PRIV_STACKS'', 1), (''ISR_TABLES_LOCAL_DECLARATION_SUPPORTED'', 1),
     (''ARCH_DEVICE_STATE_ALIGN'', 4), (''IRQ_VECTOR_TABLE_JUMP_BY_ADDRESS'', 1), (''EXCEPTION_DEBUG'', 1),
     (''ARCH_HAS_TIMING_FUNCTIONS'', 1), (''ARCH_HAS_STACK_PROTECTION'', 1), (''ARCH_HAS_USERSPACE'', 1),
     (''ARCH_HAS_EXECUTABLE_PAGE_BIT'', 1), (''ARCH_HAS_RAMFUNC_SUPPORT'', 1),
     (''ARCH_HAS_VECTOR_TABLE_RELOCATION'', 1), (''ARCH_HAS_NESTED_EXCEPTION_DETECTION'', 1),
     (''ARCH_SUPPORTS_COREDUMP'', 1)]"

definition config_abs_syms_15 :: "(string \<times> int) list" where
  "config_abs_syms_15 = [
     (''ARCH_SUPPORTS_COREDUMP_THREADS'', 1), (''ARCH_SUPPORTS_COREDUMP_STACK_PTR'', 1),
     (''ARCH_SUPPORTS_ARCH_HW_INIT'', 1), (''ARCH_SUPPORTS_ROM_START'', 1),
     (''ARCH_HAS_EXTRA_EXCEPTION_INFO'', 1), (''ARCH_HAS_THREAD_LOCAL_STORAGE'', 1),
     (''ARCH_HAS_SUSPEND_TO_RAM'', 1), (''ARCH_HAS_THREAD_ABORT'', 1), (''ARCH_HAS_CODE_DATA_RELOCATION'', 1),
     (''CPU_HAS_FPU'', 1), (''CPU_HAS_MPU'', 1), (''MPU'', 1), (''MPU_LOG_LEVEL_DEFAULT'', 1),
     (''MPU_LOG_LEVEL'', 3), (''MPU_REQUIRES_POWER_OF_TWO_ALIGNMENT'', 1), (''SRAM_REGION_PERMISSIONS'', 1),
     (''TOOLCHAIN_HAS_BUILTIN_FFS'', 1), (''ARCH_HAS_CUSTOM_SWAP_TO_MAIN'', 1),
     (''KERNEL_LOG_LEVEL_DEFAULT'', 1), (''KERNEL_LOG_LEVEL'', 3), (''NUM_COOP_PRIORITIES'', 16),
     (''MAIN_THREAD_PRIORITY'', 0), (''COOP_ENABLED'', 1), (''PREEMPT_ENABLED'', 1),
     (''PRIORITY_CEILING'', - 127), (''THREAD_STACK_INFO'', 1), (''SCHED_SIMPLE'', 1), (''WAITQ_SIMPLE'', 1),
     (''LIBC_ERRNO'', 1), (''ERRNO'', 1), (''CURRENT_THREAD_USE_TLS'', 1), (''BOOT_DELAY'', 0),
     (''BARRIER_OPERATIONS_ARCH'', 1), (''ATOMIC_OPERATIONS_BUILTIN'', 1), (''TIMESLICING'', 1),
     (''TIMESLICE_PRIORITY'', 0), (''POLL'', 1), (''NUM_MBOX_ASYNC_MSGS'', 10),
     (''HEAP_MEM_POOL_IGNORE_MIN'', 1), (''SWAP_NONATOMIC'', 1), (''TIMEOUT_64BIT'', 1),
     (''SYS_CLOCK_MAX_TIMEOUT_DAYS'', 365), (''STACK_POINTER_RANDOM'', 0),
     (''ARCH_MEM_DOMAIN_SUPPORTS_ISOLATED_STACKS'', 1), (''MEM_DOMAIN_ISOLATED_STACKS'', 1)]"

definition config_abs_syms_16 :: "(string \<times> int) list" where
  "config_abs_syms_16 = [
     (''TOOLCHAIN_SUPPORTS_THREAD_LOCAL_STORAGE'', 1), (''THREAD_LOCAL_STORAGE'', 1),
     (''TOOLCHAIN_SUPPORTS_STATIC_INIT_GNU'', 1), (''KERNEL_INIT_PRIORITY_OBJECTS'', 30),
     (''KERNEL_INIT_PRIORITY_LIBC'', 35), (''KERNEL_INIT_PRIORITY_DEFAULT'', 40),
     (''KERNEL_INIT_PRIORITY_DEVICE'', 50), (''APPLICATION_INIT_PRIORITY'', 90),
     (''CLOCK_CONTROL_LOG_LEVEL_DEFAULT'', 1), (''CLOCK_CONTROL_LOG_LEVEL'', 3), (''CLOCK_CONTROL_NRF'', 1),
     (''CLOCK_CONTROL_NRF_K32SRC_XTAL'', 1), (''CLOCK_CONTROL_NRF_K32SRC_50PPM'', 1),
     (''CLOCK_CONTROL_NRF_ACCURACY'', 50), (''CONSOLE_INPUT_MAX_LINE_LEN'', 128), (''CONSOLE_HAS_DRIVER'', 1),
     (''CONSOLE_INIT_PRIORITY'', 60), (''UART_CONSOLE'', 1), (''UART_CONSOLE_LOG_LEVEL_DEFAULT'', 1),
     (''UART_CONSOLE_LOG_LEVEL'', 3), (''ENTROPY_GENERATOR'', 1), (''ENTROPY_LOG_LEVEL_DEFAULT'', 1),
     (''ENTROPY_LOG_LEVEL'', 3), (''ENTROPY_INIT_PRIORITY'', 50), (''ENTROPY_NRF5_RNG'', 1),
     (''ENTROPY_NRF5_THR_POOL_SIZE'', 8), (''ENTROPY_NRF5_THR_THRESHOLD'', 4),
     (''ENTROPY_NRF5_ISR_POOL_SIZE'', 16), (''ENTROPY_NRF5_ISR_THRESHOLD'', 12), (''ENTROPY_HAS_DRIVER'', 1),
     (''ETH_DRIVER'', 1), (''ETHERNET_LOG_LEVEL_DEFAULT'', 1), (''ETHERNET_LOG_LEVEL'', 3),
     (''ETH_PHY_DRIVER'', 1), (''PHY_LOG_LEVEL_DEFAULT'', 1), (''PHY_LOG_LEVEL'', 3),
     (''PHY_INIT_PRIORITY'', 70), (''PHY_AUTONEG_TIMEOUT_MS'', 4000), (''PHY_MONITOR_PERIOD'', 500),
     (''ETH_INIT_PRIORITY'', 80), (''GPIO_LOG_LEVEL_DEFAULT'', 1), (''GPIO_LOG_LEVEL'', 3), (''GPIO_NRFX'', 1),
     (''GPIO_NRFX_INTERRUPT'', 1), (''HWINFO'', 1)]"

definition config_abs_syms_17 :: "(string \<times> int) list" where
  "config_abs_syms_17 = [
     (''HWINFO_LOG_LEVEL_DEFAULT'', 1), (''HWINFO_LOG_LEVEL'', 3), (''HWINFO_HAS_DRIVER'', 1),
     (''HWINFO_NRF'', 1), (''INTC_INIT_PRIORITY'', 40), (''INTC_LOG_LEVEL_DEFAULT'', 1),
     (''INTC_LOG_LEVEL'', 3), (''PINCTRL'', 1), (''PINCTRL_LOG_LEVEL_DEFAULT'', 1), (''PINCTRL_LOG_LEVEL'', 3),
     (''PINCTRL_STORE_REG'', 1), (''PINCTRL_NRF'', 1), (''SERIAL_HAS_DRIVER'', 1),
     (''SERIAL_SUPPORT_ASYNC'', 1), (''SERIAL_SUPPORT_INTERRUPT'', 1), (''SERIAL_INIT_PRIORITY'', 50),
     (''UART_LOG_LEVEL_DEFAULT'', 1), (''UART_LOG_LEVEL'', 3), (''UART_NRFX'', 1), (''UART_NRFX_UARTE'', 1),
     (''UART_NRFX_UARTE_LEGACY_SHIM'', 1), (''UART_0_ENHANCED_POLL_OUT'', 1),
     (''UART_0_NRF_TX_BUFFER_SIZE'', 32), (''SPI_INIT_PRIORITY'', 50),
     (''SPI_COMPLETION_TIMEOUT_TOLERANCE'', 200), (''SPI_LOG_LEVEL_DEFAULT'', 1), (''SPI_LOG_LEVEL'', 3),
     (''SPI_NRFX'', 1), (''SPI_NRFX_SPI'', 1), (''SPI_NRFX_SPIM'', 1), (''SPI_NRFX_RAM_BUFFER_SIZE'', 8),
     (''SPI_NRFX_WAKE_TIMEOUT_US'', 200), (''SYSTEM_CLOCK_INIT_PRIORITY'', 0), (''TICKLESS_CAPABLE'', 1),
     (''SYSTEM_TIMER_HAS_DISABLE_SUPPORT'', 1), (''CORTEX_M_SYSTICK_LPM_TIMER_NONE'', 1),
     (''SYSTEM_CLOCK_WAIT_FOR_STABILITY'', 1), (''NRF_USBD_COMMON_LOG_LEVEL_DEFAULT'', 1),
     (''NRF_USBD_COMMON_LOG_LEVEL'', 3), (''USBC_LOG_LEVEL_DEFAULT'', 1), (''USBC_LOG_LEVEL'', 3),
     (''VIRTIO_LOG_LEVEL_DEFAULT'', 1), (''VIRTIO_LOG_LEVEL'', 3), (''WIFI_LOG_LEVEL_DEFAULT'', 1),
     (''WIFI_LOG_LEVEL'', 3)]"

definition config_abs_syms_18 :: "(string \<times> int) list" where
  "config_abs_syms_18 = [
     (''WIFI_INIT_PRIORITY'', 80), (''WIFI_USE_NATIVE_NETWORKING'', 1), (''NET_TCP_WORKQ_STACK_SIZE'', 1024),
     (''NET_MGMT_EVENT_STACK_SIZE'', 4600), (''WIFI_MGMT_SCAN_CHAN_MAX_MANUAL'', 3), (''WIFI_NRF70'', 1),
     (''WIFI_NRF7002'', 1), (''NRF70_QSPI_LOW_POWER'', 1), (''NRF70_SYSTEM_MODE'', 1), (''NRF70_STA_MODE'', 1),
     (''NRF70_DATA_TX'', 1), (''NRF_WIFI_IF_AUTO_START'', 1), (''NRF_WIFI_PATCHES_EXTERNAL'', 1),
     (''NRF_WIFI_LOW_POWER'', 1), (''NRF70_TCP_IP_CHECKSUM_OFFLOAD'', 1), (''NRF70_REG_DOMAIN'', 1),
     (''WIFI_NRF70_LOG_LEVEL_DEFAULT'', 1), (''WIFI_NRF70_LOG_LEVEL'', 3), (''NRF70_WORKQ_STACK_SIZE'', 4096),
     (''NRF70_WORKQ_MAX_ITEMS'', 100), (''NRF70_MAX_TX_PENDING_QLEN'', 18), (''NRF70_PCB_LOSS_2G'', 0),
     (''NRF70_PCB_LOSS_5G_BAND1'', 0), (''NRF70_PCB_LOSS_5G_BAND2'', 0), (''NRF70_PCB_LOSS_5G_BAND3'', 0),
     (''NRF70_ANT_GAIN_2G'', 0), (''NRF70_ANT_GAIN_5G_BAND1'', 0), (''NRF70_ANT_GAIN_5G_BAND2'', 0),
     (''NRF70_ANT_GAIN_5G_BAND3'', 0), (''NRF70_BAND_2G_LOWER_EDGE_BACKOFF_DSSS'', 0),
     (''NRF70_BAND_2G_LOWER_EDGE_BACKOFF_HT'', 0), (''NRF70_BAND_2G_LOWER_EDGE_BACKOFF_HE'', 0),
     (''NRF70_BAND_2G_UPPER_EDGE_BACKOFF_DSSS'', 0), (''NRF70_BAND_2G_UPPER_EDGE_BACKOFF_HT'', 0),
     (''NRF70_BAND_2G_UPPER_EDGE_BACKOFF_HE'', 0), (''NRF70_BAND_UNII_1_LOWER_EDGE_BACKOFF_HT'', 0),
     (''NRF70_BAND_UNII_1_LOWER_EDGE_BACKOFF_HE'', 0), (''NRF70_BAND_UNII_1_UPPER_EDGE_BACKOFF_HT'', 0),
     (''NRF70_BAND_UNII_1_UPPER_EDGE_BACKOFF_HE'', 0), (''NRF70_BAND_UNII_2A_LOWER_EDGE_BACKOFF_HT'', 0),
     (''NRF70_BAND_UNII_2A_LOWER_EDGE_BACKOFF_HE'', 0), (''NRF70_BAND_UNII_2A_UPPER_EDGE_BACKOFF_HT'', 0),
     (''NRF70_BAND_UNII_2A_UPPER_EDGE_BACKOFF_HE'', 0), (''NRF70_BAND_UNII_2C_LOWER_EDGE_BACKOFF_HT'', 0),
     (''NRF70_BAND_UNII_2C_LOWER_EDGE_BACKOFF_HE'', 0)]"

definition config_abs_syms_19 :: "(string \<times> int) list" where
  "config_abs_syms_19 = [
     (''NRF70_BAND_UNII_2C_UPPER_EDGE_BACKOFF_HT'', 0), (''NRF70_BAND_UNII_2C_UPPER_EDGE_BACKOFF_HE'', 0),
     (''NRF70_BAND_UNII_3_LOWER_EDGE_BACKOFF_HT'', 0), (''NRF70_BAND_UNII_3_LOWER_EDGE_BACKOFF_HE'', 0),
     (''NRF70_BAND_UNII_3_UPPER_EDGE_BACKOFF_HT'', 0), (''NRF70_BAND_UNII_3_UPPER_EDGE_BACKOFF_HE'', 0),
     (''NRF70_BAND_UNII_4_LOWER_EDGE_BACKOFF_HT'', 0), (''NRF70_BAND_UNII_4_LOWER_EDGE_BACKOFF_HE'', 0),
     (''NRF70_BAND_UNII_4_UPPER_EDGE_BACKOFF_HT'', 0), (''NRF70_BAND_UNII_4_UPPER_EDGE_BACKOFF_HE'', 0),
     (''NRF70_RX_NUM_BUFS'', 16), (''NRF70_MAX_TX_AGGREGATION'', 12), (''NRF70_MAX_TX_TOKENS'', 10),
     (''NRF70_TX_MAX_DATA_SIZE'', 1600), (''NRF70_RX_MAX_DATA_SIZE'', 1600), (''NRF70_IRQ_WQ_PRIORITY'', - 15),
     (''NRF70_BH_WQ_PRIORITY'', 0), (''NRF70_IRQ_WQ_STACK_SIZE'', 2048), (''NRF70_BH_WQ_STACK_SIZE'', 2048),
     (''NRF70_RPU_PS_IDLE_TIMEOUT_MS'', 10), (''WIFI_FIXED_MAC_ADDRESS'', 1), (''WIFI_OTP_MAC_ADDRESS'', 1),
     (''NRF70_RSSI_STALE_TIMEOUT_MS'', 1000), (''NRF_WIFI_CTRL_HEAP_SIZE'', 20000),
     (''NRF_WIFI_DATA_HEAP_SIZE'', 30000), (''NET_TC_TX_COUNT'', 1), (''NRF_WIFI_USE_VARIABLE_NET_BUFS'', 1),
     (''WIFI_MGMT_SCAN_SSID_FILT_MAX'', 2), (''NRF_WIFI_SCAN_MAX_BSS_CNT'', 0), (''NRF_WIFI_BEAMFORMING'', 1),
     (''WIFI_NRF70_SCAN_TIMEOUT_S'', 30), (''NRF_WIFI_OP_BAND'', 3), (''NRF_WIFI_IFACE_MTU'', 1500),
     (''NET_INTERFACE_NAME_LEN'', 15), (''NRF_WIFI_AP_DEAD_DETECT_TIMEOUT'', 20),
     (''NRF_WIFI_RPU_RECOVERY'', 1), (''NRF_WIFI_RPU_RECOVERY_PROPAGATION_DELAY_MS'', 2000),
     (''NET_MGMT_EVENT_QUEUE_SIZE'', 16), (''NRF_WIFI_RPU_RECOVERY_PS_ACTIVE_TIMEOUT_MS'', 50000),
     (''NRF_WIFI_RPU_MIN_TIME_TO_ENTER_SLEEP_MS'', 5000), (''NRF_WIFI_RPU_RECOVERY_QUIET_PERIOD_MS'', 5000),
     (''NRF_WIFI_RPU_RECOVERY_MAX_RETRIES'', 0), (''NRF_WIFI_RPU_RECOVERY_RETRY_WINDOW_S'', 900),
     (''NRF_WIFI_FEAT_WMM'', 1), (''NRF_WIFI_PS_POLL_BASED_RETRIEVAL'', 1)]"

definition config_abs_syms_20 :: "(string \<times> int) list" where
  "config_abs_syms_20 = [
     (''NRF_WIFI_MGMT_BUFF_OFFLOAD'', 1), (''NRF_WIFI_PS_INT_PS'', 1),
     (''NRF_WIFI_DISPLAY_SCAN_BSS_LIMIT'', 150), (''NRF_WIFI_MAX_PS_POLL_FAIL_CNT'', 10),
     (''NRF_WIFI_RX_STBC_HT'', 1), (''WIFI_USAGE_MODE_STA'', 1), (''REQUIRES_FULL_LIBC'', 1),
     (''FULL_LIBC_SUPPORTED'', 1), (''MINIMAL_LIBC_SUPPORTED'', 1), (''NEWLIB_LIBC_SUPPORTED'', 1),
     (''PICOLIBC_SUPPORTED'', 1), (''NATIVE_LIBC_INCOMPATIBLE'', 1), (''PICOLIBC'', 1),
     (''HAS_NEWLIB_LIBC_NANO'', 1), (''COMMON_LIBC_ABORT'', 1), (''COMMON_LIBC_MALLOC'', 1),
     (''COMMON_LIBC_CALLOC'', 1), (''COMMON_LIBC_REALLOCARRAY'', 1), (''COMMON_LIBC_REMOVE'', 1),
     (''PICOLIBC_USE_TOOLCHAIN'', 1), (''PICOLIBC_IO_LONG_LONG'', 1), (''STDOUT_CONSOLE'', 1),
     (''NEED_LIBC_MEM_PARTITION'', 1), (''CRC'', 1), (''SYS_HASH_FUNC32'', 1), (''SYS_HASH_FUNC32_DJB2'', 1),
     (''SYS_HASH_FUNC32_MURMUR3'', 1), (''SYS_HASH_FUNC32_CHOICE_MURMUR3'', 1), (''SYS_HEAP_ALLOC_LOOPS'', 3),
     (''SYS_HEAP_ARRAY_SIZE'', 0), (''SYS_HEAP_AUTO'', 1), (''NET_BUF'', 1),
     (''NET_BUF_LOG_LEVEL_DEFAULT'', 1), (''NET_BUF_LOG_LEVEL'', 3), (''NET_BUF_ALIGNMENT'', 0),
     (''FDTABLE'', 1), (''ZVFS_OPEN_MAX'', 16), (''MPSC_PBUF'', 1), (''HAS_POWEROFF'', 1),
     (''CBPRINTF_COMPLETE'', 1), (''CBPRINTF_FULL_INTEGRAL'', 1), (''CBPRINTF_PACKAGE_LOG_LEVEL_DEFAULT'', 1),
     (''CBPRINTF_PACKAGE_LOG_LEVEL'', 3), (''CBPRINTF_CONVERT_CHECK_PTR'', 1), (''ZVFS'', 1)]"

definition config_abs_syms_21 :: "(string \<times> int) list" where
  "config_abs_syms_21 = [
     (''ZVFS_EVENTFD'', 1), (''ZVFS_EVENTFD_MAX'', 8), (''ZVFS_POLL'', 1), (''ZVFS_POLL_MAX'', 10),
     (''ZVFS_SELECT'', 1), (''POSIX_API'', 1), (''POSIX_AEP_CHOICE_NONE'', 1), (''POSIX_BASE_DEFINITIONS'', 1),
     (''POSIX_AEP_REALTIME_MINIMAL'', 1), (''POSIX_ASYNCHRONOUS_IO'', 1), (''POSIX_BARRIERS'', 1),
     (''MAX_PTHREAD_BARRIER_COUNT'', 5), (''PTHREAD_BARRIER_LOG_LEVEL_DEFAULT'', 1),
     (''PTHREAD_BARRIER_LOG_LEVEL'', 3), (''POSIX_C_LANG_SUPPORT_R'', 1), (''POSIX_DEVICE_IO'', 1),
     (''POSIX_OPEN_MAX'', 16), (''POSIX_FD_MGMT'', 1), (''POSIX_FILE_SYSTEM_R'', 1),
     (''POSIX_FILE_SYSTEM'', 1), (''POSIX_PAGE_SIZE'', 0x40), (''POSIX_SHARED_MEMORY_OBJECTS'', 1),
     (''POSIX_MAPPED_FILES'', 1), (''POSIX_MEMLOCK'', 1), (''POSIX_MEMLOCK_RANGE'', 1),
     (''POSIX_MEMORY_PROTECTION'', 1), (''POSIX_NETWORKING'', 1), (''POSIX_HOST_NAME_MAX'', 63),
     (''POSIX_SINGLE_PROCESS'', 1), (''POSIX_SYSCONF_IMPL_MACRO'', 1), (''POSIX_UNAME_VERSION_LEN'', 70),
     (''POSIX_UNAME_NODENAME_LEN'', 6), (''POSIX_ENV_LOG_LEVEL_DEFAULT'', 1), (''POSIX_ENV_LOG_LEVEL'', 3),
     (''POSIX_MULTI_PROCESS'', 1), (''POSIX_MULTI_PROCESS_ALIAS_GETPID'', 1), (''POSIX_THREADS'', 1),
     (''HEAP_MEM_POOL_ADD_SIZE_POSIX_THREADS'', 256), (''POSIX_THREAD_THREADS_MAX'', 5),
     (''MAX_PTHREAD_MUTEX_COUNT'', 5), (''MAX_PTHREAD_COND_COUNT'', 5), (''POSIX_THREAD_KEYS_MAX'', 5),
     (''PTHREAD_RECYCLER_DELAY_MS'', 100), (''POSIX_THREAD_ATTR_STACKADDR'', 1),
     (''POSIX_THREAD_ATTR_STACKSIZE'', 1)]"

definition config_abs_syms_22 :: "(string \<times> int) list" where
  "config_abs_syms_22 = [
     (''POSIX_THREAD_PRIORITY_SCHEDULING'', 1), (''POSIX_PTHREAD_ATTR_STACKSIZE_BITS'', 23),
     (''POSIX_PTHREAD_ATTR_GUARDSIZE_BITS'', 9), (''POSIX_PTHREAD_ATTR_GUARDSIZE_DEFAULT'', 0),
     (''POSIX_THREAD_PRIO_INHERIT'', 1), (''POSIX_THREAD_PRIO_PROTECT'', 1),
     (''POSIX_THREAD_SAFE_FUNCTIONS'', 1), (''PTHREAD_LOG_LEVEL_DEFAULT'', 1), (''PTHREAD_LOG_LEVEL'', 3),
     (''PTHREAD_MUTEX_LOG_LEVEL_DEFAULT'', 1), (''PTHREAD_MUTEX_LOG_LEVEL'', 3),
     (''PTHREAD_COND_LOG_LEVEL_DEFAULT'', 1), (''PTHREAD_COND_LOG_LEVEL'', 3),
     (''PTHREAD_KEY_LOG_LEVEL_DEFAULT'', 1), (''PTHREAD_KEY_LOG_LEVEL'', 3),
     (''POSIX_READER_WRITER_LOCKS'', 1), (''MAX_PTHREAD_RWLOCK_COUNT'', 5),
     (''PTHREAD_RWLOCK_LOG_LEVEL_DEFAULT'', 1), (''PTHREAD_RWLOCK_LOG_LEVEL'', 3), (''POSIX_SEMAPHORES'', 1),
     (''POSIX_SEM_VALUE_MAX'', 32767), (''POSIX_SEM_NSEMS_MAX'', 256), (''POSIX_SEM_NAMELEN_MAX'', 16),
     (''HEAP_MEM_POOL_ADD_SIZE_POSIX_SEMAPHORES'', 256), (''POSIX_REALTIME_SIGNALS'', 1),
     (''POSIX_RTSIG_MAX'', 8), (''POSIX_SIGNALS'', 1), (''POSIX_SIGNAL_STRING_DESC'', 1),
     (''POSIX_SPIN_LOCKS'', 1), (''MAX_PTHREAD_SPINLOCK_COUNT'', 5),
     (''PTHREAD_SPINLOCK_LOG_LEVEL_DEFAULT'', 1), (''PTHREAD_SPINLOCK_LOG_LEVEL'', 3), (''POSIX_FSYNC'', 1),
     (''POSIX_SYNCHRONIZED_IO'', 1), (''POSIX_TIMERS'', 1), (''POSIX_THREAD_CPUTIME'', 1),
     (''POSIX_MONOTONIC_CLOCK'', 1), (''POSIX_CLOCK_SELECTION'', 1), (''POSIX_DELAYTIMER_MAX'', 32),
     (''POSIX_TIMER_MAX'', 32), (''POSIX_TIMEOUTS'', 1), (''TIMER_CREATE_WAIT'', 100),
     (''TIMER_LOG_LEVEL_DEFAULT'', 1), (''TIMER_LOG_LEVEL'', 3), (''XSI_SINGLE_PROCESS'', 1)]"

definition config_abs_syms_23 :: "(string \<times> int) list" where
  "config_abs_syms_23 = [
     (''XSI_SINGLE_PROCESS_LOG_LEVEL_DEFAULT'', 1), (''XSI_SINGLE_PROCESS_LOG_LEVEL'', 3),
     (''XSI_THREADS_EXT'', 1), (''EVENTFD'', 1), (''TC_PROVIDES_POSIX_C_LANG_SUPPORT_R'', 1),
     (''LIBGCC_RTLIB'', 1), (''RING_BUFFER'', 1), (''NOTIFY'', 1), (''ONOFF'', 1), (''PRINTK'', 1),
     (''EARLY_CONSOLE'', 1), (''ASSERT_VERBOSE'', 1), (''DEBUG_COREDUMP'', 1),
     (''DEBUG_COREDUMP_BACKEND_LOGGING'', 1), (''DEBUG_COREDUMP_MEMORY_DUMP_MIN'', 1),
     (''DEBUG_COREDUMP_LOG_LEVEL_DEFAULT'', 1), (''DEBUG_COREDUMP_LOG_LEVEL'', 3),
     (''DEBUG_COREDUMP_THREAD_STACK_TOP'', 1), (''DEBUG_COREDUMP_THREAD_STACK_TOP_LIMIT'', - 1),
     (''CPU_LOAD_LOG_PERIODICALLY'', 0), (''CPU_LOAD_LOG_LEVEL_DEFAULT'', 1), (''CPU_LOAD_LOG_LEVEL'', 3),
     (''FILE_SYSTEM_LIB_LINK'', 1), (''FILE_SYSTEM'', 1), (''FILE_SYSTEM_MAX_TYPES'', 2),
     (''FILE_SYSTEM_MAX_FILE_NAME'', - 1), (''FILE_SYSTEM_INIT_PRIORITY'', 99), (''APP_LINK_WITH_FS'', 1),
     (''FS_LOG_LEVEL_DEFAULT'', 1), (''FS_LOG_LEVEL'', 3), (''EXT2_LOG_LEVEL_DEFAULT'', 1),
     (''EXT2_LOG_LEVEL'', 3), (''LOG_CORE_INIT_PRIORITY'', 0), (''LOG_MODE_DEFERRED'', 1),
     (''LOG_FLUSH_SLEEP_US'', 10000), (''LOG_DEFAULT_LEVEL'', 3), (''LOG_OVERRIDE_LEVEL'', 0),
     (''LOG_MAX_LEVEL'', 4), (''LOG_PRINTK'', 1), (''LOG_MODE_OVERFLOW'', 1),
     (''LOG_PROCESS_TRIGGER_THRESHOLD'', 10), (''LOG_PROCESS_THREAD'', 1),
     (''LOG_PROCESS_THREAD_STARTUP_DELAY_MS'', 0), (''LOG_PROCESS_THREAD_SLEEP_MS'', 1000),
     (''LOG_PROCESS_THREAD_STACK_SIZE'', 768)]"

definition config_abs_syms_24 :: "(string \<times> int) list" where
  "config_abs_syms_24 = [
     (''LOG_TRACE_SHORT_TIMESTAMP'', 1), (''LOG_FUNC_NAME_PREFIX_DBG'', 1), (''LOG_BACKEND_SHOW_COLOR'', 1),
     (''LOG_TAG_MAX_LEN'', 0), (''LOG_BACKEND_SUPPORTS_FORMAT_TIMESTAMP'', 1),
     (''LOG_BACKEND_FORMAT_TIMESTAMP'', 1), (''LOG_OUTPUT_FORMAT_TIME_TIMESTAMP'', 1),
     (''LOG_BACKEND_UART'', 1), (''LOG_BACKEND_UART_BUFFER_SIZE'', 1), (''LOG_BACKEND_UART_AUTOSTART'', 1),
     (''LOG_BACKEND_UART_OUTPUT_TEXT'', 1), (''LOG_BACKEND_UART_OUTPUT_DEFAULT'', 0), (''LOG_USE_VLA'', 1),
     (''LOG_SIMPLE_MSG_OPTIMIZE'', 1), (''LOG_FAILURE_REPORT_PERIOD'', 1000), (''LOG_RATELIMIT'', 1),
     (''LOG_RATELIMIT_INTERVAL_MS'', 5000), (''LOG_OUTPUT'', 1), (''MEM_ATTR'', 1), (''NETWORKING'', 1),
     (''NET_HOSTNAME_ENABLE'', 1), (''NET_HOSTNAME'', 1), (''NET_HOSTNAME_DYNAMIC'', 1),
     (''NET_HOSTNAME_MAX_LEN'', 63), (''NET_HOSTNAME_LOG_LEVEL_DEFAULT'', 1), (''NET_HOSTNAME_LOG_LEVEL'', 3),
     (''NET_L2_ETHERNET_LOG_LEVEL_DEFAULT'', 1), (''NET_L2_ETHERNET_LOG_LEVEL'', 3),
     (''NET_L2_ETHERNET_MGMT'', 1), (''NET_ARP'', 1), (''NET_ARP_TABLE_SIZE'', 2), (''NET_ARP_GRATUITOUS'', 1),
     (''NET_ARP_LOG_LEVEL_DEFAULT'', 1), (''NET_ARP_LOG_LEVEL'', 3),
     (''NET_ETHERNET_FORWARD_UNRECOGNISED_ETHERTYPE'', 1), (''NET_L2_WIFI_UTILS'', 1),
     (''NET_L2_WIFI_MGMT'', 1), (''NET_L2_WIFI_MGMT_LOG_LEVEL_DEFAULT'', 1),
     (''NET_L2_WIFI_MGMT_LOG_LEVEL'', 3), (''WIFI_MGMT_TWT_CHECK_IP'', 1), (''WIFI_SHELL_MAX_AP_STA'', 1),
     (''WIFI_NM'', 1), (''WIFI_NM_MAX_MANAGED_INTERFACES'', 1), (''WIFI_NM_LOG_LEVEL_DEFAULT'', 1),
     (''WIFI_NM_LOG_LEVEL'', 3)]"

definition config_abs_syms_25 :: "(string \<times> int) list" where
  "config_abs_syms_25 = [
     (''WIFI_MGMT_AP_STA_INACTIVITY_TIMEOUT'', 300), (''WIFI_ENT_IDENTITY_MAX_USERS'', 8),
     (''WIFI_MGMT_BSS_MAX_IDLE_TIME'', 300), (''NET_IP'', 1), (''NET_CONNECTION_SOCKETS'', 1),
     (''NET_NATIVE'', 1), (''NET_NATIVE_IP'', 1), (''NET_NATIVE_IPV4'', 1), (''NET_NATIVE_TCP'', 1),
     (''NET_NATIVE_UDP'', 1), (''NET_INIT_PRIO'', 90), (''NET_IP_DSCP_ECN'', 1), (''NET_IPV4'', 1),
     (''NET_IF_MAX_IPV4_COUNT'', 1), (''NET_IF_UNICAST_IPV4_ADDR_COUNT'', 1),
     (''NET_IF_MCAST_IPV4_ADDR_COUNT'', 1), (''NET_IPV4_DEFAULT_NETMASK'', 24), (''NET_IPV4_MTU'', 576),
     (''NET_INITIAL_TTL'', 64), (''NET_INITIAL_MCAST_TTL'', 1), (''NET_INITIAL_IPV4_MCAST_LOOP'', 1),
     (''NET_IF_MCAST_IPV4_SOURCE_COUNT'', 1), (''NET_IPV4_LOG_LEVEL_DEFAULT'', 1), (''NET_IPV4_LOG_LEVEL'', 3),
     (''NET_ICMPV4_LOG_LEVEL_DEFAULT'', 1), (''NET_ICMPV4_LOG_LEVEL'', 3),
     (''NET_IPV4_ACD_LOG_LEVEL_DEFAULT'', 1), (''NET_IPV4_ACD_LOG_LEVEL'', 3), (''NET_TC_RX_COUNT'', 1),
     (''NET_TC_THREAD_COOPERATIVE'', 1), (''NET_TC_NUM_PRIORITIES'', 16), (''NET_TC_MAPPING_STRICT'', 1),
     (''NET_TX_DEFAULT_PRIORITY'', 1), (''NET_RX_DEFAULT_PRIORITY'', 0), (''NET_IP_ADDR_CHECK'', 1),
     (''NET_MAX_ROUTERS'', 1), (''NET_TCP'', 1), (''NET_TCP_LOG_LEVEL_DEFAULT'', 1),
     (''NET_TCP_LOG_LEVEL'', 3), (''NET_TCP_WORKER_PRIO'', 2), (''NET_TCP_TIME_WAIT_DELAY'', 1500),
     (''NET_TCP_INIT_RETRANSMISSION_TIMEOUT'', 200), (''NET_TCP_RANDOMIZED_RTO'', 1),
     (''NET_TCP_RETRY_COUNT'', 9), (''NET_TCP_MAX_SEND_WINDOW_SIZE'', 0)]"

definition config_abs_syms_26 :: "(string \<times> int) list" where
  "config_abs_syms_26 = [
     (''NET_TCP_MAX_RECV_WINDOW_SIZE'', 0), (''NET_TCP_RECV_QUEUE_TIMEOUT'', 2000),
     (''NET_TCP_PKT_ALLOC_TIMEOUT'', 100), (''NET_TCP_FAST_RETRANSMIT'', 1),
     (''NET_TCP_CONGESTION_AVOIDANCE'', 1), (''NET_TCP_ISN_RFC6528'', 1),
     (''NET_TCP_REJECT_CONN_WITH_RST'', 1), (''NET_UDP'', 1), (''NET_UDP_MISSING_CHECKSUM'', 1),
     (''NET_UDP_LOG_LEVEL_DEFAULT'', 1), (''NET_UDP_LOG_LEVEL'', 3), (''NET_MAX_CONN'', 4),
     (''NET_CONN_PACKET_CLONE_TIMEOUT'', 100), (''NET_MAX_CONTEXTS'', 10), (''NET_CONTEXT_SYNC_RECV'', 1),
     (''NET_CONTEXT_CHECK'', 1), (''NET_CONTEXT_DSCP_ECN'', 1), (''NET_CONTEXT_REUSEADDR'', 1),
     (''NET_CONTEXT_REUSEPORT'', 1), (''NET_BUF_RX_COUNT'', 8), (''NET_BUF_TX_COUNT'', 16),
     (''NET_BUF_VARIABLE_DATA_SIZE'', 1), (''NET_PKT_BUF_RX_DATA_POOL_SIZE'', 4096),
     (''NET_PKT_BUF_TX_DATA_POOL_SIZE'', 4096), (''NET_PKT_BUF_USER_DATA_SIZE'', 4),
     (''NET_DEFAULT_IF_FIRST'', 1), (''NET_INTERFACE_NAME'', 1), (''NET_MGMT'', 1), (''NET_MGMT_EVENT'', 1),
     (''NET_MGMT_EVENT_THREAD'', 1), (''NET_MGMT_EVENT_QUEUE'', 1), (''NET_MGMT_EVENT_QUEUE_TIMEOUT'', 5000),
     (''NET_MGMT_EVENT_INFO'', 1), (''NET_MGMT_EVENT_LOG_LEVEL_DEFAULT'', 1),
     (''NET_MGMT_EVENT_LOG_LEVEL'', 3), (''NET_LOG'', 1), (''NET_PKT_LOG_LEVEL_DEFAULT'', 1),
     (''NET_PKT_LOG_LEVEL'', 3), (''NET_DEBUG_NET_PKT_EXTERNALS'', 0), (''NET_CORE_LOG_LEVEL_DEFAULT'', 1),
     (''NET_CORE_LOG_LEVEL'', 3), (''NET_IF_LOG_LEVEL_DEFAULT'', 1), (''NET_IF_LOG_LEVEL'', 3),
     (''NET_TC_LOG_LEVEL_DEFAULT'', 1), (''NET_TC_LOG_LEVEL'', 3)]"

definition config_abs_syms_27 :: "(string \<times> int) list" where
  "config_abs_syms_27 = [
     (''NET_UTILS_LOG_LEVEL_DEFAULT'', 1), (''NET_UTILS_LOG_LEVEL'', 3),
     (''NET_CONTEXT_LOG_LEVEL_DEFAULT'', 1), (''NET_CONTEXT_LOG_LEVEL'', 3),
     (''NET_CONN_LOG_LEVEL_DEFAULT'', 1), (''NET_CONN_LOG_LEVEL'', 3), (''NET_ROUTE_LOG_LEVEL_DEFAULT'', 1),
     (''NET_ROUTE_LOG_LEVEL'', 3), (''DNS_RESOLVER'', 1), (''DNS_RESOLVER_AUTO_INIT'', 1),
     (''DNS_RESOLVER_ADDITIONAL_QUERIES'', 2), (''DNS_RESOLVER_AI_MAX_ENTRIES'', 2),
     (''DNS_RESOLVER_MAX_SERVERS'', 1), (''DNS_RESOLVER_MAX_QUERY_LEN'', 255), (''DNS_NUM_CONCUR_QUERIES'', 1),
     (''DNS_RESOLVER_LOG_LEVEL_DEFAULT'', 1), (''DNS_RESOLVER_LOG_LEVEL'', 3), (''DNS_SOCKET_DISPATCHER'', 1),
     (''DNS_RESOLVER_ADDITIONAL_BUF_CTR'', 1), (''DNS_SOCKET_DISPATCHER_LOG_LEVEL_DEFAULT'', 1),
     (''DNS_SOCKET_DISPATCHER_LOG_LEVEL'', 3), (''HTTP_PARSER'', 1), (''HTTP_PARSER_URL'', 1),
     (''HTTP_CLIENT'', 1), (''HTTP'', 1), (''NET_HTTP_LOG_LEVEL_DEFAULT'', 1), (''NET_HTTP_LOG_LEVEL'', 3),
     (''NET_HTTP_SERVER_LOG_LEVEL_DEFAULT'', 1), (''NET_HTTP_SERVER_LOG_LEVEL'', 3),
     (''NET_CONFIG_LOG_LEVEL_DEFAULT'', 1), (''NET_CONFIG_LOG_LEVEL'', 3), (''NET_CONFIG_SETTINGS'', 1),
     (''NET_CONFIG_AUTO_INIT'', 1), (''NET_CONFIG_INIT_PRIO'', 95), (''NET_CONFIG_INIT_TIMEOUT'', 0),
     (''NET_CONFIG_MY_IPV4_ADDR'', 1), (''NET_CONFIG_MY_IPV4_NETMASK'', 1), (''NET_CONFIG_MY_IPV4_GW'', 1),
     (''NET_CONFIG_PEER_IPV4_ADDR'', 1), (''NET_SOCKETS'', 1), (''NET_SOCKETS_PRIORITY_DEFAULT'', 50),
     (''NET_SOCKETS_POLL_MAX'', 10), (''NET_SOCKETS_CONNECT_TIMEOUT'', 3000),
     (''NET_SOCKETS_DNS_TIMEOUT'', 2000), (''NET_SOCKETS_DNS_BACKOFF_INTERVAL'', 5000)]"

definition config_abs_syms_28 :: "(string \<times> int) list" where
  "config_abs_syms_28 = [
     (''NET_SOCKET_MAX_SEND_WAIT'', 10000), (''NET_SOCKETS_SERVICE'', 1),
     (''NET_SOCKETS_SERVICE_THREAD_PRIO'', 15), (''NET_SOCKETS_SERVICE_STACK_SIZE'', 1200),
     (''NET_SOCKETS_SOCKOPT_TLS'', 1), (''NET_SOCKETS_TLS_PRIORITY'', 45),
     (''NET_SOCKETS_TLS_SET_MAX_FRAGMENT_LENGTH'', 1), (''NET_SOCKETS_TLS_MAX_CONTEXTS'', 1),
     (''NET_SOCKETS_TLS_MAX_CREDENTIALS'', 4), (''NET_SOCKETS_TLS_MAX_CIPHERSUITES'', 4),
     (''NET_SOCKETS_TLS_MAX_CLIENT_SESSION_COUNT'', 1), (''NET_SOCKETS_OFFLOAD_PRIORITY'', 40),
     (''NET_SOCKETS_PACKET'', 1), (''NET_SOCKETS_PACKET_DGRAM'', 1), (''NET_SOCKETPAIR'', 1),
     (''NET_SOCKETPAIR_BUFFER_SIZE'', 64), (''NET_SOCKETPAIR_HEAP'', 1),
     (''HEAP_MEM_POOL_ADD_SIZE_SOCKETPAIR'', 296), (''NET_SOCKETS_LOG_LEVEL_DEFAULT'', 1),
     (''NET_SOCKETS_LOG_LEVEL'', 3), (''TLS_CREDENTIALS'', 1), (''TLS_CREDENTIALS_LOG_LEVEL_DEFAULT'', 1),
     (''TLS_CREDENTIALS_LOG_LEVEL'', 3), (''TLS_CREDENTIALS_BACKEND_VOLATILE'', 1), (''NET_DHCPV4'', 1),
     (''NET_DHCPV4_LOG_LEVEL_DEFAULT'', 1), (''NET_DHCPV4_LOG_LEVEL'', 3),
     (''NET_DHCPV4_INITIAL_DELAY_MAX'', 10), (''NET_DHCPV4_ACCEPT_UNICAST'', 1),
     (''NET_DHCPV4_OPTION_DNS_ADDRESS'', 1), (''NET_DHCPV4_DNS_SERVER_VIA_INTERFACE'', 1),
     (''NET_DHCPV6_DUID_MAX_LEN'', 22), (''NET_DHCPV6_OPTION_DNS_ADDRESS'', 1),
     (''NET_DHCPV6_DNS_SERVER_VIA_INTERFACE'', 1), (''WIFI_CREDENTIALS'', 1),
     (''WIFI_CREDENTIALS_LOG_LEVEL_DEFAULT'', 1), (''WIFI_CREDENTIALS_LOG_LEVEL'', 3),
     (''WIFI_CREDENTIALS_BACKEND_NONE'', 1), (''WIFI_CREDENTIALS_MAX_ENTRIES'', 2),
     (''WIFI_CREDENTIALS_SAE_PASSWORD_LENGTH'', 128), (''WIFI_CREDENTIALS_CONNECT_STORED'', 1),
     (''WIFI_CREDENTIALS_CONNECT_STORED_CONNECTION_TIMEOUT'', 30), (''WIFI_CREDENTIALS_STATIC'', 1),
     (''WIFI_CREDENTIALS_STATIC_SSID'', 1), (''WIFI_CREDENTIALS_STATIC_PASSWORD'', 1)]"

definition config_abs_syms_29 :: "(string \<times> int) list" where
  "config_abs_syms_29 = [
     (''WIFI_CREDENTIALS_STATIC_TYPE_PSK'', 1), (''TIMER_RANDOM_INITIAL_STATE'', 123456789),
     (''ENTROPY_DEVICE_RANDOM_GENERATOR'', 1), (''CSPRNG_AVAILABLE'', 1), (''CSPRNG_ENABLED'', 1),
     (''HARDWARE_DEVICE_CS_GENERATOR'', 1), (''TOOLCHAIN_ZEPHYR_0_17'', 1),
     (''TOOLCHAIN_ZEPHYR_SUPPORTS_THREAD_LOCAL_STORAGE'', 1),
     (''TOOLCHAIN_ZEPHYR_SUPPORTS_GNU_EXTENSIONS'', 1), (''LINKER_ORPHAN_SECTION_WARN'', 1),
     (''FLASH_LOAD_SIZE'', 0), (''ROM_END_OFFSET'', 0), (''LD_LINKER_SCRIPT_SUPPORTED'', 1),
     (''LD_LINKER_TEMPLATE'', 1), (''LINKER_SORT_BY_ALIGNMENT'', 1),
     (''LINKER_GENERIC_SECTIONS_PRESENT_AT_BOOT'', 1), (''LINKER_LAST_SECTION_ID'', 1),
     (''LINKER_LAST_SECTION_ID_PATTERN'', 0xE015E015), (''LINKER_USE_RELAX'', 1),
     (''LINKER_ITERABLE_SUBALIGN'', 4), (''LINKER_DEVNULL_SUPPORT'', 1), (''STD_C99'', 1),
     (''TOOLCHAIN_SUPPORTS_GNU_EXTENSIONS'', 1), (''SIZE_OPTIMIZATIONS'', 1),
     (''COMPILER_TRACK_MACRO_EXPANSION'', 1), (''COMPILER_COLOR_DIAGNOSTICS'', 1),
     (''FORTIFY_SOURCE_COMPILE_TIME'', 1), (''COMPILER_OPT'', 1),
     (''TOOLCHAIN_SUPPORTS_VLA_IN_STATEMENTS'', 1), (''RUNTIME_ERROR_CHECKS'', 1), (''KERNEL_BIN_NAME'', 1),
     (''OUTPUT_STAT'', 1), (''OUTPUT_PRINT_MEMORY_USAGE'', 1), (''BUILD_GAP_FILL_PATTERN'', 0xFF),
     (''BUILD_OUTPUT_STRIP_PATHS'', 1), (''CHECK_INIT_PRIORITIES'', 1), (''DEPRECATED'', 1),
     (''WARN_DEPRECATED'', 1), (''EXPERIMENTAL'', 1), (''ENFORCE_ZEPHYR_STDINT'', 1),
     (''LEGACY_GENERATED_INCLUDE_PATH'', 1), (''CONNECTION_IDLE_TIMEOUT'', 30), (''STA_CONN_TIMEOUT_SEC'', 70),
     (''STA_SAMPLE_START_WIFI_THREAD_STACK_SIZE'', 8192)]"

definition config_abs_syms :: "(string \<times> int) list" where
  "config_abs_syms =
     config_abs_syms_0 @ config_abs_syms_1 @ config_abs_syms_2 @ config_abs_syms_3 @ config_abs_syms_4 @
     config_abs_syms_5 @ config_abs_syms_6 @ config_abs_syms_7 @ config_abs_syms_8 @ config_abs_syms_9 @
     config_abs_syms_10 @ config_abs_syms_11 @ config_abs_syms_12 @ config_abs_syms_13 @
     config_abs_syms_14 @ config_abs_syms_15 @ config_abs_syms_16 @ config_abs_syms_17 @
     config_abs_syms_18 @ config_abs_syms_19 @ config_abs_syms_20 @ config_abs_syms_21 @
     config_abs_syms_22 @ config_abs_syms_23 @ config_abs_syms_24 @ config_abs_syms_25 @
     config_abs_syms_26 @ config_abs_syms_27 @ config_abs_syms_28 @ config_abs_syms_29"

lemmas config_abs_syms_defs = config_abs_syms_def
  config_abs_syms_0_def config_abs_syms_1_def config_abs_syms_2_def config_abs_syms_3_def
  config_abs_syms_4_def config_abs_syms_5_def config_abs_syms_6_def config_abs_syms_7_def
  config_abs_syms_8_def config_abs_syms_9_def config_abs_syms_10_def config_abs_syms_11_def
  config_abs_syms_12_def config_abs_syms_13_def config_abs_syms_14_def config_abs_syms_15_def
  config_abs_syms_16_def config_abs_syms_17_def config_abs_syms_18_def config_abs_syms_19_def
  config_abs_syms_20_def config_abs_syms_21_def config_abs_syms_22_def config_abs_syms_23_def
  config_abs_syms_24_def config_abs_syms_25_def config_abs_syms_26_def config_abs_syms_27_def
  config_abs_syms_28_def config_abs_syms_29_def

end
