(* ===== verification/Isr_Table.thy ===== *)
theory Isr_Table
  imports Devicetree_Image
begin

text \<open>
  The interrupt tables of the image (\<^verbatim>\<open>isr_tables.c\<close>), the memory that the partition manager gives it
  (\<^verbatim>\<open>pm_config.h\<close>), and how both fit the device tree. A handler is the spurious one or an
  address in the image; an interrupt goes through its vector to \<^verbatim>\<open>_isr_wrapper\<close>, which calls the handler of
  its row with the argument of its row.
\<close>

section \<open>Memory\<close>

definition PM_APP_ADDRESS :: nat where "PM_APP_ADDRESS = 0x0"
definition PM_APP_END_ADDRESS :: nat where "PM_APP_END_ADDRESS = 0x100000"
definition PM_APP_SIZE :: nat where "PM_APP_SIZE = 0x100000"
definition PM_SRAM_PRIMARY_ADDRESS :: nat where "PM_SRAM_PRIMARY_ADDRESS = 0x20000000"
definition PM_SRAM_PRIMARY_END_ADDRESS :: nat where "PM_SRAM_PRIMARY_END_ADDRESS = 0x20040000"
definition PM_SRAM_PRIMARY_SIZE :: nat where "PM_SRAM_PRIMARY_SIZE = 0x40000"

lemmas pm_defs = PM_APP_ADDRESS_def PM_APP_END_ADDRESS_def PM_APP_SIZE_def PM_SRAM_PRIMARY_ADDRESS_def
  PM_SRAM_PRIMARY_END_ADDRESS_def PM_SRAM_PRIMARY_SIZE_def

definition in_app :: "nat \<Rightarrow> bool" where
  "in_app a \<longleftrightarrow> PM_APP_ADDRESS \<le> a \<and> a < PM_APP_END_ADDRESS"

definition in_sram :: "nat \<Rightarrow> bool" where
  "in_sram a \<longleftrightarrow> PM_SRAM_PRIMARY_ADDRESS \<le> a \<and> a < PM_SRAM_PRIMARY_END_ADDRESS"

section \<open>The tables\<close>

definition CONFIG_NUM_IRQS :: nat where "CONFIG_NUM_IRQS = 48"

datatype isr = Irq_Spurious | Isr nat

definition irq_vector_table :: "string list" where
  "irq_vector_table = replicate 48 ''_isr_wrapper''"

definition sw_isr_table :: "(nat \<times> isr) list" where
  "sw_isr_table = [
     (0x3a691, Isr 0x6d599),
     (0, Irq_Spurious),
     (0x763cc, Isr 0x6cfbb),
     (0, Irq_Spurious),
     (0x3b23d, Isr 0x6d599),
     (0, Irq_Spurious),
     (0x3ad15, Isr 0x6d599),
     (0, Irq_Spurious),
     (0, Irq_Spurious),
     (0, Irq_Spurious),
     (0, Irq_Spurious),
     (0, Irq_Spurious),
     (0, Irq_Spurious),
     (0x20004140, Isr 0x34089),
     (0, Irq_Spurious),
     (0, Irq_Spurious),
     (0, Irq_Spurious),
     (0, Isr 0x35845),
     (0, Irq_Spurious),
     (0, Irq_Spurious),
     (0, Irq_Spurious),
     (0, Irq_Spurious),
     (0, Irq_Spurious),
     (0, Irq_Spurious),
     (0, Irq_Spurious),
     (0, Irq_Spurious),
     (0, Irq_Spurious),
     (0, Irq_Spurious),
     (0, Irq_Spurious),
     (0, Irq_Spurious),
     (0, Irq_Spurious),
     (0, Irq_Spurious),
     (0, Irq_Spurious),
     (0, Irq_Spurious),
     (0, Irq_Spurious),
     (0, Irq_Spurious),
     (0, Irq_Spurious),
     (0, Irq_Spurious),
     (0, Irq_Spurious),
     (0, Irq_Spurious),
     (0, Irq_Spurious),
     (0, Irq_Spurious),
     (0, Irq_Spurious),
     (0, Irq_Spurious),
     (0, Irq_Spurious),
     (0, Irq_Spurious),
     (0, Irq_Spurious),
     (0x3b901, Isr 0x6d599)]"

text \<open>The interrupts with a handler of their own, and the interrupts of the enabled nodes.\<close>

definition handled_irqs :: "nat list" where
  "handled_irqs = [q. (q, a, h) \<leftarrow> enumerate 0 sw_isr_table, h \<noteq> Irq_Spurious]"

definition enabled_irqs :: "nat list" where
  "enabled_irqs = [q. i \<leftarrow> dt_foreach_okay, (q, p, c) \<leftarrow> dt_irqs (dt_nodes ! i)]"

text \<open>A row is sound when its handler is Thumb code of the image and its argument points into the image
  or into its memory, or when it is the spurious handler without argument.\<close>

definition row_sound :: "nat \<times> isr \<Rightarrow> bool" where
  "row_sound r \<longleftrightarrow> (case r of
      (a, Irq_Spurious) \<Rightarrow> a = 0
    | (a, Isr h) \<Rightarrow> odd h \<and> in_app h \<and> (a = 0 \<or> in_app a \<or> in_sram a))"

section \<open>Every handler has its device\<close>

lemma handled_values: "handled_irqs = [0, 2, 4, 6, 13, 17, 47]"
  by (simp add: handled_irqs_def sw_isr_table_def)

lemmas enabled_eval = enabled_irqs_def dt_foreach_okay_def col_nth(6) [symmetric] dt_irqs_at

text \<open>C35. The interrupt tables fit the device tree and the memory map. Both tables have a row for each of the
  \<^verbatim>\<open>CONFIG_NUM_IRQS\<close> interrupts, every interrupt of an enabled node has a row, and every interrupt
  with a handler of its own belongs to an enabled node, but for number 17, the RTC that the system
  timer takes although its node is disabled. Every handler is Thumb code inside the application's
  flash, every argument is null or points into that flash or into the RAM, and the application's
  flash and RAM are the flash and the memory node of the device tree.\<close>

theorem interrupts_fit:
  "length irq_vector_table = CONFIG_NUM_IRQS \<and> length sw_isr_table = CONFIG_NUM_IRQS \<and>
   set irq_vector_table = {''_isr_wrapper''} \<and>
   list_all (\<lambda>q. q < CONFIG_NUM_IRQS) enabled_irqs \<and>
   set handled_irqs - set enabled_irqs = {17} \<and>
   map fst (dt_irqs DT_N_S_soc_S_rtc_40011000) = [17] \<and> dt_okay DT_N_S_soc_S_rtc_40011000 = False \<and>
   list_all row_sound sw_isr_table \<and>
   dt_regs DT_N_S_soc_S_flash_controller_4001e000_S_flash_0 = [(PM_APP_ADDRESS, Some PM_APP_SIZE)] \<and>
   dt_regs DT_N_S_soc_S_memory_20000000 = [(PM_SRAM_PRIMARY_ADDRESS, Some PM_SRAM_PRIMARY_SIZE)] \<and>
   PM_APP_END_ADDRESS = PM_APP_ADDRESS + PM_APP_SIZE \<and>
   PM_SRAM_PRIMARY_END_ADDRESS = PM_SRAM_PRIMARY_ADDRESS + PM_SRAM_PRIMARY_SIZE"
proof (intro conjI)
  show "list_all (\<lambda>q. q < CONFIG_NUM_IRQS) enabled_irqs"
    by (simp add: enabled_eval CONFIG_NUM_IRQS_def)
  show "set handled_irqs - set enabled_irqs = {17}"
    by (simp add: handled_values enabled_eval insert_Diff_if)
  show "list_all row_sound sw_isr_table"
    by (simp add: sw_isr_table_def row_sound_def in_app_def in_sram_def pm_defs)
qed (simp_all add: irq_vector_table_def sw_isr_table_def CONFIG_NUM_IRQS_def pm_defs DT_N_S_soc_S_rtc_40011000_def
    DT_N_S_soc_S_flash_controller_4001e000_S_flash_0_def DT_N_S_soc_S_memory_20000000_def)

end
