(* ===== verification/Kconfig_Build.thy ===== *)
theory Kconfig_Build
  imports String_Tables Kconfig_Values Kconfig_Symbols Image_Limit App_System Isr_Table
begin

text \<open>
  The configuration of the build against the rest of it: \<^verbatim>\<open>configs.c\<close> exports what
  \<^verbatim>\<open>autoconf.h\<close> defines, the device switches are those of the device tree, the sizes are those of
  the memory map, the interrupt tables and the threads, and the switches that the C code tests fix the
  parameters of the models.
\<close>

section \<open>Settings\<close>

abbreviation setting :: "string \<Rightarrow> kval option" where
  "setting \<equiv> map_of autoconf"

definition configured :: "string \<Rightarrow> bool" where
  "configured n \<longleftrightarrow> setting n \<noteq> None"

text \<open>The value that \<^verbatim>\<open>GEN_ABSOLUTE_SYM_KCONFIG\<close> is given for a macro: a string counts as a switch.\<close>

fun sym_value :: "kval \<Rightarrow> int" where
  "sym_value (KInt n) = n"
| "sym_value (KHex n) = int n"
| "sym_value (KStr s) = 1"

definition abs_sym :: "string \<times> kval \<Rightarrow> string \<times> int" where
  "abs_sym r = (case r of (n, v) \<Rightarrow> (n, sym_value v))"

text \<open>The HTTP thread of \<^verbatim>\<open>app.c\<close>, the program of this build: \<^verbatim>\<open>K_THREAD_DEFINE\<close> gives it its
  stack and its priority in numbers.\<close>

definition http_thread_stack_size :: nat where "http_thread_stack_size = 10240"

definition http_thread_priority :: int where "http_thread_priority = 7"

text \<open>The switch of a compatible: its name in upper case.\<close>

definition dt_flag :: "string \<Rightarrow> string" where
  "dt_flag c = ''DT_HAS_'' @ map upper c @ ''_ENABLED''"

text \<open>The compatibles of the board and of the chip family, which no driver matches.\<close>

definition board_compats :: "string list" where
  "board_compats = [''nordic_nrf52840_dk_nrf52840'', ''nordic_nrf52840_qiaa'', ''nordic_nrf52840'',
     ''nordic_nrf52'', ''simple_bus'']"

text \<open>The components that ask for kernel heap.\<close>

definition heap_requests :: "string list" where
  "heap_requests = filter (prefix ''HEAP_MEM_POOL_ADD_SIZE_'') (map fst autoconf)"

text \<open>What the switches say about the parameters of the models.\<close>

definition build_env :: "env \<Rightarrow> bool" where
  "build_env e \<longleftrightarrow> cfg_wifi_ready_lib e = configured ''WIFI_READY_LIB'' \<and>
     cfg_nrf7002dk e = (configured ''BOARD_NRF7002DK_NRF5340_CPUAPP_NRF7001'' \<or> configured ''BOARD_NRF7002DK_NRF5340_CPUAPP'')"

section \<open>Looking settings up\<close>

lemma flash_settings:
  "setting ''NUM_IRQS'' = Some (KInt 48)"
  "setting ''FLASH_SIZE'' = Some (KInt 1024)"
  "setting ''FLASH_BASE_ADDRESS'' = Some (KHex 0)"
  "setting ''FLASH_LOAD_OFFSET'' = Some (KHex 0)"
  unfolding autoconf_defs by (simp_all only: table_eval cong: table_cong)

lemma sram_settings:
  "setting ''SRAM_SIZE'' = Some (KInt 256)"
  "setting ''SRAM_BASE_ADDRESS'' = Some (KHex 0x20000000)"
  "setting ''SRAM_OFFSET'' = Some (KHex 0)"
  "setting ''PM_SRAM_BASE'' = Some (KHex 0x20000000)"
  "setting ''PM_SRAM_SIZE'' = Some (KHex 0x40000)"
  unfolding autoconf_defs by (simp_all only: table_eval cong: table_cong)

lemma thread_settings:
  "setting ''MAIN_THREAD_PRIORITY'' = Some (KInt 0)"
  "setting ''NUM_PREEMPT_PRIORITIES'' = Some (KInt 15)"
  "setting ''NET_SOCKETS_TLS_MAX_CONTEXTS'' = Some (KInt 1)"
  unfolding autoconf_defs by (simp_all only: table_eval cong: table_cong)

lemma heap_settings:
  "setting ''HEAP_MEM_POOL_SIZE'' = Some (KInt 37000)"
  "setting ''HEAP_MEM_POOL_IGNORE_MIN'' = Some (KInt 1)"
  "setting ''HEAP_MEM_POOL_ADD_SIZE_HOSTAP'' = Some (KInt 30000)"
  "setting ''HEAP_MEM_POOL_ADD_SIZE_POSIX_THREADS'' = Some (KInt 256)"
  "setting ''HEAP_MEM_POOL_ADD_SIZE_POSIX_SEMAPHORES'' = Some (KInt 256)"
  "setting ''HEAP_MEM_POOL_ADD_SIZE_SOCKETPAIR'' = Some (KInt 296)"
  unfolding autoconf_defs by (simp_all only: table_eval cong: table_cong)

lemma switch_settings:
  "setting ''WIFI_READY_LIB'' = Some (KInt 1)"
  "setting ''BOARD_NRF7002DK_NRF5340_CPUAPP_NRF7001'' = None"
  "setting ''BOARD_NRF7002DK_NRF5340_CPUAPP'' = None"
  unfolding autoconf_defs by (simp_all only: table_eval cong: table_cong)

section \<open>Tables\<close>

lemma syms_chunks:
  "config_abs_syms_0 = map abs_sym autoconf_0"
  "config_abs_syms_1 = map abs_sym autoconf_1"
  "config_abs_syms_2 = map abs_sym autoconf_2"
  "config_abs_syms_3 = map abs_sym autoconf_3"
  "config_abs_syms_4 = map abs_sym autoconf_4"
  "config_abs_syms_5 = map abs_sym autoconf_5"
  "config_abs_syms_6 = map abs_sym autoconf_6"
  "config_abs_syms_7 = map abs_sym autoconf_7"
  "config_abs_syms_8 = map abs_sym autoconf_8"
  "config_abs_syms_9 = map abs_sym autoconf_9"
  "config_abs_syms_10 = map abs_sym autoconf_10"
  "config_abs_syms_11 = map abs_sym autoconf_11"
  "config_abs_syms_12 = map abs_sym autoconf_12"
  "config_abs_syms_13 = map abs_sym autoconf_13"
  "config_abs_syms_14 = map abs_sym autoconf_14"
  "config_abs_syms_15 = map abs_sym autoconf_15"
  "config_abs_syms_16 = map abs_sym autoconf_16"
  "config_abs_syms_17 = map abs_sym autoconf_17"
  "config_abs_syms_18 = map abs_sym autoconf_18"
  "config_abs_syms_19 = map abs_sym autoconf_19"
  "config_abs_syms_20 = map abs_sym autoconf_20"
  "config_abs_syms_21 = map abs_sym autoconf_21"
  "config_abs_syms_22 = map abs_sym autoconf_22"
  "config_abs_syms_23 = map abs_sym autoconf_23"
  "config_abs_syms_24 = map abs_sym autoconf_24"
  "config_abs_syms_25 = map abs_sym autoconf_25"
  "config_abs_syms_26 = map abs_sym autoconf_26"
  "config_abs_syms_27 = map abs_sym autoconf_27"
  "config_abs_syms_28 = map abs_sym autoconf_28"
  "config_abs_syms_29 = map abs_sym autoconf_29"
  by (simp_all only: autoconf_defs config_abs_syms_defs list.map abs_sym_def prod.case sym_value.simps
      of_nat_numeral semiring_1_class.of_nat_0 of_nat_1)

lemma flag_values: "filter (prefix ''DT_HAS_'') (map fst autoconf) =
    [''DT_HAS_ARDUINO_UNO_ADC_ENABLED'', ''DT_HAS_ARDUINO_HEADER_R3_ENABLED'',
     ''DT_HAS_ARM_ARMV7M_ITM_ENABLED'', ''DT_HAS_ARM_CORTEX_M4F_ENABLED'',
     ''DT_HAS_ARM_CRYPTOCELL_310_ENABLED'', ''DT_HAS_ARM_V7M_NVIC_ENABLED'',
     ''DT_HAS_FIXED_PARTITIONS_ENABLED'', ''DT_HAS_GPIO_KEYS_ENABLED'', ''DT_HAS_GPIO_LEDS_ENABLED'',
     ''DT_HAS_MMIO_SRAM_ENABLED'', ''DT_HAS_NORDIC_BT_HCI_SDC_ENABLED'', ''DT_HAS_NORDIC_NRF_ACL_ENABLED'',
     ''DT_HAS_NORDIC_NRF_CCM_ENABLED'', ''DT_HAS_NORDIC_NRF_CLOCK_ENABLED'',
     ''DT_HAS_NORDIC_NRF_ECB_ENABLED'', ''DT_HAS_NORDIC_NRF_EGU_ENABLED'', ''DT_HAS_NORDIC_NRF_FICR_ENABLED'',
     ''DT_HAS_NORDIC_NRF_GPIO_ENABLED'', ''DT_HAS_NORDIC_NRF_GPIOTE_ENABLED'',
     ''DT_HAS_NORDIC_NRF_GPREGRET_ENABLED'', ''DT_HAS_NORDIC_NRF_IEEE802154_ENABLED'',
     ''DT_HAS_NORDIC_NRF_MWU_ENABLED'', ''DT_HAS_NORDIC_NRF_NFCT_ENABLED'',
     ''DT_HAS_NORDIC_NRF_PINCTRL_ENABLED'', ''DT_HAS_NORDIC_NRF_POWER_ENABLED'',
     ''DT_HAS_NORDIC_NRF_PPI_ENABLED'', ''DT_HAS_NORDIC_NRF_PWM_ENABLED'', ''DT_HAS_NORDIC_NRF_QSPI_ENABLED'',
     ''DT_HAS_NORDIC_NRF_RADIO_ENABLED'', ''DT_HAS_NORDIC_NRF_RNG_ENABLED'',
     ''DT_HAS_NORDIC_NRF_SAADC_ENABLED'', ''DT_HAS_NORDIC_NRF_SPI_ENABLED'',
     ''DT_HAS_NORDIC_NRF_SPIM_ENABLED'', ''DT_HAS_NORDIC_NRF_SWI_ENABLED'',
     ''DT_HAS_NORDIC_NRF_TEMP_ENABLED'', ''DT_HAS_NORDIC_NRF_TWI_ENABLED'',
     ''DT_HAS_NORDIC_NRF_UARTE_ENABLED'', ''DT_HAS_NORDIC_NRF_UICR_ENABLED'',
     ''DT_HAS_NORDIC_NRF_USBD_ENABLED'', ''DT_HAS_NORDIC_NRF_WDT_ENABLED'',
     ''DT_HAS_NORDIC_NRF52_FLASH_CONTROLLER_ENABLED'', ''DT_HAS_NORDIC_NRF52_HFXO_ENABLED'',
     ''DT_HAS_NORDIC_NRF52X_REGULATOR_HV_ENABLED'', ''DT_HAS_NORDIC_NRF5X_REGULATOR_ENABLED'',
     ''DT_HAS_NORDIC_NRF7002_SPI_ENABLED'', ''DT_HAS_NORDIC_QSPI_NOR_ENABLED'',
     ''DT_HAS_NORDIC_WLAN_ENABLED'', ''DT_HAS_PWM_LEDS_ENABLED'', ''DT_HAS_SOC_NV_FLASH_ENABLED'',
     ''DT_HAS_ZEPHYR_BT_HCI_ENTROPY_ENABLED'', ''DT_HAS_ZEPHYR_RETENTION_ENABLED'']"
  unfolding autoconf_defs
  by (simp only: table_eval cong: table_cong)

lemma heap_request_values: "heap_requests = [''HEAP_MEM_POOL_ADD_SIZE_HOSTAP'', ''HEAP_MEM_POOL_ADD_SIZE_POSIX_THREADS'',
     ''HEAP_MEM_POOL_ADD_SIZE_POSIX_SEMAPHORES'', ''HEAP_MEM_POOL_ADD_SIZE_SOCKETPAIR'']"
  unfolding heap_requests_def autoconf_defs
  by (simp only: table_eval cong: table_cong)

lemma driver_compats: "filter (\<lambda>c. c \<notin> set board_compats) (map fst dt_okay_nodes) =
    [''arm_v7m_nvic'', ''nordic_nrf_ficr'', ''nordic_nrf_uicr'', ''mmio_sram'', ''nordic_nrf_clock'',
     ''nordic_nrf_power'', ''nordic_nrf_gpregret'', ''zephyr_retention'', ''nordic_nrf5x_regulator'',
     ''nordic_nrf52x_regulator_hv'', ''nordic_nrf_radio'', ''nordic_nrf_ieee802154'', ''nordic_bt_hci_sdc'',
     ''nordic_nrf_uarte'', ''nordic_nrf_twi'', ''nordic_nrf_spi'', ''nordic_nrf7002_spi'', ''nordic_wlan'',
     ''nordic_nrf_nfct'', ''nordic_nrf_gpiote'', ''nordic_nrf_saadc'', ''nordic_nrf_temp'',
     ''nordic_nrf_rng'', ''nordic_nrf_ecb'', ''nordic_nrf_ccm'', ''nordic_nrf_wdt'', ''nordic_nrf_egu'',
     ''nordic_nrf_swi'', ''nordic_nrf_pwm'', ''nordic_nrf_acl'', ''nordic_nrf52_flash_controller'',
     ''soc_nv_flash'', ''fixed_partitions'', ''nordic_nrf_ppi'', ''nordic_nrf_mwu'', ''nordic_nrf_usbd'',
     ''nordic_nrf_qspi'', ''nordic_qspi_nor'', ''nordic_nrf_spim'', ''nordic_nrf_gpio'',
     ''arm_cryptocell_310'', ''nordic_nrf_pinctrl'', ''zephyr_bt_hci_entropy'', ''arm_cortex_m4f'',
     ''arm_armv7m_itm'', ''nordic_nrf52_hfxo'', ''gpio_leds'', ''pwm_leds'', ''gpio_keys'',
     ''arduino_header_r3'', ''arduino_uno_adc'']"
  by (simp add: dt_okay_nodes_def board_compats_def)

lemma driver_flags: "map dt_flag (filter (\<lambda>c. c \<notin> set board_compats) (map fst dt_okay_nodes)) =
    [''DT_HAS_ARM_V7M_NVIC_ENABLED'', ''DT_HAS_NORDIC_NRF_FICR_ENABLED'', ''DT_HAS_NORDIC_NRF_UICR_ENABLED'',
     ''DT_HAS_MMIO_SRAM_ENABLED'', ''DT_HAS_NORDIC_NRF_CLOCK_ENABLED'', ''DT_HAS_NORDIC_NRF_POWER_ENABLED'',
     ''DT_HAS_NORDIC_NRF_GPREGRET_ENABLED'', ''DT_HAS_ZEPHYR_RETENTION_ENABLED'',
     ''DT_HAS_NORDIC_NRF5X_REGULATOR_ENABLED'', ''DT_HAS_NORDIC_NRF52X_REGULATOR_HV_ENABLED'',
     ''DT_HAS_NORDIC_NRF_RADIO_ENABLED'', ''DT_HAS_NORDIC_NRF_IEEE802154_ENABLED'',
     ''DT_HAS_NORDIC_BT_HCI_SDC_ENABLED'', ''DT_HAS_NORDIC_NRF_UARTE_ENABLED'',
     ''DT_HAS_NORDIC_NRF_TWI_ENABLED'', ''DT_HAS_NORDIC_NRF_SPI_ENABLED'',
     ''DT_HAS_NORDIC_NRF7002_SPI_ENABLED'', ''DT_HAS_NORDIC_WLAN_ENABLED'',
     ''DT_HAS_NORDIC_NRF_NFCT_ENABLED'', ''DT_HAS_NORDIC_NRF_GPIOTE_ENABLED'',
     ''DT_HAS_NORDIC_NRF_SAADC_ENABLED'', ''DT_HAS_NORDIC_NRF_TEMP_ENABLED'',
     ''DT_HAS_NORDIC_NRF_RNG_ENABLED'', ''DT_HAS_NORDIC_NRF_ECB_ENABLED'', ''DT_HAS_NORDIC_NRF_CCM_ENABLED'',
     ''DT_HAS_NORDIC_NRF_WDT_ENABLED'', ''DT_HAS_NORDIC_NRF_EGU_ENABLED'', ''DT_HAS_NORDIC_NRF_SWI_ENABLED'',
     ''DT_HAS_NORDIC_NRF_PWM_ENABLED'', ''DT_HAS_NORDIC_NRF_ACL_ENABLED'',
     ''DT_HAS_NORDIC_NRF52_FLASH_CONTROLLER_ENABLED'', ''DT_HAS_SOC_NV_FLASH_ENABLED'',
     ''DT_HAS_FIXED_PARTITIONS_ENABLED'', ''DT_HAS_NORDIC_NRF_PPI_ENABLED'',
     ''DT_HAS_NORDIC_NRF_MWU_ENABLED'', ''DT_HAS_NORDIC_NRF_USBD_ENABLED'',
     ''DT_HAS_NORDIC_NRF_QSPI_ENABLED'', ''DT_HAS_NORDIC_QSPI_NOR_ENABLED'',
     ''DT_HAS_NORDIC_NRF_SPIM_ENABLED'', ''DT_HAS_NORDIC_NRF_GPIO_ENABLED'',
     ''DT_HAS_ARM_CRYPTOCELL_310_ENABLED'', ''DT_HAS_NORDIC_NRF_PINCTRL_ENABLED'',
     ''DT_HAS_ZEPHYR_BT_HCI_ENTROPY_ENABLED'', ''DT_HAS_ARM_CORTEX_M4F_ENABLED'',
     ''DT_HAS_ARM_ARMV7M_ITM_ENABLED'', ''DT_HAS_NORDIC_NRF52_HFXO_ENABLED'', ''DT_HAS_GPIO_LEDS_ENABLED'',
     ''DT_HAS_PWM_LEDS_ENABLED'', ''DT_HAS_GPIO_KEYS_ENABLED'', ''DT_HAS_ARDUINO_HEADER_R3_ENABLED'',
     ''DT_HAS_ARDUINO_UNO_ADC_ENABLED'']"
  by (simp only: driver_compats dt_flag_def list.map upper_values append_Cons append_Nil)

section \<open>Properties of the configuration\<close>

text \<open>C36. The configuration reaches the rest of the build unchanged. The absolute symbols of
  \<^verbatim>\<open>configs.c\<close> are the settings of \<^verbatim>\<open>autoconf.h\<close>, in the same order and with the same
  values, where a string setting exports 1; and the options \<^verbatim>\<open>CONFIG_DT_HAS_..._ENABLED\<close> that are
  set are exactly the upper-case names of the compatibles that have an enabled node, but for the five
  compatibles that name the board, the chip and the bus, which no driver binds to.\<close>

theorem configuration_agrees:
  "config_abs_syms = map abs_sym autoconf \<and>
   set (filter (prefix ''DT_HAS_'') (map fst autoconf)) =
   set (map dt_flag (filter (\<lambda>c. c \<notin> set board_compats) (map fst dt_okay_nodes)))"
proof
  show "config_abs_syms = map abs_sym autoconf"
    by (simp add: config_abs_syms_def autoconf_def syms_chunks)
  show "set (filter (prefix ''DT_HAS_'') (map fst autoconf)) =
    set (map dt_flag (filter (\<lambda>c. c \<notin> set board_compats) (map fst dt_okay_nodes)))"
    unfolding flag_values driver_flags by auto
qed

text \<open>C37. The configuration fits the image. Interrupts, TLS contexts, flash and RAM have the sizes that the
  interrupt tables, the client's limit and the partition manager's memory map use; the HTTP thread's
  priority is a preemptible one below the main thread's; its stack is larger than the buffer that a response
  callback puts on it for a body fragment that fills the receive buffer, with the terminator behind it; and
  the kernel heap, although its computed minimum is ignored, is at least the sum of what the components ask
  for.\<close>

theorem configuration_fits_image:
  "setting ''NUM_IRQS'' = Some (KInt (int CONFIG_NUM_IRQS)) \<and>
   setting ''NET_SOCKETS_TLS_MAX_CONTEXTS'' = Some (KInt (int CONFIG_NET_SOCKETS_TLS_MAX_CONTEXTS)) \<and>
   setting ''FLASH_BASE_ADDRESS'' = Some (KHex PM_APP_ADDRESS) \<and>
   setting ''FLASH_LOAD_OFFSET'' = Some (KHex 0) \<and>
   map_option (\<lambda>v. sym_value v * 1024) (setting ''FLASH_SIZE'') = Some (int PM_APP_SIZE) \<and>
   setting ''SRAM_BASE_ADDRESS'' = Some (KHex PM_SRAM_PRIMARY_ADDRESS) \<and>
   setting ''PM_SRAM_BASE'' = Some (KHex PM_SRAM_PRIMARY_ADDRESS) \<and>
   setting ''PM_SRAM_SIZE'' = Some (KHex PM_SRAM_PRIMARY_SIZE) \<and>
   map_option (\<lambda>v. sym_value v * 1024) (setting ''SRAM_SIZE'') = Some (int PM_SRAM_PRIMARY_SIZE) \<and>
   (case (setting ''MAIN_THREAD_PRIORITY'', setting ''NUM_PREEMPT_PRIORITIES'') of
      (Some (KInt main_prio), Some (KInt levels)) \<Rightarrow>
        0 \<le> main_prio \<and> main_prio < http_thread_priority \<and> http_thread_priority < levels
    | _ \<Rightarrow> False) \<and>
   Suc RECV_BUF_SIZE < http_thread_stack_size \<and>
   configured ''HEAP_MEM_POOL_IGNORE_MIN'' \<and>
   (case (setting ''HEAP_MEM_POOL_SIZE'', map setting heap_requests) of
      (Some (KInt avail), asked) \<Rightarrow> sum_list (map (sym_value \<circ> the) asked) \<le> avail | _ \<Rightarrow> False)"
  by (simp add: flash_settings sram_settings thread_settings heap_settings configured_def http_thread_stack_size_def
      http_thread_priority_def heap_request_values CONFIG_NUM_IRQS_def CONFIG_NET_SOCKETS_TLS_MAX_CONTEXTS_def pm_defs
      RECV_BUF_SIZE_def)

lemma build_env_switches: "build_env e \<Longrightarrow> cfg_wifi_ready_lib e \<and> \<not> cfg_nrf7002dk e"
  by (simp add: build_env_def configured_def switch_settings)

lemma build_no_key: "build_env e \<Longrightarrow> exec (qspi_setup e) s = s \<and> result (qspi_setup e) s"
  using build_env_switches by (simp add: qspi_setup_def)

text \<open>C17. How \<^verbatim>\<open>app.c\<close> starts in this build. With the switches of \<^verbatim>\<open>autoconf.h\<close>, whatever the platform
  and the schedule, every association request comes after the driver reported that it is ready; the
  connection loop never runs in the main thread and its thread never falls into the sleep without end; and
  the key parser is left out, so the loop is entered with nothing done before it.\<close>

theorem app_build_order:
  assumes "build_env e" "reachable (\<lambda>x. x = app_boot) (app_step e) x"
  shows "preceded association_request driver_ready (trace (app_fw x)) \<and>
         \<not> main_connects (app_main x) \<and> app_wifi x \<noteq> S_Forever \<and>
         start_app e S_Enter (app_fw x) = Some (S_Loop, app_fw x)"
  using app_order.inv_reachable [OF assms(2)] build_env_switches [OF assms(1)] build_no_key [OF assms(1)]
  by (simp add: app_order_inv_def ready_order_def)

theorem app_build_order_witness:
  "\<exists>x :: app_sys. list_ex association_request (trace (app_fw x)) \<and> preceded association_request driver_ready (trace (app_fw x)) \<and>
     app_wifi x \<noteq> S_Forever"
proof -
  obtain x where x: "reachable (\<lambda>x. x = app_boot) (app_step (good_env [])) x" "list_ex association_request (trace (app_fw x))"
    using app_request_demo by blast
  have "build_env (good_env [])" by (simp add: build_env_def configured_def switch_settings)
  from app_build_order [OF this x(1)] x(2) show ?thesis by blast
qed

end
