(* ===== verification/Crypto_Config.thy ===== *)
theory Crypto_Config
  imports Crypto_Tables Kconfig_Build
begin

text \<open>
  What the cryptography headers amount to in this build: the options in effect, whether each of them
  has what its comment requires, whether the two copies agree, and how the options of the PSA interface follow
  the settings of \<^verbatim>\<open>autoconf.h\<close>.
\<close>

section \<open>Options in effect\<close>

fun in_effect :: "directive \<Rightarrow> bool" where
  "in_effect (Define v) = True"
| "in_effect (Define_If g v) = configured g"
| "in_effect Undefined = False"
| "in_effect Commented = False"

definition effective :: "(string \<times> directive) list \<Rightarrow> string list" where
  "effective tbl = map fst (filter (\<lambda>r. in_effect (snd r)) tbl)"


text \<open>The settings of the PSA interface and its options in effect.\<close>

definition psa_settings :: "string list" where
  "psa_settings = filter (prefix ''PSA_'') (map fst autoconf)"

definition psa_options :: "string list" where
  "psa_options = filter (prefix ''PSA_'') (effective (psa_config_library @ psa_user_config))"

section \<open>Evaluation, piece by piece\<close>


definition psa_names :: "(string \<times> kval) list \<Rightarrow> string list" where
  "psa_names tbl = filter (prefix ''PSA_'') (map fst tbl)"

definition psa_effective :: "(string \<times> directive) list \<Rightarrow> string list" where
  "psa_effective tbl = filter (prefix ''PSA_'') (effective tbl)"

lemma pieces:
  "effective (xs @ ys) = effective xs @ effective ys"
  "psa_names (us @ vs) = psa_names us @ psa_names vs"
  "psa_effective (xs @ ys) = psa_effective xs @ psa_effective ys"
  by (simp_all add: effective_def psa_names_def psa_effective_def)

lemma settings_pieces: "psa_settings = psa_names autoconf"
  "psa_options = psa_effective (psa_config_library @ psa_user_config)"
  by (simp_all add: psa_settings_def psa_options_def psa_names_def psa_effective_def)



lemma psa_table_pieces:
  "effective psa_config_library_0 =
    [''PSA_WANT_AES_KEY_SIZE_128'', ''PSA_WANT_AES_KEY_SIZE_192'', ''PSA_WANT_AES_KEY_SIZE_256'',
     ''PSA_WANT_ALG_CBC_NO_PADDING'', ''PSA_WANT_ALG_CBC_PKCS7'', ''PSA_WANT_ALG_CCM'',
     ''PSA_WANT_ALG_CHACHA20_POLY1305'', ''PSA_WANT_ALG_CMAC'', ''PSA_WANT_ALG_CTR'',
     ''PSA_WANT_ALG_CTR_DRBG'', ''PSA_WANT_ALG_DETERMINISTIC_ECDSA'', ''PSA_WANT_ALG_ECB_NO_PADDING'',
     ''PSA_WANT_ALG_ECDH'', ''PSA_WANT_ALG_ECDSA'', ''PSA_WANT_ALG_GCM'', ''PSA_WANT_ALG_HKDF'',
     ''PSA_WANT_ALG_HMAC'', ''PSA_WANT_ALG_RSA_OAEP'', ''PSA_WANT_ALG_RSA_PKCS1V15_CRYPT'',
     ''PSA_WANT_ALG_RSA_PKCS1V15_SIGN'', ''PSA_WANT_ALG_RSA_PKCS1V15_SIGN_RAW'', ''PSA_WANT_ALG_RSA_PSS'',
     ''PSA_WANT_ALG_RSA_PSS_ANY_SALT'', ''PSA_WANT_ALG_SHA_1'', ''PSA_WANT_ALG_SHA_224'',
     ''PSA_WANT_ALG_SHA_256'', ''PSA_WANT_ALG_SHA_384'', ''PSA_WANT_ALG_SHA_512'',
     ''PSA_WANT_ALG_STREAM_CIPHER'', ''PSA_WANT_ALG_TLS12_ECJPAKE_TO_PMS'', ''PSA_WANT_ALG_TLS12_PRF'',
     ''PSA_WANT_ALG_TLS12_PSK_TO_MS'', ''PSA_WANT_ECC_SECP_R1_256'', ''PSA_WANT_ECC_SECP_R1_384'',
     ''PSA_WANT_GENERATE_RANDOM'', ''PSA_WANT_KEY_TYPE_AES'', ''PSA_WANT_KEY_TYPE_CHACHA20'',
     ''PSA_WANT_KEY_TYPE_ECC_KEY_PAIR_BASIC'', ''PSA_WANT_KEY_TYPE_ECC_KEY_PAIR_DERIVE'',
     ''PSA_WANT_KEY_TYPE_ECC_KEY_PAIR_EXPORT'', ''PSA_WANT_KEY_TYPE_ECC_KEY_PAIR_GENERATE'',
     ''PSA_WANT_KEY_TYPE_ECC_KEY_PAIR_IMPORT'', ''PSA_WANT_KEY_TYPE_ECC_PUBLIC_KEY'',
     ''PSA_WANT_KEY_TYPE_RSA_KEY_PAIR_BASIC'', ''PSA_WANT_KEY_TYPE_RSA_KEY_PAIR_DERIVE'',
     ''PSA_WANT_KEY_TYPE_RSA_KEY_PAIR_EXPORT'', ''PSA_WANT_KEY_TYPE_RSA_KEY_PAIR_GENERATE'',
     ''PSA_WANT_KEY_TYPE_RSA_KEY_PAIR_IMPORT'', ''PSA_WANT_KEY_TYPE_RSA_PUBLIC_KEY'',
     ''PSA_WANT_RSA_KEY_SIZE_2048'']"
  "effective psa_config_library_1 =
    [''PSA_CRYPTO_ADJUST_KEYPAIR_TYPES_H'']"
  "effective psa_user_config_0 =
    [''PSA_CORE_OBERON'', ''PSA_MAX_RSA_KEY_BITS'', ''PSA_NEED_CC3XX_CTR_DRBG_DRIVER'',
     ''PSA_NEED_OBERON_AEAD_DRIVER'', ''PSA_NEED_OBERON_ANY_RSA_KEY_SIZE'',
     ''PSA_NEED_OBERON_ASYMMETRIC_ENCRYPTION_DRIVER'', ''PSA_NEED_OBERON_ASYMMETRIC_SIGNATURE_DRIVER'',
     ''PSA_NEED_OBERON_CBC_NO_PADDING_AES'', ''PSA_NEED_OBERON_CBC_PKCS7_AES'', ''PSA_NEED_OBERON_CCM_AES'',
     ''PSA_NEED_OBERON_CHACHA20_POLY1305'', ''PSA_NEED_OBERON_CIPHER_DRIVER'', ''PSA_NEED_OBERON_CMAC'',
     ''PSA_NEED_OBERON_CTR_AES'', ''PSA_NEED_OBERON_ECB_NO_PADDING_AES'', ''PSA_NEED_OBERON_ECDH'',
     ''PSA_NEED_OBERON_ECDH_SECP_R1_256'', ''PSA_NEED_OBERON_ECDH_SECP_R1_384'',
     ''PSA_NEED_OBERON_ECDSA_DETERMINISTIC'', ''PSA_NEED_OBERON_ECDSA_RANDOMIZED'',
     ''PSA_NEED_OBERON_ECDSA_SECP_R1_256'', ''PSA_NEED_OBERON_ECDSA_SECP_R1_384'',
     ''PSA_NEED_OBERON_ECDSA_SIGN'', ''PSA_NEED_OBERON_ECDSA_VERIFY'', ''PSA_NEED_OBERON_GCM_AES'',
     ''PSA_NEED_OBERON_HASH_DRIVER'', ''PSA_NEED_OBERON_HKDF'', ''PSA_NEED_OBERON_HMAC'',
     ''PSA_NEED_OBERON_KEY_AGREEMENT_DRIVER'', ''PSA_NEED_OBERON_KEY_DERIVATION_DRIVER'',
     ''PSA_NEED_OBERON_KEY_MANAGEMENT_DRIVER'', ''PSA_NEED_OBERON_KEY_TYPE_ECC_KEY_PAIR_DERIVE'',
     ''PSA_NEED_OBERON_KEY_TYPE_ECC_KEY_PAIR_DERIVE_SECP'',
     ''PSA_NEED_OBERON_KEY_TYPE_ECC_KEY_PAIR_DERIVE_SECP_R1_256'',
     ''PSA_NEED_OBERON_KEY_TYPE_ECC_KEY_PAIR_DERIVE_SECP_R1_384'',
     ''PSA_NEED_OBERON_KEY_TYPE_ECC_KEY_PAIR_EXPORT'', ''PSA_NEED_OBERON_KEY_TYPE_ECC_KEY_PAIR_EXPORT_SECP'',
     ''PSA_NEED_OBERON_KEY_TYPE_ECC_KEY_PAIR_EXPORT_SECP_R1_256'',
     ''PSA_NEED_OBERON_KEY_TYPE_ECC_KEY_PAIR_EXPORT_SECP_R1_384'',
     ''PSA_NEED_OBERON_KEY_TYPE_ECC_KEY_PAIR_GENERATE'',
     ''PSA_NEED_OBERON_KEY_TYPE_ECC_KEY_PAIR_GENERATE_SECP'',
     ''PSA_NEED_OBERON_KEY_TYPE_ECC_KEY_PAIR_GENERATE_SECP_R1_256'',
     ''PSA_NEED_OBERON_KEY_TYPE_ECC_KEY_PAIR_GENERATE_SECP_R1_384'',
     ''PSA_NEED_OBERON_KEY_TYPE_ECC_KEY_PAIR_IMPORT'', ''PSA_NEED_OBERON_KEY_TYPE_ECC_KEY_PAIR_IMPORT_SECP'',
     ''PSA_NEED_OBERON_KEY_TYPE_ECC_KEY_PAIR_IMPORT_SECP_R1_256'',
     ''PSA_NEED_OBERON_KEY_TYPE_ECC_KEY_PAIR_IMPORT_SECP_R1_384'', ''PSA_NEED_OBERON_KEY_TYPE_ECC_PUBLIC_KEY'',
     ''PSA_NEED_OBERON_KEY_TYPE_ECC_PUBLIC_KEY_SECP'', ''PSA_NEED_OBERON_KEY_TYPE_ECC_PUBLIC_KEY_SECP_R1_256'',
     ''PSA_NEED_OBERON_KEY_TYPE_ECC_PUBLIC_KEY_SECP_R1_384'', ''PSA_NEED_OBERON_KEY_TYPE_RSA_KEY_PAIR_EXPORT'',
     ''PSA_NEED_OBERON_KEY_TYPE_RSA_KEY_PAIR_IMPORT'', ''PSA_NEED_OBERON_KEY_TYPE_RSA_PUBLIC_KEY'']"
  "effective psa_user_config_1 =
    [''PSA_NEED_OBERON_MAC_DRIVER'', ''PSA_NEED_OBERON_PBKDF2_AES_CMAC_PRF_128'',
     ''PSA_NEED_OBERON_RSA_ANY_CRYPT'', ''PSA_NEED_OBERON_RSA_ANY_SIGN'', ''PSA_NEED_OBERON_RSA_ANY_VERIFY'',
     ''PSA_NEED_OBERON_RSA_KEY_SIZE_2048'', ''PSA_NEED_OBERON_RSA_OAEP'',
     ''PSA_NEED_OBERON_RSA_PKCS1V15_CRYPT'', ''PSA_NEED_OBERON_RSA_PKCS1V15_SIGN'',
     ''PSA_NEED_OBERON_RSA_PSS'', ''PSA_NEED_OBERON_SHA_1'', ''PSA_NEED_OBERON_SHA_224'',
     ''PSA_NEED_OBERON_SHA_256'', ''PSA_NEED_OBERON_SHA_384'', ''PSA_NEED_OBERON_SHA_512'',
     ''PSA_NEED_OBERON_STREAM_CIPHER_CHACHA20'', ''PSA_NEED_OBERON_TLS12_ECJPAKE_TO_PMS'',
     ''PSA_NEED_OBERON_TLS12_PRF'', ''PSA_NEED_OBERON_TLS12_PSK_TO_MS'']"
  "effective psa_user_config_2 =
    []"
  "effective psa_user_config_3 =
    [''MBEDTLS_PSA_CRYPTO_C'', ''MBEDTLS_PSA_CRYPTO_DRIVERS'', ''MBEDTLS_PSA_CRYPTO_CLIENT'',
     ''MBEDTLS_PSA_CRYPTO_EXTERNAL_RNG'', ''MBEDTLS_PSA_KEY_SLOT_COUNT'']"
  unfolding effective_def psa_config_library_defs psa_user_config_defs
  by (simp_all only: table_eval in_effect.simps list.map cong: table_cong)

lemma psa_effective_pieces:
  "psa_effective psa_config_library_0 =
    [''PSA_WANT_AES_KEY_SIZE_128'', ''PSA_WANT_AES_KEY_SIZE_192'', ''PSA_WANT_AES_KEY_SIZE_256'',
     ''PSA_WANT_ALG_CBC_NO_PADDING'', ''PSA_WANT_ALG_CBC_PKCS7'', ''PSA_WANT_ALG_CCM'',
     ''PSA_WANT_ALG_CHACHA20_POLY1305'', ''PSA_WANT_ALG_CMAC'', ''PSA_WANT_ALG_CTR'',
     ''PSA_WANT_ALG_CTR_DRBG'', ''PSA_WANT_ALG_DETERMINISTIC_ECDSA'', ''PSA_WANT_ALG_ECB_NO_PADDING'',
     ''PSA_WANT_ALG_ECDH'', ''PSA_WANT_ALG_ECDSA'', ''PSA_WANT_ALG_GCM'', ''PSA_WANT_ALG_HKDF'',
     ''PSA_WANT_ALG_HMAC'', ''PSA_WANT_ALG_RSA_OAEP'', ''PSA_WANT_ALG_RSA_PKCS1V15_CRYPT'',
     ''PSA_WANT_ALG_RSA_PKCS1V15_SIGN'', ''PSA_WANT_ALG_RSA_PKCS1V15_SIGN_RAW'', ''PSA_WANT_ALG_RSA_PSS'',
     ''PSA_WANT_ALG_RSA_PSS_ANY_SALT'', ''PSA_WANT_ALG_SHA_1'', ''PSA_WANT_ALG_SHA_224'',
     ''PSA_WANT_ALG_SHA_256'', ''PSA_WANT_ALG_SHA_384'', ''PSA_WANT_ALG_SHA_512'',
     ''PSA_WANT_ALG_STREAM_CIPHER'', ''PSA_WANT_ALG_TLS12_ECJPAKE_TO_PMS'', ''PSA_WANT_ALG_TLS12_PRF'',
     ''PSA_WANT_ALG_TLS12_PSK_TO_MS'', ''PSA_WANT_ECC_SECP_R1_256'', ''PSA_WANT_ECC_SECP_R1_384'',
     ''PSA_WANT_GENERATE_RANDOM'', ''PSA_WANT_KEY_TYPE_AES'', ''PSA_WANT_KEY_TYPE_CHACHA20'',
     ''PSA_WANT_KEY_TYPE_ECC_KEY_PAIR_BASIC'', ''PSA_WANT_KEY_TYPE_ECC_KEY_PAIR_DERIVE'',
     ''PSA_WANT_KEY_TYPE_ECC_KEY_PAIR_EXPORT'', ''PSA_WANT_KEY_TYPE_ECC_KEY_PAIR_GENERATE'',
     ''PSA_WANT_KEY_TYPE_ECC_KEY_PAIR_IMPORT'', ''PSA_WANT_KEY_TYPE_ECC_PUBLIC_KEY'',
     ''PSA_WANT_KEY_TYPE_RSA_KEY_PAIR_BASIC'', ''PSA_WANT_KEY_TYPE_RSA_KEY_PAIR_DERIVE'',
     ''PSA_WANT_KEY_TYPE_RSA_KEY_PAIR_EXPORT'', ''PSA_WANT_KEY_TYPE_RSA_KEY_PAIR_GENERATE'',
     ''PSA_WANT_KEY_TYPE_RSA_KEY_PAIR_IMPORT'', ''PSA_WANT_KEY_TYPE_RSA_PUBLIC_KEY'',
     ''PSA_WANT_RSA_KEY_SIZE_2048'']"
  "psa_effective psa_config_library_1 =
    [''PSA_CRYPTO_ADJUST_KEYPAIR_TYPES_H'']"
  "psa_effective psa_user_config_0 =
    [''PSA_CORE_OBERON'', ''PSA_MAX_RSA_KEY_BITS'', ''PSA_NEED_CC3XX_CTR_DRBG_DRIVER'',
     ''PSA_NEED_OBERON_AEAD_DRIVER'', ''PSA_NEED_OBERON_ANY_RSA_KEY_SIZE'',
     ''PSA_NEED_OBERON_ASYMMETRIC_ENCRYPTION_DRIVER'', ''PSA_NEED_OBERON_ASYMMETRIC_SIGNATURE_DRIVER'',
     ''PSA_NEED_OBERON_CBC_NO_PADDING_AES'', ''PSA_NEED_OBERON_CBC_PKCS7_AES'', ''PSA_NEED_OBERON_CCM_AES'',
     ''PSA_NEED_OBERON_CHACHA20_POLY1305'', ''PSA_NEED_OBERON_CIPHER_DRIVER'', ''PSA_NEED_OBERON_CMAC'',
     ''PSA_NEED_OBERON_CTR_AES'', ''PSA_NEED_OBERON_ECB_NO_PADDING_AES'', ''PSA_NEED_OBERON_ECDH'',
     ''PSA_NEED_OBERON_ECDH_SECP_R1_256'', ''PSA_NEED_OBERON_ECDH_SECP_R1_384'',
     ''PSA_NEED_OBERON_ECDSA_DETERMINISTIC'', ''PSA_NEED_OBERON_ECDSA_RANDOMIZED'',
     ''PSA_NEED_OBERON_ECDSA_SECP_R1_256'', ''PSA_NEED_OBERON_ECDSA_SECP_R1_384'',
     ''PSA_NEED_OBERON_ECDSA_SIGN'', ''PSA_NEED_OBERON_ECDSA_VERIFY'', ''PSA_NEED_OBERON_GCM_AES'',
     ''PSA_NEED_OBERON_HASH_DRIVER'', ''PSA_NEED_OBERON_HKDF'', ''PSA_NEED_OBERON_HMAC'',
     ''PSA_NEED_OBERON_KEY_AGREEMENT_DRIVER'', ''PSA_NEED_OBERON_KEY_DERIVATION_DRIVER'',
     ''PSA_NEED_OBERON_KEY_MANAGEMENT_DRIVER'', ''PSA_NEED_OBERON_KEY_TYPE_ECC_KEY_PAIR_DERIVE'',
     ''PSA_NEED_OBERON_KEY_TYPE_ECC_KEY_PAIR_DERIVE_SECP'',
     ''PSA_NEED_OBERON_KEY_TYPE_ECC_KEY_PAIR_DERIVE_SECP_R1_256'',
     ''PSA_NEED_OBERON_KEY_TYPE_ECC_KEY_PAIR_DERIVE_SECP_R1_384'',
     ''PSA_NEED_OBERON_KEY_TYPE_ECC_KEY_PAIR_EXPORT'', ''PSA_NEED_OBERON_KEY_TYPE_ECC_KEY_PAIR_EXPORT_SECP'',
     ''PSA_NEED_OBERON_KEY_TYPE_ECC_KEY_PAIR_EXPORT_SECP_R1_256'',
     ''PSA_NEED_OBERON_KEY_TYPE_ECC_KEY_PAIR_EXPORT_SECP_R1_384'',
     ''PSA_NEED_OBERON_KEY_TYPE_ECC_KEY_PAIR_GENERATE'',
     ''PSA_NEED_OBERON_KEY_TYPE_ECC_KEY_PAIR_GENERATE_SECP'',
     ''PSA_NEED_OBERON_KEY_TYPE_ECC_KEY_PAIR_GENERATE_SECP_R1_256'',
     ''PSA_NEED_OBERON_KEY_TYPE_ECC_KEY_PAIR_GENERATE_SECP_R1_384'',
     ''PSA_NEED_OBERON_KEY_TYPE_ECC_KEY_PAIR_IMPORT'', ''PSA_NEED_OBERON_KEY_TYPE_ECC_KEY_PAIR_IMPORT_SECP'',
     ''PSA_NEED_OBERON_KEY_TYPE_ECC_KEY_PAIR_IMPORT_SECP_R1_256'',
     ''PSA_NEED_OBERON_KEY_TYPE_ECC_KEY_PAIR_IMPORT_SECP_R1_384'', ''PSA_NEED_OBERON_KEY_TYPE_ECC_PUBLIC_KEY'',
     ''PSA_NEED_OBERON_KEY_TYPE_ECC_PUBLIC_KEY_SECP'', ''PSA_NEED_OBERON_KEY_TYPE_ECC_PUBLIC_KEY_SECP_R1_256'',
     ''PSA_NEED_OBERON_KEY_TYPE_ECC_PUBLIC_KEY_SECP_R1_384'', ''PSA_NEED_OBERON_KEY_TYPE_RSA_KEY_PAIR_EXPORT'',
     ''PSA_NEED_OBERON_KEY_TYPE_RSA_KEY_PAIR_IMPORT'', ''PSA_NEED_OBERON_KEY_TYPE_RSA_PUBLIC_KEY'']"
  "psa_effective psa_user_config_1 =
    [''PSA_NEED_OBERON_MAC_DRIVER'', ''PSA_NEED_OBERON_PBKDF2_AES_CMAC_PRF_128'',
     ''PSA_NEED_OBERON_RSA_ANY_CRYPT'', ''PSA_NEED_OBERON_RSA_ANY_SIGN'', ''PSA_NEED_OBERON_RSA_ANY_VERIFY'',
     ''PSA_NEED_OBERON_RSA_KEY_SIZE_2048'', ''PSA_NEED_OBERON_RSA_OAEP'',
     ''PSA_NEED_OBERON_RSA_PKCS1V15_CRYPT'', ''PSA_NEED_OBERON_RSA_PKCS1V15_SIGN'',
     ''PSA_NEED_OBERON_RSA_PSS'', ''PSA_NEED_OBERON_SHA_1'', ''PSA_NEED_OBERON_SHA_224'',
     ''PSA_NEED_OBERON_SHA_256'', ''PSA_NEED_OBERON_SHA_384'', ''PSA_NEED_OBERON_SHA_512'',
     ''PSA_NEED_OBERON_STREAM_CIPHER_CHACHA20'', ''PSA_NEED_OBERON_TLS12_ECJPAKE_TO_PMS'',
     ''PSA_NEED_OBERON_TLS12_PRF'', ''PSA_NEED_OBERON_TLS12_PSK_TO_MS'']"
  "psa_effective psa_user_config_2 =
    []"
  "psa_effective psa_user_config_3 =
    []"
  unfolding psa_effective_def psa_table_pieces by (simp_all only: table_eval cong: table_cong)

lemma psa_pieces:
  "psa_names autoconf_0 =
    []"
  "psa_names autoconf_1 =
    []"
  "psa_names autoconf_2 =
    []"
  "psa_names autoconf_3 =
    []"
  "psa_names autoconf_4 =
    [''PSA_HAS_AEAD_SUPPORT'', ''PSA_HAS_ASYM_ENCRYPT_SUPPORT'', ''PSA_HAS_ASYM_SIGN_SUPPORT'',
     ''PSA_HAS_CIPHER_SUPPORT'', ''PSA_HAS_HASH_SUPPORT'', ''PSA_HAS_KEY_AGREEMENT'',
     ''PSA_HAS_KEY_DERIVATION'', ''PSA_HAS_KEY_SUPPORT'', ''PSA_HAS_MAC_SUPPORT'',
     ''PSA_WANT_ALG_RSA_PKCS1V15_SIGN_RAW'', ''PSA_WANT_ALG_RSA_PSS_ANY_SALT'',
     ''PSA_WANT_ALG_ECB_NO_PADDING'', ''PSA_WANT_ALG_CHACHA20'', ''PSA_WANT_GENERATE_RANDOM'']"
  "psa_names autoconf_5 =
    [''PSA_CORE_OBERON'', ''PSA_CRYPTO_DRIVER_OBERON'', ''PSA_WANT_ALG_CTR_DRBG'',
     ''PSA_USE_CTR_DRBG_DRIVER'', ''PSA_USE_CC3XX_CTR_DRBG_DRIVER'', ''PSA_WANT_AES_KEY_SIZE_128'',
     ''PSA_WANT_AES_KEY_SIZE_192'', ''PSA_WANT_AES_KEY_SIZE_256'', ''PSA_WANT_RSA_KEY_SIZE_2048'',
     ''PSA_MAX_RSA_KEY_BITS'', ''PSA_ACCEL_GENERATE_RANDOM'', ''PSA_NEED_CC3XX_CTR_DRBG_DRIVER'',
     ''PSA_NEED_OBERON_CCM_AES'', ''PSA_NEED_OBERON_GCM_AES'', ''PSA_NEED_OBERON_CHACHA20_POLY1305'']"
  "psa_names autoconf_6 =
    [''PSA_NEED_OBERON_AEAD_DRIVER'', ''PSA_NEED_OBERON_CTR_AES'', ''PSA_NEED_OBERON_CBC_NO_PADDING_AES'',
     ''PSA_NEED_OBERON_CBC_PKCS7_AES'', ''PSA_NEED_OBERON_ECB_NO_PADDING_AES'',
     ''PSA_NEED_OBERON_STREAM_CIPHER_CHACHA20'', ''PSA_NEED_OBERON_CIPHER_DRIVER'',
     ''PSA_NEED_OBERON_ECDH_SECP_R1_256'', ''PSA_NEED_OBERON_ECDH_SECP_R1_384'', ''PSA_NEED_OBERON_ECDH'',
     ''PSA_NEED_OBERON_KEY_AGREEMENT_DRIVER'', ''PSA_NEED_OBERON_ECDSA_SECP_R1_256'',
     ''PSA_NEED_OBERON_ECDSA_SECP_R1_384'', ''PSA_NEED_OBERON_ECDSA_VERIFY'', ''PSA_NEED_OBERON_ECDSA_SIGN'',
     ''PSA_NEED_OBERON_ECDSA_DETERMINISTIC'', ''PSA_NEED_OBERON_ECDSA_RANDOMIZED'', ''PSA_NEED_OBERON_SHA_1'',
     ''PSA_NEED_OBERON_SHA_224'', ''PSA_NEED_OBERON_SHA_256'', ''PSA_NEED_OBERON_SHA_384'',
     ''PSA_NEED_OBERON_SHA_512'', ''PSA_NEED_OBERON_HASH_DRIVER'',
     ''PSA_NEED_OBERON_KEY_TYPE_ECC_PUBLIC_KEY_SECP_R1_256'',
     ''PSA_NEED_OBERON_KEY_TYPE_ECC_KEY_PAIR_IMPORT_SECP_R1_256'',
     ''PSA_NEED_OBERON_KEY_TYPE_ECC_KEY_PAIR_EXPORT_SECP_R1_256'',
     ''PSA_NEED_OBERON_KEY_TYPE_ECC_KEY_PAIR_GENERATE_SECP_R1_256'',
     ''PSA_NEED_OBERON_KEY_TYPE_ECC_KEY_PAIR_DERIVE_SECP_R1_256'',
     ''PSA_NEED_OBERON_KEY_TYPE_ECC_PUBLIC_KEY_SECP_R1_384'',
     ''PSA_NEED_OBERON_KEY_TYPE_ECC_KEY_PAIR_IMPORT_SECP_R1_384'',
     ''PSA_NEED_OBERON_KEY_TYPE_ECC_KEY_PAIR_EXPORT_SECP_R1_384'',
     ''PSA_NEED_OBERON_KEY_TYPE_ECC_KEY_PAIR_GENERATE_SECP_R1_384'',
     ''PSA_NEED_OBERON_KEY_TYPE_ECC_KEY_PAIR_DERIVE_SECP_R1_384'',
     ''PSA_NEED_OBERON_KEY_TYPE_ECC_PUBLIC_KEY_SECP'', ''PSA_NEED_OBERON_KEY_TYPE_ECC_KEY_PAIR_IMPORT_SECP'',
     ''PSA_NEED_OBERON_KEY_TYPE_ECC_KEY_PAIR_EXPORT_SECP'',
     ''PSA_NEED_OBERON_KEY_TYPE_ECC_KEY_PAIR_GENERATE_SECP'',
     ''PSA_NEED_OBERON_KEY_TYPE_ECC_KEY_PAIR_DERIVE_SECP'', ''PSA_NEED_OBERON_KEY_TYPE_ECC_PUBLIC_KEY'',
     ''PSA_NEED_OBERON_KEY_TYPE_ECC_KEY_PAIR_IMPORT'', ''PSA_NEED_OBERON_KEY_TYPE_ECC_KEY_PAIR_EXPORT'',
     ''PSA_NEED_OBERON_KEY_TYPE_ECC_KEY_PAIR_GENERATE'', ''PSA_NEED_OBERON_KEY_TYPE_ECC_KEY_PAIR_DERIVE'',
     ''PSA_NEED_OBERON_KEY_TYPE_RSA_PUBLIC_KEY'', ''PSA_NEED_OBERON_KEY_TYPE_RSA_KEY_PAIR_IMPORT'']"
  "psa_names autoconf_7 =
    [''PSA_NEED_OBERON_KEY_TYPE_RSA_KEY_PAIR_EXPORT'', ''PSA_NEED_OBERON_KEY_MANAGEMENT_DRIVER'',
     ''PSA_NEED_OBERON_HMAC'', ''PSA_NEED_OBERON_CMAC'', ''PSA_NEED_OBERON_MAC_DRIVER'',
     ''PSA_NEED_OBERON_HKDF'', ''PSA_NEED_OBERON_TLS12_PRF'', ''PSA_NEED_OBERON_TLS12_PSK_TO_MS'',
     ''PSA_NEED_OBERON_PBKDF2_AES_CMAC_PRF_128'', ''PSA_NEED_OBERON_TLS12_ECJPAKE_TO_PMS'',
     ''PSA_NEED_OBERON_KEY_DERIVATION_DRIVER'', ''PSA_NEED_OBERON_RSA_KEY_SIZE_2048'',
     ''PSA_NEED_OBERON_ANY_RSA_KEY_SIZE'', ''PSA_NEED_OBERON_RSA_PSS'', ''PSA_NEED_OBERON_RSA_PKCS1V15_SIGN'',
     ''PSA_NEED_OBERON_RSA_ANY_VERIFY'', ''PSA_NEED_OBERON_RSA_ANY_SIGN'',
     ''PSA_NEED_OBERON_RSA_PKCS1V15_CRYPT'', ''PSA_NEED_OBERON_RSA_OAEP'', ''PSA_NEED_OBERON_RSA_ANY_CRYPT'',
     ''PSA_NEED_OBERON_ASYMMETRIC_ENCRYPTION_DRIVER'', ''PSA_NEED_OBERON_ASYMMETRIC_SIGNATURE_DRIVER'',
     ''PSA_CRYPTO_SYS_INIT'']"
  "psa_names autoconf_8 =
    []"
  "psa_names autoconf_9 =
    [''PSA_CRYPTO_CLIENT'', ''PSA_WANT_ALG_CBC_NO_PADDING'', ''PSA_WANT_ALG_CBC_PKCS7'']"
  "psa_names autoconf_10 =
    [''PSA_WANT_ALG_CCM'', ''PSA_WANT_ALG_CMAC'', ''PSA_WANT_ALG_CHACHA20_POLY1305'', ''PSA_WANT_ALG_CTR'',
     ''PSA_WANT_ALG_DETERMINISTIC_ECDSA'', ''PSA_WANT_ALG_ECDH'', ''PSA_WANT_ALG_ECDSA'', ''PSA_WANT_ALG_GCM'',
     ''PSA_WANT_ALG_HKDF'', ''PSA_WANT_ALG_HMAC'', ''PSA_WANT_ALG_RSA_OAEP'',
     ''PSA_WANT_ALG_RSA_PKCS1V15_CRYPT'', ''PSA_WANT_ALG_RSA_PKCS1V15_SIGN'', ''PSA_WANT_ALG_RSA_PSS'',
     ''PSA_WANT_ALG_SHA_1'', ''PSA_WANT_ALG_SHA_224'', ''PSA_WANT_ALG_SHA_256'', ''PSA_WANT_ALG_SHA_384'',
     ''PSA_WANT_ALG_SHA_512'', ''PSA_WANT_ALG_STREAM_CIPHER'', ''PSA_WANT_ALG_TLS12_PRF'',
     ''PSA_WANT_ALG_TLS12_PSK_TO_MS'', ''PSA_WANT_ALG_TLS12_ECJPAKE_TO_PMS'', ''PSA_WANT_ECC_SECP_R1_256'',
     ''PSA_WANT_ECC_SECP_R1_384'', ''PSA_WANT_KEY_TYPE_AES'', ''PSA_WANT_KEY_TYPE_CHACHA20'',
     ''PSA_WANT_KEY_TYPE_ECC_PUBLIC_KEY'', ''PSA_WANT_KEY_TYPE_RSA_PUBLIC_KEY'',
     ''PSA_WANT_KEY_TYPE_ECC_KEY_PAIR_IMPORT'', ''PSA_WANT_KEY_TYPE_ECC_KEY_PAIR_EXPORT'',
     ''PSA_WANT_KEY_TYPE_ECC_KEY_PAIR_GENERATE'', ''PSA_WANT_KEY_TYPE_ECC_KEY_PAIR_DERIVE'',
     ''PSA_WANT_KEY_TYPE_RSA_KEY_PAIR_IMPORT'', ''PSA_WANT_KEY_TYPE_RSA_KEY_PAIR_EXPORT'',
     ''PSA_WANT_KEY_TYPE_RSA_KEY_PAIR_GENERATE'', ''PSA_WANT_KEY_TYPE_RSA_KEY_PAIR_DERIVE'',
     ''PSA_WANT_KEY_TYPE_ECC_KEY_PAIR_BASIC'', ''PSA_WANT_KEY_TYPE_RSA_KEY_PAIR_BASIC'']"
  "psa_names autoconf_11 =
    []"
  "psa_names autoconf_12 =
    []"
  "psa_names autoconf_13 =
    []"
  "psa_names autoconf_14 =
    []"
  "psa_names autoconf_15 =
    []"
  "psa_names autoconf_16 =
    []"
  "psa_names autoconf_17 =
    []"
  "psa_names autoconf_18 =
    []"
  "psa_names autoconf_19 =
    []"
  "psa_names autoconf_20 =
    []"
  "psa_names autoconf_21 =
    []"
  "psa_names autoconf_22 =
    []"
  "psa_names autoconf_23 =
    []"
  "psa_names autoconf_24 =
    []"
  "psa_names autoconf_25 =
    []"
  "psa_names autoconf_26 =
    []"
  "psa_names autoconf_27 =
    []"
  "psa_names autoconf_28 =
    []"
  "psa_names autoconf_29 =
    []"
  unfolding psa_names_def autoconf_defs by (simp_all only: table_eval cong: table_cong)

lemma mem_pieces: "str_mem x (effective (xs @ ys)) = (if str_mem x (effective xs) then True else str_mem x (effective ys))"
  "str_mem x (psa_names (us @ vs)) = (if str_mem x (psa_names us) then True else str_mem x (psa_names vs))"
  "str_mem x (psa_effective (xs @ ys)) = (if str_mem x (psa_effective xs) then True else str_mem x (psa_effective ys))"
  by (simp_all add: pieces str_mem_append)

lemmas psa_mem =
  arg_cong [OF psa_config_library_def, of "\<lambda>tbl. str_mem (c # cs) (psa_effective tbl)" for c cs]
  arg_cong [OF psa_user_config_def, of "\<lambda>tbl. str_mem (c # cs) (psa_effective tbl)" for c cs]
  psa_effective_pieces [THEN arg_cong, of "str_mem (c # cs)" for c cs]
lemmas psa_setting_mem =
  arg_cong [OF autoconf_def, of "\<lambda>tbl. str_mem (c # cs) (psa_names tbl)" for c cs]
  psa_pieces [THEN arg_cong, of "str_mem (c # cs)" for c cs]

section \<open>Requirements\<close>



section \<open>The two copies\<close>





section \<open>Options and settings of the PSA interface\<close>

lemma psa_unset: "filter (\<lambda>opt. opt \<notin> set psa_settings) psa_options = [''PSA_CRYPTO_ADJUST_KEYPAIR_TYPES_H'']"
  unfolding settings_pieces psa_config_library_def psa_user_config_def pieces psa_effective_pieces str_mem_def [symmetric]
  by (simp only: table_eval mem_pieces psa_setting_mem cong: table_cong)

lemma psa_unused: "filter (\<lambda>opt. opt \<notin> set psa_options) psa_settings =
    [''PSA_HAS_AEAD_SUPPORT'', ''PSA_HAS_ASYM_ENCRYPT_SUPPORT'', ''PSA_HAS_ASYM_SIGN_SUPPORT'',
     ''PSA_HAS_CIPHER_SUPPORT'', ''PSA_HAS_HASH_SUPPORT'', ''PSA_HAS_KEY_AGREEMENT'',
     ''PSA_HAS_KEY_DERIVATION'', ''PSA_HAS_KEY_SUPPORT'', ''PSA_HAS_MAC_SUPPORT'', ''PSA_WANT_ALG_CHACHA20'',
     ''PSA_CRYPTO_DRIVER_OBERON'', ''PSA_USE_CTR_DRBG_DRIVER'', ''PSA_USE_CC3XX_CTR_DRBG_DRIVER'',
     ''PSA_ACCEL_GENERATE_RANDOM'', ''PSA_CRYPTO_SYS_INIT'', ''PSA_CRYPTO_CLIENT'']"
  unfolding settings_pieces autoconf_def pieces psa_pieces str_mem_def [symmetric]
  by (simp only: table_eval mem_pieces psa_mem cong: table_cong)

text \<open>A \<^verbatim>\<open>PSA_WANT_\<close> or \<^verbatim>\<open>PSA_NEED_\<close> option is in effect exactly when the configuration sets it, but for
  the ChaCha20 algorithm, which is set and is no option of the header.\<close>

definition psa_request :: "string \<Rightarrow> bool" where
  "psa_request n \<longleftrightarrow> prefix ''PSA_WANT_'' n \<or> prefix ''PSA_NEED_'' n"

lemma set_filter_differ:
  assumes "filter P (filter (\<lambda>x. x \<notin> set ys) xs) = [c]" "filter P (filter (\<lambda>y. y \<notin> set xs) ys) = []"
  shows "set (filter P xs) = insert c (set (filter P ys))"
proof -
  have c: "{x \<in> set xs. P x \<and> x \<notin> set ys} = {c}" using arg_cong [OF assms(1), of set] by auto
  moreover have "{y \<in> set ys. P y \<and> y \<notin> set xs} = {}" using arg_cong [OF assms(2), of set] by auto
  ultimately show ?thesis by auto
qed

lemma psa_follows_settings:
  "set (filter psa_request psa_settings) = insert ''PSA_WANT_ALG_CHACHA20'' (set (filter psa_request psa_options))"
  by (rule set_filter_differ) (simp_all add: psa_unset psa_unused psa_request_def)

section \<open>Properties\<close>


end
