(* ===== verification/Spec2Isabelle.thy ===== *)
theory Spec2Isabelle
  imports Fine_Reduction Image_Limit App_System App_Bk Http_Bk Syscall_Outside Kernel_Objects Devicetree_Pins
    Devicetree_Property_Facts Crypto_Config
begin

text \<open>
  A verification of the HopeWatch nRF7002 firmware (\<^verbatim>\<open>src/src\<close>): a Wi-Fi station that waits for its
  driver, associates, gets an address by DHCP and then posts patient data to an HTTPS server with
  a bearer token it obtained by logging in.

  \<^bold>\<open>The program.\<close> \<^verbatim>\<open>CMakeLists.txt\<close> builds \<^verbatim>\<open>main.c\<close>, \<^verbatim>\<open>wifi/wifi_sta.c\<close> and
  \<^verbatim>\<open>wifi/http_app.c\<close>. \<^verbatim>\<open>main\<close> registers the management callbacks (\<^verbatim>\<open>wifi_sta_init\<close>) and then
  only reports; the Wi-Fi thread (\<^verbatim>\<open>wifi_thread_entry\<close>) waits for the readiness library, requests
  the association, polls \<^verbatim>\<open>context.connect_result\<close> and, when associated, becomes the HTTP client
  (\<^verbatim>\<open>start_http_thread\<close>). The management thread calls the event handlers, which keep
  \<^verbatim>\<open>context\<close> and \<^verbatim>\<open>got_ip\<close>; \<^verbatim>\<open>got_ip\<close> is what the client and \<^verbatim>\<open>main\<close> read. Beside the
  built files lie \<^verbatim>\<open>http_app.c\<close> (the same text as \<^verbatim>\<open>wifi/http_app.c\<close>), \<^verbatim>\<open>app.c\<close> (an earlier
  station that starts the client in a thread of its own) and \<^verbatim>\<open>app_bk.c\<close> (a single-file
  predecessor of both); they are modelled too. \<^verbatim>\<open>nrf52dk\<close> is the committed output of one build, for
  the \<^verbatim>\<open>nrf52840dk\<close>: the stubs through which the firmware enters the kernel, the system-call table, the
  device tree, the interrupt tables, the memory map and the configuration. That build compiled
  \<^verbatim>\<open>app.c\<close> and \<^verbatim>\<open>http_app.c\<close> (its \<^verbatim>\<open>build.ninja\<close> says so), not the files that \<^verbatim>\<open>CMakeLists.txt\<close> lists
  now; no output of a build of \<^verbatim>\<open>main.c\<close> is in the repository. So \<open>Kconfig_Build\<close> relates the configuration
  to the image of \<^verbatim>\<open>app.c\<close> and its threads. The one value that the theories of the image of \<^verbatim>\<open>main.c\<close> take
  from it is the number of TLS contexts, 1: Zephyr's default, which \<^verbatim>\<open>prj.conf\<close> does not change. In what
  follows \<^emph>\<open>the built image\<close> is the one of \<^verbatim>\<open>CMakeLists.txt\<close>.

  \<^bold>\<open>The theories.\<close>
  \<^item> \<open>Prelude\<close>: state-monad primitives, the C string functions and number formats used by the
    sources with their laws, reachability, and the locale \<open>inductive_invariant\<close>.
  \<^item> \<open>Firmware\<close>: the globals of an image as the record \<open>fw\<close> (one field per C global, the bit
    fields of \<^verbatim>\<open>context\<close> as an 8-bit word), the calls that leave the firmware, and the platform as
    a record \<open>env\<close> of functions that answer them from the trace of what happened so far. Every
    theorem is for an arbitrary \<open>env\<close> unless it names what it needs of it. Buffers are records with
    a capacity; a write past the capacity is carried out and also recorded in \<open>viols\<close>, so that
    overruns are values to reason about. Footprint relations (\<open>keeps_link\<close>, \<open>keeps_client\<close>,
    \<open>only_token\<close>) and quiet trace extensions carry the frame reasoning.
  \<^item> \<open>Trace_Order\<close>: one kind of trace entry preceded by another; idle steps.
  \<^item> \<open>Http_App\<close>: \<^verbatim>\<open>wifi/http_app.c\<close>, function by function; \<open>Http_Client\<close>: its theory. The locale
    \<open>response_callback\<close> is the contract between the HTTP client library and the two callbacks; its
    interpretations lift it to whole responses in any fragmentation.
  \<^item> \<open>Http_Raw\<close>: the hand-written exchange at the end of \<^verbatim>\<open>http_app.c\<close> (under \<^verbatim>\<open>#if 0\<close>), with its
    receive loop as a partial function: \<open>None\<close> means that it never returns.
  \<^item> \<open>Link_Spec\<close>: the abstract link (waiting, down, up; address or not) and the locale
    \<open>link_handlers\<close>, the contract of a pair of event handlers, with the simulation for event
    sequences proved once.
  \<^item> \<open>Wifi_Sta\<close>: \<^verbatim>\<open>wifi_sta.c\<close> and \<^verbatim>\<open>main.c\<close>; interprets \<open>link_handlers\<close>. The Wi-Fi thread is a
    program counter over its statements, so that other threads can move between them.
  \<^item> \<open>Wifi_System\<close>: the built image as a step relation over the main thread, the Wi-Fi thread, events
    and readiness reports; interprets \<open>inductive_invariant\<close>.
  \<^item> \<open>App\<close>, \<open>App_System\<close>: \<^verbatim>\<open>app.c\<close> and the image it makes with the HTTP client; \<open>App_Bk\<close>,
    \<open>Http_Bk\<close>: the station half and the HTTP half of \<^verbatim>\<open>app_bk.c\<close>, the latter with the locale
    \<open>closing_callback\<close> for callbacks that close the socket. Names shared with another file carry a
    suffix (\<open>_app\<close>, \<open>_bk\<close>).
  \<^item> \<open>Client_Spec\<close>: an abstract HTTPS client (phase, token, lost descriptors) as a labelled step
    relation, and the simulation of the whole image by it; interprets \<open>inductive_invariant\<close>.
  \<^item> \<open>Interleave\<close>: programs that can be interrupted, as trees of steps that may be infinite (the
    codatatype \<open>prog\<close>, with \<open>prun\<close> as a partial function: \<open>None\<close> means that it does not come to an end),
    what it means that a step does the same in another state and after another trace (\<open>mirrored\<close>), and that
    a program is over within a number of steps (\<open>within\<close>). \<open>Http_Steps\<close>: the HTTP
    client of \<^verbatim>\<open>http_app.c\<close> statement by statement, function by function under the name of
    \<open>Http_App\<close> with the suffix \<open>_steps\<close>, and that each is the function of \<open>Http_App\<close> when nobody
    interrupts it. \<open>Fine_Image\<close>: the built image in which the other threads move between any two of
    these statements; \<open>Fine_Round\<close>: one round of it, split into the client's share and the others';
    \<open>Fine_Reduction\<close>: the refinement of the image of \<open>Wifi_System\<close> by it; interprets
    \<open>inductive_invariant\<close>.
  \<^item> \<open>Socket_Limit\<close>: the client under the number of TLS contexts that \<^verbatim>\<open>autoconf.h\<close> gives the image;
    \<open>Image_Limit\<close>: the same seen from the image.
  \<^item> \<open>Syscall\<close>: what the generated system-call stubs share: trap or direct call, packing of the
    parameters with their unspecified bytes, result; the locale \<open>parm_codec\<close> is the contract
    between packing and unpacking. \<open>Syscall_Table\<close>: the image's half of \<^verbatim>\<open>syscall_list.h\<close> and
    \<^verbatim>\<open>syscall_dispatch.c\<close>. \<open>Syscall_Stubs\<close>: the 202 stubs of the image, from the twenty headers that
    declare them; a stub \<^verbatim>\<open>f\<close> is \<open>sys_f\<close>. \<open>Syscall_Outside_Numbers\<close>, \<open>Syscall_Outside_A\<close>,
    \<open>Syscall_Outside_B\<close>: numbers and stubs of the 373 calls that the image does not use;
    \<open>Syscall_Exports\<close>: \<^verbatim>\<open>syscall_exports_llext.c\<close>, \<^verbatim>\<open>syscall_weakdefs_llext.c\<close> and both copies of
    \<^verbatim>\<open>syscall_list.h\<close> as tables; \<open>Syscall_Outside\<close>: which calls are served.
  \<^item> \<open>Kernel_Objects\<close>: the lists of kernel object types (\<^verbatim>\<open>kobj-types-enum.h\<close>, \<^verbatim>\<open>otype-to-str.h\<close>,
    \<^verbatim>\<open>otype-to-size.h\<close>, \<^verbatim>\<open>driver-validation.h\<close>).
  \<^item> \<open>Devicetree\<close>: a node as a record, and the locale \<open>dependency_order\<close>, the contract of the
    ordinals. \<open>Devicetree_Board\<close>, \<open>Devicetree_Soc\<close>: the 141 nodes of \<^verbatim>\<open>devicetree_generated.h\<close>,
    under the names of their macros. \<open>Devicetree_Image\<close>: the lists of nodes; interprets
    \<open>dependency_order\<close>. \<open>Devicetree_Pins\<close>: pin selections, pin-control states and GPIO
    specifications. \<open>Devicetree_Property\<close>: the generic property macros of every node, as a list
    \<open>..._P\<close> (in pieces \<open>..._P0\<close>, \<open>..._P1\<close> where long) named after the node's macro;
    \<open>Devicetree_Property_Facts\<close>: their agreement among themselves and with the node.
    \<open>Isr_Table\<close>: \<^verbatim>\<open>isr_tables.c\<close> and \<^verbatim>\<open>pm_config.h\<close>.
  \<^item> \<open>Kconfig_Values\<close>, \<open>Kconfig_Symbols\<close>: \<^verbatim>\<open>autoconf.h\<close> and \<^verbatim>\<open>configs.c\<close>, row by row in
    pieces of 45; \<open>Kconfig_Build\<close>: the configuration against the other components. \<open>Crypto_Tables\<close>:
    the five generated headers that configure the cryptography library; \<open>Crypto_Config\<close>: what is in
    effect and whether it is consistent. \<open>String_Tables\<close>: how the simplifier evaluates such tables.

  \<^bold>\<open>What is shown.\<close> For the built image, under every schedule, every event sequence and every platform
  whose failing calls set \<^verbatim>\<open>errno\<close>: all traffic is over TLS-configured connections to the address
  that the last successful lookup returned, at port 443, in the start-up order ready, request, result, address, traffic; the shared variables stay
  in range. For the client: the token of a login response is the token of the post; which paths
  close their descriptor and which leak it; where the three fixed buffers overflow, as exact
  conditions on lengths; that two rounds with an address reach the data state and that it never
  logs in again. For the station: refinement of the abstract link; what the association result
  decides; that a failed association is final; that a result that comes between the two
  assignments of \<^verbatim>\<open>wifi_connect\<close> is lost. For the other versions: hex keys round trip and what the
  key parser lets through, retries, the LED, the receive loop that ends exactly for answers of at
  most 4096 bytes, truncated requests, descriptors closed per fragment.
  For image and client together: the requests of every run are those of the abstract client, descriptors
  are never recovered, and the one TLS context makes a single failed connection the last whatever the other
  threads do. Interrupting the client between any two statements changes nothing but the order of the
  log: the image with interruptible rounds refines the one with atomic rounds, and its traffic is
  secured and in start-up order in the middle of a round too, and every round ends as long as the
  client gets to move, after at most 29 + 2 m moves of its own if responses come in at most m
  fragments. For the build: started with its switches, \<^verbatim>\<open>app.c\<close> asks for no association before the driver is
  ready; a system call does
  the same in user mode as in kernel mode, each of the 202 stubs reaches its own handler, which
  is linked, and the 373 stubs of other calls reach none; the lists of kernel objects agree; the ordinals of the device tree are an order of initialisation, its lists are one
  tree and the instances of its drivers, its enabled peripherals do not collide, its partitions tile
  the flash; which pins two of its devices claim; the
  macros of every property agree; the interrupt tables and the memory map agree with it, and the configuration
  with all of them; the options of the cryptography library that are in effect have what their comments
  require.

  \<^bold>\<open>Choices.\<close> In \<open>Wifi_System\<close> and the theories on it one round of the HTTP loop is one step. That is
  justified, not assumed: the only variable of a round that another thread writes is \<^verbatim>\<open>got_ip\<close>, which
  the round reads once, and \<open>interrupted_image_reduces\<close> takes every run of the image with
  interruptible rounds to a run with atomic ones. The platform of that run answers from the reordered
  trace as the real one did from the real trace (\<open>env_map\<close>); as theorems about the image hold for every
  platform, nothing is lost. A call and the \<^verbatim>\<open>errno\<close> read after it are one step, \<^verbatim>\<open>errno\<close> being
  the thread's own, and so are a status request and the status it fills in. Event handlers are one step each (the management thread is a
  single thread). The Wi-Fi thread moves only after \<^verbatim>\<open>wifi_sta_init\<close>, since the main thread has
  the higher priority and does not block before. The statements after \<^verbatim>\<open>start_http_thread ()\<close> in
  \<^verbatim>\<open>wifi_thread_entry\<close> have no step, as that call never returns. Threads that loop for ever are step
  functions, and runs are lists of moves; the one bounded recursion is \<open>walk\<close>, whose depth 5 is
  enough because its result has every node. Local buffers start zeroed; each is
  written before it is read. A write past the end of a buffer extends the model of that buffer and is
  recorded; the globals behind it are not changed. So what is said of runs in which a token is too long for
  its buffer (\<open>boot_to_post\<close> allows tokens of any length) holds as far as the write does no harm, and the
  theorems on lengths say when there is none. The HTTP client library's response is a finite list of
  fragments, as a call that never returns is not modelled.

  \<^bold>\<open>Not modelled.\<close> Log output, except the status report, the address and the link line; the memory of
  \<^verbatim>\<open>recv_buf\<close> while the HTTP client library uses it; interruptions of the HTTP rounds of \<^verbatim>\<open>app.c\<close> and
  \<^verbatim>\<open>app_bk.c\<close>, whose images keep them atomic, and of the other operations of the Wi-Fi thread; time.
  \<^verbatim>\<open>sensors/sensor_fsm.h\<close>, \<^verbatim>\<open>ble/ble_service.h\<close> and \<^verbatim>\<open>common/data_manager.h\<close> declare functions that
  have no definition in the repository. Of the build output: in the device tree the comments and the
  loop macros' separators and arguments (the lists they loop over are there); the tracing macros of the
  stubs (tracing is off); assembler offsets, version strings and the compiler probes of CMake. The widths
  of parameter types that Zephyr declares are taken from Zephyr's documentation. The committed build output was made with settings that differ from \<^verbatim>\<open>prj.conf\<close> (network name,
  stack sizes); the theorems are about the build output. The
  marshalling functions, the implementations behind the stubs and \<^verbatim>\<open>_isr_wrapper\<close> are Zephyr's and
  not in the repository; what a theorem needs of them is a hypothesis (\<open>marshals\<close>,
  \<open>socket_limited\<close>) with a witness.
\<close>

end
